(* ===== verification/Prelude.thy ===== *)
theory Prelude
  imports Main "HOL-Library.Word"
begin

text \<open>
  Shared vocabulary of the development.

  \<^item> Machine integers: \<open>u8\<close>, \<open>u16\<close>, \<open>u32\<close>, \<open>u64\<close> are the C++ types
    \<^verbatim>\<open>uint8_t\<close> .. \<^verbatim>\<open>uint64_t\<close>; the signed types of the same width are the same
    words, read with \<open>sint\<close>.
  \<^item> Effects: an operation on an object of type \<open>'s\<close> is a function from the object to an
    \<open>outcome\<close>. \<open>Ret a s\<close> is a normal return, \<open>Throw e s\<close> a C++ exception (the object
    keeps what was done to it before the throw), \<open>Undef u\<close> undefined behaviour, after which
    nothing is known. \<open>obind\<close> is sequencing, \<open>guard_ub\<close> a check the C++ code does not make.
  \<^item> Lists: \<open>overwrite\<close> is \<^verbatim>\<open>memcpy\<close> into the middle of a buffer, \<open>seg\<close> its
    converse, and the lemmas on \<open>concat\<close> of blocks of equal length relate a chain of memory
    blocks to the flat buffer it stands for.
\<close>

unbundle bit_operations_syntax

type_synonym u8 = "8 word"
type_synonym u16 = "16 word"
type_synonym u32 = "32 word"
type_synonym u64 = "64 word"

named_theorems block_simps \<open>facts on buffers: overwrite, seg, concat of equal blocks\<close>
named_theorems outcome_simps \<open>unfolding of sequenced operations\<close>

section \<open>Outcomes\<close>

datatype exn = OutOfRange | LengthError | InvalidArgument | LogicError

datatype ub = NullDeref | DivByZero | OutOfBounds | AssertFailed | Diverges | Overflow

datatype ('s, 'a) outcome = Ret 'a 's | Throw exn 's | Undef ub

fun obind :: "('s, 'a) outcome \<Rightarrow> ('a \<Rightarrow> 's \<Rightarrow> ('s, 'b) outcome) \<Rightarrow> ('s, 'b) outcome" where
  "obind (Ret a s) f = f a s"
| "obind (Throw e s) f = Throw e s"
| "obind (Undef u) f = Undef u"

definition guard_ub :: "bool \<Rightarrow> ub \<Rightarrow> 's \<Rightarrow> ('s, unit) outcome" where
  "guard_ub ok u s = (if ok then Ret () s else Undef u)"

text \<open>\<^verbatim>\<open>CXK_ASSERT\<close> of \<^verbatim>\<open>src/cxk/macro.h\<close>: a failed assertion aborts the program.\<close>

definition CXK_ASSERT :: "bool \<Rightarrow> ('s, 'a) outcome \<Rightarrow> ('s, 'a) outcome" where
  "CXK_ASSERT x k = (if x then k else Undef AssertFailed)"

declare obind.simps [outcome_simps] guard_ub_def [outcome_simps] CXK_ASSERT_def [outcome_simps]

lemma obind_cong [fundef_cong]:
  "m = m' \<Longrightarrow> (\<And>a s. m' = Ret a s \<Longrightarrow> f a s = g a s) \<Longrightarrow> obind m f = obind m' g"
  by (cases m') auto

lemma obind_Ret_iff:
  "obind m f = Ret b t \<longleftrightarrow> (\<exists>a s. m = Ret a s \<and> f a s = Ret b t)"
  by (cases m) auto

lemma obind_assoc: "obind (obind m f) g = obind m (\<lambda>a s. obind (f a s) g)"
  by (cases m) auto

lemma obind_Ret_right [simp]: "obind m (\<lambda>a s. Ret a s) = m"
  by (cases m) auto

section \<open>Buffers\<close>

definition overwrite :: "nat \<Rightarrow> 'a list \<Rightarrow> 'a list \<Rightarrow> 'a list" where
  "overwrite n bs xs = take n xs @ bs @ drop (n + length bs) xs"

definition seg :: "nat \<Rightarrow> nat \<Rightarrow> 'a list \<Rightarrow> 'a list" where
  "seg n k xs = take k (drop n xs)"

lemma length_overwrite [simp]:
  "n + length bs \<le> length xs \<Longrightarrow> length (overwrite n bs xs) = length xs"
  by (simp add: overwrite_def)

lemma overwrite_Nil [simp]: "overwrite n [] xs = xs"
  by (simp add: overwrite_def)

lemma length_seg [simp]: "n + k \<le> length xs \<Longrightarrow> length (seg n k xs) = k"
  by (simp add: seg_def)

lemma seg_0 [simp]: "seg n 0 xs = []"
  by (simp add: seg_def)

lemma seg_overwrite [block_simps]:
  "n + length bs \<le> length xs \<Longrightarrow> seg n (length bs) (overwrite n bs xs) = bs"
  by (simp add: seg_def overwrite_def)

lemma seg_append_seg:
  "seg n (k + m) xs = seg n k xs @ seg (n + k) m xs"
  by (simp add: seg_def take_add add.commute)

lemma seg_seg: "m + j \<le> k \<Longrightarrow> seg m j (seg n k xs) = seg (n + m) j xs"
  by (simp add: seg_def drop_take min_def add.commute)

lemma nth_overwrite:
  "n + length bs \<le> length xs \<Longrightarrow> i < length xs \<Longrightarrow>
   overwrite n bs xs ! i = (if n \<le> i \<and> i < n + length bs then bs ! (i - n) else xs ! i)"
  by (auto simp: overwrite_def nth_append min_def)

lemma nth_seg: "i < k \<Longrightarrow> n + k \<le> length xs \<Longrightarrow> seg n k xs ! i = xs ! (n + i)"
  by (simp add: seg_def)

lemma overwrite_append:
  assumes "n + length bs + length cs \<le> length xs"
  shows "overwrite (n + length bs) cs (overwrite n bs xs) = overwrite n (bs @ cs) xs"
  using assms by (intro nth_equalityI) (auto simp: nth_overwrite nth_append)

lemma overwrite_seg_disjoint:
  assumes "n + length bs \<le> length xs" and "m + k \<le> n \<or> n + length bs \<le> m" and "m + k \<le> length xs"
  shows "seg m k (overwrite n bs xs) = seg m k xs"
  using assms by (intro nth_equalityI) (auto simp: nth_seg nth_overwrite)

section \<open>Chains of equal blocks\<close>

definition blocks :: "nat \<Rightarrow> 'a list list \<Rightarrow> bool" where
  "blocks b xss \<longleftrightarrow> (\<forall>xs \<in> set xss. length xs = b)"

lemma blocks_append [simp]: "blocks b (xss @ yss) \<longleftrightarrow> blocks b xss \<and> blocks b yss"
  by (auto simp: blocks_def)

lemma blocks_Cons [simp]: "blocks b (xs # xss) \<longleftrightarrow> length xs = b \<and> blocks b xss"
  by (auto simp: blocks_def)

lemma blocks_Nil [simp]: "blocks b []"
  by (simp add: blocks_def)

lemma blocks_replicate [simp]: "blocks b (replicate n xs) \<longleftrightarrow> n = 0 \<or> length xs = b"
  by (auto simp: blocks_def)

lemma length_concat_blocks [block_simps]: "blocks b xss \<Longrightarrow> length (concat xss) = length xss * b"
  by (induction xss) auto

lemma blocks_nth: "blocks b xss \<Longrightarrow> i < length xss \<Longrightarrow> length (xss ! i) = b"
  by (auto simp: blocks_def)

lemma blocks_update: "blocks b xss \<Longrightarrow> length xs = b \<Longrightarrow> blocks b (xss[i := xs])"
  by (auto simp: blocks_def dest: set_update_subset_insert [THEN subsetD])

lemma concat_blocks_split:
  assumes "blocks b xss" and "i < length xss"
  shows "concat xss = concat (take i xss) @ xss ! i @ concat (drop (Suc i) xss)"
    and "length (concat (take i xss)) = i * b"
proof -
  have "xss = take i xss @ xss ! i # drop (Suc i) xss"
    using assms(2) by (rule id_take_nth_drop)
  then have "concat xss = concat (take i xss @ xss ! i # drop (Suc i) xss)"
    by (rule arg_cong)
  then show "concat xss = concat (take i xss) @ xss ! i @ concat (drop (Suc i) xss)"
    by simp
  have "blocks b (take i xss)"
    using assms(1) by (auto simp: blocks_def dest: in_set_takeD)
  then show "length (concat (take i xss)) = i * b"
    using assms(2) by (simp add: length_concat_blocks)
qed

text \<open>Writing inside one block is writing in the flat buffer, and so is reading.\<close>

lemma concat_update_overwrite:
  assumes "blocks b xss" and "i < length xss" and "n + length bs \<le> b"
  shows "concat (xss[i := overwrite n bs (xss ! i)]) = overwrite (i * b + n) bs (concat xss)"
proof -
  have li: "length (xss ! i) = b" using assms by (simp add: blocks_nth)
  have "concat (xss[i := overwrite n bs (xss ! i)]) =
        concat (take i xss) @ overwrite n bs (xss ! i) @ concat (drop (Suc i) xss)"
    using assms(2) by (simp add: upd_conv_take_nth_drop)
  then show ?thesis
    using concat_blocks_split [OF assms(1,2)] assms(3) li
    by (simp add: overwrite_def)
qed

lemma seg_concat_block:
  assumes "blocks b xss" and "i < length xss" and "n + k \<le> b"
  shows "seg n k (xss ! i) = seg (i * b + n) k (concat xss)"
proof -
  have li: "length (xss ! i) = b" using assms by (simp add: blocks_nth)
  show ?thesis
    using concat_blocks_split [OF assms(1,2)] assms(3) li
    by (simp add: seg_def)
qed

end
