(* ===== verification/Endian.thy ===== *)
theory Endian
  imports Prelude
begin

text \<open>
  Byte order: \<^verbatim>\<open>src/cxk/endian.h\<close>. An integer in memory is its object representation,
  \<open>word_bytes\<close>, lowest address first; the host is little-endian (the x86-64 target of the
  checked-in build), so \<open>CXK_BYTE_ORDER\<close> is \<open>LITTLE\<close> and the low byte comes first.
  \<open>byteswap\<close> is one template instantiated at three widths by \<^verbatim>\<open>enable_if\<close>; here it is
  one polymorphic function over word sizes, and the locale \<open>stored_int\<close> states what the rest
  of the library relies on, interpreted at 16, 32 and 64 bits.
\<close>

datatype endian = CXK_LITTLE_ENDIAN | CXK_BIG_ENDIAN

definition CXK_BYTE_ORDER :: endian where
  "CXK_BYTE_ORDER = CXK_LITTLE_ENDIAN"

definition word_bytes :: "'a::len word \<Rightarrow> u8 list" where
  "word_bytes w = map (\<lambda>i. ucast (drop_bit (8 * i) w)) [0..<LENGTH('a) div 8]"

primrec bytes_word :: "u8 list \<Rightarrow> 'a::len word" where
  "bytes_word [] = 0"
| "bytes_word (b # bs) = ucast b OR push_bit 8 (bytes_word bs)"

definition byteswap :: "'a::len word \<Rightarrow> 'a word" where
  "byteswap w = bytes_word (rev (word_bytes w))"

definition byteswapOnLittleEndian :: "'a::len word \<Rightarrow> 'a word" where
  "byteswapOnLittleEndian t = (if CXK_BYTE_ORDER = CXK_BIG_ENDIAN then t else byteswap t)"

definition byteswapOnBigEndian :: "'a::len word \<Rightarrow> 'a word" where
  "byteswapOnBigEndian t = (if CXK_BYTE_ORDER = CXK_BIG_ENDIAN then byteswap t else t)"

lemma length_word_bytes [simp]: "length (word_bytes (w :: 'a::len word)) = LENGTH('a) div 8"
  by (simp add: word_bytes_def)

lemma bit_bytes_word:
  "bit (bytes_word bs :: 'a::len word) n \<longleftrightarrow>
     n < LENGTH('a) \<and> n div 8 < length bs \<and> bit (bs ! (n div 8)) (n mod 8)"
proof (induction bs arbitrary: n)
  case Nil
  then show ?case by simp
next
  case (Cons b bs)
  show ?case
  proof (cases "n < 8")
    case True
    then show ?thesis
      by (auto simp: bit_or_iff bit_push_bit_iff bit_ucast_iff bit_imp_le_length)
  next
    case False
    then obtain m where n: "n = m + 8" by (metis add.commute le_Suc_ex not_less)
    have "\<not> bit b n" using False bit_imp_le_length [of b n] by auto
    moreover have "(m + 8) div 8 = Suc (m div 8)" by simp
    ultimately show ?thesis
      by (auto simp: n Cons.IH bit_or_iff bit_push_bit_iff bit_ucast_iff)
  qed
qed

lemma bit_word_bytes:
  "i < LENGTH('a) div 8 \<Longrightarrow> j < 8 \<Longrightarrow>
   bit (word_bytes (w :: 'a::len word) ! i) j \<longleftrightarrow> bit w (8 * i + j)"
  by (simp add: word_bytes_def bit_ucast_iff bit_drop_bit_eq)

lemma bytes_word_word_bytes:
  assumes "8 dvd LENGTH('a)"
  shows "bytes_word (word_bytes (w :: 'a::len word)) = w"
proof (rule bit_word_eqI)
  fix n
  assume n: "n < LENGTH('a)"
  then have "n div 8 < LENGTH('a) div 8"
    using assms by (auto simp: dvd_def less_mult_imp_div_less mult.commute)
  then show "bit (bytes_word (word_bytes w) :: 'a word) n \<longleftrightarrow> bit w n"
    using n by (simp add: bit_bytes_word bit_word_bytes)
qed

lemma word_bytes_bytes_word:
  assumes "8 dvd LENGTH('a)" and "length bs = LENGTH('a) div 8"
  shows "word_bytes (bytes_word bs :: 'a::len word) = bs"
proof (rule nth_equalityI)
  show "length (word_bytes (bytes_word bs :: 'a word)) = length bs"
    using assms(2) by simp
next
  fix i
  assume "i < length (word_bytes (bytes_word bs :: 'a word))"
  then have i: "i < LENGTH('a) div 8" by simp
  show "word_bytes (bytes_word bs :: 'a word) ! i = bs ! i"
  proof (rule bit_word_eqI)
    fix j
    assume j: "j < LENGTH(8)"
    have "8 * i + j < LENGTH('a)"
      using i j assms(1) by (auto simp: dvd_def)
    then show "bit (word_bytes (bytes_word bs :: 'a word) ! i) j \<longleftrightarrow> bit (bs ! i) j"
      using i j assms(2) by (simp add: bit_word_bytes bit_bytes_word)
  qed
qed

lemma word_bytes_byteswap:
  assumes "8 dvd LENGTH('a)"
  shows "word_bytes (byteswap (w :: 'a::len word)) = rev (word_bytes w)"
  using assms by (simp add: byteswap_def word_bytes_bytes_word)

lemma byteswap_byteswap:
  assumes "8 dvd LENGTH('a)"
  shows "byteswap (byteswap (w :: 'a::len word)) = w"
  using assms by (simp add: byteswap_def [of "byteswap w"] word_bytes_byteswap bytes_word_word_bytes)

text \<open>What the users of fixed-width integers rely on.\<close>

locale stored_int =
  fixes to_mem :: "'w \<Rightarrow> u8 list"
    and of_mem :: "u8 list \<Rightarrow> 'w"
    and bswap :: "'w \<Rightarrow> 'w"
    and width :: nat
  assumes of_to: "of_mem (to_mem w) = w"
    and length_to: "length (to_mem w) = width"
    and to_bswap: "to_mem (bswap w) = rev (to_mem w)"
begin

lemma to_inj: "to_mem v = to_mem w \<longleftrightarrow> v = w"
  using of_to by metis

lemma bswap_involutive: "bswap (bswap w) = w"
  using to_inj [of "bswap (bswap w)" w] by (simp add: to_bswap)

lemma of_rev_to: "of_mem (rev (to_mem w)) = bswap w"
  using of_to [of "bswap w"] by (simp add: to_bswap)

end

interpretation int16: stored_int word_bytes "bytes_word :: u8 list \<Rightarrow> u16" byteswap 2
  by unfold_locales (simp_all add: bytes_word_word_bytes word_bytes_byteswap)

interpretation int32: stored_int word_bytes "bytes_word :: u8 list \<Rightarrow> u32" byteswap 4
  by unfold_locales (simp_all add: bytes_word_word_bytes word_bytes_byteswap)

interpretation int64: stored_int word_bytes "bytes_word :: u8 list \<Rightarrow> u64" byteswap 8
  by unfold_locales (simp_all add: bytes_word_word_bytes word_bytes_byteswap)

interpretation int8: stored_int word_bytes "bytes_word :: u8 list \<Rightarrow> u8" byteswap 1
  by unfold_locales (simp_all add: bytes_word_word_bytes word_bytes_byteswap)

lemma word_bytes_u8 [simp]: "word_bytes (b :: u8) = [b]"
  by (simp add: word_bytes_def)

end
