(* ===== verification/ByteArray.thy ===== *)
theory ByteArray
  imports Endian
begin

text \<open>
  The chunked byte buffer of \<^verbatim>\<open>src/cxk/bytearray.{h,cpp}\<close>, which every wire format of the
  framework is built on.

  State. A \<^verbatim>\<open>ByteArray\<close> is a chain of \<^verbatim>\<open>Node\<close> blocks of \<open>m_baseSize\<close> bytes; the chain
  from \<^verbatim>\<open>m_root\<close> is the list \<open>m_nodes\<close>, a \<^verbatim>\<open>Node*\<close> is an index into it and
  \<open>None\<close> is \<^verbatim>\<open>nullptr\<close>. Fresh blocks come from \<^verbatim>\<open>new char[]\<close> uninitialised: their
  contents are the unspecified function \<open>m_junk\<close>. \<^verbatim>\<open>size_t\<close> quantities are bounded by
  allocated memory and are \<open>nat\<close>.

  Operations. Every method is one definition, in the order of the source. Dereferencing a null
  node is \<open>Undef NullDeref\<close>, a division by a zero block size \<open>Undef DivByZero\<close>, and
  \<^verbatim>\<open>std::out_of_range\<close> is \<open>Throw OutOfRange\<close>. Byte strings (\<^verbatim>\<open>std::string\<close> payloads and
  \<^verbatim>\<open>void*\<close> buffers) are \<open>u8 list\<close>.

  Lemmas. \<open>ba_inv\<close> is the representation invariant and \<open>content\<close> the abstraction (the
  \<open>m_size\<close> bytes stored). \<open>ByteArray_Refine\<close> proves the two primitives to be list operations, under the
  exact conditions in which the code behaves so; \<open>write_exact\<close>, \<open>read_exact\<close> and \<open>fresh_write_faults\<close> in
  \<open>ByteArray_Props\<close> state them and what happens otherwise. The locale \<open>ba_codec\<close> lifts them to
  round trips for every typed read/write pair in \<open>ByteArray_Codec\<close>.
\<close>

section \<open>State and constructor\<close>

record bytearray =
  m_baseSize :: nat
  m_position :: nat
  m_capacity :: nat
  m_size :: nat
  m_endian :: endian
  m_nodes :: "u8 list list"
  m_cur :: "nat option"
  m_junk :: "nat \<Rightarrow> u8"

type_synonym 'a ba_op = "bytearray \<Rightarrow> (bytearray, 'a) outcome"

definition new_Node :: "(nat \<Rightarrow> u8) \<Rightarrow> nat \<Rightarrow> u8 list" where
  "new_Node junk s = map junk [0..<s]"

definition ByteArray :: "(nat \<Rightarrow> u8) \<Rightarrow> nat \<Rightarrow> bytearray" where
  "ByteArray junk base_size =
     \<lparr>m_baseSize = base_size, m_position = 0, m_capacity = base_size, m_size = 0,
      m_endian = CXK_BIG_ENDIAN, m_nodes = [new_Node junk base_size], m_cur = Some 0,
      m_junk = junk\<rparr>"

definition next_node :: "bytearray \<Rightarrow> nat \<Rightarrow> nat option" where
  "next_node ba i = (if Suc i < length (m_nodes ba) then Some (Suc i) else None)"

definition node_size :: "bytearray \<Rightarrow> nat \<Rightarrow> nat" where
  "node_size ba i = length (m_nodes ba ! i)"

definition isLittleEndian :: "bytearray \<Rightarrow> bool" where
  "isLittleEndian ba \<longleftrightarrow> m_endian ba = CXK_LITTLE_ENDIAN"

definition setIsLittleEndian :: "bool \<Rightarrow> bytearray \<Rightarrow> bytearray" where
  "setIsLittleEndian val ba =
     (if val then ba\<lparr>m_endian := CXK_LITTLE_ENDIAN\<rparr> else ba\<lparr>m_endian := CXK_BIG_ENDIAN\<rparr>)"

definition getReadSize :: "bytearray \<Rightarrow> nat" where
  "getReadSize ba = m_size ba - m_position ba"

definition getCapacity :: "bytearray \<Rightarrow> nat" where
  "getCapacity ba = m_capacity ba - m_position ba"

section \<open>The primitives: growing, writing, reading, moving\<close>

definition addCapacity :: "nat \<Rightarrow> unit ba_op" where
  "addCapacity sz ba =
     (if sz = 0 then Ret () ba
      else let old_cap = getCapacity ba in
        if old_cap \<ge> sz then Ret () ba
        else if m_baseSize ba = 0 then Undef DivByZero
        else let sz = sz - old_cap;
                 count = sz div m_baseSize ba
                   + (if sz mod m_baseSize ba > old_cap then 1 else 0);
                 fresh = replicate count (new_Node (m_junk ba) (m_baseSize ba));
                 first = (if count = 0 then None else Some (length (m_nodes ba)))
             in Ret () (ba\<lparr>m_nodes := m_nodes ba @ fresh,
                           m_capacity := m_capacity ba + count * m_baseSize ba,
                           m_cur := (if old_cap = 0 then first else m_cur ba)\<rparr>))"

text \<open>
  The copy loops. Each round of \<open>write_loop\<close> fills the current block; where the block is too
  small it steps to \<^verbatim>\<open>m_cur->next\<close> and reads that block's size, which faults on the null
  pointer at the end of the chain.
\<close>

definition poke :: "nat \<Rightarrow> nat \<Rightarrow> u8 list \<Rightarrow> bytearray \<Rightarrow> bytearray" where
  "poke i npos bs ba = ba\<lparr>m_nodes := (m_nodes ba)[i := overwrite npos bs (m_nodes ba ! i)]\<rparr>"

definition cur_left :: "nat \<Rightarrow> nat option \<Rightarrow> nat" where
  "cur_left n c = (case c of None \<Rightarrow> 0 | Some i \<Rightarrow> Suc (n - i))"

function write_loop :: "nat \<Rightarrow> nat \<Rightarrow> u8 list \<Rightarrow> unit ba_op" where
  "write_loop npos ncap buf ba =
     (if buf = [] then Ret () ba
      else case m_cur ba of None \<Rightarrow> Undef NullDeref
      | Some i \<Rightarrow>
          if ncap \<ge> length buf then
            Ret () ((poke i npos buf ba)
              \<lparr>m_cur := (if node_size ba i = npos + length buf then next_node ba i else Some i),
               m_position := m_position ba + length buf\<rparr>)
          else case next_node ba i of None \<Rightarrow> Undef NullDeref
            | Some j \<Rightarrow>
                write_loop 0 (node_size ba j) (drop ncap buf)
                  ((poke i npos (take ncap buf) ba)
                     \<lparr>m_cur := Some j, m_position := m_position ba + ncap\<rparr>))"
  by pat_completeness auto
termination
  by (relation "measure (\<lambda>(npos, ncap, buf, ba). cur_left (length (m_nodes ba)) (m_cur ba))")
    (auto simp: cur_left_def poke_def next_node_def split: if_splits)

definition ba_write :: "u8 list \<Rightarrow> unit ba_op" where
  "ba_write buf ba =
     (if buf = [] then Ret () ba
      else obind (addCapacity (length buf) ba) (\<lambda>_ ba.
        if m_baseSize ba = 0 then Undef DivByZero
        else case m_cur ba of None \<Rightarrow> Undef NullDeref
        | Some i \<Rightarrow>
            let npos = m_position ba mod m_baseSize ba;
                ncap = node_size ba i - npos
            in obind (write_loop npos ncap buf ba) (\<lambda>_ ba.
                 Ret () (if m_position ba > m_size ba then ba\<lparr>m_size := m_position ba\<rparr> else ba))))"

text \<open>
  The read loop keeps the \<^verbatim>\<open>ncap\<close> of the first block for all later blocks: unlike the write
  loop it never reloads it after stepping to the next block.
\<close>

function read_loop :: "nat \<Rightarrow> nat \<Rightarrow> nat \<Rightarrow> u8 list \<Rightarrow> u8 list ba_op" where
  "read_loop npos ncap sz acc ba =
     (if sz = 0 then Ret acc ba
      else case m_cur ba of None \<Rightarrow> Undef NullDeref
      | Some i \<Rightarrow>
          if ncap \<ge> sz then
            Ret (acc @ seg npos sz (m_nodes ba ! i))
              (ba\<lparr>m_cur := (if node_size ba i = npos + sz then next_node ba i else Some i),
                  m_position := m_position ba + sz\<rparr>)
          else
            read_loop 0 ncap (sz - ncap) (acc @ seg npos ncap (m_nodes ba ! i))
              (ba\<lparr>m_cur := next_node ba i, m_position := m_position ba + ncap\<rparr>))"
  by pat_completeness auto
termination
  by (relation "measure (\<lambda>(npos, ncap, sz, acc, ba). cur_left (length (m_nodes ba)) (m_cur ba))")
    (auto simp: cur_left_def next_node_def split: if_splits)

definition ba_read :: "nat \<Rightarrow> u8 list ba_op" where
  "ba_read sz ba =
     (if sz > getReadSize ba then Throw OutOfRange ba
      else if m_baseSize ba = 0 then Undef DivByZero
      else case m_cur ba of None \<Rightarrow> Undef NullDeref
      | Some i \<Rightarrow>
          let npos = m_position ba mod m_baseSize ba
          in read_loop npos (node_size ba i - npos) sz [] ba)"

text \<open>
  \<open>ba_read_at\<close> is the \<^verbatim>\<open>const\<close> overload with an explicit position: the same loop on a local cursor
  that starts at \<^verbatim>\<open>m_cur\<close>, whatever the position asked for; the object is unchanged.
\<close>

definition ba_read_at :: "nat \<Rightarrow> nat \<Rightarrow> u8 list ba_op" where
  "ba_read_at sz position ba =
     (if sz > getReadSize ba then Throw OutOfRange ba
      else if m_baseSize ba = 0 then Undef DivByZero
      else case m_cur ba of None \<Rightarrow> Undef NullDeref
      | Some i \<Rightarrow>
          let npos = position mod m_baseSize ba
          in obind (read_loop npos (node_size ba i - npos) sz [] ba) (\<lambda>bs _. Ret bs ba))"

function setPosition_loop :: "bytearray \<Rightarrow> nat \<Rightarrow> nat option \<Rightarrow> (bytearray, nat option) outcome" where
  "setPosition_loop ba v c =
     (case c of None \<Rightarrow> Undef NullDeref
      | Some i \<Rightarrow>
          if v > node_size ba i then setPosition_loop ba (v - node_size ba i) (next_node ba i)
          else if v = node_size ba i then Ret (next_node ba i) ba
          else Ret (Some i) ba)"
  by pat_completeness auto
termination
  by (relation "measure (\<lambda>(ba, v, c). cur_left (length (m_nodes ba)) c)")
    (auto simp: cur_left_def next_node_def split: if_splits)

definition setPosition :: "nat \<Rightarrow> unit ba_op" where
  "setPosition v ba =
     (if v > m_capacity ba then Throw OutOfRange ba
      else let ba1 = ba\<lparr>m_position := v, m_size := (if v > m_size ba then v else m_size ba)\<rparr>
        in obind (setPosition_loop ba1 v (Some 0)) (\<lambda>c ba. Ret () (ba\<lparr>m_cur := c\<rparr>)))"

definition clear :: "unit ba_op" where
  "clear ba = Ret () (ba\<lparr>m_position := 0, m_capacity := m_baseSize ba,
                         m_nodes := take 1 (m_nodes ba), m_cur := Some 0\<rparr>)"

declare write_loop.simps [simp del] read_loop.simps [simp del] setPosition_loop.simps [simp del]

section \<open>Files and scatter/gather views\<close>

text \<open>
  \<open>writeToFile\<close>: whether \<^verbatim>\<open>ofs.open\<close> succeeds is the argument \<open>opened\<close>; the result is what the
  method returns and the bytes handed to \<^verbatim>\<open>ofs.write\<close>. The loop computes in \<^verbatim>\<open>int64_t\<close>; a
  negative count given to \<^verbatim>\<open>ofs.write\<close> is \<open>Undef OutOfBounds\<close>.
\<close>

function writeToFile_loop :: "int \<Rightarrow> int \<Rightarrow> nat option \<Rightarrow> u8 list \<Rightarrow> u8 list ba_op" where
  "writeToFile_loop read_size pos cur out ba =
     (if read_size \<le> 0 then Ret out ba
      else if m_baseSize ba = 0 then Undef DivByZero
      else case cur of None \<Rightarrow> Undef NullDeref
      | Some i \<Rightarrow>
          let base = int (m_baseSize ba);
              diff = pos mod base;
              len = (if read_size > base then base else read_size) - diff
          in if len < 0 then Undef OutOfBounds
             else writeToFile_loop (read_size - len) (pos + len) (next_node ba i)
                    (out @ seg (nat diff) (nat len) (m_nodes ba ! i)) ba)"
  by pat_completeness auto
termination
  by (relation "measure (\<lambda>(r, p, cur, out, ba). cur_left (length (m_nodes ba)) cur)")
    (auto simp: cur_left_def next_node_def split: if_splits)

definition writeToFile :: "bool \<Rightarrow> (bool \<times> u8 list) ba_op" where
  "writeToFile opened ba =
     (if \<not> opened then Ret (False, []) ba
      else obind (writeToFile_loop (int (getReadSize ba)) (int (m_position ba)) (m_cur ba) [] ba)
             (\<lambda>out ba. Ret (True, out) ba))"

text \<open>\<open>readFromFile\<close>: the file is its contents, or \<open>None\<close> when it cannot be opened.\<close>

function readFromFile_loop :: "u8 list \<Rightarrow> unit ba_op" where
  "readFromFile_loop file ba =
     (if m_baseSize ba = 0 then Undef Diverges
      else if length file < m_baseSize ba then ba_write file ba
      else case ba_write (take (m_baseSize ba) file) ba of
             Ret _ ba' \<Rightarrow> readFromFile_loop (drop (m_baseSize ba) file) ba'
           | Throw e ba' \<Rightarrow> Throw e ba'
           | Undef u \<Rightarrow> Undef u)"
  by pat_completeness auto
termination
  by (relation "measure (\<lambda>(file, ba). length file)") auto

definition readFromFile :: "u8 list option \<Rightarrow> bool ba_op" where
  "readFromFile file ba =
     (case file of None \<Rightarrow> Ret False ba
      | Some bs \<Rightarrow> obind (readFromFile_loop bs ba) (\<lambda>_ ba. Ret True ba))"

declare writeToFile_loop.simps [simp del] readFromFile_loop.simps [simp del]

definition toString :: "u8 list ba_op" where
  "toString ba = (if getReadSize ba = 0 then Ret [] ba else ba_read_at (getReadSize ba) (m_position ba) ba)"

definition hex_digit :: "nat \<Rightarrow> char" where
  "hex_digit n = ''0123456789abcdef'' ! (n mod 16)"

fun hex_dump :: "nat \<Rightarrow> u8 list \<Rightarrow> string" where
  "hex_dump i [] = []"
| "hex_dump i (b # bs) =
     (if i > 0 \<and> i mod 32 = 0 then [CHR 0x0A] else [])
       @ [hex_digit (unat b div 16), hex_digit (unat b mod 16), CHR '' ''] @ hex_dump (Suc i) bs"

definition toHexString :: "string ba_op" where
  "toHexString ba = obind (toString ba) (\<lambda>str ba. Ret (hex_dump 0 str) ba)"

text \<open>An \<^verbatim>\<open>iovec\<close> points into a block: the block's index, the offset in it and the length.\<close>

record iovec =
  iov_node :: nat
  iov_off :: nat
  iov_len :: nat

function iov_loop :: "nat option \<Rightarrow> nat \<Rightarrow> nat \<Rightarrow> nat \<Rightarrow> iovec list \<Rightarrow> iovec list ba_op" where
  "iov_loop cur npos ncap len buffers ba =
     (if len = 0 then Ret buffers ba
      else case cur of None \<Rightarrow> Undef NullDeref
      | Some i \<Rightarrow>
          if ncap \<ge> len then
            Ret (buffers @ [\<lparr>iov_node = i, iov_off = npos, iov_len = len\<rparr>]) ba
          else case next_node ba i of None \<Rightarrow> Undef NullDeref
            | Some j \<Rightarrow> iov_loop (Some j) 0 (node_size ba j) (len - ncap)
                (buffers @ [\<lparr>iov_node = i, iov_off = npos, iov_len = ncap\<rparr>]) ba)"
  by pat_completeness auto
termination
  by (relation "measure (\<lambda>(cur, npos, ncap, len, buffers, ba). cur_left (length (m_nodes ba)) cur)")
    (auto simp: cur_left_def next_node_def split: if_splits)

declare iov_loop.simps [simp del]

definition getReadBuffers :: "nat \<Rightarrow> (nat \<times> iovec list) ba_op" where
  "getReadBuffers len ba =
     (let len = (if len > getReadSize ba then getReadSize ba else len) in
      if len = 0 then Ret (0, []) ba
      else if m_baseSize ba = 0 then Undef DivByZero
      else case m_cur ba of None \<Rightarrow> Undef NullDeref
      | Some i \<Rightarrow>
          let npos = m_position ba mod m_baseSize ba
          in obind (iov_loop (Some i) npos (node_size ba i - npos) len [] ba)
               (\<lambda>bufs ba. Ret (len, bufs) ba))"

text \<open>The overload with a position walks from the root, but takes \<^verbatim>\<open>ncap\<close> from \<^verbatim>\<open>m_cur\<close>.\<close>

primrec walk_next :: "bytearray \<Rightarrow> nat \<Rightarrow> nat option \<Rightarrow> nat option option" where
  "walk_next ba 0 cur = Some cur"
| "walk_next ba (Suc count) cur =
     (case cur of None \<Rightarrow> None | Some i \<Rightarrow> walk_next ba count (next_node ba i))"

definition getReadBuffers_at :: "nat \<Rightarrow> nat \<Rightarrow> (nat \<times> iovec list) ba_op" where
  "getReadBuffers_at len position ba =
     (let len = (if len > getReadSize ba then getReadSize ba else len) in
      if len = 0 then Ret (0, []) ba
      else if m_baseSize ba = 0 then Undef DivByZero
      else case walk_next ba (position div m_baseSize ba) (Some 0) of None \<Rightarrow> Undef NullDeref
      | Some cur \<Rightarrow>
        (case m_cur ba of None \<Rightarrow> Undef NullDeref
         | Some i \<Rightarrow>
             let npos = position mod m_baseSize ba
             in obind (iov_loop cur npos (node_size ba i - npos) len [] ba)
                  (\<lambda>bufs ba. Ret (len, bufs) ba)))"

definition getWriteBuffers :: "nat \<Rightarrow> (nat \<times> iovec list) ba_op" where
  "getWriteBuffers len ba =
     (if len = 0 then Ret (0, []) ba
      else obind (addCapacity len ba) (\<lambda>_ ba.
        if m_baseSize ba = 0 then Undef DivByZero
        else case m_cur ba of None \<Rightarrow> Undef NullDeref
        | Some i \<Rightarrow>
            let npos = m_position ba mod m_baseSize ba
            in obind (iov_loop (Some i) npos (node_size ba i - npos) len [] ba)
                 (\<lambda>bufs ba. Ret (len, bufs) ba)))"


section \<open>Representation invariant and abstraction\<close>

definition cur_at :: "bytearray \<Rightarrow> nat \<Rightarrow> nat option" where
  "cur_at ba q = (if q < length (m_nodes ba) * m_baseSize ba then Some (q div m_baseSize ba) else None)"

definition ba_struct :: "bytearray \<Rightarrow> bool" where
  "ba_struct ba \<longleftrightarrow> 0 < m_baseSize ba \<and> m_nodes ba \<noteq> [] \<and> blocks (m_baseSize ba) (m_nodes ba) \<and>
     m_capacity ba = length (m_nodes ba) * m_baseSize ba \<and> m_position ba \<le> m_capacity ba \<and>
     m_cur ba = cur_at ba (m_position ba)"

definition ba_inv :: "bytearray \<Rightarrow> bool" where
  "ba_inv ba \<longleftrightarrow> ba_struct ba \<and> m_position ba \<le> m_size ba \<and> m_size ba \<le> m_capacity ba"

definition flat :: "bytearray \<Rightarrow> u8 list" where
  "flat ba = concat (m_nodes ba)"

definition content :: "bytearray \<Rightarrow> u8 list" where
  "content ba = take (m_size ba) (flat ba)"

text \<open>
  \<open>write_fits n ba\<close>: the blocks \<open>addCapacity\<close> adds are enough for \<open>n\<close> bytes. The source rounds
  the missing size up only when its remainder exceeds the \<^emph>\<open>old\<close> free capacity.
\<close>

definition write_fits :: "nat \<Rightarrow> bytearray \<Rightarrow> bool" where
  "write_fits n ba \<longleftrightarrow>
     n \<le> getCapacity ba \<or> (n - getCapacity ba) mod m_baseSize ba = 0 \<or>
     getCapacity ba < (n - getCapacity ba) mod m_baseSize ba"

text \<open>
  \<open>read_safe n ba\<close>: the stale \<^verbatim>\<open>ncap\<close> of the read loop is right for every block it visits.
\<close>

definition read_safe :: "nat \<Rightarrow> bytearray \<Rightarrow> bool" where
  "read_safe n ba \<longleftrightarrow>
     m_position ba mod m_baseSize ba + n \<le> m_baseSize ba \<or> m_position ba mod m_baseSize ba = 0"

lemma ba_structD:
  assumes "ba_struct ba"
  shows "0 < m_baseSize ba" "m_nodes ba \<noteq> []" "blocks (m_baseSize ba) (m_nodes ba)"
    "m_capacity ba = length (m_nodes ba) * m_baseSize ba" "m_position ba \<le> m_capacity ba"
    "m_cur ba = cur_at ba (m_position ba)"
  using assms by (auto simp: ba_struct_def)

lemma ba_invD:
  assumes "ba_inv ba"
  shows "ba_struct ba" "m_position ba \<le> m_size ba" "m_size ba \<le> m_capacity ba"
  using assms by (auto simp: ba_inv_def)

lemma length_flat: "ba_struct ba \<Longrightarrow> length (flat ba) = m_capacity ba"
  by (simp add: flat_def ba_struct_def length_concat_blocks)

lemma length_content: "ba_inv ba \<Longrightarrow> length (content ba) = m_size ba"
  by (simp add: content_def length_flat ba_inv_def)

lemma ba_inv_new: "0 < b \<Longrightarrow> ba_inv (ByteArray junk b)"
  by (simp add: ba_inv_def ba_struct_def ByteArray_def new_Node_def cur_at_def)

lemma cur_at_cong:
  "length (m_nodes ba') = length (m_nodes ba) \<Longrightarrow> m_baseSize ba' = m_baseSize ba \<Longrightarrow>
   cur_at ba' q = cur_at ba q"
  by (simp add: cur_at_def)

lemma cur_at_next:
  assumes "0 < m_baseSize ba"
  shows "cur_at ba (i * m_baseSize ba + m_baseSize ba) = next_node ba i"
proof -
  have "i * m_baseSize ba + m_baseSize ba = Suc i * m_baseSize ba" by simp
  then show ?thesis
    using assms unfolding cur_at_def next_node_def
    by (metis mult_less_cancel2 nonzero_mult_div_cancel_right not_gr_zero)
qed

lemma cur_at_inside:
  assumes "i < length (m_nodes ba)" and "k < m_baseSize ba"
  shows "cur_at ba (i * m_baseSize ba + k) = Some i"
proof -
  have "i * m_baseSize ba + k < Suc i * m_baseSize ba" using assms(2) by simp
  also have "\<dots> \<le> length (m_nodes ba) * m_baseSize ba"
    using assms(1) by (intro mult_le_mono1) simp
  finally show ?thesis using assms(2) by (simp add: cur_at_def)
qed

lemma next_node_cong:
  "length (m_nodes ba') = length (m_nodes ba) \<Longrightarrow> next_node ba' i = next_node ba i"
  by (simp add: next_node_def)

text \<open>The one-block step shared by the loops: where the cursor is after \<open>k\<close> more bytes.\<close>

lemma cur_step:
  assumes "i < length (m_nodes ba)" and "npos + k \<le> m_baseSize ba" and "0 < m_baseSize ba"
    and "node_size ba i = m_baseSize ba"
  shows "(if node_size ba i = npos + k then next_node ba i else Some i) =
         cur_at ba (i * m_baseSize ba + npos + k)"
proof (cases "npos + k = m_baseSize ba")
  case True
  then show ?thesis using assms cur_at_next [of ba i] by (simp add: add.assoc)
next
  case False
  then show ?thesis using assms cur_at_inside [of i ba "npos + k"] by (simp add: add.assoc)
qed

lemma cur_at_Some:
  assumes "cur_at ba q = Some i" and "0 < m_baseSize ba"
  shows "i < length (m_nodes ba)" and "q = i * m_baseSize ba + q mod m_baseSize ba"
  using assms by (auto simp: cur_at_def less_mult_imp_div_less split: if_splits)

end
