(* ===== verification/ByteArray_Refine.thy ===== *)
theory ByteArray_Refine
  imports ByteArray
begin

text \<open>
  The primitives of \<open>ByteArray\<close> refine list operations on \<open>content\<close>: \<open>ba_write\<close> is
  \<open>overwrite\<close> at the position, \<open>ba_read\<close> is \<open>seg\<close>, \<open>setPosition\<close> moves. The conditions are
  exact: \<open>write_underallocates\<close> shows the fault outside \<open>write_fits\<close>.
\<close>

section \<open>Growing\<close>

definition grown :: "nat \<Rightarrow> bytearray \<Rightarrow> nat" where
  "grown n ba = (if n \<le> getCapacity ba then 0
     else (n - getCapacity ba) div m_baseSize ba
       + (if (n - getCapacity ba) mod m_baseSize ba > getCapacity ba then 1 else 0))"

lemma addCapacity_eq:
  assumes "ba_struct ba"
  shows "addCapacity n ba = Ret () (ba\<lparr>
           m_nodes := m_nodes ba @ replicate (grown n ba) (new_Node (m_junk ba) (m_baseSize ba)),
           m_capacity := m_capacity ba + grown n ba * m_baseSize ba,
           m_cur := cur_at (ba\<lparr>m_nodes := m_nodes ba @ replicate (grown n ba)
                       (new_Node (m_junk ba) (m_baseSize ba))\<rparr>) (m_position ba)\<rparr>)"
proof -
  note st = ba_structD [OF assms]
  let ?b = "m_baseSize ba" and ?old = "getCapacity ba"
  have old: "?old = length (m_nodes ba) * ?b - m_position ba"
    using st(4) by (simp add: getCapacity_def)
  consider "n \<le> ?old" | "n > ?old" "?old = 0" | "n > ?old" "?old > 0" by linarith
  then show ?thesis
  proof cases
    case 1
    then show ?thesis
      using st by (simp add: addCapacity_def grown_def cur_at_def)
  next
    case 2
    then have pos: "m_position ba = length (m_nodes ba) * ?b"
      using st(4,5) old by simp
    have "n mod ?b > 0 \<or> n div ?b > 0"
      using 2 st(1) by (metis bot_nat_0.not_eq_extremum div_mult_mod_eq mult_0 add_0)
    then have "grown n ba > 0"
      using 2 by (auto simp: grown_def)
    then show ?thesis
      using 2 st pos by (simp add: addCapacity_def grown_def cur_at_def Let_def)
  next
    case 3
    then have "m_position ba < length (m_nodes ba) * ?b"
      using old by simp
    moreover have "length (m_nodes ba) * ?b \<le> (length (m_nodes ba) + grown n ba) * ?b"
      by simp
    ultimately show ?thesis
      using 3 st
      by (simp add: addCapacity_def grown_def cur_at_def Let_def add_mult_distrib)
  qed
qed

lemma addCapacity_struct:
  assumes "ba_struct ba" and "addCapacity n ba = Ret u ba'"
  shows "ba_struct ba'" "m_capacity ba' = m_capacity ba + grown n ba * m_baseSize ba"
    "m_position ba' = m_position ba" "m_size ba' = m_size ba" "m_baseSize ba' = m_baseSize ba"
    "m_endian ba' = m_endian ba" "\<exists>xs. flat ba' = flat ba @ xs"
  using assms(2) ba_structD [OF assms(1)]
  unfolding addCapacity_eq [OF assms(1)]
  by (auto simp: ba_struct_def new_Node_def cur_at_def flat_def add_mult_distrib)

text \<open>The blocks added suffice exactly under \<open>write_fits\<close>.\<close>

lemma grown_enough_iff:
  assumes "0 < m_baseSize ba" and "m_position ba \<le> m_capacity ba"
  shows "m_position ba + n \<le> m_capacity ba + grown n ba * m_baseSize ba \<longleftrightarrow> write_fits n ba"
proof (cases "n \<le> getCapacity ba")
  case True
  then show ?thesis using assms by (simp add: grown_def write_fits_def getCapacity_def)
next
  case False
  define m where "m = n - getCapacity ba"
  have n: "n = getCapacity ba + m" "m > 0" using False by (auto simp: m_def)
  have "m_position ba + n \<le> m_capacity ba + grown n ba * m_baseSize ba \<longleftrightarrow>
        m \<le> grown n ba * m_baseSize ba"
    using n assms(2) by (simp add: getCapacity_def)
  also have "\<dots> \<longleftrightarrow> m mod m_baseSize ba = 0 \<or> getCapacity ba < m mod m_baseSize ba"
  proof (cases "getCapacity ba < m mod m_baseSize ba")
    case True
    have "m = m div m_baseSize ba * m_baseSize ba + m mod m_baseSize ba" by simp
    moreover have "m mod m_baseSize ba < m_baseSize ba" using assms(1) by simp
    ultimately have "m \<le> m div m_baseSize ba * m_baseSize ba + m_baseSize ba" by linarith
    then show ?thesis using True False by (simp add: grown_def m_def)
  next
    case small: False
    have "m = m div m_baseSize ba * m_baseSize ba + m mod m_baseSize ba" by simp
    then have "m \<le> m div m_baseSize ba * m_baseSize ba \<longleftrightarrow> m mod m_baseSize ba = 0" by linarith
    then show ?thesis using small False by (simp add: grown_def m_def)
  qed
  finally show ?thesis using False by (simp add: write_fits_def m_def)
qed

section \<open>Writing\<close>

lemma write_loop_ok:
  assumes "blocks (m_baseSize ba) (m_nodes ba)" and "m_cur ba = Some i" and "i < length (m_nodes ba)"
    and "npos < m_baseSize ba" and "npos + ncap = m_baseSize ba"
    and "m_position ba = i * m_baseSize ba + npos"
    and "m_position ba + length buf \<le> length (m_nodes ba) * m_baseSize ba"
  shows "\<exists>ns. write_loop npos ncap buf ba =
           Ret () (ba\<lparr>m_nodes := ns, m_cur := cur_at ba (m_position ba + length buf),
                      m_position := m_position ba + length buf\<rparr>) \<and>
         blocks (m_baseSize ba) ns \<and> length ns = length (m_nodes ba) \<and>
         concat ns = overwrite (m_position ba) buf (concat (m_nodes ba))"
  using assms
proof (induction npos ncap buf ba arbitrary: i rule: write_loop.induct)
  case (1 npos ncap buf ba)
  note prems = "1.prems"
  let ?b = "m_baseSize ba"
  have nsz: "node_size ba i = ?b"
    using prems by (simp add: node_size_def blocks_nth)
  consider "buf = []" | "buf \<noteq> []" "length buf \<le> ncap" | "buf \<noteq> []" "ncap < length buf" by linarith
  then show ?case
  proof cases
    case 1
    then have "write_loop npos ncap buf ba = Ret () ba" by (simp add: write_loop.simps)
    moreover have "cur_at ba (m_position ba) = m_cur ba"
      using prems cur_at_inside [of i ba npos] by simp
    ultimately show ?thesis
      using 1 prems by (intro exI [of _ "m_nodes ba"]) simp
  next
    case 2
    let ?ns = "(m_nodes ba)[i := overwrite npos buf (m_nodes ba ! i)]"
    have le: "npos + length buf \<le> ?b" using 2 prems by simp
    have cur: "(if node_size ba i = npos + length buf then next_node ba i else Some i) =
               cur_at ba (m_position ba + length buf)"
      using cur_step [of i ba npos "length buf"] le prems nsz by simp
    have "write_loop npos ncap buf ba =
          Ret () (ba\<lparr>m_nodes := ?ns, m_cur := cur_at ba (m_position ba + length buf),
                     m_position := m_position ba + length buf\<rparr>)"
      using 2 prems by (simp add: write_loop.simps [of npos ncap buf ba] poke_def cur)
    moreover have "blocks ?b ?ns"
      using prems le nsz by (intro blocks_update) (auto simp: node_size_def)
    moreover have "concat ?ns = overwrite (m_position ba) buf (concat (m_nodes ba))"
      using concat_update_overwrite [OF prems(1,3) le] prems by simp
    ultimately show ?thesis by (intro exI [of _ ?ns]) simp
  next
    case 3
    let ?ns = "(m_nodes ba)[i := overwrite npos (take ncap buf) (m_nodes ba ! i)]"
    let ?ba = "(poke i npos (take ncap buf) ba)\<lparr>m_cur := Some (Suc i), m_position := m_position ba + ncap\<rparr>"
    have "i * ?b + ?b + (length buf - ncap) \<le> length (m_nodes ba) * ?b"
      using 3 prems by simp
    then have "Suc i * ?b < length (m_nodes ba) * ?b" using 3 by simp
    then have j: "Suc i < length (m_nodes ba)" by (metis mult_less_cancel2)
    then have nx: "next_node ba i = Some (Suc i)" by (simp add: next_node_def)
    have nsz': "node_size ba (Suc i) = ?b" using prems j by (simp add: node_size_def blocks_nth)
    have le: "npos + length (take ncap buf) \<le> ?b" using 3 prems by simp
    have bl: "blocks ?b ?ns"
      using prems le nsz by (intro blocks_update) (auto simp: node_size_def)
    have cc: "concat ?ns = overwrite (m_position ba) (take ncap buf) (concat (m_nodes ba))"
      using concat_update_overwrite [OF prems(1,3) le] prems by simp
    have unf: "write_loop npos ncap buf ba = write_loop 0 ?b (drop ncap buf) ?ba"
      using 3 prems nx nsz' by (simp add: write_loop.simps [of npos ncap buf ba] not_le)
    have "\<exists>ns. write_loop 0 ?b (drop ncap buf) ?ba =
           Ret () (?ba\<lparr>m_nodes := ns, m_cur := cur_at ?ba (m_position ?ba + length (drop ncap buf)),
                      m_position := m_position ?ba + length (drop ncap buf)\<rparr>) \<and>
         blocks (m_baseSize ?ba) ns \<and> length ns = length (m_nodes ?ba) \<and>
         concat ns = overwrite (m_position ?ba) (drop ncap buf) (concat (m_nodes ?ba))"
      using "1.IH" [of i "Suc i" "Suc i"] 3 prems nx nsz' bl j
      by (simp add: not_le poke_def)
    then obtain ns where ns: "write_loop 0 ?b (drop ncap buf) ?ba =
           Ret () (?ba\<lparr>m_nodes := ns, m_cur := cur_at ?ba (m_position ?ba + length (drop ncap buf)),
                      m_position := m_position ?ba + length (drop ncap buf)\<rparr>)"
      "blocks ?b ns" "length ns = length (m_nodes ba)"
      "concat ns = overwrite (m_position ba + ncap) (drop ncap buf) (concat ?ns)"
      by (auto simp: poke_def)
    have "concat ns = overwrite (m_position ba) (take ncap buf @ drop ncap buf) (concat (m_nodes ba))"
      using ns(4) cc 3 prems
        overwrite_append [of "m_position ba" "take ncap buf" "drop ncap buf" "concat (m_nodes ba)"]
      by (simp add: length_concat_blocks [OF prems(1)] min_def)
    then show ?thesis
      using unf ns 3 by (intro exI [of _ ns]) (simp add: poke_def cur_at_def)
  qed
qed


lemma write_loop_fault:
  assumes "blocks (m_baseSize ba) (m_nodes ba)" and "m_cur ba = Some i" and "i < length (m_nodes ba)"
    and "npos < m_baseSize ba" and "npos + ncap = m_baseSize ba"
    and "m_position ba = i * m_baseSize ba + npos"
    and "m_position ba + length buf > length (m_nodes ba) * m_baseSize ba"
  shows "write_loop npos ncap buf ba = Undef NullDeref"
  using assms
proof (induction npos ncap buf ba arbitrary: i rule: write_loop.induct)
  case (1 npos ncap buf ba)
  note prems = "1.prems"
  let ?b = "m_baseSize ba"
  have "Suc i * ?b \<le> length (m_nodes ba) * ?b" using prems(3) by (intro mult_le_mono1) simp
  then have long: "ncap < length buf" and ne: "buf \<noteq> []" using prems by auto
  show ?case
  proof (cases "Suc i < length (m_nodes ba)")
    case False
    then show ?thesis
      using long ne prems by (simp add: write_loop.simps [of npos ncap buf ba] next_node_def not_le)
  next
    case True
    let ?ba = "(poke i npos (take ncap buf) ba)\<lparr>m_cur := Some (Suc i), m_position := m_position ba + ncap\<rparr>"
    have nx: "next_node ba i = Some (Suc i)" using True by (simp add: next_node_def)
    have nsz: "node_size ba (Suc i) = ?b" "node_size ba i = ?b"
      using prems True by (simp_all add: node_size_def blocks_nth)
    have bl: "blocks ?b ((m_nodes ba)[i := overwrite npos (take ncap buf) (m_nodes ba ! i)])"
      using prems long nsz by (intro blocks_update) (auto simp: node_size_def)
    have "write_loop npos ncap buf ba = write_loop 0 ?b (drop ncap buf) ?ba"
      using long ne prems nx nsz by (simp add: write_loop.simps [of npos ncap buf ba] not_le)
    also have "\<dots> = Undef NullDeref"
      using "1.IH" [of i "Suc i" "Suc i"] long ne prems nx nsz bl True
      by (simp add: not_le poke_def)
    finally show ?thesis .
  qed
qed

text \<open>\<open>written bs ba ba'\<close>: what a successful write leaves behind.\<close>

definition written :: "u8 list \<Rightarrow> bytearray \<Rightarrow> bytearray \<Rightarrow> bool" where
  "written bs ba ba' \<longleftrightarrow> ba_inv ba' \<and> m_baseSize ba' = m_baseSize ba \<and> m_endian ba' = m_endian ba \<and>
     m_capacity ba \<le> m_capacity ba' \<and>
     m_position ba' = m_position ba + length bs \<and> m_size ba' = max (m_size ba) (m_position ba') \<and>
     content ba' = overwrite (m_position ba) bs (content ba)"

lemma take_overwrite_prefix:
  assumes "n \<le> s" and "s \<le> length xs" and "n + length bs \<le> length (xs @ ys)"
  shows "take (max s (n + length bs)) (overwrite n bs (xs @ ys)) = overwrite n bs (take s xs)"
proof (cases "n + length bs \<le> s")
  case True
  then show ?thesis
    using assms by (cases "s = n") (simp_all add: overwrite_def min_def take_drop max_def)
next
  case False
  then show ?thesis
    using assms by (auto simp: overwrite_def min_def max_def)
qed

theorem ba_write_ok:
  assumes "ba_inv ba" and "write_fits (length bs) ba"
  shows "\<exists>ba'. ba_write bs ba = Ret () ba' \<and> written bs ba ba'"
proof (cases "bs = []")
  case True
  then show ?thesis
    using assms(1) by (auto simp: ba_write_def written_def ba_inv_def)
next
  case False
  note inv = ba_invD [OF assms(1)] and st = ba_structD [OF ba_invD(1) [OF assms(1)]]
  obtain b1 where b1: "addCapacity (length bs) ba = Ret () b1"
    using addCapacity_eq [OF inv(1)] by blast
  note g = addCapacity_struct [OF inv(1) b1] and s1 = ba_structD [OF addCapacity_struct(1) [OF inv(1) b1]]
  have enough: "m_position b1 + length bs \<le> m_capacity b1"
    using grown_enough_iff [OF st(1,5)] assms(2) g by simp
  then have "m_position b1 < m_capacity b1" using False by (cases bs) auto
  then have cur: "m_cur b1 = Some (m_position b1 div m_baseSize b1)"
    using s1 by (simp add: cur_at_def)
  note ci = cur_at_Some [OF s1(6) [symmetric, unfolded cur] s1(1)]
  let ?npos = "m_position b1 mod m_baseSize b1" and ?i = "m_position b1 div m_baseSize b1"
  have nsz: "node_size b1 ?i = m_baseSize b1" using s1(3) ci(1) by (simp add: node_size_def blocks_nth)
  have npos: "?npos < m_baseSize b1" using s1(1) by simp
  obtain ns where ns: "write_loop ?npos (m_baseSize b1 - ?npos) bs b1 =
       Ret () (b1\<lparr>m_nodes := ns, m_cur := cur_at b1 (m_position b1 + length bs),
                  m_position := m_position b1 + length bs\<rparr>)"
    "blocks (m_baseSize b1) ns" "length ns = length (m_nodes b1)"
    "concat ns = overwrite (m_position b1) bs (concat (m_nodes b1))"
    using write_loop_ok [OF s1(3) cur ci(1) npos _ ci(2), of "m_baseSize b1 - ?npos" bs]
      enough s1(4) npos by (auto simp: less_imp_le)
  define b2 where "b2 = b1\<lparr>m_nodes := ns, m_cur := cur_at b1 (m_position b1 + length bs),
                  m_position := m_position b1 + length bs, m_size := max (m_size ba) (m_position b1 + length bs)\<rparr>"
  have "ba_write bs ba = Ret () b2"
    using False b1 s1(1) cur nsz ns(1) g(4)
    by (auto simp: ba_write_def Let_def b2_def max_def)
  moreover have "ba_inv b2"
    using s1 ns inv enough g False
    by (auto simp: ba_inv_def ba_struct_def b2_def cur_at_def)
  moreover have "content b2 = overwrite (m_position ba) bs (content ba)"
  proof -
    obtain xs where xs: "flat b1 = flat ba @ xs" using g(7) by blast
    have "length (flat b1) = m_capacity b1" using length_flat [OF g(1)] .
    then show ?thesis
      using take_overwrite_prefix [of "m_position ba" "m_size ba" "flat ba" bs xs] inv enough xs g ns(4)
        length_flat [OF inv(1)]
      by (simp add: content_def b2_def flat_def)
  qed
  ultimately show ?thesis
    using g by (auto simp: written_def b2_def)
qed

text \<open>Outside \<open>write_fits\<close> the copy loop runs off the end of the chain.\<close>

theorem ba_write_fault:
  assumes "ba_inv ba" and "\<not> write_fits (length bs) ba"
  shows "ba_write bs ba = Undef NullDeref"
proof -
  note inv = ba_invD [OF assms(1)] and st = ba_structD [OF ba_invD(1) [OF assms(1)]]
  have ne: "bs \<noteq> []" using assms(2) by (auto simp: write_fits_def)
  obtain b1 where b1: "addCapacity (length bs) ba = Ret () b1"
    using addCapacity_eq [OF inv(1)] by blast
  note g = addCapacity_struct [OF inv(1) b1] and s1 = ba_structD [OF addCapacity_struct(1) [OF inv(1) b1]]
  have short: "m_position b1 + length bs > m_capacity b1"
    using grown_enough_iff [OF st(1,5), of "length bs"] assms(2) g by linarith
  let ?npos = "m_position b1 mod m_baseSize b1" and ?i = "m_position b1 div m_baseSize b1"
  have npos: "?npos < m_baseSize b1" using s1(1) by simp
  show ?thesis
  proof (cases "m_cur b1")
    case None
    then show ?thesis using ne b1 s1(1) by (simp add: ba_write_def)
  next
    case (Some i)
    then have i: "i = ?i" using s1(6) by (auto simp: cur_at_def split: if_splits)
    note ci = cur_at_Some [OF s1(6) [symmetric, unfolded Some] s1(1)]
    have nsz: "node_size b1 i = m_baseSize b1" using s1(3) ci(1) by (simp add: node_size_def blocks_nth)
    have "write_loop ?npos (m_baseSize b1 - ?npos) bs b1 = Undef NullDeref"
      using write_loop_fault [OF s1(3) Some ci(1) npos _ ci(2), of "m_baseSize b1 - ?npos" bs]
        short s1(4) npos by (simp add: less_imp_le)
    then show ?thesis
      using ne b1 s1(1) Some nsz by (simp add: ba_write_def Let_def)
  qed
qed


section \<open>Moving\<close>

lemma setPosition_loop_ok:
  assumes "blocks (m_baseSize ba) (m_nodes ba)" and "0 < m_baseSize ba" and "i < length (m_nodes ba)"
    and "i * m_baseSize ba + v \<le> length (m_nodes ba) * m_baseSize ba"
  shows "setPosition_loop ba v (Some i) = Ret (cur_at ba (i * m_baseSize ba + v)) ba"
  using assms
proof (induction v arbitrary: i rule: less_induct)
  case (less v)
  let ?b = "m_baseSize ba"
  have nsz: "node_size ba i = ?b" using less.prems by (simp add: node_size_def blocks_nth)
  show ?case
  proof (cases "v > ?b")
    case True
    then have "Suc i * ?b < i * ?b + v" by simp
    then have "Suc i * ?b < length (m_nodes ba) * ?b" using less.prems(4) by linarith
    then have j: "Suc i < length (m_nodes ba)" by (metis mult_less_cancel2)
    then have "setPosition_loop ba v (Some i) = setPosition_loop ba (v - ?b) (Some (Suc i))"
      using True nsz by (simp add: setPosition_loop.simps [of ba v] next_node_def)
    also have "\<dots> = Ret (cur_at ba (Suc i * ?b + (v - ?b))) ba"
      using True less.prems j by (intro less.IH) auto
    also have "Suc i * ?b + (v - ?b) = i * ?b + v" using True by simp
    finally show ?thesis .
  next
    case False
    then show ?thesis
      using less.prems nsz cur_step [of i ba 0 v]
      by (auto simp: setPosition_loop.simps [of ba v] split: if_splits)
  qed
qed

theorem setPosition_ok:
  assumes "ba_struct ba" and "v \<le> m_capacity ba"
  shows "setPosition v ba = Ret () (ba\<lparr>m_position := v, m_size := max v (m_size ba), m_cur := cur_at ba v\<rparr>)"
proof -
  note st = ba_structD [OF assms(1)]
  let ?ba = "ba\<lparr>m_position := v, m_size := max v (m_size ba)\<rparr>"
  have "setPosition_loop ?ba v (Some 0) = Ret (cur_at ?ba (0 * m_baseSize ?ba + v)) ?ba"
    using st assms(2) by (intro setPosition_loop_ok) auto
  moreover have "(if v > m_size ba then v else m_size ba) = max v (m_size ba)"
    by (simp add: max_def)
  ultimately show ?thesis
    using assms(2) by (simp add: setPosition_def Let_def cur_at_def)
qed

lemma setPosition_content:
  assumes "ba_inv ba" and "setPosition v ba = Ret u ba'"
  shows "ba_inv ba'" "m_position ba' = v" "m_size ba' = max v (m_size ba)"
    "flat ba' = flat ba" "m_baseSize ba' = m_baseSize ba" "m_endian ba' = m_endian ba"
    "m_capacity ba' = m_capacity ba" "v \<le> m_size ba \<Longrightarrow> content ba' = content ba"
proof -
  note inv = ba_invD [OF assms(1)]
  have v: "v \<le> m_capacity ba"
    using assms(2) by (auto simp: setPosition_def split: if_splits)
  have eq: "ba' = ba\<lparr>m_position := v, m_size := max v (m_size ba), m_cur := cur_at ba v\<rparr>"
    using setPosition_ok [OF inv(1) v] assms(2) by simp
  show "ba_inv ba'" "m_position ba' = v" "m_size ba' = max v (m_size ba)"
    "flat ba' = flat ba" "m_baseSize ba' = m_baseSize ba" "m_endian ba' = m_endian ba"
    "m_capacity ba' = m_capacity ba" "v \<le> m_size ba \<Longrightarrow> content ba' = content ba"
    using inv v ba_structD [OF inv(1)]
    by (auto simp: eq ba_inv_def ba_struct_def cur_at_def flat_def content_def max_def)
qed

section \<open>Reading\<close>

text \<open>
  The two situations in which the stale \<^verbatim>\<open>ncap\<close> is right: the bytes lie in the current block,
  or the first block is read from its start.
\<close>

lemma read_loop_block:
  assumes "m_cur ba = Some i" and "0 < n" and "n \<le> ncap"
  shows "read_loop npos ncap n acc ba =
    Ret (acc @ seg npos n (m_nodes ba ! i))
      (ba\<lparr>m_cur := (if node_size ba i = npos + n then next_node ba i else Some i),
          m_position := m_position ba + n\<rparr>)"
  using assms by (simp add: read_loop.simps [of npos ncap n acc ba])

lemma read_loop_aligned:
  assumes "blocks (m_baseSize ba) (m_nodes ba)" and "m_cur ba = Some i" and "i < length (m_nodes ba)"
    and "0 < m_baseSize ba" and "m_position ba = i * m_baseSize ba" and "0 < n"
    and "m_position ba + n \<le> length (m_nodes ba) * m_baseSize ba"
  shows "read_loop 0 (m_baseSize ba) n acc ba =
    Ret (acc @ seg (m_position ba) n (flat ba))
      (ba\<lparr>m_cur := cur_at ba (m_position ba + n), m_position := m_position ba + n\<rparr>)"
  using assms
proof (induction n arbitrary: i acc ba rule: less_induct)
  case (less n)
  let ?b = "m_baseSize ba"
  have nsz: "node_size ba i = ?b" using less.prems by (simp add: node_size_def blocks_nth)
  show ?case
  proof (cases "n \<le> ?b")
    case True
    then show ?thesis
      using less.prems nsz cur_step [of i ba 0 n] seg_concat_block [of ?b "m_nodes ba" i 0 n]
      by (simp add: read_loop_block flat_def)
  next
    case False
    let ?ba = "ba\<lparr>m_cur := Some (Suc i), m_position := m_position ba + ?b\<rparr>"
    have "Suc i * ?b < length (m_nodes ba) * ?b" using False less.prems by simp
    then have j: "Suc i < length (m_nodes ba)" by (metis mult_less_cancel2)
    have "read_loop 0 ?b n acc ba = read_loop 0 ?b (n - ?b) (acc @ seg 0 ?b (m_nodes ba ! i)) ?ba"
      using False less.prems j by (simp add: read_loop.simps [of 0 ?b n acc ba] next_node_def)
    also have "\<dots> = Ret ((acc @ seg 0 ?b (m_nodes ba ! i)) @ seg (m_position ?ba) (n - ?b) (flat ?ba))
      (?ba\<lparr>m_cur := cur_at ?ba (m_position ?ba + (n - ?b)), m_position := m_position ?ba + (n - ?b)\<rparr>)"
      using less.IH [of "n - ?b" ?ba "Suc i"] False less.prems j by simp
    also have "seg 0 ?b (m_nodes ba ! i) = seg (m_position ba) ?b (flat ba)"
      using seg_concat_block [of ?b "m_nodes ba" i 0 ?b] less.prems by (simp add: flat_def)
    finally show ?thesis
      using False seg_append_seg [of "m_position ba" ?b "n - ?b" "flat ba"]
      by (simp add: flat_def cur_at_def)
  qed
qed

definition advanced :: "nat \<Rightarrow> bytearray \<Rightarrow> bytearray" where
  "advanced n ba = ba\<lparr>m_position := m_position ba + n, m_cur := cur_at ba (m_position ba + n)\<rparr>"

theorem ba_read_ok:
  assumes "ba_inv ba" and "m_position ba + n \<le> m_size ba" and "read_safe n ba"
    and "m_position ba < m_capacity ba"
  shows "ba_read n ba = Ret (seg (m_position ba) n (content ba)) (advanced n ba)"
proof -
  note inv = ba_invD [OF assms(1)] and st = ba_structD [OF ba_invD(1) [OF assms(1)]]
  have cur: "m_cur ba = Some (m_position ba div m_baseSize ba)"
    using st assms(4) by (simp add: cur_at_def)
  note ci = cur_at_Some [OF st(6) [symmetric, unfolded cur] st(1)]
  let ?npos = "m_position ba mod m_baseSize ba" and ?i = "m_position ba div m_baseSize ba"
  have nsz: "node_size ba ?i = m_baseSize ba" using st(3) ci(1) by (simp add: node_size_def blocks_nth)
  have npos: "?npos < m_baseSize ba" using st(1) by simp
  have sg: "seg (m_position ba) n (content ba) = seg (m_position ba) n (flat ba)"
    using assms(2) by (simp add: content_def seg_def drop_take min_def)
  have "\<not> getReadSize ba < n" using assms(2) by (simp add: getReadSize_def)
  then have unf: "ba_read n ba = read_loop ?npos (m_baseSize ba - ?npos) n [] ba"
    using st(1) cur nsz by (simp add: ba_read_def Let_def)
  consider "n = 0" | "0 < n" "?npos + n \<le> m_baseSize ba" | "0 < n" "?npos = 0"
    using assms(3) unfolding read_safe_def by (metis neq0_conv)
  then show ?thesis
  proof cases
    case 1
    then show ?thesis
      using unf st by (simp add: read_loop.simps advanced_def)
  next
    case 2
    have "seg ?npos n (m_nodes ba ! ?i) = seg (m_position ba) n (flat ba)"
      using seg_concat_block [OF st(3) ci(1) 2(2)] ci(2) by (simp add: flat_def)
    moreover have "(if node_size ba ?i = ?npos + n then next_node ba ?i else Some ?i) =
        cur_at ba (m_position ba + n)"
      using cur_step [OF ci(1) 2(2) st(1) nsz] ci(2) by simp
    ultimately show ?thesis
      using unf 2 cur sg by (simp add: read_loop_block advanced_def)
  next
    case 3
    then have "m_position ba = ?i * m_baseSize ba" using ci(2) by simp
    then show ?thesis
      using unf 3 sg read_loop_aligned [OF st(3) cur ci(1) st(1) _ 3(1), of "[]"] assms(2) inv st(4)
      by (simp add: advanced_def)
  qed
qed

lemma advanced_inv:
  assumes "ba_inv ba" and "m_position ba + n \<le> m_size ba"
  shows "ba_inv (advanced n ba)" "m_position (advanced n ba) = m_position ba + n"
    "content (advanced n ba) = content ba" "m_endian (advanced n ba) = m_endian ba"
    "m_baseSize (advanced n ba) = m_baseSize ba" "m_size (advanced n ba) = m_size ba"
    "m_capacity (advanced n ba) = m_capacity ba"
  using assms by (auto simp: advanced_def ba_inv_def ba_struct_def cur_at_def content_def flat_def)

lemma ba_read_short: "n > getReadSize ba \<Longrightarrow> ba_read n ba = Throw OutOfRange ba"
  by (simp add: ba_read_def)

end
