(* ===== verification/ByteArray_Codec.thy ===== *)
theory ByteArray_Codec
  imports ByteArray_Refine
begin

text \<open>
  The typed readers and writers of \<^verbatim>\<open>ByteArray\<close>: fixed-width integers in either byte order,
  zigzag and base-128 variable-length integers, floats by their bit pattern, and length-prefixed
  strings. Signed C++ integers are words read with \<open>sint\<close>; arithmetic on them wraps, as the
  compiled code does (\<^verbatim>\<open>-v\<close> and \<^verbatim>\<open>v * 2\<close> overflow in the zigzag encoder).

  The locale \<open>ba_codec\<close> is the contract between a writer and its reader: the writer appends the
  encoding, the reader, placed before an encoding, returns the value and steps over it. The
  contract gives the round trip through any \<^verbatim>\<open>ByteArray\<close> (\<open>roundtrip\<close>), and codecs compose
  (\<open>ba_codec_pair\<close>). It is interpreted on every typed pair of the source. The side condition
  \<open>in_block\<close> keeps the run inside one block: across blocks \<open>ba_read\<close> is wrong (see
  \<open>read_safe\<close>).
\<close>

section \<open>Fixed-width integers\<close>

definition write_fixed :: "'a::len word \<Rightarrow> unit ba_op" where
  "write_fixed v ba = ba_write (word_bytes (if m_endian ba \<noteq> CXK_BYTE_ORDER then byteswap v else v)) ba"

definition read_fixed :: "'a::len word ba_op" where
  "read_fixed ba = obind (ba_read (LENGTH('a) div 8) ba) (\<lambda>bs ba.
     let v = bytes_word bs in
     Ret (if m_endian ba = CXK_BYTE_ORDER then v else byteswap v) ba)"

definition writeFint8 :: "u8 \<Rightarrow> unit ba_op" where
  "writeFint8 v = ba_write (word_bytes v)"

definition writeFuint8_t :: "u8 \<Rightarrow> unit ba_op" where
  "writeFuint8_t v = ba_write (word_bytes v)"

definition writeFint16 :: "u16 \<Rightarrow> unit ba_op" where "writeFint16 = write_fixed"
definition writeFuint16_t :: "u16 \<Rightarrow> unit ba_op" where "writeFuint16_t = write_fixed"
definition writeFint32 :: "u32 \<Rightarrow> unit ba_op" where "writeFint32 = write_fixed"
definition writeFuint32_t :: "u32 \<Rightarrow> unit ba_op" where "writeFuint32_t = write_fixed"
definition writeFint64 :: "u64 \<Rightarrow> unit ba_op" where "writeFint64 = write_fixed"
definition writeFuint64_t :: "u64 \<Rightarrow> unit ba_op" where "writeFuint64_t = write_fixed"

definition readFint8 :: "u8 ba_op" where
  "readFint8 ba = obind (ba_read 1 ba) (\<lambda>bs ba. Ret (bytes_word bs) ba)"

definition readFuint8_t :: "u8 ba_op" where
  "readFuint8_t ba = obind (ba_read 1 ba) (\<lambda>bs ba. Ret (bytes_word bs) ba)"

definition readFint16 :: "u16 ba_op" where "readFint16 = read_fixed"
definition readFuint16_t :: "u16 ba_op" where "readFuint16_t = read_fixed"
definition readFint32 :: "u32 ba_op" where "readFint32 = read_fixed"
definition readFuint32_t :: "u32 ba_op" where "readFuint32_t = read_fixed"
definition readFint64 :: "u64 ba_op" where "readFint64 = read_fixed"
definition readFuint64_t :: "u64 ba_op" where "readFuint64_t = read_fixed"

section \<open>Variable-length integers\<close>

definition EncodeZigzag32 :: "u32 \<Rightarrow> u32" where
  "EncodeZigzag32 v = (if sint v < 0 then (- v) * 2 - 1 else v * 2)"

definition EncodeZigzag64 :: "u64 \<Rightarrow> u64" where
  "EncodeZigzag64 v = (if sint v < 0 then (- v) * 2 - 1 else v * 2)"

definition DecodeZigzag32 :: "u32 \<Rightarrow> u32" where
  "DecodeZigzag32 v = drop_bit 1 v XOR - (v AND 1)"

definition DecodeZigzag64 :: "u64 \<Rightarrow> u64" where
  "DecodeZigzag64 v = drop_bit 1 v XOR - (v AND 1)"

lemma unat_drop_bit_7: "unat (drop_bit 7 (v :: 'a::len word)) = unat v div 128"
  by (subst unat_drop_bit_eq) (simp add: drop_bit_eq_div)

function varint_loop :: "'a::len word \<Rightarrow> u8 list" where
  "varint_loop v =
     (if unat v \<ge> 0x80 then ucast ((v AND 0x7F) OR 0x80) # varint_loop (drop_bit 7 v)
      else [ucast v])"
  by pat_completeness auto
termination
  by (relation "measure unat") (simp_all only: in_measure unat_drop_bit_7, simp_all)

declare varint_loop.simps [simp del]

definition writeUint32 :: "u32 \<Rightarrow> unit ba_op" where
  "writeUint32 v = ba_write (varint_loop v)"

definition writeInt32 :: "u32 \<Rightarrow> unit ba_op" where
  "writeInt32 v = writeUint32 (EncodeZigzag32 v)"

definition writeUint64 :: "u64 \<Rightarrow> unit ba_op" where
  "writeUint64 v = ba_write (varint_loop v)"

definition writeInt64 :: "u64 \<Rightarrow> unit ba_op" where
  "writeInt64 v = writeUint64 (EncodeZigzag64 v)"

function read_varint :: "nat \<Rightarrow> 'a::len word \<Rightarrow> 'a word ba_op" where
  "read_varint i result ba =
     (if i \<ge> LENGTH('a) then Ret result ba
      else obind (readFuint8_t ba) (\<lambda>b ba.
        if b < 0x80 then Ret (result OR push_bit i (ucast b)) ba
        else read_varint (i + 7) (result OR push_bit i (ucast (b AND 0x7F))) ba))"
  by pat_completeness auto
termination
  by (relation "measure (\<lambda>(i, result :: 'a word, ba). LENGTH('a) - i)") auto

declare read_varint.simps [simp del]

definition readUint32 :: "u32 ba_op" where
  "readUint32 = read_varint 0 0"

definition readInt32 :: "u32 ba_op" where
  "readInt32 ba = obind (readUint32 ba) (\<lambda>v ba. Ret (DecodeZigzag32 v) ba)"

definition readUint64 :: "u64 ba_op" where
  "readUint64 = read_varint 0 0"

definition readInt64 :: "u64 ba_op" where
  "readInt64 ba = obind (readUint64 ba) (\<lambda>v ba. Ret (DecodeZigzag64 v) ba)"

section \<open>Floats and strings\<close>

text \<open>A \<^verbatim>\<open>float\<close> or \<^verbatim>\<open>double\<close> is its bit pattern, which is all the code touches (\<^verbatim>\<open>memcpy\<close>).\<close>

definition writeFloat :: "u32 \<Rightarrow> unit ba_op" where "writeFloat v = writeFuint32_t v"
definition writeDouble :: "u64 \<Rightarrow> unit ba_op" where "writeDouble v = writeFuint64_t v"
definition readFloat :: "u32 ba_op" where "readFloat = readFuint32_t"
definition readDouble :: "u64 ba_op" where "readDouble = readFuint64_t"

definition writeStringF16 :: "u8 list \<Rightarrow> unit ba_op" where
  "writeStringF16 str ba = obind (writeFuint16_t (of_nat (length str)) ba) (\<lambda>_. ba_write str)"

definition writeStringF32 :: "u8 list \<Rightarrow> unit ba_op" where
  "writeStringF32 str ba = obind (writeFuint32_t (of_nat (length str)) ba) (\<lambda>_. ba_write str)"

definition writeStringF64 :: "u8 list \<Rightarrow> unit ba_op" where
  "writeStringF64 str ba = obind (writeFuint64_t (of_nat (length str)) ba) (\<lambda>_. ba_write str)"

definition writeStringVint :: "u8 list \<Rightarrow> unit ba_op" where
  "writeStringVint str ba = obind (writeFuint64_t (of_nat (length str)) ba) (\<lambda>_. ba_write str)"

definition writeStringWithoutLength :: "u8 list \<Rightarrow> unit ba_op" where
  "writeStringWithoutLength str ba = obind (writeFuint64_t (of_nat (length str)) ba) (\<lambda>_. ba_write str)"

text \<open>\<^verbatim>\<open>buff.resize(len)\<close> throws \<^verbatim>\<open>std::length_error\<close> above \<^verbatim>\<open>std::string::max_size()\<close>.\<close>

definition string_max_size :: nat where
  "string_max_size = 2 ^ 63 - 1"

definition read_body :: "nat \<Rightarrow> u8 list ba_op" where
  "read_body len ba = (if len > string_max_size then Throw LengthError ba else ba_read len ba)"

definition readStringF16 :: "u8 list ba_op" where
  "readStringF16 ba = obind (readFuint16_t ba) (\<lambda>len. read_body (unat len))"

definition readStringF32 :: "u8 list ba_op" where
  "readStringF32 ba = obind (readFuint32_t ba) (\<lambda>len. read_body (unat len))"

definition readStringF64 :: "u8 list ba_op" where
  "readStringF64 ba = obind (readFuint64_t ba) (\<lambda>len. read_body (unat len))"

definition readStringVint :: "u8 list ba_op" where
  "readStringVint ba = obind (readFuint64_t ba) (\<lambda>len. read_body (unat len))"

section \<open>The codec contract\<close>

definition in_block :: "nat \<Rightarrow> bytearray \<Rightarrow> bool" where
  "in_block n ba \<longleftrightarrow> m_position ba < m_capacity ba \<and> m_position ba mod m_baseSize ba + n < m_baseSize ba"

definition holds_at :: "u8 list \<Rightarrow> bytearray \<Rightarrow> bool" where
  "holds_at bs ba \<longleftrightarrow> m_position ba + length bs \<le> m_size ba \<and>
     seg (m_position ba) (length bs) (content ba) = bs"

lemma in_block_room:
  assumes "ba_inv ba" and "in_block n ba"
  shows "m_position ba + n < m_capacity ba"
proof -
  note st = ba_structD [OF ba_invD(1) [OF assms(1)]]
  let ?b = "m_baseSize ba" and ?i = "m_position ba div m_baseSize ba"
  have "?i < length (m_nodes ba)"
    using assms(2) st(4) by (simp add: in_block_def less_mult_imp_div_less)
  then have "Suc ?i * ?b \<le> m_capacity ba"
    unfolding st(4) by (intro mult_le_mono1) simp
  then have "?i * ?b + ?b \<le> m_capacity ba" by simp
  moreover have "?i * ?b + m_position ba mod ?b = m_position ba" by (rule div_mult_mod_eq)
  moreover have "m_position ba mod ?b + n < ?b" using assms(2) by (simp add: in_block_def)
  ultimately show ?thesis by linarith
qed

lemma in_block_fits: "ba_inv ba \<Longrightarrow> in_block n ba \<Longrightarrow> write_fits n ba"
  using in_block_room [of ba n] by (simp add: write_fits_def getCapacity_def)

lemma in_block_read_safe: "in_block n ba \<Longrightarrow> read_safe n ba"
  by (simp add: in_block_def read_safe_def)

lemma in_block_mono: "in_block n ba \<Longrightarrow> m \<le> n \<Longrightarrow> in_block m ba"
  by (simp add: in_block_def)

lemma in_block_shift:
  assumes "ba_inv ba" and "in_block (n + m) ba" and "m_position ba' = m_position ba + n"
    and "m_baseSize ba' = m_baseSize ba" and "m_capacity ba \<le> m_capacity ba'"
  shows "in_block m ba'"
proof -
  have "m_position ba mod m_baseSize ba + n < m_baseSize ba"
    using assms(2) by (simp add: in_block_def)
  then have "(m_position ba + n) mod m_baseSize ba = m_position ba mod m_baseSize ba + n"
    by (metis mod_add_left_eq mod_less)
  then show ?thesis
    using in_block_room [OF assms(1,2)] assms(2-5) by (simp add: in_block_def)
qed

lemma holds_at_append:
  assumes "holds_at (xs @ ys) ba" and "ba_inv ba"
  shows "holds_at xs ba" "holds_at ys (advanced (length xs) ba)"
proof -
  have len: "m_position ba + length xs + length ys \<le> m_size ba"
    using assms(1) by (simp add: holds_at_def)
  have "seg (m_position ba) (length xs) (content ba) @ seg (m_position ba + length xs) (length ys) (content ba)
        = xs @ ys"
    using assms(1) seg_append_seg [of "m_position ba" "length xs" "length ys" "content ba"]
    by (simp add: holds_at_def)
  then have "seg (m_position ba) (length xs) (content ba) = xs"
    and "seg (m_position ba + length xs) (length ys) (content ba) = ys"
    using len length_content [OF assms(2)] by (auto simp: append_eq_append_conv)
  then show "holds_at xs ba" "holds_at ys (advanced (length xs) ba)"
    using len by (simp_all add: holds_at_def advanced_def content_def flat_def)
qed

locale ba_codec =
  fixes enc :: "endian \<Rightarrow> 'a \<Rightarrow> u8 list"
    and wr :: "'a \<Rightarrow> unit ba_op"
    and rd :: "'a ba_op"
    and valid :: "'a \<Rightarrow> bool"
  assumes wr_ok: "\<And>v ba. valid v \<Longrightarrow> ba_inv ba \<Longrightarrow> in_block (length (enc (m_endian ba) v)) ba \<Longrightarrow>
      \<exists>ba'. wr v ba = Ret () ba' \<and> written (enc (m_endian ba) v) ba ba'"
    and rd_ok: "\<And>v ba. valid v \<Longrightarrow> ba_inv ba \<Longrightarrow> in_block (length (enc (m_endian ba) v)) ba \<Longrightarrow>
      holds_at (enc (m_endian ba) v) ba \<Longrightarrow> rd ba = Ret v (advanced (length (enc (m_endian ba) v)) ba)"
begin

lemma roundtrip:
  assumes "valid v" and "ba_inv ba" and "in_block (length (enc (m_endian ba) v)) ba"
  shows "\<exists>ba1 ba2 ba3. wr v ba = Ret () ba1 \<and> setPosition (m_position ba) ba1 = Ret () ba2 \<and>
    rd ba2 = Ret v ba3 \<and> m_position ba3 = m_position ba1 \<and> content ba3 = content ba1 \<and> ba_inv ba3"
proof -
  let ?bs = "enc (m_endian ba) v"
  obtain ba1 where w: "wr v ba = Ret () ba1" "written ?bs ba ba1"
    using wr_ok [OF assms] by blast
  then have w1: "ba_inv ba1" "m_position ba1 = m_position ba + length ?bs"
    "m_size ba1 = max (m_size ba) (m_position ba1)" "m_endian ba1 = m_endian ba"
    "m_baseSize ba1 = m_baseSize ba" "m_capacity ba \<le> m_capacity ba1"
    "content ba1 = overwrite (m_position ba) ?bs (content ba)"
    by (simp_all add: written_def)
  have "m_position ba \<le> m_capacity ba1" using w1(2) ba_invD [OF w1(1)] by simp
  then obtain ba2 where s: "setPosition (m_position ba) ba1 = Ret () ba2"
    using setPosition_ok [OF ba_invD(1) [OF w1(1)]] by blast
  note p = setPosition_content [OF w1(1) s]
  have le: "m_position ba \<le> m_size ba1" using w1(2,3) by simp
  have "seg (m_position ba) (length ?bs) (content ba1) = ?bs"
    using w1(7) ba_invD(2) [OF assms(2)] length_content [OF assms(2)]
    by (simp add: seg_def overwrite_def)
  then have h: "holds_at ?bs ba2"
    using p(2,3,8) le w1(2,3) by (simp add: holds_at_def)
  have blk: "in_block (length ?bs) ba2"
    using assms(3) p w1 by (simp add: in_block_def)
  have "rd ba2 = Ret v (advanced (length ?bs) ba2)"
    using rd_ok [OF assms(1) p(1)] h blk p(6) w1(4) by simp
  moreover have "m_position ba2 + length ?bs \<le> m_size ba2" using h by (simp add: holds_at_def)
  ultimately show ?thesis
    using w(1) s advanced_inv [OF p(1)] p(2,8) w1(2) le by auto
qed

end

text \<open>Codecs compose: a record is the sequence of its fields.\<close>

lemma ba_codec_pair:
  assumes "ba_codec enc1 wr1 rd1 valid1" and "ba_codec enc2 wr2 rd2 valid2"
  shows "ba_codec (\<lambda>e (a, b). enc1 e a @ enc2 e b)
    (\<lambda>(a, b) ba. obind (wr1 a ba) (\<lambda>_. wr2 b))
    (\<lambda>ba. obind (rd1 ba) (\<lambda>a ba. obind (rd2 ba) (\<lambda>b ba. Ret (a, b) ba)))
    (\<lambda>(a, b). valid1 a \<and> valid2 b)"
proof (rule ba_codec.intro; clarsimp)
  fix a b and ba :: bytearray
  let ?x = "enc1 (m_endian ba) a" and ?y = "enc2 (m_endian ba) b"
  assume v: "valid1 a" "valid2 b" and inv: "ba_inv ba" and blk: "in_block (length ?x + length ?y) ba"
  have blk1: "in_block (length ?x) ba" using blk by (rule in_block_mono) simp
  show "\<exists>ba'. obind (wr1 a ba) (\<lambda>_. wr2 b) = Ret () ba' \<and> written (?x @ ?y) ba ba'"
  proof -
    obtain ba1 where w1: "wr1 a ba = Ret () ba1" "written ?x ba ba1"
      using ba_codec.wr_ok [OF assms(1) v(1) inv blk1] by blast
    then have f: "ba_inv ba1" "m_endian ba1 = m_endian ba" "m_position ba1 = m_position ba + length ?x"
      "m_baseSize ba1 = m_baseSize ba" "m_capacity ba \<le> m_capacity ba1"
      by (simp_all add: written_def)
    have blk2: "in_block (length ?y) ba1" using in_block_shift [OF inv blk f(3,4,5)] .
    obtain ba2 where w2: "wr2 b ba1 = Ret () ba2" "written ?y ba1 ba2"
      using ba_codec.wr_ok [OF assms(2) v(2) f(1)] blk2 f(2) by auto
    have "written (?x @ ?y) ba ba2"
      using w1(2) w2(2) ba_invD(2) [OF inv] length_content [OF inv]
      by (auto simp: written_def overwrite_def max_def ac_simps)
    then show ?thesis using w1(1) w2(1) by auto
  qed
next
  fix a b and ba :: bytearray
  let ?x = "enc1 (m_endian ba) a" and ?y = "enc2 (m_endian ba) b"
  assume v: "valid1 a" "valid2 b" and inv: "ba_inv ba" and blk: "in_block (length ?x + length ?y) ba"
    and h: "holds_at (?x @ ?y) ba"
  have blk1: "in_block (length ?x) ba" using blk by (rule in_block_mono) simp
  have le: "m_position ba + length ?x \<le> m_size ba" using h by (simp add: holds_at_def)
  note adv = advanced_inv [OF inv le] and ha = holds_at_append [OF h inv]
  have blk2: "in_block (length ?y) (advanced (length ?x) ba)"
    using in_block_shift [OF inv blk] adv by simp
  have "rd1 ba = Ret a (advanced (length ?x) ba)"
    using ba_codec.rd_ok [OF assms(1) v(1) inv blk1 ha(1)] .
  moreover have "rd2 (advanced (length ?x) ba) = Ret b (advanced (length ?y) (advanced (length ?x) ba))"
    using ba_codec.rd_ok [OF assms(2) v(2) adv(1)] blk2 ha(2) adv(4) by simp
  moreover have "advanced (length ?y) (advanced (length ?x) ba) = advanced (length ?x + length ?y) ba"
    by (simp add: advanced_def cur_at_def add.assoc)
  ultimately show "obind (rd1 ba) (\<lambda>a ba. obind (rd2 ba) (\<lambda>b. Ret (a, b))) =
      Ret (a, b) (advanced (length ?x + length ?y) ba)"
    by simp
qed


section \<open>Fixed-width codecs\<close>

definition enc_fixed :: "endian \<Rightarrow> 'a::len word \<Rightarrow> u8 list" where
  "enc_fixed e v = word_bytes (if e \<noteq> CXK_BYTE_ORDER then byteswap v else v)"

lemma length_enc_fixed [simp]: "length (enc_fixed e (v :: 'a::len word)) = LENGTH('a) div 8"
  by (simp add: enc_fixed_def)

lemma ba_read_holds:
  assumes "ba_inv ba" and "in_block (length bs) ba" and "holds_at bs ba"
  shows "ba_read (length bs) ba = Ret bs (advanced (length bs) ba)"
  using ba_read_ok [OF assms(1) _ in_block_read_safe [OF assms(2)]] assms(2,3)
  by (simp add: holds_at_def in_block_def)

lemma ba_codec_fixed:
  assumes "8 dvd LENGTH('a::len)"
  shows "ba_codec enc_fixed write_fixed (read_fixed :: 'a word ba_op) (\<lambda>_. True)"
proof (rule ba_codec.intro)
  fix v :: "'a word" and ba :: bytearray
  assume inv: "ba_inv ba" and blk: "in_block (length (enc_fixed (m_endian ba) v)) ba"
  show "\<exists>ba'. write_fixed v ba = Ret () ba' \<and> written (enc_fixed (m_endian ba) v) ba ba'"
    using ba_write_ok [OF inv in_block_fits [OF inv blk]] by (simp add: write_fixed_def enc_fixed_def)
  assume "holds_at (enc_fixed (m_endian ba) v) ba"
  then have "ba_read (LENGTH('a) div 8) ba =
      Ret (enc_fixed (m_endian ba) v) (advanced (LENGTH('a) div 8) ba)"
    using ba_read_holds [OF inv blk] by simp
  moreover have "m_endian (advanced (LENGTH('a) div 8) ba) = m_endian ba"
    by (simp add: advanced_def)
  ultimately show "read_fixed ba = Ret v (advanced (length (enc_fixed (m_endian ba) v)) ba)"
    using assms by (simp add: read_fixed_def enc_fixed_def bytes_word_word_bytes byteswap_byteswap Let_def)
qed

lemma ba_codec_u8:
  "ba_codec (\<lambda>_ v. [v]) (\<lambda>v. ba_write (word_bytes v)) (\<lambda>ba. obind (ba_read 1 ba) (\<lambda>bs ba. Ret (bytes_word bs :: u8) ba))
     (\<lambda>_. True)"
proof (rule ba_codec.intro)
  fix v :: u8 and ba :: bytearray
  assume inv: "ba_inv ba" and blk: "in_block (length [v]) ba"
  show "\<exists>ba'. ba_write (word_bytes v) ba = Ret () ba' \<and> written [v] ba ba'"
    using ba_write_ok [OF inv, of "[v]"] in_block_fits [OF inv blk] by simp
  assume "holds_at [v] ba"
  then show "obind (ba_read 1 ba) (\<lambda>bs ba. Ret (bytes_word bs) ba) = Ret v (advanced (length [v]) ba)"
    using ba_read_holds [OF inv blk] by (simp add: ucast_id)
qed

interpretation fint8: ba_codec "\<lambda>_ v. [v]" writeFint8 readFint8 "\<lambda>_. True"
  using ba_codec_u8 by (simp add: writeFint8_def [abs_def] readFint8_def [abs_def])

interpretation fuint8: ba_codec "\<lambda>_ v. [v]" writeFuint8_t readFuint8_t "\<lambda>_. True"
  using ba_codec_u8 by (simp add: writeFuint8_t_def [abs_def] readFuint8_t_def [abs_def])

interpretation fint16: ba_codec enc_fixed writeFint16 readFint16 "\<lambda>_. True"
  using ba_codec_fixed [where 'a = 16] by (simp add: writeFint16_def readFint16_def)

interpretation fuint16: ba_codec enc_fixed writeFuint16_t readFuint16_t "\<lambda>_. True"
  using ba_codec_fixed [where 'a = 16] by (simp add: writeFuint16_t_def readFuint16_t_def)

interpretation fint32: ba_codec enc_fixed writeFint32 readFint32 "\<lambda>_. True"
  using ba_codec_fixed [where 'a = 32] by (simp add: writeFint32_def readFint32_def)

interpretation fuint32: ba_codec enc_fixed writeFuint32_t readFuint32_t "\<lambda>_. True"
  using ba_codec_fixed [where 'a = 32] by (simp add: writeFuint32_t_def readFuint32_t_def)

interpretation fint64: ba_codec enc_fixed writeFint64 readFint64 "\<lambda>_. True"
  using ba_codec_fixed [where 'a = 64] by (simp add: writeFint64_def readFint64_def)

interpretation fuint64: ba_codec enc_fixed writeFuint64_t readFuint64_t "\<lambda>_. True"
  using ba_codec_fixed [where 'a = 64] by (simp add: writeFuint64_t_def readFuint64_t_def)

interpretation float32: ba_codec enc_fixed writeFloat readFloat "\<lambda>_. True"
  using fuint32.ba_codec_axioms by (simp add: writeFloat_def [abs_def] readFloat_def)

interpretation float64: ba_codec enc_fixed writeDouble readDouble "\<lambda>_. True"
  using fuint64.ba_codec_axioms by (simp add: writeDouble_def [abs_def] readDouble_def)

section \<open>Variable-length codecs\<close>

lemma u8_less_128_iff: "(b :: u8) < 0x80 \<longleftrightarrow> \<not> bit b 7"
proof -
  have lt: "unat b < 256" using unsigned_less [of b, where 'a = nat] by simp
  have "bit b 7 \<longleftrightarrow> bit (unat b) 7" by (simp add: bit_unsigned_iff)
  also have "\<dots> \<longleftrightarrow> odd (unat b div 128)" by (simp add: bit_iff_odd)
  also have "\<dots> \<longleftrightarrow> \<not> unat b < 128"
    using lt div_nat_eqI [of 128 1 "unat b"] by (cases "unat b < 128") simp_all
  finally show ?thesis by (simp add: word_less_nat_alt)
qed

lemma readFuint8_t_ok:
  assumes "ba_inv ba" and "holds_at (b # bs) ba"
  shows "readFuint8_t ba = Ret b (advanced 1 ba)"
proof -
  note ha = holds_at_append [of "[b]" bs ba, simplified, OF assms(2,1)]
  have "m_position ba + 1 \<le> m_size ba" using assms(2) by (simp add: holds_at_def)
  moreover have "read_safe 1 ba"
    using ba_structD(1) [OF ba_invD(1) [OF assms(1)]] by (simp add: read_safe_def Suc_leI)
  ultimately show ?thesis
    using ba_read_ok [OF assms(1), of 1] ha(1) ba_invD(3) [OF assms(1)]
    by (simp add: readFuint8_t_def holds_at_def ucast_id)
qed

lemma bit_0x7F [simp]: "bit (0x7F :: int) n \<longleftrightarrow> n < 7"
proof -
  have k: "(0x7F :: int) = mask 7" by (simp add: mask_eq_exp_minus_1)
  show ?thesis unfolding k by (simp only: bit_mask_iff possible_bit_def) simp
qed

lemma bit_0x80 [simp]: "bit (0x80 :: int) n \<longleftrightarrow> n = 7"
proof -
  have k: "(0x80 :: int) = 2 ^ 7" by simp
  show ?thesis unfolding k by (simp only: bit_exp_iff possible_bit_def) auto
qed

lemma varint_high_byte:
  fixes v :: "'a::len word"
  assumes "LENGTH('a) \<ge> 8"
  shows "\<not> (ucast ((v AND 0x7F) OR 0x80) :: u8) < 0x80"
    and "ucast ((ucast ((v AND 0x7F) OR 0x80) :: u8) AND 0x7F) = v AND 0x7F"
proof -
  show "\<not> (ucast ((v AND 0x7F) OR 0x80) :: u8) < 0x80"
    using assms unfolding u8_less_128_iff
    by (simp add: bit_ucast_iff bit_or_iff)
  show "ucast ((ucast ((v AND 0x7F) OR 0x80) :: u8) AND 0x7F) = v AND 0x7F"
    using assms
    by (auto intro!: bit_word_eqI simp: bit_ucast_iff bit_and_iff bit_or_iff)
qed

lemma varint_low_byte:
  fixes v :: "'a::len word"
  assumes "unat v < 0x80" and "LENGTH('a) \<ge> 8"
  shows "(ucast v :: u8) < 0x80" and "(ucast (ucast v :: u8) :: 'a word) = v"
proof -
  have "unat (ucast v :: u8) = take_bit 8 (unat v)" by (simp only: unsigned_ucast_eq) simp
  also have "\<dots> = unat v" using assms(1) by (intro take_bit_nat_eq_self) simp
  finally have u: "unat (ucast v :: u8) = unat v" .
  show "(ucast v :: u8) < 0x80" using assms(1) u by (simp add: word_less_nat_alt)
  have "unat (ucast (ucast v :: u8) :: 'a word) = take_bit LENGTH('a) (unat v)"
    by (simp only: unsigned_ucast_eq [of "ucast v :: u8"] u)
  also have "\<dots> = unat v" using unsigned_less [of v] by (intro take_bit_nat_eq_self) simp
  finally show "(ucast (ucast v :: u8) :: 'a word) = v" by (simp add: word_unat_eq_iff)
qed

lemma varint_split:
  fixes v :: "'a::len word"
  shows "push_bit i (v AND 0x7F) OR push_bit (i + 7) (drop_bit 7 v) = push_bit i v"
proof (rule bit_word_eqI)
  fix n
  assume "n < LENGTH('a)"
  show "bit (push_bit i (v AND 0x7F) OR push_bit (i + 7) (drop_bit 7 v)) n = bit (push_bit i v) n"
  proof (cases "i + 7 \<le> n")
    case True
    then have "7 + (n - (i + 7)) = n - i" by simp
    with True show ?thesis
      by (auto simp: bit_or_iff bit_push_bit_iff bit_and_iff bit_drop_bit_eq)
  next
    case False
    then show ?thesis
      by (auto simp: bit_or_iff bit_push_bit_iff bit_and_iff bit_imp_le_length)
  qed
qed

text \<open>
  Reading a base-128 integer goes byte by byte, so it is right wherever the bytes lie. The bound
  on \<open>v\<close> is what the loop's \<^verbatim>\<open>i < 32\<close> (or \<^verbatim>\<open>64\<close>) leaves.
\<close>

lemma read_varint_ok:
  fixes v :: "'a::len word"
  assumes "ba_inv ba" and "holds_at (varint_loop v @ bs) ba" and "8 \<le> LENGTH('a)"
    and "i < LENGTH('a)" and "unat v < 2 ^ (LENGTH('a) - i)"
  shows "read_varint i r ba = Ret (r OR push_bit i v) (advanced (length (varint_loop v)) ba)"
  using assms
proof (induction v arbitrary: i r ba rule: varint_loop.induct)
  case (1 v)
  show ?case
  proof (cases "0x80 \<le> unat v")
    case False
    then have vl: "varint_loop v = [ucast v]" by (simp add: varint_loop.simps [of v])
    then have "readFuint8_t ba = Ret (ucast v) (advanced 1 ba)"
      using readFuint8_t_ok [of ba "ucast v" bs] "1.prems" by simp
    then show ?thesis
      using False varint_low_byte [of v] "1.prems" vl by (simp add: read_varint.simps [of i])
  next
    case True
    let ?b = "ucast ((v AND 0x7F) OR 0x80) :: u8"
    have vl: "varint_loop v = ?b # varint_loop (drop_bit 7 v)"
      using True by (simp add: varint_loop.simps [of v])
    then have rd: "readFuint8_t ba = Ret ?b (advanced 1 ba)"
      using readFuint8_t_ok [of ba ?b "varint_loop (drop_bit 7 v) @ bs"] "1.prems"(1,2) by simp
    have ho: "holds_at (varint_loop (drop_bit 7 v) @ bs) (advanced 1 ba)"
      using holds_at_append(2) [of "[?b]" "varint_loop (drop_bit 7 v) @ bs" ba] "1.prems"(1,2) vl by simp
    have "m_position ba + 1 \<le> m_size ba" using "1.prems"(2) vl by (simp add: holds_at_def)
    then have inv: "ba_inv (advanced 1 ba)" using advanced_inv "1.prems"(1) by blast
    have "(2 :: nat) ^ 7 < 2 ^ (LENGTH('a) - i)" using True "1.prems"(5) by simp
    then have "7 < LENGTH('a) - i" by (rule power_less_imp_less_exp [rotated]) simp
    then have i7: "i + 7 < LENGTH('a)" by simp
    have "unat v < 2 ^ (LENGTH('a) - (i + 7)) * 128"
      using "1.prems"(5) i7 power_add [of "2 :: nat" "LENGTH('a) - (i + 7)" 7] by simp
    then have lt: "unat (drop_bit 7 v) < 2 ^ (LENGTH('a) - (i + 7))"
      by (simp add: unat_drop_bit_7 less_mult_imp_div_less)
    have "read_varint i r ba = read_varint (i + 7) (r OR push_bit i (v AND 0x7F)) (advanced 1 ba)"
      using rd varint_high_byte [of v] "1.prems"(3,4) by (simp add: read_varint.simps [of i])
    also have "\<dots> = Ret ((r OR push_bit i (v AND 0x7F)) OR push_bit (i + 7) (drop_bit 7 v))
        (advanced (length (varint_loop (drop_bit 7 v))) (advanced 1 ba))"
      using "1.IH" [OF True inv ho "1.prems"(3) i7 lt] .
    finally show ?thesis
      using vl varint_split [of i v] by (simp add: or.assoc advanced_def cur_at_def)
  qed
qed

lemma length_varint_loop:
  "unat v < 128 ^ k \<Longrightarrow> 0 < k \<Longrightarrow> length (varint_loop v) \<le> k"
proof (induction v arbitrary: k rule: varint_loop.induct)
  case (1 v)
  show ?case
  proof (cases "0x80 \<le> unat v")
    case False
    then show ?thesis using "1.prems" by (simp add: varint_loop.simps [of v])
  next
    case True
    then obtain m where k: "k = Suc m" and m: "0 < m"
      using "1.prems" by (cases k; cases "k - 1") auto
    have "unat (drop_bit 7 v) < 128 ^ m"
      using "1.prems"(1) k by (simp add: unat_drop_bit_7 less_mult_imp_div_less mult.commute)
    then have "length (varint_loop (drop_bit 7 v)) \<le> m" using "1.IH" True m by blast
    then show ?thesis using True k by (simp add: varint_loop.simps [of v])
  qed
qed

lemma ba_codec_varint:
  assumes "8 \<le> LENGTH('a::len)"
  shows "ba_codec (\<lambda>_. varint_loop) (\<lambda>v. ba_write (varint_loop v)) (read_varint 0 0 :: 'a word ba_op) (\<lambda>_. True)"
proof (rule ba_codec.intro)
  fix v :: "'a word" and ba :: bytearray
  assume inv: "ba_inv ba" and blk: "in_block (length (varint_loop v)) ba"
  show "\<exists>ba'. ba_write (varint_loop v) ba = Ret () ba' \<and> written (varint_loop v) ba ba'"
    using ba_write_ok [OF inv in_block_fits [OF inv blk]] .
  assume "holds_at (varint_loop v) ba"
  then show "read_varint 0 0 ba = Ret v (advanced (length (varint_loop v)) ba)"
    using read_varint_ok [OF inv, of v "[]" 0 0] assms unsigned_less [of v, where 'a = nat] by simp
qed

interpretation vuint32: ba_codec "\<lambda>_. varint_loop" writeUint32 readUint32 "\<lambda>_. True"
  using ba_codec_varint [where 'a = 32] by (simp add: writeUint32_def [abs_def] readUint32_def)

interpretation vuint64: ba_codec "\<lambda>_. varint_loop" writeUint64 readUint64 "\<lambda>_. True"
  using ba_codec_varint [where 'a = 64] by (simp add: writeUint64_def [abs_def] readUint64_def)


lemma zigzag_inverse:
  fixes v :: "'a::len word"
  assumes "2 \<le> LENGTH('a)"
  defines "z \<equiv> (if sint v < 0 then (- v) * 2 - 1 else v * 2)"
  shows "drop_bit 1 z XOR - (z AND 1) = v"
proof (cases "sint v < 0")
  case False
  then have top: "\<not> bit v (LENGTH('a) - Suc 0)" by (simp add: bit_last_iff)
  have z: "z = push_bit 1 v" using False by (simp add: z_def push_bit_eq_mult)
  have "z AND 1 = 0" by (rule bit_word_eqI) (auto simp: z bit_and_iff bit_push_bit_iff bit_1_iff simp del: push_bit_Suc)
  moreover have "drop_bit 1 z = v"
  proof (rule bit_word_eqI)
    fix n
    assume n: "n < LENGTH('a)"
    show "bit (drop_bit 1 z) n \<longleftrightarrow> bit v n"
      using n top
      by (cases "n = LENGTH('a) - Suc 0") (auto simp: z bit_drop_bit_eq bit_push_bit_iff simp del: push_bit_Suc drop_bit_Suc)
  qed
  ultimately show ?thesis by simp
next
  case True
  then have top: "bit v (LENGTH('a) - Suc 0)" by (simp add: bit_last_iff)
  have "z = push_bit 1 (NOT v) + 1"
    using True by (simp add: z_def push_bit_eq_mult minus_eq_not_plus_1)
  also have "\<dots> = push_bit 1 (NOT v) OR 1"
    by (rule disjunctive_add) (auto simp: bit_push_bit_iff bit_1_iff simp del: push_bit_Suc)
  finally have z: "z = push_bit 1 (NOT v) OR 1" .
  have "z AND 1 = 1" by (rule bit_word_eqI) (auto simp: z bit_and_iff bit_or_iff)
  moreover have "NOT (drop_bit 1 z) = v"
  proof (rule bit_word_eqI)
    fix n
    assume n: "n < LENGTH('a)"
    show "bit (NOT (drop_bit 1 z)) n \<longleftrightarrow> bit v n"
      using n top assms(1)
      by (cases "n = LENGTH('a) - Suc 0")
        (auto simp: z bit_not_iff bit_drop_bit_eq bit_or_iff bit_push_bit_iff bit_1_iff
          simp del: push_bit_Suc drop_bit_Suc)
  qed
  ultimately show ?thesis by simp
qed

lemma DecodeZigzag32_Encode: "DecodeZigzag32 (EncodeZigzag32 v) = v"
  using zigzag_inverse [of v] by (simp add: DecodeZigzag32_def EncodeZigzag32_def)

lemma DecodeZigzag64_Encode: "DecodeZigzag64 (EncodeZigzag64 v) = v"
  using zigzag_inverse [of v] by (simp add: DecodeZigzag64_def EncodeZigzag64_def)

interpretation vint32: ba_codec "\<lambda>_ v. varint_loop (EncodeZigzag32 v)" writeInt32 readInt32 "\<lambda>_. True"
  using vuint32.wr_ok vuint32.rd_ok
  by unfold_locales (auto simp: writeInt32_def readInt32_def DecodeZigzag32_Encode)

interpretation vint64: ba_codec "\<lambda>_ v. varint_loop (EncodeZigzag64 v)" writeInt64 readInt64 "\<lambda>_. True"
  using vuint64.wr_ok vuint64.rd_ok
  by unfold_locales (auto simp: writeInt64_def readInt64_def DecodeZigzag64_Encode)

section \<open>String codecs\<close>

text \<open>
  A length-prefixed string over any length codec \<open>hdr\<close>: the prefix and the body in sequence. The
  body must be short enough for the prefix type, and for \<^verbatim>\<open>std::string\<close>.
\<close>

lemma ba_codec_body:
  "ba_codec (\<lambda>_ s. s) ba_write (read_body n) (\<lambda>s. length s = n \<and> n \<le> string_max_size)"
proof (rule ba_codec.intro)
  fix s :: "u8 list" and ba :: bytearray
  assume v: "length s = n \<and> n \<le> string_max_size" and inv: "ba_inv ba" and blk: "in_block (length s) ba"
  show "\<exists>ba'. ba_write s ba = Ret () ba' \<and> written s ba ba'"
    using ba_write_ok [OF inv in_block_fits [OF inv blk]] .
  assume "holds_at s ba"
  then show "read_body n ba = Ret s (advanced (length s) ba)"
    using ba_read_holds [OF inv blk] v by (simp add: read_body_def)
qed

lemma ba_codec_string:
  fixes wr_len :: "'b::len word \<Rightarrow> unit ba_op"
  assumes hdr: "ba_codec enc wr_len rd_len (\<lambda>_. True)"
  shows "ba_codec (\<lambda>e s. enc e (of_nat (length s)) @ s)
    (\<lambda>s ba. obind (wr_len (of_nat (length s)) ba) (\<lambda>_. ba_write s))
    (\<lambda>ba. obind (rd_len ba) (\<lambda>len. read_body (unat len)))
    (\<lambda>s. length s < 2 ^ LENGTH('b) \<and> length s \<le> string_max_size)"
proof (rule ba_codec.intro)
  fix s :: "u8 list" and ba :: bytearray
  let ?n = "of_nat (length s) :: 'b word"
  assume v: "length s < 2 ^ LENGTH('b) \<and> length s \<le> string_max_size" and inv: "ba_inv ba"
    and blk: "in_block (length (enc (m_endian ba) ?n @ s)) ba"
  note P = ba_codec_pair [OF hdr ba_codec_body [of "length s"]]
  have vp: "case (?n, s) of (a, b) \<Rightarrow> True \<and> length b = length s \<and> length s \<le> string_max_size"
    using v by simp
  show "\<exists>ba'. obind (wr_len ?n ba) (\<lambda>_. ba_write s) = Ret () ba' \<and>
      written (enc (m_endian ba) ?n @ s) ba ba'"
    using ba_codec.wr_ok [OF P vp inv] blk by simp
  assume "holds_at (enc (m_endian ba) ?n @ s) ba"
  then have "obind (rd_len ba) (\<lambda>a ba. obind (read_body (length s) ba) (\<lambda>b. Ret (a, b))) =
      Ret (?n, s) (advanced (length (enc (m_endian ba) ?n @ s)) ba)"
    using ba_codec.rd_ok [OF P vp inv] blk by simp
  then obtain ba1 where "rd_len ba = Ret ?n ba1"
    and "read_body (length s) ba1 = Ret s (advanced (length (enc (m_endian ba) ?n @ s)) ba)"
    by (auto simp: obind_Ret_iff)
  moreover have "unat ?n = length s" using v by (simp add: unat_of_nat take_bit_nat_eq_self)
  ultimately show "obind (rd_len ba) (\<lambda>len. read_body (unat len)) =
      Ret s (advanced (length (enc (m_endian ba) ?n @ s)) ba)"
    by simp
qed

definition enc_string :: "'b::len itself \<Rightarrow> endian \<Rightarrow> u8 list \<Rightarrow> u8 list" where
  "enc_string _ e s = enc_fixed e (of_nat (length s) :: 'b word) @ s"

interpretation strF16: ba_codec "enc_string TYPE(16)" writeStringF16 readStringF16
    "\<lambda>s. length s < 2 ^ 16 \<and> length s \<le> string_max_size"
  using ba_codec_string [OF fuint16.ba_codec_axioms]
  by (simp add: writeStringF16_def [abs_def] readStringF16_def [abs_def] enc_string_def [abs_def])

interpretation strF32: ba_codec "enc_string TYPE(32)" writeStringF32 readStringF32
    "\<lambda>s. length s < 2 ^ 32 \<and> length s \<le> string_max_size"
  using ba_codec_string [OF fuint32.ba_codec_axioms]
  by (simp add: writeStringF32_def [abs_def] readStringF32_def [abs_def] enc_string_def [abs_def])

interpretation strF64: ba_codec "enc_string TYPE(64)" writeStringF64 readStringF64
    "\<lambda>s. length s < 2 ^ 64 \<and> length s \<le> string_max_size"
  using ba_codec_string [OF fuint64.ba_codec_axioms]
  by (simp add: writeStringF64_def [abs_def] readStringF64_def [abs_def] enc_string_def [abs_def])

interpretation strVint: ba_codec "enc_string TYPE(64)" writeStringVint readStringVint
    "\<lambda>s. length s < 2 ^ 64 \<and> length s \<le> string_max_size"
  using ba_codec_string [OF fuint64.ba_codec_axioms]
  by (simp add: writeStringVint_def [abs_def] readStringVint_def [abs_def] enc_string_def [abs_def])

end
