(* ===== verification/ByteArray_Props.thy ===== *)
theory ByteArray_Props
  imports ByteArray_Codec
begin

text \<open>
  What \<^verbatim>\<open>ByteArray\<close> promises its clients, stated over the methods: the exact behaviour of
  \<open>write\<close> and \<open>read\<close> (errors and null dereferences included), round trips of every typed
  accessor, the scatter/gather views, and the places where the code departs from its comments.
\<close>

section \<open>Scatter/gather views\<close>

definition iov_bytes :: "bytearray \<Rightarrow> iovec list \<Rightarrow> u8 list" where
  "iov_bytes ba bufs = concat (map (\<lambda>v. seg (iov_off v) (iov_len v) (m_nodes ba ! iov_node v)) bufs)"

lemma iov_loop_ok:
  assumes "blocks (m_baseSize ba) (m_nodes ba)" and "i < length (m_nodes ba)"
    and "npos < m_baseSize ba" and "npos + ncap = m_baseSize ba"
    and "i * m_baseSize ba + npos + len \<le> length (m_nodes ba) * m_baseSize ba"
  shows "\<exists>bufs. iov_loop (Some i) npos ncap len acc ba = Ret (acc @ bufs) ba \<and>
    iov_bytes ba bufs = seg (i * m_baseSize ba + npos) len (flat ba)"
  using assms
proof (induction len arbitrary: i npos ncap acc rule: less_induct)
  case (less len)
  let ?b = "m_baseSize ba"
  have node: "node_size ba i = ?b" if "i < length (m_nodes ba)" for i
    using less.prems(1) that by (simp add: node_size_def blocks_def)
  have here: "seg npos k (m_nodes ba ! i) = seg (i * ?b + npos) k (flat ba)" if "k \<le> ncap" for k
    using seg_concat_block [OF less.prems(1,2), of npos k] less.prems(4) that by (simp add: flat_def)
  consider "len = 0" | "0 < len" "len \<le> ncap" | "ncap < len" by linarith
  then show ?case
  proof cases
    case 1
    then show ?thesis by (auto simp: iov_loop.simps [of "Some i"] iov_bytes_def seg_def intro!: exI [of _ "[]"])
  next
    case 2
    then show ?thesis
      using here [of len] by (simp add: iov_loop.simps [of "Some i"] iov_bytes_def)
  next
    case 3
    have "Suc i * ?b < length (m_nodes ba) * ?b" using less.prems(4,5) 3 by simp
    then have j: "Suc i < length (m_nodes ba)" by (simp only: mult_less_cancel2)
    have "\<exists>bufs. iov_loop (Some (Suc i)) 0 ?b (len - ncap)
           (acc @ [\<lparr>iov_node = i, iov_off = npos, iov_len = ncap\<rparr>]) ba =
         Ret ((acc @ [\<lparr>iov_node = i, iov_off = npos, iov_len = ncap\<rparr>]) @ bufs) ba \<and>
       iov_bytes ba bufs = seg (Suc i * ?b + 0) (len - ncap) (flat ba)"
      using less.prems 3 j by (intro less.IH) auto
    then obtain bufs where b: "iov_loop (Some (Suc i)) 0 ?b (len - ncap)
           (acc @ [\<lparr>iov_node = i, iov_off = npos, iov_len = ncap\<rparr>]) ba =
         Ret ((acc @ [\<lparr>iov_node = i, iov_off = npos, iov_len = ncap\<rparr>]) @ bufs) ba"
      "iov_bytes ba bufs = seg (Suc i * ?b) (len - ncap) (flat ba)"
      by auto
    have "seg (i * ?b + npos) ncap (flat ba) @ seg (i * ?b + npos + ncap) (len - ncap) (flat ba) =
        seg (i * ?b + npos) len (flat ba)"
      using 3 seg_append_seg [of "i * ?b + npos" ncap "len - ncap" "flat ba"] by simp
    moreover have "i * ?b + npos + ncap = Suc i * ?b" using less.prems(4) by simp
    ultimately show ?thesis
      using 3 b j here [of ncap] node [OF j]
      by (intro exI [of _ "\<lparr>iov_node = i, iov_off = npos, iov_len = ncap\<rparr> # bufs"])
        (simp add: iov_loop.simps [of "Some i"] next_node_def iov_bytes_def)
  qed
qed


lemma getReadBuffers_ok:
  assumes "ba_inv ba"
  shows "\<exists>bufs. getReadBuffers n ba = Ret (min n (getReadSize ba), bufs) ba \<and>
    iov_bytes ba bufs = seg (m_position ba) (min n (getReadSize ba)) (content ba)"
proof (cases "min n (getReadSize ba) = 0")
  case True
  then show ?thesis
    by (auto simp: getReadBuffers_def iov_bytes_def min_def split: if_splits)
next
  case False
  let ?n = "min n (getReadSize ba)" and ?b = "m_baseSize ba"
  note inv = ba_invD [OF assms] and st = ba_structD [OF ba_invD(1) [OF assms]]
  have n: "(if n > getReadSize ba then getReadSize ba else n) = ?n" by (simp add: min_def)
  have lt: "m_position ba + ?n \<le> m_size ba" "0 < ?n"
    using False inv by (auto simp: getReadSize_def)
  then have "m_position ba < length (m_nodes ba) * ?b" using st(4) inv(3) by linarith
  then have "m_cur ba = Some (m_position ba div ?b)" and i: "m_position ba div ?b < length (m_nodes ba)"
    using st(6) by (simp_all add: cur_at_def less_mult_imp_div_less)
  moreover obtain bufs where "iov_loop (Some (m_position ba div ?b)) (m_position ba mod ?b)
        (?b - m_position ba mod ?b) ?n [] ba = Ret ([] @ bufs) ba"
      and v: "iov_bytes ba bufs = seg (m_position ba div ?b * ?b + m_position ba mod ?b) ?n (flat ba)"
    using iov_loop_ok [OF st(3) i, of "m_position ba mod ?b" "?b - m_position ba mod ?b" ?n "[]"] st inv lt
    by auto
  ultimately have "getReadBuffers n ba = Ret (?n, bufs) ba"
    using False st(1) blocks_nth [OF st(3) i] unfolding getReadBuffers_def n
    by (auto simp: node_size_def Let_def min_def split: if_splits)
  moreover have "seg (m_position ba) ?n (content ba) = seg (m_position ba) ?n (flat ba)"
    using lt by (simp add: content_def seg_def drop_take take_take)
  ultimately show ?thesis using v by simp
qed

lemma unat_bound: "unat (v :: 'a::len word) < 2 ^ LENGTH('a)"
  by (rule unsigned_less)

section \<open>Round trips, packaged\<close>

text \<open>\<open>roundtrips wr rd v ba\<close>: writing \<open>v\<close>, moving back and reading gives \<open>v\<close>, with the cursor just
  behind it and the content untouched.\<close>

definition roundtrips :: "('a \<Rightarrow> unit ba_op) \<Rightarrow> 'a ba_op \<Rightarrow> 'a \<Rightarrow> bytearray \<Rightarrow> bool" where
  "roundtrips wr rd v ba \<longleftrightarrow> (\<exists>ba1 ba2 ba3. wr v ba = Ret () ba1 \<and>
     setPosition (m_position ba) ba1 = Ret () ba2 \<and> rd ba2 = Ret v ba3 \<and>
     m_position ba3 = m_position ba1 \<and> content ba3 = content ba1 \<and> ba_inv ba3)"

lemma roundtripsI:
  assumes "ba_codec enc wr rd valid" and "valid v" and "ba_inv ba" and "in_block n ba"
    and "length (enc (m_endian ba) v) \<le> n"
  shows "roundtrips wr rd v ba"
  unfolding roundtrips_def
  using ba_codec.roundtrip [OF assms(1,2,3) in_block_mono [OF assms(4,5)]] .


section \<open>Properties\<close>

text \<open>C1. \<open>write\<close>: on a well-formed array a write either is exactly a list overwrite at the position
  (extending the content when it runs past its end, and keeping the invariant), or, when
  \<open>addCapacity\<close> adds too few blocks, dereferences the null pointer at the end of the chain; which
  of the two happens is decided by \<open>write_fits\<close>.\<close>

theorem write_exact:
  assumes "ba_inv ba"
  shows "if write_fits (length bs) ba
    then \<exists>ba'. ba_write bs ba = Ret () ba' \<and> ba_inv ba' \<and>
           content ba' = overwrite (m_position ba) bs (content ba) \<and>
           m_position ba' = m_position ba + length bs \<and>
           m_size ba' = max (m_size ba) (m_position ba') \<and>
           m_baseSize ba' = m_baseSize ba \<and> m_endian ba' = m_endian ba
    else ba_write bs ba = Undef NullDeref"
  using ba_write_ok [OF assms] ba_write_fault [OF assms] by (auto simp: written_def)

theorem write_exact_witness:
  "\<exists>ba'. ba_write [1, 2, 3] (ByteArray (\<lambda>_. 0) 8) = Ret () ba' \<and> content ba' = [1, 2, 3]"
proof -
  have "write_fits (length [1, 2, 3 :: u8]) (ByteArray (\<lambda>_. 0) 8)" by code_simp
  moreover have "overwrite (m_position (ByteArray (\<lambda>_. 0) 8)) [1, 2, 3] (content (ByteArray (\<lambda>_. 0) 8)) = [1, 2, 3]"
    by code_simp
  ultimately show ?thesis
    using write_exact [OF ba_inv_new [of 8 "\<lambda>_. 0"], of "[1, 2, 3]"] by auto
qed









text \<open>\<open>getReadBuffers\<close>: the views it returns denote exactly the next \<open>min n (getReadSize)\<close> bytes of
  the content, across any number of blocks, and the array is unchanged.\<close>

theorem getReadBuffers_views:
  assumes "ba_inv ba"
  shows "\<exists>bufs. getReadBuffers n ba = Ret (min n (getReadSize ba), bufs) ba \<and>
    iov_bytes ba bufs = seg (m_position ba) (min n (getReadSize ba)) (content ba)"
  using getReadBuffers_ok [OF assms] .

theorem getReadBuffers_views_witness:
  "\<exists>bufs. getReadBuffers 4 (ByteArray (\<lambda>_. 0) 8) = Ret (0, bufs) (ByteArray (\<lambda>_. 0) 8)"
proof -
  have "getReadSize (ByteArray (\<lambda>_. 0) 8) = 0" by code_simp
  then show ?thesis using getReadBuffers_views [OF ba_inv_new [of 8 "\<lambda>_. 0"], of 4] by auto
qed

text \<open>\<open>setPosition\<close>: moves to any position up to the capacity and raises \<^verbatim>\<open>std::out_of_range\<close>
  beyond it; the invariant and the stored bytes are kept, and the size only grows.\<close>

theorem setPosition_exact:
  assumes "ba_inv ba"
  shows "if v \<le> m_capacity ba
    then \<exists>ba'. setPosition v ba = Ret () ba' \<and> ba_inv ba' \<and> m_position ba' = v \<and>
           m_size ba' = max v (m_size ba) \<and> flat ba' = flat ba
    else setPosition v ba = Throw OutOfRange ba"
proof (cases "v \<le> m_capacity ba")
  case True
  then show ?thesis
    using setPosition_ok [OF ba_invD(1) [OF assms] True] setPosition_content(1-4) [OF assms] by auto
qed (simp add: setPosition_def)

theorem setPosition_exact_witness:
  "setPosition 9 (ByteArray (\<lambda>_. 0) 8) = Throw OutOfRange (ByteArray (\<lambda>_. 0) 8)"
proof -
  have "\<not> 9 \<le> m_capacity (ByteArray (\<lambda>_. 0) 8)" by code_simp
  then show ?thesis using setPosition_exact [OF ba_inv_new [of 8 "\<lambda>_. 0"], of 9] by simp
qed

section \<open>Where the code departs from its comments\<close>

text \<open>A fresh array cannot take a first write longer than a block unless the length is a multiple of
  the block size: \<open>addCapacity\<close> compares the remainder with the old free capacity, adds one block
  too few, and the write faults.\<close>

theorem fresh_write_faults:
  assumes "0 < b" and "b < length bs" and "length bs mod b \<noteq> 0"
  shows "ba_write bs (ByteArray junk b) = Undef NullDeref"
proof (rule ba_write_fault [OF ba_inv_new [OF assms(1)]])
  have "(length bs - b) mod b = length bs mod b"
    using assms(2) by (metis le_mod_geq less_imp_le)
  then show "\<not> write_fits (length bs) (ByteArray junk b)"
    using assms by (simp add: write_fits_def getCapacity_def ByteArray_def not_less less_imp_le)
qed

theorem fresh_write_faults_witness:
  "ba_write [1, 2, 3, 4, 5] (ByteArray (\<lambda>_. 0) 4) = Undef NullDeref"
  using fresh_write_faults [of 4 "[1, 2, 3, 4, 5]" "\<lambda>_. 0"] by simp

text \<open>\<open>crossing_read\<close>: 12 bytes in three 4-byte blocks, a move and a read.\<close>

definition crossing_read :: "nat \<Rightarrow> nat \<Rightarrow> (bytearray, u8 list) outcome" where
  "crossing_read pos n =
     obind (ba_write [1, 2, 3, 4, 5, 6, 7, 8, 9, 10, 11, 12] (ByteArray (\<lambda>_. 0) 4)) (\<lambda>_ ba.
     obind (setPosition pos ba) (\<lambda>_. ba_read n))"

text \<open>A read that crosses a block boundary from the middle of a block keeps the free space of its
  first block as \<^verbatim>\<open>ncap\<close>: of the content 1, ..., 12 in 4-byte blocks it returns 4, 5, 9 for the
  three bytes at position 3, and dereferences the null pointer for the seven bytes there.\<close>

theorem read_crossing_blocks:
  "(\<exists>ba. crossing_read 3 3 = Ret [4, 5, 9] ba) \<and> crossing_read 3 7 = Undef NullDeref \<and>
   seg 3 3 [1, 2, 3, 4, 5, 6, 7, 8, 9, 10, 11, 12 :: u8] = [4, 5, 6]"
proof -
  have "case crossing_read 3 3 of Ret bs _ \<Rightarrow> bs = [4, 5, 9] | _ \<Rightarrow> False" by code_simp
  moreover have "case crossing_read 3 7 of Undef NullDeref \<Rightarrow> True | _ \<Rightarrow> False" by code_simp
  moreover have "seg 3 3 [1, 2, 3, 4, 5, 6, 7, 8, 9, 10, 11, 12 :: u8] = [4, 5, 6]" by code_simp
  ultimately show ?thesis by (auto split: outcome.splits ub.splits)
qed

text \<open>\<open>clear\<close> keeps \<open>m_size\<close>, although its comment promises \<^verbatim>\<open>m_size = 0\<close>: the old byte count
  stays readable, and where it exceeds one block a read of it runs off the only block left.\<close>

theorem clear_keeps_size:
  assumes "ba_inv ba"
  shows "\<exists>ba'. clear ba = Ret () ba' \<and> ba_struct ba' \<and> m_position ba' = 0 \<and>
    m_capacity ba' = m_baseSize ba \<and> getReadSize ba' = m_size ba"
proof -
  note st = ba_structD [OF ba_invD(1) [OF assms]]
  have "take 1 (m_nodes ba) = [hd (m_nodes ba)]" using st(2) by (cases "m_nodes ba") simp_all
  moreover have "length (hd (m_nodes ba)) = m_baseSize ba"
    using st(2,3) by (cases "m_nodes ba") simp_all
  ultimately show ?thesis
    using st(1) by (simp add: clear_def ba_struct_def cur_at_def getReadSize_def)
qed

theorem clear_keeps_size_witness:
  "\<exists>ba'. clear (ByteArray (\<lambda>_. 0) 8) = Ret () ba' \<and> m_position ba' = 0"
  using clear_keeps_size [OF ba_inv_new [of 8 "\<lambda>_. 0"]] by auto

end
