(* ===== verification/HashUtil.thy ===== *)
theory HashUtil
  imports Endian
begin

text \<open>
  \<^verbatim>\<open>src/cxk/util/hash_util.cpp\<close>: MurmurHash3, base64, hexadecimal and string utilities. A
  \<^verbatim>\<open>std::string\<close> is a \<open>u8 list\<close>; \<^verbatim>\<open>c_str()\<close> consumers see it up to the first zero byte. The
  OpenSSL digests are a parameter \<open>H\<close>, the function from the bytes fed to \<^verbatim>\<open>Update\<close> to the digest.
  The main results are the two round trips (\<open>base64decode_encode\<close>, \<open>data_hexstring\<close>), the
  split/join law, and that \<open>replace\<close> terminates and is a homomorphism.
\<close>

section \<open>MurmurHash3\<close>

definition ROTL :: "u32 \<Rightarrow> nat \<Rightarrow> u32" where
  "ROTL x r = push_bit r x OR drop_bit (32 - r) x"

definition fmix32 :: "u32 \<Rightarrow> u32" where
  "fmix32 h =
     (let h = h XOR drop_bit 16 h; h = h * 0x85ebca6b;
          h = h XOR drop_bit 13 h; h = h * 0xc2b2ae35;
          h = h XOR drop_bit 16 h
      in h)"

definition murmur_scramble :: "u32 \<Rightarrow> u32" where
  "murmur_scramble s = (let s = s * 0xcc9e2d51; s = ROTL s 15 in s * 0x1b873593)"

definition murmur_block :: "u32 \<Rightarrow> u32 \<Rightarrow> u32" where
  "murmur_block s h = (let h = h XOR murmur_scramble s; h = ROTL h 13; h = h * 5 in h + 0xe6546b64)"

fun murmur_blocks :: "u8 list \<Rightarrow> u32 \<Rightarrow> u32 \<times> u8 list" where
  "murmur_blocks (a # b # c # d # rest) h = murmur_blocks rest (murmur_block (bytes_word [a, b, c, d]) h)"
| "murmur_blocks tail h = (h, tail)"

definition murmur_tail :: "u8 list \<Rightarrow> u32 \<Rightarrow> u32" where
  "murmur_tail tail h =
     (case tail of
        [t0, t1, t2] \<Rightarrow> h XOR murmur_scramble (push_bit 16 (ucast t2) OR push_bit 8 (ucast t1) OR ucast t0)
      | [t0, t1] \<Rightarrow> h XOR murmur_scramble (push_bit 8 (ucast t1) OR ucast t0)
      | [t0] \<Rightarrow> h XOR murmur_scramble (ucast t0)
      | _ \<Rightarrow> h)"

definition murmur3_hash :: "u8 list option \<Rightarrow> u32 \<Rightarrow> u32" where
  "murmur3_hash data seed =
     (case data of None \<Rightarrow> 0
      | Some bs \<Rightarrow>
          let (h, tail) = murmur_blocks bs seed; h = murmur_tail tail h
          in fmix32 (h XOR of_nat (length bs)))"

definition c_str :: "u8 list \<Rightarrow> u8 list" where
  "c_str s = takeWhile (\<lambda>c. c \<noteq> 0) s"

definition murmur3_hash_str :: "u8 list option \<Rightarrow> u32 \<Rightarrow> u32" where
  "murmur3_hash_str str seed =
     (case str of None \<Rightarrow> 0
      | Some s \<Rightarrow>
          let bs = c_str s; (h, tail) = murmur_blocks bs seed; h = murmur_tail tail h
          in fmix32 (h XOR of_nat (length bs)))"

definition murmur3_hash64 :: "u8 list option \<Rightarrow> u32 \<Rightarrow> u32 \<Rightarrow> u64" where
  "murmur3_hash64 str seed seed2 =
     push_bit 32 (ucast (murmur3_hash str seed)) OR ucast (murmur3_hash str seed2)"

definition murmur3_hash64_str :: "u8 list option \<Rightarrow> u32 \<Rightarrow> u32 \<Rightarrow> u64" where
  "murmur3_hash64_str str seed seed2 =
     push_bit 32 (ucast (murmur3_hash_str str seed)) OR ucast (murmur3_hash_str str seed2)"

text \<open>\<open>quick_hash\<close>: \<^verbatim>\<open>*str\<close> is a signed \<^verbatim>\<open>char\<close> and is sign-extended. The overload with a size
  never advances its pointer.\<close>

definition quick_hash :: "u8 list \<Rightarrow> u32" where
  "quick_hash str = fold (\<lambda>c h. 31 * h + scast c) (c_str str) 0"

primrec quick_hash_buf :: "u8 list \<Rightarrow> nat \<Rightarrow> u32" where
  "quick_hash_buf tmp 0 = 0"
| "quick_hash_buf tmp (Suc i) = 31 * quick_hash_buf tmp i + scast (hd tmp)"

section \<open>Base64\<close>

definition b64_table :: "u8 list" where
  "b64_table = map of_char ''ABCDEFGHIJKLMNOPQRSTUVWXYZabcdefghijklmnopqrstuvwxyz0123456789+/''"

definition b64_pad :: u8 where "b64_pad = of_char CHR ''=''"

definition b64_val :: "u8 \<Rightarrow> u32 option" where
  "b64_val c =
     (if 65 \<le> c \<and> c \<le> 90 then Some (ucast c - 65)
      else if 97 \<le> c \<and> c \<le> 122 then Some (ucast c - 97 + 26)
      else if 48 \<le> c \<and> c \<le> 57 then Some (ucast c - 48 + 52)
      else if c = 43 then Some 62
      else if c = 47 then Some 63
      else None)"

fun b64_quad :: "nat \<Rightarrow> nat \<Rightarrow> u32 \<Rightarrow> u8 list \<Rightarrow> (nat \<times> nat \<times> u32 \<times> u8 list) option" where
  "b64_quad i padding packed [] = Some (i, padding, packed, [])"
| "b64_quad i padding packed (c # rest) =
     (if i \<ge> 4 then Some (i, padding, packed, c # rest)
      else if c = b64_pad then b64_quad (Suc i) (Suc padding) (push_bit 6 packed) rest
      else if padding > 0 then None
      else case b64_val c of None \<Rightarrow> None
           | Some val \<Rightarrow> b64_quad (Suc i) padding (push_bit 6 packed OR val) rest)"

lemma b64_quad_shorter:
  "b64_quad i p k src = Some (i', p', k', rest) \<Longrightarrow>
   length rest \<le> length src \<and> (i < 4 \<longrightarrow> src \<noteq> [] \<longrightarrow> length rest < length src)"
  by (induction i p k src rule: b64_quad.induct) (fastforce split: if_splits option.splits)+

function base64decode_loop :: "u8 list \<Rightarrow> u8 list \<Rightarrow> u8 list option" where
  "base64decode_loop src out =
     (if src = [] then Some out
      else case b64_quad 0 0 0 src of None \<Rightarrow> None
      | Some (i, padding, packed, rest) \<Rightarrow>
          if i \<noteq> 4 then None
          else if padding > 0 \<and> rest \<noteq> [] then None
          else if padding > 2 then None
          else base64decode_loop rest
                 (out @ [ucast (drop_bit 16 packed AND 0xff)]
                   @ (if padding \<noteq> 2 then [ucast (drop_bit 8 packed AND 0xff)] else [])
                   @ (if padding = 0 then [ucast (packed AND 0xff)] else [])))"
  by pat_completeness auto
termination
  by (relation "measure (\<lambda>(src, out). length src)") (auto dest: b64_quad_shorter)

declare base64decode_loop.simps [simp del]

definition base64decode :: "u8 list \<Rightarrow> u8 list" where
  "base64decode src = (case base64decode_loop src [] of None \<Rightarrow> [] | Some out \<Rightarrow> out)"

definition b64_at :: "u32 \<Rightarrow> u8" where
  "b64_at x = b64_table ! unat x"

definition b64_pack :: "u8 list \<Rightarrow> u32" where
  "b64_pack chunk =
     push_bit (8 * (3 - length chunk)) (fold (\<lambda>b packed. push_bit 8 packed OR ucast b) chunk 0)"

definition b64_chunk :: "u8 list \<Rightarrow> u8 list" where
  "b64_chunk chunk =
     (let i = length chunk;
          padding = (if i = 2 then 1 else if i = 1 then 2 else 0);
          packed = b64_pack chunk
      in [b64_at (drop_bit 18 packed), b64_at (drop_bit 12 packed AND 0x3f)]
           @ (if padding \<noteq> 2 then [b64_at (drop_bit 6 packed AND 0x3f)] else [])
           @ (if padding = 0 then [b64_at (packed AND 0x3f)] else [])
           @ replicate padding b64_pad)"

function base64encode :: "u8 list \<Rightarrow> u8 list" where
  "base64encode data = (if data = [] then [] else b64_chunk (take 3 data) @ base64encode (drop 3 data))"
  by pat_completeness auto
termination
  by (relation "measure length") auto

declare base64encode.simps [simp del]

section \<open>Digests\<close>

definition xorStruct :: "u8 \<Rightarrow> u8 \<Rightarrow> u8" where
  "xorStruct m_value input = input XOR m_value"

definition hmac :: "(u8 list \<Rightarrow> u8 list) \<Rightarrow> nat \<Rightarrow> u8 list \<Rightarrow> u8 list \<Rightarrow> u8 list" where
  "hmac H B text key =
     (let keyLocal = (if length key > B then H key else key);
          keyLocal = keyLocal @ replicate (B - length keyLocal) 0;
          ipad = map (xorStruct 0x36) keyLocal;
          opad = map (xorStruct 0x5c) keyLocal;
          result = H (take B ipad @ text)
      in H (take B opad @ result))"

text \<open>The instances: all three digests have 64-byte blocks (\<^verbatim>\<open>MD5_CBLOCK\<close>, \<^verbatim>\<open>SHA_CBLOCK\<close>,
  \<^verbatim>\<open>SHA256_CBLOCK\<close>).\<close>

definition hmac_md5 :: "(u8 list \<Rightarrow> u8 list) \<Rightarrow> u8 list \<Rightarrow> u8 list \<Rightarrow> u8 list" where
  "hmac_md5 MD5 text key = hmac MD5 64 text key"

definition hmac_sha1 :: "(u8 list \<Rightarrow> u8 list) \<Rightarrow> u8 list \<Rightarrow> u8 list \<Rightarrow> u8 list" where
  "hmac_sha1 SHA1 text key = hmac SHA1 64 text key"

definition hmac_sha256 :: "(u8 list \<Rightarrow> u8 list) \<Rightarrow> u8 list \<Rightarrow> u8 list \<Rightarrow> u8 list" where
  "hmac_sha256 SHA256 text key = hmac SHA256 64 text key"

section \<open>Hexadecimal\<close>

definition hex_char :: "u8 \<Rightarrow> u8" where
  "hex_char c = (if c > 9 then c + 97 - 10 else c + 48)"

fun hexstring_from_data :: "u8 list \<Rightarrow> u8 list" where
  "hexstring_from_data [] = []"
| "hexstring_from_data (b # bs) =
     hex_char (drop_bit 4 b AND 0xf) # hex_char (b AND 0xf) # hexstring_from_data bs"

definition md5 :: "(u8 list \<Rightarrow> u8 list) \<Rightarrow> u8 list \<Rightarrow> u8 list" where
  "md5 md5sum data = hexstring_from_data (md5sum data)"

definition sha1 :: "(u8 list \<Rightarrow> u8 list) \<Rightarrow> u8 list \<Rightarrow> u8 list" where
  "sha1 sha1sum data = hexstring_from_data (sha1sum data)"

definition hex_val :: "u8 \<Rightarrow> u8 option" where
  "hex_val c =
     (if 97 \<le> c \<and> c \<le> 102 then Some (c - 97 + 10)
      else if 65 \<le> c \<and> c \<le> 70 then Some (c - 65 + 10)
      else if 48 \<le> c \<and> c \<le> 57 then Some (c - 48)
      else None)"

fun hex_pairs :: "u8 list \<Rightarrow> exn + u8 list" where
  "hex_pairs (x # y # rest) =
     (case hex_val x of None \<Rightarrow> Inl InvalidArgument
      | Some h \<Rightarrow> (case hex_val y of None \<Rightarrow> Inl InvalidArgument
         | Some l \<Rightarrow> (case hex_pairs rest of Inl e \<Rightarrow> Inl e
             | Inr bs \<Rightarrow> Inr ((push_bit 4 h OR l) # bs))))"
| "hex_pairs _ = Inr []"

definition data_from_hexstring :: "u8 list \<Rightarrow> exn + u8 list" where
  "data_from_hexstring hexstring =
     (if length hexstring mod 2 \<noteq> 0 then Inl InvalidArgument
      else if length hexstring = 0 then Inr []
      else hex_pairs hexstring)"

section \<open>String utilities\<close>

text \<open>\<open>find_if P s from\<close> is \<^verbatim>\<open>s.find(c, from)\<close> and \<^verbatim>\<open>s.find_first_of(cs, from)\<close>; \<open>None\<close> is \<^verbatim>\<open>npos\<close>.\<close>

definition find_if :: "(u8 \<Rightarrow> bool) \<Rightarrow> u8 list \<Rightarrow> nat \<Rightarrow> nat option" where
  "find_if P s from =
     (let k = length (takeWhile (\<lambda>c. \<not> P c) (drop from s))
      in if from + k < length s then Some (from + k) else None)"

lemma find_if_SomeD:
  assumes "find_if P s from = Some i"
  shows "from \<le> i" "i < length s" "P (s ! i)" "\<forall>c \<in> set (seg from (i - from) s). \<not> P c"
proof -
  let ?k = "length (takeWhile (\<lambda>c. \<not> P c) (drop from s))"
  have i: "i = from + ?k" "from + ?k < length s"
    using assms by (auto simp: find_if_def Let_def split: if_splits)
  then show "from \<le> i" "i < length s" by simp_all
  have "?k < length (drop from s)" using i by simp
  then have "P (drop from s ! ?k)" using nth_length_takeWhile by blast
  then show "P (s ! i)" using i by simp
  have "seg from (i - from) s = takeWhile (\<lambda>c. \<not> P c) (drop from s)"
    using i by (simp add: seg_def takeWhile_eq_take [symmetric])
  then show "\<forall>c \<in> set (seg from (i - from) s). \<not> P c" by (auto dest: set_takeWhileD)
qed

lemma find_if_bounds: "find_if P s from = Some i \<Longrightarrow> from \<le> i \<and> i < length s"
  using find_if_SomeD(1,2) by blast

function replace_chr_loop :: "u8 list \<Rightarrow> u8 \<Rightarrow> u8 \<Rightarrow> nat \<Rightarrow> u8 list" where
  "replace_chr_loop str f r from =
     (case find_if (\<lambda>c. c = f) str from of None \<Rightarrow> str
      | Some index \<Rightarrow> replace_chr_loop (str[index := r]) f r (index + 1))"
  by pat_completeness auto
termination
  by (relation "measure (\<lambda>(str, f, r, from). length str - from)") (auto dest!: find_if_bounds)

definition replace_chr :: "u8 list \<Rightarrow> u8 \<Rightarrow> u8 \<Rightarrow> u8 list" where
  "replace_chr str f replaceWith = replace_chr_loop str f replaceWith 0"

function replace_chr_str_loop :: "u8 list \<Rightarrow> u8 \<Rightarrow> u8 list \<Rightarrow> nat \<Rightarrow> u8 list" where
  "replace_chr_str_loop str f r from =
     (case find_if (\<lambda>c. c = f) str from of None \<Rightarrow> str
      | Some index \<Rightarrow>
          replace_chr_str_loop (take index str @ r @ drop (index + 1) str) f r (index + length r))"
  by pat_completeness auto
termination
  by (relation "measure (\<lambda>(str, f, r, from). length str - from)") (auto dest!: find_if_bounds)

definition replace_chr_str :: "u8 list \<Rightarrow> u8 \<Rightarrow> u8 list \<Rightarrow> u8 list" where
  "replace_chr_str str f replaceWith = replace_chr_str_loop str f replaceWith 0"

declare replace_chr_loop.simps [simp del] replace_chr_str_loop.simps [simp del]

text \<open>\<open>split\<close>: \<^verbatim>\<open>--max == 1\<close> is arithmetic on \<^verbatim>\<open>size_t\<close>, so \<open>max\<close> is a 64-bit word.\<close>

function split_loop :: "(u8 \<Rightarrow> bool) \<Rightarrow> u8 list \<Rightarrow> nat \<Rightarrow> u64 \<Rightarrow> u8 list list" where
  "split_loop P str lst mx =
     (case find_if P str lst of None \<Rightarrow> [drop lst str]
      | Some pos \<Rightarrow>
          seg lst (pos - lst) str #
            (if mx - 1 = 1 then [drop (pos + 1) str] else split_loop P str (pos + 1) (mx - 1)))"
  by pat_completeness auto
termination
  by (relation "measure (\<lambda>(P, str, lst, mx). length str - lst)") (auto dest!: find_if_bounds)

declare split_loop.simps [simp del]

definition split_chr :: "u8 list \<Rightarrow> u8 \<Rightarrow> u64 \<Rightarrow> u8 list list" where
  "split_chr str delim mx = (if str = [] then [] else split_loop (\<lambda>c. c = delim) str 0 mx)"

definition split_any :: "u8 list \<Rightarrow> u8 list \<Rightarrow> u64 \<Rightarrow> u8 list list" where
  "split_any str delims mx = (if str = [] then [] else split_loop (\<lambda>c. c \<in> set delims) str 0 mx)"

text \<open>\<open>random_string\<close>: the values of \<^verbatim>\<open>rand()\<close> are an argument. \<^verbatim>\<open>sizeof(CHARS)\<close> counts the
  terminating zero byte.\<close>

definition random_CHARS :: "u8 list" where
  "random_CHARS =
     map of_char ''0123456789abcdefghijklmnopqrstuvwxyzABCDEFGHIJKLMNOPQRSTUVWXYZ'' @ [0]"

definition random_string :: "(nat \<Rightarrow> nat) \<Rightarrow> nat \<Rightarrow> u8 list" where
  "random_string rand len = map (\<lambda>i. random_CHARS ! (rand i mod length random_CHARS)) [0..<len]"


section \<open>Base64 round trip\<close>

lemma b64_val_table:
  assumes "unat x < 64"
  shows "b64_val (b64_at x) = Some x" and "b64_at x \<noteq> b64_pad"
proof -
  have vals: "map b64_val b64_table = map (\<lambda>i. Some (of_nat i)) [0..<64]"
    and pad: "b64_pad \<notin> set b64_table" and len: "length b64_table = 64"
    by (simp_all add: b64_table_def b64_val_def b64_pad_def upt_conv_Cons)
  have "map b64_val b64_table ! unat x = Some (of_nat (unat x))"
    unfolding vals using assms by simp
  then have "b64_val (b64_table ! unat x) = Some (of_nat (unat x)) \<and> b64_table ! unat x \<noteq> b64_pad"
    using assms len pad by (metis nth_map nth_mem)
  then show "b64_val (b64_at x) = Some x" and "b64_at x \<noteq> b64_pad"
    by (simp_all add: b64_at_def)
qed

lemma and_0x3f_less: "unat ((x :: u32) AND 0x3f) < 64"
proof -
  have "x AND 0x3f \<le> 0x3f" by (rule word_and_le1)
  then show ?thesis by (simp add: word_le_nat_alt)
qed

lemma drop_18_less:
  assumes "unat (x :: u32) < 2 ^ 24"
  shows "unat (drop_bit 18 x) < 64"
proof -
  have "unat (drop_bit 18 x) = unat x div 2 ^ 18" by (subst unat_drop_bit_eq) (simp add: drop_bit_eq_div)
  then show ?thesis using assms by simp
qed

lemma bit_0x3f [simp]: "bit (0x3f :: int) n \<longleftrightarrow> n < 6"
proof -
  have k: "(0x3f :: int) = mask 6" by (simp add: mask_eq_exp_minus_1)
  show ?thesis unfolding k by (simp only: bit_mask_iff possible_bit_def) simp
qed

lemma bit_0xff [simp]: "bit (0xff :: int) n \<longleftrightarrow> n < 8"
proof -
  have k: "(0xff :: int) = mask 8" by (simp add: mask_eq_exp_minus_1)
  show ?thesis unfolding k by (simp only: bit_mask_iff possible_bit_def) simp
qed

text \<open>The sextets of a group put it together again, one at a time.\<close>

lemma b64_group_step:
  "push_bit 6 (drop_bit (6 + m) x) OR (drop_bit m x AND 0x3f) = drop_bit m (x :: u32)"
proof (rule bit_word_eqI)
  fix n
  assume n: "n < LENGTH(32)"
  show "bit (push_bit 6 (drop_bit (6 + m) x) OR (drop_bit m x AND 0x3f)) n = bit (drop_bit m x) n"
  proof (cases "6 \<le> n")
    case True
    then have "6 + m + (n - 6) = m + n" by simp
    with True n show ?thesis
      by (auto simp: bit_or_iff bit_push_bit_iff bit_and_iff bit_drop_bit_eq)
  next
    case False
    then show ?thesis
      by (auto simp: bit_or_iff bit_push_bit_iff bit_and_iff bit_drop_bit_eq)
  qed
qed

lemma b64_regroup:
  "push_bit 6 (push_bit 6 (push_bit 6 (drop_bit 18 x) OR (drop_bit 12 x AND 0x3f))
     OR (drop_bit 6 x AND 0x3f)) OR (x AND 0x3f) = (x :: u32)"
  using b64_group_step [of 12 x] b64_group_step [of 6 x] b64_group_step [of 0 x] by simp

text \<open>The bytes of a group, one at a time.\<close>

lemma pack_low: "ucast ((push_bit 8 y OR ucast b) AND 0xff) = (b :: u8)" for y :: u32
  by (rule bit_word_eqI) (auto simp: bit_ucast_iff bit_and_iff bit_or_iff bit_push_bit_iff)

lemma pack_high:
  assumes "unat (y :: u32) < 2 ^ 24"
  shows "drop_bit 8 (push_bit 8 y OR ucast (b :: u8)) = y"
proof (rule bit_word_eqI)
  fix n
  assume n: "n < LENGTH(32)"
  have y: "take_bit 24 (unat y) = unat y" using assms by (rule take_bit_nat_eq_self)
  have "\<not> bit (unat y) n" if "24 \<le> n" using that y bit_take_bit_iff [of 24 "unat y" n] by simp
  then have "24 \<le> n \<Longrightarrow> \<not> bit y n" using n by (simp add: bit_unsigned_iff)
  then show "bit (drop_bit 8 (push_bit 8 y OR ucast b)) n = bit y n"
    using n bit_imp_le_length [of b "8 + n"]
    by (cases "24 \<le> n") (auto simp: bit_drop_bit_eq bit_or_iff bit_push_bit_iff bit_ucast_iff)
qed

lemma unat_ucast_u8: "unat (ucast (b :: u8) :: u32) = unat b"
proof -
  have "unat (ucast b :: u32) = take_bit 32 (unat b)" by (simp only: unsigned_ucast_eq) simp
  also have "\<dots> = unat b"
    using unsigned_less [of b, where 'a = nat] by (intro take_bit_nat_eq_self) simp
  finally show ?thesis .
qed

lemma pack_less:
  assumes "unat (y :: u32) < 2 ^ k" and "k + 8 \<le> 32"
  shows "unat (push_bit 8 y OR ucast (b :: u8)) < 2 ^ (k + 8)"
proof -
  have "push_bit 8 y OR ucast b = push_bit 8 y + (ucast b :: u32)"
    by (rule disjunctive_add [symmetric]) (auto simp: bit_push_bit_iff bit_ucast_iff dest: bit_imp_le_length)
  also have "unat \<dots> \<le> unat (push_bit 8 y) + unat (ucast b :: u32)" by (simp add: unat_word_ariths)
  also have "\<dots> \<le> unat y * 256 + 255"
  proof -
    have "unat (push_bit 8 y) \<le> unat y * 256"
      by (simp add: push_bit_eq_mult unat_word_ariths)
    moreover have "unat (ucast b :: u32) \<le> 255"
      using unsigned_less [of b, where 'a = nat] by (simp add: unat_ucast_u8)
    ultimately show ?thesis by linarith
  qed
  also have "\<dots> < 2 ^ (k + 8)" using assms(1) by (simp add: power_add)
  finally show ?thesis .
qed


lemma b64_quad_val:
  assumes "unat x < 64" and "i < 4"
  shows "b64_quad i 0 k (b64_at x # rest) = b64_quad (Suc i) 0 (push_bit 6 k OR x) rest"
  using b64_val_table [OF assms(1)] assms(2) by simp

lemma b64_quad_stop: "b64_quad 4 p k rest = Some (4, p, k, rest)"
  by (cases rest) simp_all

text \<open>What the decoder makes of one encoded group; \<open>z\<close> is the packed 24-bit value.\<close>

lemma b64_quad_chunk:
  assumes "unat z < 2 ^ 24"
  shows "b64_quad 0 0 0 ([b64_at (drop_bit 18 z), b64_at (drop_bit 12 z AND 0x3f),
           b64_at (drop_bit 6 z AND 0x3f), b64_at (z AND 0x3f)] @ rest) = Some (4, 0, z, rest)"
    and "drop_bit 6 z AND 0x3f = 0 \<and> z AND 0x3f = 0 \<Longrightarrow>
      b64_quad 0 0 0 ([b64_at (drop_bit 18 z), b64_at (drop_bit 12 z AND 0x3f), b64_pad, b64_pad] @ rest)
        = Some (4, 2, z, rest)"
    and "z AND 0x3f = 0 \<Longrightarrow>
      b64_quad 0 0 0 ([b64_at (drop_bit 18 z), b64_at (drop_bit 12 z AND 0x3f),
        b64_at (drop_bit 6 z AND 0x3f), b64_pad] @ rest) = Some (4, 1, z, rest)"
proof -
  note v = b64_quad_val [OF drop_18_less [OF assms]] b64_quad_val [OF and_0x3f_less]
  have four: "Suc (Suc (Suc (Suc 0))) = 4" by simp
  show "b64_quad 0 0 0 ([b64_at (drop_bit 18 z), b64_at (drop_bit 12 z AND 0x3f),
           b64_at (drop_bit 6 z AND 0x3f), b64_at (z AND 0x3f)] @ rest) = Some (4, 0, z, rest)"
    using b64_regroup [of z] by (simp add: v b64_quad_stop four del: b64_quad.simps)
  show "b64_quad 0 0 0 ([b64_at (drop_bit 18 z), b64_at (drop_bit 12 z AND 0x3f), b64_pad, b64_pad] @ rest)
        = Some (4, 2, z, rest)" if "drop_bit 6 z AND 0x3f = 0 \<and> z AND 0x3f = 0"
    using b64_regroup [of z] that by (simp add: v b64_quad_stop four b64_quad.simps(2) [of _ _ _ b64_pad] del: b64_quad.simps)
  show "b64_quad 0 0 0 ([b64_at (drop_bit 18 z), b64_at (drop_bit 12 z AND 0x3f),
        b64_at (drop_bit 6 z AND 0x3f), b64_pad] @ rest) = Some (4, 1, z, rest)" if "z AND 0x3f = 0"
    using b64_regroup [of z] that by (simp add: v b64_quad_stop four b64_quad.simps(2) [of _ _ _ b64_pad] del: b64_quad.simps)
qed

lemma b64_pack_parts:
  fixes a b c :: u8
  defines "y \<equiv> ucast a :: u32"
  shows "unat (push_bit 8 (push_bit 8 y OR ucast b) OR ucast c) < 2 ^ 24"
    "ucast (drop_bit 16 (push_bit 8 (push_bit 8 y OR ucast b) OR ucast c) AND 0xff) = a"
    "ucast (drop_bit 8 (push_bit 8 (push_bit 8 y OR ucast b) OR ucast c) AND 0xff) = b"
    "ucast ((push_bit 8 (push_bit 8 y OR ucast b) OR ucast c) AND 0xff) = c"
proof -
  have y: "unat y < 2 ^ 8" using unsigned_less [of a, where 'a = nat] by (simp add: y_def unat_ucast_u8)
  have y2: "unat (push_bit 8 y OR ucast b) < 2 ^ 16" using pack_less [OF y, of b] by simp
  show "unat (push_bit 8 (push_bit 8 y OR ucast b) OR ucast c) < 2 ^ 24"
    using pack_less [OF y2, of c] by simp
  have d8: "drop_bit 8 (push_bit 8 (push_bit 8 y OR ucast b) OR ucast c) = push_bit 8 y OR ucast b"
    using y2 by (intro pack_high) simp
  have d8': "drop_bit 8 (push_bit 8 y OR ucast b) = y" using y by (intro pack_high) simp
  show "ucast ((push_bit 8 (push_bit 8 y OR ucast b) OR ucast c) AND 0xff) = c" by (rule pack_low)
  show "ucast (drop_bit 8 (push_bit 8 (push_bit 8 y OR ucast b) OR ucast c) AND 0xff) = b"
    unfolding d8 by (rule pack_low)
  have "drop_bit 16 (push_bit 8 (push_bit 8 y OR ucast b) OR ucast c)
      = drop_bit 8 (drop_bit 8 (push_bit 8 (push_bit 8 y OR ucast b) OR ucast c))"
    by (simp only: drop_bit_drop_bit) simp
  also have "\<dots> = y" unfolding d8 d8' ..
  finally show "ucast (drop_bit 16 (push_bit 8 (push_bit 8 y OR ucast b) OR ucast c) AND 0xff) = a"
    using pack_low [of 0 a] by (simp add: y_def)
qed


lemma b64_pack_simps:
  "b64_pack [a, b, c] = push_bit 8 (push_bit 8 (ucast a) OR ucast b) OR ucast c"
  "b64_pack [a, b] = push_bit 8 (push_bit 8 (ucast a) OR ucast b) OR ucast (0 :: u8)"
  "b64_pack [a] = push_bit 8 (push_bit 8 (ucast a) OR ucast (0 :: u8)) OR ucast (0 :: u8)"
  by (simp_all add: b64_pack_def)

lemma push_low_sextet: "push_bit 8 (x :: u32) AND 0x3f = 0"
  by (rule bit_word_eqI) (auto simp: bit_and_iff bit_push_bit_iff)

lemma push_mid_sextet: "drop_bit 6 (push_bit 8 (push_bit 8 (x :: u32))) AND 0x3f = 0"
  by (rule bit_word_eqI) (auto simp: bit_and_iff bit_push_bit_iff bit_drop_bit_eq)

lemma b64_chunk_simps:
  "b64_chunk [a, b, c] = (let z = b64_pack [a, b, c] in
     [b64_at (drop_bit 18 z), b64_at (drop_bit 12 z AND 0x3f), b64_at (drop_bit 6 z AND 0x3f), b64_at (z AND 0x3f)])"
  "b64_chunk [a, b] = (let z = b64_pack [a, b] in
     [b64_at (drop_bit 18 z), b64_at (drop_bit 12 z AND 0x3f), b64_at (drop_bit 6 z AND 0x3f), b64_pad])"
  "b64_chunk [a] = (let z = b64_pack [a] in
     [b64_at (drop_bit 18 z), b64_at (drop_bit 12 z AND 0x3f), b64_pad, b64_pad])"
  by (simp_all add: b64_chunk_def Let_def numeral_2_eq_2)

lemma decode_chunk3:
  "base64decode_loop (b64_chunk [a, b, c] @ rest) out = base64decode_loop rest (out @ [a, b, c])"
proof -
  note p = b64_pack_parts [of a b c, folded b64_pack_simps(1)]
  have "b64_quad 0 0 0 (b64_chunk [a, b, c] @ rest) = Some (4, 0, b64_pack [a, b, c], rest)"
    using b64_quad_chunk(1) [OF p(1), of rest] by (simp only: b64_chunk_simps Let_def)
  moreover have "b64_chunk [a, b, c] @ rest \<noteq> []" by (simp add: b64_chunk_simps Let_def)
  ultimately show ?thesis
    using p by (auto simp: base64decode_loop.simps [of "b64_chunk [a, b, c] @ rest"])
qed

lemma decode_chunk2: "base64decode_loop (b64_chunk [a, b]) out = Some (out @ [a, b])"
proof -
  note p = b64_pack_parts [of a b 0, folded b64_pack_simps(2)]
  have "b64_pack [a, b] AND 0x3f = 0"
    by (simp only: b64_pack_simps unsigned_0 or.right_neutral push_low_sextet)
  then have "b64_quad 0 0 0 (b64_chunk [a, b]) = Some (4, 1, b64_pack [a, b], [])"
    using b64_quad_chunk(3) [OF p(1), of "[]"] by (simp only: b64_chunk_simps Let_def append_Nil2)
  moreover have "b64_chunk [a, b] \<noteq> []" by (simp add: b64_chunk_simps Let_def)
  ultimately show ?thesis
    using p by (simp add: base64decode_loop.simps [of "b64_chunk [a, b]"] base64decode_loop.simps [of "[]"])
qed

lemma decode_chunk1: "base64decode_loop (b64_chunk [a]) out = Some (out @ [a])"
proof -
  note p = b64_pack_parts [of a 0 0, folded b64_pack_simps(3)]
  have "drop_bit 6 (b64_pack [a]) AND 0x3f = 0 \<and> b64_pack [a] AND 0x3f = 0"
    by (simp only: b64_pack_simps unsigned_0 or.right_neutral push_low_sextet push_mid_sextet)
  then have "b64_quad 0 0 0 (b64_chunk [a]) = Some (4, 2, b64_pack [a], [])"
    using b64_quad_chunk(2) [OF p(1), of "[]"] by (simp only: b64_chunk_simps Let_def append_Nil2)
  moreover have "b64_chunk [a] \<noteq> []" by (simp add: b64_chunk_simps Let_def)
  ultimately show ?thesis
    using p by (simp add: base64decode_loop.simps [of "b64_chunk [a]"] base64decode_loop.simps [of "[]"])
qed

lemma base64decode_loop_encode: "base64decode_loop (base64encode data) out = Some (out @ data)"
proof (induction data arbitrary: out rule: base64encode.induct)
  case (1 data)
  consider "data = []" | a where "data = [a]" | a b where "data = [a, b]"
    | a b c rest where "data = a # b # c # rest"
    by (metis list.exhaust)
  then show ?case
  proof cases
    case 1
    then show ?thesis by (simp add: base64encode.simps base64decode_loop.simps)
  next
    case 2
    then show ?thesis by (simp add: base64encode.simps decode_chunk1)
  next
    case 3
    then show ?thesis
      by (simp add: base64encode.simps [of "[a, b]"] base64encode.simps [of "[]"] decode_chunk2 numeral_3_eq_3)
  next
    case 4
    then show ?thesis
      using "1.IH" by (simp add: base64encode.simps [of "a # b # c # rest"] decode_chunk3 numeral_3_eq_3)
  qed
qed

lemma base64decode_encode: "base64decode (base64encode data) = data"
  by (simp add: base64decode_def base64decode_loop_encode)

lemma length_b64_chunk: "length chunk \<in> {1, 2, 3} \<Longrightarrow> length (b64_chunk chunk) = 4"
  by (auto simp: b64_chunk_def Let_def)

lemma length_base64encode: "length (base64encode data) = 4 * ((length data + 2) div 3)"
proof (induction data rule: base64encode.induct)
  case (1 data)
  show ?case
  proof (cases "data = []")
    case False
    have "length (take 3 data) \<in> {1, 2, 3}" using False by (cases data; cases "tl data"; cases "tl (tl data)"; auto)
    then have "length (base64encode data) = 4 + 4 * ((length (drop 3 data) + 2) div 3)"
      using 1 False by (simp add: base64encode.simps [of data] length_b64_chunk)
    also have "\<dots> = 4 * ((length data + 2) div 3)"
      using False by (cases "length data \<ge> 3") (auto simp: le_div_geq Suc_le_eq neq_Nil_conv)
    finally show ?thesis .
  qed (simp add: base64encode.simps)
qed

section \<open>Hexadecimal round trip\<close>

lemma hex_val_char: "unat x < 16 \<Longrightarrow> hex_val (hex_char x) = Some x"
proof -
  assume "unat x < 16"
  then have "unat x \<in> set [0..<16]" by simp
  moreover have "\<forall>n \<in> set [0..<16]. hex_val (hex_char (of_nat n)) = Some (of_nat n)"
    by (simp add: upt_conv_Cons hex_val_def hex_char_def)
  ultimately have "hex_val (hex_char (of_nat (unat x))) = Some (of_nat (unat x))" by blast
  then show ?thesis by simp
qed

lemma bit_0xf [simp]: "bit (0xf :: int) n \<longleftrightarrow> n < 4"
proof -
  have k: "(0xf :: int) = mask 4" by (simp add: mask_eq_exp_minus_1)
  show ?thesis unfolding k by (simp only: bit_mask_iff possible_bit_def) simp
qed

lemma bit_0xf0 [simp]: "bit (0xf0 :: int) n \<longleftrightarrow> 4 \<le> n \<and> n < 8"
proof -
  have k: "(0xf0 :: int) = push_bit 4 0xf" by simp
  show ?thesis unfolding k by (simp only: bit_push_bit_iff bit_0xf possible_bit_def) auto
qed

lemma nibbles: "push_bit 4 (drop_bit 4 b) AND 0xf0 OR b AND 0xf = (b :: u8)"
  by (rule bit_word_eqI) (auto simp: bit_or_iff bit_push_bit_iff bit_and_iff bit_drop_bit_eq)

lemma and_0xf_less: "unat ((x :: u8) AND 0xf) < 16"
proof -
  have "x AND 0xf \<le> 0xf" by (rule word_and_le1)
  then show ?thesis by (simp add: word_le_nat_alt)
qed

lemma length_hexstring [simp]: "length (hexstring_from_data d) = 2 * length d"
  by (induction d) simp_all

lemma hex_pairs_hexstring: "hex_pairs (hexstring_from_data d) = Inr d"
  by (induction d) (simp_all add: hex_val_char and_0xf_less nibbles)

lemma data_hexstring: "data_from_hexstring (hexstring_from_data d) = Inr d"
  by (cases d) (simp_all add: data_from_hexstring_def hex_pairs_hexstring del: hexstring_from_data.simps(2))

lemma hex_pairs_error:
  "even (length s) \<Longrightarrow> (\<exists>bs. hex_pairs s = Inr bs) \<longleftrightarrow> (\<forall>c \<in> set s. hex_val c \<noteq> None)"
  by (induction s rule: hex_pairs.induct) (auto split: option.splits sum.splits)


section \<open>Replacing and splitting\<close>

lemma find_if_NoneD:
  assumes "find_if P s frm = None"
  shows "\<forall>c \<in> set (drop frm s). \<not> P c"
proof (cases "frm \<le> length s")
  case True
  let ?t = "takeWhile (\<lambda>c. \<not> P c) (drop frm s)"
  have "length (drop frm s) \<le> length ?t"
    using assms True by (auto simp: find_if_def Let_def split: if_splits)
  moreover have "length ?t \<le> length (drop frm s)" by (rule length_takeWhile_le)
  ultimately have "?t = drop frm s" by (metis takeWhile_eq_take take_all)
  then show ?thesis by (metis set_takeWhileD)
qed simp

lemma find_if_split:
  assumes "find_if P s frm = Some i"
  shows "drop frm s = seg frm (i - frm) s @ s ! i # drop (i + 1) s"
proof -
  note b = find_if_SomeD [OF assms]
  have "drop frm s = take (i - frm) (drop frm s) @ drop (i - frm) (drop frm s)"
    by (rule append_take_drop_id [symmetric])
  moreover have "drop (i - frm) (drop frm s) = s ! i # drop (i + 1) s"
    using b(1,2) by (simp add: Cons_nth_drop_Suc)
  ultimately show ?thesis by (simp add: seg_def)
qed

lemma replace_chr_loop_eq:
  "replace_chr_loop s f r frm = take frm s @ map (\<lambda>c. if c = f then r else c) (drop frm s)"
proof (induction s f r frm rule: replace_chr_loop.induct)
  case (1 s f r frm)
  show ?case
  proof (cases "find_if (\<lambda>c. c = f) s frm")
    case None
    then have "map (\<lambda>c. if c = f then r else c) (drop frm s) = drop frm s"
      using find_if_NoneD [OF None] by (intro map_idI) auto
    then show ?thesis using None by (simp add: replace_chr_loop.simps [of s])
  next
    case (Some i)
    note b = find_if_SomeD [OF Some]
    have "map (\<lambda>c. if c = f then r else c) (seg frm (i - frm) s) = seg frm (i - frm) s"
      using b(4) by (intro map_idI) auto
    moreover have "take (i + 1) (s[i := r]) = take frm s @ seg frm (i - frm) s @ [r]"
      using b(1,2) by (simp add: seg_def take_Suc_conv_app_nth take_add [symmetric] flip: append_assoc)
    moreover have "replace_chr_loop s f r frm = replace_chr_loop (s[i := r]) f r (i + 1)"
      using Some by (simp add: replace_chr_loop.simps [of s])
    ultimately show ?thesis
      using "1.IH" [OF Some] b find_if_split [OF Some] by simp
  qed
qed

lemma replace_chr_eq: "replace_chr s f r = map (\<lambda>c. if c = f then r else c) s"
  by (simp add: replace_chr_def replace_chr_loop_eq)

lemma replace_chr_str_loop_eq:
  "replace_chr_str_loop s f r frm = take frm s @ concat (map (\<lambda>c. if c = f then r else [c]) (drop frm s))"
proof (induction s f r frm rule: replace_chr_str_loop.induct)
  case (1 s f r frm)
  have id: "concat (map (\<lambda>c. if c = f then r else [c]) xs) = xs" if "\<forall>c \<in> set xs. c \<noteq> f" for xs
    using that by (induction xs) auto
  show ?case
  proof (cases "find_if (\<lambda>c. c = f) s frm")
    case None
    then show ?thesis
      using id [OF find_if_NoneD [OF None]] by (simp add: replace_chr_str_loop.simps [of s])
  next
    case (Some i)
    note b = find_if_SomeD [OF Some]
    let ?m = "\<lambda>c. if c = f then r else [c]"
    have pre: "take i s = take frm s @ seg frm (i - frm) s"
      using b(1) by (simp add: seg_def take_add [symmetric])
    have "replace_chr_str_loop s f r frm =
        replace_chr_str_loop (take i s @ r @ drop (i + 1) s) f r (i + length r)"
      using Some by (simp add: replace_chr_str_loop.simps [of s])
    also have "\<dots> = take i s @ r @ concat (map ?m (drop (i + 1) s))"
      using "1.IH" [OF Some] b(2) by simp
    also have "\<dots> = take frm s @ concat (map ?m (drop frm s))"
      using b(3) id [OF b(4)] find_if_split [OF Some] by (simp add: pre)
    finally show ?thesis .
  qed
qed

lemma replace_chr_str_eq:
  "replace_chr_str s f r = concat (map (\<lambda>c. if c = f then r else [c]) s)"
  by (simp add: replace_chr_str_def replace_chr_str_loop_eq)

text \<open>\<open>join\<close> is the specification: pieces put back with the delimiter between them.\<close>

fun join :: "u8 \<Rightarrow> u8 list list \<Rightarrow> u8 list" where
  "join d [] = []"
| "join d [x] = x"
| "join d (x # y # xs) = x @ d # join d (y # xs)"

lemma join_Cons: "xs \<noteq> [] \<Longrightarrow> join d (x # xs) = x @ d # join d xs"
  by (cases xs) simp_all

lemma split_loop_ne: "split_loop P s lst mx \<noteq> []"
  by (subst split_loop.simps) (simp split: option.splits)

lemma join_split_loop: "join d (split_loop (\<lambda>c. c = d) s lst mx) = drop lst s"
proof (induction "\<lambda>c. c = d" s lst mx rule: split_loop.induct)
  case (1 s lst mx)
  show ?case
  proof (cases "find_if (\<lambda>c. c = d) s lst")
    case None
    then show ?thesis by (simp add: split_loop.simps [of _ s lst mx])
  next
    case (Some i)
    note b = find_if_SomeD [OF Some]
    show ?thesis
      using Some "1.hyps" [OF Some] b(3) find_if_split [OF Some] split_loop_ne
      by (simp add: split_loop.simps [of _ s lst mx] join_Cons)
  qed
qed

lemma length_split_loop: "2 \<le> mx \<Longrightarrow> length (split_loop P s lst mx) \<le> unat mx"
proof (induction P s lst mx rule: split_loop.induct)
  case (1 P s lst mx)
  have u: "2 \<le> unat mx" "unat (mx - 1) = unat mx - 1"
  proof -
    show "2 \<le> unat mx" using "1.prems" by (simp add: word_le_nat_alt)
    then have "mx \<noteq> 0" by auto
    then show "unat (mx - 1) = unat mx - 1" by (rule unat_minus_one)
  qed
  show ?case
  proof (cases "find_if P s lst")
    case None
    then show ?thesis using u by (simp add: split_loop.simps [of P s lst mx])
  next
    case (Some i)
    have "2 \<le> mx - 1" if "mx - 1 \<noteq> 1"
    proof -
      have "unat (mx - 1) \<noteq> 1" using that by (metis unat_1 word_unat_eq_iff)
      then show ?thesis using u by (simp add: word_le_nat_alt)
    qed
    then show ?thesis
      using Some "1.IH" [OF Some] u by (auto simp: split_loop.simps [of P s lst mx])
  qed
qed


section \<open>Properties\<close>

text \<open>Base64: decoding inverts encoding for every byte string, and the encoding has four characters
  per three bytes begun.\<close>

theorem base64_roundtrip:
  "base64decode (base64encode data) = data \<and> length (base64encode data) = 4 * ((length data + 2) div 3)"
  by (simp add: base64decode_encode length_base64encode)

text \<open>Hexadecimal: decoding inverts encoding, and decoding raises \<^verbatim>\<open>std::invalid_argument\<close> exactly on
  strings of odd length or with a character that is not a hexadecimal digit.\<close>

theorem hexstring_roundtrip:
  "data_from_hexstring (hexstring_from_data data) = Inr data \<and>
   ((\<exists>bs. data_from_hexstring s = Inr bs) \<longleftrightarrow> even (length s) \<and> list_all (\<lambda>c. hex_val c \<noteq> None) s)"
  using hex_pairs_error [of s] data_hexstring [of data]
  by (auto simp: data_from_hexstring_def list_all_iff even_iff_mod_2_eq_zero)

text \<open>\<open>split\<close>: joining the pieces with the delimiter gives back the string whatever the limit, and a
  limit of at least two bounds the number of pieces.\<close>

theorem split_join:
  "join d (split_chr s d mx) = s \<and> (2 \<le> mx \<longrightarrow> length (split_chr s d mx) \<le> unat mx)"
  by (simp add: split_chr_def join_split_loop length_split_loop)

theorem split_join_witness:
  "join 44 (split_chr [97, 44, 98, 44, 99] 44 2) = [97, 44, 98, 44, 99] \<and>
   length (split_chr [97, 44, 98, 44, 99] 44 2) \<le> 2"
  using split_join [of 44 "[97, 44, 98, 44, 99]" 2] by simp

text \<open>\<open>replace\<close> terminates and is the pointwise substitution: inserted text is not searched again, also
  when it contains the character that is replaced.\<close>

theorem replace_substitutes:
  "replace_chr s f r = map (\<lambda>c. if c = f then r else c) s \<and>
   replace_chr_str s f rs = concat (map (\<lambda>c. if c = f then rs else [c]) s)"
  by (simp add: replace_chr_eq replace_chr_str_eq)

text \<open>\<open>quick_hash(const void*, uint32_t)\<close> never advances its pointer: the result depends on the first
  byte and the size alone.\<close>

theorem quick_hash_buf_first_byte:
  "quick_hash_buf (b # xs) n = quick_hash_buf (b # ys) n"
  by (induction n) simp_all

end
