(* ===== verification/StdSet.thy ===== *)
theory StdSet
  imports Prelude
begin

text \<open>
  \<^verbatim>\<open>std::set\<close> with a user comparator, as the timer manager uses it: the elements are the list in
  iteration order, an iterator is an index (the length is \<^verbatim>\<open>end()\<close>). The locale \<open>strict_order\<close>
  is what the standard asks of a comparator; its lemmas are what the container then promises. The
  clients interpret it on their comparator.
\<close>

fun set_insert :: "('a \<Rightarrow> 'a \<Rightarrow> bool) \<Rightarrow> 'a \<Rightarrow> 'a list \<Rightarrow> 'a list" where
  "set_insert lt x [] = [x]"
| "set_insert lt x (y # ys) =
     (if lt y x then y # set_insert lt x ys else if lt x y then x # y # ys else y # ys)"

definition set_lower_bound :: "('a \<Rightarrow> 'a \<Rightarrow> bool) \<Rightarrow> 'a \<Rightarrow> 'a list \<Rightarrow> nat" where
  "set_lower_bound lt x xs = length (takeWhile (\<lambda>y. lt y x) xs)"

definition set_find :: "('a \<Rightarrow> 'a \<Rightarrow> bool) \<Rightarrow> 'a \<Rightarrow> 'a list \<Rightarrow> nat option" where
  "set_find lt x xs =
     (let i = set_lower_bound lt x xs
      in if i < length xs \<and> \<not> lt x (xs ! i) then Some i else None)"

definition set_erase :: "nat \<Rightarrow> 'a list \<Rightarrow> 'a list" where
  "set_erase i xs = take i xs @ drop (Suc i) xs"

locale strict_order =
  fixes lt :: "'a \<Rightarrow> 'a \<Rightarrow> bool"
  assumes irrefl: "\<not> lt x x"
    and trans: "lt x y \<Longrightarrow> lt y z \<Longrightarrow> lt x z"
    and total: "lt x y \<or> x = y \<or> lt y x"
begin

lemma asym: "lt x y \<Longrightarrow> \<not> lt y x"
  using irrefl trans by blast

lemma set_set_insert: "set (set_insert lt x xs) = insert x (set xs)"
  by (induction xs) (use total in auto)

lemma sorted_set_insert: "sorted_wrt lt xs \<Longrightarrow> sorted_wrt lt (set_insert lt x xs)"
  by (induction xs) (auto simp: set_set_insert intro: trans)

lemma sorted_distinct: "sorted_wrt lt xs \<Longrightarrow> distinct xs"
  by (induction xs) (use irrefl in auto)

lemma before_iff:
  assumes "sorted_wrt lt (as @ x # bs)"
  shows "takeWhile (\<lambda>y. lt y x) (as @ x # bs) = as"
  using assms irrefl by (subst takeWhile_append2) (auto simp: sorted_wrt_append)

lemma set_find_member:
  assumes "sorted_wrt lt (as @ x # bs)"
  shows "set_find lt x (as @ x # bs) = Some (length as)"
  using before_iff [OF assms] irrefl by (simp add: set_find_def set_lower_bound_def Let_def)

lemma set_find_none:
  assumes "x \<notin> set xs"
  shows "set_find lt x xs = None"
proof -
  let ?i = "set_lower_bound lt x xs"
  have "lt x (xs ! ?i)" if "?i < length xs"
  proof -
    have "\<not> lt (xs ! ?i) x"
      using nth_length_takeWhile [of "\<lambda>y. lt y x" xs] that by (simp add: set_lower_bound_def)
    moreover have "xs ! ?i \<noteq> x" using assms that by (metis nth_mem)
    ultimately show ?thesis using total [of x "xs ! ?i"] by auto
  qed
  then show ?thesis by (simp add: set_find_def Let_def)
qed

lemma set_find_Some_iff:
  assumes "sorted_wrt lt xs"
  shows "(\<exists>i. set_find lt x xs = Some i) \<longleftrightarrow> x \<in> set xs"
  using assms set_find_member set_find_none by (metis not_None_eq split_list option.distinct(1))

lemma set_erase_found:
  assumes "sorted_wrt lt xs" and "set_find lt x xs = Some i"
  shows "i < length xs" "xs ! i = x" "sorted_wrt lt (set_erase i xs)"
    "set (set_erase i xs) = set xs - {x}" "set_erase i xs = filter (\<lambda>y. y \<noteq> x) xs"
proof -
  have "x \<in> set xs" using assms set_find_Some_iff by blast
  then obtain as bs where xs: "xs = as @ x # bs" by (meson split_list)
  then have i: "i = length as" using assms set_find_member by auto
  have d: "x \<notin> set as" "x \<notin> set bs" using sorted_distinct [OF assms(1)] xs by auto
  show "i < length xs" "xs ! i = x" using xs i by simp_all
  show e: "set_erase i xs = filter (\<lambda>y. y \<noteq> x) xs"
  proof -
    have "filter (\<lambda>y. y \<noteq> x) as = as" "filter (\<lambda>y. y \<noteq> x) bs = bs"
      using d by (auto intro!: filter_True)
    then show ?thesis using xs i by (simp add: set_erase_def)
  qed
  show "sorted_wrt lt (set_erase i xs)" "set (set_erase i xs) = set xs - {x}"
    using assms(1) by (auto simp: e sorted_wrt_filter)
qed

end

lemma set_insert_cong:
  "(\<And>y. y \<in> set xs \<Longrightarrow> l y x = l' y x \<and> l x y = l' x y) \<Longrightarrow> set_insert l x xs = set_insert l' x xs"
  by (induction xs) auto

lemma sorted_wrt_cong_set:
  "(\<And>x y. x \<in> set xs \<Longrightarrow> y \<in> set xs \<Longrightarrow> l x y = l' x y) \<Longrightarrow> sorted_wrt l xs = sorted_wrt l' xs"
  by (induction xs) auto

end
