(* ===== verification/Timer.thy ===== *)
theory Timer
  imports StdSet
begin

text \<open>
  \<^verbatim>\<open>src/cxk/timer.{h,cpp}\<close>: timers and their manager. Timer objects live in a heap from addresses to
  records, because a \<^verbatim>\<open>Timer::ptr\<close> is shared between the manager's set and its owner and the
  operations mutate it in place; \<open>m_timers\<close> is the \<^verbatim>\<open>std::set\<close> of addresses, ordered by
  \<open>Comparetor\<close>, which reads the heap. Times are \<^verbatim>\<open>uint64_t\<close> and wrap. \<^verbatim>\<open>GetCurrentMS()\<close>, the
  address of a newly allocated timer and the callbacks (\<open>'f\<close>) are arguments. Each method runs under
  the manager's write lock and is one step; \<open>listExpiredCb\<close> drops the lock between its two critical
  sections, which are two definitions.

  \<open>tm_inv\<close> is the invariant: the set is strictly ordered and holds exactly the timers that still
  have a callback. Every operation keeps it.
\<close>

section \<open>State\<close>

datatype 'f tcb = Cb 'f | OnTimer nat 'f

record 'f timer =
  m_recurring :: bool
  m_ms :: u64
  m_next :: u64
  m_cb :: "'f tcb option"

record 'f timer_manager =
  m_tickled :: bool
  m_timers :: "nat list"
  m_previousTime :: u64
  heap :: "nat \<Rightarrow> 'f timer"

text \<open>\<open>Comparetor\<close> orders null pointers first, then by deadline, then by address.\<close>

definition Comparetor :: "(nat \<Rightarrow> 'f timer) \<Rightarrow> nat option \<Rightarrow> nat option \<Rightarrow> bool" where
  "Comparetor h lhs rhs =
     (case (lhs, rhs) of
        (None, None) \<Rightarrow> False
      | (None, Some _) \<Rightarrow> True
      | (Some _, None) \<Rightarrow> False
      | (Some a, Some b) \<Rightarrow>
          if m_next (h a) < m_next (h b) then True
          else if m_next (h a) > m_next (h b) then False
          else a < b)"

definition before :: "(nat \<Rightarrow> 'f timer) \<Rightarrow> nat \<Rightarrow> nat \<Rightarrow> bool" where
  "before h a b = Comparetor h (Some a) (Some b)"

definition new_Timer :: "u64 \<Rightarrow> u64 \<Rightarrow> 'f tcb \<Rightarrow> bool \<Rightarrow> 'f timer" where
  "new_Timer now ms cb recurring =
     \<lparr>m_recurring = recurring, m_ms = ms, m_next = now + ms, m_cb = Some cb\<rparr>"

definition new_Timer_at :: "u64 \<Rightarrow> 'f timer" where
  "new_Timer_at nxt = \<lparr>m_recurring = False, m_ms = 0, m_next = nxt, m_cb = None\<rparr>"

definition TimerManager :: "u64 \<Rightarrow> 'f timer_manager" where
  "TimerManager now =
     \<lparr>m_tickled = False, m_timers = [], m_previousTime = now, heap = (\<lambda>_. new_Timer_at 0)\<rparr>"

section \<open>Operations\<close>

text \<open>\<open>addTimer_locked\<close> is the overload under the lock; the flag it returns says that
  \<^verbatim>\<open>onTimerInsertedAtFront()\<close> is called.\<close>

definition addTimer_locked :: "nat \<Rightarrow> 'f timer_manager \<Rightarrow> bool \<times> 'f timer_manager" where
  "addTimer_locked val tm =
     (let timers = set_insert (before (heap tm)) val (m_timers tm);
          at_front = (hd timers = val \<and> \<not> m_tickled tm);
          tm = tm\<lparr>m_timers := timers\<rparr>
      in (at_front, if at_front then tm\<lparr>m_tickled := True\<rparr> else tm))"

definition addTimer :: "u64 \<Rightarrow> nat \<Rightarrow> u64 \<Rightarrow> 'f tcb \<Rightarrow> bool \<Rightarrow> 'f timer_manager \<Rightarrow> bool \<times> 'f timer_manager" where
  "addTimer now a ms cb recurring tm =
     addTimer_locked a (tm\<lparr>heap := (heap tm)(a := new_Timer now ms cb recurring)\<rparr>)"

definition addConditionTimer ::
  "u64 \<Rightarrow> nat \<Rightarrow> u64 \<Rightarrow> 'f \<Rightarrow> nat \<Rightarrow> bool \<Rightarrow> 'f timer_manager \<Rightarrow> bool \<times> 'f timer_manager" where
  "addConditionTimer now a ms cb weak_cond recurring tm = addTimer now a ms (OnTimer weak_cond cb) recurring tm"

text \<open>\<open>run_cb alive\<close> is calling a stored callback: \<open>onTimer\<close> locks its weak pointer first.\<close>

definition onTimer :: "(nat \<Rightarrow> bool) \<Rightarrow> nat \<Rightarrow> 'f \<Rightarrow> 'f option" where
  "onTimer alive weak_cond cb = (if alive weak_cond then Some cb else None)"

definition run_cb :: "(nat \<Rightarrow> bool) \<Rightarrow> 'f tcb \<Rightarrow> 'f option" where
  "run_cb alive c = (case c of Cb f \<Rightarrow> Some f | OnTimer w f \<Rightarrow> onTimer alive w f)"

definition cancel :: "nat \<Rightarrow> 'f timer_manager \<Rightarrow> ('f timer_manager, bool) outcome" where
  "cancel a tm =
     (if m_cb (heap tm a) \<noteq> None then
        let tm = tm\<lparr>heap := (heap tm)(a := (heap tm a)\<lparr>m_cb := None\<rparr>)\<rparr>
        in (case set_find (before (heap tm)) a (m_timers tm) of
              None \<Rightarrow> Undef OutOfBounds
            | Some i \<Rightarrow> Ret True (tm\<lparr>m_timers := set_erase i (m_timers tm)\<rparr>))
      else Ret False tm)"

definition refresh :: "u64 \<Rightarrow> nat \<Rightarrow> 'f timer_manager \<Rightarrow> bool \<times> 'f timer_manager" where
  "refresh now a tm =
     (if m_cb (heap tm a) = None then (False, tm)
      else case set_find (before (heap tm)) a (m_timers tm) of
        None \<Rightarrow> (False, tm)
      | Some i \<Rightarrow>
          let timers = set_erase i (m_timers tm);
              h = (heap tm)(a := (heap tm a)\<lparr>m_next := now + m_ms (heap tm a)\<rparr>)
          in (True, tm\<lparr>heap := h, m_timers := set_insert (before h) a timers\<rparr>))"

text \<open>The second component of \<open>reset\<close> is the call to \<^verbatim>\<open>onTimerInsertedAtFront()\<close>.\<close>

definition reset :: "u64 \<Rightarrow> nat \<Rightarrow> u64 \<Rightarrow> bool \<Rightarrow> 'f timer_manager \<Rightarrow> bool \<times> bool \<times> 'f timer_manager" where
  "reset now a ms from_now tm =
     (let t = heap tm a in
      if ms = m_ms t \<and> \<not> from_now then (True, False, tm)
      else if m_cb t = None then (False, False, tm)
      else case set_find (before (heap tm)) a (m_timers tm) of
        None \<Rightarrow> (False, False, tm)
      | Some i \<Rightarrow>
          let timers = set_erase i (m_timers tm);
              start = (if from_now then now else m_next t - m_ms t);
              h = (heap tm)(a := t\<lparr>m_ms := ms, m_next := start + ms\<rparr>)
          in (True, addTimer_locked a (tm\<lparr>heap := h, m_timers := timers\<rparr>)))"

definition hasTimer :: "'f timer_manager \<Rightarrow> bool" where
  "hasTimer tm \<longleftrightarrow> m_timers tm \<noteq> []"

definition getNextTimer :: "u64 \<Rightarrow> 'f timer_manager \<Rightarrow> u64 \<times> 'f timer_manager" where
  "getNextTimer now_ms tm =
     (let tm = tm\<lparr>m_tickled := False\<rparr>
      in case m_timers tm of
           [] \<Rightarrow> (NOT 0, tm)
         | nxt # _ \<Rightarrow>
             if now_ms \<ge> m_next (heap tm nxt) then (0, tm) else (m_next (heap tm nxt) - now_ms, tm))"

definition detectClockRollover :: "u64 \<Rightarrow> 'f timer_manager \<Rightarrow> bool \<times> 'f timer_manager" where
  "detectClockRollover now_ms tm =
     (now_ms < m_previousTime tm \<and> now_ms < m_previousTime tm - 60 * 60 * 1000,
      tm\<lparr>m_previousTime := now_ms\<rparr>)"

text \<open>The loop over the expired timers: collect each callback, then rearm or retire the timer.\<close>

fun fire_loop :: "u64 \<Rightarrow> nat list \<Rightarrow> 'f tcb option list \<Rightarrow> 'f timer_manager \<Rightarrow> 'f tcb option list \<times> 'f timer_manager" where
  "fire_loop now_ms [] cbs tm = (cbs, tm)"
| "fire_loop now_ms (a # as) cbs tm =
     (let t = heap tm a; cbs = cbs @ [m_cb t] in
      if m_recurring t then
        let h = (heap tm)(a := t\<lparr>m_next := now_ms + m_ms t\<rparr>)
        in fire_loop now_ms as cbs (tm\<lparr>heap := h, m_timers := set_insert (before h) a (m_timers tm)\<rparr>)
      else fire_loop now_ms as cbs (tm\<lparr>heap := (heap tm)(a := t\<lparr>m_cb := None\<rparr>)\<rparr>))"

definition skip_equal :: "(nat \<Rightarrow> 'f timer) \<Rightarrow> u64 \<Rightarrow> nat list \<Rightarrow> nat \<Rightarrow> nat" where
  "skip_equal h now_ms timers i = i + length (takeWhile (\<lambda>a. m_next (h a) = now_ms) (drop i timers))"

text \<open>
  The second critical section of \<open>listExpiredCb\<close>. It dereferences \<^verbatim>\<open>m_timers.begin()\<close> without
  testing again that the set is not empty. The address of the temporary \<^verbatim>\<open>now_timer\<close> is \<open>na\<close>.
\<close>

definition listExpired_locked ::
  "u64 \<Rightarrow> nat \<Rightarrow> 'f timer_manager \<Rightarrow> ('f timer_manager, 'f tcb option list) outcome" where
  "listExpired_locked now_ms na tm =
     (let (rollover, tm) = detectClockRollover now_ms tm in
      if \<not> rollover \<and> m_timers tm = [] then Undef OutOfBounds
      else if \<not> rollover \<and> m_next (heap tm (hd (m_timers tm))) > now_ms then Ret [] tm
      else
        let h = (heap tm)(na := new_Timer_at now_ms);
            it = (if rollover then length (m_timers tm) else set_lower_bound (before h) na (m_timers tm));
            it = skip_equal h now_ms (m_timers tm) it;
            expired = take it (m_timers tm);
            (cbs, tm) = fire_loop now_ms expired [] (tm\<lparr>m_timers := drop it (m_timers tm)\<rparr>)
        in Ret cbs tm)"

definition listExpiredCb ::
  "u64 \<Rightarrow> nat \<Rightarrow> 'f timer_manager \<Rightarrow> ('f timer_manager, 'f tcb option list) outcome" where
  "listExpiredCb now_ms na tm =
     (if m_timers tm = [] then Ret [] tm else listExpired_locked now_ms na tm)"

section \<open>The comparator is a strict total order\<close>

interpretation timer_order: strict_order "before h" for h :: "nat \<Rightarrow> 'f timer"
  by unfold_locales (auto simp: before_def Comparetor_def split: if_splits)

lemma before_cong:
  "m_next (h a) = m_next (h' a) \<Longrightarrow> m_next (h b) = m_next (h' b) \<Longrightarrow> before h a b = before h' a b"
  by (simp add: before_def Comparetor_def)

lemma sorted_before_cong:
  "(\<And>a. a \<in> set xs \<Longrightarrow> m_next (h a) = m_next (h' a)) \<Longrightarrow>
   sorted_wrt (before h) xs \<longleftrightarrow> sorted_wrt (before h') xs"
  by (intro sorted_wrt_cong_set before_cong) auto


section \<open>Invariant\<close>

definition tm_inv :: "'f timer_manager \<Rightarrow> bool" where
  "tm_inv tm \<longleftrightarrow> sorted_wrt (before (heap tm)) (m_timers tm) \<and>
     (\<forall>a. a \<in> set (m_timers tm) \<longleftrightarrow> m_cb (heap tm a) \<noteq> None)"

lemma tm_invD:
  assumes "tm_inv tm"
  shows "sorted_wrt (before (heap tm)) (m_timers tm)"
    "\<And>a. a \<in> set (m_timers tm) \<longleftrightarrow> m_cb (heap tm a) \<noteq> None"
  using assms by (auto simp: tm_inv_def)

lemma tm_inv_new: "tm_inv (TimerManager now)"
  by (simp add: tm_inv_def TimerManager_def new_Timer_at_def)

lemma addTimer_locked_fields:
  assumes "addTimer_locked a tm = (front, tm')"
  shows "heap tm' = heap tm" "m_timers tm' = set_insert (before (heap tm)) a (m_timers tm)"
    "m_previousTime tm' = m_previousTime tm" "front \<Longrightarrow> m_tickled tm'"
  using assms by (auto simp: addTimer_locked_def Let_def split: if_splits)

lemma addTimer_locked_inv:
  assumes "sorted_wrt (before (heap tm)) (m_timers tm)"
    and "\<And>b. m_cb (heap tm b) \<noteq> None \<longleftrightarrow> b = a \<or> b \<in> set (m_timers tm)"
    and "addTimer_locked a tm = (front, tm')"
  shows "tm_inv tm'"
  using assms(1,2) addTimer_locked_fields [OF assms(3)]
  by (simp add: tm_inv_def timer_order.set_set_insert timer_order.sorted_set_insert)

lemma addTimer_inv:
  assumes "tm_inv tm" and "m_cb (heap tm a) = None" and "addTimer now a ms cb r tm = (front, tm')"
  shows "tm_inv tm'"
proof (rule addTimer_locked_inv)
  note inv = tm_invD [OF assms(1)]
  let ?tm = "tm\<lparr>heap := (heap tm)(a := new_Timer now ms cb r)\<rparr>"
  show "addTimer_locked a ?tm = (front, tm')" using assms(3) by (simp add: addTimer_def)
  have "m_next (heap tm b) = m_next (heap ?tm b)" if "b \<in> set (m_timers tm)" for b
    using inv(2) assms(2) that by auto
  then have "sorted_wrt (before (heap tm)) (m_timers tm) = sorted_wrt (before (heap ?tm)) (m_timers tm)"
    by (rule sorted_before_cong)
  then show "sorted_wrt (before (heap ?tm)) (m_timers ?tm)" using inv(1) by simp
  show "m_cb (heap ?tm b) \<noteq> None \<longleftrightarrow> b = a \<or> b \<in> set (m_timers ?tm)" for b
    using inv(2) by (simp add: new_Timer_def)
qed

text \<open>A live timer is in the set and is taken out by its iterator; the rest stays ordered.\<close>

lemma sorted_others:
  assumes "tm_inv tm"
  shows "sorted_wrt (before ((heap tm)(a := t))) (filter (\<lambda>b. b \<noteq> a) (m_timers tm))"
proof -
  let ?xs = "filter (\<lambda>b. b \<noteq> a) (m_timers tm)"
  have "sorted_wrt (before (heap tm)) ?xs"
    using tm_invD(1) [OF assms] by (rule sorted_wrt_filter)
  moreover have "sorted_wrt (before (heap tm)) ?xs = sorted_wrt (before ((heap tm)(a := t))) ?xs"
    by (rule sorted_before_cong) simp
  ultimately show ?thesis by simp
qed

lemma erase_live:
  assumes "tm_inv tm" and "m_cb (heap tm a) \<noteq> None"
  obtains i where "set_find (before (heap tm)) a (m_timers tm) = Some i"
    and "set_erase i (m_timers tm) = filter (\<lambda>b. b \<noteq> a) (m_timers tm)"
proof -
  note inv = tm_invD [OF assms(1)]
  obtain i where i: "set_find (before (heap tm)) a (m_timers tm) = Some i"
    using timer_order.set_find_Some_iff [OF inv(1)] inv(2) assms(2) by blast
  then show thesis using that timer_order.set_erase_found(5) [OF inv(1) i] by blast
qed

lemma cancel_live:
  assumes "tm_inv tm" and "m_cb (heap tm a) \<noteq> None"
  shows "cancel a tm = Ret True (tm\<lparr>heap := (heap tm)(a := (heap tm a)\<lparr>m_cb := None\<rparr>),
           m_timers := filter (\<lambda>b. b \<noteq> a) (m_timers tm)\<rparr>)"
proof -
  let ?h = "(heap tm)(a := (heap tm a)\<lparr>m_cb := None\<rparr>)"
  have "before ?h = before (heap tm)" by (intro ext before_cong) auto
  moreover obtain i where "set_find (before (heap tm)) a (m_timers tm) = Some i"
    and "set_erase i (m_timers tm) = filter (\<lambda>b. b \<noteq> a) (m_timers tm)"
    using erase_live [OF assms] by metis
  ultimately show ?thesis using assms(2) by (auto simp: cancel_def)
qed

lemma cancel_inv:
  assumes "tm_inv tm" and "cancel a tm = Ret r tm'"
  shows "tm_inv tm'"
proof (cases "m_cb (heap tm a) = None")
  case False
  let ?h = "(heap tm)(a := (heap tm a)\<lparr>m_cb := None\<rparr>)"
  have "sorted_wrt (before ?h) (filter (\<lambda>b. b \<noteq> a) (m_timers tm))"
    by (rule sorted_others [OF assms(1)])
  then show ?thesis
    using assms(2) cancel_live [OF assms(1) False] tm_invD(2) [OF assms(1)]
    by (auto simp: tm_inv_def split: if_splits)
qed (use assms in \<open>simp add: cancel_def\<close>)

text \<open>Rearming: \<open>refresh\<close> and \<open>reset\<close> move one live timer to a new deadline.\<close>

lemma rearm_inv:
  assumes "tm_inv tm" and "m_cb (heap tm a) \<noteq> None" and "m_cb t = m_cb (heap tm a)"
    and "m_timers tm' = set_insert (before (heap tm')) a (filter (\<lambda>b. b \<noteq> a) (m_timers tm))"
    and "heap tm' = (heap tm)(a := t)"
  shows "tm_inv tm'"
proof -
  note inv = tm_invD [OF assms(1)]
  have "sorted_wrt (before (heap tm')) (filter (\<lambda>b. b \<noteq> a) (m_timers tm))"
    using sorted_others [OF assms(1)] assms(5) by simp
  then show ?thesis
    using assms inv(2)
    by (auto simp: tm_inv_def timer_order.set_set_insert timer_order.sorted_set_insert)
qed

lemma refresh_live:
  assumes "tm_inv tm" and "m_cb (heap tm a) \<noteq> None"
  shows "\<exists>tm'. refresh now a tm = (True, tm') \<and> tm_inv tm' \<and>
    heap tm' = (heap tm)(a := (heap tm a)\<lparr>m_next := now + m_ms (heap tm a)\<rparr>)"
proof -
  let ?t = "(heap tm a)\<lparr>m_next := now + m_ms (heap tm a)\<rparr>"
  obtain i where "set_find (before (heap tm)) a (m_timers tm) = Some i"
    and "set_erase i (m_timers tm) = filter (\<lambda>b. b \<noteq> a) (m_timers tm)"
    using erase_live [OF assms] by metis
  then have r: "refresh now a tm = (True, tm\<lparr>heap := (heap tm)(a := ?t),
      m_timers := set_insert (before ((heap tm)(a := ?t))) a (filter (\<lambda>b. b \<noteq> a) (m_timers tm))\<rparr>)"
    (is "_ = (True, ?tm)") using assms(2) by (auto simp: refresh_def Let_def)
  have "tm_inv ?tm" by (rule rearm_inv [OF assms, of ?t]) simp_all
  then show ?thesis using r by simp
qed

lemma reset_live:
  assumes "tm_inv tm" and "m_cb (heap tm a) \<noteq> None" and "ms \<noteq> m_ms (heap tm a) \<or> from_now"
  shows "\<exists>front tm'. reset now a ms from_now tm = (True, front, tm') \<and> tm_inv tm' \<and>
    heap tm' = (heap tm)(a := (heap tm a)\<lparr>m_ms := ms,
      m_next := (if from_now then now else m_next (heap tm a) - m_ms (heap tm a)) + ms\<rparr>)"
proof -
  let ?t = "(heap tm a)\<lparr>m_ms := ms,
      m_next := (if from_now then now else m_next (heap tm a) - m_ms (heap tm a)) + ms\<rparr>"
  let ?tm = "tm\<lparr>heap := (heap tm)(a := ?t), m_timers := filter (\<lambda>b. b \<noteq> a) (m_timers tm)\<rparr>"
  obtain i where "set_find (before (heap tm)) a (m_timers tm) = Some i"
    and "set_erase i (m_timers tm) = filter (\<lambda>b. b \<noteq> a) (m_timers tm)"
    using erase_live [OF assms(1,2)] by metis
  then have r: "reset now a ms from_now tm = (True, addTimer_locked a ?tm)"
    using assms(2,3) by (auto simp: reset_def Let_def)
  obtain front tm' where l: "addTimer_locked a ?tm = (front, tm')" by fastforce
  note f = addTimer_locked_fields [OF l]
  have "tm_inv tm'" by (rule rearm_inv [OF assms(1,2), of ?t]) (use f in simp_all)
  then show ?thesis using r l f(1) by simp
qed


section \<open>Firing\<close>

text \<open>\<open>fired now h t\<close>: what the loop does to an expired timer.\<close>

definition fired :: "u64 \<Rightarrow> 'f timer \<Rightarrow> 'f timer" where
  "fired now t = (if m_recurring t then t\<lparr>m_next := now + m_ms t\<rparr> else t\<lparr>m_cb := None\<rparr>)"

lemma sorted_before_upd:
  assumes "sorted_wrt (before h) xs" and "a \<notin> set xs"
  shows "sorted_wrt (before (h(a := t))) xs"
proof -
  have "m_next (h b) = m_next ((h(a := t)) b)" if "b \<in> set xs" for b using that assms(2) by auto
  then have "sorted_wrt (before h) xs = sorted_wrt (before (h(a := t))) xs" by (rule sorted_before_cong)
  then show ?thesis using assms(1) by simp
qed

definition fire_post ::
  "u64 \<Rightarrow> nat list \<Rightarrow> 'f tcb option list \<Rightarrow> 'f timer_manager \<Rightarrow> 'f tcb option list \<Rightarrow> 'f timer_manager \<Rightarrow> bool" where
  "fire_post now as cbs tm cbs' tm' \<longleftrightarrow>
     cbs' = cbs @ map (\<lambda>a. m_cb (heap tm a)) as \<and>
     heap tm' = (\<lambda>a. if a \<in> set as then fired now (heap tm a) else heap tm a) \<and>
     set (m_timers tm') = set (m_timers tm) \<union> {a \<in> set as. m_recurring (heap tm a)} \<and>
     sorted_wrt (before (heap tm')) (m_timers tm') \<and>
     m_previousTime tm' = m_previousTime tm \<and> m_tickled tm' = m_tickled tm"

lemma fire_post_Cons:
  assumes "fire_post now as (cbs @ [m_cb (heap tm a)]) tm1 cbs' tm'"
    and "heap tm1 = (heap tm)(a := fired now (heap tm a))" and "a \<notin> set as"
    and "set (m_timers tm1) = set (m_timers tm) \<union> (if m_recurring (heap tm a) then {a} else {})"
    and "m_previousTime tm1 = m_previousTime tm" and "m_tickled tm1 = m_tickled tm"
  shows "fire_post now (a # as) cbs tm cbs' tm'"
  using assms by (auto simp: fire_post_def fun_eq_iff)

lemma fire_loop_spec:
  assumes "distinct as" and "set as \<inter> set (m_timers tm) = {}" and "sorted_wrt (before (heap tm)) (m_timers tm)"
    and "fire_loop now as cbs tm = (cbs', tm')"
  shows "fire_post now as cbs tm cbs' tm'"
  using assms
proof (induction now as cbs tm rule: fire_loop.induct)
  case (2 now a as cbs tm)
  let ?t = "heap tm a" and ?cbs = "cbs @ [m_cb (heap tm a)]"
  have a: "a \<notin> set (m_timers tm)" "a \<notin> set as" "distinct as" using "2.prems"(1,2) by auto
  show ?case
  proof (cases "m_recurring ?t")
    case True
    let ?h = "(heap tm)(a := ?t\<lparr>m_next := now + m_ms ?t\<rparr>)"
    let ?tm = "tm\<lparr>heap := ?h, m_timers := set_insert (before ?h) a (m_timers tm)\<rparr>"
    have f: "fire_loop now as ?cbs ?tm = (cbs', tm')" using "2.prems"(4) True by (simp add: Let_def)
    have s: "sorted_wrt (before (heap ?tm)) (m_timers ?tm)"
      using timer_order.sorted_set_insert [OF sorted_before_upd [OF "2.prems"(3) a(1)]] by simp
    have d: "set as \<inter> set (m_timers ?tm) = {}"
      using "2.prems"(1,2) by (auto simp: timer_order.set_set_insert)
    show ?thesis
      by (rule fire_post_Cons [OF "2.IH"(1) [OF refl refl True refl a(3) d s f]])
        (use True a(2) in \<open>simp_all add: fired_def timer_order.set_set_insert\<close>)
  next
    case False
    let ?tm = "tm\<lparr>heap := (heap tm)(a := ?t\<lparr>m_cb := None\<rparr>)\<rparr>"
    have f: "fire_loop now as ?cbs ?tm = (cbs', tm')" using "2.prems"(4) False by (simp add: Let_def)
    have s: "sorted_wrt (before (heap ?tm)) (m_timers ?tm)"
      using sorted_before_upd [OF "2.prems"(3) a(1)] by simp
    have d: "set as \<inter> set (m_timers ?tm) = {}" using "2.prems"(2) by simp
    show ?thesis
      by (rule fire_post_Cons [OF "2.IH"(2) [OF refl refl False a(3) d s f]])
        (use False a(2) in \<open>simp_all add: fired_def\<close>)
  qed
qed (simp add: fire_post_def)

text \<open>The expired prefix: \<^verbatim>\<open>lower_bound\<close> of the temporary, then past the equal deadlines, wherever
  the temporary's address falls, is the prefix of the deadlines up to now.\<close>

definition due :: "u64 \<Rightarrow> bool \<Rightarrow> 'f timer_manager \<Rightarrow> nat list" where
  "due now rollover tm =
     (if rollover then m_timers tm else takeWhile (\<lambda>a. m_next (heap tm a) \<le> now) (m_timers tm))"

lemma before_mono_next: "before h a b \<Longrightarrow> m_next (h a) \<le> m_next (h b)"
  by (auto simp: before_def Comparetor_def split: if_splits)

lemma takeWhile_sorted:
  assumes "sorted_wrt (before h) xs"
  shows "takeWhile (\<lambda>a. m_next (h a) \<le> now) xs = filter (\<lambda>a. m_next (h a) \<le> now) xs"
  using assms
proof (induction xs)
  case (Cons x xs)
  have "filter (\<lambda>a. m_next (h a) \<le> now) xs = []" if "\<not> m_next (h x) \<le> now"
    using Cons.prems that before_mono_next [of h x] by (fastforce simp: filter_empty_conv)
  then show ?case using Cons by simp
qed simp

lemma lower_bound_skip:
  fixes now :: u64
  assumes "sorted_wrt (before h) xs" and "na \<notin> set xs"
  defines "h' \<equiv> h(na := new_Timer_at now)"
  shows "take (skip_equal h' now xs (set_lower_bound (before h') na xs)) xs =
    takeWhile (\<lambda>a. m_next (h a) \<le> now) xs"
  using assms(1,2)
proof (induction xs)
  case (Cons x xs)
  have hx: "h' x = h x" and hna: "m_next (h' na) = now"
    using Cons.prems(2) by (auto simp: h'_def new_Timer_at_def)
  show ?case
  proof (cases "before h' x na")
    case True
    then have "m_next (h x) \<le> now" using before_mono_next [of h' x na] hx hna by simp
    then show ?thesis
      using Cons True by (simp add: set_lower_bound_def skip_equal_def)
  next
    case False
    then have ge: "now \<le> m_next (h x)" using hx hna by (auto simp: before_def Comparetor_def split: if_splits)
    have eq: "m_next (h' a) = now \<longleftrightarrow> m_next (h a) \<le> now" if "a \<in> set (x # xs)" for a
    proof -
      have "h' a = h a" using that Cons.prems(2) by (auto simp: h'_def)
      moreover have "now \<le> m_next (h a)"
        using that ge Cons.prems(1) before_mono_next [of h x a] by auto
      ultimately show ?thesis by auto
    qed
    have "take (skip_equal h' now (x # xs) 0) (x # xs) = takeWhile (\<lambda>a. m_next (h' a) = now) (x # xs)"
      unfolding skip_equal_def by (simp only: drop_0 add_0 takeWhile_eq_take [symmetric])
    also have "\<dots> = takeWhile (\<lambda>a. m_next (h a) \<le> now) (x # xs)"
      using eq by (intro takeWhile_cong) auto
    finally show ?thesis using False by (simp add: set_lower_bound_def)
  qed
qed (simp add: skip_equal_def)


lemma fire_due:
  assumes "tm_inv tm" and "m_timers tm = xs @ ys"
    and "fire_loop now xs [] (tm\<lparr>m_timers := ys\<rparr>) = (cbs, tm')"
  shows "tm_inv tm' \<and> cbs = map (\<lambda>a. m_cb (heap tm a)) xs \<and>
    heap tm' = (\<lambda>a. if a \<in> set xs then fired now (heap tm a) else heap tm a)"
proof -
  note inv = tm_invD [OF assms(1)]
  have d: "distinct (xs @ ys)" and s: "sorted_wrt (before (heap tm)) ys"
    using timer_order.sorted_distinct [OF inv(1)] inv(1) assms(2) by (auto simp: sorted_wrt_append)
  have post: "fire_post now xs [] (tm\<lparr>m_timers := ys\<rparr>) cbs tm'"
    by (rule fire_loop_spec [OF _ _ _ assms(3)]) (use d s in auto)
  moreover have "a \<in> set (m_timers tm') \<longleftrightarrow> m_cb (heap tm' a) \<noteq> None" for a
    using post inv(2) [of a] assms(2) d by (auto simp: fire_post_def fired_def)
  ultimately show ?thesis by (auto simp: fire_post_def tm_inv_def)
qed

text \<open>\<open>rolled now tm\<close>: the clock went back by more than an hour since the last call.\<close>

definition rolled :: "u64 \<Rightarrow> 'f timer_manager \<Rightarrow> bool" where
  "rolled now tm = fst (detectClockRollover now tm)"

lemma detectClockRollover_eq:
  "detectClockRollover now tm = (rolled now tm, tm\<lparr>m_previousTime := now\<rparr>)"
  by (simp add: rolled_def detectClockRollover_def)

lemma listExpired_spec:
  assumes "tm_inv tm" and "m_cb (heap tm na) = None" and "m_timers tm \<noteq> []"
  shows "\<exists>tm'. listExpired_locked now na tm = Ret (map (\<lambda>a. m_cb (heap tm a)) (due now (rolled now tm) tm)) tm' \<and>
    tm_inv tm' \<and>
    heap tm' = (\<lambda>a. if a \<in> set (due now (rolled now tm) tm) then fired now (heap tm a) else heap tm a)"
proof -
  note inv = tm_invD [OF assms(1)]
  let ?r = "rolled now tm" and ?tm = "tm\<lparr>m_previousTime := now\<rparr>"
    and ?h = "(heap tm)(na := new_Timer_at now)" and ?ts = "m_timers tm"
  have inv1: "tm_inv ?tm" using assms(1) by (simp add: tm_inv_def)
  have na: "na \<notin> set ?ts" using inv(2) assms(2) by simp
  show ?thesis
  proof (cases "\<not> ?r \<and> m_next (heap tm (hd ?ts)) > now")
    case True
    then have "due now ?r tm = []" using assms(3) by (cases ?ts) (auto simp: due_def)
    then show ?thesis
      using True assms(3) inv1 by (simp add: listExpired_locked_def detectClockRollover_eq)
  next
    case False
    define it where "it = skip_equal ?h now ?ts
      (if ?r then length ?ts else set_lower_bound (before ?h) na ?ts)"
    have it: "take it ?ts = due now ?r tm"
      using lower_bound_skip [OF inv(1) na, of now]
      by (cases ?r) (simp_all add: it_def due_def skip_equal_def)
    obtain cbs tm' where f: "fire_loop now (take it ?ts) [] (?tm\<lparr>m_timers := drop it ?ts\<rparr>) = (cbs, tm')"
      by fastforce
    have "listExpired_locked now na tm = Ret cbs tm'"
      using False assms(3) f
      by (cases ?r) (simp_all add: listExpired_locked_def detectClockRollover_eq it_def Let_def)
    moreover have "m_timers ?tm = take it ?ts @ drop it ?ts" by simp
    note fire_due [OF inv1 this f]
    ultimately show ?thesis using it by (simp cong: if_cong)
  qed
qed


lemma reset_inv:
  assumes "tm_inv tm" and "reset now a ms from_now tm = (r, front, tm')"
  shows "tm_inv tm'"
proof (cases "m_cb (heap tm a) = None \<or> (ms = m_ms (heap tm a) \<and> \<not> from_now)")
  case True
  then show ?thesis using assms by (auto simp: reset_def Let_def split: if_splits)
next
  case False
  then show ?thesis using reset_live [OF assms(1), of a ms from_now now] assms(2) by auto
qed

lemma refresh_inv:
  assumes "tm_inv tm" and "refresh now a tm = (r, tm')"
  shows "tm_inv tm'"
  using assms refresh_live [OF assms(1), of a now]
  by (cases "m_cb (heap tm a) = None") (auto simp: refresh_def)

lemma getNextTimer_inv:
  assumes "tm_inv tm" and "getNextTimer now tm = (d, tm')"
  shows "tm_inv tm'"
  using assms by (auto simp: getNextTimer_def tm_inv_def Let_def split: list.splits if_splits)

lemma listExpiredCb_inv:
  assumes "tm_inv tm" and "m_cb (heap tm na) = None" and "listExpiredCb now na tm = Ret cbs tm'"
  shows "tm_inv tm'"
  using assms listExpired_spec [OF assms(1,2), of now]
  by (cases "m_timers tm = []") (auto simp: listExpiredCb_def)

text \<open>The timers a call at \<open>now\<close> has to fire.\<close>

definition expired_at :: "u64 \<Rightarrow> 'f timer_manager \<Rightarrow> nat list" where
  "expired_at now tm =
     (if rolled now tm then m_timers tm else filter (\<lambda>a. m_next (heap tm a) \<le> now) (m_timers tm))"

section \<open>Properties\<close>

text \<open>C6. Every operation of the timer manager keeps the invariant: the set stays strictly ordered by
  deadline and address, and it holds exactly the timers that still have a callback. (A new timer
  and the temporary of \<open>listExpiredCb\<close> are at addresses of no live timer.)\<close>

theorem timer_ops_inv:
  assumes "tm_inv tm" and "m_cb (heap tm a) = None"
  shows "tm_inv (TimerManager now :: 'f timer_manager) \<and>
    tm_inv (snd (addTimer now a ms cb rec tm)) \<and>
    tm_inv (snd (addConditionTimer now a ms f w rec tm)) \<and>
    (\<forall>b r tm'. cancel b tm = Ret r tm' \<longrightarrow> tm_inv tm') \<and>
    (\<forall>b. tm_inv (snd (refresh now b tm))) \<and>
    (\<forall>b fn. tm_inv (snd (snd (reset now b ms fn tm)))) \<and>
    tm_inv (snd (getNextTimer now tm)) \<and>
    (\<forall>cbs tm'. listExpiredCb now a tm = Ret cbs tm' \<longrightarrow> tm_inv tm')"
proof (intro conjI allI impI)
  show "tm_inv (snd (addTimer now a ms cb rec tm))"
    by (rule addTimer_inv [OF assms]) (rule surjective_pairing)
  show "tm_inv (snd (addConditionTimer now a ms f w rec tm))"
    unfolding addConditionTimer_def by (rule addTimer_inv [OF assms]) (rule surjective_pairing)
  show "tm_inv (snd (snd (reset now b ms fn tm)))" for b fn
    by (rule reset_inv [OF assms(1), of now b ms fn "fst (reset now b ms fn tm)"
          "fst (snd (reset now b ms fn tm))"]) simp
qed (use assms in \<open>auto intro: tm_inv_new cancel_inv refresh_inv getNextTimer_inv listExpiredCb_inv
      surjective_pairing\<close>)

lemma no_cb_new: "m_cb (heap (TimerManager now) a) = None"
  by (simp add: TimerManager_def new_Timer_at_def)

theorem timer_ops_inv_witness:
  "tm_inv (snd (addTimer 5 7 10 (Cb True) False (TimerManager 0)))"
  using timer_ops_inv [OF tm_inv_new no_cb_new, of 5 7 10 "Cb True" False 0 True 0] by blast

text \<open>C7. \<open>listExpiredCb\<close> never fails and returns, in deadline order, the callbacks of exactly the timers
  whose deadline has passed (of all timers after a clock rollover); one-shot timers are retired, recurring
  ones rearmed at now plus their period, and no other timer changes.\<close>

theorem listExpiredCb_exact:
  assumes "tm_inv tm" and "m_cb (heap tm na) = None"
  shows "\<exists>tm'. listExpiredCb now na tm = Ret (map (\<lambda>a. m_cb (heap tm a)) (expired_at now tm)) tm' \<and>
    tm_inv tm' \<and>
    heap tm' = (\<lambda>a. if a \<in> set (expired_at now tm) then
      if m_recurring (heap tm a) then (heap tm a)\<lparr>m_next := now + m_ms (heap tm a)\<rparr>
      else (heap tm a)\<lparr>m_cb := None\<rparr> else heap tm a)"
proof (cases "m_timers tm = []")
  case True
  then show ?thesis using assms(1) by (simp add: listExpiredCb_def expired_at_def)
next
  case False
  have "due now (rolled now tm) tm = expired_at now tm"
    using False takeWhile_sorted [OF tm_invD(1) [OF assms(1)], of now] by (simp add: due_def expired_at_def)
  then show ?thesis
    using listExpired_spec [OF assms(1,2) False, of now] False by (simp add: listExpiredCb_def fired_def cong: if_cong)
qed

theorem listExpiredCb_exact_witness:
  "\<exists>tm'. listExpiredCb 20 9 (snd (addTimer 5 7 10 (Cb True) False (TimerManager 0))) = Ret [Some (Cb True)] tm'"
proof -
  let ?tm = "snd (addTimer 5 7 10 (Cb True) False (TimerManager 0))"
  have "tm_inv ?tm"
    by (rule addTimer_inv [OF tm_inv_new no_cb_new]) (rule surjective_pairing)
  moreover have "m_cb (heap ?tm 9) = None" "m_timers ?tm = [7]" "\<not> rolled 20 ?tm" "m_next (heap ?tm 7) = 15"
    "m_cb (heap ?tm 7) = Some (Cb True)"
    by (simp_all add: addTimer_def addTimer_locked_def TimerManager_def new_Timer_at_def new_Timer_def
        rolled_def detectClockRollover_def Let_def)
  ultimately show ?thesis using listExpiredCb_exact [of ?tm 9 20] by (auto simp: expired_at_def)
qed

text \<open>\<open>cancel\<close> returns true exactly for a pending timer, never erases the end iterator, and
  afterwards the timer is in the set no more; every other timer is untouched.\<close>

theorem cancel_exact:
  assumes "tm_inv tm"
  shows "\<exists>tm'. cancel a tm = Ret (a \<in> set (m_timers tm)) tm' \<and> tm_inv tm' \<and>
    m_timers tm' = filter (\<lambda>b. b \<noteq> a) (m_timers tm) \<and> (\<forall>b. b \<noteq> a \<longrightarrow> heap tm' b = heap tm b)"
proof (cases "m_cb (heap tm a) = None")
  case True
  then have "a \<notin> set (m_timers tm)" using tm_invD(2) [OF assms] by simp
  moreover from this have "filter (\<lambda>b. b \<noteq> a) (m_timers tm) = m_timers tm" by (auto intro!: filter_True)
  ultimately show ?thesis using True assms by (simp add: cancel_def)
next
  case False
  then show ?thesis
    using cancel_live [OF assms False] cancel_inv [OF assms] tm_invD(2) [OF assms, of a] by auto
qed

theorem cancel_exact_witness:
  "\<exists>tm'. cancel 3 (TimerManager 0 :: bool timer_manager) = Ret False tm'"
  using cancel_exact [OF tm_inv_new [of 0], of 3] by (auto simp: TimerManager_def)

text \<open>\<open>getNextTimer\<close> returns \<^verbatim>\<open>~0ull\<close> when no timer is pending, and otherwise the time until the earliest
  deadline of any pending timer, 0 when one has passed: no pending timer is due earlier.\<close>

theorem getNextTimer_exact:
  assumes "tm_inv tm"
  shows "fst (getNextTimer now tm) =
    (if m_timers tm = [] then NOT 0
     else let d = Min ((\<lambda>a. m_next (heap tm a)) ` set (m_timers tm)) in if d \<le> now then 0 else d - now)"
proof (cases "m_timers tm")
  case (Cons a as)
  have "Min ((\<lambda>a. m_next (heap tm a)) ` set (m_timers tm)) = m_next (heap tm a)"
    using tm_invD(1) [OF assms] before_mono_next by (intro Min_eqI) (auto simp: Cons)
  then show ?thesis using Cons by (simp add: getNextTimer_def Let_def)
qed (simp add: getNextTimer_def)

theorem getNextTimer_exact_witness:
  "fst (getNextTimer 3 (TimerManager 0 :: bool timer_manager)) = NOT 0"
  using getNextTimer_exact [OF tm_inv_new [of 0], of 3] by (simp add: TimerManager_def)

text \<open>\<open>refresh\<close> and \<open>reset\<close>: on a pending timer they succeed and set the deadline to now plus the
  period, or keep the start and change the period; on any other timer they return false (\<open>reset\<close>
  to the same period without restart returns true) and change nothing.\<close>

theorem rearm_exact:
  assumes "tm_inv tm"
  shows "(let t = heap tm a; (r, tm') = refresh now a tm in
      if a \<in> set (m_timers tm) then r \<and> heap tm' = (heap tm)(a := t\<lparr>m_next := now + m_ms t\<rparr>)
      else \<not> r \<and> tm' = tm) \<and>
    (let t = heap tm a; (r, front, tm') = reset now a ms from_now tm in
      if ms = m_ms t \<and> \<not> from_now then r \<and> tm' = tm
      else if a \<in> set (m_timers tm) then r \<and> heap tm' = (heap tm)(a := t\<lparr>m_ms := ms,
        m_next := (if from_now then now else m_next t - m_ms t) + ms\<rparr>)
      else \<not> r \<and> tm' = tm)"
proof (cases "m_cb (heap tm a) = None")
  case True
  then show ?thesis using tm_invD(2) [OF assms, of a] by (simp add: refresh_def reset_def Let_def)
next
  case False
  then obtain tm1 where "refresh now a tm = (True, tm1)"
    and "heap tm1 = (heap tm)(a := (heap tm a)\<lparr>m_next := now + m_ms (heap tm a)\<rparr>)"
    using refresh_live [OF assms] by blast
  moreover have a: "a \<in> set (m_timers tm)" using False tm_invD(2) [OF assms] by simp
  moreover have "reset now a ms from_now tm = (True, False, tm)" if "ms = m_ms (heap tm a) \<and> \<not> from_now"
    using that by (simp add: reset_def)
  moreover have "\<exists>front tm'. reset now a ms from_now tm = (True, front, tm') \<and>
      heap tm' = (heap tm)(a := (heap tm a)\<lparr>m_ms := ms,
        m_next := (if from_now then now else m_next (heap tm a) - m_ms (heap tm a)) + ms\<rparr>)"
    if "\<not> (ms = m_ms (heap tm a) \<and> \<not> from_now)"
    using reset_live [OF assms False] that by blast
  ultimately show ?thesis
    by (cases "ms = m_ms (heap tm a) \<and> \<not> from_now") (auto simp: Let_def)
qed

theorem rearm_exact_witness:
  "refresh 3 4 (TimerManager 0 :: bool timer_manager) = (False, TimerManager 0)"
  using rearm_exact [OF tm_inv_new [of 0], of 4 3 0 False]
  by (auto simp: TimerManager_def Let_def split: prod.splits)

text \<open>Between its two critical sections \<open>listExpiredCb\<close> holds no lock: when another thread cancels the last
  timer there, the second section dereferences the end iterator of the empty set.\<close>

theorem listExpired_race:
  assumes "m_timers tm = []" and "m_previousTime tm \<le> now"
  shows "listExpired_locked now na tm = Undef OutOfBounds"
  using assms by (auto simp: listExpired_locked_def detectClockRollover_def Let_def not_less)

theorem listExpired_race_witness:
  "listExpired_locked 3 9 (TimerManager 0 :: bool timer_manager) = Undef OutOfBounds"
  using listExpired_race [of "TimerManager 0" 3 9] by (simp add: TimerManager_def)

end
