(* ===== verification/Fiber.thy ===== *)
theory Fiber
  imports Prelude
begin

text \<open>
  \<^verbatim>\<open>src/cxk/fiber.{h,cpp}\<close>: coroutines on \<^verbatim>\<open>ucontext\<close>, as one thread sees them.

  A \<^verbatim>\<open>Fiber*\<close> is an address into the heap \<open>fibers\<close>; the thread-local variables are the fields
  \<open>t_fiber\<close>, \<open>t_threadFiber\<close> and \<open>t_mainFiber\<close> (\<^verbatim>\<open>Scheduler::GetMainFiber()\<close>). What a
  \<^verbatim>\<open>ucontext_t\<close> holds is the datatype \<open>ctx\<close>: a fresh entry point, the stack of some fiber
  suspended in a switch, or suspended in the last switch of \<open>MainFunc\<close>, behind which only an
  assertion is left. \<open>on_cpu\<close> is the stack that executes (\<open>None\<close>: the thread's own stack before
  it has a fiber object). \<^verbatim>\<open>swapcontext\<close> saves \<^emph>\<open>whatever executes\<close> into its first argument and loads
  its second: that the right stack comes back is a theorem (\<open>fw_inv\<close>), not built in.
  \<^verbatim>\<open>getcontext\<close> and \<^verbatim>\<open>swapcontext\<close> are taken to succeed; \<^verbatim>\<open>CXK_ASSERT\<close> is \<open>Undef AssertFailed\<close>.
\<close>

section \<open>State\<close>

text \<open>\<open>FTERM\<close> is \<^verbatim>\<open>TERM\<close>.\<close>

datatype fstate = INIT | HOLD | EXEC | FTERM | READY | EXCEPT

datatype entry = MainFunc_entry | CallerMainFunc_entry

datatype ctx = Fresh entry | Saved "nat option" | Finished "nat option"

record 'f fiber =
  m_id :: u64
  m_stacksize :: u32
  m_state :: fstate
  m_ctx :: ctx
  m_stack :: bool
  fib_cb :: "'f option"

record 'f fworld =
  s_fiber_id :: u64
  s_fiber_count :: u64
  fibers :: "nat \<Rightarrow> 'f fiber"
  t_fiber :: "nat option"
  t_threadFiber :: "nat option"
  t_mainFiber :: "nat option"
  on_cpu :: "nat option"

type_synonym ('f, 'a) fop = "'f fworld \<Rightarrow> ('f fworld, 'a) outcome"

definition upd_fiber :: "nat \<Rightarrow> ('f fiber \<Rightarrow> 'f fiber) \<Rightarrow> 'f fworld \<Rightarrow> 'f fworld" where
  "upd_fiber f g w = w\<lparr>fibers := (fibers w)(f := g (fibers w f))\<rparr>"

definition SetThis :: "nat option \<Rightarrow> 'f fworld \<Rightarrow> 'f fworld" where
  "SetThis f w = w\<lparr>t_fiber := f\<rparr>"

section \<open>Construction and destruction\<close>

text \<open>\<open>new_main_Fiber a\<close> is the private constructor at address \<open>a\<close>; \<open>new_Fiber\<close> the public one.
  \<open>conf\<close> is the configured stack size.\<close>

definition new_main_Fiber :: "nat \<Rightarrow> 'f fworld \<Rightarrow> 'f fworld" where
  "new_main_Fiber a w =
     (let w = w\<lparr>fibers := (fibers w)(a := \<lparr>m_id = 0, m_stacksize = 0, m_state = EXEC,
                  m_ctx = Saved (Some a), m_stack = False, fib_cb = None\<rparr>)\<rparr>;
          w = SetThis (Some a) w
      in w\<lparr>on_cpu := Some a, s_fiber_count := s_fiber_count w + 1\<rparr>)"

definition new_Fiber :: "u32 \<Rightarrow> nat \<Rightarrow> 'f option \<Rightarrow> u32 \<Rightarrow> bool \<Rightarrow> 'f fworld \<Rightarrow> 'f fworld" where
  "new_Fiber conf a cb stacksize use_caller w =
     w\<lparr>s_fiber_id := s_fiber_id w + 1, s_fiber_count := s_fiber_count w + 1,
       fibers := (fibers w)(a :=
         \<lparr>m_id = s_fiber_id w + 1, m_stacksize = (if stacksize \<noteq> 0 then stacksize else conf),
          m_state = INIT,
          m_ctx = Fresh (if \<not> use_caller then MainFunc_entry else CallerMainFunc_entry),
          m_stack = True, fib_cb = cb\<rparr>)\<rparr>"

definition delete_Fiber :: "nat \<Rightarrow> ('f, unit) fop" where
  "delete_Fiber f w =
     (let w = w\<lparr>s_fiber_count := s_fiber_count w - 1\<rparr>; x = fibers w f in
      if m_stack x then CXK_ASSERT (m_state x \<in> {FTERM, INIT, EXCEPT}) (Ret () w)
      else CXK_ASSERT (fib_cb x = None)
        (CXK_ASSERT (m_state x = EXEC)
          (Ret () (if t_fiber w = Some f then SetThis None w else w))))"

definition fiber_reset :: "nat \<Rightarrow> 'f option \<Rightarrow> ('f, unit) fop" where
  "fiber_reset f cb w =
     CXK_ASSERT (m_stack (fibers w f))
      (CXK_ASSERT (m_state (fibers w f) \<in> {FTERM, INIT, EXCEPT})
        (Ret () (upd_fiber f (\<lambda>x. x\<lparr>fib_cb := cb, m_ctx := Fresh MainFunc_entry, m_state := INIT\<rparr>) w)))"

section \<open>Switching\<close>

definition swapcontext :: "(nat option \<Rightarrow> ctx) \<Rightarrow> nat \<Rightarrow> nat \<Rightarrow> ('f, unit) fop" where
  "swapcontext how oucp ucp w =
     (let w = upd_fiber oucp (\<lambda>x. x\<lparr>m_ctx := how (on_cpu w)\<rparr>) w
      in case m_ctx (fibers w ucp) of
           Fresh _ \<Rightarrow> Ret () (w\<lparr>on_cpu := Some ucp\<rparr>)
         | Saved k \<Rightarrow> Ret () (w\<lparr>on_cpu := k\<rparr>)
         | Finished _ \<Rightarrow> Undef AssertFailed)"

definition call :: "nat \<Rightarrow> ('f, unit) fop" where
  "call f w =
     (let w = upd_fiber f (\<lambda>x. x\<lparr>m_state := EXEC\<rparr>) (SetThis (Some f) w)
      in case t_threadFiber w of None \<Rightarrow> Undef NullDeref | Some t \<Rightarrow> swapcontext Saved t f w)"

definition swapIn :: "nat \<Rightarrow> ('f, unit) fop" where
  "swapIn f w =
     (let w = SetThis (Some f) w in
      CXK_ASSERT (m_state (fibers w f) \<noteq> EXEC)
       (let w = upd_fiber f (\<lambda>x. x\<lparr>m_state := EXEC\<rparr>) w
        in case t_mainFiber w of None \<Rightarrow> Undef NullDeref | Some m \<Rightarrow> swapcontext Saved m f w))"

definition fiber_back :: "(nat option \<Rightarrow> ctx) \<Rightarrow> nat \<Rightarrow> ('f, unit) fop" where
  "fiber_back how f w =
     (let w = SetThis (t_threadFiber w) w
      in case t_threadFiber w of None \<Rightarrow> Undef NullDeref | Some t \<Rightarrow> swapcontext how f t w)"

definition swapOut :: "(nat option \<Rightarrow> ctx) \<Rightarrow> nat \<Rightarrow> ('f, unit) fop" where
  "swapOut how f w =
     (let w = SetThis (t_mainFiber w) w
      in case t_mainFiber w of None \<Rightarrow> Undef NullDeref | Some m \<Rightarrow> swapcontext how f m w)"

text \<open>\<open>GetThis a\<close>: the current fiber; a thread without one gets its main fiber, at address \<open>a\<close>.\<close>

definition fiber_GetThis :: "nat \<Rightarrow> ('f, nat) fop" where
  "fiber_GetThis a w =
     (case t_fiber w of Some f \<Rightarrow> Ret f w
      | None \<Rightarrow> Ret a ((new_main_Fiber a w)\<lparr>t_threadFiber := Some a\<rparr>))"

definition YieldToReady :: "nat \<Rightarrow> ('f, unit) fop" where
  "YieldToReady a w = obind (fiber_GetThis a w) (\<lambda>cur w.
     swapOut Saved cur (upd_fiber cur (\<lambda>x. x\<lparr>m_state := READY\<rparr>) w))"

definition YieldToHold :: "nat \<Rightarrow> ('f, unit) fop" where
  "YieldToHold a w = obind (fiber_GetThis a w) (\<lambda>cur w.
     swapOut Saved cur (upd_fiber cur (\<lambda>x. x\<lparr>m_state := HOLD\<rparr>) w))"

text \<open>
  The end of \<open>MainFunc\<close> and \<open>CallerMainFunc\<close>, once the callback has returned (\<open>ok\<close>) or thrown;
  an empty \<^verbatim>\<open>std::function\<close> throws \<^verbatim>\<open>bad_function_call\<close>.
\<close>

definition finish_body :: "bool \<Rightarrow> nat \<Rightarrow> 'f fworld \<Rightarrow> 'f fworld" where
  "finish_body ok cur w =
     upd_fiber cur (\<lambda>x. if ok \<and> fib_cb x \<noteq> None then x\<lparr>fib_cb := None, m_state := FTERM\<rparr>
                        else x\<lparr>m_state := EXCEPT\<rparr>) w"

definition MainFunc :: "nat \<Rightarrow> bool \<Rightarrow> ('f, unit) fop" where
  "MainFunc a ok w = obind (fiber_GetThis a w) (\<lambda>cur w. swapOut Finished cur (finish_body ok cur w))"

definition CallerMainFunc :: "nat \<Rightarrow> bool \<Rightarrow> ('f, unit) fop" where
  "CallerMainFunc a ok w = obind (fiber_GetThis a w) (\<lambda>cur w. fiber_back Finished cur (finish_body ok cur w))"

definition TotalFiber :: "'f fworld \<Rightarrow> u64" where
  "TotalFiber w = s_fiber_count w"

definition GetFiberId :: "'f fworld \<Rightarrow> u64" where
  "GetFiberId w = (case t_fiber w of Some f \<Rightarrow> m_id (fibers w f) | None \<Rightarrow> 0)"

section \<open>The switching invariant\<close>

text \<open>
  \<open>fw_inv\<close>: the thread-local current fiber is the one that executes; every saved context belongs to
  its own fiber; and a context is past the end of its body exactly in a terminal state.
\<close>

definition own_ctx :: "nat \<Rightarrow> 'f fiber \<Rightarrow> bool" where
  "own_ctx f x \<longleftrightarrow>
     (case m_ctx x of Fresh _ \<Rightarrow> m_state x = INIT \<or> m_state x = EXEC
      | Saved k \<Rightarrow> k = Some f \<and> m_state x \<in> {HOLD, READY, EXEC}
      | Finished k \<Rightarrow> k = Some f \<and> m_state x \<in> {FTERM, EXCEPT})"

definition fw_inv :: "'f fworld \<Rightarrow> bool" where
  "fw_inv w \<longleftrightarrow> t_fiber w = on_cpu w \<and> (\<forall>f. own_ctx f (fibers w f)) \<and>
     (\<forall>c. on_cpu w = Some c \<longrightarrow> m_state (fibers w c) = EXEC)"


lemma fw_invD:
  assumes "fw_inv w"
  shows "t_fiber w = on_cpu w" "\<And>f. own_ctx f (fibers w f)"
    "\<And>c. on_cpu w = Some c \<Longrightarrow> m_state (fibers w c) = EXEC"
  using assms by (auto simp: fw_inv_def)

text \<open>\<open>in_main m w\<close>: the scheduler's main fiber \<open>m\<close> executes, as it does in \<^verbatim>\<open>Scheduler::run\<close>.\<close>

definition in_main :: "nat \<Rightarrow> 'f fworld \<Rightarrow> bool" where
  "in_main m w \<longleftrightarrow> fw_inv w \<and> on_cpu w = Some m \<and> t_mainFiber w = Some m"

definition in_fiber :: "nat \<Rightarrow> nat \<Rightarrow> 'f fworld \<Rightarrow> bool" where
  "in_fiber f m w \<longleftrightarrow> fw_inv w \<and> on_cpu w = Some f \<and> t_mainFiber w = Some m \<and> f \<noteq> m \<and>
     m_state (fibers w m) = EXEC \<and> m_ctx (fibers w m) = Saved (Some m)"

text \<open>How the switches change one fiber.\<close>

lemma own_ctx_upd [simp]:
  "own_ctx f (x\<lparr>m_state := EXEC, m_ctx := Saved (Some f)\<rparr>)"
  "m_state x = EXEC \<Longrightarrow> own_ctx f (x\<lparr>m_ctx := Saved (Some f)\<rparr>)"
  "s \<in> {HOLD, READY} \<Longrightarrow> own_ctx f (x\<lparr>m_state := s, m_ctx := Saved (Some f)\<rparr>)"
  "s \<in> {FTERM, EXCEPT} \<Longrightarrow> own_ctx f (x\<lparr>m_state := s, m_ctx := Finished (Some f)\<rparr>)"
  "own_ctx f (x\<lparr>fib_cb := cb\<rparr>) = own_ctx f x"
  "own_ctx f (x\<lparr>fib_cb := cb, m_ctx := Fresh e, m_state := INIT\<rparr>)"
  "own_ctx f (y\<lparr>fib_cb := cb, m_state := FTERM, m_ctx := Finished (Some f)\<rparr>)"
  by (auto simp: own_ctx_def split: ctx.splits)

lemma own_ctx_resume:
  "own_ctx f x \<Longrightarrow> m_state x \<in> {INIT, HOLD, READY} \<Longrightarrow> own_ctx f (x\<lparr>m_state := EXEC\<rparr>)"
  "own_ctx f x \<Longrightarrow> m_state x \<in> {INIT, HOLD, READY} \<Longrightarrow>
     (\<exists>e. m_ctx x = Fresh e) \<or> m_ctx x = Saved (Some f)"
  by (auto simp: own_ctx_def split: ctx.splits)

lemma swapIn_ok:
  assumes "in_main m w" and "f \<noteq> m" and "m_state (fibers w f) \<in> {INIT, HOLD, READY}"
  shows "\<exists>w'. swapIn f w = Ret () w' \<and> in_fiber f m w' \<and>
    fibers w' = (fibers w)(f := (fibers w f)\<lparr>m_state := EXEC\<rparr>, m := (fibers w m)\<lparr>m_ctx := Saved (Some m)\<rparr>)"
proof -
  have inv: "t_fiber w = Some m" "on_cpu w = Some m" "t_mainFiber w = Some m"
    "\<And>g. own_ctx g (fibers w g)" "m_state (fibers w m) = EXEC"
    using assms(1) fw_invD [of w] by (auto simp: in_main_def)
  let ?w = "w\<lparr>t_fiber := Some f, on_cpu := Some f,
    fibers := (fibers w)(f := (fibers w f)\<lparr>m_state := EXEC\<rparr>, m := (fibers w m)\<lparr>m_ctx := Saved (Some m)\<rparr>)\<rparr>"
  have "m_state (fibers w f) \<noteq> EXEC" using assms(3) by auto
  then have "swapIn f w = Ret () ?w"
    using own_ctx_resume(2) [OF inv(4) assms(3)] inv assms(2)
    by (auto simp: swapIn_def SetThis_def CXK_ASSERT_def upd_fiber_def swapcontext_def Let_def)
  moreover have "in_fiber f m ?w"
    using inv assms(2) own_ctx_resume(1) [OF inv(4) assms(3)]
    by (auto simp: in_fiber_def fw_inv_def)
  ultimately show ?thesis by simp
qed

text \<open>Leaving a fiber, however its state and callback were changed just before.\<close>

lemma swapOut_ok:
  assumes "in_fiber f m w" and "own_ctx f ((g (fibers w f))\<lparr>m_ctx := how (Some f)\<rparr>)"
  shows "\<exists>w'. swapOut how f (upd_fiber f g w) = Ret () w' \<and> in_main m w' \<and>
    fibers w' = (fibers w)(f := (g (fibers w f))\<lparr>m_ctx := how (Some f)\<rparr>)"
proof -
  have inv: "t_fiber w = Some f" "on_cpu w = Some f" "t_mainFiber w = Some m" "f \<noteq> m"
    "\<And>h. own_ctx h (fibers w h)" "m_state (fibers w m) = EXEC" "m_ctx (fibers w m) = Saved (Some m)"
    using assms(1) fw_invD [of w] by (auto simp: in_fiber_def)
  let ?w = "w\<lparr>t_fiber := Some m, on_cpu := Some m,
    fibers := (fibers w)(f := (g (fibers w f))\<lparr>m_ctx := how (Some f)\<rparr>)\<rparr>"
  have "swapOut how f (upd_fiber f g w) = Ret () ?w"
    using inv by (simp add: swapOut_def SetThis_def upd_fiber_def swapcontext_def Let_def)
  moreover have "in_main m ?w" using inv assms(2) by (auto simp: in_main_def fw_inv_def)
  ultimately show ?thesis by simp
qed

lemma in_fiber_GetThis: "in_fiber f m w \<Longrightarrow> fiber_GetThis a w = Ret f w"
  using fw_invD(1) [of w] by (auto simp: in_fiber_def fiber_GetThis_def)

lemma YieldToHold_ok:
  assumes "in_fiber f m w"
  shows "\<exists>w'. YieldToHold a w = Ret () w' \<and> in_main m w' \<and>
    fibers w' = (fibers w)(f := (fibers w f)\<lparr>m_state := HOLD, m_ctx := Saved (Some f)\<rparr>)"
  using swapOut_ok [OF assms, where g = "\<lambda>x. x\<lparr>m_state := HOLD\<rparr>" and how = Saved] in_fiber_GetThis [OF assms]
  by (simp add: YieldToHold_def)

lemma YieldToReady_ok:
  assumes "in_fiber f m w"
  shows "\<exists>w'. YieldToReady a w = Ret () w' \<and> in_main m w' \<and>
    fibers w' = (fibers w)(f := (fibers w f)\<lparr>m_state := READY, m_ctx := Saved (Some f)\<rparr>)"
  using swapOut_ok [OF assms, where g = "\<lambda>x. x\<lparr>m_state := READY\<rparr>" and how = Saved] in_fiber_GetThis [OF assms]
  by (simp add: YieldToReady_def)

lemma MainFunc_ok:
  assumes "in_fiber f m w"
  shows "\<exists>w'. MainFunc a ok w = Ret () w' \<and> in_main m w' \<and> (\<forall>g. g \<noteq> f \<longrightarrow> fibers w' g = fibers w g) \<and>
    m_ctx (fibers w' f) = Finished (Some f) \<and> m_stack (fibers w' f) = m_stack (fibers w f) \<and>
    m_state (fibers w' f) = (if ok \<and> fib_cb (fibers w f) \<noteq> None then FTERM else EXCEPT)"
proof -
  let ?g = "\<lambda>x. if ok \<and> fib_cb x \<noteq> None then x\<lparr>fib_cb := None, m_state := FTERM\<rparr> else x\<lparr>m_state := EXCEPT\<rparr>"
  have "own_ctx f ((?g (fibers w f))\<lparr>m_ctx := Finished (Some f)\<rparr>)" by simp
  from swapOut_ok [where g = ?g and how = Finished, OF assms this] show ?thesis
    using in_fiber_GetThis [OF assms] by (auto simp: MainFunc_def finish_body_def)
qed


lemma fiber_reset_ok:
  assumes "in_main m w" and "m_stack (fibers w f)" and "m_state (fibers w f) \<in> {FTERM, INIT, EXCEPT}"
  shows "\<exists>w'. fiber_reset f cb w = Ret () w' \<and> in_main m w' \<and>
    fibers w' = (fibers w)(f := (fibers w f)\<lparr>fib_cb := cb, m_ctx := Fresh MainFunc_entry, m_state := INIT\<rparr>)"
proof -
  have inv: "t_fiber w = Some m" "on_cpu w = Some m" "t_mainFiber w = Some m"
    "\<And>g. own_ctx g (fibers w g)" "m_state (fibers w m) = EXEC"
    using assms(1) fw_invD [of w] by (auto simp: in_main_def)
  have "f \<noteq> m" using inv(5) assms(3) by auto
  moreover have "m_state (fibers w f) = FTERM \<or> m_state (fibers w f) = INIT \<or> m_state (fibers w f) = EXCEPT"
    using assms(3) by simp
  ultimately show ?thesis
    using inv assms(2) by (auto simp: fiber_reset_def CXK_ASSERT_def upd_fiber_def in_main_def fw_inv_def)
qed

lemma swapIn_finished:
  assumes "in_main m w" and "m_state (fibers w f) \<in> {FTERM, EXCEPT}"
  shows "swapIn f w = Undef AssertFailed"
proof -
  have inv: "on_cpu w = Some m" "t_mainFiber w = Some m" "own_ctx f (fibers w f)" "m_state (fibers w m) = EXEC"
    using assms(1) fw_invD [of w] by (auto simp: in_main_def)
  have "f \<noteq> m" using inv(4) assms(2) by auto
  moreover have "\<exists>k. m_ctx (fibers w f) = Finished k"
    using inv(3) assms(2) by (auto simp: own_ctx_def split: ctx.splits)
  ultimately show ?thesis
    using inv(1,2) assms(2)
    by (auto simp: swapIn_def SetThis_def CXK_ASSERT_def upd_fiber_def swapcontext_def Let_def)
qed

section \<open>Properties\<close>

text \<open>A thread that has set up its main fiber at address 0, with one new fiber at address 1.\<close>

definition demo_world :: "nat fworld" where
  "demo_world =
     (let blank = \<lparr>m_id = 0, m_stacksize = 0, m_state = INIT, m_ctx = Fresh MainFunc_entry,
                   m_stack = False, fib_cb = None\<rparr>;
          w = \<lparr>s_fiber_id = 0, s_fiber_count = 0, fibers = (\<lambda>_. blank), t_fiber = None,
               t_threadFiber = None, t_mainFiber = Some 0, on_cpu = None\<rparr>
      in case fiber_GetThis 0 w of Ret _ w \<Rightarrow> new_Fiber 1048576 1 (Some 5) 0 False w | _ \<Rightarrow> w)"

lemma demo_world_main: "in_main 0 demo_world" "m_state (fibers demo_world 1) = INIT"
  by (auto simp: demo_world_def Let_def fiber_GetThis_def new_main_Fiber_def new_Fiber_def SetThis_def
      in_main_def fw_inv_def own_ctx_def)

text \<open>C8. Context switches: from the main fiber, a fiber that is not running and not finished can be switched
  in, and whatever it then does (yield to hold, yield to ready, end, or throw) control comes back to
  the main fiber with the thread-local current fiber, every saved context and every other fiber
  intact, and the fiber in the state the code documents.\<close>

theorem fiber_switch_cycle:
  assumes "in_main m w" and "f \<noteq> m" and "m_state (fibers w f) \<in> {INIT, HOLD, READY}"
  shows "\<exists>w1. swapIn f w = Ret () w1 \<and> t_fiber w1 = Some f \<and> on_cpu w1 = Some f \<and>
    m_state (fibers w1 f) = EXEC \<and>
    (\<exists>w2. YieldToHold a w1 = Ret () w2 \<and> in_main m w2 \<and> m_state (fibers w2 f) = HOLD) \<and>
    (\<exists>w2. YieldToReady a w1 = Ret () w2 \<and> in_main m w2 \<and> m_state (fibers w2 f) = READY) \<and>
    (\<exists>w2. MainFunc a ok w1 = Ret () w2 \<and> in_main m w2 \<and>
       m_state (fibers w2 f) = (if ok \<and> fib_cb (fibers w f) \<noteq> None then FTERM else EXCEPT) \<and>
       (\<forall>g. g \<noteq> f \<and> g \<noteq> m \<longrightarrow> fibers w2 g = fibers w g))"
proof -
  obtain w1 where w1: "swapIn f w = Ret () w1" "in_fiber f m w1"
    "fibers w1 = (fibers w)(f := (fibers w f)\<lparr>m_state := EXEC\<rparr>, m := (fibers w m)\<lparr>m_ctx := Saved (Some m)\<rparr>)"
    using swapIn_ok [OF assms] by blast
  have "t_fiber w1 = Some f" "on_cpu w1 = Some f"
    using w1(2) fw_invD(1) [of w1] by (auto simp: in_fiber_def)
  then show ?thesis
    using w1(1,3) assms(2) YieldToHold_ok [OF w1(2), of a] YieldToReady_ok [OF w1(2), of a]
      MainFunc_ok [OF w1(2), of a ok]
    by auto
qed

theorem fiber_switch_cycle_witness:
  "\<exists>w1. swapIn 1 demo_world = Ret () w1 \<and> t_fiber w1 = Some 1"
  using fiber_switch_cycle [OF demo_world_main(1), of 1 0 True] demo_world_main(2) by auto

text \<open>A finished fiber cannot be resumed (the assertion behind the last switch of \<open>MainFunc\<close> fires),
  unless it has been \<open>reset\<close>, which takes exactly the fibers with a stack in the states INIT, TERM
  and EXCEPT and makes them runnable with the new callback.\<close>

theorem finished_needs_reset:
  assumes "in_main m w" and "m_state (fibers w f) \<in> {FTERM, EXCEPT}"
  shows "swapIn f w = Undef AssertFailed \<and>
    (if m_stack (fibers w f)
     then \<exists>w1 w2. fiber_reset f cb w = Ret () w1 \<and> fib_cb (fibers w1 f) = cb \<and> swapIn f w1 = Ret () w2 \<and>
       on_cpu w2 = Some f
     else fiber_reset f cb w = Undef AssertFailed)"
proof (cases "m_stack (fibers w f)")
  case True
  have "m_state (fibers w m) = EXEC" using assms(1) fw_invD(3) by (auto simp: in_main_def)
  then have fm: "f \<noteq> m" using assms(2) by auto
  obtain w1 where w1: "fiber_reset f cb w = Ret () w1" "in_main m w1"
    "fibers w1 = (fibers w)(f := (fibers w f)\<lparr>fib_cb := cb, m_ctx := Fresh MainFunc_entry, m_state := INIT\<rparr>)"
    using fiber_reset_ok [OF assms(1) True, of cb] assms(2) by auto
  have "m_state (fibers w1 f) \<in> {INIT, HOLD, READY}" by (simp add: w1(3))
  then obtain w2 where "swapIn f w1 = Ret () w2" "in_fiber f m w2"
    using swapIn_ok [OF w1(2) fm] by blast
  then show ?thesis using True swapIn_finished [OF assms] w1 by (auto simp: in_fiber_def)
next
  case False
  then show ?thesis using swapIn_finished [OF assms] by (simp add: fiber_reset_def CXK_ASSERT_def)
qed

theorem finished_needs_reset_witness:
  "\<exists>w :: nat fworld. swapIn 1 w = Undef AssertFailed \<and> m_state (fibers w 1) = FTERM"
proof -
  have init: "m_state (fibers demo_world 1) \<in> {INIT, HOLD, READY}" using demo_world_main(2) by simp
  have cb: "fib_cb (fibers demo_world 1) = Some 5"
    by (simp add: demo_world_def Let_def fiber_GetThis_def new_main_Fiber_def new_Fiber_def SetThis_def)
  obtain w1 where w1: "in_fiber 1 0 w1" "fib_cb (fibers w1 1) = Some (5 :: nat)"
    using swapIn_ok [OF demo_world_main(1) _ init] cb by auto
  obtain w2 :: "nat fworld" where "in_main 0 w2" "m_state (fibers w2 1) = FTERM"
    using MainFunc_ok [OF w1(1), of 0 True] w1(2) by auto
  then show ?thesis using finished_needs_reset [of 0 w2 1 None] by auto
qed

end
