(* ===== verification/Scheduler.thy ===== *)
theory Scheduler
  imports Fiber
begin

text \<open>
  \<^verbatim>\<open>src/cxk/scheduler.{h,cpp}\<close>: the N:M scheduler. \<open>scheduler\<close> is the object; the list \<open>m_fibers\<close> is
  the run queue. Each worker thread executes \<^verbatim>\<open>Scheduler::run\<close>; its program counter \<open>pc\<close> names the
  points between which other threads can interleave: the critical section that picks a task, the
  switch into a fiber, the two halves of leaving it (the state is stored first, the context is
  switched after), and the bookkeeping behind the switch. \<open>step\<close> is the interleaving semantics.
  A scheduled callback is a value of type \<open>'f\<close>; thread ids are \<open>int\<close>, \<open>-1\<close> any thread.
  Logging is left out. The counters are \<open>int\<close>, so that they would go below zero where the
  \<^verbatim>\<open>size_t\<close> of the source would wrap; the invariant \<open>sys_inv\<close> excludes it.
\<close>

section \<open>State\<close>

record 'f fiber_and_thread =
  ft_fiber :: "nat option"
  ft_cb :: "'f option"
  ft_thread :: int

record 'f scheduler =
  m_fibers :: "'f fiber_and_thread list"
  m_rootFiber :: "nat option"
  m_threadIds :: "int list"
  m_threads :: "int list"
  m_threadCount :: nat
  m_activeThreadCount :: int
  m_idelThreadCount :: int
  m_autoStop :: bool
  m_stopping :: bool
  m_rootThread :: int

definition FiberAndThread_fiber :: "nat option \<Rightarrow> int \<Rightarrow> 'f fiber_and_thread" where
  "FiberAndThread_fiber f thr = \<lparr>ft_fiber = f, ft_cb = None, ft_thread = thr\<rparr>"

definition FiberAndThread_cb :: "'f option \<Rightarrow> int \<Rightarrow> 'f fiber_and_thread" where
  "FiberAndThread_cb cb thr = \<lparr>ft_fiber = None, ft_cb = cb, ft_thread = thr\<rparr>"

definition FiberAndThread_empty :: "'f fiber_and_thread" where
  "FiberAndThread_empty = \<lparr>ft_fiber = None, ft_cb = None, ft_thread = -1\<rparr>"

text \<open>\<open>new_Scheduler tid has_scheduler threads use_caller root\<close>: \<open>tid\<close> is the calling thread,
  \<open>has_scheduler\<close> says that it already has a scheduler, \<open>root\<close> the address of the root fiber.\<close>

definition new_Scheduler :: "int \<Rightarrow> bool \<Rightarrow> nat \<Rightarrow> bool \<Rightarrow> nat \<Rightarrow> (unit, 'f scheduler) outcome" where
  "new_Scheduler tid has_scheduler threads use_caller root =
     CXK_ASSERT (threads > 0)
      (let s = \<lparr>m_fibers = [], m_rootFiber = None, m_threadIds = [], m_threads = [], m_threadCount = threads,
                m_activeThreadCount = 0, m_idelThreadCount = 0, m_autoStop = False, m_stopping = True,
                m_rootThread = -1\<rparr>
       in if use_caller
          then CXK_ASSERT (\<not> has_scheduler)
                (Ret (s\<lparr>m_threadCount := threads - 1, m_rootFiber := Some root, m_rootThread := tid,
                        m_threadIds := [tid]\<rparr>) ())
          else Ret s ())"

section \<open>Scheduling\<close>

definition scheduleNoLock :: "'f fiber_and_thread \<Rightarrow> 'f scheduler \<Rightarrow> bool \<times> 'f scheduler" where
  "scheduleNoLock ft s =
     (m_fibers s = [],
      if ft_fiber ft \<noteq> None \<or> ft_cb ft \<noteq> None then s\<lparr>m_fibers := m_fibers s @ [ft]\<rparr> else s)"

text \<open>The flag of \<open>schedule\<close> and \<open>schedule_all\<close> says that \<^verbatim>\<open>tickle()\<close> is called.\<close>

definition schedule :: "'f fiber_and_thread \<Rightarrow> 'f scheduler \<Rightarrow> bool \<times> 'f scheduler" where
  "schedule ft s = scheduleNoLock ft s"

fun schedule_all :: "'f fiber_and_thread list \<Rightarrow> bool \<Rightarrow> 'f scheduler \<Rightarrow> bool \<times> 'f scheduler" where
  "schedule_all [] need_tickle s = (need_tickle, s)"
| "schedule_all (ft # fts) need_tickle s =
     (let (b, s) = scheduleNoLock ft s in schedule_all fts (b \<or> need_tickle) s)"

definition stopping :: "'f scheduler \<Rightarrow> bool" where
  "stopping s \<longleftrightarrow> m_stopping s \<and> m_autoStop s \<and> m_fibers s = [] \<and> m_activeThreadCount s = 0"

text \<open>\<open>switchTo\<close>: whether the calling fiber is scheduled on \<open>s\<close> and yields; \<open>here\<close> says that the caller
  already runs under \<open>s\<close>.\<close>

definition switchTo :: "bool \<Rightarrow> bool \<Rightarrow> int \<Rightarrow> nat \<Rightarrow> int \<Rightarrow> 'f scheduler \<Rightarrow> ('f scheduler, bool) outcome" where
  "switchTo has_scheduler here tid cur thread s =
     CXK_ASSERT has_scheduler
      (if here \<and> (thread = -1 \<or> thread = tid) then Ret False s
       else Ret True (snd (schedule (FiberAndThread_fiber (Some cur) thread) s)))"

text \<open>\<open>start\<close>: \<open>ids\<close> are the ids of the threads it creates, one per slot.\<close>

definition start :: "(nat \<Rightarrow> int) \<Rightarrow> 'f scheduler \<Rightarrow> ('f scheduler, unit) outcome" where
  "start ids s =
     (if \<not> m_stopping s then Ret () s
      else CXK_ASSERT (m_threads s = [])
        (let thrs = map ids [0..<m_threadCount s]
         in Ret () (s\<lparr>m_stopping := False, m_threads := thrs, m_threadIds := m_threadIds s @ thrs\<rparr>)))"

text \<open>
  \<open>stop\<close>: \<open>root_state\<close> is the root fiber's state, \<open>here\<close> whether the calling thread runs under this
  scheduler. The result says whether the root fiber is called, the number of tickles and the threads
  joined; the call of the root fiber, which runs the scheduler to its end, comes before the join.
\<close>

definition stop :: "fstate \<Rightarrow> bool \<Rightarrow> 'f scheduler \<Rightarrow> ('f scheduler, bool \<times> nat \<times> int list) outcome" where
  "stop root_state here s =
     (let s = s\<lparr>m_autoStop := True\<rparr>;
          idle_root = (m_rootFiber s \<noteq> None \<and> m_threadCount s = 0 \<and> root_state \<in> {FTERM, INIT});
          s = (if idle_root then s\<lparr>m_stopping := True\<rparr> else s)
      in if idle_root \<and> stopping s then Ret (False, 0, []) s
         else CXK_ASSERT (if m_rootThread s \<noteq> -1 then here else \<not> here)
          (let s = s\<lparr>m_stopping := True\<rparr>;
               tickles = m_threadCount s + (if m_rootFiber s \<noteq> None then 1 else 0);
               call_root = (m_rootFiber s \<noteq> None \<and> \<not> stopping s)
           in Ret (call_root, tickles, m_threads s) (s\<lparr>m_threads := []\<rparr>)))"

section \<open>The worker loop\<close>

text \<open>The scan of the queue under the lock: the task taken, the queue left and \<^verbatim>\<open>tickle_me\<close>.\<close>

definition executing :: "(nat \<Rightarrow> fstate) \<Rightarrow> 'f fiber_and_thread \<Rightarrow> bool" where
  "executing st t = (case ft_fiber t of None \<Rightarrow> False | Some f \<Rightarrow> st f = EXEC)"

fun pick :: "int \<Rightarrow> (nat \<Rightarrow> fstate) \<Rightarrow> 'f fiber_and_thread list \<Rightarrow>
    (unit, 'f fiber_and_thread option \<times> 'f fiber_and_thread list \<times> bool) outcome" where
  "pick tid st [] = Ret (None, [], False) ()"
| "pick tid st (t # ts) =
     (if ft_thread t \<noteq> -1 \<and> ft_thread t \<noteq> tid then
        obind (pick tid st ts) (\<lambda>(r, q, _) _. Ret (r, t # q, True) ())
      else CXK_ASSERT (ft_fiber t \<noteq> None \<or> ft_cb t \<noteq> None)
       (if executing st t then obind (pick tid st ts) (\<lambda>(r, q, tickle_me) _. Ret (r, t # q, tickle_me) ())
        else Ret (Some t, ts, ts \<noteq> []) ()))"

datatype kind = KFiber | KCb | KIdle

datatype 'f pc = Off | Pick | Picked "'f fiber_and_thread" bool | Running kind nat | Leaving kind nat
  | Back kind nat | Exited

record 'f worker =
  w_pc :: "'f pc"
  w_idle :: nat
  w_cb_fiber :: "nat option"

record 'f sys =
  sch :: "'f scheduler"
  st :: "nat \<Rightarrow> fstate"
  wk :: "int \<Rightarrow> 'f worker"

definition goto :: "int \<Rightarrow> 'f pc \<Rightarrow> 'f sys \<Rightarrow> 'f sys" where
  "goto tid p \<sigma> = \<sigma>\<lparr>wk := (wk \<sigma>)(tid := (wk \<sigma> tid)\<lparr>w_pc := p\<rparr>)\<rparr>"

definition set_st :: "nat \<Rightarrow> fstate \<Rightarrow> 'f sys \<Rightarrow> 'f sys" where
  "set_st f x \<sigma> = \<sigma>\<lparr>st := (st \<sigma>)(f := x)\<rparr>"

definition set_cb_fiber :: "int \<Rightarrow> nat option \<Rightarrow> 'f sys \<Rightarrow> 'f sys" where
  "set_cb_fiber tid c \<sigma> = \<sigma>\<lparr>wk := (wk \<sigma>)(tid := (wk \<sigma> tid)\<lparr>w_cb_fiber := c\<rparr>)\<rparr>"

definition add_active :: "int \<Rightarrow> 'f sys \<Rightarrow> 'f sys" where
  "add_active d \<sigma> = \<sigma>\<lparr>sch := (sch \<sigma>)\<lparr>m_activeThreadCount := m_activeThreadCount (sch \<sigma>) + d\<rparr>\<rparr>"

definition add_idel :: "int \<Rightarrow> 'f sys \<Rightarrow> 'f sys" where
  "add_idel d \<sigma> = \<sigma>\<lparr>sch := (sch \<sigma>)\<lparr>m_idelThreadCount := m_idelThreadCount (sch \<sigma>) + d\<rparr>\<rparr>"

text \<open>\<open>run_pick\<close>: the critical section at the head of the loop.\<close>

definition run_pick :: "int \<Rightarrow> 'f sys \<Rightarrow> ('f sys, bool) outcome" where
  "run_pick tid \<sigma> =
     (case pick tid (st \<sigma>) (m_fibers (sch \<sigma>)) of
        Ret (None, q, tickle_me) _ \<Rightarrow> Ret tickle_me (goto tid (Picked FiberAndThread_empty False) \<sigma>)
      | Ret (Some ft, q, tickle_me) _ \<Rightarrow>
          Ret tickle_me (add_active 1 (goto tid (Picked ft True) (\<sigma>\<lparr>sch := (sch \<sigma>)\<lparr>m_fibers := q\<rparr>\<rparr>)))
      | Throw e _ \<Rightarrow> Throw e \<sigma>
      | Undef u \<Rightarrow> Undef u)"

text \<open>\<open>enter\<close> is \<open>swapIn\<close> as far as the other threads can see it.\<close>

definition enter :: "int \<Rightarrow> kind \<Rightarrow> nat \<Rightarrow> 'f sys \<Rightarrow> ('f sys, unit) outcome" where
  "enter tid k f \<sigma> = CXK_ASSERT (st \<sigma> f \<noteq> EXEC) (Ret () (goto tid (Running k f) (set_st f EXEC \<sigma>)))"

text \<open>\<open>run_dispatch\<close>: the three branches of the loop up to the switch. A callback runs in the worker's
  spare fiber, or in a new one at address \<open>a\<close>.\<close>

definition run_dispatch :: "nat \<Rightarrow> int \<Rightarrow> 'f fiber_and_thread \<Rightarrow> bool \<Rightarrow> 'f sys \<Rightarrow> ('f sys, unit) outcome" where
  "run_dispatch a tid ft is_active \<sigma> =
     (if ft_fiber ft \<noteq> None \<and> st \<sigma> (the (ft_fiber ft)) \<notin> {FTERM, EXCEPT} then
        enter tid KFiber (the (ft_fiber ft)) \<sigma>
      else if ft_cb ft \<noteq> None then
        (case w_cb_fiber (wk \<sigma> tid) of
           Some c \<Rightarrow> CXK_ASSERT (st \<sigma> c \<in> {FTERM, INIT, EXCEPT}) (enter tid KCb c (set_st c INIT \<sigma>))
         | None \<Rightarrow> enter tid KCb a (set_st a INIT (set_cb_fiber tid (Some a) \<sigma>)))
      else if is_active then Ret () (goto tid Pick (add_active (-1) \<sigma>))
      else if st \<sigma> (w_idle (wk \<sigma> tid)) = FTERM then Ret () (goto tid Exited \<sigma>)
      else enter tid KIdle (w_idle (wk \<sigma> tid)) (add_idel 1 \<sigma>))"

text \<open>
  \<open>may_leave\<close>: the states a fiber can store before it switches out. The idle fiber runs \<open>idel\<close>:
  it yields to hold (or, in the I/O manager, calls \<^verbatim>\<open>swapOut\<close> directly and stores nothing) and
  terminates only when \<open>stopping\<close> is true. Other fibers may do either.
\<close>

definition may_leave :: "kind \<Rightarrow> fstate \<Rightarrow> 'f sys \<Rightarrow> bool" where
  "may_leave k s \<sigma> =
     (if k = KIdle then s \<in> {HOLD, EXEC} \<or> (s = FTERM \<and> stopping (sch \<sigma>))
      else s \<in> {HOLD, READY, FTERM, EXCEPT, EXEC})"

text \<open>\<open>run_after\<close>: what the loop does when the switch has come back.\<close>

definition run_after :: "int \<Rightarrow> kind \<Rightarrow> nat \<Rightarrow> 'f sys \<Rightarrow> 'f sys" where
  "run_after tid k f \<sigma> =
     goto tid Pick
      (case k of
         KFiber \<Rightarrow>
           let \<sigma> = add_active (-1) \<sigma> in
           if st \<sigma> f = READY then \<sigma>\<lparr>sch := snd (schedule (FiberAndThread_fiber (Some f) (-1)) (sch \<sigma>))\<rparr>
           else if st \<sigma> f \<notin> {FTERM, EXCEPT} then set_st f HOLD \<sigma>
           else \<sigma>
       | KCb \<Rightarrow>
           let \<sigma> = add_active (-1) \<sigma> in
           if st \<sigma> f = READY then
             set_cb_fiber tid None (\<sigma>\<lparr>sch := snd (schedule (FiberAndThread_fiber (Some f) (-1)) (sch \<sigma>))\<rparr>)
           else if st \<sigma> f \<in> {FTERM, EXCEPT} then set_st f INIT \<sigma>
           else set_cb_fiber tid None (set_st f HOLD \<sigma>)
       | KIdle \<Rightarrow>
           let \<sigma> = add_idel (-1) \<sigma> in
           if st \<sigma> f \<notin> {FTERM, EXCEPT} then set_st f HOLD \<sigma> else \<sigma>)"

text \<open>The interleaving: any thread may schedule a task at any time; each worker moves on its own.\<close>

inductive step :: "'f sys \<Rightarrow> 'f sys \<Rightarrow> bool" where
  external: "step \<sigma> (\<sigma>\<lparr>sch := snd (schedule ft (sch \<sigma>))\<rparr>)"
| picks: "w_pc (wk \<sigma> tid) = Pick \<Longrightarrow> run_pick tid \<sigma> = Ret tk \<sigma>' \<Longrightarrow> step \<sigma> \<sigma>'"
| dispatches: "w_pc (wk \<sigma> tid) = Picked ft act \<Longrightarrow> run_dispatch a tid ft act \<sigma> = Ret () \<sigma>' \<Longrightarrow> step \<sigma> \<sigma>'"
| leaves: "w_pc (wk \<sigma> tid) = Running k f \<Longrightarrow> may_leave k s \<sigma> \<Longrightarrow>
    step \<sigma> (goto tid (Leaving k f) (set_st f s \<sigma>))"
| switched: "w_pc (wk \<sigma> tid) = Leaving k f \<Longrightarrow> step \<sigma> (goto tid (Back k f) \<sigma>)"
| after: "w_pc (wk \<sigma> tid) = Back k f \<Longrightarrow> step \<sigma> (run_after tid k f \<sigma>)"

inductive steps :: "'f sys \<Rightarrow> 'f sys \<Rightarrow> bool" where
  refl: "steps \<sigma> \<sigma>"
| more: "step \<sigma> \<sigma>1 \<Longrightarrow> steps \<sigma>1 \<sigma>2 \<Longrightarrow> steps \<sigma> \<sigma>2"

section \<open>Invariant\<close>

definition holding :: "'f worker \<Rightarrow> bool" where
  "holding w = (case w_pc w of Picked _ b \<Rightarrow> b | Running k _ \<Rightarrow> k \<noteq> KIdle | Leaving k _ \<Rightarrow> k \<noteq> KIdle
     | Back k _ \<Rightarrow> k \<noteq> KIdle | _ \<Rightarrow> False)"

definition idling :: "'f worker \<Rightarrow> bool" where
  "idling w = (case w_pc w of Running k _ \<Rightarrow> k = KIdle | Leaving k _ \<Rightarrow> k = KIdle
     | Back k _ \<Rightarrow> k = KIdle | _ \<Rightarrow> False)"

definition has_task :: "'f fiber_and_thread \<Rightarrow> bool" where
  "has_task t \<longleftrightarrow> ft_fiber t \<noteq> None \<or> ft_cb t \<noteq> None"

definition pc_ok :: "'f worker \<Rightarrow> bool" where
  "pc_ok w = (case w_pc w of Picked ft b \<Rightarrow> b = has_task ft | _ \<Rightarrow> True)"

definition sys_inv :: "'f sys \<Rightarrow> bool" where
  "sys_inv \<sigma> \<longleftrightarrow> finite {tid. w_pc (wk \<sigma> tid) \<noteq> Off} \<and>
     m_activeThreadCount (sch \<sigma>) = int (card {tid. holding (wk \<sigma> tid)}) \<and>
     m_idelThreadCount (sch \<sigma>) = int (card {tid. idling (wk \<sigma> tid)}) \<and>
     list_all has_task (m_fibers (sch \<sigma>)) \<and> (\<forall>tid. pc_ok (wk \<sigma> tid))"

lemma card_upd:
  assumes "finite {i. P (h i)}"
  shows "int (card {i. P ((h(t := x)) i)}) =
    int (card {i. P (h i)}) - (if P (h t) then 1 else 0) + (if P x then 1 else 0)"
proof -
  let ?A = "{i. P (h i)}"
  have "{i. P ((h(t := x)) i)} = (if P x then insert t (?A - {t}) else ?A - {t})" by auto
  moreover have "0 < card ?A" if "P (h t)" using assms that by (auto simp: card_gt_0_iff)
  then have "int (card (?A - {t})) = int (card ?A) - (if P (h t) then 1 else 0)"
    using assms by (auto simp: card_Diff_singleton_if of_nat_diff Suc_le_eq)
  moreover have "card (insert t (?A - {t})) = Suc (card (?A - {t}))" using assms by (intro card_insert_disjoint) auto
  ultimately show ?thesis by (simp del: insert_Diff_single)
qed

text \<open>One worker moves from its program point to \<open>w'\<close>, and the counters follow.\<close>

lemma sys_inv_move:
  assumes "sys_inv \<sigma>" and "wk \<sigma>' = (wk \<sigma>)(tid := w')" and "pc_ok w'"
    and "m_activeThreadCount (sch \<sigma>') = m_activeThreadCount (sch \<sigma>)
      - (if holding (wk \<sigma> tid) then 1 else 0) + (if holding w' then 1 else 0)"
    and "m_idelThreadCount (sch \<sigma>') = m_idelThreadCount (sch \<sigma>)
      - (if idling (wk \<sigma> tid) then 1 else 0) + (if idling w' then 1 else 0)"
    and "list_all has_task (m_fibers (sch \<sigma>'))"
  shows "sys_inv \<sigma>'"
proof -
  have fin: "finite {tid. w_pc (wk \<sigma> tid) \<noteq> Off}" using assms(1) by (simp add: sys_inv_def)
  have "finite {i. holding (wk \<sigma> i)}" "finite {i. idling (wk \<sigma> i)}"
    by (rule finite_subset [OF _ fin], auto simp: holding_def idling_def)+
  moreover have "finite {i. w_pc (wk \<sigma>' i) \<noteq> Off}"
    by (rule finite_subset [of _ "insert tid {tid. w_pc (wk \<sigma> tid) \<noteq> Off}"]) (use fin assms(2) in auto)
  ultimately show ?thesis
    using assms card_upd [of holding "wk \<sigma>" tid w'] card_upd [of idling "wk \<sigma>" tid w']
    by (simp add: sys_inv_def)
qed

lemma schedule_fields [simp]:
  "m_activeThreadCount (snd (schedule ft s)) = m_activeThreadCount s"
  "m_idelThreadCount (snd (schedule ft s)) = m_idelThreadCount s"
  "m_stopping (snd (schedule ft s)) = m_stopping s" "m_autoStop (snd (schedule ft s)) = m_autoStop s"
  by (simp_all add: schedule_def scheduleNoLock_def)

lemma schedule_tasks:
  "list_all has_task (m_fibers s) \<Longrightarrow> list_all has_task (m_fibers (snd (schedule ft s)))"
  by (simp add: schedule_def scheduleNoLock_def has_task_def)

text \<open>The scan takes the first task that this thread may run and that is not executing.\<close>

definition eligible :: "int \<Rightarrow> (nat \<Rightarrow> fstate) \<Rightarrow> 'f fiber_and_thread \<Rightarrow> bool" where
  "eligible tid s t \<longleftrightarrow> (ft_thread t = -1 \<or> ft_thread t = tid) \<and> \<not> executing s t"

lemma pick_spec:
  assumes "list_all has_task q"
  shows "\<exists>r q' tk. pick tid s q = Ret (r, q', tk) () \<and>
    (case r of None \<Rightarrow> q' = q \<and> (\<forall>t \<in> set q. \<not> eligible tid s t)
     | Some t \<Rightarrow> eligible tid s t \<and> (\<exists>as bs. q = as @ t # bs \<and> q' = as @ bs \<and> (\<forall>u \<in> set as. \<not> eligible tid s u)))"
  using assms
proof (induction q)
  case (Cons t q)
  then obtain r q' tk where IH: "pick tid s q = Ret (r, q', tk) ()"
    and P: "case r of None \<Rightarrow> q' = q \<and> (\<forall>t \<in> set q. \<not> eligible tid s t)
     | Some t \<Rightarrow> eligible tid s t \<and> (\<exists>as bs. q = as @ t # bs \<and> q' = as @ bs \<and> (\<forall>u \<in> set as. \<not> eligible tid s u))"
    by auto
  have ht: "ft_fiber t \<noteq> None \<or> ft_cb t \<noteq> None" using Cons.prems by (simp add: has_task_def)
  show ?case
  proof (cases "eligible tid s t")
    case True
    then have "pick tid s (t # q) = Ret (Some t, q, q \<noteq> []) ()"
      using ht by (auto simp: eligible_def CXK_ASSERT_def)
    moreover have "\<exists>as bs. t # q = as @ t # bs \<and> q = as @ bs \<and> (\<forall>u \<in> set as. \<not> eligible tid s u)"
      by (rule exI [of _ "[]"]) simp
    ultimately show ?thesis using True by (simp del: pick.simps)
  next
    case False
    then have "\<exists>tk'. pick tid s (t # q) = Ret (r, t # q', tk') ()"
      using IH ht by (auto simp: eligible_def CXK_ASSERT_def)
    then obtain tk' where p: "pick tid s (t # q) = Ret (r, t # q', tk') ()" by blast
    show ?thesis
    proof (cases r)
      case None
      then show ?thesis
        using p P False by (intro exI [of _ r] exI [of _ "t # q'"] exI [of _ tk']) (simp del: pick.simps)
    next
      case (Some u)
      then obtain as bs where "q = as @ u # bs" "q' = as @ bs" "\<forall>u \<in> set as. \<not> eligible tid s u"
        using P by auto
      then have "\<exists>as bs. t # q = as @ u # bs \<and> t # q' = as @ bs \<and> (\<forall>u \<in> set as. \<not> eligible tid s u)"
        using False by (intro exI [of _ "t # as"] exI [of _ bs]) simp
      moreover have "eligible tid s u" using P Some by simp
      ultimately show ?thesis
        using p Some by (intro exI [of _ r] exI [of _ "t # q'"] exI [of _ tk']) (simp del: pick.simps)
    qed
  qed
qed auto

lemma pick_tasks:
  assumes "list_all has_task q" and "pick tid s q = Ret (r, q', tk) u"
  shows "list_all has_task q'" and "r = Some t \<Longrightarrow> has_task t"
  using pick_spec [OF assms(1), of tid s] assms by (auto split: option.splits)

lemma sys_inv_external: "sys_inv \<sigma> \<Longrightarrow> sys_inv (\<sigma>\<lparr>sch := snd (schedule ft (sch \<sigma>))\<rparr>)"
  using schedule_tasks [of "sch \<sigma>" ft] by (simp add: sys_inv_def)

lemmas move_defs = goto_def set_st_def set_cb_fiber_def add_active_def add_idel_def holding_def idling_def pc_ok_def

lemma sys_inv_pick:
  assumes "sys_inv \<sigma>" and "w_pc (wk \<sigma> tid) = Pick" and "run_pick tid \<sigma> = Ret tk \<sigma>'"
  shows "sys_inv \<sigma>'"
proof -
  have q: "list_all has_task (m_fibers (sch \<sigma>))" using assms(1) by (simp add: sys_inv_def)
  obtain r q' tk' where p: "pick tid (st \<sigma>) (m_fibers (sch \<sigma>)) = Ret (r, q', tk') ()"
    using pick_spec [OF q] by blast
  note ok = pick_tasks [OF q p]
  show ?thesis
  proof (cases r)
    case None
    then show ?thesis using assms p q
      by (intro sys_inv_move [OF assms(1), of _ tid "(wk \<sigma> tid)\<lparr>w_pc := Picked FiberAndThread_empty False\<rparr>"])
        (auto simp: run_pick_def move_defs FiberAndThread_empty_def has_task_def)
  next
    case (Some t)
    then show ?thesis using assms p ok
      by (intro sys_inv_move [OF assms(1), of _ tid "(wk \<sigma> tid)\<lparr>w_pc := Picked t True\<rparr>"])
        (auto simp: run_pick_def move_defs)
  qed
qed

lemma sys_inv_enter:
  assumes "sys_inv \<sigma>" and "wk \<sigma>1 = (wk \<sigma>)(tid := (wk \<sigma> tid)\<lparr>w_cb_fiber := c\<rparr>)"
    and "m_fibers (sch \<sigma>1) = m_fibers (sch \<sigma>)"
    and "m_activeThreadCount (sch \<sigma>1) = m_activeThreadCount (sch \<sigma>)
      - (if holding (wk \<sigma> tid) then 1 else 0) + (if k \<noteq> KIdle then 1 else 0)"
    and "m_idelThreadCount (sch \<sigma>1) = m_idelThreadCount (sch \<sigma>)
      - (if idling (wk \<sigma> tid) then 1 else 0) + (if k = KIdle then 1 else 0)"
    and "enter tid k f \<sigma>1 = Ret u \<sigma>'"
  shows "sys_inv \<sigma>'"
  using assms(2-6)
  by (intro sys_inv_move [OF assms(1), of _ tid "(wk \<sigma> tid)\<lparr>w_cb_fiber := c, w_pc := Running k f\<rparr>"])
    (use assms(1) in \<open>auto simp: enter_def CXK_ASSERT_def move_defs sys_inv_def split: if_splits\<close>)

lemma sys_inv_dispatch:
  assumes "sys_inv \<sigma>" and "w_pc (wk \<sigma> tid) = Picked ft act" and "run_dispatch a tid ft act \<sigma> = Ret () \<sigma>'"
  shows "sys_inv \<sigma>'"
proof -
  have "pc_ok (wk \<sigma> tid)" using assms(1) by (simp add: sys_inv_def)
  then have act: "act = has_task ft" using assms(2) by (simp add: pc_ok_def)
  have q: "list_all has_task (m_fibers (sch \<sigma>))" using assms(1) by (simp add: sys_inv_def)
  have h: "holding (wk \<sigma> tid) = act" "\<not> idling (wk \<sigma> tid)" using assms(2) by (simp_all add: holding_def idling_def)
  have same: "(wk \<sigma>)(tid := (wk \<sigma> tid)\<lparr>w_cb_fiber := w_cb_fiber (wk \<sigma> tid)\<rparr>) = wk \<sigma>" by auto
  consider (fib) "ft_fiber ft \<noteq> None" "st \<sigma> (the (ft_fiber ft)) \<notin> {FTERM, EXCEPT}"
    | (cb) "\<not> (ft_fiber ft \<noteq> None \<and> st \<sigma> (the (ft_fiber ft)) \<notin> {FTERM, EXCEPT})" "ft_cb ft \<noteq> None"
    | (none) "\<not> (ft_fiber ft \<noteq> None \<and> st \<sigma> (the (ft_fiber ft)) \<notin> {FTERM, EXCEPT})" "ft_cb ft = None"
    by blast
  then show ?thesis
  proof cases
    case fib
    then have "act" "enter tid KFiber (the (ft_fiber ft)) \<sigma> = Ret () \<sigma>'"
      using assms(3) act by (auto simp: run_dispatch_def has_task_def)
    then show ?thesis using sys_inv_enter [OF assms(1) same [symmetric], of KFiber] h by simp
  next
    case cb
    then have "act" using act by (simp add: has_task_def)
    show ?thesis
    proof (cases "w_cb_fiber (wk \<sigma> tid)")
      case None
      then have e: "enter tid KCb a (set_st a INIT (set_cb_fiber tid (Some a) \<sigma>)) = Ret () \<sigma>'"
        using assms(3) cb by (auto simp: run_dispatch_def split: if_splits)
      show ?thesis
        by (rule sys_inv_enter [OF assms(1) _ _ _ _ e, of "Some a"])
          (use \<open>act\<close> h in \<open>auto simp: set_st_def set_cb_fiber_def\<close>)
    next
      case (Some c)
      then have e: "enter tid KCb c (set_st c INIT \<sigma>) = Ret () \<sigma>'"
        using assms(3) cb by (simp add: run_dispatch_def CXK_ASSERT_def split: if_splits)
      show ?thesis
        by (rule sys_inv_enter [OF assms(1) _ _ _ _ e, of "Some c"])
          (use \<open>act\<close> h Some same in \<open>auto simp: set_st_def\<close>)
    qed
  next
    case none
    show ?thesis
    proof (cases act)
      case True
      then have "\<sigma>' = goto tid Pick (add_active (-1) \<sigma>)" using none assms(3) by (auto simp: run_dispatch_def)
      then show ?thesis
        using True h q
        by (intro sys_inv_move [OF assms(1), of _ tid "(wk \<sigma> tid)\<lparr>w_pc := Pick\<rparr>"]) (auto simp: move_defs)
    next
      case False
      show ?thesis
      proof (cases "st \<sigma> (w_idle (wk \<sigma> tid)) = FTERM")
        case True
        then have "\<sigma>' = goto tid Exited \<sigma>" using none False assms(3) by (auto simp: run_dispatch_def)
        then show ?thesis
          using False h q
          by (intro sys_inv_move [OF assms(1), of _ tid "(wk \<sigma> tid)\<lparr>w_pc := Exited\<rparr>"]) (auto simp: move_defs)
      next
        case idle: False
        then have e: "enter tid KIdle (w_idle (wk \<sigma> tid)) (add_idel 1 \<sigma>) = Ret () \<sigma>'"
          using none False assms(3) by (auto simp: run_dispatch_def)
        show ?thesis
          by (rule sys_inv_enter [OF assms(1) _ _ _ _ e, of "w_cb_fiber (wk \<sigma> tid)"])
            (use False h same in \<open>auto simp: add_idel_def\<close>)
      qed
    qed
  qed
qed

lemma run_after_fields:
  "m_activeThreadCount (sch (run_after tid k f \<sigma>)) = m_activeThreadCount (sch \<sigma>) - (if k = KIdle then 0 else 1)"
  "m_idelThreadCount (sch (run_after tid k f \<sigma>)) = m_idelThreadCount (sch \<sigma>) - (if k = KIdle then 1 else 0)"
  by (cases k; simp add: run_after_def move_defs Let_def)+

lemma run_after_tasks:
  assumes "list_all has_task (m_fibers (sch \<sigma>))"
  shows "list_all has_task (m_fibers (sch (run_after tid k f \<sigma>)))"
proof -
  let ?s = "(sch \<sigma>)\<lparr>m_activeThreadCount := m_activeThreadCount (sch \<sigma>) - 1\<rparr>"
  have "list_all has_task (m_fibers (snd (schedule (FiberAndThread_fiber (Some f) (-1)) ?s)))"
    by (rule schedule_tasks) (use assms in simp)
  then show ?thesis using assms by (cases k) (simp_all add: run_after_def move_defs Let_def)
qed

lemma run_after_wk:
  "wk (run_after tid k f \<sigma>) = (wk \<sigma>)(tid := (wk \<sigma> tid)\<lparr>w_cb_fiber :=
     (if k = KCb \<and> st \<sigma> f \<notin> {FTERM, EXCEPT} then None else w_cb_fiber (wk \<sigma> tid)), w_pc := Pick\<rparr>)"
  by (cases k) (auto simp: run_after_def move_defs Let_def)

lemma sys_inv_after:
  assumes "sys_inv \<sigma>" and "w_pc (wk \<sigma> tid) = Back k f"
  shows "sys_inv (run_after tid k f \<sigma>)"
proof (rule sys_inv_move [OF assms(1) run_after_wk])
  show "list_all has_task (m_fibers (sch (run_after tid k f \<sigma>)))"
    using assms(1) by (intro run_after_tasks) (simp add: sys_inv_def)
qed (use assms(2) in \<open>simp_all add: run_after_fields pc_ok_def holding_def idling_def\<close>)

lemma sys_inv_step: "step \<sigma> \<sigma>' \<Longrightarrow> sys_inv \<sigma> \<Longrightarrow> sys_inv \<sigma>'"
proof (induction rule: step.induct)
  case (leaves \<sigma> tid k f s)
  have "list_all has_task (m_fibers (sch \<sigma>))" using leaves.prems by (simp add: sys_inv_def)
  then show ?case
    using leaves.hyps(1)
    by (intro sys_inv_move [OF leaves.prems, of _ tid "(wk \<sigma> tid)\<lparr>w_pc := Leaving k f\<rparr>"])
      (auto simp: move_defs)
next
  case (switched \<sigma> tid k f)
  have "list_all has_task (m_fibers (sch \<sigma>))" using switched.prems by (simp add: sys_inv_def)
  then show ?case
    using switched.hyps
    by (intro sys_inv_move [OF switched.prems, of _ tid "(wk \<sigma> tid)\<lparr>w_pc := Back k f\<rparr>"])
      (auto simp: move_defs)
qed (auto intro: sys_inv_external sys_inv_pick sys_inv_dispatch sys_inv_after)

lemma sys_inv_steps: "steps \<sigma> \<sigma>' \<Longrightarrow> sys_inv \<sigma> \<Longrightarrow> sys_inv \<sigma>'"
  by (induction rule: steps.induct) (auto intro: sys_inv_step)

lemma schedule_all_queue:
  "m_fibers (snd (schedule_all fts b s)) = m_fibers s @ filter has_task fts \<and>
   fst (schedule_all fts b s) = (b \<or> (m_fibers s = [] \<and> fts \<noteq> []))"
  by (induction fts b s rule: schedule_all.induct) (auto simp: scheduleNoLock_def has_task_def)

section \<open>Properties\<close>

text \<open>\<open>boot ids\<close>: the workers of \<open>start\<close> at the head of their loop, each with its idle fiber.\<close>

definition boot :: "int list \<Rightarrow> 'f sys" where
  "boot ids =
     \<lparr>sch = \<lparr>m_fibers = [], m_rootFiber = None, m_threadIds = ids, m_threads = ids,
             m_threadCount = length ids, m_activeThreadCount = 0, m_idelThreadCount = 0,
             m_autoStop = False, m_stopping = False, m_rootThread = -1\<rparr>,
      st = (\<lambda>_. INIT),
      wk = (\<lambda>tid. \<lparr>w_pc = (if tid \<in> set ids then Pick else Off), w_idle = nat tid, w_cb_fiber = None\<rparr>)\<rparr>"

lemma sys_inv_boot: "sys_inv (boot ids)"
  by (simp add: sys_inv_def boot_def holding_def idling_def pc_ok_def)



text \<open>A worker takes the first queued task that is bound to it or to no thread and whose fiber is not
  executing, takes nothing exactly when there is none, never trips the assertion of the scan, and
  leaves all other tasks in the queue in their order.\<close>

theorem pick_first_eligible:
  assumes "list_all has_task q"
  shows "\<exists>r q' tk. pick tid s q = Ret (r, q', tk) () \<and>
    (case r of None \<Rightarrow> q' = q \<and> list_all (\<lambda>t. \<not> eligible tid s t) q
     | Some t \<Rightarrow> eligible tid s t \<and>
         (\<exists>as bs. q = as @ t # bs \<and> q' = as @ bs \<and> list_all (\<lambda>u. \<not> eligible tid s u) as))"
  using pick_spec [OF assms, of tid s] unfolding list_all_iff .

theorem pick_first_eligible_witness:
  "\<exists>r q' tk. pick 1 (\<lambda>_. INIT) [FiberAndThread_fiber (Some 4) (-1) :: nat fiber_and_thread] = Ret (r, q', tk) ()"
proof -
  have "list_all has_task [FiberAndThread_fiber (Some 4) (-1) :: nat fiber_and_thread]" by code_simp
  from pick_first_eligible [OF this, of 1 "\<lambda>_. INIT"] show ?thesis by blast
qed

text \<open>\<open>YieldToHold\<close> stores HOLD before the context is switched. A fiber that has been queued again before
  (as \<open>switchTo\<close> does with the calling fiber) can therefore be taken and entered by a second worker
  while the first is still on its stack.\<close>

theorem yield_to_hold_race:
  assumes "w_pc (wk \<sigma> t1) = Running KFiber f" and "w_pc (wk \<sigma> t2) = Pick" and "m_fibers (sch \<sigma>) = []"
  shows "\<exists>\<sigma>'. steps \<sigma> \<sigma>' \<and> w_pc (wk \<sigma>' t1) = Leaving KFiber f \<and> w_pc (wk \<sigma>' t2) = Running KFiber f"
proof -
  have ne: "t1 \<noteq> t2" using assms by auto
  let ?ft = "FiberAndThread_fiber (Some f) (-1)"
  let ?s1 = "\<sigma>\<lparr>sch := snd (schedule ?ft (sch \<sigma>))\<rparr>"
  let ?s2 = "goto t1 (Leaving KFiber f) (set_st f HOLD ?s1)"
  let ?s3 = "add_active 1 (goto t2 (Picked ?ft True) (?s2\<lparr>sch := (sch ?s2)\<lparr>m_fibers := []\<rparr>\<rparr>))"
  let ?s4 = "goto t2 (Running KFiber f) (set_st f EXEC ?s3)"
  have q: "m_fibers (sch ?s2) = [?ft]"
    using assms(3) by (simp add: schedule_def scheduleNoLock_def FiberAndThread_fiber_def goto_def set_st_def)
  have "step \<sigma> ?s1" by (rule step.external)
  moreover have "step ?s1 ?s2"
    using assms(1) by (intro step.leaves) (simp_all add: may_leave_def)
  moreover have "run_pick t2 ?s2 = Ret False ?s3"
    unfolding run_pick_def q
    by (simp add: FiberAndThread_fiber_def executing_def CXK_ASSERT_def goto_def set_st_def)
  then have "step ?s2 ?s3"
    using assms(2) ne by (intro step.picks) (simp_all add: goto_def set_st_def)
  moreover have "run_dispatch 0 t2 ?ft True ?s3 = Ret () ?s4"
    by (simp add: run_dispatch_def enter_def CXK_ASSERT_def FiberAndThread_fiber_def goto_def set_st_def add_active_def)
  then have "step ?s3 ?s4"
    by (intro step.dispatches [where ft = ?ft and act = True]) (simp_all add: goto_def add_active_def)
  ultimately have "steps \<sigma> ?s4" by (meson steps.intros)
  then show ?thesis
    using ne by (intro exI [of _ ?s4]) (simp add: goto_def set_st_def add_active_def)
qed

definition race_demo :: "nat sys" where
  "race_demo = goto 1 (Running KFiber 7) (set_st 7 EXEC (boot [1, 2]))"

theorem yield_to_hold_race_witness:
  "\<exists>\<sigma>'. steps race_demo \<sigma>' \<and> w_pc (wk \<sigma>' 1) = Leaving KFiber 7 \<and> w_pc (wk \<sigma>' 2) = Running KFiber 7"
  by (rule yield_to_hold_race) (simp_all add: race_demo_def boot_def goto_def set_st_def)

text \<open>Batch scheduling appends exactly the tasks that carry a fiber or a callback, in order, and asks
  for a wake-up exactly when the queue was empty and the batch is not.\<close>

theorem schedule_all_exact:
  "m_fibers (snd (schedule_all fts False s)) = m_fibers s @ filter has_task fts \<and>
   fst (schedule_all fts False s) = (m_fibers s = [] \<and> fts \<noteq> [])"
  using schedule_all_queue [of fts False s] by simp

end
