(* ===== verification/IOManager.thy ===== *)
theory IOManager
  imports Timer Scheduler
begin

text \<open>
  \<^verbatim>\<open>src/cxk/iomanager.{h,cpp}\<close>: the epoll event loop, on top of the scheduler and the timer manager. The
  state is the table of \<open>FdContext\<close>s (a file descriptor is an index), the number of pending events,
  the schedulers by identity (\<open>io_self\<close> is the manager's own) and the timer manager. Event sets are
  \<open>u32\<close> masks with the values of the source. The kernel is a parameter: \<open>ctl op fd events\<close> says
  whether that call of \<^verbatim>\<open>epoll_ctl\<close> succeeds, and the array \<^verbatim>\<open>epoll_wait\<close> filled in is a list.
  The entry for the tickle pipe is one without a descriptor.

  \<open>io_inv\<close>: an event context is filled exactly when its event is registered, and the counter is the
  number of registered events.
\<close>

section \<open>State\<close>

definition NONE :: u32 where "NONE = 0x0"
definition READ :: u32 where "READ = 0x1"
definition WRITE :: u32 where "WRITE = 0x4"

definition EPOLLIN :: u32 where "EPOLLIN = 0x1"
definition EPOLLOUT :: u32 where "EPOLLOUT = 0x4"
definition EPOLLERR :: u32 where "EPOLLERR = 0x8"
definition EPOLLHUP :: u32 where "EPOLLHUP = 0x10"
definition EPOLLET :: u32 where "EPOLLET = 0x80000000"

lemmas event_defs = NONE_def READ_def WRITE_def EPOLLIN_def EPOLLOUT_def EPOLLERR_def EPOLLHUP_def EPOLLET_def

datatype ctl_op = EPOLL_CTL_ADD | EPOLL_CTL_MOD | EPOLL_CTL_DEL

record 'f event_context =
  ec_scheduler :: "nat option"
  ec_fiber :: "nat option"
  ec_cb :: "'f tcb option"

record 'f fd_context =
  fc_fd :: nat
  fc_read :: "'f event_context"
  fc_write :: "'f event_context"
  fc_events :: u32

record 'f iomanager =
  m_appendingEventCount :: int
  m_fdContexts :: "'f fd_context list"
  scheds :: "nat \<Rightarrow> 'f tcb scheduler"
  io_self :: nat
  io_timers :: "'f timer_manager"

type_synonym ('f, 'a) io_op = "'f iomanager \<Rightarrow> ('f iomanager, 'a) outcome"

definition empty_ctx :: "'f event_context" where
  "empty_ctx = \<lparr>ec_scheduler = None, ec_fiber = None, ec_cb = None\<rparr>"

definition new_FdContext :: "nat \<Rightarrow> 'f fd_context" where
  "new_FdContext i = \<lparr>fc_fd = i, fc_read = empty_ctx, fc_write = empty_ctx, fc_events = NONE\<rparr>"

section \<open>Event contexts\<close>

definition getcontext :: "u32 \<Rightarrow> 'f fd_context \<Rightarrow> (unit, 'f event_context) outcome" where
  "getcontext ev c =
     (if ev = READ then Ret (fc_read c) () else if ev = WRITE then Ret (fc_write c) () else Undef AssertFailed)"

definition putcontext :: "u32 \<Rightarrow> 'f event_context \<Rightarrow> 'f fd_context \<Rightarrow> 'f fd_context" where
  "putcontext ev x c = (if ev = READ then c\<lparr>fc_read := x\<rparr> else c\<lparr>fc_write := x\<rparr>)"

definition resetContext :: "'f event_context \<Rightarrow> 'f event_context" where
  "resetContext ctx = ctx\<lparr>ec_scheduler := None, ec_fiber := None, ec_cb := None\<rparr>"

definition put_fd :: "nat \<Rightarrow> 'f fd_context \<Rightarrow> 'f iomanager \<Rightarrow> 'f iomanager" where
  "put_fd i c w = w\<lparr>m_fdContexts := (m_fdContexts w)[i := c]\<rparr>"

definition add_pending :: "int \<Rightarrow> 'f iomanager \<Rightarrow> 'f iomanager" where
  "add_pending d w = w\<lparr>m_appendingEventCount := m_appendingEventCount w + d\<rparr>"

text \<open>\<open>triggerEvent\<close>: the pointer overloads of \<^verbatim>\<open>schedule\<close> move the callback or the fiber out of the
  context.\<close>

definition triggerEvent :: "u32 \<Rightarrow> nat \<Rightarrow> ('f, unit) io_op" where
  "triggerEvent ev i w =
     (let c = m_fdContexts w ! i in
      CXK_ASSERT (fc_events c AND ev \<noteq> 0)
       (let c = c\<lparr>fc_events := fc_events c AND NOT ev\<rparr> in
        case getcontext ev c of
          Ret ctx _ \<Rightarrow>
            (case ec_scheduler ctx of None \<Rightarrow> Undef NullDeref
             | Some s \<Rightarrow>
                 let (ft, ctx) =
                       (if ec_cb ctx \<noteq> None then (FiberAndThread_cb (ec_cb ctx) (-1), ctx\<lparr>ec_cb := None\<rparr>)
                        else (FiberAndThread_fiber (ec_fiber ctx) (-1), ctx\<lparr>ec_fiber := None\<rparr>));
                     w = w\<lparr>scheds := (scheds w)(s := snd (schedule ft (scheds w s)))\<rparr>
                 in Ret () (put_fd i (putcontext ev (ctx\<lparr>ec_scheduler := None\<rparr>) c) w))
        | Throw e _ \<Rightarrow> Throw e w
        | Undef u \<Rightarrow> Undef u))"

definition contextResize :: "nat \<Rightarrow> 'f iomanager \<Rightarrow> 'f iomanager" where
  "contextResize sz w =
     w\<lparr>m_fdContexts := take sz (m_fdContexts w) @ map new_FdContext [length (m_fdContexts w)..<sz]\<rparr>"

section \<open>Registering and cancelling\<close>

text \<open>\<open>addEvent\<close>: \<open>cur\<close> is \<^verbatim>\<open>Scheduler::GetThis()\<close>, \<open>this_fiber\<close> the calling fiber and \<open>state\<close> its
  state. \<^verbatim>\<open>fd * 1.5\<close> is truncated.\<close>

definition addEvent ::
  "(ctl_op \<Rightarrow> nat \<Rightarrow> u32 \<Rightarrow> bool) \<Rightarrow> nat option \<Rightarrow> nat \<Rightarrow> fstate \<Rightarrow> int \<Rightarrow> u32 \<Rightarrow> 'f tcb option \<Rightarrow> ('f, int) io_op" where
  "addEvent ctl cur this_fiber state fd events cb w =
     (if fd < 0 then Undef OutOfBounds
      else let i = nat fd;
               w = (if length (m_fdContexts w) > i then w else contextResize (3 * i div 2) w)
      in if \<not> i < length (m_fdContexts w) then Undef OutOfBounds
      else let c = m_fdContexts w ! i in
        CXK_ASSERT (fc_events c AND events = 0)
         (let op = (if fc_events c \<noteq> 0 then EPOLL_CTL_MOD else EPOLL_CTL_ADD) in
          if \<not> ctl op i (EPOLLET OR fc_events c OR events) then Ret (-1) w
          else
            let w = add_pending 1 w; c = c\<lparr>fc_events := fc_events c OR events\<rparr> in
            case getcontext events c of
              Ret ctx _ \<Rightarrow>
                CXK_ASSERT (ec_scheduler ctx = None) (CXK_ASSERT (ec_cb ctx = None) (CXK_ASSERT (ec_fiber ctx = None)
                 (let ctx = ctx\<lparr>ec_scheduler := cur\<rparr> in
                  if cb \<noteq> None then Ret 0 (put_fd i (putcontext events (ctx\<lparr>ec_cb := cb\<rparr>) c) w)
                  else CXK_ASSERT (state = EXEC)
                    (Ret 0 (put_fd i (putcontext events (ctx\<lparr>ec_fiber := Some this_fiber\<rparr>) c) w)))))
            | Throw e _ \<Rightarrow> Throw e w
            | Undef u \<Rightarrow> Undef u))"

definition delEvent :: "(ctl_op \<Rightarrow> nat \<Rightarrow> u32 \<Rightarrow> bool) \<Rightarrow> int \<Rightarrow> u32 \<Rightarrow> ('f, bool) io_op" where
  "delEvent ctl fd events w =
     (if int (length (m_fdContexts w)) \<le> fd then Ret False w
      else if fd < 0 then Undef OutOfBounds
      else let i = nat fd; c = m_fdContexts w ! i in
        if fc_events c AND events = 0 then Ret False w
        else let new_events = fc_events c AND NOT events;
                 op = (if new_events \<noteq> 0 then EPOLL_CTL_MOD else EPOLL_CTL_DEL)
          in if \<not> ctl op i (EPOLLET OR new_events) then Ret False w
          else let w = add_pending (-1) w; c = c\<lparr>fc_events := new_events\<rparr>
            in case getcontext events c of
                 Ret ctx _ \<Rightarrow> Ret True (put_fd i (putcontext events (resetContext ctx) c) w)
               | Throw e _ \<Rightarrow> Throw e w
               | Undef u \<Rightarrow> Undef u)"

definition cancelEvent :: "(ctl_op \<Rightarrow> nat \<Rightarrow> u32 \<Rightarrow> bool) \<Rightarrow> int \<Rightarrow> u32 \<Rightarrow> ('f, bool) io_op" where
  "cancelEvent ctl fd events w =
     (if int (length (m_fdContexts w)) \<le> fd then Ret False w
      else if fd < 0 then Undef OutOfBounds
      else let i = nat fd; c = m_fdContexts w ! i in
        if fc_events c AND events = 0 then Ret False w
        else let new_events = fc_events c AND NOT events;
                 op = (if new_events \<noteq> 0 then EPOLL_CTL_MOD else EPOLL_CTL_DEL)
          in if \<not> ctl op i (EPOLLET OR new_events) then Ret False w
          else obind (triggerEvent events i w) (\<lambda>_ w. Ret True (add_pending (-1) w)))"

text \<open>Triggering every registered event of a descriptor, as \<open>cancelAll\<close> and the event loop do.\<close>

definition trigger_if :: "u32 \<Rightarrow> nat \<Rightarrow> ('f, unit) io_op" where
  "trigger_if ev i w =
     (if fc_events (m_fdContexts w ! i) AND ev \<noteq> 0
      then obind (triggerEvent ev i w) (\<lambda>_ w. Ret () (add_pending (-1) w)) else Ret () w)"

definition cancelAll :: "(ctl_op \<Rightarrow> nat \<Rightarrow> u32 \<Rightarrow> bool) \<Rightarrow> int \<Rightarrow> ('f, bool) io_op" where
  "cancelAll ctl fd w =
     (if int (length (m_fdContexts w)) \<le> fd then Ret False w
      else if fd < 0 then Undef OutOfBounds
      else let i = nat fd in
        if fc_events (m_fdContexts w ! i) = 0 then Ret False w
        else if \<not> ctl EPOLL_CTL_DEL i 0 then Ret False w
        else obind (trigger_if READ i w) (\<lambda>_ w. obind (trigger_if WRITE i w) (\<lambda>_ w.
               CXK_ASSERT (fc_events (m_fdContexts w ! i) = 0) (Ret True w))))"

section \<open>The event loop\<close>

text \<open>\<open>io_tickle\<close>: whether a byte is written to the pipe.\<close>

definition io_tickle :: "'f iomanager \<Rightarrow> bool" where
  "io_tickle w \<longleftrightarrow> m_idelThreadCount (scheds w (io_self w)) > 0"

definition io_stopping :: "u64 \<Rightarrow> 'f iomanager \<Rightarrow> bool \<times> u64 \<times> 'f iomanager" where
  "io_stopping now w =
     (let (timeout, tm) = getNextTimer now (io_timers w); w = w\<lparr>io_timers := tm\<rparr>
      in (timeout = NOT 0 \<and> m_appendingEventCount w = 0 \<and> stopping (scheds w (io_self w)), timeout, w))"

text \<open>The timeout handed to \<^verbatim>\<open>epoll_wait\<close>, an \<^verbatim>\<open>int\<close>; a negative one waits for ever.\<close>

definition epoll_timeout :: "u64 \<Rightarrow> int" where
  "epoll_timeout next_timeout =
     (let next_timeout =
            (if next_timeout \<noteq> NOT 0 then
               (if sint (ucast next_timeout :: u32) > 3000 then 3000 else next_timeout)
             else 3000)
      in sint (ucast next_timeout :: u32))"

record epoll_event =
  ev_fd :: "nat option"
  ev_events :: u32

text \<open>
  One round of the loop over the ready events. On an error or hang-up the source updates
  \<^verbatim>\<open>events->events\<close>, the first entry of the array, and it triggers whatever is registered, not only
  what is ready.
\<close>

definition on_event ::
  "(ctl_op \<Rightarrow> nat \<Rightarrow> u32 \<Rightarrow> bool) \<Rightarrow> nat \<Rightarrow> epoll_event list \<Rightarrow> ('f, epoll_event list) io_op" where
  "on_event ctl i evs w =
     (case ev_fd (evs ! i) of None \<Rightarrow> Ret evs w
      | Some fd \<Rightarrow>
          let c = m_fdContexts w ! fd;
              evs = (if ev_events (evs ! i) AND (EPOLLERR OR EPOLLHUP) \<noteq> 0
                     then evs[0 := (evs ! 0)\<lparr>ev_events := ev_events (evs ! 0) OR EPOLLIN OR EPOLLOUT\<rparr>] else evs);
              real_events = (if ev_events (evs ! i) AND EPOLLIN \<noteq> 0 then READ else NONE)
                         OR (if ev_events (evs ! i) AND EPOLLOUT \<noteq> 0 then WRITE else NONE)
          in if fc_events c AND real_events = NONE then Ret evs w
             else
               let left_events = fc_events c AND NOT real_events;
                   op = (if left_events \<noteq> 0 then EPOLL_CTL_MOD else EPOLL_CTL_DEL);
                   evs = evs[i := (evs ! i)\<lparr>ev_events := EPOLLET OR left_events\<rparr>]
               in if \<not> ctl op (fc_fd c) (EPOLLET OR left_events) then Ret evs w
                  else obind (trigger_if READ fd w) (\<lambda>_ w. obind (trigger_if WRITE fd w) (\<lambda>_ w. Ret evs w)))"

fun on_events :: "(ctl_op \<Rightarrow> nat \<Rightarrow> u32 \<Rightarrow> bool) \<Rightarrow> nat list \<Rightarrow> epoll_event list \<Rightarrow> ('f, unit) io_op" where
  "on_events ctl [] evs w = Ret () w"
| "on_events ctl (i # is) evs w = obind (on_event ctl i evs w) (\<lambda>evs. on_events ctl is evs)"

text \<open>
  One round of \<open>idel\<close> once \<^verbatim>\<open>epoll_wait\<close> has returned: expired timers are scheduled, then the ready
  events are handled.
\<close>

definition idel_round ::
  "(ctl_op \<Rightarrow> nat \<Rightarrow> u32 \<Rightarrow> bool) \<Rightarrow> u64 \<Rightarrow> nat \<Rightarrow> epoll_event list \<Rightarrow> ('f, unit) io_op" where
  "idel_round ctl now na evs w =
     (case listExpiredCb now na (io_timers w) of
        Ret cbs tm \<Rightarrow>
          let w = w\<lparr>io_timers := tm\<rparr>;
              s = io_self w;
              w = (if cbs \<noteq> [] then w\<lparr>scheds := (scheds w)(s :=
                     snd (schedule_all (map (\<lambda>cb. FiberAndThread_cb cb (-1)) cbs) False (scheds w s)))\<rparr> else w)
          in on_events ctl [0..<length evs] evs w
      | Throw e tm \<Rightarrow> Throw e (w\<lparr>io_timers := tm\<rparr>)
      | Undef u \<Rightarrow> Undef u)"

section \<open>Invariant\<close>

definition ctx_live :: "'f event_context \<Rightarrow> bool" where
  "ctx_live x \<longleftrightarrow> ec_scheduler x \<noteq> None \<and> (ec_cb x = None) \<noteq> (ec_fiber x = None)"

definition ctx_ok :: "bool \<Rightarrow> 'f event_context \<Rightarrow> bool" where
  "ctx_ok registered x = (if registered then ctx_live x else x = empty_ctx)"

definition fc_ok :: "nat \<Rightarrow> 'f fd_context \<Rightarrow> bool" where
  "fc_ok i c \<longleftrightarrow> fc_fd c = i \<and> fc_events c \<in> {NONE, READ, WRITE, READ OR WRITE} \<and>
     ctx_ok (fc_events c AND READ \<noteq> 0) (fc_read c) \<and> ctx_ok (fc_events c AND WRITE \<noteq> 0) (fc_write c)"

definition pend :: "'f fd_context \<Rightarrow> int" where
  "pend c = (if fc_events c AND READ \<noteq> 0 then 1 else 0) + (if fc_events c AND WRITE \<noteq> 0 then 1 else 0)"

definition io_inv :: "'f iomanager \<Rightarrow> bool" where
  "io_inv w \<longleftrightarrow> (\<forall>i < length (m_fdContexts w). fc_ok i (m_fdContexts w ! i)) \<and>
     m_appendingEventCount w = sum_list (map pend (m_fdContexts w))"

lemma sum_list_pend_update:
  "i < length xs \<Longrightarrow> sum_list (map pend (xs[i := c])) = sum_list (map pend xs) - pend (xs ! i) + pend c"
  by (induction xs arbitrary: i) (auto split: nat.splits)

lemma io_inv_put:
  assumes "io_inv w" and "i < length (m_fdContexts w)" and "fc_ok i c"
    and "m_fdContexts w' = (m_fdContexts w)[i := c]"
    and "m_appendingEventCount w' = m_appendingEventCount w - pend (m_fdContexts w ! i) + pend c"
  shows "io_inv w'"
  using assms by (auto simp: io_inv_def nth_list_update sum_list_pend_update)

text \<open>The four event sets, and what the masks make of them.\<close>

lemma event_masks [simp]:
  "READ AND READ = READ" "WRITE AND WRITE = WRITE" "READ AND WRITE = 0" "WRITE AND READ = 0" "NONE AND x = 0"
  "(READ OR WRITE) AND READ = READ" "(READ OR WRITE) AND WRITE = WRITE" "READ \<noteq> 0" "WRITE \<noteq> 0" "NONE = 0"
  "READ \<noteq> WRITE" "WRITE \<noteq> READ" "(READ OR WRITE) AND NOT READ = WRITE" "(READ OR WRITE) AND NOT WRITE = READ"
  "READ AND NOT READ = 0" "WRITE AND NOT WRITE = 0" "READ AND NOT WRITE = READ" "WRITE AND NOT READ = WRITE"
  "WRITE OR READ = READ OR WRITE" "READ OR WRITE \<noteq> 0" "NONE OR x = x"
  by (simp_all add: event_defs)

lemma ctx_ok_empty [simp]: "ctx_ok False empty_ctx"
  by (simp add: ctx_ok_def)

lemma fc_ok_cases:
  assumes "fc_ok i c"
  obtains "fc_events c = 0" "fc_read c = empty_ctx" "fc_write c = empty_ctx"
    | "fc_events c = READ" "ctx_live (fc_read c)" "fc_write c = empty_ctx"
    | "fc_events c = WRITE" "fc_read c = empty_ctx" "ctx_live (fc_write c)"
    | "fc_events c = READ OR WRITE" "ctx_live (fc_read c)" "ctx_live (fc_write c)"
  using assms by (auto simp: fc_ok_def ctx_ok_def)

text \<open>Triggering a registered event empties its context and queues its callback or fiber.\<close>

lemma triggerEvent_ok:
  assumes "fc_ok i (m_fdContexts w ! i)" and "ev \<in> {READ, WRITE}" and "fc_events (m_fdContexts w ! i) AND ev \<noteq> 0"
  shows "\<exists>s ft. has_task ft \<and> triggerEvent ev i w = Ret () (put_fd i
      (putcontext ev empty_ctx ((m_fdContexts w ! i)\<lparr>fc_events := fc_events (m_fdContexts w ! i) AND NOT ev\<rparr>))
      (w\<lparr>scheds := (scheds w)(s := snd (schedule ft (scheds w s)))\<rparr>))"
proof -
  let ?c = "m_fdContexts w ! i"
  define x where "x = (if ev = READ then fc_read ?c else fc_write ?c)"
  have g: "getcontext ev (?c\<lparr>fc_events := e\<rparr>) = Ret x ()" for e
    using assms(2) by (auto simp: getcontext_def x_def)
  have "ctx_live x" using assms by (auto simp: fc_ok_def ctx_ok_def x_def split: if_splits)
  then obtain s where s: "ec_scheduler x = Some s" and one: "(ec_cb x = None) \<noteq> (ec_fiber x = None)"
    by (auto simp: ctx_live_def)
  have e: "x\<lparr>ec_cb := None, ec_scheduler := None\<rparr> = empty_ctx" if "ec_fiber x = None"
    using that by (simp add: empty_ctx_def)
  have e': "x\<lparr>ec_fiber := None, ec_scheduler := None\<rparr> = empty_ctx" if "ec_cb x = None"
    using that by (simp add: empty_ctx_def)
  show ?thesis
  proof (cases "ec_cb x")
    case None
    let ?ft = "FiberAndThread_fiber (ec_fiber x) (-1)"
    have "has_task ?ft" using one None by (simp add: has_task_def FiberAndThread_fiber_def)
    moreover have "triggerEvent ev i w = Ret () (put_fd i
      (putcontext ev empty_ctx (?c\<lparr>fc_events := fc_events ?c AND NOT ev\<rparr>))
      (w\<lparr>scheds := (scheds w)(s := snd (schedule ?ft (scheds w s)))\<rparr>))"
      using assms(3) g s None e' by (simp add: triggerEvent_def CXK_ASSERT_def Let_def)
    ultimately show ?thesis by blast
  next
    case (Some cb)
    let ?ft = "FiberAndThread_cb (ec_cb x) (-1)"
    have "has_task ?ft" using Some by (simp add: has_task_def FiberAndThread_cb_def)
    moreover have "triggerEvent ev i w = Ret () (put_fd i
      (putcontext ev empty_ctx (?c\<lparr>fc_events := fc_events ?c AND NOT ev\<rparr>))
      (w\<lparr>scheds := (scheds w)(s := snd (schedule ?ft (scheds w s)))\<rparr>))"
      using assms(3) g s Some one e by (simp add: triggerEvent_def CXK_ASSERT_def Let_def)
    ultimately show ?thesis by blast
  qed
qed

lemma fc_ok_cleared:
  assumes "fc_ok i c" and "ev \<in> {READ, WRITE}" and "fc_events c AND ev \<noteq> 0"
  shows "fc_ok i (putcontext ev empty_ctx (c\<lparr>fc_events := fc_events c AND NOT ev\<rparr>))"
    "pend (putcontext ev empty_ctx (c\<lparr>fc_events := fc_events c AND NOT ev\<rparr>)) = pend c - 1"
    "fc_events (putcontext ev empty_ctx (c\<lparr>fc_events := fc_events c AND NOT ev\<rparr>)) = fc_events c AND NOT ev"
  using assms by (auto simp: fc_ok_def putcontext_def pend_def ctx_ok_def)

lemma io_invD:
  assumes "io_inv w"
  shows "\<And>i. i < length (m_fdContexts w) \<Longrightarrow> fc_ok i (m_fdContexts w ! i)"
    "m_appendingEventCount w = sum_list (map pend (m_fdContexts w))"
  using assms by (auto simp: io_inv_def)

text \<open>\<open>cleared ev i w w'\<close>: event \<open>ev\<close> of descriptor \<open>i\<close>, and nothing else of the table, has been taken off.\<close>

definition cleared :: "u32 \<Rightarrow> nat \<Rightarrow> 'f iomanager \<Rightarrow> 'f iomanager \<Rightarrow> bool" where
  "cleared ev i w w' \<longleftrightarrow> io_inv w' \<and> length (m_fdContexts w') = length (m_fdContexts w) \<and>
     fc_events (m_fdContexts w' ! i) = fc_events (m_fdContexts w ! i) AND NOT ev \<and>
     (\<forall>j. j \<noteq> i \<longrightarrow> m_fdContexts w' ! j = m_fdContexts w ! j)"

lemma trigger_counted:
  assumes "io_inv w" and "i < length (m_fdContexts w)" and "ev \<in> {READ, WRITE}"
    and "fc_events (m_fdContexts w ! i) AND ev \<noteq> 0"
  shows "\<exists>w'. obind (triggerEvent ev i w) (\<lambda>_ w. Ret r (add_pending (-1) w)) = Ret r w' \<and> cleared ev i w w' \<and>
    m_appendingEventCount w' = m_appendingEventCount w - 1 \<and> io_self w' = io_self w \<and> io_timers w' = io_timers w"
proof -
  note ok = io_invD(1) [OF assms(1,2)]
  let ?c = "putcontext ev empty_ctx ((m_fdContexts w ! i)\<lparr>fc_events := fc_events (m_fdContexts w ! i) AND NOT ev\<rparr>)"
  note c = fc_ok_cleared [OF ok assms(3,4)]
  obtain s ft where t: "triggerEvent ev i w =
      Ret () (put_fd i ?c (w\<lparr>scheds := (scheds w)(s := snd (schedule ft (scheds w s)))\<rparr>))"
    using triggerEvent_ok [OF ok assms(3,4)] by blast
  let ?w = "add_pending (-1) (put_fd i ?c (w\<lparr>scheds := (scheds w)(s := snd (schedule ft (scheds w s)))\<rparr>))"
  have "io_inv ?w"
    by (rule io_inv_put [OF assms(1,2) c(1)]) (simp_all add: add_pending_def put_fd_def c(2))
  then have "cleared ev i w ?w"
    using assms(2) c(3) by (simp add: cleared_def add_pending_def put_fd_def)
  then show ?thesis using t by (simp add: add_pending_def put_fd_def)
qed

lemma cancelEvent_ok:
  assumes "io_inv w" and "i < length (m_fdContexts w)" and "ev \<in> {READ, WRITE}"
    and "fc_events (m_fdContexts w ! i) AND ev \<noteq> 0" and "\<forall>op e. ctl op i e"
  shows "\<exists>w'. cancelEvent ctl (int i) ev w = Ret True w' \<and> cleared ev i w w' \<and>
    m_appendingEventCount w' = m_appendingEventCount w - 1"
  using trigger_counted [OF assms(1-4), of True] assms(2,4,5)
  by (auto simp: cancelEvent_def Let_def)

lemma trigger_if_ok:
  assumes "io_inv w" and "i < length (m_fdContexts w)" and "ev \<in> {READ, WRITE}"
  shows "\<exists>w'. trigger_if ev i w = Ret () w' \<and> cleared ev i w w'"
proof (cases "fc_events (m_fdContexts w ! i) AND ev = 0")
  case True
  then have "fc_events (m_fdContexts w ! i) AND NOT ev = fc_events (m_fdContexts w ! i)"
    using assms(3) io_invD(1) [OF assms(1,2)] by (auto simp: fc_ok_def)
  then show ?thesis using True assms(1) by (simp add: trigger_if_def cleared_def)
next
  case False
  then show ?thesis using trigger_counted [OF assms False, of "()"] by (auto simp: trigger_if_def)
qed

lemma trigger_both_ok:
  assumes "io_inv w" and "i < length (m_fdContexts w)"
  shows "\<exists>w1 w2. trigger_if READ i w = Ret () w1 \<and> trigger_if WRITE i w1 = Ret () w2 \<and> io_inv w2 \<and>
    fc_events (m_fdContexts w2 ! i) = 0 \<and> length (m_fdContexts w2) = length (m_fdContexts w) \<and>
    (\<forall>j. j \<noteq> i \<longrightarrow> m_fdContexts w2 ! j = m_fdContexts w ! j)"
proof -
  obtain w1 where w1: "trigger_if READ i w = Ret () w1" "cleared READ i w w1"
    using trigger_if_ok [OF assms, of READ] by auto
  then have i1: "io_inv w1" "i < length (m_fdContexts w1)" using assms(2) by (auto simp: cleared_def)
  obtain w2 where w2: "trigger_if WRITE i w1 = Ret () w2" "cleared WRITE i w1 w2"
    using trigger_if_ok [OF i1, of WRITE] by auto
  have "(fc_events (m_fdContexts w ! i) AND NOT READ) AND NOT WRITE = 0"
    using io_invD(1) [OF assms] by (auto simp: fc_ok_def)
  then show ?thesis using w1 w2 by (auto simp: cleared_def)
qed

lemma cancelAll_ok:
  assumes "io_inv w" and "i < length (m_fdContexts w)" and "fc_events (m_fdContexts w ! i) \<noteq> 0"
    and "\<forall>op e. ctl op i e"
  shows "\<exists>w'. cancelAll ctl (int i) w = Ret True w' \<and> io_inv w' \<and> fc_events (m_fdContexts w' ! i) = 0 \<and>
    (\<forall>j. j \<noteq> i \<longrightarrow> m_fdContexts w' ! j = m_fdContexts w ! j)"
  using trigger_both_ok [OF assms(1,2)] assms(2-4)
  by (fastforce simp: cancelAll_def Let_def CXK_ASSERT_def)

lemma resetContext_empty: "resetContext (x :: 'f event_context) = empty_ctx"
  by (cases x) (simp add: resetContext_def empty_ctx_def)

lemma delEvent_ok:
  assumes "io_inv w" and "i < length (m_fdContexts w)" and "ev \<in> {READ, WRITE}"
    and "fc_events (m_fdContexts w ! i) AND ev \<noteq> 0" and "\<forall>op e. ctl op i e"
  shows "\<exists>w'. delEvent ctl (int i) ev w = Ret True w' \<and> cleared ev i w w' \<and> scheds w' = scheds w"
proof -
  note c = fc_ok_cleared [OF io_invD(1) [OF assms(1,2)] assms(3,4)]
  let ?c = "putcontext ev empty_ctx ((m_fdContexts w ! i)\<lparr>fc_events := fc_events (m_fdContexts w ! i) AND NOT ev\<rparr>)"
  let ?w = "put_fd i ?c (add_pending (-1) w)"
  have "delEvent ctl (int i) ev w = Ret True ?w"
    using assms(2-5)
    by (auto simp: delEvent_def Let_def getcontext_def resetContext_empty)
  moreover have "io_inv ?w"
    by (rule io_inv_put [OF assms(1,2) c(1)]) (simp_all add: add_pending_def put_fd_def c(2))
  ultimately show ?thesis using assms(2) c(3) by (simp add: cleared_def put_fd_def add_pending_def)
qed

lemma contextResize_inv:
  assumes "io_inv w" and "length (m_fdContexts w) \<le> n"
  shows "io_inv (contextResize n w)" "length (m_fdContexts (contextResize n w)) = n"
    "i < length (m_fdContexts w) \<Longrightarrow> m_fdContexts (contextResize n w) ! i = m_fdContexts w ! i"
    "length (m_fdContexts w) \<le> i \<Longrightarrow> i < n \<Longrightarrow> m_fdContexts (contextResize n w) ! i = new_FdContext i"
proof -
  have "sum_list (map pend (map new_FdContext xs)) = 0" for xs
    by (induction xs) (simp_all add: pend_def new_FdContext_def)
  then show "io_inv (contextResize n w)"
    using assms by (auto simp: io_inv_def contextResize_def nth_append fc_ok_def new_FdContext_def ctx_ok_def)
qed (use assms in \<open>auto simp: contextResize_def nth_append\<close>)

lemma fc_ok_registered:
  assumes "fc_ok i c" and "ev \<in> {READ, WRITE}" and "fc_events c AND ev = 0" and "ctx_live x"
  shows "fc_ok i (putcontext ev x (c\<lparr>fc_events := fc_events c OR ev\<rparr>))"
    "pend (putcontext ev x (c\<lparr>fc_events := fc_events c OR ev\<rparr>)) = pend c + 1"
  using assms by (auto simp: fc_ok_def putcontext_def pend_def ctx_ok_def)

text \<open>\<open>addEvent\<close> on a descriptor whose context exists.\<close>

lemma addEvent_present:
  assumes "io_inv w" and "i < length (m_fdContexts w)" and "ev \<in> {READ, WRITE}"
    and "cb = None \<longrightarrow> fs = EXEC" and "\<forall>op e. ctl op i e"
  shows "if fc_events (m_fdContexts w ! i) AND ev = 0
    then \<exists>w'. addEvent ctl (Some s) f fs (int i) ev cb w = Ret 0 w' \<and> io_inv w' \<and>
      length (m_fdContexts w') = length (m_fdContexts w) \<and>
      fc_events (m_fdContexts w' ! i) = fc_events (m_fdContexts w ! i) OR ev \<and>
      (\<forall>j. j \<noteq> i \<longrightarrow> m_fdContexts w' ! j = m_fdContexts w ! j)
    else addEvent ctl (Some s) f fs (int i) ev cb w = Undef AssertFailed"
proof (cases "fc_events (m_fdContexts w ! i) AND ev = 0")
  case True
  note ok = io_invD(1) [OF assms(1,2)]
  let ?c = "m_fdContexts w ! i"
  define x :: "'a event_context" where
    "x = \<lparr>ec_scheduler = Some s, ec_fiber = (if cb = None then Some f else None), ec_cb = cb\<rparr>"
  let ?c' = "putcontext ev x (?c\<lparr>fc_events := fc_events ?c OR ev\<rparr>)"
  let ?w = "put_fd i ?c' (add_pending 1 w)"
  have "ctx_live x" by (simp add: ctx_live_def x_def)
  note c = fc_ok_registered [OF ok assms(3) True this]
  have e: "getcontext ev (?c\<lparr>fc_events := y\<rparr>) = Ret empty_ctx ()" for y
    using ok assms(3) True by (auto simp: getcontext_def fc_ok_def ctx_ok_def)
  have "addEvent ctl (Some s) f fs (int i) ev cb w = Ret 0 ?w"
    using assms(2,4,5) True e by (auto simp: addEvent_def Let_def CXK_ASSERT_def empty_ctx_def x_def)
  moreover have "io_inv ?w"
    by (rule io_inv_put [OF assms(1,2) c(1)]) (simp_all add: add_pending_def put_fd_def c(2))
  ultimately show ?thesis
    using True assms(2) by (auto simp: put_fd_def add_pending_def putcontext_def)
next
  case False
  then show ?thesis using assms(2) by (simp add: addEvent_def Let_def CXK_ASSERT_def)
qed

lemma addEvent_grow:
  assumes "length (m_fdContexts w) \<le> i" and "2 \<le> i"
  shows "addEvent ctl cur f fs (int i) ev cb w = addEvent ctl cur f fs (int i) ev cb (contextResize (3 * i div 2) w)"
proof -
  have "i < length (m_fdContexts (contextResize (3 * i div 2) w))"
    using assms by (auto simp: contextResize_def)
  then show ?thesis using assms by (simp add: addEvent_def Let_def)
qed

lemma on_event_ok:
  assumes "io_inv w" and "case ev_fd (evs ! i) of None \<Rightarrow> True | Some fd \<Rightarrow> fd < length (m_fdContexts w)"
  shows "\<exists>evs' w'. on_event ctl i evs w = Ret evs' w' \<and> io_inv w' \<and>
    length (m_fdContexts w') = length (m_fdContexts w) \<and> length evs' = length evs \<and>
    (\<forall>j < length evs. ev_fd (evs' ! j) = ev_fd (evs ! j))"
proof (cases "ev_fd (evs ! i)")
  case None
  then show ?thesis using assms(1) by (simp add: on_event_def)
next
  case (Some fd)
  then obtain w1 w2 where "trigger_if READ fd w = Ret () w1" "trigger_if WRITE fd w1 = Ret () w2"
    "io_inv w2" "length (m_fdContexts w2) = length (m_fdContexts w)"
    using trigger_both_ok [OF assms(1), of fd] assms(2) by auto
  note tr = this
  define e1 where "e1 = (if ev_events (evs ! i) AND (EPOLLERR OR EPOLLHUP) \<noteq> 0
      then evs[0 := (evs ! 0)\<lparr>ev_events := ev_events (evs ! 0) OR EPOLLIN OR EPOLLOUT\<rparr>] else evs)"
  have same: "length e1 = length evs" "\<And>j. j < length evs \<Longrightarrow> ev_fd (e1 ! j) = ev_fd (evs ! j)"
    by (simp add: e1_def) (cases evs, auto simp: e1_def nth_Cons split: nat.splits)
  have same2: "length (e1[i := x]) = length evs"
    "\<And>j. ev_fd x = ev_fd (e1 ! i) \<Longrightarrow> j < length evs \<Longrightarrow> ev_fd (e1[i := x] ! j) = ev_fd (evs ! j)" for x
    using same by (cases "i < length evs"; auto simp: nth_list_update)+
  have "\<exists>x. ev_fd x = ev_fd (e1 ! i) \<and> on_event ctl i evs w \<in> {Ret e1 w, Ret (e1[i := x]) w, Ret (e1[i := x]) w2}"
    unfolding on_event_def Some option.case Let_def e1_def [symmetric]
    by (intro exI [of _ "(e1 ! i)\<lparr>ev_events := EPOLLET OR (fc_events (m_fdContexts w ! fd) AND NOT
          ((if ev_events (e1 ! i) AND EPOLLIN \<noteq> 0 then READ else NONE) OR
           (if ev_events (e1 ! i) AND EPOLLOUT \<noteq> 0 then WRITE else NONE)))\<rparr>"]) (simp add: tr)
  then show ?thesis using same same2 tr(3,4) assms(1) by fastforce
qed

lemma on_events_ok:
  assumes "io_inv w" and "\<forall>i \<in> set ks. i < length evs"
    and "\<forall>i < length evs. \<forall>fd. ev_fd (evs ! i) = Some fd \<longrightarrow> fd < length (m_fdContexts w)"
  shows "\<exists>w'. on_events ctl ks evs w = Ret () w' \<and> io_inv w'"
  using assms
proof (induction ks arbitrary: evs w)
  case (Cons i ks)
  have "case ev_fd (evs ! i) of None \<Rightarrow> True | Some fd \<Rightarrow> fd < length (m_fdContexts w)"
    using Cons.prems(2,3) by (auto split: option.splits)
  then obtain evs' w' where e: "on_event ctl i evs w = Ret evs' w'" "io_inv w'"
    "length (m_fdContexts w') = length (m_fdContexts w)" "length evs' = length evs"
    "\<forall>j < length evs. ev_fd (evs' ! j) = ev_fd (evs ! j)"
    using on_event_ok [OF Cons.prems(1)] by blast
  have "\<exists>w''. on_events ctl ks evs' w' = Ret () w'' \<and> io_inv w''"
    using Cons.prems(2,3) e(3-5) by (intro Cons.IH [OF e(2)]) auto
  then show ?case using e(1) by simp
qed simp

lemma idel_round_ok:
  assumes "io_inv w" and "tm_inv (io_timers w)" and "m_cb (heap (io_timers w) na) = None"
    and "\<forall>e \<in> set evs. \<forall>fd. ev_fd e = Some fd \<longrightarrow> fd < length (m_fdContexts w)"
  shows "\<exists>w'. idel_round ctl now na evs w = Ret () w' \<and> io_inv w'"
proof -
  obtain cbs tm where l: "listExpiredCb now na (io_timers w) = Ret cbs tm"
    using listExpired_spec [OF assms(2,3), of now]
    by (cases "m_timers (io_timers w) = []") (auto simp: listExpiredCb_def)
  let ?w = "if cbs \<noteq> [] then w\<lparr>io_timers := tm, scheds := (scheds w)(io_self w :=
       snd (schedule_all (map (\<lambda>cb. FiberAndThread_cb cb (-1)) cbs) False (scheds w (io_self w))))\<rparr>
     else w\<lparr>io_timers := tm\<rparr>"
  have "io_inv ?w" using assms(1) by (simp add: io_inv_def)
  moreover have "m_fdContexts ?w = m_fdContexts w" by simp
  then have "\<forall>i < length evs. \<forall>fd. ev_fd (evs ! i) = Some fd \<longrightarrow> fd < length (m_fdContexts ?w)"
    using assms(4) by (metis nth_mem)
  ultimately have "\<exists>w'. on_events ctl [0..<length evs] evs ?w = Ret () w' \<and> io_inv w'"
    by (intro on_events_ok) auto
  then show ?thesis by (auto simp: idel_round_def l Let_def split: if_splits)
qed

section \<open>Properties\<close>

text \<open>A manager as its constructor leaves it: 32 empty contexts.\<close>

definition demo_io :: "nat iomanager" where
  "demo_io = contextResize 32 \<lparr>m_appendingEventCount = 0, m_fdContexts = [], scheds = (\<lambda>_. sch (boot [])),
     io_self = 0, io_timers = TimerManager 0\<rparr>"

lemma demo_io_inv: "io_inv demo_io" "length (m_fdContexts demo_io) = 32"
  "\<And>i. i < 32 \<Longrightarrow> fc_events (m_fdContexts demo_io ! i) = 0"
proof -
  let ?w = "\<lparr>m_appendingEventCount = 0, m_fdContexts = [], scheds = (\<lambda>_. sch (boot [])),
     io_self = 0, io_timers = TimerManager 0\<rparr> :: nat iomanager"
  have "io_inv ?w" by (simp add: io_inv_def)
  then show "io_inv demo_io" "length (m_fdContexts demo_io) = 32"
    using contextResize_inv(1,2) [of ?w 32] by (simp_all add: demo_io_def)
  show "fc_events (m_fdContexts demo_io ! i) = 0" if "i < 32" for i
    using contextResize_inv(4) [OF \<open>io_inv ?w\<close>, of 32 i] that by (simp add: demo_io_def new_FdContext_def)
qed

lemma addEvent_registers:
  assumes "io_inv w" and "2 \<le> length (m_fdContexts w)" and "ev \<in> {READ, WRITE}"
    and "cb = None \<longrightarrow> fs = EXEC" and "\<forall>op e. ctl op i e"
  shows "if i < length (m_fdContexts w) \<and> fc_events (m_fdContexts w ! i) AND ev \<noteq> 0
    then addEvent ctl (Some s) f fs (int i) ev cb w = Undef AssertFailed
    else \<exists>w'. addEvent ctl (Some s) f fs (int i) ev cb w = Ret 0 w' \<and> io_inv w' \<and>
      i < length (m_fdContexts w') \<and> fc_events (m_fdContexts w' ! i) AND ev \<noteq> 0 \<and>
      (\<forall>j < length (m_fdContexts w). j \<noteq> i \<longrightarrow> m_fdContexts w' ! j = m_fdContexts w ! j)"
proof (cases "i < length (m_fdContexts w)")
  case True
  have "(fc_events (m_fdContexts w ! i) OR ev) AND ev \<noteq> 0"
    using io_invD(1) [OF assms(1) True] assms(3) by (auto simp: fc_ok_def)
  then show ?thesis
    using addEvent_present [where ctl = ctl, OF assms(1) True assms(3,4,5), of s f] True
    by (cases "fc_events (m_fdContexts w ! i) AND ev = 0") auto
next
  case False
  let ?w = "contextResize (3 * i div 2) w"
  have len: "length (m_fdContexts w) \<le> i" "length (m_fdContexts w) \<le> 3 * i div 2" "i < 3 * i div 2" "2 \<le> i"
    using False assms(2) by auto
  note r = contextResize_inv [OF assms(1) len(2)]
  have i: "i < length (m_fdContexts ?w)" "fc_events (m_fdContexts ?w ! i) = 0"
    using r(2) r(4) [OF len(1,3)] len(3) by (simp_all add: new_FdContext_def)
  have "(0 OR ev) AND ev \<noteq> 0" using assms(3) by auto
  then show ?thesis
    using addEvent_present [where ctl = ctl, OF r(1) i(1) assms(3,4,5), of s f] addEvent_grow [OF len(1,4)] i r(2,3) False
    by auto
qed

text \<open>C10. \<open>addEvent\<close>: on any non-negative descriptor (the table grows where needed) a read or write event that
  is not registered is registered, with the invariant kept: the pending counter is the number of
  registered events, and contexts are filled exactly for those. A second registration of the same
  event trips the assertion.\<close>

theorem addEvent_exact:
  assumes "io_inv w" and "2 \<le> length (m_fdContexts w)" and "ev \<in> {READ, WRITE}"
    and "cb = None \<longrightarrow> fs = EXEC" and "\<forall>op e. ctl op i e"
  shows "if i < length (m_fdContexts w) \<and> fc_events (m_fdContexts w ! i) AND ev \<noteq> 0
    then addEvent ctl (Some s) f fs (int i) ev cb w = Undef AssertFailed
    else \<exists>w'. addEvent ctl (Some s) f fs (int i) ev cb w = Ret 0 w' \<and> io_inv w' \<and>
      i < length (m_fdContexts w') \<and> fc_events (m_fdContexts w' ! i) AND ev \<noteq> 0 \<and>
      (\<forall>j < length (m_fdContexts w). j \<noteq> i \<longrightarrow> m_fdContexts w' ! j = m_fdContexts w ! j)"
  using addEvent_registers [where ctl = ctl and i = i, OF assms] .

theorem addEvent_exact_witness:
  "\<exists>w'. addEvent (\<lambda>_ _ _. True) (Some 0) 3 EXEC (int 40) READ None demo_io = Ret 0 w' \<and> io_inv w'"
  using addEvent_exact [OF demo_io_inv(1), of READ None EXEC "\<lambda>_ _ _. True" 40 0 3] demo_io_inv(2) by auto

text \<open>Cancelling: \<open>delEvent\<close>, \<open>cancelEvent\<close> and \<open>cancelAll\<close> on registered events never dereference a null
  scheduler and never trip an assertion; they take exactly the named events off, keep the counter
  exact and, for the first, schedule nothing.\<close>

theorem cancel_events_exact:
  assumes "io_inv w" and "i < length (m_fdContexts w)" and "ev \<in> {READ, WRITE}"
    and "fc_events (m_fdContexts w ! i) AND ev \<noteq> 0" and "\<forall>op e. ctl op i e"
  shows "(\<exists>w'. delEvent ctl (int i) ev w = Ret True w' \<and> cleared ev i w w' \<and> scheds w' = scheds w) \<and>
    (\<exists>w'. cancelEvent ctl (int i) ev w = Ret True w' \<and> cleared ev i w w' \<and>
       m_appendingEventCount w' = m_appendingEventCount w - 1) \<and>
    (\<exists>w'. cancelAll ctl (int i) w = Ret True w' \<and> io_inv w' \<and> fc_events (m_fdContexts w' ! i) = 0)"
proof -
  have "fc_events (m_fdContexts w ! i) \<noteq> 0" using assms(4) by auto
  from cancelAll_ok [where ctl = ctl, OF assms(1,2) this assms(5)] show ?thesis
    using delEvent_ok [where ctl = ctl, OF assms] cancelEvent_ok [where ctl = ctl, OF assms] by blast
qed

theorem cancel_events_exact_witness:
  "\<exists>w w' :: nat iomanager. fc_events (m_fdContexts w ! 4) = READ \<and>
     cancelEvent (\<lambda>_ _ _. True) (int 4) READ w = Ret True w'"
proof -
  obtain w :: "nat iomanager" where w: "io_inv w" "length (m_fdContexts w) = 32" "fc_events (m_fdContexts w ! 4) = READ"
    using addEvent_present [OF demo_io_inv(1), of 4 READ None EXEC "\<lambda>_ _ _. True" 0 3] demo_io_inv(2,3) by auto
  then show ?thesis
    using cancel_events_exact [of w 4 READ "\<lambda>_ _ _. True"] by auto
qed

text \<open>C11. One round of the idle loop, whatever events \<^verbatim>\<open>epoll_wait\<close> reports for known descriptors and whatever
  \<^verbatim>\<open>epoll_ctl\<close> answers, runs to its end without a failed assertion or null dereference and keeps the
  invariant.\<close>

theorem idel_round_safe:
  assumes "io_inv w" and "tm_inv (io_timers w)" and "m_cb (heap (io_timers w) na) = None"
    and "\<forall>e \<in> set evs. \<forall>fd. ev_fd e = Some fd \<longrightarrow> fd < length (m_fdContexts w)"
  shows "\<exists>w'. idel_round ctl now na evs w = Ret () w' \<and> io_inv w'"
  using idel_round_ok [OF assms] .

theorem idel_round_safe_witness:
  "\<exists>w'. idel_round (\<lambda>_ _ _. True) 5 0 [\<lparr>ev_fd = Some 3, ev_events = EPOLLIN\<rparr>] demo_io = Ret () w' \<and> io_inv w'"
proof -
  have t: "io_timers demo_io = TimerManager 0" by (simp add: demo_io_def contextResize_def)
  show ?thesis
    by (rule idel_round_safe [OF demo_io_inv(1)]) (simp_all add: t tm_inv_new no_cb_new demo_io_inv(2))
qed

text \<open>The event loop triggers every registered event of a ready descriptor, not only the ready ones:
  with both events registered and only reading possible, the fiber waiting to write is resumed and its
  registration dropped too.\<close>

theorem unready_event_triggered:
  assumes "io_inv w" and "fd < length (m_fdContexts w)" and "fc_events (m_fdContexts w ! fd) = READ OR WRITE"
    and "evs ! i = \<lparr>ev_fd = Some fd, ev_events = EPOLLIN\<rparr>" and "\<forall>op e. ctl op fd e"
  shows "\<exists>evs' w'. on_event ctl i evs w = Ret evs' w' \<and> fc_events (m_fdContexts w' ! fd) = 0"
proof -
  obtain w1 w2 where tr: "trigger_if READ fd w = Ret () w1" "trigger_if WRITE fd w1 = Ret () w2"
    "fc_events (m_fdContexts w2 ! fd) = 0"
    using trigger_both_ok [OF assms(1,2)] by blast
  have "fc_fd (m_fdContexts w ! fd) = fd" using io_invD(1) [OF assms(1,2)] by (simp add: fc_ok_def)
  then have "on_event ctl i evs w = Ret (evs[i := (evs ! i)\<lparr>ev_events := EPOLLET OR WRITE\<rparr>]) w2"
    using assms(3-5) tr by (simp add: on_event_def Let_def EPOLLIN_def EPOLLOUT_def EPOLLERR_def EPOLLHUP_def)
  then show ?thesis using tr(3) by blast
qed

theorem unready_event_triggered_witness:
  "\<exists>(w :: nat iomanager) evs' w'. fc_events (m_fdContexts w ! 4) = READ OR WRITE \<and>
     on_event (\<lambda>_ _ _. True) 0 [\<lparr>ev_fd = Some 4, ev_events = EPOLLIN\<rparr>] w = Ret evs' w' \<and>
     fc_events (m_fdContexts w' ! 4) = 0"
proof -
  obtain w1 :: "nat iomanager" where w1: "io_inv w1" "length (m_fdContexts w1) = 32" "fc_events (m_fdContexts w1 ! 4) = READ"
    using addEvent_present [OF demo_io_inv(1), of 4 READ None EXEC "\<lambda>_ _ _. True" 0 3] demo_io_inv(2,3) by auto
  obtain w :: "nat iomanager" where w: "io_inv w" "length (m_fdContexts w) = 32" "fc_events (m_fdContexts w ! 4) = READ OR WRITE"
    using addEvent_present [OF w1(1), of 4 WRITE None EXEC "\<lambda>_ _ _. True" 0 5] w1(2,3) by auto
  then show ?thesis
    using unready_event_triggered [OF w(1), of 4 "[\<lparr>ev_fd = Some 4, ev_events = EPOLLIN\<rparr>]" 0 "\<lambda>_ _ _. True"]
    by auto
qed

text \<open>An error or hang-up reported alone is delivered only when its entry is the first of the array: the
  source adds the read and write bits to \<^verbatim>\<open>events->events\<close> instead of \<^verbatim>\<open>event.events\<close>, so for any later
  entry nothing is triggered.\<close>

theorem error_event_lost:
  assumes "0 < i" and "i < length evs" and "evs ! i = \<lparr>ev_fd = Some fd, ev_events = EPOLLERR\<rparr>"
  shows "\<exists>evs'. on_event ctl i evs w = Ret evs' w"
  using assms by (simp add: on_event_def Let_def event_defs)

theorem error_event_lost_witness:
  "\<exists>evs'. on_event (\<lambda>_ _ _. True) 1 [\<lparr>ev_fd = None, ev_events = EPOLLIN\<rparr>, \<lparr>ev_fd = Some 4, ev_events = EPOLLERR\<rparr>]
     demo_io = Ret evs' demo_io"
  using error_event_lost [of 1 "[\<lparr>ev_fd = None, ev_events = EPOLLIN\<rparr>, \<lparr>ev_fd = Some 4, ev_events = EPOLLERR\<rparr>]" 4]
  by simp

text \<open>The \<^verbatim>\<open>epoll_wait\<close> timeout: for deadlines less than \<open>2^31\<close> ms away (and for none) it is the time left,
  at most 3000 ms; a deadline \<open>2^31\<close> ms away is cast to a negative \<^verbatim>\<open>int\<close>, which waits without limit.\<close>

theorem epoll_timeout_exact:
  "(unat t < 2 ^ 31 \<longrightarrow> epoll_timeout t = min 3000 (int (unat t))) \<and> epoll_timeout (NOT 0) = 3000 \<and>
   epoll_timeout 0x80000000 < 0"
proof (intro conjI impI)
  assume b: "unat t < 2 ^ 31"
  have ne: "t \<noteq> NOT 0"
  proof
    assume "t = NOT 0"
    then show False using b by (simp add: unsigned_minus_1_eq_mask mask_eq_exp_minus_1)
  qed
  have "int (unat t) < int (2 ^ 31)" using b by (simp only: of_nat_less_iff)
  then have u: "0 \<le> uint t" "uint t < 2 ^ 31" by simp_all
  have c: "uint (ucast t :: u32) = uint t" using u(2) by (simp add: unsigned_ucast_eq take_bit_int_eq_self)
  have "sint (ucast t :: u32) = signed_take_bit 31 (uint (ucast t :: u32))" by (simp add: sint_uint)
  also have "\<dots> = uint t" unfolding c using u by (intro signed_take_bit_int_eq_self) linarith+
  finally have s: "sint (ucast t :: u32) = uint t" .
  show "epoll_timeout t = min 3000 (int (unat t))"
    unfolding epoll_timeout_def Let_def s using ne s by (simp add: min_def)
qed (simp_all add: epoll_timeout_def)

theorem epoll_timeout_exact_witness: "epoll_timeout 1500 = 1500"
  using epoll_timeout_exact [of 1500] by simp

end
