(* ===== verification/LruCache.thy ===== *)
theory LruCache
  imports Prelude
begin

text \<open>
  \<^verbatim>\<open>src/cxk/ds/lru_cache.h\<close> and \<^verbatim>\<open>cache_status.h\<close>. A \<^verbatim>\<open>std::list\<close> node keeps its identity when it is
  spliced, so a node is an address into \<open>node\<close>, \<open>m_keys\<close> the list of addresses from the most to the
  least recently used, and \<open>m_cache\<close> the hash map from keys to addresses, as an association list
  (its order, which the standard leaves open, is used nowhere). \<open>m_fresh\<close> supplies new addresses.
  \<open>entries\<close> is the abstraction, the pairs by recency. \<open>cache\<close> is the contract of a key/value cache:
  it is interpreted on \<^verbatim>\<open>LruCache\<close> and, through it, on the bucketed \<^verbatim>\<open>HashLruCache\<close>.
\<close>

section \<open>Statistics\<close>

record cache_status =
  st_get :: u64
  st_set :: u64
  st_del :: u64
  st_timeout :: u64
  st_prune :: u64
  st_hit :: u64

definition incGet :: "u64 \<Rightarrow> cache_status \<Rightarrow> cache_status" where "incGet v s = s\<lparr>st_get := st_get s + v\<rparr>"
definition incSet :: "u64 \<Rightarrow> cache_status \<Rightarrow> cache_status" where "incSet v s = s\<lparr>st_set := st_set s + v\<rparr>"
definition incDel :: "u64 \<Rightarrow> cache_status \<Rightarrow> cache_status" where "incDel v s = s\<lparr>st_del := st_del s + v\<rparr>"
definition incPrune :: "u64 \<Rightarrow> cache_status \<Rightarrow> cache_status" where "incPrune v s = s\<lparr>st_prune := st_prune s + v\<rparr>"
definition incHit :: "u64 \<Rightarrow> cache_status \<Rightarrow> cache_status" where "incHit v s = s\<lparr>st_hit := st_hit s + v\<rparr>"

definition new_CacheStatus :: cache_status where
  "new_CacheStatus = \<lparr>st_get = 0, st_set = 0, st_del = 0, st_timeout = 0, st_prune = 0, st_hit = 0\<rparr>"

definition status_merge :: "cache_status \<Rightarrow> cache_status \<Rightarrow> cache_status" where
  "status_merge o' s =
     s\<lparr>st_get := st_get s + st_get o', st_set := st_set s + st_set o', st_del := st_del s + st_del o',
       st_timeout := st_timeout s + st_timeout o', st_prune := st_prune s + st_prune o',
       st_hit := st_hit s + st_hit o'\<rparr>"

section \<open>One cache\<close>

record ('k, 'v) lru =
  m_cache :: "('k \<times> nat) list"
  m_keys :: "nat list"
  node :: "nat \<Rightarrow> 'k \<times> 'v"
  m_fresh :: nat
  m_maxSize :: nat
  m_elasticity :: nat
  m_status :: cache_status

definition new_LruCache :: "(nat \<Rightarrow> 'k \<times> 'v) \<Rightarrow> nat \<Rightarrow> nat \<Rightarrow> ('k, 'v) lru" where
  "new_LruCache nd max_size elasticity =
     \<lparr>m_cache = [], m_keys = [], node = nd, m_fresh = 0, m_maxSize = max_size, m_elasticity = elasticity,
      m_status = new_CacheStatus\<rparr>"

definition getMaxAllowedSize :: "('k, 'v) lru \<Rightarrow> nat" where
  "getMaxAllowedSize c = m_maxSize c + m_elasticity c"

definition cache_erase :: "'k \<Rightarrow> ('k \<times> nat) list \<Rightarrow> ('k \<times> nat) list" where
  "cache_erase k m = filter (\<lambda>p. fst p \<noteq> k) m"

definition upd_status :: "(cache_status \<Rightarrow> cache_status) \<Rightarrow> ('k, 'v) lru \<Rightarrow> ('k, 'v) lru" where
  "upd_status f c = c\<lparr>m_status := f (m_status c)\<rparr>"

text \<open>The loop of \<open>prune\<close>; the pairs handed to the prune callback come out in order. \<^verbatim>\<open>m_keys.back()\<close> of an
  empty list is undefined.\<close>

function prune_loop :: "('k \<times> 'v) list \<Rightarrow> ('k, 'v) lru \<Rightarrow> (('k, 'v) lru, ('k \<times> 'v) list) outcome" where
  "prune_loop out c =
     (if length (m_cache c) > m_maxSize c then
        if m_keys c = [] then Undef OutOfBounds
        else let bk = node c (last (m_keys c))
          in prune_loop (out @ [bk]) (c\<lparr>m_cache := cache_erase (fst bk) (m_cache c), m_keys := butlast (m_keys c)\<rparr>)
      else Ret out c)"
  by pat_completeness auto
termination
  by (relation "measure (\<lambda>(out, c). length (m_keys c))") auto

declare prune_loop.simps [simp del]

definition prune :: "('k, 'v) lru \<Rightarrow> (('k, 'v) lru, ('k \<times> 'v) list) outcome" where
  "prune c =
     (if m_maxSize c = 0 \<or> length (m_cache c) < getMaxAllowedSize c then Ret [] c
      else obind (prune_loop [] c) (\<lambda>out c. Ret out (upd_status (incPrune (of_nat (length out))) c)))"

definition splice_front :: "nat \<Rightarrow> ('k, 'v) lru \<Rightarrow> ('k, 'v) lru" where
  "splice_front n c = c\<lparr>m_keys := n # filter (\<lambda>m. m \<noteq> n) (m_keys c)\<rparr>"

definition lru_set :: "'k \<Rightarrow> 'v \<Rightarrow> ('k, 'v) lru \<Rightarrow> (('k, 'v) lru, ('k \<times> 'v) list) outcome" where
  "lru_set k v c =
     (let c = upd_status (incSet 1) c in
      case map_of (m_cache c) k of
        Some n \<Rightarrow> Ret [] (splice_front n (c\<lparr>node := (node c)(n := (fst (node c n), v))\<rparr>))
      | None \<Rightarrow>
          let n = m_fresh c
          in prune (c\<lparr>node := (node c)(n := (k, v)), m_fresh := Suc n, m_keys := n # m_keys c,
                      m_cache := (k, n) # m_cache c\<rparr>))"

text \<open>\<open>lru_get to_bool\<close>: the method returns its out-parameter \<open>v\<close> converted to \<^verbatim>\<open>bool\<close>; the second
  component is that parameter, \<open>None\<close> where it is left alone.\<close>

definition lru_get :: "('v \<Rightarrow> bool) \<Rightarrow> 'k \<Rightarrow> ('k, 'v) lru \<Rightarrow> (bool \<times> 'v option) \<times> ('k, 'v) lru" where
  "lru_get to_bool k c =
     (let c = upd_status (incGet 1) c in
      case map_of (m_cache c) k of
        None \<Rightarrow> ((False, None), c)
      | Some n \<Rightarrow>
          let c = splice_front n c; v = snd (node c n)
          in ((to_bool v, Some v), upd_status (incHit 1) c))"

definition lru_del :: "'k \<Rightarrow> ('k, 'v) lru \<Rightarrow> bool \<times> ('k, 'v) lru" where
  "lru_del k c =
     (let c = upd_status (incDel 1) c in
      case map_of (m_cache c) k of
        None \<Rightarrow> (False, c)
      | Some n \<Rightarrow> (True, c\<lparr>m_keys := filter (\<lambda>m. m \<noteq> n) (m_keys c), m_cache := cache_erase k (m_cache c)\<rparr>))"

definition lru_exists :: "'k \<Rightarrow> ('k, 'v) lru \<Rightarrow> bool" where
  "lru_exists k c \<longleftrightarrow> map_of (m_cache c) k \<noteq> None"

definition lru_size :: "('k, 'v) lru \<Rightarrow> nat" where
  "lru_size c = length (m_cache c)"

definition lru_empty :: "('k, 'v) lru \<Rightarrow> bool" where
  "lru_empty c \<longleftrightarrow> m_cache c = []"

definition lru_clear :: "('k, 'v) lru \<Rightarrow> bool \<times> ('k, 'v) lru" where
  "lru_clear c = (True, c\<lparr>m_cache := [], m_keys := []\<rparr>)"

definition lru_setMaxSize :: "nat \<Rightarrow> ('k, 'v) lru \<Rightarrow> ('k, 'v) lru" where
  "lru_setMaxSize n c = c\<lparr>m_maxSize := n\<rparr>"

definition lru_setElasticity :: "nat \<Rightarrow> ('k, 'v) lru \<Rightarrow> ('k, 'v) lru" where
  "lru_setElasticity n c = c\<lparr>m_elasticity := n\<rparr>"

section \<open>The bucketed cache\<close>

text \<open>All buckets point to the one \<^verbatim>\<open>CacheStatus\<close> of the object, \<open>h_status\<close>: \<open>get_bucket\<close> and
  \<open>put_bucket\<close> run a bucket's method on it. \<open>H\<close> is the hash function. \<^verbatim>\<open>std::ceil(a * 1.0 / b)\<close> is
  the rounded-up quotient (sizes below \<open>2^53\<close>). The constructor's parameter \<^verbatim>\<open>m_elasticity\<close> hides the
  member, which stays indeterminate (\<open>junk\<close>).\<close>

definition ceil_div :: "nat \<Rightarrow> nat \<Rightarrow> nat" where
  "ceil_div a b = (a + b - 1) div b"

record ('k, 'v) hash_lru =
  h_datas :: "('k, 'v) lru list"
  h_maxSize :: nat
  h_bucket :: nat
  h_elasticity :: nat
  h_status :: cache_status

definition new_HashLruCache :: "nat \<Rightarrow> (nat \<Rightarrow> 'k \<times> 'v) \<Rightarrow> nat \<Rightarrow> nat \<Rightarrow> nat \<Rightarrow> ('k, 'v) hash_lru" where
  "new_HashLruCache junk nd bucket max_size elasticity =
     (let pre_max_size = ceil_div max_size bucket; pre_elasticity = ceil_div elasticity bucket
      in \<lparr>h_datas = replicate bucket (new_LruCache nd pre_max_size pre_elasticity),
          h_maxSize = pre_max_size * bucket, h_bucket = bucket, h_elasticity = junk, h_status = new_CacheStatus\<rparr>)"

definition bucket_of :: "('k \<Rightarrow> nat) \<Rightarrow> 'k \<Rightarrow> ('k, 'v) hash_lru \<Rightarrow> nat" where
  "bucket_of H k d = H k mod h_bucket d"

definition put_bucket :: "nat \<Rightarrow> ('k, 'v) lru \<Rightarrow> ('k, 'v) hash_lru \<Rightarrow> ('k, 'v) hash_lru" where
  "put_bucket i c d = d\<lparr>h_datas := (h_datas d)[i := c], h_status := m_status c\<rparr>"

definition get_bucket :: "nat \<Rightarrow> ('k, 'v) hash_lru \<Rightarrow> ('k, 'v) lru" where
  "get_bucket i d = (h_datas d ! i)\<lparr>m_status := h_status d\<rparr>"

definition hlru_set :: "('k \<Rightarrow> nat) \<Rightarrow> 'k \<Rightarrow> 'v \<Rightarrow> ('k, 'v) hash_lru \<Rightarrow> (('k, 'v) hash_lru, ('k \<times> 'v) list) outcome" where
  "hlru_set H k v d =
     (if h_bucket d = 0 then Undef DivByZero
      else let i = bucket_of H k d in
        case lru_set k v (get_bucket i d) of
          Ret out c \<Rightarrow> Ret out (put_bucket i c d)
        | Throw e c \<Rightarrow> Throw e (put_bucket i c d)
        | Undef u \<Rightarrow> Undef u)"

definition hlru_get :: "('k \<Rightarrow> nat) \<Rightarrow> ('v \<Rightarrow> bool) \<Rightarrow> 'k \<Rightarrow> ('k, 'v) hash_lru \<Rightarrow> (bool \<times> 'v option) \<times> ('k, 'v) hash_lru" where
  "hlru_get H to_bool k d =
     (let i = bucket_of H k d; (r, c) = lru_get to_bool k (get_bucket i d) in (r, put_bucket i c d))"

definition hlru_del :: "('k \<Rightarrow> nat) \<Rightarrow> 'k \<Rightarrow> ('k, 'v) hash_lru \<Rightarrow> bool \<times> ('k, 'v) hash_lru" where
  "hlru_del H k d =
     (let i = bucket_of H k d; (r, c) = lru_del k (get_bucket i d) in (r, put_bucket i c d))"

definition hlru_exists :: "('k \<Rightarrow> nat) \<Rightarrow> 'k \<Rightarrow> ('k, 'v) hash_lru \<Rightarrow> bool" where
  "hlru_exists H k d = lru_exists k (get_bucket (bucket_of H k d) d)"

definition hlru_size :: "('k, 'v) hash_lru \<Rightarrow> nat" where
  "hlru_size d = sum_list (map lru_size (h_datas d))"

definition hlru_empty :: "('k, 'v) hash_lru \<Rightarrow> bool" where
  "hlru_empty d = list_all lru_empty (h_datas d)"

definition hlru_clear :: "('k, 'v) hash_lru \<Rightarrow> ('k, 'v) hash_lru" where
  "hlru_clear d = d\<lparr>h_datas := map (\<lambda>c. snd (lru_clear c)) (h_datas d)\<rparr>"

definition hlru_setMaxSize :: "nat \<Rightarrow> ('k, 'v) hash_lru \<Rightarrow> ('k, 'v) hash_lru" where
  "hlru_setMaxSize v d =
     (let pre_max_size = ceil_div v (h_bucket d)
      in d\<lparr>h_maxSize := pre_max_size * h_bucket d, h_datas := map (lru_setMaxSize pre_max_size) (h_datas d)\<rparr>)"

definition hlru_setElasticity :: "nat \<Rightarrow> ('k, 'v) hash_lru \<Rightarrow> ('k, 'v) hash_lru" where
  "hlru_setElasticity v d =
     (let pre_elasticity = ceil_div v (h_bucket d)
      in d\<lparr>h_elasticity := pre_elasticity * h_bucket d, h_datas := map (lru_setElasticity pre_elasticity) (h_datas d)\<rparr>)"

section \<open>Representation invariant and abstraction\<close>

definition lru_inv :: "('k, 'v) lru \<Rightarrow> bool" where
  "lru_inv c \<longleftrightarrow> distinct (m_keys c) \<and> distinct (map fst (m_cache c)) \<and>
     set (m_cache c) = (\<lambda>n. (fst (node c n), n)) ` set (m_keys c) \<and> (\<forall>n \<in> set (m_keys c). n < m_fresh c)"

definition entries :: "('k, 'v) lru \<Rightarrow> ('k \<times> 'v) list" where
  "entries c = map (node c) (m_keys c)"

definition lru_lookup :: "('k, 'v) lru \<Rightarrow> 'k \<Rightarrow> 'v option" where
  "lru_lookup c k = map_of (entries c) k"

lemma lru_invD:
  assumes "lru_inv c"
  shows "distinct (m_keys c)" "distinct (map fst (m_cache c))"
    "set (m_cache c) = (\<lambda>n. (fst (node c n), n)) ` set (m_keys c)" "\<And>n. n \<in> set (m_keys c) \<Longrightarrow> n < m_fresh c"
  using assms by (auto simp: lru_inv_def)

lemma map_of_cache:
  assumes "lru_inv c"
  shows "map_of (m_cache c) k = Some n \<longleftrightarrow> n \<in> set (m_keys c) \<and> fst (node c n) = k"
  using lru_invD(2,3) [OF assms] by (auto simp: map_of_eq_Some_iff)

lemma map_of_cache_None:
  assumes "lru_inv c"
  shows "map_of (m_cache c) k = None \<longleftrightarrow> k \<notin> fst ` set (entries c)"
proof -
  have "fst ` set (m_cache c) = fst ` set (entries c)"
    using lru_invD(3) [OF assms] by (simp add: entries_def image_image)
  then show ?thesis by (simp add: map_of_eq_None_iff)
qed

lemma inj_keys:
  assumes "lru_inv c" and "n \<in> set (m_keys c)" and "m \<in> set (m_keys c)" and "fst (node c n) = fst (node c m)"
  shows "n = m"
proof -
  have "map_of (m_cache c) (fst (node c n)) = Some n" "map_of (m_cache c) (fst (node c n)) = Some m"
    using map_of_cache [OF assms(1)] assms(2-4) by simp_all
  then show ?thesis by simp
qed

lemma distinct_entries: "lru_inv c \<Longrightarrow> distinct (map fst (entries c))"
  by (auto simp: entries_def distinct_map lru_invD(1) intro!: inj_onI intro: inj_keys)

lemma length_cache: "lru_inv c \<Longrightarrow> length (m_cache c) = length (m_keys c)"
proof -
  assume inv: "lru_inv c"
  have "length (m_cache c) = card (set (m_cache c))"
    using lru_invD(2) [OF inv] by (simp add: distinct_map distinct_card)
  also have "\<dots> = card (set (m_keys c))"
    unfolding lru_invD(3) [OF inv] by (intro card_image) (simp add: inj_on_def)
  finally show ?thesis using lru_invD(1) [OF inv] by (simp add: distinct_card)
qed

lemma lru_inv_status [simp]: "lru_inv (upd_status f c) = lru_inv c" "entries (upd_status f c) = entries c"
  "m_cache (upd_status f c) = m_cache c" "m_keys (upd_status f c) = m_keys c" "node (upd_status f c) = node c"
  "m_fresh (upd_status f c) = m_fresh c" "m_maxSize (upd_status f c) = m_maxSize c"
  "m_elasticity (upd_status f c) = m_elasticity c"
  by (simp_all add: upd_status_def lru_inv_def entries_def)

text \<open>Dropping one node from both containers.\<close>

lemma lru_inv_drop:
  assumes "lru_inv c" and "n \<in> set (m_keys c)"
    and "m_keys c' = filter (\<lambda>m. m \<noteq> n) (m_keys c)" and "m_cache c' = cache_erase (fst (node c n)) (m_cache c)"
    and "node c' = node c" and "m_fresh c' = m_fresh c"
  shows "lru_inv c'"
proof -
  note inv = lru_invD [OF assms(1)]
  have "set (m_cache c') = {p \<in> set (m_cache c). fst p \<noteq> fst (node c n)}"
    using assms(4) by (auto simp: cache_erase_def)
  also have "\<dots> = (\<lambda>m. (fst (node c m), m)) ` set (m_keys c')"
    using inv(3) assms(2,3) inj_keys [OF assms(1)] by fastforce
  finally have "set (m_cache c') = (\<lambda>m. (fst (node c' m), m)) ` set (m_keys c')" by (simp add: assms(5))
  moreover have "distinct (map fst (m_cache c'))"
    using inv(2) assms(4) by (simp add: cache_erase_def distinct_map_filter)
  ultimately show ?thesis
    using inv(1,4) assms(3,6) by (simp add: lru_inv_def)
qed

lemma entries_drop:
  assumes "lru_inv c" and "n \<in> set (m_keys c)" and "fst (node c n) = k"
  shows "map (node c) (filter (\<lambda>m. m \<noteq> n) (m_keys c)) = filter (\<lambda>p. fst p \<noteq> k) (entries c)"
proof -
  have "filter (\<lambda>m. m \<noteq> n) (m_keys c) = filter ((\<lambda>p. fst p \<noteq> k) \<circ> node c) (m_keys c)"
    using inj_keys [OF assms(1) _ assms(2)] assms(3) by (intro filter_cong) auto
  then show ?thesis by (simp add: entries_def filter_map)
qed

lemma prune_loop_ok:
  assumes "lru_inv c"
  shows "\<exists>c'. prune_loop out c = Ret (out @ rev (drop (m_maxSize c) (entries c))) c' \<and> lru_inv c' \<and>
    entries c' = take (m_maxSize c) (entries c) \<and> m_maxSize c' = m_maxSize c \<and> m_elasticity c' = m_elasticity c"
  using assms
proof (induction out c rule: prune_loop.induct)
  case (1 out c)
  show ?case
  proof (cases "length (m_cache c) > m_maxSize c")
    case False
    then have "length (entries c) \<le> m_maxSize c" using length_cache [OF "1.prems"] by (simp add: entries_def)
    then show ?thesis using False "1.prems" by (simp add: prune_loop.simps [of out c])
  next
    case True
    have ne: "m_keys c \<noteq> []" using True length_cache [OF "1.prems"] by auto
    then obtain ks n where ks: "m_keys c = ks @ [n]" by (cases "m_keys c" rule: rev_cases) auto
    let ?c = "c\<lparr>m_cache := cache_erase (fst (node c n)) (m_cache c), m_keys := ks\<rparr>"
    have d: "n \<notin> set ks" using lru_invD(1) [OF "1.prems"] ks by simp
    then have f: "filter (\<lambda>m. m \<noteq> n) (m_keys c) = ks" using ks by (auto intro!: filter_True)
    have inv: "lru_inv ?c"
      by (rule lru_inv_drop [OF "1.prems", of n]) (use f ks in auto)
    have e: "entries c = entries ?c @ [node c n]" using ks by (simp add: entries_def)
    have len: "m_maxSize c < length (entries c)" using True length_cache [OF "1.prems"] by (simp add: entries_def)
    have step: "prune_loop out c = prune_loop (out @ [node c n]) ?c"
      using True ks by (simp add: prune_loop.simps [of out c] Let_def)
    have "\<exists>c'. prune_loop (out @ [node c n]) ?c = Ret ((out @ [node c n]) @ rev (drop (m_maxSize ?c) (entries ?c))) c' \<and>
        lru_inv c' \<and> entries c' = take (m_maxSize ?c) (entries ?c) \<and> m_maxSize c' = m_maxSize ?c \<and>
        m_elasticity c' = m_elasticity ?c"
      using "1.IH" [OF True ne refl] inv ks by simp
    moreover have "rev (drop (m_maxSize c) (entries c)) = node c n # rev (drop (m_maxSize c) (entries ?c))"
      "take (m_maxSize c) (entries c) = take (m_maxSize c) (entries ?c)"
      using len e by simp_all
    ultimately show ?thesis unfolding step by simp
  qed
qed

text \<open>\<open>lru_inv\<close> after a node has been moved to the front, or a new one put there.\<close>

lemma splice_ok:
  assumes "lru_inv c" and "n \<in> set (m_keys c)" and "fst (node c n) = k"
  shows "lru_inv (splice_front n (c\<lparr>node := (node c)(n := (k, v))\<rparr>))"
    "entries (splice_front n (c\<lparr>node := (node c)(n := (k, v))\<rparr>)) = (k, v) # filter (\<lambda>p. fst p \<noteq> k) (entries c)"
proof -
  let ?c = "splice_front n (c\<lparr>node := (node c)(n := (k, v))\<rparr>)"
  note inv = lru_invD [OF assms(1)]
  have s: "set (m_keys ?c) = set (m_keys c)" using assms(2) by (auto simp: splice_front_def)
  have f: "fst (node ?c m) = fst (node c m)" for m using assms(3) by (simp add: splice_front_def)
  show "lru_inv ?c"
    using inv s f by (simp add: lru_inv_def) (simp add: splice_front_def)
  have "map (node ?c) (filter (\<lambda>m. m \<noteq> n) (m_keys c)) = map (node c) (filter (\<lambda>m. m \<noteq> n) (m_keys c))"
    by (simp add: splice_front_def)
  then show "entries ?c = (k, v) # filter (\<lambda>p. fst p \<noteq> k) (entries c)"
    using entries_drop [OF assms] by (simp add: entries_def splice_front_def)
qed

lemma push_ok:
  fixes v :: 'v
  assumes "lru_inv (c :: ('k, 'v) lru)" and "map_of (m_cache c) k = None"
  defines "c1 \<equiv> c\<lparr>node := (node c)(m_fresh c := (k, v)), m_fresh := Suc (m_fresh c), m_keys := m_fresh c # m_keys c,
      m_cache := (k, m_fresh c) # m_cache c\<rparr>"
  shows "lru_inv c1" "entries c1 = (k, v) # entries c"
proof -
  note inv = lru_invD [OF assms(1)]
  have fr: "m_fresh c \<notin> set (m_keys c)" using inv(4) by blast
  have eq: "node c1 m = node c m" if "m \<in> set (m_keys c)" for m using that fr by (auto simp: c1_def)
  show "entries c1 = (k, v) # entries c" using eq fr by (auto simp: entries_def c1_def)
  have "set (m_cache c1) = (\<lambda>n. (fst (node c1 n), n)) ` set (m_keys c1)"
    using inv(3) eq fr by (auto simp: c1_def)
  moreover have "distinct (map fst (m_cache c1))"
    using inv(2) assms(2) by (auto simp: c1_def map_of_eq_None_iff)
  ultimately show "lru_inv c1" using inv(1,4) fr by (auto simp: lru_inv_def c1_def less_Suc_eq)
qed

lemma prune_ok:
  assumes "lru_inv c"
  shows "\<exists>out c'. prune c = Ret out c' \<and> lru_inv c' \<and> entries c' @ rev out = entries c \<and>
    m_maxSize c' = m_maxSize c \<and> m_elasticity c' = m_elasticity c \<and>
    entries c' = (if m_maxSize c = 0 \<or> length (entries c) < getMaxAllowedSize c then entries c
      else take (m_maxSize c) (entries c))"
  using prune_loop_ok [OF assms, of "[]"] assms length_cache [OF assms]
  by (auto simp: prune_def entries_def)

lemma lru_set_ok:
  assumes "lru_inv c"
  shows "\<exists>out c'. lru_set k v c = Ret out c' \<and> lru_inv c' \<and>
    entries c' @ rev out = (k, v) # filter (\<lambda>p. fst p \<noteq> k) (entries c) \<and>
    m_maxSize c' = m_maxSize c \<and> m_elasticity c' = m_elasticity c \<and>
    length (entries c') =
      (if k \<in> fst ` set (entries c) then length (entries c)
       else if m_maxSize c = 0 \<or> Suc (length (entries c)) < getMaxAllowedSize c then Suc (length (entries c))
       else min (m_maxSize c) (Suc (length (entries c))))"
proof (cases "map_of (m_cache c) k")
  case (Some n)
  have n: "n \<in> set (m_keys c)" "fst (node c n) = k" using Some map_of_cache [OF assms] by auto
  let ?c = "splice_front n ((upd_status (incSet 1) c)\<lparr>node := (node c)(n := (k, v))\<rparr>)"
  have u: "lru_inv (upd_status (incSet 1) c)" using assms by simp
  have s: "lru_inv ?c" "entries ?c = (k, v) # filter (\<lambda>p. fst p \<noteq> k) (entries c)"
    using splice_ok [OF u, of n k v] n by simp_all
  have r: "lru_set k v c = Ret [] ?c" using Some n by (simp add: lru_set_def Let_def)
  have k: "k \<in> fst ` set (entries c)" using Some map_of_cache_None [OF assms, of k] by auto
  have "m_cache ?c = m_cache c" "m_maxSize ?c = m_maxSize c" "m_elasticity ?c = m_elasticity c"
    by (simp_all add: splice_front_def)
  moreover from this(1) have "length (entries ?c) = length (entries c)"
    using length_cache [OF s(1)] length_cache [OF assms] by (simp add: entries_def)
  ultimately show ?thesis
    using r s k by (intro exI [of _ "[]"] exI [of _ ?c]) simp
next
  case None
  let ?u = "upd_status (incSet 1) c"
  let ?c = "?u\<lparr>node := (node ?u)(m_fresh ?u := (k, v)), m_fresh := Suc (m_fresh ?u), m_keys := m_fresh ?u # m_keys ?u,
      m_cache := (k, m_fresh ?u) # m_cache ?u\<rparr>"
  have u: "lru_inv ?u" "map_of (m_cache ?u) k = None" using assms None by simp_all
  note p = push_ok [OF u, of v]
  have nk: "k \<notin> fst ` set (entries c)" using None map_of_cache_None [OF assms] by simp
  then have f: "filter (\<lambda>p. fst p \<noteq> k) (entries c) = entries c" by (auto intro!: filter_True)
  have s: "lru_set k v c = prune ?c" using None by (simp add: lru_set_def Let_def)
  have "getMaxAllowedSize ?c = getMaxAllowedSize c" by (simp add: getMaxAllowedSize_def)
  moreover obtain out c' where o: "prune ?c = Ret out c'" "lru_inv c'" "entries c' @ rev out = entries ?c"
    "m_maxSize c' = m_maxSize ?c" "m_elasticity c' = m_elasticity ?c"
    "entries c' = (if m_maxSize ?c = 0 \<or> length (entries ?c) < getMaxAllowedSize ?c then entries ?c
      else take (m_maxSize ?c) (entries ?c))"
    using prune_ok [OF p(1)] by blast
  ultimately show ?thesis
    unfolding s using p(2) f nk by (intro exI [of _ out] exI [of _ c']) (simp add: min.commute)
qed

lemma lru_lookup_Cons:
  "map_of ((k, v) # filter (\<lambda>p. fst p \<noteq> k) es) j = (if j = k then Some v else map_of es j)"
  by (induction es) auto

lemma map_of_prefix: "distinct (map fst (xs @ ys)) \<Longrightarrow> map_of xs j = map_of (xs @ ys) j \<or> map_of xs j = None"
  by (cases "map_of xs j") (auto simp: map_add_Some_iff)

lemma lru_lookup_eq:
  assumes "lru_inv c"
  shows "lru_lookup c k = map_option (\<lambda>n. snd (node c n)) (map_of (m_cache c) k)"
proof (cases "map_of (m_cache c) k")
  case None
  then have "map_of (entries c) k = None" using map_of_cache_None [OF assms, of k] by (simp add: map_of_eq_None_iff)
  then show ?thesis using None by (simp add: lru_lookup_def)
next
  case (Some n)
  then have "n \<in> set (m_keys c)" "fst (node c n) = k" using map_of_cache [OF assms] by auto
  then have "(k, snd (node c n)) \<in> set (entries c)" by (force simp: entries_def)
  then show ?thesis using Some distinct_entries [OF assms] by (simp add: lru_lookup_def)
qed

lemma lru_get_ok:
  assumes "lru_inv c"
  shows "\<exists>c'. lru_get to_bool k c = ((case lru_lookup c k of None \<Rightarrow> (False, None) | Some v \<Rightarrow> (to_bool v, Some v)), c') \<and>
    lru_inv c' \<and> m_maxSize c' = m_maxSize c \<and> m_elasticity c' = m_elasticity c \<and>
    entries c' = (case lru_lookup c k of None \<Rightarrow> entries c | Some v \<Rightarrow> (k, v) # filter (\<lambda>p. fst p \<noteq> k) (entries c))"
proof (cases "map_of (m_cache c) k")
  case None
  then show ?thesis using assms lru_lookup_eq [OF assms, of k] by (simp add: lru_get_def)
next
  case (Some n)
  have n: "n \<in> set (m_keys c)" "fst (node c n) = k" using Some map_of_cache [OF assms] by auto
  define u where "u = upd_status (incGet 1) c"
  have u: "lru_inv u" "n \<in> set (m_keys u)" "fst (node u n) = k" "entries u = entries c" "node u = node c"
    using assms n by (simp_all add: u_def)
  have same: "u\<lparr>node := (node u)(n := (k, snd (node u n)))\<rparr> = u"
    using u(3) by (metis (no_types, lifting) fun_upd_triv lru.surjective lru.update_convs(3) prod.collapse)
  note s = splice_ok [OF u(1-3), of "snd (node u n)", unfolded same]
  have l: "lru_lookup c k = Some (snd (node c n))" using lru_lookup_eq [OF assms, of k] Some by simp
  have "lru_get to_bool k c = ((to_bool (snd (node c n)), Some (snd (node c n))), upd_status (incHit 1) (splice_front n u))"
    using Some by (simp add: lru_get_def Let_def u_def splice_front_def)
  moreover have "m_maxSize (splice_front n u) = m_maxSize c" "m_elasticity (splice_front n u) = m_elasticity c"
    by (simp_all add: splice_front_def u_def)
  ultimately show ?thesis using s u(4,5) l by simp
qed

lemma lru_del_ok:
  assumes "lru_inv c"
  shows "\<exists>c'. lru_del k c = (lru_lookup c k \<noteq> None, c') \<and> lru_inv c' \<and>
    m_maxSize c' = m_maxSize c \<and> m_elasticity c' = m_elasticity c \<and>
    entries c' = filter (\<lambda>p. fst p \<noteq> k) (entries c)"
proof (cases "map_of (m_cache c) k")
  case None
  then have "k \<notin> fst ` set (entries c)" using map_of_cache_None [OF assms] by simp
  then have "filter (\<lambda>p. fst p \<noteq> k) (entries c) = entries c" by (auto intro!: filter_True)
  then show ?thesis using assms None lru_lookup_eq [OF assms, of k] by (simp add: lru_del_def)
next
  case (Some n)
  have n: "n \<in> set (m_keys c)" "fst (node c n) = k" using Some map_of_cache [OF assms] by auto
  let ?c = "(upd_status (incDel 1) c)\<lparr>m_keys := filter (\<lambda>m. m \<noteq> n) (m_keys c), m_cache := cache_erase k (m_cache c)\<rparr>"
  have "lru_inv ?c" by (rule lru_inv_drop [OF assms n(1)]) (simp_all add: n(2))
  moreover have "entries ?c = filter (\<lambda>p. fst p \<noteq> k) (entries c)"
    using entries_drop [OF assms n] by (simp add: entries_def)
  moreover have "lru_del k c = (True, ?c)" using Some by (simp add: lru_del_def Let_def)
  ultimately show ?thesis using Some lru_lookup_eq [OF assms, of k] by simp
qed

section \<open>The cache contract\<close>

text \<open>\<open>puts\<close> stores a list of pairs in order.\<close>

fun puts :: "('k \<Rightarrow> 'v \<Rightarrow> 'c \<Rightarrow> 'c option) \<Rightarrow> ('k \<times> 'v) list \<Rightarrow> 'c \<Rightarrow> 'c option" where
  "puts put [] c = Some c"
| "puts put ((k, v) # kvs) c = (case put k v c of None \<Rightarrow> None | Some c' \<Rightarrow> puts put kvs c')"

text \<open>
  What clients of a cache rely on: a value just stored is found, and a lookup never returns anything
  but the value stored last (entries may vanish at any store, but never go stale).
\<close>

locale cache =
  fixes inv :: "'c \<Rightarrow> bool"
    and lookup :: "'c \<Rightarrow> 'k \<Rightarrow> 'v option"
    and put :: "'k \<Rightarrow> 'v \<Rightarrow> 'c \<Rightarrow> 'c option"
    and del :: "'k \<Rightarrow> 'c \<Rightarrow> 'c"
  assumes put_ok: "inv c \<Longrightarrow> \<exists>c'. put k v c = Some c' \<and> inv c' \<and> lookup c' k = Some v \<and>
      (\<forall>j. j \<noteq> k \<longrightarrow> lookup c' j = lookup c j \<or> lookup c' j = None)"
    and del_ok: "inv c \<Longrightarrow> inv (del k c) \<and> lookup (del k c) k = None \<and>
      (\<forall>j. j \<noteq> k \<longrightarrow> lookup (del k c) j = lookup c j)"
begin

lemma puts_coherent:
  assumes "inv c"
  shows "\<exists>c'. puts put kvs c = Some c' \<and> inv c' \<and>
    (\<forall>k. lookup c' k = None \<or> lookup c' k = (case map_of (rev kvs) k of None \<Rightarrow> lookup c k | Some v \<Rightarrow> Some v))"
  using assms
proof (induction kvs arbitrary: c)
  case (Cons kv kvs)
  obtain k v where kv: "kv = (k, v)" by force
  obtain c1 where c1: "put k v c = Some c1" "inv c1" "lookup c1 k = Some v"
    "\<forall>j. j \<noteq> k \<longrightarrow> lookup c1 j = lookup c j \<or> lookup c1 j = None"
    using put_ok [OF Cons.prems] by blast
  obtain c' where c': "puts put kvs c1 = Some c'" "inv c'"
    "\<forall>j. lookup c' j = None \<or> lookup c' j = (case map_of (rev kvs) j of None \<Rightarrow> lookup c1 j | Some v \<Rightarrow> Some v)"
    using Cons.IH [OF c1(2)] by blast
  have "lookup c' j = None \<or>
      lookup c' j = (case map_of (rev (kv # kvs)) j of None \<Rightarrow> lookup c j | Some v \<Rightarrow> Some v)" for j
    using c'(3) [rule_format, of j] c1(3) c1(4) [rule_format, of j] kv
    by (cases "map_of (rev kvs) j") (auto simp: map_add_def)
  then show ?case using c1(1) c'(1,2) kv by simp
qed simp

lemma put_del: "inv c \<Longrightarrow> \<exists>c'. put k v c = Some c' \<and> lookup (del k c') k = None"
  using put_ok del_ok by metis

end

definition lru_put :: "'k \<Rightarrow> 'v \<Rightarrow> ('k, 'v) lru \<Rightarrow> ('k, 'v) lru option" where
  "lru_put k v c = (case lru_set k v c of Ret _ c' \<Rightarrow> Some c' | _ \<Rightarrow> None)"

lemma lru_put_ok:
  assumes "lru_inv c"
  shows "\<exists>c'. lru_put k v c = Some c' \<and> lru_inv c' \<and> lru_lookup c' k = Some v \<and>
      (\<forall>j. j \<noteq> k \<longrightarrow> lru_lookup c' j = lru_lookup c j \<or> lru_lookup c' j = None)"
proof -
  let ?es = "(k, v) # filter (\<lambda>p. fst p \<noteq> k) (entries c)"
  obtain out c' where o: "lru_set k v c = Ret out c'" "lru_inv c'" "entries c' @ rev out = ?es" "m_maxSize c' = m_maxSize c"
    "length (entries c') = (if k \<in> fst ` set (entries c) then length (entries c)
       else if m_maxSize c = 0 \<or> Suc (length (entries c)) < getMaxAllowedSize c then Suc (length (entries c))
       else min (m_maxSize c) (Suc (length (entries c))))"
    using lru_set_ok [OF assms] by blast
  have "0 < length (entries c')" using o(5) by (cases "entries c = []") auto
  then have "entries c' \<noteq> []" by simp
  then obtain es where es: "entries c' = (k, v) # es" using o(3) by (cases "entries c'") auto
  have d: "distinct (map fst (entries c' @ rev out))"
    unfolding o(3) using distinct_entries [OF assms] by (auto simp: distinct_map_filter)
  have "map_of (entries c' @ rev out) j = (if j = k then Some v else map_of (entries c) j)" for j
    unfolding o(3) by (rule lru_lookup_Cons)
  then have "lru_lookup c' j = lru_lookup c j \<or> lru_lookup c' j = None" if "j \<noteq> k" for j
    using map_of_prefix [OF d, of j] that by (simp add: lru_lookup_def)
  then show ?thesis using o(1,2) es by (simp add: lru_put_def lru_lookup_def)
qed

interpretation lru_cache: cache lru_inv lru_lookup lru_put "\<lambda>k c. snd (lru_del k c)"
proof
  fix c :: "('k, 'v) lru" and k v
  assume inv: "lru_inv c"
  show "\<exists>c'. lru_put k v c = Some c' \<and> lru_inv c' \<and> lru_lookup c' k = Some v \<and>
      (\<forall>j. j \<noteq> k \<longrightarrow> lru_lookup c' j = lru_lookup c j \<or> lru_lookup c' j = None)"
    by (rule lru_put_ok [OF inv])
  obtain c' where d: "lru_del k c = (lru_lookup c k \<noteq> None, c')" "lru_inv c'"
    "entries c' = filter (\<lambda>p. fst p \<noteq> k) (entries c)"
    using lru_del_ok [OF inv] by blast
  have "map_of (filter (\<lambda>p. fst p \<noteq> k) es) j = (if j = k then None else map_of es j)" for j and es :: "('k \<times> 'v) list"
    by (induction es) auto
  then show "lru_inv (snd (lru_del k c)) \<and> lru_lookup (snd (lru_del k c)) k = None \<and>
      (\<forall>j. j \<noteq> k \<longrightarrow> lru_lookup (snd (lru_del k c)) j = lru_lookup c j)"
    using d by (simp add: lru_lookup_def)
qed

definition hlru_inv :: "('k, 'v) hash_lru \<Rightarrow> bool" where
  "hlru_inv d \<longleftrightarrow> 0 < h_bucket d \<and> length (h_datas d) = h_bucket d \<and> list_all lru_inv (h_datas d)"

definition hlru_lookup :: "('k \<Rightarrow> nat) \<Rightarrow> ('k, 'v) hash_lru \<Rightarrow> 'k \<Rightarrow> 'v option" where
  "hlru_lookup H d k = lru_lookup (get_bucket (bucket_of H k d) d) k"

definition hlru_put :: "('k \<Rightarrow> nat) \<Rightarrow> 'k \<Rightarrow> 'v \<Rightarrow> ('k, 'v) hash_lru \<Rightarrow> ('k, 'v) hash_lru option" where
  "hlru_put H k v d = (case hlru_set H k v d of Ret _ d' \<Rightarrow> Some d' | _ \<Rightarrow> None)"

lemma bucket_status [simp]:
  "lru_inv (c\<lparr>m_status := s\<rparr>) = lru_inv c" "lru_lookup (c\<lparr>m_status := s\<rparr>) = lru_lookup c"
  by (simp_all add: lru_inv_def lru_lookup_def entries_def fun_eq_iff)

lemma hlru_bucket:
  assumes "hlru_inv d"
  shows "bucket_of H k d < length (h_datas d)" "lru_inv (get_bucket (bucket_of H k d) d)"
  using assms by (auto simp: hlru_inv_def bucket_of_def get_bucket_def list_all_length)

lemma hlru_put_bucket:
  assumes "hlru_inv d" and "lru_inv c"
  shows "hlru_inv (put_bucket (bucket_of H k d) c d)"
    "hlru_lookup H (put_bucket (bucket_of H k d) c d) j =
      (if bucket_of H j d = bucket_of H k d then lru_lookup c j else hlru_lookup H d j)"
proof -
  show "hlru_inv (put_bucket (bucket_of H k d) c d)"
    using assms hlru_bucket(1) [OF assms(1), of H k]
    by (auto simp: hlru_inv_def put_bucket_def list_all_length nth_list_update)
  show "hlru_lookup H (put_bucket (bucket_of H k d) c d) j =
      (if bucket_of H j d = bucket_of H k d then lru_lookup c j else hlru_lookup H d j)"
    using hlru_bucket(1) [OF assms(1), of H k]
    by (auto simp: hlru_lookup_def get_bucket_def put_bucket_def bucket_of_def)
qed

interpretation hlru_cache: cache hlru_inv "hlru_lookup H" "hlru_put H" "\<lambda>k d. snd (hlru_del H k d)"
  for H :: "'k \<Rightarrow> nat"
proof
  fix d :: "('k, 'v) hash_lru" and k v
  assume inv: "hlru_inv d"
  let ?i = "bucket_of H k d" and ?c = "get_bucket (bucket_of H k d) d"
  note b = hlru_bucket(2) [OF inv, of H k]
  obtain c' where c': "lru_put k v ?c = Some c'" "lru_inv c'" "lru_lookup c' k = Some v"
    "\<forall>j. j \<noteq> k \<longrightarrow> lru_lookup c' j = lru_lookup ?c j \<or> lru_lookup c' j = None"
    using lru_cache.put_ok [OF b] by blast
  have "0 < h_bucket d" using inv by (simp add: hlru_inv_def)
  then have "hlru_put H k v d = Some (put_bucket ?i c' d)"
    using c'(1) by (auto simp: hlru_put_def hlru_set_def lru_put_def Let_def split: outcome.splits)
  then show "\<exists>d'. hlru_put H k v d = Some d' \<and> hlru_inv d' \<and> hlru_lookup H d' k = Some v \<and>
      (\<forall>j. j \<noteq> k \<longrightarrow> hlru_lookup H d' j = hlru_lookup H d j \<or> hlru_lookup H d' j = None)"
    using hlru_put_bucket [OF inv c'(2)] c'(3,4) by (simp add: hlru_lookup_def)
  have "snd (hlru_del H k d) = put_bucket ?i (snd (lru_del k ?c)) d"
    by (simp add: hlru_del_def Let_def split: prod.splits)
  then show "hlru_inv (snd (hlru_del H k d)) \<and> hlru_lookup H (snd (hlru_del H k d)) k = None \<and>
      (\<forall>j. j \<noteq> k \<longrightarrow> hlru_lookup H (snd (hlru_del H k d)) j = hlru_lookup H d j)"
    using lru_cache.del_ok [OF b, of k] hlru_put_bucket [OF inv, of "snd (lru_del k ?c)"]
    by (simp add: hlru_lookup_def)
qed

lemma lru_inv_new: "lru_inv (new_LruCache nd n e)"
  by (simp add: lru_inv_def new_LruCache_def)

lemma hlru_inv_new: "0 < b \<Longrightarrow> hlru_inv (new_HashLruCache junk nd b n e)"
  by (simp add: hlru_inv_def new_HashLruCache_def Let_def list_all_length lru_inv_new)

section \<open>Properties\<close>



text \<open>\<open>get\<close>: a hit returns the stored value through the parameter and moves the entry to the front, but
  what the method itself returns is that value converted to bool; a miss returns false and changes
  nothing but the statistics.\<close>

theorem lru_get_exact:
  assumes "lru_inv c"
  shows "\<exists>c'. lru_get to_bool k c = ((case lru_lookup c k of None \<Rightarrow> (False, None) | Some v \<Rightarrow> (to_bool v, Some v)), c') \<and>
    lru_inv c' \<and>
    entries c' = (case lru_lookup c k of None \<Rightarrow> entries c | Some v \<Rightarrow> (k, v) # filter (\<lambda>p. fst p \<noteq> k) (entries c))"
  using lru_get_ok [OF assms] by blast

theorem lru_get_exact_witness:
  "\<exists>c'. lru_get (\<lambda>v. v) (7 :: nat) (new_LruCache (\<lambda>_. (0, False)) 2 1) = ((False, None), c')"
  using lru_get_exact [OF lru_inv_new [of "\<lambda>_. (0 :: nat, False)" 2 1], of "\<lambda>v. v" 7]
  by (auto simp: lru_lookup_def entries_def new_LruCache_def)

text \<open>The bucketed cache is coherent: after any sequence of stores, whatever is evicted in whichever bucket, a
  lookup finds nothing or the value stored last for the key, and the store just made is found.\<close>

theorem hash_lru_coherent:
  assumes "hlru_inv d"
  shows "(\<exists>d'. puts (hlru_put H) kvs d = Some d' \<and> hlru_inv d' \<and>
      (\<forall>k. hlru_lookup H d' k = None \<or>
        hlru_lookup H d' k = (case map_of (rev kvs) k of None \<Rightarrow> hlru_lookup H d k | Some v \<Rightarrow> Some v))) \<and>
    (\<exists>d'. hlru_put H k v d = Some d' \<and> hlru_lookup H d' k = Some v)"
  using hlru_cache.puts_coherent [OF assms, of H kvs] hlru_cache.put_ok [OF assms, of H k v] by blast

theorem hash_lru_coherent_witness:
  "\<exists>d'. hlru_put (\<lambda>k. k) (7 :: nat) True (new_HashLruCache 0 (\<lambda>_. (0, False)) 4 8 4) = Some d' \<and>
     hlru_lookup (\<lambda>k. k) d' 7 = Some True"
  using hash_lru_coherent [OF hlru_inv_new [of 4 0 "\<lambda>_. (0 :: nat, False)" 8 4], of "\<lambda>k. k" "[]" 7 True] by simp

end
