(* ===== verification/StreamIO.thy ===== *)
theory StreamIO
  imports ByteArray
begin

text \<open>
  \<^verbatim>\<open>src/cxk/stream.cpp\<close>: reading and writing a fixed number of bytes over the virtual \<^verbatim>\<open>read\<close> and
  \<^verbatim>\<open>write\<close> of a stream, which are parameters: \<open>rd s n\<close> is a call of \<^verbatim>\<open>read\<close> for \<open>n\<close> bytes in stream
  state \<open>s\<close>, with its return value, the bytes it stored and the next state. Lengths are \<^verbatim>\<open>size_t\<close>
  (\<open>u64\<close>), the loop counters \<^verbatim>\<open>int64_t\<close>, the result an \<^verbatim>\<open>int\<close>: the conversions are written out.
  \<open>good_reader\<close> and \<open>good_writer\<close> are what \<^verbatim>\<open>stream.h\<close> documents of the virtual methods (some
  bytes, at least one, or a result that is not positive at the end of the data).
\<close>

definition int_of_size :: "u64 \<Rightarrow> int" where
  "int_of_size n = sint (ucast n :: u32)"

function fix_loop :: "('s \<Rightarrow> 'x \<Rightarrow> nat \<Rightarrow> int \<times> 'x \<times> 's) \<Rightarrow> u64 \<Rightarrow> int \<Rightarrow> 'x \<Rightarrow> 's \<Rightarrow> int \<times> 'x \<times> 's" where
  "fix_loop io n left x s =
     (if left > 0 then
        (case io s x (nat left) of (len, x, s) \<Rightarrow> if len \<le> 0 then (len, x, s) else fix_loop io n (left - len) x s)
      else (int_of_size n, x, s))"
  by pat_completeness auto
termination
  by (relation "measure (\<lambda>(io, n, left, x, s). nat left)") auto

declare fix_loop.simps [simp del]

definition readFixSize :: "('s \<Rightarrow> nat \<Rightarrow> int \<times> u8 list \<times> 's) \<Rightarrow> 's \<Rightarrow> u64 \<Rightarrow> int \<times> u8 list \<times> 's" where
  "readFixSize rd s n =
     fix_loop (\<lambda>s acc m. case rd s m of (len, bs, s) \<Rightarrow> (len, acc @ bs, s)) n (sint n) [] s"

text \<open>The overloads on a \<^verbatim>\<open>ByteArray\<close> call \<^verbatim>\<open>read(ba, left)\<close> and \<^verbatim>\<open>write(ba, left)\<close>.\<close>

definition readFixSize_ba ::
  "('s \<Rightarrow> bytearray \<Rightarrow> nat \<Rightarrow> int \<times> bytearray \<times> 's) \<Rightarrow> bytearray \<Rightarrow> 's \<Rightarrow> u64 \<Rightarrow> int \<times> bytearray \<times> 's" where
  "readFixSize_ba rd ba s n = fix_loop rd n (sint n) ba s"

definition writeFixSize_ba ::
  "('s \<Rightarrow> bytearray \<Rightarrow> nat \<Rightarrow> int \<times> bytearray \<times> 's) \<Rightarrow> bytearray \<Rightarrow> 's \<Rightarrow> u64 \<Rightarrow> int \<times> bytearray \<times> 's" where
  "writeFixSize_ba wr ba s n = fix_loop wr n (sint n) ba s"

text \<open>
  The overload on a raw buffer keeps \<^verbatim>\<open>len\<close> in a \<^verbatim>\<open>size_t\<close>, so only zero ends the loop early: a
  negative result moves \<^verbatim>\<open>offset\<close> back and enlarges \<^verbatim>\<open>left\<close>. Handing \<^verbatim>\<open>write\<close> bytes outside the buffer is
  \<open>Undef OutOfBounds\<close>. The loop need not end; \<open>None\<close> is running out of fuel.
\<close>

primrec write_fix_loop :: "nat \<Rightarrow> ('s \<Rightarrow> u8 list \<Rightarrow> int \<times> 's) \<Rightarrow> u8 list \<Rightarrow> int \<Rightarrow> int \<Rightarrow> 's \<Rightarrow> ('s, int) outcome option" where
  "write_fix_loop 0 wr buf offset left s = None"
| "write_fix_loop (Suc fuel) wr buf offset left s =
     (if left = 0 then Some (Ret (int (length buf)) s)
      else if offset < 0 \<or> left < 0 \<or> offset + left > int (length buf) then Some (Undef OutOfBounds)
      else case wr s (seg (nat offset) (nat left) buf) of
        (len, s) \<Rightarrow> if len = 0 then Some (Ret 0 s) else write_fix_loop fuel wr buf (offset + len) (left - len) s)"

definition writeFixSize :: "nat \<Rightarrow> ('s \<Rightarrow> u8 list \<Rightarrow> int \<times> 's) \<Rightarrow> u8 list \<Rightarrow> 's \<Rightarrow> ('s, int) outcome option" where
  "writeFixSize fuel wr buf s = write_fix_loop fuel wr buf 0 (int (length buf)) s"

section \<open>Contracts\<close>

definition good_reader :: "('s \<Rightarrow> nat \<Rightarrow> int \<times> u8 list \<times> 's) \<Rightarrow> ('s \<Rightarrow> u8 list) \<Rightarrow> bool" where
  "good_reader rd remaining \<longleftrightarrow> (\<forall>s n. 0 < n \<longrightarrow> (case rd s n of (len, bs, s') \<Rightarrow>
     if remaining s = [] then len \<le> 0
     else 0 < len \<and> len \<le> int n \<and> nat len \<le> length (remaining s) \<and> bs = take (nat len) (remaining s) \<and>
       remaining s' = drop (nat len) (remaining s)))"

definition good_writer :: "('s \<Rightarrow> u8 list \<Rightarrow> int \<times> 's) \<Rightarrow> ('s \<Rightarrow> u8 list) \<Rightarrow> bool" where
  "good_writer wr sent \<longleftrightarrow> (\<forall>s bs. bs \<noteq> [] \<longrightarrow> (case wr s bs of (len, s') \<Rightarrow>
     0 < len \<and> len \<le> int (length bs) \<and> sent s' = sent s @ take (nat len) bs))"

lemma int_of_size_small:
  assumes "unat n < 2 ^ 31"
  shows "int_of_size n = int (unat n)" "sint n = int (unat n)"
proof -
  have "int (unat n) < int (2 ^ 31)" using assms by (simp only: of_nat_less_iff)
  then have "0 \<le> uint n" "uint n < 2 ^ 31" by simp_all
  then have u: "- 2147483648 \<le> uint n" "uint n < 2 ^ 31" "- 9223372036854775808 \<le> uint n" by linarith+
  have "uint (ucast n :: u32) = uint n" using u(2) by (simp add: unsigned_ucast_eq take_bit_int_eq_self)
  then show "int_of_size n = int (unat n)"
    unfolding int_of_size_def sint_uint using u by (simp add: signed_take_bit_int_eq_self_iff)
  show "sint n = int (unat n)"
    unfolding sint_uint using u by (simp add: signed_take_bit_int_eq_self_iff)
qed

lemma fix_loop_reads:
  assumes "good_reader rd remaining" and "0 \<le> left" and "nat left \<le> length (remaining s)"
  shows "\<exists>s'. fix_loop (\<lambda>s acc m. case rd s m of (len, bs, s) \<Rightarrow> (len, acc @ bs, s)) n left acc s =
      (int_of_size n, acc @ take (nat left) (remaining s), s') \<and> remaining s' = drop (nat left) (remaining s)"
  using assms(2,3)
proof (induction "nat left" arbitrary: left acc s rule: less_induct)
  case less
  let ?io = "\<lambda>s acc m. case rd s m of (len, bs, s) \<Rightarrow> (len, acc @ bs, s)"
  show ?case
  proof (cases "left = 0")
    case True
    then show ?thesis by (simp add: fix_loop.simps [of ?io])
  next
    case False
    obtain len bs s1 where r: "rd s (nat left) = (len, bs, s1)" by (metis prod_cases3)
    have ne: "remaining s \<noteq> []" and pos: "0 < nat left" using False less.prems by auto
    have g: "0 < len" "len \<le> left" "bs = take (nat len) (remaining s)" "remaining s1 = drop (nat len) (remaining s)"
      using assms(1) [unfolded good_reader_def, rule_format, OF pos, of s] r ne less.prems(1) by auto
    have "\<exists>s'. fix_loop ?io n (left - len) (acc @ bs) s1 =
        (int_of_size n, (acc @ bs) @ take (nat (left - len)) (remaining s1), s') \<and>
        remaining s' = drop (nat (left - len)) (remaining s1)"
      by (rule less.hyps) (use g less.prems in auto)
    moreover have "nat left = nat len + nat (left - len)" using g(1,2) by simp
    then have "bs @ take (nat (left - len)) (remaining s1) = take (nat left) (remaining s)"
      "drop (nat (left - len)) (remaining s1) = drop (nat left) (remaining s)"
      using g(3,4) by (simp_all add: take_add add.commute)
    moreover have "fix_loop ?io n left acc s = fix_loop ?io n (left - len) (acc @ bs) s1"
      using False less.prems(1) r g(1) by (simp add: fix_loop.simps [of ?io n left])
    ultimately show ?thesis by simp
  qed
qed

lemma readFixSize_ok:
  assumes "good_reader rd remaining" and "unat n < 2 ^ 31" and "unat n \<le> length (remaining s)"
  shows "\<exists>s'. readFixSize rd s n = (int (unat n), take (unat n) (remaining s), s') \<and>
    remaining s' = drop (unat n) (remaining s)"
  using fix_loop_reads [OF assms(1), of "int (unat n)" s n "[]"] assms(2,3) int_of_size_small [OF assms(2)]
  by (simp add: readFixSize_def)

lemma write_fix_loop_ok:
  assumes "good_writer wr sent"
  shows "offset + k = length buf \<Longrightarrow> k < fuel \<Longrightarrow>
    \<exists>s'. write_fix_loop fuel wr buf (int offset) (int k) s = Some (Ret (int (length buf)) s') \<and>
      sent s' = sent s @ drop offset buf"
proof (induction fuel arbitrary: offset k s)
  case (Suc fuel)
  show ?case
  proof (cases "k = 0")
    case True
    then show ?thesis using Suc.prems by simp
  next
    case False
    let ?bs = "seg offset k buf"
    have bs: "?bs = drop offset buf" "length ?bs = k" "?bs \<noteq> []" using Suc.prems(1) False by (auto simp: seg_def)
    obtain len s1 where w: "wr s ?bs = (len, s1)" by force
    have g: "0 < len" "len \<le> int k" "sent s1 = sent s @ take (nat len) (drop offset buf)"
      using assms [unfolded good_writer_def, rule_format, OF bs(3), of s] w bs by auto
    have "\<exists>s'. write_fix_loop fuel wr buf (int (offset + nat len)) (int (k - nat len)) s1 =
        Some (Ret (int (length buf)) s') \<and> sent s' = sent s1 @ drop (offset + nat len) buf"
      by (rule Suc.IH) (use Suc.prems g in auto)
    moreover have "int (offset + nat len) = int offset + len" "int (k - nat len) = int k - len" using g by auto
    moreover have "take (nat len) (drop offset buf) @ drop (offset + nat len) buf = drop offset buf"
      by (metis append_take_drop_id drop_drop add.commute)
    ultimately show ?thesis using Suc.prems(1) False w g by simp
  qed
qed simp

section \<open>Properties\<close>

text \<open>\<open>readFixSize\<close> and \<open>writeFixSize\<close> over streams that transfer any positive number of bytes per call:
  the read returns exactly the next \<open>n\<close> bytes (below \<open>2^31\<close>), however they are cut up, and the
  write ends with every byte sent once and in order.\<close>

theorem fix_size_exact:
  assumes "good_reader rd remaining" and "unat n < 2 ^ 31" and "unat n \<le> length (remaining s)"
    and "good_writer wr sent" and "length buf < fuel"
  shows "(\<exists>s'. readFixSize rd s n = (int (unat n), take (unat n) (remaining s), s') \<and>
      remaining s' = drop (unat n) (remaining s)) \<and>
    (\<exists>t'. writeFixSize fuel wr buf t = Some (Ret (int (length buf)) t') \<and> sent t' = sent t @ buf)"
  using readFixSize_ok [OF assms(1-3)] write_fix_loop_ok [OF assms(4), of 0 "length buf" buf fuel t] assms(5)
  by (simp add: writeFixSize_def)

text \<open>A reader and a writer that move at most two bytes per call.\<close>

definition demo_reader :: "u8 list \<Rightarrow> nat \<Rightarrow> int \<times> u8 list \<times> u8 list" where
  "demo_reader s n = (let k = min (min 2 n) (length s) in (int k, take k s, drop k s))"

definition demo_writer :: "u8 list \<Rightarrow> u8 list \<Rightarrow> int \<times> u8 list" where
  "demo_writer s bs = (let k = min 2 (length bs) in (int k, s @ take k bs))"

lemma demo_good: "good_reader demo_reader (\<lambda>s. s)" "good_writer demo_writer (\<lambda>s. s)"
  by (auto simp: good_reader_def demo_reader_def good_writer_def demo_writer_def Let_def min_def)

theorem fix_size_exact_witness:
  "\<exists>s'. readFixSize demo_reader [1, 2, 3, 4, 5] 3 = (3, [1, 2, 3], s')"
  using fix_size_exact [OF demo_good(1) _ _ demo_good(2), of 3 "[1, 2, 3, 4, 5]" "[]" 1] by auto

text \<open>A failing \<^verbatim>\<open>write\<close> is not reported by \<open>writeFixSize(const void*, size_t)\<close>: the result is kept in an
  unsigned variable, so -1 on the first call makes the loop go on with bytes in front of the buffer.\<close>

theorem write_failure_unnoticed:
  assumes "buf \<noteq> []" and "wr s buf = (-1, s')"
  shows "writeFixSize (Suc (Suc fuel)) wr buf s = Some (Undef OutOfBounds)"
proof -
  have "seg 0 (length buf) buf = buf" by (simp add: seg_def)
  then show ?thesis using assms by (simp add: writeFixSize_def)
qed

theorem write_failure_unnoticed_witness:
  "writeFixSize 2 (\<lambda>s _. (-1, s)) [7] () = Some (Undef OutOfBounds)"
  using write_failure_unnoticed [of "[7]" "\<lambda>s _. (-1, s)" "()" "()" 0] by (simp add: numeral_2_eq_2)

end
