(* ===== verification/WsFrame.thy ===== *)
theory WsFrame
  imports StreamIO
begin

text \<open>
  The WebSocket framing of \<^verbatim>\<open>src/cxk/http/ws_session.cpp\<close>. A frame head is the packed bit-field struct of
  the source, two bytes with the first-declared field in the low bits. \<^verbatim>\<open>readFixSize\<close> and
  \<^verbatim>\<open>writeFixSize\<close> are virtual and are the parameters \<open>rf\<close> and \<open>wr\<close>; \<open>good_rf\<close> and \<open>good_wf\<close> are
  what \<^verbatim>\<open>Stream\<close>'s own versions are proved to do (\<open>fix_size_exact\<close>). \<^verbatim>\<open>rand()\<close> is an argument. The
  receive loop goes on over control frames without limit, so it has fuel (\<open>None\<close>: none left);
  \<^verbatim>\<open>cur_len\<close> is the length of the data, which an \<^verbatim>\<open>int\<close> holds while \<open>max_size\<close> is at most
  \<open>2^31\<close> (the configured default is 32 MB).
\<close>

section \<open>Frame heads\<close>

record ws_head =
  h_opcode :: nat
  h_rsv3 :: bool
  h_rsv2 :: bool
  h_rsv1 :: bool
  h_fin :: bool
  h_payload :: nat
  h_mask :: bool

definition CONTINUE :: nat where "CONTINUE = 0"
definition TEXT_FRAME :: nat where "TEXT_FRAME = 1"
definition BIN_FRAME :: nat where "BIN_FRAME = 2"
definition PING :: nat where "PING = 0x9"
definition PONG :: nat where "PONG = 0xA"

lemmas opcode_defs = CONTINUE_def TEXT_FRAME_def BIN_FRAME_def PING_def PONG_def

definition head_bytes :: "ws_head \<Rightarrow> u8 list" where
  "head_bytes h =
     [of_nat (h_opcode h mod 16 + 16 * of_bool (h_rsv3 h) + 32 * of_bool (h_rsv2 h) + 64 * of_bool (h_rsv1 h)
        + 128 * of_bool (h_fin h)),
      of_nat (h_payload h mod 128 + 128 * of_bool (h_mask h))]"

definition parse_head :: "u8 list \<Rightarrow> ws_head" where
  "parse_head bs =
     (let a = unat (bs ! 0); b = unat (bs ! 1)
      in \<lparr>h_opcode = a mod 16, h_rsv3 = (a div 16 mod 2 = 1), h_rsv2 = (a div 32 mod 2 = 1),
          h_rsv1 = (a div 64 mod 2 = 1), h_fin = (a div 128 = 1), h_payload = b mod 128, h_mask = (b div 128 = 1)\<rparr>)"

record ws_message =
  m_opcode :: nat
  m_data :: "u8 list"

definition xor_mask :: "u8 list \<Rightarrow> u8 list \<Rightarrow> u8 list" where
  "xor_mask mk data = map (\<lambda>i. (data ! i) XOR (mk ! (i mod 4))) [0..<length data]"

section \<open>Sending\<close>

type_synonym 's wfix = "'s \<Rightarrow> u8 list \<Rightarrow> int \<times> 's"
type_synonym 's rfix = "'s \<Rightarrow> u64 \<Rightarrow> int \<times> u8 list \<times> 's"

definition ext_length :: "nat \<Rightarrow> u64 \<Rightarrow> u8 list" where
  "ext_length payload sz =
     (if payload = 126 then word_bytes (byteswapOnLittleEndian (ucast sz :: u16))
      else if payload = 127 then word_bytes (byteswapOnLittleEndian sz) else [])"

text \<open>
  The tail of \<open>WSSendMessage\<close>: the payload, after the masking key and the masking of the message in
  place for a client. The result is the return value (an \<^verbatim>\<open>int32_t\<close>), the message and the stream.
\<close>

definition send_data :: "('s \<Rightarrow> 's) \<Rightarrow> 's wfix \<Rightarrow> ws_message \<Rightarrow> 's \<Rightarrow> int \<times> ws_message \<times> 's" where
  "send_data cl wr msg s =
     (case wr s (m_data msg) of (r, s) \<Rightarrow>
        if r \<le> 0 then (-1, msg, cl s) else (sint (of_nat (length (m_data msg) + 2) :: u32), msg, s))"

definition send_masked :: "('s \<Rightarrow> 's) \<Rightarrow> 's wfix \<Rightarrow> u32 \<Rightarrow> ws_message \<Rightarrow> 's \<Rightarrow> int \<times> ws_message \<times> 's" where
  "send_masked cl wr rand msg s =
     (let mk = word_bytes rand; msg = msg\<lparr>m_data := xor_mask mk (m_data msg)\<rparr>
      in case wr s mk of (r, s) \<Rightarrow> if r \<le> 0 then (-1, msg, cl s) else send_data cl wr msg s)"

definition message_head :: "nat \<Rightarrow> nat \<Rightarrow> bool \<Rightarrow> bool \<Rightarrow> ws_head" where
  "message_head opcode sz client fin =
     \<lparr>h_opcode = opcode mod 16, h_rsv3 = False, h_rsv2 = False, h_rsv1 = False, h_fin = fin,
      h_payload = (if sz < 126 then sz else if sz < 65536 then 126 else 127), h_mask = client\<rparr>"

definition WSSendMessage ::
  "('s \<Rightarrow> 's) \<Rightarrow> 's wfix \<Rightarrow> u32 \<Rightarrow> ws_message \<Rightarrow> bool \<Rightarrow> bool \<Rightarrow> 's \<Rightarrow> int \<times> ws_message \<times> 's" where
  "WSSendMessage cl wr rand msg client fin s =
     (let ws_head = message_head (m_opcode msg) (length (m_data msg)) client fin;
          ext = ext_length (h_payload ws_head) (of_nat (length (m_data msg)))
      in case wr s (head_bytes ws_head) of (r, s) \<Rightarrow>
           if r \<le> 0 then (-1, msg, cl s)
           else case (if ext = [] then (1, s) else wr s ext) of (r, s) \<Rightarrow>
             if r \<le> 0 then (-1, msg, cl s)
             else if client then send_masked cl wr rand msg s else send_data cl wr msg s)"

definition control_frame :: "nat \<Rightarrow> u8 list" where
  "control_frame opcode = head_bytes \<lparr>h_opcode = opcode, h_rsv3 = False, h_rsv2 = False, h_rsv1 = False,
     h_fin = True, h_payload = 0, h_mask = False\<rparr>"

definition WSPing :: "('s \<Rightarrow> 's) \<Rightarrow> 's wfix \<Rightarrow> 's \<Rightarrow> int \<times> 's" where
  "WSPing cl wr s = (case wr s (control_frame PING) of (v, s) \<Rightarrow> (v, if v \<le> 0 then cl s else s))"

definition WSPong :: "('s \<Rightarrow> 's) \<Rightarrow> 's wfix \<Rightarrow> 's \<Rightarrow> int \<times> 's" where
  "WSPong cl wr s = (case wr s (control_frame PONG) of (v, s) \<Rightarrow> (v, if v \<le> 0 then cl s else s))"

section \<open>Receiving\<close>

text \<open>The payload length: \<open>None\<close> where the extended length cannot be read.\<close>

definition read_length :: "'s rfix \<Rightarrow> ws_head \<Rightarrow> 's \<Rightarrow> u64 option \<times> 's" where
  "read_length rf h s =
     (if h_payload h = 126 then
        (case rf s 2 of (r, bs, s) \<Rightarrow>
           if r \<le> 0 then (None, s) else (Some (ucast (byteswapOnLittleEndian (bytes_word bs :: u16))), s))
      else if h_payload h = 127 then
        (case rf s 8 of (r, bs, s) \<Rightarrow>
           if r \<le> 0 then (None, s) else (Some (byteswapOnLittleEndian (bytes_word bs)), s))
      else (Some (of_nat (h_payload h)), s))"

definition read_mask :: "'s rfix \<Rightarrow> ws_head \<Rightarrow> 's \<Rightarrow> u8 list option \<times> 's" where
  "read_mask rf h s =
     (if h_mask h then (case rf s 4 of (r, bs, s) \<Rightarrow> if r \<le> 0 then (None, s) else (Some bs, s))
      else (Some [0, 0, 0, 0], s))"

text \<open>\<open>place\<close>: \<^verbatim>\<open>data.resize(n)\<close>, then the bytes read go to its old end.\<close>

definition place :: "u8 list \<Rightarrow> nat \<Rightarrow> u8 list \<Rightarrow> u8 list" where
  "place data n bs = overwrite (length data) bs (take n (data @ replicate (n - length data) 0))"

text \<open>The body of a data frame: \<open>None\<close> ends the loop, otherwise the message data so far.\<close>

definition data_frame :: "'s rfix \<Rightarrow> u32 \<Rightarrow> bool \<Rightarrow> ws_head \<Rightarrow> u8 list \<Rightarrow> 's \<Rightarrow> u8 list option \<times> 's" where
  "data_frame rf max_size client h data s =
     (if \<not> client \<and> \<not> h_mask h then (None, s)
      else case read_length rf h s of (None, s) \<Rightarrow> (None, s)
      | (Some len, s) \<Rightarrow>
          let total = of_nat (length data) + len in
          if total \<ge> ucast max_size then (None, s)
          else case read_mask rf h s of (None, s) \<Rightarrow> (None, s)
          | (Some mk, s) \<Rightarrow>
              (case rf s len of (r, bs, s) \<Rightarrow>
                 if r \<le> 0 then (None, s)
                 else (Some (place data (unat total) (if h_mask h then xor_mask mk bs else bs)), s)))"

primrec WSRecvMessage ::
  "nat \<Rightarrow> ('s \<Rightarrow> 's) \<Rightarrow> 's rfix \<Rightarrow> 's wfix \<Rightarrow> u32 \<Rightarrow> bool \<Rightarrow> nat \<Rightarrow> u8 list \<Rightarrow> 's \<Rightarrow> (ws_message option \<times> 's) option"
where
  "WSRecvMessage 0 cl rf wr max_size client opcode data s = None"
| "WSRecvMessage (Suc fuel) cl rf wr max_size client opcode data s =
     (case rf s 2 of (r, hb, s) \<Rightarrow>
        if r \<le> 0 then Some (None, cl s)
        else let h = parse_head hb in
          if h_opcode h = PING then
            (case WSPong cl wr s of (r, s) \<Rightarrow>
               if r \<le> 0 then Some (None, cl s) else WSRecvMessage fuel cl rf wr max_size client opcode data s)
          else if h_opcode h = PONG then WSRecvMessage fuel cl rf wr max_size client opcode data s
          else if h_opcode h = CONTINUE \<or> h_opcode h = TEXT_FRAME \<or> h_opcode h = BIN_FRAME then
            (case data_frame rf max_size client h data s of
               (None, s) \<Rightarrow> Some (None, cl s)
             | (Some data, s) \<Rightarrow>
                 let opcode = (if opcode = 0 \<and> h_opcode h \<noteq> CONTINUE then h_opcode h else opcode)
                 in if h_fin h then Some (Some \<lparr>m_opcode = opcode, m_data = data\<rparr>, s)
                    else WSRecvMessage fuel cl rf wr max_size client opcode data s)
          else WSRecvMessage fuel cl rf wr max_size client opcode data s)"

section \<open>Contracts and codecs\<close>

definition good_rf :: "'s rfix \<Rightarrow> ('s \<Rightarrow> u8 list) \<Rightarrow> bool" where
  "good_rf rf remaining \<longleftrightarrow> (\<forall>s n. unat n < 2 ^ 31 \<longrightarrow> unat n \<le> length (remaining s) \<longrightarrow>
     (\<exists>s'. rf s n = (int (unat n), take (unat n) (remaining s), s') \<and> remaining s' = drop (unat n) (remaining s)))"

definition good_wf :: "'s wfix \<Rightarrow> ('s \<Rightarrow> u8 list) \<Rightarrow> bool" where
  "good_wf wr sent \<longleftrightarrow> (\<forall>s bs. \<exists>s'. wr s bs = (int (length bs), s') \<and> sent s' = sent s @ bs)"

lemma good_rf_stream: "good_reader rd remaining \<Longrightarrow> good_rf (readFixSize rd) remaining"
  using readFixSize_ok by (auto simp: good_rf_def)

lemma unat_byte: "n < 256 \<Longrightarrow> unat (of_nat n :: u8) = n"
  by (simp add: unat_of_nat take_bit_nat_eq_self)

lemma digit_sum:
  fixes a p :: nat and r3 r2 r1 f m :: bool
  assumes "a < 16" and "p < 128"
  defines "x \<equiv> a + 16 * of_bool r3 + 32 * of_bool r2 + 64 * of_bool r1 + 128 * of_bool f"
    and "y \<equiv> p + 128 * of_bool m"
  shows "x < 256" "x mod 16 = a" "x div 16 mod 2 = of_bool r3" "x div 32 mod 2 = of_bool r2"
    "x div 64 mod 2 = of_bool r1" "x div 128 = of_bool f" "y < 256" "y mod 128 = p" "y div 128 = of_bool m"
proof -
  define k :: nat where "k = of_bool r3 + 2 * of_bool r2 + 4 * of_bool r1 + 8 * of_bool f"
  have x: "x = 16 * k + a" by (simp add: x_def k_def)
  have k: "k < 16" "k mod 2 = of_bool r3" "k div 2 mod 2 = of_bool r2" "k div 4 mod 2 = of_bool r1"
    "k div 8 = of_bool f" unfolding k_def by (cases r3; cases r2; cases r1; cases f; simp)+
  have d: "x div 16 = k" "x mod 16 = a" using assms(1) by (simp_all add: x)
  have "x div 32 = x div 16 div 2" "x div 64 = x div 16 div 4" "x div 128 = x div 16 div 8"
    by (simp_all flip: div_mult2_eq)
  then show "x mod 16 = a" "x div 16 mod 2 = of_bool r3" "x div 32 mod 2 = of_bool r2"
    "x div 64 mod 2 = of_bool r1" "x div 128 = of_bool f"
    by (simp_all only: k d)
  show "x < 256" using k(1) x assms(1) by linarith
  show "y < 256" "y mod 128 = p" "y div 128 = of_bool m" using assms(2) by (auto simp: y_def of_bool_def)
qed

lemma parse_head_bytes:
  assumes "h_opcode h < 16" and "h_payload h < 128"
  shows "parse_head (head_bytes h) = h"
proof -
  obtain a r3 r2 r1 f p m where h: "h = \<lparr>h_opcode = a, h_rsv3 = r3, h_rsv2 = r2, h_rsv1 = r1, h_fin = f,
      h_payload = p, h_mask = m\<rparr>" by (cases h) auto
  have a: "a < 16" "p < 128" using assms h by auto
  note d = digit_sum [OF a]
  have m: "a mod 16 = a" "p mod 128 = p" using a by auto
  show ?thesis
    unfolding h head_bytes_def parse_head_def Let_def ws_head.simps nth_Cons_0 One_nat_def nth_Cons_Suc m
      unat_byte [OF d(1)] unat_byte [OF d(7)] d
    by (simp add: of_bool_def)
qed

lemma xor_mask_length [simp]: "length (xor_mask mk data) = length data"
  by (simp add: xor_mask_def)

lemma xor_mask_involution [simp]: "xor_mask mk (xor_mask mk data) = data"
  by (rule nth_equalityI) (simp_all add: xor_mask_def xor.assoc)

lemma place_append: "length bs = k \<Longrightarrow> place data (length data + k) bs = data @ bs"
  by (simp add: place_def overwrite_def)

text \<open>The bytes of a frame on the wire.\<close>

definition frame :: "u32 \<Rightarrow> nat \<Rightarrow> bool \<Rightarrow> bool \<Rightarrow> u8 list \<Rightarrow> u8 list" where
  "frame rand opcode masked fin data =
     (let h = message_head opcode (length data) masked fin
      in head_bytes h @ ext_length (h_payload h) (of_nat (length data))
         @ (if masked then word_bytes rand @ xor_mask (word_bytes rand) data else data))"

lemma good_rfD:
  assumes "good_rf rf remaining" and "remaining s = bs @ rest" and "length bs = unat n" and "unat n < 2 ^ 31"
  obtains s' where "rf s n = (int (unat n), bs, s')" and "remaining s' = rest"
  using assms(1) [unfolded good_rf_def, rule_format, of n s] assms(2-4) by auto

lemma good_wfD:
  assumes "good_wf wr sent"
  obtains s' where "wr s bs = (int (length bs), s')" and "sent s' = sent s @ bs"
  using assms unfolding good_wf_def by blast

lemma word_swap_bytes:
  "byteswapOnLittleEndian (bytes_word (word_bytes (byteswapOnLittleEndian w))) = w"
  if "8 dvd LENGTH('a)" for w :: "'a::len word"
  using that by (simp add: byteswapOnLittleEndian_def bytes_word_word_bytes byteswap_byteswap)

lemma read_length_frame:
  assumes "good_rf rf remaining" and "h = message_head opcode sz masked fin" and "sz < 2 ^ 31"
    and "remaining s = ext_length (h_payload h) (of_nat sz) @ rest"
  obtains s' where "read_length rf h s = (Some (of_nat sz), s')" and "remaining s' = rest"
proof -
  consider "sz < 126" | "126 \<le> sz" "sz < 65536" | "65536 \<le> sz" by linarith
  then show ?thesis
  proof cases
    case 1
    then show ?thesis using assms that by (simp add: read_length_def message_head_def ext_length_def)
  next
    case 2
    then have p: "h_payload h = 126" by (simp add: assms message_head_def)
    let ?w = "of_nat sz :: u64"
    let ?e = "word_bytes (byteswapOnLittleEndian (ucast ?w :: u16))"
    have "remaining s = ?e @ rest" using assms(4) p by (simp add: ext_length_def)
    then obtain s' where s': "rf s 2 = (2, ?e, s')" "remaining s' = rest"
      using good_rfD [OF assms(1), of s ?e rest 2] by auto
    have "ucast (ucast ?w :: u16) = ?w" using 2(2)
      by (intro word_unat_eq_iff [THEN iffD2]) (simp add: unsigned_ucast_eq unsigned_take_bit_eq unat_of_nat take_bit_nat_eq_self)
    then show ?thesis using s' p that by (simp add: read_length_def word_swap_bytes)
  next
    case 3
    then have p: "h_payload h = 127" by (simp add: assms message_head_def)
    let ?e = "word_bytes (byteswapOnLittleEndian (of_nat sz :: u64))"
    have "remaining s = ?e @ rest" using assms(4) p by (simp add: ext_length_def)
    then obtain s' where s': "rf s 8 = (8, ?e, s')" "remaining s' = rest"
      using good_rfD [OF assms(1), of s ?e rest 8] by auto
    then show ?thesis using p that by (simp add: read_length_def word_swap_bytes)
  qed
qed

lemma data_frame_frame:
  fixes rand :: u32
  assumes rf: "good_rf rf remaining" and h: "h = message_head opcode (length d) masked fin"
    and m: "client \<or> masked" and small: "unat max_size \<le> 2 ^ 31" "length acc + length d < unat max_size"
    and ne: "d \<noteq> []"
    and s: "remaining s = ext_length (h_payload h) (of_nat (length d))
      @ (if masked then word_bytes rand @ xor_mask (word_bytes rand) d else d) @ rest"
  obtains s' where "data_frame rf max_size client h acc s = (Some (acc @ d), s')" and "remaining s' = rest"
proof -
  let ?len = "of_nat (length d) :: u64" and ?total = "of_nat (length acc) + of_nat (length d) :: u64"
  let ?wire = "if masked then xor_mask (word_bytes rand) d else d"
  have len: "unat ?len = length d" "unat ?total = length acc + length d"
    using small by (simp_all add: unat_of_nat take_bit_nat_eq_self flip: of_nat_add)
  have "unat (ucast max_size :: u64) = unat max_size"
    using small(1) by (simp add: unsigned_ucast_eq take_bit_nat_eq_self)
  then have total: "\<not> ucast max_size \<le> ?total" using small(2) by (simp add: word_le_nat_alt len)
  have hm: "h_mask h = masked" by (simp add: h message_head_def)
  obtain s1 where s1: "read_length rf h s = (Some ?len, s1)"
    "remaining s1 = (if masked then word_bytes rand else []) @ ?wire @ rest"
    by (rule read_length_frame [OF rf h, of s "(if masked then word_bytes rand else []) @ ?wire @ rest"])
      (use small s in \<open>auto simp: h split: if_splits\<close>)
  have mk: "\<exists>s2 mk. read_mask rf h s1 = (Some mk, s2) \<and> remaining s2 = ?wire @ rest \<and> (masked \<longrightarrow> mk = word_bytes rand)"
  proof (cases masked)
    case True
    obtain s2 where "rf s1 4 = (4, word_bytes rand, s2)" "remaining s2 = ?wire @ rest"
      using good_rfD [OF rf, of s1 "word_bytes rand" "?wire @ rest" 4] s1(2) True by auto
    then show ?thesis using True by (simp add: read_mask_def hm)
  qed (use s1(2) hm in \<open>simp add: read_mask_def\<close>)
  then obtain s2 mk where s2: "read_mask rf h s1 = (Some mk, s2)" "remaining s2 = ?wire @ rest"
    "masked \<longrightarrow> mk = word_bytes rand" by blast
  have wl: "length ?wire = length d" by simp
  obtain s3 where s3: "rf s2 ?len = (int (length d), ?wire, s3)" "remaining s3 = rest"
    using good_rfD [OF rf s2(2), of ?len] len(1) wl small by auto
  have "data_frame rf max_size client h acc s = (Some (acc @ d), s3)"
    using m s1(1) s2(1,3) s3(1) total ne hm len(2) by (auto simp: data_frame_def place_append)
  then show ?thesis using s3(2) that by blast
qed

lemma head_of_message [simp]:
  "h_opcode (message_head opcode sz masked fin) = opcode mod 16" "h_fin (message_head opcode sz masked fin) = fin"
  "parse_head (head_bytes (message_head opcode sz masked fin)) = message_head opcode sz masked fin"
  by (simp_all add: message_head_def parse_head_bytes)

lemma length_head_bytes [simp]: "length (head_bytes h) = 2"
  by (simp add: head_bytes_def)

text \<open>One data frame: the loop ends with the message, or goes on with the payload appended.\<close>

lemma recv_frame:
  assumes rf: "good_rf rf remaining" and m: "client \<or> masked" and op: "op \<le> 2"
    and small: "unat max_size \<le> 2 ^ 31" "length acc + length d < unat max_size" and ne: "d \<noteq> []"
    and s: "remaining s = frame rand op masked fin d @ rest"
  obtains s' where "remaining s' = rest"
    "WSRecvMessage (Suc fuel) cl rf wr max_size client opcode acc s =
       (let opcode = (if opcode = 0 then op else opcode)
        in if fin then Some (Some \<lparr>m_opcode = opcode, m_data = acc @ d\<rparr>, s')
           else WSRecvMessage fuel cl rf wr max_size client opcode (acc @ d) s')"
proof -
  let ?h = "message_head op (length d) masked fin"
  let ?body = "ext_length (h_payload ?h) (of_nat (length d))
      @ (if masked then word_bytes rand @ xor_mask (word_bytes rand) d else d) @ rest"
  obtain s1 where s1: "rf s 2 = (2, head_bytes ?h, s1)" "remaining s1 = ?body"
    using good_rfD [OF rf, of s "head_bytes ?h" ?body 2] s by (auto simp: frame_def Let_def)
  obtain s2 where s2: "data_frame rf max_size client ?h acc s1 = (Some (acc @ d), s2)" "remaining s2 = rest"
    by (rule data_frame_frame [OF rf refl m small ne s1(2)])
  have o: "op mod 16 = op" "op = 0 \<or> op = 1 \<or> op = 2" using op by auto
  show ?thesis
    by (rule that [OF s2(2)]) (use s1(1) s2(1) o in \<open>auto simp: opcode_defs Let_def\<close>)
qed

text \<open>A message sent in pieces: the first frame carries the opcode, the others are continuations.\<close>

fun fragments :: "u32 \<Rightarrow> bool \<Rightarrow> nat \<Rightarrow> u8 list list \<Rightarrow> u8 list" where
  "fragments rand masked op [] = []"
| "fragments rand masked op [d] = frame rand op masked True d"
| "fragments rand masked op (d # e # ds) = frame rand op masked False d @ fragments rand masked CONTINUE (e # ds)"

lemma recv_fragments:
  assumes rf: "good_rf rf remaining" and m: "client \<or> masked" and size: "unat max_size \<le> 2 ^ 31"
  shows "ds \<noteq> [] \<Longrightarrow> [] \<notin> set ds \<Longrightarrow> length ds \<le> fuel \<Longrightarrow> op \<le> 2 \<Longrightarrow>
    length acc + length (concat ds) < unat max_size \<Longrightarrow> remaining s = fragments rand masked op ds @ rest \<Longrightarrow>
    \<exists>s'. WSRecvMessage fuel cl rf wr max_size client opcode acc s =
       Some (Some \<lparr>m_opcode = (if opcode = 0 then op else opcode), m_data = acc @ concat ds\<rparr>, s') \<and>
       remaining s' = rest"
proof (induction ds arbitrary: op fuel acc s opcode rule: induct_list012)
  case (2 d)
  obtain k where k: "fuel = Suc k" using "2.prems" by (cases fuel) auto
  obtain s' where "remaining s' = rest"
    "WSRecvMessage (Suc k) cl rf wr max_size client opcode acc s =
       Some (Some \<lparr>m_opcode = (if opcode = 0 then op else opcode), m_data = acc @ d\<rparr>, s')"
    by (rule recv_frame [OF rf m _ size, where fuel = k and d = d and acc = acc and s = s and op = op
        and fin = True and rand = rand and rest = rest and cl = cl and wr = wr and opcode = opcode])
      (use "2.prems" in \<open>simp_all add: Let_def del: WSRecvMessage.simps\<close>)
  then show ?case using k by (auto simp del: WSRecvMessage.simps)
next
  case (3 d e ds)
  obtain k where k: "fuel = Suc k" using "3.prems" by (cases fuel) auto
  let ?op = "if opcode = 0 then op else opcode" and ?rest = "fragments rand masked CONTINUE (e # ds) @ rest"
  obtain s1 where s1: "remaining s1 = ?rest"
    "WSRecvMessage (Suc k) cl rf wr max_size client opcode acc s =
       WSRecvMessage k cl rf wr max_size client ?op (acc @ d) s1"
    by (rule recv_frame [OF rf m _ size, where fuel = k and d = d and acc = acc and s = s and op = op
        and fin = False and rand = rand and rest = ?rest and cl = cl and wr = wr and opcode = opcode])
      (use "3.prems" in \<open>auto simp: Let_def simp del: WSRecvMessage.simps\<close>)
  have "\<exists>s'. WSRecvMessage k cl rf wr max_size client ?op (acc @ d) s1 =
      Some (Some \<lparr>m_opcode = (if ?op = 0 then CONTINUE else ?op), m_data = (acc @ d) @ concat (e # ds)\<rparr>, s') \<and>
      remaining s' = rest"
    by (rule "3.IH"(2)) (use "3.prems" k s1(1) in \<open>auto simp: CONTINUE_def\<close>)
  moreover have "(if ?op = 0 then CONTINUE else ?op) = ?op" by (simp add: CONTINUE_def)
  ultimately show ?case using s1(2) k by (simp del: WSRecvMessage.simps)
qed simp

lemma sint_of_nat_u32: "n < 2 ^ 31 \<Longrightarrow> sint (of_nat n :: u32) = int n"
  by (simp add: sint_uint unsigned_of_nat take_bit_nat_eq_self signed_take_bit_int_eq_self)

lemma opt_write:
  assumes "good_wf wr sent"
  shows "\<exists>r s'. (if e = [] then (1, s) else wr s e) = (r, s') \<and> 0 < r \<and> sent s' = sent s @ e"
  by (rule good_wfD [OF assms, of s e]) (cases "e = []"; simp)

lemma send_writes:
  assumes wf: "good_wf wr sent" and ne: "m_data msg \<noteq> []" and small: "length (m_data msg) < 2 ^ 31 - 2"
  obtains s' where "sent s' = sent s @ frame rand (m_opcode msg) client fin (m_data msg)"
    "WSSendMessage cl wr rand msg client fin s =
       (int (length (m_data msg)) + 2,
        if client then msg\<lparr>m_data := xor_mask (word_bytes rand) (m_data msg)\<rparr> else msg, s')"
proof -
  let ?d = "m_data msg"
  let ?h = "message_head (m_opcode msg) (length ?d) client fin"
  let ?e = "ext_length (h_payload ?h) (of_nat (length ?d))"
  let ?msg = "if client then msg\<lparr>m_data := xor_mask (word_bytes rand) ?d\<rparr> else msg"
  obtain s1 where s1: "wr s (head_bytes ?h) = (2, s1)" "sent s1 = sent s @ head_bytes ?h"
    using good_wfD [OF wf, of s "head_bytes ?h"] by auto
  obtain r s2 where s2: "(if ?e = [] then (1, s1) else wr s1 ?e) = (r, s2)" "0 < r" "sent s2 = sent s1 @ ?e"
    using opt_write [OF wf] by blast
  obtain s3 where s3: "(if client then wr s2 (word_bytes rand) else (4, s2)) = (4, s3)"
    "sent s3 = sent s2 @ (if client then word_bytes rand else [])"
    by (rule good_wfD [OF wf, of s2 "word_bytes rand"]) (cases client; simp)
  obtain s4 where s4: "wr s3 (m_data ?msg) = (int (length ?d), s4)" "sent s4 = sent s3 @ m_data ?msg"
    by (rule good_wfD [OF wf, of s3 "m_data ?msg"]) (cases client; simp)
  have "WSSendMessage cl wr rand msg client fin s =
      (case (if client then wr s2 (word_bytes rand) else (4, s2)) of (r, s) \<Rightarrow>
         if r \<le> 0 then (-1, ?msg, cl s) else send_data cl wr ?msg s)"
    using s1(1) s2(1,2) by (simp add: WSSendMessage_def Let_def send_masked_def)
  also have "\<dots> = (int (length ?d) + 2, ?msg, s4)"
    using s3(1) s4(1) ne small sint_of_nat_u32 [of "length ?d + 2"] by (simp add: send_data_def)
  finally show ?thesis
    by (intro that [of s4]) (use s1(2) s2(3) s3(2) s4(2) in \<open>simp_all add: frame_def Let_def\<close>)
qed

lemma xor_mask_Nil [simp]: "xor_mask mk [] = []"
  by (simp add: xor_mask_def)

lemma empty_frame:
  "frame rand op masked fin [] = head_bytes (message_head op 0 masked fin) @ (if masked then word_bytes rand else [])"
  by (simp add: frame_def ext_length_def message_head_def Let_def)

lemma empty_send:
  assumes wf: "good_wf wr sent" and e: "m_data msg = []"
  shows "\<exists>s' msg'. WSSendMessage cl wr rand msg client True s = (-1, msg', cl s') \<and>
    sent s' = sent s @ frame rand (m_opcode msg) client True []"
proof -
  let ?h = "message_head (m_opcode msg) 0 client True"
  obtain s1 where s1: "wr s (head_bytes ?h) = (2, s1)" "sent s1 = sent s @ head_bytes ?h"
    using good_wfD [OF wf, of s "head_bytes ?h"] by auto
  obtain s2 where s2: "(if client then wr s1 (word_bytes rand) else (4, s1)) = (4, s2)"
    "sent s2 = sent s1 @ (if client then word_bytes rand else [])"
    by (rule good_wfD [OF wf, of s1 "word_bytes rand"]) (cases client; simp)
  obtain s3 where s3: "wr s2 [] = (0, s3)" "sent s3 = sent s2" using good_wfD [OF wf, of s2 "[]"] by auto
  have "ext_length (h_payload ?h) 0 = []" by (simp add: ext_length_def message_head_def)
  then have "\<exists>msg'. WSSendMessage cl wr rand msg client True s = (-1, msg', cl s3)" using s1(1) s2(1) s3(1) e
    by (cases client) (simp_all add: WSSendMessage_def send_masked_def send_data_def Let_def)
  then show ?thesis using s1(2) s2(2) s3(2) by (auto simp: empty_frame)
qed

lemma empty_recv:
  fixes rand :: u32
  assumes rf: "good_rf rf remaining" and op: "op \<le> 2" and max: "0 < max_size" and m: "client \<or> masked"
    and t: "remaining t = frame rand op masked True [] @ rest"
  shows "\<exists>t'. WSRecvMessage (Suc fuel) cl rf wr max_size client 0 [] t = Some (None, cl t') \<and> remaining t' = rest"
proof -
  let ?h = "message_head op 0 masked True" and ?mk = "if masked then word_bytes rand else []"
  obtain s1 where s1: "rf t 2 = (2, head_bytes ?h, s1)" "remaining s1 = ?mk @ rest"
    using good_rfD [OF rf, of t "head_bytes ?h" "?mk @ rest" 2] t by (auto simp: empty_frame)
  have "\<exists>mk s2. read_mask rf ?h s1 = (Some mk, s2) \<and> remaining s2 = rest"
  proof (cases masked)
    case True
    then obtain s2 where "rf s1 4 = (4, word_bytes rand, s2)" "remaining s2 = rest"
      using good_rfD [OF rf, of s1 "word_bytes rand" rest 4] s1(2) by auto
    then show ?thesis using True by (simp add: read_mask_def message_head_def)
  qed (use s1(2) in \<open>simp add: read_mask_def message_head_def\<close>)
  then obtain mk s2 where s2: "read_mask rf ?h s1 = (Some mk, s2)" "remaining s2 = rest" by blast
  obtain s3 where s3: "rf s2 0 = (0, [], s3)" "remaining s3 = rest"
    using good_rfD [OF rf, of s2 "[]" rest 0] s2(2) by auto
  have "read_length rf ?h s1 = (Some 0, s1)" "h_mask ?h = masked" by (simp_all add: read_length_def message_head_def)
  moreover have "(ucast max_size :: u64) \<noteq> 0"
  proof -
    have "unat max_size < 2 ^ 32" "0 < unat max_size" using unsigned_less [of max_size] max
      by (simp_all add: unat_gt_0 word_neq_0_conv)
    then have "unat (ucast max_size :: u64) \<noteq> 0" by (simp add: unsigned_ucast_eq take_bit_nat_eq_self)
    then show ?thesis by auto
  qed
  ultimately have "data_frame rf max_size client ?h [] s1 = (None, s3)"
    using m s2(1) s3(1) by (auto simp: data_frame_def)
  moreover have "op mod 16 = op" "op = 0 \<or> op = 1 \<or> op = 2" using op by auto
  ultimately show ?thesis using s1(1) s3(2) by (auto simp: opcode_defs)
qed

section \<open>Properties\<close>

text \<open>A non-empty text or binary message below the size limit, sent in one frame by \<open>WSSendMessage\<close> (masked
  by a client, plain by a server), is what \<open>WSRecvMessage\<close> of the other side returns, and exactly the bytes
  of the frame are consumed. The sender's result is the payload size plus the two head bytes, and
  a client's own message is left masked.\<close>

theorem ws_message_roundtrip:
  assumes "good_wf wr sent" and "good_rf rf remaining"
    and "m_opcode msg = TEXT_FRAME \<or> m_opcode msg = BIN_FRAME" and "m_data msg \<noteq> []"
    and "length (m_data msg) < unat max_size" and "unat max_size < 2 ^ 31 - 1"
  shows "\<exists>s'. WSSendMessage cl wr rand msg client True s =
      (int (length (m_data msg)) + 2,
       if client then msg\<lparr>m_data := xor_mask (word_bytes rand) (m_data msg)\<rparr> else msg, s') \<and>
    (\<forall>t rest. remaining t = drop (length (sent s)) (sent s') @ rest \<longrightarrow>
       (\<exists>t'. WSRecvMessage (Suc fuel) cl' rf wr' max_size (\<not> client) 0 [] t = Some (Some msg, t') \<and>
             remaining t' = rest))"
proof -
  obtain s' where s': "sent s' = sent s @ frame rand (m_opcode msg) client True (m_data msg)"
    "WSSendMessage cl wr rand msg client True s =
      (int (length (m_data msg)) + 2,
       if client then msg\<lparr>m_data := xor_mask (word_bytes rand) (m_data msg)\<rparr> else msg, s')"
    by (rule send_writes [OF assms(1,4)]) (use assms(5,6) in auto)
  have "\<exists>t'. WSRecvMessage (Suc fuel) cl' rf wr' max_size (\<not> client) 0 [] t = Some (Some msg, t') \<and>
      remaining t' = rest"
    if "remaining t = frame rand (m_opcode msg) client True (m_data msg) @ rest" for t rest
    using recv_fragments [OF assms(2), of "\<not> client" client max_size "[m_data msg]" "Suc fuel" "m_opcode msg" "[]" t
        rand rest cl' wr' 0] that assms(3-6)
    by (auto simp: opcode_defs simp del: WSRecvMessage.simps)
  then show ?thesis using s' by auto
qed

text \<open>A message sent as any number of non-empty fragments (the opcode on the first, continuation frames
  after it, the final bit on the last) is reassembled by \<open>WSRecvMessage\<close>: one message with the
  concatenated payload and the opcode of the first frame.\<close>

theorem ws_fragments_reassembled:
  assumes "good_rf rf remaining" and "client \<or> masked" and "unat max_size \<le> 2 ^ 31"
    and "ds \<noteq> []" and "[] \<notin> set ds" and "length ds \<le> fuel" and "op = TEXT_FRAME \<or> op = BIN_FRAME"
    and "length (concat ds) < unat max_size" and "remaining s = fragments rand masked op ds @ rest"
  shows "\<exists>s'. WSRecvMessage fuel cl rf wr max_size client 0 [] s =
      Some (Some \<lparr>m_opcode = op, m_data = concat ds\<rparr>, s') \<and> remaining s' = rest"
  using recv_fragments [OF assms(1-6), of op "[]" s rand rest cl wr 0] assms(7-9) by (auto simp: opcode_defs)

text \<open>An empty message cannot be exchanged: \<open>writeFixSize\<close> and \<open>readFixSize\<close> of no bytes return 0, which the
  code takes for a failure, so the sender reports -1 and closes its stream after writing the whole
  frame, and the receiver of such a frame closes and returns no message.\<close>

theorem ws_empty_message_closes:
  assumes "good_wf wr sent" and "good_rf rf remaining" and "m_data msg = []" and "m_opcode msg \<le> 2"
    and "0 < max_size" and "client' \<or> client" and "remaining t = frame rand (m_opcode msg) client True [] @ rest"
  shows "(\<exists>s' msg'. WSSendMessage cl wr rand msg client True s = (-1, msg', cl s') \<and>
      sent s' = sent s @ frame rand (m_opcode msg) client True []) \<and>
    (\<exists>t'. WSRecvMessage (Suc fuel) cl' rf wr' max_size client' 0 [] t = Some (None, cl' t') \<and> remaining t' = rest)"
  using empty_send [OF assms(1,3)] empty_recv [OF assms(2,4-7)] by blast

text \<open>Streams that transfer everything at once.\<close>

definition full_rf :: "u8 list rfix" where
  "full_rf s n = (int (unat n), take (unat n) s, drop (unat n) s)"

definition full_wf :: "u8 list wfix" where
  "full_wf s bs = (int (length bs), s @ bs)"

lemma full_good: "good_rf full_rf (\<lambda>s. s)" "good_wf full_wf (\<lambda>s. s)"
  by (auto simp: good_rf_def good_wf_def full_rf_def full_wf_def)

definition demo_message :: ws_message where
  "demo_message = \<lparr>m_opcode = 1, m_data = [104, 105]\<rparr>"

theorem ws_message_roundtrip_witness:
  "\<exists>s'. fst (WSSendMessage (\<lambda>s. s) full_wf 0 demo_message True True []) = 4 \<and>
     (\<exists>t'. WSRecvMessage 1 (\<lambda>s. s) full_rf full_wf 1024 False 0 [] s' = Some (Some demo_message, t'))"
proof -
  obtain s' where "WSSendMessage (\<lambda>s. s) full_wf 0 demo_message True True [] =
      (4, demo_message\<lparr>m_data := xor_mask (word_bytes (0 :: u32)) (m_data demo_message)\<rparr>, s')"
    "\<forall>t rest. t = s' @ rest \<longrightarrow>
       (\<exists>t'. WSRecvMessage (Suc 0) (\<lambda>s. s) full_rf full_wf 1024 False 0 [] t = Some (Some demo_message, t') \<and> t' = rest)"
    using ws_message_roundtrip [OF full_good(2,1), of demo_message 1024 "\<lambda>s. s" 0 True "[]" 0 "\<lambda>s. s" full_wf]
    by (auto simp: demo_message_def opcode_defs)
  then show ?thesis by (intro exI [of _ s']) (auto simp del: WSRecvMessage.simps dest: spec [of _ "[]"])
qed

theorem ws_fragments_reassembled_witness:
  "\<exists>s'. WSRecvMessage 2 (\<lambda>s. s) full_rf full_wf 1024 True 0 [] (fragments 0 False 1 [[7], [8, 9]]) =
     Some (Some \<lparr>m_opcode = 1, m_data = [7, 8, 9]\<rparr>, s')"
  using ws_fragments_reassembled [OF full_good(1), of True False 1024 "[[7], [8, 9]]" 2 1 _ 0 "[]" "\<lambda>s. s" full_wf]
  by (auto simp: opcode_defs)

theorem ws_empty_message_closes_witness:
  "\<exists>t'. WSRecvMessage 1 (\<lambda>s. s) full_rf full_wf 1024 True 0 [] (frame 0 1 False True []) = Some (None, t')"
  using ws_empty_message_closes [OF full_good(2,1), of "\<lparr>m_opcode = 1, m_data = []\<rparr>" 1024 True False _ 0 "[]"
      "\<lambda>s. s" "[]" 0 "\<lambda>s. s" full_wf] by auto

end
