(* ===== verification/Rock.thy ===== *)
theory Rock
  imports ByteArray_Codec WsFrame
begin

text \<open>
  The Rock protocol: messages (\<^verbatim>\<open>src/cxk/protocol.cpp\<close>) and their wire format (\<^verbatim>\<open>src/cxk/rock/rock_protocol.cpp\<close>). Serialising
  is an operation on a byte array; parsing one on a byte array and the object it fills, so that an
  exception leaves both as they were then (\<open>catch_false\<close> is \<^verbatim>\<open>catch(...)\<close> with \<^verbatim>\<open>return false\<close>). The
  four fixed-size calls on the stream, the compression stream of \<^verbatim>\<open>src/cxk/stream/zlib_stream.cpp\<close> and the configured limits are
  parameters; \<open>good_rfb\<close> and \<open>good_wfb\<close> say that the calls on a byte array append to it and send from it.
\<close>

section \<open>Messages\<close>

definition REQUEST :: u8 where "REQUEST = 1"
definition RESPONSE :: u8 where "RESPONSE = 2"
definition NOTIFY :: u8 where "NOTIFY = 3"

record rock_request =
  r_sn :: u32
  r_cmd :: u32
  r_body :: "u8 list"

record rock_response =
  s_sn :: u32
  s_cmd :: u32
  s_result :: u32
  s_resultStr :: "u8 list"
  s_body :: "u8 list"

record rock_notify =
  n_notify :: u32
  n_body :: "u8 list"

definition string_bytes :: "string \<Rightarrow> u8 list" where
  "string_bytes s = map of_char s"

definition new_RockRequest :: rock_request where
  "new_RockRequest = \<lparr>r_sn = 0, r_cmd = 0, r_body = []\<rparr>"

definition new_RockResponse :: rock_response where
  "new_RockResponse = \<lparr>s_sn = 0, s_cmd = 0, s_result = 404, s_resultStr = string_bytes ''unhandle'', s_body = []\<rparr>"

definition new_RockNotify :: rock_notify where
  "new_RockNotify = \<lparr>n_notify = 0, n_body = []\<rparr>"

definition rock_createResponse :: "rock_request \<Rightarrow> rock_response" where
  "rock_createResponse q = new_RockResponse\<lparr>s_sn := r_sn q, s_cmd := r_cmd q\<rparr>"

section \<open>Serialising\<close>

fun catch_false :: "('s, bool) outcome \<Rightarrow> ('s, bool) outcome" where
  "catch_false (Throw e s) = Ret False s"
| "catch_false m = m"

definition RockBody_serialize :: "u8 list \<Rightarrow> bool ba_op" where
  "RockBody_serialize body ba = obind (writeStringVint body ba) (\<lambda>_. Ret True)"

definition Request_serialize :: "rock_request \<Rightarrow> bool ba_op" where
  "Request_serialize q ba =
     obind (writeFuint8_t REQUEST ba) (\<lambda>_ ba.
     obind (writeUint32 (r_sn q) ba) (\<lambda>_ ba.
     obind (writeUint32 (r_cmd q) ba) (\<lambda>_. Ret True)))"

definition Response_serialize :: "rock_response \<Rightarrow> bool ba_op" where
  "Response_serialize p ba =
     obind (writeFuint8_t RESPONSE ba) (\<lambda>_ ba.
     obind (writeUint32 (s_sn p) ba) (\<lambda>_ ba.
     obind (writeUint32 (s_cmd p) ba) (\<lambda>_ ba.
     obind (writeUint32 (s_result p) ba) (\<lambda>_ ba.
     obind (writeStringVint (s_resultStr p) ba) (\<lambda>_. Ret True)))))"

definition Notify_serialize :: "rock_notify \<Rightarrow> bool ba_op" where
  "Notify_serialize n ba =
     obind (writeFuint8_t NOTIFY ba) (\<lambda>_ ba.
     obind (writeUint32 (n_notify n) ba) (\<lambda>_. Ret True))"

definition RockRequest_serialize :: "rock_request \<Rightarrow> bool ba_op" where
  "RockRequest_serialize q ba =
     catch_false (obind (Request_serialize q ba) (\<lambda>v ba. obind (RockBody_serialize (r_body q) ba) (\<lambda>w. Ret (v \<and> w))))"

definition RockResponse_serialize :: "rock_response \<Rightarrow> bool ba_op" where
  "RockResponse_serialize p ba =
     catch_false (obind (Response_serialize p ba) (\<lambda>v ba. obind (RockBody_serialize (s_body p) ba) (\<lambda>w. Ret (v \<and> w))))"

definition RockNotify_serialize :: "rock_notify \<Rightarrow> bool ba_op" where
  "RockNotify_serialize n ba =
     catch_false (obind (Notify_serialize n ba) (\<lambda>v ba. obind (RockBody_serialize (n_body n) ba) (\<lambda>w. Ret (v \<and> w))))"

section \<open>Parsing\<close>

type_synonym 'o parse_op = "bytearray \<times> 'o \<Rightarrow> (bytearray \<times> 'o, bool) outcome"

text \<open>\<^verbatim>\<open>field = bytearray->read...()\<close>, followed by the rest.\<close>

definition into :: "'a ba_op \<Rightarrow> ('a \<Rightarrow> 'o \<Rightarrow> 'o) \<Rightarrow> 'o parse_op \<Rightarrow> 'o parse_op" where
  "into rd assign k st =
     (case rd (fst st) of
        Ret v ba \<Rightarrow> k (ba, assign v (snd st))
      | Throw e ba \<Rightarrow> Throw e (ba, snd st)
      | Undef u \<Rightarrow> Undef u)"

definition RockBody_parse :: "(u8 list \<Rightarrow> 'o \<Rightarrow> 'o) \<Rightarrow> 'o parse_op" where
  "RockBody_parse assign = into readStringVint assign (Ret True)"

definition Request_parse :: "rock_request parse_op" where
  "Request_parse =
     into readUint32 (\<lambda>v q. q\<lparr>r_sn := v\<rparr>) (into readUint32 (\<lambda>v q. q\<lparr>r_cmd := v\<rparr>) (Ret True))"

definition Response_parse :: "rock_response parse_op" where
  "Response_parse =
     into readUint32 (\<lambda>v p. p\<lparr>s_sn := v\<rparr>) (into readUint32 (\<lambda>v p. p\<lparr>s_cmd := v\<rparr>)
     (into readUint32 (\<lambda>v p. p\<lparr>s_result := v\<rparr>) (into readStringVint (\<lambda>v p. p\<lparr>s_resultStr := v\<rparr>) (Ret True))))"

definition Notify_parse :: "rock_notify parse_op" where
  "Notify_parse = into readUint32 (\<lambda>v n. n\<lparr>n_notify := v\<rparr>) (Ret True)"

definition RockRequest_parse :: "rock_request parse_op" where
  "RockRequest_parse st =
     catch_false (obind (Request_parse st) (\<lambda>v st. obind (RockBody_parse (\<lambda>b q. q\<lparr>r_body := b\<rparr>) st) (\<lambda>w. Ret (v \<and> w))))"

definition RockResponse_parse :: "rock_response parse_op" where
  "RockResponse_parse st =
     catch_false (obind (Response_parse st) (\<lambda>v st. obind (RockBody_parse (\<lambda>b p. p\<lparr>s_body := b\<rparr>) st) (\<lambda>w. Ret (v \<and> w))))"

definition RockNotify_parse :: "rock_notify parse_op" where
  "RockNotify_parse st =
     catch_false (obind (Notify_parse st) (\<lambda>v st. obind (RockBody_parse (\<lambda>b n. n\<lparr>n_body := b\<rparr>) st) (\<lambda>w. Ret (v \<and> w))))"

section \<open>The decoder\<close>

datatype message = Request rock_request | Response rock_response | Notify rock_notify

primrec serializeToByteArray :: "message \<Rightarrow> bool ba_op" where
  "serializeToByteArray (Request q) = RockRequest_serialize q"
| "serializeToByteArray (Response p) = RockResponse_serialize p"
| "serializeToByteArray (Notify n) = RockNotify_serialize n"

definition toByteArray :: "(nat \<Rightarrow> u8) \<Rightarrow> message \<Rightarrow> (bytearray, bytearray option) outcome" where
  "toByteArray junk m =
     obind (serializeToByteArray m (ByteArray junk 4096)) (\<lambda>v ba. if v then Ret (Some ba) ba else Ret None ba)"

definition s_rock_magic :: "u8 list" where "s_rock_magic = [0xab, 0xcd]"

definition header_bytes :: "u8 \<Rightarrow> u32 \<Rightarrow> u8 list" where
  "header_bytes flag len = s_rock_magic @ [1, flag] @ word_bytes len"

text \<open>A call on the new object, and what \<open>parseFrom\<close> makes of it.\<close>

definition parsed :: "('o \<Rightarrow> message) \<Rightarrow> (bytearray \<times> 'o, bool) outcome \<Rightarrow> (unit, message option) outcome" where
  "parsed mk r =
     (case r of Ret v st \<Rightarrow> Ret (if v then Some (mk (snd st)) else None) () | Throw e st \<Rightarrow> Throw e () | Undef u \<Rightarrow> Undef u)"

definition parse_message :: "bytearray \<Rightarrow> (unit, message option) outcome" where
  "parse_message ba =
     (case readFuint8_t ba of
        Undef u \<Rightarrow> Undef u
      | Throw e ba \<Rightarrow> Throw e ()
      | Ret type ba \<Rightarrow>
          if type = REQUEST then parsed Request (RockRequest_parse (ba, new_RockRequest))
          else if type = RESPONSE then parsed Response (RockResponse_parse (ba, new_RockResponse))
          else if type = NOTIFY then parsed Notify (RockNotify_parse (ba, new_RockNotify))
          else Ret None ())"

text \<open>The exceptions of the body end in a null result.\<close>

fun caught :: "'s \<Rightarrow> (unit, message option) outcome \<Rightarrow> ('s, message option) outcome" where
  "caught s (Ret m _) = Ret m s"
| "caught s (Throw e _) = Ret None s"
| "caught s (Undef u) = Undef u"

definition parse_payload ::
  "(bytearray \<Rightarrow> bytearray option) \<Rightarrow> u8 \<Rightarrow> bytearray \<Rightarrow> (unit, message option) outcome" where
  "parse_payload gunzip flag ba =
     (case setPosition 0 ba of
        Undef u \<Rightarrow> Undef u
      | Throw e ba \<Rightarrow> Throw e ()
      | Ret _ ba \<Rightarrow>
          if flag AND 0x1 \<noteq> 0 then (case gunzip ba of None \<Rightarrow> Ret None () | Some ba \<Rightarrow> parse_message ba)
          else parse_message ba)"

type_synonym 's bafix = "'s \<Rightarrow> bytearray \<Rightarrow> u64 \<Rightarrow> int \<times> bytearray \<times> 's"

definition parseFrom ::
  "(nat \<Rightarrow> u8) \<Rightarrow> 's rfix \<Rightarrow> 's bafix \<Rightarrow> (bytearray \<Rightarrow> bytearray option) \<Rightarrow> u32 \<Rightarrow> 's \<Rightarrow> ('s, message option) outcome" where
  "parseFrom junk rf rfb gunzip max_length s =
     (case rf s 8 of (r, hb, s) \<Rightarrow>
        if r \<le> 0 then Ret None s
        else if take 2 hb \<noteq> s_rock_magic then Ret None s
        else if hb ! 2 \<noteq> 0x1 then Ret None s
        else let len = byteswapOnLittleEndian (bytes_word (drop 4 hb) :: u32) in
          if len \<ge> max_length then Ret None s
          else case rfb s (ByteArray junk 4096) (scast len) of (r, ba, s) \<Rightarrow>
            if r \<le> 0 then Ret None s else caught s (parse_payload gunzip (hb ! 3) ba))"

definition send_message :: "'s wfix \<Rightarrow> 's bafix \<Rightarrow> u8 \<Rightarrow> bytearray \<Rightarrow> 's \<Rightarrow> int \<times> 's" where
  "send_message wr wrb flag ba s =
     (case wr s (header_bytes flag (byteswapOnLittleEndian (of_nat (m_size ba)))) of (r, s) \<Rightarrow>
        if r \<le> 0 then (-1, s)
        else case wrb s ba (of_nat (getReadSize ba)) of (r, ba, s) \<Rightarrow>
          if r \<le> 0 then (-1, s) else (sint (of_nat (8 + m_size ba) :: u32), s))"

definition serializeTo ::
  "(nat \<Rightarrow> u8) \<Rightarrow> 's wfix \<Rightarrow> 's bafix \<Rightarrow> (bytearray \<Rightarrow> bytearray option) \<Rightarrow> u32 \<Rightarrow> message \<Rightarrow> 's \<Rightarrow> ('s, int) outcome" where
  "serializeTo junk wr wrb gzip gzip_min msg s =
     (case obind (toByteArray junk msg) (\<lambda>r ba. case r of None \<Rightarrow> Undef NullDeref | Some ba \<Rightarrow> setPosition 0 ba) of
        Undef u \<Rightarrow> Undef u
      | Throw e _ \<Rightarrow> Throw e s
      | Ret _ ba \<Rightarrow>
          if (of_nat (m_size ba) :: u32) \<ge> gzip_min then
            (case gzip ba of None \<Rightarrow> Ret (-1) s
             | Some ba \<Rightarrow> (case send_message wr wrb 0x1 ba s of (r, s) \<Rightarrow> Ret r s))
          else (case send_message wr wrb 0 ba s of (r, s) \<Rightarrow> Ret r s))"

section \<open>Sequences of codecs\<close>

context ba_codec
begin

text \<open>One write in a sequence, with \<open>n\<close> more bytes to come; one read, with \<open>rest\<close> to follow.\<close>

lemma wr_step:
  assumes "valid v" and "ba_inv ba" and "in_block (length (enc (m_endian ba) v) + n) ba"
  obtains ba' where "wr v ba = Ret () ba'" and "written (enc (m_endian ba) v) ba ba'" and "in_block n ba'"
proof -
  have "in_block (length (enc (m_endian ba) v)) ba" using assms(3) by (rule in_block_mono) simp
  then obtain ba' where w: "wr v ba = Ret () ba'" "written (enc (m_endian ba) v) ba ba'"
    using wr_ok assms(1,2) by blast
  then have "in_block n ba'"
    using in_block_shift [OF assms(2,3), of ba'] by (simp add: written_def)
  then show ?thesis using w that by blast
qed

lemma rd_step:
  assumes "valid v" and "ba_inv ba" and "in_block (length (enc (m_endian ba) v @ rest)) ba"
    and "holds_at (enc (m_endian ba) v @ rest) ba"
  obtains ba' where "rd ba = Ret v ba'" and "ba_inv ba'" and "m_endian ba' = m_endian ba"
    and "in_block (length rest) ba'" and "holds_at rest ba'"
proof -
  let ?x = "enc (m_endian ba) v" and ?ba = "advanced (length (enc (m_endian ba) v)) ba"
  have h: "holds_at ?x ba" "holds_at rest ?ba" using holds_at_append [OF assms(4,2)] by auto
  have blk: "in_block (length ?x) ba" using assms(3) by (rule in_block_mono) simp
  have "rd ba = Ret v ?ba" by (rule rd_ok [OF assms(1,2) blk h(1)])
  moreover have "ba_inv ?ba" using advanced_inv [OF assms(2)] h(1) by (simp add: holds_at_def)
  moreover have "in_block (length rest) ?ba"
    by (rule in_block_shift [OF assms(2)]) (use assms(3) in \<open>simp_all add: advanced_def\<close>)
  ultimately show ?thesis using h(2) that by (simp add: advanced_def)
qed

end

lemma written_append: "written xs ba ba1 \<Longrightarrow> written ys ba1 ba2 \<Longrightarrow> ba_inv ba \<Longrightarrow> written (xs @ ys) ba ba2"
  using ba_invD(2) [of ba] length_content [of ba] by (auto simp: written_def overwrite_def max_def ac_simps)

text \<open>
  \<open>writes bs r op\<close>: inside a block, \<open>op\<close> writes \<open>bs\<close> and returns \<open>r\<close>. \<open>reads bs op f\<close>: \<open>op\<close> consumes \<open>bs\<close> and
  changes the object by \<open>f\<close>. Both are stated for the big-endian arrays that messages use.
\<close>

definition writes :: "u8 list \<Rightarrow> 'a \<Rightarrow> 'a ba_op \<Rightarrow> bool" where
  "writes bs r op \<longleftrightarrow> (\<forall>ba. ba_inv ba \<longrightarrow> m_endian ba = CXK_BIG_ENDIAN \<longrightarrow> in_block (length bs) ba \<longrightarrow>
     (\<exists>ba'. op ba = Ret r ba' \<and> written bs ba ba'))"

definition readable :: "u8 list \<Rightarrow> bytearray \<Rightarrow> bool" where
  "readable bs ba \<longleftrightarrow> ba_inv ba \<and> m_endian ba = CXK_BIG_ENDIAN \<and> in_block (length bs) ba \<and> holds_at bs ba"

definition reads :: "u8 list \<Rightarrow> 'o parse_op \<Rightarrow> ('o \<Rightarrow> 'o) \<Rightarrow> bool" where
  "reads bs op f \<longleftrightarrow> (\<forall>ba ob rest. readable (bs @ rest) ba \<longrightarrow>
     (\<exists>ba'. op (ba, ob) = Ret True (ba', f ob) \<and> readable rest ba'))"

lemma writes_Ret: "writes [] r (Ret r)"
  by (auto simp: writes_def written_def ba_inv_def)

lemma writes_bind:
  assumes "writes xs r op" and "writes ys r' (f r)"
  shows "writes (xs @ ys) r' (\<lambda>ba. obind (op ba) f)"
  unfolding writes_def
proof (intro allI impI)
  fix ba assume ba: "ba_inv ba" "m_endian ba = CXK_BIG_ENDIAN" "in_block (length (xs @ ys)) ba"
  have "in_block (length xs) ba" using ba(3) by (rule in_block_mono) simp
  then obtain b1 where b1: "op ba = Ret r b1" "written xs ba b1" using assms(1) ba(1,2) by (auto simp: writes_def)
  have "in_block (length ys) b1"
    by (rule in_block_shift [OF ba(1)]) (use b1(2) ba(3) in \<open>simp_all add: written_def\<close>)
  then obtain b2 where "f r b1 = Ret r' b2" "written ys b1 b2"
    using assms(2) b1(2) ba(2) by (auto simp: writes_def written_def)
  then show "\<exists>ba'. obind (op ba) f = Ret r' ba' \<and> written (xs @ ys) ba ba'"
    using b1 written_append [OF b1(2) _ ba(1)] by auto
qed

lemma writes_codec: "ba_codec enc wr rd valid \<Longrightarrow> valid v \<Longrightarrow> writes (enc CXK_BIG_ENDIAN v) () (wr v)"
  using ba_codec.wr_ok unfolding writes_def by metis

lemma writes_catch: "writes bs True op \<Longrightarrow> writes bs True (\<lambda>ba. catch_false (op ba))"
  by (fastforce simp: writes_def)

lemma reads_Ret: "reads [] (Ret True) (\<lambda>ob. ob)"
  by (simp add: reads_def)

lemma reads_into:
  assumes "ba_codec enc wr rd valid" and "valid v" and "reads ys k f"
  shows "reads (enc CXK_BIG_ENDIAN v @ ys) (into rd assign k) (\<lambda>ob. f (assign v ob))"
  unfolding reads_def
proof (intro allI impI)
  fix ba ob rest assume "readable ((enc CXK_BIG_ENDIAN v @ ys) @ rest) ba"
  then have ba: "ba_inv ba" "m_endian ba = CXK_BIG_ENDIAN" "in_block (length (enc (m_endian ba) v @ ys @ rest)) ba"
    "holds_at (enc (m_endian ba) v @ ys @ rest) ba" by (simp_all add: readable_def)
  obtain b1 where "rd ba = Ret v b1" "readable (ys @ rest) b1"
    by (rule ba_codec.rd_step [OF assms(1,2) ba(1,3,4)]) (simp add: readable_def ba(2))
  then show "\<exists>ba'. into rd assign k (ba, ob) = Ret True (ba', f (assign v ob)) \<and> readable rest ba'"
    using assms(3) by (auto simp: reads_def into_def)
qed

lemma reads_seq:
  assumes "reads xs op f" and "reads ys op' g"
  shows "reads (xs @ ys) (\<lambda>st. catch_false (obind (op st) (\<lambda>v st. obind (op' st) (\<lambda>w. Ret (v \<and> w))))) (\<lambda>ob. g (f ob))"
  unfolding reads_def
proof (intro allI impI)
  fix ba ob rest assume "readable ((xs @ ys) @ rest) ba"
  then have "readable (xs @ ys @ rest) ba" by simp
  then obtain b1 where b1: "op (ba, ob) = Ret True (b1, f ob)" "readable (ys @ rest) b1"
    using assms(1) unfolding reads_def by blast
  then obtain b2 where "op' (b1, f ob) = Ret True (b2, g (f ob))" "readable rest b2"
    using assms(2) unfolding reads_def by blast
  then show "\<exists>ba'. catch_false (obind (op (ba, ob)) (\<lambda>v st. obind (op' st) (\<lambda>w. Ret (v \<and> w)))) =
      Ret True (ba', g (f ob)) \<and> readable rest ba'"
    using b1(1) by simp
qed

section \<open>Messages on the wire\<close>

abbreviation vint :: "u32 \<Rightarrow> u8 list" where
  "vint \<equiv> varint_loop"

abbreviation str :: "u8 list \<Rightarrow> u8 list" where
  "str \<equiv> enc_string TYPE(64) CXK_BIG_ENDIAN"

fun msg_bytes :: "message \<Rightarrow> u8 list" where
  "msg_bytes (Request q) = [REQUEST] @ vint (r_sn q) @ vint (r_cmd q) @ str (r_body q)"
| "msg_bytes (Response p) = [RESPONSE] @ vint (s_sn p) @ vint (s_cmd p) @ vint (s_result p) @ str (s_resultStr p) @ str (s_body p)"
| "msg_bytes (Notify n) = [NOTIFY] @ vint (n_notify n) @ str (n_body n)"

abbreviation short :: "u8 list \<Rightarrow> bool" where
  "short s \<equiv> length s < 2 ^ 64 \<and> length s \<le> string_max_size"

fun msg_ok :: "message \<Rightarrow> bool" where
  "msg_ok (Request q) = short (r_body q)"
| "msg_ok (Response p) = (short (s_resultStr p) \<and> short (s_body p))"
| "msg_ok (Notify n) = short (n_body n)"

lemma codec_writes:
  "writes [b] () (writeFuint8_t b)" "writes (vint v) () (writeUint32 v)" "short s \<Longrightarrow> writes (str s) () (writeStringVint s)"
  using writes_codec [OF fuint8.ba_codec_axioms, of b] writes_codec [OF vuint32.ba_codec_axioms, of v]
    writes_codec [OF strVint.ba_codec_axioms, of s] by simp_all

lemma body_writes: "short s \<Longrightarrow> writes (str s) True (RockBody_serialize s)"
  unfolding RockBody_serialize_def
  by (rule writes_bind [where ys = "[]", simplified]) (rule codec_writes(3) writes_Ret | assumption)+

lemma seq_writes:
  assumes "writes xs True op" and "writes ys True op'"
  shows "writes (xs @ ys) True (\<lambda>ba. catch_false (obind (op ba) (\<lambda>v ba. obind (op' ba) (\<lambda>w. Ret (v \<and> w)))))"
proof (rule writes_catch, rule writes_bind [OF assms(1)])
  have "writes (ys @ []) True (\<lambda>ba. obind (op' ba) (\<lambda>w. Ret (True \<and> w)))"
    by (rule writes_bind [OF assms(2)]) (simp add: writes_Ret)
  then show "writes ys True (\<lambda>ba. obind (op' ba) (\<lambda>w. Ret (True \<and> w)))" by simp
qed

lemma header_writes:
  "writes ([REQUEST] @ vint (r_sn q) @ vint (r_cmd q) @ []) True (Request_serialize q)"
  "short (s_resultStr p) \<Longrightarrow>
   writes ([RESPONSE] @ vint (s_sn p) @ vint (s_cmd p) @ vint (s_result p) @ str (s_resultStr p) @ []) True (Response_serialize p)"
  "writes ([NOTIFY] @ vint (n_notify n) @ []) True (Notify_serialize n)"
  unfolding Request_serialize_def Response_serialize_def Notify_serialize_def
  by (rule writes_bind codec_writes writes_Ret | assumption)+

lemma message_writes: "msg_ok m \<Longrightarrow> writes (msg_bytes m) True (serializeToByteArray m)"
proof (cases m)
  case (Request q)
  moreover assume "msg_ok m"
  ultimately show ?thesis
    using seq_writes [OF header_writes(1) [of q] body_writes [of "r_body q"]] by (simp add: RockRequest_serialize_def [abs_def])
next
  case (Response p)
  moreover assume "msg_ok m"
  ultimately show ?thesis
    using seq_writes [OF header_writes(2) [of p] body_writes [of "s_body p"]] by (simp add: RockResponse_serialize_def [abs_def])
next
  case (Notify n)
  moreover assume "msg_ok m"
  ultimately show ?thesis
    using seq_writes [OF header_writes(3) [of n] body_writes [of "n_body n"]] by (simp add: RockNotify_serialize_def [abs_def])
qed

lemma field_reads:
  "reads ys k f \<Longrightarrow> reads (vint v @ ys) (into readUint32 assign k) (\<lambda>ob. f (assign v ob))"
  "short s \<Longrightarrow> reads ys k f \<Longrightarrow> reads (str s @ ys) (into readStringVint assign' k) (\<lambda>ob. f (assign' s ob))"
  using reads_into [OF vuint32.ba_codec_axioms, where v = v and ys = ys and k = k and f = f and assign = assign]
    reads_into [OF strVint.ba_codec_axioms, where v = s and ys = ys and k = k and f = f and assign = assign'] by simp_all

lemma body_reads: "short s \<Longrightarrow> reads (str s @ []) (RockBody_parse assign) (\<lambda>ob. assign s ob)"
  unfolding RockBody_parse_def by (rule field_reads(2) [OF _ reads_Ret])

lemma header_reads:
  "reads (vint sn @ vint cmd @ []) Request_parse (\<lambda>q. q\<lparr>r_sn := sn, r_cmd := cmd\<rparr>)"
  "short msg \<Longrightarrow> reads (vint sn @ vint cmd @ vint res @ str msg @ []) Response_parse
     (\<lambda>p. p\<lparr>s_sn := sn, s_cmd := cmd, s_result := res, s_resultStr := msg\<rparr>)"
  "reads (vint n @ []) Notify_parse (\<lambda>m. m\<lparr>n_notify := n\<rparr>)"
  unfolding Request_parse_def Response_parse_def Notify_parse_def
  by (rule field_reads reads_Ret | assumption)+

lemma parsedI: "reads bs op f \<Longrightarrow> readable bs ba \<Longrightarrow> parsed mk (op (ba, ob)) = Ret (Some (mk (f ob))) ()"
  unfolding reads_def parsed_def by (drule spec [of _ ba], drule spec [of _ ob], drule spec [of _ "[]"]) auto

lemma all_fields:
  "ob\<lparr>r_sn := r_sn q, r_cmd := r_cmd q, r_body := r_body q\<rparr> = (q :: rock_request)"
  "ob'\<lparr>s_sn := s_sn p, s_cmd := s_cmd p, s_result := s_result p, s_resultStr := s_resultStr p, s_body := s_body p\<rparr> =
   (p :: rock_response)"
  "ob''\<lparr>n_notify := n_notify n, n_body := n_body n\<rparr> = (n :: rock_notify)"
  by simp_all

lemma rock_reads:
  "short (r_body q) \<Longrightarrow> reads (vint (r_sn q) @ vint (r_cmd q) @ str (r_body q)) RockRequest_parse (\<lambda>_. q)"
  "short (s_resultStr p) \<Longrightarrow> short (s_body p) \<Longrightarrow>
   reads (vint (s_sn p) @ vint (s_cmd p) @ vint (s_result p) @ str (s_resultStr p) @ str (s_body p)) RockResponse_parse (\<lambda>_. p)"
  "short (n_body n) \<Longrightarrow> reads (vint (n_notify n) @ str (n_body n)) RockNotify_parse (\<lambda>_. n)"
  using reads_seq [OF header_reads(1) body_reads, of "r_body q" "r_sn q" "r_cmd q" "\<lambda>b q. q\<lparr>r_body := b\<rparr>"]
    reads_seq [OF header_reads(2) body_reads, of "s_resultStr p" "s_body p" "s_sn p" "s_cmd p" "s_result p" "\<lambda>b p. p\<lparr>s_body := b\<rparr>"]
    reads_seq [OF header_reads(3) body_reads, of "n_body n" "n_notify n" "\<lambda>b n. n\<lparr>n_body := b\<rparr>"]
  by (simp_all add: RockRequest_parse_def [abs_def] RockResponse_parse_def [abs_def] RockNotify_parse_def [abs_def] all_fields)

lemma parse_message_ok:
  assumes "msg_ok m" and "readable (msg_bytes m) ba"
  shows "parse_message ba = Ret (Some m) ()"
proof -
  obtain ty bs where m: "msg_bytes m = ty # bs" by (cases m) auto
  have ba: "ba_inv ba" "m_endian ba = CXK_BIG_ENDIAN" "in_block (length ([ty] @ bs)) ba" "holds_at ([ty] @ bs) ba"
    using assms(2) m by (auto simp: readable_def)
  obtain b1 where b1: "readFuint8_t ba = Ret ty b1" "readable bs b1"
    using fuint8.rd_step [OF _ ba(1) ba(3,4)] ba(2) by (auto simp: readable_def)
  show ?thesis
    using assms(1) m b1 rock_reads [THEN parsedI]
    by (cases m) (auto simp: parse_message_def REQUEST_def RESPONSE_def NOTIFY_def)
qed

lemma rewound:
  assumes "written bs (ByteArray junk b) ba" and "0 < b" and "length bs < b"
  obtains ba' where "setPosition 0 ba = Ret () ba'" and "readable bs ba'" and "m_size ba' = length bs"
    and "m_position ba' = 0" and "content ba' = bs"
proof -
  have w: "ba_inv ba" "m_baseSize ba = b" "m_endian ba = CXK_BIG_ENDIAN" "m_size ba = length bs"
    "content ba = bs" "b \<le> m_capacity ba"
    using assms(1) by (auto simp: written_def ByteArray_def content_def flat_def overwrite_def)
  obtain ba' where s: "setPosition 0 ba = Ret () ba'" using setPosition_ok [OF ba_invD(1) [OF w(1)]] by auto
  note p = setPosition_content [OF w(1) s]
  have "in_block (length bs) ba'" "holds_at bs ba'"
    using p w assms(2,3) by (simp_all add: in_block_def holds_at_def seg_def)
  then show ?thesis using s p w that by (simp add: readable_def)
qed

lemma fresh_block: "n < b \<Longrightarrow> ba_inv (ByteArray junk b) \<and> m_endian (ByteArray junk b) = CXK_BIG_ENDIAN \<and> in_block n (ByteArray junk b)"
  by (simp add: in_block_def ByteArray_def ba_inv_def ba_struct_def new_Node_def cur_at_def)

lemma message_serialized:
  assumes "msg_ok m" and "length (msg_bytes m) < 4096"
  obtains ba1 ba where "toByteArray junk m = Ret (Some ba1) ba1" and "setPosition 0 ba1 = Ret () ba"
    and "readable (msg_bytes m) ba" and "m_size ba = length (msg_bytes m)" and "m_position ba = 0"
    and "content ba = msg_bytes m"
proof -
  obtain ba1 where w: "serializeToByteArray m (ByteArray junk 4096) = Ret True ba1"
      "written (msg_bytes m) (ByteArray junk 4096) ba1"
    using message_writes [OF assms(1)] fresh_block [OF assms(2)] by (auto simp: writes_def)
  show ?thesis
    by (rule rewound [OF w(2) _ assms(2)]) (use w(1) that in \<open>auto simp: toByteArray_def\<close>)
qed

section \<open>Properties\<close>

text \<open>What is asked of the calls that move bytes between the stream and a byte array.\<close>

definition good_rfb :: "'s bafix \<Rightarrow> ('s \<Rightarrow> u8 list) \<Rightarrow> bool" where
  "good_rfb rfb remaining \<longleftrightarrow> (\<forall>s ba n. ba_inv ba \<longrightarrow> write_fits (unat n) ba \<longrightarrow> 0 < n \<longrightarrow> unat n \<le> length (remaining s) \<longrightarrow>
     (\<exists>ba' s'. rfb s ba n = (int (unat n), ba', s') \<and> written (take (unat n) (remaining s)) ba ba' \<and>
        remaining s' = drop (unat n) (remaining s)))"

definition good_wfb :: "'s bafix \<Rightarrow> ('s \<Rightarrow> u8 list) \<Rightarrow> bool" where
  "good_wfb wrb sent \<longleftrightarrow> (\<forall>s ba n. ba_inv ba \<longrightarrow> unat n \<le> getReadSize ba \<longrightarrow>
     (\<exists>ba' s'. wrb s ba n = (int (unat n), ba', s') \<and> m_size ba' = m_size ba \<and>
        sent s' = sent s @ seg (m_position ba) (unat n) (content ba)))"

definition wire :: "message \<Rightarrow> u8 list" where
  "wire m = header_bytes 0 (byteswapOnLittleEndian (of_nat (length (msg_bytes m)))) @ msg_bytes m"

lemma msg_bytes_ne: "msg_bytes m \<noteq> []"
  by (cases m) auto

lemma serializeTo_ok:
  assumes wf: "good_wf wr sent" "good_wfb wrb sent" and m: "msg_ok m" and len: "length (msg_bytes m) < 4096"
    and gz: "length (msg_bytes m) < unat gzip_min"
  obtains s' where "serializeTo junk wr wrb gzip gzip_min m s = Ret (8 + int (length (msg_bytes m))) s'"
    and "sent s' = sent s @ wire m"
proof -
  let ?n = "length (msg_bytes m)"
  obtain ba1 ba where b: "toByteArray junk m = Ret (Some ba1) ba1" "setPosition 0 ba1 = Ret () ba"
      "readable (msg_bytes m) ba" "m_size ba = ?n" "m_position ba = 0" "content ba = msg_bytes m"
    by (rule message_serialized [OF m len])
  have u: "unat (of_nat ?n :: u32) = ?n" "unat (of_nat ?n :: u64) = ?n"
    using len by (simp_all add: unat_of_nat take_bit_nat_eq_self)
  have ng: "\<not> (of_nat ?n :: u32) \<ge> gzip_min" using gz by (simp add: word_le_nat_alt u)
  let ?h = "header_bytes 0 (byteswapOnLittleEndian (of_nat ?n))"
  obtain s1 where s1: "wr s ?h = (int (length ?h), s1)" "sent s1 = sent s @ ?h" by (rule good_wfD [OF wf(1)])
  have "getReadSize ba = ?n" using b by (simp add: getReadSize_def)
  then obtain ba' s2 where s2: "wrb s1 ba (of_nat ?n) = (int ?n, ba', s2)" "m_size ba' = ?n"
      "sent s2 = sent s1 @ seg 0 ?n (msg_bytes m)"
    using wf(2) b u(2) unfolding good_wfb_def readable_def by (metis order_refl)
  have "send_message wr wrb 0 ba s = (8 + int ?n, s2)"
    using s1(1) s2(1,2) b(4) \<open>getReadSize ba = ?n\<close> msg_bytes_ne [of m] sint_of_nat_u32 [of "8 + ?n"] len
    by (simp add: send_message_def header_bytes_def)
  then have "serializeTo junk wr wrb gzip gzip_min m s = Ret (8 + int ?n) s2"
    using b(1,2,4) ng by (simp add: serializeTo_def)
  then show ?thesis using that s1(2) s2(3) by (simp add: wire_def seg_def)
qed

lemma scast_small:
  assumes "n < 2 ^ 31"
  shows "unat (scast (of_nat n :: u32) :: u64) = n"
proof -
  have "uint (scast (of_nat n :: u32) :: u64) = take_bit 64 (sint (of_nat n :: u32))"
    by transfer (simp add: take_bit_signed_take_bit)
  also have "\<dots> = int n" using sint_of_nat_u32 [OF assms] assms by (simp add: take_bit_int_eq_self)
  finally show ?thesis by (metis nat_int unat_eq_nat_uint)
qed

lemma parseFrom_ok:
  assumes rf: "good_rf rf remaining" "good_rfb rfb remaining" and m: "msg_ok m" and len: "length (msg_bytes m) < 4096"
    and max: "length (msg_bytes m) < unat max_length" and s: "remaining s = wire m @ rest"
  obtains s' where "parseFrom junk rf rfb gunzip max_length s = Ret (Some m) s'" and "remaining s' = rest"
proof -
  let ?n = "length (msg_bytes m)"
  let ?h = "header_bytes 0 (byteswapOnLittleEndian (of_nat ?n))"
  obtain s1 where s1: "rf s 8 = (8, ?h, s1)" "remaining s1 = msg_bytes m @ rest"
    using good_rfD [OF rf(1), of s ?h "msg_bytes m @ rest" 8] s by (auto simp: wire_def header_bytes_def s_rock_magic_def)
  have h: "take 2 ?h = s_rock_magic" "?h ! 2 = 1" "?h ! 3 = 0"
    "byteswapOnLittleEndian (bytes_word (drop 4 ?h)) = (of_nat ?n :: u32)"
    by (simp_all add: header_bytes_def s_rock_magic_def word_swap_bytes)
  have u: "unat (of_nat ?n :: u32) = ?n" using len by (simp add: unat_of_nat take_bit_nat_eq_self)
  have nmax: "\<not> (of_nat ?n :: u32) \<ge> max_length" using max by (simp add: word_le_nat_alt u)
  let ?k = "scast (of_nat ?n :: u32) :: u64"
  have k: "unat ?k = ?n" using scast_small [of ?n] len by simp
  then have pos: "0 < ?k" using msg_bytes_ne [of m] by (metis length_0_conv unat_0 word_gt_0)
  note fresh = fresh_block [OF len, of junk]
  have fits: "write_fits (unat ?k) (ByteArray junk 4096)" using in_block_fits fresh k by simp
  obtain ba s2 where s2: "rfb s1 (ByteArray junk 4096) ?k = (int ?n, ba, s2)" "written (msg_bytes m) (ByteArray junk 4096) ba"
      "remaining s2 = rest"
    using rf(2) [unfolded good_rfb_def, rule_format, OF conjunct1 [OF fresh] fits pos, of s1] s1(2) k by auto
  have "parse_payload gunzip 0 ba = Ret (Some m) ()"
    by (rule rewound [OF s2(2) _ len]) (use parse_message_ok [OF m] in \<open>simp_all add: parse_payload_def\<close>)
  then have "parseFrom junk rf rfb gunzip max_length s = Ret (Some m) s2"
    using s1(1) s2(1) h nmax msg_bytes_ne [of m] by (simp add: parseFrom_def Let_def)
  then show ?thesis using that s2(3) by blast
qed

text \<open>C29. A Rock request, response or notification whose encoding fits in one block of a byte array and is below
  the compression threshold: \<open>serializeTo\<close> writes an 8-byte header and the encoding and returns their size, and
  \<open>parseFrom\<close> on the receiving side returns exactly that message and consumes exactly those bytes.\<close>

theorem rock_roundtrip:
  assumes "good_wf wr sent" and "good_wfb wrb sent" and "good_rf rf remaining" and "good_rfb rfb remaining"
    and "msg_ok m" and "length (msg_bytes m) < 4096"
    and "length (msg_bytes m) < unat gzip_min" and "length (msg_bytes m) < unat max_length"
  shows "\<exists>s'. serializeTo junk wr wrb gzip gzip_min m s = Ret (8 + int (length (msg_bytes m))) s' \<and>
    length (sent s') = length (sent s) + 8 + length (msg_bytes m) \<and>
    (\<forall>t rest. remaining t = drop (length (sent s)) (sent s') @ rest \<longrightarrow>
       (\<exists>t'. parseFrom junk' rf rfb gunzip max_length t = Ret (Some m) t' \<and> remaining t' = rest))"
proof -
  obtain s' where s': "serializeTo junk wr wrb gzip gzip_min m s = Ret (8 + int (length (msg_bytes m))) s'"
      "sent s' = sent s @ wire m"
    by (rule serializeTo_ok [OF assms(1,2,5-7)])
  moreover have "\<exists>t'. parseFrom junk' rf rfb gunzip max_length t = Ret (Some m) t' \<and> remaining t' = rest"
    if "remaining t = wire m @ rest" for t rest
    by (rule parseFrom_ok [OF assms(3-6,8) that]) blast
  ultimately show ?thesis by (auto simp: wire_def header_bytes_def s_rock_magic_def)
qed

text \<open>Bytes that are not a Rock message are refused without an effect other than reading the header: a wrong
  magic, an unknown version or a length at or above the limit gives no message and leaves the payload unread.\<close>

theorem rock_bad_header:
  assumes "good_rf rf remaining" and "remaining s = hb @ rest" and "length hb = 8"
    and "take 2 hb \<noteq> s_rock_magic \<or> hb ! 2 \<noteq> 1 \<or> max_length \<le> byteswapOnLittleEndian (bytes_word (drop 4 hb))"
  shows "\<exists>s'. parseFrom junk rf rfb gunzip max_length s = Ret None s' \<and> remaining s' = rest"
proof -
  obtain s1 where "rf s 8 = (8, hb, s1)" "remaining s1 = rest" using good_rfD [OF assms(1,2), of 8] assms(3) by auto
  then show ?thesis using assms(4) by (auto simp: parseFrom_def Let_def)
qed

text \<open>Streams that transfer everything at once.\<close>

definition full_rfb :: "u8 list bafix" where
  "full_rfb s ba n =
     (case ba_write (take (unat n) s) ba of Ret _ ba' \<Rightarrow> (int (unat n), ba', drop (unat n) s) | _ \<Rightarrow> (-1, ba, s))"

definition full_wfb :: "u8 list bafix" where
  "full_wfb s ba n = (int (unat n), ba, s @ seg (m_position ba) (unat n) (content ba))"

lemma full_ba_good: "good_rfb full_rfb (\<lambda>s. s)" "good_wfb full_wfb (\<lambda>s. s)"
proof -
  show "good_rfb full_rfb (\<lambda>s. s)"
    unfolding good_rfb_def
  proof (intro allI impI)
    fix s :: "u8 list" and ba and n :: u64
    assume a: "ba_inv ba" "write_fits (unat n) ba" "0 < n" "unat n \<le> length s"
    then obtain ba' where "ba_write (take (unat n) s) ba = Ret () ba'" "written (take (unat n) s) ba ba'"
      using ba_write_ok [OF a(1), of "take (unat n) s"] by auto
    then show "\<exists>ba' s'. full_rfb s ba n = (int (unat n), ba', s') \<and> written (take (unat n) s) ba ba' \<and> s' = drop (unat n) s"
      by (simp add: full_rfb_def)
  qed
  show "good_wfb full_wfb (\<lambda>s. s)" by (simp add: good_wfb_def full_wfb_def)
qed

definition demo_msg :: message where
  "demo_msg = Notify \<lparr>n_notify = 7, n_body = [1, 2]\<rparr>"

lemma demo_msg_ok: "msg_ok demo_msg" "msg_bytes demo_msg = [3, 7, 0, 0, 0, 0, 0, 0, 0, 2, 1, 2]"
  by (simp add: demo_msg_def string_max_size_def) code_simp

theorem rock_roundtrip_witness:
  "\<exists>s'. serializeTo (\<lambda>_. 0) full_wf full_wfb (\<lambda>_. None) 4096 demo_msg [] = Ret 20 s' \<and>
     (\<exists>t'. parseFrom (\<lambda>_. 0) full_rf full_rfb (\<lambda>_. None) 65536 s' = Ret (Some demo_msg) t')"
proof -
  obtain s' where "serializeTo (\<lambda>_. 0) full_wf full_wfb (\<lambda>_. None) 4096 demo_msg [] = Ret 20 s'"
    "\<forall>t rest. t = s' @ rest \<longrightarrow> (\<exists>t'. parseFrom (\<lambda>_. 0) full_rf full_rfb (\<lambda>_. None) 65536 t = Ret (Some demo_msg) t' \<and> t' = rest)"
    using rock_roundtrip [OF full_good(2) full_ba_good(2) full_good(1) full_ba_good(1) demo_msg_ok(1),
        of 4096 65536 "\<lambda>_. 0" "\<lambda>_. None" "[]" "\<lambda>_. 0" "\<lambda>_. None"] by (auto simp: demo_msg_ok(2))
  then show ?thesis by (auto dest: spec [of _ "[]"])
qed

theorem rock_bad_header_witness:
  "\<exists>s'. parseFrom (\<lambda>_. 0) full_rf full_rfb (\<lambda>_. None) 65536 [0, 0, 1, 0, 0, 0, 0, 5, 9] = Ret None s' \<and> s' = [9]"
  using rock_bad_header [OF full_good(1), of "[0, 0, 1, 0, 0, 0, 0, 5, 9]" "[0, 0, 1, 0, 0, 0, 0, 5]" "[9]" 65536 "\<lambda>_. 0"
      full_rfb "\<lambda>_. None"]
  by (simp add: s_rock_magic_def)

end
