(* ===== verification/StdMap.thy ===== *)
theory StdMap
  imports Prelude
begin

text \<open>
  \<^verbatim>\<open>std::map\<close> with a user comparator: the entries in iteration order. The locale \<open>weak_order\<close> is
  the strict weak order the standard asks of a comparator (keys neither of which is less are the
  same key); its lemmas are the laws of lookup after insertion and removal. The locale
  \<open>value_store\<close> is what an object with named values promises its callers, and \<open>last_value\<close> the
  consequence its clients use.
\<close>

fun map_find :: "('k \<Rightarrow> 'k \<Rightarrow> bool) \<Rightarrow> 'k \<Rightarrow> ('k \<times> 'v) list \<Rightarrow> 'v option" where
  "map_find lt k [] = None"
| "map_find lt k ((k', v) # m) = (if lt k' k then map_find lt k m else if lt k k' then None else Some v)"

text \<open>\<^verbatim>\<open>m[k] = v\<close>: the value of an equivalent key is overwritten, the stored key stays.\<close>

fun map_set :: "('k \<Rightarrow> 'k \<Rightarrow> bool) \<Rightarrow> 'k \<Rightarrow> 'v \<Rightarrow> ('k \<times> 'v) list \<Rightarrow> ('k \<times> 'v) list" where
  "map_set lt k v [] = [(k, v)]"
| "map_set lt k v ((k', v') # m) =
     (if lt k' k then (k', v') # map_set lt k v m
      else if lt k k' then (k, v) # (k', v') # m else (k', v) # m)"

fun map_erase :: "('k \<Rightarrow> 'k \<Rightarrow> bool) \<Rightarrow> 'k \<Rightarrow> ('k \<times> 'v) list \<Rightarrow> ('k \<times> 'v) list" where
  "map_erase lt k [] = []"
| "map_erase lt k ((k', v') # m) =
     (if lt k' k then (k', v') # map_erase lt k m else if lt k k' then (k', v') # m else m)"

definition map_sorted :: "('k \<Rightarrow> 'k \<Rightarrow> bool) \<Rightarrow> ('k \<times> 'v) list \<Rightarrow> bool" where
  "map_sorted lt m \<longleftrightarrow> sorted_wrt lt (map fst m)"

lemma map_sorted_simps [simp]:
  "map_sorted lt []"
  "map_sorted lt (p # m) \<longleftrightarrow> (\<forall>q \<in> set m. lt (fst p) (fst q)) \<and> map_sorted lt m"
  by (auto simp: map_sorted_def)

locale weak_order =
  fixes lt :: "'k \<Rightarrow> 'k \<Rightarrow> bool"
  assumes irrefl: "\<not> lt x x"
    and trans: "lt x y \<Longrightarrow> lt y z \<Longrightarrow> lt x z"
    and weak: "lt x z \<Longrightarrow> lt x y \<or> lt y z"
begin

definition same :: "'k \<Rightarrow> 'k \<Rightarrow> bool" where
  "same x y \<longleftrightarrow> \<not> lt x y \<and> \<not> lt y x"

lemma asym: "lt x y \<Longrightarrow> \<not> lt y x"
  using irrefl trans by blast

lemma same_lt: "same x y \<Longrightarrow> lt x z = lt y z" "same x y \<Longrightarrow> lt z x = lt z y"
  using weak unfolding same_def by blast+

lemma same_sym: "same x y = same y x"
  by (auto simp: same_def)

lemma in_map_set: "q \<in> set (map_set lt k v m) \<Longrightarrow> q \<in> set m \<or> fst q = k \<or> fst q \<in> fst ` set m"
  by (induction m) (force split: if_splits)+

lemma sorted_map_set: "map_sorted lt m \<Longrightarrow> map_sorted lt (map_set lt k v m)"
proof (induction m)
  case (Cons p m)
  obtain k' v' where p: "p = (k', v')" by (cases p)
  have "\<forall>q \<in> set (map_set lt k v m). lt k' (fst q)" if "lt k' k"
    using Cons.prems p that by (auto dest!: in_map_set)
  then show ?case using Cons p by (auto intro: trans)
qed simp

lemma in_map_erase: "q \<in> set (map_erase lt k m) \<Longrightarrow> q \<in> set m"
  by (induction m) (auto split: if_splits)

lemma sorted_map_erase: "map_sorted lt m \<Longrightarrow> map_sorted lt (map_erase lt k m)"
  by (induction m) (fastforce dest: in_map_erase)+

lemma find_below: "\<forall>q \<in> set m. lt k (fst q) \<Longrightarrow> map_find lt k m = None"
  by (cases m) (auto dest: asym)

lemma find_set:
  "map_sorted lt m \<Longrightarrow> map_find lt k' (map_set lt k v m) = (if same k k' then Some v else map_find lt k' m)"
proof (induction m)
  case Nil
  then show ?case by (auto simp: same_def)
next
  case (Cons p m)
  obtain l w where p: "p = (l, w)" by (cases p)
  consider "lt l k" | "\<not> lt l k" "lt k l" | "same l k" by (auto simp: same_def)
  then show ?case
  proof cases
    case 1
    have "same k k' \<Longrightarrow> lt l k'" using 1 same_lt(2) by blast
    then show ?thesis using 1 Cons p by (auto dest: asym)
  next
    case 2
    have "lt k k' \<or> lt k' l" if "\<not> lt k' k" using 2 weak by blast
    then show ?thesis using 2 p by (auto simp: same_def dest: trans weak)
  next
    case 3
    then have "\<not> lt l k" "\<not> lt k l" by (auto simp: same_def)
    then show ?thesis using p same_lt [OF 3, of k'] by (auto simp: same_def)
  qed
qed

lemma find_erase:
  "map_sorted lt m \<Longrightarrow> map_find lt k' (map_erase lt k m) = (if same k k' then None else map_find lt k' m)"
proof (induction m)
  case (Cons p m)
  obtain l w where p: "p = (l, w)" by (cases p)
  consider "lt l k" | "\<not> lt l k" "lt k l" | "same l k" by (auto simp: same_def)
  then show ?case
  proof cases
    case 1
    have "same k k' \<Longrightarrow> lt l k'" using 1 same_lt(2) by blast
    then show ?thesis using 1 Cons p by (auto dest: asym)
  next
    case 2
    have "lt k' l" if "same k k'" using 2(2) same_lt(1) [OF that] by blast
    then show ?thesis using 2 p by (auto dest: asym)
  next
    case 3
    have below: "map_find lt k' m = None" if "same k k' \<or> lt k' l"
    proof (rule find_below, intro ballI)
      fix q assume q: "q \<in> set m"
      then have "lt l (fst q)" using Cons.prems p by auto
      then show "lt k' (fst q)" using that same_lt(1) [OF 3] same_lt(1) [of k k'] trans by blast
    qed
    have "same k k' \<longleftrightarrow> same l k'" using same_lt [OF 3] by (simp add: same_def)
    then show ?thesis using 3 p below by (auto simp: same_def)
  qed
qed (simp add: same_def)

end

locale value_store =
  fixes get_value :: "'o \<Rightarrow> 'k \<Rightarrow> 'v option"
    and set_value :: "'k \<Rightarrow> 'v \<Rightarrow> 'o \<Rightarrow> 'o"
    and inv :: "'o \<Rightarrow> bool"
    and key_eq :: "'k \<Rightarrow> 'k \<Rightarrow> bool"
  assumes set_inv: "inv ob \<Longrightarrow> inv (set_value k v ob)"
    and get_set: "inv ob \<Longrightarrow> get_value (set_value k v ob) k' = (if key_eq k k' then Some v else get_value ob k')"
begin

lemma set_all_inv: "inv ob \<Longrightarrow> inv (fold (\<lambda>(k, v). set_value k v) kvs ob)"
  by (induction kvs arbitrary: ob) (auto simp: set_inv)

text \<open>After a sequence of assignments a key has the value of the last one to it.\<close>

lemma last_value:
  "inv ob \<Longrightarrow> get_value (fold (\<lambda>(k, v). set_value k v) kvs ob) k' =
     (case find (\<lambda>(k, v). key_eq k k') (rev kvs) of Some (k, v) \<Rightarrow> Some v | None \<Rightarrow> get_value ob k')"
proof (induction kvs rule: rev_induct)
  case (snoc p kvs)
  then show ?case using set_all_inv [of ob kvs] by (cases p) (auto simp: get_set)
qed simp

end

locale erasable_store = value_store +
  fixes del_value :: "'b \<Rightarrow> 'a \<Rightarrow> 'a"
  assumes del_inv: "inv ob \<Longrightarrow> inv (del_value k ob)"
    and get_del: "inv ob \<Longrightarrow> get_value (del_value k ob) k' = (if key_eq k k' then None else get_value ob k')"
begin

lemma del_after_set: "inv ob \<Longrightarrow> get_value (del_value k (set_value k v ob)) k' = get_value (del_value k ob) k'"
  by (simp add: get_del get_set set_inv)

end

end
