(* ===== verification/Http.thy ===== *)
theory Http
  imports StdMap "HOL-Library.Sublist"
begin

text \<open>
  \<^verbatim>\<open>src/cxk/http/http.h\<close> and \<^verbatim>\<open>http.cpp\<close>: methods and status codes, requests and responses. A
  \<^verbatim>\<open>std::string\<close> is a \<open>string\<close>. The X-macro tables are lists; an enum value is its number (\<^verbatim>\<open>(HttpStatus)\<close>
  casts make values outside the table). The header, parameter and cookie maps are \<^verbatim>\<open>std::map\<close>s
  ordered by \<open>CaseInsensitiveLess\<close>. \<^verbatim>\<open>boost::lexical_cast\<close> is a parameter.
\<close>

section \<open>Methods and status codes\<close>

definition HTTP_METHOD_MAP :: "(nat \<times> string) list" where
  "HTTP_METHOD_MAP =
    [(0, ''DELETE''), (1, ''GET''), (2, ''HEAD''), (3, ''POST''), (4, ''PUT''), (5, ''CONNECT''),
     (6, ''OPTIONS''), (7, ''TRACE''), (8, ''COPY''), (9, ''LOCK''), (10, ''MKCOL''), (11, ''MOVE''),
     (12, ''PROPFIND''), (13, ''PROPPATCH''), (14, ''SEARCH''), (15, ''UNLOCK''), (16, ''BIND''),
     (17, ''REBIND''), (18, ''UNBIND''), (19, ''ACL''), (20, ''REPORT''), (21, ''MKACTIVITY''),
     (22, ''CHECKOUT''), (23, ''MERGE''), (24, ''M-SEARCH''), (25, ''NOTIFY''), (26, ''SUBSCRIBE''),
     (27, ''UNSUBSCRIBE''), (28, ''PATCH''), (29, ''PURGE''), (30, ''MKCALENDAR''), (31, ''LINK''),
     (32, ''UNLINK''), (33, ''SOURCE'')]"

definition HTTP_STATUS_MAP :: "(int \<times> string) list" where
  "HTTP_STATUS_MAP =
    [(100, ''Continue''), (101, ''Switching Protocols''), (102, ''Processing''), (200, ''OK''),
     (201, ''Created''), (202, ''Accepted''), (203, ''Non-Authoritative Information''), (204, ''No Content''),
     (205, ''Reset Content''), (206, ''Partial Content''), (207, ''Multi-Status''), (208, ''Already Reported''),
     (226, ''IM Used''), (300, ''Multiple Choices''), (301, ''Moved Permanently''), (302, ''Found''),
     (303, ''See Other''), (304, ''Not Modified''), (305, ''Use Proxy''), (307, ''Temporary Redirect''),
     (308, ''Permanent Redirect''), (400, ''Bad Request''), (401, ''Unauthorized''), (402, ''Payment Required''),
     (403, ''Forbidden''), (404, ''Not Found''), (405, ''Method Not Allowed''), (406, ''Not Acceptable''),
     (407, ''Proxy Authentication Required''), (408, ''Request Timeout''), (409, ''Conflict''), (410, ''Gone''),
     (411, ''Length Required''), (412, ''Precondition Failed''), (413, ''Payload Too Large''),
     (414, ''URI Too Long''), (415, ''Unsupported Media Type''), (416, ''Range Not Satisfiable''),
     (417, ''Expectation Failed''), (421, ''Misdirected Request''), (422, ''Unprocessable Entity''),
     (423, ''Locked''), (424, ''Failed Dependency''), (426, ''Upgrade Required''),
     (428, ''Precondition Required''), (429, ''Too Many Requests''), (431, ''Request Header Fields Too Large''),
     (451, ''Unavailable For Legal Reasons''), (500, ''Internal Server Error''), (501, ''Not Implemented''),
     (502, ''Bad Gateway''), (503, ''Service Unavailable''), (504, ''Gateway Timeout''),
     (505, ''HTTP Version Not Supported''), (506, ''Variant Also Negotiates''), (507, ''Insufficient Storage''),
     (508, ''Loop Detected''), (510, ''Not Extended''), (511, ''Network Authentication Required'')]"

definition INVALID_METHOD :: nat where
  "INVALID_METHOD = length HTTP_METHOD_MAP"

definition c_string :: "string \<Rightarrow> string" where
  "c_string s = takeWhile (\<lambda>c. c \<noteq> CHR 0x00) s"

definition StringToHttpMethod :: "string \<Rightarrow> nat" where
  "StringToHttpMethod m =
     (case find (\<lambda>(num, name). name = c_string m) HTTP_METHOD_MAP of Some (num, _) \<Rightarrow> num | None \<Rightarrow> INVALID_METHOD)"

text \<open>\<^verbatim>\<open>strncmp(#string, m, strlen(#string)) == 0\<close>: the name is a prefix of the text at \<open>m\<close>.\<close>

definition CharsTohttpMethod :: "string \<Rightarrow> nat" where
  "CharsTohttpMethod m =
     (case find (\<lambda>(num, name). prefix name (c_string m)) HTTP_METHOD_MAP of Some (num, _) \<Rightarrow> num | None \<Rightarrow> INVALID_METHOD)"

definition HttpMethodToString :: "nat \<Rightarrow> string" where
  "HttpMethodToString m = (if m \<ge> length HTTP_METHOD_MAP then ''<unknown>'' else snd (HTTP_METHOD_MAP ! m))"

definition HttpStatusToString :: "int \<Rightarrow> string" where
  "HttpStatusToString s = (case find (\<lambda>(code, msg). code = s) HTTP_STATUS_MAP of Some (_, msg) \<Rightarrow> msg | None \<Rightarrow> ''<unknown>'')"

section \<open>Case-insensitive keys\<close>

definition tolower :: "char \<Rightarrow> nat" where
  "tolower c = (let n = of_char c in if 65 \<le> n \<and> n \<le> 90 then n + 32 else n)"

definition fold_case :: "string \<Rightarrow> nat list" where
  "fold_case s = map tolower (c_string s)"

fun bytes_less :: "nat list \<Rightarrow> nat list \<Rightarrow> bool" where
  "bytes_less [] [] = False"
| "bytes_less [] (y # ys) = True"
| "bytes_less (x # xs) [] = False"
| "bytes_less (x # xs) (y # ys) = (x < y \<or> x = y \<and> bytes_less xs ys)"

text \<open>\<^verbatim>\<open>strcasecmp(lhs, rhs) < 0\<close>.\<close>

definition CaseInsensitiveLess :: "string \<Rightarrow> string \<Rightarrow> bool" where
  "CaseInsensitiveLess lhs rhs = bytes_less (fold_case lhs) (fold_case rhs)"

type_synonym MapType = "(string \<times> string) list"

lemma bytes_less_order:
  "\<not> bytes_less x x" "bytes_less x y \<Longrightarrow> bytes_less y z \<Longrightarrow> bytes_less x z" "bytes_less x y \<or> x = y \<or> bytes_less y x"
proof -
  show "\<not> bytes_less x x" by (induction x) auto
  show "bytes_less x y \<Longrightarrow> bytes_less y z \<Longrightarrow> bytes_less x z"
  proof (induction x y arbitrary: z rule: bytes_less.induct)
    case (4 a xs b ys)
    then show ?case by (cases z) auto
  qed (case_tac z; simp)+
  show "bytes_less x y \<or> x = y \<or> bytes_less y x" by (induction x y rule: bytes_less.induct) auto
qed

interpretation ci: weak_order CaseInsensitiveLess
  using bytes_less_order by unfold_locales (auto simp: CaseInsensitiveLess_def, metis+)

lemma ci_same [simp]: "ci.same k k' \<longleftrightarrow> fold_case k = fold_case k'"
  using bytes_less_order(1) [of "fold_case k'"] bytes_less_order(3) [of "fold_case k" "fold_case k'"]
  by (auto simp: ci.same_def CaseInsensitiveLess_def)

section \<open>Typed access\<close>

definition checkGetAs :: "(string \<Rightarrow> 't option) \<Rightarrow> MapType \<Rightarrow> string \<Rightarrow> 't \<Rightarrow> bool \<times> 't" where
  "checkGetAs lexical_cast m key def =
     (case map_find CaseInsensitiveLess key m of
        None \<Rightarrow> (False, def)
      | Some s \<Rightarrow> (case lexical_cast s of Some v \<Rightarrow> (True, v) | None \<Rightarrow> (False, def)))"

definition getAs :: "(string \<Rightarrow> 't option) \<Rightarrow> MapType \<Rightarrow> string \<Rightarrow> 't \<Rightarrow> 't" where
  "getAs lexical_cast m key def =
     (case map_find CaseInsensitiveLess key m of
        None \<Rightarrow> def
      | Some s \<Rightarrow> (case lexical_cast s of Some v \<Rightarrow> v | None \<Rightarrow> def))"

section \<open>Requests\<close>

text \<open>The constructor leaves \<^verbatim>\<open>m_status\<close> of a request unset: its value is the argument \<open>junk\<close>.\<close>

record http_request =
  q_method :: nat
  q_status :: int
  q_version :: u8
  q_close :: bool
  q_websocket :: bool
  q_path :: string
  q_query :: string
  q_fragment :: string
  q_body :: string
  q_headers :: MapType
  q_params :: MapType
  q_cookies :: MapType

definition new_HttpRequest :: "int \<Rightarrow> u8 \<Rightarrow> bool \<Rightarrow> http_request" where
  "new_HttpRequest junk version close =
     \<lparr>q_method = 1, q_status = junk, q_version = version, q_close = close, q_websocket = False, q_path = ''/'',
      q_query = [], q_fragment = [], q_body = [], q_headers = [], q_params = [], q_cookies = []\<rparr>"

definition req_getHeader :: "string \<Rightarrow> string \<Rightarrow> http_request \<Rightarrow> string" where
  "req_getHeader key def r = (case map_find CaseInsensitiveLess key (q_headers r) of None \<Rightarrow> def | Some v \<Rightarrow> v)"

definition req_getParam :: "string \<Rightarrow> string \<Rightarrow> http_request \<Rightarrow> string" where
  "req_getParam key def r = (case map_find CaseInsensitiveLess key (q_params r) of None \<Rightarrow> def | Some v \<Rightarrow> v)"

definition req_getCookie :: "string \<Rightarrow> string \<Rightarrow> http_request \<Rightarrow> string" where
  "req_getCookie key def r = (case map_find CaseInsensitiveLess key (q_cookies r) of None \<Rightarrow> def | Some v \<Rightarrow> v)"

definition req_setHeader :: "string \<Rightarrow> string \<Rightarrow> http_request \<Rightarrow> http_request" where
  "req_setHeader key val r = r\<lparr>q_headers := map_set CaseInsensitiveLess key val (q_headers r)\<rparr>"

definition req_setParam :: "string \<Rightarrow> string \<Rightarrow> http_request \<Rightarrow> http_request" where
  "req_setParam key val r = r\<lparr>q_params := map_set CaseInsensitiveLess key val (q_params r)\<rparr>"

definition req_setCookie :: "string \<Rightarrow> string \<Rightarrow> http_request \<Rightarrow> http_request" where
  "req_setCookie key val r = r\<lparr>q_cookies := map_set CaseInsensitiveLess key val (q_cookies r)\<rparr>"

definition req_delHeader :: "string \<Rightarrow> http_request \<Rightarrow> http_request" where
  "req_delHeader key r = r\<lparr>q_headers := map_erase CaseInsensitiveLess key (q_headers r)\<rparr>"

definition req_delParam :: "string \<Rightarrow> http_request \<Rightarrow> http_request" where
  "req_delParam key r = r\<lparr>q_headers := map_erase CaseInsensitiveLess key (q_headers r)\<rparr>"

definition req_delCookie :: "string \<Rightarrow> http_request \<Rightarrow> http_request" where
  "req_delCookie key r = r\<lparr>q_cookies := map_erase CaseInsensitiveLess key (q_cookies r)\<rparr>"

text \<open>\<open>hasHeader\<close> and the others: whether the key is there, and what \<^verbatim>\<open>*val\<close> is left as.\<close>

definition has_key :: "string \<Rightarrow> string \<Rightarrow> MapType \<Rightarrow> bool \<times> string" where
  "has_key key val m = (case map_find CaseInsensitiveLess key m of None \<Rightarrow> (False, val) | Some v \<Rightarrow> (True, v))"

definition req_hasHeader :: "string \<Rightarrow> string \<Rightarrow> http_request \<Rightarrow> bool \<times> string" where
  "req_hasHeader key val r = has_key key val (q_headers r)"

definition req_hasParam :: "string \<Rightarrow> string \<Rightarrow> http_request \<Rightarrow> bool \<times> string" where
  "req_hasParam key val r = has_key key val (q_params r)"

definition req_hasCookie :: "string \<Rightarrow> string \<Rightarrow> http_request \<Rightarrow> bool \<times> string" where
  "req_hasCookie key val r = has_key key val (q_cookies r)"

section \<open>Responses\<close>

record http_response =
  p_status :: int
  p_version :: u8
  p_close :: bool
  p_websocket :: bool
  p_body :: string
  p_reason :: string
  p_headers :: MapType

definition new_HttpResponse :: "u8 \<Rightarrow> bool \<Rightarrow> http_response" where
  "new_HttpResponse version close =
     \<lparr>p_status = 200, p_version = version, p_close = close, p_websocket = False, p_body = [], p_reason = [],
      p_headers = []\<rparr>"

definition createResponse :: "http_request \<Rightarrow> http_response" where
  "createResponse r = new_HttpResponse (q_version r) (q_close r)"

definition rsp_getHeader :: "string \<Rightarrow> string \<Rightarrow> http_response \<Rightarrow> string" where
  "rsp_getHeader key def r = (case map_find CaseInsensitiveLess key (p_headers r) of None \<Rightarrow> def | Some v \<Rightarrow> v)"

definition rsp_setHeader :: "string \<Rightarrow> string \<Rightarrow> http_response \<Rightarrow> http_response" where
  "rsp_setHeader key val r = r\<lparr>p_headers := map_set CaseInsensitiveLess key val (p_headers r)\<rparr>"

definition rsp_delHeader :: "string \<Rightarrow> http_response \<Rightarrow> http_response" where
  "rsp_delHeader key r = r\<lparr>p_headers := map_erase CaseInsensitiveLess key (p_headers r)\<rparr>"

section \<open>Serialisation\<close>

fun dec :: "nat \<Rightarrow> string" where
  "dec n = (if n < 10 then [char_of (48 + n)] else dec (n div 10) @ [char_of (48 + n mod 10)])"

declare dec.simps [simp del]

definition CRLF :: string where
  "CRLF = [CHR 0x0D, CHR 0x0A]"

definition dump_version :: "u8 \<Rightarrow> string" where
  "dump_version v = dec (unat (drop_bit 4 v)) @ ''.'' @ dec (unat (v AND 0x0F))"

definition dump_connection :: "bool \<Rightarrow> bool \<Rightarrow> string" where
  "dump_connection websocket close =
     (if \<not> websocket then ''connection: '' @ (if close then ''close'' else ''keep-alive'') @ CRLF else [])"

fun dump_headers :: "bool \<Rightarrow> MapType \<Rightarrow> string" where
  "dump_headers websocket [] = []"
| "dump_headers websocket ((k, v) # m) =
     (if \<not> websocket \<and> fold_case k = fold_case ''connection'' then [] else k @ '': '' @ v @ CRLF)
     @ dump_headers websocket m"

definition dump_body :: "string \<Rightarrow> string" where
  "dump_body body = (if body \<noteq> [] then ''content-length: '' @ dec (length body) @ CRLF @ CRLF @ body else CRLF)"

definition dump_request :: "http_request \<Rightarrow> string" where
  "dump_request r =
     HttpMethodToString (q_method r) @ '' '' @ q_path r
     @ (if q_query r = [] then [] else ''?'') @ q_query r
     @ (if q_fragment r = [] then [] else ''#'') @ q_fragment r
     @ '' HTTP/'' @ dump_version (q_version r) @ CRLF
     @ dump_connection (q_websocket r) (q_close r)
     @ dump_headers (q_websocket r) (q_headers r)
     @ dump_body (q_body r)"

definition dump_response :: "http_response \<Rightarrow> string" where
  "dump_response r =
     ''HTTP/'' @ dump_version (p_version r) @ '' '' @ dec (nat (p_status r mod 2 ^ 32)) @ '' ''
     @ (if p_reason r = [] then HttpStatusToString (p_status r) else p_reason r) @ CRLF
     @ dump_headers (p_websocket r) (p_headers r)
     @ dump_connection (p_websocket r) (p_close r)
     @ dump_body (p_body r)"

section \<open>The maps as stores of named values\<close>

definition same_key :: "string \<Rightarrow> string \<Rightarrow> bool" where
  "same_key k k' \<longleftrightarrow> fold_case k = fold_case k'"

abbreviation sorted_keys :: "MapType \<Rightarrow> bool" where
  "sorted_keys m \<equiv> map_sorted CaseInsensitiveLess m"

definition request_ok :: "http_request \<Rightarrow> bool" where
  "request_ok r \<longleftrightarrow> sorted_keys (q_headers r) \<and> sorted_keys (q_params r) \<and> sorted_keys (q_cookies r)"

definition response_ok :: "http_response \<Rightarrow> bool" where
  "response_ok r \<longleftrightarrow> sorted_keys (p_headers r)"

lemmas store_defs = request_ok_def response_ok_def same_key_def req_setHeader_def req_setParam_def req_setCookie_def
  req_delHeader_def req_delParam_def req_delCookie_def rsp_setHeader_def rsp_delHeader_def
  ci.find_set ci.find_erase ci.sorted_map_set ci.sorted_map_erase

interpretation req_headers: erasable_store "\<lambda>r k. map_find CaseInsensitiveLess k (q_headers r)" req_setHeader request_ok
  same_key req_delHeader
  by unfold_locales (auto simp: store_defs)

interpretation req_cookies: erasable_store "\<lambda>r k. map_find CaseInsensitiveLess k (q_cookies r)" req_setCookie request_ok
  same_key req_delCookie
  by unfold_locales (auto simp: store_defs)

interpretation req_params: value_store "\<lambda>r k. map_find CaseInsensitiveLess k (q_params r)" req_setParam request_ok
  same_key
  by unfold_locales (auto simp: store_defs)

interpretation rsp_headers: erasable_store "\<lambda>r k. map_find CaseInsensitiveLess k (p_headers r)" rsp_setHeader response_ok
  same_key rsp_delHeader
  by unfold_locales (auto simp: store_defs)

lemma new_ok [simp]: "request_ok (new_HttpRequest junk version close)" "response_ok (new_HttpResponse version close)"
  by (simp_all add: request_ok_def response_ok_def new_HttpRequest_def new_HttpResponse_def)

section \<open>Method names\<close>

lemma names_parallel:
  "sorted_wrt (\<lambda>a b. \<not> prefix a b \<and> \<not> prefix b a) (map snd HTTP_METHOD_MAP)"
  by (simp add: HTTP_METHOD_MAP_def)

lemma method_numbers: "map fst HTTP_METHOD_MAP = [0..<34]"
  by (simp add: HTTP_METHOD_MAP_def upt_rec)

lemma method_count [simp]: "length HTTP_METHOD_MAP = 34"
  by (simp add: HTTP_METHOD_MAP_def)

lemma names_no_nul: "(num, name) \<in> set HTTP_METHOD_MAP \<Longrightarrow> c_string (name @ s) = name @ c_string s"
  unfolding c_string_def by (rule takeWhile_append2) (auto simp: HTTP_METHOD_MAP_def)

lemma method_nth: "i < 34 \<Longrightarrow> fst (HTTP_METHOD_MAP ! i) = i"
  using method_numbers nth_map [of i HTTP_METHOD_MAP fst] by simp

lemma names_differ:
  assumes "j < i" and "i < 34"
  shows "\<not> prefix (snd (HTTP_METHOD_MAP ! j)) (snd (HTTP_METHOD_MAP ! i) @ s)"
proof -
  have "\<not> prefix (snd (HTTP_METHOD_MAP ! j)) (snd (HTTP_METHOD_MAP ! i))"
    "\<not> prefix (snd (HTTP_METHOD_MAP ! i)) (snd (HTTP_METHOD_MAP ! j))"
    using names_parallel assms by (auto simp: sorted_wrt_iff_nth_less)
  then show ?thesis by (meson prefixI prefix_same_cases)
qed

lemma find_method:
  assumes "i < 34" and "snd (HTTP_METHOD_MAP ! i) = name"
  shows "find (\<lambda>(num, n). prefix n (name @ s)) HTTP_METHOD_MAP = Some (i, name)"
    "find (\<lambda>(num, n). n = name) HTTP_METHOD_MAP = Some (i, name)"
proof -
  have i: "HTTP_METHOD_MAP ! i = (i, name)" using method_nth assms by (metis prod.collapse)
  have "\<not> prefix (snd (HTTP_METHOD_MAP ! j)) (name @ s)" "snd (HTTP_METHOD_MAP ! j) \<noteq> name" if "j < i" for j
    using names_differ [OF that assms(1)] names_differ [OF that assms(1), of "[]"] assms(2) by auto
  then show "find (\<lambda>(num, n). prefix n (name @ s)) HTTP_METHOD_MAP = Some (i, name)"
    "find (\<lambda>(num, n). n = name) HTTP_METHOD_MAP = Some (i, name)"
    using i assms(1) by (auto simp: find_Some_iff case_prod_unfold intro!: exI [of _ i])
qed

lemma find_mem: "find P xs = Some x \<Longrightarrow> x \<in> set xs \<and> P x"
  by (auto simp: find_Some_iff)

lemma method_valid: "(num, name) \<in> set HTTP_METHOD_MAP \<Longrightarrow> num < 34"
  using method_numbers by (metis atLeastLessThan_iff fst_conv image_eqI image_set set_upt)

section \<open>Reading a serialised message\<close>

text \<open>A reader of message heads, to say what the serialisation denotes.\<close>

fun read_line :: "string \<Rightarrow> string \<times> string" where
  "read_line [] = ([], [])"
| "read_line (c # s) =
     (if c = CHR 0x0D \<and> take 1 s = [CHR 0x0A] then ([], tl s) else let (l, r) = read_line s in (c # l, r))"

lemma read_line_length: "fst (read_line s) \<noteq> [] \<Longrightarrow> length (snd (read_line s)) < length s"
proof -
  have le: "length (snd (read_line s)) \<le> length s" for s
    by (induction s) (auto simp: Let_def split: prod.splits)
  show "fst (read_line s) \<noteq> [] \<Longrightarrow> ?thesis"
    using le [of "tl s"] by (cases s) (auto simp: Let_def less_Suc_eq_le split: prod.splits if_splits)
qed

definition read_field :: "string \<Rightarrow> string \<times> string" where
  "read_field l = (takeWhile (\<lambda>c. c \<noteq> CHR '':'') l, drop 2 (dropWhile (\<lambda>c. c \<noteq> CHR '':'') l))"

function read_fields :: "string \<Rightarrow> (string \<times> string) list \<times> string" where
  "read_fields s =
     (if fst (read_line s) = [] then ([], snd (read_line s))
      else let (fs, body) = read_fields (snd (read_line s)) in (read_field (fst (read_line s)) # fs, body))"
  by pat_completeness auto
termination
  by (relation "measure length") (auto simp: read_line_length)

declare read_fields.simps [simp del]

definition read_message :: "string \<Rightarrow> string \<times> (string \<times> string) list \<times> string" where
  "read_message s = (let (start, rest) = read_line s in (start, read_fields rest))"

definition clean :: "string \<Rightarrow> bool" where
  "clean s \<longleftrightarrow> CHR 0x0D \<notin> set s"

lemma clean_simps [simp]: "clean []" "clean (c # s) \<longleftrightarrow> c \<noteq> CHR 0x0D \<and> clean s" "clean (s @ t) \<longleftrightarrow> clean s \<and> clean t"
  by (auto simp: clean_def)

lemma clean_dec [simp]: "clean (dec n)"
proof (induction n rule: dec.induct)
  case (1 n)
  have "char_of (48 + d) \<noteq> CHR 0x0D" if "d < 10" for d :: nat
  proof
    assume "char_of (48 + d) = CHR 0x0D"
    then have "of_char (char_of (48 + d) :: char) = (of_char (CHR 0x0D) :: nat)" by simp
    then show False using that by simp
  qed
  then show ?case using 1 by (simp add: dec.simps [of n])
qed

lemma read_line_CRLF [simp]: "clean l \<Longrightarrow> read_line (l @ CRLF @ s) = (l, s)"
  by (induction l) (auto simp: CRLF_def)

lemma read_line_blank [simp]: "read_line (CRLF @ s) = ([], s)" "read_line CRLF = ([], [])"
  by (simp_all add: CRLF_def)

lemma read_fields_blank [simp]: "read_fields (CRLF @ s) = ([], s)" "read_fields CRLF = ([], [])"
  by (simp_all add: read_fields.simps)

text \<open>A field that can be read back: no line break, and a non-empty name without a colon.\<close>

definition field_ok :: "string \<times> string \<Rightarrow> bool" where
  "field_ok f \<longleftrightarrow> clean (fst f) \<and> clean (snd f) \<and> CHR '':'' \<notin> set (fst f)"

lemma read_field_line: "CHR '':'' \<notin> set k \<Longrightarrow> read_field (k @ '': '' @ v) = (k, v)"
  by (induction k) (auto simp: read_field_def)

lemma read_fields_line [simp]:
  assumes "field_ok (k, v)"
  shows "read_fields (k @ '': '' @ v @ CRLF @ s) = (let (fs, body) = read_fields s in ((k, v) # fs, body))"
proof -
  have "read_line ((k @ '': '' @ v) @ CRLF @ s) = (k @ '': '' @ v, s)"
    using assms by (intro read_line_CRLF) (simp add: field_ok_def)
  then show ?thesis
    using assms read_field_line [of k v] by (subst read_fields.simps) (simp add: field_ok_def)
qed

definition connection_field :: "bool \<Rightarrow> bool \<Rightarrow> MapType" where
  "connection_field websocket close = (if websocket then [] else [(''connection'', if close then ''close'' else ''keep-alive'')])"

definition kept_headers :: "bool \<Rightarrow> MapType \<Rightarrow> MapType" where
  "kept_headers websocket m = filter (\<lambda>(k, v). websocket \<or> \<not> same_key k ''connection'') m"

definition length_field :: "string \<Rightarrow> MapType" where
  "length_field body = (if body = [] then [] else [(''content-length'', dec (length body))])"

lemma read_dump_headers:
  "\<forall>f \<in> set m. field_ok f \<Longrightarrow>
   read_fields (dump_headers websocket m @ s) = (let (fs, body) = read_fields s in (kept_headers websocket m @ fs, body))"
  by (induction m) (auto simp: kept_headers_def same_key_def read_fields_line [simplified] split: prod.splits)

lemma read_dump_connection:
  "read_fields (dump_connection websocket close @ s) =
     (let (fs, body) = read_fields s in (connection_field websocket close @ fs, body))"
  using read_fields_line [of "''connection''" "if close then ''close'' else ''keep-alive''" s]
  by (auto simp: dump_connection_def connection_field_def field_ok_def)

lemma read_dump_body: "read_fields (dump_body body) = (length_field body, body)"
  using read_fields_line [of "''content-length''" "dec (length body)" "CRLF @ body"]
  by (auto simp: dump_body_def length_field_def field_ok_def)

lemma clean_names [simp]: "clean (HttpMethodToString m)" "clean (HttpStatusToString s)"
proof -
  have "\<forall>p \<in> set HTTP_METHOD_MAP. clean (snd p)" "\<forall>p \<in> set HTTP_STATUS_MAP. clean (snd p)"
    by (simp_all add: HTTP_METHOD_MAP_def HTTP_STATUS_MAP_def)
  then show "clean (HttpMethodToString m)" "clean (HttpStatusToString s)"
    by (auto simp: HttpMethodToString_def HttpStatusToString_def find_Some_iff split: option.splits)
      (metis nth_mem snd_conv)
qed

lemma clean_version [simp]: "clean (dump_version v)"
  by (simp add: dump_version_def)

lemmas read_dumps = read_dump_headers read_dump_connection read_dump_body

section \<open>Properties\<close>

text \<open>A request or response whose texts hold no carriage return and whose header names hold no colon is
  serialised so that a reader of the head gets back the start line, the fields (the connection field from the
  flag, the headers in order without any other connection field, the content length exactly when there is a
  body) and the body.\<close>

theorem message_roundtrip:
  assumes "clean (q_path q)" and "clean (q_query q)" and "clean (q_fragment q)" and "clean (p_reason p)"
    and "\<forall>f \<in> set (q_headers q). field_ok f" and "\<forall>f \<in> set (p_headers p). field_ok f"
  shows "read_message (dump_request q) =
      (HttpMethodToString (q_method q) @ '' '' @ q_path q @ (if q_query q = [] then [] else ''?'') @ q_query q
         @ (if q_fragment q = [] then [] else ''#'') @ q_fragment q @ '' HTTP/'' @ dump_version (q_version q),
       connection_field (q_websocket q) (q_close q) @ kept_headers (q_websocket q) (q_headers q) @ length_field (q_body q),
       q_body q) \<and>
    read_message (dump_response p) =
      (''HTTP/'' @ dump_version (p_version p) @ '' '' @ dec (nat (p_status p mod 2 ^ 32)) @ '' ''
         @ (if p_reason p = [] then HttpStatusToString (p_status p) else p_reason p),
       kept_headers (p_websocket p) (p_headers p) @ connection_field (p_websocket p) (p_close p) @ length_field (p_body p),
       p_body p)"
proof
  let ?q = "HttpMethodToString (q_method q) @ '' '' @ q_path q @ (if q_query q = [] then [] else ''?'') @ q_query q
         @ (if q_fragment q = [] then [] else ''#'') @ q_fragment q @ '' HTTP/'' @ dump_version (q_version q)"
  have "read_line (?q @ CRLF @ s) = (?q, s)" for s using assms(1-3) by (intro read_line_CRLF) simp
  then show "read_message (dump_request q) = (?q,
       connection_field (q_websocket q) (q_close q) @ kept_headers (q_websocket q) (q_headers q) @ length_field (q_body q),
       q_body q)"
    using assms(5) by (simp add: read_message_def dump_request_def read_dumps)
  let ?p = "''HTTP/'' @ dump_version (p_version p) @ '' '' @ dec (nat (p_status p mod 2 ^ 32)) @ '' ''
         @ (if p_reason p = [] then HttpStatusToString (p_status p) else p_reason p)"
  have "read_line (?p @ CRLF @ s) = (?p, s)" for s using assms(4) by (intro read_line_CRLF) simp
  then show "read_message (dump_response p) = (?p,
       kept_headers (p_websocket p) (p_headers p) @ connection_field (p_websocket p) (p_close p) @ length_field (p_body p),
       p_body p)"
    using assms(6) by (simp add: read_message_def dump_response_def read_dumps)
qed

definition demo_request :: http_request where
  "demo_request = (new_HttpRequest 0 0x11 True)
     \<lparr>q_headers := [(''Connection'', ''x''), (''Host'', ''h'')], q_params := [(''a'', ''b'')], q_body := ''ok''\<rparr>"

theorem message_roundtrip_witness:
  "fst (snd (read_message (dump_request demo_request))) =
     [(''connection'', ''close''), (''Host'', ''h''), (''content-length'', ''2'')]"
  using message_roundtrip [of demo_request "new_HttpResponse 0x11 True"]
  by (simp add: demo_request_def new_HttpRequest_def new_HttpResponse_def field_ok_def connection_field_def
      kept_headers_def length_field_def same_key_def fold_case_def c_string_def tolower_def dec.simps char_of_def bit_Suc_0_iff)

text \<open>Header, parameter and cookie lookup ignores case: after any sequence of assignments and then the removal
  of one key, a header has the value last assigned to a name equal up to case, unless that is the removed
  one; parameters the last value assigned.\<close>

theorem header_ops_exact:
  "req_getHeader k d (req_delHeader k' (fold (\<lambda>(k, v). req_setHeader k v) kvs (new_HttpRequest junk version close))) =
     (if same_key k' k then d
      else case find (\<lambda>(k', v). same_key k' k) (rev kvs) of Some (_, v) \<Rightarrow> v | None \<Rightarrow> d) \<and>
   req_getCookie k d (req_delCookie k' (fold (\<lambda>(k, v). req_setCookie k v) kvs (new_HttpRequest junk version close))) =
     (if same_key k' k then d
      else case find (\<lambda>(k', v). same_key k' k) (rev kvs) of Some (_, v) \<Rightarrow> v | None \<Rightarrow> d) \<and>
   rsp_getHeader k d (rsp_delHeader k' (fold (\<lambda>(k, v). rsp_setHeader k v) kvs (new_HttpResponse version close))) =
     (if same_key k' k then d
      else case find (\<lambda>(k', v). same_key k' k) (rev kvs) of Some (_, v) \<Rightarrow> v | None \<Rightarrow> d) \<and>
   req_getParam k d (fold (\<lambda>(k, v). req_setParam k v) kvs (new_HttpRequest junk version close)) =
     (case find (\<lambda>(k', v). same_key k' k) (rev kvs) of Some (_, v) \<Rightarrow> v | None \<Rightarrow> d)"
proof -
  let ?q = "new_HttpRequest junk version close" and ?p = "new_HttpResponse version close"
  note last = req_headers.last_value [of ?q] req_cookies.last_value [of ?q] rsp_headers.last_value [of ?p]
    req_params.last_value [of ?q]
  have "map_find CaseInsensitiveLess k (q_headers ?q) = None" "map_find CaseInsensitiveLess k (q_cookies ?q) = None"
    "map_find CaseInsensitiveLess k (p_headers ?p) = None" "map_find CaseInsensitiveLess k (q_params ?q) = None"
    by (simp_all add: new_HttpRequest_def new_HttpResponse_def)
  then show ?thesis
    by (simp add: req_getHeader_def req_getCookie_def rsp_getHeader_def req_getParam_def last
        req_headers.get_del req_cookies.get_del rsp_headers.get_del
        req_headers.set_all_inv req_cookies.set_all_inv rsp_headers.set_all_inv split: option.splits)
qed

text \<open>Deleting a parameter does not delete it but the header of that name.\<close>

theorem delParam_deletes_header:
  assumes "request_ok r"
  shows "req_getParam k d (req_delParam k' r) = req_getParam k d r \<and>
    req_getHeader k d (req_delParam k r) = d"
  using assms by (simp add: req_getParam_def req_getHeader_def req_delParam_def request_ok_def ci.find_erase)

theorem delParam_deletes_header_witness:
  "req_getParam ''a'' [] (req_delParam ''a'' demo_request) = ''b''"
  using delParam_deletes_header [of demo_request "''a''" "[]" "''a''"]
  by (simp add: request_ok_def demo_request_def new_HttpRequest_def req_getParam_def CaseInsensitiveLess_def
      fold_case_def c_string_def tolower_def)

text \<open>Methods: the name of each of the 34 methods is recognised as that method, alone and in front of any text;
  a text is invalid exactly when it starts with none of the names.\<close>

theorem method_names_exact:
  "(\<forall>i < 34. StringToHttpMethod (HttpMethodToString i) = i \<and> CharsTohttpMethod (HttpMethodToString i @ s) = i) \<and>
   (CharsTohttpMethod m = INVALID_METHOD \<longleftrightarrow> (\<forall>(num, name) \<in> set HTTP_METHOD_MAP. \<not> prefix name (c_string m)))"
proof -
  have "StringToHttpMethod (HttpMethodToString i) = i \<and> CharsTohttpMethod (HttpMethodToString i @ s) = i" if i: "i < 34" for i
  proof -
    let ?name = "snd (HTTP_METHOD_MAP ! i)"
    have "(fst (HTTP_METHOD_MAP ! i), ?name) \<in> set HTTP_METHOD_MAP" using i by simp
    then have "c_string (?name @ s) = ?name @ c_string s" for s by (rule names_no_nul)
    from this [of s] this [of "[]"] show ?thesis
      using i find_method [OF i refl]
      by (simp add: StringToHttpMethod_def CharsTohttpMethod_def HttpMethodToString_def c_string_def [of "[]"])
  qed
  moreover have "CharsTohttpMethod m = INVALID_METHOD \<longleftrightarrow> (\<forall>(num, name) \<in> set HTTP_METHOD_MAP. \<not> prefix name (c_string m))"
  proof (cases "find (\<lambda>(num, name). prefix name (c_string m)) HTTP_METHOD_MAP")
    case None
    then have "\<forall>(num, name) \<in> set HTTP_METHOD_MAP. \<not> prefix name (c_string m)" by (auto simp: find_None_iff)
    then show ?thesis using None by (simp add: CharsTohttpMethod_def)
  next
    case (Some p)
    then show ?thesis using find_mem [OF Some] method_valid [of "fst p" "snd p"]
      by (auto simp: CharsTohttpMethod_def INVALID_METHOD_def)
  qed
  ultimately show ?thesis by blast
qed

theorem method_names_exact_witness:
  "CharsTohttpMethod ''GET / HTTP/1.1'' = 1"
proof -
  have "CharsTohttpMethod (HttpMethodToString 1 @ '' / HTTP/1.1'') = 1" using method_names_exact by simp
  then show ?thesis by (simp add: HttpMethodToString_def HTTP_METHOD_MAP_def)
qed

end
