(* ===== verification/Ragel.thy ===== *)
theory Ragel
  imports Prelude
begin

text \<open>
  The run-time of the state machines that Ragel generates in its goto style (\<^verbatim>\<open>http/httpclient_parser.rl.cpp\<close>,
  \<^verbatim>\<open>http/http11_parser.rl.cpp\<close>, \<^verbatim>\<open>uri.rl.cpp\<close>), and what holds of every one of them. A block \<^verbatim>\<open>case n\<close> maps the
  current character to the label the code jumps to; a label \<^verbatim>\<open>trK\<close> runs its actions and jumps to a label
  \<^verbatim>\<open>stN\<close>, and \<^verbatim>\<open>stN\<close> advances \<^verbatim>\<open>p\<close> and goes on with \<^verbatim>\<open>case N\<close> unless the input ends. \<^verbatim>\<open>st0\<close> is the error
  state: it leaves the loop without advancing. An action may leave the loop behind its character
  (\<^verbatim>\<open>{p++; cs = N; goto _out;}\<close>).
\<close>

text \<open>\<^verbatim>\<open>*p\<close>: a plain \<^verbatim>\<open>char\<close> is signed.\<close>

definition schar :: "char \<Rightarrow> int" where
  "schar c = (if of_char c < (128 :: int) then of_char c else of_char c - 256)"

datatype 'a goto = Goto "'a list" nat

abbreviation St :: "nat \<Rightarrow> 'a goto" where
  "St \<equiv> Goto []"

record ('a, 's) machine =
  ma_case :: "nat \<Rightarrow> int \<Rightarrow> 'a goto"
  ma_act :: "'a \<Rightarrow> nat \<Rightarrow> 's \<Rightarrow> 's"
  ma_break :: "'a \<Rightarrow> bool"

text \<open>The loop: the text from \<^verbatim>\<open>p\<close> to \<^verbatim>\<open>pe\<close>, the offset of \<^verbatim>\<open>p\<close>, \<^verbatim>\<open>cs\<close> and the variables the actions use.\<close>

fun ragel_loop :: "('a, 's) machine \<Rightarrow> string \<Rightarrow> nat \<Rightarrow> nat \<Rightarrow> 's \<Rightarrow> nat \<times> nat \<times> 's" where
  "ragel_loop M [] p cs s = (p, cs, s)"
| "ragel_loop M (c # rest) p cs s =
     (case ma_case M cs (schar c) of Goto as n \<Rightarrow>
        let s = fold (\<lambda>a. ma_act M a p) as s
        in if n = 0 then (p, 0, s)
           else if list_ex (ma_break M) as then (p + 1, n, s)
           else ragel_loop M rest (p + 1) n s)"

text \<open>\<^verbatim>\<open>strtol(s, NULL, base)\<close> for the bases 10 and 16, and the conversion of its result to \<^verbatim>\<open>int\<close>.\<close>

definition digit_in :: "int \<Rightarrow> char \<Rightarrow> int option" where
  "digit_in base ch =
     (let c = schar ch;
          d = (if 48 \<le> c \<and> c \<le> 57 then c - 48 else if 97 \<le> c \<and> c \<le> 102 then c - 87 else if 65 \<le> c \<and> c \<le> 70 then c - 55 else base)
      in if d < base then Some d else None)"

fun strtol_digits :: "int \<Rightarrow> int \<Rightarrow> string \<Rightarrow> int" where
  "strtol_digits base acc [] = acc"
| "strtol_digits base acc (c # s) = (case digit_in base c of Some d \<Rightarrow> strtol_digits base (base * acc + d) s | None \<Rightarrow> acc)"

definition clamp_long :: "int \<Rightarrow> int" where
  "clamp_long v = max (- (2 ^ 63)) (min (2 ^ 63 - 1) v)"

definition skip_0x :: "int \<Rightarrow> string \<Rightarrow> string" where
  "skip_0x base s =
     (case s of z # x # d # t \<Rightarrow>
        if base = 16 \<and> z = CHR ''0'' \<and> (x = CHR ''x'' \<or> x = CHR ''X'') \<and> digit_in 16 d \<noteq> None then d # t else s
      | _ \<Rightarrow> s)"

definition strtol :: "int \<Rightarrow> string \<Rightarrow> int" where
  "strtol base s =
     (let s = dropWhile (\<lambda>c. schar c = 32 \<or> (9 \<le> schar c \<and> schar c \<le> 13)) s;
          neg = (case s of c # _ \<Rightarrow> c = CHR ''-'' | [] \<Rightarrow> False);
          s = (case s of c # t \<Rightarrow> if c = CHR ''-'' \<or> c = CHR ''+'' then t else s | [] \<Rightarrow> []);
          v = strtol_digits base 0 (skip_0x base s)
      in clamp_long (if neg then - v else v))"

definition to_int32 :: "int \<Rightarrow> int" where
  "to_int32 v = sint (word_of_int v :: 32 word)"

text \<open>\<^verbatim>\<open>LEN(AT, FPC)\<close>: a difference of offsets as a \<^verbatim>\<open>size_t\<close>.\<close>

definition LEN :: "nat \<Rightarrow> nat \<Rightarrow> nat" where
  "LEN at fpc = (if at \<le> fpc then fpc - at else 2 ^ 64 - (at - fpc))"

lemma LEN_le [simp]: "at \<le> fpc \<Longrightarrow> LEN at fpc = fpc - at"
  by (simp add: LEN_def)

lemma of_char_char_of: "(of_char (char_of (n :: nat)) :: int) = int (n mod 256)"
  by (metis of_char_of of_nat_of_char)

lemma schar_char_of: "n < 128 \<Longrightarrow> schar (char_of (n :: nat)) = int n"
  by (simp add: schar_def of_char_char_of)

lemma of_char_range: "0 \<le> (of_char c :: int)" "(of_char c :: int) < 256"
proof -
  have "(of_char c :: int) = int (of_char c)" by (simp only: of_nat_of_char)
  moreover have "int (of_char c) < 256" using nat_of_char_less_256 [of c] by linarith
  ultimately show "0 \<le> (of_char c :: int)" "(of_char c :: int) < 256" by linarith+
qed

section \<open>Character classes\<close>

text \<open>As ranges of character codes: the characters of a header name, those of a header value, those that are no white space.\<close>

definition token :: "int \<Rightarrow> bool" where
  "token c \<longleftrightarrow> c = 33 \<or> (35 \<le> c \<and> c \<le> 39) \<or> (42 \<le> c \<and> c \<le> 43) \<or> (45 \<le> c \<and> c \<le> 46) \<or> (48 \<le> c \<and> c \<le> 57) \<or>
     (65 \<le> c \<and> c \<le> 90) \<or> (94 \<le> c \<and> c \<le> 122) \<or> c = 124 \<or> c = 126"

definition value_char :: "int \<Rightarrow> bool" where
  "value_char c \<longleftrightarrow> c < 10 \<or> (10 < c \<and> c < 13) \<or> 13 < c"

definition non_space :: "int \<Rightarrow> bool" where
  "non_space c \<longleftrightarrow> c < 9 \<or> (13 < c \<and> c < 32) \<or> 32 < c"

definition digit :: "int \<Rightarrow> bool" where
  "digit c \<longleftrightarrow> 48 \<le> c \<and> c \<le> 57"

definition xdigit :: "int \<Rightarrow> bool" where
  "xdigit c \<longleftrightarrow> (48 \<le> c \<and> c \<le> 57) \<or> (65 \<le> c \<and> c \<le> 70) \<or> (97 \<le> c \<and> c \<le> 102)"

definition upper_digit :: "int \<Rightarrow> bool" where
  "upper_digit c \<longleftrightarrow> (48 \<le> c \<and> c \<le> 57) \<or> (65 \<le> c \<and> c \<le> 90)"

text \<open>The characters of a path segment, of a path, and of a query or a fragment, without the percent sign.\<close>

definition segment_char :: "int \<Rightarrow> bool" where
  "segment_char c \<longleftrightarrow> c = 33 \<or> c = 36 \<or> (38 \<le> c \<and> c \<le> 46) \<or> (48 \<le> c \<and> c \<le> 59) \<or> c = 61 \<or> (64 \<le> c \<and> c \<le> 90) \<or> c = 95 \<or>
     (97 \<le> c \<and> c \<le> 122) \<or> c = 126"

definition path_char :: "int \<Rightarrow> bool" where
  "path_char c \<longleftrightarrow> c = 33 \<or> c = 36 \<or> (38 \<le> c \<and> c \<le> 59) \<or> c = 61 \<or> (64 \<le> c \<and> c \<le> 90) \<or> c = 95 \<or>
     (97 \<le> c \<and> c \<le> 122) \<or> c = 126"

definition query_char :: "int \<Rightarrow> bool" where
  "query_char c \<longleftrightarrow> c = 33 \<or> c = 36 \<or> (38 \<le> c \<and> c \<le> 59) \<or> c = 61 \<or> (63 \<le> c \<and> c \<le> 90) \<or> c = 95 \<or>
     (97 \<le> c \<and> c \<le> 122) \<or> c = 126"

text \<open>A header value of a request: printable characters and those above ASCII.\<close>

definition content_char :: "int \<Rightarrow> bool" where
  "content_char c \<longleftrightarrow> c < 0 \<or> (32 \<le> c \<and> c \<le> 126)"

definition visible_char :: "int \<Rightarrow> bool" where
  "visible_char c \<longleftrightarrow> c < 0 \<or> (33 \<le> c \<and> c \<le> 126)"

text \<open>Text of a class in which a percent sign starts an encoded byte.\<close>

fun uri_text :: "(int \<Rightarrow> bool) \<Rightarrow> string \<Rightarrow> bool" where
  "uri_text K [] = True"
| "uri_text K (c # xs) =
     ((K (schar c) \<and> uri_text K xs) \<or>
      (c = CHR ''%'' \<and> (case xs of h # l # ys \<Rightarrow> xdigit (schar h) \<and> xdigit (schar l) \<and> uri_text K ys | _ \<Rightarrow> False)))"

lemma schar_inj: "schar a = schar b \<Longrightarrow> a = b"
proof -
  assume e: "schar a = schar b"
  have "(of_char a :: int) = of_char b"
    using e of_char_range [of a] of_char_range [of b] unfolding schar_def by (auto split: if_splits)
  then have "(of_char a :: nat) = of_char b" by (metis of_nat_eq_iff of_nat_of_char)
  then show ?thesis by simp
qed

lemma schar_simps [simp]:
  "schar CHR 0x0D = 13" "schar CHR 0x0A = 10" "schar CHR '':'' = 58" "schar CHR '' '' = 32" "schar CHR ''H'' = 72" "schar CHR ''T'' = 84"
  "schar CHR ''P'' = 80" "schar CHR ''/'' = 47" "schar CHR ''.'' = 46" "schar CHR ''?'' = 63" "schar CHR ''#'' = 35" "schar CHR ''1'' = 49"
  "schar CHR ''0'' = 48" "schar CHR ''%'' = 37"
  by (simp_all add: schar_def)

section \<open>Text of a message head\<close>

abbreviation crlf :: string where
  "crlf \<equiv> [CHR 0x0D, CHR 0x0A]"

text \<open>A header line: name, colon, blank, value, line end.\<close>

definition field_line :: "string \<times> string \<Rightarrow> string" where
  "field_line f = fst f @ '': '' @ snd f @ crlf"

lemma length_field_line: "length (field_line f) = length (fst f) + length (snd f) + 4"
  by (simp add: field_line_def)

text \<open>A pointer and a length that stay inside the first \<open>len\<close> bytes of a buffer.\<close>

definition part_of :: "string \<Rightarrow> nat \<Rightarrow> string \<Rightarrow> nat \<Rightarrow> bool" where
  "part_of buffer len at n \<longleftrightarrow> (\<exists>i. at = drop i buffer \<and> i + n \<le> len)"

section \<open>Paths of a machine\<close>

text \<open>\<open>passes M xs p n s m s'\<close>: on the text \<open>xs\<close> the machine goes from state \<open>n\<close> to state \<open>m\<close> and its variables from
  \<open>s\<close> to \<open>s'\<close>, whatever follows.\<close>

definition passes :: "('a, 's) machine \<Rightarrow> string \<Rightarrow> nat \<Rightarrow> nat \<Rightarrow> 's \<Rightarrow> nat \<Rightarrow> 's \<Rightarrow> bool" where
  "passes M xs p n s m s' \<longleftrightarrow> (\<forall>rest. ragel_loop M (xs @ rest) p n s = ragel_loop M rest (p + length xs) m s')"

lemma passes_loop: "passes M xs p n s m s' \<Longrightarrow> ragel_loop M (xs @ rest) p n s = ragel_loop M rest (p + length xs) m s'"
  by (simp add: passes_def)

lemma passes_Nil [simp]: "passes M [] p n s n s"
  by (simp add: passes_def)

lemma passes_unique: "passes M xs p n s m t \<Longrightarrow> passes M xs p n s m' t' \<Longrightarrow> m' = m \<and> t' = t"
  using passes_loop [of M xs p n s m t "[]"] passes_loop [of M xs p n s m' t' "[]"] by simp

lemma passes_append:
  "passes M xs p n s m s' \<Longrightarrow> passes M ys (p + length xs) m s' k s'' \<Longrightarrow> passes M (xs @ ys) p n s k s''"
  by (simp add: passes_def add.assoc)

lemma passes_Cons:
  assumes "ma_case M n (schar c) = Goto as m" and "m \<noteq> 0" and "\<not> list_ex (ma_break M) as"
    and "passes M xs (Suc p) m (fold (\<lambda>a. ma_act M a p) as s) k s'"
  shows "passes M (c # xs) p n s k s'"
  using assms by (simp add: passes_def)

lemma passes_pre:
  assumes "passes M xs (Suc p) m t k s'" and "ma_case M n (schar c) = Goto as m" and "m \<noteq> 0" and "\<not> list_ex (ma_break M) as"
    and "t = fold (\<lambda>a. ma_act M a p) as s"
  shows "passes M (c # xs) p n s k s'"
  using passes_Cons assms by metis

lemma passes_stay:
  assumes "\<forall>c\<in>set xs. ma_case M n (schar c) = St n" and "n \<noteq> 0"
  shows "passes M xs p n s n s"
  using assms by (induction xs arbitrary: p) (auto intro!: passes_Cons)

text \<open>A region: while it reads characters of the class \<open>K\<close>, the machine runs no action and keeps the relation \<open>Q\<close> between
  its state and the text read so far.\<close>

definition region :: "('a, 's) machine \<Rightarrow> (int \<Rightarrow> bool) \<Rightarrow> (nat \<Rightarrow> string \<Rightarrow> bool) \<Rightarrow> bool" where
  "region M K Q \<longleftrightarrow>
     (\<forall>n ys c. Q n ys \<longrightarrow> K (schar c) \<longrightarrow> (\<exists>m. m \<noteq> 0 \<and> ma_case M n (schar c) = St m \<and> Q m (ys @ [c])))"

lemma passes_region:
  assumes "region M K Q" and "Q n ys" and "\<forall>c\<in>set xs. K (schar c)"
  shows "\<exists>m. Q m (ys @ xs) \<and> passes M xs p n s m s"
  using assms(2,3)
proof (induction xs arbitrary: n ys p)
  case Nil
  then show ?case by (intro exI [of _ n]) simp
next
  case (Cons c xs)
  moreover have "K (schar c)" using Cons.prems(2) by simp
  ultimately obtain k where k: "k \<noteq> 0" "ma_case M n (schar c) = St k" "Q k (ys @ [c])" using assms(1) unfolding region_def by blast
  obtain m where "Q m ((ys @ [c]) @ xs)" "passes M xs (Suc p) k s m s" using Cons.IH [OF k(3)] Cons.prems(2) by force
  then show ?case using k by (intro exI [of _ m]) (auto intro!: passes_Cons)
qed

lemma uri_text_Cons:
  assumes "uri_text K (c # ys)"
  shows "(K (schar c) \<and> uri_text K ys) \<or>
    (\<exists>a b zs. c = CHR ''%'' \<and> ys = a # b # zs \<and> xdigit (schar a) \<and> xdigit (schar b) \<and> uri_text K zs)"
proof (cases "K (schar c) \<and> uri_text K ys")
  case False
  then have "c = CHR ''%'' \<and> (case ys of h # l # ys \<Rightarrow> xdigit (schar h) \<and> xdigit (schar l) \<and> uri_text K ys | _ \<Rightarrow> False)"
    using assms unfolding uri_text.simps by blast
  then show ?thesis by (simp split: list.split_asm)
qed blast

lemma passes_uri_text:
  assumes "uri_text K xs"
    and "\<And>c. K c \<Longrightarrow> ma_case M n c = St n" "ma_case M n 37 = St h" "\<And>c. xdigit c \<Longrightarrow> ma_case M h c = St l"
      "\<And>c. xdigit c \<Longrightarrow> ma_case M l c = St n" "n \<noteq> 0" "h \<noteq> 0" "l \<noteq> 0"
  shows "passes M xs p n s n s"
  using assms(1)
proof (induction "length xs" arbitrary: xs p rule: less_induct)
  case less
  show ?case
  proof (cases xs)
    case (Cons c ys)
    consider "K (schar c)" "uri_text K ys" |
      (pct) a b zs where "c = CHR ''%''" "ys = a # b # zs" "xdigit (schar a)" "xdigit (schar b)" "uri_text K zs"
      using uri_text_Cons [OF less.prems [unfolded Cons]] by blast
    then show ?thesis
    proof cases
      case 1
      then have "passes M ys (Suc p) n s n s" using less.hyps [of ys] Cons by simp
      then have "passes M (c # ys) p n s n s"
        by (rule passes_pre [where as = "[]"]) (simp_all add: assms(2) [OF 1(1)] assms(6))
      then show ?thesis using Cons by simp
    next
      case pct
      have "passes M zs (Suc (Suc (Suc p))) n s n s" using less.hyps [of zs] pct Cons by simp
      then have "passes M (b # zs) (Suc (Suc p)) l s n s"
        by (rule passes_pre [where as = "[]"]) (simp_all add: assms(5) [OF pct(4)] assms(6))
      then have "passes M (a # b # zs) (Suc p) h s n s"
        by (rule passes_pre [where as = "[]"]) (simp_all add: assms(4) [OF pct(3)] assms(8))
      then have "passes M (c # a # b # zs) p n s n s"
        by (rule passes_pre [where as = "[]"]) (simp_all add: pct(1) assms(3,7) schar_def)
      then show ?thesis using pct(2) Cons by simp
    qed
  qed simp
qed

text \<open>The same with actions on the first character, from a state \<open>k\<close> in front of the text.\<close>

lemma passes_uri_start:
  assumes "uri_text K xs" and "xs \<noteq> []"
    and "K (schar (hd xs)) \<Longrightarrow> ma_case M k (schar (hd xs)) = Goto as n" "ma_case M k 37 = Goto as h" "\<not> list_ex (ma_break M) as"
    and "\<And>c. K c \<Longrightarrow> ma_case M n c = St n" "ma_case M n 37 = St h" "\<And>c. xdigit c \<Longrightarrow> ma_case M h c = St l"
      "\<And>c. xdigit c \<Longrightarrow> ma_case M l c = St n" "n \<noteq> 0" "h \<noteq> 0" "l \<noteq> 0"
  shows "passes M xs p k s n (fold (\<lambda>a. ma_act M a p) as s)"
proof -
  let ?s = "fold (\<lambda>a. ma_act M a p) as s"
  obtain c ys where xs: "xs = c # ys" using assms(2) by (cases xs) auto
  note go = passes_uri_text [OF _ assms(6-12)]
  consider "K (schar c)" "uri_text K ys" |
    (pct) a b zs where "c = CHR ''%''" "ys = a # b # zs" "xdigit (schar a)" "xdigit (schar b)" "uri_text K zs"
    using uri_text_Cons [OF assms(1) [unfolded xs]] by blast
  then show ?thesis
  proof cases
    case 1
    from go [OF 1(2), of "Suc p" ?s] show ?thesis
      unfolding xs by (rule passes_pre) (use 1 assms(3,5,10) xs in auto)
  next
    case pct
    from go [OF pct(5), of "Suc (Suc (Suc p))" ?s] have "passes M (b # zs) (Suc (Suc p)) l ?s n ?s"
      by (rule passes_pre [where as = "[]"]) (simp_all add: assms(9) [OF pct(4)] assms(10))
    then have "passes M (a # b # zs) (Suc p) h ?s n ?s"
      by (rule passes_pre [where as = "[]"]) (simp_all add: assms(8) [OF pct(3)] assms(12))
    then show ?thesis
      unfolding xs pct(2) by (rule passes_pre) (simp_all add: pct(1) assms(4,5,11))
  qed
qed

lemma loop_break:
  assumes "ma_case M n (schar c) = Goto as m" and "m \<noteq> 0" and "list_ex (ma_break M) as"
  shows "ragel_loop M (c # rest) p n s = (p + 1, m, fold (\<lambda>a. ma_act M a p) as s)"
  using assms by simp

lemma loop_error:
  assumes "ma_case M n (schar c) = St 0"
  shows "ragel_loop M (c # rest) p n s = (p, 0, s)"
  using assms by simp

section \<open>Every machine\<close>

text \<open>The position never leaves the text, and the loop ends only at the end of the text, in the error state or at an action
  that breaks. An invariant of state, offset and variables that every transition keeps holds at the end.\<close>

locale ragel_machine =
  fixes M :: "('a, 's) machine" and inv :: "nat \<Rightarrow> nat \<Rightarrow> 's \<Rightarrow> bool" and len :: nat and final :: "nat set"
  assumes edge_inv: "ma_case M n c = Goto as m \<Longrightarrow> m \<noteq> 0 \<Longrightarrow> p < len \<Longrightarrow> inv n p s \<Longrightarrow>
      inv m (Suc p) (fold (\<lambda>a. ma_act M a p) as s)"
    and error_inv: "ma_case M n c = Goto as 0 \<Longrightarrow> p < len \<Longrightarrow> inv n p s \<Longrightarrow> inv 0 p (fold (\<lambda>a. ma_act M a p) as s)"
    and break_final: "ma_case M n c = Goto as m \<Longrightarrow> list_ex (ma_break M) as \<Longrightarrow> m \<in> final"
begin

lemma loop_result:
  assumes "ragel_loop M xs p n s = (p', m, s')" and "p + length xs = len" and "inv n p s"
  shows "inv m p' s' \<and> p \<le> p' \<and> p' \<le> len \<and> (p' = len \<or> m = 0 \<or> m \<in> final) \<and> (xs \<noteq> [] \<longrightarrow> m \<noteq> 0 \<longrightarrow> p < p')"
  using assms
proof (induction xs arbitrary: p n s)
  case (Cons c rest)
  obtain as k where g: "ma_case M n (schar c) = Goto as k" by (cases "ma_case M n (schar c)")
  have p: "p < len" using Cons.prems(2) by simp
  let ?s = "fold (\<lambda>a. ma_act M a p) as s"
  have s: "k = 0 \<longrightarrow> inv 0 p ?s" "k \<noteq> 0 \<longrightarrow> inv k (Suc p) ?s"
    using edge_inv [OF g _ p Cons.prems(3)] error_inv [OF _ p Cons.prems(3)] g by auto
  show ?case
  proof (cases "k = 0 \<or> list_ex (ma_break M) as")
    case True
    then show ?thesis using Cons.prems(1) g p s break_final [OF g] by (auto simp: Let_def split: if_splits)
  next
    case False
    then have "ragel_loop M rest (Suc p) k ?s = (p', m, s')" using Cons.prems(1) g by simp
    then show ?thesis using Cons.IH [of "Suc p" k ?s] Cons.prems(2) s(2) False by auto
  qed
qed auto

end

end
