(* ===== verification/Http11Machine.thy ===== *)
theory Http11Machine
  imports Ragel
begin

text \<open>
  The tables of \<^verbatim>\<open>src/cxk/http/http11_parser.rl.cpp\<close>, the state machine of HTTP requests: every transition label and
  every state of the generated code, in its order of tests. \<open>relaxed\<close> is \<^verbatim>\<open>parser->uri_relaxed\<close>.
\<close>

datatype hp_action =
    HpMark
  | HpStartField
  | HpWriteField
  | HpStartValue
  | HpWriteValue
  | HpRequestMethodAct
  | HpRequestUriAct
  | HpFragmentAct
  | HpStartQuery
  | HpQueryStringAct
  | HpHttpVersionAct
  | HpRequestPathAct
  | HpDone
  | HpXml
  | HpJson

section \<open>Transitions\<close>

text \<open>The labels \<^verbatim>\<open>trN\<close>: the actions in the order of the code, and the next state.\<close>

definition hp_tr_0 :: "hp_action goto" where
  "hp_tr_0 = Goto [HpMark] 2"

definition hp_tr_2 :: "hp_action goto" where
  "hp_tr_2 = Goto [HpMark] 194"

definition hp_tr_3 :: "hp_action goto" where
  "hp_tr_3 = Goto [HpMark] 198"

definition hp_tr_4 :: "hp_action goto" where
  "hp_tr_4 = Goto [HpRequestMethodAct] 3"

definition hp_tr_6 :: "hp_action goto" where
  "hp_tr_6 = Goto [HpMark, HpRequestPathAct, HpRequestUriAct] 4"

definition hp_tr_7 :: "hp_action goto" where
  "hp_tr_7 = Goto [HpMark] 19"

definition hp_tr_8 :: "hp_action goto" where
  "hp_tr_8 = Goto [HpMark, HpRequestPathAct, HpRequestUriAct] 20"

definition hp_tr_9 :: "hp_action goto" where
  "hp_tr_9 = Goto [HpMark] 24"

definition hp_tr_10 :: "hp_action goto" where
  "hp_tr_10 = Goto [HpMark] 33"

definition hp_tr_11 :: "hp_action goto" where
  "hp_tr_11 = Goto [HpMark, HpRequestPathAct] 29"

definition hp_tr_12 :: "hp_action goto" where
  "hp_tr_12 = Goto [HpMark] 173"

definition hp_tr_13 :: "hp_action goto" where
  "hp_tr_13 = Goto [HpMark] 5"

definition hp_tr_21 :: "hp_action goto" where
  "hp_tr_21 = Goto [HpHttpVersionAct] 13"

definition hp_tr_22 :: "hp_action goto" where
  "hp_tr_22 = Goto [HpHttpVersionAct] 17"

definition hp_tr_23 :: "hp_action goto" where
  "hp_tr_23 = Goto [HpStartField] 14"

definition hp_tr_24 :: "hp_action goto" where
  "hp_tr_24 = Goto [HpStartField, HpDone] 348"

definition hp_tr_25 :: "hp_action goto" where
  "hp_tr_25 = Goto [HpStartField] 18"

definition hp_tr_27 :: "hp_action goto" where
  "hp_tr_27 = Goto [HpWriteField] 15"

definition hp_tr_28 :: "hp_action goto" where
  "hp_tr_28 = Goto [HpStartValue] 16"

definition hp_tr_29 :: "hp_action goto" where
  "hp_tr_29 = Goto [HpStartValue] 15"

definition hp_tr_30 :: "hp_action goto" where
  "hp_tr_30 = Goto [HpStartValue, HpWriteValue] 13"

definition hp_tr_31 :: "hp_action goto" where
  "hp_tr_31 = Goto [HpStartValue, HpWriteValue] 17"

definition hp_tr_33 :: "hp_action goto" where
  "hp_tr_33 = Goto [HpWriteValue] 13"

definition hp_tr_34 :: "hp_action goto" where
  "hp_tr_34 = Goto [HpWriteValue] 17"

definition hp_tr_36 :: "hp_action goto" where
  "hp_tr_36 = Goto [HpDone] 348"

definition hp_tr_37 :: "hp_action goto" where
  "hp_tr_37 = Goto [HpRequestPathAct, HpRequestUriAct] 4"

definition hp_tr_39 :: "hp_action goto" where
  "hp_tr_39 = Goto [HpRequestPathAct, HpRequestUriAct] 20"

definition hp_tr_42 :: "hp_action goto" where
  "hp_tr_42 = Goto [HpRequestPathAct] 29"

definition hp_tr_43 :: "hp_action goto" where
  "hp_tr_43 = Goto [HpMark, HpFragmentAct] 4"

definition hp_tr_44 :: "hp_action goto" where
  "hp_tr_44 = Goto [HpMark] 21"

definition hp_tr_45 :: "hp_action goto" where
  "hp_tr_45 = Goto [HpMark] 22"

definition hp_tr_46 :: "hp_action goto" where
  "hp_tr_46 = Goto [HpFragmentAct] 4"

definition hp_tr_53 :: "hp_action goto" where
  "hp_tr_53 = Goto [HpStartQuery, HpQueryStringAct, HpRequestUriAct] 4"

definition hp_tr_54 :: "hp_action goto" where
  "hp_tr_54 = Goto [HpStartQuery] 30"

definition hp_tr_55 :: "hp_action goto" where
  "hp_tr_55 = Goto [HpStartQuery, HpQueryStringAct, HpRequestUriAct] 20"

definition hp_tr_56 :: "hp_action goto" where
  "hp_tr_56 = Goto [HpStartQuery] 31"

definition hp_tr_57 :: "hp_action goto" where
  "hp_tr_57 = Goto [HpQueryStringAct, HpRequestUriAct] 4"

definition hp_tr_59 :: "hp_action goto" where
  "hp_tr_59 = Goto [HpQueryStringAct, HpRequestUriAct] 20"

definition hp_tr_203 :: "hp_action goto" where
  "hp_tr_203 = Goto [HpMark] 26"

definition hp_tr_204 :: "hp_action goto" where
  "hp_tr_204 = Goto [HpMark] 27"

definition hp_tr_224 :: "hp_action goto" where
  "hp_tr_224 = Goto [HpRequestPathAct] 196"

definition hp_tr_227 :: "hp_action goto" where
  "hp_tr_227 = Goto [HpXml, HpDone] 349"

definition hp_tr_228 :: "hp_action goto" where
  "hp_tr_228 = Goto [HpRequestPathAct] 199"

definition hp_tr_232 :: "hp_action goto" where
  "hp_tr_232 = Goto [HpMark] 200"

definition hp_tr_235 :: "hp_action goto" where
  "hp_tr_235 = Goto [HpJson, HpDone] 349"

section \<open>States\<close>

text \<open>The labels \<^verbatim>\<open>case N\<close>: where the code jumps to on the character \<open>c\<close>.\<close>

definition hp_case_1 :: "bool \<Rightarrow> int \<Rightarrow> hp_action goto" where
  "hp_case_1 relaxed c =
     (if c = 60 then hp_tr_2 else if c = 64 then hp_tr_3 else
      if c > 57 then (if 65 \<le> c \<and> c \<le> 90 then hp_tr_0 else
       St 0) else
      if c \<ge> 48 then hp_tr_0 else
      St 0)"

definition hp_case_2 :: "bool \<Rightarrow> int \<Rightarrow> hp_action goto" where
  "hp_case_2 relaxed c =
     (if c = 32 then hp_tr_4 else
      if c > 57 then (if 65 \<le> c \<and> c \<le> 90 then St 175 else
       St 0) else
      if c \<ge> 48 then St 175 else
      St 0)"

definition hp_case_3 :: "bool \<Rightarrow> int \<Rightarrow> hp_action goto" where
  "hp_case_3 relaxed c =
     (let w = c in
      let w = (if c < 123 then (if 94 \<le> c \<and> c \<le> 94 then (if relaxed then c + 256 + 256 else c + 256) else w) else (if c > 123 then (if 125 \<le> c \<and> c \<le> 125 then (if relaxed then c + 256 + 256 else c + 256) else w) else (if relaxed then c + 256 + 256 else c + 256))) in
      if w = 32 then hp_tr_6 else if w = 33 then hp_tr_7 else if w = 35 then hp_tr_8 else if w = 37 then hp_tr_9 else
      if w = 47 then hp_tr_10 else if w = 59 then hp_tr_7 else if w = 61 then hp_tr_7 else if w = 63 then hp_tr_11 else
      if w = 64 then hp_tr_7 else if w = 95 then hp_tr_7 else if w = 126 then hp_tr_7 else if w = 606 then hp_tr_7 else
      if w = 635 then hp_tr_7 else if w = 637 then hp_tr_7 else
      if w < 65 then (if 36 \<le> w \<and> w \<le> 57 then hp_tr_7 else
       St 0) else
      if w > 90 then (if 97 \<le> w \<and> w \<le> 122 then hp_tr_12 else
       St 0) else
      hp_tr_12)"

definition hp_case_4 :: "bool \<Rightarrow> int \<Rightarrow> hp_action goto" where
  "hp_case_4 relaxed c =
     (if c = 72 then hp_tr_13 else
      St 0)"

definition hp_case_5 :: "bool \<Rightarrow> int \<Rightarrow> hp_action goto" where
  "hp_case_5 relaxed c =
     (if c = 84 then St 6 else
      St 0)"

definition hp_case_6 :: "bool \<Rightarrow> int \<Rightarrow> hp_action goto" where
  "hp_case_6 relaxed c =
     (if c = 84 then St 7 else
      St 0)"

definition hp_case_7 :: "bool \<Rightarrow> int \<Rightarrow> hp_action goto" where
  "hp_case_7 relaxed c =
     (if c = 80 then St 8 else
      St 0)"

definition hp_case_8 :: "bool \<Rightarrow> int \<Rightarrow> hp_action goto" where
  "hp_case_8 relaxed c =
     (if c = 47 then St 9 else
      St 0)"

definition hp_case_9 :: "bool \<Rightarrow> int \<Rightarrow> hp_action goto" where
  "hp_case_9 relaxed c =
     (if c = 49 then St 10 else
      St 0)"

definition hp_case_10 :: "bool \<Rightarrow> int \<Rightarrow> hp_action goto" where
  "hp_case_10 relaxed c =
     (if c = 46 then St 11 else
      St 0)"

definition hp_case_11 :: "bool \<Rightarrow> int \<Rightarrow> hp_action goto" where
  "hp_case_11 relaxed c =
     (if 48 \<le> c \<and> c \<le> 49 then St 12 else
      St 0)"

definition hp_case_12 :: "bool \<Rightarrow> int \<Rightarrow> hp_action goto" where
  "hp_case_12 relaxed c =
     (if c = 10 then hp_tr_21 else if c = 13 then hp_tr_22 else
      St 0)"

definition hp_case_13 :: "bool \<Rightarrow> int \<Rightarrow> hp_action goto" where
  "hp_case_13 relaxed c =
     (if c = 10 then hp_tr_24 else if c = 13 then hp_tr_25 else if c = 33 then hp_tr_23 else if c = 124 then hp_tr_23 else
      if c = 126 then hp_tr_23 else
      if c < 42 then (if c < 11 then (if 1 \<le> c \<and> c \<le> 8 then hp_tr_23 else
        St 0) else
       if c > 31 then (if 35 \<le> c \<and> c \<le> 39 then hp_tr_23 else
        St 0) else
       hp_tr_23) else
      if c > 43 then (if c < 48 then (if 45 \<le> c \<and> c \<le> 46 then hp_tr_23 else
        St 0) else
       if c > 57 then (if c > 90 then (if 94 \<le> c \<and> c \<le> 122 then hp_tr_23 else
         St 0) else
        if c \<ge> 65 then hp_tr_23 else
        St 0) else
       hp_tr_23) else
      hp_tr_23)"

definition hp_case_14 :: "bool \<Rightarrow> int \<Rightarrow> hp_action goto" where
  "hp_case_14 relaxed c =
     (if c = 33 then St 14 else if c = 58 then hp_tr_27 else if c = 124 then St 14 else if c = 126 then St 14 else

      if c < 42 then (if c < 10 then (if 1 \<le> c \<and> c \<le> 8 then St 14 else
        St 0) else
       if c > 31 then (if 35 \<le> c \<and> c \<le> 39 then St 14 else
        St 0) else
       St 14) else
      if c > 43 then (if c < 48 then (if 45 \<le> c \<and> c \<le> 46 then St 14 else
        St 0) else
       if c > 57 then (if c > 90 then (if 94 \<le> c \<and> c \<le> 122 then St 14 else
         St 0) else
        if c \<ge> 65 then St 14 else
        St 0) else
       St 14) else
      St 14)"

definition hp_case_15 :: "bool \<Rightarrow> int \<Rightarrow> hp_action goto" where
  "hp_case_15 relaxed c =
     (if c = 0 then St 0 else if c = 9 then hp_tr_29 else if c = 10 then hp_tr_30 else if c = 13 then hp_tr_31 else
      if c = 32 then hp_tr_29 else if c = 127 then St 0 else
      hp_tr_28)"

definition hp_case_16 :: "bool \<Rightarrow> int \<Rightarrow> hp_action goto" where
  "hp_case_16 relaxed c =
     (if c = 0 then St 0 else if c = 10 then hp_tr_33 else if c = 13 then hp_tr_34 else if c = 127 then St 0 else

      St 16)"

definition hp_case_17 :: "bool \<Rightarrow> int \<Rightarrow> hp_action goto" where
  "hp_case_17 relaxed c =
     (if c = 10 then St 13 else
      St 0)"

definition hp_case_18 :: "bool \<Rightarrow> int \<Rightarrow> hp_action goto" where
  "hp_case_18 relaxed c =
     (if c = 10 then hp_tr_36 else if c = 33 then St 14 else if c = 58 then hp_tr_27 else if c = 124 then St 14 else
      if c = 126 then St 14 else
      if c < 42 then (if c < 11 then (if 1 \<le> c \<and> c \<le> 8 then St 14 else
        St 0) else
       if c > 31 then (if 35 \<le> c \<and> c \<le> 39 then St 14 else
        St 0) else
       St 14) else
      if c > 43 then (if c < 48 then (if 45 \<le> c \<and> c \<le> 46 then St 14 else
        St 0) else
       if c > 57 then (if c > 90 then (if 94 \<le> c \<and> c \<le> 122 then St 14 else
         St 0) else
        if c \<ge> 65 then St 14 else
        St 0) else
       St 14) else
      St 14)"

definition hp_case_19 :: "bool \<Rightarrow> int \<Rightarrow> hp_action goto" where
  "hp_case_19 relaxed c =
     (let w = c in
      let w = (if c < 123 then (if 94 \<le> c \<and> c \<le> 94 then (if relaxed then c + 256 + 256 else c + 256) else w) else (if c > 123 then (if 125 \<le> c \<and> c \<le> 125 then (if relaxed then c + 256 + 256 else c + 256) else w) else (if relaxed then c + 256 + 256 else c + 256))) in
      if w = 32 then hp_tr_37 else if w = 33 then St 19 else if w = 35 then hp_tr_39 else if w = 37 then St 24 else
      if w = 47 then St 26 else if w = 59 then St 19 else if w = 61 then St 19 else if w = 63 then hp_tr_42 else
      if w = 95 then St 19 else if w = 126 then St 19 else if w = 606 then St 19 else if w = 635 then St 19 else
      if w = 637 then St 19 else
      if w < 64 then (if 36 \<le> w \<and> w \<le> 57 then St 19 else
       St 0) else
      if w > 90 then (if 97 \<le> w \<and> w \<le> 122 then St 19 else
       St 0) else
      St 19)"

definition hp_case_20 :: "bool \<Rightarrow> int \<Rightarrow> hp_action goto" where
  "hp_case_20 relaxed c =
     (let w = c in
      let w = (if c < 123 then (if 94 \<le> c \<and> c \<le> 94 then (if relaxed then c + 256 + 256 else c + 256) else w) else (if c > 123 then (if 125 \<le> c \<and> c \<le> 125 then (if relaxed then c + 256 + 256 else c + 256) else w) else (if relaxed then c + 256 + 256 else c + 256))) in
      if w = 32 then hp_tr_43 else if w = 33 then hp_tr_44 else if w = 37 then hp_tr_45 else if w = 61 then hp_tr_44 else
      if w = 95 then hp_tr_44 else if w = 126 then hp_tr_44 else if w = 606 then hp_tr_44 else if w = 635 then hp_tr_44 else
      if w = 637 then hp_tr_44 else
      if w < 63 then (if 36 \<le> w \<and> w \<le> 59 then hp_tr_44 else
       St 0) else
      if w > 90 then (if 97 \<le> w \<and> w \<le> 122 then hp_tr_44 else
       St 0) else
      hp_tr_44)"

definition hp_case_21 :: "bool \<Rightarrow> int \<Rightarrow> hp_action goto" where
  "hp_case_21 relaxed c =
     (let w = c in
      let w = (if c < 123 then (if 94 \<le> c \<and> c \<le> 94 then (if relaxed then c + 256 + 256 else c + 256) else w) else (if c > 123 then (if 125 \<le> c \<and> c \<le> 125 then (if relaxed then c + 256 + 256 else c + 256) else w) else (if relaxed then c + 256 + 256 else c + 256))) in
      if w = 32 then hp_tr_46 else if w = 33 then St 21 else if w = 37 then St 22 else if w = 61 then St 21 else
      if w = 95 then St 21 else if w = 126 then St 21 else if w = 606 then St 21 else if w = 635 then St 21 else
      if w = 637 then St 21 else
      if w < 63 then (if 36 \<le> w \<and> w \<le> 59 then St 21 else
       St 0) else
      if w > 90 then (if 97 \<le> w \<and> w \<le> 122 then St 21 else
       St 0) else
      St 21)"

definition hp_case_22 :: "bool \<Rightarrow> int \<Rightarrow> hp_action goto" where
  "hp_case_22 relaxed c =
     (if c < 65 then (if 48 \<le> c \<and> c \<le> 57 then St 23 else
       St 0) else
      if c > 70 then (if 97 \<le> c \<and> c \<le> 102 then St 23 else
       St 0) else
      St 23)"

definition hp_case_23 :: "bool \<Rightarrow> int \<Rightarrow> hp_action goto" where
  "hp_case_23 relaxed c =
     (if c < 65 then (if 48 \<le> c \<and> c \<le> 57 then St 21 else
       St 0) else
      if c > 70 then (if 97 \<le> c \<and> c \<le> 102 then St 21 else
       St 0) else
      St 21)"

definition hp_case_24 :: "bool \<Rightarrow> int \<Rightarrow> hp_action goto" where
  "hp_case_24 relaxed c =
     (if c < 65 then (if 48 \<le> c \<and> c \<le> 57 then St 25 else
       St 0) else
      if c > 70 then (if 97 \<le> c \<and> c \<le> 102 then St 25 else
       St 0) else
      St 25)"

definition hp_case_25 :: "bool \<Rightarrow> int \<Rightarrow> hp_action goto" where
  "hp_case_25 relaxed c =
     (if c < 65 then (if 48 \<le> c \<and> c \<le> 57 then St 19 else
       St 0) else
      if c > 70 then (if 97 \<le> c \<and> c \<le> 102 then St 19 else
       St 0) else
      St 19)"

definition hp_case_26 :: "bool \<Rightarrow> int \<Rightarrow> hp_action goto" where
  "hp_case_26 relaxed c =
     (let w = c in
      let w = (if c < 123 then (if 94 \<le> c \<and> c \<le> 94 then (if relaxed then c + 256 + 256 else c + 256) else w) else (if c > 123 then (if 125 \<le> c \<and> c \<le> 125 then (if relaxed then c + 256 + 256 else c + 256) else w) else (if relaxed then c + 256 + 256 else c + 256))) in
      if w = 32 then hp_tr_37 else if w = 33 then St 26 else if w = 35 then hp_tr_39 else if w = 37 then St 27 else
      if w = 61 then St 26 else if w = 63 then hp_tr_42 else if w = 95 then St 26 else if w = 126 then St 26 else
      if w = 606 then St 26 else if w = 635 then St 26 else if w = 637 then St 26 else
      if w < 64 then (if 36 \<le> w \<and> w \<le> 59 then St 26 else
       St 0) else
      if w > 90 then (if 97 \<le> w \<and> w \<le> 122 then St 26 else
       St 0) else
      St 26)"

definition hp_case_27 :: "bool \<Rightarrow> int \<Rightarrow> hp_action goto" where
  "hp_case_27 relaxed c =
     (if c < 65 then (if 48 \<le> c \<and> c \<le> 57 then St 28 else
       St 0) else
      if c > 70 then (if 97 \<le> c \<and> c \<le> 102 then St 28 else
       St 0) else
      St 28)"

definition hp_case_28 :: "bool \<Rightarrow> int \<Rightarrow> hp_action goto" where
  "hp_case_28 relaxed c =
     (if c < 65 then (if 48 \<le> c \<and> c \<le> 57 then St 26 else
       St 0) else
      if c > 70 then (if 97 \<le> c \<and> c \<le> 102 then St 26 else
       St 0) else
      St 26)"

definition hp_case_29 :: "bool \<Rightarrow> int \<Rightarrow> hp_action goto" where
  "hp_case_29 relaxed c =
     (let w = c in
      let w = (if c < 123 then (if 94 \<le> c \<and> c \<le> 94 then (if relaxed then c + 256 + 256 else c + 256) else w) else (if c > 123 then (if 125 \<le> c \<and> c \<le> 125 then (if relaxed then c + 256 + 256 else c + 256) else w) else (if relaxed then c + 256 + 256 else c + 256))) in
      if w = 32 then hp_tr_53 else if w = 33 then hp_tr_54 else if w = 35 then hp_tr_55 else if w = 37 then hp_tr_56 else
      if w = 61 then hp_tr_54 else if w = 95 then hp_tr_54 else if w = 126 then hp_tr_54 else if w = 606 then hp_tr_54 else
      if w = 635 then hp_tr_54 else if w = 637 then hp_tr_54 else
      if w < 63 then (if 36 \<le> w \<and> w \<le> 59 then hp_tr_54 else
       St 0) else
      if w > 90 then (if 97 \<le> w \<and> w \<le> 122 then hp_tr_54 else
       St 0) else
      hp_tr_54)"

definition hp_case_30 :: "bool \<Rightarrow> int \<Rightarrow> hp_action goto" where
  "hp_case_30 relaxed c =
     (let w = c in
      let w = (if c < 123 then (if 94 \<le> c \<and> c \<le> 94 then (if relaxed then c + 256 + 256 else c + 256) else w) else (if c > 123 then (if 125 \<le> c \<and> c \<le> 125 then (if relaxed then c + 256 + 256 else c + 256) else w) else (if relaxed then c + 256 + 256 else c + 256))) in
      if w = 32 then hp_tr_57 else if w = 33 then St 30 else if w = 35 then hp_tr_59 else if w = 37 then St 31 else
      if w = 61 then St 30 else if w = 95 then St 30 else if w = 126 then St 30 else if w = 606 then St 30 else
      if w = 635 then St 30 else if w = 637 then St 30 else
      if w < 63 then (if 36 \<le> w \<and> w \<le> 59 then St 30 else
       St 0) else
      if w > 90 then (if 97 \<le> w \<and> w \<le> 122 then St 30 else
       St 0) else
      St 30)"

definition hp_case_31 :: "bool \<Rightarrow> int \<Rightarrow> hp_action goto" where
  "hp_case_31 relaxed c =
     (if c < 65 then (if 48 \<le> c \<and> c \<le> 57 then St 32 else
       St 0) else
      if c > 70 then (if 97 \<le> c \<and> c \<le> 102 then St 32 else
       St 0) else
      St 32)"

definition hp_case_32 :: "bool \<Rightarrow> int \<Rightarrow> hp_action goto" where
  "hp_case_32 relaxed c =
     (if c < 65 then (if 48 \<le> c \<and> c \<le> 57 then St 30 else
       St 0) else
      if c > 70 then (if 97 \<le> c \<and> c \<le> 102 then St 30 else
       St 0) else
      St 30)"

definition hp_case_33 :: "bool \<Rightarrow> int \<Rightarrow> hp_action goto" where
  "hp_case_33 relaxed c =
     (let w = c in
      let w = (if c < 123 then (if 94 \<le> c \<and> c \<le> 94 then (if relaxed then c + 256 + 256 else c + 256) else w) else (if c > 123 then (if 125 \<le> c \<and> c \<le> 125 then (if relaxed then c + 256 + 256 else c + 256) else w) else (if relaxed then c + 256 + 256 else c + 256))) in
      if w = 32 then hp_tr_37 else if w = 33 then St 26 else if w = 35 then hp_tr_39 else if w = 37 then St 27 else
      if w = 47 then St 34 else if w = 61 then St 26 else if w = 63 then hp_tr_42 else if w = 95 then St 26 else
      if w = 126 then St 26 else if w = 606 then St 26 else if w = 635 then St 26 else if w = 637 then St 26 else

      if w < 64 then (if 36 \<le> w \<and> w \<le> 59 then St 26 else
       St 0) else
      if w > 90 then (if 97 \<le> w \<and> w \<le> 122 then St 26 else
       St 0) else
      St 26)"

definition hp_case_34 :: "bool \<Rightarrow> int \<Rightarrow> hp_action goto" where
  "hp_case_34 relaxed c =
     (let w = c in
      let w = (if c < 123 then (if 94 \<le> c \<and> c \<le> 94 then (if relaxed then c + 256 + 256 else c + 256) else w) else (if c > 123 then (if 125 \<le> c \<and> c \<le> 125 then (if relaxed then c + 256 + 256 else c + 256) else w) else (if relaxed then c + 256 + 256 else c + 256))) in
      if w = 32 then hp_tr_37 else if w = 33 then St 35 else if w = 35 then hp_tr_39 else if w = 37 then St 36 else
      if w = 47 then St 26 else if w = 58 then St 38 else if w = 61 then St 35 else if w = 63 then hp_tr_42 else
      if w = 64 then St 42 else if w = 91 then St 47 else if w = 95 then St 35 else if w = 126 then St 35 else
      if w = 606 then St 35 else if w = 635 then St 35 else if w = 637 then St 35 else
      if w < 65 then (if 36 \<le> w \<and> w \<le> 59 then St 35 else
       St 0) else
      if w > 90 then (if 97 \<le> w \<and> w \<le> 122 then St 35 else
       St 0) else
      St 35)"

definition hp_case_35 :: "bool \<Rightarrow> int \<Rightarrow> hp_action goto" where
  "hp_case_35 relaxed c =
     (let w = c in
      let w = (if c < 123 then (if 94 \<le> c \<and> c \<le> 94 then (if relaxed then c + 256 + 256 else c + 256) else w) else (if c > 123 then (if 125 \<le> c \<and> c \<le> 125 then (if relaxed then c + 256 + 256 else c + 256) else w) else (if relaxed then c + 256 + 256 else c + 256))) in
      if w = 32 then hp_tr_37 else if w = 33 then St 35 else if w = 35 then hp_tr_39 else if w = 37 then St 36 else
      if w = 47 then St 26 else if w = 58 then St 38 else if w = 61 then St 35 else if w = 63 then hp_tr_42 else
      if w = 64 then St 42 else if w = 95 then St 35 else if w = 126 then St 35 else if w = 606 then St 35 else
      if w = 635 then St 35 else if w = 637 then St 35 else
      if w < 65 then (if 36 \<le> w \<and> w \<le> 59 then St 35 else
       St 0) else
      if w > 90 then (if 97 \<le> w \<and> w \<le> 122 then St 35 else
       St 0) else
      St 35)"

definition hp_case_36 :: "bool \<Rightarrow> int \<Rightarrow> hp_action goto" where
  "hp_case_36 relaxed c =
     (if c < 65 then (if 48 \<le> c \<and> c \<le> 57 then St 37 else
       St 0) else
      if c > 70 then (if 97 \<le> c \<and> c \<le> 102 then St 37 else
       St 0) else
      St 37)"

definition hp_case_37 :: "bool \<Rightarrow> int \<Rightarrow> hp_action goto" where
  "hp_case_37 relaxed c =
     (if c < 65 then (if 48 \<le> c \<and> c \<le> 57 then St 35 else
       St 0) else
      if c > 70 then (if 97 \<le> c \<and> c \<le> 102 then St 35 else
       St 0) else
      St 35)"

definition hp_case_38 :: "bool \<Rightarrow> int \<Rightarrow> hp_action goto" where
  "hp_case_38 relaxed c =
     (let w = c in
      let w = (if c < 123 then (if 94 \<le> c \<and> c \<le> 94 then (if relaxed then c + 256 + 256 else c + 256) else w) else (if c > 123 then (if 125 \<le> c \<and> c \<le> 125 then (if relaxed then c + 256 + 256 else c + 256) else w) else (if relaxed then c + 256 + 256 else c + 256))) in
      if w = 32 then hp_tr_37 else if w = 33 then St 39 else if w = 35 then hp_tr_39 else if w = 37 then St 40 else
      if w = 47 then St 26 else if w = 61 then St 39 else if w = 63 then hp_tr_42 else if w = 64 then St 42 else
      if w = 95 then St 39 else if w = 126 then St 39 else if w = 606 then St 39 else if w = 635 then St 39 else
      if w = 637 then St 39 else
      if w < 58 then (if w > 46 then (if 48 \<le> w \<and> w \<le> 57 then St 38 else
        St 0) else
       if w \<ge> 36 then St 39 else
       St 0) else
      if w > 59 then (if w > 90 then (if 97 \<le> w \<and> w \<le> 122 then St 39 else
        St 0) else
       if w \<ge> 65 then St 39 else
       St 0) else
      St 39)"

definition hp_case_39 :: "bool \<Rightarrow> int \<Rightarrow> hp_action goto" where
  "hp_case_39 relaxed c =
     (let w = c in
      let w = (if c < 123 then (if 94 \<le> c \<and> c \<le> 94 then (if relaxed then c + 256 + 256 else c + 256) else w) else (if c > 123 then (if 125 \<le> c \<and> c \<le> 125 then (if relaxed then c + 256 + 256 else c + 256) else w) else (if relaxed then c + 256 + 256 else c + 256))) in
      if w = 33 then St 39 else if w = 37 then St 40 else if w = 61 then St 39 else if w = 64 then St 42 else
      if w = 95 then St 39 else if w = 126 then St 39 else if w = 606 then St 39 else if w = 635 then St 39 else
      if w = 637 then St 39 else
      if w < 48 then (if 36 \<le> w \<and> w \<le> 46 then St 39 else
       St 0) else
      if w > 59 then (if w > 90 then (if 97 \<le> w \<and> w \<le> 122 then St 39 else
        St 0) else
       if w \<ge> 65 then St 39 else
       St 0) else
      St 39)"

definition hp_case_40 :: "bool \<Rightarrow> int \<Rightarrow> hp_action goto" where
  "hp_case_40 relaxed c =
     (if c < 65 then (if 48 \<le> c \<and> c \<le> 57 then St 41 else
       St 0) else
      if c > 70 then (if 97 \<le> c \<and> c \<le> 102 then St 41 else
       St 0) else
      St 41)"

definition hp_case_41 :: "bool \<Rightarrow> int \<Rightarrow> hp_action goto" where
  "hp_case_41 relaxed c =
     (if c < 65 then (if 48 \<le> c \<and> c \<le> 57 then St 39 else
       St 0) else
      if c > 70 then (if 97 \<le> c \<and> c \<le> 102 then St 39 else
       St 0) else
      St 39)"

definition hp_case_42 :: "bool \<Rightarrow> int \<Rightarrow> hp_action goto" where
  "hp_case_42 relaxed c =
     (let w = c in
      let w = (if c < 123 then (if 94 \<le> c \<and> c \<le> 94 then (if relaxed then c + 256 + 256 else c + 256) else w) else (if c > 123 then (if 125 \<le> c \<and> c \<le> 125 then (if relaxed then c + 256 + 256 else c + 256) else w) else (if relaxed then c + 256 + 256 else c + 256))) in
      if w = 32 then hp_tr_37 else if w = 33 then St 43 else if w = 35 then hp_tr_39 else if w = 37 then St 44 else
      if w = 47 then St 26 else if w = 58 then St 46 else if w = 61 then St 43 else if w = 63 then hp_tr_42 else
      if w = 91 then St 47 else if w = 95 then St 43 else if w = 126 then St 43 else if w = 606 then St 43 else
      if w = 635 then St 43 else if w = 637 then St 43 else
      if w < 65 then (if 36 \<le> w \<and> w \<le> 59 then St 43 else
       St 0) else
      if w > 90 then (if 97 \<le> w \<and> w \<le> 122 then St 43 else
       St 0) else
      St 43)"

definition hp_case_43 :: "bool \<Rightarrow> int \<Rightarrow> hp_action goto" where
  "hp_case_43 relaxed c =
     (let w = c in
      let w = (if c < 123 then (if 94 \<le> c \<and> c \<le> 94 then (if relaxed then c + 256 + 256 else c + 256) else w) else (if c > 123 then (if 125 \<le> c \<and> c \<le> 125 then (if relaxed then c + 256 + 256 else c + 256) else w) else (if relaxed then c + 256 + 256 else c + 256))) in
      if w = 32 then hp_tr_37 else if w = 33 then St 43 else if w = 35 then hp_tr_39 else if w = 37 then St 44 else
      if w = 47 then St 26 else if w = 58 then St 46 else if w = 61 then St 43 else if w = 63 then hp_tr_42 else
      if w = 95 then St 43 else if w = 126 then St 43 else if w = 606 then St 43 else if w = 635 then St 43 else
      if w = 637 then St 43 else
      if w < 65 then (if 36 \<le> w \<and> w \<le> 59 then St 43 else
       St 0) else
      if w > 90 then (if 97 \<le> w \<and> w \<le> 122 then St 43 else
       St 0) else
      St 43)"

definition hp_case_44 :: "bool \<Rightarrow> int \<Rightarrow> hp_action goto" where
  "hp_case_44 relaxed c =
     (if c < 65 then (if 48 \<le> c \<and> c \<le> 57 then St 45 else
       St 0) else
      if c > 70 then (if 97 \<le> c \<and> c \<le> 102 then St 45 else
       St 0) else
      St 45)"

definition hp_case_45 :: "bool \<Rightarrow> int \<Rightarrow> hp_action goto" where
  "hp_case_45 relaxed c =
     (if c < 65 then (if 48 \<le> c \<and> c \<le> 57 then St 43 else
       St 0) else
      if c > 70 then (if 97 \<le> c \<and> c \<le> 102 then St 43 else
       St 0) else
      St 43)"

definition hp_case_46 :: "bool \<Rightarrow> int \<Rightarrow> hp_action goto" where
  "hp_case_46 relaxed c =
     (if c = 32 then hp_tr_37 else if c = 35 then hp_tr_39 else if c = 47 then St 26 else if c = 63 then hp_tr_42 else

      if 48 \<le> c \<and> c \<le> 57 then St 46 else
      St 0)"

definition hp_case_47 :: "bool \<Rightarrow> int \<Rightarrow> hp_action goto" where
  "hp_case_47 relaxed c =
     (if c = 6 then St 48 else if c = 58 then St 167 else if c = 118 then St 169 else
      if c < 65 then (if 48 \<le> c \<and> c \<le> 57 then St 91 else
       St 0) else
      if c > 70 then (if 97 \<le> c \<and> c \<le> 102 then St 91 else
       St 0) else
      St 91)"

definition hp_case_48 :: "bool \<Rightarrow> int \<Rightarrow> hp_action goto" where
  "hp_case_48 relaxed c =
     (if c < 65 then (if 48 \<le> c \<and> c \<le> 57 then St 49 else
       St 0) else
      if c > 70 then (if 97 \<le> c \<and> c \<le> 102 then St 49 else
       St 0) else
      St 49)"

definition hp_case_49 :: "bool \<Rightarrow> int \<Rightarrow> hp_action goto" where
  "hp_case_49 relaxed c =
     (if c = 58 then St 53 else
      if c < 65 then (if 48 \<le> c \<and> c \<le> 57 then St 50 else
       St 0) else
      if c > 70 then (if 97 \<le> c \<and> c \<le> 102 then St 50 else
       St 0) else
      St 50)"

definition hp_case_50 :: "bool \<Rightarrow> int \<Rightarrow> hp_action goto" where
  "hp_case_50 relaxed c =
     (if c = 58 then St 53 else
      if c < 65 then (if 48 \<le> c \<and> c \<le> 57 then St 51 else
       St 0) else
      if c > 70 then (if 97 \<le> c \<and> c \<le> 102 then St 51 else
       St 0) else
      St 51)"

definition hp_case_51 :: "bool \<Rightarrow> int \<Rightarrow> hp_action goto" where
  "hp_case_51 relaxed c =
     (if c = 58 then St 53 else
      if c < 65 then (if 48 \<le> c \<and> c \<le> 57 then St 52 else
       St 0) else
      if c > 70 then (if 97 \<le> c \<and> c \<le> 102 then St 52 else
       St 0) else
      St 52)"

definition hp_case_52 :: "bool \<Rightarrow> int \<Rightarrow> hp_action goto" where
  "hp_case_52 relaxed c =
     (if c = 58 then St 53 else
      St 0)"

definition hp_case_53 :: "bool \<Rightarrow> int \<Rightarrow> hp_action goto" where
  "hp_case_53 relaxed c =
     (if c = 49 then St 84 else if c = 50 then St 87 else
      if c < 65 then (if 48 \<le> c \<and> c \<le> 57 then St 54 else
       St 0) else
      if c > 70 then (if 97 \<le> c \<and> c \<le> 102 then St 90 else
       St 0) else
      St 90)"

definition hp_case_54 :: "bool \<Rightarrow> int \<Rightarrow> hp_action goto" where
  "hp_case_54 relaxed c =
     (if c = 46 then St 55 else if c = 58 then St 80 else
      if c < 65 then (if 48 \<le> c \<and> c \<le> 57 then St 77 else
       St 0) else
      if c > 70 then (if 97 \<le> c \<and> c \<le> 102 then St 77 else
       St 0) else
      St 77)"

definition hp_case_55 :: "bool \<Rightarrow> int \<Rightarrow> hp_action goto" where
  "hp_case_55 relaxed c =
     (if c = 49 then St 72 else if c = 50 then St 74 else
      if 48 \<le> c \<and> c \<le> 57 then St 56 else
      St 0)"

definition hp_case_56 :: "bool \<Rightarrow> int \<Rightarrow> hp_action goto" where
  "hp_case_56 relaxed c =
     (if c = 46 then St 57 else
      St 0)"

definition hp_case_57 :: "bool \<Rightarrow> int \<Rightarrow> hp_action goto" where
  "hp_case_57 relaxed c =
     (if c = 49 then St 67 else if c = 50 then St 69 else
      if 48 \<le> c \<and> c \<le> 57 then St 58 else
      St 0)"

definition hp_case_58 :: "bool \<Rightarrow> int \<Rightarrow> hp_action goto" where
  "hp_case_58 relaxed c =
     (if c = 46 then St 59 else
      St 0)"

definition hp_case_59 :: "bool \<Rightarrow> int \<Rightarrow> hp_action goto" where
  "hp_case_59 relaxed c =
     (if c = 49 then St 62 else if c = 50 then St 64 else
      if 48 \<le> c \<and> c \<le> 57 then St 60 else
      St 0)"

definition hp_case_60 :: "bool \<Rightarrow> int \<Rightarrow> hp_action goto" where
  "hp_case_60 relaxed c =
     (if c = 93 then St 61 else
      St 0)"

definition hp_case_61 :: "bool \<Rightarrow> int \<Rightarrow> hp_action goto" where
  "hp_case_61 relaxed c =
     (if c = 32 then hp_tr_37 else if c = 35 then hp_tr_39 else if c = 47 then St 26 else if c = 58 then St 46 else
      if c = 63 then hp_tr_42 else
      St 0)"

definition hp_case_62 :: "bool \<Rightarrow> int \<Rightarrow> hp_action goto" where
  "hp_case_62 relaxed c =
     (if c = 93 then St 61 else
      if 48 \<le> c \<and> c \<le> 57 then St 63 else
      St 0)"

definition hp_case_63 :: "bool \<Rightarrow> int \<Rightarrow> hp_action goto" where
  "hp_case_63 relaxed c =
     (if c = 93 then St 61 else
      if 48 \<le> c \<and> c \<le> 57 then St 60 else
      St 0)"

definition hp_case_64 :: "bool \<Rightarrow> int \<Rightarrow> hp_action goto" where
  "hp_case_64 relaxed c =
     (if c = 48 then St 65 else if c = 53 then St 66 else if c = 93 then St 61 else
      St 0)"

definition hp_case_65 :: "bool \<Rightarrow> int \<Rightarrow> hp_action goto" where
  "hp_case_65 relaxed c =
     (if 48 \<le> c \<and> c \<le> 57 then St 60 else
      St 0)"

definition hp_case_66 :: "bool \<Rightarrow> int \<Rightarrow> hp_action goto" where
  "hp_case_66 relaxed c =
     (if c = 48 then St 60 else
      St 0)"

definition hp_case_67 :: "bool \<Rightarrow> int \<Rightarrow> hp_action goto" where
  "hp_case_67 relaxed c =
     (if c = 46 then St 59 else
      if 48 \<le> c \<and> c \<le> 57 then St 68 else
      St 0)"

definition hp_case_68 :: "bool \<Rightarrow> int \<Rightarrow> hp_action goto" where
  "hp_case_68 relaxed c =
     (if c = 46 then St 59 else
      if 48 \<le> c \<and> c \<le> 57 then St 58 else
      St 0)"

definition hp_case_69 :: "bool \<Rightarrow> int \<Rightarrow> hp_action goto" where
  "hp_case_69 relaxed c =
     (if c = 46 then St 59 else if c = 48 then St 70 else if c = 53 then St 71 else
      St 0)"

definition hp_case_70 :: "bool \<Rightarrow> int \<Rightarrow> hp_action goto" where
  "hp_case_70 relaxed c =
     (if 48 \<le> c \<and> c \<le> 57 then St 58 else
      St 0)"

definition hp_case_71 :: "bool \<Rightarrow> int \<Rightarrow> hp_action goto" where
  "hp_case_71 relaxed c =
     (if c = 48 then St 58 else
      St 0)"

definition hp_case_72 :: "bool \<Rightarrow> int \<Rightarrow> hp_action goto" where
  "hp_case_72 relaxed c =
     (if c = 46 then St 57 else
      if 48 \<le> c \<and> c \<le> 57 then St 73 else
      St 0)"

definition hp_case_73 :: "bool \<Rightarrow> int \<Rightarrow> hp_action goto" where
  "hp_case_73 relaxed c =
     (if c = 46 then St 57 else
      if 48 \<le> c \<and> c \<le> 57 then St 56 else
      St 0)"

definition hp_case_74 :: "bool \<Rightarrow> int \<Rightarrow> hp_action goto" where
  "hp_case_74 relaxed c =
     (if c = 46 then St 57 else if c = 48 then St 75 else if c = 53 then St 76 else
      St 0)"

definition hp_case_75 :: "bool \<Rightarrow> int \<Rightarrow> hp_action goto" where
  "hp_case_75 relaxed c =
     (if 48 \<le> c \<and> c \<le> 57 then St 56 else
      St 0)"

definition hp_case_76 :: "bool \<Rightarrow> int \<Rightarrow> hp_action goto" where
  "hp_case_76 relaxed c =
     (if c = 48 then St 56 else
      St 0)"

definition hp_case_77 :: "bool \<Rightarrow> int \<Rightarrow> hp_action goto" where
  "hp_case_77 relaxed c =
     (if c = 58 then St 80 else
      if c < 65 then (if 48 \<le> c \<and> c \<le> 57 then St 78 else
       St 0) else
      if c > 70 then (if 97 \<le> c \<and> c \<le> 102 then St 78 else
       St 0) else
      St 78)"

definition hp_case_78 :: "bool \<Rightarrow> int \<Rightarrow> hp_action goto" where
  "hp_case_78 relaxed c =
     (if c = 58 then St 80 else
      if c < 65 then (if 48 \<le> c \<and> c \<le> 57 then St 79 else
       St 0) else
      if c > 70 then (if 97 \<le> c \<and> c \<le> 102 then St 79 else
       St 0) else
      St 79)"

definition hp_case_79 :: "bool \<Rightarrow> int \<Rightarrow> hp_action goto" where
  "hp_case_79 relaxed c =
     (if c = 58 then St 80 else
      St 0)"

definition hp_case_80 :: "bool \<Rightarrow> int \<Rightarrow> hp_action goto" where
  "hp_case_80 relaxed c =
     (if c < 65 then (if 48 \<le> c \<and> c \<le> 57 then St 81 else
       St 0) else
      if c > 70 then (if 97 \<le> c \<and> c \<le> 102 then St 81 else
       St 0) else
      St 81)"

definition hp_case_81 :: "bool \<Rightarrow> int \<Rightarrow> hp_action goto" where
  "hp_case_81 relaxed c =
     (if c = 93 then St 61 else
      if c < 65 then (if 48 \<le> c \<and> c \<le> 57 then St 82 else
       St 0) else
      if c > 70 then (if 97 \<le> c \<and> c \<le> 102 then St 82 else
       St 0) else
      St 82)"

definition hp_case_82 :: "bool \<Rightarrow> int \<Rightarrow> hp_action goto" where
  "hp_case_82 relaxed c =
     (if c = 93 then St 61 else
      if c < 65 then (if 48 \<le> c \<and> c \<le> 57 then St 83 else
       St 0) else
      if c > 70 then (if 97 \<le> c \<and> c \<le> 102 then St 83 else
       St 0) else
      St 83)"

definition hp_case_83 :: "bool \<Rightarrow> int \<Rightarrow> hp_action goto" where
  "hp_case_83 relaxed c =
     (if c = 93 then St 61 else
      if c < 65 then (if 48 \<le> c \<and> c \<le> 57 then St 60 else
       St 0) else
      if c > 70 then (if 97 \<le> c \<and> c \<le> 102 then St 60 else
       St 0) else
      St 60)"

definition hp_case_84 :: "bool \<Rightarrow> int \<Rightarrow> hp_action goto" where
  "hp_case_84 relaxed c =
     (if c = 46 then St 55 else if c = 58 then St 80 else
      if c < 65 then (if 48 \<le> c \<and> c \<le> 57 then St 85 else
       St 0) else
      if c > 70 then (if 97 \<le> c \<and> c \<le> 102 then St 77 else
       St 0) else
      St 77)"

definition hp_case_85 :: "bool \<Rightarrow> int \<Rightarrow> hp_action goto" where
  "hp_case_85 relaxed c =
     (if c = 46 then St 55 else if c = 58 then St 80 else
      if c < 65 then (if 48 \<le> c \<and> c \<le> 57 then St 86 else
       St 0) else
      if c > 70 then (if 97 \<le> c \<and> c \<le> 102 then St 78 else
       St 0) else
      St 78)"

definition hp_case_86 :: "bool \<Rightarrow> int \<Rightarrow> hp_action goto" where
  "hp_case_86 relaxed c =
     (if c = 46 then St 55 else if c = 58 then St 80 else
      if c < 65 then (if 48 \<le> c \<and> c \<le> 57 then St 79 else
       St 0) else
      if c > 70 then (if 97 \<le> c \<and> c \<le> 102 then St 79 else
       St 0) else
      St 79)"

definition hp_case_87 :: "bool \<Rightarrow> int \<Rightarrow> hp_action goto" where
  "hp_case_87 relaxed c =
     (if c = 46 then St 55 else if c = 48 then St 88 else if c = 53 then St 89 else if c = 58 then St 80 else

      if c < 65 then (if 49 \<le> c \<and> c \<le> 57 then St 77 else
       St 0) else
      if c > 70 then (if 97 \<le> c \<and> c \<le> 102 then St 77 else
       St 0) else
      St 77)"

definition hp_case_88 :: "bool \<Rightarrow> int \<Rightarrow> hp_action goto" where
  "hp_case_88 relaxed c =
     (if c = 58 then St 80 else
      if c < 65 then (if 48 \<le> c \<and> c \<le> 57 then St 86 else
       St 0) else
      if c > 70 then (if 97 \<le> c \<and> c \<le> 102 then St 78 else
       St 0) else
      St 78)"

definition hp_case_89 :: "bool \<Rightarrow> int \<Rightarrow> hp_action goto" where
  "hp_case_89 relaxed c =
     (if c = 48 then St 86 else if c = 58 then St 80 else
      if c < 65 then (if 49 \<le> c \<and> c \<le> 57 then St 78 else
       St 0) else
      if c > 70 then (if 97 \<le> c \<and> c \<le> 102 then St 78 else
       St 0) else
      St 78)"

definition hp_case_90 :: "bool \<Rightarrow> int \<Rightarrow> hp_action goto" where
  "hp_case_90 relaxed c =
     (if c = 58 then St 80 else
      if c < 65 then (if 48 \<le> c \<and> c \<le> 57 then St 77 else
       St 0) else
      if c > 70 then (if 97 \<le> c \<and> c \<le> 102 then St 77 else
       St 0) else
      St 77)"

definition hp_case_91 :: "bool \<Rightarrow> int \<Rightarrow> hp_action goto" where
  "hp_case_91 relaxed c =
     (if c = 58 then St 95 else
      if c < 65 then (if 48 \<le> c \<and> c \<le> 57 then St 92 else
       St 0) else
      if c > 70 then (if 97 \<le> c \<and> c \<le> 102 then St 92 else
       St 0) else
      St 92)"

definition hp_case_92 :: "bool \<Rightarrow> int \<Rightarrow> hp_action goto" where
  "hp_case_92 relaxed c =
     (if c = 58 then St 95 else
      if c < 65 then (if 48 \<le> c \<and> c \<le> 57 then St 93 else
       St 0) else
      if c > 70 then (if 97 \<le> c \<and> c \<le> 102 then St 93 else
       St 0) else
      St 93)"

definition hp_case_93 :: "bool \<Rightarrow> int \<Rightarrow> hp_action goto" where
  "hp_case_93 relaxed c =
     (if c = 58 then St 95 else
      if c < 65 then (if 48 \<le> c \<and> c \<le> 57 then St 94 else
       St 0) else
      if c > 70 then (if 97 \<le> c \<and> c \<le> 102 then St 94 else
       St 0) else
      St 94)"

definition hp_case_94 :: "bool \<Rightarrow> int \<Rightarrow> hp_action goto" where
  "hp_case_94 relaxed c =
     (if c = 58 then St 95 else
      St 0)"

definition hp_case_95 :: "bool \<Rightarrow> int \<Rightarrow> hp_action goto" where
  "hp_case_95 relaxed c =
     (if c = 58 then St 166 else
      if c < 65 then (if 48 \<le> c \<and> c \<le> 57 then St 96 else
       St 0) else
      if c > 70 then (if 97 \<le> c \<and> c \<le> 102 then St 96 else
       St 0) else
      St 96)"

definition hp_case_96 :: "bool \<Rightarrow> int \<Rightarrow> hp_action goto" where
  "hp_case_96 relaxed c =
     (if c = 58 then St 100 else
      if c < 65 then (if 48 \<le> c \<and> c \<le> 57 then St 97 else
       St 0) else
      if c > 70 then (if 97 \<le> c \<and> c \<le> 102 then St 97 else
       St 0) else
      St 97)"

definition hp_case_97 :: "bool \<Rightarrow> int \<Rightarrow> hp_action goto" where
  "hp_case_97 relaxed c =
     (if c = 58 then St 100 else
      if c < 65 then (if 48 \<le> c \<and> c \<le> 57 then St 98 else
       St 0) else
      if c > 70 then (if 97 \<le> c \<and> c \<le> 102 then St 98 else
       St 0) else
      St 98)"

definition hp_case_98 :: "bool \<Rightarrow> int \<Rightarrow> hp_action goto" where
  "hp_case_98 relaxed c =
     (if c = 58 then St 100 else
      if c < 65 then (if 48 \<le> c \<and> c \<le> 57 then St 99 else
       St 0) else
      if c > 70 then (if 97 \<le> c \<and> c \<le> 102 then St 99 else
       St 0) else
      St 99)"

definition hp_case_99 :: "bool \<Rightarrow> int \<Rightarrow> hp_action goto" where
  "hp_case_99 relaxed c =
     (if c = 58 then St 100 else
      St 0)"

definition hp_case_100 :: "bool \<Rightarrow> int \<Rightarrow> hp_action goto" where
  "hp_case_100 relaxed c =
     (if c = 58 then St 165 else
      if c < 65 then (if 48 \<le> c \<and> c \<le> 57 then St 101 else
       St 0) else
      if c > 70 then (if 97 \<le> c \<and> c \<le> 102 then St 101 else
       St 0) else
      St 101)"

definition hp_case_101 :: "bool \<Rightarrow> int \<Rightarrow> hp_action goto" where
  "hp_case_101 relaxed c =
     (if c = 58 then St 105 else
      if c < 65 then (if 48 \<le> c \<and> c \<le> 57 then St 102 else
       St 0) else
      if c > 70 then (if 97 \<le> c \<and> c \<le> 102 then St 102 else
       St 0) else
      St 102)"

definition hp_case_102 :: "bool \<Rightarrow> int \<Rightarrow> hp_action goto" where
  "hp_case_102 relaxed c =
     (if c = 58 then St 105 else
      if c < 65 then (if 48 \<le> c \<and> c \<le> 57 then St 103 else
       St 0) else
      if c > 70 then (if 97 \<le> c \<and> c \<le> 102 then St 103 else
       St 0) else
      St 103)"

definition hp_case_103 :: "bool \<Rightarrow> int \<Rightarrow> hp_action goto" where
  "hp_case_103 relaxed c =
     (if c = 58 then St 105 else
      if c < 65 then (if 48 \<le> c \<and> c \<le> 57 then St 104 else
       St 0) else
      if c > 70 then (if 97 \<le> c \<and> c \<le> 102 then St 104 else
       St 0) else
      St 104)"

definition hp_case_104 :: "bool \<Rightarrow> int \<Rightarrow> hp_action goto" where
  "hp_case_104 relaxed c =
     (if c = 58 then St 105 else
      St 0)"

definition hp_case_105 :: "bool \<Rightarrow> int \<Rightarrow> hp_action goto" where
  "hp_case_105 relaxed c =
     (if c = 58 then St 164 else
      if c < 65 then (if 48 \<le> c \<and> c \<le> 57 then St 106 else
       St 0) else
      if c > 70 then (if 97 \<le> c \<and> c \<le> 102 then St 106 else
       St 0) else
      St 106)"

definition hp_case_106 :: "bool \<Rightarrow> int \<Rightarrow> hp_action goto" where
  "hp_case_106 relaxed c =
     (if c = 58 then St 110 else
      if c < 65 then (if 48 \<le> c \<and> c \<le> 57 then St 107 else
       St 0) else
      if c > 70 then (if 97 \<le> c \<and> c \<le> 102 then St 107 else
       St 0) else
      St 107)"

definition hp_case_107 :: "bool \<Rightarrow> int \<Rightarrow> hp_action goto" where
  "hp_case_107 relaxed c =
     (if c = 58 then St 110 else
      if c < 65 then (if 48 \<le> c \<and> c \<le> 57 then St 108 else
       St 0) else
      if c > 70 then (if 97 \<le> c \<and> c \<le> 102 then St 108 else
       St 0) else
      St 108)"

definition hp_case_108 :: "bool \<Rightarrow> int \<Rightarrow> hp_action goto" where
  "hp_case_108 relaxed c =
     (if c = 58 then St 110 else
      if c < 65 then (if 48 \<le> c \<and> c \<le> 57 then St 109 else
       St 0) else
      if c > 70 then (if 97 \<le> c \<and> c \<le> 102 then St 109 else
       St 0) else
      St 109)"

definition hp_case_109 :: "bool \<Rightarrow> int \<Rightarrow> hp_action goto" where
  "hp_case_109 relaxed c =
     (if c = 58 then St 110 else
      St 0)"

definition hp_case_110 :: "bool \<Rightarrow> int \<Rightarrow> hp_action goto" where
  "hp_case_110 relaxed c =
     (if c = 58 then St 163 else
      if c < 65 then (if 48 \<le> c \<and> c \<le> 57 then St 111 else
       St 0) else
      if c > 70 then (if 97 \<le> c \<and> c \<le> 102 then St 111 else
       St 0) else
      St 111)"

definition hp_case_111 :: "bool \<Rightarrow> int \<Rightarrow> hp_action goto" where
  "hp_case_111 relaxed c =
     (if c = 58 then St 115 else
      if c < 65 then (if 48 \<le> c \<and> c \<le> 57 then St 112 else
       St 0) else
      if c > 70 then (if 97 \<le> c \<and> c \<le> 102 then St 112 else
       St 0) else
      St 112)"

definition hp_case_112 :: "bool \<Rightarrow> int \<Rightarrow> hp_action goto" where
  "hp_case_112 relaxed c =
     (if c = 58 then St 115 else
      if c < 65 then (if 48 \<le> c \<and> c \<le> 57 then St 113 else
       St 0) else
      if c > 70 then (if 97 \<le> c \<and> c \<le> 102 then St 113 else
       St 0) else
      St 113)"

definition hp_case_113 :: "bool \<Rightarrow> int \<Rightarrow> hp_action goto" where
  "hp_case_113 relaxed c =
     (if c = 58 then St 115 else
      if c < 65 then (if 48 \<le> c \<and> c \<le> 57 then St 114 else
       St 0) else
      if c > 70 then (if 97 \<le> c \<and> c \<le> 102 then St 114 else
       St 0) else
      St 114)"

definition hp_case_114 :: "bool \<Rightarrow> int \<Rightarrow> hp_action goto" where
  "hp_case_114 relaxed c =
     (if c = 58 then St 115 else
      St 0)"

definition hp_case_115 :: "bool \<Rightarrow> int \<Rightarrow> hp_action goto" where
  "hp_case_115 relaxed c =
     (if c = 58 then St 151 else
      if c < 65 then (if 48 \<le> c \<and> c \<le> 57 then St 116 else
       St 0) else
      if c > 70 then (if 97 \<le> c \<and> c \<le> 102 then St 116 else
       St 0) else
      St 116)"

definition hp_case_116 :: "bool \<Rightarrow> int \<Rightarrow> hp_action goto" where
  "hp_case_116 relaxed c =
     (if c = 58 then St 120 else
      if c < 65 then (if 48 \<le> c \<and> c \<le> 57 then St 117 else
       St 0) else
      if c > 70 then (if 97 \<le> c \<and> c \<le> 102 then St 117 else
       St 0) else
      St 117)"

definition hp_case_117 :: "bool \<Rightarrow> int \<Rightarrow> hp_action goto" where
  "hp_case_117 relaxed c =
     (if c = 58 then St 120 else
      if c < 65 then (if 48 \<le> c \<and> c \<le> 57 then St 118 else
       St 0) else
      if c > 70 then (if 97 \<le> c \<and> c \<le> 102 then St 118 else
       St 0) else
      St 118)"

definition hp_case_118 :: "bool \<Rightarrow> int \<Rightarrow> hp_action goto" where
  "hp_case_118 relaxed c =
     (if c = 58 then St 120 else
      if c < 65 then (if 48 \<le> c \<and> c \<le> 57 then St 119 else
       St 0) else
      if c > 70 then (if 97 \<le> c \<and> c \<le> 102 then St 119 else
       St 0) else
      St 119)"

definition hp_case_119 :: "bool \<Rightarrow> int \<Rightarrow> hp_action goto" where
  "hp_case_119 relaxed c =
     (if c = 58 then St 120 else
      St 0)"

definition hp_case_120 :: "bool \<Rightarrow> int \<Rightarrow> hp_action goto" where
  "hp_case_120 relaxed c =
     (if c = 58 then St 150 else
      if c < 65 then (if 48 \<le> c \<and> c \<le> 57 then St 121 else
       St 0) else
      if c > 70 then (if 97 \<le> c \<and> c \<le> 102 then St 121 else
       St 0) else
      St 121)"

definition hp_case_121 :: "bool \<Rightarrow> int \<Rightarrow> hp_action goto" where
  "hp_case_121 relaxed c =
     (if c = 58 then St 125 else
      if c < 65 then (if 48 \<le> c \<and> c \<le> 57 then St 122 else
       St 0) else
      if c > 70 then (if 97 \<le> c \<and> c \<le> 102 then St 122 else
       St 0) else
      St 122)"

definition hp_case_122 :: "bool \<Rightarrow> int \<Rightarrow> hp_action goto" where
  "hp_case_122 relaxed c =
     (if c = 58 then St 125 else
      if c < 65 then (if 48 \<le> c \<and> c \<le> 57 then St 123 else
       St 0) else
      if c > 70 then (if 97 \<le> c \<and> c \<le> 102 then St 123 else
       St 0) else
      St 123)"

definition hp_case_123 :: "bool \<Rightarrow> int \<Rightarrow> hp_action goto" where
  "hp_case_123 relaxed c =
     (if c = 58 then St 125 else
      if c < 65 then (if 48 \<le> c \<and> c \<le> 57 then St 124 else
       St 0) else
      if c > 70 then (if 97 \<le> c \<and> c \<le> 102 then St 124 else
       St 0) else
      St 124)"

definition hp_case_124 :: "bool \<Rightarrow> int \<Rightarrow> hp_action goto" where
  "hp_case_124 relaxed c =
     (if c = 58 then St 125 else
      St 0)"

definition hp_case_125 :: "bool \<Rightarrow> int \<Rightarrow> hp_action goto" where
  "hp_case_125 relaxed c =
     (if c = 58 then St 126 else
      if c < 65 then (if 48 \<le> c \<and> c \<le> 57 then St 121 else
       St 0) else
      if c > 70 then (if 97 \<le> c \<and> c \<le> 102 then St 121 else
       St 0) else
      St 121)"

definition hp_case_126 :: "bool \<Rightarrow> int \<Rightarrow> hp_action goto" where
  "hp_case_126 relaxed c =
     (if c = 49 then St 143 else if c = 50 then St 146 else if c = 93 then St 61 else
      if c < 48 then (if 2 \<le> c \<and> c \<le> 3 then St 48 else
       St 0) else
      if c > 57 then (if c > 70 then (if 97 \<le> c \<and> c \<le> 102 then St 149 else
        St 0) else
       if c \<ge> 65 then St 149 else
       St 0) else
      St 127)"

definition hp_case_127 :: "bool \<Rightarrow> int \<Rightarrow> hp_action goto" where
  "hp_case_127 relaxed c =
     (if c = 46 then St 55 else if c = 58 then St 131 else if c = 93 then St 61 else
      if c < 65 then (if 48 \<le> c \<and> c \<le> 57 then St 128 else
       St 0) else
      if c > 70 then (if 97 \<le> c \<and> c \<le> 102 then St 128 else
       St 0) else
      St 128)"

definition hp_case_128 :: "bool \<Rightarrow> int \<Rightarrow> hp_action goto" where
  "hp_case_128 relaxed c =
     (if c = 58 then St 131 else if c = 93 then St 61 else
      if c < 65 then (if 48 \<le> c \<and> c \<le> 57 then St 129 else
       St 0) else
      if c > 70 then (if 97 \<le> c \<and> c \<le> 102 then St 129 else
       St 0) else
      St 129)"

definition hp_case_129 :: "bool \<Rightarrow> int \<Rightarrow> hp_action goto" where
  "hp_case_129 relaxed c =
     (if c = 58 then St 131 else if c = 93 then St 61 else
      if c < 65 then (if 48 \<le> c \<and> c \<le> 57 then St 130 else
       St 0) else
      if c > 70 then (if 97 \<le> c \<and> c \<le> 102 then St 130 else
       St 0) else
      St 130)"

definition hp_case_130 :: "bool \<Rightarrow> int \<Rightarrow> hp_action goto" where
  "hp_case_130 relaxed c =
     (if c = 58 then St 131 else if c = 93 then St 61 else
      St 0)"

definition hp_case_131 :: "bool \<Rightarrow> int \<Rightarrow> hp_action goto" where
  "hp_case_131 relaxed c =
     (if c = 49 then St 136 else if c = 50 then St 139 else
      if c < 65 then (if 48 \<le> c \<and> c \<le> 57 then St 132 else
       St 0) else
      if c > 70 then (if 97 \<le> c \<and> c \<le> 102 then St 142 else
       St 0) else
      St 142)"

definition hp_case_132 :: "bool \<Rightarrow> int \<Rightarrow> hp_action goto" where
  "hp_case_132 relaxed c =
     (if c = 46 then St 55 else if c = 58 then St 80 else if c = 93 then St 61 else
      if c < 65 then (if 48 \<le> c \<and> c \<le> 57 then St 133 else
       St 0) else
      if c > 70 then (if 97 \<le> c \<and> c \<le> 102 then St 133 else
       St 0) else
      St 133)"

definition hp_case_133 :: "bool \<Rightarrow> int \<Rightarrow> hp_action goto" where
  "hp_case_133 relaxed c =
     (if c = 58 then St 80 else if c = 93 then St 61 else
      if c < 65 then (if 48 \<le> c \<and> c \<le> 57 then St 134 else
       St 0) else
      if c > 70 then (if 97 \<le> c \<and> c \<le> 102 then St 134 else
       St 0) else
      St 134)"

definition hp_case_134 :: "bool \<Rightarrow> int \<Rightarrow> hp_action goto" where
  "hp_case_134 relaxed c =
     (if c = 58 then St 80 else if c = 93 then St 61 else
      if c < 65 then (if 48 \<le> c \<and> c \<le> 57 then St 135 else
       St 0) else
      if c > 70 then (if 97 \<le> c \<and> c \<le> 102 then St 135 else
       St 0) else
      St 135)"

definition hp_case_135 :: "bool \<Rightarrow> int \<Rightarrow> hp_action goto" where
  "hp_case_135 relaxed c =
     (if c = 58 then St 80 else if c = 93 then St 61 else
      St 0)"

definition hp_case_136 :: "bool \<Rightarrow> int \<Rightarrow> hp_action goto" where
  "hp_case_136 relaxed c =
     (if c = 46 then St 55 else if c = 58 then St 80 else if c = 93 then St 61 else
      if c < 65 then (if 48 \<le> c \<and> c \<le> 57 then St 137 else
       St 0) else
      if c > 70 then (if 97 \<le> c \<and> c \<le> 102 then St 133 else
       St 0) else
      St 133)"

definition hp_case_137 :: "bool \<Rightarrow> int \<Rightarrow> hp_action goto" where
  "hp_case_137 relaxed c =
     (if c = 46 then St 55 else if c = 58 then St 80 else if c = 93 then St 61 else
      if c < 65 then (if 48 \<le> c \<and> c \<le> 57 then St 138 else
       St 0) else
      if c > 70 then (if 97 \<le> c \<and> c \<le> 102 then St 134 else
       St 0) else
      St 134)"

definition hp_case_138 :: "bool \<Rightarrow> int \<Rightarrow> hp_action goto" where
  "hp_case_138 relaxed c =
     (if c = 46 then St 55 else if c = 58 then St 80 else if c = 93 then St 61 else
      if c < 65 then (if 48 \<le> c \<and> c \<le> 57 then St 135 else
       St 0) else
      if c > 70 then (if 97 \<le> c \<and> c \<le> 102 then St 135 else
       St 0) else
      St 135)"

definition hp_case_139 :: "bool \<Rightarrow> int \<Rightarrow> hp_action goto" where
  "hp_case_139 relaxed c =
     (if c = 46 then St 55 else if c = 48 then St 140 else if c = 53 then St 141 else if c = 58 then St 80 else
      if c = 93 then St 61 else
      if c < 65 then (if 49 \<le> c \<and> c \<le> 57 then St 133 else
       St 0) else
      if c > 70 then (if 97 \<le> c \<and> c \<le> 102 then St 133 else
       St 0) else
      St 133)"

definition hp_case_140 :: "bool \<Rightarrow> int \<Rightarrow> hp_action goto" where
  "hp_case_140 relaxed c =
     (if c = 58 then St 80 else if c = 93 then St 61 else
      if c < 65 then (if 48 \<le> c \<and> c \<le> 57 then St 138 else
       St 0) else
      if c > 70 then (if 97 \<le> c \<and> c \<le> 102 then St 134 else
       St 0) else
      St 134)"

definition hp_case_141 :: "bool \<Rightarrow> int \<Rightarrow> hp_action goto" where
  "hp_case_141 relaxed c =
     (if c = 48 then St 138 else if c = 58 then St 80 else if c = 93 then St 61 else
      if c < 65 then (if 49 \<le> c \<and> c \<le> 57 then St 134 else
       St 0) else
      if c > 70 then (if 97 \<le> c \<and> c \<le> 102 then St 134 else
       St 0) else
      St 134)"

definition hp_case_142 :: "bool \<Rightarrow> int \<Rightarrow> hp_action goto" where
  "hp_case_142 relaxed c =
     (if c = 58 then St 80 else if c = 93 then St 61 else
      if c < 65 then (if 48 \<le> c \<and> c \<le> 57 then St 133 else
       St 0) else
      if c > 70 then (if 97 \<le> c \<and> c \<le> 102 then St 133 else
       St 0) else
      St 133)"

definition hp_case_143 :: "bool \<Rightarrow> int \<Rightarrow> hp_action goto" where
  "hp_case_143 relaxed c =
     (if c = 46 then St 55 else if c = 58 then St 131 else if c = 93 then St 61 else
      if c < 65 then (if 48 \<le> c \<and> c \<le> 57 then St 144 else
       St 0) else
      if c > 70 then (if 97 \<le> c \<and> c \<le> 102 then St 128 else
       St 0) else
      St 128)"

definition hp_case_144 :: "bool \<Rightarrow> int \<Rightarrow> hp_action goto" where
  "hp_case_144 relaxed c =
     (if c = 46 then St 55 else if c = 58 then St 131 else if c = 93 then St 61 else
      if c < 65 then (if 48 \<le> c \<and> c \<le> 57 then St 145 else
       St 0) else
      if c > 70 then (if 97 \<le> c \<and> c \<le> 102 then St 129 else
       St 0) else
      St 129)"

definition hp_case_145 :: "bool \<Rightarrow> int \<Rightarrow> hp_action goto" where
  "hp_case_145 relaxed c =
     (if c = 46 then St 55 else if c = 58 then St 131 else if c = 93 then St 61 else
      if c < 65 then (if 48 \<le> c \<and> c \<le> 57 then St 130 else
       St 0) else
      if c > 70 then (if 97 \<le> c \<and> c \<le> 102 then St 130 else
       St 0) else
      St 130)"

definition hp_case_146 :: "bool \<Rightarrow> int \<Rightarrow> hp_action goto" where
  "hp_case_146 relaxed c =
     (if c = 46 then St 55 else if c = 48 then St 147 else if c = 53 then St 148 else if c = 58 then St 131 else
      if c = 93 then St 61 else
      if c < 65 then (if 49 \<le> c \<and> c \<le> 57 then St 128 else
       St 0) else
      if c > 70 then (if 97 \<le> c \<and> c \<le> 102 then St 128 else
       St 0) else
      St 128)"

definition hp_case_147 :: "bool \<Rightarrow> int \<Rightarrow> hp_action goto" where
  "hp_case_147 relaxed c =
     (if c = 58 then St 131 else if c = 93 then St 61 else
      if c < 65 then (if 48 \<le> c \<and> c \<le> 57 then St 145 else
       St 0) else
      if c > 70 then (if 97 \<le> c \<and> c \<le> 102 then St 129 else
       St 0) else
      St 129)"

definition hp_case_148 :: "bool \<Rightarrow> int \<Rightarrow> hp_action goto" where
  "hp_case_148 relaxed c =
     (if c = 48 then St 145 else if c = 58 then St 131 else if c = 93 then St 61 else
      if c < 65 then (if 49 \<le> c \<and> c \<le> 57 then St 129 else
       St 0) else
      if c > 70 then (if 97 \<le> c \<and> c \<le> 102 then St 129 else
       St 0) else
      St 129)"

definition hp_case_149 :: "bool \<Rightarrow> int \<Rightarrow> hp_action goto" where
  "hp_case_149 relaxed c =
     (if c = 58 then St 131 else if c = 93 then St 61 else
      if c < 65 then (if 48 \<le> c \<and> c \<le> 57 then St 128 else
       St 0) else
      if c > 70 then (if 97 \<le> c \<and> c \<le> 102 then St 128 else
       St 0) else
      St 128)"

definition hp_case_150 :: "bool \<Rightarrow> int \<Rightarrow> hp_action goto" where
  "hp_case_150 relaxed c =
     (if c = 49 then St 143 else if c = 50 then St 146 else
      if c < 48 then (if 2 \<le> c \<and> c \<le> 3 then St 48 else
       St 0) else
      if c > 57 then (if c > 70 then (if 97 \<le> c \<and> c \<le> 102 then St 149 else
        St 0) else
       if c \<ge> 65 then St 149 else
       St 0) else
      St 127)"

definition hp_case_151 :: "bool \<Rightarrow> int \<Rightarrow> hp_action goto" where
  "hp_case_151 relaxed c =
     (if c = 49 then St 156 else if c = 50 then St 159 else
      if c < 48 then (if 2 \<le> c \<and> c \<le> 3 then St 48 else
       St 0) else
      if c > 57 then (if c > 70 then (if 97 \<le> c \<and> c \<le> 102 then St 162 else
        St 0) else
       if c \<ge> 65 then St 162 else
       St 0) else
      St 152)"

definition hp_case_152 :: "bool \<Rightarrow> int \<Rightarrow> hp_action goto" where
  "hp_case_152 relaxed c =
     (if c = 46 then St 55 else if c = 58 then St 131 else
      if c < 65 then (if 48 \<le> c \<and> c \<le> 57 then St 153 else
       St 0) else
      if c > 70 then (if 97 \<le> c \<and> c \<le> 102 then St 153 else
       St 0) else
      St 153)"

definition hp_case_153 :: "bool \<Rightarrow> int \<Rightarrow> hp_action goto" where
  "hp_case_153 relaxed c =
     (if c = 58 then St 131 else
      if c < 65 then (if 48 \<le> c \<and> c \<le> 57 then St 154 else
       St 0) else
      if c > 70 then (if 97 \<le> c \<and> c \<le> 102 then St 154 else
       St 0) else
      St 154)"

definition hp_case_154 :: "bool \<Rightarrow> int \<Rightarrow> hp_action goto" where
  "hp_case_154 relaxed c =
     (if c = 58 then St 131 else
      if c < 65 then (if 48 \<le> c \<and> c \<le> 57 then St 155 else
       St 0) else
      if c > 70 then (if 97 \<le> c \<and> c \<le> 102 then St 155 else
       St 0) else
      St 155)"

definition hp_case_155 :: "bool \<Rightarrow> int \<Rightarrow> hp_action goto" where
  "hp_case_155 relaxed c =
     (if c = 58 then St 131 else
      St 0)"

definition hp_case_156 :: "bool \<Rightarrow> int \<Rightarrow> hp_action goto" where
  "hp_case_156 relaxed c =
     (if c = 46 then St 55 else if c = 58 then St 131 else
      if c < 65 then (if 48 \<le> c \<and> c \<le> 57 then St 157 else
       St 0) else
      if c > 70 then (if 97 \<le> c \<and> c \<le> 102 then St 153 else
       St 0) else
      St 153)"

definition hp_case_157 :: "bool \<Rightarrow> int \<Rightarrow> hp_action goto" where
  "hp_case_157 relaxed c =
     (if c = 46 then St 55 else if c = 58 then St 131 else
      if c < 65 then (if 48 \<le> c \<and> c \<le> 57 then St 158 else
       St 0) else
      if c > 70 then (if 97 \<le> c \<and> c \<le> 102 then St 154 else
       St 0) else
      St 154)"

definition hp_case_158 :: "bool \<Rightarrow> int \<Rightarrow> hp_action goto" where
  "hp_case_158 relaxed c =
     (if c = 46 then St 55 else if c = 58 then St 131 else
      if c < 65 then (if 48 \<le> c \<and> c \<le> 57 then St 155 else
       St 0) else
      if c > 70 then (if 97 \<le> c \<and> c \<le> 102 then St 155 else
       St 0) else
      St 155)"

definition hp_case_159 :: "bool \<Rightarrow> int \<Rightarrow> hp_action goto" where
  "hp_case_159 relaxed c =
     (if c = 46 then St 55 else if c = 48 then St 160 else if c = 53 then St 161 else if c = 58 then St 131 else

      if c < 65 then (if 49 \<le> c \<and> c \<le> 57 then St 153 else
       St 0) else
      if c > 70 then (if 97 \<le> c \<and> c \<le> 102 then St 153 else
       St 0) else
      St 153)"

definition hp_case_160 :: "bool \<Rightarrow> int \<Rightarrow> hp_action goto" where
  "hp_case_160 relaxed c =
     (if c = 58 then St 131 else
      if c < 65 then (if 48 \<le> c \<and> c \<le> 57 then St 158 else
       St 0) else
      if c > 70 then (if 97 \<le> c \<and> c \<le> 102 then St 154 else
       St 0) else
      St 154)"

definition hp_case_161 :: "bool \<Rightarrow> int \<Rightarrow> hp_action goto" where
  "hp_case_161 relaxed c =
     (if c = 48 then St 158 else if c = 58 then St 131 else
      if c < 65 then (if 49 \<le> c \<and> c \<le> 57 then St 154 else
       St 0) else
      if c > 70 then (if 97 \<le> c \<and> c \<le> 102 then St 154 else
       St 0) else
      St 154)"

definition hp_case_162 :: "bool \<Rightarrow> int \<Rightarrow> hp_action goto" where
  "hp_case_162 relaxed c =
     (if c = 58 then St 131 else
      if c < 65 then (if 48 \<le> c \<and> c \<le> 57 then St 153 else
       St 0) else
      if c > 70 then (if 97 \<le> c \<and> c \<le> 102 then St 153 else
       St 0) else
      St 153)"

definition hp_case_163 :: "bool \<Rightarrow> int \<Rightarrow> hp_action goto" where
  "hp_case_163 relaxed c =
     (if c < 48 then (if 2 \<le> c \<and> c \<le> 3 then St 48 else
       St 0) else
      if c > 57 then (if c > 70 then (if 97 \<le> c \<and> c \<le> 102 then St 49 else
        St 0) else
       if c \<ge> 65 then St 49 else
       St 0) else
      St 49)"

definition hp_case_164 :: "bool \<Rightarrow> int \<Rightarrow> hp_action goto" where
  "hp_case_164 relaxed c =
     (if 2 \<le> c \<and> c \<le> 3 then St 48 else
      St 0)"

definition hp_case_165 :: "bool \<Rightarrow> int \<Rightarrow> hp_action goto" where
  "hp_case_165 relaxed c =
     (if c = 3 then St 48 else
      St 0)"

definition hp_case_166 :: "bool \<Rightarrow> int \<Rightarrow> hp_action goto" where
  "hp_case_166 relaxed c =
     (if c = 4 then St 48 else
      St 0)"

definition hp_case_167 :: "bool \<Rightarrow> int \<Rightarrow> hp_action goto" where
  "hp_case_167 relaxed c =
     (if c = 58 then St 168 else
      St 0)"

definition hp_case_168 :: "bool \<Rightarrow> int \<Rightarrow> hp_action goto" where
  "hp_case_168 relaxed c =
     (if c = 49 then St 143 else if c = 50 then St 146 else if c = 93 then St 61 else
      if c < 48 then (if 2 \<le> c \<and> c \<le> 5 then St 48 else
       St 0) else
      if c > 57 then (if c > 70 then (if 97 \<le> c \<and> c \<le> 102 then St 149 else
        St 0) else
       if c \<ge> 65 then St 149 else
       St 0) else
      St 127)"

definition hp_case_169 :: "bool \<Rightarrow> int \<Rightarrow> hp_action goto" where
  "hp_case_169 relaxed c =
     (if c < 65 then (if 48 \<le> c \<and> c \<le> 57 then St 170 else
       St 0) else
      if c > 70 then (if 97 \<le> c \<and> c \<le> 102 then St 170 else
       St 0) else
      St 170)"

definition hp_case_170 :: "bool \<Rightarrow> int \<Rightarrow> hp_action goto" where
  "hp_case_170 relaxed c =
     (if c = 46 then St 171 else
      if c < 65 then (if 48 \<le> c \<and> c \<le> 57 then St 170 else
       St 0) else
      if c > 70 then (if 97 \<le> c \<and> c \<le> 102 then St 170 else
       St 0) else
      St 170)"

definition hp_case_171 :: "bool \<Rightarrow> int \<Rightarrow> hp_action goto" where
  "hp_case_171 relaxed c =
     (let w = c in
      let w = (if c < 123 then (if 94 \<le> c \<and> c \<le> 94 then (if relaxed then c + 256 + 256 else c + 256) else w) else (if c > 123 then (if 125 \<le> c \<and> c \<le> 125 then (if relaxed then c + 256 + 256 else c + 256) else w) else (if relaxed then c + 256 + 256 else c + 256))) in
      if w = 33 then St 172 else if w = 36 then St 172 else if w = 61 then St 172 else if w = 95 then St 172 else
      if w = 126 then St 172 else if w = 606 then St 172 else if w = 635 then St 172 else if w = 637 then St 172 else

      if w < 48 then (if 38 \<le> w \<and> w \<le> 46 then St 172 else
       St 0) else
      if w > 59 then (if w > 90 then (if 97 \<le> w \<and> w \<le> 122 then St 172 else
        St 0) else
       if w \<ge> 65 then St 172 else
       St 0) else
      St 172)"

definition hp_case_172 :: "bool \<Rightarrow> int \<Rightarrow> hp_action goto" where
  "hp_case_172 relaxed c =
     (let w = c in
      let w = (if c < 123 then (if 94 \<le> c \<and> c \<le> 94 then (if relaxed then c + 256 + 256 else c + 256) else w) else (if c > 123 then (if 125 \<le> c \<and> c \<le> 125 then (if relaxed then c + 256 + 256 else c + 256) else w) else (if relaxed then c + 256 + 256 else c + 256))) in
      if w = 33 then St 172 else if w = 36 then St 172 else if w = 61 then St 172 else if w = 93 then St 61 else
      if w = 95 then St 172 else if w = 126 then St 172 else if w = 606 then St 172 else if w = 635 then St 172 else
      if w = 637 then St 172 else
      if w < 48 then (if 38 \<le> w \<and> w \<le> 46 then St 172 else
       St 0) else
      if w > 59 then (if w > 90 then (if 97 \<le> w \<and> w \<le> 122 then St 172 else
        St 0) else
       if w \<ge> 65 then St 172 else
       St 0) else
      St 172)"

definition hp_case_173 :: "bool \<Rightarrow> int \<Rightarrow> hp_action goto" where
  "hp_case_173 relaxed c =
     (let w = c in
      let w = (if c < 123 then (if 94 \<le> c \<and> c \<le> 94 then (if relaxed then c + 256 + 256 else c + 256) else w) else (if c > 123 then (if 125 \<le> c \<and> c \<le> 125 then (if relaxed then c + 256 + 256 else c + 256) else w) else (if relaxed then c + 256 + 256 else c + 256))) in
      if w = 32 then hp_tr_37 else if w = 33 then St 19 else if w = 35 then hp_tr_39 else if w = 37 then St 24 else
      if w = 43 then St 173 else if w = 47 then St 26 else if w = 58 then St 174 else if w = 59 then St 19 else
      if w = 61 then St 19 else if w = 63 then hp_tr_42 else if w = 64 then St 19 else if w = 95 then St 19 else
      if w = 126 then St 19 else if w = 606 then St 19 else if w = 635 then St 19 else if w = 637 then St 19 else

      if w < 45 then (if 36 \<le> w \<and> w \<le> 44 then St 19 else
       St 0) else
      if w > 57 then (if w > 90 then (if 97 \<le> w \<and> w \<le> 122 then St 173 else
        St 0) else
       if w \<ge> 65 then St 173 else
       St 0) else
      St 173)"

definition hp_case_174 :: "bool \<Rightarrow> int \<Rightarrow> hp_action goto" where
  "hp_case_174 relaxed c =
     (let w = c in
      let w = (if c < 123 then (if 94 \<le> c \<and> c \<le> 94 then (if relaxed then c + 256 + 256 else c + 256) else w) else (if c > 123 then (if 125 \<le> c \<and> c \<le> 125 then (if relaxed then c + 256 + 256 else c + 256) else w) else (if relaxed then c + 256 + 256 else c + 256))) in
      if w = 32 then hp_tr_6 else if w = 33 then hp_tr_203 else if w = 35 then hp_tr_8 else if w = 37 then hp_tr_204 else
      if w = 47 then hp_tr_10 else if w = 61 then hp_tr_203 else if w = 63 then hp_tr_11 else if w = 95 then hp_tr_203 else
      if w = 126 then hp_tr_203 else if w = 606 then hp_tr_203 else if w = 635 then hp_tr_203 else if w = 637 then hp_tr_203 else

      if w < 64 then (if 36 \<le> w \<and> w \<le> 59 then hp_tr_203 else
       St 0) else
      if w > 90 then (if 97 \<le> w \<and> w \<le> 122 then hp_tr_203 else
       St 0) else
      hp_tr_203)"

definition hp_case_175 :: "bool \<Rightarrow> int \<Rightarrow> hp_action goto" where
  "hp_case_175 relaxed c =
     (if c = 32 then hp_tr_4 else
      if c > 57 then (if 65 \<le> c \<and> c \<le> 90 then St 176 else
       St 0) else
      if c \<ge> 48 then St 176 else
      St 0)"

definition hp_case_176 :: "bool \<Rightarrow> int \<Rightarrow> hp_action goto" where
  "hp_case_176 relaxed c =
     (if c = 32 then hp_tr_4 else
      if c > 57 then (if 65 \<le> c \<and> c \<le> 90 then St 177 else
       St 0) else
      if c \<ge> 48 then St 177 else
      St 0)"

definition hp_case_177 :: "bool \<Rightarrow> int \<Rightarrow> hp_action goto" where
  "hp_case_177 relaxed c =
     (if c = 32 then hp_tr_4 else
      if c > 57 then (if 65 \<le> c \<and> c \<le> 90 then St 178 else
       St 0) else
      if c \<ge> 48 then St 178 else
      St 0)"

definition hp_case_178 :: "bool \<Rightarrow> int \<Rightarrow> hp_action goto" where
  "hp_case_178 relaxed c =
     (if c = 32 then hp_tr_4 else
      if c > 57 then (if 65 \<le> c \<and> c \<le> 90 then St 179 else
       St 0) else
      if c \<ge> 48 then St 179 else
      St 0)"

definition hp_case_179 :: "bool \<Rightarrow> int \<Rightarrow> hp_action goto" where
  "hp_case_179 relaxed c =
     (if c = 32 then hp_tr_4 else
      if c > 57 then (if 65 \<le> c \<and> c \<le> 90 then St 180 else
       St 0) else
      if c \<ge> 48 then St 180 else
      St 0)"

definition hp_case_180 :: "bool \<Rightarrow> int \<Rightarrow> hp_action goto" where
  "hp_case_180 relaxed c =
     (if c = 32 then hp_tr_4 else
      if c > 57 then (if 65 \<le> c \<and> c \<le> 90 then St 181 else
       St 0) else
      if c \<ge> 48 then St 181 else
      St 0)"

definition hp_case_181 :: "bool \<Rightarrow> int \<Rightarrow> hp_action goto" where
  "hp_case_181 relaxed c =
     (if c = 32 then hp_tr_4 else
      if c > 57 then (if 65 \<le> c \<and> c \<le> 90 then St 182 else
       St 0) else
      if c \<ge> 48 then St 182 else
      St 0)"

definition hp_case_182 :: "bool \<Rightarrow> int \<Rightarrow> hp_action goto" where
  "hp_case_182 relaxed c =
     (if c = 32 then hp_tr_4 else
      if c > 57 then (if 65 \<le> c \<and> c \<le> 90 then St 183 else
       St 0) else
      if c \<ge> 48 then St 183 else
      St 0)"

definition hp_case_183 :: "bool \<Rightarrow> int \<Rightarrow> hp_action goto" where
  "hp_case_183 relaxed c =
     (if c = 32 then hp_tr_4 else
      if c > 57 then (if 65 \<le> c \<and> c \<le> 90 then St 184 else
       St 0) else
      if c \<ge> 48 then St 184 else
      St 0)"

definition hp_case_184 :: "bool \<Rightarrow> int \<Rightarrow> hp_action goto" where
  "hp_case_184 relaxed c =
     (if c = 32 then hp_tr_4 else
      if c > 57 then (if 65 \<le> c \<and> c \<le> 90 then St 185 else
       St 0) else
      if c \<ge> 48 then St 185 else
      St 0)"

definition hp_case_185 :: "bool \<Rightarrow> int \<Rightarrow> hp_action goto" where
  "hp_case_185 relaxed c =
     (if c = 32 then hp_tr_4 else
      if c > 57 then (if 65 \<le> c \<and> c \<le> 90 then St 186 else
       St 0) else
      if c \<ge> 48 then St 186 else
      St 0)"

definition hp_case_186 :: "bool \<Rightarrow> int \<Rightarrow> hp_action goto" where
  "hp_case_186 relaxed c =
     (if c = 32 then hp_tr_4 else
      if c > 57 then (if 65 \<le> c \<and> c \<le> 90 then St 187 else
       St 0) else
      if c \<ge> 48 then St 187 else
      St 0)"

definition hp_case_187 :: "bool \<Rightarrow> int \<Rightarrow> hp_action goto" where
  "hp_case_187 relaxed c =
     (if c = 32 then hp_tr_4 else
      if c > 57 then (if 65 \<le> c \<and> c \<le> 90 then St 188 else
       St 0) else
      if c \<ge> 48 then St 188 else
      St 0)"

definition hp_case_188 :: "bool \<Rightarrow> int \<Rightarrow> hp_action goto" where
  "hp_case_188 relaxed c =
     (if c = 32 then hp_tr_4 else
      if c > 57 then (if 65 \<le> c \<and> c \<le> 90 then St 189 else
       St 0) else
      if c \<ge> 48 then St 189 else
      St 0)"

definition hp_case_189 :: "bool \<Rightarrow> int \<Rightarrow> hp_action goto" where
  "hp_case_189 relaxed c =
     (if c = 32 then hp_tr_4 else
      if c > 57 then (if 65 \<le> c \<and> c \<le> 90 then St 190 else
       St 0) else
      if c \<ge> 48 then St 190 else
      St 0)"

definition hp_case_190 :: "bool \<Rightarrow> int \<Rightarrow> hp_action goto" where
  "hp_case_190 relaxed c =
     (if c = 32 then hp_tr_4 else
      if c > 57 then (if 65 \<le> c \<and> c \<le> 90 then St 191 else
       St 0) else
      if c \<ge> 48 then St 191 else
      St 0)"

definition hp_case_191 :: "bool \<Rightarrow> int \<Rightarrow> hp_action goto" where
  "hp_case_191 relaxed c =
     (if c = 32 then hp_tr_4 else
      if c > 57 then (if 65 \<le> c \<and> c \<le> 90 then St 192 else
       St 0) else
      if c \<ge> 48 then St 192 else
      St 0)"

definition hp_case_192 :: "bool \<Rightarrow> int \<Rightarrow> hp_action goto" where
  "hp_case_192 relaxed c =
     (if c = 32 then hp_tr_4 else
      if c > 57 then (if 65 \<le> c \<and> c \<le> 90 then St 193 else
       St 0) else
      if c \<ge> 48 then St 193 else
      St 0)"

definition hp_case_193 :: "bool \<Rightarrow> int \<Rightarrow> hp_action goto" where
  "hp_case_193 relaxed c =
     (if c = 32 then hp_tr_4 else
      St 0)"

definition hp_case_194 :: "bool \<Rightarrow> int \<Rightarrow> hp_action goto" where
  "hp_case_194 relaxed c =
     (if c < 48 then (if 45 \<le> c \<and> c \<le> 46 then St 195 else
       St 0) else
      if c > 57 then (if c > 90 then (if 97 \<le> c \<and> c \<le> 122 then St 195 else
        St 0) else
       if c \<ge> 65 then St 195 else
       St 0) else
      St 195)"

definition hp_case_195 :: "bool \<Rightarrow> int \<Rightarrow> hp_action goto" where
  "hp_case_195 relaxed c =
     (if c = 32 then hp_tr_224 else if c = 47 then hp_tr_224 else if c = 62 then hp_tr_224 else
      if c < 45 then (if 9 \<le> c \<and> c \<le> 13 then hp_tr_224 else
       St 0) else
      if c > 57 then (if c > 90 then (if 97 \<le> c \<and> c \<le> 122 then St 195 else
        St 0) else
       if c \<ge> 65 then St 195 else
       St 0) else
      St 195)"

definition hp_case_196 :: "bool \<Rightarrow> int \<Rightarrow> hp_action goto" where
  "hp_case_196 relaxed c =
     (if c = 62 then St 197 else
      St 196)"

definition hp_case_197 :: "bool \<Rightarrow> int \<Rightarrow> hp_action goto" where
  "hp_case_197 relaxed c =
     (if c = 0 then hp_tr_227 else if c = 62 then St 197 else
      St 196)"

definition hp_case_198 :: "bool \<Rightarrow> int \<Rightarrow> hp_action goto" where
  "hp_case_198 relaxed c =
     (let w = c in
      let w = (if c < 123 then (if 94 \<le> c \<and> c \<le> 94 then (if relaxed then c + 256 + 256 else c + 256) else w) else (if c > 123 then (if 125 \<le> c \<and> c \<le> 125 then (if relaxed then c + 256 + 256 else c + 256) else w) else (if relaxed then c + 256 + 256 else c + 256))) in
      if w = 32 then hp_tr_228 else if w = 33 then St 202 else if w = 37 then St 203 else if w = 47 then St 208 else
      if w = 59 then St 202 else if w = 61 then St 202 else if w = 95 then St 202 else if w = 126 then St 202 else
      if w = 606 then St 202 else if w = 635 then St 202 else if w = 637 then St 202 else
      if w < 64 then (if 36 \<le> w \<and> w \<le> 57 then St 202 else
       St 0) else
      if w > 90 then (if 97 \<le> w \<and> w \<le> 122 then St 202 else
       St 0) else
      St 202)"

definition hp_case_199 :: "bool \<Rightarrow> int \<Rightarrow> hp_action goto" where
  "hp_case_199 relaxed c =
     (if c = 123 then hp_tr_232 else
      St 0)"

definition hp_case_200 :: "bool \<Rightarrow> int \<Rightarrow> hp_action goto" where
  "hp_case_200 relaxed c =
     (if c = 125 then St 201 else
      St 200)"

definition hp_case_201 :: "bool \<Rightarrow> int \<Rightarrow> hp_action goto" where
  "hp_case_201 relaxed c =
     (if c = 0 then hp_tr_235 else if c = 125 then St 201 else
      St 200)"

definition hp_case_202 :: "bool \<Rightarrow> int \<Rightarrow> hp_action goto" where
  "hp_case_202 relaxed c =
     (let w = c in
      let w = (if c < 123 then (if 94 \<le> c \<and> c \<le> 94 then (if relaxed then c + 256 + 256 else c + 256) else w) else (if c > 123 then (if 125 \<le> c \<and> c \<le> 125 then (if relaxed then c + 256 + 256 else c + 256) else w) else (if relaxed then c + 256 + 256 else c + 256))) in
      if w = 32 then hp_tr_228 else if w = 33 then St 202 else if w = 37 then St 203 else if w = 47 then St 205 else
      if w = 59 then St 202 else if w = 61 then St 202 else if w = 95 then St 202 else if w = 126 then St 202 else
      if w = 606 then St 202 else if w = 635 then St 202 else if w = 637 then St 202 else
      if w < 64 then (if 36 \<le> w \<and> w \<le> 57 then St 202 else
       St 0) else
      if w > 90 then (if 97 \<le> w \<and> w \<le> 122 then St 202 else
       St 0) else
      St 202)"

definition hp_case_203 :: "bool \<Rightarrow> int \<Rightarrow> hp_action goto" where
  "hp_case_203 relaxed c =
     (if c < 65 then (if 48 \<le> c \<and> c \<le> 57 then St 204 else
       St 0) else
      if c > 70 then (if 97 \<le> c \<and> c \<le> 102 then St 204 else
       St 0) else
      St 204)"

definition hp_case_204 :: "bool \<Rightarrow> int \<Rightarrow> hp_action goto" where
  "hp_case_204 relaxed c =
     (if c < 65 then (if 48 \<le> c \<and> c \<le> 57 then St 202 else
       St 0) else
      if c > 70 then (if 97 \<le> c \<and> c \<le> 102 then St 202 else
       St 0) else
      St 202)"

definition hp_case_205 :: "bool \<Rightarrow> int \<Rightarrow> hp_action goto" where
  "hp_case_205 relaxed c =
     (let w = c in
      let w = (if c < 123 then (if 94 \<le> c \<and> c \<le> 94 then (if relaxed then c + 256 + 256 else c + 256) else w) else (if c > 123 then (if 125 \<le> c \<and> c \<le> 125 then (if relaxed then c + 256 + 256 else c + 256) else w) else (if relaxed then c + 256 + 256 else c + 256))) in
      if w = 32 then hp_tr_228 else if w = 33 then St 205 else if w = 37 then St 206 else if w = 61 then St 205 else
      if w = 95 then St 205 else if w = 126 then St 205 else if w = 606 then St 205 else if w = 635 then St 205 else
      if w = 637 then St 205 else
      if w < 64 then (if 36 \<le> w \<and> w \<le> 59 then St 205 else
       St 0) else
      if w > 90 then (if 97 \<le> w \<and> w \<le> 122 then St 205 else
       St 0) else
      St 205)"

definition hp_case_206 :: "bool \<Rightarrow> int \<Rightarrow> hp_action goto" where
  "hp_case_206 relaxed c =
     (if c < 65 then (if 48 \<le> c \<and> c \<le> 57 then St 207 else
       St 0) else
      if c > 70 then (if 97 \<le> c \<and> c \<le> 102 then St 207 else
       St 0) else
      St 207)"

definition hp_case_207 :: "bool \<Rightarrow> int \<Rightarrow> hp_action goto" where
  "hp_case_207 relaxed c =
     (if c < 65 then (if 48 \<le> c \<and> c \<le> 57 then St 205 else
       St 0) else
      if c > 70 then (if 97 \<le> c \<and> c \<le> 102 then St 205 else
       St 0) else
      St 205)"

definition hp_case_208 :: "bool \<Rightarrow> int \<Rightarrow> hp_action goto" where
  "hp_case_208 relaxed c =
     (let w = c in
      let w = (if c < 123 then (if 94 \<le> c \<and> c \<le> 94 then (if relaxed then c + 256 + 256 else c + 256) else w) else (if c > 123 then (if 125 \<le> c \<and> c \<le> 125 then (if relaxed then c + 256 + 256 else c + 256) else w) else (if relaxed then c + 256 + 256 else c + 256))) in
      if w = 32 then hp_tr_228 else if w = 33 then St 205 else if w = 37 then St 206 else if w = 47 then St 209 else
      if w = 61 then St 205 else if w = 95 then St 205 else if w = 126 then St 205 else if w = 606 then St 205 else
      if w = 635 then St 205 else if w = 637 then St 205 else
      if w < 64 then (if 36 \<le> w \<and> w \<le> 59 then St 205 else
       St 0) else
      if w > 90 then (if 97 \<le> w \<and> w \<le> 122 then St 205 else
       St 0) else
      St 205)"

definition hp_case_209 :: "bool \<Rightarrow> int \<Rightarrow> hp_action goto" where
  "hp_case_209 relaxed c =
     (let w = c in
      let w = (if c < 123 then (if 94 \<le> c \<and> c \<le> 94 then (if relaxed then c + 256 + 256 else c + 256) else w) else (if c > 123 then (if 125 \<le> c \<and> c \<le> 125 then (if relaxed then c + 256 + 256 else c + 256) else w) else (if relaxed then c + 256 + 256 else c + 256))) in
      if w = 32 then hp_tr_228 else if w = 33 then St 210 else if w = 37 then St 211 else if w = 47 then St 205 else
      if w = 58 then St 213 else if w = 61 then St 210 else if w = 64 then St 217 else if w = 91 then St 222 else
      if w = 95 then St 210 else if w = 126 then St 210 else if w = 606 then St 210 else if w = 635 then St 210 else
      if w = 637 then St 210 else
      if w < 65 then (if 36 \<le> w \<and> w \<le> 59 then St 210 else
       St 0) else
      if w > 90 then (if 97 \<le> w \<and> w \<le> 122 then St 210 else
       St 0) else
      St 210)"

definition hp_case_210 :: "bool \<Rightarrow> int \<Rightarrow> hp_action goto" where
  "hp_case_210 relaxed c =
     (let w = c in
      let w = (if c < 123 then (if 94 \<le> c \<and> c \<le> 94 then (if relaxed then c + 256 + 256 else c + 256) else w) else (if c > 123 then (if 125 \<le> c \<and> c \<le> 125 then (if relaxed then c + 256 + 256 else c + 256) else w) else (if relaxed then c + 256 + 256 else c + 256))) in
      if w = 32 then hp_tr_228 else if w = 33 then St 210 else if w = 37 then St 211 else if w = 47 then St 205 else
      if w = 58 then St 213 else if w = 61 then St 210 else if w = 64 then St 217 else if w = 95 then St 210 else
      if w = 126 then St 210 else if w = 606 then St 210 else if w = 635 then St 210 else if w = 637 then St 210 else

      if w < 65 then (if 36 \<le> w \<and> w \<le> 59 then St 210 else
       St 0) else
      if w > 90 then (if 97 \<le> w \<and> w \<le> 122 then St 210 else
       St 0) else
      St 210)"

definition hp_case_211 :: "bool \<Rightarrow> int \<Rightarrow> hp_action goto" where
  "hp_case_211 relaxed c =
     (if c < 65 then (if 48 \<le> c \<and> c \<le> 57 then St 212 else
       St 0) else
      if c > 70 then (if 97 \<le> c \<and> c \<le> 102 then St 212 else
       St 0) else
      St 212)"

definition hp_case_212 :: "bool \<Rightarrow> int \<Rightarrow> hp_action goto" where
  "hp_case_212 relaxed c =
     (if c < 65 then (if 48 \<le> c \<and> c \<le> 57 then St 210 else
       St 0) else
      if c > 70 then (if 97 \<le> c \<and> c \<le> 102 then St 210 else
       St 0) else
      St 210)"

definition hp_case_213 :: "bool \<Rightarrow> int \<Rightarrow> hp_action goto" where
  "hp_case_213 relaxed c =
     (let w = c in
      let w = (if c < 123 then (if 94 \<le> c \<and> c \<le> 94 then (if relaxed then c + 256 + 256 else c + 256) else w) else (if c > 123 then (if 125 \<le> c \<and> c \<le> 125 then (if relaxed then c + 256 + 256 else c + 256) else w) else (if relaxed then c + 256 + 256 else c + 256))) in
      if w = 32 then hp_tr_228 else if w = 33 then St 214 else if w = 37 then St 215 else if w = 47 then St 205 else
      if w = 61 then St 214 else if w = 64 then St 217 else if w = 95 then St 214 else if w = 126 then St 214 else
      if w = 606 then St 214 else if w = 635 then St 214 else if w = 637 then St 214 else
      if w < 58 then (if w > 46 then (if 48 \<le> w \<and> w \<le> 57 then St 213 else
        St 0) else
       if w \<ge> 36 then St 214 else
       St 0) else
      if w > 59 then (if w > 90 then (if 97 \<le> w \<and> w \<le> 122 then St 214 else
        St 0) else
       if w \<ge> 65 then St 214 else
       St 0) else
      St 214)"

definition hp_case_214 :: "bool \<Rightarrow> int \<Rightarrow> hp_action goto" where
  "hp_case_214 relaxed c =
     (let w = c in
      let w = (if c < 123 then (if 94 \<le> c \<and> c \<le> 94 then (if relaxed then c + 256 + 256 else c + 256) else w) else (if c > 123 then (if 125 \<le> c \<and> c \<le> 125 then (if relaxed then c + 256 + 256 else c + 256) else w) else (if relaxed then c + 256 + 256 else c + 256))) in
      if w = 33 then St 214 else if w = 37 then St 215 else if w = 61 then St 214 else if w = 64 then St 217 else
      if w = 95 then St 214 else if w = 126 then St 214 else if w = 606 then St 214 else if w = 635 then St 214 else
      if w = 637 then St 214 else
      if w < 48 then (if 36 \<le> w \<and> w \<le> 46 then St 214 else
       St 0) else
      if w > 59 then (if w > 90 then (if 97 \<le> w \<and> w \<le> 122 then St 214 else
        St 0) else
       if w \<ge> 65 then St 214 else
       St 0) else
      St 214)"

definition hp_case_215 :: "bool \<Rightarrow> int \<Rightarrow> hp_action goto" where
  "hp_case_215 relaxed c =
     (if c < 65 then (if 48 \<le> c \<and> c \<le> 57 then St 216 else
       St 0) else
      if c > 70 then (if 97 \<le> c \<and> c \<le> 102 then St 216 else
       St 0) else
      St 216)"

definition hp_case_216 :: "bool \<Rightarrow> int \<Rightarrow> hp_action goto" where
  "hp_case_216 relaxed c =
     (if c < 65 then (if 48 \<le> c \<and> c \<le> 57 then St 214 else
       St 0) else
      if c > 70 then (if 97 \<le> c \<and> c \<le> 102 then St 214 else
       St 0) else
      St 214)"

definition hp_case_217 :: "bool \<Rightarrow> int \<Rightarrow> hp_action goto" where
  "hp_case_217 relaxed c =
     (let w = c in
      let w = (if c < 123 then (if 94 \<le> c \<and> c \<le> 94 then (if relaxed then c + 256 + 256 else c + 256) else w) else (if c > 123 then (if 125 \<le> c \<and> c \<le> 125 then (if relaxed then c + 256 + 256 else c + 256) else w) else (if relaxed then c + 256 + 256 else c + 256))) in
      if w = 32 then hp_tr_228 else if w = 33 then St 218 else if w = 37 then St 219 else if w = 47 then St 205 else
      if w = 58 then St 221 else if w = 61 then St 218 else if w = 91 then St 222 else if w = 95 then St 218 else
      if w = 126 then St 218 else if w = 606 then St 218 else if w = 635 then St 218 else if w = 637 then St 218 else

      if w < 65 then (if 36 \<le> w \<and> w \<le> 59 then St 218 else
       St 0) else
      if w > 90 then (if 97 \<le> w \<and> w \<le> 122 then St 218 else
       St 0) else
      St 218)"

definition hp_case_218 :: "bool \<Rightarrow> int \<Rightarrow> hp_action goto" where
  "hp_case_218 relaxed c =
     (let w = c in
      let w = (if c < 123 then (if 94 \<le> c \<and> c \<le> 94 then (if relaxed then c + 256 + 256 else c + 256) else w) else (if c > 123 then (if 125 \<le> c \<and> c \<le> 125 then (if relaxed then c + 256 + 256 else c + 256) else w) else (if relaxed then c + 256 + 256 else c + 256))) in
      if w = 32 then hp_tr_228 else if w = 33 then St 218 else if w = 37 then St 219 else if w = 47 then St 205 else
      if w = 58 then St 221 else if w = 61 then St 218 else if w = 95 then St 218 else if w = 126 then St 218 else
      if w = 606 then St 218 else if w = 635 then St 218 else if w = 637 then St 218 else
      if w < 65 then (if 36 \<le> w \<and> w \<le> 59 then St 218 else
       St 0) else
      if w > 90 then (if 97 \<le> w \<and> w \<le> 122 then St 218 else
       St 0) else
      St 218)"

definition hp_case_219 :: "bool \<Rightarrow> int \<Rightarrow> hp_action goto" where
  "hp_case_219 relaxed c =
     (if c < 65 then (if 48 \<le> c \<and> c \<le> 57 then St 220 else
       St 0) else
      if c > 70 then (if 97 \<le> c \<and> c \<le> 102 then St 220 else
       St 0) else
      St 220)"

definition hp_case_220 :: "bool \<Rightarrow> int \<Rightarrow> hp_action goto" where
  "hp_case_220 relaxed c =
     (if c < 65 then (if 48 \<le> c \<and> c \<le> 57 then St 218 else
       St 0) else
      if c > 70 then (if 97 \<le> c \<and> c \<le> 102 then St 218 else
       St 0) else
      St 218)"

definition hp_case_221 :: "bool \<Rightarrow> int \<Rightarrow> hp_action goto" where
  "hp_case_221 relaxed c =
     (if c = 32 then hp_tr_228 else if c = 47 then St 205 else
      if 48 \<le> c \<and> c \<le> 57 then St 221 else
      St 0)"

definition hp_case_222 :: "bool \<Rightarrow> int \<Rightarrow> hp_action goto" where
  "hp_case_222 relaxed c =
     (if c = 6 then St 223 else if c = 58 then St 342 else if c = 118 then St 344 else
      if c < 65 then (if 48 \<le> c \<and> c \<le> 57 then St 266 else
       St 0) else
      if c > 70 then (if 97 \<le> c \<and> c \<le> 102 then St 266 else
       St 0) else
      St 266)"

definition hp_case_223 :: "bool \<Rightarrow> int \<Rightarrow> hp_action goto" where
  "hp_case_223 relaxed c =
     (if c < 65 then (if 48 \<le> c \<and> c \<le> 57 then St 224 else
       St 0) else
      if c > 70 then (if 97 \<le> c \<and> c \<le> 102 then St 224 else
       St 0) else
      St 224)"

definition hp_case_224 :: "bool \<Rightarrow> int \<Rightarrow> hp_action goto" where
  "hp_case_224 relaxed c =
     (if c = 58 then St 228 else
      if c < 65 then (if 48 \<le> c \<and> c \<le> 57 then St 225 else
       St 0) else
      if c > 70 then (if 97 \<le> c \<and> c \<le> 102 then St 225 else
       St 0) else
      St 225)"

definition hp_case_225 :: "bool \<Rightarrow> int \<Rightarrow> hp_action goto" where
  "hp_case_225 relaxed c =
     (if c = 58 then St 228 else
      if c < 65 then (if 48 \<le> c \<and> c \<le> 57 then St 226 else
       St 0) else
      if c > 70 then (if 97 \<le> c \<and> c \<le> 102 then St 226 else
       St 0) else
      St 226)"

definition hp_case_226 :: "bool \<Rightarrow> int \<Rightarrow> hp_action goto" where
  "hp_case_226 relaxed c =
     (if c = 58 then St 228 else
      if c < 65 then (if 48 \<le> c \<and> c \<le> 57 then St 227 else
       St 0) else
      if c > 70 then (if 97 \<le> c \<and> c \<le> 102 then St 227 else
       St 0) else
      St 227)"

definition hp_case_227 :: "bool \<Rightarrow> int \<Rightarrow> hp_action goto" where
  "hp_case_227 relaxed c =
     (if c = 58 then St 228 else
      St 0)"

definition hp_case_228 :: "bool \<Rightarrow> int \<Rightarrow> hp_action goto" where
  "hp_case_228 relaxed c =
     (if c = 49 then St 259 else if c = 50 then St 262 else
      if c < 65 then (if 48 \<le> c \<and> c \<le> 57 then St 229 else
       St 0) else
      if c > 70 then (if 97 \<le> c \<and> c \<le> 102 then St 265 else
       St 0) else
      St 265)"

definition hp_case_229 :: "bool \<Rightarrow> int \<Rightarrow> hp_action goto" where
  "hp_case_229 relaxed c =
     (if c = 46 then St 230 else if c = 58 then St 255 else
      if c < 65 then (if 48 \<le> c \<and> c \<le> 57 then St 252 else
       St 0) else
      if c > 70 then (if 97 \<le> c \<and> c \<le> 102 then St 252 else
       St 0) else
      St 252)"

definition hp_case_230 :: "bool \<Rightarrow> int \<Rightarrow> hp_action goto" where
  "hp_case_230 relaxed c =
     (if c = 49 then St 247 else if c = 50 then St 249 else
      if 48 \<le> c \<and> c \<le> 57 then St 231 else
      St 0)"

definition hp_case_231 :: "bool \<Rightarrow> int \<Rightarrow> hp_action goto" where
  "hp_case_231 relaxed c =
     (if c = 46 then St 232 else
      St 0)"

definition hp_case_232 :: "bool \<Rightarrow> int \<Rightarrow> hp_action goto" where
  "hp_case_232 relaxed c =
     (if c = 49 then St 242 else if c = 50 then St 244 else
      if 48 \<le> c \<and> c \<le> 57 then St 233 else
      St 0)"

definition hp_case_233 :: "bool \<Rightarrow> int \<Rightarrow> hp_action goto" where
  "hp_case_233 relaxed c =
     (if c = 46 then St 234 else
      St 0)"

definition hp_case_234 :: "bool \<Rightarrow> int \<Rightarrow> hp_action goto" where
  "hp_case_234 relaxed c =
     (if c = 49 then St 237 else if c = 50 then St 239 else
      if 48 \<le> c \<and> c \<le> 57 then St 235 else
      St 0)"

definition hp_case_235 :: "bool \<Rightarrow> int \<Rightarrow> hp_action goto" where
  "hp_case_235 relaxed c =
     (if c = 93 then St 236 else
      St 0)"

definition hp_case_236 :: "bool \<Rightarrow> int \<Rightarrow> hp_action goto" where
  "hp_case_236 relaxed c =
     (if c = 32 then hp_tr_228 else if c = 47 then St 205 else if c = 58 then St 221 else
      St 0)"

definition hp_case_237 :: "bool \<Rightarrow> int \<Rightarrow> hp_action goto" where
  "hp_case_237 relaxed c =
     (if c = 93 then St 236 else
      if 48 \<le> c \<and> c \<le> 57 then St 238 else
      St 0)"

definition hp_case_238 :: "bool \<Rightarrow> int \<Rightarrow> hp_action goto" where
  "hp_case_238 relaxed c =
     (if c = 93 then St 236 else
      if 48 \<le> c \<and> c \<le> 57 then St 235 else
      St 0)"

definition hp_case_239 :: "bool \<Rightarrow> int \<Rightarrow> hp_action goto" where
  "hp_case_239 relaxed c =
     (if c = 48 then St 240 else if c = 53 then St 241 else if c = 93 then St 236 else
      St 0)"

definition hp_case_240 :: "bool \<Rightarrow> int \<Rightarrow> hp_action goto" where
  "hp_case_240 relaxed c =
     (if 48 \<le> c \<and> c \<le> 57 then St 235 else
      St 0)"

definition hp_case_241 :: "bool \<Rightarrow> int \<Rightarrow> hp_action goto" where
  "hp_case_241 relaxed c =
     (if c = 48 then St 235 else
      St 0)"

definition hp_case_242 :: "bool \<Rightarrow> int \<Rightarrow> hp_action goto" where
  "hp_case_242 relaxed c =
     (if c = 46 then St 234 else
      if 48 \<le> c \<and> c \<le> 57 then St 243 else
      St 0)"

definition hp_case_243 :: "bool \<Rightarrow> int \<Rightarrow> hp_action goto" where
  "hp_case_243 relaxed c =
     (if c = 46 then St 234 else
      if 48 \<le> c \<and> c \<le> 57 then St 233 else
      St 0)"

definition hp_case_244 :: "bool \<Rightarrow> int \<Rightarrow> hp_action goto" where
  "hp_case_244 relaxed c =
     (if c = 46 then St 234 else if c = 48 then St 245 else if c = 53 then St 246 else
      St 0)"

definition hp_case_245 :: "bool \<Rightarrow> int \<Rightarrow> hp_action goto" where
  "hp_case_245 relaxed c =
     (if 48 \<le> c \<and> c \<le> 57 then St 233 else
      St 0)"

definition hp_case_246 :: "bool \<Rightarrow> int \<Rightarrow> hp_action goto" where
  "hp_case_246 relaxed c =
     (if c = 48 then St 233 else
      St 0)"

definition hp_case_247 :: "bool \<Rightarrow> int \<Rightarrow> hp_action goto" where
  "hp_case_247 relaxed c =
     (if c = 46 then St 232 else
      if 48 \<le> c \<and> c \<le> 57 then St 248 else
      St 0)"

definition hp_case_248 :: "bool \<Rightarrow> int \<Rightarrow> hp_action goto" where
  "hp_case_248 relaxed c =
     (if c = 46 then St 232 else
      if 48 \<le> c \<and> c \<le> 57 then St 231 else
      St 0)"

definition hp_case_249 :: "bool \<Rightarrow> int \<Rightarrow> hp_action goto" where
  "hp_case_249 relaxed c =
     (if c = 46 then St 232 else if c = 48 then St 250 else if c = 53 then St 251 else
      St 0)"

definition hp_case_250 :: "bool \<Rightarrow> int \<Rightarrow> hp_action goto" where
  "hp_case_250 relaxed c =
     (if 48 \<le> c \<and> c \<le> 57 then St 231 else
      St 0)"

definition hp_case_251 :: "bool \<Rightarrow> int \<Rightarrow> hp_action goto" where
  "hp_case_251 relaxed c =
     (if c = 48 then St 231 else
      St 0)"

definition hp_case_252 :: "bool \<Rightarrow> int \<Rightarrow> hp_action goto" where
  "hp_case_252 relaxed c =
     (if c = 58 then St 255 else
      if c < 65 then (if 48 \<le> c \<and> c \<le> 57 then St 253 else
       St 0) else
      if c > 70 then (if 97 \<le> c \<and> c \<le> 102 then St 253 else
       St 0) else
      St 253)"

definition hp_case_253 :: "bool \<Rightarrow> int \<Rightarrow> hp_action goto" where
  "hp_case_253 relaxed c =
     (if c = 58 then St 255 else
      if c < 65 then (if 48 \<le> c \<and> c \<le> 57 then St 254 else
       St 0) else
      if c > 70 then (if 97 \<le> c \<and> c \<le> 102 then St 254 else
       St 0) else
      St 254)"

definition hp_case_254 :: "bool \<Rightarrow> int \<Rightarrow> hp_action goto" where
  "hp_case_254 relaxed c =
     (if c = 58 then St 255 else
      St 0)"

definition hp_case_255 :: "bool \<Rightarrow> int \<Rightarrow> hp_action goto" where
  "hp_case_255 relaxed c =
     (if c < 65 then (if 48 \<le> c \<and> c \<le> 57 then St 256 else
       St 0) else
      if c > 70 then (if 97 \<le> c \<and> c \<le> 102 then St 256 else
       St 0) else
      St 256)"

definition hp_case_256 :: "bool \<Rightarrow> int \<Rightarrow> hp_action goto" where
  "hp_case_256 relaxed c =
     (if c = 93 then St 236 else
      if c < 65 then (if 48 \<le> c \<and> c \<le> 57 then St 257 else
       St 0) else
      if c > 70 then (if 97 \<le> c \<and> c \<le> 102 then St 257 else
       St 0) else
      St 257)"

definition hp_case_257 :: "bool \<Rightarrow> int \<Rightarrow> hp_action goto" where
  "hp_case_257 relaxed c =
     (if c = 93 then St 236 else
      if c < 65 then (if 48 \<le> c \<and> c \<le> 57 then St 258 else
       St 0) else
      if c > 70 then (if 97 \<le> c \<and> c \<le> 102 then St 258 else
       St 0) else
      St 258)"

definition hp_case_258 :: "bool \<Rightarrow> int \<Rightarrow> hp_action goto" where
  "hp_case_258 relaxed c =
     (if c = 93 then St 236 else
      if c < 65 then (if 48 \<le> c \<and> c \<le> 57 then St 235 else
       St 0) else
      if c > 70 then (if 97 \<le> c \<and> c \<le> 102 then St 235 else
       St 0) else
      St 235)"

definition hp_case_259 :: "bool \<Rightarrow> int \<Rightarrow> hp_action goto" where
  "hp_case_259 relaxed c =
     (if c = 46 then St 230 else if c = 58 then St 255 else
      if c < 65 then (if 48 \<le> c \<and> c \<le> 57 then St 260 else
       St 0) else
      if c > 70 then (if 97 \<le> c \<and> c \<le> 102 then St 252 else
       St 0) else
      St 252)"

definition hp_case_260 :: "bool \<Rightarrow> int \<Rightarrow> hp_action goto" where
  "hp_case_260 relaxed c =
     (if c = 46 then St 230 else if c = 58 then St 255 else
      if c < 65 then (if 48 \<le> c \<and> c \<le> 57 then St 261 else
       St 0) else
      if c > 70 then (if 97 \<le> c \<and> c \<le> 102 then St 253 else
       St 0) else
      St 253)"

definition hp_case_261 :: "bool \<Rightarrow> int \<Rightarrow> hp_action goto" where
  "hp_case_261 relaxed c =
     (if c = 46 then St 230 else if c = 58 then St 255 else
      if c < 65 then (if 48 \<le> c \<and> c \<le> 57 then St 254 else
       St 0) else
      if c > 70 then (if 97 \<le> c \<and> c \<le> 102 then St 254 else
       St 0) else
      St 254)"

definition hp_case_262 :: "bool \<Rightarrow> int \<Rightarrow> hp_action goto" where
  "hp_case_262 relaxed c =
     (if c = 46 then St 230 else if c = 48 then St 263 else if c = 53 then St 264 else if c = 58 then St 255 else

      if c < 65 then (if 49 \<le> c \<and> c \<le> 57 then St 252 else
       St 0) else
      if c > 70 then (if 97 \<le> c \<and> c \<le> 102 then St 252 else
       St 0) else
      St 252)"

definition hp_case_263 :: "bool \<Rightarrow> int \<Rightarrow> hp_action goto" where
  "hp_case_263 relaxed c =
     (if c = 58 then St 255 else
      if c < 65 then (if 48 \<le> c \<and> c \<le> 57 then St 261 else
       St 0) else
      if c > 70 then (if 97 \<le> c \<and> c \<le> 102 then St 253 else
       St 0) else
      St 253)"

definition hp_case_264 :: "bool \<Rightarrow> int \<Rightarrow> hp_action goto" where
  "hp_case_264 relaxed c =
     (if c = 48 then St 261 else if c = 58 then St 255 else
      if c < 65 then (if 49 \<le> c \<and> c \<le> 57 then St 253 else
       St 0) else
      if c > 70 then (if 97 \<le> c \<and> c \<le> 102 then St 253 else
       St 0) else
      St 253)"

definition hp_case_265 :: "bool \<Rightarrow> int \<Rightarrow> hp_action goto" where
  "hp_case_265 relaxed c =
     (if c = 58 then St 255 else
      if c < 65 then (if 48 \<le> c \<and> c \<le> 57 then St 252 else
       St 0) else
      if c > 70 then (if 97 \<le> c \<and> c \<le> 102 then St 252 else
       St 0) else
      St 252)"

definition hp_case_266 :: "bool \<Rightarrow> int \<Rightarrow> hp_action goto" where
  "hp_case_266 relaxed c =
     (if c = 58 then St 270 else
      if c < 65 then (if 48 \<le> c \<and> c \<le> 57 then St 267 else
       St 0) else
      if c > 70 then (if 97 \<le> c \<and> c \<le> 102 then St 267 else
       St 0) else
      St 267)"

definition hp_case_267 :: "bool \<Rightarrow> int \<Rightarrow> hp_action goto" where
  "hp_case_267 relaxed c =
     (if c = 58 then St 270 else
      if c < 65 then (if 48 \<le> c \<and> c \<le> 57 then St 268 else
       St 0) else
      if c > 70 then (if 97 \<le> c \<and> c \<le> 102 then St 268 else
       St 0) else
      St 268)"

definition hp_case_268 :: "bool \<Rightarrow> int \<Rightarrow> hp_action goto" where
  "hp_case_268 relaxed c =
     (if c = 58 then St 270 else
      if c < 65 then (if 48 \<le> c \<and> c \<le> 57 then St 269 else
       St 0) else
      if c > 70 then (if 97 \<le> c \<and> c \<le> 102 then St 269 else
       St 0) else
      St 269)"

definition hp_case_269 :: "bool \<Rightarrow> int \<Rightarrow> hp_action goto" where
  "hp_case_269 relaxed c =
     (if c = 58 then St 270 else
      St 0)"

definition hp_case_270 :: "bool \<Rightarrow> int \<Rightarrow> hp_action goto" where
  "hp_case_270 relaxed c =
     (if c = 58 then St 341 else
      if c < 65 then (if 48 \<le> c \<and> c \<le> 57 then St 271 else
       St 0) else
      if c > 70 then (if 97 \<le> c \<and> c \<le> 102 then St 271 else
       St 0) else
      St 271)"

definition hp_case_271 :: "bool \<Rightarrow> int \<Rightarrow> hp_action goto" where
  "hp_case_271 relaxed c =
     (if c = 58 then St 275 else
      if c < 65 then (if 48 \<le> c \<and> c \<le> 57 then St 272 else
       St 0) else
      if c > 70 then (if 97 \<le> c \<and> c \<le> 102 then St 272 else
       St 0) else
      St 272)"

definition hp_case_272 :: "bool \<Rightarrow> int \<Rightarrow> hp_action goto" where
  "hp_case_272 relaxed c =
     (if c = 58 then St 275 else
      if c < 65 then (if 48 \<le> c \<and> c \<le> 57 then St 273 else
       St 0) else
      if c > 70 then (if 97 \<le> c \<and> c \<le> 102 then St 273 else
       St 0) else
      St 273)"

definition hp_case_273 :: "bool \<Rightarrow> int \<Rightarrow> hp_action goto" where
  "hp_case_273 relaxed c =
     (if c = 58 then St 275 else
      if c < 65 then (if 48 \<le> c \<and> c \<le> 57 then St 274 else
       St 0) else
      if c > 70 then (if 97 \<le> c \<and> c \<le> 102 then St 274 else
       St 0) else
      St 274)"

definition hp_case_274 :: "bool \<Rightarrow> int \<Rightarrow> hp_action goto" where
  "hp_case_274 relaxed c =
     (if c = 58 then St 275 else
      St 0)"

definition hp_case_275 :: "bool \<Rightarrow> int \<Rightarrow> hp_action goto" where
  "hp_case_275 relaxed c =
     (if c = 58 then St 340 else
      if c < 65 then (if 48 \<le> c \<and> c \<le> 57 then St 276 else
       St 0) else
      if c > 70 then (if 97 \<le> c \<and> c \<le> 102 then St 276 else
       St 0) else
      St 276)"

definition hp_case_276 :: "bool \<Rightarrow> int \<Rightarrow> hp_action goto" where
  "hp_case_276 relaxed c =
     (if c = 58 then St 280 else
      if c < 65 then (if 48 \<le> c \<and> c \<le> 57 then St 277 else
       St 0) else
      if c > 70 then (if 97 \<le> c \<and> c \<le> 102 then St 277 else
       St 0) else
      St 277)"

definition hp_case_277 :: "bool \<Rightarrow> int \<Rightarrow> hp_action goto" where
  "hp_case_277 relaxed c =
     (if c = 58 then St 280 else
      if c < 65 then (if 48 \<le> c \<and> c \<le> 57 then St 278 else
       St 0) else
      if c > 70 then (if 97 \<le> c \<and> c \<le> 102 then St 278 else
       St 0) else
      St 278)"

definition hp_case_278 :: "bool \<Rightarrow> int \<Rightarrow> hp_action goto" where
  "hp_case_278 relaxed c =
     (if c = 58 then St 280 else
      if c < 65 then (if 48 \<le> c \<and> c \<le> 57 then St 279 else
       St 0) else
      if c > 70 then (if 97 \<le> c \<and> c \<le> 102 then St 279 else
       St 0) else
      St 279)"

definition hp_case_279 :: "bool \<Rightarrow> int \<Rightarrow> hp_action goto" where
  "hp_case_279 relaxed c =
     (if c = 58 then St 280 else
      St 0)"

definition hp_case_280 :: "bool \<Rightarrow> int \<Rightarrow> hp_action goto" where
  "hp_case_280 relaxed c =
     (if c = 58 then St 339 else
      if c < 65 then (if 48 \<le> c \<and> c \<le> 57 then St 281 else
       St 0) else
      if c > 70 then (if 97 \<le> c \<and> c \<le> 102 then St 281 else
       St 0) else
      St 281)"

definition hp_case_281 :: "bool \<Rightarrow> int \<Rightarrow> hp_action goto" where
  "hp_case_281 relaxed c =
     (if c = 58 then St 285 else
      if c < 65 then (if 48 \<le> c \<and> c \<le> 57 then St 282 else
       St 0) else
      if c > 70 then (if 97 \<le> c \<and> c \<le> 102 then St 282 else
       St 0) else
      St 282)"

definition hp_case_282 :: "bool \<Rightarrow> int \<Rightarrow> hp_action goto" where
  "hp_case_282 relaxed c =
     (if c = 58 then St 285 else
      if c < 65 then (if 48 \<le> c \<and> c \<le> 57 then St 283 else
       St 0) else
      if c > 70 then (if 97 \<le> c \<and> c \<le> 102 then St 283 else
       St 0) else
      St 283)"

definition hp_case_283 :: "bool \<Rightarrow> int \<Rightarrow> hp_action goto" where
  "hp_case_283 relaxed c =
     (if c = 58 then St 285 else
      if c < 65 then (if 48 \<le> c \<and> c \<le> 57 then St 284 else
       St 0) else
      if c > 70 then (if 97 \<le> c \<and> c \<le> 102 then St 284 else
       St 0) else
      St 284)"

definition hp_case_284 :: "bool \<Rightarrow> int \<Rightarrow> hp_action goto" where
  "hp_case_284 relaxed c =
     (if c = 58 then St 285 else
      St 0)"

definition hp_case_285 :: "bool \<Rightarrow> int \<Rightarrow> hp_action goto" where
  "hp_case_285 relaxed c =
     (if c = 58 then St 338 else
      if c < 65 then (if 48 \<le> c \<and> c \<le> 57 then St 286 else
       St 0) else
      if c > 70 then (if 97 \<le> c \<and> c \<le> 102 then St 286 else
       St 0) else
      St 286)"

definition hp_case_286 :: "bool \<Rightarrow> int \<Rightarrow> hp_action goto" where
  "hp_case_286 relaxed c =
     (if c = 58 then St 290 else
      if c < 65 then (if 48 \<le> c \<and> c \<le> 57 then St 287 else
       St 0) else
      if c > 70 then (if 97 \<le> c \<and> c \<le> 102 then St 287 else
       St 0) else
      St 287)"

definition hp_case_287 :: "bool \<Rightarrow> int \<Rightarrow> hp_action goto" where
  "hp_case_287 relaxed c =
     (if c = 58 then St 290 else
      if c < 65 then (if 48 \<le> c \<and> c \<le> 57 then St 288 else
       St 0) else
      if c > 70 then (if 97 \<le> c \<and> c \<le> 102 then St 288 else
       St 0) else
      St 288)"

definition hp_case_288 :: "bool \<Rightarrow> int \<Rightarrow> hp_action goto" where
  "hp_case_288 relaxed c =
     (if c = 58 then St 290 else
      if c < 65 then (if 48 \<le> c \<and> c \<le> 57 then St 289 else
       St 0) else
      if c > 70 then (if 97 \<le> c \<and> c \<le> 102 then St 289 else
       St 0) else
      St 289)"

definition hp_case_289 :: "bool \<Rightarrow> int \<Rightarrow> hp_action goto" where
  "hp_case_289 relaxed c =
     (if c = 58 then St 290 else
      St 0)"

definition hp_case_290 :: "bool \<Rightarrow> int \<Rightarrow> hp_action goto" where
  "hp_case_290 relaxed c =
     (if c = 58 then St 326 else
      if c < 65 then (if 48 \<le> c \<and> c \<le> 57 then St 291 else
       St 0) else
      if c > 70 then (if 97 \<le> c \<and> c \<le> 102 then St 291 else
       St 0) else
      St 291)"

definition hp_case_291 :: "bool \<Rightarrow> int \<Rightarrow> hp_action goto" where
  "hp_case_291 relaxed c =
     (if c = 58 then St 295 else
      if c < 65 then (if 48 \<le> c \<and> c \<le> 57 then St 292 else
       St 0) else
      if c > 70 then (if 97 \<le> c \<and> c \<le> 102 then St 292 else
       St 0) else
      St 292)"

definition hp_case_292 :: "bool \<Rightarrow> int \<Rightarrow> hp_action goto" where
  "hp_case_292 relaxed c =
     (if c = 58 then St 295 else
      if c < 65 then (if 48 \<le> c \<and> c \<le> 57 then St 293 else
       St 0) else
      if c > 70 then (if 97 \<le> c \<and> c \<le> 102 then St 293 else
       St 0) else
      St 293)"

definition hp_case_293 :: "bool \<Rightarrow> int \<Rightarrow> hp_action goto" where
  "hp_case_293 relaxed c =
     (if c = 58 then St 295 else
      if c < 65 then (if 48 \<le> c \<and> c \<le> 57 then St 294 else
       St 0) else
      if c > 70 then (if 97 \<le> c \<and> c \<le> 102 then St 294 else
       St 0) else
      St 294)"

definition hp_case_294 :: "bool \<Rightarrow> int \<Rightarrow> hp_action goto" where
  "hp_case_294 relaxed c =
     (if c = 58 then St 295 else
      St 0)"

definition hp_case_295 :: "bool \<Rightarrow> int \<Rightarrow> hp_action goto" where
  "hp_case_295 relaxed c =
     (if c = 58 then St 325 else
      if c < 65 then (if 48 \<le> c \<and> c \<le> 57 then St 296 else
       St 0) else
      if c > 70 then (if 97 \<le> c \<and> c \<le> 102 then St 296 else
       St 0) else
      St 296)"

definition hp_case_296 :: "bool \<Rightarrow> int \<Rightarrow> hp_action goto" where
  "hp_case_296 relaxed c =
     (if c = 58 then St 300 else
      if c < 65 then (if 48 \<le> c \<and> c \<le> 57 then St 297 else
       St 0) else
      if c > 70 then (if 97 \<le> c \<and> c \<le> 102 then St 297 else
       St 0) else
      St 297)"

definition hp_case_297 :: "bool \<Rightarrow> int \<Rightarrow> hp_action goto" where
  "hp_case_297 relaxed c =
     (if c = 58 then St 300 else
      if c < 65 then (if 48 \<le> c \<and> c \<le> 57 then St 298 else
       St 0) else
      if c > 70 then (if 97 \<le> c \<and> c \<le> 102 then St 298 else
       St 0) else
      St 298)"

definition hp_case_298 :: "bool \<Rightarrow> int \<Rightarrow> hp_action goto" where
  "hp_case_298 relaxed c =
     (if c = 58 then St 300 else
      if c < 65 then (if 48 \<le> c \<and> c \<le> 57 then St 299 else
       St 0) else
      if c > 70 then (if 97 \<le> c \<and> c \<le> 102 then St 299 else
       St 0) else
      St 299)"

definition hp_case_299 :: "bool \<Rightarrow> int \<Rightarrow> hp_action goto" where
  "hp_case_299 relaxed c =
     (if c = 58 then St 300 else
      St 0)"

definition hp_case_300 :: "bool \<Rightarrow> int \<Rightarrow> hp_action goto" where
  "hp_case_300 relaxed c =
     (if c = 58 then St 301 else
      if c < 65 then (if 48 \<le> c \<and> c \<le> 57 then St 296 else
       St 0) else
      if c > 70 then (if 97 \<le> c \<and> c \<le> 102 then St 296 else
       St 0) else
      St 296)"

definition hp_case_301 :: "bool \<Rightarrow> int \<Rightarrow> hp_action goto" where
  "hp_case_301 relaxed c =
     (if c = 49 then St 318 else if c = 50 then St 321 else if c = 93 then St 236 else
      if c < 48 then (if 2 \<le> c \<and> c \<le> 3 then St 223 else
       St 0) else
      if c > 57 then (if c > 70 then (if 97 \<le> c \<and> c \<le> 102 then St 324 else
        St 0) else
       if c \<ge> 65 then St 324 else
       St 0) else
      St 302)"

definition hp_case_302 :: "bool \<Rightarrow> int \<Rightarrow> hp_action goto" where
  "hp_case_302 relaxed c =
     (if c = 46 then St 230 else if c = 58 then St 306 else if c = 93 then St 236 else
      if c < 65 then (if 48 \<le> c \<and> c \<le> 57 then St 303 else
       St 0) else
      if c > 70 then (if 97 \<le> c \<and> c \<le> 102 then St 303 else
       St 0) else
      St 303)"

definition hp_case_303 :: "bool \<Rightarrow> int \<Rightarrow> hp_action goto" where
  "hp_case_303 relaxed c =
     (if c = 58 then St 306 else if c = 93 then St 236 else
      if c < 65 then (if 48 \<le> c \<and> c \<le> 57 then St 304 else
       St 0) else
      if c > 70 then (if 97 \<le> c \<and> c \<le> 102 then St 304 else
       St 0) else
      St 304)"

definition hp_case_304 :: "bool \<Rightarrow> int \<Rightarrow> hp_action goto" where
  "hp_case_304 relaxed c =
     (if c = 58 then St 306 else if c = 93 then St 236 else
      if c < 65 then (if 48 \<le> c \<and> c \<le> 57 then St 305 else
       St 0) else
      if c > 70 then (if 97 \<le> c \<and> c \<le> 102 then St 305 else
       St 0) else
      St 305)"

definition hp_case_305 :: "bool \<Rightarrow> int \<Rightarrow> hp_action goto" where
  "hp_case_305 relaxed c =
     (if c = 58 then St 306 else if c = 93 then St 236 else
      St 0)"

definition hp_case_306 :: "bool \<Rightarrow> int \<Rightarrow> hp_action goto" where
  "hp_case_306 relaxed c =
     (if c = 49 then St 311 else if c = 50 then St 314 else
      if c < 65 then (if 48 \<le> c \<and> c \<le> 57 then St 307 else
       St 0) else
      if c > 70 then (if 97 \<le> c \<and> c \<le> 102 then St 317 else
       St 0) else
      St 317)"

definition hp_case_307 :: "bool \<Rightarrow> int \<Rightarrow> hp_action goto" where
  "hp_case_307 relaxed c =
     (if c = 46 then St 230 else if c = 58 then St 255 else if c = 93 then St 236 else
      if c < 65 then (if 48 \<le> c \<and> c \<le> 57 then St 308 else
       St 0) else
      if c > 70 then (if 97 \<le> c \<and> c \<le> 102 then St 308 else
       St 0) else
      St 308)"

definition hp_case_308 :: "bool \<Rightarrow> int \<Rightarrow> hp_action goto" where
  "hp_case_308 relaxed c =
     (if c = 58 then St 255 else if c = 93 then St 236 else
      if c < 65 then (if 48 \<le> c \<and> c \<le> 57 then St 309 else
       St 0) else
      if c > 70 then (if 97 \<le> c \<and> c \<le> 102 then St 309 else
       St 0) else
      St 309)"

definition hp_case_309 :: "bool \<Rightarrow> int \<Rightarrow> hp_action goto" where
  "hp_case_309 relaxed c =
     (if c = 58 then St 255 else if c = 93 then St 236 else
      if c < 65 then (if 48 \<le> c \<and> c \<le> 57 then St 310 else
       St 0) else
      if c > 70 then (if 97 \<le> c \<and> c \<le> 102 then St 310 else
       St 0) else
      St 310)"

definition hp_case_310 :: "bool \<Rightarrow> int \<Rightarrow> hp_action goto" where
  "hp_case_310 relaxed c =
     (if c = 58 then St 255 else if c = 93 then St 236 else
      St 0)"

definition hp_case_311 :: "bool \<Rightarrow> int \<Rightarrow> hp_action goto" where
  "hp_case_311 relaxed c =
     (if c = 46 then St 230 else if c = 58 then St 255 else if c = 93 then St 236 else
      if c < 65 then (if 48 \<le> c \<and> c \<le> 57 then St 312 else
       St 0) else
      if c > 70 then (if 97 \<le> c \<and> c \<le> 102 then St 308 else
       St 0) else
      St 308)"

definition hp_case_312 :: "bool \<Rightarrow> int \<Rightarrow> hp_action goto" where
  "hp_case_312 relaxed c =
     (if c = 46 then St 230 else if c = 58 then St 255 else if c = 93 then St 236 else
      if c < 65 then (if 48 \<le> c \<and> c \<le> 57 then St 313 else
       St 0) else
      if c > 70 then (if 97 \<le> c \<and> c \<le> 102 then St 309 else
       St 0) else
      St 309)"

definition hp_case_313 :: "bool \<Rightarrow> int \<Rightarrow> hp_action goto" where
  "hp_case_313 relaxed c =
     (if c = 46 then St 230 else if c = 58 then St 255 else if c = 93 then St 236 else
      if c < 65 then (if 48 \<le> c \<and> c \<le> 57 then St 310 else
       St 0) else
      if c > 70 then (if 97 \<le> c \<and> c \<le> 102 then St 310 else
       St 0) else
      St 310)"

definition hp_case_314 :: "bool \<Rightarrow> int \<Rightarrow> hp_action goto" where
  "hp_case_314 relaxed c =
     (if c = 46 then St 230 else if c = 48 then St 315 else if c = 53 then St 316 else if c = 58 then St 255 else
      if c = 93 then St 236 else
      if c < 65 then (if 49 \<le> c \<and> c \<le> 57 then St 308 else
       St 0) else
      if c > 70 then (if 97 \<le> c \<and> c \<le> 102 then St 308 else
       St 0) else
      St 308)"

definition hp_case_315 :: "bool \<Rightarrow> int \<Rightarrow> hp_action goto" where
  "hp_case_315 relaxed c =
     (if c = 58 then St 255 else if c = 93 then St 236 else
      if c < 65 then (if 48 \<le> c \<and> c \<le> 57 then St 313 else
       St 0) else
      if c > 70 then (if 97 \<le> c \<and> c \<le> 102 then St 309 else
       St 0) else
      St 309)"

definition hp_case_316 :: "bool \<Rightarrow> int \<Rightarrow> hp_action goto" where
  "hp_case_316 relaxed c =
     (if c = 48 then St 313 else if c = 58 then St 255 else if c = 93 then St 236 else
      if c < 65 then (if 49 \<le> c \<and> c \<le> 57 then St 309 else
       St 0) else
      if c > 70 then (if 97 \<le> c \<and> c \<le> 102 then St 309 else
       St 0) else
      St 309)"

definition hp_case_317 :: "bool \<Rightarrow> int \<Rightarrow> hp_action goto" where
  "hp_case_317 relaxed c =
     (if c = 58 then St 255 else if c = 93 then St 236 else
      if c < 65 then (if 48 \<le> c \<and> c \<le> 57 then St 308 else
       St 0) else
      if c > 70 then (if 97 \<le> c \<and> c \<le> 102 then St 308 else
       St 0) else
      St 308)"

definition hp_case_318 :: "bool \<Rightarrow> int \<Rightarrow> hp_action goto" where
  "hp_case_318 relaxed c =
     (if c = 46 then St 230 else if c = 58 then St 306 else if c = 93 then St 236 else
      if c < 65 then (if 48 \<le> c \<and> c \<le> 57 then St 319 else
       St 0) else
      if c > 70 then (if 97 \<le> c \<and> c \<le> 102 then St 303 else
       St 0) else
      St 303)"

definition hp_case_319 :: "bool \<Rightarrow> int \<Rightarrow> hp_action goto" where
  "hp_case_319 relaxed c =
     (if c = 46 then St 230 else if c = 58 then St 306 else if c = 93 then St 236 else
      if c < 65 then (if 48 \<le> c \<and> c \<le> 57 then St 320 else
       St 0) else
      if c > 70 then (if 97 \<le> c \<and> c \<le> 102 then St 304 else
       St 0) else
      St 304)"

definition hp_case_320 :: "bool \<Rightarrow> int \<Rightarrow> hp_action goto" where
  "hp_case_320 relaxed c =
     (if c = 46 then St 230 else if c = 58 then St 306 else if c = 93 then St 236 else
      if c < 65 then (if 48 \<le> c \<and> c \<le> 57 then St 305 else
       St 0) else
      if c > 70 then (if 97 \<le> c \<and> c \<le> 102 then St 305 else
       St 0) else
      St 305)"

definition hp_case_321 :: "bool \<Rightarrow> int \<Rightarrow> hp_action goto" where
  "hp_case_321 relaxed c =
     (if c = 46 then St 230 else if c = 48 then St 322 else if c = 53 then St 323 else if c = 58 then St 306 else
      if c = 93 then St 236 else
      if c < 65 then (if 49 \<le> c \<and> c \<le> 57 then St 303 else
       St 0) else
      if c > 70 then (if 97 \<le> c \<and> c \<le> 102 then St 303 else
       St 0) else
      St 303)"

definition hp_case_322 :: "bool \<Rightarrow> int \<Rightarrow> hp_action goto" where
  "hp_case_322 relaxed c =
     (if c = 58 then St 306 else if c = 93 then St 236 else
      if c < 65 then (if 48 \<le> c \<and> c \<le> 57 then St 320 else
       St 0) else
      if c > 70 then (if 97 \<le> c \<and> c \<le> 102 then St 304 else
       St 0) else
      St 304)"

definition hp_case_323 :: "bool \<Rightarrow> int \<Rightarrow> hp_action goto" where
  "hp_case_323 relaxed c =
     (if c = 48 then St 320 else if c = 58 then St 306 else if c = 93 then St 236 else
      if c < 65 then (if 49 \<le> c \<and> c \<le> 57 then St 304 else
       St 0) else
      if c > 70 then (if 97 \<le> c \<and> c \<le> 102 then St 304 else
       St 0) else
      St 304)"

definition hp_case_324 :: "bool \<Rightarrow> int \<Rightarrow> hp_action goto" where
  "hp_case_324 relaxed c =
     (if c = 58 then St 306 else if c = 93 then St 236 else
      if c < 65 then (if 48 \<le> c \<and> c \<le> 57 then St 303 else
       St 0) else
      if c > 70 then (if 97 \<le> c \<and> c \<le> 102 then St 303 else
       St 0) else
      St 303)"

definition hp_case_325 :: "bool \<Rightarrow> int \<Rightarrow> hp_action goto" where
  "hp_case_325 relaxed c =
     (if c = 49 then St 318 else if c = 50 then St 321 else
      if c < 48 then (if 2 \<le> c \<and> c \<le> 3 then St 223 else
       St 0) else
      if c > 57 then (if c > 70 then (if 97 \<le> c \<and> c \<le> 102 then St 324 else
        St 0) else
       if c \<ge> 65 then St 324 else
       St 0) else
      St 302)"

definition hp_case_326 :: "bool \<Rightarrow> int \<Rightarrow> hp_action goto" where
  "hp_case_326 relaxed c =
     (if c = 49 then St 331 else if c = 50 then St 334 else
      if c < 48 then (if 2 \<le> c \<and> c \<le> 3 then St 223 else
       St 0) else
      if c > 57 then (if c > 70 then (if 97 \<le> c \<and> c \<le> 102 then St 337 else
        St 0) else
       if c \<ge> 65 then St 337 else
       St 0) else
      St 327)"

definition hp_case_327 :: "bool \<Rightarrow> int \<Rightarrow> hp_action goto" where
  "hp_case_327 relaxed c =
     (if c = 46 then St 230 else if c = 58 then St 306 else
      if c < 65 then (if 48 \<le> c \<and> c \<le> 57 then St 328 else
       St 0) else
      if c > 70 then (if 97 \<le> c \<and> c \<le> 102 then St 328 else
       St 0) else
      St 328)"

definition hp_case_328 :: "bool \<Rightarrow> int \<Rightarrow> hp_action goto" where
  "hp_case_328 relaxed c =
     (if c = 58 then St 306 else
      if c < 65 then (if 48 \<le> c \<and> c \<le> 57 then St 329 else
       St 0) else
      if c > 70 then (if 97 \<le> c \<and> c \<le> 102 then St 329 else
       St 0) else
      St 329)"

definition hp_case_329 :: "bool \<Rightarrow> int \<Rightarrow> hp_action goto" where
  "hp_case_329 relaxed c =
     (if c = 58 then St 306 else
      if c < 65 then (if 48 \<le> c \<and> c \<le> 57 then St 330 else
       St 0) else
      if c > 70 then (if 97 \<le> c \<and> c \<le> 102 then St 330 else
       St 0) else
      St 330)"

definition hp_case_330 :: "bool \<Rightarrow> int \<Rightarrow> hp_action goto" where
  "hp_case_330 relaxed c =
     (if c = 58 then St 306 else
      St 0)"

definition hp_case_331 :: "bool \<Rightarrow> int \<Rightarrow> hp_action goto" where
  "hp_case_331 relaxed c =
     (if c = 46 then St 230 else if c = 58 then St 306 else
      if c < 65 then (if 48 \<le> c \<and> c \<le> 57 then St 332 else
       St 0) else
      if c > 70 then (if 97 \<le> c \<and> c \<le> 102 then St 328 else
       St 0) else
      St 328)"

definition hp_case_332 :: "bool \<Rightarrow> int \<Rightarrow> hp_action goto" where
  "hp_case_332 relaxed c =
     (if c = 46 then St 230 else if c = 58 then St 306 else
      if c < 65 then (if 48 \<le> c \<and> c \<le> 57 then St 333 else
       St 0) else
      if c > 70 then (if 97 \<le> c \<and> c \<le> 102 then St 329 else
       St 0) else
      St 329)"

definition hp_case_333 :: "bool \<Rightarrow> int \<Rightarrow> hp_action goto" where
  "hp_case_333 relaxed c =
     (if c = 46 then St 230 else if c = 58 then St 306 else
      if c < 65 then (if 48 \<le> c \<and> c \<le> 57 then St 330 else
       St 0) else
      if c > 70 then (if 97 \<le> c \<and> c \<le> 102 then St 330 else
       St 0) else
      St 330)"

definition hp_case_334 :: "bool \<Rightarrow> int \<Rightarrow> hp_action goto" where
  "hp_case_334 relaxed c =
     (if c = 46 then St 230 else if c = 48 then St 335 else if c = 53 then St 336 else if c = 58 then St 306 else

      if c < 65 then (if 49 \<le> c \<and> c \<le> 57 then St 328 else
       St 0) else
      if c > 70 then (if 97 \<le> c \<and> c \<le> 102 then St 328 else
       St 0) else
      St 328)"

definition hp_case_335 :: "bool \<Rightarrow> int \<Rightarrow> hp_action goto" where
  "hp_case_335 relaxed c =
     (if c = 58 then St 306 else
      if c < 65 then (if 48 \<le> c \<and> c \<le> 57 then St 333 else
       St 0) else
      if c > 70 then (if 97 \<le> c \<and> c \<le> 102 then St 329 else
       St 0) else
      St 329)"

definition hp_case_336 :: "bool \<Rightarrow> int \<Rightarrow> hp_action goto" where
  "hp_case_336 relaxed c =
     (if c = 48 then St 333 else if c = 58 then St 306 else
      if c < 65 then (if 49 \<le> c \<and> c \<le> 57 then St 329 else
       St 0) else
      if c > 70 then (if 97 \<le> c \<and> c \<le> 102 then St 329 else
       St 0) else
      St 329)"

definition hp_case_337 :: "bool \<Rightarrow> int \<Rightarrow> hp_action goto" where
  "hp_case_337 relaxed c =
     (if c = 58 then St 306 else
      if c < 65 then (if 48 \<le> c \<and> c \<le> 57 then St 328 else
       St 0) else
      if c > 70 then (if 97 \<le> c \<and> c \<le> 102 then St 328 else
       St 0) else
      St 328)"

definition hp_case_338 :: "bool \<Rightarrow> int \<Rightarrow> hp_action goto" where
  "hp_case_338 relaxed c =
     (if c < 48 then (if 2 \<le> c \<and> c \<le> 3 then St 223 else
       St 0) else
      if c > 57 then (if c > 70 then (if 97 \<le> c \<and> c \<le> 102 then St 224 else
        St 0) else
       if c \<ge> 65 then St 224 else
       St 0) else
      St 224)"

definition hp_case_339 :: "bool \<Rightarrow> int \<Rightarrow> hp_action goto" where
  "hp_case_339 relaxed c =
     (if 2 \<le> c \<and> c \<le> 3 then St 223 else
      St 0)"

definition hp_case_340 :: "bool \<Rightarrow> int \<Rightarrow> hp_action goto" where
  "hp_case_340 relaxed c =
     (if c = 3 then St 223 else
      St 0)"

definition hp_case_341 :: "bool \<Rightarrow> int \<Rightarrow> hp_action goto" where
  "hp_case_341 relaxed c =
     (if c = 4 then St 223 else
      St 0)"

definition hp_case_342 :: "bool \<Rightarrow> int \<Rightarrow> hp_action goto" where
  "hp_case_342 relaxed c =
     (if c = 58 then St 343 else
      St 0)"

definition hp_case_343 :: "bool \<Rightarrow> int \<Rightarrow> hp_action goto" where
  "hp_case_343 relaxed c =
     (if c = 49 then St 318 else if c = 50 then St 321 else if c = 93 then St 236 else
      if c < 48 then (if 2 \<le> c \<and> c \<le> 5 then St 223 else
       St 0) else
      if c > 57 then (if c > 70 then (if 97 \<le> c \<and> c \<le> 102 then St 324 else
        St 0) else
       if c \<ge> 65 then St 324 else
       St 0) else
      St 302)"

definition hp_case_344 :: "bool \<Rightarrow> int \<Rightarrow> hp_action goto" where
  "hp_case_344 relaxed c =
     (if c < 65 then (if 48 \<le> c \<and> c \<le> 57 then St 345 else
       St 0) else
      if c > 70 then (if 97 \<le> c \<and> c \<le> 102 then St 345 else
       St 0) else
      St 345)"

definition hp_case_345 :: "bool \<Rightarrow> int \<Rightarrow> hp_action goto" where
  "hp_case_345 relaxed c =
     (if c = 46 then St 346 else
      if c < 65 then (if 48 \<le> c \<and> c \<le> 57 then St 345 else
       St 0) else
      if c > 70 then (if 97 \<le> c \<and> c \<le> 102 then St 345 else
       St 0) else
      St 345)"

definition hp_case_346 :: "bool \<Rightarrow> int \<Rightarrow> hp_action goto" where
  "hp_case_346 relaxed c =
     (let w = c in
      let w = (if c < 123 then (if 94 \<le> c \<and> c \<le> 94 then (if relaxed then c + 256 + 256 else c + 256) else w) else (if c > 123 then (if 125 \<le> c \<and> c \<le> 125 then (if relaxed then c + 256 + 256 else c + 256) else w) else (if relaxed then c + 256 + 256 else c + 256))) in
      if w = 33 then St 347 else if w = 36 then St 347 else if w = 61 then St 347 else if w = 95 then St 347 else
      if w = 126 then St 347 else if w = 606 then St 347 else if w = 635 then St 347 else if w = 637 then St 347 else

      if w < 48 then (if 38 \<le> w \<and> w \<le> 46 then St 347 else
       St 0) else
      if w > 59 then (if w > 90 then (if 97 \<le> w \<and> w \<le> 122 then St 347 else
        St 0) else
       if w \<ge> 65 then St 347 else
       St 0) else
      St 347)"

definition hp_case_347 :: "bool \<Rightarrow> int \<Rightarrow> hp_action goto" where
  "hp_case_347 relaxed c =
     (let w = c in
      let w = (if c < 123 then (if 94 \<le> c \<and> c \<le> 94 then (if relaxed then c + 256 + 256 else c + 256) else w) else (if c > 123 then (if 125 \<le> c \<and> c \<le> 125 then (if relaxed then c + 256 + 256 else c + 256) else w) else (if relaxed then c + 256 + 256 else c + 256))) in
      if w = 33 then St 347 else if w = 36 then St 347 else if w = 61 then St 347 else if w = 93 then St 236 else
      if w = 95 then St 347 else if w = 126 then St 347 else if w = 606 then St 347 else if w = 635 then St 347 else
      if w = 637 then St 347 else
      if w < 48 then (if 38 \<le> w \<and> w \<le> 46 then St 347 else
       St 0) else
      if w > 59 then (if w > 90 then (if 97 \<le> w \<and> w \<le> 122 then St 347 else
        St 0) else
       if w \<ge> 65 then St 347 else
       St 0) else
      St 347)"

definition hp_case_348 :: "bool \<Rightarrow> int \<Rightarrow> hp_action goto" where
  "hp_case_348 relaxed c =
     (if c = 33 then St 14 else if c = 58 then hp_tr_27 else if c = 124 then St 14 else if c = 126 then St 14 else

      if c < 42 then (if c < 10 then (if 1 \<le> c \<and> c \<le> 8 then St 14 else
        St 0) else
       if c > 31 then (if 35 \<le> c \<and> c \<le> 39 then St 14 else
        St 0) else
       St 14) else
      if c > 43 then (if c < 48 then (if 45 \<le> c \<and> c \<le> 46 then St 14 else
        St 0) else
       if c > 57 then (if c > 90 then (if 94 \<le> c \<and> c \<le> 122 then St 14 else
         St 0) else
        if c \<ge> 65 then St 14 else
        St 0) else
       St 14) else
      St 14)"

definition hp_case_349 :: "bool \<Rightarrow> int \<Rightarrow> hp_action goto" where
  "hp_case_349 relaxed c =
     St 0"

text \<open>\<^verbatim>\<open>switch ( cs )\<close>. There is no state outside the table: the label is never reached with one.\<close>

definition hp_case :: "bool \<Rightarrow> nat \<Rightarrow> int \<Rightarrow> hp_action goto" where
  "hp_case relaxed n c =
     (if n = 0 \<or> 349 < n then St 0 else
      if n < 175 then (if n < 88 then (if n < 44 then (if n < 22 then (if n < 11 then (if n < 6 then (if n < 3 then (if n < 2 then hp_case_1 relaxed c else
             hp_case_2 relaxed c) else
            if n < 4 then hp_case_3 relaxed c else
             if n < 5 then hp_case_4 relaxed c else
              hp_case_5 relaxed c) else
           if n < 8 then (if n < 7 then hp_case_6 relaxed c else
             hp_case_7 relaxed c) else
            if n < 9 then hp_case_8 relaxed c else
             if n < 10 then hp_case_9 relaxed c else
              hp_case_10 relaxed c) else
          if n < 16 then (if n < 13 then (if n < 12 then hp_case_11 relaxed c else
             hp_case_12 relaxed c) else
            if n < 14 then hp_case_13 relaxed c else
             if n < 15 then hp_case_14 relaxed c else
              hp_case_15 relaxed c) else
           if n < 19 then (if n < 17 then hp_case_16 relaxed c else
             if n < 18 then hp_case_17 relaxed c else
              hp_case_18 relaxed c) else
            if n < 20 then hp_case_19 relaxed c else
             if n < 21 then hp_case_20 relaxed c else
              hp_case_21 relaxed c) else
         if n < 33 then (if n < 27 then (if n < 24 then (if n < 23 then hp_case_22 relaxed c else
             hp_case_23 relaxed c) else
            if n < 25 then hp_case_24 relaxed c else
             if n < 26 then hp_case_25 relaxed c else
              hp_case_26 relaxed c) else
           if n < 30 then (if n < 28 then hp_case_27 relaxed c else
             if n < 29 then hp_case_28 relaxed c else
              hp_case_29 relaxed c) else
            if n < 31 then hp_case_30 relaxed c else
             if n < 32 then hp_case_31 relaxed c else
              hp_case_32 relaxed c) else
          if n < 38 then (if n < 35 then (if n < 34 then hp_case_33 relaxed c else
             hp_case_34 relaxed c) else
            if n < 36 then hp_case_35 relaxed c else
             if n < 37 then hp_case_36 relaxed c else
              hp_case_37 relaxed c) else
           if n < 41 then (if n < 39 then hp_case_38 relaxed c else
             if n < 40 then hp_case_39 relaxed c else
              hp_case_40 relaxed c) else
            if n < 42 then hp_case_41 relaxed c else
             if n < 43 then hp_case_42 relaxed c else
              hp_case_43 relaxed c) else
        if n < 66 then (if n < 55 then (if n < 49 then (if n < 46 then (if n < 45 then hp_case_44 relaxed c else
             hp_case_45 relaxed c) else
            if n < 47 then hp_case_46 relaxed c else
             if n < 48 then hp_case_47 relaxed c else
              hp_case_48 relaxed c) else
           if n < 52 then (if n < 50 then hp_case_49 relaxed c else
             if n < 51 then hp_case_50 relaxed c else
              hp_case_51 relaxed c) else
            if n < 53 then hp_case_52 relaxed c else
             if n < 54 then hp_case_53 relaxed c else
              hp_case_54 relaxed c) else
          if n < 60 then (if n < 57 then (if n < 56 then hp_case_55 relaxed c else
             hp_case_56 relaxed c) else
            if n < 58 then hp_case_57 relaxed c else
             if n < 59 then hp_case_58 relaxed c else
              hp_case_59 relaxed c) else
           if n < 63 then (if n < 61 then hp_case_60 relaxed c else
             if n < 62 then hp_case_61 relaxed c else
              hp_case_62 relaxed c) else
            if n < 64 then hp_case_63 relaxed c else
             if n < 65 then hp_case_64 relaxed c else
              hp_case_65 relaxed c) else
         if n < 77 then (if n < 71 then (if n < 68 then (if n < 67 then hp_case_66 relaxed c else
             hp_case_67 relaxed c) else
            if n < 69 then hp_case_68 relaxed c else
             if n < 70 then hp_case_69 relaxed c else
              hp_case_70 relaxed c) else
           if n < 74 then (if n < 72 then hp_case_71 relaxed c else
             if n < 73 then hp_case_72 relaxed c else
              hp_case_73 relaxed c) else
            if n < 75 then hp_case_74 relaxed c else
             if n < 76 then hp_case_75 relaxed c else
              hp_case_76 relaxed c) else
          if n < 82 then (if n < 79 then (if n < 78 then hp_case_77 relaxed c else
             hp_case_78 relaxed c) else
            if n < 80 then hp_case_79 relaxed c else
             if n < 81 then hp_case_80 relaxed c else
              hp_case_81 relaxed c) else
           if n < 85 then (if n < 83 then hp_case_82 relaxed c else
             if n < 84 then hp_case_83 relaxed c else
              hp_case_84 relaxed c) else
            if n < 86 then hp_case_85 relaxed c else
             if n < 87 then hp_case_86 relaxed c else
              hp_case_87 relaxed c) else
       if n < 131 then (if n < 109 then (if n < 98 then (if n < 93 then (if n < 90 then (if n < 89 then hp_case_88 relaxed c else
             hp_case_89 relaxed c) else
            if n < 91 then hp_case_90 relaxed c else
             if n < 92 then hp_case_91 relaxed c else
              hp_case_92 relaxed c) else
           if n < 95 then (if n < 94 then hp_case_93 relaxed c else
             hp_case_94 relaxed c) else
            if n < 96 then hp_case_95 relaxed c else
             if n < 97 then hp_case_96 relaxed c else
              hp_case_97 relaxed c) else
          if n < 103 then (if n < 100 then (if n < 99 then hp_case_98 relaxed c else
             hp_case_99 relaxed c) else
            if n < 101 then hp_case_100 relaxed c else
             if n < 102 then hp_case_101 relaxed c else
              hp_case_102 relaxed c) else
           if n < 106 then (if n < 104 then hp_case_103 relaxed c else
             if n < 105 then hp_case_104 relaxed c else
              hp_case_105 relaxed c) else
            if n < 107 then hp_case_106 relaxed c else
             if n < 108 then hp_case_107 relaxed c else
              hp_case_108 relaxed c) else
         if n < 120 then (if n < 114 then (if n < 111 then (if n < 110 then hp_case_109 relaxed c else
             hp_case_110 relaxed c) else
            if n < 112 then hp_case_111 relaxed c else
             if n < 113 then hp_case_112 relaxed c else
              hp_case_113 relaxed c) else
           if n < 117 then (if n < 115 then hp_case_114 relaxed c else
             if n < 116 then hp_case_115 relaxed c else
              hp_case_116 relaxed c) else
            if n < 118 then hp_case_117 relaxed c else
             if n < 119 then hp_case_118 relaxed c else
              hp_case_119 relaxed c) else
          if n < 125 then (if n < 122 then (if n < 121 then hp_case_120 relaxed c else
             hp_case_121 relaxed c) else
            if n < 123 then hp_case_122 relaxed c else
             if n < 124 then hp_case_123 relaxed c else
              hp_case_124 relaxed c) else
           if n < 128 then (if n < 126 then hp_case_125 relaxed c else
             if n < 127 then hp_case_126 relaxed c else
              hp_case_127 relaxed c) else
            if n < 129 then hp_case_128 relaxed c else
             if n < 130 then hp_case_129 relaxed c else
              hp_case_130 relaxed c) else
        if n < 153 then (if n < 142 then (if n < 136 then (if n < 133 then (if n < 132 then hp_case_131 relaxed c else
             hp_case_132 relaxed c) else
            if n < 134 then hp_case_133 relaxed c else
             if n < 135 then hp_case_134 relaxed c else
              hp_case_135 relaxed c) else
           if n < 139 then (if n < 137 then hp_case_136 relaxed c else
             if n < 138 then hp_case_137 relaxed c else
              hp_case_138 relaxed c) else
            if n < 140 then hp_case_139 relaxed c else
             if n < 141 then hp_case_140 relaxed c else
              hp_case_141 relaxed c) else
          if n < 147 then (if n < 144 then (if n < 143 then hp_case_142 relaxed c else
             hp_case_143 relaxed c) else
            if n < 145 then hp_case_144 relaxed c else
             if n < 146 then hp_case_145 relaxed c else
              hp_case_146 relaxed c) else
           if n < 150 then (if n < 148 then hp_case_147 relaxed c else
             if n < 149 then hp_case_148 relaxed c else
              hp_case_149 relaxed c) else
            if n < 151 then hp_case_150 relaxed c else
             if n < 152 then hp_case_151 relaxed c else
              hp_case_152 relaxed c) else
         if n < 164 then (if n < 158 then (if n < 155 then (if n < 154 then hp_case_153 relaxed c else
             hp_case_154 relaxed c) else
            if n < 156 then hp_case_155 relaxed c else
             if n < 157 then hp_case_156 relaxed c else
              hp_case_157 relaxed c) else
           if n < 161 then (if n < 159 then hp_case_158 relaxed c else
             if n < 160 then hp_case_159 relaxed c else
              hp_case_160 relaxed c) else
            if n < 162 then hp_case_161 relaxed c else
             if n < 163 then hp_case_162 relaxed c else
              hp_case_163 relaxed c) else
          if n < 169 then (if n < 166 then (if n < 165 then hp_case_164 relaxed c else
             hp_case_165 relaxed c) else
            if n < 167 then hp_case_166 relaxed c else
             if n < 168 then hp_case_167 relaxed c else
              hp_case_168 relaxed c) else
           if n < 172 then (if n < 170 then hp_case_169 relaxed c else
             if n < 171 then hp_case_170 relaxed c else
              hp_case_171 relaxed c) else
            if n < 173 then hp_case_172 relaxed c else
             if n < 174 then hp_case_173 relaxed c else
              hp_case_174 relaxed c) else
      if n < 262 then (if n < 218 then (if n < 196 then (if n < 185 then (if n < 180 then (if n < 177 then (if n < 176 then hp_case_175 relaxed c else
             hp_case_176 relaxed c) else
            if n < 178 then hp_case_177 relaxed c else
             if n < 179 then hp_case_178 relaxed c else
              hp_case_179 relaxed c) else
           if n < 182 then (if n < 181 then hp_case_180 relaxed c else
             hp_case_181 relaxed c) else
            if n < 183 then hp_case_182 relaxed c else
             if n < 184 then hp_case_183 relaxed c else
              hp_case_184 relaxed c) else
          if n < 190 then (if n < 187 then (if n < 186 then hp_case_185 relaxed c else
             hp_case_186 relaxed c) else
            if n < 188 then hp_case_187 relaxed c else
             if n < 189 then hp_case_188 relaxed c else
              hp_case_189 relaxed c) else
           if n < 193 then (if n < 191 then hp_case_190 relaxed c else
             if n < 192 then hp_case_191 relaxed c else
              hp_case_192 relaxed c) else
            if n < 194 then hp_case_193 relaxed c else
             if n < 195 then hp_case_194 relaxed c else
              hp_case_195 relaxed c) else
         if n < 207 then (if n < 201 then (if n < 198 then (if n < 197 then hp_case_196 relaxed c else
             hp_case_197 relaxed c) else
            if n < 199 then hp_case_198 relaxed c else
             if n < 200 then hp_case_199 relaxed c else
              hp_case_200 relaxed c) else
           if n < 204 then (if n < 202 then hp_case_201 relaxed c else
             if n < 203 then hp_case_202 relaxed c else
              hp_case_203 relaxed c) else
            if n < 205 then hp_case_204 relaxed c else
             if n < 206 then hp_case_205 relaxed c else
              hp_case_206 relaxed c) else
          if n < 212 then (if n < 209 then (if n < 208 then hp_case_207 relaxed c else
             hp_case_208 relaxed c) else
            if n < 210 then hp_case_209 relaxed c else
             if n < 211 then hp_case_210 relaxed c else
              hp_case_211 relaxed c) else
           if n < 215 then (if n < 213 then hp_case_212 relaxed c else
             if n < 214 then hp_case_213 relaxed c else
              hp_case_214 relaxed c) else
            if n < 216 then hp_case_215 relaxed c else
             if n < 217 then hp_case_216 relaxed c else
              hp_case_217 relaxed c) else
        if n < 240 then (if n < 229 then (if n < 223 then (if n < 220 then (if n < 219 then hp_case_218 relaxed c else
             hp_case_219 relaxed c) else
            if n < 221 then hp_case_220 relaxed c else
             if n < 222 then hp_case_221 relaxed c else
              hp_case_222 relaxed c) else
           if n < 226 then (if n < 224 then hp_case_223 relaxed c else
             if n < 225 then hp_case_224 relaxed c else
              hp_case_225 relaxed c) else
            if n < 227 then hp_case_226 relaxed c else
             if n < 228 then hp_case_227 relaxed c else
              hp_case_228 relaxed c) else
          if n < 234 then (if n < 231 then (if n < 230 then hp_case_229 relaxed c else
             hp_case_230 relaxed c) else
            if n < 232 then hp_case_231 relaxed c else
             if n < 233 then hp_case_232 relaxed c else
              hp_case_233 relaxed c) else
           if n < 237 then (if n < 235 then hp_case_234 relaxed c else
             if n < 236 then hp_case_235 relaxed c else
              hp_case_236 relaxed c) else
            if n < 238 then hp_case_237 relaxed c else
             if n < 239 then hp_case_238 relaxed c else
              hp_case_239 relaxed c) else
         if n < 251 then (if n < 245 then (if n < 242 then (if n < 241 then hp_case_240 relaxed c else
             hp_case_241 relaxed c) else
            if n < 243 then hp_case_242 relaxed c else
             if n < 244 then hp_case_243 relaxed c else
              hp_case_244 relaxed c) else
           if n < 248 then (if n < 246 then hp_case_245 relaxed c else
             if n < 247 then hp_case_246 relaxed c else
              hp_case_247 relaxed c) else
            if n < 249 then hp_case_248 relaxed c else
             if n < 250 then hp_case_249 relaxed c else
              hp_case_250 relaxed c) else
          if n < 256 then (if n < 253 then (if n < 252 then hp_case_251 relaxed c else
             hp_case_252 relaxed c) else
            if n < 254 then hp_case_253 relaxed c else
             if n < 255 then hp_case_254 relaxed c else
              hp_case_255 relaxed c) else
           if n < 259 then (if n < 257 then hp_case_256 relaxed c else
             if n < 258 then hp_case_257 relaxed c else
              hp_case_258 relaxed c) else
            if n < 260 then hp_case_259 relaxed c else
             if n < 261 then hp_case_260 relaxed c else
              hp_case_261 relaxed c) else
       if n < 306 then (if n < 284 then (if n < 273 then (if n < 267 then (if n < 264 then (if n < 263 then hp_case_262 relaxed c else
             hp_case_263 relaxed c) else
            if n < 265 then hp_case_264 relaxed c else
             if n < 266 then hp_case_265 relaxed c else
              hp_case_266 relaxed c) else
           if n < 270 then (if n < 268 then hp_case_267 relaxed c else
             if n < 269 then hp_case_268 relaxed c else
              hp_case_269 relaxed c) else
            if n < 271 then hp_case_270 relaxed c else
             if n < 272 then hp_case_271 relaxed c else
              hp_case_272 relaxed c) else
          if n < 278 then (if n < 275 then (if n < 274 then hp_case_273 relaxed c else
             hp_case_274 relaxed c) else
            if n < 276 then hp_case_275 relaxed c else
             if n < 277 then hp_case_276 relaxed c else
              hp_case_277 relaxed c) else
           if n < 281 then (if n < 279 then hp_case_278 relaxed c else
             if n < 280 then hp_case_279 relaxed c else
              hp_case_280 relaxed c) else
            if n < 282 then hp_case_281 relaxed c else
             if n < 283 then hp_case_282 relaxed c else
              hp_case_283 relaxed c) else
         if n < 295 then (if n < 289 then (if n < 286 then (if n < 285 then hp_case_284 relaxed c else
             hp_case_285 relaxed c) else
            if n < 287 then hp_case_286 relaxed c else
             if n < 288 then hp_case_287 relaxed c else
              hp_case_288 relaxed c) else
           if n < 292 then (if n < 290 then hp_case_289 relaxed c else
             if n < 291 then hp_case_290 relaxed c else
              hp_case_291 relaxed c) else
            if n < 293 then hp_case_292 relaxed c else
             if n < 294 then hp_case_293 relaxed c else
              hp_case_294 relaxed c) else
          if n < 300 then (if n < 297 then (if n < 296 then hp_case_295 relaxed c else
             hp_case_296 relaxed c) else
            if n < 298 then hp_case_297 relaxed c else
             if n < 299 then hp_case_298 relaxed c else
              hp_case_299 relaxed c) else
           if n < 303 then (if n < 301 then hp_case_300 relaxed c else
             if n < 302 then hp_case_301 relaxed c else
              hp_case_302 relaxed c) else
            if n < 304 then hp_case_303 relaxed c else
             if n < 305 then hp_case_304 relaxed c else
              hp_case_305 relaxed c) else
        if n < 328 then (if n < 317 then (if n < 311 then (if n < 308 then (if n < 307 then hp_case_306 relaxed c else
             hp_case_307 relaxed c) else
            if n < 309 then hp_case_308 relaxed c else
             if n < 310 then hp_case_309 relaxed c else
              hp_case_310 relaxed c) else
           if n < 314 then (if n < 312 then hp_case_311 relaxed c else
             if n < 313 then hp_case_312 relaxed c else
              hp_case_313 relaxed c) else
            if n < 315 then hp_case_314 relaxed c else
             if n < 316 then hp_case_315 relaxed c else
              hp_case_316 relaxed c) else
          if n < 322 then (if n < 319 then (if n < 318 then hp_case_317 relaxed c else
             hp_case_318 relaxed c) else
            if n < 320 then hp_case_319 relaxed c else
             if n < 321 then hp_case_320 relaxed c else
              hp_case_321 relaxed c) else
           if n < 325 then (if n < 323 then hp_case_322 relaxed c else
             if n < 324 then hp_case_323 relaxed c else
              hp_case_324 relaxed c) else
            if n < 326 then hp_case_325 relaxed c else
             if n < 327 then hp_case_326 relaxed c else
              hp_case_327 relaxed c) else
         if n < 339 then (if n < 333 then (if n < 330 then (if n < 329 then hp_case_328 relaxed c else
             hp_case_329 relaxed c) else
            if n < 331 then hp_case_330 relaxed c else
             if n < 332 then hp_case_331 relaxed c else
              hp_case_332 relaxed c) else
           if n < 336 then (if n < 334 then hp_case_333 relaxed c else
             if n < 335 then hp_case_334 relaxed c else
              hp_case_335 relaxed c) else
            if n < 337 then hp_case_336 relaxed c else
             if n < 338 then hp_case_337 relaxed c else
              hp_case_338 relaxed c) else
          if n < 344 then (if n < 341 then (if n < 340 then hp_case_339 relaxed c else
             hp_case_340 relaxed c) else
            if n < 342 then hp_case_341 relaxed c else
             if n < 343 then hp_case_342 relaxed c else
              hp_case_343 relaxed c) else
           if n < 347 then (if n < 345 then hp_case_344 relaxed c else
             if n < 346 then hp_case_345 relaxed c else
              hp_case_346 relaxed c) else
            if n < 348 then hp_case_347 relaxed c else
             if n < 349 then hp_case_348 relaxed c else
              hp_case_349 relaxed c)"

lemmas hp_tr_defs =
  hp_tr_0_def hp_tr_2_def hp_tr_3_def hp_tr_4_def hp_tr_6_def hp_tr_7_def hp_tr_8_def hp_tr_9_def
  hp_tr_10_def hp_tr_11_def hp_tr_12_def hp_tr_13_def hp_tr_21_def hp_tr_22_def hp_tr_23_def hp_tr_24_def
  hp_tr_25_def hp_tr_27_def hp_tr_28_def hp_tr_29_def hp_tr_30_def hp_tr_31_def hp_tr_33_def hp_tr_34_def
  hp_tr_36_def hp_tr_37_def hp_tr_39_def hp_tr_42_def hp_tr_43_def hp_tr_44_def hp_tr_45_def hp_tr_46_def
  hp_tr_53_def hp_tr_54_def hp_tr_55_def hp_tr_56_def hp_tr_57_def hp_tr_59_def hp_tr_203_def hp_tr_204_def
  hp_tr_224_def hp_tr_227_def hp_tr_228_def hp_tr_232_def hp_tr_235_def

text \<open>Fast access to the table.\<close>

lemma hp_case_simps:
  "hp_case relaxed (Suc 0) = hp_case_1 relaxed" "hp_case relaxed 2 = hp_case_2 relaxed" "hp_case relaxed 3 = hp_case_3 relaxed"
  "hp_case relaxed 4 = hp_case_4 relaxed" "hp_case relaxed 5 = hp_case_5 relaxed" "hp_case relaxed 6 = hp_case_6 relaxed"
  "hp_case relaxed 7 = hp_case_7 relaxed" "hp_case relaxed 8 = hp_case_8 relaxed" "hp_case relaxed 9 = hp_case_9 relaxed"
  "hp_case relaxed 10 = hp_case_10 relaxed" "hp_case relaxed 11 = hp_case_11 relaxed" "hp_case relaxed 12 = hp_case_12 relaxed"
  "hp_case relaxed 13 = hp_case_13 relaxed" "hp_case relaxed 14 = hp_case_14 relaxed" "hp_case relaxed 15 = hp_case_15 relaxed"
  "hp_case relaxed 16 = hp_case_16 relaxed" "hp_case relaxed 17 = hp_case_17 relaxed" "hp_case relaxed 18 = hp_case_18 relaxed"
  "hp_case relaxed 19 = hp_case_19 relaxed" "hp_case relaxed 20 = hp_case_20 relaxed" "hp_case relaxed 21 = hp_case_21 relaxed"
  "hp_case relaxed 22 = hp_case_22 relaxed" "hp_case relaxed 23 = hp_case_23 relaxed" "hp_case relaxed 24 = hp_case_24 relaxed"
  "hp_case relaxed 25 = hp_case_25 relaxed" "hp_case relaxed 26 = hp_case_26 relaxed" "hp_case relaxed 27 = hp_case_27 relaxed"
  "hp_case relaxed 28 = hp_case_28 relaxed" "hp_case relaxed 29 = hp_case_29 relaxed" "hp_case relaxed 30 = hp_case_30 relaxed"
  "hp_case relaxed 31 = hp_case_31 relaxed" "hp_case relaxed 32 = hp_case_32 relaxed" "hp_case relaxed 33 = hp_case_33 relaxed"
  "hp_case relaxed 34 = hp_case_34 relaxed" "hp_case relaxed 35 = hp_case_35 relaxed" "hp_case relaxed 36 = hp_case_36 relaxed"
  "hp_case relaxed 37 = hp_case_37 relaxed" "hp_case relaxed 38 = hp_case_38 relaxed" "hp_case relaxed 39 = hp_case_39 relaxed"
  "hp_case relaxed 40 = hp_case_40 relaxed" "hp_case relaxed 41 = hp_case_41 relaxed" "hp_case relaxed 42 = hp_case_42 relaxed"
  "hp_case relaxed 43 = hp_case_43 relaxed" "hp_case relaxed 44 = hp_case_44 relaxed" "hp_case relaxed 45 = hp_case_45 relaxed"
  "hp_case relaxed 46 = hp_case_46 relaxed" "hp_case relaxed 47 = hp_case_47 relaxed" "hp_case relaxed 48 = hp_case_48 relaxed"
  "hp_case relaxed 49 = hp_case_49 relaxed" "hp_case relaxed 50 = hp_case_50 relaxed" "hp_case relaxed 51 = hp_case_51 relaxed"
  "hp_case relaxed 52 = hp_case_52 relaxed" "hp_case relaxed 53 = hp_case_53 relaxed" "hp_case relaxed 54 = hp_case_54 relaxed"
  "hp_case relaxed 55 = hp_case_55 relaxed" "hp_case relaxed 56 = hp_case_56 relaxed" "hp_case relaxed 57 = hp_case_57 relaxed"
  "hp_case relaxed 58 = hp_case_58 relaxed" "hp_case relaxed 59 = hp_case_59 relaxed" "hp_case relaxed 60 = hp_case_60 relaxed"
  "hp_case relaxed 61 = hp_case_61 relaxed" "hp_case relaxed 62 = hp_case_62 relaxed" "hp_case relaxed 63 = hp_case_63 relaxed"
  "hp_case relaxed 64 = hp_case_64 relaxed" "hp_case relaxed 65 = hp_case_65 relaxed" "hp_case relaxed 66 = hp_case_66 relaxed"
  "hp_case relaxed 67 = hp_case_67 relaxed" "hp_case relaxed 68 = hp_case_68 relaxed" "hp_case relaxed 69 = hp_case_69 relaxed"
  "hp_case relaxed 70 = hp_case_70 relaxed" "hp_case relaxed 71 = hp_case_71 relaxed" "hp_case relaxed 72 = hp_case_72 relaxed"
  "hp_case relaxed 73 = hp_case_73 relaxed" "hp_case relaxed 74 = hp_case_74 relaxed" "hp_case relaxed 75 = hp_case_75 relaxed"
  "hp_case relaxed 76 = hp_case_76 relaxed" "hp_case relaxed 77 = hp_case_77 relaxed" "hp_case relaxed 78 = hp_case_78 relaxed"
  "hp_case relaxed 79 = hp_case_79 relaxed" "hp_case relaxed 80 = hp_case_80 relaxed" "hp_case relaxed 81 = hp_case_81 relaxed"
  "hp_case relaxed 82 = hp_case_82 relaxed" "hp_case relaxed 83 = hp_case_83 relaxed" "hp_case relaxed 84 = hp_case_84 relaxed"
  "hp_case relaxed 85 = hp_case_85 relaxed" "hp_case relaxed 86 = hp_case_86 relaxed" "hp_case relaxed 87 = hp_case_87 relaxed"
  "hp_case relaxed 88 = hp_case_88 relaxed" "hp_case relaxed 89 = hp_case_89 relaxed" "hp_case relaxed 90 = hp_case_90 relaxed"
  "hp_case relaxed 91 = hp_case_91 relaxed" "hp_case relaxed 92 = hp_case_92 relaxed" "hp_case relaxed 93 = hp_case_93 relaxed"
  "hp_case relaxed 94 = hp_case_94 relaxed" "hp_case relaxed 95 = hp_case_95 relaxed" "hp_case relaxed 96 = hp_case_96 relaxed"
  "hp_case relaxed 97 = hp_case_97 relaxed" "hp_case relaxed 98 = hp_case_98 relaxed" "hp_case relaxed 99 = hp_case_99 relaxed"
  "hp_case relaxed 100 = hp_case_100 relaxed" "hp_case relaxed 101 = hp_case_101 relaxed" "hp_case relaxed 102 = hp_case_102 relaxed"
  "hp_case relaxed 103 = hp_case_103 relaxed" "hp_case relaxed 104 = hp_case_104 relaxed" "hp_case relaxed 105 = hp_case_105 relaxed"
  "hp_case relaxed 106 = hp_case_106 relaxed" "hp_case relaxed 107 = hp_case_107 relaxed" "hp_case relaxed 108 = hp_case_108 relaxed"
  "hp_case relaxed 109 = hp_case_109 relaxed" "hp_case relaxed 110 = hp_case_110 relaxed" "hp_case relaxed 111 = hp_case_111 relaxed"
  "hp_case relaxed 112 = hp_case_112 relaxed" "hp_case relaxed 113 = hp_case_113 relaxed" "hp_case relaxed 114 = hp_case_114 relaxed"
  "hp_case relaxed 115 = hp_case_115 relaxed" "hp_case relaxed 116 = hp_case_116 relaxed" "hp_case relaxed 117 = hp_case_117 relaxed"
  "hp_case relaxed 118 = hp_case_118 relaxed" "hp_case relaxed 119 = hp_case_119 relaxed" "hp_case relaxed 120 = hp_case_120 relaxed"
  "hp_case relaxed 121 = hp_case_121 relaxed" "hp_case relaxed 122 = hp_case_122 relaxed" "hp_case relaxed 123 = hp_case_123 relaxed"
  "hp_case relaxed 124 = hp_case_124 relaxed" "hp_case relaxed 125 = hp_case_125 relaxed" "hp_case relaxed 126 = hp_case_126 relaxed"
  "hp_case relaxed 127 = hp_case_127 relaxed" "hp_case relaxed 128 = hp_case_128 relaxed" "hp_case relaxed 129 = hp_case_129 relaxed"
  "hp_case relaxed 130 = hp_case_130 relaxed" "hp_case relaxed 131 = hp_case_131 relaxed" "hp_case relaxed 132 = hp_case_132 relaxed"
  "hp_case relaxed 133 = hp_case_133 relaxed" "hp_case relaxed 134 = hp_case_134 relaxed" "hp_case relaxed 135 = hp_case_135 relaxed"
  "hp_case relaxed 136 = hp_case_136 relaxed" "hp_case relaxed 137 = hp_case_137 relaxed" "hp_case relaxed 138 = hp_case_138 relaxed"
  "hp_case relaxed 139 = hp_case_139 relaxed" "hp_case relaxed 140 = hp_case_140 relaxed" "hp_case relaxed 141 = hp_case_141 relaxed"
  "hp_case relaxed 142 = hp_case_142 relaxed" "hp_case relaxed 143 = hp_case_143 relaxed" "hp_case relaxed 144 = hp_case_144 relaxed"
  "hp_case relaxed 145 = hp_case_145 relaxed" "hp_case relaxed 146 = hp_case_146 relaxed" "hp_case relaxed 147 = hp_case_147 relaxed"
  "hp_case relaxed 148 = hp_case_148 relaxed" "hp_case relaxed 149 = hp_case_149 relaxed" "hp_case relaxed 150 = hp_case_150 relaxed"
  "hp_case relaxed 151 = hp_case_151 relaxed" "hp_case relaxed 152 = hp_case_152 relaxed" "hp_case relaxed 153 = hp_case_153 relaxed"
  "hp_case relaxed 154 = hp_case_154 relaxed" "hp_case relaxed 155 = hp_case_155 relaxed" "hp_case relaxed 156 = hp_case_156 relaxed"
  "hp_case relaxed 157 = hp_case_157 relaxed" "hp_case relaxed 158 = hp_case_158 relaxed" "hp_case relaxed 159 = hp_case_159 relaxed"
  "hp_case relaxed 160 = hp_case_160 relaxed" "hp_case relaxed 161 = hp_case_161 relaxed" "hp_case relaxed 162 = hp_case_162 relaxed"
  "hp_case relaxed 163 = hp_case_163 relaxed" "hp_case relaxed 164 = hp_case_164 relaxed" "hp_case relaxed 165 = hp_case_165 relaxed"
  "hp_case relaxed 166 = hp_case_166 relaxed" "hp_case relaxed 167 = hp_case_167 relaxed" "hp_case relaxed 168 = hp_case_168 relaxed"
  "hp_case relaxed 169 = hp_case_169 relaxed" "hp_case relaxed 170 = hp_case_170 relaxed" "hp_case relaxed 171 = hp_case_171 relaxed"
  "hp_case relaxed 172 = hp_case_172 relaxed" "hp_case relaxed 173 = hp_case_173 relaxed" "hp_case relaxed 174 = hp_case_174 relaxed"
  "hp_case relaxed 175 = hp_case_175 relaxed" "hp_case relaxed 176 = hp_case_176 relaxed" "hp_case relaxed 177 = hp_case_177 relaxed"
  "hp_case relaxed 178 = hp_case_178 relaxed" "hp_case relaxed 179 = hp_case_179 relaxed" "hp_case relaxed 180 = hp_case_180 relaxed"
  "hp_case relaxed 181 = hp_case_181 relaxed" "hp_case relaxed 182 = hp_case_182 relaxed" "hp_case relaxed 183 = hp_case_183 relaxed"
  "hp_case relaxed 184 = hp_case_184 relaxed" "hp_case relaxed 185 = hp_case_185 relaxed" "hp_case relaxed 186 = hp_case_186 relaxed"
  "hp_case relaxed 187 = hp_case_187 relaxed" "hp_case relaxed 188 = hp_case_188 relaxed" "hp_case relaxed 189 = hp_case_189 relaxed"
  "hp_case relaxed 190 = hp_case_190 relaxed" "hp_case relaxed 191 = hp_case_191 relaxed" "hp_case relaxed 192 = hp_case_192 relaxed"
  "hp_case relaxed 193 = hp_case_193 relaxed" "hp_case relaxed 194 = hp_case_194 relaxed" "hp_case relaxed 195 = hp_case_195 relaxed"
  "hp_case relaxed 196 = hp_case_196 relaxed" "hp_case relaxed 197 = hp_case_197 relaxed" "hp_case relaxed 198 = hp_case_198 relaxed"
  "hp_case relaxed 199 = hp_case_199 relaxed" "hp_case relaxed 200 = hp_case_200 relaxed" "hp_case relaxed 201 = hp_case_201 relaxed"
  "hp_case relaxed 202 = hp_case_202 relaxed" "hp_case relaxed 203 = hp_case_203 relaxed" "hp_case relaxed 204 = hp_case_204 relaxed"
  "hp_case relaxed 205 = hp_case_205 relaxed" "hp_case relaxed 206 = hp_case_206 relaxed" "hp_case relaxed 207 = hp_case_207 relaxed"
  "hp_case relaxed 208 = hp_case_208 relaxed" "hp_case relaxed 209 = hp_case_209 relaxed" "hp_case relaxed 210 = hp_case_210 relaxed"
  "hp_case relaxed 211 = hp_case_211 relaxed" "hp_case relaxed 212 = hp_case_212 relaxed" "hp_case relaxed 213 = hp_case_213 relaxed"
  "hp_case relaxed 214 = hp_case_214 relaxed" "hp_case relaxed 215 = hp_case_215 relaxed" "hp_case relaxed 216 = hp_case_216 relaxed"
  "hp_case relaxed 217 = hp_case_217 relaxed" "hp_case relaxed 218 = hp_case_218 relaxed" "hp_case relaxed 219 = hp_case_219 relaxed"
  "hp_case relaxed 220 = hp_case_220 relaxed" "hp_case relaxed 221 = hp_case_221 relaxed" "hp_case relaxed 222 = hp_case_222 relaxed"
  "hp_case relaxed 223 = hp_case_223 relaxed" "hp_case relaxed 224 = hp_case_224 relaxed" "hp_case relaxed 225 = hp_case_225 relaxed"
  "hp_case relaxed 226 = hp_case_226 relaxed" "hp_case relaxed 227 = hp_case_227 relaxed" "hp_case relaxed 228 = hp_case_228 relaxed"
  "hp_case relaxed 229 = hp_case_229 relaxed" "hp_case relaxed 230 = hp_case_230 relaxed" "hp_case relaxed 231 = hp_case_231 relaxed"
  "hp_case relaxed 232 = hp_case_232 relaxed" "hp_case relaxed 233 = hp_case_233 relaxed" "hp_case relaxed 234 = hp_case_234 relaxed"
  "hp_case relaxed 235 = hp_case_235 relaxed" "hp_case relaxed 236 = hp_case_236 relaxed" "hp_case relaxed 237 = hp_case_237 relaxed"
  "hp_case relaxed 238 = hp_case_238 relaxed" "hp_case relaxed 239 = hp_case_239 relaxed" "hp_case relaxed 240 = hp_case_240 relaxed"
  "hp_case relaxed 241 = hp_case_241 relaxed" "hp_case relaxed 242 = hp_case_242 relaxed" "hp_case relaxed 243 = hp_case_243 relaxed"
  "hp_case relaxed 244 = hp_case_244 relaxed" "hp_case relaxed 245 = hp_case_245 relaxed" "hp_case relaxed 246 = hp_case_246 relaxed"
  "hp_case relaxed 247 = hp_case_247 relaxed" "hp_case relaxed 248 = hp_case_248 relaxed" "hp_case relaxed 249 = hp_case_249 relaxed"
  "hp_case relaxed 250 = hp_case_250 relaxed" "hp_case relaxed 251 = hp_case_251 relaxed" "hp_case relaxed 252 = hp_case_252 relaxed"
  "hp_case relaxed 253 = hp_case_253 relaxed" "hp_case relaxed 254 = hp_case_254 relaxed" "hp_case relaxed 255 = hp_case_255 relaxed"
  "hp_case relaxed 256 = hp_case_256 relaxed" "hp_case relaxed 257 = hp_case_257 relaxed" "hp_case relaxed 258 = hp_case_258 relaxed"
  "hp_case relaxed 259 = hp_case_259 relaxed" "hp_case relaxed 260 = hp_case_260 relaxed" "hp_case relaxed 261 = hp_case_261 relaxed"
  "hp_case relaxed 262 = hp_case_262 relaxed" "hp_case relaxed 263 = hp_case_263 relaxed" "hp_case relaxed 264 = hp_case_264 relaxed"
  "hp_case relaxed 265 = hp_case_265 relaxed" "hp_case relaxed 266 = hp_case_266 relaxed" "hp_case relaxed 267 = hp_case_267 relaxed"
  "hp_case relaxed 268 = hp_case_268 relaxed" "hp_case relaxed 269 = hp_case_269 relaxed" "hp_case relaxed 270 = hp_case_270 relaxed"
  "hp_case relaxed 271 = hp_case_271 relaxed" "hp_case relaxed 272 = hp_case_272 relaxed" "hp_case relaxed 273 = hp_case_273 relaxed"
  "hp_case relaxed 274 = hp_case_274 relaxed" "hp_case relaxed 275 = hp_case_275 relaxed" "hp_case relaxed 276 = hp_case_276 relaxed"
  "hp_case relaxed 277 = hp_case_277 relaxed" "hp_case relaxed 278 = hp_case_278 relaxed" "hp_case relaxed 279 = hp_case_279 relaxed"
  "hp_case relaxed 280 = hp_case_280 relaxed" "hp_case relaxed 281 = hp_case_281 relaxed" "hp_case relaxed 282 = hp_case_282 relaxed"
  "hp_case relaxed 283 = hp_case_283 relaxed" "hp_case relaxed 284 = hp_case_284 relaxed" "hp_case relaxed 285 = hp_case_285 relaxed"
  "hp_case relaxed 286 = hp_case_286 relaxed" "hp_case relaxed 287 = hp_case_287 relaxed" "hp_case relaxed 288 = hp_case_288 relaxed"
  "hp_case relaxed 289 = hp_case_289 relaxed" "hp_case relaxed 290 = hp_case_290 relaxed" "hp_case relaxed 291 = hp_case_291 relaxed"
  "hp_case relaxed 292 = hp_case_292 relaxed" "hp_case relaxed 293 = hp_case_293 relaxed" "hp_case relaxed 294 = hp_case_294 relaxed"
  "hp_case relaxed 295 = hp_case_295 relaxed" "hp_case relaxed 296 = hp_case_296 relaxed" "hp_case relaxed 297 = hp_case_297 relaxed"
  "hp_case relaxed 298 = hp_case_298 relaxed" "hp_case relaxed 299 = hp_case_299 relaxed" "hp_case relaxed 300 = hp_case_300 relaxed"
  "hp_case relaxed 301 = hp_case_301 relaxed" "hp_case relaxed 302 = hp_case_302 relaxed" "hp_case relaxed 303 = hp_case_303 relaxed"
  "hp_case relaxed 304 = hp_case_304 relaxed" "hp_case relaxed 305 = hp_case_305 relaxed" "hp_case relaxed 306 = hp_case_306 relaxed"
  "hp_case relaxed 307 = hp_case_307 relaxed" "hp_case relaxed 308 = hp_case_308 relaxed" "hp_case relaxed 309 = hp_case_309 relaxed"
  "hp_case relaxed 310 = hp_case_310 relaxed" "hp_case relaxed 311 = hp_case_311 relaxed" "hp_case relaxed 312 = hp_case_312 relaxed"
  "hp_case relaxed 313 = hp_case_313 relaxed" "hp_case relaxed 314 = hp_case_314 relaxed" "hp_case relaxed 315 = hp_case_315 relaxed"
  "hp_case relaxed 316 = hp_case_316 relaxed" "hp_case relaxed 317 = hp_case_317 relaxed" "hp_case relaxed 318 = hp_case_318 relaxed"
  "hp_case relaxed 319 = hp_case_319 relaxed" "hp_case relaxed 320 = hp_case_320 relaxed" "hp_case relaxed 321 = hp_case_321 relaxed"
  "hp_case relaxed 322 = hp_case_322 relaxed" "hp_case relaxed 323 = hp_case_323 relaxed" "hp_case relaxed 324 = hp_case_324 relaxed"
  "hp_case relaxed 325 = hp_case_325 relaxed" "hp_case relaxed 326 = hp_case_326 relaxed" "hp_case relaxed 327 = hp_case_327 relaxed"
  "hp_case relaxed 328 = hp_case_328 relaxed" "hp_case relaxed 329 = hp_case_329 relaxed" "hp_case relaxed 330 = hp_case_330 relaxed"
  "hp_case relaxed 331 = hp_case_331 relaxed" "hp_case relaxed 332 = hp_case_332 relaxed" "hp_case relaxed 333 = hp_case_333 relaxed"
  "hp_case relaxed 334 = hp_case_334 relaxed" "hp_case relaxed 335 = hp_case_335 relaxed" "hp_case relaxed 336 = hp_case_336 relaxed"
  "hp_case relaxed 337 = hp_case_337 relaxed" "hp_case relaxed 338 = hp_case_338 relaxed" "hp_case relaxed 339 = hp_case_339 relaxed"
  "hp_case relaxed 340 = hp_case_340 relaxed" "hp_case relaxed 341 = hp_case_341 relaxed" "hp_case relaxed 342 = hp_case_342 relaxed"
  "hp_case relaxed 343 = hp_case_343 relaxed" "hp_case relaxed 344 = hp_case_344 relaxed" "hp_case relaxed 345 = hp_case_345 relaxed"
  "hp_case relaxed 346 = hp_case_346 relaxed" "hp_case relaxed 347 = hp_case_347 relaxed" "hp_case relaxed 348 = hp_case_348 relaxed"
  "hp_case relaxed 349 = hp_case_349 relaxed"
  by (rule ext, simp add: hp_case_def)+

section \<open>Facts about all transitions\<close>

text \<open>The error state is entered without actions, and the action that breaks leads to a final state. A name or a query that has
  been started is ended before it is reported: the states inside a name are 14, 18 and 348, those inside a query 30, 31 and 32.\<close>

datatype hp_phase = Between | InName | InQuery

definition state_phase :: "nat \<Rightarrow> hp_phase" where
  "state_phase n = (if n = 14 \<or> n = 18 \<or> n = 348 then InName else if n = 30 \<or> n = 31 \<or> n = 32 then InQuery else Between)"

fun run_phase :: "hp_action list \<Rightarrow> hp_phase \<Rightarrow> hp_phase option" where
  "run_phase [] b = Some b"
| "run_phase (HpStartField # as) b = run_phase as InName"
| "run_phase (HpWriteField # as) b = run_phase as Between"
| "run_phase (HpWriteValue # as) b = (if b = InName then None else run_phase as b)"
| "run_phase (HpStartQuery # as) b = (if b = InName then None else run_phase as InQuery)"
| "run_phase (HpQueryStringAct # as) b = (if b = InQuery then run_phase as Between else None)"
| "run_phase (a # as) b = run_phase as b"

definition hp_edge :: "hp_phase \<Rightarrow> hp_action goto \<Rightarrow> bool" where
  "hp_edge b g = (case g of Goto as m \<Rightarrow> (m = 0 \<longrightarrow> as = []) \<and> (HpDone \<in> set as \<longrightarrow> m = 348 \<or> m = 349) \<and>
     (m \<noteq> 0 \<longrightarrow> run_phase as b = Some (state_phase m)))"

lemma hp_edge_if: "hp_edge b (if x then g else h) = (if x then hp_edge b g else hp_edge b h)"
  by simp

lemma hp_edge_tr:
  "hp_edge Between hp_tr_0" "hp_edge Between hp_tr_2" "hp_edge Between hp_tr_3" "hp_edge Between hp_tr_4" "hp_edge Between hp_tr_6"
  "hp_edge Between hp_tr_7" "hp_edge Between hp_tr_8" "hp_edge Between hp_tr_9" "hp_edge Between hp_tr_10" "hp_edge Between hp_tr_11"
  "hp_edge Between hp_tr_12" "hp_edge Between hp_tr_13" "hp_edge Between hp_tr_21" "hp_edge Between hp_tr_22" "hp_edge Between hp_tr_23"
  "hp_edge InName hp_tr_23" "hp_edge InQuery hp_tr_23" "hp_edge Between hp_tr_24" "hp_edge InName hp_tr_24" "hp_edge InQuery hp_tr_24"
  "hp_edge Between hp_tr_25" "hp_edge InName hp_tr_25" "hp_edge InQuery hp_tr_25" "hp_edge Between hp_tr_27" "hp_edge InName hp_tr_27"
  "hp_edge InQuery hp_tr_27" "hp_edge Between hp_tr_28" "hp_edge Between hp_tr_29" "hp_edge Between hp_tr_30" "hp_edge Between hp_tr_31"
  "hp_edge Between hp_tr_33" "hp_edge Between hp_tr_34" "hp_edge InName hp_tr_36" "hp_edge Between hp_tr_37" "hp_edge Between hp_tr_39"
  "hp_edge Between hp_tr_42" "hp_edge Between hp_tr_43" "hp_edge Between hp_tr_44" "hp_edge Between hp_tr_45" "hp_edge Between hp_tr_46"
  "hp_edge Between hp_tr_53" "hp_edge InQuery hp_tr_53" "hp_edge Between hp_tr_54" "hp_edge InQuery hp_tr_54" "hp_edge Between hp_tr_55"
  "hp_edge InQuery hp_tr_55" "hp_edge Between hp_tr_56" "hp_edge InQuery hp_tr_56" "hp_edge InQuery hp_tr_57" "hp_edge InQuery hp_tr_59"
  "hp_edge Between hp_tr_203" "hp_edge Between hp_tr_204" "hp_edge Between hp_tr_224" "hp_edge Between hp_tr_227" "hp_edge Between hp_tr_228"
  "hp_edge Between hp_tr_232" "hp_edge Between hp_tr_235" "hp_edge Between (St 1)" "hp_edge Between (St 2)" "hp_edge Between (St 3)"
  "hp_edge Between (St 4)" "hp_edge Between (St 5)" "hp_edge Between (St 6)" "hp_edge Between (St 7)" "hp_edge Between (St 8)"
  "hp_edge Between (St 9)" "hp_edge Between (St 10)" "hp_edge Between (St 11)" "hp_edge Between (St 12)" "hp_edge Between (St 13)"
  "hp_edge InName (St 14)" "hp_edge Between (St 15)" "hp_edge Between (St 16)" "hp_edge Between (St 17)" "hp_edge InName (St 18)"
  "hp_edge Between (St 19)" "hp_edge Between (St 20)" "hp_edge Between (St 21)" "hp_edge Between (St 22)" "hp_edge Between (St 23)"
  "hp_edge Between (St 24)" "hp_edge Between (St 25)" "hp_edge Between (St 26)" "hp_edge Between (St 27)" "hp_edge Between (St 28)"
  "hp_edge Between (St 29)" "hp_edge InQuery (St 30)" "hp_edge InQuery (St 31)" "hp_edge InQuery (St 32)" "hp_edge Between (St 33)"
  "hp_edge Between (St 34)" "hp_edge Between (St 35)" "hp_edge Between (St 36)" "hp_edge Between (St 37)" "hp_edge Between (St 38)"
  "hp_edge Between (St 39)" "hp_edge Between (St 40)" "hp_edge Between (St 41)" "hp_edge Between (St 42)" "hp_edge Between (St 43)"
  "hp_edge Between (St 44)" "hp_edge Between (St 45)" "hp_edge Between (St 46)" "hp_edge Between (St 47)" "hp_edge Between (St 48)"
  "hp_edge Between (St 49)" "hp_edge Between (St 50)" "hp_edge Between (St 51)" "hp_edge Between (St 52)" "hp_edge Between (St 53)"
  "hp_edge Between (St 54)" "hp_edge Between (St 55)" "hp_edge Between (St 56)" "hp_edge Between (St 57)" "hp_edge Between (St 58)"
  "hp_edge Between (St 59)" "hp_edge Between (St 60)" "hp_edge Between (St 61)" "hp_edge Between (St 62)" "hp_edge Between (St 63)"
  "hp_edge Between (St 64)" "hp_edge Between (St 65)" "hp_edge Between (St 66)" "hp_edge Between (St 67)" "hp_edge Between (St 68)"
  "hp_edge Between (St 69)" "hp_edge Between (St 70)" "hp_edge Between (St 71)" "hp_edge Between (St 72)" "hp_edge Between (St 73)"
  "hp_edge Between (St 74)" "hp_edge Between (St 75)" "hp_edge Between (St 76)" "hp_edge Between (St 77)" "hp_edge Between (St 78)"
  "hp_edge Between (St 79)" "hp_edge Between (St 80)" "hp_edge Between (St 81)" "hp_edge Between (St 82)" "hp_edge Between (St 83)"
  "hp_edge Between (St 84)" "hp_edge Between (St 85)" "hp_edge Between (St 86)" "hp_edge Between (St 87)" "hp_edge Between (St 88)"
  "hp_edge Between (St 89)" "hp_edge Between (St 90)" "hp_edge Between (St 91)" "hp_edge Between (St 92)" "hp_edge Between (St 93)"
  "hp_edge Between (St 94)" "hp_edge Between (St 95)" "hp_edge Between (St 96)" "hp_edge Between (St 97)" "hp_edge Between (St 98)"
  "hp_edge Between (St 99)" "hp_edge Between (St 100)" "hp_edge Between (St 101)" "hp_edge Between (St 102)" "hp_edge Between (St 103)"
  "hp_edge Between (St 104)" "hp_edge Between (St 105)" "hp_edge Between (St 106)" "hp_edge Between (St 107)" "hp_edge Between (St 108)"
  "hp_edge Between (St 109)" "hp_edge Between (St 110)" "hp_edge Between (St 111)" "hp_edge Between (St 112)" "hp_edge Between (St 113)"
  "hp_edge Between (St 114)" "hp_edge Between (St 115)" "hp_edge Between (St 116)" "hp_edge Between (St 117)" "hp_edge Between (St 118)"
  "hp_edge Between (St 119)" "hp_edge Between (St 120)" "hp_edge Between (St 121)" "hp_edge Between (St 122)" "hp_edge Between (St 123)"
  "hp_edge Between (St 124)" "hp_edge Between (St 125)" "hp_edge Between (St 126)" "hp_edge Between (St 127)" "hp_edge Between (St 128)"
  "hp_edge Between (St 129)" "hp_edge Between (St 130)" "hp_edge Between (St 131)" "hp_edge Between (St 132)" "hp_edge Between (St 133)"
  "hp_edge Between (St 134)" "hp_edge Between (St 135)" "hp_edge Between (St 136)" "hp_edge Between (St 137)" "hp_edge Between (St 138)"
  "hp_edge Between (St 139)" "hp_edge Between (St 140)" "hp_edge Between (St 141)" "hp_edge Between (St 142)" "hp_edge Between (St 143)"
  "hp_edge Between (St 144)" "hp_edge Between (St 145)" "hp_edge Between (St 146)" "hp_edge Between (St 147)" "hp_edge Between (St 148)"
  "hp_edge Between (St 149)" "hp_edge Between (St 150)" "hp_edge Between (St 151)" "hp_edge Between (St 152)" "hp_edge Between (St 153)"
  "hp_edge Between (St 154)" "hp_edge Between (St 155)" "hp_edge Between (St 156)" "hp_edge Between (St 157)" "hp_edge Between (St 158)"
  "hp_edge Between (St 159)" "hp_edge Between (St 160)" "hp_edge Between (St 161)" "hp_edge Between (St 162)" "hp_edge Between (St 163)"
  "hp_edge Between (St 164)" "hp_edge Between (St 165)" "hp_edge Between (St 166)" "hp_edge Between (St 167)" "hp_edge Between (St 168)"
  "hp_edge Between (St 169)" "hp_edge Between (St 170)" "hp_edge Between (St 171)" "hp_edge Between (St 172)" "hp_edge Between (St 173)"
  "hp_edge Between (St 174)" "hp_edge Between (St 175)" "hp_edge Between (St 176)" "hp_edge Between (St 177)" "hp_edge Between (St 178)"
  "hp_edge Between (St 179)" "hp_edge Between (St 180)" "hp_edge Between (St 181)" "hp_edge Between (St 182)" "hp_edge Between (St 183)"
  "hp_edge Between (St 184)" "hp_edge Between (St 185)" "hp_edge Between (St 186)" "hp_edge Between (St 187)" "hp_edge Between (St 188)"
  "hp_edge Between (St 189)" "hp_edge Between (St 190)" "hp_edge Between (St 191)" "hp_edge Between (St 192)" "hp_edge Between (St 193)"
  "hp_edge Between (St 194)" "hp_edge Between (St 195)" "hp_edge Between (St 196)" "hp_edge Between (St 197)" "hp_edge Between (St 198)"
  "hp_edge Between (St 199)" "hp_edge Between (St 200)" "hp_edge Between (St 201)" "hp_edge Between (St 202)" "hp_edge Between (St 203)"
  "hp_edge Between (St 204)" "hp_edge Between (St 205)" "hp_edge Between (St 206)" "hp_edge Between (St 207)" "hp_edge Between (St 208)"
  "hp_edge Between (St 209)" "hp_edge Between (St 210)" "hp_edge Between (St 211)" "hp_edge Between (St 212)" "hp_edge Between (St 213)"
  "hp_edge Between (St 214)" "hp_edge Between (St 215)" "hp_edge Between (St 216)" "hp_edge Between (St 217)" "hp_edge Between (St 218)"
  "hp_edge Between (St 219)" "hp_edge Between (St 220)" "hp_edge Between (St 221)" "hp_edge Between (St 222)" "hp_edge Between (St 223)"
  "hp_edge Between (St 224)" "hp_edge Between (St 225)" "hp_edge Between (St 226)" "hp_edge Between (St 227)" "hp_edge Between (St 228)"
  "hp_edge Between (St 229)" "hp_edge Between (St 230)" "hp_edge Between (St 231)" "hp_edge Between (St 232)" "hp_edge Between (St 233)"
  "hp_edge Between (St 234)" "hp_edge Between (St 235)" "hp_edge Between (St 236)" "hp_edge Between (St 237)" "hp_edge Between (St 238)"
  "hp_edge Between (St 239)" "hp_edge Between (St 240)" "hp_edge Between (St 241)" "hp_edge Between (St 242)" "hp_edge Between (St 243)"
  "hp_edge Between (St 244)" "hp_edge Between (St 245)" "hp_edge Between (St 246)" "hp_edge Between (St 247)" "hp_edge Between (St 248)"
  "hp_edge Between (St 249)" "hp_edge Between (St 250)" "hp_edge Between (St 251)" "hp_edge Between (St 252)" "hp_edge Between (St 253)"
  "hp_edge Between (St 254)" "hp_edge Between (St 255)" "hp_edge Between (St 256)" "hp_edge Between (St 257)" "hp_edge Between (St 258)"
  "hp_edge Between (St 259)" "hp_edge Between (St 260)" "hp_edge Between (St 261)" "hp_edge Between (St 262)" "hp_edge Between (St 263)"
  "hp_edge Between (St 264)" "hp_edge Between (St 265)" "hp_edge Between (St 266)" "hp_edge Between (St 267)" "hp_edge Between (St 268)"
  "hp_edge Between (St 269)" "hp_edge Between (St 270)" "hp_edge Between (St 271)" "hp_edge Between (St 272)" "hp_edge Between (St 273)"
  "hp_edge Between (St 274)" "hp_edge Between (St 275)" "hp_edge Between (St 276)" "hp_edge Between (St 277)" "hp_edge Between (St 278)"
  "hp_edge Between (St 279)" "hp_edge Between (St 280)" "hp_edge Between (St 281)" "hp_edge Between (St 282)" "hp_edge Between (St 283)"
  "hp_edge Between (St 284)" "hp_edge Between (St 285)" "hp_edge Between (St 286)" "hp_edge Between (St 287)" "hp_edge Between (St 288)"
  "hp_edge Between (St 289)" "hp_edge Between (St 290)" "hp_edge Between (St 291)" "hp_edge Between (St 292)" "hp_edge Between (St 293)"
  "hp_edge Between (St 294)" "hp_edge Between (St 295)" "hp_edge Between (St 296)" "hp_edge Between (St 297)" "hp_edge Between (St 298)"
  "hp_edge Between (St 299)" "hp_edge Between (St 300)" "hp_edge Between (St 301)" "hp_edge Between (St 302)" "hp_edge Between (St 303)"
  "hp_edge Between (St 304)" "hp_edge Between (St 305)" "hp_edge Between (St 306)" "hp_edge Between (St 307)" "hp_edge Between (St 308)"
  "hp_edge Between (St 309)" "hp_edge Between (St 310)" "hp_edge Between (St 311)" "hp_edge Between (St 312)" "hp_edge Between (St 313)"
  "hp_edge Between (St 314)" "hp_edge Between (St 315)" "hp_edge Between (St 316)" "hp_edge Between (St 317)" "hp_edge Between (St 318)"
  "hp_edge Between (St 319)" "hp_edge Between (St 320)" "hp_edge Between (St 321)" "hp_edge Between (St 322)" "hp_edge Between (St 323)"
  "hp_edge Between (St 324)" "hp_edge Between (St 325)" "hp_edge Between (St 326)" "hp_edge Between (St 327)" "hp_edge Between (St 328)"
  "hp_edge Between (St 329)" "hp_edge Between (St 330)" "hp_edge Between (St 331)" "hp_edge Between (St 332)" "hp_edge Between (St 333)"
  "hp_edge Between (St 334)" "hp_edge Between (St 335)" "hp_edge Between (St 336)" "hp_edge Between (St 337)" "hp_edge Between (St 338)"
  "hp_edge Between (St 339)" "hp_edge Between (St 340)" "hp_edge Between (St 341)" "hp_edge Between (St 342)" "hp_edge Between (St 343)"
  "hp_edge Between (St 344)" "hp_edge Between (St 345)" "hp_edge Between (St 346)" "hp_edge Between (St 347)" "hp_edge InName (St 348)"
  "hp_edge Between (St 349)" "hp_edge b (St 0)"
  by (simp_all add: hp_edge_def hp_tr_defs state_phase_def)

lemma hp_edge_0:
  "hp_edge Between (hp_case_1 relaxed c)" "hp_edge Between (hp_case_2 relaxed c)" "hp_edge Between (hp_case_3 relaxed c)"
  "hp_edge Between (hp_case_4 relaxed c)" "hp_edge Between (hp_case_5 relaxed c)" "hp_edge Between (hp_case_6 relaxed c)"
  "hp_edge Between (hp_case_7 relaxed c)" "hp_edge Between (hp_case_8 relaxed c)" "hp_edge Between (hp_case_9 relaxed c)"
  "hp_edge Between (hp_case_10 relaxed c)" "hp_edge Between (hp_case_11 relaxed c)" "hp_edge Between (hp_case_12 relaxed c)"
  "hp_edge Between (hp_case_13 relaxed c)" "hp_edge InName (hp_case_14 relaxed c)" "hp_edge Between (hp_case_15 relaxed c)"
  "hp_edge Between (hp_case_16 relaxed c)" "hp_edge Between (hp_case_17 relaxed c)" "hp_edge InName (hp_case_18 relaxed c)"
  "hp_edge Between (hp_case_19 relaxed c)" "hp_edge Between (hp_case_20 relaxed c)" "hp_edge Between (hp_case_21 relaxed c)"
  "hp_edge Between (hp_case_22 relaxed c)" "hp_edge Between (hp_case_23 relaxed c)" "hp_edge Between (hp_case_24 relaxed c)"
  "hp_edge Between (hp_case_25 relaxed c)"
  by (simp_all only: hp_case_1_def hp_case_2_def hp_case_3_def hp_case_4_def hp_case_5_def hp_case_6_def
      hp_case_7_def hp_case_8_def hp_case_9_def hp_case_10_def hp_case_11_def hp_case_12_def
      hp_case_13_def hp_case_14_def hp_case_15_def hp_case_16_def hp_case_17_def hp_case_18_def
      hp_case_19_def hp_case_20_def hp_case_21_def hp_case_22_def hp_case_23_def hp_case_24_def
      hp_case_25_def
      hp_edge_if hp_edge_tr Let_def if_True if_False if_cancel simp_thms)

lemma hp_edge_1:
  "hp_edge Between (hp_case_26 relaxed c)" "hp_edge Between (hp_case_27 relaxed c)" "hp_edge Between (hp_case_28 relaxed c)"
  "hp_edge Between (hp_case_29 relaxed c)" "hp_edge InQuery (hp_case_30 relaxed c)" "hp_edge InQuery (hp_case_31 relaxed c)"
  "hp_edge InQuery (hp_case_32 relaxed c)" "hp_edge Between (hp_case_33 relaxed c)" "hp_edge Between (hp_case_34 relaxed c)"
  "hp_edge Between (hp_case_35 relaxed c)" "hp_edge Between (hp_case_36 relaxed c)" "hp_edge Between (hp_case_37 relaxed c)"
  "hp_edge Between (hp_case_38 relaxed c)" "hp_edge Between (hp_case_39 relaxed c)" "hp_edge Between (hp_case_40 relaxed c)"
  "hp_edge Between (hp_case_41 relaxed c)" "hp_edge Between (hp_case_42 relaxed c)" "hp_edge Between (hp_case_43 relaxed c)"
  "hp_edge Between (hp_case_44 relaxed c)" "hp_edge Between (hp_case_45 relaxed c)" "hp_edge Between (hp_case_46 relaxed c)"
  "hp_edge Between (hp_case_47 relaxed c)" "hp_edge Between (hp_case_48 relaxed c)" "hp_edge Between (hp_case_49 relaxed c)"
  "hp_edge Between (hp_case_50 relaxed c)"
  by (simp_all only: hp_case_26_def hp_case_27_def hp_case_28_def hp_case_29_def hp_case_30_def hp_case_31_def
      hp_case_32_def hp_case_33_def hp_case_34_def hp_case_35_def hp_case_36_def hp_case_37_def
      hp_case_38_def hp_case_39_def hp_case_40_def hp_case_41_def hp_case_42_def hp_case_43_def
      hp_case_44_def hp_case_45_def hp_case_46_def hp_case_47_def hp_case_48_def hp_case_49_def
      hp_case_50_def
      hp_edge_if hp_edge_tr Let_def if_True if_False if_cancel simp_thms)

lemma hp_edge_2:
  "hp_edge Between (hp_case_51 relaxed c)" "hp_edge Between (hp_case_52 relaxed c)" "hp_edge Between (hp_case_53 relaxed c)"
  "hp_edge Between (hp_case_54 relaxed c)" "hp_edge Between (hp_case_55 relaxed c)" "hp_edge Between (hp_case_56 relaxed c)"
  "hp_edge Between (hp_case_57 relaxed c)" "hp_edge Between (hp_case_58 relaxed c)" "hp_edge Between (hp_case_59 relaxed c)"
  "hp_edge Between (hp_case_60 relaxed c)" "hp_edge Between (hp_case_61 relaxed c)" "hp_edge Between (hp_case_62 relaxed c)"
  "hp_edge Between (hp_case_63 relaxed c)" "hp_edge Between (hp_case_64 relaxed c)" "hp_edge Between (hp_case_65 relaxed c)"
  "hp_edge Between (hp_case_66 relaxed c)" "hp_edge Between (hp_case_67 relaxed c)" "hp_edge Between (hp_case_68 relaxed c)"
  "hp_edge Between (hp_case_69 relaxed c)" "hp_edge Between (hp_case_70 relaxed c)" "hp_edge Between (hp_case_71 relaxed c)"
  "hp_edge Between (hp_case_72 relaxed c)" "hp_edge Between (hp_case_73 relaxed c)" "hp_edge Between (hp_case_74 relaxed c)"
  "hp_edge Between (hp_case_75 relaxed c)"
  by (simp_all only: hp_case_51_def hp_case_52_def hp_case_53_def hp_case_54_def hp_case_55_def hp_case_56_def
      hp_case_57_def hp_case_58_def hp_case_59_def hp_case_60_def hp_case_61_def hp_case_62_def
      hp_case_63_def hp_case_64_def hp_case_65_def hp_case_66_def hp_case_67_def hp_case_68_def
      hp_case_69_def hp_case_70_def hp_case_71_def hp_case_72_def hp_case_73_def hp_case_74_def
      hp_case_75_def
      hp_edge_if hp_edge_tr Let_def if_True if_False if_cancel simp_thms)

lemma hp_edge_3:
  "hp_edge Between (hp_case_76 relaxed c)" "hp_edge Between (hp_case_77 relaxed c)" "hp_edge Between (hp_case_78 relaxed c)"
  "hp_edge Between (hp_case_79 relaxed c)" "hp_edge Between (hp_case_80 relaxed c)" "hp_edge Between (hp_case_81 relaxed c)"
  "hp_edge Between (hp_case_82 relaxed c)" "hp_edge Between (hp_case_83 relaxed c)" "hp_edge Between (hp_case_84 relaxed c)"
  "hp_edge Between (hp_case_85 relaxed c)" "hp_edge Between (hp_case_86 relaxed c)" "hp_edge Between (hp_case_87 relaxed c)"
  "hp_edge Between (hp_case_88 relaxed c)" "hp_edge Between (hp_case_89 relaxed c)" "hp_edge Between (hp_case_90 relaxed c)"
  "hp_edge Between (hp_case_91 relaxed c)" "hp_edge Between (hp_case_92 relaxed c)" "hp_edge Between (hp_case_93 relaxed c)"
  "hp_edge Between (hp_case_94 relaxed c)" "hp_edge Between (hp_case_95 relaxed c)" "hp_edge Between (hp_case_96 relaxed c)"
  "hp_edge Between (hp_case_97 relaxed c)" "hp_edge Between (hp_case_98 relaxed c)" "hp_edge Between (hp_case_99 relaxed c)"
  "hp_edge Between (hp_case_100 relaxed c)"
  by (simp_all only: hp_case_76_def hp_case_77_def hp_case_78_def hp_case_79_def hp_case_80_def hp_case_81_def
      hp_case_82_def hp_case_83_def hp_case_84_def hp_case_85_def hp_case_86_def hp_case_87_def
      hp_case_88_def hp_case_89_def hp_case_90_def hp_case_91_def hp_case_92_def hp_case_93_def
      hp_case_94_def hp_case_95_def hp_case_96_def hp_case_97_def hp_case_98_def hp_case_99_def
      hp_case_100_def
      hp_edge_if hp_edge_tr Let_def if_True if_False if_cancel simp_thms)

lemma hp_edge_4:
  "hp_edge Between (hp_case_101 relaxed c)" "hp_edge Between (hp_case_102 relaxed c)" "hp_edge Between (hp_case_103 relaxed c)"
  "hp_edge Between (hp_case_104 relaxed c)" "hp_edge Between (hp_case_105 relaxed c)" "hp_edge Between (hp_case_106 relaxed c)"
  "hp_edge Between (hp_case_107 relaxed c)" "hp_edge Between (hp_case_108 relaxed c)" "hp_edge Between (hp_case_109 relaxed c)"
  "hp_edge Between (hp_case_110 relaxed c)" "hp_edge Between (hp_case_111 relaxed c)" "hp_edge Between (hp_case_112 relaxed c)"
  "hp_edge Between (hp_case_113 relaxed c)" "hp_edge Between (hp_case_114 relaxed c)" "hp_edge Between (hp_case_115 relaxed c)"
  "hp_edge Between (hp_case_116 relaxed c)" "hp_edge Between (hp_case_117 relaxed c)" "hp_edge Between (hp_case_118 relaxed c)"
  "hp_edge Between (hp_case_119 relaxed c)" "hp_edge Between (hp_case_120 relaxed c)" "hp_edge Between (hp_case_121 relaxed c)"
  "hp_edge Between (hp_case_122 relaxed c)" "hp_edge Between (hp_case_123 relaxed c)" "hp_edge Between (hp_case_124 relaxed c)"
  "hp_edge Between (hp_case_125 relaxed c)"
  by (simp_all only: hp_case_101_def hp_case_102_def hp_case_103_def hp_case_104_def hp_case_105_def hp_case_106_def
      hp_case_107_def hp_case_108_def hp_case_109_def hp_case_110_def hp_case_111_def hp_case_112_def
      hp_case_113_def hp_case_114_def hp_case_115_def hp_case_116_def hp_case_117_def hp_case_118_def
      hp_case_119_def hp_case_120_def hp_case_121_def hp_case_122_def hp_case_123_def hp_case_124_def
      hp_case_125_def
      hp_edge_if hp_edge_tr Let_def if_True if_False if_cancel simp_thms)

lemma hp_edge_5:
  "hp_edge Between (hp_case_126 relaxed c)" "hp_edge Between (hp_case_127 relaxed c)" "hp_edge Between (hp_case_128 relaxed c)"
  "hp_edge Between (hp_case_129 relaxed c)" "hp_edge Between (hp_case_130 relaxed c)" "hp_edge Between (hp_case_131 relaxed c)"
  "hp_edge Between (hp_case_132 relaxed c)" "hp_edge Between (hp_case_133 relaxed c)" "hp_edge Between (hp_case_134 relaxed c)"
  "hp_edge Between (hp_case_135 relaxed c)" "hp_edge Between (hp_case_136 relaxed c)" "hp_edge Between (hp_case_137 relaxed c)"
  "hp_edge Between (hp_case_138 relaxed c)" "hp_edge Between (hp_case_139 relaxed c)" "hp_edge Between (hp_case_140 relaxed c)"
  "hp_edge Between (hp_case_141 relaxed c)" "hp_edge Between (hp_case_142 relaxed c)" "hp_edge Between (hp_case_143 relaxed c)"
  "hp_edge Between (hp_case_144 relaxed c)" "hp_edge Between (hp_case_145 relaxed c)" "hp_edge Between (hp_case_146 relaxed c)"
  "hp_edge Between (hp_case_147 relaxed c)" "hp_edge Between (hp_case_148 relaxed c)" "hp_edge Between (hp_case_149 relaxed c)"
  "hp_edge Between (hp_case_150 relaxed c)"
  by (simp_all only: hp_case_126_def hp_case_127_def hp_case_128_def hp_case_129_def hp_case_130_def hp_case_131_def
      hp_case_132_def hp_case_133_def hp_case_134_def hp_case_135_def hp_case_136_def hp_case_137_def
      hp_case_138_def hp_case_139_def hp_case_140_def hp_case_141_def hp_case_142_def hp_case_143_def
      hp_case_144_def hp_case_145_def hp_case_146_def hp_case_147_def hp_case_148_def hp_case_149_def
      hp_case_150_def
      hp_edge_if hp_edge_tr Let_def if_True if_False if_cancel simp_thms)

lemma hp_edge_6:
  "hp_edge Between (hp_case_151 relaxed c)" "hp_edge Between (hp_case_152 relaxed c)" "hp_edge Between (hp_case_153 relaxed c)"
  "hp_edge Between (hp_case_154 relaxed c)" "hp_edge Between (hp_case_155 relaxed c)" "hp_edge Between (hp_case_156 relaxed c)"
  "hp_edge Between (hp_case_157 relaxed c)" "hp_edge Between (hp_case_158 relaxed c)" "hp_edge Between (hp_case_159 relaxed c)"
  "hp_edge Between (hp_case_160 relaxed c)" "hp_edge Between (hp_case_161 relaxed c)" "hp_edge Between (hp_case_162 relaxed c)"
  "hp_edge Between (hp_case_163 relaxed c)" "hp_edge Between (hp_case_164 relaxed c)" "hp_edge Between (hp_case_165 relaxed c)"
  "hp_edge Between (hp_case_166 relaxed c)" "hp_edge Between (hp_case_167 relaxed c)" "hp_edge Between (hp_case_168 relaxed c)"
  "hp_edge Between (hp_case_169 relaxed c)" "hp_edge Between (hp_case_170 relaxed c)" "hp_edge Between (hp_case_171 relaxed c)"
  "hp_edge Between (hp_case_172 relaxed c)" "hp_edge Between (hp_case_173 relaxed c)" "hp_edge Between (hp_case_174 relaxed c)"
  "hp_edge Between (hp_case_175 relaxed c)"
  by (simp_all only: hp_case_151_def hp_case_152_def hp_case_153_def hp_case_154_def hp_case_155_def hp_case_156_def
      hp_case_157_def hp_case_158_def hp_case_159_def hp_case_160_def hp_case_161_def hp_case_162_def
      hp_case_163_def hp_case_164_def hp_case_165_def hp_case_166_def hp_case_167_def hp_case_168_def
      hp_case_169_def hp_case_170_def hp_case_171_def hp_case_172_def hp_case_173_def hp_case_174_def
      hp_case_175_def
      hp_edge_if hp_edge_tr Let_def if_True if_False if_cancel simp_thms)

lemma hp_edge_7:
  "hp_edge Between (hp_case_176 relaxed c)" "hp_edge Between (hp_case_177 relaxed c)" "hp_edge Between (hp_case_178 relaxed c)"
  "hp_edge Between (hp_case_179 relaxed c)" "hp_edge Between (hp_case_180 relaxed c)" "hp_edge Between (hp_case_181 relaxed c)"
  "hp_edge Between (hp_case_182 relaxed c)" "hp_edge Between (hp_case_183 relaxed c)" "hp_edge Between (hp_case_184 relaxed c)"
  "hp_edge Between (hp_case_185 relaxed c)" "hp_edge Between (hp_case_186 relaxed c)" "hp_edge Between (hp_case_187 relaxed c)"
  "hp_edge Between (hp_case_188 relaxed c)" "hp_edge Between (hp_case_189 relaxed c)" "hp_edge Between (hp_case_190 relaxed c)"
  "hp_edge Between (hp_case_191 relaxed c)" "hp_edge Between (hp_case_192 relaxed c)" "hp_edge Between (hp_case_193 relaxed c)"
  "hp_edge Between (hp_case_194 relaxed c)" "hp_edge Between (hp_case_195 relaxed c)" "hp_edge Between (hp_case_196 relaxed c)"
  "hp_edge Between (hp_case_197 relaxed c)" "hp_edge Between (hp_case_198 relaxed c)" "hp_edge Between (hp_case_199 relaxed c)"
  "hp_edge Between (hp_case_200 relaxed c)"
  by (simp_all only: hp_case_176_def hp_case_177_def hp_case_178_def hp_case_179_def hp_case_180_def hp_case_181_def
      hp_case_182_def hp_case_183_def hp_case_184_def hp_case_185_def hp_case_186_def hp_case_187_def
      hp_case_188_def hp_case_189_def hp_case_190_def hp_case_191_def hp_case_192_def hp_case_193_def
      hp_case_194_def hp_case_195_def hp_case_196_def hp_case_197_def hp_case_198_def hp_case_199_def
      hp_case_200_def
      hp_edge_if hp_edge_tr Let_def if_True if_False if_cancel simp_thms)

lemma hp_edge_8:
  "hp_edge Between (hp_case_201 relaxed c)" "hp_edge Between (hp_case_202 relaxed c)" "hp_edge Between (hp_case_203 relaxed c)"
  "hp_edge Between (hp_case_204 relaxed c)" "hp_edge Between (hp_case_205 relaxed c)" "hp_edge Between (hp_case_206 relaxed c)"
  "hp_edge Between (hp_case_207 relaxed c)" "hp_edge Between (hp_case_208 relaxed c)" "hp_edge Between (hp_case_209 relaxed c)"
  "hp_edge Between (hp_case_210 relaxed c)" "hp_edge Between (hp_case_211 relaxed c)" "hp_edge Between (hp_case_212 relaxed c)"
  "hp_edge Between (hp_case_213 relaxed c)" "hp_edge Between (hp_case_214 relaxed c)" "hp_edge Between (hp_case_215 relaxed c)"
  "hp_edge Between (hp_case_216 relaxed c)" "hp_edge Between (hp_case_217 relaxed c)" "hp_edge Between (hp_case_218 relaxed c)"
  "hp_edge Between (hp_case_219 relaxed c)" "hp_edge Between (hp_case_220 relaxed c)" "hp_edge Between (hp_case_221 relaxed c)"
  "hp_edge Between (hp_case_222 relaxed c)" "hp_edge Between (hp_case_223 relaxed c)" "hp_edge Between (hp_case_224 relaxed c)"
  "hp_edge Between (hp_case_225 relaxed c)"
  by (simp_all only: hp_case_201_def hp_case_202_def hp_case_203_def hp_case_204_def hp_case_205_def hp_case_206_def
      hp_case_207_def hp_case_208_def hp_case_209_def hp_case_210_def hp_case_211_def hp_case_212_def
      hp_case_213_def hp_case_214_def hp_case_215_def hp_case_216_def hp_case_217_def hp_case_218_def
      hp_case_219_def hp_case_220_def hp_case_221_def hp_case_222_def hp_case_223_def hp_case_224_def
      hp_case_225_def
      hp_edge_if hp_edge_tr Let_def if_True if_False if_cancel simp_thms)

lemma hp_edge_9:
  "hp_edge Between (hp_case_226 relaxed c)" "hp_edge Between (hp_case_227 relaxed c)" "hp_edge Between (hp_case_228 relaxed c)"
  "hp_edge Between (hp_case_229 relaxed c)" "hp_edge Between (hp_case_230 relaxed c)" "hp_edge Between (hp_case_231 relaxed c)"
  "hp_edge Between (hp_case_232 relaxed c)" "hp_edge Between (hp_case_233 relaxed c)" "hp_edge Between (hp_case_234 relaxed c)"
  "hp_edge Between (hp_case_235 relaxed c)" "hp_edge Between (hp_case_236 relaxed c)" "hp_edge Between (hp_case_237 relaxed c)"
  "hp_edge Between (hp_case_238 relaxed c)" "hp_edge Between (hp_case_239 relaxed c)" "hp_edge Between (hp_case_240 relaxed c)"
  "hp_edge Between (hp_case_241 relaxed c)" "hp_edge Between (hp_case_242 relaxed c)" "hp_edge Between (hp_case_243 relaxed c)"
  "hp_edge Between (hp_case_244 relaxed c)" "hp_edge Between (hp_case_245 relaxed c)" "hp_edge Between (hp_case_246 relaxed c)"
  "hp_edge Between (hp_case_247 relaxed c)" "hp_edge Between (hp_case_248 relaxed c)" "hp_edge Between (hp_case_249 relaxed c)"
  "hp_edge Between (hp_case_250 relaxed c)"
  by (simp_all only: hp_case_226_def hp_case_227_def hp_case_228_def hp_case_229_def hp_case_230_def hp_case_231_def
      hp_case_232_def hp_case_233_def hp_case_234_def hp_case_235_def hp_case_236_def hp_case_237_def
      hp_case_238_def hp_case_239_def hp_case_240_def hp_case_241_def hp_case_242_def hp_case_243_def
      hp_case_244_def hp_case_245_def hp_case_246_def hp_case_247_def hp_case_248_def hp_case_249_def
      hp_case_250_def
      hp_edge_if hp_edge_tr Let_def if_True if_False if_cancel simp_thms)

lemma hp_edge_10:
  "hp_edge Between (hp_case_251 relaxed c)" "hp_edge Between (hp_case_252 relaxed c)" "hp_edge Between (hp_case_253 relaxed c)"
  "hp_edge Between (hp_case_254 relaxed c)" "hp_edge Between (hp_case_255 relaxed c)" "hp_edge Between (hp_case_256 relaxed c)"
  "hp_edge Between (hp_case_257 relaxed c)" "hp_edge Between (hp_case_258 relaxed c)" "hp_edge Between (hp_case_259 relaxed c)"
  "hp_edge Between (hp_case_260 relaxed c)" "hp_edge Between (hp_case_261 relaxed c)" "hp_edge Between (hp_case_262 relaxed c)"
  "hp_edge Between (hp_case_263 relaxed c)" "hp_edge Between (hp_case_264 relaxed c)" "hp_edge Between (hp_case_265 relaxed c)"
  "hp_edge Between (hp_case_266 relaxed c)" "hp_edge Between (hp_case_267 relaxed c)" "hp_edge Between (hp_case_268 relaxed c)"
  "hp_edge Between (hp_case_269 relaxed c)" "hp_edge Between (hp_case_270 relaxed c)" "hp_edge Between (hp_case_271 relaxed c)"
  "hp_edge Between (hp_case_272 relaxed c)" "hp_edge Between (hp_case_273 relaxed c)" "hp_edge Between (hp_case_274 relaxed c)"
  "hp_edge Between (hp_case_275 relaxed c)"
  by (simp_all only: hp_case_251_def hp_case_252_def hp_case_253_def hp_case_254_def hp_case_255_def hp_case_256_def
      hp_case_257_def hp_case_258_def hp_case_259_def hp_case_260_def hp_case_261_def hp_case_262_def
      hp_case_263_def hp_case_264_def hp_case_265_def hp_case_266_def hp_case_267_def hp_case_268_def
      hp_case_269_def hp_case_270_def hp_case_271_def hp_case_272_def hp_case_273_def hp_case_274_def
      hp_case_275_def
      hp_edge_if hp_edge_tr Let_def if_True if_False if_cancel simp_thms)

lemma hp_edge_11:
  "hp_edge Between (hp_case_276 relaxed c)" "hp_edge Between (hp_case_277 relaxed c)" "hp_edge Between (hp_case_278 relaxed c)"
  "hp_edge Between (hp_case_279 relaxed c)" "hp_edge Between (hp_case_280 relaxed c)" "hp_edge Between (hp_case_281 relaxed c)"
  "hp_edge Between (hp_case_282 relaxed c)" "hp_edge Between (hp_case_283 relaxed c)" "hp_edge Between (hp_case_284 relaxed c)"
  "hp_edge Between (hp_case_285 relaxed c)" "hp_edge Between (hp_case_286 relaxed c)" "hp_edge Between (hp_case_287 relaxed c)"
  "hp_edge Between (hp_case_288 relaxed c)" "hp_edge Between (hp_case_289 relaxed c)" "hp_edge Between (hp_case_290 relaxed c)"
  "hp_edge Between (hp_case_291 relaxed c)" "hp_edge Between (hp_case_292 relaxed c)" "hp_edge Between (hp_case_293 relaxed c)"
  "hp_edge Between (hp_case_294 relaxed c)" "hp_edge Between (hp_case_295 relaxed c)" "hp_edge Between (hp_case_296 relaxed c)"
  "hp_edge Between (hp_case_297 relaxed c)" "hp_edge Between (hp_case_298 relaxed c)" "hp_edge Between (hp_case_299 relaxed c)"
  "hp_edge Between (hp_case_300 relaxed c)"
  by (simp_all only: hp_case_276_def hp_case_277_def hp_case_278_def hp_case_279_def hp_case_280_def hp_case_281_def
      hp_case_282_def hp_case_283_def hp_case_284_def hp_case_285_def hp_case_286_def hp_case_287_def
      hp_case_288_def hp_case_289_def hp_case_290_def hp_case_291_def hp_case_292_def hp_case_293_def
      hp_case_294_def hp_case_295_def hp_case_296_def hp_case_297_def hp_case_298_def hp_case_299_def
      hp_case_300_def
      hp_edge_if hp_edge_tr Let_def if_True if_False if_cancel simp_thms)

lemma hp_edge_12:
  "hp_edge Between (hp_case_301 relaxed c)" "hp_edge Between (hp_case_302 relaxed c)" "hp_edge Between (hp_case_303 relaxed c)"
  "hp_edge Between (hp_case_304 relaxed c)" "hp_edge Between (hp_case_305 relaxed c)" "hp_edge Between (hp_case_306 relaxed c)"
  "hp_edge Between (hp_case_307 relaxed c)" "hp_edge Between (hp_case_308 relaxed c)" "hp_edge Between (hp_case_309 relaxed c)"
  "hp_edge Between (hp_case_310 relaxed c)" "hp_edge Between (hp_case_311 relaxed c)" "hp_edge Between (hp_case_312 relaxed c)"
  "hp_edge Between (hp_case_313 relaxed c)" "hp_edge Between (hp_case_314 relaxed c)" "hp_edge Between (hp_case_315 relaxed c)"
  "hp_edge Between (hp_case_316 relaxed c)" "hp_edge Between (hp_case_317 relaxed c)" "hp_edge Between (hp_case_318 relaxed c)"
  "hp_edge Between (hp_case_319 relaxed c)" "hp_edge Between (hp_case_320 relaxed c)" "hp_edge Between (hp_case_321 relaxed c)"
  "hp_edge Between (hp_case_322 relaxed c)" "hp_edge Between (hp_case_323 relaxed c)" "hp_edge Between (hp_case_324 relaxed c)"
  "hp_edge Between (hp_case_325 relaxed c)"
  by (simp_all only: hp_case_301_def hp_case_302_def hp_case_303_def hp_case_304_def hp_case_305_def hp_case_306_def
      hp_case_307_def hp_case_308_def hp_case_309_def hp_case_310_def hp_case_311_def hp_case_312_def
      hp_case_313_def hp_case_314_def hp_case_315_def hp_case_316_def hp_case_317_def hp_case_318_def
      hp_case_319_def hp_case_320_def hp_case_321_def hp_case_322_def hp_case_323_def hp_case_324_def
      hp_case_325_def
      hp_edge_if hp_edge_tr Let_def if_True if_False if_cancel simp_thms)

lemma hp_edge_13:
  "hp_edge Between (hp_case_326 relaxed c)" "hp_edge Between (hp_case_327 relaxed c)" "hp_edge Between (hp_case_328 relaxed c)"
  "hp_edge Between (hp_case_329 relaxed c)" "hp_edge Between (hp_case_330 relaxed c)" "hp_edge Between (hp_case_331 relaxed c)"
  "hp_edge Between (hp_case_332 relaxed c)" "hp_edge Between (hp_case_333 relaxed c)" "hp_edge Between (hp_case_334 relaxed c)"
  "hp_edge Between (hp_case_335 relaxed c)" "hp_edge Between (hp_case_336 relaxed c)" "hp_edge Between (hp_case_337 relaxed c)"
  "hp_edge Between (hp_case_338 relaxed c)" "hp_edge Between (hp_case_339 relaxed c)" "hp_edge Between (hp_case_340 relaxed c)"
  "hp_edge Between (hp_case_341 relaxed c)" "hp_edge Between (hp_case_342 relaxed c)" "hp_edge Between (hp_case_343 relaxed c)"
  "hp_edge Between (hp_case_344 relaxed c)" "hp_edge Between (hp_case_345 relaxed c)" "hp_edge Between (hp_case_346 relaxed c)"
  "hp_edge Between (hp_case_347 relaxed c)" "hp_edge InName (hp_case_348 relaxed c)" "hp_edge Between (hp_case_349 relaxed c)"
  by (simp_all only: hp_case_326_def hp_case_327_def hp_case_328_def hp_case_329_def hp_case_330_def hp_case_331_def
      hp_case_332_def hp_case_333_def hp_case_334_def hp_case_335_def hp_case_336_def hp_case_337_def
      hp_case_338_def hp_case_339_def hp_case_340_def hp_case_341_def hp_case_342_def hp_case_343_def
      hp_case_344_def hp_case_345_def hp_case_346_def hp_case_347_def hp_case_348_def hp_case_349_def
      hp_edge_if hp_edge_tr Let_def if_True if_False if_cancel simp_thms)

lemmas hp_edges = hp_edge_0 hp_edge_1 hp_edge_2 hp_edge_3 hp_edge_4 hp_edge_5 hp_edge_6 hp_edge_7 hp_edge_8 hp_edge_9 hp_edge_10 hp_edge_11 hp_edge_12 hp_edge_13

lemma hp_edge_ifI: "(x \<Longrightarrow> hp_edge b g) \<Longrightarrow> (\<not> x \<Longrightarrow> hp_edge b h) \<Longrightarrow> hp_edge b (if x then g else h)"
  by simp

lemma hp_edge_case: "hp_edge (state_phase n) (hp_case relaxed n c)"
proof (cases "state_phase n = Between")
  case False
  then have "n = 14 \<or> n = 18 \<or> n = 348 \<or> n = 30 \<or> n = 31 \<or> n = 32" by (auto simp: state_phase_def split: if_splits)
  then show ?thesis by (elim disjE) (simp_all add: state_phase_def hp_case_simps hp_edges)
next
  case True
  have "hp_edge Between (hp_case relaxed n c)"
    unfolding hp_case_def by (intro hp_edge_ifI; (rule hp_edges hp_edge_tr | use True in \<open>auto simp: state_phase_def split: if_splits\<close>))
  then show ?thesis using True by simp
qed

section \<open>The states of a request head\<close>

lemma hp_method_edges_0: "upper_digit c \<Longrightarrow> hp_case relaxed (Suc 0) c = Goto [HpMark] 2"
  unfolding upper_digit_def hp_case_simps hp_case_1_def hp_tr_defs Let_def by (elim disjE conjE; simp)

lemma hp_method_edges_1: "upper_digit c \<Longrightarrow> hp_case relaxed 2 c = St 175"
  unfolding upper_digit_def hp_case_simps hp_case_2_def hp_tr_defs Let_def by (elim disjE conjE; simp)

lemma hp_method_edges_2: "upper_digit c \<Longrightarrow> hp_case relaxed 175 c = St 176"
  unfolding upper_digit_def hp_case_simps hp_case_175_def hp_tr_defs Let_def by (elim disjE conjE; simp)

lemma hp_method_edges_3: "upper_digit c \<Longrightarrow> hp_case relaxed 176 c = St 177"
  unfolding upper_digit_def hp_case_simps hp_case_176_def hp_tr_defs Let_def by (elim disjE conjE; simp)

lemma hp_method_edges_4: "upper_digit c \<Longrightarrow> hp_case relaxed 177 c = St 178"
  unfolding upper_digit_def hp_case_simps hp_case_177_def hp_tr_defs Let_def by (elim disjE conjE; simp)

lemma hp_method_edges_5: "upper_digit c \<Longrightarrow> hp_case relaxed 178 c = St 179"
  unfolding upper_digit_def hp_case_simps hp_case_178_def hp_tr_defs Let_def by (elim disjE conjE; simp)

lemma hp_method_edges_6: "upper_digit c \<Longrightarrow> hp_case relaxed 179 c = St 180"
  unfolding upper_digit_def hp_case_simps hp_case_179_def hp_tr_defs Let_def by (elim disjE conjE; simp)

lemma hp_method_edges_7: "upper_digit c \<Longrightarrow> hp_case relaxed 180 c = St 181"
  unfolding upper_digit_def hp_case_simps hp_case_180_def hp_tr_defs Let_def by (elim disjE conjE; simp)

lemma hp_method_edges_8: "upper_digit c \<Longrightarrow> hp_case relaxed 181 c = St 182"
  unfolding upper_digit_def hp_case_simps hp_case_181_def hp_tr_defs Let_def by (elim disjE conjE; simp)

lemma hp_method_edges_9: "upper_digit c \<Longrightarrow> hp_case relaxed 182 c = St 183"
  unfolding upper_digit_def hp_case_simps hp_case_182_def hp_tr_defs Let_def by (elim disjE conjE; simp)

lemma hp_method_edges_10: "upper_digit c \<Longrightarrow> hp_case relaxed 183 c = St 184"
  unfolding upper_digit_def hp_case_simps hp_case_183_def hp_tr_defs Let_def by (elim disjE conjE; simp)

lemma hp_method_edges_11: "upper_digit c \<Longrightarrow> hp_case relaxed 184 c = St 185"
  unfolding upper_digit_def hp_case_simps hp_case_184_def hp_tr_defs Let_def by (elim disjE conjE; simp)

lemma hp_method_edges_12: "upper_digit c \<Longrightarrow> hp_case relaxed 185 c = St 186"
  unfolding upper_digit_def hp_case_simps hp_case_185_def hp_tr_defs Let_def by (elim disjE conjE; simp)

lemma hp_method_edges_13: "upper_digit c \<Longrightarrow> hp_case relaxed 186 c = St 187"
  unfolding upper_digit_def hp_case_simps hp_case_186_def hp_tr_defs Let_def by (elim disjE conjE; simp)

lemma hp_method_edges_14: "upper_digit c \<Longrightarrow> hp_case relaxed 187 c = St 188"
  unfolding upper_digit_def hp_case_simps hp_case_187_def hp_tr_defs Let_def by (elim disjE conjE; simp)

lemma hp_method_edges_15: "upper_digit c \<Longrightarrow> hp_case relaxed 188 c = St 189"
  unfolding upper_digit_def hp_case_simps hp_case_188_def hp_tr_defs Let_def by (elim disjE conjE; simp)

lemma hp_method_edges_16: "upper_digit c \<Longrightarrow> hp_case relaxed 189 c = St 190"
  unfolding upper_digit_def hp_case_simps hp_case_189_def hp_tr_defs Let_def by (elim disjE conjE; simp)

lemma hp_method_edges_17: "upper_digit c \<Longrightarrow> hp_case relaxed 190 c = St 191"
  unfolding upper_digit_def hp_case_simps hp_case_190_def hp_tr_defs Let_def by (elim disjE conjE; simp)

lemma hp_method_edges_18: "upper_digit c \<Longrightarrow> hp_case relaxed 191 c = St 192"
  unfolding upper_digit_def hp_case_simps hp_case_191_def hp_tr_defs Let_def by (elim disjE conjE; simp)

lemma hp_method_edges_19: "upper_digit c \<Longrightarrow> hp_case relaxed 192 c = St 193"
  unfolding upper_digit_def hp_case_simps hp_case_192_def hp_tr_defs Let_def by (elim disjE conjE; simp)

lemma hp_method_edges_20: "hp_case relaxed 2 32 = Goto [HpRequestMethodAct] 3"
  by (simp add: hp_case_simps hp_case_2_def hp_tr_defs)

lemma hp_method_edges_21: "hp_case relaxed 175 32 = Goto [HpRequestMethodAct] 3"
  by (simp add: hp_case_simps hp_case_175_def hp_tr_defs)

lemma hp_method_edges_22: "hp_case relaxed 176 32 = Goto [HpRequestMethodAct] 3"
  by (simp add: hp_case_simps hp_case_176_def hp_tr_defs)

lemma hp_method_edges_23: "hp_case relaxed 177 32 = Goto [HpRequestMethodAct] 3"
  by (simp add: hp_case_simps hp_case_177_def hp_tr_defs)

lemma hp_method_edges_24: "hp_case relaxed 178 32 = Goto [HpRequestMethodAct] 3"
  by (simp add: hp_case_simps hp_case_178_def hp_tr_defs)

lemma hp_method_edges_25: "hp_case relaxed 179 32 = Goto [HpRequestMethodAct] 3"
  by (simp add: hp_case_simps hp_case_179_def hp_tr_defs)

lemma hp_method_edges_26: "hp_case relaxed 180 32 = Goto [HpRequestMethodAct] 3"
  by (simp add: hp_case_simps hp_case_180_def hp_tr_defs)

lemma hp_method_edges_27: "hp_case relaxed 181 32 = Goto [HpRequestMethodAct] 3"
  by (simp add: hp_case_simps hp_case_181_def hp_tr_defs)

lemma hp_method_edges_28: "hp_case relaxed 182 32 = Goto [HpRequestMethodAct] 3"
  by (simp add: hp_case_simps hp_case_182_def hp_tr_defs)

lemma hp_method_edges_29: "hp_case relaxed 183 32 = Goto [HpRequestMethodAct] 3"
  by (simp add: hp_case_simps hp_case_183_def hp_tr_defs)

lemma hp_method_edges_30: "hp_case relaxed 184 32 = Goto [HpRequestMethodAct] 3"
  by (simp add: hp_case_simps hp_case_184_def hp_tr_defs)

lemma hp_method_edges_31: "hp_case relaxed 185 32 = Goto [HpRequestMethodAct] 3"
  by (simp add: hp_case_simps hp_case_185_def hp_tr_defs)

lemma hp_method_edges_32: "hp_case relaxed 186 32 = Goto [HpRequestMethodAct] 3"
  by (simp add: hp_case_simps hp_case_186_def hp_tr_defs)

lemma hp_method_edges_33: "hp_case relaxed 187 32 = Goto [HpRequestMethodAct] 3"
  by (simp add: hp_case_simps hp_case_187_def hp_tr_defs)

lemma hp_method_edges_34: "hp_case relaxed 188 32 = Goto [HpRequestMethodAct] 3"
  by (simp add: hp_case_simps hp_case_188_def hp_tr_defs)

lemma hp_method_edges_35: "hp_case relaxed 189 32 = Goto [HpRequestMethodAct] 3"
  by (simp add: hp_case_simps hp_case_189_def hp_tr_defs)

lemma hp_method_edges_36: "hp_case relaxed 190 32 = Goto [HpRequestMethodAct] 3"
  by (simp add: hp_case_simps hp_case_190_def hp_tr_defs)

lemma hp_method_edges_37: "hp_case relaxed 191 32 = Goto [HpRequestMethodAct] 3"
  by (simp add: hp_case_simps hp_case_191_def hp_tr_defs)

lemma hp_method_edges_38: "hp_case relaxed 192 32 = Goto [HpRequestMethodAct] 3"
  by (simp add: hp_case_simps hp_case_192_def hp_tr_defs)

lemma hp_method_edges_39: "hp_case relaxed 193 32 = Goto [HpRequestMethodAct] 3"
  by (simp add: hp_case_simps hp_case_193_def hp_tr_defs)

lemmas hp_method_edges =
  hp_method_edges_0 hp_method_edges_1 hp_method_edges_2 hp_method_edges_3 hp_method_edges_4 hp_method_edges_5
  hp_method_edges_6 hp_method_edges_7 hp_method_edges_8 hp_method_edges_9 hp_method_edges_10 hp_method_edges_11
  hp_method_edges_12 hp_method_edges_13 hp_method_edges_14 hp_method_edges_15 hp_method_edges_16 hp_method_edges_17
  hp_method_edges_18 hp_method_edges_19 hp_method_edges_20 hp_method_edges_21 hp_method_edges_22 hp_method_edges_23
  hp_method_edges_24 hp_method_edges_25 hp_method_edges_26 hp_method_edges_27 hp_method_edges_28 hp_method_edges_29
  hp_method_edges_30 hp_method_edges_31 hp_method_edges_32 hp_method_edges_33 hp_method_edges_34 hp_method_edges_35
  hp_method_edges_36 hp_method_edges_37 hp_method_edges_38 hp_method_edges_39

lemma hp_path_edges_0: "hp_case relaxed 3 47 = Goto [HpMark] 33"
  by (simp add: hp_case_simps hp_case_3_def hp_tr_defs)

lemma hp_path_edges_1: "segment_char c \<Longrightarrow> hp_case relaxed 33 c = St 26"
  unfolding segment_char_def hp_case_simps hp_case_33_def hp_tr_defs Let_def by (elim disjE conjE; simp)

lemma hp_path_edges_2: "hp_case relaxed 33 37 = St 27"
  by (simp add: hp_case_simps hp_case_33_def hp_tr_defs)

lemma hp_path_edges_3: "hp_case relaxed 26 37 = St 27"
  by (simp add: hp_case_simps hp_case_26_def hp_tr_defs)

lemma hp_path_edges_4: "path_char c \<Longrightarrow> hp_case relaxed 26 c = St 26"
  unfolding path_char_def hp_case_simps hp_case_26_def hp_tr_defs Let_def by (elim disjE conjE; simp)

lemma hp_path_edges_5: "xdigit c \<Longrightarrow> hp_case relaxed 27 c = St 28"
  unfolding xdigit_def hp_case_simps hp_case_27_def hp_tr_defs Let_def by (elim disjE conjE; simp)

lemma hp_path_edges_6: "xdigit c \<Longrightarrow> hp_case relaxed 28 c = St 26"
  unfolding xdigit_def hp_case_simps hp_case_28_def hp_tr_defs Let_def by (elim disjE conjE; simp)

lemma hp_path_edges_7: "hp_case relaxed 33 32 = Goto [HpRequestPathAct, HpRequestUriAct] 4"
  by (simp add: hp_case_simps hp_case_33_def hp_tr_defs)

lemma hp_path_edges_8: "hp_case relaxed 26 32 = Goto [HpRequestPathAct, HpRequestUriAct] 4"
  by (simp add: hp_case_simps hp_case_26_def hp_tr_defs)

lemma hp_path_edges_9: "hp_case relaxed 33 35 = Goto [HpRequestPathAct, HpRequestUriAct] 20"
  by (simp add: hp_case_simps hp_case_33_def hp_tr_defs)

lemma hp_path_edges_10: "hp_case relaxed 26 35 = Goto [HpRequestPathAct, HpRequestUriAct] 20"
  by (simp add: hp_case_simps hp_case_26_def hp_tr_defs)

lemma hp_path_edges_11: "hp_case relaxed 33 63 = Goto [HpRequestPathAct] 29"
  by (simp add: hp_case_simps hp_case_33_def hp_tr_defs)

lemma hp_path_edges_12: "hp_case relaxed 26 63 = Goto [HpRequestPathAct] 29"
  by (simp add: hp_case_simps hp_case_26_def hp_tr_defs)

lemmas hp_path_edges =
  hp_path_edges_0 hp_path_edges_1 hp_path_edges_2 hp_path_edges_3 hp_path_edges_4 hp_path_edges_5 hp_path_edges_6
  hp_path_edges_7 hp_path_edges_8 hp_path_edges_9 hp_path_edges_10 hp_path_edges_11 hp_path_edges_12

lemma hp_query_edges_0: "query_char c \<Longrightarrow> hp_case relaxed 29 c = Goto [HpStartQuery] 30"
  unfolding query_char_def hp_case_simps hp_case_29_def hp_tr_defs Let_def by (elim disjE conjE; simp)

lemma hp_query_edges_1: "query_char c \<Longrightarrow> hp_case relaxed 30 c = St 30"
  unfolding query_char_def hp_case_simps hp_case_30_def hp_tr_defs Let_def by (elim disjE conjE; simp)

lemma hp_query_edges_2: "hp_case relaxed 29 37 = Goto [HpStartQuery] 31"
  by (simp add: hp_case_simps hp_case_29_def hp_tr_defs)

lemma hp_query_edges_3: "hp_case relaxed 30 37 = St 31"
  by (simp add: hp_case_simps hp_case_30_def hp_tr_defs)

lemma hp_query_edges_4: "xdigit c \<Longrightarrow> hp_case relaxed 31 c = St 32"
  unfolding xdigit_def hp_case_simps hp_case_31_def hp_tr_defs Let_def by (elim disjE conjE; simp)

lemma hp_query_edges_5: "xdigit c \<Longrightarrow> hp_case relaxed 32 c = St 30"
  unfolding xdigit_def hp_case_simps hp_case_32_def hp_tr_defs Let_def by (elim disjE conjE; simp)

lemma hp_query_edges_6: "hp_case relaxed 30 32 = Goto [HpQueryStringAct, HpRequestUriAct] 4"
  by (simp add: hp_case_simps hp_case_30_def hp_tr_defs)

lemma hp_query_edges_7: "hp_case relaxed 30 35 = Goto [HpQueryStringAct, HpRequestUriAct] 20"
  by (simp add: hp_case_simps hp_case_30_def hp_tr_defs)

lemmas hp_query_edges =
  hp_query_edges_0 hp_query_edges_1 hp_query_edges_2 hp_query_edges_3 hp_query_edges_4 hp_query_edges_5
  hp_query_edges_6 hp_query_edges_7

lemma hp_fragment_edges_0: "query_char c \<Longrightarrow> hp_case relaxed 20 c = Goto [HpMark] 21"
  unfolding query_char_def hp_case_simps hp_case_20_def hp_tr_defs Let_def by (elim disjE conjE; simp)

lemma hp_fragment_edges_1: "query_char c \<Longrightarrow> hp_case relaxed 21 c = St 21"
  unfolding query_char_def hp_case_simps hp_case_21_def hp_tr_defs Let_def by (elim disjE conjE; simp)

lemma hp_fragment_edges_2: "hp_case relaxed 20 37 = Goto [HpMark] 22"
  by (simp add: hp_case_simps hp_case_20_def hp_tr_defs)

lemma hp_fragment_edges_3: "hp_case relaxed 21 37 = St 22"
  by (simp add: hp_case_simps hp_case_21_def hp_tr_defs)

lemma hp_fragment_edges_4: "xdigit c \<Longrightarrow> hp_case relaxed 22 c = St 23"
  unfolding xdigit_def hp_case_simps hp_case_22_def hp_tr_defs Let_def by (elim disjE conjE; simp)

lemma hp_fragment_edges_5: "xdigit c \<Longrightarrow> hp_case relaxed 23 c = St 21"
  unfolding xdigit_def hp_case_simps hp_case_23_def hp_tr_defs Let_def by (elim disjE conjE; simp)

lemma hp_fragment_edges_6: "hp_case relaxed 21 32 = Goto [HpFragmentAct] 4"
  by (simp add: hp_case_simps hp_case_21_def hp_tr_defs)

lemmas hp_fragment_edges =
  hp_fragment_edges_0 hp_fragment_edges_1 hp_fragment_edges_2 hp_fragment_edges_3 hp_fragment_edges_4
  hp_fragment_edges_5 hp_fragment_edges_6

lemma hp_version_edges_0: "hp_case relaxed 4 72 = Goto [HpMark] 5"
  by (simp add: hp_case_simps hp_case_4_def hp_tr_defs)

lemma hp_version_edges_1: "hp_case relaxed 5 84 = St 6"
  by (simp add: hp_case_simps hp_case_5_def hp_tr_defs)

lemma hp_version_edges_2: "hp_case relaxed 6 84 = St 7"
  by (simp add: hp_case_simps hp_case_6_def hp_tr_defs)

lemma hp_version_edges_3: "hp_case relaxed 7 80 = St 8"
  by (simp add: hp_case_simps hp_case_7_def hp_tr_defs)

lemma hp_version_edges_4: "hp_case relaxed 8 47 = St 9"
  by (simp add: hp_case_simps hp_case_8_def hp_tr_defs)

lemma hp_version_edges_5: "hp_case relaxed 9 49 = St 10"
  by (simp add: hp_case_simps hp_case_9_def hp_tr_defs)

lemma hp_version_edges_6: "hp_case relaxed 11 49 = St 12"
  by (simp add: hp_case_simps hp_case_11_def hp_tr_defs)

lemma hp_version_edges_7: "hp_case relaxed 10 46 = St 11"
  by (simp add: hp_case_simps hp_case_10_def hp_tr_defs)

lemma hp_version_edges_8: "hp_case relaxed 11 48 = St 12"
  by (simp add: hp_case_simps hp_case_11_def hp_tr_defs)

lemma hp_version_edges_9: "hp_case relaxed 12 13 = Goto [HpHttpVersionAct] 17"
  by (simp add: hp_case_simps hp_case_12_def hp_tr_defs)

lemma hp_version_edges_10: "hp_case relaxed 17 10 = St 13"
  by (simp add: hp_case_simps hp_case_17_def hp_tr_defs)

lemmas hp_version_edges =
  hp_version_edges_0 hp_version_edges_1 hp_version_edges_2 hp_version_edges_3 hp_version_edges_4 hp_version_edges_5
  hp_version_edges_6 hp_version_edges_7 hp_version_edges_8 hp_version_edges_9 hp_version_edges_10

lemma hp_field_edges_0: "token c \<Longrightarrow> hp_case relaxed 13 c = Goto [HpStartField] 14"
  unfolding token_def hp_case_simps hp_case_13_def hp_tr_defs Let_def by (elim disjE conjE; simp)

lemma hp_field_edges_1: "token c \<Longrightarrow> hp_case relaxed 14 c = St 14"
  unfolding token_def hp_case_simps hp_case_14_def hp_tr_defs Let_def by (elim disjE conjE; simp)

lemma hp_field_edges_2: "hp_case relaxed 14 58 = Goto [HpWriteField] 15"
  by (simp add: hp_case_simps hp_case_14_def hp_tr_defs)

lemma hp_field_edges_3: "hp_case relaxed 15 32 = Goto [HpStartValue] 15"
  by (simp add: hp_case_simps hp_case_15_def hp_tr_defs)

lemma hp_field_edges_4: "visible_char c \<Longrightarrow> hp_case relaxed 15 c = Goto [HpStartValue] 16"
  unfolding visible_char_def hp_case_simps hp_case_15_def hp_tr_defs Let_def by (elim disjE conjE; simp)

lemma hp_field_edges_5: "content_char c \<Longrightarrow> hp_case relaxed 16 c = St 16"
  unfolding content_char_def hp_case_simps hp_case_16_def hp_tr_defs Let_def by (elim disjE conjE; simp)

lemma hp_field_edges_6: "hp_case relaxed 16 13 = Goto [HpWriteValue] 17"
  by (simp add: hp_case_simps hp_case_16_def hp_tr_defs)

lemma hp_field_edges_7: "hp_case relaxed 13 13 = Goto [HpStartField] 18"
  by (simp add: hp_case_simps hp_case_13_def hp_tr_defs)

lemma hp_field_edges_8: "hp_case relaxed 15 13 = Goto [HpStartValue, HpWriteValue] 17"
  by (simp add: hp_case_simps hp_case_15_def hp_tr_defs)

lemma hp_field_edges_9: "hp_case relaxed 18 10 = Goto [HpDone] 348"
  by (simp add: hp_case_simps hp_case_18_def hp_tr_defs)

lemmas hp_field_edges =
  hp_field_edges_0 hp_field_edges_1 hp_field_edges_2 hp_field_edges_3 hp_field_edges_4 hp_field_edges_5
  hp_field_edges_6 hp_field_edges_7 hp_field_edges_8 hp_field_edges_9

end
