(* ===== verification/Http11Parser.thy ===== *)
theory Http11Parser
  imports Http11Machine
begin

text \<open>
  \<^verbatim>\<open>src/cxk/http/http11_parser.rl.cpp\<close>: the parser object of HTTP requests, the actions its state machine runs, and
  \<^verbatim>\<open>http_parser_execute\<close>. All callbacks are set (\<open>HttpRequestParser\<close> sets them); a call is recorded as an event with its
  arguments: a pointer into the buffer is the text from there on. The callbacks do not touch the parser.
\<close>

datatype request_event =
    RequestMethod string nat
  | RequestUri string nat
  | Fragment string nat
  | QueryString string nat
  | RequestPath string nat
  | HttpVersion string nat
  | HeaderDone string nat
  | HttpField string nat string nat

record http_parser =
  hp_cs :: nat
  hp_body_start :: nat
  hp_content_len :: int
  hp_nread :: nat
  hp_mark :: nat
  hp_field_start :: nat
  hp_field_len :: nat
  hp_query_start :: nat
  hp_xml_sent :: bool
  hp_json_sent :: bool
  hp_uri_relaxed :: bool
  hp_events :: "request_event list"

text \<open>\<^verbatim>\<open>query_start\<close> and \<^verbatim>\<open>uri_relaxed\<close> keep the value they had.\<close>

definition http_parser_init :: "http_parser \<Rightarrow> http_parser" where
  "http_parser_init s =
     s\<lparr>hp_cs := 1, hp_body_start := 0, hp_content_len := 0, hp_mark := 0, hp_nread := 0, hp_field_len := 0, hp_field_start := 0,
       hp_xml_sent := False, hp_json_sent := False\<rparr>"

definition hp_call :: "request_event \<Rightarrow> http_parser \<Rightarrow> http_parser" where
  "hp_call e s = s\<lparr>hp_events := hp_events s @ [e]\<rparr>"

definition hp_done :: "string \<Rightarrow> nat \<Rightarrow> nat \<Rightarrow> http_parser \<Rightarrow> http_parser" where
  "hp_done buffer len fpc s =
     (if hp_xml_sent s \<or> hp_json_sent s then
        let s = s\<lparr>hp_body_start := hp_mark s\<rparr>
        in s\<lparr>hp_content_len := int fpc - int (hp_body_start s) + 1\<rparr>
      else hp_call (HeaderDone (drop (fpc + 1) buffer) (len - fpc - 1)) (s\<lparr>hp_body_start := fpc + 1\<rparr>))"

primrec hp_act :: "string \<Rightarrow> nat \<Rightarrow> hp_action \<Rightarrow> nat \<Rightarrow> http_parser \<Rightarrow> http_parser" where
  "hp_act buffer len HpMark fpc s = s\<lparr>hp_mark := fpc\<rparr>"
| "hp_act buffer len HpStartField fpc s = s\<lparr>hp_field_start := fpc\<rparr>"
| "hp_act buffer len HpWriteField fpc s = s\<lparr>hp_field_len := LEN (hp_field_start s) fpc\<rparr>"
| "hp_act buffer len HpStartValue fpc s = s\<lparr>hp_mark := fpc\<rparr>"
| "hp_act buffer len HpWriteValue fpc s =
     hp_call (HttpField (drop (hp_field_start s) buffer) (hp_field_len s) (drop (hp_mark s) buffer) (LEN (hp_mark s) fpc)) s"
| "hp_act buffer len HpRequestMethodAct fpc s = hp_call (RequestMethod (drop (hp_mark s) buffer) (LEN (hp_mark s) fpc)) s"
| "hp_act buffer len HpRequestUriAct fpc s = hp_call (RequestUri (drop (hp_mark s) buffer) (LEN (hp_mark s) fpc)) s"
| "hp_act buffer len HpFragmentAct fpc s = hp_call (Fragment (drop (hp_mark s) buffer) (LEN (hp_mark s) fpc)) s"
| "hp_act buffer len HpStartQuery fpc s = s\<lparr>hp_query_start := fpc\<rparr>"
| "hp_act buffer len HpQueryStringAct fpc s =
     hp_call (QueryString (drop (hp_query_start s) buffer) (LEN (hp_query_start s) fpc)) s"
| "hp_act buffer len HpHttpVersionAct fpc s = hp_call (HttpVersion (drop (hp_mark s) buffer) (LEN (hp_mark s) fpc)) s"
| "hp_act buffer len HpRequestPathAct fpc s = hp_call (RequestPath (drop (hp_mark s) buffer) (LEN (hp_mark s) fpc)) s"
| "hp_act buffer len HpDone fpc s = hp_done buffer len fpc s"
| "hp_act buffer len HpXml fpc s = s\<lparr>hp_xml_sent := True\<rparr>"
| "hp_act buffer len HpJson fpc s = s\<lparr>hp_json_sent := True\<rparr>"

definition hp_machine :: "string \<Rightarrow> nat \<Rightarrow> bool \<Rightarrow> (hp_action, http_parser) machine" where
  "hp_machine buffer len relaxed = \<lparr>ma_case = hp_case relaxed, ma_act = hp_act buffer len, ma_break = (\<lambda>a. a = HpDone)\<rparr>"

definition http_parser_has_error :: "http_parser \<Rightarrow> bool" where
  "http_parser_has_error s \<longleftrightarrow> hp_cs s = 0"

definition http_parser_is_finished :: "http_parser \<Rightarrow> bool" where
  "http_parser_is_finished s \<longleftrightarrow> 348 \<le> hp_cs s"

definition http_parser_finish :: "http_parser \<Rightarrow> int" where
  "http_parser_finish s = (if http_parser_has_error s then -1 else if http_parser_is_finished s then 1 else 0)"

text \<open>The assertion on the distance of the pointers is left out: it holds for every buffer of less than 2 GB.\<close>

definition http_parser_execute :: "string \<Rightarrow> nat \<Rightarrow> nat \<Rightarrow> http_parser \<Rightarrow> (http_parser, nat) outcome" where
  "http_parser_execute buffer len off s =
     (if len = 0 then Ret 0 s else
      let s = s\<lparr>hp_nread := 0, hp_mark := 0, hp_field_len := 0, hp_field_start := 0\<rparr> in
      CXK_ASSERT (off \<le> len) (
      if length buffer < len then Undef OutOfBounds else
      case ragel_loop (hp_machine buffer len (hp_uri_relaxed s)) (drop off (take len buffer)) off (hp_cs s) s of (p, cs, s) \<Rightarrow>
        CXK_ASSERT (p \<le> len) (
        let s = (if \<not> http_parser_has_error s then s\<lparr>hp_cs := cs\<rparr> else s);
            s = s\<lparr>hp_nread := hp_nread s + (p - off)\<rparr>
        in CXK_ASSERT (hp_nread s \<le> len) (CXK_ASSERT (hp_body_start s \<le> len) (CXK_ASSERT (hp_mark s < len) (
           CXK_ASSERT (hp_field_len s \<le> len) (CXK_ASSERT (hp_field_start s < len) (Ret (hp_nread s) s))))))))"

section \<open>Safety\<close>

primrec req_event_inside :: "string \<Rightarrow> nat \<Rightarrow> request_event \<Rightarrow> bool" where
  "req_event_inside buffer len (RequestMethod at n) = part_of buffer len at n"
| "req_event_inside buffer len (RequestUri at n) = part_of buffer len at n"
| "req_event_inside buffer len (Fragment at n) = part_of buffer len at n"
| "req_event_inside buffer len (QueryString at n) = part_of buffer len at n"
| "req_event_inside buffer len (RequestPath at n) = part_of buffer len at n"
| "req_event_inside buffer len (HttpVersion at n) = part_of buffer len at n"
| "req_event_inside buffer len (HeaderDone at n) = part_of buffer len at n"
| "req_event_inside buffer len (HttpField field k at n) = (part_of buffer len field k \<and> part_of buffer len at n)"

text \<open>Offsets stay inside the text, and so do the parts passed to the callbacks. Inside a name the length of the name is stale; a
  query is started before it is used.\<close>

definition hp_bounds :: "string \<Rightarrow> nat \<Rightarrow> nat \<Rightarrow> http_parser \<Rightarrow> bool" where
  "hp_bounds buffer len p s \<longleftrightarrow> list_all (req_event_inside buffer len) (hp_events s) \<and> hp_mark s \<le> p \<and> hp_mark s < len \<and>
     hp_field_start s \<le> p \<and> hp_field_start s < len \<and> hp_field_len s \<le> p \<and> hp_body_start s \<le> len"

definition hp_inv :: "string \<Rightarrow> nat \<Rightarrow> hp_phase \<Rightarrow> nat \<Rightarrow> http_parser \<Rightarrow> bool" where
  "hp_inv buffer len ph p s \<longleftrightarrow> hp_bounds buffer len p s \<and> (ph \<noteq> InName \<longrightarrow> hp_field_start s + hp_field_len s \<le> p) \<and>
     (ph = InQuery \<longrightarrow> hp_query_start s \<le> p)"

definition phase_after :: "hp_action \<Rightarrow> hp_phase \<Rightarrow> hp_phase" where
  "phase_after a ph = (if a = HpStartField then InName else if a = HpWriteField \<or> a = HpQueryStringAct then Between
     else if a = HpStartQuery then InQuery else ph)"

lemma run_phase_Cons:
  "run_phase (a # as) ph = Some ph' \<Longrightarrow> run_phase as (phase_after a ph) = Some ph' \<and> (a = HpWriteValue \<or> a = HpStartQuery \<longrightarrow> ph \<noteq> InName) \<and>
     (a = HpQueryStringAct \<longrightarrow> ph = InQuery)"
  by (cases a) (simp_all add: phase_after_def split: if_splits)

lemma hp_act_inv:
  assumes "p < len" and "hp_inv buffer len ph p s" and "a = HpWriteValue \<or> a = HpStartQuery \<longrightarrow> ph \<noteq> InName" and "a = HpQueryStringAct \<longrightarrow> ph = InQuery"
  shows "hp_inv buffer len (phase_after a ph) p (hp_act buffer len a p s)"
proof -
  have part: "i \<le> p \<Longrightarrow> part_of buffer len (drop i buffer) (p - i)" for i using assms(1) by (auto simp: part_of_def)
  have rest: "part_of buffer len (drop (Suc p) buffer) (len - Suc p)" using assms(1) by (auto simp: part_of_def)
  have name: "part_of buffer len (drop (hp_field_start s) buffer) (hp_field_len s)" if "ph \<noteq> InName"
    using assms(1,2) that by (auto simp: part_of_def hp_inv_def)
  show ?thesis
    using assms by (cases a; simp add: hp_inv_def hp_bounds_def hp_call_def hp_done_def phase_after_def part rest name Let_def)
qed

lemma hp_acts_inv:
  assumes "p < len" and "hp_inv buffer len ph p s" and "run_phase as ph = Some ph'"
  shows "hp_inv buffer len ph' p (fold (\<lambda>a. hp_act buffer len a p) as s)"
  using assms(2,3)
proof (induction as arbitrary: ph s)
  case (Cons a as)
  from run_phase_Cons [OF Cons.prems(2)] hp_act_inv [OF assms(1) Cons.prems(1), of a]
  show ?case using Cons.IH [of "phase_after a ph" "hp_act buffer len a p s"] by simp
qed simp

lemma hp_move_inv: "p \<le> q \<Longrightarrow> hp_inv buffer len ph p s \<Longrightarrow> hp_inv buffer len ph q s"
  by (auto simp: hp_inv_def hp_bounds_def)

lemma hp_machine_simps [simp]:
  "ma_case (hp_machine buffer len relaxed) = hp_case relaxed" "ma_act (hp_machine buffer len relaxed) = hp_act buffer len"
  "ma_break (hp_machine buffer len relaxed) = (\<lambda>a. a = HpDone)"
  by (simp_all add: hp_machine_def)

lemma hp_case_0: "hp_case relaxed 0 c = St 0"
  by (simp add: hp_case_def)

interpretation hp: ragel_machine "hp_machine buffer len relaxed" "\<lambda>n p s. if n = 0 then hp_bounds buffer len p s else hp_inv buffer len (state_phase n) p s"
  len "{348, 349}" for buffer len relaxed
proof unfold_locales
  fix n c as m p s
  assume e: "ma_case (hp_machine buffer len relaxed) n c = Goto as m" "m \<noteq> 0" "p < len"
    "if n = 0 then hp_bounds buffer len p s else hp_inv buffer len (state_phase n) p s"
  have "n \<noteq> 0" using e(1,2) hp_case_0 [of relaxed c] by (cases "n = 0") auto
  moreover have "run_phase as (state_phase n) = Some (state_phase m)"
    using hp_edge_case [of n relaxed c] e(1,2) by (simp add: hp_edge_def)
  ultimately show "if m = 0 then hp_bounds buffer len (Suc p) (fold (\<lambda>a. ma_act (hp_machine buffer len relaxed) a p) as s)
      else hp_inv buffer len (state_phase m) (Suc p) (fold (\<lambda>a. ma_act (hp_machine buffer len relaxed) a p) as s)"
    using e hp_acts_inv [OF e(3), of buffer "state_phase n" s as] hp_move_inv [of p "Suc p"] by simp
next
  fix n c as p s
  assume e: "ma_case (hp_machine buffer len relaxed) n c = Goto as 0" "p < len"
    "if n = 0 then hp_bounds buffer len p s else hp_inv buffer len (state_phase n) p s"
  then have "as = []" using hp_edge_case [of n relaxed c] by (simp add: hp_edge_def)
  then show "if (0 :: nat) = 0 then hp_bounds buffer len p (fold (\<lambda>a. ma_act (hp_machine buffer len relaxed) a p) as s)
      else hp_inv buffer len (state_phase 0) p (fold (\<lambda>a. ma_act (hp_machine buffer len relaxed) a p) as s)"
    using e(3) by (auto simp: hp_inv_def split: if_splits)
next
  fix n c as m
  assume "ma_case (hp_machine buffer len relaxed) n c = Goto as m" "list_ex (ma_break (hp_machine buffer len relaxed)) as"
  then show "m \<in> {348, 349}"
    using hp_edge_case [of n relaxed c] by (auto simp: hp_edge_def list_ex_iff)
qed

lemma hp_act_keeps: "hp_nread (hp_act buffer len a p s) = hp_nread s" "hp_cs (hp_act buffer len a p s) = hp_cs s"
  by (cases a; auto simp: hp_call_def hp_done_def Let_def)+

lemma hp_acts_keep:
  "hp_nread (fold (\<lambda>a. hp_act buffer len a p) as s) = hp_nread s" "hp_cs (fold (\<lambda>a. hp_act buffer len a p) as s) = hp_cs s"
  by (induction as arbitrary: s) (auto simp: hp_act_keeps)

lemma hp_loop_keeps:
  "ragel_loop (hp_machine buffer len relaxed) xs p n s = (p', m, s') \<Longrightarrow> hp_nread s' = hp_nread s \<and> hp_cs s' = hp_cs s"
proof (induction xs arbitrary: p n s)
  case (Cons c xs)
  obtain as k where g: "hp_case relaxed n (schar c) = Goto as k" by (cases "hp_case relaxed n (schar c)")
  then show ?case
    using Cons by (auto simp: hp_acts_keep Let_def split: if_splits)
qed simp

text \<open>What \<open>execute\<close> does, given what its loop does.\<close>

lemma http_execute_loop:
  assumes "ragel_loop (hp_machine buffer len (hp_uri_relaxed s)) (take len buffer) 0 (hp_cs s)
      (s\<lparr>hp_nread := 0, hp_mark := 0, hp_field_len := 0, hp_field_start := 0\<rparr>) = (p, cs, s')"
    and "0 < len" and "len \<le> length buffer" and "hp_body_start s \<le> len" and "hp_cs s \<noteq> 0" and "hp_events s = []"
    and "state_phase (hp_cs s) \<noteq> InQuery \<or> hp_query_start s = 0"
  shows "http_parser_execute buffer len 0 s = Ret p (s'\<lparr>hp_cs := cs, hp_nread := p\<rparr>) \<and> p \<le> len \<and>
    (p = len \<or> cs = 0 \<or> cs \<in> {348, 349}) \<and> list_all (req_event_inside buffer len) (hp_events s')"
proof -
  let ?s = "s\<lparr>hp_nread := 0, hp_mark := 0, hp_field_len := 0, hp_field_start := 0\<rparr>"
  have "hp_inv buffer len (state_phase (hp_cs s)) 0 ?s"
    using assms(2,4,6,7) by (auto simp: hp_inv_def hp_bounds_def)
  then have i: "if hp_cs s = 0 then hp_bounds buffer len 0 ?s else hp_inv buffer len (state_phase (hp_cs s)) 0 ?s" using assms(5) by simp
  have l: "0 + length (take len buffer) = len" using assms(3) by simp
  note r = hp.loop_result [OF assms(1) l i]
  then have b: "hp_bounds buffer len p s'" by (auto simp: hp_inv_def split: if_splits)
  have k: "hp_nread s' = 0" "hp_cs s' = hp_cs s" using hp_loop_keeps [OF assms(1)] by simp_all
  show ?thesis
    using assms(1,2,3,5) r b k by (auto simp: http_parser_execute_def CXK_ASSERT_def Let_def hp_bounds_def http_parser_has_error_def)
qed

section \<open>Request heads\<close>

text \<open>The twenty states of the method.\<close>

lemma method_step:
  assumes "upper_digit c" and "175 \<le> n" and "n \<le> 192"
  shows "hp_case relaxed n c = St (Suc n)"
proof -
  have "n = 175 \<or> n = 176 \<or> n = 177 \<or> n = 178 \<or> n = 179 \<or> n = 180 \<or> n = 181 \<or> n = 182 \<or> n = 183 \<or> n = 184 \<or> n = 185 \<or>
    n = 186 \<or> n = 187 \<or> n = 188 \<or> n = 189 \<or> n = 190 \<or> n = 191 \<or> n = 192" using assms(2,3) by arith
  then show ?thesis by (elim disjE) (simp_all add: hp_method_edges assms(1))
qed

lemma method_blank:
  assumes "n = 2 \<or> 175 \<le> n \<and> n \<le> 193"
  shows "hp_case relaxed n 32 = Goto [HpRequestMethodAct] 3"
proof -
  have "n = 2 \<or> n = 175 \<or> n = 176 \<or> n = 177 \<or> n = 178 \<or> n = 179 \<or> n = 180 \<or> n = 181 \<or> n = 182 \<or> n = 183 \<or> n = 184 \<or> n = 185 \<or>
    n = 186 \<or> n = 187 \<or> n = 188 \<or> n = 189 \<or> n = 190 \<or> n = 191 \<or> n = 192 \<or> n = 193" using assms by arith
  then show ?thesis by (elim disjE) (simp_all add: hp_method_edges)
qed

lemma method_more:
  assumes "\<forall>c\<in>set xs. upper_digit (schar c)" and "175 \<le> n" and "n + length xs \<le> 193"
  shows "passes (hp_machine buffer len relaxed) xs p n s (n + length xs) s"
  using assms
proof (induction xs arbitrary: n p)
  case (Cons c xs)
  have "passes (hp_machine buffer len relaxed) xs (Suc p) (Suc n) s (Suc n + length xs) s"
    by (rule Cons.IH) (use Cons.prems in auto)
  then show ?case
    using Cons.prems by (intro passes_Cons [where as = "[]" and m = "Suc n"]) (auto simp: method_step)
qed simp

lemma method_passes:
  assumes "m \<noteq> []" and "\<forall>c\<in>set m. upper_digit (schar c)" and "length m \<le> 20"
  shows "passes (hp_machine buffer len relaxed) (m @ '' '') 0 1 s 3 (hp_call (RequestMethod buffer (length m)) (s\<lparr>hp_mark := 0\<rparr>))"
proof -
  let ?M = "hp_machine buffer len relaxed" and ?s = "s\<lparr>hp_mark := 0\<rparr>"
  obtain c cs where m: "m = c # cs" using assms(1) by (cases m) auto
  have "\<exists>n. (n = 2 \<or> 175 \<le> n \<and> n \<le> 193) \<and> passes ?M cs 1 2 ?s n ?s"
  proof (cases cs)
    case (Cons d ds)
    have "passes ?M ds (Suc 1) 175 ?s (175 + length ds) ?s" by (rule method_more) (use assms m Cons in auto)
    then have "passes ?M (d # ds) 1 2 ?s (175 + length ds) ?s"
      using assms m Cons by (intro passes_Cons [where as = "[]" and m = 175]) (auto simp: hp_method_edges)
    then show ?thesis using assms(3) m Cons by (intro exI [of _ "175 + length ds"]) auto
  qed (auto intro!: exI [of _ 2])
  then obtain n where n: "n = 2 \<or> 175 \<le> n \<and> n \<le> 193" "passes ?M cs 1 2 ?s n ?s" by blast
  have "passes ?M m 0 1 s n ?s"
    unfolding m using assms(2) m n(2) by (intro passes_Cons [where as = "[HpMark]" and m = 2]) (auto simp: hp_method_edges)
  moreover have "passes ?M '' '' (length m) n ?s 3 (hp_call (RequestMethod buffer (length m)) ?s)"
    by (simp add: passes_def method_blank [OF n(1)])
  ultimately show ?thesis using passes_append by fastforce
qed

text \<open>The request target: an absolute path, an optional query and an optional fragment.\<close>

definition good_path :: "string \<Rightarrow> bool" where
  "good_path path \<longleftrightarrow> path \<noteq> [] \<and> hd path = CHR ''/'' \<and> uri_text path_char (tl path) \<and> (tl path \<noteq> [] \<longrightarrow> hd (tl path) \<noteq> CHR ''/'')"

definition marked :: "char \<Rightarrow> string \<Rightarrow> string" where
  "marked c xs = (if xs = [] then [] else c # xs)"

lemma schar_slash: "schar c = 47 \<Longrightarrow> c = CHR ''/''"
  by (metis schar_simps(8) schar_inj)

lemma path_passes:
  assumes "good_path path"
  shows "\<exists>n\<in>{33, 26}. passes (hp_machine buffer len relaxed) path p 3 s n (s\<lparr>hp_mark := p\<rparr>)"
proof -
  let ?M = "hp_machine buffer len relaxed" and ?s = "s\<lparr>hp_mark := p\<rparr>"
  obtain t where path: "path = CHR ''/'' # t" "uri_text path_char t" "t \<noteq> [] \<longrightarrow> hd t \<noteq> CHR ''/''"
    using assms by (cases path) (auto simp: good_path_def)
  have "\<exists>n\<in>{33, 26}. passes ?M t (Suc p) 33 ?s n ?s"
  proof (cases "t = []")
    case False
    have "segment_char (schar (hd t))" if "path_char (schar (hd t))"
    proof -
      have "schar (hd t) \<noteq> 47" using path(3) False schar_slash by blast
      then show ?thesis using that unfolding path_char_def segment_char_def by linarith
    qed
    then have "passes ?M t (Suc p) 33 ?s 26 (fold (\<lambda>a. ma_act ?M a (Suc p)) [] ?s)"
      by (intro passes_uri_start [OF path(2) False, where h = 27 and l = 28]) (auto simp: hp_path_edges)
    then show ?thesis by (intro bexI [of _ 26]) simp_all
  qed (auto intro!: bexI [of _ 33])
  then obtain n where "n \<in> {33, 26}" "passes ?M t (Suc p) 33 ?s n ?s" by blast
  then show ?thesis
    unfolding path(1) by (intro bexI [of _ n] passes_Cons [where as = "[HpMark]" and m = 33]) (auto simp: hp_path_edges)
qed

text \<open>From the end of path or query: the fragment, if there is one, and the blank.\<close>

lemma fragment_passes:
  assumes "uri_text query_char f" and "hp_case relaxed n 32 = Goto as 4" and "hp_case relaxed n 35 = Goto as 20"
    and "HpDone \<notin> set as" and "t = fold (\<lambda>a. hp_act buffer len a p) as s"
  shows "\<exists>t'. passes (hp_machine buffer len relaxed) (marked CHR ''#'' f @ '' '') p n s 4 t' \<and>
    hp_events t' = hp_events t @ (if f = [] then [] else [Fragment (drop (p + 1) buffer) (length f)]) \<and>
    hp_xml_sent t' = hp_xml_sent t \<and> hp_json_sent t' = hp_json_sent t"
proof (cases "f = []")
  case True
  have "passes (hp_machine buffer len relaxed) '' '' p n s 4 t"
    by (rule passes_Cons [where as = as and m = 4]) (use assms in \<open>auto simp: list_ex_iff\<close>)
  then show ?thesis using True by (intro exI [of _ t]) (simp add: marked_def)
next
  case False
  let ?M = "hp_machine buffer len relaxed" and ?q = "Suc p + length f" and ?t = "t\<lparr>hp_mark := Suc p\<rparr>"
  have f: "passes ?M f (Suc p) 20 t 21 (fold (\<lambda>a. ma_act ?M a (Suc p)) [HpMark] t)"
    by (intro passes_uri_start [OF assms(1) False, where h = 22 and l = 23]) (auto simp: hp_fragment_edges)
  have "passes ?M '' '' ?q 21 ?t 4 (hp_act buffer len HpFragmentAct ?q ?t)"
    by (rule passes_Cons [where as = "[HpFragmentAct]" and m = 4]) (auto simp: hp_fragment_edges)
  with f have "passes ?M (f @ '' '') (Suc p) 20 t 4 (hp_act buffer len HpFragmentAct ?q ?t)"
    by (intro passes_append [where s' = ?t and m = 21]) simp_all
  then have "passes ?M (CHR ''#'' # f @ '' '') p n s 4 (hp_act buffer len HpFragmentAct ?q ?t)"
    by (rule passes_pre) (use assms in \<open>auto simp: list_ex_iff\<close>)
  then show ?thesis using False by (intro exI [of _ "hp_act buffer len HpFragmentAct ?q ?t"]) (simp add: marked_def hp_call_def)
qed

definition target_events :: "string \<Rightarrow> nat \<Rightarrow> string \<Rightarrow> string \<Rightarrow> string \<Rightarrow> request_event list" where
  "target_events buffer p path q f =
     [RequestPath (drop p buffer) (length path)] @
     (if q = [] then [] else [QueryString (drop (p + length path + 1) buffer) (length q)]) @
     [RequestUri (drop p buffer) (length path + length (marked CHR ''?'' q))] @
     (if f = [] then [] else [Fragment (drop (p + length path + length (marked CHR ''?'' q) + 1) buffer) (length f)])"

lemma target_passes:
  assumes "good_path path" and "uri_text query_char q" and "uri_text query_char f"
  shows "\<exists>t. passes (hp_machine buffer len relaxed) (path @ marked CHR ''?'' q @ marked CHR ''#'' f @ '' '') p 3 s 4 t \<and>
    hp_events t = hp_events s @ target_events buffer p path q f \<and> hp_xml_sent t = hp_xml_sent s \<and> hp_json_sent t = hp_json_sent s"
proof -
  let ?M = "hp_machine buffer len relaxed" and ?s = "s\<lparr>hp_mark := p\<rparr>" and ?p = "p + length path"
  obtain n where n: "n = 33 \<or> n = 26" "passes ?M path p 3 s n ?s" using path_passes [OF assms(1)] by blast
  show ?thesis
  proof (cases "q = []")
    case True
    let ?as = "[HpRequestPathAct, HpRequestUriAct]"
    have e: "hp_case relaxed n 32 = Goto ?as 4" "hp_case relaxed n 35 = Goto ?as 20" using n(1) by (auto simp: hp_path_edges)
    obtain t where t: "passes ?M (marked CHR ''#'' f @ '' '') ?p n ?s 4 t"
      "hp_events t = hp_events (fold (\<lambda>a. hp_act buffer len a ?p) ?as ?s) @ (if f = [] then [] else [Fragment (drop (?p + 1) buffer) (length f)])"
      "hp_xml_sent t = hp_xml_sent s" "hp_json_sent t = hp_json_sent s"
      using fragment_passes [OF assms(3) e _ refl, where buffer = buffer and len = len and p = ?p and s = ?s] by (auto simp: hp_call_def)
    show ?thesis
      using passes_append [OF n(2) t(1)] t(2-4) True by (intro exI [of _ t]) (simp add: target_events_def marked_def hp_call_def)
  next
    case False
    let ?s1 = "hp_act buffer len HpRequestPathAct ?p ?s"
    let ?s2 = "?s1\<lparr>hp_query_start := Suc ?p\<rparr>"
    let ?as = "[HpQueryStringAct, HpRequestUriAct]"
    obtain t where t: "passes ?M (marked CHR ''#'' f @ '' '') (Suc ?p + length q) 30 ?s2 4 t"
      "hp_events t = hp_events (fold (\<lambda>a. hp_act buffer len a (Suc ?p + length q)) ?as ?s2) @
         (if f = [] then [] else [Fragment (drop (Suc ?p + length q + 1) buffer) (length f)])"
      "hp_xml_sent t = hp_xml_sent s" "hp_json_sent t = hp_json_sent s"
      using fragment_passes [OF assms(3) hp_query_edges(7) [of relaxed] hp_query_edges(8) [of relaxed] _ refl,
          where buffer = buffer and len = len and p = "Suc ?p + length q" and s = ?s2] by (auto simp: hp_call_def)
    have "passes ?M q (Suc ?p) 29 ?s1 30 (fold (\<lambda>a. ma_act ?M a (Suc ?p)) [HpStartQuery] ?s1)"
      by (intro passes_uri_start [OF assms(2) False, where h = 31 and l = 32]) (auto simp: hp_query_edges)
    then have "passes ?M q (Suc ?p) 29 ?s1 30 ?s2" by simp
    from passes_append [OF this t(1)] have "passes ?M (q @ marked CHR ''#'' f @ '' '') (Suc ?p) 29 ?s1 4 t" .
    then have "passes ?M (CHR ''?'' # q @ marked CHR ''#'' f @ '' '') ?p n ?s 4 t"
      by (rule passes_pre) (use n(1) in \<open>auto simp: hp_path_edges\<close>)
    from passes_append [OF n(2) this] show ?thesis
      using t(2-4) False by (intro exI [of _ t]) (simp add: target_events_def marked_def hp_call_def)
  qed
qed

definition good_req_field :: "string \<times> string \<Rightarrow> bool" where
  "good_req_field f \<longleftrightarrow> fst f \<noteq> [] \<and> (\<forall>c\<in>set (fst f). token (schar c)) \<and> (\<forall>c\<in>set (snd f). content_char (schar c)) \<and>
     (snd f \<noteq> [] \<longrightarrow> visible_char (schar (hd (snd f))))"

lemma http_version_passes:
  assumes "d = CHR ''0'' \<or> d = CHR ''1''"
  shows "passes (hp_machine buffer len relaxed) (''HTTP/1.'' @ [d] @ crlf) p 4 s 13
    (hp_call (HttpVersion (drop p buffer) 8) (s\<lparr>hp_mark := p\<rparr>))"
  using assms by (auto simp: passes_def hp_version_edges)

lemma req_field_passes:
  assumes "good_req_field (k, v)"
  shows "\<exists>t. passes (hp_machine buffer len relaxed) (field_line (k, v)) p 13 s 13 t \<and>
    hp_events t = hp_events s @ [HttpField (drop p buffer) (length k) (drop (p + length k + 2) buffer) (length v)] \<and>
    hp_xml_sent t = hp_xml_sent s \<and> hp_json_sent t = hp_json_sent s"
proof -
  let ?M = "hp_machine buffer len relaxed" and ?q = "p + length k"
  obtain c cs where k: "k = c # cs" and c: "token (schar c)" and cs: "\<forall>c\<in>set cs. token (schar c)"
    using assms by (cases k) (auto simp: good_req_field_def)
  let ?s1 = "s\<lparr>hp_field_start := p\<rparr>"
  let ?s2 = "?s1\<lparr>hp_field_len := length k, hp_mark := Suc ?q\<rparr>"
  let ?s3 = "?s2\<lparr>hp_mark := Suc (Suc ?q)\<rparr>"
  let ?t = "hp_act buffer len HpWriteValue (Suc (Suc ?q) + length v) ?s3"
  have "passes ?M (v @ crlf) (Suc (Suc ?q)) 15 ?s2 13 ?t"
  proof (cases v)
    case Nil
    then show ?thesis by (simp add: passes_def hp_field_edges hp_version_edges)
  next
    case (Cons x xs)
    have x: "visible_char (schar x)" and xs: "\<forall>c\<in>set xs. content_char (schar c)" using assms Cons by (auto simp: good_req_field_def)
    have "passes ?M crlf (Suc (Suc (Suc ?q)) + length xs) 16 ?s3 13 ?t"
      by (simp add: passes_def hp_field_edges hp_version_edges Cons)
    moreover have "passes ?M xs (Suc (Suc (Suc ?q))) 16 ?s3 16 ?s3"
      by (rule passes_stay) (use xs in \<open>auto simp: hp_field_edges\<close>)
    ultimately have "passes ?M (xs @ crlf) (Suc (Suc (Suc ?q))) 16 ?s3 13 ?t" by (rule passes_append [rotated])
    then show ?thesis unfolding Cons append.simps by (rule passes_pre) (use x in \<open>auto simp: hp_field_edges\<close>)
  qed
  then have "passes ?M ('': '' @ v @ crlf) ?q 14 ?s1 13 ?t"
    unfolding append.simps by (intro passes_Cons [where as = "[HpWriteField]" and m = 15] passes_Cons [where as = "[HpStartValue]" and m = 15])
      (auto simp: hp_field_edges)
  moreover have "passes ?M cs (Suc p) 14 ?s1 14 ?s1" by (rule passes_stay) (use cs in \<open>auto simp: hp_field_edges\<close>)
  ultimately have "passes ?M (cs @ '': '' @ v @ crlf) (Suc p) 14 ?s1 13 ?t" using passes_append k by fastforce
  then have "passes ?M (field_line (k, v)) p 13 s 13 ?t"
    unfolding field_line_def fst_conv snd_conv k append.simps by (rule passes_pre) (use c in \<open>auto simp: hp_field_edges\<close>)
  then show ?thesis by (intro exI [of _ ?t]) (simp add: hp_call_def)
qed

fun req_field_events :: "string \<Rightarrow> nat \<Rightarrow> (string \<times> string) list \<Rightarrow> request_event list" where
  "req_field_events buffer p [] = []"
| "req_field_events buffer p ((k, v) # fs) =
     HttpField (drop p buffer) (length k) (drop (p + length k + 2) buffer) (length v)
       # req_field_events buffer (p + length (field_line (k, v))) fs"

lemma req_fields_passes:
  assumes "\<forall>f\<in>set fs. good_req_field f"
  shows "\<exists>t. passes (hp_machine buffer len relaxed) (concat (map field_line fs)) p 13 s 13 t \<and>
    hp_events t = hp_events s @ req_field_events buffer p fs \<and> hp_xml_sent t = hp_xml_sent s \<and> hp_json_sent t = hp_json_sent s"
  using assms
proof (induction fs arbitrary: p s)
  case (Cons f fs)
  obtain k v where f: "f = (k, v)" by (cases f)
  then have "good_req_field (k, v)" using Cons.prems by simp
  from req_field_passes [OF this, of buffer len relaxed p s]
  obtain t where t: "passes (hp_machine buffer len relaxed) (field_line (k, v)) p 13 s 13 t"
    "hp_events t = hp_events s @ [HttpField (drop p buffer) (length k) (drop (p + length k + 2) buffer) (length v)]"
    "hp_xml_sent t = hp_xml_sent s" "hp_json_sent t = hp_json_sent s" by blast
  have "\<forall>f\<in>set fs. good_req_field f" using Cons.prems by simp
  from Cons.IH [OF this, of "p + length (field_line (k, v))" t]
  obtain u where u: "passes (hp_machine buffer len relaxed) (concat (map field_line fs)) (p + length (field_line (k, v))) 13 t 13 u"
    "hp_events u = hp_events t @ req_field_events buffer (p + length (field_line (k, v))) fs"
    "hp_xml_sent u = hp_xml_sent t" "hp_json_sent u = hp_json_sent t" by blast
  show ?case
    using passes_append [OF t(1) u(1)] t(2-4) u(2-4) f by (intro exI [of _ u]) simp
qed (auto intro!: exI)

text \<open>A whole head.\<close>

definition request_text :: "string \<Rightarrow> string \<Rightarrow> string \<Rightarrow> string \<Rightarrow> char \<Rightarrow> (string \<times> string) list \<Rightarrow> string" where
  "request_text m path q f d fs =
     (m @ '' '') @ (path @ marked CHR ''?'' q @ marked CHR ''#'' f @ '' '') @ (''HTTP/1.'' @ [d] @ crlf) @
     concat (map field_line fs) @ crlf"

definition request_head_events ::
  "string \<Rightarrow> nat \<Rightarrow> string \<Rightarrow> string \<Rightarrow> string \<Rightarrow> string \<Rightarrow> (string \<times> string) list \<Rightarrow> request_event list" where
  "request_head_events buffer len m path q f fs =
     (let a = length m + 1;
          b = a + length path + length (marked CHR ''?'' q) + length (marked CHR ''#'' f) + 1;
          e = b + 10 + length (concat (map field_line fs)) + 2
      in [RequestMethod buffer (length m)] @ target_events buffer a path q f @ [HttpVersion (drop b buffer) 8]
         @ req_field_events buffer (b + 10) fs @ [HeaderDone (drop e buffer) (len - e)])"

definition good_head :: "string \<Rightarrow> string \<Rightarrow> string \<Rightarrow> string \<Rightarrow> char \<Rightarrow> (string \<times> string) list \<Rightarrow> bool" where
  "good_head m path q f d fs \<longleftrightarrow> m \<noteq> [] \<and> (\<forall>c\<in>set m. upper_digit (schar c)) \<and> length m \<le> 20 \<and> good_path path \<and>
     uri_text query_char q \<and> uri_text query_char f \<and> (d = CHR ''0'' \<or> d = CHR ''1'') \<and> (\<forall>x\<in>set fs. good_req_field x)"

lemma req_end_of_head:
  assumes "\<not> hp_xml_sent s" and "\<not> hp_json_sent s"
  shows "\<exists>t. ragel_loop (hp_machine buffer len relaxed) (crlf @ rest) p 13 s = (p + 2, 348, t) \<and>
    hp_events t = hp_events s @ [HeaderDone (drop (p + 2) buffer) (len - p - 2)]"
  using assms by (simp add: hp_field_edges hp_call_def hp_done_def)

lemma request_loop:
  assumes "good_head m path q f d fs" and "\<not> hp_xml_sent s" and "\<not> hp_json_sent s" and "hp_events s = []"
  shows "\<exists>t. ragel_loop (hp_machine buffer len relaxed) (request_text m path q f d fs @ rest) 0 1 s =
      (length (request_text m path q f d fs), 348, t) \<and> hp_events t = request_head_events buffer len m path q f fs"
proof -
  let ?M = "hp_machine buffer len relaxed" and ?a = "length m + 1"
  let ?b = "?a + length path + length (marked CHR ''?'' q) + length (marked CHR ''#'' f) + 1"
  let ?T = "path @ marked CHR ''?'' q @ marked CHR ''#'' f @ '' ''" and ?F = "concat (map field_line fs)"
  let ?V = "''HTTP/1.'' @ [d] @ crlf"
  define s1 where "s1 = hp_call (RequestMethod buffer (length m)) (s\<lparr>hp_mark := 0\<rparr>)"
  have s1: "hp_events s1 = [RequestMethod buffer (length m)]" "\<not> hp_xml_sent s1" "\<not> hp_json_sent s1"
    using assms(2-4) by (simp_all add: s1_def hp_call_def)
  have 1: "passes ?M (m @ '' '') 0 1 s 3 s1" unfolding s1_def by (rule method_passes) (use assms(1) in \<open>simp_all add: good_head_def\<close>)
  obtain s2 where s2: "passes ?M ?T ?a 3 s1 4 s2" "hp_events s2 = hp_events s1 @ target_events buffer ?a path q f"
    "hp_xml_sent s2 = hp_xml_sent s1" "hp_json_sent s2 = hp_json_sent s1"
    using target_passes [of path q f buffer len relaxed ?a s1] assms(1) by (auto simp: good_head_def)
  define s3 where "s3 = hp_call (HttpVersion (drop ?b buffer) 8) (s2\<lparr>hp_mark := ?b\<rparr>)"
  have 3: "passes ?M ?V ?b 4 s2 13 s3" unfolding s3_def by (rule http_version_passes) (use assms(1) in \<open>simp add: good_head_def\<close>)
  obtain s4 where s4: "passes ?M ?F (?b + 10) 13 s3 13 s4" "hp_events s4 = hp_events s3 @ req_field_events buffer (?b + 10) fs"
    "hp_xml_sent s4 = hp_xml_sent s3" "hp_json_sent s4 = hp_json_sent s3"
    using req_fields_passes [of fs buffer len relaxed "?b + 10" s3] assms(1) by (auto simp: good_head_def)
  have "\<not> hp_xml_sent s4" "\<not> hp_json_sent s4" using s1 s2 s4 by (simp_all add: s3_def hp_call_def)
  from req_end_of_head [OF this, of buffer len relaxed rest "?b + 10 + length ?F"]
  obtain t where t: "ragel_loop ?M (crlf @ rest) (?b + 10 + length ?F) 13 s4 = (?b + 10 + length ?F + 2, 348, t)"
    "hp_events t = hp_events s4 @ [HeaderDone (drop (?b + 10 + length ?F + 2) buffer) (len - (?b + 10 + length ?F) - 2)]" by blast
  have l1: "0 + length (m @ '' '') = ?a" by simp
  have l2: "?a + length ?T = ?b" by simp
  have l3: "?b + length ?V = ?b + 10" by simp
  have "passes ?M (?V @ ?F) ?b 4 s2 13 s4" by (rule passes_append [OF 3]) (simp only: l3 s4(1))
  then have "passes ?M (?T @ ?V @ ?F) ?a 3 s1 13 s4" by (intro passes_append [OF s2(1)]) (simp only: l2)
  then have p: "passes ?M ((m @ '' '') @ ?T @ ?V @ ?F) 0 1 s 13 s4" by (intro passes_append [OF 1]) (simp only: l1)
  define line where "line = (m @ '' '') @ ?T @ ?V @ ?F"
  have h: "request_text m path q f d fs = line @ crlf" by (simp add: request_text_def line_def)
  have l: "length line = ?b + 10 + length ?F" by (simp add: line_def)
  from passes_loop [OF p [folded line_def], of "crlf @ rest"] t(1) l
  have "ragel_loop ?M (request_text m path q f d fs @ rest) 0 1 s = (length (request_text m path q f d fs), 348, t)"
    unfolding h append_assoc length_append by simp
  moreover have "hp_events t = request_head_events buffer len m path q f fs"
    using t(2) s4(2) s2(2) s1(1) by (simp add: s3_def hp_call_def request_head_events_def Let_def diff_diff_left)
  ultimately show ?thesis by blast
qed

lemma request_execute:
  assumes "take len buffer = request_text m path q f d fs @ rest" and "len \<le> length buffer" and "good_head m path q f d fs"
    and "hp_events s = []"
  shows "\<exists>t. http_parser_execute buffer len 0 (http_parser_init s) = Ret (length (request_text m path q f d fs)) t \<and>
    hp_cs t = 348 \<and> hp_events t = request_head_events buffer len m path q f fs \<and> list_all (req_event_inside buffer len) (hp_events t)"
proof -
  let ?s = "http_parser_init s"
  let ?z = "?s\<lparr>hp_nread := 0, hp_mark := 0, hp_field_len := 0, hp_field_start := 0\<rparr>"
  have i: "\<not> hp_xml_sent ?z" "\<not> hp_json_sent ?z" "hp_events ?z = []" using assms(4) by (simp_all add: http_parser_init_def)
  obtain t where t: "ragel_loop (hp_machine buffer len (hp_uri_relaxed ?s)) (take len buffer) 0 (hp_cs ?s) ?z =
      (length (request_text m path q f d fs), 348, t)" "hp_events t = request_head_events buffer len m path q f fs"
    using request_loop [OF assms(3) i, of buffer len "hp_uri_relaxed ?s" rest] assms(1) by (auto simp: http_parser_init_def)
  have "0 < len" using arg_cong [OF assms(1), of length] assms(2) by (simp add: request_text_def)
  moreover have "hp_body_start ?s \<le> len" "hp_cs ?s \<noteq> 0" "hp_events ?s = []" "state_phase (hp_cs ?s) \<noteq> InQuery \<or> hp_query_start ?s = 0"
    using assms(4) by (simp_all add: http_parser_init_def state_phase_def)
  ultimately show ?thesis using http_execute_loop [OF t(1) _ assms(2)] t(2) by auto
qed

section \<open>Properties\<close>

definition new_http_parser :: "http_parser" where
  "new_http_parser = \<lparr>hp_cs = 0, hp_body_start = 0, hp_content_len = 0, hp_nread = 0, hp_mark = 0, hp_field_start = 0, hp_field_len = 0,
     hp_query_start = 0, hp_xml_sent = False, hp_json_sent = False, hp_uri_relaxed = False, hp_events = []\<rparr>"

text \<open>C16. Safety on every input: a request parser that is not in error and did not stop inside a query violates none of its assertions,
  whatever the next text is; it stops inside the text, and if it is neither in error nor finished it has consumed all of
  it; every part it hands to a callback lies inside the text.\<close>

theorem http_execute_safe:
  assumes "0 < len" and "len \<le> length buffer" and "hp_cs s \<noteq> 0" and "hp_body_start s \<le> len" and "hp_events s = []"
    and "state_phase (hp_cs s) \<noteq> InQuery"
  shows "\<exists>n s'. http_parser_execute buffer len 0 s = Ret n s' \<and> n \<le> len \<and>
    (n = len \<or> http_parser_has_error s' \<or> http_parser_is_finished s') \<and> list_all (req_event_inside buffer len) (hp_events s')"
proof -
  obtain p cs t where l: "ragel_loop (hp_machine buffer len (hp_uri_relaxed s)) (take len buffer) 0 (hp_cs s)
      (s\<lparr>hp_nread := 0, hp_mark := 0, hp_field_len := 0, hp_field_start := 0\<rparr>) = (p, cs, t)"
    by (metis prod_cases3)
  show ?thesis
    using http_execute_loop [OF l assms(1,2,4,3,5)] assms(6)
    by (intro exI [of _ p] exI [of _ "t\<lparr>hp_cs := cs, hp_nread := p\<rparr>"])
      (auto simp: http_parser_has_error_def http_parser_is_finished_def)
qed

theorem http_execute_safe_witness:
  "\<exists>n s'. http_parser_execute ''GET @'' 5 0 (http_parser_init new_http_parser) = Ret n s' \<and> n \<le> 5"
  using http_execute_safe [of 5 "''GET @''" "http_parser_init new_http_parser"]
  by (auto simp: new_http_parser_def http_parser_init_def state_phase_def)

text \<open>The condition on queries is needed: the offset of the query is kept between two texts, so that when a query is cut in
  two the length of the second part is computed below zero and wraps.\<close>

theorem split_query_wraps:
  "\<exists>s s'. http_parser_execute ''GET /a?bcd'' 10 0 (http_parser_init new_http_parser) = Ret 10 s \<and> \<not> http_parser_has_error s \<and>
     http_parser_execute (''e HTTP/1.1'' @ crlf @ crlf) 14 0 (s\<lparr>hp_events := []\<rparr>) = Ret 14 s' \<and>
     hd (hp_events s') = QueryString (drop 7 (''e HTTP/1.1'' @ crlf @ crlf)) (2 ^ 64 - 6)"
  by (simp add: http_parser_execute_def http_parser_init_def new_http_parser_def CXK_ASSERT_def hp_case_simps schar_def
      hp_case_1_def hp_case_2_def hp_case_175_def hp_case_176_def hp_case_3_def hp_case_33_def hp_case_26_def hp_case_29_def
      hp_case_30_def hp_case_4_def hp_case_5_def hp_case_6_def hp_case_7_def hp_case_8_def hp_case_9_def hp_case_10_def
      hp_case_11_def hp_case_12_def hp_case_17_def hp_case_13_def hp_case_18_def hp_tr_defs hp_call_def hp_done_def
      http_parser_has_error_def LEN_def)

text \<open>A name that is cut in two loses its first part: the marks are reset to the start of the second text.\<close>

theorem split_name_truncated:
  "case http_parser_execute (''GET / HTTP/1.1'' @ crlf @ ''Ho'') 18 0 (http_parser_init new_http_parser) of
     Ret n s \<Rightarrow> n = 18 \<and> \<not> http_parser_has_error s \<and>
       (case http_parser_execute (''st: x'' @ crlf @ crlf) 9 0 (s\<lparr>hp_events := []\<rparr>) of
          Ret n' s' \<Rightarrow> n' = 9 \<and> http_parser_is_finished s' \<and>
            hd (hp_events s') = HttpField (''st: x'' @ crlf @ crlf) 2 (''x'' @ crlf @ crlf) 1
        | _ \<Rightarrow> False)
   | _ \<Rightarrow> False"
  by code_simp

end
