(* ===== verification/HttpClientMachine.thy ===== *)
theory HttpClientMachine
  imports Ragel
begin

text \<open>
  The tables of \<^verbatim>\<open>src/cxk/http/httpclient_parser.rl.cpp\<close>, the state machine of HTTP responses and chunk headers: every
  transition label and every state of the generated code, in its order of tests.
\<close>

datatype hc_action =
    HcMark
  | HcStartField
  | HcWriteField
  | HcStartValue
  | HcWriteContentLen
  | HcWriteConnectionClose
  | HcWriteValue
  | HcReasonPhraseAct
  | HcStatusCodeAct
  | HcHttpVersionAct
  | HcChunkSizeAct
  | HcTransChunked
  | HcDone

section \<open>Transitions\<close>

text \<open>The labels \<^verbatim>\<open>trN\<close>: the actions in the order of the code, and the next state.\<close>

definition hc_tr_0 :: "hc_action goto" where
  "hc_tr_0 = Goto [HcMark] 2"

definition hc_tr_2 :: "hc_action goto" where
  "hc_tr_2 = Goto [HcMark] 8"

definition hc_tr_3 :: "hc_action goto" where
  "hc_tr_3 = Goto [HcChunkSizeAct, HcDone] 120"

definition hc_tr_4 :: "hc_action goto" where
  "hc_tr_4 = Goto [HcChunkSizeAct] 3"

definition hc_tr_6 :: "hc_action goto" where
  "hc_tr_6 = Goto [HcChunkSizeAct] 4"

definition hc_tr_7 :: "hc_action goto" where
  "hc_tr_7 = Goto [HcDone] 120"

definition hc_tr_8 :: "hc_action goto" where
  "hc_tr_8 = Goto [HcStartField] 5"

definition hc_tr_9 :: "hc_action goto" where
  "hc_tr_9 = Goto [HcWriteField, HcStartValue, HcWriteValue, HcDone] 120"

definition hc_tr_10 :: "hc_action goto" where
  "hc_tr_10 = Goto [HcWriteField, HcStartValue, HcWriteValue] 3"

definition hc_tr_12 :: "hc_action goto" where
  "hc_tr_12 = Goto [HcWriteField, HcStartValue, HcWriteValue] 4"

definition hc_tr_13 :: "hc_action goto" where
  "hc_tr_13 = Goto [HcWriteField, HcStartValue] 6"

definition hc_tr_14 :: "hc_action goto" where
  "hc_tr_14 = Goto [HcStartValue] 7"

definition hc_tr_15 :: "hc_action goto" where
  "hc_tr_15 = Goto [HcWriteValue, HcDone] 120"

definition hc_tr_16 :: "hc_action goto" where
  "hc_tr_16 = Goto [HcWriteValue] 3"

definition hc_tr_18 :: "hc_action goto" where
  "hc_tr_18 = Goto [HcWriteValue] 4"

definition hc_tr_26 :: "hc_action goto" where
  "hc_tr_26 = Goto [HcHttpVersionAct] 16"

definition hc_tr_27 :: "hc_action goto" where
  "hc_tr_27 = Goto [HcMark] 17"

definition hc_tr_28 :: "hc_action goto" where
  "hc_tr_28 = Goto [HcStatusCodeAct] 18"

definition hc_tr_30 :: "hc_action goto" where
  "hc_tr_30 = Goto [HcMark] 19"

definition hc_tr_32 :: "hc_action goto" where
  "hc_tr_32 = Goto [HcReasonPhraseAct] 20"

definition hc_tr_33 :: "hc_action goto" where
  "hc_tr_33 = Goto [HcReasonPhraseAct] 24"

definition hc_tr_35 :: "hc_action goto" where
  "hc_tr_35 = Goto [HcStartField] 21"

definition hc_tr_36 :: "hc_action goto" where
  "hc_tr_36 = Goto [HcStartField] 25"

definition hc_tr_37 :: "hc_action goto" where
  "hc_tr_37 = Goto [HcStartField] 44"

definition hc_tr_39 :: "hc_action goto" where
  "hc_tr_39 = Goto [HcWriteField] 22"

definition hc_tr_40 :: "hc_action goto" where
  "hc_tr_40 = Goto [HcStartValue] 23"

definition hc_tr_41 :: "hc_action goto" where
  "hc_tr_41 = Goto [HcStartValue] 22"

definition hc_tr_42 :: "hc_action goto" where
  "hc_tr_42 = Goto [HcStartValue, HcWriteValue] 20"

definition hc_tr_43 :: "hc_action goto" where
  "hc_tr_43 = Goto [HcStartValue, HcWriteValue] 24"

definition hc_tr_45 :: "hc_action goto" where
  "hc_tr_45 = Goto [HcWriteValue] 20"

definition hc_tr_46 :: "hc_action goto" where
  "hc_tr_46 = Goto [HcWriteValue] 24"

definition hc_tr_58 :: "hc_action goto" where
  "hc_tr_58 = Goto [HcWriteField] 35"

definition hc_tr_59 :: "hc_action goto" where
  "hc_tr_59 = Goto [HcStartValue] 35"

definition hc_tr_60 :: "hc_action goto" where
  "hc_tr_60 = Goto [HcStartValue, HcWriteValue] 36"

definition hc_tr_61 :: "hc_action goto" where
  "hc_tr_61 = Goto [HcStartValue, HcWriteValue] 95"

definition hc_tr_62 :: "hc_action goto" where
  "hc_tr_62 = Goto [HcStartValue] 96"

definition hc_tr_64 :: "hc_action goto" where
  "hc_tr_64 = Goto [HcDone] 122"

definition hc_tr_66 :: "hc_action goto" where
  "hc_tr_66 = Goto [HcStartField] 90"

definition hc_tr_74 :: "hc_action goto" where
  "hc_tr_74 = Goto [HcWriteConnectionClose, HcDone] 120"

definition hc_tr_75 :: "hc_action goto" where
  "hc_tr_75 = Goto [HcWriteConnectionClose] 3"

definition hc_tr_76 :: "hc_action goto" where
  "hc_tr_76 = Goto [HcWriteConnectionClose, HcStartField] 21"

definition hc_tr_77 :: "hc_action goto" where
  "hc_tr_77 = Goto [HcWriteConnectionClose, HcStartField] 25"

definition hc_tr_78 :: "hc_action goto" where
  "hc_tr_78 = Goto [HcWriteConnectionClose, HcStartField] 44"

definition hc_tr_95 :: "hc_action goto" where
  "hc_tr_95 = Goto [HcWriteField] 61"

definition hc_tr_96 :: "hc_action goto" where
  "hc_tr_96 = Goto [HcStartValue] 61"

definition hc_tr_97 :: "hc_action goto" where
  "hc_tr_97 = Goto [HcStartValue, HcWriteValue] 62"

definition hc_tr_98 :: "hc_action goto" where
  "hc_tr_98 = Goto [HcStartValue, HcWriteValue] 80"

definition hc_tr_99 :: "hc_action goto" where
  "hc_tr_99 = Goto [HcStartValue] 81"

definition hc_tr_101 :: "hc_action goto" where
  "hc_tr_101 = Goto [HcDone] 121"

definition hc_tr_103 :: "hc_action goto" where
  "hc_tr_103 = Goto [HcStartValue, HcStartField] 73"

definition hc_tr_104 :: "hc_action goto" where
  "hc_tr_104 = Goto [HcStartValue] 64"

definition hc_tr_111 :: "hc_action goto" where
  "hc_tr_111 = Goto [HcWriteValue, HcTransChunked] 20"

definition hc_tr_112 :: "hc_action goto" where
  "hc_tr_112 = Goto [HcWriteValue] 71"

definition hc_tr_113 :: "hc_action goto" where
  "hc_tr_113 = Goto [HcTransChunked] 20"

definition hc_tr_136 :: "hc_action goto" where
  "hc_tr_136 = Goto [HcWriteValue] 43"

definition hc_tr_137 :: "hc_action goto" where
  "hc_tr_137 = Goto [HcWriteValue] 88"

definition hc_tr_148 :: "hc_action goto" where
  "hc_tr_148 = Goto [HcWriteField] 112"

definition hc_tr_149 :: "hc_action goto" where
  "hc_tr_149 = Goto [HcStartValue] 112"

definition hc_tr_150 :: "hc_action goto" where
  "hc_tr_150 = Goto [HcStartValue, HcWriteValue] 113"

definition hc_tr_151 :: "hc_action goto" where
  "hc_tr_151 = Goto [HcStartValue, HcWriteValue] 118"

definition hc_tr_152 :: "hc_action goto" where
  "hc_tr_152 = Goto [HcStartValue] 119"

definition hc_tr_154 :: "hc_action goto" where
  "hc_tr_154 = Goto [HcDone] 123"

definition hc_tr_156 :: "hc_action goto" where
  "hc_tr_156 = Goto [HcStartValue, HcStartField] 117"

definition hc_tr_157 :: "hc_action goto" where
  "hc_tr_157 = Goto [HcStartValue] 115"

definition hc_tr_158 :: "hc_action goto" where
  "hc_tr_158 = Goto [HcWriteContentLen, HcWriteValue] 20"

definition hc_tr_159 :: "hc_action goto" where
  "hc_tr_159 = Goto [HcWriteContentLen, HcWriteValue] 24"

section \<open>States\<close>

text \<open>The labels \<^verbatim>\<open>case N\<close>: where the code jumps to on the character \<open>c\<close>.\<close>

definition hc_case_1 :: "int \<Rightarrow> hc_action goto" where
  "hc_case_1 c =
     (if c = 72 then hc_tr_2 else
      if c < 65 then (if 48 \<le> c \<and> c \<le> 57 then hc_tr_0 else
       St 0) else
      if c > 70 then (if 97 \<le> c \<and> c \<le> 102 then hc_tr_0 else
       St 0) else
      hc_tr_0)"

definition hc_case_2 :: "int \<Rightarrow> hc_action goto" where
  "hc_case_2 c =
     (if c = 10 then hc_tr_3 else if c = 13 then hc_tr_4 else if c = 59 then hc_tr_6 else
      if c < 65 then (if 48 \<le> c \<and> c \<le> 57 then St 2 else
       St 0) else
      if c > 70 then (if 97 \<le> c \<and> c \<le> 102 then St 2 else
       St 0) else
      St 2)"

definition hc_case_3 :: "int \<Rightarrow> hc_action goto" where
  "hc_case_3 c =
     (if c = 10 then hc_tr_7 else
      St 0)"

definition hc_case_4 :: "int \<Rightarrow> hc_action goto" where
  "hc_case_4 c =
     (if c = 33 then hc_tr_8 else if c = 124 then hc_tr_8 else if c = 126 then hc_tr_8 else
      if c < 45 then (if c > 39 then (if 42 \<le> c \<and> c \<le> 43 then hc_tr_8 else
        St 0) else
       if c \<ge> 35 then hc_tr_8 else
       St 0) else
      if c > 46 then (if c < 65 then (if 48 \<le> c \<and> c \<le> 57 then hc_tr_8 else
        St 0) else
       if c > 90 then (if 94 \<le> c \<and> c \<le> 122 then hc_tr_8 else
        St 0) else
       hc_tr_8) else
      hc_tr_8)"

definition hc_case_5 :: "int \<Rightarrow> hc_action goto" where
  "hc_case_5 c =
     (if c = 10 then hc_tr_9 else if c = 13 then hc_tr_10 else if c = 33 then St 5 else if c = 59 then hc_tr_12 else
      if c = 61 then hc_tr_13 else if c = 124 then St 5 else if c = 126 then St 5 else
      if c < 45 then (if c > 39 then (if 42 \<le> c \<and> c \<le> 43 then St 5 else
        St 0) else
       if c \<ge> 35 then St 5 else
       St 0) else
      if c > 46 then (if c < 65 then (if 48 \<le> c \<and> c \<le> 57 then St 5 else
        St 0) else
       if c > 90 then (if 94 \<le> c \<and> c \<le> 122 then St 5 else
        St 0) else
       St 5) else
      St 5)"

definition hc_case_6 :: "int \<Rightarrow> hc_action goto" where
  "hc_case_6 c =
     (if c = 33 then hc_tr_14 else if c = 124 then hc_tr_14 else if c = 126 then hc_tr_14 else
      if c < 45 then (if c > 39 then (if 42 \<le> c \<and> c \<le> 43 then hc_tr_14 else
        St 0) else
       if c \<ge> 35 then hc_tr_14 else
       St 0) else
      if c > 46 then (if c < 65 then (if 48 \<le> c \<and> c \<le> 57 then hc_tr_14 else
        St 0) else
       if c > 90 then (if 94 \<le> c \<and> c \<le> 122 then hc_tr_14 else
        St 0) else
       hc_tr_14) else
      hc_tr_14)"

definition hc_case_7 :: "int \<Rightarrow> hc_action goto" where
  "hc_case_7 c =
     (if c = 10 then hc_tr_15 else if c = 13 then hc_tr_16 else if c = 33 then St 7 else if c = 59 then hc_tr_18 else
      if c = 124 then St 7 else if c = 126 then St 7 else
      if c < 45 then (if c > 39 then (if 42 \<le> c \<and> c \<le> 43 then St 7 else
        St 0) else
       if c \<ge> 35 then St 7 else
       St 0) else
      if c > 46 then (if c < 65 then (if 48 \<le> c \<and> c \<le> 57 then St 7 else
        St 0) else
       if c > 90 then (if 94 \<le> c \<and> c \<le> 122 then St 7 else
        St 0) else
       St 7) else
      St 7)"

definition hc_case_8 :: "int \<Rightarrow> hc_action goto" where
  "hc_case_8 c =
     (if c = 84 then St 9 else
      St 0)"

definition hc_case_9 :: "int \<Rightarrow> hc_action goto" where
  "hc_case_9 c =
     (if c = 84 then St 10 else
      St 0)"

definition hc_case_10 :: "int \<Rightarrow> hc_action goto" where
  "hc_case_10 c =
     (if c = 80 then St 11 else
      St 0)"

definition hc_case_11 :: "int \<Rightarrow> hc_action goto" where
  "hc_case_11 c =
     (if c = 47 then St 12 else
      St 0)"

definition hc_case_12 :: "int \<Rightarrow> hc_action goto" where
  "hc_case_12 c =
     (if 48 \<le> c \<and> c \<le> 57 then St 13 else
      St 0)"

definition hc_case_13 :: "int \<Rightarrow> hc_action goto" where
  "hc_case_13 c =
     (if c = 46 then St 14 else
      if 48 \<le> c \<and> c \<le> 57 then St 13 else
      St 0)"

definition hc_case_14 :: "int \<Rightarrow> hc_action goto" where
  "hc_case_14 c =
     (if 48 \<le> c \<and> c \<le> 57 then St 15 else
      St 0)"

definition hc_case_15 :: "int \<Rightarrow> hc_action goto" where
  "hc_case_15 c =
     (if c = 32 then hc_tr_26 else
      if 48 \<le> c \<and> c \<le> 57 then St 15 else
      St 0)"

definition hc_case_16 :: "int \<Rightarrow> hc_action goto" where
  "hc_case_16 c =
     (if 48 \<le> c \<and> c \<le> 57 then hc_tr_27 else
      St 0)"

definition hc_case_17 :: "int \<Rightarrow> hc_action goto" where
  "hc_case_17 c =
     (if c = 32 then hc_tr_28 else
      if 48 \<le> c \<and> c \<le> 57 then St 17 else
      St 0)"

definition hc_case_18 :: "int \<Rightarrow> hc_action goto" where
  "hc_case_18 c =
     (if c = 10 then St 0 else
      hc_tr_30)"

definition hc_case_19 :: "int \<Rightarrow> hc_action goto" where
  "hc_case_19 c =
     (if c = 10 then hc_tr_32 else if c = 13 then hc_tr_33 else
      St 19)"

definition hc_case_20 :: "int \<Rightarrow> hc_action goto" where
  "hc_case_20 c =
     (if c = 10 then hc_tr_7 else if c = 13 then St 3 else if c = 33 then hc_tr_35 else if c = 67 then hc_tr_36 else
      if c = 84 then hc_tr_37 else if c = 99 then hc_tr_36 else if c = 116 then hc_tr_37 else if c = 124 then hc_tr_35 else
      if c = 126 then hc_tr_35 else
      if c < 45 then (if c > 39 then (if 42 \<le> c \<and> c \<le> 43 then hc_tr_35 else
        St 0) else
       if c \<ge> 35 then hc_tr_35 else
       St 0) else
      if c > 46 then (if c < 65 then (if 48 \<le> c \<and> c \<le> 57 then hc_tr_35 else
        St 0) else
       if c > 90 then (if 94 \<le> c \<and> c \<le> 122 then hc_tr_35 else
        St 0) else
       hc_tr_35) else
      hc_tr_35)"

definition hc_case_21 :: "int \<Rightarrow> hc_action goto" where
  "hc_case_21 c =
     (if c = 33 then St 21 else if c = 58 then hc_tr_39 else if c = 124 then St 21 else if c = 126 then St 21 else

      if c < 45 then (if c > 39 then (if 42 \<le> c \<and> c \<le> 43 then St 21 else
        St 0) else
       if c \<ge> 35 then St 21 else
       St 0) else
      if c > 46 then (if c < 65 then (if 48 \<le> c \<and> c \<le> 57 then St 21 else
        St 0) else
       if c > 90 then (if 94 \<le> c \<and> c \<le> 122 then St 21 else
        St 0) else
       St 21) else
      St 21)"

definition hc_case_22 :: "int \<Rightarrow> hc_action goto" where
  "hc_case_22 c =
     (if c = 10 then hc_tr_42 else if c = 13 then hc_tr_43 else if c = 32 then hc_tr_41 else
      if 9 \<le> c \<and> c \<le> 12 then hc_tr_41 else
      hc_tr_40)"

definition hc_case_23 :: "int \<Rightarrow> hc_action goto" where
  "hc_case_23 c =
     (if c = 10 then hc_tr_45 else if c = 13 then hc_tr_46 else
      St 23)"

definition hc_case_24 :: "int \<Rightarrow> hc_action goto" where
  "hc_case_24 c =
     (if c = 10 then St 20 else
      St 0)"

definition hc_case_25 :: "int \<Rightarrow> hc_action goto" where
  "hc_case_25 c =
     (if c = 33 then St 21 else if c = 58 then hc_tr_39 else if c = 79 then St 26 else if c = 111 then St 26 else
      if c = 124 then St 21 else if c = 126 then St 21 else
      if c < 45 then (if c > 39 then (if 42 \<le> c \<and> c \<le> 43 then St 21 else
        St 0) else
       if c \<ge> 35 then St 21 else
       St 0) else
      if c > 46 then (if c < 65 then (if 48 \<le> c \<and> c \<le> 57 then St 21 else
        St 0) else
       if c > 90 then (if 94 \<le> c \<and> c \<le> 122 then St 21 else
        St 0) else
       St 21) else
      St 21)"

definition hc_case_26 :: "int \<Rightarrow> hc_action goto" where
  "hc_case_26 c =
     (if c = 33 then St 21 else if c = 58 then hc_tr_39 else if c = 78 then St 27 else if c = 110 then St 27 else
      if c = 124 then St 21 else if c = 126 then St 21 else
      if c < 45 then (if c > 39 then (if 42 \<le> c \<and> c \<le> 43 then St 21 else
        St 0) else
       if c \<ge> 35 then St 21 else
       St 0) else
      if c > 46 then (if c < 65 then (if 48 \<le> c \<and> c \<le> 57 then St 21 else
        St 0) else
       if c > 90 then (if 94 \<le> c \<and> c \<le> 122 then St 21 else
        St 0) else
       St 21) else
      St 21)"

definition hc_case_27 :: "int \<Rightarrow> hc_action goto" where
  "hc_case_27 c =
     (if c = 33 then St 21 else if c = 58 then hc_tr_39 else if c = 78 then St 28 else if c = 84 then St 101 else
      if c = 110 then St 28 else if c = 116 then St 101 else if c = 124 then St 21 else if c = 126 then St 21 else

      if c < 45 then (if c > 39 then (if 42 \<le> c \<and> c \<le> 43 then St 21 else
        St 0) else
       if c \<ge> 35 then St 21 else
       St 0) else
      if c > 46 then (if c < 65 then (if 48 \<le> c \<and> c \<le> 57 then St 21 else
        St 0) else
       if c > 90 then (if 94 \<le> c \<and> c \<le> 122 then St 21 else
        St 0) else
       St 21) else
      St 21)"

definition hc_case_28 :: "int \<Rightarrow> hc_action goto" where
  "hc_case_28 c =
     (if c = 33 then St 21 else if c = 58 then hc_tr_39 else if c = 69 then St 29 else if c = 101 then St 29 else
      if c = 124 then St 21 else if c = 126 then St 21 else
      if c < 45 then (if c > 39 then (if 42 \<le> c \<and> c \<le> 43 then St 21 else
        St 0) else
       if c \<ge> 35 then St 21 else
       St 0) else
      if c > 46 then (if c < 65 then (if 48 \<le> c \<and> c \<le> 57 then St 21 else
        St 0) else
       if c > 90 then (if 94 \<le> c \<and> c \<le> 122 then St 21 else
        St 0) else
       St 21) else
      St 21)"

definition hc_case_29 :: "int \<Rightarrow> hc_action goto" where
  "hc_case_29 c =
     (if c = 33 then St 21 else if c = 58 then hc_tr_39 else if c = 67 then St 30 else if c = 99 then St 30 else
      if c = 124 then St 21 else if c = 126 then St 21 else
      if c < 45 then (if c > 39 then (if 42 \<le> c \<and> c \<le> 43 then St 21 else
        St 0) else
       if c \<ge> 35 then St 21 else
       St 0) else
      if c > 46 then (if c < 65 then (if 48 \<le> c \<and> c \<le> 57 then St 21 else
        St 0) else
       if c > 90 then (if 94 \<le> c \<and> c \<le> 122 then St 21 else
        St 0) else
       St 21) else
      St 21)"

definition hc_case_30 :: "int \<Rightarrow> hc_action goto" where
  "hc_case_30 c =
     (if c = 33 then St 21 else if c = 58 then hc_tr_39 else if c = 84 then St 31 else if c = 116 then St 31 else
      if c = 124 then St 21 else if c = 126 then St 21 else
      if c < 45 then (if c > 39 then (if 42 \<le> c \<and> c \<le> 43 then St 21 else
        St 0) else
       if c \<ge> 35 then St 21 else
       St 0) else
      if c > 46 then (if c < 65 then (if 48 \<le> c \<and> c \<le> 57 then St 21 else
        St 0) else
       if c > 90 then (if 94 \<le> c \<and> c \<le> 122 then St 21 else
        St 0) else
       St 21) else
      St 21)"

definition hc_case_31 :: "int \<Rightarrow> hc_action goto" where
  "hc_case_31 c =
     (if c = 33 then St 21 else if c = 58 then hc_tr_39 else if c = 73 then St 32 else if c = 105 then St 32 else
      if c = 124 then St 21 else if c = 126 then St 21 else
      if c < 45 then (if c > 39 then (if 42 \<le> c \<and> c \<le> 43 then St 21 else
        St 0) else
       if c \<ge> 35 then St 21 else
       St 0) else
      if c > 46 then (if c < 65 then (if 48 \<le> c \<and> c \<le> 57 then St 21 else
        St 0) else
       if c > 90 then (if 94 \<le> c \<and> c \<le> 122 then St 21 else
        St 0) else
       St 21) else
      St 21)"

definition hc_case_32 :: "int \<Rightarrow> hc_action goto" where
  "hc_case_32 c =
     (if c = 33 then St 21 else if c = 58 then hc_tr_39 else if c = 79 then St 33 else if c = 111 then St 33 else
      if c = 124 then St 21 else if c = 126 then St 21 else
      if c < 45 then (if c > 39 then (if 42 \<le> c \<and> c \<le> 43 then St 21 else
        St 0) else
       if c \<ge> 35 then St 21 else
       St 0) else
      if c > 46 then (if c < 65 then (if 48 \<le> c \<and> c \<le> 57 then St 21 else
        St 0) else
       if c > 90 then (if 94 \<le> c \<and> c \<le> 122 then St 21 else
        St 0) else
       St 21) else
      St 21)"

definition hc_case_33 :: "int \<Rightarrow> hc_action goto" where
  "hc_case_33 c =
     (if c = 33 then St 21 else if c = 58 then hc_tr_39 else if c = 78 then St 34 else if c = 110 then St 34 else
      if c = 124 then St 21 else if c = 126 then St 21 else
      if c < 45 then (if c > 39 then (if 42 \<le> c \<and> c \<le> 43 then St 21 else
        St 0) else
       if c \<ge> 35 then St 21 else
       St 0) else
      if c > 46 then (if c < 65 then (if 48 \<le> c \<and> c \<le> 57 then St 21 else
        St 0) else
       if c > 90 then (if 94 \<le> c \<and> c \<le> 122 then St 21 else
        St 0) else
       St 21) else
      St 21)"

definition hc_case_34 :: "int \<Rightarrow> hc_action goto" where
  "hc_case_34 c =
     (if c = 33 then St 21 else if c = 58 then hc_tr_58 else if c = 124 then St 21 else if c = 126 then St 21 else

      if c < 45 then (if c > 39 then (if 42 \<le> c \<and> c \<le> 43 then St 21 else
        St 0) else
       if c \<ge> 35 then St 21 else
       St 0) else
      if c > 46 then (if c < 65 then (if 48 \<le> c \<and> c \<le> 57 then St 21 else
        St 0) else
       if c > 90 then (if 94 \<le> c \<and> c \<le> 122 then St 21 else
        St 0) else
       St 21) else
      St 21)"

definition hc_case_35 :: "int \<Rightarrow> hc_action goto" where
  "hc_case_35 c =
     (if c = 10 then hc_tr_60 else if c = 13 then hc_tr_61 else if c = 32 then hc_tr_59 else if c = 67 then hc_tr_62 else
      if c = 99 then hc_tr_62 else
      if 9 \<le> c \<and> c \<le> 12 then hc_tr_59 else
      hc_tr_40)"

definition hc_case_36 :: "int \<Rightarrow> hc_action goto" where
  "hc_case_36 c =
     (if c = 10 then hc_tr_64 else if c = 13 then St 89 else if c = 32 then St 37 else if c = 33 then hc_tr_35 else
      if c = 67 then hc_tr_66 else if c = 84 then hc_tr_37 else if c = 99 then hc_tr_66 else if c = 116 then hc_tr_37 else
      if c = 124 then hc_tr_35 else if c = 126 then hc_tr_35 else
      if c < 45 then (if c < 35 then (if 9 \<le> c \<and> c \<le> 12 then St 37 else
        St 0) else
       if c > 39 then (if 42 \<le> c \<and> c \<le> 43 then hc_tr_35 else
        St 0) else
       hc_tr_35) else
      if c > 46 then (if c < 65 then (if 48 \<le> c \<and> c \<le> 57 then hc_tr_35 else
        St 0) else
       if c > 90 then (if 94 \<le> c \<and> c \<le> 122 then hc_tr_35 else
        St 0) else
       hc_tr_35) else
      hc_tr_35)"

definition hc_case_37 :: "int \<Rightarrow> hc_action goto" where
  "hc_case_37 c =
     (if c = 32 then St 37 else if c = 67 then St 38 else if c = 99 then St 38 else
      if 9 \<le> c \<and> c \<le> 13 then St 37 else
      St 0)"

definition hc_case_38 :: "int \<Rightarrow> hc_action goto" where
  "hc_case_38 c =
     (if c = 76 then St 39 else if c = 108 then St 39 else
      St 0)"

definition hc_case_39 :: "int \<Rightarrow> hc_action goto" where
  "hc_case_39 c =
     (if c = 79 then St 40 else if c = 111 then St 40 else
      St 0)"

definition hc_case_40 :: "int \<Rightarrow> hc_action goto" where
  "hc_case_40 c =
     (if c = 83 then St 41 else if c = 115 then St 41 else
      St 0)"

definition hc_case_41 :: "int \<Rightarrow> hc_action goto" where
  "hc_case_41 c =
     (if c = 69 then St 42 else if c = 101 then St 42 else
      St 0)"

definition hc_case_42 :: "int \<Rightarrow> hc_action goto" where
  "hc_case_42 c =
     (if c = 10 then St 43 else if c = 13 then St 88 else
      St 0)"

definition hc_case_43 :: "int \<Rightarrow> hc_action goto" where
  "hc_case_43 c =
     (if c = 10 then hc_tr_74 else if c = 13 then hc_tr_75 else if c = 33 then hc_tr_76 else if c = 67 then hc_tr_77 else
      if c = 84 then hc_tr_78 else if c = 99 then hc_tr_77 else if c = 116 then hc_tr_78 else if c = 124 then hc_tr_76 else
      if c = 126 then hc_tr_76 else
      if c < 45 then (if c > 39 then (if 42 \<le> c \<and> c \<le> 43 then hc_tr_76 else
        St 0) else
       if c \<ge> 35 then hc_tr_76 else
       St 0) else
      if c > 46 then (if c < 65 then (if 48 \<le> c \<and> c \<le> 57 then hc_tr_76 else
        St 0) else
       if c > 90 then (if 94 \<le> c \<and> c \<le> 122 then hc_tr_76 else
        St 0) else
       hc_tr_76) else
      hc_tr_76)"

definition hc_case_44 :: "int \<Rightarrow> hc_action goto" where
  "hc_case_44 c =
     (if c = 33 then St 21 else if c = 58 then hc_tr_39 else if c = 82 then St 45 else if c = 114 then St 45 else
      if c = 124 then St 21 else if c = 126 then St 21 else
      if c < 45 then (if c > 39 then (if 42 \<le> c \<and> c \<le> 43 then St 21 else
        St 0) else
       if c \<ge> 35 then St 21 else
       St 0) else
      if c > 46 then (if c < 65 then (if 48 \<le> c \<and> c \<le> 57 then St 21 else
        St 0) else
       if c > 90 then (if 94 \<le> c \<and> c \<le> 122 then St 21 else
        St 0) else
       St 21) else
      St 21)"

definition hc_case_45 :: "int \<Rightarrow> hc_action goto" where
  "hc_case_45 c =
     (if c = 33 then St 21 else if c = 58 then hc_tr_39 else if c = 65 then St 46 else if c = 97 then St 46 else
      if c = 124 then St 21 else if c = 126 then St 21 else
      if c < 45 then (if c > 39 then (if 42 \<le> c \<and> c \<le> 43 then St 21 else
        St 0) else
       if c \<ge> 35 then St 21 else
       St 0) else
      if c > 46 then (if c < 66 then (if 48 \<le> c \<and> c \<le> 57 then St 21 else
        St 0) else
       if c > 90 then (if 94 \<le> c \<and> c \<le> 122 then St 21 else
        St 0) else
       St 21) else
      St 21)"

definition hc_case_46 :: "int \<Rightarrow> hc_action goto" where
  "hc_case_46 c =
     (if c = 33 then St 21 else if c = 58 then hc_tr_39 else if c = 78 then St 47 else if c = 110 then St 47 else
      if c = 124 then St 21 else if c = 126 then St 21 else
      if c < 45 then (if c > 39 then (if 42 \<le> c \<and> c \<le> 43 then St 21 else
        St 0) else
       if c \<ge> 35 then St 21 else
       St 0) else
      if c > 46 then (if c < 65 then (if 48 \<le> c \<and> c \<le> 57 then St 21 else
        St 0) else
       if c > 90 then (if 94 \<le> c \<and> c \<le> 122 then St 21 else
        St 0) else
       St 21) else
      St 21)"

definition hc_case_47 :: "int \<Rightarrow> hc_action goto" where
  "hc_case_47 c =
     (if c = 33 then St 21 else if c = 58 then hc_tr_39 else if c = 83 then St 48 else if c = 115 then St 48 else
      if c = 124 then St 21 else if c = 126 then St 21 else
      if c < 45 then (if c > 39 then (if 42 \<le> c \<and> c \<le> 43 then St 21 else
        St 0) else
       if c \<ge> 35 then St 21 else
       St 0) else
      if c > 46 then (if c < 65 then (if 48 \<le> c \<and> c \<le> 57 then St 21 else
        St 0) else
       if c > 90 then (if 94 \<le> c \<and> c \<le> 122 then St 21 else
        St 0) else
       St 21) else
      St 21)"

definition hc_case_48 :: "int \<Rightarrow> hc_action goto" where
  "hc_case_48 c =
     (if c = 33 then St 21 else if c = 58 then hc_tr_39 else if c = 70 then St 49 else if c = 102 then St 49 else
      if c = 124 then St 21 else if c = 126 then St 21 else
      if c < 45 then (if c > 39 then (if 42 \<le> c \<and> c \<le> 43 then St 21 else
        St 0) else
       if c \<ge> 35 then St 21 else
       St 0) else
      if c > 46 then (if c < 65 then (if 48 \<le> c \<and> c \<le> 57 then St 21 else
        St 0) else
       if c > 90 then (if 94 \<le> c \<and> c \<le> 122 then St 21 else
        St 0) else
       St 21) else
      St 21)"

definition hc_case_49 :: "int \<Rightarrow> hc_action goto" where
  "hc_case_49 c =
     (if c = 33 then St 21 else if c = 58 then hc_tr_39 else if c = 69 then St 50 else if c = 101 then St 50 else
      if c = 124 then St 21 else if c = 126 then St 21 else
      if c < 45 then (if c > 39 then (if 42 \<le> c \<and> c \<le> 43 then St 21 else
        St 0) else
       if c \<ge> 35 then St 21 else
       St 0) else
      if c > 46 then (if c < 65 then (if 48 \<le> c \<and> c \<le> 57 then St 21 else
        St 0) else
       if c > 90 then (if 94 \<le> c \<and> c \<le> 122 then St 21 else
        St 0) else
       St 21) else
      St 21)"

definition hc_case_50 :: "int \<Rightarrow> hc_action goto" where
  "hc_case_50 c =
     (if c = 33 then St 21 else if c = 58 then hc_tr_39 else if c = 82 then St 51 else if c = 114 then St 51 else
      if c = 124 then St 21 else if c = 126 then St 21 else
      if c < 45 then (if c > 39 then (if 42 \<le> c \<and> c \<le> 43 then St 21 else
        St 0) else
       if c \<ge> 35 then St 21 else
       St 0) else
      if c > 46 then (if c < 65 then (if 48 \<le> c \<and> c \<le> 57 then St 21 else
        St 0) else
       if c > 90 then (if 94 \<le> c \<and> c \<le> 122 then St 21 else
        St 0) else
       St 21) else
      St 21)"

definition hc_case_51 :: "int \<Rightarrow> hc_action goto" where
  "hc_case_51 c =
     (if c = 33 then St 21 else if c = 45 then St 52 else if c = 46 then St 21 else if c = 58 then hc_tr_39 else
      if c = 124 then St 21 else if c = 126 then St 21 else
      if c < 48 then (if c > 39 then (if 42 \<le> c \<and> c \<le> 43 then St 21 else
        St 0) else
       if c \<ge> 35 then St 21 else
       St 0) else
      if c > 57 then (if c > 90 then (if 94 \<le> c \<and> c \<le> 122 then St 21 else
        St 0) else
       if c \<ge> 65 then St 21 else
       St 0) else
      St 21)"

definition hc_case_52 :: "int \<Rightarrow> hc_action goto" where
  "hc_case_52 c =
     (if c = 33 then St 21 else if c = 58 then hc_tr_39 else if c = 69 then St 53 else if c = 101 then St 53 else
      if c = 124 then St 21 else if c = 126 then St 21 else
      if c < 45 then (if c > 39 then (if 42 \<le> c \<and> c \<le> 43 then St 21 else
        St 0) else
       if c \<ge> 35 then St 21 else
       St 0) else
      if c > 46 then (if c < 65 then (if 48 \<le> c \<and> c \<le> 57 then St 21 else
        St 0) else
       if c > 90 then (if 94 \<le> c \<and> c \<le> 122 then St 21 else
        St 0) else
       St 21) else
      St 21)"

definition hc_case_53 :: "int \<Rightarrow> hc_action goto" where
  "hc_case_53 c =
     (if c = 33 then St 21 else if c = 58 then hc_tr_39 else if c = 78 then St 54 else if c = 110 then St 54 else
      if c = 124 then St 21 else if c = 126 then St 21 else
      if c < 45 then (if c > 39 then (if 42 \<le> c \<and> c \<le> 43 then St 21 else
        St 0) else
       if c \<ge> 35 then St 21 else
       St 0) else
      if c > 46 then (if c < 65 then (if 48 \<le> c \<and> c \<le> 57 then St 21 else
        St 0) else
       if c > 90 then (if 94 \<le> c \<and> c \<le> 122 then St 21 else
        St 0) else
       St 21) else
      St 21)"

definition hc_case_54 :: "int \<Rightarrow> hc_action goto" where
  "hc_case_54 c =
     (if c = 33 then St 21 else if c = 58 then hc_tr_39 else if c = 67 then St 55 else if c = 99 then St 55 else
      if c = 124 then St 21 else if c = 126 then St 21 else
      if c < 45 then (if c > 39 then (if 42 \<le> c \<and> c \<le> 43 then St 21 else
        St 0) else
       if c \<ge> 35 then St 21 else
       St 0) else
      if c > 46 then (if c < 65 then (if 48 \<le> c \<and> c \<le> 57 then St 21 else
        St 0) else
       if c > 90 then (if 94 \<le> c \<and> c \<le> 122 then St 21 else
        St 0) else
       St 21) else
      St 21)"

definition hc_case_55 :: "int \<Rightarrow> hc_action goto" where
  "hc_case_55 c =
     (if c = 33 then St 21 else if c = 58 then hc_tr_39 else if c = 79 then St 56 else if c = 111 then St 56 else
      if c = 124 then St 21 else if c = 126 then St 21 else
      if c < 45 then (if c > 39 then (if 42 \<le> c \<and> c \<le> 43 then St 21 else
        St 0) else
       if c \<ge> 35 then St 21 else
       St 0) else
      if c > 46 then (if c < 65 then (if 48 \<le> c \<and> c \<le> 57 then St 21 else
        St 0) else
       if c > 90 then (if 94 \<le> c \<and> c \<le> 122 then St 21 else
        St 0) else
       St 21) else
      St 21)"

definition hc_case_56 :: "int \<Rightarrow> hc_action goto" where
  "hc_case_56 c =
     (if c = 33 then St 21 else if c = 58 then hc_tr_39 else if c = 68 then St 57 else if c = 100 then St 57 else
      if c = 124 then St 21 else if c = 126 then St 21 else
      if c < 45 then (if c > 39 then (if 42 \<le> c \<and> c \<le> 43 then St 21 else
        St 0) else
       if c \<ge> 35 then St 21 else
       St 0) else
      if c > 46 then (if c < 65 then (if 48 \<le> c \<and> c \<le> 57 then St 21 else
        St 0) else
       if c > 90 then (if 94 \<le> c \<and> c \<le> 122 then St 21 else
        St 0) else
       St 21) else
      St 21)"

definition hc_case_57 :: "int \<Rightarrow> hc_action goto" where
  "hc_case_57 c =
     (if c = 33 then St 21 else if c = 58 then hc_tr_39 else if c = 73 then St 58 else if c = 105 then St 58 else
      if c = 124 then St 21 else if c = 126 then St 21 else
      if c < 45 then (if c > 39 then (if 42 \<le> c \<and> c \<le> 43 then St 21 else
        St 0) else
       if c \<ge> 35 then St 21 else
       St 0) else
      if c > 46 then (if c < 65 then (if 48 \<le> c \<and> c \<le> 57 then St 21 else
        St 0) else
       if c > 90 then (if 94 \<le> c \<and> c \<le> 122 then St 21 else
        St 0) else
       St 21) else
      St 21)"

definition hc_case_58 :: "int \<Rightarrow> hc_action goto" where
  "hc_case_58 c =
     (if c = 33 then St 21 else if c = 58 then hc_tr_39 else if c = 78 then St 59 else if c = 110 then St 59 else
      if c = 124 then St 21 else if c = 126 then St 21 else
      if c < 45 then (if c > 39 then (if 42 \<le> c \<and> c \<le> 43 then St 21 else
        St 0) else
       if c \<ge> 35 then St 21 else
       St 0) else
      if c > 46 then (if c < 65 then (if 48 \<le> c \<and> c \<le> 57 then St 21 else
        St 0) else
       if c > 90 then (if 94 \<le> c \<and> c \<le> 122 then St 21 else
        St 0) else
       St 21) else
      St 21)"

definition hc_case_59 :: "int \<Rightarrow> hc_action goto" where
  "hc_case_59 c =
     (if c = 33 then St 21 else if c = 58 then hc_tr_39 else if c = 71 then St 60 else if c = 103 then St 60 else
      if c = 124 then St 21 else if c = 126 then St 21 else
      if c < 45 then (if c > 39 then (if 42 \<le> c \<and> c \<le> 43 then St 21 else
        St 0) else
       if c \<ge> 35 then St 21 else
       St 0) else
      if c > 46 then (if c < 65 then (if 48 \<le> c \<and> c \<le> 57 then St 21 else
        St 0) else
       if c > 90 then (if 94 \<le> c \<and> c \<le> 122 then St 21 else
        St 0) else
       St 21) else
      St 21)"

definition hc_case_60 :: "int \<Rightarrow> hc_action goto" where
  "hc_case_60 c =
     (if c = 33 then St 21 else if c = 58 then hc_tr_95 else if c = 124 then St 21 else if c = 126 then St 21 else

      if c < 45 then (if c > 39 then (if 42 \<le> c \<and> c \<le> 43 then St 21 else
        St 0) else
       if c \<ge> 35 then St 21 else
       St 0) else
      if c > 46 then (if c < 65 then (if 48 \<le> c \<and> c \<le> 57 then St 21 else
        St 0) else
       if c > 90 then (if 94 \<le> c \<and> c \<le> 122 then St 21 else
        St 0) else
       St 21) else
      St 21)"

definition hc_case_61 :: "int \<Rightarrow> hc_action goto" where
  "hc_case_61 c =
     (if c = 10 then hc_tr_97 else if c = 13 then hc_tr_98 else if c = 32 then hc_tr_96 else if c = 67 then hc_tr_99 else
      if c = 99 then hc_tr_99 else
      if 9 \<le> c \<and> c \<le> 12 then hc_tr_96 else
      hc_tr_40)"

definition hc_case_62 :: "int \<Rightarrow> hc_action goto" where
  "hc_case_62 c =
     (if c = 10 then hc_tr_101 else if c = 13 then St 72 else if c = 32 then St 63 else if c = 33 then hc_tr_35 else
      if c = 67 then hc_tr_103 else if c = 84 then hc_tr_37 else if c = 99 then hc_tr_103 else if c = 116 then hc_tr_37 else
      if c = 124 then hc_tr_35 else if c = 126 then hc_tr_35 else
      if c < 45 then (if c < 35 then (if 9 \<le> c \<and> c \<le> 12 then St 63 else
        St 0) else
       if c > 39 then (if 42 \<le> c \<and> c \<le> 43 then hc_tr_35 else
        St 0) else
       hc_tr_35) else
      if c > 46 then (if c < 65 then (if 48 \<le> c \<and> c \<le> 57 then hc_tr_35 else
        St 0) else
       if c > 90 then (if 94 \<le> c \<and> c \<le> 122 then hc_tr_35 else
        St 0) else
       hc_tr_35) else
      hc_tr_35)"

definition hc_case_63 :: "int \<Rightarrow> hc_action goto" where
  "hc_case_63 c =
     (if c = 32 then St 63 else if c = 67 then hc_tr_104 else if c = 99 then hc_tr_104 else
      if 9 \<le> c \<and> c \<le> 13 then St 63 else
      St 0)"

definition hc_case_64 :: "int \<Rightarrow> hc_action goto" where
  "hc_case_64 c =
     (if c = 72 then St 65 else if c = 104 then St 65 else
      St 0)"

definition hc_case_65 :: "int \<Rightarrow> hc_action goto" where
  "hc_case_65 c =
     (if c = 85 then St 66 else if c = 117 then St 66 else
      St 0)"

definition hc_case_66 :: "int \<Rightarrow> hc_action goto" where
  "hc_case_66 c =
     (if c = 78 then St 67 else if c = 110 then St 67 else
      St 0)"

definition hc_case_67 :: "int \<Rightarrow> hc_action goto" where
  "hc_case_67 c =
     (if c = 75 then St 68 else if c = 107 then St 68 else
      St 0)"

definition hc_case_68 :: "int \<Rightarrow> hc_action goto" where
  "hc_case_68 c =
     (if c = 69 then St 69 else if c = 101 then St 69 else
      St 0)"

definition hc_case_69 :: "int \<Rightarrow> hc_action goto" where
  "hc_case_69 c =
     (if c = 68 then St 70 else if c = 100 then St 70 else
      St 0)"

definition hc_case_70 :: "int \<Rightarrow> hc_action goto" where
  "hc_case_70 c =
     (if c = 10 then hc_tr_111 else if c = 13 then hc_tr_112 else
      St 0)"

definition hc_case_71 :: "int \<Rightarrow> hc_action goto" where
  "hc_case_71 c =
     (if c = 10 then hc_tr_113 else
      St 0)"

definition hc_case_72 :: "int \<Rightarrow> hc_action goto" where
  "hc_case_72 c =
     (if c = 10 then hc_tr_101 else if c = 32 then St 63 else if c = 67 then hc_tr_104 else if c = 99 then hc_tr_104 else

      if 9 \<le> c \<and> c \<le> 13 then St 63 else
      St 0)"

definition hc_case_73 :: "int \<Rightarrow> hc_action goto" where
  "hc_case_73 c =
     (if c = 33 then St 21 else if c = 58 then hc_tr_39 else if c = 72 then St 74 else if c = 79 then St 26 else
      if c = 104 then St 74 else if c = 111 then St 26 else if c = 124 then St 21 else if c = 126 then St 21 else

      if c < 45 then (if c > 39 then (if 42 \<le> c \<and> c \<le> 43 then St 21 else
        St 0) else
       if c \<ge> 35 then St 21 else
       St 0) else
      if c > 46 then (if c < 65 then (if 48 \<le> c \<and> c \<le> 57 then St 21 else
        St 0) else
       if c > 90 then (if 94 \<le> c \<and> c \<le> 122 then St 21 else
        St 0) else
       St 21) else
      St 21)"

definition hc_case_74 :: "int \<Rightarrow> hc_action goto" where
  "hc_case_74 c =
     (if c = 33 then St 21 else if c = 58 then hc_tr_39 else if c = 85 then St 75 else if c = 117 then St 75 else
      if c = 124 then St 21 else if c = 126 then St 21 else
      if c < 45 then (if c > 39 then (if 42 \<le> c \<and> c \<le> 43 then St 21 else
        St 0) else
       if c \<ge> 35 then St 21 else
       St 0) else
      if c > 46 then (if c < 65 then (if 48 \<le> c \<and> c \<le> 57 then St 21 else
        St 0) else
       if c > 90 then (if 94 \<le> c \<and> c \<le> 122 then St 21 else
        St 0) else
       St 21) else
      St 21)"

definition hc_case_75 :: "int \<Rightarrow> hc_action goto" where
  "hc_case_75 c =
     (if c = 33 then St 21 else if c = 58 then hc_tr_39 else if c = 78 then St 76 else if c = 110 then St 76 else
      if c = 124 then St 21 else if c = 126 then St 21 else
      if c < 45 then (if c > 39 then (if 42 \<le> c \<and> c \<le> 43 then St 21 else
        St 0) else
       if c \<ge> 35 then St 21 else
       St 0) else
      if c > 46 then (if c < 65 then (if 48 \<le> c \<and> c \<le> 57 then St 21 else
        St 0) else
       if c > 90 then (if 94 \<le> c \<and> c \<le> 122 then St 21 else
        St 0) else
       St 21) else
      St 21)"

definition hc_case_76 :: "int \<Rightarrow> hc_action goto" where
  "hc_case_76 c =
     (if c = 33 then St 21 else if c = 58 then hc_tr_39 else if c = 75 then St 77 else if c = 107 then St 77 else
      if c = 124 then St 21 else if c = 126 then St 21 else
      if c < 45 then (if c > 39 then (if 42 \<le> c \<and> c \<le> 43 then St 21 else
        St 0) else
       if c \<ge> 35 then St 21 else
       St 0) else
      if c > 46 then (if c < 65 then (if 48 \<le> c \<and> c \<le> 57 then St 21 else
        St 0) else
       if c > 90 then (if 94 \<le> c \<and> c \<le> 122 then St 21 else
        St 0) else
       St 21) else
      St 21)"

definition hc_case_77 :: "int \<Rightarrow> hc_action goto" where
  "hc_case_77 c =
     (if c = 33 then St 21 else if c = 58 then hc_tr_39 else if c = 69 then St 78 else if c = 101 then St 78 else
      if c = 124 then St 21 else if c = 126 then St 21 else
      if c < 45 then (if c > 39 then (if 42 \<le> c \<and> c \<le> 43 then St 21 else
        St 0) else
       if c \<ge> 35 then St 21 else
       St 0) else
      if c > 46 then (if c < 65 then (if 48 \<le> c \<and> c \<le> 57 then St 21 else
        St 0) else
       if c > 90 then (if 94 \<le> c \<and> c \<le> 122 then St 21 else
        St 0) else
       St 21) else
      St 21)"

definition hc_case_78 :: "int \<Rightarrow> hc_action goto" where
  "hc_case_78 c =
     (if c = 33 then St 21 else if c = 58 then hc_tr_39 else if c = 68 then St 79 else if c = 100 then St 79 else
      if c = 124 then St 21 else if c = 126 then St 21 else
      if c < 45 then (if c > 39 then (if 42 \<le> c \<and> c \<le> 43 then St 21 else
        St 0) else
       if c \<ge> 35 then St 21 else
       St 0) else
      if c > 46 then (if c < 65 then (if 48 \<le> c \<and> c \<le> 57 then St 21 else
        St 0) else
       if c > 90 then (if 94 \<le> c \<and> c \<le> 122 then St 21 else
        St 0) else
       St 21) else
      St 21)"

definition hc_case_79 :: "int \<Rightarrow> hc_action goto" where
  "hc_case_79 c =
     (if c = 10 then hc_tr_111 else if c = 13 then hc_tr_112 else if c = 33 then St 21 else if c = 58 then hc_tr_39 else
      if c = 124 then St 21 else if c = 126 then St 21 else
      if c < 45 then (if c > 39 then (if 42 \<le> c \<and> c \<le> 43 then St 21 else
        St 0) else
       if c \<ge> 35 then St 21 else
       St 0) else
      if c > 46 then (if c < 65 then (if 48 \<le> c \<and> c \<le> 57 then St 21 else
        St 0) else
       if c > 90 then (if 94 \<le> c \<and> c \<le> 122 then St 21 else
        St 0) else
       St 21) else
      St 21)"

definition hc_case_80 :: "int \<Rightarrow> hc_action goto" where
  "hc_case_80 c =
     (if c = 10 then St 62 else if c = 32 then St 63 else if c = 67 then hc_tr_104 else if c = 99 then hc_tr_104 else

      if 9 \<le> c \<and> c \<le> 13 then St 63 else
      St 0)"

definition hc_case_81 :: "int \<Rightarrow> hc_action goto" where
  "hc_case_81 c =
     (if c = 10 then hc_tr_45 else if c = 13 then hc_tr_46 else if c = 72 then St 82 else if c = 104 then St 82 else

      St 23)"

definition hc_case_82 :: "int \<Rightarrow> hc_action goto" where
  "hc_case_82 c =
     (if c = 10 then hc_tr_45 else if c = 13 then hc_tr_46 else if c = 85 then St 83 else if c = 117 then St 83 else

      St 23)"

definition hc_case_83 :: "int \<Rightarrow> hc_action goto" where
  "hc_case_83 c =
     (if c = 10 then hc_tr_45 else if c = 13 then hc_tr_46 else if c = 78 then St 84 else if c = 110 then St 84 else

      St 23)"

definition hc_case_84 :: "int \<Rightarrow> hc_action goto" where
  "hc_case_84 c =
     (if c = 10 then hc_tr_45 else if c = 13 then hc_tr_46 else if c = 75 then St 85 else if c = 107 then St 85 else

      St 23)"

definition hc_case_85 :: "int \<Rightarrow> hc_action goto" where
  "hc_case_85 c =
     (if c = 10 then hc_tr_45 else if c = 13 then hc_tr_46 else if c = 69 then St 86 else if c = 101 then St 86 else

      St 23)"

definition hc_case_86 :: "int \<Rightarrow> hc_action goto" where
  "hc_case_86 c =
     (if c = 10 then hc_tr_45 else if c = 13 then hc_tr_46 else if c = 68 then St 87 else if c = 100 then St 87 else

      St 23)"

definition hc_case_87 :: "int \<Rightarrow> hc_action goto" where
  "hc_case_87 c =
     (if c = 10 then hc_tr_111 else if c = 13 then hc_tr_112 else
      St 23)"

definition hc_case_88 :: "int \<Rightarrow> hc_action goto" where
  "hc_case_88 c =
     (if c = 10 then St 43 else
      St 0)"

definition hc_case_89 :: "int \<Rightarrow> hc_action goto" where
  "hc_case_89 c =
     (if c = 10 then hc_tr_64 else if c = 32 then St 37 else if c = 67 then St 38 else if c = 99 then St 38 else

      if 9 \<le> c \<and> c \<le> 13 then St 37 else
      St 0)"

definition hc_case_90 :: "int \<Rightarrow> hc_action goto" where
  "hc_case_90 c =
     (if c = 33 then St 21 else if c = 58 then hc_tr_39 else if c = 76 then St 91 else if c = 79 then St 26 else
      if c = 108 then St 91 else if c = 111 then St 26 else if c = 124 then St 21 else if c = 126 then St 21 else

      if c < 45 then (if c > 39 then (if 42 \<le> c \<and> c \<le> 43 then St 21 else
        St 0) else
       if c \<ge> 35 then St 21 else
       St 0) else
      if c > 46 then (if c < 65 then (if 48 \<le> c \<and> c \<le> 57 then St 21 else
        St 0) else
       if c > 90 then (if 94 \<le> c \<and> c \<le> 122 then St 21 else
        St 0) else
       St 21) else
      St 21)"

definition hc_case_91 :: "int \<Rightarrow> hc_action goto" where
  "hc_case_91 c =
     (if c = 33 then St 21 else if c = 58 then hc_tr_39 else if c = 79 then St 92 else if c = 111 then St 92 else
      if c = 124 then St 21 else if c = 126 then St 21 else
      if c < 45 then (if c > 39 then (if 42 \<le> c \<and> c \<le> 43 then St 21 else
        St 0) else
       if c \<ge> 35 then St 21 else
       St 0) else
      if c > 46 then (if c < 65 then (if 48 \<le> c \<and> c \<le> 57 then St 21 else
        St 0) else
       if c > 90 then (if 94 \<le> c \<and> c \<le> 122 then St 21 else
        St 0) else
       St 21) else
      St 21)"

definition hc_case_92 :: "int \<Rightarrow> hc_action goto" where
  "hc_case_92 c =
     (if c = 33 then St 21 else if c = 58 then hc_tr_39 else if c = 83 then St 93 else if c = 115 then St 93 else
      if c = 124 then St 21 else if c = 126 then St 21 else
      if c < 45 then (if c > 39 then (if 42 \<le> c \<and> c \<le> 43 then St 21 else
        St 0) else
       if c \<ge> 35 then St 21 else
       St 0) else
      if c > 46 then (if c < 65 then (if 48 \<le> c \<and> c \<le> 57 then St 21 else
        St 0) else
       if c > 90 then (if 94 \<le> c \<and> c \<le> 122 then St 21 else
        St 0) else
       St 21) else
      St 21)"

definition hc_case_93 :: "int \<Rightarrow> hc_action goto" where
  "hc_case_93 c =
     (if c = 33 then St 21 else if c = 58 then hc_tr_39 else if c = 69 then St 94 else if c = 101 then St 94 else
      if c = 124 then St 21 else if c = 126 then St 21 else
      if c < 45 then (if c > 39 then (if 42 \<le> c \<and> c \<le> 43 then St 21 else
        St 0) else
       if c \<ge> 35 then St 21 else
       St 0) else
      if c > 46 then (if c < 65 then (if 48 \<le> c \<and> c \<le> 57 then St 21 else
        St 0) else
       if c > 90 then (if 94 \<le> c \<and> c \<le> 122 then St 21 else
        St 0) else
       St 21) else
      St 21)"

definition hc_case_94 :: "int \<Rightarrow> hc_action goto" where
  "hc_case_94 c =
     (if c = 10 then St 43 else if c = 13 then St 88 else if c = 33 then St 21 else if c = 58 then hc_tr_39 else
      if c = 124 then St 21 else if c = 126 then St 21 else
      if c < 45 then (if c > 39 then (if 42 \<le> c \<and> c \<le> 43 then St 21 else
        St 0) else
       if c \<ge> 35 then St 21 else
       St 0) else
      if c > 46 then (if c < 65 then (if 48 \<le> c \<and> c \<le> 57 then St 21 else
        St 0) else
       if c > 90 then (if 94 \<le> c \<and> c \<le> 122 then St 21 else
        St 0) else
       St 21) else
      St 21)"

definition hc_case_95 :: "int \<Rightarrow> hc_action goto" where
  "hc_case_95 c =
     (if c = 10 then St 36 else if c = 32 then St 37 else if c = 67 then St 38 else if c = 99 then St 38 else

      if 9 \<le> c \<and> c \<le> 13 then St 37 else
      St 0)"

definition hc_case_96 :: "int \<Rightarrow> hc_action goto" where
  "hc_case_96 c =
     (if c = 10 then hc_tr_45 else if c = 13 then hc_tr_46 else if c = 76 then St 97 else if c = 108 then St 97 else

      St 23)"

definition hc_case_97 :: "int \<Rightarrow> hc_action goto" where
  "hc_case_97 c =
     (if c = 10 then hc_tr_45 else if c = 13 then hc_tr_46 else if c = 79 then St 98 else if c = 111 then St 98 else

      St 23)"

definition hc_case_98 :: "int \<Rightarrow> hc_action goto" where
  "hc_case_98 c =
     (if c = 10 then hc_tr_45 else if c = 13 then hc_tr_46 else if c = 83 then St 99 else if c = 115 then St 99 else

      St 23)"

definition hc_case_99 :: "int \<Rightarrow> hc_action goto" where
  "hc_case_99 c =
     (if c = 10 then hc_tr_45 else if c = 13 then hc_tr_46 else if c = 69 then St 100 else if c = 101 then St 100 else

      St 23)"

definition hc_case_100 :: "int \<Rightarrow> hc_action goto" where
  "hc_case_100 c =
     (if c = 10 then hc_tr_136 else if c = 13 then hc_tr_137 else
      St 23)"

definition hc_case_101 :: "int \<Rightarrow> hc_action goto" where
  "hc_case_101 c =
     (if c = 33 then St 21 else if c = 58 then hc_tr_39 else if c = 69 then St 102 else if c = 101 then St 102 else
      if c = 124 then St 21 else if c = 126 then St 21 else
      if c < 45 then (if c > 39 then (if 42 \<le> c \<and> c \<le> 43 then St 21 else
        St 0) else
       if c \<ge> 35 then St 21 else
       St 0) else
      if c > 46 then (if c < 65 then (if 48 \<le> c \<and> c \<le> 57 then St 21 else
        St 0) else
       if c > 90 then (if 94 \<le> c \<and> c \<le> 122 then St 21 else
        St 0) else
       St 21) else
      St 21)"

definition hc_case_102 :: "int \<Rightarrow> hc_action goto" where
  "hc_case_102 c =
     (if c = 33 then St 21 else if c = 58 then hc_tr_39 else if c = 78 then St 103 else if c = 110 then St 103 else
      if c = 124 then St 21 else if c = 126 then St 21 else
      if c < 45 then (if c > 39 then (if 42 \<le> c \<and> c \<le> 43 then St 21 else
        St 0) else
       if c \<ge> 35 then St 21 else
       St 0) else
      if c > 46 then (if c < 65 then (if 48 \<le> c \<and> c \<le> 57 then St 21 else
        St 0) else
       if c > 90 then (if 94 \<le> c \<and> c \<le> 122 then St 21 else
        St 0) else
       St 21) else
      St 21)"

definition hc_case_103 :: "int \<Rightarrow> hc_action goto" where
  "hc_case_103 c =
     (if c = 33 then St 21 else if c = 58 then hc_tr_39 else if c = 84 then St 104 else if c = 116 then St 104 else
      if c = 124 then St 21 else if c = 126 then St 21 else
      if c < 45 then (if c > 39 then (if 42 \<le> c \<and> c \<le> 43 then St 21 else
        St 0) else
       if c \<ge> 35 then St 21 else
       St 0) else
      if c > 46 then (if c < 65 then (if 48 \<le> c \<and> c \<le> 57 then St 21 else
        St 0) else
       if c > 90 then (if 94 \<le> c \<and> c \<le> 122 then St 21 else
        St 0) else
       St 21) else
      St 21)"

definition hc_case_104 :: "int \<Rightarrow> hc_action goto" where
  "hc_case_104 c =
     (if c = 33 then St 21 else if c = 45 then St 105 else if c = 46 then St 21 else if c = 58 then hc_tr_39 else
      if c = 124 then St 21 else if c = 126 then St 21 else
      if c < 48 then (if c > 39 then (if 42 \<le> c \<and> c \<le> 43 then St 21 else
        St 0) else
       if c \<ge> 35 then St 21 else
       St 0) else
      if c > 57 then (if c > 90 then (if 94 \<le> c \<and> c \<le> 122 then St 21 else
        St 0) else
       if c \<ge> 65 then St 21 else
       St 0) else
      St 21)"

definition hc_case_105 :: "int \<Rightarrow> hc_action goto" where
  "hc_case_105 c =
     (if c = 33 then St 21 else if c = 58 then hc_tr_39 else if c = 76 then St 106 else if c = 108 then St 106 else
      if c = 124 then St 21 else if c = 126 then St 21 else
      if c < 45 then (if c > 39 then (if 42 \<le> c \<and> c \<le> 43 then St 21 else
        St 0) else
       if c \<ge> 35 then St 21 else
       St 0) else
      if c > 46 then (if c < 65 then (if 48 \<le> c \<and> c \<le> 57 then St 21 else
        St 0) else
       if c > 90 then (if 94 \<le> c \<and> c \<le> 122 then St 21 else
        St 0) else
       St 21) else
      St 21)"

definition hc_case_106 :: "int \<Rightarrow> hc_action goto" where
  "hc_case_106 c =
     (if c = 33 then St 21 else if c = 58 then hc_tr_39 else if c = 69 then St 107 else if c = 101 then St 107 else
      if c = 124 then St 21 else if c = 126 then St 21 else
      if c < 45 then (if c > 39 then (if 42 \<le> c \<and> c \<le> 43 then St 21 else
        St 0) else
       if c \<ge> 35 then St 21 else
       St 0) else
      if c > 46 then (if c < 65 then (if 48 \<le> c \<and> c \<le> 57 then St 21 else
        St 0) else
       if c > 90 then (if 94 \<le> c \<and> c \<le> 122 then St 21 else
        St 0) else
       St 21) else
      St 21)"

definition hc_case_107 :: "int \<Rightarrow> hc_action goto" where
  "hc_case_107 c =
     (if c = 33 then St 21 else if c = 58 then hc_tr_39 else if c = 78 then St 108 else if c = 110 then St 108 else
      if c = 124 then St 21 else if c = 126 then St 21 else
      if c < 45 then (if c > 39 then (if 42 \<le> c \<and> c \<le> 43 then St 21 else
        St 0) else
       if c \<ge> 35 then St 21 else
       St 0) else
      if c > 46 then (if c < 65 then (if 48 \<le> c \<and> c \<le> 57 then St 21 else
        St 0) else
       if c > 90 then (if 94 \<le> c \<and> c \<le> 122 then St 21 else
        St 0) else
       St 21) else
      St 21)"

definition hc_case_108 :: "int \<Rightarrow> hc_action goto" where
  "hc_case_108 c =
     (if c = 33 then St 21 else if c = 58 then hc_tr_39 else if c = 71 then St 109 else if c = 103 then St 109 else
      if c = 124 then St 21 else if c = 126 then St 21 else
      if c < 45 then (if c > 39 then (if 42 \<le> c \<and> c \<le> 43 then St 21 else
        St 0) else
       if c \<ge> 35 then St 21 else
       St 0) else
      if c > 46 then (if c < 65 then (if 48 \<le> c \<and> c \<le> 57 then St 21 else
        St 0) else
       if c > 90 then (if 94 \<le> c \<and> c \<le> 122 then St 21 else
        St 0) else
       St 21) else
      St 21)"

definition hc_case_109 :: "int \<Rightarrow> hc_action goto" where
  "hc_case_109 c =
     (if c = 33 then St 21 else if c = 58 then hc_tr_39 else if c = 84 then St 110 else if c = 116 then St 110 else
      if c = 124 then St 21 else if c = 126 then St 21 else
      if c < 45 then (if c > 39 then (if 42 \<le> c \<and> c \<le> 43 then St 21 else
        St 0) else
       if c \<ge> 35 then St 21 else
       St 0) else
      if c > 46 then (if c < 65 then (if 48 \<le> c \<and> c \<le> 57 then St 21 else
        St 0) else
       if c > 90 then (if 94 \<le> c \<and> c \<le> 122 then St 21 else
        St 0) else
       St 21) else
      St 21)"

definition hc_case_110 :: "int \<Rightarrow> hc_action goto" where
  "hc_case_110 c =
     (if c = 33 then St 21 else if c = 58 then hc_tr_39 else if c = 72 then St 111 else if c = 104 then St 111 else
      if c = 124 then St 21 else if c = 126 then St 21 else
      if c < 45 then (if c > 39 then (if 42 \<le> c \<and> c \<le> 43 then St 21 else
        St 0) else
       if c \<ge> 35 then St 21 else
       St 0) else
      if c > 46 then (if c < 65 then (if 48 \<le> c \<and> c \<le> 57 then St 21 else
        St 0) else
       if c > 90 then (if 94 \<le> c \<and> c \<le> 122 then St 21 else
        St 0) else
       St 21) else
      St 21)"

definition hc_case_111 :: "int \<Rightarrow> hc_action goto" where
  "hc_case_111 c =
     (if c = 33 then St 21 else if c = 58 then hc_tr_148 else if c = 124 then St 21 else if c = 126 then St 21 else

      if c < 45 then (if c > 39 then (if 42 \<le> c \<and> c \<le> 43 then St 21 else
        St 0) else
       if c \<ge> 35 then St 21 else
       St 0) else
      if c > 46 then (if c < 65 then (if 48 \<le> c \<and> c \<le> 57 then St 21 else
        St 0) else
       if c > 90 then (if 94 \<le> c \<and> c \<le> 122 then St 21 else
        St 0) else
       St 21) else
      St 21)"

definition hc_case_112 :: "int \<Rightarrow> hc_action goto" where
  "hc_case_112 c =
     (if c = 10 then hc_tr_150 else if c = 13 then hc_tr_151 else if c = 32 then hc_tr_149 else
      if c > 12 then (if 48 \<le> c \<and> c \<le> 57 then hc_tr_152 else
       hc_tr_40) else
      if c \<ge> 9 then hc_tr_149 else
      hc_tr_40)"

definition hc_case_113 :: "int \<Rightarrow> hc_action goto" where
  "hc_case_113 c =
     (if c = 10 then hc_tr_154 else if c = 13 then St 116 else if c = 32 then St 114 else if c = 33 then hc_tr_35 else
      if c = 67 then hc_tr_36 else if c = 84 then hc_tr_37 else if c = 99 then hc_tr_36 else if c = 116 then hc_tr_37 else
      if c = 124 then hc_tr_35 else if c = 126 then hc_tr_35 else
      if c < 45 then (if c < 35 then (if 9 \<le> c \<and> c \<le> 12 then St 114 else
        St 0) else
       if c > 39 then (if 42 \<le> c \<and> c \<le> 43 then hc_tr_35 else
        St 0) else
       hc_tr_35) else
      if c > 46 then (if c < 65 then (if 48 \<le> c \<and> c \<le> 57 then hc_tr_156 else
        St 0) else
       if c > 90 then (if 94 \<le> c \<and> c \<le> 122 then hc_tr_35 else
        St 0) else
       hc_tr_35) else
      hc_tr_35)"

definition hc_case_114 :: "int \<Rightarrow> hc_action goto" where
  "hc_case_114 c =
     (if c = 32 then St 114 else
      if c > 13 then (if 48 \<le> c \<and> c \<le> 57 then hc_tr_157 else
       St 0) else
      if c \<ge> 9 then St 114 else
      St 0)"

definition hc_case_115 :: "int \<Rightarrow> hc_action goto" where
  "hc_case_115 c =
     (if c = 10 then hc_tr_158 else if c = 13 then hc_tr_159 else
      if 48 \<le> c \<and> c \<le> 57 then St 115 else
      St 0)"

definition hc_case_116 :: "int \<Rightarrow> hc_action goto" where
  "hc_case_116 c =
     (if c = 10 then hc_tr_154 else if c = 32 then St 114 else
      if c > 13 then (if 48 \<le> c \<and> c \<le> 57 then hc_tr_157 else
       St 0) else
      if c \<ge> 9 then St 114 else
      St 0)"

definition hc_case_117 :: "int \<Rightarrow> hc_action goto" where
  "hc_case_117 c =
     (if c = 10 then hc_tr_158 else if c = 13 then hc_tr_159 else if c = 33 then St 21 else if c = 58 then hc_tr_39 else
      if c = 124 then St 21 else if c = 126 then St 21 else
      if c < 45 then (if c > 39 then (if 42 \<le> c \<and> c \<le> 43 then St 21 else
        St 0) else
       if c \<ge> 35 then St 21 else
       St 0) else
      if c > 46 then (if c < 65 then (if 48 \<le> c \<and> c \<le> 57 then St 117 else
        St 0) else
       if c > 90 then (if 94 \<le> c \<and> c \<le> 122 then St 21 else
        St 0) else
       St 21) else
      St 21)"

definition hc_case_118 :: "int \<Rightarrow> hc_action goto" where
  "hc_case_118 c =
     (if c = 10 then St 113 else if c = 32 then St 114 else
      if c > 13 then (if 48 \<le> c \<and> c \<le> 57 then hc_tr_157 else
       St 0) else
      if c \<ge> 9 then St 114 else
      St 0)"

definition hc_case_119 :: "int \<Rightarrow> hc_action goto" where
  "hc_case_119 c =
     (if c = 10 then hc_tr_158 else if c = 13 then hc_tr_159 else
      if 48 \<le> c \<and> c \<le> 57 then St 119 else
      St 23)"

definition hc_case_120 :: "int \<Rightarrow> hc_action goto" where
  "hc_case_120 c =
     St 0"

definition hc_case_121 :: "int \<Rightarrow> hc_action goto" where
  "hc_case_121 c =
     (if c = 32 then St 63 else if c = 67 then hc_tr_104 else if c = 99 then hc_tr_104 else
      if 9 \<le> c \<and> c \<le> 13 then St 63 else
      St 0)"

definition hc_case_122 :: "int \<Rightarrow> hc_action goto" where
  "hc_case_122 c =
     (if c = 32 then St 37 else if c = 67 then St 38 else if c = 99 then St 38 else
      if 9 \<le> c \<and> c \<le> 13 then St 37 else
      St 0)"

definition hc_case_123 :: "int \<Rightarrow> hc_action goto" where
  "hc_case_123 c =
     (if c = 32 then St 114 else
      if c > 13 then (if 48 \<le> c \<and> c \<le> 57 then hc_tr_157 else
       St 0) else
      if c \<ge> 9 then St 114 else
      St 0)"

text \<open>\<^verbatim>\<open>switch ( cs )\<close>. There is no state outside the table: the label is never reached with one.\<close>

definition hc_case :: "nat \<Rightarrow> int \<Rightarrow> hc_action goto" where
  "hc_case n c =
     (if n = 0 \<or> 123 < n then St 0 else
      if n < 62 then (if n < 31 then (if n < 16 then (if n < 8 then (if n < 4 then (if n < 2 then hc_case_1 c else
           if n < 3 then hc_case_2 c else
            hc_case_3 c) else
          if n < 6 then (if n < 5 then hc_case_4 c else
            hc_case_5 c) else
           if n < 7 then hc_case_6 c else
            hc_case_7 c) else
         if n < 12 then (if n < 10 then (if n < 9 then hc_case_8 c else
            hc_case_9 c) else
           if n < 11 then hc_case_10 c else
            hc_case_11 c) else
          if n < 14 then (if n < 13 then hc_case_12 c else
            hc_case_13 c) else
           if n < 15 then hc_case_14 c else
            hc_case_15 c) else
        if n < 23 then (if n < 19 then (if n < 17 then hc_case_16 c else
           if n < 18 then hc_case_17 c else
            hc_case_18 c) else
          if n < 21 then (if n < 20 then hc_case_19 c else
            hc_case_20 c) else
           if n < 22 then hc_case_21 c else
            hc_case_22 c) else
         if n < 27 then (if n < 25 then (if n < 24 then hc_case_23 c else
            hc_case_24 c) else
           if n < 26 then hc_case_25 c else
            hc_case_26 c) else
          if n < 29 then (if n < 28 then hc_case_27 c else
            hc_case_28 c) else
           if n < 30 then hc_case_29 c else
            hc_case_30 c) else
       if n < 46 then (if n < 38 then (if n < 34 then (if n < 32 then hc_case_31 c else
           if n < 33 then hc_case_32 c else
            hc_case_33 c) else
          if n < 36 then (if n < 35 then hc_case_34 c else
            hc_case_35 c) else
           if n < 37 then hc_case_36 c else
            hc_case_37 c) else
         if n < 42 then (if n < 40 then (if n < 39 then hc_case_38 c else
            hc_case_39 c) else
           if n < 41 then hc_case_40 c else
            hc_case_41 c) else
          if n < 44 then (if n < 43 then hc_case_42 c else
            hc_case_43 c) else
           if n < 45 then hc_case_44 c else
            hc_case_45 c) else
        if n < 54 then (if n < 50 then (if n < 48 then (if n < 47 then hc_case_46 c else
            hc_case_47 c) else
           if n < 49 then hc_case_48 c else
            hc_case_49 c) else
          if n < 52 then (if n < 51 then hc_case_50 c else
            hc_case_51 c) else
           if n < 53 then hc_case_52 c else
            hc_case_53 c) else
         if n < 58 then (if n < 56 then (if n < 55 then hc_case_54 c else
            hc_case_55 c) else
           if n < 57 then hc_case_56 c else
            hc_case_57 c) else
          if n < 60 then (if n < 59 then hc_case_58 c else
            hc_case_59 c) else
           if n < 61 then hc_case_60 c else
            hc_case_61 c) else
      if n < 93 then (if n < 77 then (if n < 69 then (if n < 65 then (if n < 63 then hc_case_62 c else
           if n < 64 then hc_case_63 c else
            hc_case_64 c) else
          if n < 67 then (if n < 66 then hc_case_65 c else
            hc_case_66 c) else
           if n < 68 then hc_case_67 c else
            hc_case_68 c) else
         if n < 73 then (if n < 71 then (if n < 70 then hc_case_69 c else
            hc_case_70 c) else
           if n < 72 then hc_case_71 c else
            hc_case_72 c) else
          if n < 75 then (if n < 74 then hc_case_73 c else
            hc_case_74 c) else
           if n < 76 then hc_case_75 c else
            hc_case_76 c) else
        if n < 85 then (if n < 81 then (if n < 79 then (if n < 78 then hc_case_77 c else
            hc_case_78 c) else
           if n < 80 then hc_case_79 c else
            hc_case_80 c) else
          if n < 83 then (if n < 82 then hc_case_81 c else
            hc_case_82 c) else
           if n < 84 then hc_case_83 c else
            hc_case_84 c) else
         if n < 89 then (if n < 87 then (if n < 86 then hc_case_85 c else
            hc_case_86 c) else
           if n < 88 then hc_case_87 c else
            hc_case_88 c) else
          if n < 91 then (if n < 90 then hc_case_89 c else
            hc_case_90 c) else
           if n < 92 then hc_case_91 c else
            hc_case_92 c) else
       if n < 108 then (if n < 100 then (if n < 96 then (if n < 94 then hc_case_93 c else
           if n < 95 then hc_case_94 c else
            hc_case_95 c) else
          if n < 98 then (if n < 97 then hc_case_96 c else
            hc_case_97 c) else
           if n < 99 then hc_case_98 c else
            hc_case_99 c) else
         if n < 104 then (if n < 102 then (if n < 101 then hc_case_100 c else
            hc_case_101 c) else
           if n < 103 then hc_case_102 c else
            hc_case_103 c) else
          if n < 106 then (if n < 105 then hc_case_104 c else
            hc_case_105 c) else
           if n < 107 then hc_case_106 c else
            hc_case_107 c) else
        if n < 116 then (if n < 112 then (if n < 110 then (if n < 109 then hc_case_108 c else
            hc_case_109 c) else
           if n < 111 then hc_case_110 c else
            hc_case_111 c) else
          if n < 114 then (if n < 113 then hc_case_112 c else
            hc_case_113 c) else
           if n < 115 then hc_case_114 c else
            hc_case_115 c) else
         if n < 120 then (if n < 118 then (if n < 117 then hc_case_116 c else
            hc_case_117 c) else
           if n < 119 then hc_case_118 c else
            hc_case_119 c) else
          if n < 122 then (if n < 121 then hc_case_120 c else
            hc_case_121 c) else
           if n < 123 then hc_case_122 c else
            hc_case_123 c)"

lemmas hc_tr_defs =
  hc_tr_0_def hc_tr_2_def hc_tr_3_def hc_tr_4_def hc_tr_6_def hc_tr_7_def hc_tr_8_def hc_tr_9_def
  hc_tr_10_def hc_tr_12_def hc_tr_13_def hc_tr_14_def hc_tr_15_def hc_tr_16_def hc_tr_18_def hc_tr_26_def
  hc_tr_27_def hc_tr_28_def hc_tr_30_def hc_tr_32_def hc_tr_33_def hc_tr_35_def hc_tr_36_def hc_tr_37_def
  hc_tr_39_def hc_tr_40_def hc_tr_41_def hc_tr_42_def hc_tr_43_def hc_tr_45_def hc_tr_46_def hc_tr_58_def
  hc_tr_59_def hc_tr_60_def hc_tr_61_def hc_tr_62_def hc_tr_64_def hc_tr_66_def hc_tr_74_def hc_tr_75_def
  hc_tr_76_def hc_tr_77_def hc_tr_78_def hc_tr_95_def hc_tr_96_def hc_tr_97_def hc_tr_98_def hc_tr_99_def
  hc_tr_101_def hc_tr_103_def hc_tr_104_def hc_tr_111_def hc_tr_112_def hc_tr_113_def hc_tr_136_def hc_tr_137_def
  hc_tr_148_def hc_tr_149_def hc_tr_150_def hc_tr_151_def hc_tr_152_def hc_tr_154_def hc_tr_156_def hc_tr_157_def
  hc_tr_158_def hc_tr_159_def

text \<open>Fast access to the table.\<close>

lemma hc_case_simps:
  "hc_case (Suc 0) = hc_case_1" "hc_case 2 = hc_case_2" "hc_case 3 = hc_case_3"
  "hc_case 4 = hc_case_4" "hc_case 5 = hc_case_5" "hc_case 6 = hc_case_6"
  "hc_case 7 = hc_case_7" "hc_case 8 = hc_case_8" "hc_case 9 = hc_case_9"
  "hc_case 10 = hc_case_10" "hc_case 11 = hc_case_11" "hc_case 12 = hc_case_12"
  "hc_case 13 = hc_case_13" "hc_case 14 = hc_case_14" "hc_case 15 = hc_case_15"
  "hc_case 16 = hc_case_16" "hc_case 17 = hc_case_17" "hc_case 18 = hc_case_18"
  "hc_case 19 = hc_case_19" "hc_case 20 = hc_case_20" "hc_case 21 = hc_case_21"
  "hc_case 22 = hc_case_22" "hc_case 23 = hc_case_23" "hc_case 24 = hc_case_24"
  "hc_case 25 = hc_case_25" "hc_case 26 = hc_case_26" "hc_case 27 = hc_case_27"
  "hc_case 28 = hc_case_28" "hc_case 29 = hc_case_29" "hc_case 30 = hc_case_30"
  "hc_case 31 = hc_case_31" "hc_case 32 = hc_case_32" "hc_case 33 = hc_case_33"
  "hc_case 34 = hc_case_34" "hc_case 35 = hc_case_35" "hc_case 36 = hc_case_36"
  "hc_case 37 = hc_case_37" "hc_case 38 = hc_case_38" "hc_case 39 = hc_case_39"
  "hc_case 40 = hc_case_40" "hc_case 41 = hc_case_41" "hc_case 42 = hc_case_42"
  "hc_case 43 = hc_case_43" "hc_case 44 = hc_case_44" "hc_case 45 = hc_case_45"
  "hc_case 46 = hc_case_46" "hc_case 47 = hc_case_47" "hc_case 48 = hc_case_48"
  "hc_case 49 = hc_case_49" "hc_case 50 = hc_case_50" "hc_case 51 = hc_case_51"
  "hc_case 52 = hc_case_52" "hc_case 53 = hc_case_53" "hc_case 54 = hc_case_54"
  "hc_case 55 = hc_case_55" "hc_case 56 = hc_case_56" "hc_case 57 = hc_case_57"
  "hc_case 58 = hc_case_58" "hc_case 59 = hc_case_59" "hc_case 60 = hc_case_60"
  "hc_case 61 = hc_case_61" "hc_case 62 = hc_case_62" "hc_case 63 = hc_case_63"
  "hc_case 64 = hc_case_64" "hc_case 65 = hc_case_65" "hc_case 66 = hc_case_66"
  "hc_case 67 = hc_case_67" "hc_case 68 = hc_case_68" "hc_case 69 = hc_case_69"
  "hc_case 70 = hc_case_70" "hc_case 71 = hc_case_71" "hc_case 72 = hc_case_72"
  "hc_case 73 = hc_case_73" "hc_case 74 = hc_case_74" "hc_case 75 = hc_case_75"
  "hc_case 76 = hc_case_76" "hc_case 77 = hc_case_77" "hc_case 78 = hc_case_78"
  "hc_case 79 = hc_case_79" "hc_case 80 = hc_case_80" "hc_case 81 = hc_case_81"
  "hc_case 82 = hc_case_82" "hc_case 83 = hc_case_83" "hc_case 84 = hc_case_84"
  "hc_case 85 = hc_case_85" "hc_case 86 = hc_case_86" "hc_case 87 = hc_case_87"
  "hc_case 88 = hc_case_88" "hc_case 89 = hc_case_89" "hc_case 90 = hc_case_90"
  "hc_case 91 = hc_case_91" "hc_case 92 = hc_case_92" "hc_case 93 = hc_case_93"
  "hc_case 94 = hc_case_94" "hc_case 95 = hc_case_95" "hc_case 96 = hc_case_96"
  "hc_case 97 = hc_case_97" "hc_case 98 = hc_case_98" "hc_case 99 = hc_case_99"
  "hc_case 100 = hc_case_100" "hc_case 101 = hc_case_101" "hc_case 102 = hc_case_102"
  "hc_case 103 = hc_case_103" "hc_case 104 = hc_case_104" "hc_case 105 = hc_case_105"
  "hc_case 106 = hc_case_106" "hc_case 107 = hc_case_107" "hc_case 108 = hc_case_108"
  "hc_case 109 = hc_case_109" "hc_case 110 = hc_case_110" "hc_case 111 = hc_case_111"
  "hc_case 112 = hc_case_112" "hc_case 113 = hc_case_113" "hc_case 114 = hc_case_114"
  "hc_case 115 = hc_case_115" "hc_case 116 = hc_case_116" "hc_case 117 = hc_case_117"
  "hc_case 118 = hc_case_118" "hc_case 119 = hc_case_119" "hc_case 120 = hc_case_120"
  "hc_case 121 = hc_case_121" "hc_case 122 = hc_case_122" "hc_case 123 = hc_case_123"
  by (rule ext, simp add: hc_case_def)+

section \<open>Facts about all transitions\<close>

text \<open>The error state is entered without actions, and the action that breaks leads to a final state.\<close>

definition hc_edge :: "hc_action goto \<Rightarrow> bool" where
  "hc_edge g = (case g of Goto as m \<Rightarrow> (m = 0 \<longrightarrow> as = []) \<and> (HcDone \<in> set as \<longrightarrow> m \<in> {120..123}))"

lemma hc_edge_St: "hc_edge (St m)"
  by (simp add: hc_edge_def)

lemma hc_edge_tr:
  "hc_edge hc_tr_0" "hc_edge hc_tr_2" "hc_edge hc_tr_3" "hc_edge hc_tr_4" "hc_edge hc_tr_6" "hc_edge hc_tr_7"
  "hc_edge hc_tr_8" "hc_edge hc_tr_9" "hc_edge hc_tr_10" "hc_edge hc_tr_12" "hc_edge hc_tr_13" "hc_edge hc_tr_14"
  "hc_edge hc_tr_15" "hc_edge hc_tr_16" "hc_edge hc_tr_18" "hc_edge hc_tr_26" "hc_edge hc_tr_27" "hc_edge hc_tr_28"
  "hc_edge hc_tr_30" "hc_edge hc_tr_32" "hc_edge hc_tr_33" "hc_edge hc_tr_35" "hc_edge hc_tr_36" "hc_edge hc_tr_37"
  "hc_edge hc_tr_39" "hc_edge hc_tr_40" "hc_edge hc_tr_41" "hc_edge hc_tr_42" "hc_edge hc_tr_43" "hc_edge hc_tr_45"
  "hc_edge hc_tr_46" "hc_edge hc_tr_58" "hc_edge hc_tr_59" "hc_edge hc_tr_60" "hc_edge hc_tr_61" "hc_edge hc_tr_62"
  "hc_edge hc_tr_64" "hc_edge hc_tr_66" "hc_edge hc_tr_74" "hc_edge hc_tr_75" "hc_edge hc_tr_76" "hc_edge hc_tr_77"
  "hc_edge hc_tr_78" "hc_edge hc_tr_95" "hc_edge hc_tr_96" "hc_edge hc_tr_97" "hc_edge hc_tr_98" "hc_edge hc_tr_99"
  "hc_edge hc_tr_101" "hc_edge hc_tr_103" "hc_edge hc_tr_104" "hc_edge hc_tr_111" "hc_edge hc_tr_112" "hc_edge hc_tr_113"
  "hc_edge hc_tr_136" "hc_edge hc_tr_137" "hc_edge hc_tr_148" "hc_edge hc_tr_149" "hc_edge hc_tr_150" "hc_edge hc_tr_151"
  "hc_edge hc_tr_152" "hc_edge hc_tr_154" "hc_edge hc_tr_156" "hc_edge hc_tr_157" "hc_edge hc_tr_158" "hc_edge hc_tr_159"
  by (simp_all add: hc_edge_def hc_tr_defs)

lemmas hc_edge_trs = hc_edge_St hc_edge_tr

lemma hc_edge_split:
  "hc_edge (if b then x else y) = (if b then hc_edge x else hc_edge y)"
  by simp

lemma hc_edge_0:
  "hc_edge (hc_case_1 c)" "hc_edge (hc_case_2 c)" "hc_edge (hc_case_3 c)"
  "hc_edge (hc_case_4 c)" "hc_edge (hc_case_5 c)" "hc_edge (hc_case_6 c)"
  "hc_edge (hc_case_7 c)" "hc_edge (hc_case_8 c)" "hc_edge (hc_case_9 c)"
  "hc_edge (hc_case_10 c)" "hc_edge (hc_case_11 c)" "hc_edge (hc_case_12 c)"
  "hc_edge (hc_case_13 c)" "hc_edge (hc_case_14 c)" "hc_edge (hc_case_15 c)"
  "hc_edge (hc_case_16 c)" "hc_edge (hc_case_17 c)" "hc_edge (hc_case_18 c)"
  "hc_edge (hc_case_19 c)" "hc_edge (hc_case_20 c)"
  by (simp_all only: hc_case_1_def hc_case_2_def hc_case_3_def hc_case_4_def hc_case_5_def hc_case_6_def
      hc_case_7_def hc_case_8_def hc_case_9_def hc_case_10_def hc_case_11_def hc_case_12_def
      hc_case_13_def hc_case_14_def hc_case_15_def hc_case_16_def hc_case_17_def hc_case_18_def
      hc_case_19_def hc_case_20_def
      hc_edge_split hc_edge_trs Let_def if_True if_False if_cancel simp_thms)

lemma hc_edge_1:
  "hc_edge (hc_case_21 c)" "hc_edge (hc_case_22 c)" "hc_edge (hc_case_23 c)"
  "hc_edge (hc_case_24 c)" "hc_edge (hc_case_25 c)" "hc_edge (hc_case_26 c)"
  "hc_edge (hc_case_27 c)" "hc_edge (hc_case_28 c)" "hc_edge (hc_case_29 c)"
  "hc_edge (hc_case_30 c)" "hc_edge (hc_case_31 c)" "hc_edge (hc_case_32 c)"
  "hc_edge (hc_case_33 c)" "hc_edge (hc_case_34 c)" "hc_edge (hc_case_35 c)"
  "hc_edge (hc_case_36 c)" "hc_edge (hc_case_37 c)" "hc_edge (hc_case_38 c)"
  "hc_edge (hc_case_39 c)" "hc_edge (hc_case_40 c)"
  by (simp_all only: hc_case_21_def hc_case_22_def hc_case_23_def hc_case_24_def hc_case_25_def hc_case_26_def
      hc_case_27_def hc_case_28_def hc_case_29_def hc_case_30_def hc_case_31_def hc_case_32_def
      hc_case_33_def hc_case_34_def hc_case_35_def hc_case_36_def hc_case_37_def hc_case_38_def
      hc_case_39_def hc_case_40_def
      hc_edge_split hc_edge_trs Let_def if_True if_False if_cancel simp_thms)

lemma hc_edge_2:
  "hc_edge (hc_case_41 c)" "hc_edge (hc_case_42 c)" "hc_edge (hc_case_43 c)"
  "hc_edge (hc_case_44 c)" "hc_edge (hc_case_45 c)" "hc_edge (hc_case_46 c)"
  "hc_edge (hc_case_47 c)" "hc_edge (hc_case_48 c)" "hc_edge (hc_case_49 c)"
  "hc_edge (hc_case_50 c)" "hc_edge (hc_case_51 c)" "hc_edge (hc_case_52 c)"
  "hc_edge (hc_case_53 c)" "hc_edge (hc_case_54 c)" "hc_edge (hc_case_55 c)"
  "hc_edge (hc_case_56 c)" "hc_edge (hc_case_57 c)" "hc_edge (hc_case_58 c)"
  "hc_edge (hc_case_59 c)" "hc_edge (hc_case_60 c)"
  by (simp_all only: hc_case_41_def hc_case_42_def hc_case_43_def hc_case_44_def hc_case_45_def hc_case_46_def
      hc_case_47_def hc_case_48_def hc_case_49_def hc_case_50_def hc_case_51_def hc_case_52_def
      hc_case_53_def hc_case_54_def hc_case_55_def hc_case_56_def hc_case_57_def hc_case_58_def
      hc_case_59_def hc_case_60_def
      hc_edge_split hc_edge_trs Let_def if_True if_False if_cancel simp_thms)

lemma hc_edge_3:
  "hc_edge (hc_case_61 c)" "hc_edge (hc_case_62 c)" "hc_edge (hc_case_63 c)"
  "hc_edge (hc_case_64 c)" "hc_edge (hc_case_65 c)" "hc_edge (hc_case_66 c)"
  "hc_edge (hc_case_67 c)" "hc_edge (hc_case_68 c)" "hc_edge (hc_case_69 c)"
  "hc_edge (hc_case_70 c)" "hc_edge (hc_case_71 c)" "hc_edge (hc_case_72 c)"
  "hc_edge (hc_case_73 c)" "hc_edge (hc_case_74 c)" "hc_edge (hc_case_75 c)"
  "hc_edge (hc_case_76 c)" "hc_edge (hc_case_77 c)" "hc_edge (hc_case_78 c)"
  "hc_edge (hc_case_79 c)" "hc_edge (hc_case_80 c)"
  by (simp_all only: hc_case_61_def hc_case_62_def hc_case_63_def hc_case_64_def hc_case_65_def hc_case_66_def
      hc_case_67_def hc_case_68_def hc_case_69_def hc_case_70_def hc_case_71_def hc_case_72_def
      hc_case_73_def hc_case_74_def hc_case_75_def hc_case_76_def hc_case_77_def hc_case_78_def
      hc_case_79_def hc_case_80_def
      hc_edge_split hc_edge_trs Let_def if_True if_False if_cancel simp_thms)

lemma hc_edge_4:
  "hc_edge (hc_case_81 c)" "hc_edge (hc_case_82 c)" "hc_edge (hc_case_83 c)"
  "hc_edge (hc_case_84 c)" "hc_edge (hc_case_85 c)" "hc_edge (hc_case_86 c)"
  "hc_edge (hc_case_87 c)" "hc_edge (hc_case_88 c)" "hc_edge (hc_case_89 c)"
  "hc_edge (hc_case_90 c)" "hc_edge (hc_case_91 c)" "hc_edge (hc_case_92 c)"
  "hc_edge (hc_case_93 c)" "hc_edge (hc_case_94 c)" "hc_edge (hc_case_95 c)"
  "hc_edge (hc_case_96 c)" "hc_edge (hc_case_97 c)" "hc_edge (hc_case_98 c)"
  "hc_edge (hc_case_99 c)" "hc_edge (hc_case_100 c)"
  by (simp_all only: hc_case_81_def hc_case_82_def hc_case_83_def hc_case_84_def hc_case_85_def hc_case_86_def
      hc_case_87_def hc_case_88_def hc_case_89_def hc_case_90_def hc_case_91_def hc_case_92_def
      hc_case_93_def hc_case_94_def hc_case_95_def hc_case_96_def hc_case_97_def hc_case_98_def
      hc_case_99_def hc_case_100_def
      hc_edge_split hc_edge_trs Let_def if_True if_False if_cancel simp_thms)

lemma hc_edge_5:
  "hc_edge (hc_case_101 c)" "hc_edge (hc_case_102 c)" "hc_edge (hc_case_103 c)"
  "hc_edge (hc_case_104 c)" "hc_edge (hc_case_105 c)" "hc_edge (hc_case_106 c)"
  "hc_edge (hc_case_107 c)" "hc_edge (hc_case_108 c)" "hc_edge (hc_case_109 c)"
  "hc_edge (hc_case_110 c)" "hc_edge (hc_case_111 c)" "hc_edge (hc_case_112 c)"
  "hc_edge (hc_case_113 c)" "hc_edge (hc_case_114 c)" "hc_edge (hc_case_115 c)"
  "hc_edge (hc_case_116 c)" "hc_edge (hc_case_117 c)" "hc_edge (hc_case_118 c)"
  "hc_edge (hc_case_119 c)" "hc_edge (hc_case_120 c)"
  by (simp_all only: hc_case_101_def hc_case_102_def hc_case_103_def hc_case_104_def hc_case_105_def hc_case_106_def
      hc_case_107_def hc_case_108_def hc_case_109_def hc_case_110_def hc_case_111_def hc_case_112_def
      hc_case_113_def hc_case_114_def hc_case_115_def hc_case_116_def hc_case_117_def hc_case_118_def
      hc_case_119_def hc_case_120_def
      hc_edge_split hc_edge_trs Let_def if_True if_False if_cancel simp_thms)

lemma hc_edge_6:
  "hc_edge (hc_case_121 c)" "hc_edge (hc_case_122 c)" "hc_edge (hc_case_123 c)"
  by (simp_all only: hc_case_121_def hc_case_122_def hc_case_123_def
      hc_edge_split hc_edge_trs Let_def if_True if_False if_cancel simp_thms)

lemma hc_edge_case: "hc_edge (hc_case n c)"
  by (simp only: hc_case_def hc_edge_split hc_edge_St hc_edge_0 hc_edge_1 hc_edge_2 hc_edge_3 hc_edge_4 hc_edge_5 hc_edge_6 if_cancel)

section \<open>The states of a response head\<close>

text \<open>Status line.\<close>

lemma hc_status_edges_0: "hc_case (Suc 0) 72 = Goto [HcMark] 8"
  by (simp add: hc_case_simps hc_case_1_def hc_tr_defs)

lemma hc_status_edges_1: "hc_case 8 84 = St 9"
  by (simp add: hc_case_simps hc_case_8_def hc_tr_defs)

lemma hc_status_edges_2: "hc_case 9 84 = St 10"
  by (simp add: hc_case_simps hc_case_9_def hc_tr_defs)

lemma hc_status_edges_3: "hc_case 10 80 = St 11"
  by (simp add: hc_case_simps hc_case_10_def hc_tr_defs)

lemma hc_status_edges_4: "hc_case 11 47 = St 12"
  by (simp add: hc_case_simps hc_case_11_def hc_tr_defs)

lemma hc_status_edges_5: "digit c \<Longrightarrow> hc_case 12 c = St 13"
  unfolding digit_def hc_case_simps hc_case_12_def hc_tr_defs by (elim disjE conjE; simp)

lemma hc_status_edges_6: "digit c \<Longrightarrow> hc_case 13 c = St 13"
  unfolding digit_def hc_case_simps hc_case_13_def hc_tr_defs by (elim disjE conjE; simp)

lemma hc_status_edges_7: "digit c \<Longrightarrow> hc_case 14 c = St 15"
  unfolding digit_def hc_case_simps hc_case_14_def hc_tr_defs by (elim disjE conjE; simp)

lemma hc_status_edges_8: "digit c \<Longrightarrow> hc_case 15 c = St 15"
  unfolding digit_def hc_case_simps hc_case_15_def hc_tr_defs by (elim disjE conjE; simp)

lemma hc_status_edges_9: "digit c \<Longrightarrow> hc_case 16 c = Goto [HcMark] 17"
  unfolding digit_def hc_case_simps hc_case_16_def hc_tr_defs by (elim disjE conjE; simp)

lemma hc_status_edges_10: "digit c \<Longrightarrow> hc_case 17 c = St 17"
  unfolding digit_def hc_case_simps hc_case_17_def hc_tr_defs by (elim disjE conjE; simp)

lemma hc_status_edges_11: "hc_case 13 46 = St 14"
  by (simp add: hc_case_simps hc_case_13_def hc_tr_defs)

lemma hc_status_edges_12: "hc_case 15 32 = Goto [HcHttpVersionAct] 16"
  by (simp add: hc_case_simps hc_case_15_def hc_tr_defs)

lemma hc_status_edges_13: "hc_case 17 32 = Goto [HcStatusCodeAct] 18"
  by (simp add: hc_case_simps hc_case_17_def hc_tr_defs)

lemma hc_status_edges_14: "value_char c \<Longrightarrow> hc_case 18 c = Goto [HcMark] 19"
  unfolding value_char_def hc_case_simps hc_case_18_def hc_tr_defs by (elim disjE conjE; simp)

lemma hc_status_edges_15: "value_char c \<Longrightarrow> hc_case 19 c = St 19"
  unfolding value_char_def hc_case_simps hc_case_19_def hc_tr_defs by (elim disjE conjE; simp)

lemma hc_status_edges_16: "hc_case 19 13 = Goto [HcReasonPhraseAct] 24"
  by (simp add: hc_case_simps hc_case_19_def hc_tr_defs)

lemma hc_status_edges_17: "hc_case 24 10 = St 20"
  by (simp add: hc_case_simps hc_case_24_def hc_tr_defs)

lemmas hc_status_edges =
  hc_status_edges_0 hc_status_edges_1 hc_status_edges_2 hc_status_edges_3 hc_status_edges_4 hc_status_edges_5
  hc_status_edges_6 hc_status_edges_7 hc_status_edges_8 hc_status_edges_9 hc_status_edges_10 hc_status_edges_11
  hc_status_edges_12 hc_status_edges_13 hc_status_edges_14 hc_status_edges_15 hc_status_edges_16 hc_status_edges_17

text \<open>Header names. The machine spells out three of them: any other character leads to state 21.\<close>

lemma hc_line_edges_0: "token c \<Longrightarrow> hc_case 20 c = (if c = 84 \<or> c = 116 then Goto [HcStartField] 44 else if c = 67 \<or> c = 99 then Goto [HcStartField] 25 else Goto [HcStartField] 21)"
  unfolding token_def hc_case_simps hc_case_20_def hc_tr_defs by (elim disjE conjE; simp)

lemma hc_line_edges_1: "token c \<Longrightarrow> hc_case 43 c = (if c = 84 \<or> c = 116 then Goto [HcWriteConnectionClose, HcStartField] 44 else if c = 67 \<or> c = 99 then Goto [HcWriteConnectionClose, HcStartField] 25 else Goto [HcWriteConnectionClose, HcStartField] 21)"
  unfolding token_def hc_case_simps hc_case_43_def hc_tr_defs by (elim disjE conjE; simp)

lemma hc_line_edges_2: "hc_case 20 13 = St 3"
  by (simp add: hc_case_simps hc_case_20_def hc_tr_defs)

lemma hc_line_edges_3: "hc_case 43 13 = Goto [HcWriteConnectionClose] 3"
  by (simp add: hc_case_simps hc_case_43_def hc_tr_defs)

lemmas hc_line_edges =
  hc_line_edges_0 hc_line_edges_1 hc_line_edges_2 hc_line_edges_3

lemma hc_name_edges_0: "token c \<Longrightarrow> hc_case 21 c = St 21"
  unfolding token_def hc_case_simps hc_case_21_def hc_tr_defs by (elim disjE conjE; simp)

lemma hc_name_edges_1: "token c \<Longrightarrow> hc_case 25 c = (if c = 79 \<or> c = 111 then St 26 else St 21)"
  unfolding token_def hc_case_simps hc_case_25_def hc_tr_defs by (elim disjE conjE; simp)

lemma hc_name_edges_2: "token c \<Longrightarrow> hc_case 26 c = (if c = 78 \<or> c = 110 then St 27 else St 21)"
  unfolding token_def hc_case_simps hc_case_26_def hc_tr_defs by (elim disjE conjE; simp)

lemma hc_name_edges_3: "token c \<Longrightarrow> hc_case 27 c = (if c = 84 \<or> c = 116 then St 101 else if c = 78 \<or> c = 110 then St 28 else St 21)"
  unfolding token_def hc_case_simps hc_case_27_def hc_tr_defs by (elim disjE conjE; simp)

lemma hc_name_edges_4: "token c \<Longrightarrow> hc_case 28 c = (if c = 69 \<or> c = 101 then St 29 else St 21)"
  unfolding token_def hc_case_simps hc_case_28_def hc_tr_defs by (elim disjE conjE; simp)

lemma hc_name_edges_5: "token c \<Longrightarrow> hc_case 29 c = (if c = 67 \<or> c = 99 then St 30 else St 21)"
  unfolding token_def hc_case_simps hc_case_29_def hc_tr_defs by (elim disjE conjE; simp)

lemma hc_name_edges_6: "token c \<Longrightarrow> hc_case 30 c = (if c = 84 \<or> c = 116 then St 31 else St 21)"
  unfolding token_def hc_case_simps hc_case_30_def hc_tr_defs by (elim disjE conjE; simp)

lemma hc_name_edges_7: "token c \<Longrightarrow> hc_case 31 c = (if c = 73 \<or> c = 105 then St 32 else St 21)"
  unfolding token_def hc_case_simps hc_case_31_def hc_tr_defs by (elim disjE conjE; simp)

lemma hc_name_edges_8: "token c \<Longrightarrow> hc_case 32 c = (if c = 79 \<or> c = 111 then St 33 else St 21)"
  unfolding token_def hc_case_simps hc_case_32_def hc_tr_defs by (elim disjE conjE; simp)

lemma hc_name_edges_9: "token c \<Longrightarrow> hc_case 33 c = (if c = 78 \<or> c = 110 then St 34 else St 21)"
  unfolding token_def hc_case_simps hc_case_33_def hc_tr_defs by (elim disjE conjE; simp)

lemma hc_name_edges_10: "token c \<Longrightarrow> hc_case 34 c = St 21"
  unfolding token_def hc_case_simps hc_case_34_def hc_tr_defs by (elim disjE conjE; simp)

lemma hc_name_edges_11: "token c \<Longrightarrow> hc_case 44 c = (if c = 82 \<or> c = 114 then St 45 else St 21)"
  unfolding token_def hc_case_simps hc_case_44_def hc_tr_defs by (elim disjE conjE; simp)

lemma hc_name_edges_12: "token c \<Longrightarrow> hc_case 45 c = (if c = 65 \<or> c = 97 then St 46 else St 21)"
  unfolding token_def hc_case_simps hc_case_45_def hc_tr_defs by (elim disjE conjE; simp)

lemma hc_name_edges_13: "token c \<Longrightarrow> hc_case 46 c = (if c = 78 \<or> c = 110 then St 47 else St 21)"
  unfolding token_def hc_case_simps hc_case_46_def hc_tr_defs by (elim disjE conjE; simp)

lemma hc_name_edges_14: "token c \<Longrightarrow> hc_case 47 c = (if c = 83 \<or> c = 115 then St 48 else St 21)"
  unfolding token_def hc_case_simps hc_case_47_def hc_tr_defs by (elim disjE conjE; simp)

lemma hc_name_edges_15: "token c \<Longrightarrow> hc_case 48 c = (if c = 70 \<or> c = 102 then St 49 else St 21)"
  unfolding token_def hc_case_simps hc_case_48_def hc_tr_defs by (elim disjE conjE; simp)

lemma hc_name_edges_16: "token c \<Longrightarrow> hc_case 49 c = (if c = 69 \<or> c = 101 then St 50 else St 21)"
  unfolding token_def hc_case_simps hc_case_49_def hc_tr_defs by (elim disjE conjE; simp)

lemma hc_name_edges_17: "token c \<Longrightarrow> hc_case 50 c = (if c = 82 \<or> c = 114 then St 51 else St 21)"
  unfolding token_def hc_case_simps hc_case_50_def hc_tr_defs by (elim disjE conjE; simp)

lemma hc_name_edges_18: "token c \<Longrightarrow> hc_case 51 c = (if c = 45 then St 52 else St 21)"
  unfolding token_def hc_case_simps hc_case_51_def hc_tr_defs by (elim disjE conjE; simp)

lemma hc_name_edges_19: "token c \<Longrightarrow> hc_case 52 c = (if c = 69 \<or> c = 101 then St 53 else St 21)"
  unfolding token_def hc_case_simps hc_case_52_def hc_tr_defs by (elim disjE conjE; simp)

lemma hc_name_edges_20: "token c \<Longrightarrow> hc_case 53 c = (if c = 78 \<or> c = 110 then St 54 else St 21)"
  unfolding token_def hc_case_simps hc_case_53_def hc_tr_defs by (elim disjE conjE; simp)

lemma hc_name_edges_21: "token c \<Longrightarrow> hc_case 54 c = (if c = 67 \<or> c = 99 then St 55 else St 21)"
  unfolding token_def hc_case_simps hc_case_54_def hc_tr_defs by (elim disjE conjE; simp)

lemma hc_name_edges_22: "token c \<Longrightarrow> hc_case 55 c = (if c = 79 \<or> c = 111 then St 56 else St 21)"
  unfolding token_def hc_case_simps hc_case_55_def hc_tr_defs by (elim disjE conjE; simp)

lemma hc_name_edges_23: "token c \<Longrightarrow> hc_case 56 c = (if c = 68 \<or> c = 100 then St 57 else St 21)"
  unfolding token_def hc_case_simps hc_case_56_def hc_tr_defs by (elim disjE conjE; simp)

lemma hc_name_edges_24: "token c \<Longrightarrow> hc_case 57 c = (if c = 73 \<or> c = 105 then St 58 else St 21)"
  unfolding token_def hc_case_simps hc_case_57_def hc_tr_defs by (elim disjE conjE; simp)

lemma hc_name_edges_25: "token c \<Longrightarrow> hc_case 58 c = (if c = 78 \<or> c = 110 then St 59 else St 21)"
  unfolding token_def hc_case_simps hc_case_58_def hc_tr_defs by (elim disjE conjE; simp)

lemma hc_name_edges_26: "token c \<Longrightarrow> hc_case 59 c = (if c = 71 \<or> c = 103 then St 60 else St 21)"
  unfolding token_def hc_case_simps hc_case_59_def hc_tr_defs by (elim disjE conjE; simp)

lemma hc_name_edges_27: "token c \<Longrightarrow> hc_case 60 c = St 21"
  unfolding token_def hc_case_simps hc_case_60_def hc_tr_defs by (elim disjE conjE; simp)

lemma hc_name_edges_28: "token c \<Longrightarrow> hc_case 101 c = (if c = 69 \<or> c = 101 then St 102 else St 21)"
  unfolding token_def hc_case_simps hc_case_101_def hc_tr_defs by (elim disjE conjE; simp)

lemma hc_name_edges_29: "token c \<Longrightarrow> hc_case 102 c = (if c = 78 \<or> c = 110 then St 103 else St 21)"
  unfolding token_def hc_case_simps hc_case_102_def hc_tr_defs by (elim disjE conjE; simp)

lemma hc_name_edges_30: "token c \<Longrightarrow> hc_case 103 c = (if c = 84 \<or> c = 116 then St 104 else St 21)"
  unfolding token_def hc_case_simps hc_case_103_def hc_tr_defs by (elim disjE conjE; simp)

lemma hc_name_edges_31: "token c \<Longrightarrow> hc_case 104 c = (if c = 45 then St 105 else St 21)"
  unfolding token_def hc_case_simps hc_case_104_def hc_tr_defs by (elim disjE conjE; simp)

lemma hc_name_edges_32: "token c \<Longrightarrow> hc_case 105 c = (if c = 76 \<or> c = 108 then St 106 else St 21)"
  unfolding token_def hc_case_simps hc_case_105_def hc_tr_defs by (elim disjE conjE; simp)

lemma hc_name_edges_33: "token c \<Longrightarrow> hc_case 106 c = (if c = 69 \<or> c = 101 then St 107 else St 21)"
  unfolding token_def hc_case_simps hc_case_106_def hc_tr_defs by (elim disjE conjE; simp)

lemma hc_name_edges_34: "token c \<Longrightarrow> hc_case 107 c = (if c = 78 \<or> c = 110 then St 108 else St 21)"
  unfolding token_def hc_case_simps hc_case_107_def hc_tr_defs by (elim disjE conjE; simp)

lemma hc_name_edges_35: "token c \<Longrightarrow> hc_case 108 c = (if c = 71 \<or> c = 103 then St 109 else St 21)"
  unfolding token_def hc_case_simps hc_case_108_def hc_tr_defs by (elim disjE conjE; simp)

lemma hc_name_edges_36: "token c \<Longrightarrow> hc_case 109 c = (if c = 84 \<or> c = 116 then St 110 else St 21)"
  unfolding token_def hc_case_simps hc_case_109_def hc_tr_defs by (elim disjE conjE; simp)

lemma hc_name_edges_37: "token c \<Longrightarrow> hc_case 110 c = (if c = 72 \<or> c = 104 then St 111 else St 21)"
  unfolding token_def hc_case_simps hc_case_110_def hc_tr_defs by (elim disjE conjE; simp)

lemma hc_name_edges_38: "token c \<Longrightarrow> hc_case 111 c = St 21"
  unfolding token_def hc_case_simps hc_case_111_def hc_tr_defs by (elim disjE conjE; simp)

lemmas hc_name_edges =
  hc_name_edges_0 hc_name_edges_1 hc_name_edges_2 hc_name_edges_3 hc_name_edges_4 hc_name_edges_5 hc_name_edges_6
  hc_name_edges_7 hc_name_edges_8 hc_name_edges_9 hc_name_edges_10 hc_name_edges_11 hc_name_edges_12 hc_name_edges_13
  hc_name_edges_14 hc_name_edges_15 hc_name_edges_16 hc_name_edges_17 hc_name_edges_18 hc_name_edges_19
  hc_name_edges_20 hc_name_edges_21 hc_name_edges_22 hc_name_edges_23 hc_name_edges_24 hc_name_edges_25
  hc_name_edges_26 hc_name_edges_27 hc_name_edges_28 hc_name_edges_29 hc_name_edges_30 hc_name_edges_31
  hc_name_edges_32 hc_name_edges_33 hc_name_edges_34 hc_name_edges_35 hc_name_edges_36 hc_name_edges_37
  hc_name_edges_38

lemma hc_colon_edges_0: "hc_case 21 58 = Goto [HcWriteField] 22"
  by (simp add: hc_case_simps hc_case_21_def hc_tr_defs)

lemma hc_colon_edges_1: "hc_case 25 58 = Goto [HcWriteField] 22"
  by (simp add: hc_case_simps hc_case_25_def hc_tr_defs)

lemma hc_colon_edges_2: "hc_case 26 58 = Goto [HcWriteField] 22"
  by (simp add: hc_case_simps hc_case_26_def hc_tr_defs)

lemma hc_colon_edges_3: "hc_case 27 58 = Goto [HcWriteField] 22"
  by (simp add: hc_case_simps hc_case_27_def hc_tr_defs)

lemma hc_colon_edges_4: "hc_case 28 58 = Goto [HcWriteField] 22"
  by (simp add: hc_case_simps hc_case_28_def hc_tr_defs)

lemma hc_colon_edges_5: "hc_case 29 58 = Goto [HcWriteField] 22"
  by (simp add: hc_case_simps hc_case_29_def hc_tr_defs)

lemma hc_colon_edges_6: "hc_case 30 58 = Goto [HcWriteField] 22"
  by (simp add: hc_case_simps hc_case_30_def hc_tr_defs)

lemma hc_colon_edges_7: "hc_case 31 58 = Goto [HcWriteField] 22"
  by (simp add: hc_case_simps hc_case_31_def hc_tr_defs)

lemma hc_colon_edges_8: "hc_case 32 58 = Goto [HcWriteField] 22"
  by (simp add: hc_case_simps hc_case_32_def hc_tr_defs)

lemma hc_colon_edges_9: "hc_case 33 58 = Goto [HcWriteField] 22"
  by (simp add: hc_case_simps hc_case_33_def hc_tr_defs)

lemma hc_colon_edges_10: "hc_case 34 58 = Goto [HcWriteField] 35"
  by (simp add: hc_case_simps hc_case_34_def hc_tr_defs)

lemma hc_colon_edges_11: "hc_case 44 58 = Goto [HcWriteField] 22"
  by (simp add: hc_case_simps hc_case_44_def hc_tr_defs)

lemma hc_colon_edges_12: "hc_case 45 58 = Goto [HcWriteField] 22"
  by (simp add: hc_case_simps hc_case_45_def hc_tr_defs)

lemma hc_colon_edges_13: "hc_case 46 58 = Goto [HcWriteField] 22"
  by (simp add: hc_case_simps hc_case_46_def hc_tr_defs)

lemma hc_colon_edges_14: "hc_case 47 58 = Goto [HcWriteField] 22"
  by (simp add: hc_case_simps hc_case_47_def hc_tr_defs)

lemma hc_colon_edges_15: "hc_case 48 58 = Goto [HcWriteField] 22"
  by (simp add: hc_case_simps hc_case_48_def hc_tr_defs)

lemma hc_colon_edges_16: "hc_case 49 58 = Goto [HcWriteField] 22"
  by (simp add: hc_case_simps hc_case_49_def hc_tr_defs)

lemma hc_colon_edges_17: "hc_case 50 58 = Goto [HcWriteField] 22"
  by (simp add: hc_case_simps hc_case_50_def hc_tr_defs)

lemma hc_colon_edges_18: "hc_case 51 58 = Goto [HcWriteField] 22"
  by (simp add: hc_case_simps hc_case_51_def hc_tr_defs)

lemma hc_colon_edges_19: "hc_case 52 58 = Goto [HcWriteField] 22"
  by (simp add: hc_case_simps hc_case_52_def hc_tr_defs)

lemma hc_colon_edges_20: "hc_case 53 58 = Goto [HcWriteField] 22"
  by (simp add: hc_case_simps hc_case_53_def hc_tr_defs)

lemma hc_colon_edges_21: "hc_case 54 58 = Goto [HcWriteField] 22"
  by (simp add: hc_case_simps hc_case_54_def hc_tr_defs)

lemma hc_colon_edges_22: "hc_case 55 58 = Goto [HcWriteField] 22"
  by (simp add: hc_case_simps hc_case_55_def hc_tr_defs)

lemma hc_colon_edges_23: "hc_case 56 58 = Goto [HcWriteField] 22"
  by (simp add: hc_case_simps hc_case_56_def hc_tr_defs)

lemma hc_colon_edges_24: "hc_case 57 58 = Goto [HcWriteField] 22"
  by (simp add: hc_case_simps hc_case_57_def hc_tr_defs)

lemma hc_colon_edges_25: "hc_case 58 58 = Goto [HcWriteField] 22"
  by (simp add: hc_case_simps hc_case_58_def hc_tr_defs)

lemma hc_colon_edges_26: "hc_case 59 58 = Goto [HcWriteField] 22"
  by (simp add: hc_case_simps hc_case_59_def hc_tr_defs)

lemma hc_colon_edges_27: "hc_case 60 58 = Goto [HcWriteField] 61"
  by (simp add: hc_case_simps hc_case_60_def hc_tr_defs)

lemma hc_colon_edges_28: "hc_case 101 58 = Goto [HcWriteField] 22"
  by (simp add: hc_case_simps hc_case_101_def hc_tr_defs)

lemma hc_colon_edges_29: "hc_case 102 58 = Goto [HcWriteField] 22"
  by (simp add: hc_case_simps hc_case_102_def hc_tr_defs)

lemma hc_colon_edges_30: "hc_case 103 58 = Goto [HcWriteField] 22"
  by (simp add: hc_case_simps hc_case_103_def hc_tr_defs)

lemma hc_colon_edges_31: "hc_case 104 58 = Goto [HcWriteField] 22"
  by (simp add: hc_case_simps hc_case_104_def hc_tr_defs)

lemma hc_colon_edges_32: "hc_case 105 58 = Goto [HcWriteField] 22"
  by (simp add: hc_case_simps hc_case_105_def hc_tr_defs)

lemma hc_colon_edges_33: "hc_case 106 58 = Goto [HcWriteField] 22"
  by (simp add: hc_case_simps hc_case_106_def hc_tr_defs)

lemma hc_colon_edges_34: "hc_case 107 58 = Goto [HcWriteField] 22"
  by (simp add: hc_case_simps hc_case_107_def hc_tr_defs)

lemma hc_colon_edges_35: "hc_case 108 58 = Goto [HcWriteField] 22"
  by (simp add: hc_case_simps hc_case_108_def hc_tr_defs)

lemma hc_colon_edges_36: "hc_case 109 58 = Goto [HcWriteField] 22"
  by (simp add: hc_case_simps hc_case_109_def hc_tr_defs)

lemma hc_colon_edges_37: "hc_case 110 58 = Goto [HcWriteField] 22"
  by (simp add: hc_case_simps hc_case_110_def hc_tr_defs)

lemma hc_colon_edges_38: "hc_case 111 58 = Goto [HcWriteField] 112"
  by (simp add: hc_case_simps hc_case_111_def hc_tr_defs)

lemmas hc_colon_edges =
  hc_colon_edges_0 hc_colon_edges_1 hc_colon_edges_2 hc_colon_edges_3 hc_colon_edges_4 hc_colon_edges_5
  hc_colon_edges_6 hc_colon_edges_7 hc_colon_edges_8 hc_colon_edges_9 hc_colon_edges_10 hc_colon_edges_11
  hc_colon_edges_12 hc_colon_edges_13 hc_colon_edges_14 hc_colon_edges_15 hc_colon_edges_16 hc_colon_edges_17
  hc_colon_edges_18 hc_colon_edges_19 hc_colon_edges_20 hc_colon_edges_21 hc_colon_edges_22 hc_colon_edges_23
  hc_colon_edges_24 hc_colon_edges_25 hc_colon_edges_26 hc_colon_edges_27 hc_colon_edges_28 hc_colon_edges_29
  hc_colon_edges_30 hc_colon_edges_31 hc_colon_edges_32 hc_colon_edges_33 hc_colon_edges_34 hc_colon_edges_35
  hc_colon_edges_36 hc_colon_edges_37 hc_colon_edges_38

text \<open>Header values: in front of the value, on its first character, inside, and at the end of the line.\<close>

lemma hc_blank_edges_0: "hc_case 22 32 = Goto [HcStartValue] 22"
  by (simp add: hc_case_simps hc_case_22_def hc_tr_defs)

lemma hc_blank_edges_1: "hc_case 35 32 = Goto [HcStartValue] 35"
  by (simp add: hc_case_simps hc_case_35_def hc_tr_defs)

lemma hc_blank_edges_2: "hc_case 61 32 = Goto [HcStartValue] 61"
  by (simp add: hc_case_simps hc_case_61_def hc_tr_defs)

lemma hc_blank_edges_3: "hc_case 112 32 = Goto [HcStartValue] 112"
  by (simp add: hc_case_simps hc_case_112_def hc_tr_defs)

lemmas hc_blank_edges =
  hc_blank_edges_0 hc_blank_edges_1 hc_blank_edges_2 hc_blank_edges_3

lemma hc_first_edges_0: "non_space c \<Longrightarrow> hc_case 22 c = Goto [HcStartValue] 23"
  unfolding non_space_def hc_case_simps hc_case_22_def hc_tr_defs by (elim disjE conjE; simp)

lemma hc_first_edges_1: "non_space c \<Longrightarrow> hc_case 35 c = (if c = 67 \<or> c = 99 then Goto [HcStartValue] 96 else Goto [HcStartValue] 23)"
  unfolding non_space_def hc_case_simps hc_case_35_def hc_tr_defs by (elim disjE conjE; simp)

lemma hc_first_edges_2: "non_space c \<Longrightarrow> hc_case 61 c = (if c = 67 \<or> c = 99 then Goto [HcStartValue] 81 else Goto [HcStartValue] 23)"
  unfolding non_space_def hc_case_simps hc_case_61_def hc_tr_defs by (elim disjE conjE; simp)

lemma hc_first_edges_3: "non_space c \<Longrightarrow> hc_case 112 c = (if 48 \<le> c \<and> c \<le> 57 then Goto [HcStartValue] 119 else Goto [HcStartValue] 23)"
  unfolding non_space_def hc_case_simps hc_case_112_def hc_tr_defs by (elim disjE conjE; simp)

lemmas hc_first_edges =
  hc_first_edges_0 hc_first_edges_1 hc_first_edges_2 hc_first_edges_3

lemma hc_value_edges_0: "value_char c \<Longrightarrow> hc_case 23 c = St 23"
  unfolding value_char_def hc_case_simps hc_case_23_def hc_tr_defs by (elim disjE conjE; simp)

lemma hc_value_edges_1: "value_char c \<Longrightarrow> hc_case 81 c = (if c = 72 \<or> c = 104 then St 82 else St 23)"
  unfolding value_char_def hc_case_simps hc_case_81_def hc_tr_defs by (elim disjE conjE; simp)

lemma hc_value_edges_2: "value_char c \<Longrightarrow> hc_case 82 c = (if c = 85 \<or> c = 117 then St 83 else St 23)"
  unfolding value_char_def hc_case_simps hc_case_82_def hc_tr_defs by (elim disjE conjE; simp)

lemma hc_value_edges_3: "value_char c \<Longrightarrow> hc_case 83 c = (if c = 78 \<or> c = 110 then St 84 else St 23)"
  unfolding value_char_def hc_case_simps hc_case_83_def hc_tr_defs by (elim disjE conjE; simp)

lemma hc_value_edges_4: "value_char c \<Longrightarrow> hc_case 84 c = (if c = 75 \<or> c = 107 then St 85 else St 23)"
  unfolding value_char_def hc_case_simps hc_case_84_def hc_tr_defs by (elim disjE conjE; simp)

lemma hc_value_edges_5: "value_char c \<Longrightarrow> hc_case 85 c = (if c = 69 \<or> c = 101 then St 86 else St 23)"
  unfolding value_char_def hc_case_simps hc_case_85_def hc_tr_defs by (elim disjE conjE; simp)

lemma hc_value_edges_6: "value_char c \<Longrightarrow> hc_case 86 c = (if c = 68 \<or> c = 100 then St 87 else St 23)"
  unfolding value_char_def hc_case_simps hc_case_86_def hc_tr_defs by (elim disjE conjE; simp)

lemma hc_value_edges_7: "value_char c \<Longrightarrow> hc_case 87 c = St 23"
  unfolding value_char_def hc_case_simps hc_case_87_def hc_tr_defs by (elim disjE conjE; simp)

lemma hc_value_edges_8: "value_char c \<Longrightarrow> hc_case 96 c = (if c = 76 \<or> c = 108 then St 97 else St 23)"
  unfolding value_char_def hc_case_simps hc_case_96_def hc_tr_defs by (elim disjE conjE; simp)

lemma hc_value_edges_9: "value_char c \<Longrightarrow> hc_case 97 c = (if c = 79 \<or> c = 111 then St 98 else St 23)"
  unfolding value_char_def hc_case_simps hc_case_97_def hc_tr_defs by (elim disjE conjE; simp)

lemma hc_value_edges_10: "value_char c \<Longrightarrow> hc_case 98 c = (if c = 83 \<or> c = 115 then St 99 else St 23)"
  unfolding value_char_def hc_case_simps hc_case_98_def hc_tr_defs by (elim disjE conjE; simp)

lemma hc_value_edges_11: "value_char c \<Longrightarrow> hc_case 99 c = (if c = 69 \<or> c = 101 then St 100 else St 23)"
  unfolding value_char_def hc_case_simps hc_case_99_def hc_tr_defs by (elim disjE conjE; simp)

lemma hc_value_edges_12: "value_char c \<Longrightarrow> hc_case 100 c = St 23"
  unfolding value_char_def hc_case_simps hc_case_100_def hc_tr_defs by (elim disjE conjE; simp)

lemma hc_value_edges_13: "value_char c \<Longrightarrow> hc_case 119 c = (if 48 \<le> c \<and> c \<le> 57 then St 119 else St 23)"
  unfolding value_char_def hc_case_simps hc_case_119_def hc_tr_defs by (elim disjE conjE; simp)

lemmas hc_value_edges =
  hc_value_edges_0 hc_value_edges_1 hc_value_edges_2 hc_value_edges_3 hc_value_edges_4 hc_value_edges_5
  hc_value_edges_6 hc_value_edges_7 hc_value_edges_8 hc_value_edges_9 hc_value_edges_10 hc_value_edges_11
  hc_value_edges_12 hc_value_edges_13

lemma hc_cr_edges_0: "hc_case 23 13 = Goto [HcWriteValue] 24"
  by (simp add: hc_case_simps hc_case_23_def hc_tr_defs)

lemma hc_cr_edges_1: "hc_case 81 13 = Goto [HcWriteValue] 24"
  by (simp add: hc_case_simps hc_case_81_def hc_tr_defs)

lemma hc_cr_edges_2: "hc_case 82 13 = Goto [HcWriteValue] 24"
  by (simp add: hc_case_simps hc_case_82_def hc_tr_defs)

lemma hc_cr_edges_3: "hc_case 83 13 = Goto [HcWriteValue] 24"
  by (simp add: hc_case_simps hc_case_83_def hc_tr_defs)

lemma hc_cr_edges_4: "hc_case 84 13 = Goto [HcWriteValue] 24"
  by (simp add: hc_case_simps hc_case_84_def hc_tr_defs)

lemma hc_cr_edges_5: "hc_case 85 13 = Goto [HcWriteValue] 24"
  by (simp add: hc_case_simps hc_case_85_def hc_tr_defs)

lemma hc_cr_edges_6: "hc_case 86 13 = Goto [HcWriteValue] 24"
  by (simp add: hc_case_simps hc_case_86_def hc_tr_defs)

lemma hc_cr_edges_7: "hc_case 87 13 = Goto [HcWriteValue] 71"
  by (simp add: hc_case_simps hc_case_87_def hc_tr_defs)

lemma hc_cr_edges_8: "hc_case 96 13 = Goto [HcWriteValue] 24"
  by (simp add: hc_case_simps hc_case_96_def hc_tr_defs)

lemma hc_cr_edges_9: "hc_case 97 13 = Goto [HcWriteValue] 24"
  by (simp add: hc_case_simps hc_case_97_def hc_tr_defs)

lemma hc_cr_edges_10: "hc_case 98 13 = Goto [HcWriteValue] 24"
  by (simp add: hc_case_simps hc_case_98_def hc_tr_defs)

lemma hc_cr_edges_11: "hc_case 99 13 = Goto [HcWriteValue] 24"
  by (simp add: hc_case_simps hc_case_99_def hc_tr_defs)

lemma hc_cr_edges_12: "hc_case 100 13 = Goto [HcWriteValue] 88"
  by (simp add: hc_case_simps hc_case_100_def hc_tr_defs)

lemma hc_cr_edges_13: "hc_case 119 13 = Goto [HcWriteContentLen, HcWriteValue] 24"
  by (simp add: hc_case_simps hc_case_119_def hc_tr_defs)

lemmas hc_cr_edges =
  hc_cr_edges_0 hc_cr_edges_1 hc_cr_edges_2 hc_cr_edges_3 hc_cr_edges_4 hc_cr_edges_5 hc_cr_edges_6 hc_cr_edges_7
  hc_cr_edges_8 hc_cr_edges_9 hc_cr_edges_10 hc_cr_edges_11 hc_cr_edges_12 hc_cr_edges_13

lemma hc_lf_edges_0: "hc_case 24 10 = St 20"
  by (simp add: hc_case_simps hc_case_24_def hc_tr_defs)

lemma hc_lf_edges_1: "hc_case 71 10 = Goto [HcTransChunked] 20"
  by (simp add: hc_case_simps hc_case_71_def hc_tr_defs)

lemma hc_lf_edges_2: "hc_case 88 10 = St 43"
  by (simp add: hc_case_simps hc_case_88_def hc_tr_defs)

lemma hc_lf_edges_3: "hc_case 3 10 = Goto [HcDone] 120"
  by (simp add: hc_case_simps hc_case_3_def hc_tr_defs)

lemmas hc_lf_edges =
  hc_lf_edges_0 hc_lf_edges_1 hc_lf_edges_2 hc_lf_edges_3

end
