(* ===== verification/HttpClientParser.thy ===== *)
theory HttpClientParser
  imports HttpClientMachine
begin

text \<open>
  \<^verbatim>\<open>src/cxk/http/httpclient_parser.rl.cpp\<close>: the parser object of HTTP responses, the actions its state machine runs, and
  \<^verbatim>\<open>httpclient_parser_execute\<close>. All callbacks are set (\<open>HttpResponseParser\<close> sets them); a call is recorded as an event
  with its arguments: a pointer into the buffer is the text from there on. The callbacks do not touch the parser.
\<close>

datatype response_event =
    ReasonPhrase string nat
  | StatusCode string nat
  | ChunkSize string nat
  | RespVersion string nat
  | RespHeaderDone string nat
  | LastChunk string nat
  | RespField string nat string nat

record httpclient_parser =
  hc_cs :: nat
  hc_body_start :: nat
  hc_content_len :: int
  hc_status :: int
  hc_chunked :: bool
  hc_chunks_done :: bool
  hc_close :: bool
  hc_nread :: nat
  hc_mark :: nat
  hc_field_start :: nat
  hc_field_len :: nat
  hc_events :: "response_event list"

definition hc_call :: "response_event \<Rightarrow> httpclient_parser \<Rightarrow> httpclient_parser" where
  "hc_call e s = s\<lparr>hc_events := hc_events s @ [e]\<rparr>"

definition httpclient_parser_init :: "httpclient_parser \<Rightarrow> httpclient_parser" where
  "httpclient_parser_init s =
     s\<lparr>hc_cs := 1, hc_body_start := 0, hc_content_len := -1, hc_chunked := False, hc_chunks_done := False, hc_mark := 0,
       hc_nread := 0, hc_field_len := 0, hc_field_start := 0, hc_close := False\<rparr>"

text \<open>The actions; \<open>buffer\<close> is the memory from the start of the text on, \<open>len\<close> the length of the text, \<open>fpc\<close> the offset of
  \<^verbatim>\<open>p\<close>.\<close>

definition hc_chunk_size :: "string \<Rightarrow> nat \<Rightarrow> httpclient_parser \<Rightarrow> httpclient_parser" where
  "hc_chunk_size buffer fpc s =
     (let s = s\<lparr>hc_chunked := True\<rparr>;
          s = s\<lparr>hc_content_len := to_int32 (strtol 16 (drop (hc_mark s) buffer))\<rparr>;
          s = s\<lparr>hc_chunks_done := (hc_content_len s \<le> 0)\<rparr>
      in if hc_chunks_done s then hc_call (LastChunk (drop (hc_mark s) buffer) (LEN (hc_mark s) fpc)) s
         else hc_call (ChunkSize (drop (hc_mark s) buffer) (LEN (hc_mark s) fpc)) s)"

definition hc_done :: "string \<Rightarrow> nat \<Rightarrow> nat \<Rightarrow> httpclient_parser \<Rightarrow> httpclient_parser" where
  "hc_done buffer len fpc s =
     hc_call (RespHeaderDone (drop (fpc + 1) buffer) (len - fpc - 1)) (s\<lparr>hc_body_start := fpc + 1\<rparr>)"

definition hc_status_code :: "string \<Rightarrow> nat \<Rightarrow> httpclient_parser \<Rightarrow> httpclient_parser" where
  "hc_status_code buffer fpc s =
     (let s = s\<lparr>hc_status := to_int32 (strtol 10 (drop (hc_mark s) buffer))\<rparr>
      in hc_call (StatusCode (drop (hc_mark s) buffer) (LEN (hc_mark s) fpc)) s)"

primrec hc_act :: "string \<Rightarrow> nat \<Rightarrow> hc_action \<Rightarrow> nat \<Rightarrow> httpclient_parser \<Rightarrow> httpclient_parser" where
  "hc_act buffer len HcMark fpc s = s\<lparr>hc_mark := fpc\<rparr>"
| "hc_act buffer len HcStartField fpc s = s\<lparr>hc_field_start := fpc\<rparr>"
| "hc_act buffer len HcWriteField fpc s = s\<lparr>hc_field_len := LEN (hc_field_start s) fpc\<rparr>"
| "hc_act buffer len HcStartValue fpc s = s\<lparr>hc_mark := fpc\<rparr>"
| "hc_act buffer len HcWriteContentLen fpc s = s\<lparr>hc_content_len := to_int32 (strtol 10 (drop (hc_mark s) buffer))\<rparr>"
| "hc_act buffer len HcWriteConnectionClose fpc s = s\<lparr>hc_close := True\<rparr>"
| "hc_act buffer len HcWriteValue fpc s =
     hc_call (RespField (drop (hc_field_start s) buffer) (hc_field_len s) (drop (hc_mark s) buffer) (LEN (hc_mark s) fpc)) s"
| "hc_act buffer len HcReasonPhraseAct fpc s = hc_call (ReasonPhrase (drop (hc_mark s) buffer) (LEN (hc_mark s) fpc)) s"
| "hc_act buffer len HcStatusCodeAct fpc s = hc_status_code buffer fpc s"
| "hc_act buffer len HcHttpVersionAct fpc s = hc_call (RespVersion (drop (hc_mark s) buffer) (LEN (hc_mark s) fpc)) s"
| "hc_act buffer len HcChunkSizeAct fpc s = hc_chunk_size buffer fpc s"
| "hc_act buffer len HcTransChunked fpc s = s\<lparr>hc_chunked := True\<rparr>"
| "hc_act buffer len HcDone fpc s = hc_done buffer len fpc s"

definition hc_machine :: "string \<Rightarrow> nat \<Rightarrow> (hc_action, httpclient_parser) machine" where
  "hc_machine buffer len = \<lparr>ma_case = hc_case, ma_act = hc_act buffer len, ma_break = (\<lambda>a. a = HcDone)\<rparr>"

text \<open>The three failing \<^verbatim>\<open>check\<close>s return -1. The assertion on the distance of the pointers is left out: it holds for
  every buffer of less than 2 GB.\<close>

definition httpclient_parser_execute ::
  "string \<Rightarrow> nat \<Rightarrow> nat \<Rightarrow> httpclient_parser \<Rightarrow> (httpclient_parser, int) outcome" where
  "httpclient_parser_execute buffer len off s =
     (let s = s\<lparr>hc_nread := 0, hc_mark := 0, hc_field_len := 0, hc_field_start := 0\<rparr> in
      CXK_ASSERT (off \<le> len) (
      if length buffer \<le> len then Undef OutOfBounds else
      CXK_ASSERT (buffer ! len = CHR 0x00) (
      case ragel_loop (hc_machine buffer len) (drop off (take len buffer)) off (hc_cs s) s of (p, cs, s) \<Rightarrow>
        let s = s\<lparr>hc_cs := cs, hc_nread := hc_nread s + (p - off)\<rparr> in
        CXK_ASSERT (p \<le> len) (CXK_ASSERT (hc_nread s \<le> len) (CXK_ASSERT (hc_body_start s \<le> len) (
        if hc_mark s < len \<and> hc_field_len s \<le> len \<and> hc_field_start s < len then Ret (int (hc_nread s)) s
        else Ret (-1) s))))))"

definition httpclient_parser_has_error :: "httpclient_parser \<Rightarrow> bool" where
  "httpclient_parser_has_error s \<longleftrightarrow> hc_cs s = 0"

definition httpclient_parser_is_finished :: "httpclient_parser \<Rightarrow> bool" where
  "httpclient_parser_is_finished s \<longleftrightarrow> hc_cs s = 120"

definition httpclient_parser_finish :: "httpclient_parser \<Rightarrow> int" where
  "httpclient_parser_finish s =
     (if httpclient_parser_has_error s then -1 else if httpclient_parser_is_finished s then 1 else 0)"

section \<open>Safety\<close>

text \<open>Offsets stay inside the text, and so do the parts passed to the callbacks, except for the name of a field.\<close>

primrec event_inside :: "string \<Rightarrow> nat \<Rightarrow> response_event \<Rightarrow> bool" where
  "event_inside buffer len (ReasonPhrase at n) = part_of buffer len at n"
| "event_inside buffer len (StatusCode at n) = part_of buffer len at n"
| "event_inside buffer len (ChunkSize at n) = part_of buffer len at n"
| "event_inside buffer len (RespVersion at n) = part_of buffer len at n"
| "event_inside buffer len (RespHeaderDone at n) = part_of buffer len at n"
| "event_inside buffer len (LastChunk at n) = part_of buffer len at n"
| "event_inside buffer len (RespField field k at n) = part_of buffer len at n"

definition hc_inv :: "string \<Rightarrow> nat \<Rightarrow> nat \<Rightarrow> nat \<Rightarrow> httpclient_parser \<Rightarrow> bool" where
  "hc_inv buffer len n p s \<longleftrightarrow> list_all (event_inside buffer len) (hc_events s) \<and> hc_mark s \<le> p \<and> hc_mark s < len \<and> hc_field_start s \<le> p \<and> hc_field_start s < len \<and>
     hc_field_len s \<le> p \<and> hc_body_start s \<le> len"

lemmas hc_actions = hc_call_def hc_chunk_size_def hc_done_def hc_status_code_def Let_def

lemma hc_act_inv: "p < len \<Longrightarrow> hc_inv buffer len n p s \<Longrightarrow> hc_inv buffer len n p (hc_act buffer len a p s)"
  by (cases a) (auto simp: hc_inv_def hc_actions part_of_def)

lemma hc_acts_inv: "p < len \<Longrightarrow> hc_inv buffer len n p s \<Longrightarrow> hc_inv buffer len n p (fold (\<lambda>a. hc_act buffer len a p) as s)"
  by (induction as arbitrary: s) (auto intro: hc_act_inv)

lemma hc_move_inv: "p \<le> q \<Longrightarrow> hc_inv buffer len n p s \<Longrightarrow> hc_inv buffer len m q s"
  by (auto simp: hc_inv_def)

interpretation hc: ragel_machine "hc_machine buffer len" "hc_inv buffer len" len "{120..123}" for buffer len
proof unfold_locales
  fix n c as m p s
  assume "p < len" "hc_inv buffer len n p s"
  then have "hc_inv buffer len n p (fold (\<lambda>a. ma_act (hc_machine buffer len) a p) as s)"
    using hc_acts_inv [of p len buffer n s as] by (simp add: hc_machine_def)
  then show "hc_inv buffer len m (Suc p) (fold (\<lambda>a. ma_act (hc_machine buffer len) a p) as s)"
    "hc_inv buffer len 0 p (fold (\<lambda>a. ma_act (hc_machine buffer len) a p) as s)"
    by (auto elim!: hc_move_inv [rotated])
next
  fix n c as m
  assume "ma_case (hc_machine buffer len) n c = Goto as m" "list_ex (ma_break (hc_machine buffer len)) as"
  then show "m \<in> {120..123}"
    using hc_edge_case [of n c] by (auto simp: hc_machine_def hc_edge_def list_ex_iff)
qed

lemma hc_start_inv:
  "0 < len \<Longrightarrow> hc_body_start s \<le> len \<Longrightarrow> list_all (event_inside buffer len) (hc_events s) \<Longrightarrow>
   hc_inv buffer len n 0 (s\<lparr>hc_nread := 0, hc_mark := 0, hc_field_len := 0, hc_field_start := 0\<rparr>)"
  by (simp add: hc_inv_def)

lemma hc_act_nread: "hc_nread (hc_act buffer len a p s) = hc_nread s"
  by (cases a) (auto simp: hc_actions)

lemma hc_loop_nread: "ragel_loop (hc_machine buffer len) xs p n s = (p', m, s') \<Longrightarrow> hc_nread s' = hc_nread s"
proof (induction xs arbitrary: p n s)
  case (Cons c xs)
  obtain as k where g: "hc_case n (schar c) = Goto as k" by (cases "hc_case n (schar c)")
  have "hc_nread (fold (\<lambda>a. hc_act buffer len a p) as s) = hc_nread s" for s
    by (induction as arbitrary: s) (auto simp: hc_act_nread)
  then show ?case
    using Cons g by (auto simp: hc_machine_def Let_def split: if_splits)
qed simp

text \<open>What \<open>execute\<close> does, given what its loop does.\<close>

lemma execute_loop:
  assumes "ragel_loop (hc_machine buffer len) (take len buffer) 0 (hc_cs s)
      (s\<lparr>hc_nread := 0, hc_mark := 0, hc_field_len := 0, hc_field_start := 0\<rparr>) = (p, cs, s')"
    and "0 < len" and "len < length buffer" and "buffer ! len = CHR 0x00" and "hc_body_start s \<le> len"
    and "list_all (event_inside buffer len) (hc_events s)"
  shows "httpclient_parser_execute buffer len 0 s = Ret (int p) (s'\<lparr>hc_cs := cs, hc_nread := p\<rparr>) \<and>
    list_all (event_inside buffer len) (hc_events s') \<and> p \<le> len \<and> (p = len \<or> cs = 0 \<or> cs \<in> {120..123})"
proof -
  have l: "0 + length (take len buffer) = len" using assms(3) by simp
  note r = hc.loop_result [OF assms(1) l hc_start_inv [OF assms(2,5,6)]]
  then have i: "hc_inv buffer len cs p s'" "p \<le> len" by auto
  moreover have "hc_nread s' = 0" using hc_loop_nread [OF assms(1)] by simp
  moreover have "hc_field_len s' \<le> len" using i by (auto simp: hc_inv_def)
  ultimately show ?thesis
    using assms(1,3,4) r by (auto simp: httpclient_parser_execute_def CXK_ASSERT_def Let_def hc_inv_def)
qed

section \<open>Chunk headers\<close>

lemma hc_chunk_edges:
  "xdigit c \<Longrightarrow> hc_case (Suc 0) c = Goto [HcMark] 2" "xdigit c \<Longrightarrow> hc_case 2 c = St 2"
  "hc_case 2 13 = Goto [HcChunkSizeAct] 3" "hc_case 3 10 = Goto [HcDone] 120"
  by (auto simp: xdigit_def hc_case_simps hc_case_1_def hc_case_2_def hc_case_3_def hc_tr_defs)

lemma hc_machine_simps [simp]:
  "ma_case (hc_machine buffer len) = hc_case" "ma_act (hc_machine buffer len) = hc_act buffer len"
  "ma_break (hc_machine buffer len) = (\<lambda>a. a = HcDone)"
  by (simp_all add: hc_machine_def)

lemma chunk_loop:
  assumes "hs \<noteq> []" and "\<forall>h\<in>set hs. xdigit (schar h)"
  shows "ragel_loop (hc_machine buffer len) (hs @ crlf @ rest) 0 1 s =
    (length hs + 2, 120, hc_done buffer len (length hs + 1) (hc_chunk_size buffer (length hs) (s\<lparr>hc_mark := 0\<rparr>)))"
proof -
  let ?M = "hc_machine buffer len"
  obtain h t where hs: "hs = h # t" using assms(1) by (cases hs) auto
  have "passes ?M t 1 2 (s\<lparr>hc_mark := 0\<rparr>) 2 (s\<lparr>hc_mark := 0\<rparr>)"
    by (rule passes_stay) (use assms(2) hs in \<open>auto simp: hc_chunk_edges\<close>)
  then have "passes ?M hs 0 1 s 2 (s\<lparr>hc_mark := 0\<rparr>)"
    unfolding hs by (intro passes_Cons [where m = 2 and as = "[HcMark]"]) (use assms(2) hs in \<open>auto simp: hc_chunk_edges\<close>)
  then show ?thesis
    by (subst passes_loop) (auto simp: hc_chunk_edges)
qed

text \<open>Hexadecimal numbers: \<open>strtol\<close> inverts their printing.\<close>

definition hex_digit :: "nat \<Rightarrow> char" where
  "hex_digit d = (if d < 10 then char_of (48 + d) else char_of (87 + d))"

fun hex :: "nat \<Rightarrow> string" where
  "hex n = (if n < 16 then [hex_digit n] else hex (n div 16) @ [hex_digit (n mod 16)])"

declare hex.simps [simp del]

lemma schar_hex_digit: "d < 16 \<Longrightarrow> schar (hex_digit d) = (if d < 10 then 48 + int d else 87 + int d)"
  by (simp add: hex_digit_def schar_char_of)

lemma hex_xdigits: "hex n \<noteq> [] \<and> (\<forall>h\<in>set (hex n). xdigit (schar h))"
proof (induction n rule: hex.induct)
  case (1 n)
  then show ?case
    by (subst (1 2) hex.simps) (auto simp: schar_hex_digit xdigit_def)
qed

lemma strtol_digits_append:
  "\<forall>x\<in>set xs. digit_in base x \<noteq> None \<Longrightarrow> strtol_digits base acc (xs @ ys) = strtol_digits base (strtol_digits base acc xs) ys"
  by (induction xs arbitrary: acc) auto

lemma digit_in_xdigit: "xdigit (schar h) \<Longrightarrow> digit_in 16 h \<noteq> None"
  by (auto simp: digit_in_def xdigit_def Let_def)

lemma digit_in_hex: "d < 16 \<Longrightarrow> digit_in 16 (hex_digit d) = Some (int d)"
  by (auto simp: digit_in_def schar_hex_digit Let_def)

lemma strtol_digits_hex: "strtol_digits 16 0 (hex n) = int n"
proof (induction n rule: hex.induct)
  case (1 n)
  show ?case
  proof (cases "n < 16")
    case True
    then show ?thesis by (simp add: hex.simps [of n] digit_in_hex)
  next
    case False
    have "\<forall>x\<in>set (hex (n div 16)). digit_in 16 x \<noteq> None" using hex_xdigits digit_in_xdigit by blast
    then have "strtol_digits 16 0 (hex n) = 16 * int (n div 16) + int (n mod 16)"
      using 1 False by (simp add: hex.simps [of n] strtol_digits_append digit_in_hex)
    then show ?thesis by (metis mult_div_mod_eq of_nat_add of_nat_mult of_nat_numeral)
  qed
qed

lemma strtol_hex:
  assumes "hs \<noteq> []" and "\<forall>h\<in>set hs. xdigit (schar h)"
  shows "strtol 16 (hs @ crlf @ rest) = clamp_long (strtol_digits 16 0 hs)"
proof -
  obtain h t where hs: "hs = h # t" using assms(1) by (cases hs) auto
  have h: "xdigit (schar h)" using assms(2) hs by simp
  have no: "\<not> xdigit (schar CHR ''x'')" "\<not> xdigit (schar CHR ''X'')" "\<not> xdigit (schar CHR ''-'')" "\<not> xdigit (schar CHR ''+'')"
    by (simp_all add: xdigit_def schar_def)
  have "digit_in 16 CHR 0x0D = None" by (simp add: digit_in_def)
  moreover have "\<forall>x\<in>set hs. digit_in 16 x \<noteq> None" using assms(2) digit_in_xdigit by blast
  ultimately have "strtol_digits 16 0 (hs @ crlf @ rest) = strtol_digits 16 0 hs" by (simp add: strtol_digits_append)
  moreover have "skip_0x 16 (hs @ crlf @ rest) = hs @ crlf @ rest"
    using assms(2) no hs by (cases t) (auto simp: skip_0x_def split: list.splits)
  moreover have "dropWhile (\<lambda>c. schar c = 32 \<or> (9 \<le> schar c \<and> schar c \<le> 13)) (hs @ crlf @ rest) = hs @ crlf @ rest"
    using h by (auto simp: hs xdigit_def)
  moreover have "h \<noteq> CHR ''-''" "h \<noteq> CHR ''+''" using h no by auto
  ultimately show ?thesis by (simp add: strtol_def hs)
qed

lemma small_int: "0 \<le> v \<Longrightarrow> v < 2 ^ 31 \<Longrightarrow> to_int32 (clamp_long v) = v"
  by (simp add: to_int32_def clamp_long_def sint_sbintrunc' signed_take_bit_int_eq_self)

text \<open>A chunk header at the start of the buffer is read exactly: the parser stops behind its line end, finished, with the
  size of the chunk, and reports the last chunk if the size is 0.\<close>

lemma chunk_header:
  assumes "take len buffer = hex n @ crlf @ rest" and "n < 2 ^ 31" and "len < length buffer" and "buffer ! len = CHR 0x00"
    and "hc_events s = []"
  shows "\<exists>s'. httpclient_parser_execute buffer len 0 (httpclient_parser_init s) = Ret (int (length (hex n) + 2)) s' \<and>
    httpclient_parser_is_finished s' \<and> hc_chunked s' \<and> hc_content_len s' = int n \<and> hc_chunks_done s' = (n = 0) \<and>
    hc_events s' =
      [if n = 0 then LastChunk buffer (length (hex n)) else ChunkSize buffer (length (hex n)),
       RespHeaderDone (drop (length (hex n) + 2) buffer) (length rest)]"
proof -
  have len: "len = length (hex n) + 2 + length rest" using arg_cong [OF assms(1), of length] assms(3) by simp
  have buffer: "buffer = hex n @ crlf @ rest @ drop len buffer" using assms(1) append_take_drop_id [of len buffer] by simp
  have "strtol 16 buffer = clamp_long (int n)"
    using strtol_hex [of "hex n" "rest @ drop len buffer"] hex_xdigits [of n] buffer strtol_digits_hex by metis
  then have v: "to_int32 (strtol 16 buffer) = int n" using small_int assms(2) by simp
  let ?s = "(httpclient_parser_init s)\<lparr>hc_nread := 0, hc_mark := 0, hc_field_len := 0, hc_field_start := 0\<rparr>"
  let ?t = "hc_done buffer len (length (hex n) + 1) (hc_chunk_size buffer (length (hex n)) (?s\<lparr>hc_mark := 0\<rparr>))"
  have l: "ragel_loop (hc_machine buffer len) (take len buffer) 0 (hc_cs (httpclient_parser_init s)) ?s = (length (hex n) + 2, 120, ?t)"
    using chunk_loop [of "hex n" buffer len rest ?s] hex_xdigits [of n] assms(1) by (simp add: httpclient_parser_init_def)
  have "hc_body_start (httpclient_parser_init s) \<le> len" "list_all (event_inside buffer len) (hc_events (httpclient_parser_init s))"
    using assms(5) by (simp_all add: httpclient_parser_init_def)
  from execute_loop [OF l _ assms(3,4) this] len
  have "httpclient_parser_execute buffer len 0 (httpclient_parser_init s) =
      Ret (int (length (hex n) + 2)) (?t\<lparr>hc_cs := 120, hc_nread := length (hex n) + 2\<rparr>)" by simp
  then show ?thesis
    using v len assms(5) by (auto simp: hc_actions httpclient_parser_init_def httpclient_parser_is_finished_def)
qed

section \<open>Response heads\<close>

text \<open>Which states follow the characters of a header name; the states 44 to 60 spell \<^verbatim>\<open>Transfer-Encoding\<close> in any case.\<close>

definition lowc :: "char \<Rightarrow> int" where
  "lowc c = (if 65 \<le> schar c \<and> schar c \<le> 90 then schar c + 32 else schar c)"

definition te_name :: "int list" where
  "te_name = [116, 114, 97, 110, 115, 102, 101, 114, 45, 101, 110, 99, 111, 100, 105, 110, 103]"

definition hc_name_states :: "nat set" where
  "hc_name_states = {21, 25, 26, 27, 28, 29, 30, 31, 32, 33, 34, 44, 45, 46, 47, 48, 49, 50, 51, 52, 53, 54, 55, 56, 57, 58, 59, 60,
     101, 102, 103, 104, 105, 106, 107, 108, 109, 110, 111}"

definition hc_named :: "nat \<Rightarrow> string \<Rightarrow> bool" where
  "hc_named n xs \<longleftrightarrow> n \<in> hc_name_states \<and> (44 \<le> n \<and> n \<le> 60 \<longrightarrow> map lowc xs = take (n - 43) te_name)"

lemma hc_name_region: "region (hc_machine buffer len) token hc_named"
  unfolding region_def
proof (intro allI impI)
  fix n ys c
  assume n: "hc_named n ys" and c: "token (schar c)"
  have "n \<in> hc_name_states" using n by (simp add: hc_named_def)
  then show "\<exists>m. m \<noteq> 0 \<and> ma_case (hc_machine buffer len) n (schar c) = St m \<and> hc_named m (ys @ [c])"
    using n unfolding hc_name_states_def hc_machine_simps
    by (elim insertE emptyE; simp add: hc_name_edges [OF c] hc_named_def hc_name_states_def te_name_def lowc_def)
qed

text \<open>The states of a value; those from 81 on spell \<^verbatim>\<open>chunked\<close> and follow the name \<^verbatim>\<open>Transfer-Encoding\<close> only.\<close>

definition hc_value_states :: "bool \<Rightarrow> nat set" where
  "hc_value_states te = {23, 96, 97, 98, 99, 100, 119} \<union> (if te then {81, 82, 83, 84, 85, 86, 87} else {})"

definition hc_blank_states :: "bool \<Rightarrow> nat set" where
  "hc_blank_states te = {22, 35, 112} \<union> (if te then {61} else {})"

lemma hc_value_region: "region (hc_machine buffer len) value_char (\<lambda>n _. n \<in> hc_value_states te)"
  unfolding region_def
proof (intro allI impI)
  fix n c
  assume n: "n \<in> hc_value_states te" and c: "value_char (schar c)"
  show "\<exists>m. m \<noteq> 0 \<and> ma_case (hc_machine buffer len) n (schar c) = St m \<and> m \<in> hc_value_states te"
    using n unfolding hc_value_states_def hc_machine_simps
    by (elim UnE insertE emptyE; simp add: hc_value_edges [OF c] split: if_splits; elim disjE; simp add: hc_value_edges [OF c])
qed

lemma hc_colon:
  assumes "hc_named n xs"
  shows "\<exists>m\<in>hc_blank_states (map lowc xs = te_name). m \<noteq> 0 \<and> hc_case n 58 = Goto [HcWriteField] m"
proof -
  have "n \<in> hc_name_states" using assms by (simp add: hc_named_def)
  then show ?thesis
    using assms unfolding hc_name_states_def
    by (elim insertE emptyE; simp add: hc_colon_edges hc_blank_states_def hc_named_def te_name_def)
qed

lemma hc_blank: "n \<in> hc_blank_states te \<Longrightarrow> hc_case n 32 = Goto [HcStartValue] n"
  by (auto simp: hc_blank_states_def hc_blank_edges split: if_splits)

lemma hc_first:
  assumes "n \<in> hc_blank_states te" and "non_space c"
  shows "\<exists>m\<in>hc_value_states te. hc_case n c = Goto [HcStartValue] m"
  using assms(1) hc_first_edges [OF assms(2)]
  by (auto simp: hc_blank_states_def hc_value_states_def split: if_splits)

lemma hc_cr:
  assumes "n \<in> hc_value_states te"
  shows "\<exists>as m. hc_case n 13 = Goto as m \<and> (as = [HcWriteValue] \<or> as = [HcWriteContentLen, HcWriteValue]) \<and>
    (m = 24 \<or> m = 88 \<or> te \<and> m = 71)"
  using assms by (auto simp: hc_value_states_def hc_cr_edges split: if_splits)

definition good_field :: "string \<times> string \<Rightarrow> bool" where
  "good_field f \<longleftrightarrow> fst f \<noteq> [] \<and> (\<forall>c\<in>set (fst f). token (schar c)) \<and>
     snd f \<noteq> [] \<and> non_space (schar (hd (snd f))) \<and> (\<forall>c\<in>set (snd f). value_char (schar c))"

lemma hc_line:
  assumes "n = 20 \<or> n = 43" and "token (schar c)"
  shows "\<exists>k. hc_case n (schar c) = Goto ((if n = 43 then [HcWriteConnectionClose] else []) @ [HcStartField]) k \<and> k \<noteq> 0 \<and> hc_named k [c]"
  using assms(1) hc_line_edges(1,2) [OF assms(2)]
  by (elim disjE) (simp_all add: hc_named_def hc_name_states_def te_name_def lowc_def)

lemma field_passes:
  assumes "n \<in> {20, 43}" and "good_field (name, v)"
  shows "\<exists>m\<in>{20, 43}. \<exists>s'. passes (hc_machine buffer len) (field_line (name, v)) p n s m s' \<and>
    hc_events s' = hc_events s @ [RespField (drop p buffer) (length name) (drop (p + length name + 2) buffer) (length v)] \<and>
    hc_status s' = hc_status s \<and> (hc_chunked s \<longrightarrow> hc_chunked s') \<and> (hc_chunked s' \<longrightarrow> hc_chunked s \<or> map lowc name = te_name)"
proof -
  let ?M = "hc_machine buffer len" and ?te = "map lowc name = te_name"
  obtain c cs where name: "name = c # cs" and c: "token (schar c)" and cs: "\<forall>c\<in>set cs. token (schar c)"
    using assms(2) by (cases name) (auto simp: good_field_def)
  obtain x xs where v: "v = x # xs" and x: "non_space (schar x)" and xs: "\<forall>c\<in>set xs. value_char (schar c)"
    using assms(2) by (cases v) (auto simp: good_field_def)
  define s1 where "s1 = (if n = 43 then s\<lparr>hc_close := True\<rparr> else s)\<lparr>hc_field_start := p\<rparr>"
  obtain k where k: "hc_case n (schar c) = Goto ((if n = 43 then [HcWriteConnectionClose] else []) @ [HcStartField]) k" "k \<noteq> 0"
    "hc_named k [c]" using hc_line [OF _ c, of n] assms(1) by blast
  obtain k2 where k2: "hc_named k2 name" "passes ?M cs (Suc p) k s1 k2 s1"
    using passes_region [OF hc_name_region k(3) cs] name by force
  obtain k3 where k3: "k3 \<in> hc_blank_states ?te" "k3 \<noteq> 0" "hc_case k2 58 = Goto [HcWriteField] k3" using hc_colon [OF k2(1)] by blast
  obtain k4 where k4: "k4 \<in> hc_value_states ?te" "hc_case k3 (schar x) = Goto [HcStartValue] k4" using hc_first [OF k3(1) x] by blast
  have 0: "k4 \<noteq> 0" using k4(1) by (auto simp: hc_value_states_def split: if_splits)
  define q where "q = p + length name"
  define s2 where "s2 = s1\<lparr>hc_field_len := length name, hc_mark := q + 2\<rparr>"
  obtain k5 where k5: "k5 \<in> hc_value_states ?te" "passes ?M xs (Suc (Suc (Suc q))) k4 s2 k5 s2"
    using passes_region [OF hc_value_region k4(1) xs] by blast
  obtain as' k6 where k6: "hc_case k5 13 = Goto as' k6" "as' = [HcWriteValue] \<or> as' = [HcWriteContentLen, HcWriteValue]"
    "k6 = 24 \<or> k6 = 88 \<or> ?te \<and> k6 = 71" using hc_cr [OF k5(1)] by blast
  define s3 where "s3 = fold (\<lambda>a. hc_act buffer len a (q + 2 + length v)) as' s2"
  have e: "hc_events s3 = hc_events s @ [RespField (drop p buffer) (length name) (drop (q + 2) buffer) (length v)]"
    "hc_status s3 = hc_status s" "hc_chunked s3 = hc_chunked s"
    using k6(2) by (auto simp: s3_def s2_def s1_def hc_call_def)
  obtain as'' k7 where k7: "hc_case k6 10 = Goto as'' k7" "k7 \<in> {20, 43}" "as'' = [] \<or> ?te \<and> as'' = [HcTransChunked]"
    using k6(3) by (auto simp: hc_lf_edges)
  define s4 where "s4 = fold (\<lambda>a. hc_act buffer len a (q + 3 + length v)) as'' s3"
  have "passes ?M [CHR 0x0A] (Suc (q + 2 + length v)) k6 s3 k7 s4"
    by (rule passes_Cons [where as = as'' and m = k7]) (use k7 in \<open>auto simp: s4_def eval_nat_numeral\<close>)
  then have "passes ?M crlf (q + 2 + length v) k5 s2 k7 s4"
    by (rule passes_pre) (use k6 in \<open>auto simp: s3_def\<close>)
  then have "passes ?M (xs @ crlf) (Suc (Suc (Suc q))) k4 s2 k7 s4" using v by (intro passes_append [OF k5(2)]) (simp add: eval_nat_numeral)
  then have "passes ?M (x # xs @ crlf) (Suc (Suc q)) k3 (s1\<lparr>hc_field_len := length name, hc_mark := q + 1\<rparr>) k7 s4"
    by (rule passes_pre) (use k4(2) 0 in \<open>auto simp: s2_def\<close>)
  then have "passes ?M ('' '' @ x # xs @ crlf) (Suc q) k3 (s1\<lparr>hc_field_len := length name\<rparr>) k7 s4"
    unfolding append.simps by (rule passes_pre) (use k3(2) hc_blank [OF k3(1)] in auto)
  then have "passes ?M ('': '' @ v @ crlf) q k2 s1 k7 s4"
    unfolding v append.simps by (rule passes_pre) (use k3 in \<open>auto simp: s1_def q_def\<close>)
  then have "passes ?M (cs @ '': '' @ v @ crlf) (Suc p) k s1 k7 s4"
    using name by (intro passes_append [OF k2(2)]) (simp add: q_def)
  then have "passes ?M (field_line (name, v)) p n s k7 s4"
    unfolding field_line_def fst_conv snd_conv name append.simps by (rule passes_pre) (use k in \<open>auto simp: s1_def split: if_splits\<close>)
  moreover have "hc_events s4 = hc_events s3" "hc_status s4 = hc_status s3" "hc_chunked s3 \<longrightarrow> hc_chunked s4"
    "hc_chunked s4 \<longrightarrow> hc_chunked s3 \<or> ?te" using k7(3) by (auto simp: s4_def)
  ultimately show ?thesis using e unfolding q_def by (intro bexI [OF _ k7(2)] exI [of _ s4]) simp
qed

definition te_chunked :: "string \<times> string" where
  "te_chunked = (''Transfer-Encoding'', ''chunked'')"

lemma te_chunked_passes:
  assumes "n \<in> {20, 43}"
  shows "\<exists>m s'. passes (hc_machine buffer len) (field_line te_chunked) p n s m s' \<and> hc_chunked s'"
proof -
  have "\<exists>s'. (\<forall>rest. ragel_loop (hc_machine buffer len) (field_line te_chunked @ rest) p n s =
      ragel_loop (hc_machine buffer len) rest (p + length (field_line te_chunked)) 20 s') \<and> hc_chunked s'"
    using assms
    by (auto simp: te_chunked_def field_line_def hc_line_edges hc_name_edges hc_colon_edges hc_blank_edges hc_first_edges
        hc_value_edges hc_cr_edges hc_lf_edges token_def non_space_def value_char_def schar_def hc_call_def)
  then show ?thesis unfolding passes_def by blast
qed

fun field_events :: "string \<Rightarrow> nat \<Rightarrow> (string \<times> string) list \<Rightarrow> response_event list" where
  "field_events buffer p [] = []"
| "field_events buffer p ((k, v) # fs) =
     RespField (drop p buffer) (length k) (drop (p + length k + 2) buffer) (length v)
       # field_events buffer (p + length (field_line (k, v))) fs"

lemma fields_passes:
  assumes "n \<in> {20, 43}" and "\<forall>f\<in>set fs. good_field f"
  shows "\<exists>m\<in>{20, 43}. \<exists>s'. passes (hc_machine buffer len) (concat (map field_line fs)) p n s m s' \<and>
    hc_events s' = hc_events s @ field_events buffer p fs \<and> hc_status s' = hc_status s \<and>
    (hc_chunked s \<longrightarrow> hc_chunked s') \<and> (hc_chunked s' \<longrightarrow> hc_chunked s \<or> (\<exists>f\<in>set fs. map lowc (fst f) = te_name)) \<and>
    (te_chunked \<in> set fs \<longrightarrow> hc_chunked s')"
  using assms
proof (induction fs arbitrary: p n s)
  case Nil
  then show ?case by (intro bexI [of _ n] exI [of _ s]) simp_all
next
  case (Cons f fs)
  obtain k v where f: "f = (k, v)" by (cases f)
  have "good_field (k, v)" using Cons.prems(2) f by simp
  from field_passes [OF Cons.prems(1) this, of buffer len p s]
  obtain m t where t: "m \<in> {20, 43}" "passes (hc_machine buffer len) (field_line (k, v)) p n s m t"
    "hc_events t = hc_events s @ [RespField (drop p buffer) (length k) (drop (p + length k + 2) buffer) (length v)]"
    "hc_status t = hc_status s" "hc_chunked s \<longrightarrow> hc_chunked t" "hc_chunked t \<longrightarrow> hc_chunked s \<or> map lowc k = te_name" by blast
  have "\<forall>f\<in>set fs. good_field f" using Cons.prems(2) by simp
  from Cons.IH [OF t(1) this, of "p + length (field_line (k, v))" t]
  obtain m' u where u: "m' \<in> {20, 43}"
    "passes (hc_machine buffer len) (concat (map field_line fs)) (p + length (field_line (k, v))) m t m' u"
    "hc_events u = hc_events t @ field_events buffer (p + length (field_line (k, v))) fs" "hc_status u = hc_status t"
    "hc_chunked t \<longrightarrow> hc_chunked u" "hc_chunked u \<longrightarrow> hc_chunked t \<or> (\<exists>f\<in>set fs. map lowc (fst f) = te_name)"
    "te_chunked \<in> set fs \<longrightarrow> hc_chunked u" by blast
  have "hc_chunked t" if "f = te_chunked"
    using te_chunked_passes [OF Cons.prems(1), of buffer len p s] passes_unique [OF t(2)] f that by metis
  then have te: "te_chunked \<in> set (f # fs) \<longrightarrow> hc_chunked u" using u(5,7) by auto
  have "passes (hc_machine buffer len) (concat (map field_line (f # fs))) p n s m' u" using passes_append [OF t(2) u(2)] f by simp
  moreover have "hc_chunked s \<longrightarrow> hc_chunked u" "hc_chunked u \<longrightarrow> hc_chunked s \<or> (\<exists>f\<in>set (f # fs). map lowc (fst f) = te_name)"
    using t(5,6) u(5,6) f by auto
  ultimately show ?case
    using u(1,3,4) t(3,4) f te by (intro bexI [OF _ u(1)] exI [of _ u]) simp
qed

lemma version_passes:
  assumes "digit (schar a)" and "digit (schar b)"
  shows "passes (hc_machine buffer len) (''HTTP/'' @ [a] @ ''.'' @ [b] @ '' '') 0 1 s 16 (hc_call (RespVersion buffer 8) (s\<lparr>hc_mark := 0\<rparr>))"
  using assms by (simp add: passes_def hc_status_edges) (simp add: eval_nat_numeral)

lemma status_passes:
  assumes "code \<noteq> []" and "\<forall>d\<in>set code. digit (schar d)"
  shows "passes (hc_machine buffer len) (code @ '' '') p 16 s 18 (hc_status_code buffer (p + length code) (s\<lparr>hc_mark := p\<rparr>))"
proof -
  obtain d ds where code: "code = d # ds" using assms(1) by (cases code) auto
  have "passes (hc_machine buffer len) ds (Suc p) 17 (s\<lparr>hc_mark := p\<rparr>) 17 (s\<lparr>hc_mark := p\<rparr>)"
    by (rule passes_stay) (use assms(2) code in \<open>auto simp: hc_status_edges\<close>)
  then have "passes (hc_machine buffer len) code p 16 s 17 (s\<lparr>hc_mark := p\<rparr>)"
    unfolding code by (rule passes_pre) (use assms(2) code in \<open>auto simp: hc_status_edges\<close>)
  then show ?thesis
    by (rule passes_append) (simp add: passes_def hc_status_edges)
qed

lemma reason_passes:
  assumes "reason \<noteq> []" and "\<forall>c\<in>set reason. value_char (schar c)"
  shows "passes (hc_machine buffer len) (reason @ crlf) p 18 s 20
    (hc_call (ReasonPhrase (drop p buffer) (length reason)) (s\<lparr>hc_mark := p\<rparr>))"
proof -
  obtain c cs where reason: "reason = c # cs" using assms(1) by (cases reason) auto
  have "passes (hc_machine buffer len) cs (Suc p) 19 (s\<lparr>hc_mark := p\<rparr>) 19 (s\<lparr>hc_mark := p\<rparr>)"
    by (rule passes_stay) (use assms(2) reason in \<open>auto simp: hc_status_edges\<close>)
  then have "passes (hc_machine buffer len) reason p 18 s 19 (s\<lparr>hc_mark := p\<rparr>)"
    unfolding reason by (rule passes_pre) (use assms(2) reason in \<open>auto simp: hc_status_edges\<close>)
  then show ?thesis
    by (rule passes_append) (simp add: passes_def hc_status_edges)
qed

text \<open>A whole head.\<close>

definition head_text :: "char \<Rightarrow> char \<Rightarrow> string \<Rightarrow> string \<Rightarrow> (string \<times> string) list \<Rightarrow> string" where
  "head_text a b code reason fs =
     (''HTTP/'' @ [a] @ ''.'' @ [b] @ '' '') @ (code @ '' '') @ (reason @ crlf) @ concat (map field_line fs) @ crlf"

definition head_events :: "string \<Rightarrow> nat \<Rightarrow> string \<Rightarrow> string \<Rightarrow> (string \<times> string) list \<Rightarrow> response_event list" where
  "head_events buffer len code reason fs =
     (let q = 9 + length code + 1; r = q + length reason + 2; t = r + length (concat (map field_line fs)) + 2
      in [RespVersion buffer 8, StatusCode (drop 9 buffer) (length code), ReasonPhrase (drop q buffer) (length reason)]
         @ field_events buffer r fs @ [RespHeaderDone (drop t buffer) (len - t)])"

lemma end_of_head:
  assumes "n \<in> {20, 43}"
  shows "\<exists>s'. ragel_loop (hc_machine buffer len) (crlf @ rest) p n s = (p + 2, 120, s') \<and>
    hc_events s' = hc_events s @ [RespHeaderDone (drop (p + 2) buffer) (len - p - 2)] \<and> hc_chunked s' = hc_chunked s \<and>
    hc_status s' = hc_status s"
  using assms by (auto simp: hc_line_edges hc_lf_edges hc_actions)

lemma head_loop:
  assumes "digit (schar a)" "digit (schar b)" "code \<noteq> []" "\<forall>d\<in>set code. digit (schar d)"
    "reason \<noteq> []" "\<forall>c\<in>set reason. value_char (schar c)" "\<forall>f\<in>set fs. good_field f"
    and "\<not> hc_chunked s" and "hc_events s = []"
  shows "\<exists>s'. ragel_loop (hc_machine buffer len) (head_text a b code reason fs @ rest) 0 1 s =
      (length (head_text a b code reason fs), 120, s') \<and> hc_events s' = head_events buffer len code reason fs \<and>
    hc_status s' = to_int32 (strtol 10 (drop 9 buffer)) \<and> (hc_chunked s' \<longrightarrow> (\<exists>f\<in>set fs. map lowc (fst f) = te_name)) \<and>
    (te_chunked \<in> set fs \<longrightarrow> hc_chunked s')"
proof -
  let ?M = "hc_machine buffer len" and ?q = "9 + length code + 1"
  note v = version_passes [OF assms(1,2), of buffer len s]
  define s1 where "s1 = hc_call (RespVersion buffer 8) (s\<lparr>hc_mark := 0\<rparr>)"
  define s2 where "s2 = hc_status_code buffer (9 + length code) (s1\<lparr>hc_mark := 9\<rparr>)"
  define s3 where "s3 = hc_call (ReasonPhrase (drop ?q buffer) (length reason)) (s2\<lparr>hc_mark := ?q\<rparr>)"
  have "passes ?M ((reason @ crlf)) ?q 18 s2 20 s3" using reason_passes [OF assms(5,6)] by (simp add: s3_def)
  then have "passes ?M ((code @ '' '') @ (reason @ crlf)) 9 16 s1 20 s3"
    using passes_append [OF status_passes [OF assms(3,4), of buffer len 9 s1], folded s2_def] by simp
  define line where "line = (''HTTP/'' @ [a] @ ''.'' @ [b] @ '' '') @ (code @ '' '') @ (reason @ crlf)"
  have p: "passes ?M line 0 1 s 20 s3"
    using \<open>passes ?M ((code @ '' '') @ (reason @ crlf)) 9 16 s1 20 s3\<close> unfolding line_def
    by (intro passes_append [OF v [folded s1_def]]) (simp add: eval_nat_numeral)
  have e: "hc_events s3 = [RespVersion buffer 8, StatusCode (drop 9 buffer) (length code), ReasonPhrase (drop ?q buffer) (length reason)]"
    "hc_status s3 = to_int32 (strtol 10 (drop 9 buffer))" "\<not> hc_chunked s3"
    using assms(8,9) by (simp_all add: s3_def s2_def s1_def hc_actions)
  let ?r = "?q + length reason + 2"
  obtain m t where t: "m \<in> {20, 43}" "passes ?M (concat (map field_line fs)) ?r 20 s3 m t"
    "hc_events t = hc_events s3 @ field_events buffer ?r fs" "hc_status t = hc_status s3"
    "hc_chunked t \<longrightarrow> hc_chunked s3 \<or> (\<exists>f\<in>set fs. map lowc (fst f) = te_name)" "te_chunked \<in> set fs \<longrightarrow> hc_chunked t"
    using fields_passes [of 20 fs buffer len ?r s3] assms(7) by blast
  obtain u where u: "ragel_loop ?M (crlf @ rest) (?r + length (concat (map field_line fs))) m t =
      (?r + length (concat (map field_line fs)) + 2, 120, u)"
    "hc_events u = hc_events t @ [RespHeaderDone (drop (?r + length (concat (map field_line fs)) + 2) buffer)
       (len - (?r + length (concat (map field_line fs))) - 2)]" "hc_chunked u = hc_chunked t" "hc_status u = hc_status t"
    using end_of_head [OF t(1)] by metis
  have l: "length line = ?r" by (simp add: line_def)
  have h: "head_text a b code reason fs = (line @ concat (map field_line fs)) @ crlf" by (simp add: head_text_def line_def)
  have "passes ?M (line @ concat (map field_line fs)) 0 1 s m t"
    using passes_append [OF p] t(2) l by simp
  from passes_loop [OF this, of "crlf @ rest"] u(1) l
  have "ragel_loop ?M (head_text a b code reason fs @ rest) 0 1 s = (length (head_text a b code reason fs), 120, u)"
    unfolding h append_assoc length_append by simp
  then show ?thesis using u(2-4) t(3-6) e by (intro exI [of _ u]) (simp add: head_events_def Let_def diff_diff_left)
qed

lemma response_head_execute:
  assumes "take len buffer = head_text a b code reason fs @ rest" and "len < length buffer" and "buffer ! len = CHR 0x00"
    and "digit (schar a)" "digit (schar b)" and "code \<noteq> []" and "\<forall>d\<in>set code. digit (schar d)"
    and "reason \<noteq> []" and "\<forall>c\<in>set reason. value_char (schar c)" and "\<forall>f\<in>set fs. good_field f" and "hc_events s = []"
  shows "\<exists>s'. httpclient_parser_execute buffer len 0 (httpclient_parser_init s) =
      Ret (int (length (head_text a b code reason fs))) s' \<and> httpclient_parser_is_finished s' \<and>
    hc_events s' = head_events buffer len code reason fs \<and> hc_status s' = to_int32 (strtol 10 (drop 9 buffer)) \<and>
    (hc_chunked s' \<longrightarrow> (\<exists>f\<in>set fs. map lowc (fst f) = te_name)) \<and>
    (te_chunked \<in> set fs \<longrightarrow> hc_chunked s')"
proof -
  let ?s = "httpclient_parser_init s"
  let ?t = "?s\<lparr>hc_nread := 0, hc_mark := 0, hc_field_len := 0, hc_field_start := 0\<rparr>"
  have "\<not> hc_chunked ?t" "hc_events ?t = []" using assms(11) by (simp_all add: httpclient_parser_init_def)
  from head_loop [OF assms(4-10) this, of buffer len rest]
  obtain u where u: "ragel_loop (hc_machine buffer len) (take len buffer) 0 (hc_cs ?s) ?t = (length (head_text a b code reason fs), 120, u)"
    "hc_events u = head_events buffer len code reason fs" "hc_status u = to_int32 (strtol 10 (drop 9 buffer))"
    "hc_chunked u \<longrightarrow> (\<exists>f\<in>set fs. map lowc (fst f) = te_name)" "te_chunked \<in> set fs \<longrightarrow> hc_chunked u"
    using assms(1) by (auto simp: httpclient_parser_init_def)
  have "0 < len" using arg_cong [OF assms(1), of length] assms(2) by (simp add: head_text_def)
  moreover have "hc_body_start ?s \<le> len" "list_all (event_inside buffer len) (hc_events ?s)"
    using assms(11) by (simp_all add: httpclient_parser_init_def)
  ultimately show ?thesis
    using execute_loop [OF u(1) _ assms(2,3)] u(2-5) by (auto simp: httpclient_parser_is_finished_def)
qed

section \<open>Properties\<close>


definition new_httpclient_parser :: httpclient_parser where
  "new_httpclient_parser = \<lparr>hc_cs = 0, hc_body_start = 0, hc_content_len = 0, hc_status = 0, hc_chunked = False, hc_chunks_done = False,
     hc_close = False, hc_nread = 0, hc_mark = 0, hc_field_start = 0, hc_field_len = 0, hc_events = []\<rparr>"


text \<open>A response head is reported exactly: for a status line and any number of header lines with names of token characters and
  non-empty values, the parser stops behind the empty line, finished, and has called its callbacks for the
  version, status, reason and every field in order, each with the text of that part; the chunked flag is set only by a
  \<^verbatim>\<open>Transfer-Encoding\<close> field.\<close>

theorem response_head_exact:
  assumes "take len buffer = head_text a b code reason fs @ rest" and "len < length buffer" and "buffer ! len = CHR 0x00"
    and "digit (schar a)" "digit (schar b)" and "code \<noteq> []" and "\<forall>d\<in>set code. digit (schar d)"
    and "reason \<noteq> []" and "\<forall>c\<in>set reason. value_char (schar c)" and "\<forall>f\<in>set fs. good_field f" and "hc_events s = []"
  shows "\<exists>s'. httpclient_parser_execute buffer len 0 (httpclient_parser_init s) =
      Ret (int (length (head_text a b code reason fs))) s' \<and> httpclient_parser_is_finished s' \<and>
    hc_events s' = head_events buffer len code reason fs \<and> hc_status s' = to_int32 (strtol 10 (drop 9 buffer)) \<and>
    (hc_chunked s' \<longrightarrow> (\<exists>f\<in>set fs. map lowc (fst f) = te_name)) \<and>
    (te_chunked \<in> set fs \<longrightarrow> hc_chunked s')"
  using response_head_execute [OF assms] .

theorem response_head_exact_witness:
  "\<exists>s'. httpclient_parser_execute (head_text CHR ''1'' CHR ''1'' ''200'' ''OK'' [(''Server'', ''x'')] @ [CHR 0x00])
      (length (head_text CHR ''1'' CHR ''1'' ''200'' ''OK'' [(''Server'', ''x'')])) 0 (httpclient_parser_init new_httpclient_parser) =
      Ret (int (length (head_text CHR ''1'' CHR ''1'' ''200'' ''OK'' [(''Server'', ''x'')]))) s' \<and> httpclient_parser_is_finished s'"
  using response_head_exact [of "length (head_text CHR ''1'' CHR ''1'' ''200'' ''OK'' [(''Server'', ''x'')])"
      "head_text CHR ''1'' CHR ''1'' ''200'' ''OK'' [(''Server'', ''x'')] @ [CHR 0x00]" "CHR ''1''" "CHR ''1''" "''200''" "''OK''"
      "[(''Server'', ''x'')]" "[]" new_httpclient_parser]
  by (auto simp: new_httpclient_parser_def good_field_def token_def value_char_def non_space_def digit_def schar_def)

text \<open>The exception is real: where a \<^verbatim>\<open>Content-Length\<close> line is broken behind its colon, the machine marks the start of a
  new name and then reports the value with the length of the old name, so that the name it hands out reaches
  behind the text.\<close>

definition broken_head :: string where
  "broken_head = ''HTTP/1.1 200 OK'' @ [CHR 0x0A] @ ''Content-Length:'' @ [CHR 0x0A] @ ''7'' @ [CHR 0x0A, CHR 0x00]"

theorem stale_name_length:
  "case httpclient_parser_execute broken_head 34 0 (httpclient_parser_init new_httpclient_parser) of
     Ret n s \<Rightarrow> n = 34 \<and> last (hc_events s) = RespField (drop 32 broken_head) 14 (drop 32 broken_head) 1 \<and> length broken_head = 35
   | _ \<Rightarrow> False"
  by code_simp

end
