(* ===== verification/HttpParser.thy ===== *)
theory HttpParser
  imports Http Http11Parser HttpClientParser
begin

text \<open>
  \<^verbatim>\<open>src/cxk/http/http_parser.cpp\<close>: the parsers of requests and responses: the callbacks that fill a message while the state
  machines of \<open>Http11Parser\<close> and \<open>HttpClientParser\<close> run, and \<^verbatim>\<open>execute\<close>, which hands a buffer to the machine and moves the
  unparsed rest to the front. A callback argument \<^verbatim>\<open>(at, length)\<close> is the memory from \<^verbatim>\<open>at\<close> on and the length. The
  callbacks of one run are made in their order after it: they do not touch the machine.
\<close>

text \<open>\<^verbatim>\<open>strncmp(a, b, n) == 0\<close>.\<close>

definition strncmp_eq :: "string \<Rightarrow> string \<Rightarrow> nat \<Rightarrow> bool" where
  "strncmp_eq a b n \<longleftrightarrow> take n (c_string a) = take n (c_string b)"

definition digit_value :: "char \<Rightarrow> int" where
  "digit_value c = int (of_char c) - 48"

fun atoi_digits :: "int \<Rightarrow> string \<Rightarrow> int" where
  "atoi_digits acc [] = acc"
| "atoi_digits acc (c # s) = (if 0 \<le> digit_value c \<and> digit_value c \<le> 9 then atoi_digits (10 * acc + digit_value c) s else acc)"

definition atoi :: "string \<Rightarrow> int" where
  "atoi s =
     (case dropWhile (\<lambda>c. c \<in> {CHR '' '', CHR 0x09, CHR 0x0A, CHR 0x0B, CHR 0x0C, CHR 0x0D}) s of
        [] \<Rightarrow> 0
      | c # t \<Rightarrow> if c = CHR ''-'' then - atoi_digits 0 t else if c = CHR ''+'' then atoi_digits 0 t else atoi_digits 0 (c # t))"

text \<open>\<^verbatim>\<open>std::string(at, n)\<close>: more than the largest string throws, and the bytes must be there.\<close>

definition c_text :: "string \<Rightarrow> nat \<Rightarrow> 'p \<Rightarrow> (string \<Rightarrow> ('p, unit) outcome) \<Rightarrow> ('p, unit) outcome" where
  "c_text at n p k = (if 2 ^ 63 \<le> n then Throw LengthError p else if length at < n then Undef OutOfBounds else k (take n at))"

text \<open>\<^verbatim>\<open>memmove(data, data + offset, len - offset)\<close>.\<close>

definition shift_out :: "nat \<Rightarrow> nat \<Rightarrow> string \<Rightarrow> string" where
  "shift_out offset len data = drop offset (take len data) @ drop (len - offset) data"

section \<open>Requests\<close>

record request_parser =
  rq_parser :: http_parser
  rq_data :: http_request
  rq_error :: int

definition on_request_method :: "string \<Rightarrow> nat \<Rightarrow> request_parser \<Rightarrow> (request_parser, unit) outcome" where
  "on_request_method at len p =
     (let m = CharsTohttpMethod at
      in if m = INVALID_METHOD then Ret () (p\<lparr>rq_error := 1000\<rparr>) else Ret () (p\<lparr>rq_data := (rq_data p)\<lparr>q_method := m\<rparr>\<rparr>))"

definition on_request_uri :: "string \<Rightarrow> nat \<Rightarrow> request_parser \<Rightarrow> (request_parser, unit) outcome" where
  "on_request_uri at len p = Ret () p"

definition on_request_fragment :: "string \<Rightarrow> nat \<Rightarrow> request_parser \<Rightarrow> (request_parser, unit) outcome" where
  "on_request_fragment at len p = c_text at len p (\<lambda>t. Ret () (p\<lparr>rq_data := (rq_data p)\<lparr>q_fragment := t\<rparr>\<rparr>))"

definition on_request_query :: "string \<Rightarrow> nat \<Rightarrow> request_parser \<Rightarrow> (request_parser, unit) outcome" where
  "on_request_query at len p = c_text at len p (\<lambda>t. Ret () (p\<lparr>rq_data := (rq_data p)\<lparr>q_query := t\<rparr>\<rparr>))"

definition on_request_path :: "string \<Rightarrow> nat \<Rightarrow> request_parser \<Rightarrow> (request_parser, unit) outcome" where
  "on_request_path at len p = c_text at len p (\<lambda>t. Ret () (p\<lparr>rq_data := (rq_data p)\<lparr>q_path := t\<rparr>\<rparr>))"

definition on_request_version :: "string \<Rightarrow> nat \<Rightarrow> request_parser \<Rightarrow> (request_parser, unit) outcome" where
  "on_request_version at len p =
     (if strncmp_eq at ''HTTP/1.1'' len then Ret () (p\<lparr>rq_data := (rq_data p)\<lparr>q_version := 0x11\<rparr>\<rparr>)
      else if strncmp_eq at ''HTTP/1.0'' len then Ret () (p\<lparr>rq_data := (rq_data p)\<lparr>q_version := 0x10\<rparr>\<rparr>)
      else Ret () (p\<lparr>rq_error := 1001\<rparr>))"

definition on_request_header_done :: "string \<Rightarrow> nat \<Rightarrow> request_parser \<Rightarrow> (request_parser, unit) outcome" where
  "on_request_header_done at len p = Ret () p"

definition on_request_http_field :: "string \<Rightarrow> nat \<Rightarrow> string \<Rightarrow> nat \<Rightarrow> request_parser \<Rightarrow> (request_parser, unit) outcome" where
  "on_request_http_field field flen value vlen p =
     (if flen = 0 then Ret () p
      else c_text field flen p (\<lambda>k. c_text value vlen p (\<lambda>v. Ret () (p\<lparr>rq_data := req_setHeader k v (rq_data p)\<rparr>))))"

text \<open>The callbacks as \<open>HttpRequestParser\<close>'s constructor wires them.\<close>

primrec on_request_event :: "request_event \<Rightarrow> request_parser \<Rightarrow> (request_parser, unit) outcome" where
  "on_request_event (RequestMethod at len) = on_request_method at len"
| "on_request_event (RequestUri at len) = on_request_uri at len"
| "on_request_event (Fragment at len) = on_request_fragment at len"
| "on_request_event (QueryString at len) = on_request_query at len"
| "on_request_event (RequestPath at len) = on_request_path at len"
| "on_request_event (HttpVersion at len) = on_request_version at len"
| "on_request_event (HeaderDone at len) = on_request_header_done at len"
| "on_request_event (HttpField field flen value vlen) = on_request_http_field field flen value vlen"

fun on_request_events :: "request_event list \<Rightarrow> request_parser \<Rightarrow> (request_parser, unit) outcome" where
  "on_request_events [] p = Ret () p"
| "on_request_events (e # es) p = obind (on_request_event e p) (\<lambda>_. on_request_events es)"

text \<open>\<open>mem\<close> is what was in the memory of the parser: two of its fields are never set.\<close>

definition new_HttpRequestParser :: "http_parser \<Rightarrow> int \<Rightarrow> request_parser" where
  "new_HttpRequestParser mem junk =
     \<lparr>rq_parser = http_parser_init mem, rq_data = new_HttpRequest junk 0x11 True, rq_error = 0\<rparr>"

definition execute_request :: "string \<Rightarrow> nat \<Rightarrow> request_parser \<Rightarrow> (request_parser, nat \<times> string) outcome" where
  "execute_request data len p =
     (case http_parser_execute data len 0 ((rq_parser p)\<lparr>hp_events := []\<rparr>) of
        Ret offset m \<Rightarrow> obind (on_request_events (hp_events m) (p\<lparr>rq_parser := m\<rparr>)) (\<lambda>_. Ret (offset, shift_out offset len data))
      | Throw e m \<Rightarrow> Throw e (p\<lparr>rq_parser := m\<rparr>)
      | Undef u \<Rightarrow> Undef u)"

definition req_isFinished :: "request_parser \<Rightarrow> int" where
  "req_isFinished p = http_parser_finish (rq_parser p)"

definition req_hasError :: "request_parser \<Rightarrow> bool" where
  "req_hasError p \<longleftrightarrow> rq_error p \<noteq> 0 \<or> http_parser_has_error (rq_parser p)"

definition req_getContentLength :: "(string \<Rightarrow> u64 option) \<Rightarrow> request_parser \<Rightarrow> u64" where
  "req_getContentLength lexical_cast p = getAs lexical_cast (q_headers (rq_data p)) ''Content-Length'' 0"

section \<open>Responses\<close>

text \<open>The constructor leaves \<^verbatim>\<open>m_error\<close> unset: its value is the argument \<open>junk\<close>.\<close>

record response_parser =
  rs_parser :: httpclient_parser
  rs_data :: http_response
  rs_error :: int

definition on_response_reason :: "string \<Rightarrow> nat \<Rightarrow> response_parser \<Rightarrow> (response_parser, unit) outcome" where
  "on_response_reason at len p = c_text at len p (\<lambda>t. Ret () (p\<lparr>rs_data := (rs_data p)\<lparr>p_reason := t\<rparr>\<rparr>))"

definition on_response_status :: "string \<Rightarrow> nat \<Rightarrow> response_parser \<Rightarrow> (response_parser, unit) outcome" where
  "on_response_status at len p = Ret () (p\<lparr>rs_data := (rs_data p)\<lparr>p_status := atoi at\<rparr>\<rparr>)"

definition on_response_chunk :: "string \<Rightarrow> nat \<Rightarrow> response_parser \<Rightarrow> (response_parser, unit) outcome" where
  "on_response_chunk at len p = Ret () p"

definition on_response_version :: "string \<Rightarrow> nat \<Rightarrow> response_parser \<Rightarrow> (response_parser, unit) outcome" where
  "on_response_version at len p =
     (if strncmp_eq at ''HTTP/1.1'' len then Ret () (p\<lparr>rs_data := (rs_data p)\<lparr>p_version := 0x11\<rparr>\<rparr>)
      else if strncmp_eq at ''HTTP/1.0'' len then Ret () (p\<lparr>rs_data := (rs_data p)\<lparr>p_version := 0x10\<rparr>\<rparr>)
      else Ret () (p\<lparr>rs_error := 1001\<rparr>))"

definition on_response_header_done :: "string \<Rightarrow> nat \<Rightarrow> response_parser \<Rightarrow> (response_parser, unit) outcome" where
  "on_response_header_done at len p = Ret () p"

definition on_response_http_field :: "string \<Rightarrow> nat \<Rightarrow> string \<Rightarrow> nat \<Rightarrow> response_parser \<Rightarrow> (response_parser, unit) outcome" where
  "on_response_http_field field flen value vlen p =
     (if flen = 0 then Ret () (p\<lparr>rs_error := 1002\<rparr>)
      else c_text field flen p (\<lambda>k. c_text value vlen p (\<lambda>v. Ret () (p\<lparr>rs_data := rsp_setHeader k v (rs_data p)\<rparr>))))"

definition on_response_last_chunk :: "string \<Rightarrow> nat \<Rightarrow> response_parser \<Rightarrow> (response_parser, unit) outcome" where
  "on_response_last_chunk at len p = Ret () p"

primrec on_response_event :: "response_event \<Rightarrow> response_parser \<Rightarrow> (response_parser, unit) outcome" where
  "on_response_event (ReasonPhrase at len) = on_response_reason at len"
| "on_response_event (StatusCode at len) = on_response_status at len"
| "on_response_event (ChunkSize at len) = on_response_chunk at len"
| "on_response_event (RespVersion at len) = on_response_version at len"
| "on_response_event (RespHeaderDone at len) = on_response_header_done at len"
| "on_response_event (LastChunk at len) = on_response_last_chunk at len"
| "on_response_event (RespField field flen value vlen) = on_response_http_field field flen value vlen"

fun on_response_events :: "response_event list \<Rightarrow> response_parser \<Rightarrow> (response_parser, unit) outcome" where
  "on_response_events [] p = Ret () p"
| "on_response_events (e # es) p = obind (on_response_event e p) (\<lambda>_. on_response_events es)"

definition new_HttpResponseParser :: "httpclient_parser \<Rightarrow> int \<Rightarrow> response_parser" where
  "new_HttpResponseParser mem junk =
     \<lparr>rs_parser = httpclient_parser_init mem, rs_data = new_HttpResponse 0x11 True, rs_error = junk\<rparr>"

text \<open>An offset of -1 becomes the largest \<^verbatim>\<open>size_t\<close>, and the move reads in front of the buffer.\<close>

definition execute_response :: "string \<Rightarrow> nat \<Rightarrow> bool \<Rightarrow> response_parser \<Rightarrow> (response_parser, nat \<times> string) outcome" where
  "execute_response data len chunck p =
     (let m = (if chunck then httpclient_parser_init (rs_parser p) else rs_parser p) in
      case httpclient_parser_execute data len 0 (m\<lparr>hc_events := []\<rparr>) of
        Ret offset m \<Rightarrow> obind (on_response_events (hc_events m) (p\<lparr>rs_parser := m\<rparr>)) (\<lambda>_ p.
          if offset < 0 then Undef OutOfBounds else Ret (nat offset, shift_out (nat offset) len data) p)
      | Throw e m \<Rightarrow> Throw e (p\<lparr>rs_parser := m\<rparr>)
      | Undef u \<Rightarrow> Undef u)"

definition rsp_isFinished :: "response_parser \<Rightarrow> bool" where
  "rsp_isFinished p \<longleftrightarrow> httpclient_parser_is_finished (rs_parser p)"

definition rsp_hasError :: "response_parser \<Rightarrow> bool" where
  "rsp_hasError p \<longleftrightarrow> rs_error p \<noteq> 0 \<or> httpclient_parser_has_error (rs_parser p)"

definition rsp_getContentLength :: "(string \<Rightarrow> u64 option) \<Rightarrow> response_parser \<Rightarrow> u64" where
  "rsp_getContentLength lexical_cast p = getAs lexical_cast (p_headers (rs_data p)) ''Content-Length'' 0"

lemmas request_callbacks = on_request_method_def on_request_uri_def on_request_fragment_def on_request_query_def
  on_request_path_def on_request_version_def on_request_header_done_def on_request_http_field_def

lemmas response_callbacks = on_response_reason_def on_response_status_def on_response_chunk_def on_response_version_def
  on_response_header_done_def on_response_last_chunk_def on_response_http_field_def

section \<open>Lemmas\<close>

definition version_text :: "u8 \<Rightarrow> string" where
  "version_text v = (if v = 0x11 then ''HTTP/1.1'' else ''HTTP/1.0'')"

definition version_of :: "char \<Rightarrow> u8" where
  "version_of d = (if d = CHR ''1'' then 0x11 else 0x10)"

lemma strncmp_version:
  "strncmp_eq (version_text v @ s) ''HTTP/1.1'' 8 \<longleftrightarrow> v = 0x11"
  "strncmp_eq (version_text v @ s) ''HTTP/1.0'' 8 \<longleftrightarrow> v \<noteq> 0x11"
  by (auto simp: version_text_def strncmp_eq_def c_string_def)

lemma fold_setHeader_keeps:
  "q_method (fold (\<lambda>(k, v). req_setHeader k v) kvs r) = q_method r"
  "q_version (fold (\<lambda>(k, v). req_setHeader k v) kvs r) = q_version r"
  "q_path (fold (\<lambda>(k, v). req_setHeader k v) kvs r) = q_path r"
  "q_query (fold (\<lambda>(k, v). req_setHeader k v) kvs r) = q_query r"
  "q_fragment (fold (\<lambda>(k, v). req_setHeader k v) kvs r) = q_fragment r"
  by (induction kvs arbitrary: r) (auto simp: req_setHeader_def)

lemma known_method: "m < 34 \<Longrightarrow> CharsTohttpMethod (HttpMethodToString m @ s) = m"
  using find_method(1) [of m "snd (HTTP_METHOD_MAP ! m)" "c_string s"] names_no_nul [of "fst (HTTP_METHOD_MAP ! m)"]
  by (simp add: CharsTohttpMethod_def HttpMethodToString_def)

text \<open>Parts of a buffer.\<close>

lemma c_text_part:
  assumes "data = pre @ t @ post" and "length t < 2 ^ 63" and "i = length pre" and "n = length t"
  shows "c_text (drop i data) n p k = k t"
  using assms by (simp add: c_text_def)

lemma on_request_events_append:
  "on_request_events (es @ fs) p = obind (on_request_events es p) (\<lambda>_. on_request_events fs)"
proof (induction es arbitrary: p)
  case (Cons e es)
  then show ?case by (cases "on_request_event e p") simp_all
qed simp

lemma req_fields_called:
  assumes "data = pre @ concat (map field_line fs) @ post" and "length data < 2 ^ 63" and "[] \<notin> fst ` set fs"
  shows "on_request_events (req_field_events data (length pre) fs) p =
    Ret () (p\<lparr>rq_data := fold (\<lambda>(k, v). req_setHeader k v) fs (rq_data p)\<rparr>)"
  using assms
proof (induction fs arbitrary: pre p)
  case (Cons f fs)
  obtain k v where f: "f = (k, v)" by (cases f)
  have k: "k \<noteq> []" using Cons.prems(3) f by auto
  have l: "length k < 2 ^ 63" "length v < 2 ^ 63" using Cons.prems(1,2) f by (auto simp: field_line_def [of "(k, v)"])
  have "data = pre @ k @ ('': '' @ v @ crlf @ concat (map field_line fs) @ post)"
    "data = (pre @ k @ '': '') @ v @ (crlf @ concat (map field_line fs) @ post)"
    using Cons.prems(1) f by (simp_all add: field_line_def [of "(k, v)"])
  note d = this
  have parts: "c_text (drop (length pre) data) (length k) p g = g k" for p :: request_parser and g
    by (rule c_text_part [OF d(1) l(1)]) simp_all
  have parts': "c_text (drop (Suc (Suc (length pre + length k))) data) (length v) p g = g v" for p :: request_parser and g
    by (rule c_text_part [OF d(2) l(2)]) simp_all
  have "data = (pre @ field_line (k, v)) @ concat (map field_line fs) @ post" using Cons.prems(1) f by simp
  from Cons.IH [OF this Cons.prems(2)] have "on_request_events (req_field_events data (length (pre @ field_line (k, v))) fs) p =
      Ret () (p\<lparr>rq_data := fold (\<lambda>(k, v). req_setHeader k v) fs (rq_data p)\<rparr>)" for p using Cons.prems(3) by simp
  then show ?case using f k by (simp add: on_request_http_field_def parts parts')
qed simp

lemma target_called:
  assumes "data = pre @ (path @ marked CHR ''?'' q @ marked CHR ''#'' f) @ post" and "length data < 2 ^ 63"
  shows "on_request_events (target_events data (length pre) path q f) p =
    Ret () (p\<lparr>rq_data := (rq_data p)\<lparr>q_path := path, q_query := (if q = [] then q_query (rq_data p) else q),
      q_fragment := (if f = [] then q_fragment (rq_data p) else f)\<rparr>\<rparr>)"
proof -
  let ?q = "marked CHR ''?'' q" and ?f = "marked CHR ''#'' f"
  have l: "length path < 2 ^ 63" "length q < 2 ^ 63" "length f < 2 ^ 63" using assms by (auto simp: marked_def split: if_splits)
  have "data = pre @ path @ (?q @ ?f @ post)" using assms(1) by simp
  then have a: "c_text (drop (length pre) data) (length path) p k = k path" for p :: request_parser and k
    by (rule c_text_part [OF _ l(1)]) simp_all
  have b: "c_text (drop (Suc (length pre + length path)) data) (length q) p k = k q" if "q \<noteq> []" for p :: request_parser and k
    by (rule c_text_part [of _ "pre @ path @ ''?''" _ "?f @ post"]) (use assms l that in \<open>simp_all add: marked_def\<close>)
  have c: "c_text (drop (Suc (length pre + length path + length ?q)) data) (length f) p k = k f" if "f \<noteq> []" for p :: request_parser and k
    by (rule c_text_part [of _ "pre @ path @ ?q @ ''#''" _ post]) (use assms l that in \<open>simp_all add: marked_def\<close>)
  show ?thesis
    using b c by (cases "q = []"; cases "f = []"; simp add: target_events_def request_callbacks a)
qed

lemma request_head_called:
  assumes "data = request_text (HttpMethodToString m) path q f d fs @ rest" and "length data < 2 ^ 63" and "m < 34"
    and "d = CHR ''0'' \<or> d = CHR ''1''" and "[] \<notin> fst ` set fs" and "rq_error p = 0"
  shows "on_request_events (request_head_events data len (HttpMethodToString m) path q f fs) p =
    Ret () (p\<lparr>rq_data := fold (\<lambda>(k, v). req_setHeader k v) fs ((rq_data p)\<lparr>q_method := m, q_path := path,
      q_query := (if q = [] then q_query (rq_data p) else q), q_fragment := (if f = [] then q_fragment (rq_data p) else f),
      q_version := version_of d\<rparr>)\<rparr>)"
proof -
  let ?m = "HttpMethodToString m" and ?t = "path @ marked CHR ''?'' q @ marked CHR ''#'' f" and ?F = "concat (map field_line fs)"
  let ?a = "?m @ '' ''"
  let ?b = "?a @ ?t @ '' ''"
  have d: "data = ?b @ (version_text (version_of d) @ crlf @ ?F @ crlf @ rest)"
    using assms(1,4) by (auto simp: request_text_def version_text_def version_of_def)
  then have v: "drop (length ?b) data = version_text (version_of d) @ crlf @ ?F @ crlf @ rest" by simp
  have "m \<noteq> INVALID_METHOD" using assms(3) by (simp add: INVALID_METHOD_def)
  then have 1: "on_request_event (RequestMethod data (length ?m)) p = Ret () (p\<lparr>rq_data := (rq_data p)\<lparr>q_method := m\<rparr>\<rparr>)" for p
    using known_method [OF assms(3)] d by (simp add: on_request_method_def)
  have 2: "on_request_events (target_events data (length ?a) path q f) p =
    Ret () (p\<lparr>rq_data := (rq_data p)\<lparr>q_path := path, q_query := (if q = [] then q_query (rq_data p) else q),
      q_fragment := (if f = [] then q_fragment (rq_data p) else f)\<rparr>\<rparr>)" for p
    by (rule target_called [where post = "'' '' @ version_text (version_of d) @ crlf @ ?F @ crlf @ rest"]) (use d assms(2) in simp_all)
  have 3: "on_request_event (HttpVersion (drop (length ?b) data) 8) p = Ret () (p\<lparr>rq_data := (rq_data p)\<lparr>q_version := version_of d\<rparr>\<rparr>)" for p
    unfolding v by (simp add: on_request_version_def strncmp_version version_of_def)
  have 4: "on_request_events (req_field_events data (length (?b @ version_text (version_of d) @ crlf)) fs) p =
    Ret () (p\<lparr>rq_data := fold (\<lambda>(k, v). req_setHeader k v) fs (rq_data p)\<rparr>)" for p
    by (rule req_fields_called [where post = "crlf @ rest"]) (use d assms(2,5) in simp_all)
  have "length (version_text (version_of d)) = 8" by (simp add: version_text_def)
  then have l: "length ?m + 1 + length path + length (marked CHR ''?'' q) + length (marked CHR ''#'' f) + 1 = length ?b"
    "length ?b + 10 = length (?b @ version_text (version_of d) @ crlf)" "length ?m + 1 = length ?a" by simp_all
  show ?thesis
    unfolding request_head_events_def Let_def unfolding l(1) unfolding l(2,3)
    by (simp only: on_request_events_append on_request_events.simps obind.simps 1 2 3 4 append.simps)
      (simp add: on_request_header_done_def)
qed

definition parsed_request :: "int \<Rightarrow> nat \<Rightarrow> string \<Rightarrow> string \<Rightarrow> string \<Rightarrow> char \<Rightarrow> (string \<times> string) list \<Rightarrow> http_request" where
  "parsed_request junk m path q f d fs = fold (\<lambda>(k, v). req_setHeader k v) fs ((new_HttpRequest junk 0x11 True)
     \<lparr>q_method := m, q_path := path, q_query := q, q_fragment := f, q_version := version_of d\<rparr>)"

lemma request_parse_data:
  assumes "take len data = request_text (HttpMethodToString m) path q f d fs @ rest" and "len \<le> length data" and "length data < 2 ^ 63"
    and "good_head (HttpMethodToString m) path q f d fs" and "m < 34"
  shows "\<exists>s. hp_cs s = 348 \<and> execute_request data len (new_HttpRequestParser mem junk) =
    Ret (length (request_text (HttpMethodToString m) path q f d fs), shift_out (length (request_text (HttpMethodToString m) path q f d fs)) len data)
      \<lparr>rq_parser = s, rq_data = parsed_request junk m path q f d fs, rq_error = 0\<rparr>"
proof -
  let ?t = "request_text (HttpMethodToString m) path q f d fs"
  have len: "len = length ?t + length rest" using arg_cong [OF assms(1), of length] assms(2) by simp
  obtain s where s: "http_parser_execute data len 0 (http_parser_init (mem\<lparr>hp_events := []\<rparr>)) = Ret (length ?t) s" "hp_cs s = 348"
    "hp_events s = request_head_events data len (HttpMethodToString m) path q f fs"
    using request_execute [OF assms(1,2,4), of "mem\<lparr>hp_events := []\<rparr>"] by auto
  have i: "(http_parser_init mem)\<lparr>hp_events := []\<rparr> = http_parser_init (mem\<lparr>hp_events := []\<rparr>)" by (simp add: http_parser_init_def)
  have data: "data = ?t @ (rest @ drop len data)" using assms(1) append_take_drop_id [of len data] by simp
  have f: "d = CHR ''0'' \<or> d = CHR ''1''" "[] \<notin> fst ` set fs" using assms(4) by (auto simp: good_head_def good_req_field_def)
  let ?p = "(new_HttpRequestParser mem junk)\<lparr>rq_parser := s\<rparr>"
  have "rq_error ?p = 0" by (simp add: new_HttpRequestParser_def)
  from request_head_called [OF data assms(3,5) f this, of len]
  have ex: "execute_request data len (new_HttpRequestParser mem junk) = Ret (length ?t, shift_out (length ?t) len data)
      \<lparr>rq_parser = s, rq_data = parsed_request junk m path q f d fs, rq_error = 0\<rparr>"
    using s i by (simp add: execute_request_def new_HttpRequestParser_def new_HttpRequest_def parsed_request_def)
  then show ?thesis using s(2) by blast
qed

lemma on_response_events_append:
  "on_response_events (es @ fs) p = obind (on_response_events es p) (\<lambda>_. on_response_events fs)"
proof (induction es arbitrary: p)
  case (Cons e es)
  then show ?case by (cases "on_response_event e p") simp_all
qed simp

lemma fold_rsp_setHeader_keeps:
  "p_status (fold (\<lambda>(k, v). rsp_setHeader k v) kvs r) = p_status r"
  "p_version (fold (\<lambda>(k, v). rsp_setHeader k v) kvs r) = p_version r"
  "p_reason (fold (\<lambda>(k, v). rsp_setHeader k v) kvs r) = p_reason r"
  by (induction kvs arbitrary: r) (auto simp: rsp_setHeader_def)

lemma rsp_fields_called:
  assumes "data = pre @ concat (map field_line fs) @ post" and "length data < 2 ^ 63" and "[] \<notin> fst ` set fs"
  shows "on_response_events (field_events data (length pre) fs) p =
    Ret () (p\<lparr>rs_data := fold (\<lambda>(k, v). rsp_setHeader k v) fs (rs_data p)\<rparr>)"
  using assms
proof (induction fs arbitrary: pre p)
  case (Cons f fs)
  obtain k v where f: "f = (k, v)" by (cases f)
  have k: "k \<noteq> []" using Cons.prems(3) f by auto
  have l: "length k < 2 ^ 63" "length v < 2 ^ 63" using Cons.prems(1,2) f by (auto simp: field_line_def [of "(k, v)"])
  have d: "data = pre @ k @ ('': '' @ v @ crlf @ concat (map field_line fs) @ post)"
    "data = (pre @ k @ '': '') @ v @ (crlf @ concat (map field_line fs) @ post)"
    using Cons.prems(1) f by (simp_all add: field_line_def [of "(k, v)"])
  have parts: "c_text (drop (length pre) data) (length k) p g = g k" for p :: response_parser and g
    by (rule c_text_part [OF d(1) l(1)]) simp_all
  have parts': "c_text (drop (Suc (Suc (length pre + length k))) data) (length v) p g = g v" for p :: response_parser and g
    by (rule c_text_part [OF d(2) l(2)]) simp_all
  have "data = (pre @ field_line (k, v)) @ concat (map field_line fs) @ post" using Cons.prems(1) f by simp
  from Cons.IH [OF this Cons.prems(2)] have "on_response_events (field_events data (length (pre @ field_line (k, v))) fs) p =
      Ret () (p\<lparr>rs_data := fold (\<lambda>(k, v). rsp_setHeader k v) fs (rs_data p)\<rparr>)" for p using Cons.prems(3) by simp
  then show ?case using f k by (simp add: on_response_http_field_def parts parts')
qed simp

lemma digit_value: "digit (schar c) \<Longrightarrow> 0 \<le> digit_value c \<and> digit_value c \<le> 9"
proof -
  assume d: "digit (schar c)"
  have "digit_value c = (of_char c :: int) - 48" unfolding digit_value_def by (simp only: of_nat_of_char)
  then show ?thesis using d of_char_range [of c] unfolding digit_def schar_def by (auto split: if_splits)
qed

lemma atoi_digits_append:
  "\<forall>c\<in>set code. digit (schar c) \<Longrightarrow> atoi_digits acc (code @ CHR '' '' # s) = atoi_digits acc code"
proof (induction code arbitrary: acc)
  case Nil
  show ?case by (simp add: digit_value_def)
next
  case (Cons c code)
  then show ?case using digit_value [of c] by simp
qed

lemma atoi_code:
  assumes "code \<noteq> []" and "\<forall>c\<in>set code. digit (schar c)"
  shows "atoi (code @ CHR '' '' # s) = atoi_digits 0 code"
proof -
  obtain c cs where code: "code = c # cs" using assms(1) by (cases code) auto
  have "digit (schar c)" using assms(2) code by simp
  then have "c \<notin> {CHR '' '', CHR 0x09, CHR 0x0A, CHR 0x0B, CHR 0x0C, CHR 0x0D}" "c \<noteq> CHR ''-''" "c \<noteq> CHR ''+''"
    by (auto simp: digit_def schar_def)
  then show ?thesis using atoi_digits_append [OF assms(2), of 0 s] code by (simp add: atoi_def)
qed

lemma response_head_called:
  assumes "data = head_text CHR ''1'' b code reason fs @ rest" and "length data < 2 ^ 63" and "b = CHR ''0'' \<or> b = CHR ''1''"
    and "code \<noteq> []" and "\<forall>c\<in>set code. digit (schar c)" and "[] \<notin> fst ` set fs"
  shows "on_response_events (head_events data len code reason fs) p =
    Ret () (p\<lparr>rs_data := fold (\<lambda>(k, v). rsp_setHeader k v) fs ((rs_data p)\<lparr>p_version := version_of b, p_status := atoi_digits 0 code,
      p_reason := reason\<rparr>)\<rparr>)"
proof -
  let ?F = "concat (map field_line fs)" and ?v = "version_text (version_of b)"
  let ?q = "?v @ '' '' @ code @ '' ''"
  have v: "''HTTP/'' @ [CHR ''1''] @ ''.'' @ [b] = ?v" using assms(3) by (auto simp: version_text_def version_of_def)
  have d: "data = ?v @ '' '' @ (code @ CHR '' '' # reason @ crlf @ ?F @ crlf @ rest)"
    using assms(1) arg_cong [OF v, of "\<lambda>x. x @ '' '' @ (code @ CHR '' '' # reason @ crlf @ ?F @ crlf @ rest)"] by (simp add: head_text_def)
  have l8: "length ?v = 8" by (simp add: version_text_def)
  have 1: "on_response_event (RespVersion data 8) p = Ret () (p\<lparr>rs_data := (rs_data p)\<lparr>p_version := version_of b\<rparr>\<rparr>)" for p
    unfolding d by (simp add: on_response_version_def strncmp_version version_of_def)
  have "drop 9 data = code @ CHR '' '' # reason @ crlf @ ?F @ crlf @ rest" using d l8 by simp
  then have 2: "on_response_event (StatusCode (drop 9 data) (length code)) p = Ret () (p\<lparr>rs_data := (rs_data p)\<lparr>p_status := atoi_digits 0 code\<rparr>\<rparr>)" for p
    using atoi_code [OF assms(4,5)] by (simp add: on_response_status_def)
  have 3: "c_text (drop (9 + length code + 1) data) (length reason) p g = g reason" for p :: response_parser and g
    by (rule c_text_part [of _ ?q _ "crlf @ ?F @ crlf @ rest"]) (use d l8 assms(2) in simp_all)
  define line where "line = ?q @ reason @ crlf"
  have 4: "on_response_events (field_events data (length line) fs) p =
    Ret () (p\<lparr>rs_data := fold (\<lambda>(k, v). rsp_setHeader k v) fs (rs_data p)\<rparr>)" for p
    by (rule rsp_fields_called [where post = "crlf @ rest"]) (use d assms(2,6) in \<open>simp_all add: line_def\<close>)
  have l: "9 + length code + 1 + length reason + 2 = length line" using l8 by (simp add: line_def)
  show ?thesis
    unfolding head_events_def Let_def l
    by (simp only: on_response_events_append on_response_events.simps obind.simps 1 2 4 append.simps on_response_event.simps(1)
        on_response_reason_def 3) (simp add: on_response_header_done_def)
qed

definition parsed_response :: "char \<Rightarrow> string \<Rightarrow> string \<Rightarrow> (string \<times> string) list \<Rightarrow> http_response" where
  "parsed_response b code reason fs = fold (\<lambda>(k, v). rsp_setHeader k v) fs
     ((new_HttpResponse 0x11 True)\<lparr>p_version := version_of b, p_status := atoi_digits 0 code, p_reason := reason\<rparr>)"

lemma response_parse_data:
  assumes "take len data = head_text CHR ''1'' b code reason fs @ rest" and "len < length data" and "data ! len = CHR 0x00"
    and "length data < 2 ^ 63" and "b = CHR ''0'' \<or> b = CHR ''1''" and "code \<noteq> []" and "\<forall>d\<in>set code. digit (schar d)"
    and "reason \<noteq> []" and "\<forall>c\<in>set reason. value_char (schar c)" and "\<forall>f\<in>set fs. good_field f"
  shows "\<exists>s. httpclient_parser_is_finished s \<and> (hc_chunked s \<longrightarrow> (\<exists>f\<in>set fs. map lowc (fst f) = te_name)) \<and>
    (te_chunked \<in> set fs \<longrightarrow> hc_chunked s) \<and> execute_response data len True (new_HttpResponseParser mem 0) =
    Ret (length (head_text CHR ''1'' b code reason fs), shift_out (length (head_text CHR ''1'' b code reason fs)) len data)
      \<lparr>rs_parser = s, rs_data = parsed_response b code reason fs, rs_error = 0\<rparr>"
proof -
  let ?t = "head_text CHR ''1'' b code reason fs"
  have len: "len = length ?t + length rest" using arg_cong [OF assms(1), of length] assms(2) by simp
  have b: "digit (schar CHR ''1'')" "digit (schar b)" using assms(5) by (auto simp: digit_def)
  let ?m = "httpclient_parser_init ((httpclient_parser_init mem)\<lparr>hc_events := []\<rparr>)"
  obtain s where s: "httpclient_parser_execute data len 0 ?m = Ret (int (length ?t)) s" "httpclient_parser_is_finished s"
    "hc_events s = head_events data len code reason fs" "hc_chunked s \<longrightarrow> (\<exists>f\<in>set fs. map lowc (fst f) = te_name)"
    "te_chunked \<in> set fs \<longrightarrow> hc_chunked s"
    using response_head_execute [OF assms(1-3) b assms(6-10), of "(httpclient_parser_init mem)\<lparr>hc_events := []\<rparr>"] by auto
  have i: "(httpclient_parser_init (httpclient_parser_init mem))\<lparr>hc_events := []\<rparr> = ?m" by (simp add: httpclient_parser_init_def)
  have data: "data = ?t @ (rest @ drop len data)" using assms(1) append_take_drop_id [of len data] by simp
  have f: "[] \<notin> fst ` set fs" using assms(10) by (auto simp: good_field_def)
  let ?p = "(new_HttpResponseParser mem 0)\<lparr>rs_parser := s\<rparr>"
  from response_head_called [OF data assms(4-7) f, of len ?p]
  have ex: "execute_response data len True (new_HttpResponseParser mem 0) = Ret (length ?t, shift_out (length ?t) len data)
      \<lparr>rs_parser = s, rs_data = parsed_response b code reason fs, rs_error = 0\<rparr>"
    using s i by (simp add: execute_response_def new_HttpResponseParser_def parsed_response_def new_HttpResponse_def Let_def)
  then show ?thesis using s(2,4,5) by blast
qed

section \<open>Properties\<close>

text \<open>Parsing a request head: a buffer that starts with a request line (known method, absolute path, query, fragment, HTTP 1.0 or
  1.1) and header lines is parsed exactly up to the empty line; the request holds exactly these parts and, for every header
  name, the value given last up to case; no error is set, and the rest of the buffer is moved to its front.\<close>

theorem request_parse_exact:
  assumes "take len data = request_text (HttpMethodToString m) path q f d fs @ rest" and "len \<le> length data" and "length data < 2 ^ 63"
    and "good_head (HttpMethodToString m) path q f d fs" and "m < 34"
  shows "\<exists>buf p. execute_request data len (new_HttpRequestParser mem junk) = Ret (len - length rest, buf) p \<and>
    take (length rest) buf = rest \<and> length buf = length data \<and> req_isFinished p = 1 \<and> \<not> req_hasError p \<and>
    q_method (rq_data p) = m \<and> q_path (rq_data p) = path \<and> q_query (rq_data p) = q \<and> q_fragment (rq_data p) = f \<and>
    q_version (rq_data p) = version_of d \<and>
    (\<forall>k x. req_getHeader k x (rq_data p) = (case find (\<lambda>(k', w). same_key k' k) (rev fs) of Some (_, w) \<Rightarrow> w | None \<Rightarrow> x))"
proof -
  define r where "r = (new_HttpRequest junk 0x11 True)\<lparr>q_method := m, q_path := path, q_query := q, q_fragment := f,
    q_version := version_of d\<rparr>"
  let ?d = "fold (\<lambda>(k, v). req_setHeader k v) fs r" and ?t = "request_text (HttpMethodToString m) path q f d fs"
  have len: "len = length ?t + length rest" using arg_cong [OF assms(1), of length] assms(2) by simp
  obtain s where s: "hp_cs s = 348" and ex: "execute_request data len (new_HttpRequestParser mem junk) =
      Ret (length ?t, shift_out (length ?t) len data) \<lparr>rq_parser = s, rq_data = ?d, rq_error = 0\<rparr>"
    using request_parse_data [OF assms, of mem junk] unfolding r_def parsed_request_def by blast
  have r: "request_ok r" "map_find CaseInsensitiveLess k (q_headers r) = None" for k
    by (simp_all add: r_def request_ok_def new_HttpRequest_def)
  have "req_getHeader k x ?d = (case find (\<lambda>(k', w). same_key k' k) (rev fs) of Some (_, w) \<Rightarrow> w | None \<Rightarrow> x)" for k x
    using req_headers.last_value [OF r(1), where kvs = fs and k' = k] r(2) by (auto simp: req_getHeader_def split: option.splits)
  moreover have "take (length rest) (shift_out (length ?t) len data) = rest" "length (shift_out (length ?t) len data) = length data"
    using assms(1,2) len by (simp_all add: shift_out_def)
  ultimately show ?thesis
    using ex len s fold_setHeader_keeps [of fs r]
    by (simp add: r_def req_isFinished_def req_hasError_def http_parser_finish_def http_parser_has_error_def http_parser_is_finished_def)
qed

theorem request_parse_exact_witness:
  "\<exists>buf p. execute_request (request_text ''GET'' ''/a'' [] [] CHR ''1'' [(''Host'', ''x''), (''HOST'', ''y'')] @ ''abc'')
      (length (request_text ''GET'' ''/a'' [] [] CHR ''1'' [(''Host'', ''x''), (''HOST'', ''y'')]) + 2) (new_HttpRequestParser new_http_parser 0) =
      Ret (length (request_text ''GET'' ''/a'' [] [] CHR ''1'' [(''Host'', ''x''), (''HOST'', ''y'')]), buf) p \<and>
    q_path (rq_data p) = ''/a'' \<and> req_getHeader ''host'' [] (rq_data p) = ''y'' \<and> take 2 buf = ''ab''"
proof -
  let ?fs = "[(''Host'', ''x''), (''HOST'', ''y'')]"
  let ?t = "request_text ''GET'' ''/a'' [] [] CHR ''1'' ?fs"
  have g: "HttpMethodToString 1 = ''GET''" by (simp add: HttpMethodToString_def HTTP_METHOD_MAP_def)
  have "good_head (HttpMethodToString 1) ''/a'' [] [] CHR ''1'' ?fs" unfolding g
    by (simp add: good_head_def good_path_def good_req_field_def token_def upper_digit_def path_char_def content_char_def visible_char_def schar_def)
  moreover have "length (?t @ ''abc'') < 2 ^ 63" by (simp add: request_text_def marked_def field_line_def)
  ultimately show ?thesis
    using request_parse_exact [of "length ?t + 2" "?t @ ''abc''" 1 "''/a''" "[]" "[]" "CHR ''1''" ?fs "''ab''" new_http_parser 0] g
    by (auto simp: same_key_def fold_case_def c_string_def tolower_def numeral_2_eq_2)
qed

text \<open>Parsing a response head: a buffer that starts with a status line of HTTP 1.0 or 1.1 and header lines is parsed exactly up to
  the empty line; the response holds version, status, reason and, for every header name, the value given last up to case,
  the rest of the buffer is moved to its front, and the body is taken to be chunked only if there is a
  \<^verbatim>\<open>Transfer-Encoding\<close> header. The parser must not have an error set, which its constructor does not ensure.\<close>

theorem response_parse_exact:
  assumes "take len data = head_text CHR ''1'' b code reason fs @ rest" and "len < length data" and "data ! len = CHR 0x00"
    and "length data < 2 ^ 63" and "b = CHR ''0'' \<or> b = CHR ''1''" and "code \<noteq> []" and "\<forall>d\<in>set code. digit (schar d)"
    and "reason \<noteq> []" and "\<forall>c\<in>set reason. value_char (schar c)" and "\<forall>f\<in>set fs. good_field f"
  shows "\<exists>buf p. execute_response data len True (new_HttpResponseParser mem 0) = Ret (len - length rest, buf) p \<and>
    take (length rest) buf = rest \<and> length buf = length data \<and> rsp_isFinished p \<and> \<not> rsp_hasError p \<and>
    p_version (rs_data p) = version_of b \<and> p_status (rs_data p) = atoi_digits 0 code \<and> p_reason (rs_data p) = reason \<and>
    (hc_chunked (rs_parser p) \<longrightarrow> (\<exists>f\<in>set fs. map lowc (fst f) = te_name)) \<and> (te_chunked \<in> set fs \<longrightarrow> hc_chunked (rs_parser p)) \<and>
    (\<forall>k x. rsp_getHeader k x (rs_data p) = (case find (\<lambda>(k', w). same_key k' k) (rev fs) of Some (_, w) \<Rightarrow> w | None \<Rightarrow> x))"
proof -
  define r where "r = (new_HttpResponse 0x11 True)\<lparr>p_version := version_of b, p_status := atoi_digits 0 code, p_reason := reason\<rparr>"
  let ?d = "fold (\<lambda>(k, v). rsp_setHeader k v) fs r" and ?t = "head_text CHR ''1'' b code reason fs"
  have len: "len = length ?t + length rest" using arg_cong [OF assms(1), of length] assms(2) by simp
  obtain s where s: "httpclient_parser_is_finished s" "hc_chunked s \<longrightarrow> (\<exists>f\<in>set fs. map lowc (fst f) = te_name)"
    "te_chunked \<in> set fs \<longrightarrow> hc_chunked s"
    and ex: "execute_response data len True (new_HttpResponseParser mem 0) =
      Ret (length ?t, shift_out (length ?t) len data) \<lparr>rs_parser = s, rs_data = ?d, rs_error = 0\<rparr>"
    using response_parse_data [OF assms, of mem] unfolding r_def parsed_response_def by blast
  have r: "response_ok r" "map_find CaseInsensitiveLess k (p_headers r) = None" for k
    by (simp_all add: r_def response_ok_def new_HttpResponse_def)
  have "rsp_getHeader k x ?d = (case find (\<lambda>(k', w). same_key k' k) (rev fs) of Some (_, w) \<Rightarrow> w | None \<Rightarrow> x)" for k x
    using rsp_headers.last_value [OF r(1), where kvs = fs and k' = k] r(2) by (auto simp: rsp_getHeader_def split: option.splits)
  moreover have "take (length rest) (shift_out (length ?t) len data) = rest" "length (shift_out (length ?t) len data) = length data"
    using assms(1,2) len by (simp_all add: shift_out_def)
  moreover have "\<not> httpclient_parser_has_error s"
    using s(1) by (simp add: httpclient_parser_has_error_def httpclient_parser_is_finished_def)
  ultimately show ?thesis
    using ex len s fold_rsp_setHeader_keeps [of fs r] by (simp add: r_def rsp_isFinished_def rsp_hasError_def)
qed

theorem response_parse_exact_witness:
  "\<exists>buf p. execute_response (head_text CHR ''1'' CHR ''1'' ''200'' ''OK'' [(''Server'', ''x'')] @ [CHR 0x00])
      (length (head_text CHR ''1'' CHR ''1'' ''200'' ''OK'' [(''Server'', ''x'')])) True (new_HttpResponseParser new_httpclient_parser 0) =
      Ret (length (head_text CHR ''1'' CHR ''1'' ''200'' ''OK'' [(''Server'', ''x'')]), buf) p \<and> p_status (rs_data p) = 200"
proof -
  let ?t = "head_text CHR ''1'' CHR ''1'' ''200'' ''OK'' [(''Server'', ''x'')]"
  have "length (?t @ [CHR 0x00]) < 2 ^ 63" by (simp add: head_text_def field_line_def)
  then show ?thesis
    using response_parse_exact [of "length ?t" "?t @ [CHR 0x00]" "CHR ''1''" "''200''" "''OK''" "[(''Server'', ''x'')]" "[]" new_httpclient_parser]
    by (auto simp: good_field_def token_def value_char_def non_space_def digit_def schar_def digit_value_def)
qed

text \<open>A head with an unknown method is reported: once the machine passes such a method or an unknown version to its callback,
  \<open>hasError\<close> holds whatever else is parsed after it.\<close>

lemma request_error_kept:
  "rq_error p \<noteq> 0 \<Longrightarrow> on_request_events evs p = Ret () p' \<Longrightarrow> rq_error p' \<noteq> 0"
proof (induction evs arbitrary: p)
  case (Cons e evs)
  then obtain p1 where p1: "on_request_event e p = Ret () p1" "on_request_events evs p1 = Ret () p'" by (auto simp: obind_Ret_iff)
  have "rq_error p1 \<noteq> 0" using p1(1) Cons.prems(1) by (cases e) (auto simp: request_callbacks c_text_def Let_def split: if_splits)
  then show ?case using Cons.IH p1(2) by blast
qed simp

theorem bad_head_reported:
  assumes "http_parser_execute data len 0 ((rq_parser p)\<lparr>hp_events := []\<rparr>) = Ret n m" and "hp_events m = pre @ e # post"
    and "(\<exists>at len. e = RequestMethod at len \<and> CharsTohttpMethod at = INVALID_METHOD) \<or>
      (\<exists>at len. e = HttpVersion at len \<and> \<not> strncmp_eq at ''HTTP/1.1'' len \<and> \<not> strncmp_eq at ''HTTP/1.0'' len)"
    and "execute_request data len p = Ret r p'"
  shows "req_hasError p'"
proof -
  obtain p1 p2 where p: "on_request_events pre (p\<lparr>rq_parser := m\<rparr>) = Ret () p1" "on_request_event e p1 = Ret () p2"
    "on_request_events post p2 = Ret () p'"
    using assms(1,2,4) by (auto simp: execute_request_def on_request_events_append obind_Ret_iff)
  have "rq_error p2 \<noteq> 0" using p(2) assms(3) by (auto simp: request_callbacks)
  then show ?thesis using request_error_kept [OF _ p(3)] by (simp add: req_hasError_def)
qed

theorem bad_head_reported_witness:
  "\<exists>n m r p'. http_parser_execute ''FOO /'' 5 0 ((rq_parser (new_HttpRequestParser new_http_parser 0))\<lparr>hp_events := []\<rparr>) = Ret n m \<and>
     execute_request ''FOO /'' 5 (new_HttpRequestParser new_http_parser 0) = Ret r p' \<and> req_hasError p'"
proof -
  let ?p = "new_HttpRequestParser new_http_parser 0"
  obtain m where m: "http_parser_execute ''FOO /'' 5 0 ((rq_parser ?p)\<lparr>hp_events := []\<rparr>) = Ret 5 m" "hp_events m = [RequestMethod ''FOO /'' 3]"
    by (simp add: http_parser_execute_def http_parser_init_def new_http_parser_def CXK_ASSERT_def hp_case_simps schar_def
        hp_case_1_def hp_case_2_def hp_case_175_def hp_case_176_def hp_case_3_def hp_tr_defs hp_call_def
        http_parser_has_error_def new_HttpRequestParser_def)
  have i: "CharsTohttpMethod ''FOO /'' = INVALID_METHOD" by (simp add: CharsTohttpMethod_def HTTP_METHOD_MAP_def c_string_def)
  have "\<exists>r p'. execute_request ''FOO /'' 5 ?p = Ret r p'" using m i by (simp add: execute_request_def on_request_method_def)
  then obtain r p' where e: "execute_request ''FOO /'' 5 ?p = Ret r p'" by blast
  have "req_hasError p'" by (rule bad_head_reported [OF m(1) _ _ e, of "[]" "RequestMethod ''FOO /'' 3" "[]"]) (use m(2) i in auto)
  then show ?thesis using m(1) e by blast
qed

end
