(* ===== verification/Servlet.thy ===== *)
theory Servlet
  imports Http
begin

text \<open>
  \<^verbatim>\<open>src/cxk/http/servlet.cpp\<close>: routing of requests to servlets. A handler maps the request, the response and
  the session (of any type) to its result and their new states. A servlet pointer is an \<open>option\<close>. The
  POSIX \<^verbatim>\<open>fnmatch\<close> is a parameter (\<open>fnmatch pattern uri\<close>: it returned 0). The locks are held for whole
  operations, so each operation is one step.
\<close>

type_synonym 's handler = "http_request \<Rightarrow> http_response \<Rightarrow> 's \<Rightarrow> int \<times> http_request \<times> http_response \<times> 's"

datatype 's servlet =
    FunctionServlet "'s handler"
  | NotFoundServlet string string
  | OtherServlet "'s handler"

definition new_NotFoundServlet :: "string \<Rightarrow> 's servlet" where
  "new_NotFoundServlet name = NotFoundServlet name
     (''<html><head><title>404 Not Found''
      @ ''</title></head><body><center><h1>404 Not Found</h1></center>''
      @ ''<hr><center>'' @ name @ ''</center></body></html>'')"

definition NotFound_handle :: "string \<Rightarrow> 's handler" where
  "NotFound_handle content request response session =
     (let response = response\<lparr>p_status := 404\<rparr>;
          response = rsp_setHeader ''Content-Type'' ''text/html'' response;
          response = rsp_setHeader ''server'' ''cxk/1.16.0'' response;
          response = response\<lparr>p_body := content\<rparr>
      in (0, request, response, session))"

primrec servlet_handle :: "'s servlet \<Rightarrow> 's handler" where
  "servlet_handle (FunctionServlet cb) = cb"
| "servlet_handle (NotFoundServlet name content) = NotFound_handle content"
| "servlet_handle (OtherServlet h) = h"

text \<open>The dispatcher holds servlets of some class \<open>'v\<close>, here or derived.\<close>

record 'v dispatch =
  m_datas :: "string \<rightharpoonup> 'v option"
  m_globs :: "(string \<times> 'v option) list"
  m_default :: "'v option"

definition new_ServletDispatch :: "'s servlet dispatch" where
  "new_ServletDispatch = \<lparr>m_datas = Map.empty, m_globs = [], m_default = Some (new_NotFoundServlet ''cxk/1.1'')\<rparr>"

definition addServlet :: "string \<Rightarrow> 'v option \<Rightarrow> 'v dispatch \<Rightarrow> 'v dispatch" where
  "addServlet uri slt d = d\<lparr>m_datas := (m_datas d)(uri \<mapsto> slt)\<rparr>"

definition addServlet_fn :: "string \<Rightarrow> 's handler \<Rightarrow> 's servlet dispatch \<Rightarrow> 's servlet dispatch" where
  "addServlet_fn uri cb d = d\<lparr>m_datas := (m_datas d)(uri \<mapsto> Some (FunctionServlet cb))\<rparr>"

text \<open>The loop that erases the first pair with the given pattern and stops.\<close>

fun erase_glob :: "string \<Rightarrow> (string \<times> 'v option) list \<Rightarrow> (string \<times> 'v option) list" where
  "erase_glob uri [] = []"
| "erase_glob uri (p # gs) = (if fst p = uri then gs else p # erase_glob uri gs)"

definition addGlobServlet :: "string \<Rightarrow> 'v option \<Rightarrow> 'v dispatch \<Rightarrow> 'v dispatch" where
  "addGlobServlet uri slt d = d\<lparr>m_globs := erase_glob uri (m_globs d) @ [(uri, slt)]\<rparr>"

definition addGlobServlet_fn :: "string \<Rightarrow> 's handler \<Rightarrow> 's servlet dispatch \<Rightarrow> 's servlet dispatch" where
  "addGlobServlet_fn uri cb d = addGlobServlet uri (Some (FunctionServlet cb)) d"

definition delServlet :: "string \<Rightarrow> 'v dispatch \<Rightarrow> 'v dispatch" where
  "delServlet uri d = d\<lparr>m_datas := (m_datas d)(uri := None)\<rparr>"

definition delGlobServlet :: "string \<Rightarrow> 'v dispatch \<Rightarrow> 'v dispatch" where
  "delGlobServlet uri d = d\<lparr>m_globs := erase_glob uri (m_globs d)\<rparr>"

definition getServlet :: "string \<Rightarrow> 'v dispatch \<Rightarrow> 'v option" where
  "getServlet uri d = (case m_datas d uri of None \<Rightarrow> None | Some s \<Rightarrow> s)"

fun find_glob :: "(string \<Rightarrow> bool) \<Rightarrow> (string \<times> 'v option) list \<Rightarrow> 'v option option" where
  "find_glob hit [] = None"
| "find_glob hit (p # gs) = (if hit (fst p) then Some (snd p) else find_glob hit gs)"

definition getGlobServlet :: "string \<Rightarrow> 'v dispatch \<Rightarrow> 'v option" where
  "getGlobServlet uri d = (case find_glob (\<lambda>p. p = uri) (m_globs d) of None \<Rightarrow> None | Some s \<Rightarrow> s)"

definition getMatchedServlet :: "(string \<Rightarrow> string \<Rightarrow> bool) \<Rightarrow> string \<Rightarrow> 'v dispatch \<Rightarrow> 'v option" where
  "getMatchedServlet fnmatch uri d =
     (case m_datas d uri of
        Some s \<Rightarrow> s
      | None \<Rightarrow> (case find_glob (\<lambda>p. fnmatch (c_string p) (c_string uri)) (m_globs d) of Some s \<Rightarrow> s | None \<Rightarrow> m_default d))"

definition setDefault :: "'v option \<Rightarrow> 'v dispatch \<Rightarrow> 'v dispatch" where
  "setDefault slt d = d\<lparr>m_default := slt\<rparr>"

definition dispatch_handle :: "(string \<Rightarrow> string \<Rightarrow> bool) \<Rightarrow> 's servlet dispatch \<Rightarrow> 's handler" where
  "dispatch_handle fnmatch d request response session =
     (case getMatchedServlet fnmatch (q_path request) d of
        None \<Rightarrow> (0, request, response, session)
      | Some slt \<Rightarrow> (case servlet_handle slt request response session of (_, st) \<Rightarrow> (0, st)))"

section \<open>Lemmas\<close>

definition globs_ok :: "'v dispatch \<Rightarrow> bool" where
  "globs_ok d \<longleftrightarrow> distinct (map fst (m_globs d))"

lemma erase_glob_filter: "distinct (map fst gs) \<Longrightarrow> erase_glob uri gs = filter (\<lambda>p. fst p \<noteq> uri) gs"
proof (induction gs)
  case (Cons p gs)
  have "fst p = uri \<Longrightarrow> filter (\<lambda>q. fst q \<noteq> uri) gs = gs" using Cons.prems by (intro filter_True) (auto simp: image_iff)
  then show ?case using Cons by auto
qed simp

lemma find_glob_append:
  "find_glob hit (gs @ hs) = (case find_glob hit gs of Some s \<Rightarrow> Some s | None \<Rightarrow> find_glob hit hs)"
  by (induction gs) auto

lemma find_glob_filter:
  "find_glob (\<lambda>p. p = k) (filter (\<lambda>p. fst p \<noteq> k') gs) = (if k' = k then None else find_glob (\<lambda>p. p = k) gs)"
  by (induction gs) auto

lemma distinct_filter_fst: "distinct (map fst gs) \<Longrightarrow> distinct (map fst (filter P gs))"
  by (induction gs) auto

interpretation exact_routes: erasable_store "\<lambda>d k. m_datas d k" addServlet "\<lambda>d. True" "(=)" delServlet
  by unfold_locales (auto simp: addServlet_def delServlet_def)

interpretation glob_routes: erasable_store "\<lambda>d k. find_glob (\<lambda>p. p = k) (m_globs d)" addGlobServlet globs_ok "(=)"
  delGlobServlet
  by unfold_locales
    (auto simp: globs_ok_def addGlobServlet_def delGlobServlet_def erase_glob_filter find_glob_append find_glob_filter
      distinct_filter_fst split: option.splits)

text \<open>The pairs of a list whose key does not occur again later.\<close>

fun keep_last :: "('k \<times> 'v) list \<Rightarrow> ('k \<times> 'v) list" where
  "keep_last [] = []"
| "keep_last (p # ps) = (if fst p \<in> fst ` set ps then keep_last ps else p # keep_last ps)"

lemma keep_last_snoc: "keep_last (ps @ [q]) = filter (\<lambda>p. fst p \<noteq> fst q) (keep_last ps) @ [q]"
  by (induction ps) auto

lemma globs_after_adds:
  "m_globs (fold (\<lambda>(k, s). addGlobServlet k s) gs new_ServletDispatch) = keep_last gs"
proof (induction gs rule: rev_induct)
  case (snoc q gs)
  have "globs_ok (fold (\<lambda>(k, s). addGlobServlet k s) gs new_ServletDispatch)"
    by (rule glob_routes.set_all_inv) (simp add: globs_ok_def new_ServletDispatch_def)
  then show ?case
    using snoc by (cases q) (simp add: addGlobServlet_def globs_ok_def erase_glob_filter keep_last_snoc)
qed (simp add: new_ServletDispatch_def)

lemma adds_independent:
  "m_globs (fold (\<lambda>(k, s). addServlet k s) es d) = m_globs d"
  "m_default (fold (\<lambda>(k, s). addServlet k s) es d) = m_default d"
  "m_datas (fold (\<lambda>(k, s). addGlobServlet k s) gs d) = m_datas d"
  "m_default (fold (\<lambda>(k, s). addGlobServlet k s) gs d) = m_default d"
  by (induction es arbitrary: d, auto simp: addServlet_def)
    (induction gs arbitrary: d, auto simp: addGlobServlet_def)+

lemma find_glob_find: "find_glob hit gs = map_option snd (find (\<lambda>(k, s). hit k) gs)"
  by (induction gs) auto

section \<open>Properties\<close>

text \<open>C28. Routing: after any registrations of exact and glob routes, a request goes to the servlet registered last
  for exactly its path; without one, to the first matching glob in the order of their last registration;
  without that, to the default. Deleting the exact route falls back to the globs.\<close>

theorem routing_exact:
  "getMatchedServlet fnmatch uri (fold (\<lambda>(k, s). addServlet k s) es
        (fold (\<lambda>(k, s). addGlobServlet k s) gs new_ServletDispatch)) =
      (case find (\<lambda>(k, s). k = uri) (rev es) of Some (_, s) \<Rightarrow> s
       | None \<Rightarrow> (case find (\<lambda>(k, s). fnmatch (c_string k) (c_string uri)) (keep_last gs) of Some (_, s) \<Rightarrow> s
                | None \<Rightarrow> m_default new_ServletDispatch)) \<and>
    getMatchedServlet fnmatch uri (delServlet uri
        (fold (\<lambda>(k, s). addServlet k s) es (fold (\<lambda>(k, s). addGlobServlet k s) gs new_ServletDispatch))) =
      (case find (\<lambda>(k, s). fnmatch (c_string k) (c_string uri)) (keep_last gs) of Some (_, s) \<Rightarrow> s | None \<Rightarrow> m_default new_ServletDispatch)"
proof -
  let ?d = "fold (\<lambda>(k, s). addServlet k s) es (fold (\<lambda>(k, s). addGlobServlet k s) gs new_ServletDispatch)"
  have g: "m_globs ?d = keep_last gs" "m_default ?d = m_default new_ServletDispatch"
    by (simp_all add: adds_independent globs_after_adds)
  have e: "m_datas ?d uri = (case find (\<lambda>(k, s). k = uri) (rev es) of Some (_, s) \<Rightarrow> Some s | None \<Rightarrow> None)"
    using exact_routes.last_value [where kvs = es and k' = uri and ob = "fold (\<lambda>(k, s). addGlobServlet k s) gs new_ServletDispatch"]
    by (simp add: adds_independent new_ServletDispatch_def split: option.splits prod.splits)
  show ?thesis
    by (auto simp: getMatchedServlet_def delServlet_def e g find_glob_find split: option.splits)
qed

text \<open>A request that no route matches is answered by the default servlet with status 404, an HTML body and
  its content type; the request and the session are not touched.\<close>

theorem unrouted_is_404:
  assumes "m_datas d (q_path request) = None" and "\<forall>(k, s) \<in> set (m_globs d). \<not> fnmatch (c_string k) (c_string (q_path request))"
    and "m_default d = m_default new_ServletDispatch" and "response_ok response"
  shows "\<exists>response'. dispatch_handle fnmatch d request response session = (0, request, response', session) \<and>
    p_status response' = 404 \<and> p_body response' \<noteq> [] \<and> rsp_getHeader ''content-type'' [] response' = ''text/html'' \<and>
    p_version response' = p_version response \<and> p_close response' = p_close response"
proof -
  have "find_glob (\<lambda>p. fnmatch (c_string p) (c_string (q_path request))) (m_globs d) = None"
    using assms(2) by (auto simp: find_glob_find find_None_iff)
  then have m: "getMatchedServlet fnmatch (q_path request) d = m_default new_ServletDispatch"
    using assms(1,3) by (simp add: getMatchedServlet_def)
  have k: "same_key ''Content-Type'' ''content-type''" "\<not> same_key ''server'' ''content-type''"
    by (simp_all add: same_key_def fold_case_def c_string_def tolower_def)
  define p where "p = rsp_setHeader ''server'' ''cxk/1.16.0'' (rsp_setHeader ''Content-Type'' ''text/html'' (response\<lparr>p_status := 404\<rparr>))"
  have "response_ok (response\<lparr>p_status := 404\<rparr>)" using assms(4) by (simp add: response_ok_def)
  then have "map_find CaseInsensitiveLess ''content-type'' (p_headers p) = Some ''text/html''"
    by (simp add: p_def rsp_headers.get_set rsp_headers.set_inv k)
  moreover have "p_status p = 404" "p_version p = p_version response" "p_close p = p_close response"
    by (simp_all add: p_def rsp_setHeader_def)
  ultimately show ?thesis
    by (simp add: dispatch_handle_def m new_ServletDispatch_def new_NotFoundServlet_def NotFound_handle_def Let_def
        rsp_getHeader_def flip: p_def)
qed

theorem unrouted_is_404_witness:
  "\<exists>response'. dispatch_handle (\<lambda>_ _. False) new_ServletDispatch demo_request (createResponse demo_request) () =
     (0, demo_request, response', ()) \<and> p_status response' = 404"
  using unrouted_is_404 [of new_ServletDispatch demo_request "\<lambda>_ _. False" "createResponse demo_request" "()"]
  by (auto simp: new_ServletDispatch_def createResponse_def)

end
