(* ===== verification/FdManager.thy ===== *)
theory FdManager
  imports Prelude
begin

text \<open>
  \<^verbatim>\<open>src/cxk/fd_manager.cpp\<close>: per-descriptor contexts. A context is an object on a heap (a list: its index is
  the pointer), since callers share and update it. What the kernel knows of descriptors is part of the state:
  whether \<^verbatim>\<open>fstat\<close> succeeds and says socket, and the file status flags that \<^verbatim>\<open>fcntl\<close> reads and writes. \<open>get\<close> has
  two critical sections, \<open>get_lookup\<close> under the read lock and \<open>get_create\<close> under the write lock.
\<close>

record fd_ctx =
  m_isInit :: bool
  m_isSocket :: bool
  m_sysNoblock :: bool
  m_userNoblock :: bool
  m_isClosed :: bool
  m_fd :: int
  m_recvTimeOut :: u64
  m_sendTimeOut :: u64

record fd_state =
  k_stat :: "int \<Rightarrow> bool option"
  k_flags :: "int \<Rightarrow> u32"
  fd_heap :: "fd_ctx list"
  fd_datas :: "nat option list"

definition O_NONBLOCK :: u32 where "O_NONBLOCK = 0x800"
definition SO_RCVTIMEO :: int where "SO_RCVTIMEO = 20"
definition SO_SNDTIMEO :: int where "SO_SNDTIMEO = 21"

definition set_nonblock :: "int \<Rightarrow> (int \<Rightarrow> u32) \<Rightarrow> int \<Rightarrow> u32" where
  "set_nonblock fd fl = (if fl fd AND O_NONBLOCK = 0 then fl(fd := fl fd OR O_NONBLOCK) else fl)"

definition fd_init :: "fd_ctx \<Rightarrow> fd_state \<Rightarrow> bool \<times> fd_ctx \<times> fd_state" where
  "fd_init c s =
     (if m_isInit c then (True, c, s)
      else
        let c = c\<lparr>m_recvTimeOut := - 1, m_sendTimeOut := - 1\<rparr>;
            c = (case k_stat s (m_fd c) of
                   None \<Rightarrow> c\<lparr>m_isInit := False, m_isSocket := False\<rparr>
                 | Some sock \<Rightarrow> c\<lparr>m_isInit := True, m_isSocket := sock\<rparr>);
            (c, s) = (if m_isSocket c
                      then (c\<lparr>m_sysNoblock := True\<rparr>, s\<lparr>k_flags := set_nonblock (m_fd c) (k_flags s)\<rparr>)
                      else (c\<lparr>m_sysNoblock := False\<rparr>, s));
            c = c\<lparr>m_userNoblock := False, m_isClosed := False\<rparr>
        in (m_isInit c, c, s))"

definition new_FdCtx :: "int \<Rightarrow> fd_state \<Rightarrow> fd_ctx \<times> fd_state" where
  "new_FdCtx fd s =
     snd (fd_init \<lparr>m_isInit = False, m_isSocket = False, m_sysNoblock = False, m_userNoblock = False,
       m_isClosed = False, m_fd = fd, m_recvTimeOut = - 1, m_sendTimeOut = - 1\<rparr> s)"

definition setTimeOut :: "int \<Rightarrow> u64 \<Rightarrow> fd_ctx \<Rightarrow> fd_ctx" where
  "setTimeOut type v c = (if type = SO_RCVTIMEO then c\<lparr>m_recvTimeOut := v\<rparr> else c\<lparr>m_sendTimeOut := v\<rparr>)"

definition getTimeOut :: "int \<Rightarrow> fd_ctx \<Rightarrow> u64" where
  "getTimeOut type c = (if type = SO_RCVTIMEO then m_recvTimeOut c else m_sendTimeOut c)"

definition new_FdManager :: "fd_state \<Rightarrow> fd_state" where
  "new_FdManager s = s\<lparr>fd_datas := replicate 64 None\<rparr>"

text \<open>The first critical section: \<open>Some p\<close> is the returned pointer, \<open>None\<close> goes on to create a context.\<close>

definition get_lookup :: "int \<Rightarrow> bool \<Rightarrow> fd_state \<Rightarrow> (fd_state, nat option option) outcome" where
  "get_lookup fd auto_create s =
     (if fd = - 1 then Ret (Some None) s
      else if int (length (fd_datas s)) \<le> fd then Ret (if auto_create then None else Some None) s
      else if fd < 0 then Undef OutOfBounds
      else if fd_datas s ! nat fd \<noteq> None \<or> \<not> auto_create then Ret (Some (fd_datas s ! nat fd)) s
      else Ret None s)"

definition vec_resize :: "nat \<Rightarrow> 'a \<Rightarrow> 'a list \<Rightarrow> 'a list" where
  "vec_resize n x xs = take n xs @ replicate (n - length xs) x"

definition get_create :: "int \<Rightarrow> fd_state \<Rightarrow> (fd_state, nat option) outcome" where
  "get_create fd s =
     (case new_FdCtx fd s of (c, s) \<Rightarrow>
        let ctx = length (fd_heap s);
            s = s\<lparr>fd_heap := fd_heap s @ [c]\<rparr>;
            s = (if fd \<ge> int (length (fd_datas s))
                 then s\<lparr>fd_datas := vec_resize (nat (fd * 3 div 2)) None (fd_datas s)\<rparr> else s)
        in if fd < 0 \<or> int (length (fd_datas s)) \<le> fd then Undef OutOfBounds
           else Ret (Some ctx) (s\<lparr>fd_datas := (fd_datas s)[nat fd := Some ctx]\<rparr>))"

definition fd_get :: "int \<Rightarrow> bool \<Rightarrow> fd_state \<Rightarrow> (fd_state, nat option) outcome" where
  "fd_get fd auto_create s =
     obind (get_lookup fd auto_create s) (\<lambda>r s. case r of Some p \<Rightarrow> Ret p s | None \<Rightarrow> get_create fd s)"

definition fd_del :: "int \<Rightarrow> fd_state \<Rightarrow> (fd_state, unit) outcome" where
  "fd_del fd s =
     (if int (length (fd_datas s)) \<le> fd then Ret () s
      else if fd < 0 then Undef OutOfBounds
      else Ret () (s\<lparr>fd_datas := (fd_datas s)[nat fd := None]\<rparr>))"

section \<open>Invariant\<close>

definition fd_inv :: "fd_state \<Rightarrow> bool" where
  "fd_inv s \<longleftrightarrow> 64 \<le> length (fd_datas s) \<and>
     (\<forall>i < length (fd_datas s). \<forall>p. fd_datas s ! i = Some p \<longrightarrow> p < length (fd_heap s) \<and> m_fd (fd_heap s ! p) = int i)"

text \<open>The context of a descriptor, if it has one.\<close>

definition ctx_of :: "int \<Rightarrow> fd_state \<Rightarrow> nat option" where
  "ctx_of fd s = (if 0 \<le> fd \<and> nat fd < length (fd_datas s) then fd_datas s ! nat fd else None)"

lemma new_FdManager_inv: "fd_inv (new_FdManager s)"
  by (simp add: fd_inv_def new_FdManager_def)

lemma new_FdCtx_keeps:
  assumes "new_FdCtx fd s = (c, s')"
  shows "m_fd c = fd" "fd_heap s' = fd_heap s" "fd_datas s' = fd_datas s" "k_stat s' = k_stat s"
    "m_isSocket c \<longleftrightarrow> k_stat s fd = Some True" "m_sysNoblock c = m_isSocket c"
    "m_isSocket c \<Longrightarrow> k_flags s' fd AND O_NONBLOCK \<noteq> 0" "\<not> m_isSocket c \<Longrightarrow> k_flags s' = k_flags s"
    "\<And>fd'. fd' \<noteq> fd \<Longrightarrow> k_flags s' fd' = k_flags s fd'"
proof -
  have "(x OR O_NONBLOCK) AND O_NONBLOCK \<noteq> 0" for x
  proof -
    have "(x OR O_NONBLOCK) AND O_NONBLOCK = O_NONBLOCK" by (rule bit_eqI) (auto simp: bit_simps)
    then show ?thesis by (simp add: O_NONBLOCK_def)
  qed
  then show "m_fd c = fd" "fd_heap s' = fd_heap s" "fd_datas s' = fd_datas s" "k_stat s' = k_stat s"
    "m_isSocket c \<longleftrightarrow> k_stat s fd = Some True" "m_sysNoblock c = m_isSocket c"
    "m_isSocket c \<Longrightarrow> k_flags s' fd AND O_NONBLOCK \<noteq> 0" "\<not> m_isSocket c \<Longrightarrow> k_flags s' = k_flags s"
    "\<And>fd'. fd' \<noteq> fd \<Longrightarrow> k_flags s' fd' = k_flags s fd'"
    using assms by (auto simp: new_FdCtx_def fd_init_def Let_def set_nonblock_def split: option.splits if_splits)
qed

lemma length_vec_resize [simp]: "length (vec_resize n x xs) = n"
  by (simp add: vec_resize_def)

lemma nth_vec_resize: "i < n \<Longrightarrow> vec_resize n x xs ! i = (if i < length xs then xs ! i else x)"
  by (auto simp: vec_resize_def nth_append min_def)

lemma get_create_ok:
  assumes "fd_inv s" and "0 \<le> fd"
  obtains s' where "get_create fd s = Ret (Some (length (fd_heap s))) s'" and "fd_inv s'"
    and "ctx_of fd s' = Some (length (fd_heap s))" and "m_fd (fd_heap s' ! length (fd_heap s)) = fd"
    and "m_isSocket (fd_heap s' ! length (fd_heap s)) \<longleftrightarrow> k_stat s fd = Some True"
    and "k_stat s fd = Some True \<Longrightarrow> k_flags s' fd AND O_NONBLOCK \<noteq> 0"
    and "take (length (fd_heap s)) (fd_heap s') = fd_heap s"
    and "\<And>fd'. fd' \<noteq> fd \<Longrightarrow> ctx_of fd' s' = ctx_of fd' s"
proof -
  obtain c s1 where c: "new_FdCtx fd s = (c, s1)" by force
  note k = new_FdCtx_keeps [OF c]
  let ?n = "length (fd_datas s)"
  define ds where "ds = (if int ?n \<le> fd then vec_resize (nat (fd * 3 div 2)) None (fd_datas s) else fd_datas s)"
  define s' where "s' = s1\<lparr>fd_heap := fd_heap s @ [c], fd_datas := ds[nat fd := Some (length (fd_heap s))]\<rparr>"
  have n: "64 \<le> ?n" using assms(1) by (simp add: fd_inv_def)
  have len: "?n \<le> length ds" "nat fd < length ds" using assms(2) n by (auto simp: ds_def nat_less_iff)
  have nth: "ds ! i = (if i < ?n then fd_datas s ! i else None)" if "i < length ds" for i
    using that by (auto simp: ds_def nth_vec_resize)
  have "get_create fd s = Ret (Some (length (fd_heap s))) s'"
    using c k(2,3) len assms(2) by (auto simp: get_create_def Let_def ds_def s'_def split: if_splits)
  moreover have "fd_inv s'"
  proof -
    have "p < length (fd_heap s') \<and> m_fd (fd_heap s' ! p) = int i"
      if i: "i < length ds" "ds[nat fd := Some (length (fd_heap s))] ! i = Some p" for i p
    proof (cases "i = nat fd")
      case True
      then show ?thesis using i assms(2) k(1) by (auto simp: s'_def)
    next
      case False
      then have "i < ?n" "fd_datas s ! i = Some p" using i nth by (auto split: if_splits)
      then show ?thesis using assms(1) by (auto simp: fd_inv_def s'_def nth_append)
    qed
    then show ?thesis using n len(1) by (simp add: fd_inv_def s'_def)
  qed
  moreover have "ctx_of fd s' = Some (length (fd_heap s))" using assms(2) len by (simp add: ctx_of_def s'_def)
  moreover have "ctx_of fd' s' = ctx_of fd' s" if "fd' \<noteq> fd" for fd'
    using that len nth assms(2) by (auto simp: ctx_of_def s'_def nth_list_update)
  ultimately show ?thesis
    using k by (intro that [of s']) (auto simp: s'_def)
qed

lemma get_lookup_cases:
  assumes "0 \<le> fd"
  shows "get_lookup fd auto s =
    Ret (if ctx_of fd s \<noteq> None then Some (ctx_of fd s) else if auto then None else Some None) s"
  using assms by (auto simp: get_lookup_def ctx_of_def nat_less_iff)

section \<open>Properties\<close>

text \<open>\<open>get\<close> on any descriptor that is not negative: without \<^verbatim>\<open>auto_create\<close> it only looks; with it, it returns
  a context of that descriptor, the existing one or a new one (a socket is made non-blocking), keeps every
  other descriptor's context, and later calls return the same object until \<open>del\<close>.\<close>

theorem fd_get_exact:
  assumes "fd_inv s" and "0 \<le> fd"
  shows "fd_get fd False s = Ret (ctx_of fd s) s \<and>
    (\<exists>p s'. fd_get fd True s = Ret (Some p) s' \<and> fd_inv s' \<and> m_fd (fd_heap s' ! p) = fd \<and>
      (ctx_of fd s = None \<longrightarrow> k_stat s fd = Some True \<longrightarrow> k_flags s' fd AND O_NONBLOCK \<noteq> 0) \<and>
      (\<forall>fd'. fd' \<noteq> fd \<longrightarrow> ctx_of fd' s' = ctx_of fd' s) \<and>
      (\<forall>b. fd_get fd b s' = Ret (Some p) s') \<and>
      (\<exists>s''. fd_del fd s' = Ret () s'' \<and> fd_inv s'' \<and> fd_get fd False s'' = Ret None s''))"
proof -
  have look: "fd_get fd False s = Ret (ctx_of fd s) s" for s
    using assms(2) by (auto simp: fd_get_def get_lookup_cases)
  have again: "fd_get fd b s' = Ret (Some p) s'" if "ctx_of fd s' = Some p" for b p s'
    using that assms(2) by (simp add: fd_get_def get_lookup_cases)
  have del: "\<exists>s''. fd_del fd s' = Ret () s'' \<and> fd_inv s'' \<and> fd_get fd False s'' = Ret None s''" if "fd_inv s'" for s'
    using that assms(2) unfolding look
    by (auto simp: fd_del_def fd_inv_def ctx_of_def nth_list_update nat_less_iff)
  show ?thesis
  proof (cases "ctx_of fd s")
    case None
    show ?thesis
      by (rule get_create_ok [OF assms])
        (use None look again del assms(2) in \<open>simp add: fd_get_def [of fd True] get_lookup_cases\<close>)
  next
    case (Some p)
    then have "m_fd (fd_heap s ! p) = fd" using assms by (auto simp: fd_inv_def ctx_of_def split: if_splits)
    then show ?thesis using Some look again [OF Some] del assms(1) by auto
  qed
qed

text \<open>The lock is given up between the two critical sections and the second does not look again: two
  concurrent calls for a descriptor without a context both create one and return different objects, and only
  the second stays registered.\<close>

theorem get_race_two_contexts:
  assumes "fd_inv s" and "0 \<le> fd" and "ctx_of fd s = None"
  shows "get_lookup fd True s = Ret None s \<and>
    (\<exists>p1 s1 p2 s2. get_create fd s = Ret (Some p1) s1 \<and> get_create fd s1 = Ret (Some p2) s2 \<and>
       p1 \<noteq> p2 \<and> ctx_of fd s2 = Some p2 \<and> fd_inv s2)"
proof -
  obtain s1 where 1: "get_create fd s = Ret (Some (length (fd_heap s))) s1" "fd_inv s1"
      "take (length (fd_heap s)) (fd_heap s1) = fd_heap s" "ctx_of fd s1 = Some (length (fd_heap s))"
    by (rule get_create_ok [OF assms(1,2)])
  obtain s2 where 2: "get_create fd s1 = Ret (Some (length (fd_heap s1))) s2" "fd_inv s2"
      "ctx_of fd s2 = Some (length (fd_heap s1))"
    by (rule get_create_ok [OF 1(2) assms(2)])
  have "length (fd_heap s) < length (fd_heap s1)"
    using 1(2,4) by (auto simp: fd_inv_def ctx_of_def split: if_splits)
  then show ?thesis using 1 2 assms(2,3) by (auto simp: get_lookup_cases)
qed

definition demo_fds :: fd_state where
  "demo_fds = new_FdManager \<lparr>k_stat = (\<lambda>fd. Some True), k_flags = (\<lambda>_. 0), fd_heap = [], fd_datas = []\<rparr>"

theorem fd_get_exact_witness:
  "\<exists>p s'. fd_get 100 True demo_fds = Ret (Some p) s' \<and> m_fd (fd_heap s' ! p) = 100"
  using fd_get_exact [of demo_fds 100] new_FdManager_inv by (auto simp: demo_fds_def)

theorem get_race_two_contexts_witness:
  "\<exists>p1 s1 p2 s2. get_create 5 demo_fds = Ret (Some p1) s1 \<and> get_create 5 s1 = Ret (Some p2) s2 \<and> p1 \<noteq> p2"
proof -
  have "fd_inv demo_fds" "ctx_of 5 demo_fds = None"
    by (simp_all add: demo_fds_def new_FdManager_inv) (simp add: ctx_of_def new_FdManager_def)
  then show ?thesis using get_race_two_contexts [of demo_fds 5] by auto
qed

end
