(* ===== verification/Address.thy ===== *)
theory Address
  imports ByteArray Http
begin

text \<open>
  \<^verbatim>\<open>src/cxk/address.cpp\<close>: socket addresses. The \<^verbatim>\<open>sockaddr\<close> structs are records whose integer fields are the
  words in memory (ports and IPv4 addresses in network order on a little-endian host); \<open>getAddr\<close> is the struct
  as bytes, which comparison looks at. \<^verbatim>\<open>getaddrinfo\<close>, \<^verbatim>\<open>getifaddrs\<close> and \<^verbatim>\<open>inet_pton\<close> are parameters. Undefined
  shifts and signed overflow in the mask computation are \<open>Undef Overflow\<close>.
\<close>

section \<open>Bit counting and masks\<close>

text \<open>\<^verbatim>\<open>createMask<T>\<close> on \<open>w\<close>-bit \<open>T\<close>: \<^verbatim>\<open>(1 << (w - bits)) - 1\<close> in \<^verbatim>\<open>int\<close>.\<close>

definition createMask :: "nat \<Rightarrow> u32 \<Rightarrow> (unit, 'a::len word) outcome" where
  "createMask w bits =
     (let sh = unat (of_nat w - bits)
      in if sh \<ge> 31 then Undef Overflow else Ret (of_nat (2 ^ sh - 1)) ())"

lemma unat_and_pred: "v \<noteq> 0 \<Longrightarrow> unat (v AND (v - 1) :: 'a::len word) = unat v AND (unat v - 1)"
  by (simp add: unsigned_and_eq unat_minus_one)

lemma and_pred_less:
  assumes "v \<noteq> 0"
  shows "unat (v AND (v - 1) :: 'a::len word) < unat v"
proof -
  have "unat (v AND (v - 1)) \<le> unat (v - 1)" using word_and_le1 [of v "v - 1"] by (simp add: word_le_nat_alt)
  then show ?thesis using assms unat_gt_0 [of v] unat_minus_one [OF assms] by simp
qed

function CountBytes :: "'a::len word \<Rightarrow> nat" where
  "CountBytes value = (if value \<noteq> 0 then Suc (CountBytes (value AND (value - 1))) else 0)"
  by pat_completeness auto
termination
  by (relation "measure unat") (auto simp: and_pred_less)

declare CountBytes.simps [simp del]

section \<open>Structs\<close>

definition AF_UNSPEC :: u16 where "AF_UNSPEC = 0"
definition AF_UNIX :: u16 where "AF_UNIX = 1"
definition AF_INET :: u16 where "AF_INET = 2"
definition AF_INET6 :: u16 where "AF_INET6 = 10"

lemmas AF_defs = AF_UNSPEC_def AF_UNIX_def AF_INET_def AF_INET6_def

record sockaddr_in =
  sin_family :: u16
  sin_port :: u16
  sin_addr :: u32
  sin_zero :: "u8 list"

record sockaddr_in6 =
  sin6_family :: u16
  sin6_port :: u16
  sin6_flowinfo :: u32
  sin6_addr :: "u8 list"
  sin6_scope_id :: u32

record unix_address =
  sun_family :: u16
  sun_path :: "u8 list"
  sun_length :: nat

record sockaddr_other =
  sa_family :: u16
  sa_data :: "u8 list"

datatype address = IPv4Address sockaddr_in | IPv6Address sockaddr_in6 | UnixAddress unix_address | UnknownAddress sockaddr_other

text \<open>What \<^verbatim>\<open>getaddrinfo\<close> and \<^verbatim>\<open>getifaddrs\<close> hand out: a \<^verbatim>\<open>sockaddr\<close> of some family.\<close>

datatype raw_addr = Raw4 sockaddr_in | Raw6 sockaddr_in6 | RawOther sockaddr_other

primrec getAddr :: "address \<Rightarrow> u8 list" where
  "getAddr (IPv4Address a) = word_bytes (sin_family a) @ word_bytes (sin_port a) @ word_bytes (sin_addr a) @ sin_zero a"
| "getAddr (IPv6Address a) = word_bytes (sin6_family a) @ word_bytes (sin6_port a) @ word_bytes (sin6_flowinfo a)
     @ sin6_addr a @ word_bytes (sin6_scope_id a)"
| "getAddr (UnixAddress a) = word_bytes (sun_family a) @ sun_path a"
| "getAddr (UnknownAddress a) = word_bytes (sa_family a) @ sa_data a"

primrec getAddrLen :: "address \<Rightarrow> nat" where
  "getAddrLen (IPv4Address a) = 16"
| "getAddrLen (IPv6Address a) = 28"
| "getAddrLen (UnixAddress a) = sun_length a"
| "getAddrLen (UnknownAddress a) = 16"

definition getFamily :: "address \<Rightarrow> u16" where
  "getFamily a = (case a of IPv4Address a \<Rightarrow> sin_family a | IPv6Address a \<Rightarrow> sin6_family a
     | UnixAddress a \<Rightarrow> sun_family a | UnknownAddress a \<Rightarrow> sa_family a)"

section \<open>Comparison\<close>

fun memcmp :: "u8 list \<Rightarrow> u8 list \<Rightarrow> int" where
  "memcmp (x # xs) (y # ys) = (if x < y then -1 else if y < x then 1 else memcmp xs ys)"
| "memcmp _ _ = 0"

definition addr_less :: "address \<Rightarrow> address \<Rightarrow> bool" where
  "addr_less a b =
     (let minLen = min (getAddrLen a) (getAddrLen b);
          result = memcmp (take minLen (getAddr a)) (take minLen (getAddr b))
      in if result < 0 then True else if result > 0 then False else getAddrLen a < getAddrLen b)"

definition addr_eq :: "address \<Rightarrow> address \<Rightarrow> bool" where
  "addr_eq a b \<longleftrightarrow> getAddrLen a = getAddrLen b \<and>
     memcmp (take (getAddrLen a) (getAddr a)) (take (getAddrLen a) (getAddr b)) = 0"

definition addr_neq :: "address \<Rightarrow> address \<Rightarrow> bool" where
  "addr_neq a b \<longleftrightarrow> \<not> addr_eq a b"

section \<open>IPv4\<close>

text \<open>The constructor clears the struct and never stores its \<^verbatim>\<open>address\<close> argument.\<close>

definition new_IPv4Address :: "u32 \<Rightarrow> u16 \<Rightarrow> sockaddr_in" where
  "new_IPv4Address address port =
     \<lparr>sin_family = AF_INET, sin_port = byteswapOnLittleEndian port, sin_addr = 0, sin_zero = replicate 8 0\<rparr>"

definition IPv4_Create :: "(string \<Rightarrow> u32 option) \<Rightarrow> string \<Rightarrow> u16 \<Rightarrow> sockaddr_in option" where
  "IPv4_Create inet_pton address port =
     (let rt = (new_IPv4Address 0 0)\<lparr>sin_port := byteswapOnLittleEndian port\<rparr>
      in case inet_pton address of None \<Rightarrow> None | Some v \<Rightarrow> Some (rt\<lparr>sin_addr := v\<rparr>))"

definition IPv4_insert :: "sockaddr_in \<Rightarrow> string" where
  "IPv4_insert a =
     (let addr = byteswapOnLittleEndian (sin_addr a)
      in dec (unat (drop_bit 24 addr AND 0xFF)) @ ''.'' @ dec (unat (drop_bit 16 addr AND 0xFF)) @ ''.''
         @ dec (unat (drop_bit 8 addr AND 0xFF)) @ ''.'' @ dec (unat (addr AND 0xFF))
         @ '':'' @ dec (unat (byteswapOnLittleEndian (sin_port a))))"

definition IPv4_broadcastAddress :: "u32 \<Rightarrow> sockaddr_in \<Rightarrow> (unit, sockaddr_in option) outcome" where
  "IPv4_broadcastAddress prefix_len a =
     (if prefix_len > 32 then Ret None ()
      else obind (createMask 32 prefix_len) (\<lambda>mk. Ret (Some (a\<lparr>sin_addr := sin_addr a OR byteswapOnLittleEndian mk\<rparr>))))"

definition IPv4_netWorkAddress :: "u32 \<Rightarrow> sockaddr_in \<Rightarrow> (unit, sockaddr_in option) outcome" where
  "IPv4_netWorkAddress prefix_len a =
     (if prefix_len > 32 then Ret None ()
      else obind (createMask 32 prefix_len) (\<lambda>mk. Ret (Some (a\<lparr>sin_addr := sin_addr a AND byteswapOnLittleEndian mk\<rparr>))))"

definition IPv4_subnetMask :: "u32 \<Rightarrow> (unit, sockaddr_in option) outcome" where
  "IPv4_subnetMask prefix_len =
     obind (createMask 32 prefix_len) (\<lambda>mk. Ret (Some
       \<lparr>sin_family = AF_INET, sin_port = 0, sin_addr = NOT (byteswapOnLittleEndian mk), sin_zero = replicate 8 0\<rparr>))"

definition IPv4_getPort :: "sockaddr_in \<Rightarrow> u32" where
  "IPv4_getPort a = ucast (byteswapOnLittleEndian (sin_port a))"

definition IPv4_setPort :: "u16 \<Rightarrow> sockaddr_in \<Rightarrow> sockaddr_in" where
  "IPv4_setPort v a = a\<lparr>sin_port := byteswapOnLittleEndian v\<rparr>"

section \<open>IPv6\<close>

text \<open>The default constructor leaves the struct as memory had it.\<close>

definition new_IPv6Address :: "sockaddr_in6 \<Rightarrow> sockaddr_in6" where
  "new_IPv6Address junk = junk"

definition new_IPv6Address_bytes :: "u8 list \<Rightarrow> u16 \<Rightarrow> sockaddr_in6" where
  "new_IPv6Address_bytes address port =
     \<lparr>sin6_family = AF_INET6, sin6_port = byteswapOnLittleEndian port, sin6_flowinfo = 0, sin6_addr = take 16 address,
      sin6_scope_id = 0\<rparr>"

text \<open>\<open>Create\<close> asks \<^verbatim>\<open>inet_pton\<close> for an IPv4 address: four bytes at the front of the 16.\<close>

definition IPv6_Create :: "(string \<Rightarrow> u8 list option) \<Rightarrow> sockaddr_in6 \<Rightarrow> string \<Rightarrow> u16 \<Rightarrow> sockaddr_in6 option" where
  "IPv6_Create inet_pton_AF_INET junk address port =
     (let rt = (new_IPv6Address junk)\<lparr>sin6_port := byteswapOnLittleEndian port\<rparr>
      in case inet_pton_AF_INET address of
           None \<Rightarrow> None
         | Some bs \<Rightarrow> Some (rt\<lparr>sin6_addr := overwrite 0 bs (sin6_addr rt)\<rparr>))"

fun hex :: "nat \<Rightarrow> string" where
  "hex n = (if n < 16 then [hex_digit n] else hex (n div 16) @ [hex_digit (n mod 16)])"

declare hex.simps [simp del]

definition groups :: "u8 list \<Rightarrow> u16 list" where
  "groups bs = map (\<lambda>i. bytes_word [bs ! (2 * i), bs ! (2 * i + 1)]) [0..<8]"

text \<open>The loop of \<open>insert\<close> over the groups from \<open>i\<close> on; the flag is \<^verbatim>\<open>used_zeros\<close>.\<close>

function insert_groups :: "u16 list \<Rightarrow> nat \<Rightarrow> bool \<Rightarrow> string \<times> bool" where
  "insert_groups addr i used_zeros =
     (if i \<ge> 8 then ([], used_zeros)
      else if addr ! i = 0 \<and> \<not> used_zeros then insert_groups addr (i + 1) used_zeros
      else
        let (colon, used) = (if i \<noteq> 0 \<and> addr ! (i - 1) = 0 \<and> \<not> used_zeros then ('':'', True) else ([], used_zeros));
            out = colon @ (if i \<noteq> 0 then '':'' else []) @ hex (unat (byteswapOnLittleEndian (addr ! i)));
            (rest, used) = insert_groups addr (i + 1) used
        in (out @ rest, used))"
  by pat_completeness auto
termination
  by (relation "measure (\<lambda>(addr, i, used). 8 - i)") auto

declare insert_groups.simps [simp del]

definition IPv6_insert :: "sockaddr_in6 \<Rightarrow> string" where
  "IPv6_insert a =
     (let addr = groups (sin6_addr a); (s, used_zeros) = insert_groups addr 0 False
      in ''['' @ s @ (if \<not> used_zeros \<and> addr ! 7 = 0 then '':'' else [])
         @ '']:'' @ dec (unat (byteswapOnLittleEndian (sin6_port a))))"

definition IPv6_broadcastAddress :: "u32 \<Rightarrow> sockaddr_in6 \<Rightarrow> (unit, sockaddr_in6) outcome" where
  "IPv6_broadcastAddress prefix_len a =
     (let i = unat prefix_len div 8 in
      if i \<ge> 16 then Undef OutOfBounds
      else obind (createMask 8 (prefix_len mod 8)) (\<lambda>mk. Ret (a\<lparr>sin6_addr :=
        take i (sin6_addr a) @ [sin6_addr a ! i OR mk] @ replicate (16 - Suc i) 0xff\<rparr>)))"

definition IPv6_netWorkAddress :: "u32 \<Rightarrow> sockaddr_in6 \<Rightarrow> (unit, sockaddr_in6) outcome" where
  "IPv6_netWorkAddress prefix_len a =
     (let i = unat prefix_len div 8 in
      if i \<ge> 16 then Undef OutOfBounds
      else obind (createMask 8 (prefix_len mod 8)) (\<lambda>mk. Ret (a\<lparr>sin6_addr := (sin6_addr a)[i := sin6_addr a ! i AND mk]\<rparr>)))"

definition IPv6_subnetMask :: "u32 \<Rightarrow> (unit, sockaddr_in6) outcome" where
  "IPv6_subnetMask prefix_len =
     (let i = unat prefix_len div 8 in
      if i \<ge> 16 then Undef OutOfBounds
      else obind (createMask 8 (prefix_len mod 8)) (\<lambda>mk. Ret
        \<lparr>sin6_family = AF_INET6, sin6_port = 0, sin6_flowinfo = 0,
         sin6_addr = replicate i 0xFF @ [NOT mk] @ replicate (16 - Suc i) 0, sin6_scope_id = 0\<rparr>))"

definition IPv6_getPort :: "sockaddr_in6 \<Rightarrow> u32" where
  "IPv6_getPort a = ucast (byteswapOnLittleEndian (sin6_port a))"

definition IPv6_setPort :: "u16 \<Rightarrow> sockaddr_in6 \<Rightarrow> sockaddr_in6" where
  "IPv6_setPort v a = a\<lparr>sin6_port := byteswapOnLittleEndian v\<rparr>"

section \<open>Unix and unknown addresses\<close>

text \<open>\<^verbatim>\<open>sun_path\<close> has 108 bytes at offset 2.\<close>

definition MAX_PATH_LEN :: nat where
  "MAX_PATH_LEN = 107"

definition new_UnixAddress :: unix_address where
  "new_UnixAddress = \<lparr>sun_family = AF_UNIX, sun_path = replicate 108 0, sun_length = 2 + MAX_PATH_LEN\<rparr>"

definition new_UnixAddress_path :: "u8 list \<Rightarrow> (unit, unix_address) outcome" where
  "new_UnixAddress_path path =
     (let n = (of_nat (length path + 1) :: u32);
          n = (if path \<noteq> [] \<and> path ! 0 = 0 then n - 1 else n)
      in if n > 108 then Throw LogicError ()
         else Ret \<lparr>sun_family = AF_UNIX, sun_path = overwrite 0 (take (unat n) (path @ [0])) (replicate 108 0),
                   sun_length = 2 + unat n\<rparr> ())"

text \<open>An abstract name reaches as far as the length says, a path to the first zero; both stay inside the array or not.\<close>

definition getPath :: "unix_address \<Rightarrow> (unit, u8 list) outcome" where
  "getPath a =
     (if sun_length a > 2 \<and> sun_path a ! 0 = 0
      then if sun_length a - 2 > length (sun_path a) then Undef OutOfBounds
           else Ret ([92, 48] @ take (sun_length a - 2 - 1) (drop 1 (sun_path a))) ()
      else if 0 \<in> set (sun_path a) then Ret (takeWhile (\<lambda>c. c \<noteq> 0) (sun_path a)) ()
      else Undef OutOfBounds)"

definition Unix_insert :: "unix_address \<Rightarrow> (unit, u8 list) outcome" where
  "Unix_insert a =
     (if sun_length a > 2 \<and> sun_path a ! 0 = 0
      then if sun_length a - 2 > length (sun_path a) then Undef OutOfBounds
           else Ret ([92, 48] @ take (sun_length a - 2 - 1) (drop 1 (sun_path a))) ()
      else if 0 \<in> set (sun_path a) then Ret (takeWhile (\<lambda>c. c \<noteq> 0) (sun_path a)) ()
      else Undef OutOfBounds)"

definition setAddrLen :: "u32 \<Rightarrow> unix_address \<Rightarrow> unix_address" where
  "setAddrLen v a = a\<lparr>sun_length := unat v\<rparr>"

definition new_UnknownAddress :: "u16 \<Rightarrow> sockaddr_other" where
  "new_UnknownAddress family = \<lparr>sa_family = family, sa_data = replicate 14 0\<rparr>"

definition Unknown_insert :: "sockaddr_other \<Rightarrow> string" where
  "Unknown_insert a = ''[UnknownAddress]''"

section \<open>Creation and lookup\<close>

definition Address_Create :: "raw_addr option \<Rightarrow> address option" where
  "Address_Create addr =
     (case addr of None \<Rightarrow> None
      | Some (Raw4 a) \<Rightarrow> Some (IPv4Address a)
      | Some (Raw6 a) \<Rightarrow> Some (IPv6Address a)
      | Some (RawOther a) \<Rightarrow> Some (UnknownAddress a))"

text \<open>
  The host and service that \<open>Lookup\<close> passes to \<^verbatim>\<open>getaddrinfo\<close>. A service is the C string behind a pointer into
  \<open>host\<close>; \<open>after c s\<close> is the text from the first \<open>c\<close> on, as \<^verbatim>\<open>memchr\<close> finds it.
\<close>

definition after :: "char \<Rightarrow> string \<Rightarrow> string option" where
  "after c s = (let t = dropWhile (\<lambda>d. d \<noteq> c) s in if t = [] then None else Some t)"

definition bracket_split :: "string \<Rightarrow> string \<times> string option" where
  "bracket_split host =
     (if host \<noteq> [] \<and> hd host = CHR ''['' then
        (case after (CHR '']'') (tl host) of
           None \<Rightarrow> ([], None)
         | Some t \<Rightarrow> (takeWhile (\<lambda>d. d \<noteq> CHR '']'') (tl host), if take 1 (tl t) = '':'' then Some (drop 2 t) else None))
      else ([], None))"

definition lookup_split :: "string \<Rightarrow> string \<times> string option" where
  "lookup_split host =
     (let (node, service) = bracket_split host;
          (node, service) =
            (if node = [] then
               (case after (CHR '':'') host of
                  None \<Rightarrow> ([], None)
                | Some t \<Rightarrow> if after (CHR '':'') (tl t) = None then (takeWhile (\<lambda>d. d \<noteq> CHR '':'') host, Some (tl t))
                            else ([], Some t))
             else (node, service))
      in (if node = [] then host else node, service))"

definition Lookup :: "(string \<Rightarrow> string option \<Rightarrow> raw_addr list option) \<Rightarrow> string \<Rightarrow> address list \<Rightarrow> bool \<times> address list" where
  "Lookup getaddrinfo host result =
     (case lookup_split host of (node, service) \<Rightarrow>
        case getaddrinfo (c_string node) (map_option c_string service) of
          None \<Rightarrow> (False, result)
        | Some rs \<Rightarrow> let result = result @ map (\<lambda>r. the (Address_Create (Some r))) rs in (result \<noteq> [], result))"

definition LookupAny :: "(string \<Rightarrow> string option \<Rightarrow> raw_addr list option) \<Rightarrow> string \<Rightarrow> address option" where
  "LookupAny getaddrinfo host =
     (case Lookup getaddrinfo host [] of (ok, result) \<Rightarrow> if ok then Some (result ! 0) else None)"

definition is_ip :: "address \<Rightarrow> bool" where
  "is_ip a = (case a of IPv4Address _ \<Rightarrow> True | IPv6Address _ \<Rightarrow> True | _ \<Rightarrow> False)"

definition LookupAnyIpAddr :: "(string \<Rightarrow> string option \<Rightarrow> raw_addr list option) \<Rightarrow> string \<Rightarrow> address option" where
  "LookupAnyIpAddr getaddrinfo host =
     (case Lookup getaddrinfo host [] of (ok, result) \<Rightarrow> if ok then find is_ip result else None)"

fun setPort :: "u16 \<Rightarrow> address \<Rightarrow> address" where
  "setPort v (IPv4Address a) = IPv4Address (IPv4_setPort v a)"
| "setPort v (IPv6Address a) = IPv6Address (IPv6_setPort v a)"
| "setPort v a = a"

definition IPAddress_Create :: "(string \<Rightarrow> raw_addr list option) \<Rightarrow> string \<Rightarrow> u16 \<Rightarrow> (unit, address option) outcome" where
  "IPAddress_Create getaddrinfo addr port =
     (case getaddrinfo addr of
        None \<Rightarrow> Ret None ()
      | Some [] \<Rightarrow> Undef NullDeref
      | Some (r # _) \<Rightarrow>
          (case Address_Create (Some r) of
             Some a \<Rightarrow> Ret (if is_ip a then Some (setPort port a) else None) ()
           | None \<Rightarrow> Ret None ()))"

section \<open>Interfaces\<close>

record ifaddr =
  ifa_name :: string
  ifa_addr :: "raw_addr option"
  ifa_netmask4 :: u32
  ifa_netmask6 :: "u8 list"

definition raw_family :: "raw_addr \<Rightarrow> u16" where
  "raw_family r = (case r of Raw4 a \<Rightarrow> sin_family a | Raw6 a \<Rightarrow> sin6_family a | RawOther a \<Rightarrow> sa_family a)"

type_synonym iface_map = "(string \<times> address \<times> u32) list"

text \<open>\<^verbatim>\<open>std::multimap::insert\<close>: behind the entries whose key is not greater.\<close>

fun multi_insert :: "string \<Rightarrow> 'v \<Rightarrow> (string \<times> 'v) list \<Rightarrow> (string \<times> 'v) list" where
  "multi_insert k v [] = [(k, v)]"
| "multi_insert k v ((k', v') # m) =
     (if bytes_less (map of_char k) (map of_char k') then (k, v) # (k', v') # m else (k', v') # multi_insert k v m)"

fun interface_loop :: "u16 \<Rightarrow> ifaddr list \<Rightarrow> iface_map \<Rightarrow> (iface_map, unit) outcome" where
  "interface_loop family [] result = Ret () result"
| "interface_loop family (i # rest) result =
     (case ifa_addr i of
        None \<Rightarrow> Undef NullDeref
      | Some r \<Rightarrow>
          if family \<noteq> AF_UNSPEC \<and> family \<noteq> raw_family r then interface_loop family rest result
          else (case r of
              Raw4 a \<Rightarrow> interface_loop family rest
                (multi_insert (ifa_name i) (IPv4Address a, of_nat (CountBytes (ifa_netmask4 i))) result)
            | Raw6 a \<Rightarrow> interface_loop family rest
                (multi_insert (ifa_name i) (IPv6Address a, of_nat (sum_list (map CountBytes (take 16 (ifa_netmask6 i))))) result)
            | RawOther a \<Rightarrow> interface_loop family rest result))"

definition GetInterfaceAddresses :: "ifaddr list option \<Rightarrow> u16 \<Rightarrow> iface_map \<Rightarrow> (iface_map, bool) outcome" where
  "GetInterfaceAddresses getifaddrs family result =
     (case getifaddrs of None \<Rightarrow> Ret False result
      | Some ifs \<Rightarrow> obind (interface_loop family ifs result) (\<lambda>_ result. Ret (result \<noteq> []) result))"

definition GetInterfaceAddresses_named ::
  "sockaddr_in6 \<Rightarrow> ifaddr list option \<Rightarrow> string \<Rightarrow> u16 \<Rightarrow> (address \<times> u32) list \<Rightarrow> ((address \<times> u32) list, bool) outcome" where
  "GetInterfaceAddresses_named junk getifaddrs iface family result =
     (if iface = [] \<or> iface = ''*'' then
        let result = result @ (if family = AF_INET \<or> family = AF_UNSPEC then [(IPv4Address (new_IPv4Address 0 0), 0)] else [])
        in Ret True (result @ (if family = AF_INET6 \<or> family = AF_UNSPEC then [(IPv6Address (new_IPv6Address junk), 0)] else []))
      else case GetInterfaceAddresses getifaddrs family [] of
        Undef u \<Rightarrow> Undef u
      | Throw e _ \<Rightarrow> Throw e result
      | Ret ok results \<Rightarrow>
          if \<not> ok then Ret False result
          else let result = result @ map snd (filter (\<lambda>(k, _). k = iface) results) in Ret (result \<noteq> []) result)"

section \<open>Population count\<close>

text \<open>\<^verbatim>\<open>n & (n - 1)\<close> clears exactly one set bit.\<close>

lemma nat_and_pred_bit:
  "n \<noteq> 0 \<Longrightarrow> \<exists>k. bit n k \<and> (\<forall>i. bit (n AND (n - 1)) i \<longleftrightarrow> bit n i \<and> i \<noteq> k)" for n :: nat
proof (induction n rule: less_induct)
  case (less n)
  show ?case
  proof (cases "odd n")
    case True
    have "(n - 1) div 2 = n div 2" using True by presburger
    then have "bit (n AND (n - 1)) i \<longleftrightarrow> bit n i \<and> i \<noteq> 0" for i
      unfolding bit_and_iff using True by (cases i) (auto simp: bit_Suc bit_0)
    then show ?thesis using True by (intro exI [of _ 0]) (simp add: bit_0)
  next
    case False
    then have m: "n div 2 < n" "n div 2 \<noteq> 0" "(n - 1) div 2 = n div 2 - 1" using less.prems by presburger+
    from less.IH [OF m(1,2)] obtain k where k: "bit (n div 2) k"
      "\<And>i. bit (n div 2 AND (n div 2 - 1)) i \<longleftrightarrow> bit (n div 2) i \<and> i \<noteq> k" by blast
    have "bit (n AND (n - 1)) i \<longleftrightarrow> bit n i \<and> i \<noteq> Suc k" for i
      unfolding bit_and_iff using False k(2) [unfolded bit_and_iff] m(3) by (cases i) (auto simp: bit_Suc bit_0)
    then show ?thesis using k(1) by (intro exI [of _ "Suc k"] conjI) (simp add: bit_Suc, blast)
  qed
qed

lemma word_and_pred_bit:
  assumes "v \<noteq> (0 :: 'a::len word)"
  shows "\<exists>k. bit v k \<and> {i. bit (v AND (v - 1)) i} = {i. bit v i} - {k}"
proof -
  have u: "unat (v - 1) = unat v - 1" "unat v \<noteq> 0" using assms by (simp_all add: unat_minus_one unat_eq_zero)
  have b: "bit w i = bit (unat w) i" for w :: "'a word" and i
    by (simp add: bit_unsigned_iff)
  obtain k where "bit (unat v) k" "\<And>i. bit (unat v AND (unat v - 1)) i \<longleftrightarrow> bit (unat v) i \<and> i \<noteq> k"
    using nat_and_pred_bit [OF u(2)] by blast
  then have "bit v k \<and> {i. bit (v AND (v - 1)) i} = {i. bit v i} - {k}"
    using assms unfolding b by (auto simp: unat_and_pred)
  then show ?thesis ..
qed

lemma finite_bits: "finite {i. bit (v :: 'a::len word) i}"
  by (rule finite_subset [of _ "{..<LENGTH('a)}"]) (auto dest: bit_imp_le_length)

lemma CountBytes_card: "CountBytes (v :: 'a::len word) = card {i. bit v i}"
proof (induction v rule: CountBytes.induct)
  case (1 v)
  show ?case
  proof (cases "v = 0")
    case False
    then obtain k where "bit v k" "{i. bit (v AND (v - 1)) i} = {i. bit v i} - {k}"
      using word_and_pred_bit by blast
    moreover have "card {i. bit v i} > 0" using calculation by (auto simp: card_gt_0_iff finite_bits)
    ultimately show ?thesis using 1 False by (subst CountBytes.simps) (simp add: card_Diff_singleton finite_bits)
  qed (simp add: CountBytes.simps)
qed

section \<open>Order and equality\<close>

text \<open>
  What comparison looks at: the first \<^verbatim>\<open>getAddrLen\<close> bytes of the struct, provided that many belong to it.
\<close>

definition addr_key :: "address \<Rightarrow> u8 list" where
  "addr_key a = take (getAddrLen a) (getAddr a)"

definition wf_addr :: "address \<Rightarrow> bool" where
  "wf_addr a \<longleftrightarrow> getAddrLen a \<le> length (getAddr a)"

lemma memcmp_0: "length xs = length ys \<Longrightarrow> memcmp xs ys = 0 \<longleftrightarrow> xs = ys"
  by (induction xs ys rule: memcmp.induct) auto

lemma bytes_less_Nil: "bytes_less [] zs \<longleftrightarrow> zs \<noteq> []" "\<not> bytes_less zs []"
  by (cases zs; simp)+

lemma memcmp_bytes_less:
  "(let n = min (length xs) (length ys); r = memcmp (take n xs) (take n ys)
    in if r < 0 then True else if r > 0 then False else length xs < length ys) =
   bytes_less (map unat xs) (map unat ys)"
proof (induction xs ys rule: memcmp.induct)
  case (1 x xs y ys)
  have "x = y \<or> x < y \<or> y < x" by auto
  then show ?case using 1 by (auto simp: Let_def word_less_nat_alt [symmetric] word_unat_eq_iff [symmetric])
qed (auto simp: Let_def bytes_less_Nil)

lemma addr_less_key:
  assumes "wf_addr a" and "wf_addr b"
  shows "addr_less a b \<longleftrightarrow> bytes_less (map unat (addr_key a)) (map unat (addr_key b))"
  using assms unfolding memcmp_bytes_less [symmetric]
  by (simp add: addr_less_def addr_key_def wf_addr_def Let_def min_def)

lemma addr_eq_key:
  assumes "wf_addr a" and "wf_addr b"
  shows "addr_eq a b \<longleftrightarrow> addr_key a = addr_key b"
proof -
  have len: "length (addr_key a) = getAddrLen a" "length (addr_key b) = getAddrLen b"
    using assms by (simp_all add: addr_key_def wf_addr_def)
  show ?thesis
  proof (cases "getAddrLen a = getAddrLen b")
    case True
    then show ?thesis using len memcmp_0 [of "addr_key a" "addr_key b"] by (simp add: addr_eq_def addr_key_def)
  next
    case False
    then have "addr_key a \<noteq> addr_key b" using len by metis
    then show ?thesis using False by (simp add: addr_eq_def)
  qed
qed

text \<open>Addresses by their keys form the strict total order that \<^verbatim>\<open>std::map\<close> asks for.\<close>

typedef good_address = "{a. wf_addr a}"
  by (rule exI [of _ "UnknownAddress (new_UnknownAddress 0)"]) (simp add: wf_addr_def new_UnknownAddress_def)

interpretation addr_order: weak_order "\<lambda>a b. addr_less (Rep_good_address a) (Rep_good_address b)"
proof
  have good: "wf_addr (Rep_good_address a)" for a using Rep_good_address [of a] by simp
  note k = addr_less_key [OF good good] and ord = bytes_less_order
  fix x y z
  show "\<not> addr_less (Rep_good_address x) (Rep_good_address x)"
    unfolding k by (rule ord(1))
  show "addr_less (Rep_good_address x) (Rep_good_address y) \<Longrightarrow> addr_less (Rep_good_address y) (Rep_good_address z) \<Longrightarrow>
    addr_less (Rep_good_address x) (Rep_good_address z)"
    unfolding k by (rule ord(2))
  show "addr_less (Rep_good_address x) (Rep_good_address z) \<Longrightarrow>
    addr_less (Rep_good_address x) (Rep_good_address y) \<or> addr_less (Rep_good_address y) (Rep_good_address z)"
    unfolding k using ord(3) [of "map unat (addr_key (Rep_good_address x))" "map unat (addr_key (Rep_good_address y))"]
    by (auto intro: ord(2))
qed

lemma good_address_same:
  assumes "wf_addr a" and "wf_addr b"
  shows "addr_order.same (Abs_good_address a) (Abs_good_address b) \<longleftrightarrow> addr_eq a b"
proof -
  have inj: "map unat (addr_key a) = map unat (addr_key b) \<longleftrightarrow> addr_key a = addr_key b"
    by (rule inj_map_eq_map) (simp add: inj_def word_unat_eq_iff)
  have "addr_order.same (Abs_good_address a) (Abs_good_address b) \<longleftrightarrow> \<not> addr_less a b \<and> \<not> addr_less b a"
    using assms by (simp add: addr_order.same_def Abs_good_address_inverse)
  then show ?thesis
    unfolding addr_less_key [OF assms] addr_less_key [OF assms(2,1)] addr_eq_key [OF assms] inj [symmetric]
    using bytes_less_order(1,3) by metis
qed

section \<open>Masks\<close>

lemma byteswapOnLittleEndian_twice [simp]:
  "8 dvd LENGTH('a) \<Longrightarrow> byteswapOnLittleEndian (byteswapOnLittleEndian (w :: 'a::len word)) = w"
  by (simp add: byteswapOnLittleEndian_def CXK_BYTE_ORDER_def byteswap_byteswap)

lemma bit_byteswap:
  assumes "8 dvd LENGTH('a)" and "n < LENGTH('a)"
  shows "bit (byteswapOnLittleEndian (w :: 'a::len word)) n \<longleftrightarrow> bit w (8 * (LENGTH('a) div 8 - Suc (n div 8)) + n mod 8)"
proof -
  have "n div 8 < LENGTH('a) div 8" using assms by (auto simp: dvd_def less_mult_imp_div_less mult.commute)
  then show ?thesis using assms
    by (simp add: byteswapOnLittleEndian_def CXK_BYTE_ORDER_def byteswap_def bit_bytes_word rev_nth bit_word_bytes)
qed

lemma byteswap_logic:
  assumes "8 dvd LENGTH('a)"
  shows "byteswapOnLittleEndian (v OR w :: 'a::len word) = byteswapOnLittleEndian v OR byteswapOnLittleEndian w"
    and "byteswapOnLittleEndian (v AND w) = byteswapOnLittleEndian v AND byteswapOnLittleEndian w"
    and "byteswapOnLittleEndian (NOT v) = NOT (byteswapOnLittleEndian v)"
proof -
  have less: "8 * (LENGTH('a) div 8 - Suc (n div 8)) + n mod 8 < LENGTH('a)" if "n < LENGTH('a)" for n
  proof -
    have "n div 8 < LENGTH('a) div 8" using assms that by (auto simp: dvd_def less_mult_imp_div_less mult.commute)
    then have "8 * (LENGTH('a) div 8 - Suc (n div 8)) + 8 \<le> 8 * (LENGTH('a) div 8)" by simp
    also have "\<dots> = LENGTH('a)" using assms by simp
    finally show ?thesis using mod_less_divisor [of 8 n] by simp
  qed
  show "byteswapOnLittleEndian (v OR w) = byteswapOnLittleEndian v OR byteswapOnLittleEndian w"
    by (rule bit_word_eqI) (simp add: bit_byteswap assms bit_or_iff)
  show "byteswapOnLittleEndian (v AND w) = byteswapOnLittleEndian v AND byteswapOnLittleEndian w"
    by (rule bit_word_eqI) (simp add: bit_byteswap assms bit_and_iff)
  show "byteswapOnLittleEndian (NOT v) = NOT (byteswapOnLittleEndian v)"
    by (rule bit_word_eqI) (simp add: bit_byteswap assms bit_not_iff less)
qed

lemma createMask_32:
  assumes "n \<le> 32"
  shows "createMask 32 (of_nat n) = (if n < 2 then Undef Overflow else Ret (mask (32 - n) :: u32) ())"
proof -
  have "unat (32 - of_nat n :: u32) = 32 - n"
    using assms by (subst unat_sub) (simp_all add: word_le_nat_alt unat_of_nat)
  then show ?thesis
    using assms by (auto simp: createMask_def Let_def mask_eq_exp_minus_1 of_nat_diff)
qed

lemma createMask_8:
  assumes "n < 8"
  shows "createMask 8 (of_nat n) = Ret (mask (8 - n) :: u8) ()"
proof -
  have "unat (8 - of_nat n :: u32) = 8 - n"
    using assms by (subst unat_sub) (simp_all add: word_le_nat_alt unat_of_nat)
  then show ?thesis
    using assms by (auto simp: createMask_def Let_def mask_eq_exp_minus_1 of_nat_diff)
qed

text \<open>The address as a number, most significant byte first.\<close>

definition host :: "sockaddr_in \<Rightarrow> u32" where
  "host a = byteswapOnLittleEndian (sin_addr a)"

lemma IPv4_masks:
  assumes "2 \<le> n" and "n \<le> 32"
  shows "\<exists>b. IPv4_broadcastAddress (of_nat n) a = Ret (Some b) () \<and> b = a\<lparr>sin_addr := sin_addr b\<rparr> \<and>
           host b = host a OR mask (32 - n)"
    and "\<exists>b. IPv4_netWorkAddress (of_nat n) a = Ret (Some b) () \<and> b = a\<lparr>sin_addr := sin_addr b\<rparr> \<and>
           host b = host a AND mask (32 - n)"
    and "\<exists>b. IPv4_subnetMask (of_nat n) = Ret (Some b) () \<and> host b = NOT (mask (32 - n))"
proof -
  have le: "\<not> of_nat n > (32 :: u32)" using assms by (simp add: word_less_nat_alt unat_of_nat)
  note d = createMask_32 [OF assms(2)] host_def byteswap_logic
  show "\<exists>b. IPv4_broadcastAddress (of_nat n) a = Ret (Some b) () \<and> b = a\<lparr>sin_addr := sin_addr b\<rparr> \<and>
           host b = host a OR mask (32 - n)"
    using assms le by (simp add: IPv4_broadcastAddress_def d)
  show "\<exists>b. IPv4_netWorkAddress (of_nat n) a = Ret (Some b) () \<and> b = a\<lparr>sin_addr := sin_addr b\<rparr> \<and>
           host b = host a AND mask (32 - n)"
    using assms le by (simp add: IPv4_netWorkAddress_def d)
  show "\<exists>b. IPv4_subnetMask (of_nat n) = Ret (Some b) () \<and> host b = NOT (mask (32 - n))"
    using assms le by (simp add: IPv4_subnetMask_def d)
qed

text \<open>Bit \<open>i\<close> of an IPv6 address, the most significant bit of the first byte being bit 0.\<close>

definition bit6 :: "u8 list \<Rightarrow> nat \<Rightarrow> bool" where
  "bit6 bs i = bit (bs ! (i div 8)) (7 - i mod 8)"

lemma le_iff_div_mod_8:
  "n \<le> i \<longleftrightarrow> n div 8 < i div 8 \<or> n div 8 = i div 8 \<and> n mod 8 \<le> i mod 8" for i n :: nat
  using div_mult_mod_eq [of i 8] div_mult_mod_eq [of n 8] mod_less_divisor [of 8 i] mod_less_divisor [of 8 n]
  by (cases "n div 8 = i div 8"; linarith)

lemma bit_host_mask: "bit (mask (8 - n mod 8) :: u8) (7 - i mod 8) \<longleftrightarrow> n mod 8 \<le> i mod 8"
  using mod_less_divisor [of 8 i] mod_less_divisor [of 8 n] by (auto simp: bit_mask_iff)

lemma bit_FF: "j < 8 \<Longrightarrow> bit (0xFF :: int) j"
  using bit_mask_iff [of 8 j, where 'a = int] by (simp add: mask_eq_exp_minus_1)

lemma nth_around:
  assumes "length xs = i" and "k < 16"
  shows "(xs @ [x] @ replicate (16 - Suc i) y) ! k = (if k < i then xs ! k else if k = i then x else y)"
  using assms by (auto simp: nth_append nth_Cons')

lemma createMask_6: "n < 128 \<Longrightarrow> createMask 8 (of_nat n mod 8) = Ret (mask (8 - n mod 8) :: u8) ()"
proof -
  assume "n < 128"
  then have "of_nat n mod 8 = (of_nat (n mod 8) :: u32)" by (simp add: word_unat_eq_iff unat_mod unat_of_nat)
  then show ?thesis using createMask_8 [of "n mod 8"] by simp
qed

lemma IPv6_masks:
  assumes "n < 128" and "length (sin6_addr a) = 16"
  shows "\<exists>b. IPv6_broadcastAddress (of_nat n) a = Ret b () \<and> length (sin6_addr b) = 16 \<and>
           (\<forall>i < 128. bit6 (sin6_addr b) i \<longleftrightarrow> bit6 (sin6_addr a) i \<or> n \<le> i)" (is ?broadcast)
    and "\<exists>b. IPv6_netWorkAddress (of_nat n) a = Ret b () \<and> length (sin6_addr b) = 16 \<and>
           (\<forall>i < 128. bit6 (sin6_addr b) i \<longleftrightarrow> bit6 (sin6_addr a) i \<and> (i div 8 = n div 8 \<longrightarrow> n \<le> i))" (is ?network)
    and "\<exists>b. IPv6_subnetMask (of_nat n) = Ret b () \<and> length (sin6_addr b) = 16 \<and>
           (\<forall>i < 128. bit6 (sin6_addr b) i \<longleftrightarrow> i < n)" (is ?subnet)
proof -
  have u: "unat (of_nat n :: u32) = n" and k: "n div 8 < 16" using assms by (simp_all add: unat_of_nat)
  have i16: "i div 8 < 16" if "i < 128" for i :: nat using that by (simp add: less_mult_imp_div_less)
  have ta: "length (take (n div 8) (sin6_addr a)) = n div 8" and re: "length (replicate (n div 8) (0xFF :: u8)) = n div 8"
    using k assms by simp_all
  have bit_FF': "bit (0xFF :: int) (7 - i mod 8)" for i by (rule bit_FF) simp
  note d = u createMask_6 [OF assms(1)] Let_def
  show ?broadcast
    using k ta assms(2) unfolding IPv6_broadcastAddress_def d le_iff_div_mod_8 [of n]
    by (auto simp: bit6_def nth_around [OF ta i16, simplified] bit_or_iff bit_host_mask bit_FF')
  show ?network
    using k assms(2) unfolding IPv6_netWorkAddress_def d le_iff_div_mod_8 [of n]
    by (auto simp: bit6_def nth_list_update bit_and_iff bit_host_mask)
  show ?subnet
    using k unfolding IPv6_subnetMask_def d linorder_not_le [symmetric, of _ n] le_iff_div_mod_8 [of n]
    by (auto simp: bit6_def nth_around [OF re i16, simplified] bit_not_iff bit_host_mask bit_FF')
qed

section \<open>Unix paths\<close>

definition stored_length :: "u8 list \<Rightarrow> nat" where
  "stored_length path = (if path \<noteq> [] \<and> path ! 0 = 0 then length path else Suc (length path))"

lemma new_UnixAddress_path_eq:
  assumes "length path < 2 ^ 32 - 1"
  shows "new_UnixAddress_path path =
    (let n = stored_length path in
     if n > 108 then Throw LogicError ()
     else Ret \<lparr>sun_family = AF_UNIX, sun_path = take n (path @ [0]) @ replicate (108 - n) 0, sun_length = 2 + n\<rparr> ())"
proof -
  let ?n = "of_nat (length path + 1) :: u32"
  let ?m = "if path \<noteq> [] \<and> path ! 0 = 0 then ?n - 1 else ?n"
  have u: "unat ?n = Suc (length path)" using assms by (subst unat_of_nat) simp
  have p: "unat (?n - 1) = length path" using assms by (simp add: unat_of_nat)
  have m: "unat ?m = stored_length path" using u p unfolding stored_length_def by (simp only: split: if_split) simp
  have le: "stored_length path \<le> length (path @ [0])" by (simp add: stored_length_def)
  have gt: "?m > 108 \<longleftrightarrow> stored_length path > 108" unfolding word_less_nat_alt m by simp
  show ?thesis unfolding new_UnixAddress_path_def Let_def gt m using le by (auto simp: overwrite_def min_def)
qed

lemma getPath_stored:
  assumes "stored_length path \<le> 108" and "0 \<notin> set (tl path)" and "length path < 2 ^ 32 - 1"
  shows "\<exists>a. new_UnixAddress_path path = Ret a () \<and> sun_length a = 2 + stored_length path \<and> wf_addr (UnixAddress a) \<and>
    getPath a = Ret (if path = [] \<or> hd path = 0 then [92, 48] @ tl path else path) ()"
proof (cases path)
  case Nil
  then show ?thesis by (simp add: new_UnixAddress_path_eq stored_length_def getPath_def Let_def wf_addr_def)
next
  case (Cons x r)
  show ?thesis
  proof (cases "x = 0")
    case True
    then show ?thesis using assms Cons
      by (simp add: new_UnixAddress_path_eq stored_length_def getPath_def Let_def wf_addr_def)
  next
    case False
    then have "0 \<notin> set (x # r)" using assms(2) Cons by auto
    then show ?thesis using assms Cons False
      by (auto simp: new_UnixAddress_path_eq stored_length_def getPath_def Let_def wf_addr_def takeWhile_append)
  qed
qed

section \<open>Host and service\<close>

lemma after_None: "c \<notin> set s \<Longrightarrow> after c s = None"
  by (auto simp: after_def Let_def)

lemma after_append: "c \<notin> set s \<Longrightarrow> after c (s @ c # t) = Some (c # t)"
  by (auto simp: after_def Let_def dropWhile_append)

lemma takeWhile_upto: "c \<notin> set s \<Longrightarrow> takeWhile (\<lambda>d. d \<noteq> c) (s @ c # t) = s"
  by (auto simp: takeWhile_append)

lemmas split_simps = lookup_split_def bracket_split_def after_None after_append takeWhile_upto Let_def

section \<open>Properties\<close>

text \<open>C40. The loop of \<open>CountBytes\<close> ends for every value of every width and returns the number of bits that are set: the
  prefix length of a netmask.\<close>

theorem CountBytes_popcount: "CountBytes (v :: 'a::len word) = card {i. i < LENGTH('a) \<and> bit v i}"
proof -
  have "{i. i < LENGTH('a) \<and> bit v i} = {i. bit v i}" by (auto dest: bit_imp_le_length)
  then show ?thesis by (simp add: CountBytes_card)
qed

text \<open>Comparison of addresses is the strict total order of the bytes of their structs: irreflexive, transitive, and of
  two addresses exactly one is less or they are \<^verbatim>\<open>==\<close>; \<^verbatim>\<open>==\<close> holds exactly when the first \<^verbatim>\<open>getAddrLen\<close> bytes agree.\<close>

theorem address_total_order:
  assumes "wf_addr a" and "wf_addr b" and "wf_addr c"
  shows "\<not> addr_less a a \<and> (addr_less a b \<and> addr_less b c \<longrightarrow> addr_less a c) \<and>
    (addr_less a b \<or> addr_eq a b \<or> addr_less b a) \<and> \<not> (addr_less a b \<and> (addr_eq a b \<or> addr_less b a)) \<and>
    (addr_eq a b \<longleftrightarrow> take (getAddrLen a) (getAddr a) = take (getAddrLen b) (getAddr b))"
proof -
  note rep = Abs_good_address_inverse [of a, simplified, OF assms(1)] Abs_good_address_inverse [of b, simplified, OF assms(2)]
    Abs_good_address_inverse [of c, simplified, OF assms(3)]
  let ?a = "Abs_good_address a" and ?b = "Abs_good_address b" and ?c = "Abs_good_address c"
  have same: "addr_eq a b \<longleftrightarrow> \<not> addr_less a b \<and> \<not> addr_less b a"
    using good_address_same [OF assms(1,2)] by (simp add: addr_order.same_def rep)
  have keys: "addr_eq a b \<longleftrightarrow> take (getAddrLen a) (getAddr a) = take (getAddrLen b) (getAddr b)"
    using addr_eq_key [OF assms(1,2)] by (simp add: addr_key_def)
  show ?thesis
    using addr_order.irrefl [of ?a] addr_order.trans [of ?a ?b ?c] addr_order.asym [of ?a ?b] unfolding rep
    by (intro conjI keys) (use same in blast)+
qed

theorem address_total_order_witness:
  "let a = IPv4Address (new_IPv4Address 0 80); b = IPv4Address (new_IPv4Address 0 8080);
       c = UnixAddress (new_UnixAddress)
   in wf_addr a \<and> wf_addr b \<and> wf_addr c \<and> (addr_less a b \<or> addr_eq a b \<or> addr_less b a)"
proof -
  have "wf_addr (IPv4Address (new_IPv4Address 0 80))" "wf_addr (IPv4Address (new_IPv4Address 0 8080))"
    "wf_addr (UnixAddress new_UnixAddress)"
    by (simp_all add: wf_addr_def new_IPv4Address_def new_UnixAddress_def MAX_PATH_LEN_def)
  then show ?thesis using address_total_order [of _ _ "UnixAddress new_UnixAddress"] unfolding Let_def by blast
qed



text \<open>Prefix lengths of IPv6 networks below 128: the broadcast address adds exactly the bits from the prefix on, the
  subnet mask is exactly the bits of the prefix, and \<open>netWorkAddress\<close> clears the prefix bits of the one byte the prefix
  ends in; from 128 on all three write behind the address.\<close>

theorem IPv6_prefix_exact:
  assumes "n < 2 ^ 32" and "length (sin6_addr a) = 16"
  shows "if n < 128 then
      (\<exists>b. IPv6_broadcastAddress (of_nat n) a = Ret b () \<and> length (sin6_addr b) = 16 \<and>
           (\<forall>i < 128. bit6 (sin6_addr b) i \<longleftrightarrow> bit6 (sin6_addr a) i \<or> n \<le> i)) \<and>
      (\<exists>b. IPv6_subnetMask (of_nat n) = Ret b () \<and> length (sin6_addr b) = 16 \<and>
           (\<forall>i < 128. bit6 (sin6_addr b) i \<longleftrightarrow> i < n)) \<and>
      (\<exists>b. IPv6_netWorkAddress (of_nat n) a = Ret b () \<and> length (sin6_addr b) = 16 \<and>
           (\<forall>i < 128. bit6 (sin6_addr b) i \<longleftrightarrow> bit6 (sin6_addr a) i \<and> (i div 8 = n div 8 \<longrightarrow> n \<le> i)))
    else IPv6_broadcastAddress (of_nat n) a = Undef OutOfBounds \<and> IPv6_netWorkAddress (of_nat n) a = Undef OutOfBounds \<and>
      IPv6_subnetMask (of_nat n) = Undef OutOfBounds"
proof (cases "n < 128")
  case True
  then show ?thesis using IPv6_masks [OF True assms(2)] by simp
next
  case False
  then have "unat (of_nat n :: u32) div 8 \<ge> 16" using assms(1) by (simp add: unat_of_nat)
  then show ?thesis
    using False by (simp add: IPv6_broadcastAddress_def IPv6_netWorkAddress_def IPv6_subnetMask_def Let_def)
qed

theorem IPv6_prefix_exact_witness:
  "\<exists>b. IPv6_subnetMask 60 = Ret b () \<and> (\<forall>i < 128. bit6 (sin6_addr b) i \<longleftrightarrow> i < 60)"
  using IPv6_prefix_exact [of 60 "new_IPv6Address_bytes (replicate 16 0) 0"] by (auto simp: new_IPv6Address_bytes_def)

text \<open>A Unix address keeps its path: a path of at most 107 bytes without zeros comes back from \<open>getPath\<close> (an abstract
  name, of at most 107 bytes behind its leading zero, with that zero written as \<^verbatim>\<open>\0\<close>, and so does the
  empty path), its length counts the family and the terminating zero, and everything longer throws \<^verbatim>\<open>logic_error\<close>.\<close>

theorem unix_path_roundtrip:
  assumes "length path < 2 ^ 32 - 1" and "0 \<notin> set (tl path)"
  shows "if length path \<le> 107 \<or> path ! 0 = 0 \<and> length path = 108 then
      (\<exists>a. new_UnixAddress_path path = Ret a () \<and> wf_addr (UnixAddress a) \<and>
         getPath a = Ret (if path = [] \<or> hd path = 0 then [92, 48] @ tl path else path) ())
    else new_UnixAddress_path path = Throw LogicError ()"
proof -
  have "stored_length path \<le> 108 \<longleftrightarrow> length path \<le> 107 \<or> path ! 0 = 0 \<and> length path = 108"
    by (auto simp: stored_length_def)
  then show ?thesis
    using getPath_stored [OF _ assms(2,1)] new_UnixAddress_path_eq [OF assms(1)]
    by (auto simp: Let_def not_le)
qed

theorem unix_path_roundtrip_witness:
  "\<exists>a. new_UnixAddress_path [47, 97] = Ret a () \<and> getPath a = Ret [47, 97] ()"
  using unix_path_roundtrip [of "[47, 97]"] by auto

text \<open>Host and service of a lookup: \<^verbatim>\<open>host:service\<close> and \<^verbatim>\<open>[v6]:service\<close> are split at the colon, a name
  without colon and \<^verbatim>\<open>[v6]\<close> have no service; an unbracketed IPv6 address is the node as it stands, but the rest from
  its first colon on is passed as the service.\<close>

theorem lookup_split_exact:
  assumes "CHR '':'' \<notin> set h" and "h \<noteq> []" and "hd h \<noteq> CHR ''[''" and "CHR '':'' \<notin> set p"
    and "CHR '']'' \<notin> set v" and "v \<noteq> []"
  shows "lookup_split h = (h, None) \<and> lookup_split (h @ '':'' @ p) = (h, Some p) \<and>
    lookup_split (''['' @ v @ '']:'' @ q) = (v, Some q) \<and> lookup_split (''['' @ v @ '']'') = (v, None) \<and>
    lookup_split (h @ '':'' @ h' @ '':'' @ q) = (h @ '':'' @ h' @ '':'' @ q, Some ('':'' @ h' @ '':'' @ q))"
proof -
  have nb: "\<not> (h @ r \<noteq> [] \<and> hd (h @ r) = CHR ''['')" for r using assms(2,3) by simp
  have two: "after (CHR '':'') (h' @ CHR '':'' # q) \<noteq> None" by (auto simp: after_def Let_def)
  show ?thesis
    using assms(2,3,6) nb [of "[]"] two assms(1,4,5)
    by (auto simp: split_simps)
qed

theorem lookup_split_exact_witness:
  "lookup_split ''fe80:80'' = (''fe80'', Some ''80'') \<and> lookup_split ''fe80::1'' = (''fe80::1'', Some ''::1'')"
  using lookup_split_exact [where h = "''fe80''" and p = "''80''" and v = "''::1''" and q = "''1''" and h' = "[]"] by simp

end
