(* ===== verification/LoadBalance.thy ===== *)
theory LoadBalance
  imports Prelude Complex_Main
begin

text \<open>
  \<^verbatim>\<open>src/cxk/stream/load_balance.h\<close> and \<^verbatim>\<open>.cpp\<close>: three ways of choosing a connection. Items are pointers of a
  type \<open>'p\<close>; their virtual \<^verbatim>\<open>isValid\<close> is a parameter, and so is the number \<^verbatim>\<open>rand\<close> returns. Weights are \<^verbatim>\<open>int32_t\<close> values
  as integers, with overflow of a sum as \<open>Undef Overflow\<close>; the statistics of an item are words. Floating point
  expressions are exact rationals rounded after every operation by \<open>f\<close> (\<^verbatim>\<open>float\<close>) and \<open>d\<close> (\<^verbatim>\<open>double\<close>).
  \<open>std::upper_bound\<close> is the binary search of the standard library.
\<close>

section \<open>Items and plain balancing\<close>

record 'p load_balance =
  m_items :: "'p list"
  m_weights :: "int list"

definition lb_add :: "'p \<Rightarrow> 'p load_balance \<Rightarrow> 'p load_balance" where
  "lb_add v lb = lb\<lparr>m_items := m_items lb @ [v]\<rparr>"

definition lb_del :: "'p \<Rightarrow> 'p load_balance \<Rightarrow> 'p load_balance" where
  "lb_del v lb = lb\<lparr>m_items := remove1 v (m_items lb)\<rparr>"

definition lb_set :: "'p list \<Rightarrow> 'p load_balance \<Rightarrow> 'p load_balance" where
  "lb_set vs lb = lb\<lparr>m_items := vs\<rparr>"

text \<open>The loop the three \<open>get\<close> functions share: the first valid item in the order of the indices \<open>pos i\<close>.\<close>

definition first_valid :: "('p \<Rightarrow> bool) \<Rightarrow> (nat \<Rightarrow> nat) \<Rightarrow> 'p list \<Rightarrow> 'p option" where
  "first_valid isValid pos items = find isValid (map (\<lambda>i. items ! pos i) [0..<length items])"

definition RoundRobin_get :: "('p \<Rightarrow> bool) \<Rightarrow> nat \<Rightarrow> 'p load_balance \<Rightarrow> 'p option" where
  "RoundRobin_get isValid rand lb =
     (if m_items lb = [] then None
      else let r = rand mod length (m_items lb)
           in first_valid isValid (\<lambda>i. (r + i) mod length (m_items lb)) (m_items lb))"

section \<open>Weighted balancing\<close>

definition INT32 :: "int \<Rightarrow> bool" where
  "INT32 v \<longleftrightarrow> - (2 ^ 31) \<le> v \<and> v < 2 ^ 31"

text \<open>The loop of \<open>initWeight\<close>; \<^verbatim>\<open>getWeight\<close> of an item is virtual and may change the state \<open>h\<close> of the items.\<close>

fun weight_loop :: "('p \<Rightarrow> 'h \<Rightarrow> ('h, int) outcome) \<Rightarrow> int \<Rightarrow> 'p list \<Rightarrow> 'h \<Rightarrow> ('h, int \<times> int list) outcome" where
  "weight_loop getWeight tot [] h = Ret (tot, []) h"
| "weight_loop getWeight tot (p # ps) h =
     obind (getWeight p h) (\<lambda>w h.
       if \<not> INT32 (tot + w) then Undef Overflow
       else obind (weight_loop getWeight (tot + w) ps h) (\<lambda>(t, ws) h. Ret (t, (tot + w) # ws) h))"

definition initWeight ::
  "('p \<Rightarrow> 'h \<Rightarrow> ('h, int) outcome) \<Rightarrow> 'p load_balance \<times> 'h \<Rightarrow> ('p load_balance \<times> 'h, int) outcome" where
  "initWeight getWeight = (\<lambda>(lb, h).
     case weight_loop getWeight 0 (m_items lb) h of
       Ret (tot, ws) h \<Rightarrow> Ret tot (lb\<lparr>m_weights := ws\<rparr>, h)
     | Throw e h \<Rightarrow> Throw e (lb, h)
     | Undef u \<Rightarrow> Undef u)"

function upper_bound_loop :: "int list \<Rightarrow> int \<Rightarrow> nat \<Rightarrow> nat \<Rightarrow> nat" where
  "upper_bound_loop xs v first len =
     (if len = 0 then first
      else let half = len div 2
           in if v < xs ! (first + half) then upper_bound_loop xs v first half
              else upper_bound_loop xs v (first + half + 1) (len - half - 1))"
  by pat_completeness auto
termination
  by (relation "measure (\<lambda>(xs, v, first, len). len)") auto

declare upper_bound_loop.simps [simp del]

definition upper_bound :: "int list \<Rightarrow> int \<Rightarrow> nat" where
  "upper_bound xs v = upper_bound_loop xs v 0 (length xs)"

text \<open>\<open>getIdx\<close> returns \<^verbatim>\<open>std::distance(it, begin)\<close>, minus the position that was found.\<close>

definition getIdx :: "nat \<Rightarrow> 'p load_balance \<Rightarrow> (unit, int) outcome" where
  "getIdx rand lb =
     (if m_weights lb = [] then Ret (-1) ()
      else let tot = last (m_weights lb)
           in if tot = 0 then Undef DivByZero
              else Ret (sint (- of_nat (upper_bound (m_weights lb) (int rand mod \<bar>tot\<bar>)) :: u32)) ())"

text \<open>\<^verbatim>\<open>(idx + i) % m_items.size()\<close> converts the sum to \<^verbatim>\<open>size_t\<close> first.\<close>

definition weighted_pos :: "int \<Rightarrow> nat \<Rightarrow> nat \<Rightarrow> nat" where
  "weighted_pos idx n i = unat (word_of_int idx + of_nat i :: u64) mod n"

definition Weight_get :: "('p \<Rightarrow> bool) \<Rightarrow> nat \<Rightarrow> 'p load_balance \<Rightarrow> (unit, 'p option) outcome" where
  "Weight_get isValid rand lb =
     obind (getIdx rand lb) (\<lambda>idx _.
       if idx = -1 then Ret None ()
       else Ret (first_valid isValid (weighted_pos idx (length (m_items lb))) (m_items lb)) ())"

section \<open>Statistics of an item\<close>

record holder_stats =
  m_usedTime :: u32
  m_total :: u32
  m_doing :: u32
  m_timeout :: u32
  m_oks :: u32
  m_errs :: u32

definition hs_clear :: "holder_stats \<Rightarrow> holder_stats" where
  "hs_clear s = s\<lparr>m_usedTime := 0, m_total := 0, m_doing := 0, m_timeout := 0, m_oks := 0, m_errs := 0\<rparr>"

definition new_HolderStats :: holder_stats where
  "new_HolderStats = \<lparr>m_usedTime = 0, m_total = 0, m_doing = 0, m_timeout = 0, m_oks = 0, m_errs = 0\<rparr>"

definition incUsedTime :: "u32 \<Rightarrow> holder_stats \<Rightarrow> u32 \<times> holder_stats" where
  "incUsedTime v s = (m_usedTime s + v, s\<lparr>m_usedTime := m_usedTime s + v\<rparr>)"

definition incTotal :: "u32 \<Rightarrow> holder_stats \<Rightarrow> u32 \<times> holder_stats" where
  "incTotal v s = (m_total s + v, s\<lparr>m_total := m_total s + v\<rparr>)"

definition incDoing :: "u32 \<Rightarrow> holder_stats \<Rightarrow> u32 \<times> holder_stats" where
  "incDoing v s = (m_doing s + v, s\<lparr>m_doing := m_doing s + v\<rparr>)"

definition incTimeouts :: "u32 \<Rightarrow> holder_stats \<Rightarrow> u32 \<times> holder_stats" where
  "incTimeouts v s = (m_timeout s + v, s\<lparr>m_timeout := m_timeout s + v\<rparr>)"

definition incOks :: "u32 \<Rightarrow> holder_stats \<Rightarrow> u32 \<times> holder_stats" where
  "incOks v s = (m_oks s + v, s\<lparr>m_oks := m_oks s + v\<rparr>)"

text \<open>The last two add and subtract 0, whatever they are given.\<close>

definition incErrs :: "u32 \<Rightarrow> holder_stats \<Rightarrow> u32 \<times> holder_stats" where
  "incErrs v s = (m_errs s + 0, s\<lparr>m_errs := m_errs s + 0\<rparr>)"

definition decDoing :: "u32 \<Rightarrow> holder_stats \<Rightarrow> u32 \<times> holder_stats" where
  "decDoing v s = (m_doing s - 0, s\<lparr>m_doing := m_doing s - 0\<rparr>)"

type_synonym rounding = "rat \<Rightarrow> rat"

definition hs_getWeight :: "rounding \<Rightarrow> rounding \<Rightarrow> rat \<Rightarrow> holder_stats \<Rightarrow> rat" where
  "hs_getWeight f d rate s =
     (if m_total s = 0 then 1 / 2
      else
        let base = f (of_nat (unat (m_total s + 10)));
            avg_time = f (d (of_nat (unat (if m_oks s = 0 then 0 else m_usedTime s div m_oks s)) / 1000));
            a = f (1 - avg_time);
            b = d (1 - d (f (f (of_nat (unat (m_timeout s))) / base) * (1 / 2)));
            c = d (1 - d (f (f (of_nat (unat (m_doing s))) / base) * d (1 / 10)));
            e = f (1 - f (f (of_nat (unat (m_errs s))) / base))
        in f (d (d (d (d (a * b) * c) * e) * rate)))"

record holder_stats_set =
  m_lastUpdateTime :: u32
  m_stats :: "holder_stats list"

definition new_HolderStatsSet :: "u32 \<Rightarrow> holder_stats_set" where
  "new_HolderStatsSet n = \<lparr>m_lastUpdateTime = 0, m_stats = replicate (unat n) new_HolderStats\<rparr>"

fun clear_loop :: "u32 \<Rightarrow> u32 \<Rightarrow> nat \<Rightarrow> holder_stats list \<Rightarrow> holder_stats list" where
  "clear_loop now t 0 stats = stats"
| "clear_loop now t (Suc k) stats =
     (if t \<le> now then
        let j = unat t mod length stats in clear_loop now (t + 1) k (stats[j := hs_clear (stats ! j)])
      else stats)"

definition hss_init :: "u32 \<Rightarrow> holder_stats_set \<Rightarrow> holder_stats_set" where
  "hss_init now s =
     (if m_lastUpdateTime s < now then
        s\<lparr>m_stats := clear_loop now (m_lastUpdateTime s + 1) (length (m_stats s)) (m_stats s), m_lastUpdateTime := now\<rparr>
      else s)"

text \<open>\<open>get\<close> returns a reference: the index of the slot.\<close>

definition hss_get :: "u32 \<Rightarrow> holder_stats_set \<Rightarrow> (holder_stats_set, nat) outcome" where
  "hss_get now s =
     (let s = hss_init now s
      in if m_stats s = [] then Undef DivByZero else Ret (unat now mod length (m_stats s)) s)"

definition hss_getWeight :: "rounding \<Rightarrow> rounding \<Rightarrow> u32 \<Rightarrow> holder_stats_set \<Rightarrow> rat \<times> holder_stats_set" where
  "hss_getWeight f d now s =
     (let s = hss_init now s; n = length (m_stats s)
      in (fold (\<lambda>i v. f (v + hs_getWeight f d (f (d (1 - d (d (1 / 10) * of_nat i)))) (m_stats s ! ((unat now + i) mod n))))
            [0..<n] 0, s))"

section \<open>Fair balancing\<close>

record fair_item =
  fi_weight :: int
  fi_stats :: holder_stats_set

definition Fair_getWeight ::
  "rounding \<Rightarrow> rounding \<Rightarrow> u32 \<Rightarrow> ('p \<Rightarrow> bool) \<Rightarrow> 'p \<Rightarrow> ('p \<Rightarrow> fair_item) \<Rightarrow> ('p \<Rightarrow> fair_item, int) outcome" where
  "Fair_getWeight f d now isConnected p h =
     (let (w, st) = hss_getWeight f d now (fi_stats (h p));
          h = h(p := (h p)\<lparr>fi_stats := st\<rparr>);
          x = f (f (of_int (fi_weight (h p))) * w);
          v = (if 0 \<le> x then floor x else ceiling x)
      in if \<not> INT32 v then Undef Overflow
         else if isConnected p then Ret (max 1 v) h else Ret 1 h)"

definition Fair_item_get :: "u32 \<Rightarrow> 'p \<Rightarrow> ('p \<Rightarrow> fair_item) \<Rightarrow> ('p \<Rightarrow> fair_item, nat) outcome" where
  "Fair_item_get now p h =
     (case hss_get now (fi_stats (h p)) of
        Ret j st \<Rightarrow> Ret j (h(p := (h p)\<lparr>fi_stats := st\<rparr>))
      | Throw e st \<Rightarrow> Throw e (h(p := (h p)\<lparr>fi_stats := st\<rparr>))
      | Undef u \<Rightarrow> Undef u)"

definition Fair_getIdx :: "nat \<Rightarrow> 'p load_balance \<Rightarrow> (unit, int) outcome" where
  "Fair_getIdx rand lb =
     (if m_weights lb = [] then Ret (-1) ()
      else let tot = last (m_weights lb)
           in if tot = 0 then Undef DivByZero
              else Ret (sint (- of_nat (upper_bound (m_weights lb) (int rand mod \<bar>tot\<bar>)) :: u32)) ())"

definition Fair_get :: "('p \<Rightarrow> bool) \<Rightarrow> nat \<Rightarrow> 'p load_balance \<Rightarrow> (unit, 'p option) outcome" where
  "Fair_get isValid rand lb =
     obind (Fair_getIdx rand lb) (\<lambda>idx _.
       if idx = -1 then Ret None ()
       else Ret (first_valid isValid (weighted_pos idx (length (m_items lb))) (m_items lb)) ())"

definition getAsFair :: "('p \<Rightarrow> bool) \<Rightarrow> ('p \<Rightarrow> bool) \<Rightarrow> nat \<Rightarrow> 'p load_balance \<Rightarrow> (unit, 'p option) outcome" where
  "getAsFair isFair isValid rand lb =
     obind (Fair_get isValid rand lb) (\<lambda>item _.
       Ret (case item of Some p \<Rightarrow> (if isFair p then Some p else None) | None \<Rightarrow> None) ())"

definition Fair_initWeight ::
  "rounding \<Rightarrow> rounding \<Rightarrow> u32 \<Rightarrow> ('p \<Rightarrow> bool) \<Rightarrow> 'p load_balance \<times> ('p \<Rightarrow> fair_item)
     \<Rightarrow> ('p load_balance \<times> ('p \<Rightarrow> fair_item), int) outcome" where
  "Fair_initWeight f d now isConnected = initWeight (Fair_getWeight f d now isConnected)"

section \<open>Lemmas\<close>

lemma first_valid_rotate:
  "items \<noteq> [] \<Longrightarrow> first_valid isValid (\<lambda>i. (r + i) mod length items) items = find isValid (rotate r items)"
  unfolding first_valid_def by (rule arg_cong [where f = "find isValid"]) (auto intro!: nth_equalityI simp: nth_rotate)

lemma find_None_iff': "find P xs = None \<longleftrightarrow> (\<forall>x \<in> set xs. \<not> P x)"
  by (auto simp: find_None_iff)

lemma find_SomeD: "find P xs = Some x \<Longrightarrow> P x \<and> x \<in> set xs"
  by (auto simp: find_Some_iff)

lemma upper_bound_loop_inv:
  assumes "first + len \<le> length xs" and "sorted xs"
    and "\<forall>i < first. xs ! i \<le> v" and "\<forall>i. first + len \<le> i \<and> i < length xs \<longrightarrow> v < xs ! i"
  shows "let k = upper_bound_loop xs v first len
         in k \<le> length xs \<and> (\<forall>i < k. xs ! i \<le> v) \<and> (\<forall>i. k \<le> i \<and> i < length xs \<longrightarrow> v < xs ! i)"
  using assms
proof (induction xs v first len rule: upper_bound_loop.induct)
  case (1 xs v first len)
  show ?case
  proof (cases "len = 0")
    case True
    then show ?thesis using "1.prems" by (simp add: upper_bound_loop.simps)
  next
    case False
    let ?m = "first + len div 2"
    have lt: "?m < first + len" using False by simp
    then have m: "?m < length xs" using "1.prems"(1) by simp
    show ?thesis
    proof (cases "v < xs ! ?m")
      case True
      have "\<forall>i. ?m \<le> i \<and> i < length xs \<longrightarrow> v < xs ! i"
        using True "1.prems"(2) by (meson less_le_trans sorted_nth_mono)
      then show ?thesis
        using "1.IH"(1) [OF False refl True] "1.prems" m True False by (subst upper_bound_loop.simps) (simp add: Let_def)
    next
      case v: False
      have "\<forall>i < ?m + 1. xs ! i \<le> v"
      proof (intro allI impI)
        fix i assume "i < ?m + 1"
        then have "xs ! i \<le> xs ! ?m" using "1.prems"(2) m by (auto intro: sorted_nth_mono)
        then show "xs ! i \<le> v" using v by simp
      qed
      moreover have "?m + 1 + (len - len div 2 - 1) = first + len" using False by presburger
      ultimately show ?thesis
        using "1.IH"(2) [OF False refl v] "1.prems" m v False by (subst upper_bound_loop.simps) (simp add: Let_def)
    qed
  qed
qed

lemma count_prefix:
  assumes "k \<le> length xs" and "\<forall>i < k. P (xs ! i)" and "\<forall>i. k \<le> i \<and> i < length xs \<longrightarrow> \<not> P (xs ! i)"
  shows "length (filter P xs) = k"
proof -
  have "filter P (take k xs) = take k xs" using assms by (auto simp: filter_id_conv in_set_conv_nth)
  moreover have "filter P (drop k xs) = []" using assms by (auto simp: filter_empty_conv in_set_conv_nth)
  ultimately have "filter P (take k xs @ drop k xs) = take k xs" by (simp only: filter_append append_Nil2)
  then show ?thesis using assms(1) by simp
qed

lemma upper_bound_count: "sorted xs \<Longrightarrow> upper_bound xs v = length (filter (\<lambda>x. x \<le> v) xs)"
  using upper_bound_loop_inv [of 0 "length xs" xs v] count_prefix [of "upper_bound xs v" xs "\<lambda>x. x \<le> v"]
  by (simp add: upper_bound_def Let_def not_le)

text \<open>Prefix sums of positive weights.\<close>

fun prefix_sums :: "int \<Rightarrow> int list \<Rightarrow> int list" where
  "prefix_sums acc [] = []"
| "prefix_sums acc (w # ws) = (acc + w) # prefix_sums (acc + w) ws"

lemma length_prefix_sums [simp]: "length (prefix_sums acc ws) = length ws"
  by (induction ws arbitrary: acc) auto

lemma prefix_sums_greater: "\<forall>w \<in> set ws. 0 < w \<Longrightarrow> x \<in> set (prefix_sums acc ws) \<Longrightarrow> acc < x"
  by (induction ws arbitrary: acc) fastforce+

lemma prefix_sums_sorted: "\<forall>w \<in> set ws. 0 < w \<Longrightarrow> sorted_wrt (<) (prefix_sums acc ws)"
  by (induction ws arbitrary: acc) (auto dest: prefix_sums_greater [rotated])

lemma last_prefix_sums: "ws \<noteq> [] \<Longrightarrow> last (prefix_sums acc ws) = acc + sum_list ws"
proof (induction ws arbitrary: acc)
  case (Cons w ws)
  have "prefix_sums (acc + w) ws = [] \<longleftrightarrow> ws = []" by (cases ws) simp_all
  then show ?case using Cons.IH by (cases "ws = []") (simp_all add: add.assoc)
qed simp

lemma weight_loop_sums:
  assumes "weight_loop getWeight acc ps h = Ret (t, ws) h'"
  shows "\<exists>vs. length vs = length ps \<and> ws = prefix_sums acc vs \<and> t = acc + sum_list vs \<and>
    (\<forall>v \<in> set vs. \<exists>p h h'. getWeight p h = Ret v h')"
  using assms
proof (induction ps arbitrary: acc h ws)
  case Nil
  then show ?case by (intro exI [of _ "[]"]) simp
next
  case (Cons p ps)
  then obtain w g ws' where w: "getWeight p h = Ret w g" "weight_loop getWeight (acc + w) ps g = Ret (t, ws') h'"
    "ws = (acc + w) # ws'"
    by (auto simp: obind_Ret_iff split: if_splits)
  from Cons.IH [OF w(2)] obtain vs where "length vs = length ps" "ws' = prefix_sums (acc + w) vs"
    "t = acc + w + sum_list vs" "\<forall>v \<in> set vs. \<exists>p h h'. getWeight p h = Ret v h'" by blast
  then show ?case using w by (intro exI [of _ "w # vs"]) auto
qed

lemma Fair_getWeight_pos: "Fair_getWeight f d now isConnected p h = Ret v h' \<Longrightarrow> 0 < v"
  by (auto simp: Fair_getWeight_def Let_def split: if_splits prod.splits)

definition good_weights :: "'p load_balance \<Rightarrow> bool" where
  "good_weights lb \<longleftrightarrow> sorted_wrt (<) (m_weights lb) \<and> (\<forall>w \<in> set (m_weights lb). 0 < w) \<and>
     length (m_weights lb) = length (m_items lb)"

lemma Fair_initWeight_good:
  assumes "Fair_initWeight f d now isConnected (lb, h) = Ret t (lb', h')"
  shows "m_items lb' = m_items lb \<and> good_weights lb' \<and> (m_items lb \<noteq> [] \<longrightarrow> t = last (m_weights lb'))"
proof -
  obtain ws where w: "weight_loop (Fair_getWeight f d now isConnected) 0 (m_items lb) h = Ret (t, ws) h'"
    "lb' = lb\<lparr>m_weights := ws\<rparr>"
    using assms by (auto simp: Fair_initWeight_def initWeight_def split: outcome.splits)
  from weight_loop_sums [OF w(1)] obtain vs where vs: "length vs = length (m_items lb)" "ws = prefix_sums 0 vs"
    "t = sum_list vs" "\<forall>v \<in> set vs. 0 < v" by (auto dest: Fair_getWeight_pos)
  then show ?thesis
    using w(2) prefix_sums_sorted [OF vs(4), of 0] prefix_sums_greater [OF vs(4), of _ 0] last_prefix_sums [of vs 0]
    by (cases "vs = []") (auto simp: good_weights_def)
qed

lemma good_weights_last: "good_weights lb \<Longrightarrow> m_weights lb \<noteq> [] \<Longrightarrow> 0 < last (m_weights lb)"
  by (simp add: good_weights_def)

lemma count_below_last:
  assumes "xs \<noteq> []" and "v < (last xs :: int)"
  shows "length (filter (\<lambda>x. x \<le> v) xs) < length xs"
  using assms by (intro length_filter_less [of "last xs"]) simp_all

text \<open>The position of the draw among the weights.\<close>

definition drawn :: "nat \<Rightarrow> 'p load_balance \<Rightarrow> nat" where
  "drawn rand lb = length (filter (\<lambda>w. w \<le> int rand mod last (m_weights lb)) (m_weights lb))"

lemma sint_neg:
  assumes "k < 2 ^ 31"
  shows "sint (- of_nat k :: u32) = - int k"
proof -
  have "(- of_nat k :: u32) = word_of_int (- int k)" by simp
  then show ?thesis using assms by (simp only: signed_of_int) (simp add: signed_take_bit_int_eq_self)
qed

lemma getIdx_drawn:
  assumes "good_weights lb" and "m_weights lb \<noteq> []" and "length (m_weights lb) < 2 ^ 31"
  shows "getIdx rand lb = Ret (- int (drawn rand lb)) ()" and "drawn rand lb < length (m_items lb)"
proof -
  have pos: "0 < last (m_weights lb)" using good_weights_last assms by blast
  have s: "sorted (m_weights lb)"
    using assms(1) by (auto simp: good_weights_def intro: strict_sorted_imp_sorted)
  show lt: "drawn rand lb < length (m_items lb)"
    using count_below_last [OF assms(2), of "int rand mod last (m_weights lb)"] pos assms(1)
    by (simp add: drawn_def good_weights_def)
  show "getIdx rand lb = Ret (- int (drawn rand lb)) ()"
  proof -
    have "last (m_weights lb) \<noteq> 0" "\<bar>last (m_weights lb)\<bar> = last (m_weights lb)" using pos by simp_all
    moreover have "drawn rand lb < 2 ^ 31" using lt assms(1,3) by (simp add: good_weights_def)
    ultimately show ?thesis
      using assms(2) sint_neg unfolding getIdx_def Let_def upper_bound_count [OF s] by (simp add: drawn_def)
  qed
qed

lemma Fair_get_eq: "Fair_get isValid rand lb = Weight_get isValid rand lb"
  by (simp add: Fair_get_def Weight_get_def Fair_getIdx_def getIdx_def)

text \<open>Where the search goes from a draw \<open>k\<close>: the unsigned sum wraps at its \<open>k\<close>-th step.\<close>

definition visited :: "nat \<Rightarrow> nat \<Rightarrow> nat \<Rightarrow> nat" where
  "visited k n i = (if i < k then (2 ^ 64 - k + i) mod n else (i - k) mod n)"

lemma weighted_pos_visited:
  assumes "k < 2 ^ 31" and "i < 2 ^ 31"
  shows "weighted_pos (- int k) n i = visited k n i"
proof -
  have w: "word_of_int (- int k) + of_nat i = (word_of_int (int i - int k) :: u64)" by simp
  show ?thesis
  proof (cases "i < k")
    case True
    have "uint (word_of_int (int i - int k) :: u64) = (int i - int k + 2 ^ 64) mod 2 ^ 64"
      unfolding uint_word_of_int by simp
    also have "\<dots> = int (2 ^ 64 - k + i)" using True assms by (subst mod_pos_pos_trivial) (simp_all add: of_nat_diff)
    finally show ?thesis using True by (simp only: weighted_pos_def w unat_eq_nat_uint nat_int visited_def if_True)
  next
    case False
    then have "word_of_int (int i - int k) = (of_nat (i - k) :: u64)" by (simp add: of_nat_diff)
    moreover have "unat (of_nat (i - k) :: u64) = i - k" using assms by (subst unat_of_nat) simp
    ultimately show ?thesis using False by (simp only: weighted_pos_def w visited_def if_False)
  qed
qed

lemma Weight_get_visited:
  assumes "good_weights lb" and "m_items lb \<noteq> []" and "length (m_items lb) < 2 ^ 31"
  shows "Weight_get isValid rand lb = Ret (if drawn rand lb = 1 then None
    else find isValid (map (\<lambda>i. m_items lb ! visited (drawn rand lb) (length (m_items lb)) i) [0..<length (m_items lb)])) ()"
proof -
  have ne: "m_weights lb \<noteq> []" and len: "length (m_weights lb) < 2 ^ 31"
    using assms by (auto simp: good_weights_def)
  note idx = getIdx_drawn [OF assms(1) ne len]
  have "map (\<lambda>i. m_items lb ! weighted_pos (- int (drawn rand lb)) (length (m_items lb)) i) [0..<length (m_items lb)] =
    map (\<lambda>i. m_items lb ! visited (drawn rand lb) (length (m_items lb)) i) [0..<length (m_items lb)]"
    using idx(2) [of rand] assms(3) by (intro map_cong refl) (simp add: weighted_pos_visited)
  then show ?thesis unfolding Weight_get_def idx(1) first_valid_def obind.simps by (simp only:) simp
qed

section \<open>The window of statistics\<close>

lemma hs_clear_new: "hs_clear s = new_HolderStats"
  by (simp add: hs_clear_def new_HolderStats_def)

lemma length_clear_loop [simp]: "length (clear_loop now t k stats) = length stats"
  by (induction k arbitrary: t stats) (simp_all add: Let_def)

lemma nth_clear_loop:
  assumes "j < length stats" and "now < 2 ^ 32 - 1" and "t \<le> Suc now"
  shows "clear_loop (of_nat now) (of_nat t) k stats ! j =
    (if \<exists>u. t \<le> u \<and> u \<le> now \<and> u < t + k \<and> u mod length stats = j then new_HolderStats else stats ! j)"
  using assms
proof (induction k arbitrary: t stats)
  case 0
  then show ?case by auto
next
  case (Suc k)
  have le: "(of_nat t :: u32) \<le> of_nat now \<longleftrightarrow> t \<le> now"
    using Suc.prems by (simp add: word_le_nat_alt unat_of_nat)
  show ?case
  proof (cases "t \<le> now")
    case True
    have ex: "(\<exists>u. t \<le> u \<and> u \<le> now \<and> u < t + Suc k \<and> u mod length stats = j) \<longleftrightarrow>
      t mod length stats = j \<or> (\<exists>u. Suc t \<le> u \<and> u \<le> now \<and> u < Suc t + k \<and> u mod length stats = j)"
      (is "?l \<longleftrightarrow> ?r")
    proof
      assume ?l
      then obtain u where u: "t \<le> u" "u \<le> now" "u < t + Suc k" "u mod length stats = j" by blast
      show ?r
      proof (cases "u = t")
        case False
        then have "Suc t \<le> u" "u < Suc t + k" using u by simp_all
        then show ?r using u by blast
      qed (use u in simp)
    next
      show "?r \<Longrightarrow> ?l" using True by (elim disjE exE) (force intro: exI [of _ t], metis Suc_leD add_Suc_shift)
    qed
    have "unat (of_nat t :: u32) = t" using True Suc.prems(2) by (simp add: unat_of_nat)
    then show ?thesis
      using True le Suc.IH [of "stats[t mod length stats := hs_clear (stats ! (t mod length stats))]" "Suc t"] Suc.prems
      unfolding ex by (auto simp: Let_def add.commute nth_list_update hs_clear_new)
  next
    case False
    then show ?thesis using le by auto
  qed
qed

lemma mod_eq_close:
  assumes "u mod n = (t mod n :: nat)" and "t < u" and "u < t + n"
  shows False
proof -
  have "n dvd u - t" using assms by (simp add: mod_eq_dvd_iff_nat)
  then show False using assms(2,3) by (auto dest: dvd_imp_le)
qed

text \<open>The slot of second \<open>t\<close> in the window of the last seconds.\<close>

definition slot :: "nat \<Rightarrow> holder_stats_set \<Rightarrow> holder_stats" where
  "slot t s = m_stats s ! (t mod length (m_stats s))"

lemma init_window:
  assumes "m_stats s \<noteq> []" and "unat (m_lastUpdateTime s) \<le> now" and "now < 2 ^ 32 - 1"
    and "t \<le> now" and "now < t + length (m_stats s)"
  shows "slot t (hss_init (of_nat now) s) = (if t \<le> unat (m_lastUpdateTime s) then slot t s else new_HolderStats)"
proof -
  let ?n = "length (m_stats s)" and ?l = "unat (m_lastUpdateTime s)"
  have lt: "m_lastUpdateTime s < of_nat now \<longleftrightarrow> ?l < now" using assms(3) by (simp add: word_less_nat_alt unat_of_nat)
  have nz: "?n > 0" using assms(1) by simp
  show ?thesis
  proof (cases "?l < now")
    case False
    then show ?thesis using lt assms by (simp add: hss_init_def)
  next
    case True
    have "m_lastUpdateTime s + 1 = of_nat (Suc ?l)" by simp
    then have "slot t (hss_init (of_nat now) s) =
      (if \<exists>u. Suc ?l \<le> u \<and> u \<le> now \<and> u < Suc ?l + ?n \<and> u mod ?n = t mod ?n then new_HolderStats else slot t s)"
      using nth_clear_loop [of "t mod ?n" "m_stats s" now "Suc ?l" ?n] True lt assms(3) nz
      by (auto simp: hss_init_def slot_def simp del: of_nat_Suc)
    moreover have "(\<exists>u. Suc ?l \<le> u \<and> u \<le> now \<and> u < Suc ?l + ?n \<and> u mod ?n = t mod ?n) \<longleftrightarrow> ?l < t"
    proof
      assume "\<exists>u. Suc ?l \<le> u \<and> u \<le> now \<and> u < Suc ?l + ?n \<and> u mod ?n = t mod ?n"
      then obtain u where u: "Suc ?l \<le> u" "u \<le> now" "u mod ?n = t mod ?n" by blast
      show "?l < t"
      proof (rule ccontr)
        assume "\<not> ?l < t"
        then show False using mod_eq_close [OF u(3)] u assms(5) by simp
      qed
    next
      assume t: "?l < t"
      let ?u = "Suc ?l + (t - Suc ?l) mod ?n"
      have "?u mod ?n = t mod ?n" using t by (simp only: mod_add_right_eq) simp
      moreover have "?u \<le> now" using mod_less_eq_dividend [of "t - Suc ?l" ?n] t assms(4) by linarith
      moreover have "(t - Suc ?l) mod ?n < ?n" using nz by simp
      ultimately show "\<exists>u. Suc ?l \<le> u \<and> u \<le> now \<and> u < Suc ?l + ?n \<and> u mod ?n = t mod ?n"
        by (intro exI [of _ ?u]) simp
    qed
    ultimately show ?thesis by (simp add: not_less)
  qed
qed

section \<open>Properties\<close>

text \<open>\<open>RoundRobinLoadBalance::get\<close> returns the first valid item in cyclic order from the drawn one, so it finds a
  valid item whenever there is one, and returns null exactly when there is none.\<close>

theorem round_robin_finds:
  "RoundRobin_get isValid rand lb = find isValid (rotate rand (m_items lb)) \<and>
   (RoundRobin_get isValid rand lb = None \<longleftrightarrow> (\<forall>p \<in> set (m_items lb). \<not> isValid p)) \<and>
   (\<forall>p. RoundRobin_get isValid rand lb = Some p \<longrightarrow> p \<in> set (m_items lb) \<and> isValid p)"
proof -
  have eq: "RoundRobin_get isValid rand lb = find isValid (rotate rand (m_items lb))"
    using first_valid_rotate [of "m_items lb" isValid "rand mod length (m_items lb)"] rotate_conv_mod [of rand "m_items lb"]
    by (auto simp: RoundRobin_get_def Let_def)
  show ?thesis unfolding eq find_None_iff' by (auto dest: find_SomeD)
qed

theorem round_robin_finds_witness:
  "RoundRobin_get even 1 \<lparr>m_items = [1, 3, 8, 5 :: nat], m_weights = []\<rparr> = Some 8"
  using round_robin_finds [of even 1 "\<lparr>m_items = [1, 3, 8, 5 :: nat], m_weights = []\<rparr>"] by simp

text \<open>\<open>FairLoadBalance\<close>: after \<open>initWeight\<close>, a draw \<open>r\<close> selects position \<open>k\<close>, the number of cumulated weights that
  are at most \<open>r\<close> modulo the total, which is a position of an item; the binary search of \<open>getIdx\<close> finds it but returns
  it negated. So \<open>get\<close> returns null for \<open>k = 1\<close> even if all items are valid, and for other \<open>k\<close> searches the
  indices that the wrapped unsigned sum takes, which for \<open>k = 0\<close> are all of them in order.\<close>

theorem fair_get_exact:
  assumes "Fair_initWeight f d now isConnected (lb, h) = Ret t (lb', h')"
    and "m_items lb \<noteq> []" and "length (m_items lb) < 2 ^ 31"
  shows "let k = length (filter (\<lambda>w. w \<le> int rand mod t) (m_weights lb')); n = length (m_items lb)
    in k < n \<and> Fair_get isValid rand lb' =
      Ret (if k = 0 then find isValid (m_items lb) else if k = 1 then None
           else find isValid (map (\<lambda>i. m_items lb ! (if i < k then (2 ^ 64 - k + i) mod n else i - k)) [0..<n])) ()"
proof -
  note g = Fair_initWeight_good [OF assms(1)]
  have items: "m_items lb' = m_items lb" and good: "good_weights lb'" and t: "t = last (m_weights lb')" using g assms(2) by auto
  let ?n = "length (m_items lb)" and ?k = "drawn rand lb'"
  have k: "length (filter (\<lambda>w. w \<le> int rand mod t) (m_weights lb')) = ?k" by (simp add: drawn_def t)
  have "m_weights lb' \<noteq> []" using good assms(2) items by (auto simp: good_weights_def)
  then have less: "?k < ?n"
    using getIdx_drawn(2) [OF good, of rand] good assms(3) items by (simp add: good_weights_def)
  have visit: "map (\<lambda>i. m_items lb ! visited ?k ?n i) [0..<?n] =
    map (\<lambda>i. m_items lb ! (if i < ?k then (2 ^ 64 - ?k + i) mod ?n else i - ?k)) [0..<?n]"
    by (intro map_cong refl) (auto simp: visited_def)
  have zero: "?k = 0 \<Longrightarrow> map (\<lambda>i. m_items lb ! visited ?k ?n i) [0..<?n] = m_items lb"
    by (intro nth_equalityI) (auto simp: visited_def)
  have "Fair_get isValid rand lb' =
    Ret (if ?k = 1 then None else find isValid (map (\<lambda>i. m_items lb ! visited ?k ?n i) [0..<?n])) ()"
    using Weight_get_visited [OF good, of isValid rand] assms(2,3) unfolding Fair_get_eq items by simp
  moreover have "?k = 0 \<or> ?k = 1 \<or> ?k \<noteq> 0 \<and> ?k \<noteq> 1" by blast
  ultimately show ?thesis unfolding k Let_def using less zero by (elim disjE) (simp, simp, simp only: visit if_False simp_thms)
qed

definition demo_fair :: "nat load_balance \<times> (nat \<Rightarrow> fair_item)" where
  "demo_fair = (\<lparr>m_items = [7, 8, 9], m_weights = []\<rparr>, \<lambda>_. \<lparr>fi_weight = 2, fi_stats = new_HolderStatsSet 5\<rparr>)"

lemma demo_weight: "hss_getWeight (\<lambda>x. x) (\<lambda>x. x) 0 (new_HolderStatsSet 5) = (5 / 2, new_HolderStatsSet 5)"
proof -
  have "hs_getWeight (\<lambda>x. x) (\<lambda>x. x) r new_HolderStats = 1 / 2" for r by (simp add: hs_getWeight_def new_HolderStats_def)
  moreover have "i mod 5 < (5 :: nat)" for i by simp
  moreover have "[0..<5] = [0, 1, 2, 3, 4 :: nat]" by (simp add: upt_rec)
  ultimately show ?thesis by (simp add: hss_getWeight_def new_HolderStatsSet_def hss_init_def Let_def nth_replicate)
qed

lemma demo_fair_weights:
  "\<exists>h'. Fair_initWeight (\<lambda>x. x) (\<lambda>x. x) 0 (\<lambda>_. True) demo_fair = Ret 15 (\<lparr>m_items = [7, 8, 9], m_weights = [5, 10, 15]\<rparr>, h')"
  by (simp add: Fair_initWeight_def initWeight_def demo_fair_def Fair_getWeight_def demo_weight INT32_def)

theorem fair_get_exact_witness:
  "\<exists>lb' h'. Fair_initWeight (\<lambda>x. x) (\<lambda>x. x) 0 (\<lambda>_. True) demo_fair = Ret 15 (lb', h') \<and>
    Fair_get (\<lambda>_. True) 7 lb' = Ret None () \<and> Fair_get (\<lambda>_. True) 3 lb' = Ret (Some 7) ()"
proof -
  obtain h' where i: "Fair_initWeight (\<lambda>x. x) (\<lambda>x. x) 0 (\<lambda>_. True) demo_fair =
    Ret 15 (\<lparr>m_items = [7, 8, 9], m_weights = [5, 10, 15]\<rparr>, h')" using demo_fair_weights by blast
  then show ?thesis
    using fair_get_exact [OF i [unfolded demo_fair_def], of 7 "\<lambda>_. True"]
      fair_get_exact [OF i [unfolded demo_fair_def], of 3 "\<lambda>_. True"] by (simp add: Let_def)
qed

text \<open>The statistics of an item are a window over the last seconds, one slot per second: moving to second \<open>now\<close> keeps
  the slots of the seconds that were counted and are still in the window, and every later second starts at zero, however
  far the clock has moved; \<open>get\<close> hands out the slot of \<open>now\<close>.\<close>

theorem stats_window_exact:
  assumes "m_stats s \<noteq> []" and "unat (m_lastUpdateTime s) \<le> now" and "now < 2 ^ 32 - 1"
  shows "\<exists>s'. hss_get (of_nat now) s = Ret (now mod length (m_stats s)) s' \<and>
    length (m_stats s') = length (m_stats s) \<and> m_lastUpdateTime s' = of_nat now \<and>
    (\<forall>t. t \<le> now \<and> now < t + length (m_stats s) \<longrightarrow>
       m_stats s' ! (t mod length (m_stats s)) =
         (if t \<le> unat (m_lastUpdateTime s) then m_stats s ! (t mod length (m_stats s)) else new_HolderStats))"
proof -
  let ?s = "hss_init (of_nat now) s"
  have len: "length (m_stats ?s) = length (m_stats s)" by (simp add: hss_init_def)
  have "m_lastUpdateTime ?s = of_nat now"
    using assms(2,3) by (auto simp: hss_init_def word_less_nat_alt unat_of_nat not_less word_unat_eq_iff)
  moreover have "hss_get (of_nat now) s = Ret (now mod length (m_stats s)) ?s"
    using len assms(1,3) by (auto simp: hss_get_def Let_def unat_of_nat)
  ultimately show ?thesis
    using len init_window [OF assms] by (intro exI [of _ ?s]) (simp add: slot_def)
qed

theorem stats_window_exact_witness:
  "\<exists>s'. hss_get 12 (new_HolderStatsSet 5) = Ret 2 s' \<and> m_stats s' ! 1 = new_HolderStats"
  using stats_window_exact [of "new_HolderStatsSet 5" 12]
  by (auto simp: new_HolderStatsSet_def dest!: spec [of _ 11])

end
