(* ===== verification/Logger.thy ===== *)
theory Logger
  imports Http
begin

text \<open>
  \<^verbatim>\<open>src/cxk/logger.h\<close> and \<^verbatim>\<open>logger.cpp\<close>: levels, the pattern parser of \<^verbatim>\<open>LogFormat\<close>, loggers, appenders and the manager.
  Loggers and appenders are shared pointers, so they live in a heap (\<open>log_world\<close>) and are named by their index; what
  reaches the console and the files is the list \<open>lw_out\<close>. \<^verbatim>\<open>strftime\<close> is a parameter and whether a file can be opened a
  field of the world. A \<^verbatim>\<open>Level\<close> is an integer, since the code also casts 100 to it.
\<close>

section \<open>Levels and events\<close>

type_synonym level = int

definition UNKONWING :: level where "UNKONWING = 0"
definition DEBUG :: level where "DEBUG = 1"
definition INFO :: level where "INFO = 2"
definition WARN :: level where "WARN = 3"
definition ERROR :: level where "ERROR = 4"
definition FATAL :: level where "FATAL = 5"

lemmas level_defs = UNKONWING_def DEBUG_def INFO_def WARN_def ERROR_def FATAL_def

definition LogLevel_ToString :: "level \<Rightarrow> string" where
  "LogLevel_ToString l =
     (if l = DEBUG then ''DEBUG'' else if l = INFO then ''INFO'' else if l = WARN then ''WARN''
      else if l = ERROR then ''ERROR'' else if l = FATAL then ''FATAL'' else ''UNKNOWN'')"

definition LogLevel_FromString :: "string \<Rightarrow> level" where
  "LogLevel_FromString str =
     (if str = ''debug'' then DEBUG else if str = ''info'' then INFO else if str = ''warn'' then WARN
      else if str = ''error'' then ERROR else if str = ''fatal'' then FATAL else UNKONWING)"

record log_event =
  e_file :: string
  e_line :: int
  e_threadID :: u32
  e_fiberID :: u32
  e_elapse :: u32
  e_time :: u64
  e_level :: level
  e_threadName :: string
  e_content :: string
  e_logger :: nat

section \<open>Format items\<close>

datatype format_item =
    MessageFormatItem | LevelFormatItem | ElapseFormatItem | NameFormatItem | ThreadIDFormatItem | NewLineFormatItem
  | TimeFormatItem string | FileNameFormatItem | LineFormatItem | TabFormatItem | FiberIDFormatItem
  | StringFormatItem string | ThreadNameFormatItem

definition new_TimeFormatItem :: "string \<Rightarrow> format_item" where
  "new_TimeFormatItem fmt = TimeFormatItem (if fmt = [] then ''%Y-%m-%d %H:%M:%S'' else fmt)"

definition dec_int :: "int \<Rightarrow> string" where
  "dec_int i = (if i < 0 then CHR ''-'' # dec (nat (- i)) else dec (nat i))"

fun item_format ::
  "(u64 \<Rightarrow> string \<Rightarrow> string) \<Rightarrow> (nat \<Rightarrow> string) \<Rightarrow> level \<Rightarrow> log_event \<Rightarrow> format_item \<Rightarrow> string" where
  "item_format strftime name lv e MessageFormatItem = e_content e"
| "item_format strftime name lv e LevelFormatItem = LogLevel_ToString lv"
| "item_format strftime name lv e ElapseFormatItem = dec (unat (e_elapse e))"
| "item_format strftime name lv e NameFormatItem = name (e_logger e)"
| "item_format strftime name lv e ThreadIDFormatItem = dec (unat (e_threadID e))"
| "item_format strftime name lv e NewLineFormatItem = [CHR 0x0A]"
| "item_format strftime name lv e (TimeFormatItem fmt) = strftime (e_time e) (c_string fmt)"
| "item_format strftime name lv e FileNameFormatItem = e_file e"
| "item_format strftime name lv e LineFormatItem = dec_int (e_line e)"
| "item_format strftime name lv e TabFormatItem = [CHR 0x09]"
| "item_format strftime name lv e FiberIDFormatItem = dec (unat (e_fiberID e))"
| "item_format strftime name lv e (StringFormatItem s) = s"
| "item_format strftime name lv e ThreadNameFormatItem = e_threadName e"

section \<open>The pattern parser\<close>

definition isalpha :: "char \<Rightarrow> bool" where
  "isalpha c = (let n = of_char c :: nat in 65 \<le> n \<and> n \<le> 90 \<or> 97 \<le> n \<and> n \<le> 122)"

definition substr :: "nat \<Rightarrow> nat \<Rightarrow> string \<Rightarrow> string" where
  "substr i k s = take k (drop i s)"

text \<open>The inner loop, from position \<open>n\<close> of the specifier at \<open>i\<close>: where it stops, \<^verbatim>\<open>fmt_status\<close>, \<^verbatim>\<open>str\<close> and \<^verbatim>\<open>fmt\<close>.\<close>

function spec_loop :: "string \<Rightarrow> nat \<Rightarrow> nat \<Rightarrow> nat \<Rightarrow> nat \<Rightarrow> string \<Rightarrow> nat \<times> nat \<times> string \<times> string" where
  "spec_loop p i n fmt_status fmt_begin str =
     (if n \<ge> length p then (n, fmt_status, str, [])
      else let c = p ! n in
        if \<not> isalpha c \<and> c \<noteq> CHR ''{'' \<and> c \<noteq> CHR ''}'' then (n, fmt_status, str, [])
        else if fmt_status = 0 \<and> c = CHR ''{'' then spec_loop p i (n + 1) 1 n (substr (i + 1) (n - i - 1) p)
        else if fmt_status = 1 \<and> c = CHR ''}'' then (n, 2, str, substr (fmt_begin + 1) (n - fmt_begin - 1) p)
        else spec_loop p i (n + 1) fmt_status fmt_begin str)"
  by pat_completeness auto
termination
  by (relation "measure (\<lambda>(p, i, n, st, fb, str). length p - n)") auto

declare spec_loop.simps [simp del]

lemma spec_loop_ge: "n \<le> fst (spec_loop p i n st fb str)"
proof (induction p i n st fb str rule: spec_loop.induct)
  case (1 p i n st fb str)
  then show ?case by (subst spec_loop.simps) (auto simp: Let_def)
qed

type_synonym entry = "string \<times> string \<times> nat"

text \<open>The outer loop; its state is \<^verbatim>\<open>i\<close>, \<^verbatim>\<open>nstr\<close>, \<^verbatim>\<open>vec\<close> and \<^verbatim>\<open>m_error\<close>.\<close>

definition flush :: "string \<Rightarrow> entry list" where
  "flush nstr = (if nstr = [] then [] else [(nstr, [], 0)])"

function pattern_loop :: "string \<Rightarrow> nat \<Rightarrow> string \<Rightarrow> entry list \<Rightarrow> bool \<Rightarrow> entry list \<times> bool" where
  "pattern_loop p i nstr vec err =
     (if i \<ge> length p then (vec @ flush nstr, err)
      else if p ! i \<noteq> CHR ''%'' then pattern_loop p (i + 1) (nstr @ [p ! i]) vec err
      else if i + 1 < length p \<and> p ! (i + 1) = CHR ''%'' then pattern_loop p (i + 1) (nstr @ ''%'') vec err
      else (case spec_loop p i (i + 1) 0 0 [] of (n, fmt_status, str, fmt) \<Rightarrow>
        if fmt_status = 0 then
          pattern_loop p n [] (vec @ flush nstr @ [(substr (i + 1) (n - i - 1) p, fmt, 1)]) err
        else if fmt_status = 1 then
          pattern_loop p (i + 1) nstr (vec @ [(''<<pattern_error>>'', fmt, 0)]) True
        else pattern_loop p n [] (vec @ flush nstr @ [(str, fmt, 1)]) err))"
  by pat_completeness auto
termination
proof (relation "measure (\<lambda>(p, i, nstr, vec, err). length p - i)", goal_cases)
  case (4 p i nstr vec err n)
  then show ?case using spec_loop_ge [of "i + 1" p i 0 0 "[]"] by (auto simp: prod_eq_iff)
next
  case (6 p i nstr vec err n)
  then show ?case using spec_loop_ge [of "i + 1" p i 0 0 "[]"] by (auto simp: prod_eq_iff)
qed auto

declare pattern_loop.simps [simp del]

definition s_format_items :: "(string \<times> (string \<Rightarrow> format_item)) list" where
  "s_format_items =
     [(''m'', \<lambda>_. MessageFormatItem), (''p'', \<lambda>_. LevelFormatItem), (''r'', \<lambda>_. ElapseFormatItem),
      (''c'', \<lambda>_. NameFormatItem), (''t'', \<lambda>_. ThreadIDFormatItem), (''n'', \<lambda>_. NewLineFormatItem),
      (''d'', new_TimeFormatItem), (''f'', \<lambda>_. FileNameFormatItem), (''l'', \<lambda>_. LineFormatItem),
      (''T'', \<lambda>_. TabFormatItem), (''F'', \<lambda>_. FiberIDFormatItem), (''S'', StringFormatItem),
      (''N'', \<lambda>_. ThreadNameFormatItem)]"

definition make_item :: "entry \<Rightarrow> format_item \<times> bool" where
  "make_item = (\<lambda>(s, fmt, k).
     if k = 0 then (StringFormatItem s, False)
     else case map_of s_format_items s of
            None \<Rightarrow> (StringFormatItem (''<<error_format %'' @ s @ ''>>''), True)
          | Some mk \<Rightarrow> (mk fmt, False))"

record log_format =
  lf_pattern :: string
  lf_items :: "format_item list"
  lf_error :: bool

definition new_LogFormat :: "string \<Rightarrow> log_format" where
  "new_LogFormat pattern =
     (case pattern_loop pattern 0 [] [] False of (vec, err) \<Rightarrow>
        \<lparr>lf_pattern = pattern, lf_items = map (fst \<circ> make_item) vec, lf_error = err \<or> list_ex (snd \<circ> make_item) vec\<rparr>)"

definition LogFormat_format ::
  "(u64 \<Rightarrow> string \<Rightarrow> string) \<Rightarrow> (nat \<Rightarrow> string) \<Rightarrow> level \<Rightarrow> log_event \<Rightarrow> log_format \<Rightarrow> string" where
  "LogFormat_format strftime name lv e f = concat (map (item_format strftime name lv e) (lf_items f))"

section \<open>Loggers and appenders\<close>

datatype appender_kind = StdOutAppender | FileAppender string

text \<open>The last three fields are those of a file appender: the stream is good, it is open, and \<^verbatim>\<open>m_lastTime\<close>.\<close>

record appender =
  ap_kind :: appender_kind
  ap_level :: level
  ap_hasFormat :: bool
  ap_format :: "log_format option"
  fs_good :: bool
  fs_open :: bool
  ap_lastTime :: u64

record logger =
  lg_name :: string
  lg_level :: level
  lg_appenders :: "nat list"
  lg_format :: "log_format option"
  lg_root :: "nat option"

record log_world =
  lw_appenders :: "appender list"
  lw_loggers :: "logger list"
  lw_map :: "string \<Rightarrow> nat option"
  lw_root :: nat
  lw_can_open :: "string \<Rightarrow> bool"
  lw_out :: "(appender_kind \<times> string) list"

definition upd_appender :: "nat \<Rightarrow> (appender \<Rightarrow> appender) \<Rightarrow> log_world \<Rightarrow> log_world" where
  "upd_appender a g w = w\<lparr>lw_appenders := (lw_appenders w)[a := g (lw_appenders w ! a)]\<rparr>"

definition upd_logger :: "nat \<Rightarrow> (logger \<Rightarrow> logger) \<Rightarrow> log_world \<Rightarrow> log_world" where
  "upd_logger l g w = w\<lparr>lw_loggers := (lw_loggers w)[l := g (lw_loggers w ! l)]\<rparr>"

text \<open>\<^verbatim>\<open>std::ofstream\<close>: closing a file that is not open and opening one that is already open set the fail bit.\<close>

definition stream_close :: "appender \<Rightarrow> appender" where
  "stream_close a = (if fs_open a then a\<lparr>fs_open := False\<rparr> else a\<lparr>fs_good := False\<rparr>)"

definition stream_open :: "bool \<Rightarrow> appender \<Rightarrow> appender" where
  "stream_open can a =
     (if fs_open a then a\<lparr>fs_good := False\<rparr>
      else if can then a\<lparr>fs_open := True, fs_good := True\<rparr> else a\<lparr>fs_good := False\<rparr>)"

definition reOpen :: "bool \<Rightarrow> appender \<Rightarrow> bool \<times> appender" where
  "reOpen can a =
     (let a = (if fs_good a then stream_close a else a); a = stream_open can a in (fs_good a, a))"

definition new_StdOutAppender :: appender where
  "new_StdOutAppender = \<lparr>ap_kind = StdOutAppender, ap_level = DEBUG, ap_hasFormat = False, ap_format = None,
     fs_good = True, fs_open = False, ap_lastTime = 0\<rparr>"

text \<open>\<^verbatim>\<open>m_lastTime\<close> is not initialised: \<open>junk\<close> is what memory held.\<close>

definition new_FileAppender :: "u64 \<Rightarrow> bool \<Rightarrow> string \<Rightarrow> appender" where
  "new_FileAppender junk can filename =
     snd (reOpen can \<lparr>ap_kind = FileAppender filename, ap_level = DEBUG, ap_hasFormat = False, ap_format = None,
       fs_good = True, fs_open = False, ap_lastTime = junk\<rparr>)"

definition setFormat :: "log_format option \<Rightarrow> appender \<Rightarrow> appender" where
  "setFormat format a = a\<lparr>ap_format := format, ap_hasFormat := (format \<noteq> None)\<rparr>"

definition new_appender :: "appender \<Rightarrow> log_world \<Rightarrow> nat \<times> log_world" where
  "new_appender a w = (length (lw_appenders w), w\<lparr>lw_appenders := lw_appenders w @ [a]\<rparr>)"

type_synonym clock = "u64 \<times> (u64 \<Rightarrow> string \<Rightarrow> string)"

text \<open>\<open>StdOutAppender::log\<close> and \<open>FileAppender::log\<close>; the clock is \<^verbatim>\<open>time(0)\<close> and \<^verbatim>\<open>strftime\<close>.\<close>

definition emit :: "clock \<Rightarrow> level \<Rightarrow> log_event \<Rightarrow> nat \<Rightarrow> bool \<Rightarrow> log_world \<Rightarrow> (log_world, unit) outcome" where
  "emit clock lv e a ok w =
     (case ap_format (lw_appenders w ! a) of
        None \<Rightarrow> Undef NullDeref
      | Some f \<Rightarrow> Ret () (if ok then w\<lparr>lw_out := lw_out w @
          [(ap_kind (lw_appenders w ! a), LogFormat_format (snd clock) (\<lambda>l. lg_name (lw_loggers w ! l)) lv e f)]\<rparr> else w))"

definition appender_log :: "clock \<Rightarrow> level \<Rightarrow> log_event \<Rightarrow> nat \<Rightarrow> log_world \<Rightarrow> (log_world, unit) outcome" where
  "appender_log clock lv e a w =
     (if lv \<ge> ap_level (lw_appenders w ! a) then
        case ap_kind (lw_appenders w ! a) of
          StdOutAppender \<Rightarrow> emit clock lv e a True w
        | FileAppender name \<Rightarrow>
            let w = (if fst clock \<noteq> ap_lastTime (lw_appenders w ! a)
                     then upd_appender a (\<lambda>ap. (snd (reOpen (lw_can_open w name) ap))\<lparr>ap_lastTime := fst clock\<rparr>) w
                     else w)
            in emit clock lv e a (fs_good (lw_appenders w ! a)) w
      else Ret () w)"

fun appenders_log :: "clock \<Rightarrow> level \<Rightarrow> log_event \<Rightarrow> nat list \<Rightarrow> log_world \<Rightarrow> (log_world, unit) outcome" where
  "appenders_log clock lv e [] w = Ret () w"
| "appenders_log clock lv e (a # as) w = obind (appender_log clock lv e a w) (\<lambda>_. appenders_log clock lv e as)"

text \<open>\<open>Logger::log\<close>; the recursion follows \<^verbatim>\<open>m_root\<close>, at most \<open>fuel\<close> times.\<close>

fun logger_log :: "nat \<Rightarrow> clock \<Rightarrow> level \<Rightarrow> log_event \<Rightarrow> nat \<Rightarrow> log_world \<Rightarrow> (log_world, unit) outcome" where
  "logger_log 0 clock lv e l w = Undef Diverges"
| "logger_log (Suc fuel) clock lv e l w =
     (let lg = lw_loggers w ! l in
      if lv \<ge> lg_level lg then
        if lg_appenders lg \<noteq> [] then appenders_log clock lv e (lg_appenders lg) w
        else (case lg_root lg of Some r \<Rightarrow> logger_log fuel clock lv e r w | None \<Rightarrow> Ret () w)
      else Ret () w)"

definition log_debug :: "nat \<Rightarrow> clock \<Rightarrow> log_event \<Rightarrow> nat \<Rightarrow> log_world \<Rightarrow> (log_world, unit) outcome" where
  "log_debug fuel clock e l w = logger_log fuel clock DEBUG e l w"

definition log_info :: "nat \<Rightarrow> clock \<Rightarrow> log_event \<Rightarrow> nat \<Rightarrow> log_world \<Rightarrow> (log_world, unit) outcome" where
  "log_info fuel clock e l w = logger_log fuel clock INFO e l w"

definition log_warn :: "nat \<Rightarrow> clock \<Rightarrow> log_event \<Rightarrow> nat \<Rightarrow> log_world \<Rightarrow> (log_world, unit) outcome" where
  "log_warn fuel clock e l w = logger_log fuel clock WARN e l w"

definition log_error :: "nat \<Rightarrow> clock \<Rightarrow> log_event \<Rightarrow> nat \<Rightarrow> log_world \<Rightarrow> (log_world, unit) outcome" where
  "log_error fuel clock e l w = logger_log fuel clock ERROR e l w"

definition log_fatal :: "nat \<Rightarrow> clock \<Rightarrow> log_event \<Rightarrow> nat \<Rightarrow> log_world \<Rightarrow> (log_world, unit) outcome" where
  "log_fatal fuel clock e l w = logger_log fuel clock FATAL e l w"

definition default_pattern :: string where
  "default_pattern = ''%d%T%t%T%N%T%F%T[%p]%T[%c]%T%f:%l%T%m'' @ [CHR 0x0A]"

definition new_Logger :: "string \<Rightarrow> logger" where
  "new_Logger name = \<lparr>lg_name = name, lg_level = DEBUG, lg_appenders = [],
     lg_format = Some (new_LogFormat default_pattern), lg_root = None\<rparr>"

definition addAppender :: "nat \<Rightarrow> nat \<Rightarrow> log_world \<Rightarrow> log_world" where
  "addAppender l a w =
     (let w = (if ap_format (lw_appenders w ! a) = None
               then upd_appender a (\<lambda>ap. ap\<lparr>ap_format := lg_format (lw_loggers w ! l)\<rparr>) w else w)
      in upd_logger l (\<lambda>lg. lg\<lparr>lg_appenders := lg_appenders lg @ [a]\<rparr>) w)"

definition delAppender :: "nat \<Rightarrow> nat \<Rightarrow> log_world \<Rightarrow> log_world" where
  "delAppender l a w = upd_logger l (\<lambda>lg. lg\<lparr>lg_appenders := remove1 a (lg_appenders lg)\<rparr>) w"

definition clearAppenders :: "nat \<Rightarrow> log_world \<Rightarrow> log_world" where
  "clearAppenders l w = upd_logger l (\<lambda>lg. lg\<lparr>lg_appenders := []\<rparr>) w"

definition setLogLevel :: "nat \<Rightarrow> level \<Rightarrow> log_world \<Rightarrow> log_world" where
  "setLogLevel l lv w = upd_logger l (\<lambda>lg. lg\<lparr>lg_level := lv\<rparr>) w"

definition setFormatter :: "nat \<Rightarrow> log_format option \<Rightarrow> log_world \<Rightarrow> log_world" where
  "setFormatter l format w =
     (let w = upd_logger l (\<lambda>lg. lg\<lparr>lg_format := format\<rparr>) w
      in fold (\<lambda>a. upd_appender a (\<lambda>ap. if \<not> ap_hasFormat ap then ap\<lparr>ap_format := format\<rparr> else ap))
           (lg_appenders (lw_loggers w ! l)) w)"

definition setFormatter_string :: "nat \<Rightarrow> string \<Rightarrow> log_world \<Rightarrow> log_world" where
  "setFormatter_string l val w =
     (let new_val = new_LogFormat val in if lf_error new_val then w else setFormatter l (Some new_val) w)"

definition getFormatter :: "nat \<Rightarrow> log_world \<Rightarrow> log_format option" where
  "getFormatter l w = lg_format (lw_loggers w ! l)"

section \<open>The manager\<close>

definition getLogger :: "string \<Rightarrow> log_world \<Rightarrow> nat \<times> log_world" where
  "getLogger name w =
     (case lw_map w name of
        Some l \<Rightarrow> (l, w)
      | None \<Rightarrow> let l = length (lw_loggers w)
                in (l, w\<lparr>lw_loggers := lw_loggers w @ [(new_Logger name)\<lparr>lg_root := Some (lw_root w)\<rparr>],
                          lw_map := (lw_map w)(name := Some l)\<rparr>))"

definition new_LoggerManager :: "(string \<Rightarrow> bool) \<Rightarrow> log_world" where
  "new_LoggerManager can_open =
     (let w = \<lparr>lw_appenders = [], lw_loggers = [new_Logger ''root''], lw_map = (\<lambda>_. None), lw_root = 0,
               lw_can_open = can_open, lw_out = []\<rparr>;
          (a, w) = new_appender new_StdOutAppender w;
          w = addAppender 0 a w
      in w\<lparr>lw_map := (lw_map w)(''root'' := Some 0)\<rparr>)"

text \<open>The macro \<^verbatim>\<open>CXK_LOG_LEVEL\<close> with the destructor of \<^verbatim>\<open>LogEventWrap\<close>: the event carries the streamed text.\<close>

definition new_LogEvent ::
  "nat \<Rightarrow> level \<Rightarrow> string \<Rightarrow> int \<Rightarrow> u32 \<Rightarrow> u32 \<Rightarrow> u32 \<Rightarrow> u64 \<Rightarrow> string \<Rightarrow> log_event" where
  "new_LogEvent l lv file line elapse thread_id fiber_id tm thread_name =
     \<lparr>e_file = file, e_line = line, e_threadID = thread_id, e_fiberID = fiber_id, e_elapse = elapse, e_time = tm,
      e_level = lv, e_threadName = thread_name, e_content = [], e_logger = l\<rparr>"

definition CXK_LOG_LEVEL ::
  "nat \<Rightarrow> clock \<Rightarrow> nat \<Rightarrow> level \<Rightarrow> string \<Rightarrow> int \<Rightarrow> u32 \<Rightarrow> u32 \<Rightarrow> string \<Rightarrow> string \<Rightarrow> log_world \<Rightarrow> (log_world, unit) outcome" where
  "CXK_LOG_LEVEL fuel clock l lv file line thread_id fiber_id thread_name text w =
     (if lg_level (lw_loggers w ! l) \<le> lv then
        let e = (new_LogEvent l lv file line 0 thread_id fiber_id (fst clock) thread_name)\<lparr>e_content := text\<rparr>
        in logger_log fuel clock (e_level e) e (e_logger e) w
      else Ret () w)"

section \<open>Configuration of loggers\<close>

record log_appender_define =
  ad_type :: int
  ad_level :: level
  ad_formatter :: string
  ad_file :: string

record log_define =
  ld_name :: string
  ld_level :: level
  ld_formatter :: string
  ld_appenders :: "log_appender_define list"

text \<open>One appender of the listener; \<open>junk\<close> is the memory behind its \<^verbatim>\<open>m_lastTime\<close>. Other types leave a null pointer.\<close>

definition configure_appender :: "u64 \<Rightarrow> nat \<Rightarrow> log_appender_define \<Rightarrow> log_world \<Rightarrow> (log_world, unit) outcome" where
  "configure_appender junk l d w =
     (if ad_type d \<noteq> 1 \<and> ad_type d \<noteq> 2 then Undef NullDeref
      else
        let ap = (if ad_type d = 1 then new_FileAppender junk (lw_can_open w (ad_file d)) (ad_file d) else new_StdOutAppender);
            ap = ap\<lparr>ap_level := ad_level d\<rparr>;
            fmt = new_LogFormat (ad_formatter d);
            ap = (if ad_formatter d \<noteq> [] \<and> \<not> lf_error fmt then setFormat (Some fmt) ap else ap);
            (a, w) = new_appender ap w
        in Ret () (addAppender l a w))"

fun configure_appenders :: "u64 \<Rightarrow> nat \<Rightarrow> log_appender_define list \<Rightarrow> log_world \<Rightarrow> (log_world, unit) outcome" where
  "configure_appenders junk l [] w = Ret () w"
| "configure_appenders junk l (d # ds) w = obind (configure_appender junk l d w) (\<lambda>_. configure_appenders junk l ds)"

definition configure_logger :: "u64 \<Rightarrow> log_define \<Rightarrow> log_world \<Rightarrow> (log_world, unit) outcome" where
  "configure_logger junk i w =
     (let (l, w) = getLogger (ld_name i) w;
          w = setLogLevel l (ld_level i) w;
          w = (if ld_formatter i \<noteq> [] then setFormatter_string l (ld_formatter i) w else w);
          w = clearAppenders l w
      in configure_appenders junk l (ld_appenders i) w)"

text \<open>Sets of definitions are ordered by name, which is all that \<^verbatim>\<open>find\<close> compares.\<close>

definition find_define :: "string \<Rightarrow> log_define list \<Rightarrow> log_define option" where
  "find_define name ds = find (\<lambda>d. ld_name d = name) ds"

fun on_change_new :: "u64 \<Rightarrow> log_define list \<Rightarrow> log_define list \<Rightarrow> log_world \<Rightarrow> (log_world, unit) outcome" where
  "on_change_new junk old [] w = Ret () w"
| "on_change_new junk old (i # is) w =
     (if find_define (ld_name i) old = Some i then on_change_new junk old is w
      else obind (configure_logger junk i w) (\<lambda>_. on_change_new junk old is))"

definition retire_logger :: "string \<Rightarrow> log_world \<Rightarrow> log_world" where
  "retire_logger name w = (let (l, w) = getLogger name w in clearAppenders l (setLogLevel l 100 w))"

fun on_change_old :: "log_define list \<Rightarrow> log_define list \<Rightarrow> log_world \<Rightarrow> log_world" where
  "on_change_old nw [] w = w"
| "on_change_old nw (i # is) w =
     on_change_old nw is (if find_define (ld_name i) nw = None then retire_logger (ld_name i) w else w)"

text \<open>The listener starts with a message to the root logger.\<close>

type_synonym log_site = "string \<times> int \<times> u32 \<times> u32 \<times> string"

definition on_logger_config_change ::
  "nat \<Rightarrow> clock \<Rightarrow> log_site \<Rightarrow> u64 \<Rightarrow> log_define list \<Rightarrow> log_define list \<Rightarrow> log_world \<Rightarrow> (log_world, unit) outcome" where
  "on_logger_config_change fuel clock = (\<lambda>(file, line, thread_id, fiber_id, thread_name) junk old_value new_value w.
     obind (CXK_LOG_LEVEL fuel clock (lw_root w) INFO file line thread_id fiber_id thread_name ''on_logger_config_change'' w)
       (\<lambda>_ w. obind (on_change_new junk old_value new_value w) (\<lambda>_ w. Ret () (on_change_old new_value old_value w))))"

end
