(* ===== verification/Logger_Props.thy ===== *)
theory Logger_Props
  imports Logger
begin

text \<open>
  Theorems on \<open>Logger\<close>: patterns read back as the pieces they were written from, the invariant of the world of loggers,
  what a log call writes and where, and what a change of the configuration does to every logger.
\<close>

section \<open>Patterns\<close>

datatype piece = Text string | Spec string

fun render :: "piece list \<Rightarrow> string" where
  "render [] = []"
| "render (Text s # ps) = s @ render ps"
| "render (Spec k # ps) = CHR ''%'' # k @ render ps"

definition spec_char :: "char \<Rightarrow> bool" where
  "spec_char c \<longleftrightarrow> isalpha c \<or> c = CHR ''{'' \<or> c = CHR ''}''"

fun ok_pieces :: "piece list \<Rightarrow> bool" where
  "ok_pieces [] = True"
| "ok_pieces (Text s # ps) \<longleftrightarrow> s \<noteq> [] \<and> CHR ''%'' \<notin> set s \<and> (case ps of Text _ # _ \<Rightarrow> False | _ \<Rightarrow> True) \<and> ok_pieces ps"
| "ok_pieces (Spec k # ps) \<longleftrightarrow> k \<noteq> [] \<and> list_all isalpha k \<and>
     (case ps of Text (c # _) # _ \<Rightarrow> \<not> spec_char c | _ \<Rightarrow> True) \<and> ok_pieces ps"

fun entry :: "piece \<Rightarrow> entry" where
  "entry (Text s) = (s, [], 0)"
| "entry (Spec k) = (k, [], 1)"

lemma drop_Cons_nth: "drop n p = c # r \<Longrightarrow> n < length p \<and> p ! n = c \<and> drop (Suc n) p = r"
  by (metis Cons_nth_drop_Suc drop_eq_Nil leI list.distinct(1) list.inject)

lemma drop_behind: "drop i p = s @ r \<Longrightarrow> drop (i + length s) p = r"
  by (metis add.commute append_eq_conv_conj drop_drop)

lemma isalpha_simps [simp]: "\<not> isalpha (CHR ''%'')" "\<not> isalpha (CHR ''{'')" "\<not> isalpha (CHR ''}'')"
  by (simp_all add: isalpha_def)

lemma spec_loop_letters:
  assumes "drop n p = ks @ r" and "list_all isalpha ks" and "r = [] \<or> \<not> spec_char (hd r)"
  shows "spec_loop p i n 0 fb str = (n + length ks, 0, str, [])"
  using assms
proof (induction ks arbitrary: n)
  case Nil
  show ?case
  proof (cases r)
    case Nil
    then show ?thesis using Nil.prems by (subst spec_loop.simps) simp
  next
    case (Cons c r')
    then show ?thesis using Nil.prems drop_Cons_nth [of n p c r'] by (subst spec_loop.simps) (simp add: spec_char_def)
  qed
next
  case (Cons k ks)
  have d: "n < length p" "p ! n = k" "drop (Suc n) p = ks @ r" using drop_Cons_nth [of n p k "ks @ r"] Cons.prems by simp_all
  have "isalpha k" "k \<noteq> CHR ''{''" using Cons.prems by auto
  then show ?case using Cons.IH [OF d(3)] Cons.prems d by (subst spec_loop.simps) (simp add: Let_def)
qed

lemma pattern_loop_text:
  assumes "drop i p = s @ r" and "CHR ''%'' \<notin> set s"
  shows "pattern_loop p i nstr vec err = pattern_loop p (i + length s) (nstr @ s) vec err"
  using assms
proof (induction s arbitrary: i nstr)
  case (Cons c s)
  have d: "i < length p" "p ! i = c" "drop (Suc i) p = s @ r" using drop_Cons_nth [of i p c "s @ r"] Cons.prems by simp_all
  then show ?case using Cons.IH [OF d(3)] Cons.prems by (subst pattern_loop.simps) auto
qed simp

lemma pattern_loop_spec:
  assumes "drop i p = CHR ''%'' # ks @ r" and "ks \<noteq> []" and "list_all isalpha ks" and "r = [] \<or> \<not> spec_char (hd r)"
  shows "pattern_loop p i nstr vec err = pattern_loop p (Suc i + length ks) [] (vec @ flush nstr @ [(ks, [], 1)]) err"
proof -
  have d: "i < length p" "p ! i = CHR ''%''" "drop (Suc i) p = ks @ r" using drop_Cons_nth [OF assms(1)] by simp_all
  obtain k ks' where k: "ks = k # ks'" "isalpha k" using assms(2,3) by (cases ks) auto
  then have "p ! Suc i \<noteq> CHR ''%''" using drop_Cons_nth [of "Suc i" p k "ks' @ r"] d(3) by auto
  moreover have "substr (Suc i) (length ks) p = ks" using d(3) by (simp add: substr_def)
  ultimately show ?thesis
    using d spec_loop_letters [OF d(3) assms(3,4), of i 0 "[]"] by (subst pattern_loop.simps) simp
qed

lemma hd_render: "ok_pieces (Spec k # ps) \<Longrightarrow> render ps = [] \<or> \<not> spec_char (hd (render ps))"
  by (cases ps rule: render.cases) (auto simp: spec_char_def split: list.splits)

lemma pattern_loop_render:
  assumes "drop i p = render ps" and "ok_pieces ps" and "nstr = [] \<or> (case ps of Text _ # _ \<Rightarrow> False | _ \<Rightarrow> True)"
  shows "pattern_loop p i nstr vec err = (vec @ flush nstr @ map entry ps, err)"
  using assms
proof (induction ps arbitrary: i nstr vec rule: render.induct)
  case 1
  then show ?case by (subst pattern_loop.simps) simp
next
  case (2 s ps)
  have "drop (i + length s) p = render ps" using 2(2) drop_behind by simp
  then show ?case
    using 2 pattern_loop_text [of i p s "render ps" "[]" vec err] by (auto simp: flush_def)
next
  case (3 k ps)
  have "drop (Suc i + length k) p = render ps"
    using 3(2) drop_Cons_nth [of i p "CHR ''%''" "k @ render ps"] drop_behind [of "Suc i" p k "render ps"] by simp
  then show ?case
    using 3 pattern_loop_spec [of i p k "render ps" nstr vec err] hd_render [of k ps] by (auto simp: flush_def)
qed

definition piece_item :: "piece \<Rightarrow> format_item" where
  "piece_item pc = (case pc of Text s \<Rightarrow> StringFormatItem s
     | Spec k \<Rightarrow> (case map_of s_format_items k of Some mk \<Rightarrow> mk [] | None \<Rightarrow> StringFormatItem (''<<error_format %'' @ k @ ''>>'')))"

definition known :: "piece \<Rightarrow> bool" where
  "known pc = (case pc of Text s \<Rightarrow> True | Spec k \<Rightarrow> map_of s_format_items k \<noteq> None)"

lemma make_item_entry: "make_item (entry pc) = (piece_item pc, \<not> known pc)"
  by (cases pc) (auto simp: make_item_def piece_item_def known_def split: option.splits)

section \<open>The world of loggers\<close>

definition file_ok :: "appender \<Rightarrow> bool" where
  "file_ok a \<longleftrightarrow> fs_open a = fs_good a \<or> ap_kind a = StdOutAppender"

definition lw_inv :: "log_world \<Rightarrow> bool" where
  "lw_inv w \<longleftrightarrow> lw_root w < length (lw_loggers w) \<and> lg_root (lw_loggers w ! lw_root w) = None \<and>
     (\<forall>n l. lw_map w n = Some l \<longrightarrow> l < length (lw_loggers w) \<and> lg_name (lw_loggers w ! l) = n) \<and>
     (\<forall>lg \<in> set (lw_loggers w). lg_format lg \<noteq> None \<and> (lg_root lg = None \<or> lg_root lg = Some (lw_root w)) \<and>
        (\<forall>a \<in> set (lg_appenders lg). a < length (lw_appenders w) \<and> ap_format (lw_appenders w ! a) \<noteq> None)) \<and>
     (\<forall>ap \<in> set (lw_appenders w). file_ok ap)"

lemma lw_invD:
  assumes "lw_inv w"
  shows "lw_root w < length (lw_loggers w)" and "lg_root (lw_loggers w ! lw_root w) = None"
    and "lw_map w n = Some l \<Longrightarrow> l < length (lw_loggers w) \<and> lg_name (lw_loggers w ! l) = n"
    and "l < length (lw_loggers w) \<Longrightarrow> lg_format (lw_loggers w ! l) \<noteq> None"
    and "l < length (lw_loggers w) \<Longrightarrow> lg_root (lw_loggers w ! l) = None \<or> lg_root (lw_loggers w ! l) = Some (lw_root w)"
    and "l < length (lw_loggers w) \<Longrightarrow> a \<in> set (lg_appenders (lw_loggers w ! l)) \<Longrightarrow>
      a < length (lw_appenders w) \<and> ap_format (lw_appenders w ! a) \<noteq> None"
    and "a < length (lw_appenders w) \<Longrightarrow> file_ok (lw_appenders w ! a)"
  using assms unfolding lw_inv_def by (auto dest: nth_mem)

text \<open>What logging leaves alone: everything but the output and the state of the files.\<close>

definition kept :: "log_world \<Rightarrow> log_world \<Rightarrow> bool" where
  "kept w w' \<longleftrightarrow> lw_loggers w' = lw_loggers w \<and> lw_map w' = lw_map w \<and> lw_root w' = lw_root w \<and>
     lw_can_open w' = lw_can_open w \<and> length (lw_appenders w') = length (lw_appenders w) \<and>
     (\<forall>a < length (lw_appenders w). let ap = lw_appenders w ! a; ap' = lw_appenders w' ! a in
        ap_kind ap' = ap_kind ap \<and> ap_level ap' = ap_level ap \<and> ap_format ap' = ap_format ap \<and>
        ap_hasFormat ap' = ap_hasFormat ap)"

text \<open>Whether a line reaches its destination.\<close>

definition writable :: "clock \<Rightarrow> log_world \<Rightarrow> nat \<Rightarrow> bool" where
  "writable clock w a = (case ap_kind (lw_appenders w ! a) of
     StdOutAppender \<Rightarrow> True
   | FileAppender name \<Rightarrow> if fst clock \<noteq> ap_lastTime (lw_appenders w ! a) then lw_can_open w name else fs_good (lw_appenders w ! a))"

definition log_line :: "clock \<Rightarrow> level \<Rightarrow> log_event \<Rightarrow> log_world \<Rightarrow> nat \<Rightarrow> (appender_kind \<times> string) list" where
  "log_line clock lv e w a =
     (let ap = lw_appenders w ! a in
      if ap_level ap \<le> lv \<and> writable clock w a
      then [(ap_kind ap, LogFormat_format (snd clock) (\<lambda>l. lg_name (lw_loggers w ! l)) lv e (the (ap_format ap)))] else [])"

lemma reOpen_good:
  assumes "fs_open a = fs_good a"
  shows "fs_good (snd (reOpen can a)) = can" and "fs_open (snd (reOpen can a)) = can"
    and "ap_kind (snd (reOpen can a)) = ap_kind a" and "ap_level (snd (reOpen can a)) = ap_level a"
    and "ap_format (snd (reOpen can a)) = ap_format a" and "ap_hasFormat (snd (reOpen can a)) = ap_hasFormat a"
  using assms by (simp_all add: reOpen_def stream_close_def stream_open_def Let_def)

lemma appender_log_line:
  assumes "lw_inv w" and "a < length (lw_appenders w)" and "ap_format (lw_appenders w ! a) \<noteq> None"
  shows "\<exists>w'. appender_log clock lv e a w = Ret () w' \<and> lw_out w' = lw_out w @ log_line clock lv e w a \<and>
    lw_inv w' \<and> kept w w' \<and> (\<forall>b. writable clock w' b = writable clock w b)"
proof (cases "ap_level (lw_appenders w ! a) \<le> lv")
  case False
  then show ?thesis using assms by (simp add: appender_log_def log_line_def kept_def)
next
  case True
  obtain f where f: "ap_format (lw_appenders w ! a) = Some f" using assms(3) by auto
  show ?thesis
  proof (cases "ap_kind (lw_appenders w ! a)")
    case StdOutAppender
    then show ?thesis using True f assms(1)
      by (auto simp: appender_log_def emit_def log_line_def writable_def kept_def lw_inv_def split: appender_kind.splits)
  next
    case (FileAppender name)
    have fo: "fs_open (lw_appenders w ! a) = fs_good (lw_appenders w ! a)"
      using lw_invD(7) [OF assms(1,2)] FileAppender by (simp add: file_ok_def)
    let ?ap = "(snd (reOpen (lw_can_open w name) (lw_appenders w ! a)))\<lparr>ap_lastTime := fst clock\<rparr>"
    let ?w = "if fst clock \<noteq> ap_lastTime (lw_appenders w ! a) then w\<lparr>lw_appenders := (lw_appenders w)[a := ?ap]\<rparr> else w"
    let ?w' = "?w\<lparr>lw_out := lw_out w @ log_line clock lv e w a\<rparr>"
    note r = reOpen_good [OF fo, of "lw_can_open w name"]
    have "appender_log clock lv e a w = Ret () ?w'"
      using True FileAppender f r assms(2)
      by (auto simp: appender_log_def upd_appender_def emit_def log_line_def writable_def Let_def)
    moreover have "kept w ?w'" using r assms(2) by (auto simp: kept_def nth_list_update Let_def)
    moreover have "lw_inv ?w'"
      using assms(1,2) r f unfolding lw_inv_def
      by (auto simp: nth_list_update file_ok_def dest!: set_update_subset_insert [THEN subsetD])
    moreover have "writable clock ?w' b = writable clock w b" for b
      using r FileAppender assms(2) by (cases "a = b") (simp_all add: writable_def split: appender_kind.splits)
    ultimately show ?thesis by auto
  qed
qed

lemma kept_refl [simp]: "kept w w"
  by (simp add: kept_def Let_def)

lemma kept_trans: "kept u v \<Longrightarrow> kept v w \<Longrightarrow> kept u w"
  by (auto simp: kept_def Let_def)

lemma log_line_kept:
  assumes "kept w w'" and "\<forall>b. writable clock w' b = writable clock w b" and "a < length (lw_appenders w)"
  shows "log_line clock lv e w' a = log_line clock lv e w a"
  using assms by (auto simp: log_line_def kept_def Let_def)

lemma appenders_log_lines:
  assumes "lw_inv w" and "\<forall>a \<in> set as. a < length (lw_appenders w) \<and> ap_format (lw_appenders w ! a) \<noteq> None"
  shows "\<exists>w'. appenders_log clock lv e as w = Ret () w' \<and> lw_out w' = lw_out w @ concat (map (log_line clock lv e w) as) \<and>
    lw_inv w' \<and> kept w w'"
  using assms
proof (induction as arbitrary: w)
  case (Cons a as)
  obtain w1 where w1: "appender_log clock lv e a w = Ret () w1" "lw_out w1 = lw_out w @ log_line clock lv e w a" "lw_inv w1"
    "kept w w1" "\<forall>b. writable clock w1 b = writable clock w b"
    using appender_log_line [OF Cons.prems(1), of a clock lv e] Cons.prems(2) by auto
  have ok: "\<forall>a \<in> set as. a < length (lw_appenders w1) \<and> ap_format (lw_appenders w1 ! a) \<noteq> None"
    using Cons.prems(2) w1(4) by (auto simp: kept_def Let_def)
  have same: "map (log_line clock lv e w1) as = map (log_line clock lv e w) as"
    using Cons.prems(2) log_line_kept [OF w1(4,5)] by (intro map_cong) auto
  obtain w' where "appenders_log clock lv e as w1 = Ret () w'"
    "lw_out w' = lw_out w1 @ concat (map (log_line clock lv e w1) as)" "lw_inv w'" "kept w1 w'"
    using Cons.IH [OF w1(3) ok] by blast
  then show ?case using w1 same kept_trans by auto
qed simp

text \<open>The appenders that a call of \<open>Logger::log\<close> reaches.\<close>

definition reached :: "level \<Rightarrow> log_world \<Rightarrow> nat \<Rightarrow> nat list" where
  "reached lv w l =
     (let lg = lw_loggers w ! l; rt = lw_loggers w ! lw_root w in
      if lv < lg_level lg then []
      else if lg_appenders lg \<noteq> [] then lg_appenders lg
      else if lg_root lg = None \<or> lv < lg_level rt then [] else lg_appenders rt)"

lemma reached_ok:
  assumes "lw_inv w" and "l < length (lw_loggers w)" and "a \<in> set (reached lv w l)"
  shows "a < length (lw_appenders w) \<and> ap_format (lw_appenders w ! a) \<noteq> None"
  using assms(3) lw_invD(6) [OF assms(1,2), of a] lw_invD(6) [OF assms(1) lw_invD(1) [OF assms(1)], of a]
  by (auto simp: reached_def Let_def split: if_splits)

lemma logger_log_lines:
  assumes "lw_inv w" and "l < length (lw_loggers w)"
  shows "\<exists>w'. logger_log (Suc (Suc n)) clock lv e l w = Ret () w' \<and>
    lw_out w' = lw_out w @ concat (map (log_line clock lv e w) (reached lv w l)) \<and> lw_inv w' \<and> kept w w'"
proof -
  let ?r = "reached lv w l"
  have "logger_log (Suc (Suc n)) clock lv e l w = appenders_log clock lv e ?r w"
    using lw_invD(2) [OF assms(1)] lw_invD(5) [OF assms] by (auto simp: reached_def Let_def not_less)
  then show ?thesis using appenders_log_lines [OF assms(1), of ?r clock lv e] reached_ok [OF assms] by auto
qed

section \<open>Changing loggers\<close>

lemma inv_upd_logger:
  assumes "lw_inv w" and "l < length (lw_loggers w)"
    and "lg_name (g (lw_loggers w ! l)) = lg_name (lw_loggers w ! l)" and "lg_root (g (lw_loggers w ! l)) = lg_root (lw_loggers w ! l)"
    and "lg_format (g (lw_loggers w ! l)) \<noteq> None"
    and "\<forall>a \<in> set (lg_appenders (g (lw_loggers w ! l))). a < length (lw_appenders w) \<and> ap_format (lw_appenders w ! a) \<noteq> None"
  shows "lw_inv (upd_logger l g w)"
  using assms lw_invD(2,5) [OF assms(1)] unfolding lw_inv_def upd_logger_def
  by (auto simp: nth_list_update dest!: set_update_subset_insert [THEN subsetD])

lemma inv_upd_appender:
  assumes "lw_inv w" and "file_ok (lw_appenders w ! a) \<Longrightarrow> file_ok (g (lw_appenders w ! a))"
    and "ap_format (lw_appenders w ! a) \<noteq> None \<Longrightarrow> ap_format (g (lw_appenders w ! a)) \<noteq> None"
  shows "lw_inv (upd_appender a g w)"
proof (cases "a < length (lw_appenders w)")
  case True
  then have "file_ok (g (lw_appenders w ! a))" using assms(2) lw_invD(7) [OF assms(1)] by blast
  then have files: "\<forall>ap \<in> set ((lw_appenders w)[a := g (lw_appenders w ! a)]). file_ok ap"
    using assms(1) by (auto simp: lw_inv_def dest!: set_update_subset_insert [THEN subsetD])
  have "ap_format ((lw_appenders w)[a := g (lw_appenders w ! a)] ! b) \<noteq> None" if "ap_format (lw_appenders w ! b) \<noteq> None" for b
    using that assms(3) True by (cases "b = a") simp_all
  then show ?thesis
    using assms(1) files unfolding lw_inv_def upd_appender_def by simp
next
  case False
  then have "upd_appender a g w = w" by (simp add: upd_appender_def list_update_beyond)
  then show ?thesis using assms(1) by simp
qed

lemma inv_new_appender:
  assumes "lw_inv w" and "file_ok ap"
  shows "lw_inv (w\<lparr>lw_appenders := lw_appenders w @ [ap]\<rparr>)"
  using assms unfolding lw_inv_def by (fastforce simp: nth_append)

text \<open>What an operation on logger \<open>l\<close> leaves alone.\<close>

definition others :: "nat \<Rightarrow> log_world \<Rightarrow> log_world \<Rightarrow> bool" where
  "others l w w' \<longleftrightarrow> lw_map w' = lw_map w \<and> lw_root w' = lw_root w \<and> lw_can_open w' = lw_can_open w \<and>
     length (lw_loggers w') = length (lw_loggers w) \<and> length (lw_appenders w) \<le> length (lw_appenders w') \<and>
     (\<forall>k. k \<noteq> l \<longrightarrow> lw_loggers w' ! k = lw_loggers w ! k) \<and>
     (\<forall>a < length (lw_appenders w). ap_kind (lw_appenders w' ! a) = ap_kind (lw_appenders w ! a) \<and>
        ap_level (lw_appenders w' ! a) = ap_level (lw_appenders w ! a))"

lemma others_refl [simp]: "others l w w"
  by (simp add: others_def)

lemma others_trans: "others l u v \<Longrightarrow> others l v w \<Longrightarrow> others l u w"
  by (auto simp: others_def)

lemma others_upd_logger: "others l w (upd_logger l g w)"
  by (simp add: others_def upd_logger_def nth_list_update)

lemma others_upd_appender:
  "ap_kind (g (lw_appenders w ! a)) = ap_kind (lw_appenders w ! a) \<Longrightarrow>
   ap_level (g (lw_appenders w ! a)) = ap_level (lw_appenders w ! a) \<Longrightarrow> others l w (upd_appender a g w)"
  unfolding others_def upd_appender_def by (simp add: nth_list_update) (metis nth_list_update_eq nth_list_update_neq)

lemma setFormatter_keeps:
  assumes "lw_inv w" and "l < length (lw_loggers w)"
  shows "lw_inv (setFormatter l (Some f) w) \<and> others l w (setFormatter l (Some f) w) \<and>
    lw_loggers (setFormatter l (Some f) w) ! l = (lw_loggers w ! l)\<lparr>lg_format := Some f\<rparr>"
proof -
  let ?g = "\<lambda>a. upd_appender a (\<lambda>ap. if \<not> ap_hasFormat ap then ap\<lparr>ap_format := Some f\<rparr> else ap)"
  let ?w = "upd_logger l (\<lambda>lg. lg\<lparr>lg_format := Some f\<rparr>) w"
  have all: "lw_inv w \<Longrightarrow> lw_inv (fold ?g as w) \<and> others l w (fold ?g as w) \<and> lw_loggers (fold ?g as w) = lw_loggers w" for as w
  proof (induction as arbitrary: w)
    case (Cons a as)
    have "lw_inv (?g a w)" using Cons.prems by (rule inv_upd_appender) (simp_all add: file_ok_def)
    moreover have "others l w (?g a w)" by (rule others_upd_appender) simp_all
    moreover have "lw_loggers (?g a w) = lw_loggers w" by (simp add: upd_appender_def)
    ultimately show ?case using Cons.IH [of "?g a w"] others_trans [of l w "?g a w"] by simp
  qed simp
  have "lw_inv ?w" using assms lw_invD(6) [OF assms] by (intro inv_upd_logger) auto
  moreover have "lw_loggers ?w ! l = (lw_loggers w ! l)\<lparr>lg_format := Some f\<rparr>" using assms(2) by (simp add: upd_logger_def)
  ultimately show ?thesis
    using all [of ?w "lg_appenders (lw_loggers ?w ! l)"] others_upd_logger [of l w] others_trans [of l w ?w]
    by (simp add: setFormatter_def Let_def)
qed

lemma addAppender_keeps:
  assumes "lw_inv w" and "l < length (lw_loggers w)" and "a < length (lw_appenders w)"
  shows "lw_inv (addAppender l a w) \<and> others l w (addAppender l a w) \<and>
    lw_loggers (addAppender l a w) ! l = (lw_loggers w ! l)\<lparr>lg_appenders := lg_appenders (lw_loggers w ! l) @ [a]\<rparr>"
proof -
  let ?g = "\<lambda>ap. ap\<lparr>ap_format := lg_format (lw_loggers w ! l)\<rparr>"
  let ?w = "if ap_format (lw_appenders w ! a) = None then upd_appender a ?g w else w"
  have inv: "lw_inv ?w" using inv_upd_appender [OF assms(1), of a ?g] assms(1) lw_invD(4) [OF assms(1,2)] by (simp add: file_ok_def)
  have oth: "others l w ?w" using others_upd_appender [of ?g w a l] by simp
  have lg: "lw_loggers ?w = lw_loggers w" by (simp add: upd_appender_def)
  have fmt: "a < length (lw_appenders ?w)" "ap_format (lw_appenders ?w ! a) \<noteq> None"
    using assms(3) lw_invD(4) [OF assms(1,2)] by (simp_all add: upd_appender_def)
  have "lw_inv (upd_logger l (\<lambda>lg. lg\<lparr>lg_appenders := lg_appenders lg @ [a]\<rparr>) ?w)"
    by (rule inv_upd_logger [OF inv]) (use assms(2) fmt lg lw_invD(4,6) [OF inv, of l] in auto)
  then show ?thesis
    using oth others_upd_logger [of l ?w] others_trans [of l w ?w] lg assms(2)
    by (simp add: addAppender_def Let_def upd_logger_def)
qed

section \<open>Configuration\<close>

text \<open>What the configuration determines of the logger of a name: its level, and kind and level of its appenders.\<close>

definition view :: "log_world \<Rightarrow> string \<Rightarrow> (level \<times> (appender_kind \<times> level) list) option" where
  "view w n = map_option (\<lambda>l. let lg = lw_loggers w ! l in
     (lg_level lg, map (\<lambda>a. (ap_kind (lw_appenders w ! a), ap_level (lw_appenders w ! a))) (lg_appenders lg))) (lw_map w n)"

definition wanted :: "log_appender_define \<Rightarrow> appender_kind \<times> level" where
  "wanted d = (if ad_type d = 1 then FileAppender (ad_file d) else StdOutAppender, ad_level d)"

lemma view_others:
  assumes "lw_inv w" and "others l w w'" and "lw_map w n \<noteq> Some l"
  shows "view w' n = view w n"
proof (cases "lw_map w n")
  case None
  then show ?thesis using assms(2) by (simp add: view_def others_def)
next
  case (Some k)
  then have k: "k \<noteq> l" "k < length (lw_loggers w)" using assms(3) lw_invD(3) [OF assms(1)] by auto
  have "map (\<lambda>a. (ap_kind (lw_appenders w' ! a), ap_level (lw_appenders w' ! a))) (lg_appenders (lw_loggers w ! k)) =
    map (\<lambda>a. (ap_kind (lw_appenders w ! a), ap_level (lw_appenders w ! a))) (lg_appenders (lw_loggers w ! k))"
    using lw_invD(6) [OF assms(1) k(2)] assms(2) by (intro map_cong) (auto simp: others_def)
  then show ?thesis using Some k assms(2) unfolding view_def others_def by (simp add: Let_def)
qed

lemma configure_appender_adds:
  assumes "lw_inv w" and "l < length (lw_loggers w)" and "ad_type d = 1 \<or> ad_type d = 2"
  shows "\<exists>w' a. configure_appender junk l d w = Ret () w' \<and> lw_inv w' \<and> others l w w' \<and> a < length (lw_appenders w') \<and>
    lw_loggers w' ! l = (lw_loggers w ! l)\<lparr>lg_appenders := lg_appenders (lw_loggers w ! l) @ [a]\<rparr> \<and>
    (ap_kind (lw_appenders w' ! a), ap_level (lw_appenders w' ! a)) = wanted d"
proof -
  let ?raw = "(if ad_type d = 1 then new_FileAppender junk (lw_can_open w (ad_file d)) (ad_file d) else new_StdOutAppender)
    \<lparr>ap_level := ad_level d\<rparr>"
  let ?ap = "if ad_formatter d \<noteq> [] \<and> \<not> lf_error (new_LogFormat (ad_formatter d))
    then setFormat (Some (new_LogFormat (ad_formatter d))) ?raw else ?raw"
  let ?a = "length (lw_appenders w)" and ?w = "w\<lparr>lw_appenders := lw_appenders w @ [?ap]\<rparr>"
  have run: "configure_appender junk l d w = Ret () (addAppender l ?a ?w)"
    using assms(3) by (auto simp: configure_appender_def new_appender_def Let_def)
  have "file_ok ?ap"
    by (simp add: file_ok_def new_FileAppender_def new_StdOutAppender_def reOpen_def stream_close_def stream_open_def
        setFormat_def Let_def)
  then have inv: "lw_inv ?w" by (rule inv_new_appender [OF assms(1)])
  have oth: "others l w ?w" by (simp add: others_def nth_append)
  note add = addAppender_keeps [OF inv, of l ?a]
  have "(ap_kind (lw_appenders (addAppender l ?a ?w) ! ?a), ap_level (lw_appenders (addAppender l ?a ?w) ! ?a)) = wanted d"
    using add assms(2,3)
    by (auto simp: others_def wanted_def setFormat_def new_FileAppender_def new_StdOutAppender_def reOpen_def
        stream_close_def stream_open_def Let_def)
  moreover have "?a < length (lw_appenders (addAppender l ?a ?w))" using add assms(2) by (auto simp: others_def)
  moreover have "lw_loggers ?w = lw_loggers w" by simp
  ultimately show ?thesis
    using run add assms(2) others_trans [OF oth, of "addAppender l ?a ?w"]
    by (intro exI [of _ "addAppender l ?a ?w"] exI [of _ ?a]) simp
qed

definition seen :: "log_world \<Rightarrow> nat \<Rightarrow> (appender_kind \<times> level) list" where
  "seen w l = map (\<lambda>a. (ap_kind (lw_appenders w ! a), ap_level (lw_appenders w ! a))) (lg_appenders (lw_loggers w ! l))"

lemma configure_appenders_seen:
  assumes "lw_inv w" and "l < length (lw_loggers w)" and "\<forall>d \<in> set ds. ad_type d = 1 \<or> ad_type d = 2"
  shows "\<exists>w'. configure_appenders junk l ds w = Ret () w' \<and> lw_inv w' \<and> others l w w' \<and>
    lg_level (lw_loggers w' ! l) = lg_level (lw_loggers w ! l) \<and> seen w' l = seen w l @ map wanted ds"
  using assms
proof (induction ds arbitrary: w)
  case (Cons d ds)
  obtain w1 a where w1: "configure_appender junk l d w = Ret () w1" "lw_inv w1" "others l w w1"
    "lw_loggers w1 ! l = (lw_loggers w ! l)\<lparr>lg_appenders := lg_appenders (lw_loggers w ! l) @ [a]\<rparr>"
    "(ap_kind (lw_appenders w1 ! a), ap_level (lw_appenders w1 ! a)) = wanted d"
    using configure_appender_adds [OF Cons.prems(1,2), of d junk] Cons.prems(3) by auto
  have "seen w1 l = seen w l @ [wanted d]"
    using w1(3,4,5) lw_invD(6) [OF Cons.prems(1,2)] by (auto simp: seen_def others_def)
  moreover obtain w' where "configure_appenders junk l ds w1 = Ret () w'" "lw_inv w'" "others l w1 w'"
    "lg_level (lw_loggers w' ! l) = lg_level (lw_loggers w1 ! l)" "seen w' l = seen w1 l @ map wanted ds"
    using Cons.IH [OF w1(2)] Cons.prems w1(3) by (auto simp: others_def)
  ultimately show ?case using w1 others_trans [OF w1(3)] by auto
qed simp

lemma getLogger_keeps:
  assumes "lw_inv w"
  shows "\<exists>l w'. getLogger n w = (l, w') \<and> lw_inv w' \<and> l < length (lw_loggers w') \<and> lw_map w' n = Some l \<and>
    (\<forall>m. m \<noteq> n \<longrightarrow> view w' m = view w m) \<and> (lw_map w n \<noteq> None \<longrightarrow> w' = w) \<and> lw_root w' = lw_root w \<and> lw_out w' = lw_out w"
proof (cases "lw_map w n")
  case (Some l)
  then show ?thesis using assms lw_invD(3) [OF assms] by (auto simp: getLogger_def)
next
  case None
  let ?w = "snd (getLogger n w)"
  have g: "getLogger n w = (length (lw_loggers w), ?w)" using None by (simp add: getLogger_def Let_def)
  have "lw_inv ?w"
    using assms None lw_invD(3) [OF assms]
    by (fastforce simp: getLogger_def Let_def lw_inv_def nth_append new_Logger_def split: if_splits)
  moreover have "view ?w m = view w m" if "m \<noteq> n" for m
    using None that lw_invD(3) [OF assms, of m] by (cases "lw_map w m") (auto simp: getLogger_def view_def Let_def nth_append)
  ultimately show ?thesis using g None by (auto simp: getLogger_def Let_def)
qed

lemma view_Some: "lw_map w n = Some l \<Longrightarrow> view w n = Some (lg_level (lw_loggers w ! l), seen w l)"
  by (simp add: view_def seen_def Let_def)

lemma map_unique: "lw_inv w \<Longrightarrow> lw_map w n = Some l \<Longrightarrow> lw_map w m = Some l \<Longrightarrow> m = n"
  using lw_invD(3) by blast

text \<open>Level, formatter and removal of the appenders, the part \<open>configure_logger\<close> and \<open>retire_logger\<close> share.\<close>

lemma reset_logger_view:
  assumes "lw_inv w" and "l < length (lw_loggers w)"
  shows "lw_inv (clearAppenders l w) \<and> lw_inv (setLogLevel l lv w) \<and> others l w (clearAppenders l w) \<and>
    others l w (setLogLevel l lv w) \<and> lg_level (lw_loggers (setLogLevel l lv w) ! l) = lv \<and>
    lg_level (lw_loggers (clearAppenders l w) ! l) = lg_level (lw_loggers w ! l) \<and> seen (clearAppenders l w) l = []"
proof -
  have "lw_inv (clearAppenders l w)" unfolding clearAppenders_def
    by (rule inv_upd_logger [OF assms]) (use lw_invD(4) [OF assms] in auto)
  moreover have "lw_inv (setLogLevel l lv w)" unfolding setLogLevel_def
    by (rule inv_upd_logger [OF assms]) (use lw_invD(4,6) [OF assms] in auto)
  ultimately show ?thesis
    using assms(2) others_upd_logger [of l w]
    by (simp add: clearAppenders_def setLogLevel_def seen_def) (simp add: upd_logger_def)
qed

lemma setFormatter_string_keeps:
  assumes "lw_inv w" and "l < length (lw_loggers w)"
  shows "lw_inv (setFormatter_string l val w) \<and> others l w (setFormatter_string l val w) \<and>
    lg_level (lw_loggers (setFormatter_string l val w) ! l) = lg_level (lw_loggers w ! l)"
  using assms setFormatter_keeps [OF assms] by (simp add: setFormatter_string_def Let_def)

lemma configure_logger_view:
  assumes "lw_inv w" and "\<forall>d \<in> set (ld_appenders i). ad_type d = 1 \<or> ad_type d = 2"
  shows "\<exists>w'. configure_logger junk i w = Ret () w' \<and> lw_inv w' \<and>
    view w' (ld_name i) = Some (ld_level i, map wanted (ld_appenders i)) \<and> (\<forall>n. n \<noteq> ld_name i \<longrightarrow> view w' n = view w n)"
proof -
  obtain l w1 where g: "getLogger (ld_name i) w = (l, w1)" "lw_inv w1" "l < length (lw_loggers w1)" "lw_map w1 (ld_name i) = Some l"
    "\<forall>m. m \<noteq> ld_name i \<longrightarrow> view w1 m = view w m"
    using getLogger_keeps [OF assms(1), of "ld_name i"] by blast
  define w2 where "w2 = setLogLevel l (ld_level i) w1"
  have w2: "lw_inv w2" "others l w1 w2" "lg_level (lw_loggers w2 ! l) = ld_level i" "l < length (lw_loggers w2)"
    using reset_logger_view [OF g(2,3), of "ld_level i"] g(3) by (auto simp: w2_def others_def)
  define w3 where "w3 = (if ld_formatter i \<noteq> [] then setFormatter_string l (ld_formatter i) w2 else w2)"
  have w3: "lw_inv w3" "others l w2 w3" "lg_level (lw_loggers w3 ! l) = ld_level i" "l < length (lw_loggers w3)"
    using setFormatter_string_keeps [OF w2(1,4), of "ld_formatter i"] w2 by (auto simp: w3_def others_def)
  define w4 where "w4 = clearAppenders l w3"
  have w4: "lw_inv w4" "others l w3 w4" "lg_level (lw_loggers w4 ! l) = ld_level i" "seen w4 l = []" "l < length (lw_loggers w4)"
    using reset_logger_view [OF w3(1,4)] w3 by (auto simp: w4_def others_def)
  obtain w' where w': "configure_appenders junk l (ld_appenders i) w4 = Ret () w'" "lw_inv w'" "others l w4 w'"
    "lg_level (lw_loggers w' ! l) = ld_level i" "seen w' l = map wanted (ld_appenders i)"
    using configure_appenders_seen [OF w4(1,5) assms(2), of junk] w4(3,4) by auto
  have oth: "others l w1 w'" using w2(2) w3(2) w4(2) w'(3) others_trans by blast
  have "configure_logger junk i w = Ret () w'"
    using g(1) w'(1) unfolding configure_logger_def Let_def w2_def w3_def w4_def by simp
  moreover have "view w' (ld_name i) = Some (ld_level i, map wanted (ld_appenders i))"
    using oth g(4) w'(4,5) by (simp add: others_def view_Some)
  moreover have "view w' n = view w n" if "n \<noteq> ld_name i" for n
    using view_others [OF g(2) oth, of n] map_unique [OF g(2,4)] g(5) that by auto
  ultimately show ?thesis using w'(2) by blast
qed

lemma retire_logger_view:
  assumes "lw_inv w"
  shows "lw_inv (retire_logger n w) \<and> view (retire_logger n w) n = Some (100, []) \<and>
    (\<forall>m. m \<noteq> n \<longrightarrow> view (retire_logger n w) m = view w m)"
proof -
  obtain l w1 where g: "getLogger n w = (l, w1)" "lw_inv w1" "l < length (lw_loggers w1)" "lw_map w1 n = Some l"
    "\<forall>m. m \<noteq> n \<longrightarrow> view w1 m = view w m"
    using getLogger_keeps [OF assms, of n] by blast
  define w2 where "w2 = setLogLevel l 100 w1"
  have w2: "lw_inv w2" "others l w1 w2" "lg_level (lw_loggers w2 ! l) = 100" "l < length (lw_loggers w2)"
    using reset_logger_view [OF g(2,3), of 100] g(3) by (auto simp: w2_def others_def)
  have r: "retire_logger n w = clearAppenders l w2" using g(1) by (simp add: retire_logger_def w2_def)
  have w3: "lw_inv (clearAppenders l w2)" "others l w2 (clearAppenders l w2)"
    "lg_level (lw_loggers (clearAppenders l w2) ! l) = 100" "seen (clearAppenders l w2) l = []"
    using reset_logger_view [OF w2(1,4)] w2(3) by auto
  have oth: "others l w1 (clearAppenders l w2)" using w2(2) w3(2) others_trans by blast
  have "view (clearAppenders l w2) n = Some (100, [])" using oth g(4) w3(3,4) by (simp add: others_def view_Some)
  moreover have "view (clearAppenders l w2) m = view w m" if "m \<noteq> n" for m
    using view_others [OF g(2) oth, of m] map_unique [OF g(2,4)] g(5) that by auto
  ultimately show ?thesis using w3(1) r by simp
qed

lemma on_change_new_view:
  assumes "lw_inv w" and "distinct (map ld_name nw)" and "\<forall>i \<in> set nw. \<forall>d \<in> set (ld_appenders i). ad_type d = 1 \<or> ad_type d = 2"
  shows "\<exists>w'. on_change_new junk old nw w = Ret () w' \<and> lw_inv w' \<and>
    (\<forall>n. view w' n = (case find_define n nw of
       Some i \<Rightarrow> if find_define n old = Some i then view w n else Some (ld_level i, map wanted (ld_appenders i))
     | None \<Rightarrow> view w n))"
  using assms
proof (induction nw arbitrary: w)
  case Nil
  then show ?case by (simp add: find_define_def)
next
  case (Cons i nw)
  let ?v = "\<lambda>w n. case find_define n nw of
       Some i \<Rightarrow> if find_define n old = Some i then view w n else Some (ld_level i, map wanted (ld_appenders i))
     | None \<Rightarrow> view w n"
  have fresh: "find_define (ld_name i) nw = None" using Cons.prems(2) by (auto simp: find_define_def find_None_iff image_iff)
  have IH: "\<exists>w'. on_change_new junk old nw w1 = Ret () w' \<and> lw_inv w' \<and> (\<forall>n. view w' n = ?v w1 n)" if "lw_inv w1" for w1
    using Cons.IH [OF that] Cons.prems by simp
  show ?case
  proof (cases "find_define (ld_name i) old = Some i")
    case True
    then show ?thesis using IH [OF Cons.prems(1)] fresh by (auto simp: find_define_def)
  next
    case False
    obtain w1 where w1: "configure_logger junk i w = Ret () w1" "lw_inv w1"
      "view w1 (ld_name i) = Some (ld_level i, map wanted (ld_appenders i))" "\<forall>n. n \<noteq> ld_name i \<longrightarrow> view w1 n = view w n"
      using configure_logger_view [OF Cons.prems(1), of i junk] Cons.prems(3) by auto
    obtain w' where w': "on_change_new junk old nw w1 = Ret () w'" "lw_inv w'" "\<forall>n. view w' n = ?v w1 n"
      using IH [OF w1(2)] by blast
    have "view w' n = (case find_define n (i # nw) of
       Some i \<Rightarrow> if find_define n old = Some i then view w n else Some (ld_level i, map wanted (ld_appenders i))
     | None \<Rightarrow> view w n)" for n
      using w'(3) w1(3,4) fresh False by (cases "n = ld_name i") (auto simp: find_define_def split: option.split)
    then show ?thesis using w1(1) w' False by simp
  qed
qed

lemma on_change_old_view:
  assumes "lw_inv w"
  shows "lw_inv (on_change_old nw old w) \<and> (\<forall>n. view (on_change_old nw old w) n =
    (if find_define n nw = None \<and> find_define n old \<noteq> None then Some (100, []) else view w n))"
  using assms
proof (induction old arbitrary: w)
  case Nil
  then show ?case by (simp add: find_define_def)
next
  case (Cons i old)
  let ?w = "if find_define (ld_name i) nw = None then retire_logger (ld_name i) w else w"
  have inv: "lw_inv ?w" using retire_logger_view [OF Cons.prems] Cons.prems by simp
  show ?case
    using Cons.IH [OF inv] retire_logger_view [OF Cons.prems, of "ld_name i"] by (auto simp: find_define_def)
qed

lemma view_kept: "lw_inv w \<Longrightarrow> kept w w' \<Longrightarrow> view w' n = view w n"
proof -
  assume inv: "lw_inv w" and k: "kept w w'"
  show ?thesis
  proof (cases "lw_map w n")
    case None
    then show ?thesis using k by (simp add: view_def kept_def)
  next
    case (Some l)
    then have "l < length (lw_loggers w)" using lw_invD(3) [OF inv] by blast
    then show ?thesis
      using Some k lw_invD(6) [OF inv] unfolding view_def kept_def by (auto simp: Let_def intro!: map_cong)
  qed
qed

lemma CXK_LOG_LEVEL_keeps:
  assumes "lw_inv w" and "l < length (lw_loggers w)"
  shows "\<exists>w'. CXK_LOG_LEVEL (Suc (Suc k)) clock l lv path line tid fid tname text w = Ret () w' \<and> lw_inv w' \<and> kept w w'"
proof (cases "lg_level (lw_loggers w ! l) \<le> lv")
  case True
  let ?e = "(new_LogEvent l lv path line 0 tid fid (fst clock) tname)\<lparr>e_content := text\<rparr>"
  have "CXK_LOG_LEVEL (Suc (Suc k)) clock l lv path line tid fid tname text w = logger_log (Suc (Suc k)) clock lv ?e l w"
    using True by (simp add: CXK_LOG_LEVEL_def new_LogEvent_def del: logger_log.simps)
  then show ?thesis using logger_log_lines [OF assms, of k clock lv ?e] by auto
next
  case False
  then show ?thesis using assms by (simp add: CXK_LOG_LEVEL_def)
qed

lemma new_LoggerManager_inv: "lw_inv (new_LoggerManager can)"
  by (simp add: lw_inv_def new_LoggerManager_def new_appender_def addAppender_def upd_appender_def upd_logger_def Let_def
      new_StdOutAppender_def new_Logger_def file_ok_def)

lemma new_LoggerManager_root: "0 < length (lw_loggers (new_LoggerManager can))"
  by (simp add: new_LoggerManager_def new_appender_def addAppender_def upd_appender_def upd_logger_def Let_def)

section \<open>Properties\<close>

text \<open>C36. Reading a pattern inverts writing it: a pattern made of texts without percent signs and specifiers that are not
  followed by a letter or a brace is parsed into one item per piece, in order, and it is in error exactly when a specifier
  is unknown.\<close>

theorem pattern_roundtrip:
  assumes "ok_pieces ps"
  shows "lf_items (new_LogFormat (render ps)) = map piece_item ps \<and>
    (lf_error (new_LogFormat (render ps)) \<longleftrightarrow> (\<exists>pc \<in> set ps. \<not> known pc))"
proof -
  have "pattern_loop (render ps) 0 [] [] False = (map entry ps, False)"
    using pattern_loop_render [of 0 "render ps" ps "[]" "[]" False] assms by (simp add: flush_def)
  then show ?thesis by (simp add: new_LogFormat_def make_item_entry list_ex_iff comp_def)
qed

theorem pattern_roundtrip_witness:
  "lf_items (new_LogFormat default_pattern) =
     [TimeFormatItem ''%Y-%m-%d %H:%M:%S'', TabFormatItem, ThreadIDFormatItem, TabFormatItem, ThreadNameFormatItem,
      TabFormatItem, FiberIDFormatItem, TabFormatItem, StringFormatItem ''['', LevelFormatItem, StringFormatItem '']'',
      TabFormatItem, StringFormatItem ''['', NameFormatItem, StringFormatItem '']'', TabFormatItem, FileNameFormatItem,
      StringFormatItem '':'', LineFormatItem, TabFormatItem, MessageFormatItem, StringFormatItem [CHR 0x0A]] \<and>
   \<not> lf_error (new_LogFormat default_pattern)"
proof -
  let ?ps = "[Spec ''d'', Spec ''T'', Spec ''t'', Spec ''T'', Spec ''N'', Spec ''T'', Spec ''F'', Spec ''T'', Text ''['', Spec ''p'',
    Text '']'', Spec ''T'', Text ''['', Spec ''c'', Text '']'', Spec ''T'', Spec ''f'', Text '':'', Spec ''l'', Spec ''T'', Spec ''m'',
    Text [CHR 0x0A]]"
  have r: "default_pattern = render ?ps" by (simp add: default_pattern_def)
  have ok: "ok_pieces ?ps" by (simp add: spec_char_def isalpha_def)
  show ?thesis using pattern_roundtrip [OF ok] unfolding r
    by (simp add: piece_item_def known_def s_format_items_def new_TimeFormatItem_def)
qed

text \<open>What the documentation of the patterns promises and the parser does not do: a doubled percent sign is one percent
  sign followed by a specifier that starts at the second one; a date format with anything but letters is an error; and the
  brace that closes a format is printed.\<close>

theorem documented_patterns_fail:
  "lf_items (new_LogFormat ''%%m'') = [StringFormatItem ''%'', MessageFormatItem] \<and>
   lf_error (new_LogFormat ''%%'') \<and> lf_error (new_LogFormat ''%d{%H:%M}'') \<and>
   lf_items (new_LogFormat ''%d{H}'') = [TimeFormatItem ''H'', StringFormatItem ''}'']"
  by code_simp

text \<open>A log call writes one line per reached appender whose level admits the event and whose file can be written, in
  their order, formatted by the appender's pattern; the appenders are those of the logger, or of the root logger if it has
  none, and nothing is written below the level of either. No pointer is null, the recursion to the root ends, and loggers
  and appenders stay as they are.\<close>

theorem log_exact:
  assumes "lw_inv w" and "l < length (lw_loggers w)"
  shows "\<exists>w'. logger_log 2 clock lv e l w = Ret () w' \<and> lw_inv w' \<and> kept w w' \<and>
    lw_out w' = lw_out w @ concat (map (log_line clock lv e w)
      (let lg = lw_loggers w ! l; rt = lw_loggers w ! lw_root w in
       if lv < lg_level lg then []
       else if lg_appenders lg \<noteq> [] then lg_appenders lg
       else if lg_root lg = None \<or> lv < lg_level rt then [] else lg_appenders rt))"
  using logger_log_lines [OF assms, of 0 clock lv e] by (auto simp: reached_def numeral_2_eq_2)

theorem log_exact_witness:
  "\<exists>w'. logger_log 2 (0, \<lambda>_ _. ''now'') DEBUG (new_LogEvent 0 DEBUG ''a.cc'' 7 0 1 2 0 ''main'') 0 (new_LoggerManager (\<lambda>_. True)) =
    Ret () w' \<and> lw_inv w'"
  using log_exact [OF new_LoggerManager_inv new_LoggerManager_root] by blast



end
