(* ===== verification/Config.thy ===== *)
theory Config
  imports Http "HOL-Library.Countable"
begin

text \<open>
  \<^verbatim>\<open>src/cxk/config.h\<close> and \<^verbatim>\<open>config.cpp\<close>: configuration variables with listeners, the registry and loading from YAML. A
  variable of any C++ type is a record with a type number and a value of one type \<open>'v\<close>; the conversions of a type
  (\<^verbatim>\<open>LexicalCast\<close>) are functions of the type number. Listeners are named by values of type \<open>'c\<close> and the calls made
  to them are recorded. The YAML library is a parameter: \<open>dump\<close> is \<^verbatim>\<open>operator<<\<close>, \<open>load\<close> is \<^verbatim>\<open>YAML::Load\<close>, and a loaded
  document is the tree \<open>yaml\<close>.
\<close>

section \<open>Ordered maps\<close>

definition str_less :: "string \<Rightarrow> string \<Rightarrow> bool" where
  "str_less a b = bytes_less (map of_char a) (map of_char b)"

lemma map_of_char_inj: "(map of_char a :: nat list) = map of_char b \<longleftrightarrow> a = b"
  by (simp add: inj_map_eq_map inj_def)

interpretation str_order: weak_order str_less
  using bytes_less_order by unfold_locales (auto simp: str_less_def, metis+)

lemma str_same [simp]: "str_order.same a b \<longleftrightarrow> a = b"
  using bytes_less_order(1) [of "map of_char b"] bytes_less_order(3) [of "map of_char a" "map of_char b"] map_of_char_inj [of a b]
  by (auto simp: str_order.same_def str_less_def)

interpretation id_order: weak_order "(<) :: u64 \<Rightarrow> u64 \<Rightarrow> bool"
  by unfold_locales auto

lemma id_same [simp]: "id_order.same a b \<longleftrightarrow> a = b"
  by (auto simp: id_order.same_def)

section \<open>Variables\<close>

record ('v, 'c) config_var =
  cv_name :: string
  cv_description :: string
  cv_type :: nat
  cv_value :: 'v
  cv_cbs :: "(u64 \<times> 'c) list"

definition lower :: "string \<Rightarrow> string" where
  "lower s = map (\<lambda>c. char_of (tolower c)) s"

definition new_ConfigVar :: "nat \<Rightarrow> string \<Rightarrow> 'v \<Rightarrow> string \<Rightarrow> ('v, 'c) config_var" where
  "new_ConfigVar tid name value description =
     \<lparr>cv_name = lower name, cv_description = description, cv_type = tid, cv_value = value, cv_cbs = []\<rparr>"

text \<open>\<open>s_fun_id\<close> is a counter per type; \<open>cf_calls\<close> lists the calls of listeners with old and new value.\<close>

record ('v, 'c) config =
  cf_datas :: "(string \<times> ('v, 'c) config_var) list"
  cf_fun_id :: "nat \<Rightarrow> u64"
  cf_calls :: "('c \<times> 'v \<times> 'v) list"
  cf_mtimes :: "string \<Rightarrow> u64"

record 'v casts =
  from_str :: "nat \<Rightarrow> string \<Rightarrow> 'v option"
  to_str :: "nat \<Rightarrow> 'v \<Rightarrow> string option"

definition LookupBase :: "string \<Rightarrow> ('v, 'c) config \<Rightarrow> ('v, 'c) config_var option" where
  "LookupBase name cf = map_find str_less name (cf_datas cf)"

definition put_var :: "string \<Rightarrow> ('v, 'c) config_var \<Rightarrow> ('v, 'c) config \<Rightarrow> ('v, 'c) config" where
  "put_var name v cf = cf\<lparr>cf_datas := map_set str_less name v (cf_datas cf)\<rparr>"

definition toString :: "'v casts \<Rightarrow> ('v, 'c) config_var \<Rightarrow> string" where
  "toString casts v = (case to_str casts (cv_type v) (cv_value v) of Some s \<Rightarrow> s | None \<Rightarrow> [])"

text \<open>The operations on the variable registered under \<open>name\<close>.\<close>

definition setValue :: "string \<Rightarrow> ('v, 'c) config_var \<Rightarrow> 'v \<Rightarrow> ('v, 'c) config \<Rightarrow> ('v, 'c) config" where
  "setValue name v value cf =
     (if cv_value v = value then cf
      else put_var name (v\<lparr>cv_value := value\<rparr>) (cf\<lparr>cf_calls := cf_calls cf @ map (\<lambda>(_, c). (c, cv_value v, value)) (cv_cbs v)\<rparr>))"

definition fromString :: "'v casts \<Rightarrow> string \<Rightarrow> ('v, 'c) config_var \<Rightarrow> string \<Rightarrow> ('v, 'c) config \<Rightarrow> bool \<times> ('v, 'c) config" where
  "fromString casts name v s cf =
     (case from_str casts (cv_type v) s of Some value \<Rightarrow> (True, setValue name v value cf) | None \<Rightarrow> (False, cf))"

definition addListener :: "string \<Rightarrow> ('v, 'c) config_var \<Rightarrow> 'c \<Rightarrow> ('v, 'c) config \<Rightarrow> u64 \<times> ('v, 'c) config" where
  "addListener name v cb cf =
     (let k = cf_fun_id cf (cv_type v) + 1
      in (k, put_var name (v\<lparr>cv_cbs := map_set (<) k cb (cv_cbs v)\<rparr>) (cf\<lparr>cf_fun_id := (cf_fun_id cf)(cv_type v := k)\<rparr>)))"

definition delListener :: "string \<Rightarrow> ('v, 'c) config_var \<Rightarrow> u64 \<Rightarrow> ('v, 'c) config \<Rightarrow> ('v, 'c) config" where
  "delListener name v k cf = put_var name (v\<lparr>cv_cbs := map_erase (<) k (cv_cbs v)\<rparr>) cf"

definition getListener :: "u64 \<Rightarrow> ('v, 'c) config_var \<Rightarrow> 'c option" where
  "getListener k v = map_find (<) k (cv_cbs v)"

definition clearListener :: "string \<Rightarrow> ('v, 'c) config_var \<Rightarrow> ('v, 'c) config \<Rightarrow> ('v, 'c) config" where
  "clearListener name v cf = put_var name (v\<lparr>cv_cbs := []\<rparr>) cf"

section \<open>The registry\<close>

definition name_char :: "char \<Rightarrow> bool" where
  "name_char c \<longleftrightarrow> c \<in> set ''abcdefghijklmnopqrstuvwxyz0123456789_.''"

text \<open>The results of \<open>Lookup\<close> are pointers to variables: \<open>None\<close> is null, \<open>Some n\<close> the variable registered under \<open>n\<close>.\<close>

definition Lookup_create :: "nat \<Rightarrow> string \<Rightarrow> 'v \<Rightarrow> string \<Rightarrow> ('v, 'c) config \<Rightarrow> (('v, 'c) config, string option) outcome" where
  "Lookup_create tid name default_value description cf =
     (case LookupBase name cf of
        Some v \<Rightarrow> Ret (if cv_type v = tid then Some name else None) cf
      | None \<Rightarrow>
          if \<not> list_all name_char name then Throw InvalidArgument cf
          else Ret (Some name) (put_var name (new_ConfigVar tid name default_value description) cf))"

definition Lookup :: "nat \<Rightarrow> string \<Rightarrow> ('v, 'c) config \<Rightarrow> string option" where
  "Lookup tid name cf =
     (case LookupBase name cf of None \<Rightarrow> None | Some v \<Rightarrow> if cv_type v = tid then Some name else None)"

definition Visit :: "(('v, 'c) config_var \<Rightarrow> 's \<Rightarrow> 's) \<Rightarrow> ('v, 'c) config \<Rightarrow> 's \<Rightarrow> 's" where
  "Visit cb cf = fold (\<lambda>(_, v). cb v) (cf_datas cf)"

section \<open>Loading\<close>

datatype yaml = YNull | YScalar string | YSeq "yaml list" | YMap "(yaml \<times> yaml) list"

instance yaml :: countable
  by countable_datatype

fun Scalar :: "yaml \<Rightarrow> string" where
  "Scalar (YScalar s) = s"
| "Scalar _ = []"

definition sub_key :: "string \<Rightarrow> yaml \<Rightarrow> string" where
  "sub_key pre k = (if pre = [] then Scalar k else pre @ ''.'' @ Scalar k)"

fun ListAllMember :: "string \<Rightarrow> yaml \<Rightarrow> (string \<times> yaml) list" where
  "ListAllMember pre (YMap kvs) =
     (if \<not> list_all name_char pre then []
      else (pre, YMap kvs) # concat (map (\<lambda>(k, n). ListAllMember (sub_key pre k) n) kvs))"
| "ListAllMember pre n = (if \<not> list_all name_char pre then [] else [(pre, n)])"

definition node_text :: "(yaml \<Rightarrow> string) \<Rightarrow> yaml \<Rightarrow> string" where
  "node_text dump n = (case n of YScalar s \<Rightarrow> s | _ \<Rightarrow> dump n)"

definition load_member :: "(yaml \<Rightarrow> string) \<Rightarrow> 'v casts \<Rightarrow> string \<times> yaml \<Rightarrow> ('v, 'c) config \<Rightarrow> ('v, 'c) config" where
  "load_member dump casts = (\<lambda>(key, n) cf.
     if key = [] then cf
     else case LookupBase (lower key) cf of
       None \<Rightarrow> cf
     | Some v \<Rightarrow> snd (fromString casts (lower key) v (node_text dump n) cf))"

definition LoadFromYaml :: "(yaml \<Rightarrow> string) \<Rightarrow> 'v casts \<Rightarrow> yaml \<Rightarrow> ('v, 'c) config \<Rightarrow> ('v, 'c) config" where
  "LoadFromYaml dump casts root = fold (load_member dump casts) (ListAllMember [] root)"

text \<open>Files come with their modification times; \<^verbatim>\<open>YAML::LoadFile\<close> may throw, which is caught.\<close>

definition load_file ::
  "(yaml \<Rightarrow> string) \<Rightarrow> (string \<Rightarrow> yaml option) \<Rightarrow> 'v casts \<Rightarrow> bool \<Rightarrow> string \<times> u64 \<Rightarrow> ('v, 'c) config \<Rightarrow> ('v, 'c) config" where
  "load_file dump LoadFile casts force = (\<lambda>(f, mtime) cf.
     if \<not> force \<and> cf_mtimes cf f = mtime then cf
     else
       let cf = cf\<lparr>cf_mtimes := (cf_mtimes cf)(f := mtime)\<rparr>
       in case LoadFile f of Some root \<Rightarrow> LoadFromYaml dump casts root cf | None \<Rightarrow> cf)"

definition LoadFromConfDir ::
  "(yaml \<Rightarrow> string) \<Rightarrow> (string \<Rightarrow> yaml option) \<Rightarrow> 'v casts \<Rightarrow> bool \<Rightarrow> (string \<times> u64) list \<Rightarrow> ('v, 'c) config \<Rightarrow> ('v, 'c) config" where
  "LoadFromConfDir dump LoadFile casts force files = fold (load_file dump LoadFile casts force) files"

section \<open>Conversion of containers\<close>

text \<open>Element-wise conversion; the first element that cannot be converted throws.\<close>

fun all_some :: "'a option list \<Rightarrow> 'a list option" where
  "all_some [] = Some []"
| "all_some (None # xs) = None"
| "all_some (Some x # xs) = map_option ((#) x) (all_some xs)"

text \<open>\<open>map_elems\<close> is what \<^verbatim>\<open>ss << node[i]\<close> prints when the node is a map.\<close>

definition vector_from_string ::
  "(string \<Rightarrow> yaml option) \<Rightarrow> (yaml \<Rightarrow> string) \<Rightarrow> (yaml \<Rightarrow> string list) \<Rightarrow> (string \<Rightarrow> 'a option) \<Rightarrow> string \<Rightarrow> 'a list option" where
  "vector_from_string load dump map_elems from s =
     Option.bind (load s) (\<lambda>n. all_some (map from (case n of YSeq ns \<Rightarrow> map dump ns | YMap _ \<Rightarrow> map_elems n | _ \<Rightarrow> [])))"

definition vector_to_string ::
  "(string \<Rightarrow> yaml option) \<Rightarrow> (yaml \<Rightarrow> string) \<Rightarrow> ('a \<Rightarrow> string option) \<Rightarrow> 'a list \<Rightarrow> string option" where
  "vector_to_string load dump to xs =
     map_option (\<lambda>ns. dump (YSeq ns)) (all_some (map (\<lambda>x. Option.bind (to x) load) xs))"

text \<open>The elements of a sequence have no key: taking its text throws. \<^verbatim>\<open>std::map::insert\<close> keeps the first value of a key.\<close>

definition map_from_string ::
  "(string \<Rightarrow> yaml option) \<Rightarrow> (yaml \<Rightarrow> string) \<Rightarrow> (string \<Rightarrow> 'a option) \<Rightarrow> string \<Rightarrow> (string \<times> 'a) list option" where
  "map_from_string load dump from s =
     Option.bind (load s) (\<lambda>n.
       case n of
         YMap kvs \<Rightarrow>
           map_option (foldl (\<lambda>m (k, v). if map_find str_less k m = None then map_set str_less k v m else m) [])
             (all_some (map (\<lambda>(k, v). map_option (Pair (Scalar k)) (from (dump v))) kvs))
       | YSeq (_ # _) \<Rightarrow> None
       | _ \<Rightarrow> Some [])"

definition map_to_string ::
  "(string \<Rightarrow> yaml option) \<Rightarrow> (yaml \<Rightarrow> string) \<Rightarrow> ('a \<Rightarrow> string option) \<Rightarrow> (string \<times> 'a) list \<Rightarrow> string option" where
  "map_to_string load dump to m =
     map_option (\<lambda>kvs. dump (YMap kvs)) (all_some (map (\<lambda>(k, v). map_option (Pair (YScalar k)) (Option.bind (to v) load)) m))"

text \<open>The other containers: a list is converted like a vector; sets are read element by element and written in the order of
  iteration; an unordered map is read into a function that has the first value inserted under a key.\<close>

definition list_from_string ::
  "(string \<Rightarrow> yaml option) \<Rightarrow> (yaml \<Rightarrow> string) \<Rightarrow> (yaml \<Rightarrow> string list) \<Rightarrow> (string \<Rightarrow> 'a option) \<Rightarrow> string \<Rightarrow> 'a list option" where
  "list_from_string load dump map_elems from s =
     Option.bind (load s) (\<lambda>n. all_some (map from (case n of YSeq ns \<Rightarrow> map dump ns | YMap _ \<Rightarrow> map_elems n | _ \<Rightarrow> [])))"

definition list_to_string ::
  "(string \<Rightarrow> yaml option) \<Rightarrow> (yaml \<Rightarrow> string) \<Rightarrow> ('a \<Rightarrow> string option) \<Rightarrow> 'a list \<Rightarrow> string option" where
  "list_to_string load dump to xs =
     map_option (\<lambda>ns. dump (YSeq ns)) (all_some (map (\<lambda>x. Option.bind (to x) load) xs))"

definition set_from_string ::
  "(string \<Rightarrow> yaml option) \<Rightarrow> (yaml \<Rightarrow> string) \<Rightarrow> (yaml \<Rightarrow> string list) \<Rightarrow> (string \<Rightarrow> 'a option) \<Rightarrow> string \<Rightarrow> 'a set option" where
  "set_from_string load dump map_elems from s =
     Option.bind (load s) (\<lambda>n.
       map_option (\<lambda>xs. fold insert xs {})
         (all_some (map from (case n of YSeq ns \<Rightarrow> map dump ns | YMap _ \<Rightarrow> map_elems n | _ \<Rightarrow> []))))"

definition set_to_string ::
  "(string \<Rightarrow> yaml option) \<Rightarrow> (yaml \<Rightarrow> string) \<Rightarrow> ('a \<Rightarrow> string option) \<Rightarrow> 'a list \<Rightarrow> string option" where
  "set_to_string load dump to elems =
     map_option (\<lambda>ns. dump (YSeq ns)) (all_some (map (\<lambda>x. Option.bind (to x) load) elems))"

definition unordered_map_from_string ::
  "(string \<Rightarrow> yaml option) \<Rightarrow> (yaml \<Rightarrow> string) \<Rightarrow> (string \<Rightarrow> 'a option) \<Rightarrow> string \<Rightarrow> (string \<Rightarrow> 'a option) option" where
  "unordered_map_from_string load dump from s =
     Option.bind (load s) (\<lambda>n.
       case n of
         YMap kvs \<Rightarrow>
           map_option (foldl (\<lambda>m (k, v). if m k = None then m(k := Some v) else m) (\<lambda>_. None))
             (all_some (map (\<lambda>(k, v). map_option (Pair (Scalar k)) (from (dump v))) kvs))
       | YSeq (_ # _) \<Rightarrow> None
       | _ \<Rightarrow> Some (\<lambda>_. None))"

definition unordered_map_to_string ::
  "(string \<Rightarrow> yaml option) \<Rightarrow> (yaml \<Rightarrow> string) \<Rightarrow> ('a \<Rightarrow> string option) \<Rightarrow> (string \<times> 'a) list \<Rightarrow> string option" where
  "unordered_map_to_string load dump to entries =
     map_option (\<lambda>kvs. dump (YMap kvs)) (all_some (map (\<lambda>(k, v). map_option (Pair (YScalar k)) (Option.bind (to v) load)) entries))"

section \<open>Lemmas\<close>

definition cf_ok :: "('v, 'c) config \<Rightarrow> bool" where
  "cf_ok cf \<longleftrightarrow> map_sorted str_less (cf_datas cf) \<and> (\<forall>(k, v) \<in> set (cf_datas cf). map_sorted (<) (cv_cbs v))"

lemma in_set_map_set: "(k', v') \<in> set (map_set lt k v m) \<Longrightarrow> v' = v \<or> (k', v') \<in> set m"
  by (induction m rule: map_set.induct [of _ lt k v]) (auto split: if_splits)

lemma in_set_map_find: "map_find lt k m = Some v \<Longrightarrow> \<exists>k'. (k', v) \<in> set m"
  by (induction m) (auto split: if_splits)

lemma cf_ok_var: "cf_ok cf \<Longrightarrow> LookupBase k cf = Some v \<Longrightarrow> map_sorted (<) (cv_cbs v)"
  unfolding cf_ok_def LookupBase_def by (drule in_set_map_find) auto

lemma cf_ok_put: "cf_ok cf \<Longrightarrow> map_sorted (<) (cv_cbs v) \<Longrightarrow> cf_ok (put_var k v cf)"
  by (auto simp: cf_ok_def put_var_def str_order.sorted_map_set dest!: in_set_map_set)

lemma LookupBase_put: "cf_ok cf \<Longrightarrow> LookupBase k' (put_var k v cf) = (if k = k' then Some v else LookupBase k' cf)"
  by (simp add: LookupBase_def put_var_def cf_ok_def str_order.find_set)

lemma setValue_exact:
  assumes "cf_ok cf" and "LookupBase name cf = Some v"
  shows "cf_ok (setValue name v x cf)"
    and "LookupBase name (setValue name v x cf) = Some (v\<lparr>cv_value := x\<rparr>)"
    and "k \<noteq> name \<Longrightarrow> LookupBase k (setValue name v x cf) = LookupBase k cf"
    and "cf_calls (setValue name v x cf) =
      cf_calls cf @ (if x = cv_value v then [] else map (\<lambda>(_, c). (c, cv_value v, x)) (cv_cbs v))"
proof -
  let ?cf = "cf\<lparr>cf_calls := cf_calls cf @ map (\<lambda>(_, c). (c, cv_value v, x)) (cv_cbs v)\<rparr>"
  have ok: "cf_ok ?cf" using assms(1) by (simp add: cf_ok_def)
  have same: "LookupBase k ?cf = LookupBase k cf" for k by (simp add: LookupBase_def)
  show "cf_ok (setValue name v x cf)"
    using assms cf_ok_put [OF ok, of "v\<lparr>cv_value := x\<rparr>"] cf_ok_var [OF assms] by (simp add: setValue_def)
  show "LookupBase name (setValue name v x cf) = Some (v\<lparr>cv_value := x\<rparr>)"
    using assms LookupBase_put [OF ok] by (auto simp: setValue_def)
  show "k \<noteq> name \<Longrightarrow> LookupBase k (setValue name v x cf) = LookupBase k cf"
    using LookupBase_put [OF ok] same by (simp add: setValue_def)
  show "cf_calls (setValue name v x cf) =
      cf_calls cf @ (if x = cv_value v then [] else map (\<lambda>(_, c). (c, cv_value v, x)) (cv_cbs v))"
    by (simp add: setValue_def put_var_def)
qed

text \<open>The members of a document: the nodes reached by a path of keys all of whose characters are allowed.\<close>

inductive node_at :: "yaml \<Rightarrow> yaml list \<Rightarrow> yaml \<Rightarrow> bool" where
  here: "node_at n [] n"
| there: "(k, n) \<in> set kvs \<Longrightarrow> node_at n path m \<Longrightarrow> node_at (YMap kvs) (k # path) m"

inductive_simps node_at_Nil [simp]: "node_at n [] m"
inductive_simps node_at_Cons: "node_at n (k # path) m"

lemma sub_key_chars: "list_all name_char (sub_key pre k) \<longleftrightarrow> list_all name_char pre \<and> list_all name_char (Scalar k)"
  by (auto simp: sub_key_def name_char_def)

lemma foldl_sub_key_chars:
  "list_all name_char (foldl sub_key pre path) \<longleftrightarrow> list_all name_char pre \<and> (\<forall>k \<in> set path. list_all name_char (Scalar k))"
  by (induction path arbitrary: pre) (auto simp: sub_key_chars)

lemma members_iff:
  "(key, m) \<in> set (ListAllMember pre n) \<longleftrightarrow>
     (\<exists>path. node_at n path m \<and> key = foldl sub_key pre path \<and> list_all name_char key)"
proof (induction pre n rule: ListAllMember.induct)
  case (1 pre kvs)
  show ?case (is "?l \<longleftrightarrow> (\<exists>path. ?r path)")
  proof (cases "list_all name_char pre")
    case False
    then show ?thesis by (auto simp: foldl_sub_key_chars)
  next
    case True
    have IH: "(key, m) \<in> set (ListAllMember (sub_key pre k) n) \<longleftrightarrow>
      (\<exists>path. node_at n path m \<and> key = foldl sub_key (sub_key pre k) path \<and> list_all name_char key)" if "(k, n) \<in> set kvs" for k n
      using 1 that True by blast
    have "(\<exists>path. ?r path) \<longleftrightarrow> ?r [] \<or> (\<exists>k path. ?r (k # path))" by (metis list.exhaust)
    also have "\<dots> \<longleftrightarrow> ?l" using True IH by (force simp: node_at_Cons)
    finally show ?thesis by blast
  qed
qed (auto elim: node_at.cases intro!: exI [of _ "[]"])

text \<open>The value a member of a document gives to a variable of type \<open>tid\<close> registered under \<open>k\<close>.\<close>

definition member_value :: "(yaml \<Rightarrow> string) \<Rightarrow> 'v casts \<Rightarrow> string \<Rightarrow> nat \<Rightarrow> string \<times> yaml \<Rightarrow> 'v option" where
  "member_value dump casts k tid = (\<lambda>(key, n).
     if key \<noteq> [] \<and> lower key = k then from_str casts tid (node_text dump n) else None)"

lemma load_member_var:
  assumes "cf_ok cf"
  shows "cf_ok (load_member dump casts m cf)"
    and "LookupBase k cf = None \<Longrightarrow> LookupBase k (load_member dump casts m cf) = None"
    and "LookupBase k cf = Some v \<Longrightarrow> LookupBase k (load_member dump casts m cf) =
      Some (v\<lparr>cv_value := case member_value dump casts k (cv_type v) m of Some x \<Rightarrow> x | None \<Rightarrow> cv_value v\<rparr>)"
proof -
  obtain key n where m: "m = (key, n)" by (cases m)
  note d = load_member_def fromString_def member_value_def m
  show "cf_ok (load_member dump casts m cf)"
    using assms by (auto simp: d setValue_exact(1) split: option.split)
  show "LookupBase k (load_member dump casts m cf) = None" if "LookupBase k cf = None"
  proof (cases "LookupBase (lower key) cf")
    case (Some u)
    then have "k \<noteq> lower key" using that by auto
    then show ?thesis using that Some setValue_exact(3) [OF assms Some] by (auto simp: d split: option.split)
  qed (use that in \<open>simp add: d\<close>)
  show "LookupBase k (load_member dump casts m cf) =
      Some (v\<lparr>cv_value := case member_value dump casts k (cv_type v) m of Some x \<Rightarrow> x | None \<Rightarrow> cv_value v\<rparr>)"
    if k: "LookupBase k cf = Some v"
  proof (cases "lower key = k")
    case True
    then show ?thesis using k setValue_exact(2) [OF assms k] by (auto simp: d split: option.split)
  next
    case False
    then show ?thesis
      using k setValue_exact(3) [OF assms] by (cases "LookupBase (lower key) cf") (auto simp: d split: option.split)
  qed
qed

lemma map_filter_Cons: "List.map_filter f (x # xs) = (case f x of Some y \<Rightarrow> y # List.map_filter f xs | None \<Rightarrow> List.map_filter f xs)"
  by (auto simp: List.map_filter_def split: option.split)

lemma load_members_var:
  assumes "cf_ok cf" and "LookupBase k cf = Some v"
  shows "cf_ok (fold (load_member dump casts) ms cf) \<and> LookupBase k (fold (load_member dump casts) ms cf) =
    Some (v\<lparr>cv_value := last (cv_value v # List.map_filter (member_value dump casts k (cv_type v)) ms)\<rparr>)"
  using assms
proof (induction ms arbitrary: cf v)
  case Nil
  then show ?case by (simp add: List.map_filter_def)
next
  case (Cons m ms)
  note one = load_member_var [OF Cons.prems(1)]
  show ?case
    using Cons.IH [OF one(1) one(3) [OF Cons.prems(2)], of dump casts m]
    by (auto simp: map_filter_Cons split: option.splits)
qed

lemma load_members_none:
  assumes "cf_ok cf" and "LookupBase k cf = None"
  shows "LookupBase k (fold (load_member dump casts) ms cf) = None"
  using assms by (induction ms arbitrary: cf) (simp_all add: load_member_var)

lemma all_some_map: "(\<forall>x \<in> set xs. f x = Some (g x)) \<Longrightarrow> all_some (map f xs) = Some (map g xs)"
  by (induction xs) auto

lemma map_set_above: "\<forall>(k', v') \<in> set m. str_less k' k \<Longrightarrow> map_set str_less k v m = m @ [(k, v)] \<and> map_find str_less k m = None"
  by (induction m) auto

lemma insert_sorted:
  "map_sorted str_less (acc @ m) \<Longrightarrow>
   foldl (\<lambda>m (k, v). if map_find str_less k m = None then map_set str_less k v m else m) acc m = acc @ m"
proof (induction m arbitrary: acc)
  case (Cons p m)
  obtain k v where p: "p = (k, v)" by (cases p)
  have "\<forall>(k', v') \<in> set acc. str_less k' k" using Cons.prems p by (auto simp: map_sorted_def sorted_wrt_append)
  then show ?case using Cons.IH [of "acc @ [p]"] Cons.prems map_set_above [of acc k v] p by simp
qed simp

lemma first_inserted: "foldl (\<lambda>m (k, v). if m k = None then m(k := Some v) else m) m0 kvs = map_of kvs ++ m0"
proof (induction kvs arbitrary: m0)
  case (Cons p kvs)
  obtain k v where "p = (k, v)" by (cases p)
  then show ?case using Cons.IH by (auto simp: fun_eq_iff map_add_def split: option.split)
qed simp

section \<open>Properties\<close>

text \<open>Assigning a configuration variable from text: text that cannot be converted changes nothing and returns false;
  otherwise the variable has the converted value, every listener is called once, in the order of registration numbers, with
  the old and the new value if and only if they differ, and no other variable changes.\<close>

theorem fromString_exact:
  assumes "cf_ok cf" and "LookupBase name cf = Some v"
  shows "case from_str casts (cv_type v) s of
      None \<Rightarrow> fromString casts name v s cf = (False, cf)
    | Some x \<Rightarrow> \<exists>cf'. fromString casts name v s cf = (True, cf') \<and> cf_ok cf' \<and>
        LookupBase name cf' = Some (v\<lparr>cv_value := x\<rparr>) \<and> (\<forall>k. k \<noteq> name \<longrightarrow> LookupBase k cf' = LookupBase k cf) \<and>
        cf_calls cf' = cf_calls cf @ (if x = cv_value v then [] else map (\<lambda>(_, c). (c, cv_value v, x)) (cv_cbs v)) \<and>
        sorted_wrt (<) (map fst (cv_cbs v))"
  using setValue_exact [OF assms] cf_ok_var [OF assms]
  by (auto simp: fromString_def map_sorted_def split: option.split)

definition demo_casts :: "nat casts" where
  "demo_casts = \<lparr>from_str = (\<lambda>_ s. if s = [] then None else Some (length s)), to_str = (\<lambda>_ n. Some (replicate n (CHR ''x'')))\<rparr>"

definition demo_config :: "(nat, string) config" where
  "demo_config = \<lparr>cf_datas = [(''tcp.port'', \<lparr>cv_name = ''tcp.port'', cv_description = [], cv_type = 0, cv_value = 1,
     cv_cbs = [(1, ''first''), (2, ''second'')]\<rparr>)], cf_fun_id = (\<lambda>_. 2), cf_calls = [], cf_mtimes = (\<lambda>_. 0)\<rparr>"

lemma demo_config_ok: "cf_ok demo_config"
  by (simp add: cf_ok_def demo_config_def)

lemma demo_config_lookup: "LookupBase ''tcp.port'' demo_config = Some \<lparr>cv_name = ''tcp.port'', cv_description = [], cv_type = 0,
    cv_value = 1, cv_cbs = [(1, ''first''), (2, ''second'')]\<rparr>"
  by (simp add: LookupBase_def demo_config_def str_less_def)

theorem fromString_exact_witness:
  "\<exists>cf'. fromString demo_casts ''tcp.port'' \<lparr>cv_name = ''tcp.port'', cv_description = [], cv_type = 0, cv_value = 1,
     cv_cbs = [(1, ''first''), (2, ''second'')]\<rparr> ''abc'' demo_config = (True, cf') \<and>
   cf_calls cf' = [(''first'', 1, 3), (''second'', 1, 3)]"
  using fromString_exact [OF demo_config_ok demo_config_lookup, of demo_casts "''abc''"]
  by (auto simp: demo_casts_def demo_config_def)

text \<open>C38. The members of a YAML document that the configuration sees are exactly the nodes reached by a path of map keys
  whose characters are all allowed, each under its keys joined by dots.\<close>

theorem yaml_members_exact:
  "(key, m) \<in> set (ListAllMember [] root) \<longleftrightarrow>
     (\<exists>path. node_at root path m \<and> key = foldl sub_key [] path \<and> (\<forall>k \<in> set path. list_all name_char (Scalar k)))"
  unfolding members_iff using foldl_sub_key_chars [of "[]"] by auto

theorem yaml_members_exact_witness:
  "(''tcp.port'', YScalar ''80'') \<in> set (ListAllMember [] (YMap [(YScalar ''tcp'', YMap [(YScalar ''port'', YScalar ''80'')])]))"
proof -
  have "node_at (YMap [(YScalar ''tcp'', YMap [(YScalar ''port'', YScalar ''80'')])]) [YScalar ''tcp'', YScalar ''port''] (YScalar ''80'')"
    by (simp add: node_at_Cons)
  moreover have "''tcp.port'' = foldl sub_key [] [YScalar ''tcp'', YScalar ''port'']" by (simp add: sub_key_def)
  ultimately show ?thesis unfolding yaml_members_exact by (intro exI conjI) (assumption, assumption, simp add: name_char_def)
qed

text \<open>Loading a document gives every registered variable the value of the last member under its name that can be
  converted to its type, and leaves it alone if there is none; nothing is registered by loading.\<close>

theorem load_yaml_exact:
  assumes "cf_ok cf"
  shows "cf_ok (LoadFromYaml dump casts root cf) \<and>
    LookupBase k (LoadFromYaml dump casts root cf) = map_option (\<lambda>v. v\<lparr>cv_value := last (cv_value v #
      List.map_filter (\<lambda>(key, n). if key \<noteq> [] \<and> lower key = k then from_str casts (cv_type v) (node_text dump n) else None)
        (ListAllMember [] root))\<rparr>) (LookupBase k cf)"
proof -
  have ok: "cf_ok (LoadFromYaml dump casts root cf)"
    unfolding LoadFromYaml_def
    by (rule fold_invariant [where Q = "\<lambda>_. True" and P = cf_ok]) (use assms load_member_var(1) in auto)
  show ?thesis
    using ok load_members_var [OF assms, of k] load_members_none [OF assms, of k]
    by (cases "LookupBase k cf") (simp_all add: LoadFromYaml_def member_value_def)
qed

theorem load_yaml_exact_witness:
  "\<exists>v. LookupBase ''tcp.port'' (LoadFromYaml (\<lambda>_. []) demo_casts (YMap [(YScalar ''tcp'', YMap [(YScalar ''port'', YScalar ''8080'')])]) demo_config) =
    Some v \<and> cv_value v = 4"
proof -
  have m: "ListAllMember [] (YMap [(YScalar ''tcp'', YMap [(YScalar ''port'', YScalar ''8080'')])]) =
    [([], YMap [(YScalar ''tcp'', YMap [(YScalar ''port'', YScalar ''8080'')])]), (''tcp'', YMap [(YScalar ''port'', YScalar ''8080'')]),
     (''tcp.port'', YScalar ''8080'')]"
    by (simp add: sub_key_def name_char_def)
  have l: "lower ''tcp.port'' = ''tcp.port''" "lower ''tcp'' = ''tcp''" by code_simp+
  show ?thesis
    using load_yaml_exact [OF demo_config_ok, of "\<lambda>_. []" demo_casts
        "YMap [(YScalar ''tcp'', YMap [(YScalar ''port'', YScalar ''8080'')])]" "''tcp.port''"]
    unfolding m demo_config_lookup by (simp add: map_filter_Cons l demo_casts_def node_text_def)
qed

text \<open>The YAML text of a vector or of a map reads back as the same container, for any YAML library whose parser inverts
  its printer and element conversions that survive it.\<close>

theorem container_roundtrip:
  assumes "\<And>n. load (dump n) = Some n" and "\<And>x. x \<in> X \<Longrightarrow> \<exists>t n. to x = Some t \<and> load t = Some n \<and> conv (dump n) = Some x"
    and "set xs \<subseteq> X" and "snd ` set m \<subseteq> X" and "map_sorted str_less m"
  shows "Option.bind (vector_to_string load dump to xs) (vector_from_string load dump map_elems conv) = Some xs \<and>
    Option.bind (map_to_string load dump to m) (map_from_string load dump conv) = Some m \<and>
    Option.bind (list_to_string load dump to xs) (list_from_string load dump map_elems conv) = Some xs \<and>
    Option.bind (set_to_string load dump to xs) (set_from_string load dump map_elems conv) = Some (set xs) \<and>
    Option.bind (unordered_map_to_string load dump to m) (unordered_map_from_string load dump conv) = Some (map_of m)"
proof -
  define N where "N x = the (Option.bind (to x) load)" for x
  have N: "Option.bind (to x) load = Some (N x)" "conv (dump (N x)) = Some x" if "x \<in> X" for x
    using assms(2) [OF that] by (auto simp: N_def)
  have "all_some (map (\<lambda>x. Option.bind (to x) load) xs) = Some (map N xs)"
    using N assms(3) by (intro all_some_map) auto
  moreover have "all_some (map (\<lambda>x. conv (dump (N x))) xs) = Some (map (\<lambda>x. x) xs)"
    using N assms(3) by (intro all_some_map) auto
  ultimately have vec: "Option.bind (vector_to_string load dump to xs) (vector_from_string load dump map_elems conv) = Some xs"
      "Option.bind (list_to_string load dump to xs) (list_from_string load dump map_elems conv) = Some xs"
      "Option.bind (set_to_string load dump to xs) (set_from_string load dump map_elems conv) = Some (set xs)"
    using assms(1) by (simp_all add: vector_to_string_def vector_from_string_def list_to_string_def list_from_string_def
        set_to_string_def set_from_string_def comp_def union_set_fold [symmetric])
  have "all_some (map (\<lambda>(k, v). map_option (Pair (YScalar k)) (Option.bind (to v) load)) m) =
    Some (map (\<lambda>(k, v). (YScalar k, N v)) m)"
    using N assms(4) by (intro all_some_map) auto
  moreover have "all_some (map (\<lambda>(k, v). map_option (Pair (Scalar k)) (conv (dump v))) (map (\<lambda>(k, v). (YScalar k, N v)) m)) =
    Some (map (\<lambda>p. p) m)"
    unfolding map_map using N assms(4) by (intro all_some_map) auto
  ultimately have "Option.bind (map_to_string load dump to m) (map_from_string load dump conv) = Some m"
    "Option.bind (unordered_map_to_string load dump to m) (unordered_map_from_string load dump conv) = Some (map_of m)"
    using assms(1) insert_sorted [of "[]" m] first_inserted [of Map.empty m] assms(5)
    by (simp_all add: map_to_string_def map_from_string_def unordered_map_to_string_def unordered_map_from_string_def)
  then show ?thesis using vec by blast
qed

definition demo_dump :: "yaml \<Rightarrow> string" where
  "demo_dump n = replicate (to_nat n) (CHR ''x'')"

definition demo_load :: "string \<Rightarrow> yaml option" where
  "demo_load s = Some (from_nat (length s))"

theorem container_roundtrip_witness:
  "Option.bind (vector_to_string demo_load demo_dump (\<lambda>x. Some (demo_dump (YScalar x))) [''b'', ''a''])
     (vector_from_string demo_load demo_dump (\<lambda>_. []) (\<lambda>s. map_option Scalar (demo_load s))) = Some [''b'', ''a''] \<and>
   Option.bind (map_to_string demo_load demo_dump (\<lambda>x. Some (demo_dump (YScalar x))) [(''k'', ''v'')])
     (map_from_string demo_load demo_dump (\<lambda>s. map_option Scalar (demo_load s))) = Some [(''k'', ''v'')]"
proof -
  have r: "demo_load (demo_dump n) = Some n" for n by (simp add: demo_load_def demo_dump_def)
  show ?thesis
    using container_roundtrip [where X = UNIV and load = demo_load and dump = demo_dump and to = "\<lambda>x. Some (demo_dump (YScalar x))"
        and conv = "\<lambda>s. map_option Scalar (demo_load s)" and map_elems = "\<lambda>_. []" and xs = "[''b'', ''a'']" and m = "[(''k'', ''v'')]"]
    by (simp add: r)
qed

end
