(* ===== verification/LogConfig.thy ===== *)
theory LogConfig
  imports Config Logger
begin

text \<open>
  The YAML side of \<^verbatim>\<open>src/cxk/logger.cpp\<close>: conversion of sets of logger definitions from and to text, and the
  \<^verbatim>\<open>toYamlString\<close> functions. The YAML library is a record of functions; \<open>yaml_laws\<close> states what is relied on: the
  parser inverts the printer, a sequence has its elements, a map the first value under a key, a scalar its text.
\<close>

datatype lookup = Throws | Undefined | Defined yaml

record yaml_lib =
  yl_load :: "string \<Rightarrow> yaml option"
  yl_dump :: "yaml \<Rightarrow> string"
  yl_elems :: "yaml \<Rightarrow> yaml list option"
  yl_index :: "yaml \<Rightarrow> string \<Rightarrow> lookup"
  yl_as :: "yaml \<Rightarrow> string option"

definition yaml_laws :: "yaml_lib \<Rightarrow> bool" where
  "yaml_laws L \<longleftrightarrow> (\<forall>n. yl_load L (yl_dump L n) = Some n) \<and> (\<forall>ns. yl_elems L (YSeq ns) = Some ns) \<and> yl_elems L YNull = Some [] \<and>
     (\<forall>kvs k. yl_index L (YMap kvs) k = (case find (\<lambda>(k', _). k' = YScalar k) kvs of Some (_, v) \<Rightarrow> Defined v | None \<Rightarrow> Undefined)) \<and>
     (\<forall>s. yl_as L (YScalar s) = Some s)"

section \<open>From text\<close>

text \<open>\<open>opt_field\<close> is \<^verbatim>\<open>n[k].IsDefined() ? n[k].as<std::string>() : dflt\<close>; \<open>None\<close> is an exception.\<close>

definition opt_field :: "yaml_lib \<Rightarrow> yaml \<Rightarrow> string \<Rightarrow> 'a \<Rightarrow> (string \<Rightarrow> 'a) \<Rightarrow> 'a option" where
  "opt_field L n k dflt f = (case yl_index L n k of
     Throws \<Rightarrow> None | Undefined \<Rightarrow> Some dflt | Defined v \<Rightarrow> map_option f (yl_as L v))"

text \<open>One element of \<^verbatim>\<open>n["appenders"]\<close>: \<open>Some None\<close> when it is skipped.\<close>

definition appender_of_node :: "yaml_lib \<Rightarrow> yaml \<Rightarrow> log_appender_define option option" where
  "appender_of_node L a =
     Option.bind (opt_field L a ''type'' None Some) (\<lambda>ty. case ty of
       None \<Rightarrow> Some None
     | Some ty \<Rightarrow>
         if ty = ''FileLogAppender'' then
           Option.bind (opt_field L a ''file'' None Some) (\<lambda>fl. case fl of
             None \<Rightarrow> Some None
           | Some fl \<Rightarrow> Option.bind (opt_field L a ''formatter'' [] (\<lambda>s. s)) (\<lambda>fmt.
               Some (Some \<lparr>ad_type = 1, ad_level = UNKONWING, ad_formatter = fmt, ad_file = fl\<rparr>)))
         else if ty = ''StdoutLogAppender'' then
           Some (Some \<lparr>ad_type = 2, ad_level = UNKONWING, ad_formatter = [], ad_file = []\<rparr>)
         else Some None)"

definition keep :: "'a option list \<Rightarrow> 'a list" where
  "keep xs = map the (filter (\<lambda>x. x \<noteq> None) xs)"

definition appenders_of_node :: "yaml_lib \<Rightarrow> yaml \<Rightarrow> log_appender_define list option" where
  "appenders_of_node L n =
     (case yl_index L n ''appenders'' of
        Throws \<Rightarrow> None
      | Undefined \<Rightarrow> Some []
      | Defined v \<Rightarrow> Option.bind (yl_elems L v) (\<lambda>as. map_option keep (all_some (map (appender_of_node L) as))))"

definition define_of_node :: "yaml_lib \<Rightarrow> yaml \<Rightarrow> log_define option option" where
  "define_of_node L n =
     Option.bind (opt_field L n ''name'' None Some) (\<lambda>nm. case nm of
       None \<Rightarrow> Some None
     | Some nm \<Rightarrow>
         Option.bind (opt_field L n ''level'' [] (\<lambda>s. s)) (\<lambda>lv.
         Option.bind (opt_field L n ''formatter'' [] (\<lambda>s. s)) (\<lambda>fmt.
         Option.bind (appenders_of_node L n) (\<lambda>as.
           Some (Some \<lparr>ld_name = nm, ld_level = LogLevel_FromString lv, ld_formatter = fmt, ld_appenders = as\<rparr>)))))"

text \<open>\<^verbatim>\<open>std::set<LogDefine>::insert\<close>: ordered by name, an equal name is kept.\<close>

fun define_insert :: "log_define \<Rightarrow> log_define list \<Rightarrow> log_define list" where
  "define_insert d [] = [d]"
| "define_insert d (e # es) =
     (if str_less (ld_name e) (ld_name d) then e # define_insert d es
      else if str_less (ld_name d) (ld_name e) then d # e # es else e # es)"

definition defines_from_string :: "yaml_lib \<Rightarrow> string \<Rightarrow> log_define list option" where
  "defines_from_string L s =
     Option.bind (yl_load L s) (\<lambda>n. Option.bind (yl_elems L n) (\<lambda>ns.
       map_option (\<lambda>ds. foldl (\<lambda>es d. define_insert d es) [] (keep ds)) (all_some (map (define_of_node L) ns))))"

section \<open>To text\<close>

definition level_field :: "level \<Rightarrow> (yaml \<times> yaml) list" where
  "level_field lv = (if lv \<noteq> UNKONWING then [(YScalar ''level'', YScalar (LogLevel_ToString lv))] else [])"

definition node_of_appender :: "log_appender_define \<Rightarrow> yaml" where
  "node_of_appender a =
     (let kvs = (if ad_type a = 1 then [(YScalar ''type'', YScalar ''FileLogAppender''), (YScalar ''file'', YScalar (ad_file a))]
                 else if ad_type a = 2 then [(YScalar ''type'', YScalar ''StdoutLogAppender'')] else [])
            @ level_field (ad_level a)
            @ (if ad_formatter a \<noteq> [] then [(YScalar ''formatter'', YScalar (ad_formatter a))] else [])
      in if kvs = [] then YNull else YMap kvs)"

text \<open>The formatter of a logger is written if it is empty.\<close>

definition node_of_define :: "log_define \<Rightarrow> yaml" where
  "node_of_define d = YMap ([(YScalar ''name'', YScalar (ld_name d))] @ level_field (ld_level d)
     @ (if ld_formatter d = [] then [(YScalar ''formatter'', YScalar (ld_formatter d))] else [])
     @ (if ld_appenders d = [] then [] else [(YScalar ''appenders'', YSeq (map node_of_appender (ld_appenders d)))]))"

definition defines_to_string :: "yaml_lib \<Rightarrow> log_define list \<Rightarrow> string" where
  "defines_to_string L ds = yl_dump L (if ds = [] then YNull else YSeq (map node_of_define ds))"

definition appender_toYamlString :: "yaml_lib \<Rightarrow> appender \<Rightarrow> string" where
  "appender_toYamlString L a =
     yl_dump L (YMap ((case ap_kind a of
          StdOutAppender \<Rightarrow> [(YScalar ''type'', YScalar ''StdoutLogAppender'')]
        | FileAppender f \<Rightarrow> [(YScalar ''type'', YScalar ''FileLogAppender''), (YScalar ''file'', YScalar f)])
        @ level_field (ap_level a)
        @ (case ap_format a of Some f \<Rightarrow> if ap_hasFormat a then [(YScalar ''formatter'', YScalar (lf_pattern f))] else [] | None \<Rightarrow> [])))"

definition logger_toYamlString :: "yaml_lib \<Rightarrow> log_world \<Rightarrow> logger \<Rightarrow> string option" where
  "logger_toYamlString L w lg =
     Option.bind (all_some (map (\<lambda>a. yl_load L (appender_toYamlString L (lw_appenders w ! a))) (lg_appenders lg))) (\<lambda>as.
       Some (yl_dump L (YMap ([(YScalar ''name'', YScalar (lg_name lg))] @ level_field (lg_level lg)
         @ (case lg_format lg of Some f \<Rightarrow> [(YScalar ''formatter'', YScalar (lf_pattern f))] | None \<Rightarrow> [])
         @ (if as = [] then [] else [(YScalar ''appenders'', YSeq as)])))))"

text \<open>The manager lists its loggers in the order of their names, which is the argument.\<close>

definition manager_toYamlString :: "yaml_lib \<Rightarrow> log_world \<Rightarrow> nat list \<Rightarrow> string option" where
  "manager_toYamlString L w ls =
     Option.bind (all_some (map (\<lambda>l. Option.bind (logger_toYamlString L w (lw_loggers w ! l)) (yl_load L)) ls)) (\<lambda>ns.
       Some (yl_dump L (if ns = [] then YNull else YSeq ns)))"

section \<open>What survives\<close>

definition read_back_appender :: "log_appender_define \<Rightarrow> log_appender_define" where
  "read_back_appender a = \<lparr>ad_type = ad_type a, ad_level = UNKONWING,
     ad_formatter = (if ad_type a = 1 then ad_formatter a else []), ad_file = (if ad_type a = 1 then ad_file a else [])\<rparr>"

definition read_back :: "log_define \<Rightarrow> log_define" where
  "read_back d = \<lparr>ld_name = ld_name d, ld_level = UNKONWING, ld_formatter = [], ld_appenders = map read_back_appender (ld_appenders d)\<rparr>"

lemma FromString_ToString: "LogLevel_FromString (LogLevel_ToString lv) = UNKONWING"
  by (simp add: LogLevel_FromString_def LogLevel_ToString_def level_defs)

lemma opt_field_map:
  assumes "yaml_laws L"
  shows "opt_field L (YMap kvs) k dflt f =
    (case find (\<lambda>(k', _). k' = YScalar k) kvs of Some (_, v) \<Rightarrow> map_option f (yl_as L v) | None \<Rightarrow> Some dflt)"
  using assms by (auto simp: opt_field_def yaml_laws_def split: option.split)

lemma as_scalar: "yaml_laws L \<Longrightarrow> yl_as L (YScalar s) = Some s"
  by (simp add: yaml_laws_def)

lemma appender_read_back:
  assumes "yaml_laws L" and "ad_type a = 1 \<or> ad_type a = 2"
  shows "appender_of_node L (node_of_appender a) = Some (Some (read_back_appender a))"
  using assms(2)
  by (auto simp: appender_of_node_def node_of_appender_def read_back_appender_def level_field_def Let_def
      opt_field_map [OF assms(1)] as_scalar [OF assms(1)])

lemma keep_Some: "keep (map (\<lambda>x. Some (f x)) xs) = map f xs"
  by (simp add: keep_def comp_def)

lemma define_read_back:
  assumes "yaml_laws L" and "\<forall>a \<in> set (ld_appenders d). ad_type a = 1 \<or> ad_type a = 2"
  shows "define_of_node L (node_of_define d) = Some (Some (read_back d))"
proof -
  have "all_some (map (\<lambda>a. appender_of_node L (node_of_appender a)) (ld_appenders d)) =
    Some (map (\<lambda>a. Some (read_back_appender a)) (ld_appenders d))"
    using assms appender_read_back by (intro all_some_map) auto
  then have as: "appenders_of_node L (node_of_define d) = Some (map read_back_appender (ld_appenders d))"
    using assms(1)
    by (auto simp: appenders_of_node_def node_of_define_def level_field_def yaml_laws_def comp_def keep_Some)
  have "opt_field L (node_of_define d) ''name'' None Some = Some (Some (ld_name d))"
    "opt_field L (node_of_define d) ''formatter'' [] (\<lambda>s. s) = Some []"
    "opt_field L (node_of_define d) ''level'' [] (\<lambda>s. s) = Some (if ld_level d = UNKONWING then [] else LogLevel_ToString (ld_level d))"
    by (auto simp: node_of_define_def level_field_def opt_field_map [OF assms(1)] as_scalar [OF assms(1)])
  then show ?thesis
    using as by (simp add: define_of_node_def read_back_def FromString_ToString)
      (simp add: LogLevel_FromString_def)
qed

lemma define_insert_above: "\<forall>e \<in> set es. str_less (ld_name e) (ld_name d) \<Longrightarrow> define_insert d es = es @ [d]"
  by (induction es) auto

lemma define_insert_sorted:
  "sorted_wrt (\<lambda>a b. str_less (ld_name a) (ld_name b)) (es @ ds) \<Longrightarrow> foldl (\<lambda>es d. define_insert d es) es ds = es @ ds"
proof (induction ds arbitrary: es)
  case (Cons d ds)
  then show ?case using define_insert_above [of es d] Cons.IH [of "es @ [d]"] by (simp add: sorted_wrt_append)
qed simp

section \<open>Properties\<close>

text \<open>Writing logger definitions as YAML and reading them back keeps their names, the kinds of their appenders, the
  files and the formatters of file appenders, and loses all else: every level comes back as unknown (names of levels are
  written in capitals and read in small letters), and so do the formatters of loggers, which are written only if empty.\<close>

theorem log_defines_read_back:
  assumes "yaml_laws L" and "sorted_wrt (\<lambda>a b. str_less (ld_name a) (ld_name b)) ds"
    and "\<forall>d \<in> set ds. \<forall>a \<in> set (ld_appenders d). ad_type a = 1 \<or> ad_type a = 2"
  shows "defines_from_string L (defines_to_string L ds) = Some (map read_back ds)"
proof -
  have "all_some (map (\<lambda>d. define_of_node L (node_of_define d)) ds) = Some (map (\<lambda>d. Some (read_back d)) ds)"
    using assms define_read_back by (intro all_some_map) auto
  moreover have "foldl (\<lambda>es d. define_insert d es) [] (map read_back ds) = map read_back ds"
    using define_insert_sorted [of "[]" "map read_back ds"] assms(2) by (simp add: sorted_wrt_map read_back_def)
  ultimately show ?thesis
    using assms(1)
    by (cases ds) (auto simp: defines_from_string_def defines_to_string_def yaml_laws_def comp_def keep_Some keep_def)
qed

definition demo_lib :: yaml_lib where
  "demo_lib = \<lparr>yl_load = demo_load, yl_dump = demo_dump,
     yl_elems = (\<lambda>n. case n of YSeq ns \<Rightarrow> Some ns | YNull \<Rightarrow> Some [] | _ \<Rightarrow> None),
     yl_index = (\<lambda>n k. case n of YMap kvs \<Rightarrow> (case find (\<lambda>(k', _). k' = YScalar k) kvs of Some (_, v) \<Rightarrow> Defined v | None \<Rightarrow> Undefined)
       | _ \<Rightarrow> Throws),
     yl_as = (\<lambda>n. case n of YScalar s \<Rightarrow> Some s | _ \<Rightarrow> None)\<rparr>"

theorem log_defines_read_back_witness:
  "yaml_laws demo_lib \<and>
   defines_from_string demo_lib (defines_to_string demo_lib
     [\<lparr>ld_name = ''http'', ld_level = WARN, ld_formatter = ''%m'', ld_appenders = []\<rparr>]) =
   Some [\<lparr>ld_name = ''http'', ld_level = UNKONWING, ld_formatter = [], ld_appenders = []\<rparr>]"
proof -
  have "yaml_laws demo_lib" by (simp add: yaml_laws_def demo_lib_def demo_load_def demo_dump_def)
  then show ?thesis
    using log_defines_read_back [of demo_lib "[\<lparr>ld_name = ''http'', ld_level = WARN, ld_formatter = ''%m'', ld_appenders = []\<rparr>]"]
    by (simp add: read_back_def)
qed

end
