(* ===== verification/Hook.thy ===== *)
theory Hook
  imports FdManager IOManager
begin

text \<open>
  \<^verbatim>\<open>src/cxk/hook.cpp\<close>: the system calls that suspend the calling fiber instead of blocking its thread. The state joins
  the descriptor contexts, the thread's I/O manager with its timers, \<^verbatim>\<open>errno\<close>, the \<^verbatim>\<open>timer_info\<close> objects and the rest of
  the world, on which the original functions act (parameters that return result, \<^verbatim>\<open>errno\<close> and world). What happens between
  \<^verbatim>\<open>YieldToHold\<close> and the moment the fiber runs again is an argument too: one \<open>pause\<close> per suspension. A call that is still
  suspended or interrupted after the given pauses and interruptions is \<open>Undef Diverges\<close>.
\<close>

section \<open>State\<close>

datatype hook_cb = IoTimeout nat int u32 | WakeFiber nat int

record 'w hook =
  t_hook_enable :: bool
  h_fds :: fd_state
  h_iom :: "hook_cb iomanager option"
  h_cancelled :: "nat \<Rightarrow> int"
  h_errno :: int
  s_connect_timeout :: u64
  h_world :: 'w

type_synonym 'w origin = "int \<Rightarrow> 'w \<Rightarrow> int \<times> int \<times> 'w"

record caller =
  c_cur :: "nat option"
  c_fiber :: nat
  c_state :: fstate

text \<open>One suspension: the clock and the address \<^verbatim>\<open>new\<close> returns for the timer, the answers of \<^verbatim>\<open>epoll_ctl\<close>, and what others do
  to the state while the fiber waits.\<close>

record 'w pause =
  p_now :: u64
  p_addr :: "hook_cb timer_manager \<Rightarrow> nat"
  p_ctl :: "ctl_op \<Rightarrow> nat \<Rightarrow> u32 \<Rightarrow> bool"
  p_during :: "'w hook \<Rightarrow> 'w hook"

definition EINTR :: int where "EINTR = 4"
definition EBADF :: int where "EBADF = 9"
definition EAGAIN :: int where "EAGAIN = 11"
definition ETIMEDOUT :: int where "ETIMEDOUT = 110"
definition EINPROGRESS :: int where "EINPROGRESS = 115"

definition call :: "'w origin \<Rightarrow> 'w hook \<Rightarrow> int \<times> 'w hook" where
  "call fn hs = (case fn (h_errno hs) (h_world hs) of (n, e, w) \<Rightarrow> (n, hs\<lparr>h_errno := e, h_world := w\<rparr>))"

definition is_hook_enable :: "'w hook \<Rightarrow> bool" where
  "is_hook_enable hs = t_hook_enable hs"

definition set_hook_enable :: "bool \<Rightarrow> 'w hook \<Rightarrow> 'w hook" where
  "set_hook_enable flag hs = hs\<lparr>t_hook_enable := flag\<rparr>"

section \<open>Input and output\<close>

text \<open>\<^verbatim>\<open>n = fun(...); while(n == -1 && errno == EINTR) n = fun(...)\<close>, at most \<open>fuel\<close> calls.\<close>

fun eintr_loop :: "nat \<Rightarrow> 'w origin \<Rightarrow> 'w hook \<Rightarrow> (int \<times> 'w hook) option" where
  "eintr_loop 0 fn hs = None"
| "eintr_loop (Suc fuel) fn hs =
     (case call fn hs of (n, hs) \<Rightarrow> if n = -1 \<and> h_errno hs = EINTR then eintr_loop fuel fn hs else Some (n, hs))"

text \<open>The lambda of the condition timer.\<close>

definition io_timeout :: "(ctl_op \<Rightarrow> nat \<Rightarrow> u32 \<Rightarrow> bool) \<Rightarrow> nat \<Rightarrow> int \<Rightarrow> u32 \<Rightarrow> 'w hook \<Rightarrow> ('w hook, unit) outcome" where
  "io_timeout ctl ti fd event hs =
     (if h_cancelled hs ti \<noteq> 0 then Ret () hs
      else case h_iom hs of
        None \<Rightarrow> Undef NullDeref
      | Some iom \<Rightarrow>
          (case cancelEvent ctl fd event iom of
             Ret _ iom \<Rightarrow> Ret () (hs\<lparr>h_cancelled := (h_cancelled hs)(ti := ETIMEDOUT), h_iom := Some iom\<rparr>)
           | Throw e _ \<Rightarrow> Throw e hs
           | Undef u \<Rightarrow> Undef u))"

definition start_timer :: "'w pause \<Rightarrow> u64 \<Rightarrow> nat \<Rightarrow> int \<Rightarrow> u32 \<Rightarrow> hook_cb iomanager \<Rightarrow> nat option \<times> hook_cb iomanager" where
  "start_timer e timeout ti fd event iom =
     (if timeout \<noteq> - 1 then
        let a = p_addr e (io_timers iom)
        in (Some a, iom\<lparr>io_timers := snd (addConditionTimer (p_now e) a timeout (IoTimeout ti fd event) ti False (io_timers iom))\<rparr>)
      else (None, iom))"

definition stop_timer :: "nat option \<Rightarrow> 'w hook \<Rightarrow> ('w hook, unit) outcome" where
  "stop_timer timer hs =
     (case timer of
        None \<Rightarrow> Ret () hs
      | Some a \<Rightarrow>
          (case h_iom hs of
             None \<Rightarrow> Undef NullDeref
           | Some iom \<Rightarrow>
               (case cancel a (io_timers iom) of
                  Ret _ tm \<Rightarrow> Ret () (hs\<lparr>h_iom := Some (iom\<lparr>io_timers := tm\<rparr>)\<rparr>)
                | Throw e _ \<Rightarrow> Throw e hs
                | Undef u \<Rightarrow> Undef u)))"

text \<open>From \<^verbatim>\<open>EAGAIN\<close> to the resumption: \<open>Ret True\<close> when the fiber waited and runs again, \<open>Ret False\<close> when the event could not
  be registered.\<close>

definition wait_event ::
  "caller \<Rightarrow> int \<Rightarrow> u32 \<Rightarrow> u64 \<Rightarrow> nat \<Rightarrow> 'w pause \<Rightarrow> 'w hook \<Rightarrow> ('w hook, bool) outcome" where
  "wait_event th fd event timeout ti e hs =
     (case h_iom hs of
        None \<Rightarrow> Undef NullDeref
      | Some iom \<Rightarrow>
          (case start_timer e timeout ti fd event iom of (timer, iom) \<Rightarrow>
             (case addEvent (p_ctl e) (c_cur th) (c_fiber th) (c_state th) fd event None iom of
                Undef u \<Rightarrow> Undef u
              | Throw x _ \<Rightarrow> Throw x hs
              | Ret rt iom \<Rightarrow>
                  if rt \<noteq> 0 then obind (stop_timer timer (hs\<lparr>h_iom := Some iom\<rparr>)) (\<lambda>_. Ret False)
                  else obind (stop_timer timer (p_during e (hs\<lparr>h_iom := Some iom\<rparr>))) (\<lambda>_. Ret True))))"

fun io_loop ::
  "nat \<Rightarrow> caller \<Rightarrow> int \<Rightarrow> 'w origin \<Rightarrow> u32 \<Rightarrow> u64 \<Rightarrow> nat \<Rightarrow> 'w pause list \<Rightarrow> 'w hook \<Rightarrow> ('w hook, int) outcome" where
  "io_loop fuel th fd fn event timeout ti es hs =
     (case eintr_loop fuel fn hs of
        None \<Rightarrow> Undef Diverges
      | Some (n, hs) \<Rightarrow>
          if n = -1 \<and> h_errno hs = EAGAIN then
            (case es of
               [] \<Rightarrow> Undef Diverges
             | e # es \<Rightarrow>
                 obind (wait_event th fd event timeout ti e hs) (\<lambda>resumed hs.
                   if \<not> resumed then Ret (-1) hs
                   else if h_cancelled hs ti \<noteq> 0 then Ret (-1) (hs\<lparr>h_errno := h_cancelled hs ti\<rparr>)
                   else io_loop fuel th fd fn event timeout ti es hs))
          else Ret n hs)"

declare io_loop.simps [simp del]

definition do_io ::
  "nat \<Rightarrow> caller \<Rightarrow> int \<Rightarrow> 'w origin \<Rightarrow> u32 \<Rightarrow> int \<Rightarrow> nat \<Rightarrow> 'w pause list \<Rightarrow> 'w hook \<Rightarrow> ('w hook, int) outcome" where
  "do_io fuel th fd fn event timeout_so ti es hs =
     (if \<not> t_hook_enable hs then (case call fn hs of (n, hs) \<Rightarrow> Ret n hs)
      else case fd_get fd False (h_fds hs) of
        Undef u \<Rightarrow> Undef u
      | Throw x _ \<Rightarrow> Throw x hs
      | Ret None fds \<Rightarrow> (case call fn (hs\<lparr>h_fds := fds\<rparr>) of (n, hs) \<Rightarrow> Ret n hs)
      | Ret (Some p) fds \<Rightarrow>
          let hs = hs\<lparr>h_fds := fds\<rparr>; ctx = fd_heap fds ! p in
          if m_isClosed ctx then Ret (-1) (hs\<lparr>h_errno := EBADF\<rparr>)
          else if \<not> m_isSocket ctx \<or> m_userNoblock ctx then (case call fn hs of (n, hs) \<Rightarrow> Ret n hs)
          else io_loop fuel th fd fn event (getTimeOut timeout_so ctx) ti es
                 (hs\<lparr>h_cancelled := (h_cancelled hs)(ti := 0)\<rparr>))"

section \<open>Sleeping\<close>

text \<open>The timer that wakes the fiber again, then \<^verbatim>\<open>YieldToHold\<close>.\<close>

definition sleep_for :: "caller \<Rightarrow> u64 \<Rightarrow> 'w pause \<Rightarrow> 'w hook \<Rightarrow> ('w hook, int) outcome" where
  "sleep_for th ms e hs =
     (case h_iom hs of
        None \<Rightarrow> Undef NullDeref
      | Some iom \<Rightarrow>
          Ret 0 (p_during e (hs\<lparr>h_iom := Some (iom\<lparr>io_timers :=
            snd (addTimer (p_now e) (p_addr e (io_timers iom)) ms (Cb (WakeFiber (c_fiber th) (-1))) False (io_timers iom))\<rparr>)\<rparr>)))"

definition hook_sleep :: "'w origin \<Rightarrow> caller \<Rightarrow> u32 \<Rightarrow> 'w pause \<Rightarrow> 'w hook \<Rightarrow> ('w hook, int) outcome" where
  "hook_sleep sleep_f th seconds e hs =
     (if \<not> t_hook_enable hs then (case call sleep_f hs of (n, hs) \<Rightarrow> Ret n hs)
      else sleep_for th (ucast (seconds * 1000)) e hs)"

definition hook_usleep :: "'w origin \<Rightarrow> caller \<Rightarrow> u32 \<Rightarrow> 'w pause \<Rightarrow> 'w hook \<Rightarrow> ('w hook, int) outcome" where
  "hook_usleep usleep_f th usec e hs =
     (if \<not> t_hook_enable hs then (case call usleep_f hs of (n, hs) \<Rightarrow> Ret n hs)
      else sleep_for th (ucast (usec div 1000)) e hs)"

text \<open>\<open>rem\<close> is the nanoseconds field of the second argument, \<open>None\<close> for a null pointer. The sum is converted to \<^verbatim>\<open>int\<close> and
  then to \<^verbatim>\<open>uint64_t\<close>.\<close>

definition hook_nanosleep :: "'w origin \<Rightarrow> caller \<Rightarrow> int \<Rightarrow> int option \<Rightarrow> 'w pause \<Rightarrow> 'w hook \<Rightarrow> ('w hook, int) outcome" where
  "hook_nanosleep nanosleep_f th req_sec rem e hs =
     (if \<not> t_hook_enable hs then (case call nanosleep_f hs of (n, hs) \<Rightarrow> Ret n hs)
      else case rem of
        None \<Rightarrow> Undef NullDeref
      | Some nsec \<Rightarrow> sleep_for th (scast (word_of_int (req_sec * 1000 + (if nsec < 0 then - (- nsec div 1000 div 1000) else nsec div 1000 div 1000)) :: u32)) e hs)"

section \<open>Descriptors\<close>

definition hook_get :: "int \<Rightarrow> bool \<Rightarrow> 'w hook \<Rightarrow> ('w hook, nat option) outcome" where
  "hook_get fd auto hs =
     (case fd_get fd auto (h_fds hs) of
        Ret p fds \<Rightarrow> Ret p (hs\<lparr>h_fds := fds\<rparr>) | Throw x fds \<Rightarrow> Throw x (hs\<lparr>h_fds := fds\<rparr>) | Undef u \<Rightarrow> Undef u)"

definition hook_socket :: "'w origin \<Rightarrow> 'w hook \<Rightarrow> ('w hook, int) outcome" where
  "hook_socket socket_f hs =
     (case call socket_f hs of (fd, hs) \<Rightarrow>
        if \<not> t_hook_enable hs \<or> fd = -1 then Ret fd hs else obind (hook_get fd True hs) (\<lambda>_. Ret fd))"

definition hook_accept ::
  "nat \<Rightarrow> caller \<Rightarrow> int \<Rightarrow> 'w origin \<Rightarrow> nat \<Rightarrow> 'w pause list \<Rightarrow> 'w hook \<Rightarrow> ('w hook, int) outcome" where
  "hook_accept fuel th sockfd accept_f ti es hs =
     obind (do_io fuel th sockfd accept_f READ SO_RCVTIMEO ti es hs) (\<lambda>fd hs.
       if fd \<ge> 0 then obind (hook_get fd True hs) (\<lambda>_. Ret fd) else Ret fd hs)"

definition hook_read :: "nat \<Rightarrow> caller \<Rightarrow> int \<Rightarrow> 'w origin \<Rightarrow> nat \<Rightarrow> 'w pause list \<Rightarrow> 'w hook \<Rightarrow> ('w hook, int) outcome" where
  "hook_read fuel th fd read_f ti es hs = do_io fuel th fd read_f READ SO_RCVTIMEO ti es hs"

definition hook_write :: "nat \<Rightarrow> caller \<Rightarrow> int \<Rightarrow> 'w origin \<Rightarrow> nat \<Rightarrow> 'w pause list \<Rightarrow> 'w hook \<Rightarrow> ('w hook, int) outcome" where
  "hook_write fuel th fd write_f ti es hs = do_io fuel th fd write_f WRITE SO_SNDTIMEO ti es hs"

text \<open>\<open>getsockopt\<close> for \<^verbatim>\<open>SO_ERROR\<close> returns the pending error through its argument: here the second component.\<close>

definition connect_with_timeout ::
  "'w origin \<Rightarrow> ('w \<Rightarrow> int \<times> int \<times> 'w) \<Rightarrow> caller \<Rightarrow> int \<Rightarrow> u64 \<Rightarrow> nat \<Rightarrow> 'w pause \<Rightarrow> 'w hook \<Rightarrow> ('w hook, int) outcome" where
  "connect_with_timeout connect_f getsockopt_f th fd timeout_ms ti e hs =
     (if \<not> t_hook_enable hs then (case call connect_f hs of (n, hs) \<Rightarrow> Ret n hs)
      else obind (hook_get fd False hs) (\<lambda>p hs.
        case p of
          None \<Rightarrow> Ret (-1) (hs\<lparr>h_errno := EBADF\<rparr>)
        | Some p \<Rightarrow>
            let ctx = fd_heap (h_fds hs) ! p in
            if m_isClosed ctx then Ret (-1) (hs\<lparr>h_errno := EBADF\<rparr>)
            else if \<not> m_isSocket ctx \<or> m_userNoblock ctx then (case call connect_f hs of (n, hs) \<Rightarrow> Ret n hs)
            else (case call connect_f hs of (n, hs) \<Rightarrow>
              if n = 0 then Ret 0 hs
              else if n \<noteq> -1 \<or> h_errno hs \<noteq> EINPROGRESS then Ret n hs
              else obind (wait_event th fd WRITE timeout_ms ti e (hs\<lparr>h_cancelled := (h_cancelled hs)(ti := 0)\<rparr>)) (\<lambda>resumed hs.
                if resumed \<and> h_cancelled hs ti \<noteq> 0 then Ret (-1) (hs\<lparr>h_errno := h_cancelled hs ti\<rparr>)
                else (case getsockopt_f (h_world hs) of (rt, error, w) \<Rightarrow>
                  let hs = hs\<lparr>h_world := w\<rparr> in
                  if rt = -1 then Ret (-1) hs
                  else if error = 0 then Ret 0 hs else Ret (-1) (hs\<lparr>h_errno := error\<rparr>))))))"

definition hook_connect ::
  "'w origin \<Rightarrow> ('w \<Rightarrow> int \<times> int \<times> 'w) \<Rightarrow> caller \<Rightarrow> int \<Rightarrow> nat \<Rightarrow> 'w pause \<Rightarrow> 'w hook \<Rightarrow> ('w hook, int) outcome" where
  "hook_connect connect_f getsockopt_f th fd ti e hs =
     connect_with_timeout connect_f getsockopt_f th fd (s_connect_timeout hs) ti e hs"

definition hook_close :: "'w origin \<Rightarrow> (ctl_op \<Rightarrow> nat \<Rightarrow> u32 \<Rightarrow> bool) \<Rightarrow> int \<Rightarrow> 'w hook \<Rightarrow> ('w hook, int) outcome" where
  "hook_close close_f ctl fd hs =
     (if \<not> t_hook_enable hs then (case call close_f hs of (n, hs) \<Rightarrow> Ret n hs)
      else obind (hook_get fd False hs) (\<lambda>p hs.
        obind (case p of
            None \<Rightarrow> Ret () hs
          | Some _ \<Rightarrow>
              obind (case h_iom hs of
                  None \<Rightarrow> Ret () hs
                | Some iom \<Rightarrow> (case cancelAll ctl fd iom of
                      Ret _ iom \<Rightarrow> Ret () (hs\<lparr>h_iom := Some iom\<rparr>) | Throw x _ \<Rightarrow> Throw x hs | Undef u \<Rightarrow> Undef u))
                (\<lambda>_ hs. case fd_del fd (h_fds hs) of
                    Ret _ fds \<Rightarrow> Ret () (hs\<lparr>h_fds := fds\<rparr>) | Throw x _ \<Rightarrow> Throw x hs | Undef u \<Rightarrow> Undef u))
          (\<lambda>_ hs. case call close_f hs of (n, hs) \<Rightarrow> Ret n hs)))"

text \<open>\<^verbatim>\<open>fcntl\<close> with the two commands that are not passed on unchanged. The kernel's flags are part of the descriptor state;
  \<open>fcntl_f\<close> of these commands reads and writes them, if it succeeds.\<close>

definition put_ctx :: "nat \<Rightarrow> fd_ctx \<Rightarrow> 'w hook \<Rightarrow> 'w hook" where
  "put_ctx p c hs = hs\<lparr>h_fds := (h_fds hs)\<lparr>fd_heap := (fd_heap (h_fds hs))[p := c]\<rparr>\<rparr>"

definition virtual_ctx :: "int \<Rightarrow> 'w hook \<Rightarrow> ('w hook, nat option) outcome" where
  "virtual_ctx fd hs =
     obind (hook_get fd False hs) (\<lambda>p hs.
       Ret (case p of None \<Rightarrow> None
            | Some p \<Rightarrow> let c = fd_heap (h_fds hs) ! p in if m_isClosed c \<or> \<not> m_isSocket c then None else Some p) hs)"

definition fcntl_SETFL :: "bool \<Rightarrow> int \<Rightarrow> u32 \<Rightarrow> 'w hook \<Rightarrow> ('w hook, int) outcome" where
  "fcntl_SETFL ok fd arg hs =
     obind (virtual_ctx fd hs) (\<lambda>p hs.
       let (arg, hs) = (case p of
             None \<Rightarrow> (arg, hs)
           | Some p \<Rightarrow>
               let c = fd_heap (h_fds hs) ! p;
                   hs = put_ctx p (c\<lparr>m_userNoblock := (arg AND O_NONBLOCK \<noteq> 0)\<rparr>) hs
               in (if m_sysNoblock c then arg OR O_NONBLOCK else arg AND NOT O_NONBLOCK, hs))
       in if ok then Ret 0 (hs\<lparr>h_fds := (h_fds hs)\<lparr>k_flags := (k_flags (h_fds hs))(fd := arg)\<rparr>\<rparr>) else Ret (-1) hs)"

definition fcntl_GETFL :: "int \<Rightarrow> 'w hook \<Rightarrow> ('w hook, u32) outcome" where
  "fcntl_GETFL fd hs =
     (let arg = k_flags (h_fds hs) fd in
      obind (virtual_ctx fd hs) (\<lambda>p hs.
        Ret (case p of
            None \<Rightarrow> arg
          | Some p \<Rightarrow> if m_userNoblock (fd_heap (h_fds hs) ! p) then arg OR O_NONBLOCK else arg AND NOT O_NONBLOCK) hs))"

text \<open>Every other command, and \<^verbatim>\<open>getsockopt\<close>, goes to the original function with its arguments.\<close>

definition fcntl_other :: "'w origin \<Rightarrow> 'w hook \<Rightarrow> ('w hook, int) outcome" where
  "fcntl_other fcntl_f hs = (case call fcntl_f hs of (n, hs) \<Rightarrow> Ret n hs)"

definition hook_getsockopt :: "'w origin \<Rightarrow> 'w hook \<Rightarrow> ('w hook, int) outcome" where
  "hook_getsockopt getsockopt_f hs = (case call getsockopt_f hs of (n, hs) \<Rightarrow> Ret n hs)"

text \<open>The listener of \<^verbatim>\<open>tcp.connect.timeout\<close>, also run once at start: an \<^verbatim>\<open>int\<close> stored as \<^verbatim>\<open>uint64_t\<close>.\<close>

definition set_connect_timeout :: "int \<Rightarrow> 'w hook \<Rightarrow> 'w hook" where
  "set_connect_timeout v hs = hs\<lparr>s_connect_timeout := word_of_int v\<rparr>"

definition ioctl_FIONBIO :: "'w origin \<Rightarrow> int \<Rightarrow> int \<Rightarrow> 'w hook \<Rightarrow> ('w hook, int) outcome" where
  "ioctl_FIONBIO ioctl_f fd arg hs =
     obind (virtual_ctx fd hs) (\<lambda>p hs.
       let hs = (case p of None \<Rightarrow> hs
                 | Some p \<Rightarrow> put_ctx p ((fd_heap (h_fds hs) ! p)\<lparr>m_userNoblock := (arg \<noteq> 0)\<rparr>) hs)
       in case call ioctl_f hs of (n, hs) \<Rightarrow> Ret n hs)"

definition hook_setsockopt_timeo :: "'w origin \<Rightarrow> int \<Rightarrow> int \<Rightarrow> int \<Rightarrow> int \<Rightarrow> 'w hook \<Rightarrow> ('w hook, int) outcome" where
  "hook_setsockopt_timeo setsockopt_f fd optname tv_sec tv_usec hs =
     (if \<not> t_hook_enable hs then (case call setsockopt_f hs of (n, hs) \<Rightarrow> Ret n hs)
      else obind (if optname = SO_RCVTIMEO \<or> optname = SO_SNDTIMEO then
           obind (hook_get fd False hs) (\<lambda>p hs.
             Ret () (case p of None \<Rightarrow> hs
               | Some p \<Rightarrow> put_ctx p (setTimeOut optname (word_of_int (tv_sec * 1000 + tv_usec div 1000)) (fd_heap (h_fds hs) ! p)) hs))
         else Ret () hs)
         (\<lambda>_ hs. case call setsockopt_f hs of (n, hs) \<Rightarrow> Ret n hs))"

section \<open>Lemmas\<close>

lemma eintr_loop_result:
  "eintr_loop fuel fn hs = Some (n, hs') \<Longrightarrow>
   (\<exists>e w. hs' = hs\<lparr>h_errno := e, h_world := w\<rparr>) \<and> \<not> (n = -1 \<and> h_errno hs' = EINTR)"
proof (induction fuel arbitrary: hs)
  case (Suc fuel)
  obtain m e w where c: "fn (h_errno hs) (h_world hs) = (m, e, w)" by (metis prod_cases3)
  show ?case
  proof (cases "m = -1 \<and> e = EINTR")
    case True
    then have "eintr_loop fuel fn (hs\<lparr>h_errno := e, h_world := w\<rparr>) = Some (n, hs')" using Suc.prems c by (simp add: call_def)
    from Suc.IH [OF this] show ?thesis by auto
  next
    case False
    then show ?thesis using Suc.prems c by (auto simp: call_def split: if_splits)
  qed
qed simp

lemma addEvent_timers: "addEvent ctl cur f fs fd ev cb w = Ret r w' \<Longrightarrow> io_timers w' = io_timers w"
  by (auto simp: addEvent_def contextResize_def Let_def CXK_ASSERT_def put_fd_def add_pending_def
      split: if_splits outcome.splits)

text \<open>The timers of a call, and the state it can wait in.\<close>

definition own :: "nat \<Rightarrow> int \<Rightarrow> u32 \<Rightarrow> hook_cb iomanager \<Rightarrow> nat set" where
  "own ti fd ev iom = {a. m_cb (heap (io_timers iom) a) = Some (OnTimer ti (IoTimeout ti fd ev))}"

definition quiet :: "int \<Rightarrow> u32 \<Rightarrow> hook_cb iomanager \<Rightarrow> bool" where
  "quiet fd ev iom \<longleftrightarrow> \<not> (nat fd < length (m_fdContexts iom) \<and> fc_events (m_fdContexts iom ! nat fd) AND ev \<noteq> 0)"

definition iom_ok :: "hook_cb iomanager \<Rightarrow> bool" where
  "iom_ok iom \<longleftrightarrow> io_inv iom \<and> 2 \<le> length (m_fdContexts iom) \<and> tm_inv (io_timers iom)"

definition ready :: "nat \<Rightarrow> int \<Rightarrow> u32 \<Rightarrow> 'w hook \<Rightarrow> bool" where
  "ready ti fd ev hs \<longleftrightarrow> (\<exists>iom. h_iom hs = Some iom \<and> iom_ok iom \<and> quiet fd ev iom \<and> own ti fd ev iom = {})"

text \<open>A pause after which the event has been taken off the table and no timer of the call has come back: what the event
  loop does before it resumes a fiber. The timer's address stays its own while the call holds the pointer.\<close>

definition pause_ok :: "nat \<Rightarrow> int \<Rightarrow> u32 \<Rightarrow> 'w pause \<Rightarrow> bool" where
  "pause_ok ti fd ev e \<longleftrightarrow> (\<forall>tm. p_addr e tm \<notin> set (m_timers tm)) \<and> (\<forall>op i x. p_ctl e op i x) \<and>
     (\<forall>hs iom. h_iom hs = Some iom \<and> iom_ok iom \<longrightarrow>
        (\<exists>iom'. h_iom (p_during e hs) = Some iom' \<and> iom_ok iom' \<and> quiet fd ev iom' \<and> own ti fd ev iom' \<subseteq> own ti fd ev iom \<and>
          (\<forall>a \<in> own ti fd ev iom. a \<in> own ti fd ev iom' \<or> m_cb (heap (io_timers iom') a) = None)))"

lemma start_timer_ok:
  assumes "iom_ok iom" and "quiet fd ev iom" and "own ti fd ev iom = {}" and "\<forall>tm. p_addr e tm \<notin> set (m_timers tm)"
  shows "\<exists>timer iom'. start_timer e timeout ti fd ev iom = (timer, iom') \<and> iom_ok iom' \<and> quiet fd ev iom' \<and>
    own ti fd ev iom' = set_option timer"
proof (cases "timeout = - 1")
  case True
  then show ?thesis using assms by (simp add: start_timer_def)
next
  case False
  let ?tm = "io_timers iom" and ?a = "p_addr e (io_timers iom)"
  obtain front tm' where t: "addTimer (p_now e) ?a timeout (OnTimer ti (IoTimeout ti fd ev)) False ?tm = (front, tm')" by fastforce
  have none: "m_cb (heap ?tm ?a) = None" using assms(1,4) tm_invD(2) [of ?tm ?a] unfolding iom_ok_def by blast
  have inv: "tm_inv tm'" using addTimer_inv [OF _ none t] assms(1) by (simp add: iom_ok_def)
  have "heap tm' = (heap ?tm)(?a := new_Timer (p_now e) timeout (OnTimer ti (IoTimeout ti fd ev)) False)"
    using addTimer_locked_fields(1) [OF t [unfolded addTimer_def]] by simp
  then have "own ti fd ev (iom\<lparr>io_timers := tm'\<rparr>) = {?a}"
    using assms(3) by (auto simp: own_def new_Timer_def)
  then show ?thesis
    using False t inv assms(1,2) by (simp add: start_timer_def addConditionTimer_def iom_ok_def quiet_def io_inv_def)
qed

lemma stop_timer_ok:
  assumes "h_iom hs = Some iom" and "iom_ok iom" and "quiet fd ev iom" and "own ti fd ev iom \<subseteq> set_option timer"
    and "\<forall>a \<in> set_option timer. a \<in> own ti fd ev iom \<or> m_cb (heap (io_timers iom) a) = None"
  shows "\<exists>hs'. stop_timer timer hs = Ret () hs' \<and> ready ti fd ev hs' \<and> (\<exists>i. hs' = hs\<lparr>h_iom := i\<rparr>)"
proof (cases timer)
  case None
  have "hs = hs\<lparr>h_iom := h_iom hs\<rparr>" by simp
  then have "\<exists>i. hs = hs\<lparr>h_iom := i\<rparr>" by blast
  then show ?thesis using assms None unfolding stop_timer_def ready_def by auto
next
  case (Some a)
  let ?tm = "io_timers iom"
  have inv: "tm_inv ?tm" using assms(2) by (simp add: iom_ok_def)
  show ?thesis
  proof (cases "m_cb (heap ?tm a) = None")
    case True
    then have "own ti fd ev iom = {}" using assms(4) Some by (auto simp: own_def)
    moreover have "cancel a ?tm = Ret False ?tm" using True by (simp add: cancel_def)
    ultimately show ?thesis using assms(1-3) Some by (auto simp: stop_timer_def ready_def)
  next
    case False
    let ?tm' = "?tm\<lparr>heap := (heap ?tm)(a := (heap ?tm a)\<lparr>m_cb := None\<rparr>), m_timers := filter (\<lambda>b. b \<noteq> a) (m_timers ?tm)\<rparr>"
    have c: "cancel a ?tm = Ret True ?tm'" by (rule cancel_live [OF inv False])
    have "own ti fd ev (iom\<lparr>io_timers := ?tm'\<rparr>) = {}" using assms(4) Some by (auto simp: own_def)
    moreover have "iom_ok (iom\<lparr>io_timers := ?tm'\<rparr>)" using assms(2) cancel_inv [OF inv c] by (simp add: iom_ok_def io_inv_def)
    moreover have "quiet fd ev (iom\<lparr>io_timers := ?tm'\<rparr>)" using assms(3) by (simp add: quiet_def)
    ultimately show ?thesis using assms(1) Some c by (auto simp: stop_timer_def ready_def)
  qed
qed

lemma wait_event_ok:
  assumes "ready ti fd ev hs" and "pause_ok ti fd ev e" and "c_cur th = Some s" and "c_state th = EXEC"
    and "ev \<in> {READ, WRITE}" and "0 \<le> fd"
  shows "\<exists>hs' i. wait_event th fd ev timeout ti e hs = Ret True hs' \<and> ready ti fd ev hs' \<and>
    (\<exists>i'. hs' = (p_during e (hs\<lparr>h_iom := i\<rparr>))\<lparr>h_iom := i'\<rparr>)"
proof -
  obtain iom where iom: "h_iom hs = Some iom" "iom_ok iom" "quiet fd ev iom" "own ti fd ev iom = {}"
    using assms(1) by (auto simp: ready_def)
  note pause = assms(2) [unfolded pause_ok_def]
  note during = pause [THEN conjunct2, THEN conjunct2, rule_format]
  obtain timer iom1 where s: "start_timer e timeout ti fd ev iom = (timer, iom1)" "iom_ok iom1" "quiet fd ev iom1"
    "own ti fd ev iom1 = set_option timer"
    using start_timer_ok [OF iom(2-4) pause [THEN conjunct1], of timeout] by blast
  obtain iom2 where a: "addEvent (p_ctl e) (Some s) (c_fiber th) EXEC (int (nat fd)) ev None iom1 = Ret 0 iom2" "io_inv iom2"
    "nat fd < length (m_fdContexts iom2)" "\<forall>j < length (m_fdContexts iom1). j \<noteq> nat fd \<longrightarrow> m_fdContexts iom2 ! j = m_fdContexts iom1 ! j"
  proof -
    have c: "\<forall>op x. p_ctl e op (nat fd) x" using pause by blast
    have "io_inv iom1" "2 \<le> length (m_fdContexts iom1)" using s(2) by (simp_all add: iom_ok_def)
    from addEvent_registers [where ctl = "p_ctl e" and i = "nat fd" and cb = None, OF this assms(5) _ c, of EXEC s "c_fiber th"]
    show ?thesis using that unfolding if_not_P [OF s(3) [unfolded quiet_def]] by blast
  qed
  have tm: "io_timers iom2 = io_timers iom1" using addEvent_timers [OF a(1)] .
  have len: "2 \<le> length (m_fdContexts iom2)"
    using a(1) s(2) by (auto simp: addEvent_def contextResize_def Let_def CXK_ASSERT_def put_fd_def add_pending_def iom_ok_def
        split: if_splits outcome.splits)
  have ok2: "iom_ok iom2" using a(2) s(2) tm len by (simp add: iom_ok_def)
  have own2: "own ti fd ev iom2 = set_option timer" using s(4) tm by (simp add: own_def)
  let ?hs = "p_during e (hs\<lparr>h_iom := Some iom2\<rparr>)"
  obtain iom3 where d: "h_iom ?hs = Some iom3" "iom_ok iom3" "quiet fd ev iom3" "own ti fd ev iom3 \<subseteq> own ti fd ev iom2"
    "\<forall>b \<in> own ti fd ev iom2. b \<in> own ti fd ev iom3 \<or> m_cb (heap (io_timers iom3) b) = None"
    using during [of "hs\<lparr>h_iom := Some iom2\<rparr>" iom2] ok2 by auto
  obtain hs' i' where h: "stop_timer timer ?hs = Ret () hs'" "ready ti fd ev hs'" "hs' = ?hs\<lparr>h_iom := i'\<rparr>"
    using stop_timer_ok [OF d(1-3), of ti timer] d(4,5) own2 by auto
  have "wait_event th fd ev timeout ti e hs = Ret True hs'"
    using iom(1) s(1) a(1) assms(3,4,6) h(1) by (simp add: wait_event_def)
  then show ?thesis using h(2,3) by blast
qed

lemma ready_syscall: "ready ti fd ev (hs\<lparr>h_errno := x, h_world := w\<rparr>) = ready ti fd ev hs"
  by (simp add: ready_def)

text \<open>The call that is not ready yet costs one pause; \<open>left\<close> counts the pauses until the original function succeeds.\<close>

lemma io_loop_completes:
  assumes "ready ti fd ev hs" and "\<forall>e \<in> set es. pause_ok ti fd ev e" and "c_cur th = Some s" and "c_state th = EXEC"
    and "ev \<in> {READ, WRITE}" and "0 \<le> fd" and "\<And>hs. eintr_loop fuel fn hs \<noteq> None"
    and "\<And>hs n hs'. eintr_loop fuel fn hs = Some (n, hs') \<Longrightarrow> left (h_world hs') \<le> left (h_world hs) \<and>
      (n = -1 \<and> h_errno hs' = EAGAIN \<longrightarrow> 0 < left (h_world hs'))"
    and "\<And>e hs. e \<in> set es \<Longrightarrow> 0 < left (h_world hs) \<Longrightarrow> left (h_world (p_during e hs)) < left (h_world hs)"
    and "left (h_world hs) \<le> length es"
  shows "\<exists>n hs'. io_loop fuel th fd fn ev timeout ti es hs = Ret n hs' \<and> ready ti fd ev hs' \<and>
    \<not> (n = -1 \<and> h_errno hs' = EINTR \<and> h_cancelled hs' ti = 0) \<and> \<not> (n = -1 \<and> h_errno hs' = EAGAIN \<and> h_cancelled hs' ti = 0)"
  using assms(1,2,9,10)
proof (induction es arbitrary: hs)
  case (Nil hs)
  obtain n h1 where c: "eintr_loop fuel fn hs = Some (n, h1)" using assms(7) [of hs] by (metis not_None_eq surj_pair)
  have "\<not> (n = -1 \<and> h_errno h1 = EAGAIN)" using assms(8) [OF c] Nil.prems(4) by auto
  moreover obtain x w where "h1 = hs\<lparr>h_errno := x, h_world := w\<rparr>" "\<not> (n = -1 \<and> h_errno h1 = EINTR)"
    using eintr_loop_result [OF c] by blast
  ultimately show ?case using c Nil.prems(1) by (subst io_loop.simps) (auto simp: ready_syscall)
next
  case (Cons e es hs)
  obtain n h1 where c: "eintr_loop fuel fn hs = Some (n, h1)" using assms(7) [of hs] by (metis not_None_eq surj_pair)
  obtain x w where h1: "h1 = hs\<lparr>h_errno := x, h_world := w\<rparr>" "\<not> (n = -1 \<and> h_errno h1 = EINTR)"
    using eintr_loop_result [OF c] by blast
  have r1: "ready ti fd ev h1" using Cons.prems(1) h1(1) by (simp add: ready_syscall)
  show ?case
  proof (cases "n = -1 \<and> h_errno h1 = EAGAIN")
    case False
    then show ?thesis using c r1 h1(2) by (subst io_loop.simps) auto
  next
    case True
    obtain h2 i i' where w: "wait_event th fd ev timeout ti e h1 = Ret True h2" "ready ti fd ev h2"
      "h2 = (p_during e (h1\<lparr>h_iom := i\<rparr>))\<lparr>h_iom := i'\<rparr>"
      using wait_event_ok [OF r1 _ assms(3-6), of e timeout] Cons.prems(2) by auto
    have step: "io_loop fuel th fd fn ev timeout ti (e # es) hs =
      (if h_cancelled h2 ti \<noteq> 0 then Ret (-1) (h2\<lparr>h_errno := h_cancelled h2 ti\<rparr>) else io_loop fuel th fd fn ev timeout ti es h2)"
      using c True w(1) by (subst io_loop.simps) simp
    show ?thesis
    proof (cases "h_cancelled h2 ti = 0")
      case False
      then show ?thesis using step w(2) by (simp add: ready_def)
    next
      case fine: True
      have "left (h_world h2) < left (h_world h1)"
        using Cons.prems(3) [of e "h1\<lparr>h_iom := i\<rparr>"] assms(8) [OF c] True w(3) by simp
      then have "left (h_world h2) \<le> length es" using assms(8) [OF c] Cons.prems(4) by simp
      then show ?thesis using Cons.IH [OF w(2)] Cons.prems(2,3) step fine by simp
    qed
  qed
qed

lemma bit_O_NONBLOCK: "bit O_NONBLOCK i \<longleftrightarrow> i = 11"
proof -
  have e: "O_NONBLOCK = 2 ^ 11" by (simp add: O_NONBLOCK_def)
  show ?thesis unfolding e bit_exp_iff by auto
qed

section \<open>Properties\<close>

text \<open>C33. A hooked call on a blocking socket returns: if every interruption ends and the original function succeeds after
  some number of readiness events, the loop comes back after at most that many suspensions, never with \<^verbatim>\<open>EINTR\<close> or \<^verbatim>\<open>EAGAIN\<close>
  unless its timer has cancelled it, and on return the event table and the timer set satisfy their invariants, the event is
  not registered and no timer of the call is left.\<close>

theorem do_io_completes:
  assumes "t_hook_enable hs" and "fd_get fd False (h_fds hs) = Ret (Some p) (h_fds hs)"
    and "\<not> m_isClosed (fd_heap (h_fds hs) ! p)" and "m_isSocket (fd_heap (h_fds hs) ! p)" and "\<not> m_userNoblock (fd_heap (h_fds hs) ! p)"
    and "ready ti fd ev hs" and "\<forall>e \<in> set es. pause_ok ti fd ev e" and "c_cur th = Some s" and "c_state th = EXEC"
    and "ev \<in> {READ, WRITE}" and "0 \<le> fd" and "\<And>hs. eintr_loop fuel fn hs \<noteq> None"
    and "\<And>hs n hs'. eintr_loop fuel fn hs = Some (n, hs') \<Longrightarrow> left (h_world hs') \<le> left (h_world hs) \<and>
      (n = -1 \<and> h_errno hs' = EAGAIN \<longrightarrow> 0 < left (h_world hs'))"
    and "\<And>e hs. e \<in> set es \<Longrightarrow> 0 < left (h_world hs) \<Longrightarrow> left (h_world (p_during e hs)) < left (h_world hs)"
    and "left (h_world hs) \<le> length es"
  shows "\<exists>n hs'. do_io fuel th fd fn ev timeout_so ti es hs = Ret n hs' \<and> ready ti fd ev hs' \<and>
    (n = -1 \<and> h_errno hs' \<in> {EINTR, EAGAIN} \<longrightarrow> h_cancelled hs' ti \<noteq> 0)"
proof -
  let ?hs = "hs\<lparr>h_cancelled := (h_cancelled hs)(ti := 0)\<rparr>"
  have "ready ti fd ev ?hs" "left (h_world ?hs) \<le> length es" using assms(6,15) by (simp_all add: ready_def)
  from io_loop_completes [where left = left and fuel = fuel and fn = fn and th = th, OF this(1) assms(7-12) _ _ this(2), of "getTimeOut timeout_so (fd_heap (h_fds hs) ! p)"]
  obtain n hs' where "io_loop fuel th fd fn ev (getTimeOut timeout_so (fd_heap (h_fds hs) ! p)) ti es ?hs = Ret n hs'" "ready ti fd ev hs'"
    "\<not> (n = -1 \<and> h_errno hs' = EINTR \<and> h_cancelled hs' ti = 0) \<and> \<not> (n = -1 \<and> h_errno hs' = EAGAIN \<and> h_cancelled hs' ti = 0)"
    using assms(13,14) by blast
  then show ?thesis using assms(1-5) by (auto simp: do_io_def Let_def)
qed

definition demo_iom :: "hook_cb iomanager" where
  "demo_iom = contextResize 32 \<lparr>m_appendingEventCount = 0, m_fdContexts = [], scheds = (\<lambda>_. sch (boot [])),
     io_self = 0, io_timers = TimerManager 0\<rparr>"

definition demo_hook :: "nat hook" where
  "demo_hook = \<lparr>t_hook_enable = True,
     h_fds = \<lparr>k_stat = (\<lambda>_. Some True), k_flags = (\<lambda>_. O_NONBLOCK),
       fd_heap = [\<lparr>m_isInit = True, m_isSocket = True, m_sysNoblock = True, m_userNoblock = False, m_isClosed = False, m_fd = 3,
         m_recvTimeOut = 500, m_sendTimeOut = - 1\<rparr>], fd_datas = (replicate 64 None)[3 := Some 0]\<rparr>,
     h_iom = Some demo_iom, h_cancelled = (\<lambda>_. 0), h_errno = 0, s_connect_timeout = 5000, h_world = 2\<rparr>"

definition demo_recv :: "nat origin" where
  "demo_recv = (\<lambda>e w. if w = 0 then (5, e, w) else (-1, EAGAIN, w))"

definition demo_pause :: "nat pause" where
  "demo_pause = \<lparr>p_now = 0, p_addr = (\<lambda>tm. Suc (sum_list (m_timers tm))), p_ctl = (\<lambda>_ _ _. True),
     p_during = (\<lambda>hs. hs\<lparr>h_iom := Some demo_iom, h_world := h_world hs - 1\<rparr>)\<rparr>"

lemma demo_iom_ok: "iom_ok demo_iom" "quiet fd ev demo_iom" "own ti fd ev demo_iom = {}"
proof -
  let ?w = "\<lparr>m_appendingEventCount = 0, m_fdContexts = [], scheds = (\<lambda>_. sch (boot [])),
     io_self = 0, io_timers = TimerManager 0\<rparr> :: hook_cb iomanager"
  have w: "io_inv ?w" by (simp add: io_inv_def)
  have tm: "io_timers demo_iom = TimerManager 0" by (simp add: demo_iom_def contextResize_def)
  show "iom_ok demo_iom"
    using contextResize_inv(1,2) [OF w, of 32] tm tm_inv_new by (simp add: demo_iom_def iom_ok_def)
  show "own ti fd ev demo_iom = {}" using tm by (simp add: own_def TimerManager_def new_Timer_at_def)
  have "fc_events (m_fdContexts demo_iom ! i) = 0" if "i < 32" for i
    using contextResize_inv(4) [OF w, of 32 i] that by (simp add: demo_iom_def new_FdContext_def)
  moreover have "length (m_fdContexts demo_iom) = 32" using contextResize_inv(2) [OF w, of 32] by (simp add: demo_iom_def)
  ultimately show "quiet fd ev demo_iom" by (simp add: quiet_def)
qed

lemma demo_pause_ok: "pause_ok ti fd ev demo_pause"
proof -
  have "Suc (sum_list xs) \<notin> set xs" for xs :: "nat list" using member_le_sum_list [of _ xs] by fastforce
  moreover have "m_cb (heap (io_timers demo_iom) a) = None" for a
    by (simp add: demo_iom_def contextResize_def TimerManager_def new_Timer_at_def)
  ultimately show ?thesis using demo_iom_ok by (simp add: pause_ok_def demo_pause_def)
qed

lemma demo_fd_get: "fd_get 3 False (h_fds demo_hook) = Ret (Some 0) (h_fds demo_hook)"
  by (simp add: demo_hook_def fd_get_def get_lookup_def)

theorem do_io_completes_witness:
  "\<exists>n hs'. do_io 1 \<lparr>c_cur = Some 0, c_fiber = 7, c_state = EXEC\<rparr> 3 demo_recv READ SO_RCVTIMEO 0 [demo_pause, demo_pause] demo_hook = Ret n hs' \<and>
    ready 0 3 READ hs'"
proof -
  have "\<exists>n hs'. do_io 1 \<lparr>c_cur = Some 0, c_fiber = 7, c_state = EXEC\<rparr> 3 demo_recv READ SO_RCVTIMEO 0 [demo_pause, demo_pause] demo_hook = Ret n hs' \<and>
    ready 0 3 READ hs' \<and> (n = -1 \<and> h_errno hs' \<in> {EINTR, EAGAIN} \<longrightarrow> h_cancelled hs' 0 \<noteq> 0)"
    by (rule do_io_completes [where left = "\<lambda>w. w", OF _ demo_fd_get])
      (auto simp: demo_hook_def demo_recv_def demo_pause_ok demo_iom_ok ready_def call_def EINTR_def EAGAIN_def
        demo_pause_def [THEN arg_cong [where f = p_during]] split: if_splits)
  then show ?thesis by blast
qed

text \<open>The timeout of a hooked call: the timer's callback marks the call as timed out and takes its event off the table,
  which wakes the fiber; a call that finds the mark returns -1 with \<^verbatim>\<open>ETIMEDOUT\<close>, its event unregistered and its timer gone.
  Without the mark nothing is reported, and a second expiry does nothing.\<close>

theorem do_io_timeout:
  assumes "ready ti fd ev hs" and "pause_ok ti fd ev e" and "c_cur th = Some s" and "c_state th = EXEC"
    and "ev \<in> {READ, WRITE}" and "0 \<le> fd" and "eintr_loop fuel fn hs = Some (-1, hs1)" and "h_errno hs1 = EAGAIN"
    and "\<And>hs. h_cancelled (p_during e hs) ti = ETIMEDOUT"
    and "h_iom hs2 = Some iom" and "io_inv iom" and "nat fd < length (m_fdContexts iom)"
    and "fc_events (m_fdContexts iom ! nat fd) AND ev \<noteq> 0" and "\<forall>op x. ctl op (nat fd) x" and "h_cancelled hs2 ti = 0"
  shows "(\<exists>hs'. io_loop fuel th fd fn ev timeout ti (e # es) hs = Ret (-1) hs' \<and> h_errno hs' = ETIMEDOUT \<and> ready ti fd ev hs') \<and>
    (\<exists>hs' iom'. io_timeout ctl ti fd ev hs2 = Ret () hs' \<and> h_cancelled hs' ti = ETIMEDOUT \<and> h_iom hs' = Some iom' \<and>
       cleared ev (nat fd) iom iom' \<and> io_timeout ctl ti fd ev hs' = Ret () hs')"
proof
  have r1: "ready ti fd ev hs1" using assms(1) eintr_loop_result [OF assms(7)] by (auto simp: ready_syscall)
  obtain h2 i i' where w: "wait_event th fd ev timeout ti e hs1 = Ret True h2" "ready ti fd ev h2"
    "h2 = (p_during e (hs1\<lparr>h_iom := i\<rparr>))\<lparr>h_iom := i'\<rparr>"
    using wait_event_ok [OF r1 assms(2-6), of timeout] by blast
  have "h_cancelled h2 ti = ETIMEDOUT" using assms(9) w(3) by simp
  then show "\<exists>hs'. io_loop fuel th fd fn ev timeout ti (e # es) hs = Ret (-1) hs' \<and> h_errno hs' = ETIMEDOUT \<and> ready ti fd ev hs'"
    using assms(7,8) w(1,2) by (subst io_loop.simps) (simp add: ETIMEDOUT_def ready_def)
next
  obtain iom' where "cancelEvent ctl (int (nat fd)) ev iom = Ret True iom'" "cleared ev (nat fd) iom iom'"
    using cancelEvent_ok [where ctl = ctl, OF assms(11,12,5,13,14)] by blast
  then show "\<exists>hs' iom'. io_timeout ctl ti fd ev hs2 = Ret () hs' \<and> h_cancelled hs' ti = ETIMEDOUT \<and> h_iom hs' = Some iom' \<and>
       cleared ev (nat fd) iom iom' \<and> io_timeout ctl ti fd ev hs' = Ret () hs'"
    using assms(6,10,15) by (simp add: io_timeout_def ETIMEDOUT_def)
qed

text \<open>The non-blocking flag of a hooked socket is virtual: after \<^verbatim>\<open>fcntl(F_SETFL, arg)\<close> the kernel's descriptor stays
  non-blocking, \<^verbatim>\<open>F_GETFL\<close> returns exactly \<open>arg\<close>, and the hooked calls use the flag the user has set.\<close>

theorem fcntl_virtual_flag:
  assumes "fd_inv (h_fds hs)" and "0 \<le> fd" and "ctx_of fd (h_fds hs) = Some p"
    and "m_isSocket (fd_heap (h_fds hs) ! p)" and "\<not> m_isClosed (fd_heap (h_fds hs) ! p)" and "m_sysNoblock (fd_heap (h_fds hs) ! p)"
  shows "\<exists>hs'. fcntl_SETFL True fd arg hs = Ret 0 hs' \<and> fd_inv (h_fds hs') \<and> ctx_of fd (h_fds hs') = Some p \<and>
    m_userNoblock (fd_heap (h_fds hs') ! p) = (arg AND O_NONBLOCK \<noteq> 0) \<and>
    k_flags (h_fds hs') fd AND O_NONBLOCK \<noteq> 0 \<and> fcntl_GETFL fd hs' = Ret arg hs'"
proof -
  let ?c = "(fd_heap (h_fds hs) ! p)\<lparr>m_userNoblock := (arg AND O_NONBLOCK \<noteq> 0)\<rparr>"
  let ?fds = "(h_fds hs)\<lparr>fd_heap := (fd_heap (h_fds hs))[p := ?c], k_flags := (k_flags (h_fds hs))(fd := arg OR O_NONBLOCK)\<rparr>"
  have p: "p < length (fd_heap (h_fds hs))" using assms(1-3) by (auto simp: fd_inv_def ctx_of_def split: if_splits)
  have get: "fd_get fd False s = Ret (ctx_of fd s) s" for s
    using assms(2) by (simp add: fd_get_def get_lookup_cases)
  have nb: "(arg OR O_NONBLOCK) AND O_NONBLOCK = O_NONBLOCK" by (rule bit_eqI) (auto simp: bit_simps)
  have nz: "O_NONBLOCK \<noteq> 0" by (simp add: O_NONBLOCK_def)
  have arg: "(if arg AND O_NONBLOCK \<noteq> 0 then (arg OR O_NONBLOCK) OR O_NONBLOCK else (arg OR O_NONBLOCK) AND NOT O_NONBLOCK) = arg"
  proof (cases "bit arg 11")
    case True
    then have "bit (arg AND O_NONBLOCK) 11" by (simp add: bit_and_iff bit_O_NONBLOCK)
    then have "arg AND O_NONBLOCK \<noteq> 0" by (metis bit_0_eq bot_apply bot_bool_def)
    moreover have "(arg OR O_NONBLOCK) OR O_NONBLOCK = arg"
      using True by (intro bit_word_eqI) (auto simp: bit_or_iff bit_O_NONBLOCK)
    ultimately show ?thesis by simp
  next
    case False
    then have "arg AND O_NONBLOCK = 0" by (intro bit_word_eqI) (auto simp: bit_and_iff bit_O_NONBLOCK)
    moreover have "(arg OR O_NONBLOCK) AND NOT O_NONBLOCK = arg"
      using False by (intro bit_word_eqI) (auto simp: bit_or_iff bit_and_iff bit_not_iff bit_O_NONBLOCK)
    ultimately show ?thesis by simp
  qed
  have ctx: "ctx_of fd ?fds = Some p" using assms(3) by (simp add: ctx_of_def split: if_splits)
  have inv: "fd_inv ?fds" using assms(1) p by (auto simp: fd_inv_def nth_list_update)
  show ?thesis
    using assms p nb arg ctx inv nz
    by (intro exI [of _ "hs\<lparr>h_fds := ?fds\<rparr>"])
      (auto simp: fcntl_SETFL_def fcntl_GETFL_def virtual_ctx_def hook_get_def get put_ctx_def Let_def split: if_splits)
qed

theorem fcntl_virtual_flag_witness:
  "\<exists>hs'. fcntl_SETFL True 3 2 demo_hook = Ret 0 hs' \<and> k_flags (h_fds hs') 3 AND O_NONBLOCK \<noteq> 0 \<and> fcntl_GETFL 3 hs' = Ret 2 hs'"
proof -
  have "fd_inv (h_fds demo_hook)" "ctx_of 3 (h_fds demo_hook) = Some 0"
    by (auto simp: fd_inv_def demo_hook_def ctx_of_def nth_list_update)
  then show ?thesis
    using fcntl_virtual_flag [of demo_hook 3 0 2] by (auto simp: demo_hook_def)
qed

definition demo_late :: "nat pause" where
  "demo_late = demo_pause\<lparr>p_during := (\<lambda>hs. hs\<lparr>h_iom := Some demo_iom, h_cancelled := (\<lambda>_. ETIMEDOUT)\<rparr>)\<rparr>"

theorem do_io_timeout_witness:
  "\<exists>hs'. io_loop 1 \<lparr>c_cur = Some 0, c_fiber = 7, c_state = EXEC\<rparr> 3 demo_recv READ 500 0 [demo_late] demo_hook = Ret (-1) hs' \<and>
    h_errno hs' = ETIMEDOUT"
proof -
  have r: "ready 0 3 READ demo_hook" using demo_iom_ok by (simp add: ready_def demo_hook_def)
  have "p_addr demo_late = p_addr demo_pause" "p_ctl demo_late = p_ctl demo_pause" by (simp_all add: demo_late_def)
  moreover have "m_cb (heap (io_timers demo_iom) a) = None" for a
    by (simp add: demo_iom_def contextResize_def TimerManager_def new_Timer_at_def)
  ultimately have pk: "pause_ok 0 3 READ demo_late"
    using demo_pause_ok [of 0 3 READ] demo_iom_ok by (simp add: pause_ok_def) (simp add: demo_late_def)
  have c: "eintr_loop 1 demo_recv demo_hook = Some (-1, demo_hook\<lparr>h_errno := EAGAIN\<rparr>)"
    by (simp add: call_def demo_recv_def demo_hook_def EINTR_def EAGAIN_def)
  obtain iom where i: "addEvent (\<lambda>_ _ _. True) (Some 0) 7 EXEC (int 3) READ None demo_iom = Ret 0 iom" "io_inv iom"
      "3 < length (m_fdContexts iom)" "fc_events (m_fdContexts iom ! 3) AND READ \<noteq> 0"
    using addEvent_registers [where w = demo_iom and ev = READ and cb = None and fs = EXEC and ctl = "\<lambda>_ _ _. True" and i = 3 and s = 0 and f = 7]
      demo_iom_ok(1) demo_iom_ok(2) [of 3 READ] by (auto simp: iom_ok_def quiet_def)
  show ?thesis
    using do_io_timeout [where hs = demo_hook and th = "\<lparr>c_cur = Some 0, c_fiber = 7, c_state = EXEC\<rparr>" and es = "[]"
        and timeout = 500 and ctl = "\<lambda>_ _ _. True" and ?hs2.0 = "demo_hook\<lparr>h_iom := Some iom\<rparr>" and s = 0, OF r pk _ _ _ _ c _ _ _ i(2)] i(3,4)
    by (simp add: demo_late_def [THEN arg_cong [where f = p_during]]) (auto simp: demo_hook_def)
qed

end
