(* ===== verification/Locks.thy ===== *)
theory Locks
  imports Scheduler
begin

text \<open>
  \<^verbatim>\<open>src/cxk/mutex.{h,cpp}\<close>: scoped guards, the spin lock on an atomic flag, the semaphore of a thread and the
  semaphore of fibers. A pthread lock is the list of the calls made on it; a guard holds a reference to one and a
  flag. The critical sections of \<open>FiberSemaphore\<close> are single steps; a fiber that has to wait is a pair of its scheduler
  and itself, and \<open>notify\<close> hands it to the queue of that scheduler (\<open>Scheduler\<close>).

  Shown: a guard's lifetime makes strictly alternating calls and leaves its lock released, however often it is locked
  and unlocked in between; at most one thread is inside a \<open>CASLock\<close>; and the accounting and fairness of the fiber
  semaphore over every sequence of operations.
\<close>

section \<open>Locks and guards\<close>

datatype lock_call = Lock | Rdlock | Wrlock | Unlock

definition mutex_lock :: "lock_call list \<Rightarrow> lock_call list" where
  "mutex_lock m = m @ [Lock]"

definition mutex_unlock :: "lock_call list \<Rightarrow> lock_call list" where
  "mutex_unlock m = m @ [Unlock]"

definition rwmutex_rdlock :: "lock_call list \<Rightarrow> lock_call list" where
  "rwmutex_rdlock m = m @ [Rdlock]"

definition rwmutex_wrlock :: "lock_call list \<Rightarrow> lock_call list" where
  "rwmutex_wrlock m = m @ [Wrlock]"

definition rwmutex_unlock :: "lock_call list \<Rightarrow> lock_call list" where
  "rwmutex_unlock m = m @ [Unlock]"

definition spin_lock :: "lock_call list \<Rightarrow> lock_call list" where
  "spin_lock m = m @ [Lock]"

definition spin_unlock :: "lock_call list \<Rightarrow> lock_call list" where
  "spin_unlock m = m @ [Unlock]"

text \<open>The three guard templates differ in the call that acquires.\<close>

record 'm guard =
  g_mutex :: 'm
  g_locked :: bool

definition new_guard :: "('m \<Rightarrow> 'm) \<Rightarrow> 'm \<Rightarrow> 'm guard" where
  "new_guard acquire m = \<lparr>g_mutex = acquire m, g_locked = True\<rparr>"

definition guard_lock :: "('m \<Rightarrow> 'm) \<Rightarrow> 'm guard \<Rightarrow> 'm guard" where
  "guard_lock acquire g = (if \<not> g_locked g then g\<lparr>g_mutex := acquire (g_mutex g), g_locked := True\<rparr> else g)"

definition guard_unlock :: "('m \<Rightarrow> 'm) \<Rightarrow> 'm guard \<Rightarrow> 'm guard" where
  "guard_unlock release g = (if g_locked g then g\<lparr>g_mutex := release (g_mutex g), g_locked := False\<rparr> else g)"

definition delete_guard :: "('m \<Rightarrow> 'm) \<Rightarrow> 'm guard \<Rightarrow> 'm" where
  "delete_guard release g = g_mutex (guard_unlock release g)"

text \<open>What the owner of a guard does with it: \<open>True\<close> locks, \<open>False\<close> unlocks.\<close>

definition guard_use :: "('m \<Rightarrow> 'm) \<Rightarrow> ('m \<Rightarrow> 'm) \<Rightarrow> bool list \<Rightarrow> 'm guard \<Rightarrow> 'm guard" where
  "guard_use acquire release = fold (\<lambda>b. if b then guard_lock acquire else guard_unlock release)"

definition guard_life :: "('m \<Rightarrow> 'm) \<Rightarrow> ('m \<Rightarrow> 'm) \<Rightarrow> bool list \<Rightarrow> 'm \<Rightarrow> 'm" where
  "guard_life acquire release uses m = delete_guard release (guard_use acquire release uses (new_guard acquire m))"

definition ScopedLockImpl :: "bool list \<Rightarrow> lock_call list \<Rightarrow> lock_call list" where
  "ScopedLockImpl = guard_life mutex_lock mutex_unlock"

definition ReadScopedLockImpl :: "bool list \<Rightarrow> lock_call list \<Rightarrow> lock_call list" where
  "ReadScopedLockImpl = guard_life rwmutex_rdlock rwmutex_unlock"

definition WriteScopedLockImpl :: "bool list \<Rightarrow> lock_call list \<Rightarrow> lock_call list" where
  "WriteScopedLockImpl = guard_life rwmutex_wrlock rwmutex_unlock"

section \<open>The lock on an atomic flag\<close>

text \<open>Threads outside, spinning in \<open>lock\<close>, and inside. One call of \<^verbatim>\<open>atomic_flag_test_and_set\<close> is one step.\<close>

datatype cas_pc = Outside | Spinning | Inside

record cas_lock =
  cl_flag :: bool
  cl_pc :: "nat \<Rightarrow> cas_pc"

definition new_CASLock :: cas_lock where
  "new_CASLock = \<lparr>cl_flag = False, cl_pc = (\<lambda>_. Outside)\<rparr>"

definition test_and_set :: "nat \<Rightarrow> cas_lock \<Rightarrow> cas_lock" where
  "test_and_set t c = (if cl_flag c then c else c\<lparr>cl_flag := True, cl_pc := (cl_pc c)(t := Inside)\<rparr>)"

definition cas_unlock :: "nat \<Rightarrow> cas_lock \<Rightarrow> cas_lock" where
  "cas_unlock t c = c\<lparr>cl_flag := False, cl_pc := (cl_pc c)(t := Outside)\<rparr>"

inductive cas_step :: "cas_lock \<Rightarrow> cas_lock \<Rightarrow> bool" where
  enter: "cl_pc c t = Outside \<Longrightarrow> cas_step c (c\<lparr>cl_pc := (cl_pc c)(t := Spinning)\<rparr>)"
| spin: "cl_pc c t = Spinning \<Longrightarrow> cas_step c (test_and_set t c)"
| leave: "cl_pc c t = Inside \<Longrightarrow> cas_step c (cas_unlock t c)"

section \<open>Semaphores\<close>

text \<open>\<open>Semaphore\<close> over the kernel's: \<open>results\<close> are those of successive calls of \<^verbatim>\<open>sem_wait\<close>, which may be
  interrupted.\<close>

definition new_Semaphore :: "int \<Rightarrow> (unit, unit) outcome" where
  "new_Semaphore sem_init = (if sem_init \<noteq> 0 then Throw LogicError () else Ret () ())"

fun Semaphore_wait :: "int list \<Rightarrow> int list option" where
  "Semaphore_wait [] = None"
| "Semaphore_wait (r # results) = (if r = 0 then Some results else Semaphore_wait results)"

definition Semaphore_notify :: "int \<Rightarrow> (unit, unit) outcome" where
  "Semaphore_notify sem_post = (if sem_post \<noteq> 0 then Throw LogicError () else Ret () ())"

record fiber_semaphore =
  fs_waiters :: "(nat \<times> nat) list"
  fs_concurrency :: u64

type_synonym 'f schedulers = "nat \<Rightarrow> 'f scheduler"

definition new_FiberSemaphore :: "u64 \<Rightarrow> fiber_semaphore" where
  "new_FiberSemaphore initial_concurrency = \<lparr>fs_waiters = [], fs_concurrency = initial_concurrency\<rparr>"

definition delete_FiberSemaphore :: "fiber_semaphore \<Rightarrow> (unit, unit) outcome" where
  "delete_FiberSemaphore s = CXK_ASSERT (fs_waiters s = []) (Ret () ())"

definition tryWait :: "nat option \<Rightarrow> fiber_semaphore \<Rightarrow> (fiber_semaphore, bool) outcome" where
  "tryWait here s =
     CXK_ASSERT (here \<noteq> None)
       (if fs_concurrency s > 0 then Ret True (s\<lparr>fs_concurrency := fs_concurrency s - 1\<rparr>) else Ret False s)"

text \<open>The result of \<open>wait\<close> says whether the caller goes on; otherwise it yields.\<close>

definition sem_wait :: "nat option \<Rightarrow> nat \<Rightarrow> fiber_semaphore \<Rightarrow> (fiber_semaphore, bool) outcome" where
  "sem_wait here fiber s =
     (case here of
        None \<Rightarrow> Undef AssertFailed
      | Some sched \<Rightarrow>
          if fs_concurrency s > 0 then Ret True (s\<lparr>fs_concurrency := fs_concurrency s - 1\<rparr>)
          else Ret False (s\<lparr>fs_waiters := fs_waiters s @ [(sched, fiber)]\<rparr>))"

definition sem_notify :: "fiber_semaphore \<times> 'f schedulers \<Rightarrow> fiber_semaphore \<times> 'f schedulers" where
  "sem_notify = (\<lambda>(s, sc).
     case fs_waiters s of
       (sched, fiber) # rest \<Rightarrow>
         (s\<lparr>fs_waiters := rest\<rparr>, sc(sched := snd (schedule (FiberAndThread_fiber (Some fiber) (-1)) (sc sched))))
     | [] \<Rightarrow> (s\<lparr>fs_concurrency := fs_concurrency s + 1\<rparr>, sc))"

definition sem_reset :: "fiber_semaphore \<Rightarrow> fiber_semaphore" where
  "sem_reset s = s\<lparr>fs_concurrency := 0\<rparr>"

text \<open>A sequence of operations by any fibers. \<open>sl_passed\<close> counts the calls that went on at once, \<open>sl_blocked\<close> lists the
  fibers that had to wait, in order.\<close>

datatype sem_op = TryWait nat | Wait nat nat | Notify

record 'f sem_log =
  sl_sem :: fiber_semaphore
  sl_scheds :: "'f schedulers"
  sl_passed :: nat
  sl_blocked :: "(nat \<times> nat) list"

fun sem_do :: "sem_op \<Rightarrow> 'f sem_log \<Rightarrow> 'f sem_log" where
  "sem_do (TryWait sched) l =
     (case tryWait (Some sched) (sl_sem l) of
        Ret ok s \<Rightarrow> l\<lparr>sl_sem := s, sl_passed := sl_passed l + (if ok then 1 else 0)\<rparr>
      | _ \<Rightarrow> l)"
| "sem_do (Wait sched fiber) l =
     (case sem_wait (Some sched) fiber (sl_sem l) of
        Ret ok s \<Rightarrow>
          if ok then l\<lparr>sl_sem := s, sl_passed := sl_passed l + 1\<rparr>
          else l\<lparr>sl_sem := s, sl_blocked := sl_blocked l @ [(sched, fiber)]\<rparr>
      | _ \<Rightarrow> l)"
| "sem_do Notify l = (case sem_notify (sl_sem l, sl_scheds l) of (s, sc) \<Rightarrow> l\<lparr>sl_sem := s, sl_scheds := sc\<rparr>)"

definition sem_start :: "u64 \<Rightarrow> 'f schedulers \<Rightarrow> 'f sem_log" where
  "sem_start n sc = \<lparr>sl_sem = new_FiberSemaphore n, sl_scheds = sc, sl_passed = 0, sl_blocked = []\<rparr>"

section \<open>Guards\<close>

text \<open>The calls of a guard that has been used: complete pairs, and one open acquisition while it is locked.\<close>

definition paired :: "lock_call \<Rightarrow> lock_call list \<Rightarrow> lock_call list guard \<Rightarrow> bool" where
  "paired how m g \<longleftrightarrow>
     (\<exists>k. g_mutex g = m @ concat (replicate k [how, Unlock]) @ (if g_locked g then [how] else []) \<and> (g_locked g \<or> 0 < k))"

lemma concat_replicate_snoc: "concat (replicate k xs) @ xs = concat (replicate (Suc k) xs)"
  by (induction k) auto

locale guarded_lock =
  fixes acquire release :: "lock_call list \<Rightarrow> lock_call list" and how :: lock_call
  assumes acquire: "acquire m = m @ [how]" and release: "release m = m @ [Unlock]"
begin

lemma paired_new: "paired how m (new_guard acquire m)"
  unfolding paired_def by (intro exI [of _ 0]) (simp add: new_guard_def acquire)

lemma paired_lock: "paired how m g \<Longrightarrow> paired how m (guard_lock acquire g)"
  by (auto simp: paired_def guard_lock_def acquire)

lemma paired_unlock: "paired how m g \<Longrightarrow> paired how m (guard_unlock release g) \<and> \<not> g_locked (guard_unlock release g)"
  unfolding paired_def guard_unlock_def
  using concat_replicate_snoc [of _ "[how, Unlock]"] by (auto simp: release simp del: replicate.simps)

lemma life_alternates:
  "\<exists>k > 0. guard_life acquire release uses m = m @ concat (replicate k [how, Unlock])"
proof -
  let ?g = "guard_use acquire release uses (new_guard acquire m)"
  have "paired how m ?g"
    unfolding guard_use_def
    by (rule fold_invariant [where Q = "\<lambda>_. True"]) (auto simp: paired_new paired_lock paired_unlock)
  then show ?thesis
    using paired_unlock [of m ?g] by (auto simp: guard_life_def delete_guard_def paired_def)
qed

end

interpretation mutex_guard: guarded_lock mutex_lock mutex_unlock Lock
  by unfold_locales (simp_all add: mutex_lock_def mutex_unlock_def)

interpretation spin_guard: guarded_lock spin_lock spin_unlock Lock
  by unfold_locales (simp_all add: spin_lock_def spin_unlock_def)

interpretation read_guard: guarded_lock rwmutex_rdlock rwmutex_unlock Rdlock
  by unfold_locales (simp_all add: rwmutex_rdlock_def rwmutex_unlock_def)

interpretation write_guard: guarded_lock rwmutex_wrlock rwmutex_unlock Wrlock
  by unfold_locales (simp_all add: rwmutex_wrlock_def rwmutex_unlock_def)

section \<open>Exclusion\<close>

definition cas_inv :: "cas_lock \<Rightarrow> bool" where
  "cas_inv c \<longleftrightarrow>
     (cl_flag c \<longleftrightarrow> (\<exists>t. cl_pc c t = Inside)) \<and> (\<forall>t u. cl_pc c t = Inside \<and> cl_pc c u = Inside \<longrightarrow> t = u)"

inductive_cases cas_stepE: "cas_step c c'"

lemma cas_inv_step: "cas_step c c' \<Longrightarrow> cas_inv c \<Longrightarrow> cas_inv c'"
  by (erule cas_stepE) (auto simp: cas_inv_def test_and_set_def cas_unlock_def split: if_splits, metis cas_pc.distinct(3))

lemma cas_inv_reachable: "cas_step\<^sup>*\<^sup>* c c' \<Longrightarrow> cas_inv c \<Longrightarrow> cas_inv c'"
  by (induction rule: rtranclp_induct) (auto intro: cas_inv_step)

lemma cas_inv_new: "cas_inv new_CASLock"
  by (simp add: cas_inv_def new_CASLock_def)

section \<open>Accounting of the fiber semaphore\<close>

definition woken_on :: "nat \<Rightarrow> (nat \<times> nat) list \<Rightarrow> 'f fiber_and_thread list" where
  "woken_on sched ws = map (\<lambda>(_, fiber). FiberAndThread_fiber (Some fiber) (-1)) (filter (\<lambda>(s, _). s = sched) ws)"

lemma woken_on_simps [simp]:
  "woken_on sched [] = []"
  "woken_on sched (ws @ [(s, fiber)]) =
     woken_on sched ws @ (if s = sched then [FiberAndThread_fiber (Some fiber) (-1)] else [])"
  by (simp_all add: woken_on_def)

definition sem_inv :: "nat \<Rightarrow> nat \<Rightarrow> 'f schedulers \<Rightarrow> 'f sem_log \<Rightarrow> (nat \<times> nat) list \<Rightarrow> bool" where
  "sem_inv n notes sc l woken \<longleftrightarrow>
     sl_blocked l = woken @ fs_waiters (sl_sem l) \<and>
     unat (fs_concurrency (sl_sem l)) + sl_passed l + length woken = n + notes \<and>
     (fs_waiters (sl_sem l) \<noteq> [] \<longrightarrow> fs_concurrency (sl_sem l) = 0) \<and>
     (\<forall>i. sl_scheds l i = (sc i)\<lparr>m_fibers := m_fibers (sc i) @ woken_on i woken\<rparr>)"

lemma sem_inv_start: "sem_inv (unat n) 0 sc (sem_start n sc) []"
  by (simp add: sem_inv_def sem_start_def new_FiberSemaphore_def)

lemma sem_inv_do:
  assumes "sem_inv n notes sc l woken" and "p = Notify \<Longrightarrow> n + notes < 2 ^ 64 - 1"
  shows "\<exists>woken. sem_inv n (notes + (if p = Notify then 1 else 0)) sc (sem_do p l) woken"
proof (cases p)
  case (TryWait sched)
  have "0 < unat (fs_concurrency (sl_sem l))" if "fs_concurrency (sl_sem l) \<noteq> 0" using that by (simp add: unat_gt_0)
  then show ?thesis
    using assms TryWait by (intro exI [of _ woken]) (auto simp: sem_inv_def tryWait_def CXK_ASSERT_def unat_minus_one word_gt_0)
next
  case (Wait sched fiber)
  have "0 < unat (fs_concurrency (sl_sem l))" if "fs_concurrency (sl_sem l) \<noteq> 0" using that by (simp add: unat_gt_0)
  then show ?thesis
    using assms Wait by (intro exI [of _ woken]) (auto simp: sem_inv_def sem_wait_def unat_minus_one word_gt_0)
next
  case Notify
  show ?thesis
  proof (cases "fs_waiters (sl_sem l)")
    case Nil
    then show ?thesis using assms Notify
      by (intro exI [of _ woken]) (auto simp: sem_inv_def sem_notify_def unat_word_ariths)
  next
    case (Cons w rest)
    obtain sched fiber where w: "w = (sched, fiber)" by (cases w)
    show ?thesis using assms Notify Cons w
      by (intro exI [of _ "woken @ [w]"])
         (auto simp: sem_inv_def sem_notify_def schedule_def scheduleNoLock_def FiberAndThread_fiber_def)
  qed
qed

lemma sem_inv_run:
  assumes "unat n + length (filter ((=) Notify) ops) < 2 ^ 64"
  shows "\<exists>woken. sem_inv (unat n) (length (filter ((=) Notify) ops)) sc (fold sem_do ops (sem_start n sc)) woken"
  using assms
proof (induction ops rule: rev_induct)
  case Nil
  show ?case using sem_inv_start by auto
next
  case (snoc p ops)
  let ?k = "length (filter ((=) Notify) ops)"
  have "p = Notify \<Longrightarrow> unat n + ?k < 2 ^ 64 - 1" using snoc.prems by simp
  then show ?case using snoc sem_inv_do [of "unat n" ?k sc _ _ p] by (fastforce split: if_splits)
qed

section \<open>Properties\<close>

text \<open>A scoped guard makes strictly alternating calls on its lock over its whole life, whatever its owner locks and
  unlocks in between: the first acquires, the last releases, and no lock is acquired twice or released unheld. This holds of
  mutexes and of both sides of a read-write lock.\<close>

theorem guards_alternate:
  "(\<exists>k > 0. ScopedLockImpl uses m = m @ concat (replicate k [Lock, Unlock])) \<and>
   (\<exists>k > 0. ReadScopedLockImpl uses m = m @ concat (replicate k [Rdlock, Unlock])) \<and>
   (\<exists>k > 0. WriteScopedLockImpl uses m = m @ concat (replicate k [Wrlock, Unlock]))"
  unfolding ScopedLockImpl_def ReadScopedLockImpl_def WriteScopedLockImpl_def
  by (intro conjI mutex_guard.life_alternates read_guard.life_alternates write_guard.life_alternates)

text \<open>Exclusion by the lock on an atomic flag: in every state that threads can reach, at most one is inside, the flag
  is set exactly while one is, and a thread that tests a clear flag gets in.\<close>

theorem CASLock_exclusion:
  assumes "cas_step\<^sup>*\<^sup>* new_CASLock c"
  shows "(\<forall>t u. cl_pc c t = Inside \<and> cl_pc c u = Inside \<longrightarrow> t = u) \<and> (cl_flag c \<longleftrightarrow> (\<exists>t. cl_pc c t = Inside)) \<and>
    ((\<forall>t. cl_pc c t \<noteq> Inside) \<longrightarrow> cl_pc (test_and_set t c) t = Inside)"
  using cas_inv_reachable [OF assms cas_inv_new] by (auto simp: cas_inv_def test_and_set_def)

theorem CASLock_exclusion_witness:
  "cl_pc (test_and_set 3 (new_CASLock\<lparr>cl_pc := (\<lambda>_. Outside)(3 := Spinning)\<rparr>)) 3 = Inside"
proof -
  have "cas_step new_CASLock (new_CASLock\<lparr>cl_pc := (cl_pc new_CASLock)(3 := Spinning)\<rparr>)"
    by (rule cas_step.enter) (simp add: new_CASLock_def)
  then have "cas_step\<^sup>*\<^sup>* new_CASLock (new_CASLock\<lparr>cl_pc := (\<lambda>_. Outside)(3 := Spinning)\<rparr>)"
    by (auto simp: new_CASLock_def)
  from CASLock_exclusion [OF this] show ?thesis by (simp add: new_CASLock_def)
qed

text \<open>The fiber semaphore keeps its account and is fair: after any sequence of operations, permits handed out (at once
  or by waking) and permits left add up to the initial ones and the notifications; nobody waits while a permit is left;
  and the fibers that had to wait are handed to their schedulers in the order in which they came.\<close>

theorem fiber_semaphore_fair:
  assumes "unat n + length (filter ((=) Notify) ops) < 2 ^ 64"
  shows "\<exists>woken. let l = fold sem_do ops (sem_start n sc) in
      sl_blocked l = woken @ fs_waiters (sl_sem l) \<and>
      unat (fs_concurrency (sl_sem l)) + sl_passed l + length woken = unat n + length (filter ((=) Notify) ops) \<and>
      (fs_waiters (sl_sem l) \<noteq> [] \<longrightarrow> fs_concurrency (sl_sem l) = 0) \<and>
      (\<forall>i. m_fibers (sl_scheds l i) = m_fibers (sc i) @
         map (\<lambda>(_, fiber). FiberAndThread_fiber (Some fiber) (-1)) (filter (\<lambda>(s, _). s = i) woken))"
  using sem_inv_run [OF assms, of sc] by (auto simp: sem_inv_def woken_on_def Let_def)

definition demo_scheduler :: "unit scheduler" where
  "demo_scheduler = \<lparr>m_fibers = [], m_rootFiber = None, m_threadIds = [], m_threads = [], m_threadCount = 1,
     m_activeThreadCount = 0, m_idelThreadCount = 0, m_autoStop = False, m_stopping = False, m_rootThread = -1\<rparr>"

theorem fiber_semaphore_fair_witness:
  "m_fibers (sl_scheds (fold sem_do [Wait 0 7, Wait 0 8, Wait 0 9, Notify] (sem_start 1 (\<lambda>_. demo_scheduler))) 0) =
     [FiberAndThread_fiber (Some 8) (-1)]"
proof -
  have "sl_blocked (fold sem_do [Wait 0 7, Wait 0 8, Wait 0 9, Notify] (sem_start 1 (\<lambda>_. demo_scheduler))) = [(0, 8), (0, 9)]"
    "fs_waiters (sl_sem (fold sem_do [Wait 0 7, Wait 0 8, Wait 0 9, Notify] (sem_start 1 (\<lambda>_. demo_scheduler)))) = [(0, 9)]"
    by (simp_all add: sem_start_def new_FiberSemaphore_def sem_wait_def sem_notify_def)
  then show ?thesis
    using fiber_semaphore_fair [of 1 "[Wait 0 7, Wait 0 8, Wait 0 9, Notify]" "\<lambda>_. demo_scheduler"]
    by (auto simp: Let_def demo_scheduler_def)
qed

end
