(* ===== verification/AsyncStream.thy ===== *)
theory AsyncStream
  imports Locks Timer "HOL-Library.Multiset"
begin

text \<open>
  \<^verbatim>\<open>src/cxk/stream/async_socket_stream.{h,cpp}\<close>: requests that wait for their responses. A request is a context
  (\<open>ctx\<close>, extended by the derived stream) on a heap of shared objects; \<open>as_ctxs\<close> maps serial numbers to the
  contexts that wait, \<open>as_queue\<close> holds what is to be sent. Two fibers read and write; they and the starting fiber meet at the
  semaphore \<open>as_waitSem\<close>. Tasks and timer callbacks are the values of \<open>task\<close>;
  \<open>as_wire\<close> is the state of the bytes under the socket. The schedulers' queues and the
  timer manager are those of \<open>Scheduler\<close> and \<open>Timer\<close>.

  Parameters: the virtual methods \<open>doRecv\<close> and \<open>doSend\<close>, the callbacks, whether \<^verbatim>\<open>reconnect\<close> succeeds, the clock and the
  addresses of new objects, what other fibers do while one waits, and the order in which \<^verbatim>\<open>unordered_map\<close> is traversed (\<open>e_order\<close>).
  \<open>doRsp\<close> is given in the atomic parts another thread can come between: the load, the compare-and-swap, and the
  rest; \<open>rsp_step\<close> interleaves them with requests, responses, timeouts and closing.
\<close>

section \<open>State\<close>

definition ERR_TIMEOUT :: u32 where "ERR_TIMEOUT = - 1"
definition ERR_IO :: u32 where "ERR_IO = - 2"
definition ERR_NOT_CONNECT :: u32 where "ERR_NOT_CONNECT = - 3"

record ctx =
  cx_sn :: u32
  cx_timeout :: u32
  cx_result :: u32
  cx_timed :: bool
  cx_scheduler :: "nat option"
  cx_fiber :: "nat option"
  cx_timer :: "nat option"

definition new_Ctx :: ctx where
  "new_Ctx = \<lparr>cx_sn = 0, cx_timeout = 0, cx_result = 0, cx_timed = False, cx_scheduler = None, cx_fiber = None, cx_timer = None\<rparr>"

text \<open>What is queued: a message of the derived stream, or a context whose request is sent. \<open>'h\<close> are the tasks of the
  derived stream.\<close>

datatype 'm send_ctx = SendMsg 'm | SendCtx nat

datatype 'h task = DoRead | DoWrite | Start | OnTimeOut nat | Handle 'h

record ('m, 'h, 'z, 'w) async =
  as_connected :: "bool option"
  as_sem :: fiber_semaphore
  as_waitSem :: fiber_semaphore
  as_queue :: "'m send_ctx list"
  as_ctxs :: "u32 \<Rightarrow> nat option"
  as_autoConnect :: bool
  as_timer :: "nat option"
  as_iomanager :: "nat option"
  as_heap :: "nat \<Rightarrow> 'z ctx_scheme"
  as_scheds :: "'h task schedulers"
  as_tm :: "'h task timer_manager"
  as_wire :: 'w

text \<open>The environment of a call.\<close>

record 's env =
  e_here :: "nat option"
  e_me :: nat
  e_now :: u64
  e_addr :: nat
  e_order :: "(u32 \<Rightarrow> nat option) \<Rightarrow> u32 list"
  e_connectCb :: "('s \<Rightarrow> bool \<times> 's) option"
  e_disconnectCb :: "('s \<Rightarrow> 's) option"
  e_reconnect :: bool
  e_meanwhile :: "'s \<Rightarrow> 's"

definition new_AsyncSocketStream ::
  "bool option \<Rightarrow> (nat \<Rightarrow> 'z ctx_scheme) \<Rightarrow> 'h task schedulers \<Rightarrow> 'h task timer_manager \<Rightarrow> 'w \<Rightarrow>
   ('m, 'h, 'z, 'w) async" where
  "new_AsyncSocketStream sock h sc tm w =
     \<lparr>as_connected = sock, as_sem = new_FiberSemaphore 0, as_waitSem = new_FiberSemaphore 2, as_queue = [], as_ctxs = Map.empty,
      as_autoConnect = False, as_timer = None, as_iomanager = None, as_heap = h, as_scheds = sc, as_tm = tm, as_wire = w\<rparr>"

definition isConnected :: "('m, 'h, 'z, 'w) async \<Rightarrow> bool" where
  "isConnected s \<longleftrightarrow> as_connected s = Some True"

definition socket_close :: "('m, 'h, 'z, 'w) async \<Rightarrow> ('m, 'h, 'z, 'w) async" where
  "socket_close s = s\<lparr>as_connected := map_option (\<lambda>_. False) (as_connected s)\<rparr>"

section \<open>Contexts\<close>

definition upd_ctx :: "nat \<Rightarrow> ('z ctx_scheme \<Rightarrow> 'z ctx_scheme) \<Rightarrow> ('m, 'h, 'z, 'w) async \<Rightarrow> ('m, 'h, 'z, 'w) async" where
  "upd_ctx a f s = s\<lparr>as_heap := (as_heap s)(a := f (as_heap s a))\<rparr>"

definition getCtx :: "u32 \<Rightarrow> ('m, 'h, 'z, 'w) async \<Rightarrow> nat option" where
  "getCtx sn s = as_ctxs s sn"

definition getAndDelCtx :: "u32 \<Rightarrow> ('m, 'h, 'z, 'w) async \<Rightarrow> nat option \<times> ('m, 'h, 'z, 'w) async" where
  "getAndDelCtx sn s = (as_ctxs s sn, s\<lparr>as_ctxs := (as_ctxs s)(sn := None)\<rparr>)"

definition addCtx :: "nat \<Rightarrow> ('m, 'h, 'z, 'w) async \<Rightarrow> ('m, 'h, 'z, 'w) async" where
  "addCtx a s =
     (let sn = cx_sn (as_heap s a)
      in if as_ctxs s sn = None then s\<lparr>as_ctxs := (as_ctxs s)(sn \<mapsto> a)\<rparr> else s)"

definition cancel_timer :: "nat \<Rightarrow> ('m, 'h, 'z, 'w) async \<Rightarrow> (('m, 'h, 'z, 'w) async, unit) outcome" where
  "cancel_timer t s =
     (case cancel t (as_tm s) of
        Ret _ tm \<Rightarrow> Ret () (s\<lparr>as_tm := tm\<rparr>)
      | Throw x tm \<Rightarrow> Throw x (s\<lparr>as_tm := tm\<rparr>)
      | Undef u \<Rightarrow> Undef u)"

definition doRsp_load :: "nat \<Rightarrow> ('m, 'h, 'z, 'w) async \<Rightarrow> nat option" where
  "doRsp_load a s = cx_scheduler (as_heap s a)"

definition doRsp_cas :: "nat \<Rightarrow> nat option \<Rightarrow> ('m, 'h, 'z, 'w) async \<Rightarrow> bool \<times> ('m, 'h, 'z, 'w) async" where
  "doRsp_cas a scd s =
     (if cx_scheduler (as_heap s a) = scd then (True, upd_ctx a (cx_scheduler_update (\<lambda>_. None)) s) else (False, s))"

definition resume_ctx :: "nat \<Rightarrow> nat \<Rightarrow> nat \<Rightarrow> ('m, 'h, 'z, 'w) async \<Rightarrow> ('m, 'h, 'z, 'w) async" where
  "resume_ctx a scd fiber s =
     (let s = (if cx_timed (as_heap s a) then upd_ctx a (cx_result_update (\<lambda>_. ERR_TIMEOUT)) s else s);
          s = upd_ctx a (cx_fiber_update (\<lambda>_. None)) s
      in s\<lparr>as_scheds := (as_scheds s)(scd := snd (schedule (FiberAndThread_fiber (Some fiber) (-1)) (as_scheds s scd)))\<rparr>)"

definition doRsp_rest :: "nat \<Rightarrow> nat option \<Rightarrow> ('m, 'h, 'z, 'w) async \<Rightarrow> (('m, 'h, 'z, 'w) async, unit) outcome" where
  "doRsp_rest a scd s =
     (case (scd, cx_fiber (as_heap s a)) of
        (Some scd, Some fiber) \<Rightarrow>
          obind (case cx_timer (as_heap s a) of
                   Some t \<Rightarrow> obind (cancel_timer t s) (\<lambda>_ s. Ret () (upd_ctx a (cx_timer_update (\<lambda>_. None)) s))
                 | None \<Rightarrow> Ret () s)
            (\<lambda>_ s. Ret () (resume_ctx a scd fiber s))
      | _ \<Rightarrow> Ret () s)"

definition doRsp :: "nat \<Rightarrow> ('m, 'h, 'z, 'w) async \<Rightarrow> (('m, 'h, 'z, 'w) async, unit) outcome" where
  "doRsp a s =
     (let scd = doRsp_load a s
      in case doRsp_cas a scd s of (True, s) \<Rightarrow> doRsp_rest a scd s | (False, s) \<Rightarrow> Ret () s)"

definition onTimeOut_mark :: "nat \<Rightarrow> ('m, 'h, 'z, 'w) async \<Rightarrow> ('m, 'h, 'z, 'w) async" where
  "onTimeOut_mark a s =
     upd_ctx a (cx_timed_update (\<lambda>_. True)) (s\<lparr>as_ctxs := (as_ctxs s)(cx_sn (as_heap s a) := None)\<rparr>)"

definition onTimeOut :: "nat \<Rightarrow> ('m, 'h, 'z, 'w) async \<Rightarrow> (('m, 'h, 'z, 'w) async, unit) outcome" where
  "onTimeOut a s = doRsp a (onTimeOut_mark a s)"

section \<open>Queue, closing and waiting\<close>

definition notify_sem :: "('m, 'h, 'z, 'w) async \<Rightarrow> ('m, 'h, 'z, 'w) async" where
  "notify_sem s = (case sem_notify (as_sem s, as_scheds s) of (x, sc) \<Rightarrow> s\<lparr>as_sem := x, as_scheds := sc\<rparr>)"

definition notify_waitSem :: "('m, 'h, 'z, 'w) async \<Rightarrow> ('m, 'h, 'z, 'w) async" where
  "notify_waitSem s = (case sem_notify (as_waitSem s, as_scheds s) of (x, sc) \<Rightarrow> s\<lparr>as_waitSem := x, as_scheds := sc\<rparr>)"

definition enqueue :: "'m send_ctx \<Rightarrow> ('m, 'h, 'z, 'w) async \<Rightarrow> bool \<times> ('m, 'h, 'z, 'w) async" where
  "enqueue c s =
     (let emp = (as_queue s = []); s = s\<lparr>as_queue := as_queue s @ [c]\<rparr>
      in (emp, if emp then notify_sem s else s))"

fun fail_all :: "nat list \<Rightarrow> ('m, 'h, 'z, 'w) async \<Rightarrow> (('m, 'h, 'z, 'w) async, unit) outcome" where
  "fail_all [] s = Ret () s"
| "fail_all (a # as) s = obind (doRsp a (upd_ctx a (cx_result_update (\<lambda>_. ERR_IO)) s)) (\<lambda>_. fail_all as)"

text \<open>\<open>close_begin\<close> is \<open>innerClose\<close> up to the loop over the contexts it took out of the table.\<close>

definition close_begin :: "('m, 'h, 'z, 'w) async env \<Rightarrow> ('m, 'h, 'z, 'w) async \<Rightarrow> nat list \<times> ('m, 'h, 'z, 'w) async" where
  "close_begin e s =
     (let s = (case e_disconnectCb e of Some cb \<Rightarrow> if isConnected s then cb s else s | None \<Rightarrow> s);
          s = notify_sem (socket_close s);
          ctxs = as_ctxs s
      in (List.map_filter ctxs (e_order e ctxs), s\<lparr>as_ctxs := Map.empty, as_queue := []\<rparr>))"

definition innerClose :: "('m, 'h, 'z, 'w) async env \<Rightarrow> ('m, 'h, 'z, 'w) async \<Rightarrow> (('m, 'h, 'z, 'w) async, unit) outcome" where
  "innerClose e s = (case close_begin e s of (ctxs, s) \<Rightarrow> fail_all ctxs s)"

text \<open>A fiber that has to wait yields; \<open>e_meanwhile\<close> is what happens until it is resumed.\<close>

definition wait_waitSem :: "('m, 'h, 'z, 'w) async env \<Rightarrow> ('m, 'h, 'z, 'w) async \<Rightarrow> (('m, 'h, 'z, 'w) async, unit) outcome" where
  "wait_waitSem e s =
     (case sem_wait (e_here e) (e_me e) (as_waitSem s) of
        Ret ok x \<Rightarrow> Ret () (if ok then s\<lparr>as_waitSem := x\<rparr> else e_meanwhile e (s\<lparr>as_waitSem := x\<rparr>))
      | Throw x _ \<Rightarrow> Throw x s
      | Undef u \<Rightarrow> Undef u)"

definition wait_sem :: "('m, 'h, 'z, 'w) async env \<Rightarrow> ('m, 'h, 'z, 'w) async \<Rightarrow> (('m, 'h, 'z, 'w) async, unit) outcome" where
  "wait_sem e s =
     (case sem_wait (e_here e) (e_me e) (as_sem s) of
        Ret ok x \<Rightarrow> Ret () (if ok then s\<lparr>as_sem := x\<rparr> else e_meanwhile e (s\<lparr>as_sem := x\<rparr>))
      | Throw x _ \<Rightarrow> Throw x s
      | Undef u \<Rightarrow> Undef u)"

definition waitFiber :: "('m, 'h, 'z, 'w) async env \<Rightarrow> ('m, 'h, 'z, 'w) async \<Rightarrow> (('m, 'h, 'z, 'w) async, unit) outcome" where
  "waitFiber e s = obind (wait_waitSem e s) (\<lambda>_. wait_waitSem e)"

section \<open>Starting\<close>

definition iom_schedule :: "'h task \<Rightarrow> ('m, 'h, 'z, 'w) async \<Rightarrow> (('m, 'h, 'z, 'w) async, unit) outcome" where
  "iom_schedule f s =
     (case as_iomanager s of
        None \<Rightarrow> Undef NullDeref
      | Some i \<Rightarrow> Ret () (s\<lparr>as_scheds := (as_scheds s)(i := snd (schedule (FiberAndThread_cb (Some f) (-1)) (as_scheds s i)))\<rparr>))"

definition startRead :: "('m, 'h, 'z, 'w) async \<Rightarrow> (('m, 'h, 'z, 'w) async, unit) outcome" where
  "startRead = iom_schedule DoRead"

definition startWrite :: "('m, 'h, 'z, 'w) async \<Rightarrow> (('m, 'h, 'z, 'w) async, unit) outcome" where
  "startWrite = iom_schedule DoWrite"

text \<open>A timer of the I/O manager \<open>iom\<close>; the timers of all managers are kept in one.\<close>

definition add_timer :: "nat option \<Rightarrow> ('m, 'h, 'z, 'w) async env \<Rightarrow> u64 \<Rightarrow> 'h task \<Rightarrow> ('m, 'h, 'z, 'w) async \<Rightarrow> (('m, 'h, 'z, 'w) async, nat) outcome" where
  "add_timer iom e ms f s =
     (if iom = None then Undef NullDeref
      else Ret (e_addr e) (s\<lparr>as_tm := snd (addTimer (e_now e) (e_addr e) ms (Cb f) False (as_tm s))\<rparr>))"

definition drop_timer :: "('m, 'h, 'z, 'w) async \<Rightarrow> (('m, 'h, 'z, 'w) async, unit) outcome" where
  "drop_timer s =
     (case as_timer s of
        Some t \<Rightarrow> obind (cancel_timer t s) (\<lambda>_ s. Ret () (s\<lparr>as_timer := None\<rparr>))
      | None \<Rightarrow> Ret () s)"

text \<open>The loop body of \<open>start\<close>: \<open>True\<close> if both fibers are started, \<open>False\<close> for \<^verbatim>\<open>break\<close>.\<close>

definition start_failed :: "('m, 'h, 'z, 'w) async env \<Rightarrow> ('m, 'h, 'z, 'w) async \<Rightarrow> (('m, 'h, 'z, 'w) async, bool) outcome" where
  "start_failed e s = obind (innerClose e s) (\<lambda>_ s. Ret False (notify_waitSem (notify_waitSem s)))"

definition start_callback :: "('m, 'h, 'z, 'w) async env \<Rightarrow> ('m, 'h, 'z, 'w) async \<Rightarrow> (('m, 'h, 'z, 'w) async, bool) outcome" where
  "start_callback e s =
     (case (case e_connectCb e of Some cb \<Rightarrow> cb s | None \<Rightarrow> (False, s)) of
        (True, s) \<Rightarrow> start_failed e s
      | (False, s) \<Rightarrow> obind (startRead s) (\<lambda>_ s. obind (startWrite s) (\<lambda>_. Ret True)))"

definition start_body :: "('m, 'h, 'z, 'w) async env \<Rightarrow> ('m, 'h, 'z, 'w) async \<Rightarrow> (('m, 'h, 'z, 'w) async, bool) outcome" where
  "start_body e s =
     obind (waitFiber e s) (\<lambda>_ s. obind (drop_timer s) (\<lambda>_ s.
       if \<not> isConnected s then
         (case as_connected s of
            None \<Rightarrow> Undef NullDeref
          | Some _ \<Rightarrow>
              if e_reconnect e then start_callback e (s\<lparr>as_connected := Some True\<rparr>) else start_failed e s)
       else start_callback e s))"

definition async_start :: "('m, 'h, 'z, 'w) async env \<Rightarrow> ('m, 'h, 'z, 'w) async \<Rightarrow> (('m, 'h, 'z, 'w) async, bool) outcome" where
  "async_start e s =
     (let s = (if as_iomanager s = None then s\<lparr>as_iomanager := e_here e\<rparr> else s)
      in obind (start_body e s) (\<lambda>ok s.
           if ok then Ret True s
           else if as_autoConnect s then
             obind (drop_timer s) (\<lambda>_ s. obind (add_timer (as_iomanager s) e (2 * 1000) Start s) (\<lambda>t s. Ret False (s\<lparr>as_timer := Some t\<rparr>)))
           else Ret False s))"

section \<open>The two fibers\<close>

text \<open>\<open>fuel\<close> bounds the number of messages; the loops end when the stream is closed. An exception leaves the loop.\<close>

definition recv_one ::
  "(('m, 'h, 'z, 'w) async \<Rightarrow> (('m, 'h, 'z, 'w) async, nat option) outcome) \<Rightarrow> ('m, 'h, 'z, 'w) async \<Rightarrow>
   (('m, 'h, 'z, 'w) async, unit) outcome" where
  "recv_one doRecv s = obind (doRecv s) (\<lambda>c s. case c of Some a \<Rightarrow> doRsp a s | None \<Rightarrow> Ret () s)"

fun recv_loop ::
  "nat \<Rightarrow> (('m, 'h, 'z, 'w) async \<Rightarrow> (('m, 'h, 'z, 'w) async, nat option) outcome) \<Rightarrow> ('m, 'h, 'z, 'w) async \<Rightarrow> (('m, 'h, 'z, 'w) async, unit) outcome" where
  "recv_loop 0 doRecv s = (if isConnected s then Undef Diverges else Ret () s)"
| "recv_loop (Suc fuel) doRecv s =
     (if isConnected s then
        (case recv_one doRecv s of
           Ret _ s \<Rightarrow> recv_loop fuel doRecv s
         | Throw _ s \<Rightarrow> Ret () s
         | Undef u \<Rightarrow> Undef u)
      else Ret () s)"

definition doRead ::
  "nat \<Rightarrow> ('m, 'h, 'z, 'w) async env \<Rightarrow> (('m, 'h, 'z, 'w) async \<Rightarrow> (('m, 'h, 'z, 'w) async, nat option) outcome) \<Rightarrow>
   ('m, 'h, 'z, 'w) async \<Rightarrow> (('m, 'h, 'z, 'w) async, unit) outcome" where
  "doRead fuel e doRecv s =
     obind (recv_loop fuel doRecv s) (\<lambda>_ s. obind (innerClose e s) (\<lambda>_ s.
       let s = notify_waitSem s
       in if as_autoConnect s then obind (add_timer (as_iomanager s) e 10 Start s) (\<lambda>_. Ret ()) else Ret () s))"

fun send_all ::
  "('m, 'h, 'z, 'w) async env \<Rightarrow> ('m send_ctx \<Rightarrow> ('m, 'h, 'z, 'w) async \<Rightarrow> (('m, 'h, 'z, 'w) async, bool) outcome) \<Rightarrow> 'm send_ctx list \<Rightarrow>
   ('m, 'h, 'z, 'w) async \<Rightarrow> (('m, 'h, 'z, 'w) async, unit) outcome" where
  "send_all e doSend [] s = Ret () s"
| "send_all e doSend (c # cs) s =
     obind (doSend c s) (\<lambda>ok s. if ok then send_all e doSend cs s else innerClose e s)"

fun send_loop ::
  "nat \<Rightarrow> ('m, 'h, 'z, 'w) async env \<Rightarrow> ('m send_ctx \<Rightarrow> ('m, 'h, 'z, 'w) async \<Rightarrow> (('m, 'h, 'z, 'w) async, bool) outcome) \<Rightarrow>
   ('m, 'h, 'z, 'w) async \<Rightarrow> (('m, 'h, 'z, 'w) async, unit) outcome" where
  "send_loop 0 e doSend s = (if isConnected s then Undef Diverges else Ret () s)"
| "send_loop (Suc fuel) e doSend s =
     (if isConnected s then
        (case obind (wait_sem e s) (\<lambda>_ s. send_all e doSend (as_queue s) (s\<lparr>as_queue := []\<rparr>)) of
           Ret _ s \<Rightarrow> send_loop fuel e doSend s
         | Throw _ s \<Rightarrow> Ret () s
         | Undef u \<Rightarrow> Undef u)
      else Ret () s)"

definition doWrite ::
  "nat \<Rightarrow> ('m, 'h, 'z, 'w) async env \<Rightarrow> ('m send_ctx \<Rightarrow> ('m, 'h, 'z, 'w) async \<Rightarrow> (('m, 'h, 'z, 'w) async, bool) outcome) \<Rightarrow>
   ('m, 'h, 'z, 'w) async \<Rightarrow> (('m, 'h, 'z, 'w) async, unit) outcome" where
  "doWrite fuel e doSend s =
     obind (send_loop fuel e doSend s) (\<lambda>_ s. Ret () (notify_waitSem (s\<lparr>as_queue := []\<rparr>)))"

text \<open>\<open>SchedulerSwitcher\<close> takes the calling fiber to the scheduler of the stream and back.\<close>

definition switch_to :: "('m, 'h, 'z, 'w) async env \<Rightarrow> nat option \<Rightarrow> nat option \<Rightarrow> ('m, 'h, 'z, 'w) async \<Rightarrow> (('m, 'h, 'z, 'w) async, unit) outcome" where
  "switch_to e here target s =
     (case target of
        None \<Rightarrow> Ret () s
      | Some i \<Rightarrow>
          (case switchTo (here \<noteq> None) (here = Some i) 0 (e_me e) (-1) (as_scheds s i) of
             Ret yields sc \<Rightarrow>
               let s = s\<lparr>as_scheds := (as_scheds s)(i := sc)\<rparr> in Ret () (if yields then e_meanwhile e s else s)
           | Throw x _ \<Rightarrow> Throw x s
           | Undef u \<Rightarrow> Undef u))"

definition async_close :: "('m, 'h, 'z, 'w) async env \<Rightarrow> ('m, 'h, 'z, 'w) async \<Rightarrow> (('m, 'h, 'z, 'w) async, unit) outcome" where
  "async_close e s =
     (let s = s\<lparr>as_autoConnect := False\<rparr>; target = as_iomanager s
      in obind (switch_to e (e_here e) target s) (\<lambda>_ s.
           switch_to e (if target = None then e_here e else target) (e_here e) (socket_close s)))"

section \<open>The manager of streams\<close>

record 'c managed =
  md_connected :: bool
  md_connectCb :: "'c option"
  md_disconnectCb :: "'c option"

record 'c manager =
  mg_size :: u32
  mg_idx :: u32
  mg_datas :: "nat list"
  mg_connectCb :: "'c option"
  mg_disconnectCb :: "'c option"
  mg_heap :: "nat \<Rightarrow> 'c managed"

definition new_AsyncSocketStreamManager :: "(nat \<Rightarrow> 'c managed) \<Rightarrow> 'c manager" where
  "new_AsyncSocketStreamManager h =
     \<lparr>mg_size = 0, mg_idx = 0, mg_datas = [], mg_connectCb = None, mg_disconnectCb = None, mg_heap = h\<rparr>"

definition give_cbs :: "'c option \<Rightarrow> 'c option \<Rightarrow> 'c managed \<Rightarrow> 'c managed" where
  "give_cbs c d m =
     (let m = (if c \<noteq> None then m\<lparr>md_connectCb := c\<rparr> else m)
      in if d \<noteq> None then m\<lparr>md_disconnectCb := d\<rparr> else m)"

definition mgr_add :: "nat \<Rightarrow> 'c manager \<Rightarrow> 'c manager" where
  "mgr_add stream g =
     g\<lparr>mg_datas := mg_datas g @ [stream], mg_size := mg_size g + 1,
       mg_heap := (mg_heap g)(stream := give_cbs (mg_connectCb g) (mg_disconnectCb g) (mg_heap g stream))\<rparr>"

definition close_each :: "nat list \<Rightarrow> (nat \<Rightarrow> 'c managed) \<Rightarrow> nat \<Rightarrow> 'c managed" where
  "close_each xs h = (\<lambda>a. if a \<in> set xs then (h a)\<lparr>md_connected := False\<rparr> else h a)"

definition mgr_clear :: "'c manager \<Rightarrow> 'c manager" where
  "mgr_clear g = g\<lparr>mg_heap := close_each (mg_datas g) (mg_heap g), mg_datas := [], mg_size := 0\<rparr>"

definition mgr_setConnection :: "nat list \<Rightarrow> 'c manager \<Rightarrow> 'c manager" where
  "mgr_setConnection streams g =
     (let h = (\<lambda>a. if a \<in> set streams then give_cbs (mg_connectCb g) (mg_disconnectCb g) (mg_heap g a) else mg_heap g a)
      in g\<lparr>mg_datas := streams, mg_size := of_nat (length streams), mg_heap := close_each (mg_datas g) h\<rparr>)"

fun mgr_get_loop :: "nat \<Rightarrow> 'c manager \<Rightarrow> ('c manager, nat option) outcome" where
  "mgr_get_loop 0 g = Ret None g"
| "mgr_get_loop (Suc k) g =
     (let idx = mg_idx g + 1; g = g\<lparr>mg_idx := idx\<rparr>; i = unat (idx mod mg_size g)
      in if i < length (mg_datas g) then
           (if md_connected (mg_heap g (mg_datas g ! i)) then Ret (Some (mg_datas g ! i)) g else mgr_get_loop k g)
         else Undef OutOfBounds)"

definition mgr_get :: "'c manager \<Rightarrow> ('c manager, nat option) outcome" where
  "mgr_get g = mgr_get_loop (unat (mg_size g)) g"

definition mgr_setConnectCb :: "'c option \<Rightarrow> 'c manager \<Rightarrow> 'c manager" where
  "mgr_setConnectCb cb g =
     g\<lparr>mg_connectCb := cb, mg_heap := (\<lambda>a. if a \<in> set (mg_datas g) then (mg_heap g a)\<lparr>md_connectCb := cb\<rparr> else mg_heap g a)\<rparr>"

definition mgr_setDisconnectCb :: "'c option \<Rightarrow> 'c manager \<Rightarrow> 'c manager" where
  "mgr_setDisconnectCb cb g =
     g\<lparr>mg_disconnectCb := cb, mg_heap := (\<lambda>a. if a \<in> set (mg_datas g) then (mg_heap g a)\<lparr>md_disconnectCb := cb\<rparr> else mg_heap g a)\<rparr>"

section \<open>Interleaving\<close>

text \<open>Threads that hold a context: about to call \<open>doRsp\<close> (with the flag, after storing \<open>ERR_IO\<close>), between load and
  compare-and-swap, and behind a successful one. \<open>rs_born\<close> are the contexts created so far, \<open>rs_woken\<close> those whose fiber was
  handed to its scheduler.\<close>

record ('m, 'h, 'z, 'w) rsp_sys =
  rs_s :: "('m, 'h, 'z, 'w) async"
  rs_held :: "(nat \<times> bool) multiset"
  rs_loaded :: "(nat \<times> nat option) multiset"
  rs_won :: "(nat \<times> nat option) multiset"
  rs_born :: "nat set"
  rs_woken :: "nat multiset"

text \<open>What a thread may store in a context besides: result and response, but none of the fields that control waking.\<close>

definition control :: "'z ctx_scheme \<Rightarrow> u32 \<times> nat option \<times> nat option" where
  "control c = (cx_sn c, cx_scheduler c, cx_fiber c)"

inductive rsp_step :: "('m, 'h, 'z, 'w) rsp_sys \<Rightarrow> ('m, 'h, 'z, 'w) rsp_sys \<Rightarrow> bool" where
  request: "a \<notin> rs_born r \<Longrightarrow> isConnected (rs_s r) \<Longrightarrow> cx_scheduler c \<noteq> None \<Longrightarrow> cx_fiber c \<noteq> None \<Longrightarrow>
      (\<And>b. b \<in> rs_born r \<Longrightarrow> cx_sn (as_heap (rs_s r) b) \<noteq> cx_sn c) \<Longrightarrow>
      rsp_step r (r\<lparr>rs_s := addCtx a (upd_ctx a (\<lambda>_. c) (rs_s r)), rs_born := insert a (rs_born r)\<rparr>)"
| set_timer: "a \<in> rs_born r \<Longrightarrow> add_timer iom e ms (OnTimeOut a) (rs_s r) = Ret t s \<Longrightarrow> m_cb (heap (as_tm (rs_s r)) t) = None \<Longrightarrow>
      rsp_step r (r\<lparr>rs_s := upd_ctx a (cx_timer_update (\<lambda>_. Some t)) s\<rparr>)"
| enqueue: "rsp_step r (r\<lparr>rs_s := snd (enqueue m (rs_s r))\<rparr>)"
| response: "getAndDelCtx sn (rs_s r) = (Some a, s) \<Longrightarrow> (\<And>c. control (f c) = control c) \<Longrightarrow>
      rsp_step r (r\<lparr>rs_s := upd_ctx a f s, rs_held := add_mset (a, False) (rs_held r)\<rparr>)"
| timeout: "a \<in> rs_born r \<Longrightarrow>
      rsp_step r (r\<lparr>rs_s := onTimeOut_mark a (rs_s r), rs_held := add_mset (a, False) (rs_held r)\<rparr>)"
| close: "close_begin e (rs_s r) = (ctxs, s) \<Longrightarrow> e_disconnectCb e = None \<Longrightarrow>
      distinct (e_order e (as_ctxs (rs_s r))) \<Longrightarrow> set (e_order e (as_ctxs (rs_s r))) = dom (as_ctxs (rs_s r)) \<Longrightarrow>
      rsp_step r (r\<lparr>rs_s := s, rs_held := rs_held r + mset (map (\<lambda>a. (a, True)) ctxs)\<rparr>)"
| fail: "rs_held r = add_mset (a, True) H \<Longrightarrow>
      rsp_step r (r\<lparr>rs_s := upd_ctx a (cx_result_update (\<lambda>_. ERR_IO)) (rs_s r), rs_held := add_mset (a, False) H\<rparr>)"
| load: "rs_held r = add_mset (a, False) H \<Longrightarrow>
      rsp_step r (r\<lparr>rs_held := H, rs_loaded := add_mset (a, doRsp_load a (rs_s r)) (rs_loaded r)\<rparr>)"
| cas_lost: "rs_loaded r = add_mset (a, scd) L \<Longrightarrow> doRsp_cas a scd (rs_s r) = (False, s) \<Longrightarrow>
      rsp_step r (r\<lparr>rs_s := s, rs_loaded := L\<rparr>)"
| cas_won: "rs_loaded r = add_mset (a, scd) L \<Longrightarrow> doRsp_cas a scd (rs_s r) = (True, s) \<Longrightarrow>
      rsp_step r (r\<lparr>rs_s := s, rs_loaded := L, rs_won := add_mset (a, scd) (rs_won r)\<rparr>)"
| rest: "rs_won r = add_mset (a, scd) W \<Longrightarrow> doRsp_rest a scd (rs_s r) = Ret () s \<Longrightarrow>
      rsp_step r (r\<lparr>rs_s := s, rs_won := W,
        rs_woken := (if scd \<noteq> None \<and> cx_fiber (as_heap (rs_s r) a) \<noteq> None then add_mset a (rs_woken r) else rs_woken r)\<rparr>)"
| other: "as_heap s = as_heap (rs_s r) \<Longrightarrow> as_ctxs s = as_ctxs (rs_s r) \<Longrightarrow> tm_inv (as_tm s) \<Longrightarrow>
      rsp_step r (r\<lparr>rs_s := s\<rparr>)"

inductive_cases rsp_stepE: "rsp_step r r'"

section \<open>Waking once\<close>

lemmas ctx_defs = upd_ctx_def addCtx_def getAndDelCtx_def onTimeOut_mark_def doRsp_load_def doRsp_cas_def

text \<open>The fields waking depends on.\<close>

definition live :: "('m, 'h, 'z, 'w) rsp_sys \<Rightarrow> nat \<Rightarrow> bool" where
  "live r a \<longleftrightarrow> cx_scheduler (as_heap (rs_s r) a) \<noteq> None"

definition winners :: "nat \<Rightarrow> (nat \<times> nat option) multiset \<Rightarrow> nat" where
  "winners a W = size (filter_mset (\<lambda>(b, scd). b = a \<and> scd \<noteq> None) W)"

lemma winners_0: "a \<notin> fst ` set_mset W \<Longrightarrow> winners a W = 0"
  by (induction W) (auto simp: winners_def)

lemma winners_simps [simp]:
  "winners a {#} = 0"
  "winners a (add_mset (b, scd) W) = (if b = a \<and> scd \<noteq> None then Suc (winners a W) else winners a W)"
  by (simp_all add: winners_def)

text \<open>The invariant. A context is born with a scheduler; exactly one of three holds of it from then on: it still has
  its scheduler, one thread has taken it, its fiber has been woken. While it has its scheduler, it is in the table or
  a thread holds it.\<close>

definition owed :: "('m, 'h, 'z, 'w) rsp_sys \<Rightarrow> nat \<Rightarrow> bool" where
  "owed r a \<longleftrightarrow>
     winners a (rs_won r) + count (rs_woken r) a + (if live r a then 1 else 0) = 1 \<and>
     (cx_fiber (as_heap (rs_s r) a) = None \<longleftrightarrow> a \<in># rs_woken r)"

definition reachable_ctx :: "('m, 'h, 'z, 'w) rsp_sys \<Rightarrow> nat \<Rightarrow> bool" where
  "reachable_ctx r a \<longleftrightarrow>
     as_ctxs (rs_s r) (cx_sn (as_heap (rs_s r) a)) = Some a \<or> (\<exists>b. (a, b) \<in># rs_held r) \<or>
     (a, cx_scheduler (as_heap (rs_s r) a)) \<in># rs_loaded r"

definition rsp_inv :: "('m, 'h, 'z, 'w) rsp_sys \<Rightarrow> bool" where
  "rsp_inv r \<longleftrightarrow>
     tm_inv (as_tm (rs_s r)) \<and>
     inj_on (\<lambda>a. cx_sn (as_heap (rs_s r) a)) (rs_born r) \<and>
     (\<forall>sn a. as_ctxs (rs_s r) sn = Some a \<longrightarrow> a \<in> rs_born r \<and> cx_sn (as_heap (rs_s r) a) = sn) \<and>
     fst ` set_mset (rs_held r) \<union> fst ` set_mset (rs_loaded r) \<union> fst ` set_mset (rs_won r) \<union> set_mset (rs_woken r) \<subseteq> rs_born r \<and>
     (\<forall>a \<in> rs_born r. owed r a \<and> (live r a \<longrightarrow> reachable_ctx r a))"

lemma controlD:
  assumes "control c = control d"
  shows "cx_sn c = cx_sn d" "cx_scheduler c = cx_scheduler d" "cx_fiber c = cx_fiber d"
  using assms by (simp_all add: control_def)

text \<open>Steps that leave the control fields alone and take contexts out of the table only into somebody's hands.\<close>

lemma rsp_inv_hold:
  assumes inv: "rsp_inv r" and tm: "tm_inv (as_tm s)"
    and ctl: "\<And>b. control (as_heap s b) = control (as_heap (rs_s r) b)"
    and sub: "as_ctxs s \<subseteq>\<^sub>m as_ctxs (rs_s r)"
    and held: "fst ` set_mset (rs_held r) \<subseteq> fst ` set_mset H" "fst ` set_mset H \<subseteq> rs_born r"
    and out: "\<And>sn a. as_ctxs (rs_s r) sn = Some a \<Longrightarrow> as_ctxs s sn = Some a \<or> a \<in> fst ` set_mset H"
  shows "rsp_inv (r\<lparr>rs_s := s, rs_held := H\<rparr>)"
proof -
  note c = controlD [OF ctl]
  have "reachable_ctx (r\<lparr>rs_s := s, rs_held := H\<rparr>) a" if "reachable_ctx r a" for a
    using that held(1) out by (force simp: reachable_ctx_def c)
  moreover have "owed (r\<lparr>rs_s := s, rs_held := H\<rparr>) a = owed r a" "live (r\<lparr>rs_s := s, rs_held := H\<rparr>) a = live r a" for a
    by (simp_all add: owed_def live_def c)
  ultimately show ?thesis
    using inv tm held(2) sub unfolding rsp_inv_def by (auto simp: c map_le_def dom_def)
qed

lemma rsp_inv_frame:
  assumes "rsp_inv r" and "tm_inv (as_tm s)" and "\<And>b. control (as_heap s b) = control (as_heap (rs_s r) b)"
    and "as_ctxs s = as_ctxs (rs_s r)"
  shows "rsp_inv (r\<lparr>rs_s := s\<rparr>)"
proof -
  have "fst ` set_mset (rs_held r) \<subseteq> rs_born r" using assms(1) by (auto simp: rsp_inv_def)
  then have "rsp_inv (r\<lparr>rs_s := s, rs_held := rs_held r\<rparr>)"
    using assms by (intro rsp_inv_hold) auto
  then show ?thesis by simp
qed

lemma rsp_inv_request:
  assumes "rsp_inv r" and "a \<notin> rs_born r" and "cx_scheduler c \<noteq> None" and "cx_fiber c \<noteq> None"
    and "\<And>b. b \<in> rs_born r \<Longrightarrow> cx_sn (as_heap (rs_s r) b) \<noteq> cx_sn c"
  shows "rsp_inv (r\<lparr>rs_s := addCtx a (upd_ctx a (\<lambda>_. c) (rs_s r)), rs_born := insert a (rs_born r)\<rparr>)"
proof -
  let ?s = "addCtx a (upd_ctx a (\<lambda>_. c) (rs_s r))"
  let ?r = "r\<lparr>rs_s := ?s, rs_born := insert a (rs_born r)\<rparr>"
  have none: "as_ctxs (rs_s r) (cx_sn c) = None"
    using assms(1,5) unfolding rsp_inv_def by (metis not_None_eq)
  have s: "?s = rs_s r\<lparr>as_heap := (as_heap (rs_s r))(a := c), as_ctxs := (as_ctxs (rs_s r))(cx_sn c \<mapsto> a)\<rparr>"
    by (simp add: ctx_defs none)
  have fresh: "winners a (rs_won r) = 0" "count (rs_woken r) a = 0"
    using assms(1,2) by (auto simp: rsp_inv_def count_eq_zero_iff intro!: winners_0)
  then have new: "owed ?r a" "reachable_ctx ?r a"
    using assms(3,4) by (auto simp: owed_def live_def s reachable_ctx_def count_eq_zero_iff)
  have "owed ?r b = owed r b" "live ?r b = live r b" "reachable_ctx r b \<Longrightarrow> reachable_ctx ?r b" if "b \<in> rs_born r" for b
    using that assms(2,5) by (auto simp: owed_def live_def s reachable_ctx_def)
  moreover have "inj_on (\<lambda>a. cx_sn (as_heap ?s a)) (insert a (rs_born r))"
    using assms(1,2,5) unfolding rsp_inv_def s inj_on_def by (auto dest: sym)
  ultimately show ?thesis
    using assms(1,2,5) new unfolding rsp_inv_def by (auto simp: s)
qed

lemma rsp_inv_load:
  assumes "rsp_inv r" and "rs_held r = add_mset (a, False) H"
  shows "rsp_inv (r\<lparr>rs_held := H, rs_loaded := add_mset (a, doRsp_load a (rs_s r)) (rs_loaded r)\<rparr>)"
proof -
  let ?r = "r\<lparr>rs_held := H, rs_loaded := add_mset (a, doRsp_load a (rs_s r)) (rs_loaded r)\<rparr>"
  have "owed ?r b = owed r b" "live ?r b = live r b" "reachable_ctx r b \<Longrightarrow> reachable_ctx ?r b" for b
    using assms(2) by (auto simp: owed_def live_def reachable_ctx_def doRsp_load_def)
  then show ?thesis
    using assms unfolding rsp_inv_def by auto
qed

lemma rsp_inv_cas_lost:
  assumes "rsp_inv r" and "rs_loaded r = add_mset (a, scd) L" and "doRsp_cas a scd (rs_s r) = (False, s)"
  shows "rsp_inv (r\<lparr>rs_s := s, rs_loaded := L\<rparr>)"
proof -
  have s: "s = rs_s r" "cx_scheduler (as_heap (rs_s r) a) \<noteq> scd" using assms(3) by (auto simp: doRsp_cas_def split: if_splits)
  let ?r = "r\<lparr>rs_s := s, rs_loaded := L\<rparr>"
  have "owed ?r b = owed r b" "live ?r b = live r b" "reachable_ctx r b \<Longrightarrow> reachable_ctx ?r b" for b
    using assms(2) s by (auto simp: owed_def live_def reachable_ctx_def)
  then show ?thesis
    using assms s unfolding rsp_inv_def by auto
qed

lemma rsp_inv_cas_won:
  assumes "rsp_inv r" and "rs_loaded r = add_mset (a, scd) L" and "doRsp_cas a scd (rs_s r) = (True, s)"
  shows "rsp_inv (r\<lparr>rs_s := s, rs_loaded := L, rs_won := add_mset (a, scd) (rs_won r)\<rparr>)"
proof -
  have s: "s = upd_ctx a (cx_scheduler_update (\<lambda>_. None)) (rs_s r)" "cx_scheduler (as_heap (rs_s r) a) = scd"
    using assms(3) by (auto simp: doRsp_cas_def split: if_splits)
  let ?r = "r\<lparr>rs_s := s, rs_loaded := L, rs_won := add_mset (a, scd) (rs_won r)\<rparr>"
  have "owed r b \<Longrightarrow> owed ?r b" "live ?r b \<Longrightarrow> live r b \<and> b \<noteq> a" "live ?r b \<Longrightarrow> reachable_ctx r b \<Longrightarrow> reachable_ctx ?r b" for b
    using assms(2) s by (auto simp: owed_def live_def reachable_ctx_def upd_ctx_def split: if_splits)
  moreover have "cx_sn (as_heap s b) = cx_sn (as_heap (rs_s r) b)" for b by (simp add: s upd_ctx_def)
  ultimately show ?thesis
    using assms(1,2) unfolding rsp_inv_def by (auto simp: s(1) upd_ctx_def)
qed

lemma cancel_timer_ok:
  assumes "tm_inv (as_tm s)"
  shows "\<exists>tm. cancel_timer t s = Ret () (s\<lparr>as_tm := tm\<rparr>) \<and> tm_inv tm"
proof (cases "m_cb (heap (as_tm s) t) = None")
  case True
  then have "cancel t (as_tm s) = Ret False (as_tm s)" by (simp add: cancel_def)
  then show ?thesis using assms by (intro exI [of _ "as_tm s"]) (simp add: cancel_timer_def)
next
  case False
  then show ?thesis using cancel_live [OF assms False] cancel_inv [OF assms] by (auto simp: cancel_timer_def)
qed

text \<open>\<open>doRsp\<close> behind a successful swap: it never fails, and it hands the fiber over if there is one.\<close>

lemma doRsp_rest_ok:
  assumes "tm_inv (as_tm s)"
  shows "\<exists>s'. doRsp_rest a scd s = Ret () s' \<and> tm_inv (as_tm s') \<and> as_ctxs s' = as_ctxs s \<and>
    (\<forall>b. cx_sn (as_heap s' b) = cx_sn (as_heap s b) \<and> cx_scheduler (as_heap s' b) = cx_scheduler (as_heap s b) \<and>
       cx_fiber (as_heap s' b) = (if b = a \<and> scd \<noteq> None then None else cx_fiber (as_heap s b)))"
proof (cases "scd = None \<or> cx_fiber (as_heap s a) = None")
  case True
  then show ?thesis using assms by (auto simp: doRsp_rest_def split: option.split)
next
  case False
  obtain tm where tm: "tm_inv tm" "\<And>t. cx_timer (as_heap s a) = Some t \<Longrightarrow> cancel_timer t s = Ret () (s\<lparr>as_tm := tm\<rparr>)"
    using cancel_timer_ok [OF assms] assms by (metis option.inject)
  show ?thesis
    using False assms tm
    by (cases "cx_timer (as_heap s a)") (auto simp: doRsp_rest_def resume_ctx_def upd_ctx_def Let_def)
qed

lemma rsp_inv_rest:
  assumes "rsp_inv r" and "rs_won r = add_mset (a, scd) W" and "doRsp_rest a scd (rs_s r) = Ret () s"
  shows "rsp_inv (r\<lparr>rs_s := s, rs_won := W,
        rs_woken := (if scd \<noteq> None \<and> cx_fiber (as_heap (rs_s r) a) \<noteq> None then add_mset a (rs_woken r) else rs_woken r)\<rparr>)"
proof -
  let ?r = "r\<lparr>rs_s := s, rs_won := W,
        rs_woken := (if scd \<noteq> None \<and> cx_fiber (as_heap (rs_s r) a) \<noteq> None then add_mset a (rs_woken r) else rs_woken r)\<rparr>"
  have tm: "tm_inv (as_tm (rs_s r))" and a: "a \<in> rs_born r" and ow: "owed r a"
    using assms(1,2) by (auto simp: rsp_inv_def)
  note s = doRsp_rest_ok [OF tm, of a scd, unfolded assms(3), simplified]
  have fiber: "cx_fiber (as_heap (rs_s r) a) \<noteq> None" if "scd \<noteq> None"
  proof -
    have "0 < winners a (rs_won r)" using assms(2) that by auto
    then have "a \<notin># rs_woken r" using ow by (auto simp: owed_def not_in_iff split: if_splits)
    then show ?thesis using ow by (simp add: owed_def)
  qed
  have "owed r b \<Longrightarrow> owed ?r b" "live ?r b = live r b" "reachable_ctx r b = reachable_ctx ?r b" for b
    using s fiber assms(2) by (cases scd; auto simp: owed_def live_def reachable_ctx_def)+
  then show ?thesis
    using assms(1,2) s a unfolding rsp_inv_def by auto
qed

lemma notify_sem_keeps [simp]:
  "as_heap (notify_sem s) = as_heap s" "as_ctxs (notify_sem s) = as_ctxs s" "as_tm (notify_sem s) = as_tm s"
  "as_connected (notify_sem s) = as_connected s" "as_queue (notify_sem s) = as_queue s" "as_wire (notify_sem s) = as_wire s"
  by (simp_all add: notify_sem_def split: prod.split)

lemma enqueue_keeps [simp]:
  "as_heap (snd (enqueue c s)) = as_heap s" "as_ctxs (snd (enqueue c s)) = as_ctxs s" "as_tm (snd (enqueue c s)) = as_tm s"
  "as_connected (snd (enqueue c s)) = as_connected s" "as_wire (snd (enqueue c s)) = as_wire s"
  "as_queue (snd (enqueue c s)) = as_queue s @ [c]"
  by (simp_all add: enqueue_def Let_def)

lemma socket_close_keeps [simp]:
  "as_heap (socket_close s) = as_heap s" "as_ctxs (socket_close s) = as_ctxs s" "as_tm (socket_close s) = as_tm s"
  by (simp_all add: socket_close_def)

lemma close_begin_quiet:
  assumes "e_disconnectCb e = None" and "close_begin e s = (ctxs, s')"
  shows "as_heap s' = as_heap s" "as_tm s' = as_tm s" "as_ctxs s' = Map.empty" "as_queue s' = []"
    "ctxs = List.map_filter (as_ctxs s) (e_order e (as_ctxs s))" "\<not> isConnected s'"
  using assms by (auto simp: close_begin_def Let_def isConnected_def socket_close_def)

lemma rsp_inv_set_timer:
  assumes "rsp_inv r" and "add_timer iom e ms f (rs_s r) = Ret t s" and "m_cb (heap (as_tm (rs_s r)) t) = None"
  shows "rsp_inv (r\<lparr>rs_s := upd_ctx a (cx_timer_update (\<lambda>_. Some t)) s\<rparr>)"
proof -
  have "tm_inv (as_tm s)" "as_heap s = as_heap (rs_s r)" "as_ctxs s = as_ctxs (rs_s r)"
    using assms addTimer_inv [of "as_tm (rs_s r)" t "e_now e" ms "Cb f" False, OF _ _ prod.collapse [symmetric]]
    by (auto simp: add_timer_def rsp_inv_def split: if_splits)
  then show ?thesis by (intro rsp_inv_frame [OF assms(1)]) (auto simp: upd_ctx_def control_def)
qed

lemma rsp_inv_close:
  assumes "rsp_inv r" and "close_begin e (rs_s r) = (ctxs, s)" and "e_disconnectCb e = None"
    and "set (e_order e (as_ctxs (rs_s r))) = dom (as_ctxs (rs_s r))"
  shows "rsp_inv (r\<lparr>rs_s := s, rs_held := rs_held r + mset (map (\<lambda>a. (a, True)) ctxs)\<rparr>)"
proof -
  note q = close_begin_quiet [OF assms(3,2)]
  have ctxs: "set ctxs = ran (as_ctxs (rs_s r))"
    using assms(4) by (force simp: q(5) List.map_filter_def ran_def dom_def)
  have born: "ran (as_ctxs (rs_s r)) \<subseteq> rs_born r" "fst ` set_mset (rs_held r) \<subseteq> rs_born r" "tm_inv (as_tm (rs_s r))"
    using assms(1) by (auto simp: rsp_inv_def ran_def)
  show ?thesis
    using q(1-3) born ctxs by (intro rsp_inv_hold [OF assms(1)]) (auto simp: image_image image_Un ranI)
qed

lemma rsp_inv_step: "rsp_step r r' \<Longrightarrow> rsp_inv r \<Longrightarrow> rsp_inv r'"
proof (induction rule: rsp_step.induct)
  case (enqueue r m)
  then have "tm_inv (as_tm (rs_s r))" by (simp add: rsp_inv_def)
  then show ?case by (intro rsp_inv_frame [OF enqueue.prems]) (auto simp: enqueue_def Let_def)
next
  case (response sn r a s f)
  then have "as_ctxs (rs_s r) sn = Some a" "s = rs_s r\<lparr>as_ctxs := (as_ctxs (rs_s r))(sn := None)\<rparr>"
    by (auto simp: getAndDelCtx_def)
  then show ?case
    using response by (intro rsp_inv_hold) (auto simp: upd_ctx_def rsp_inv_def map_le_def)
next
  case (timeout a r)
  have "b = a" if "as_ctxs (rs_s r) (cx_sn (as_heap (rs_s r) a)) = Some b" for b
    using that timeout by (auto simp: rsp_inv_def inj_on_def)
  then show ?case
    using timeout
    by (intro rsp_inv_hold) (auto simp: onTimeOut_mark_def upd_ctx_def rsp_inv_def map_le_def control_def)
next
  case (fail r a H)
  then show ?case by (intro rsp_inv_hold) (auto simp: rsp_inv_def upd_ctx_def control_def)
next
  case (other s r)
  then show ?case by (intro rsp_inv_frame) auto
next
  case (rest r a scd W s)
  then show ?case by (intro rsp_inv_rest)
next
  case (close e r ctxs s)
  then show ?case by (intro rsp_inv_close)
qed (simp_all add: rsp_inv_request rsp_inv_set_timer rsp_inv_load rsp_inv_cas_lost rsp_inv_cas_won)

lemma rsp_inv_steps: "rsp_step\<^sup>*\<^sup>* r r' \<Longrightarrow> rsp_inv r \<Longrightarrow> rsp_inv r'"
  by (induction rule: rtranclp_induct) (auto intro: rsp_inv_step)

definition rsp_start :: "('m, 'h, 'z, 'w) async \<Rightarrow> ('m, 'h, 'z, 'w) rsp_sys" where
  "rsp_start s = \<lparr>rs_s = s, rs_held = {#}, rs_loaded = {#}, rs_won = {#}, rs_born = {}, rs_woken = {#}\<rparr>"

lemma rsp_inv_start: "tm_inv (as_tm s) \<Longrightarrow> as_ctxs s = Map.empty \<Longrightarrow> rsp_inv (rsp_start s)"
  by (simp add: rsp_inv_def rsp_start_def)

section \<open>Waking in sequence\<close>

text \<open>A context whose fiber is waiting.\<close>

definition waiting :: "nat \<Rightarrow> nat \<Rightarrow> nat \<Rightarrow> ('m, 'h, 'z, 'w) async \<Rightarrow> bool" where
  "waiting a scd fiber s \<longleftrightarrow> cx_scheduler (as_heap s a) = Some scd \<and> cx_fiber (as_heap s a) = Some fiber"

definition woken_ctx :: "'z ctx_scheme \<Rightarrow> 'z ctx_scheme" where
  "woken_ctx c = c\<lparr>cx_scheduler := None, cx_fiber := None, cx_timer := None,
     cx_result := (if cx_timed c then ERR_TIMEOUT else cx_result c)\<rparr>"

definition push_fiber :: "nat \<Rightarrow> nat \<Rightarrow> 'h task schedulers \<Rightarrow> 'h task schedulers" where
  "push_fiber scd fiber sc = sc(scd := (sc scd)\<lparr>m_fibers := m_fibers (sc scd) @ [FiberAndThread_fiber (Some fiber) (-1)]\<rparr>)"

lemma schedule_fiber: "snd (schedule (FiberAndThread_fiber (Some fiber) (-1)) x) =
    x\<lparr>m_fibers := m_fibers x @ [FiberAndThread_fiber (Some fiber) (-1)]\<rparr>"
  by (simp add: schedule_def scheduleNoLock_def FiberAndThread_fiber_def)

lemma woken_ctx_eq:
  "cx_timer c = None \<Longrightarrow> woken_ctx c = (if cx_timed c then c\<lparr>cx_scheduler := None, cx_result := ERR_TIMEOUT, cx_fiber := None\<rparr>
     else c\<lparr>cx_scheduler := None, cx_fiber := None\<rparr>)"
  "woken_ctx c = (if cx_timed c then c\<lparr>cx_scheduler := None, cx_timer := None, cx_result := ERR_TIMEOUT, cx_fiber := None\<rparr>
     else c\<lparr>cx_scheduler := None, cx_timer := None, cx_fiber := None\<rparr>)"
  by (cases c; simp add: woken_ctx_def)+

lemma doRsp_waiting:
  assumes "tm_inv (as_tm s)" and "waiting a scd fiber s"
  shows "\<exists>tm. tm_inv tm \<and> doRsp a s = Ret () (s\<lparr>as_tm := tm, as_heap := (as_heap s)(a := woken_ctx (as_heap s a)),
    as_scheds := push_fiber scd fiber (as_scheds s)\<rparr>)"
proof (cases "cx_timer (as_heap s a)")
  case None
  then show ?thesis
    using assms
    by (intro exI [of _ "as_tm s"])
       (simp add: waiting_def doRsp_def doRsp_load_def doRsp_cas_def doRsp_rest_def resume_ctx_def upd_ctx_def
         schedule_fiber push_fiber_def woken_ctx_eq(1))
next
  case (Some t)
  let ?s = "upd_ctx a (cx_scheduler_update (\<lambda>_. None)) s"
  have "tm_inv (as_tm ?s)" using assms(1) by (simp add: upd_ctx_def)
  then obtain tm where tm: "tm_inv tm" "cancel_timer t ?s = Ret () (?s\<lparr>as_tm := tm\<rparr>)" using cancel_timer_ok by blast
  have "doRsp a s = Ret () (resume_ctx a scd fiber (upd_ctx a (cx_timer_update (\<lambda>_. None)) (?s\<lparr>as_tm := tm\<rparr>)))"
    using assms(2) Some tm(2)
    by (simp add: waiting_def doRsp_def doRsp_load_def doRsp_cas_def doRsp_rest_def) (simp add: upd_ctx_def)
  then show ?thesis
    using tm(1) by (intro exI [of _ tm]) (simp add: resume_ctx_def upd_ctx_def schedule_fiber push_fiber_def woken_ctx_eq(2))
qed

lemma ctx_unscheduled: "cx_scheduler c = None \<Longrightarrow> c\<lparr>cx_scheduler := None\<rparr> = c"
  by (cases c) simp

lemma doRsp_done:
  assumes "cx_scheduler (as_heap s a) = None"
  shows "doRsp a s = Ret () s"
  using assms by (simp add: doRsp_def doRsp_load_def doRsp_cas_def doRsp_rest_def upd_ctx_def ctx_unscheduled)

lemma woken_on_Cons:
  "woken_on i ((scd, fiber) # ws) = (if scd = i then [FiberAndThread_fiber (Some fiber) (-1)] else []) @ woken_on i ws"
  by (simp add: woken_on_def)

definition sleeper :: "('m, 'h, 'z, 'w) async \<Rightarrow> nat \<Rightarrow> nat \<times> nat" where
  "sleeper s a = (the (cx_scheduler (as_heap s a)), the (cx_fiber (as_heap s a)))"

definition failed_ctx :: "'z ctx_scheme \<Rightarrow> 'z ctx_scheme" where
  "failed_ctx c = woken_ctx (c\<lparr>cx_result := ERR_IO\<rparr>)"

text \<open>Failing a list of waiting contexts wakes all of them, in order.\<close>

lemma fail_all_waiting:
  assumes "tm_inv (as_tm s)" and "distinct as"
    and "\<And>a. a \<in> set as \<Longrightarrow> cx_scheduler (as_heap s a) \<noteq> None \<and> cx_fiber (as_heap s a) \<noteq> None"
  shows "\<exists>tm. tm_inv tm \<and> fail_all as s = Ret () (s\<lparr>as_tm := tm,
    as_heap := (\<lambda>a. if a \<in> set as then failed_ctx (as_heap s a) else as_heap s a),
    as_scheds := (\<lambda>i. (as_scheds s i)\<lparr>m_fibers := m_fibers (as_scheds s i) @ woken_on i (map (sleeper s) as)\<rparr>)\<rparr>)"
  using assms
proof (induction "as" arbitrary: s)
  case Nil
  then show ?case by (intro exI [of _ "as_tm s"]) simp
next
  case (Cons a as)
  obtain scd fiber where w: "cx_scheduler (as_heap s a) = Some scd" "cx_fiber (as_heap s a) = Some fiber"
    using Cons.prems(3) [of a] by auto
  let ?s = "upd_ctx a (cx_result_update (\<lambda>_. ERR_IO)) s"
  have "waiting a scd fiber ?s" "tm_inv (as_tm ?s)" using w Cons.prems(1) by (simp_all add: waiting_def upd_ctx_def)
  from doRsp_waiting [OF this(2,1)] obtain tm where tm: "tm_inv tm"
    "doRsp a ?s = Ret () (?s\<lparr>as_tm := tm, as_heap := (as_heap ?s)(a := woken_ctx (as_heap ?s a)),
       as_scheds := push_fiber scd fiber (as_scheds ?s)\<rparr>)" (is "_ = Ret () ?t") by blast
  have t: "?t = s\<lparr>as_tm := tm, as_heap := (as_heap s)(a := failed_ctx (as_heap s a)),
      as_scheds := push_fiber scd fiber (as_scheds s)\<rparr>"
    by (simp add: upd_ctx_def failed_ctx_def)
  have same: "map (sleeper ?t) as = map (sleeper s) as" "sleeper s a = (scd, fiber)"
    using Cons.prems(2) w unfolding t by (auto simp: sleeper_def)
  have "\<exists>tm'. tm_inv tm' \<and> fail_all as ?t = Ret () (?t\<lparr>as_tm := tm',
      as_heap := (\<lambda>b. if b \<in> set as then failed_ctx (as_heap ?t b) else as_heap ?t b),
      as_scheds := (\<lambda>i. (as_scheds ?t i)\<lparr>m_fibers := m_fibers (as_scheds ?t i) @ woken_on i (map (sleeper ?t) as)\<rparr>)\<rparr>)"
    by (rule Cons.IH) (use tm(1) Cons.prems in \<open>auto simp: upd_ctx_def\<close>)
  then obtain tm' where tm': "tm_inv tm'" "fail_all as ?t = Ret () (?t\<lparr>as_tm := tm',
      as_heap := (\<lambda>b. if b \<in> set as then failed_ctx (as_heap ?t b) else as_heap ?t b),
      as_scheds := (\<lambda>i. (as_scheds ?t i)\<lparr>m_fibers := m_fibers (as_scheds ?t i) @ woken_on i (map (sleeper ?t) as)\<rparr>)\<rparr>)"
    by blast
  have h: "(\<lambda>b. if b \<in> set as then failed_ctx (as_heap ?t b) else as_heap ?t b) =
      (\<lambda>b. if b \<in> set (a # as) then failed_ctx (as_heap s b) else as_heap s b)"
    using Cons.prems(2) unfolding t by auto
  have q: "(\<lambda>i. (as_scheds ?t i)\<lparr>m_fibers := m_fibers (as_scheds ?t i) @ woken_on i (map (sleeper ?t) as)\<rparr>) =
      (\<lambda>i. (as_scheds s i)\<lparr>m_fibers := m_fibers (as_scheds s i) @ woken_on i (map (sleeper s) (a # as))\<rparr>)"
    unfolding same(1) using same(2) unfolding t by (auto simp: push_fiber_def woken_on_Cons)
  show ?case
    using tm'(1) by (intro exI [of _ tm'] conjI) (simp_all only: fail_all.simps tm(2) tm'(2) obind.simps h q, simp add: t)
qed

lemma notify_sem_scheds: "as_scheds (notify_sem (socket_close s)) = as_scheds (notify_sem s)"
  by (simp add: notify_sem_def socket_close_def split: prod.split)

lemma innerClose_waiting:
  assumes "tm_inv (as_tm s)" and "e_disconnectCb e = None"
    and "distinct (e_order e (as_ctxs s))" and "set (e_order e (as_ctxs s)) = dom (as_ctxs s)"
    and "\<And>sn a. as_ctxs s sn = Some a \<Longrightarrow>
      cx_sn (as_heap s a) = sn \<and> cx_scheduler (as_heap s a) \<noteq> None \<and> cx_fiber (as_heap s a) \<noteq> None"
  shows "\<exists>s'. innerClose e s = Ret () s' \<and> \<not> isConnected s' \<and> as_ctxs s' = Map.empty \<and> as_queue s' = [] \<and> tm_inv (as_tm s') \<and>
    (\<forall>a. as_heap s' a = (if a \<in> ran (as_ctxs s) then failed_ctx (as_heap s a) else as_heap s a)) \<and>
    (\<forall>i. m_fibers (as_scheds s' i) = m_fibers (as_scheds (notify_sem s) i) @
       woken_on i (map (\<lambda>sn. sleeper s (the (as_ctxs s sn))) (e_order e (as_ctxs s))))"
proof -
  obtain ctxs t where c: "close_begin e s = (ctxs, t)" by fastforce
  note q = close_begin_quiet [OF assms(2) c]
  have ctxs: "ctxs = map (\<lambda>sn. the (as_ctxs s sn)) (e_order e (as_ctxs s))"
    using assms(4) by (auto simp: q(5) List.map_filter_def intro!: map_cong filter_True)
  have "set ctxs = (\<lambda>sn. the (as_ctxs s sn)) ` dom (as_ctxs s)" using assms(4) by (simp add: ctxs)
  also have "\<dots> = ran (as_ctxs s)" by (force simp: ran_def dom_def)
  finally have ran: "set ctxs = ran (as_ctxs s)" .
  have inj: "inj_on (\<lambda>sn. the (as_ctxs s sn)) (dom (as_ctxs s))"
    using assms(5) by (auto simp: inj_on_def dom_def) metis
  then have d: "distinct ctxs" using assms(3,4) by (simp add: ctxs distinct_map)
  have w: "cx_scheduler (as_heap t a) \<noteq> None \<and> cx_fiber (as_heap t a) \<noteq> None" if "a \<in> set ctxs" for a
    using that assms(5) unfolding ran q(1) by (auto simp: ran_def)
  have tm: "tm_inv (as_tm t)" using assms(1) by (simp add: q(2))
  have sc: "as_scheds t = as_scheds (notify_sem s)"
    using c assms(2) by (auto simp: close_begin_def Let_def notify_sem_scheds)
  have sl: "map (sleeper t) ctxs = map (\<lambda>sn. sleeper s (the (as_ctxs s sn))) (e_order e (as_ctxs s))"
    by (simp add: ctxs sleeper_def q(1))
  show ?thesis
    using fail_all_waiting [OF tm d w] q(1-4,6) sl ran sc
    by (auto simp: innerClose_def c isConnected_def)
qed

section \<open>Round robin over the managed streams\<close>

definition mgr_ok :: "'c manager \<Rightarrow> bool" where
  "mgr_ok g \<longleftrightarrow> mg_size g = of_nat (length (mg_datas g)) \<and> length (mg_datas g) < 2 ^ 32"

lemma mgr_get_loop_find:
  assumes "mgr_ok g" and "mg_datas g \<noteq> []" and "unat (mg_idx g) + k < 2 ^ 32"
  shows "\<exists>g'. mgr_ok g' \<and> mg_datas g' = mg_datas g \<and> mg_heap g' = mg_heap g \<and> mgr_get_loop k g =
    Ret (find (\<lambda>a. md_connected (mg_heap g a))
      (map (\<lambda>j. mg_datas g ! ((unat (mg_idx g) + 1 + j) mod length (mg_datas g))) [0..<k])) g'"
  using assms
proof (induction k arbitrary: g)
  case 0
  then show ?case by auto
next
  case (Suc k)
  let ?n = "length (mg_datas g)" and ?i = "unat (mg_idx g)"
  let ?g = "g\<lparr>mg_idx := mg_idx g + 1\<rparr>"
  have i: "unat (mg_idx g + 1) = ?i + 1" using Suc.prems(3) by (simp add: unat_word_ariths)
  have pos: "unat ((mg_idx g + 1) mod mg_size g) = (?i + 1) mod ?n"
    using Suc.prems(1) by (simp add: unat_mod i mgr_ok_def unat_of_nat)
  have lt: "(?i + 1) mod ?n < ?n" using Suc.prems(2) by simp
  have upt: "[0..<Suc k] = 0 # map Suc [0..<k]" by (simp add: map_Suc_upt upt_conv_Cons del: upt_Suc)
  have "\<exists>g'. mgr_ok g' \<and> mg_datas g' = mg_datas ?g \<and> mg_heap g' = mg_heap ?g \<and> mgr_get_loop k ?g =
    Ret (find (\<lambda>a. md_connected (mg_heap ?g a))
      (map (\<lambda>j. mg_datas ?g ! ((unat (mg_idx ?g) + 1 + j) mod length (mg_datas ?g))) [0..<k])) g'"
    using Suc.prems by (intro Suc.IH) (auto simp: mgr_ok_def i)
  moreover have "mgr_ok ?g" using Suc.prems(1) by (simp add: mgr_ok_def)
  moreover have "mgr_get_loop (Suc k) g = (if md_connected (mg_heap g (mg_datas g ! ((?i + 1) mod ?n)))
      then Ret (Some (mg_datas g ! ((?i + 1) mod ?n))) ?g else mgr_get_loop k ?g)"
    using lt by (simp add: Let_def pos)
  ultimately show ?case by (auto simp: upt i comp_def simp del: upt_Suc mgr_get_loop.simps)
qed

lemma map_nth_rotate: "map (\<lambda>j. xs ! ((m + j) mod length xs)) [0..<length xs] = rotate m xs"
  by (intro nth_equalityI) (simp_all add: nth_rotate)

section \<open>Properties\<close>

text \<open>C34. Every request is answered once, under every interleaving of the threads that request, receive, time out and close:
  its fiber is handed to its scheduler at most once, and until then the request is in the table or in the hands of a thread
  that is about to finish it; such a thread never runs into undefined behaviour. Requests use serial numbers no earlier request
  has used.\<close>

theorem request_woken_once:
  assumes "rsp_step\<^sup>*\<^sup>* (rsp_start s) r" and "tm_inv (as_tm s)" and "as_ctxs s = Map.empty"
  shows "(\<forall>a. count (rs_woken r) a \<le> 1) \<and>
    (\<forall>a \<in> rs_born r. a \<notin># rs_woken r \<longrightarrow>
       as_ctxs (rs_s r) (cx_sn (as_heap (rs_s r) a)) = Some a \<or> (\<exists>b. (a, b) \<in># rs_held r) \<or>
       (\<exists>scd. (a, Some scd) \<in># rs_loaded r) \<or> (\<exists>scd. (a, Some scd) \<in># rs_won r)) \<and>
    (\<forall>a scd. (a, scd) \<in># rs_won r \<longrightarrow> (\<exists>s'. doRsp_rest a scd (rs_s r) = Ret () s'))"
proof -
  have inv: "rsp_inv r" by (rule rsp_inv_steps [OF assms(1) rsp_inv_start [OF assms(2,3)]])
  have "count (rs_woken r) a \<le> 1" for a
  proof (cases "a \<in> rs_born r")
    case True
    then have "owed r a" using inv by (simp add: rsp_inv_def)
    then show ?thesis by (simp add: owed_def)
  next
    case False
    then have "a \<notin># rs_woken r" using inv by (auto simp: rsp_inv_def)
    then show ?thesis by (simp add: not_in_iff)
  qed
  moreover have "as_ctxs (rs_s r) (cx_sn (as_heap (rs_s r) a)) = Some a \<or> (\<exists>b. (a, b) \<in># rs_held r) \<or>
       (\<exists>scd. (a, Some scd) \<in># rs_loaded r) \<or> (\<exists>scd. (a, Some scd) \<in># rs_won r)"
    if "a \<in> rs_born r" "a \<notin># rs_woken r" for a
  proof (cases "live r a")
    case True
    then have "reachable_ctx r a" using inv that(1) by (simp add: rsp_inv_def)
    then show ?thesis using True by (auto simp: reachable_ctx_def live_def)
  next
    case False
    have "owed r a" using inv that(1) by (simp add: rsp_inv_def)
    then have "winners a (rs_won r) \<noteq> 0" using False that(2) by (auto simp: owed_def not_in_iff)
    then show ?thesis by (auto simp: winners_def size_eq_0_iff_empty)
  qed
  moreover have "tm_inv (as_tm (rs_s r))" using inv by (simp add: rsp_inv_def)
  ultimately show ?thesis using doRsp_rest_ok by blast
qed

definition demo_ctx :: "u32 \<Rightarrow> nat \<Rightarrow> ctx" where
  "demo_ctx sn fiber = new_Ctx\<lparr>cx_sn := sn, cx_scheduler := Some 0, cx_fiber := Some fiber\<rparr>"

definition demo_stream :: "(unit, unit, unit, unit) async" where
  "demo_stream = new_AsyncSocketStream (Some True) (\<lambda>_. new_Ctx) (\<lambda>_. \<lparr>m_fibers = [], m_rootFiber = None, m_threadIds = [],
     m_threads = [], m_threadCount = 1, m_activeThreadCount = 0, m_idelThreadCount = 0, m_autoStop = False,
     m_stopping = False, m_rootThread = -1\<rparr>) (TimerManager 0) ()"

definition demo_env :: "(unit, unit, unit, unit) async env" where
  "demo_env = \<lparr>e_here = Some 0, e_me = 1, e_now = 0, e_addr = 3, e_order = (\<lambda>m. filter (\<lambda>k. m k \<noteq> None) [7]),
     e_connectCb = None, e_disconnectCb = None, e_reconnect = True, e_meanwhile = id\<rparr>"

definition demo_requested :: "(unit, unit, unit, unit) async" where
  "demo_requested = addCtx 5 (upd_ctx 5 (\<lambda>_. demo_ctx 7 9) demo_stream)"

lemma demo_requested_fields:
  "as_ctxs demo_requested = [7 \<mapsto> 5]" "as_heap demo_requested 5 = demo_ctx 7 9" "tm_inv (as_tm demo_requested)"
  "isConnected demo_stream" "tm_inv (as_tm demo_stream)" "as_ctxs demo_stream = Map.empty"
  by (simp_all add: demo_requested_def demo_stream_def new_AsyncSocketStream_def addCtx_def upd_ctx_def demo_ctx_def
      new_Ctx_def isConnected_def tm_inv_new)

text \<open>A request that times out: the request, the timer's callback, and the three parts of its \<open>doRsp\<close>.\<close>

theorem request_woken_once_witness:
  "\<exists>r. rsp_step\<^sup>*\<^sup>* (rsp_start demo_stream) r \<and> count (rs_woken r) 5 = 1"
proof -
  let ?r1 = "(rsp_start demo_stream)\<lparr>rs_s := demo_requested, rs_born := {5}\<rparr>"
  let ?r2 = "?r1\<lparr>rs_s := onTimeOut_mark 5 demo_requested, rs_held := {#(5, False)#}\<rparr>"
  let ?r3 = "?r2\<lparr>rs_held := {#}, rs_loaded := {#(5, Some 0)#}\<rparr>"
  let ?s4 = "snd (doRsp_cas 5 (Some 0) (rs_s ?r3))"
  let ?r4 = "?r3\<lparr>rs_s := ?s4, rs_loaded := {#}, rs_won := {#(5, Some 0)#}\<rparr>"
  have m: "cx_scheduler (as_heap (onTimeOut_mark 5 demo_requested) 5) = Some 0"
    "cx_fiber (as_heap (onTimeOut_mark 5 demo_requested) 5) = Some 9"
    by (simp_all add: onTimeOut_mark_def upd_ctx_def demo_requested_fields demo_ctx_def)
  have step1: "rsp_step (rsp_start demo_stream) ?r1"
    using rsp_step.request [of 5 "rsp_start demo_stream" "demo_ctx 7 9"]
    by (simp add: rsp_start_def demo_requested_fields demo_requested_def demo_ctx_def)
  have step2: "rsp_step ?r1 ?r2" using rsp_step.timeout [of 5 ?r1] by (simp add: rsp_start_def)
  have step3: "rsp_step ?r2 ?r3" using rsp_step.load [of ?r2 5 "{#}"] by (simp add: rsp_start_def doRsp_load_def m)
  have step4: "rsp_step ?r3 ?r4"
    using rsp_step.cas_won [of ?r3 5 "Some 0" "{#}" ?s4] m by (simp add: rsp_start_def doRsp_cas_def)
  have tm: "tm_inv (as_tm ?s4)"
    by (simp add: doRsp_cas_def m upd_ctx_def onTimeOut_mark_def demo_requested_fields)
  then obtain s5 where s5: "doRsp_rest 5 (Some 0) ?s4 = Ret () s5" using doRsp_rest_ok by blast
  have fiber: "cx_fiber (as_heap ?s4 5) = Some 9" using m by (simp add: doRsp_cas_def upd_ctx_def)
  let ?r5 = "?r4\<lparr>rs_s := s5, rs_won := {#}, rs_woken := {#5#}\<rparr>"
  have step5: "rsp_step ?r4 ?r5"
    using rsp_step.rest [of ?r4 5 "Some 0" "{#}" s5] s5 fiber by (simp add: rsp_start_def)
  have run: "rsp_step\<^sup>*\<^sup>* (rsp_start demo_stream) ?r5"
    using step1 step2 step3 step4 step5 by (meson converse_rtranclp_into_rtranclp rtranclp.rtrancl_refl)
  have "count (rs_woken ?r5) 5 \<le> 1"
    using request_woken_once [OF run demo_requested_fields(5,6)] by blast
  moreover have "count (rs_woken ?r5) 5 \<ge> 1" by simp
  ultimately show ?thesis using run by (intro exI [of _ ?r5]) simp
qed

text \<open>Closing a stream answers everybody: every request in the table gets \<open>IO_ERROR\<close> (or \<open>TIMEOUT\<close> if its timer
  had fired) and its fiber is handed to its scheduler, in the order of the table, after the sending fiber; other requests
  are not touched, table and queue are empty and the stream is no longer connected.\<close>

theorem innerClose_exact:
  assumes "tm_inv (as_tm s)" and "e_disconnectCb e = None"
    and "distinct (e_order e (as_ctxs s))" and "set (e_order e (as_ctxs s)) = dom (as_ctxs s)"
    and "\<forall>sn a. as_ctxs s sn = Some a \<longrightarrow>
      cx_sn (as_heap s a) = sn \<and> cx_scheduler (as_heap s a) \<noteq> None \<and> cx_fiber (as_heap s a) \<noteq> None"
  shows "\<exists>s'. innerClose e s = Ret () s' \<and> \<not> isConnected s' \<and> as_ctxs s' = Map.empty \<and> as_queue s' = [] \<and> tm_inv (as_tm s') \<and>
    (\<forall>a. as_heap s' a = (if a \<in> ran (as_ctxs s) then
        (as_heap s a)\<lparr>cx_scheduler := None, cx_fiber := None, cx_timer := None,
          cx_result := (if cx_timed (as_heap s a) then ERR_TIMEOUT else ERR_IO)\<rparr> else as_heap s a)) \<and>
    (\<forall>i. m_fibers (as_scheds s' i) = m_fibers (as_scheds (notify_sem s) i) @
       woken_on i (map (\<lambda>sn. sleeper s (the (as_ctxs s sn))) (e_order e (as_ctxs s))))"
proof -
  have failed: "failed_ctx c = c\<lparr>cx_scheduler := None, cx_fiber := None, cx_timer := None,
      cx_result := (if cx_timed c then ERR_TIMEOUT else ERR_IO)\<rparr>" for c :: "'z ctx_scheme"
    by (cases c) (simp add: failed_ctx_def woken_ctx_def)
  show ?thesis
    using innerClose_waiting [OF assms(1-4)] assms(5) unfolding failed by blast
qed

theorem innerClose_exact_witness:
  "\<exists>s'. innerClose demo_env demo_requested = Ret () s' \<and> cx_result (as_heap s' 5) = ERR_IO \<and> \<not> isConnected s'"
proof -
  have ran: "5 \<in> ran (as_ctxs demo_requested)" by (simp add: demo_requested_fields)
  show ?thesis
    using innerClose_exact [of demo_requested demo_env] ran
    by (force simp: demo_requested_fields demo_env_def demo_ctx_def new_Ctx_def split: if_splits)
qed

text \<open>The manager of connections hands out streams in turn: while its 32-bit counter does not wrap in one round,
  \<open>get\<close> returns the first connected stream behind the counter in cyclic order, so it returns one whenever there is one, and
  it never indexes outside its vector. Adding, clearing and replacing the streams keep the invariant this rests on.\<close>

theorem mgr_get_finds:
  assumes "mgr_ok g" and "unat (mg_idx g) + length (mg_datas g) < 2 ^ 32"
  shows "(\<exists>g'. mgr_get g = Ret (find (\<lambda>a. md_connected (mg_heap g a)) (rotate (unat (mg_idx g) + 1) (mg_datas g))) g' \<and>
      mgr_ok g' \<and> mg_datas g' = mg_datas g) \<and>
    (length (mg_datas g) + 1 < 2 ^ 32 \<longrightarrow> mgr_ok (mgr_add a g)) \<and> mgr_ok (mgr_clear g) \<and>
    (length xs < 2 ^ 32 \<longrightarrow> mgr_ok (mgr_setConnection xs g))"
proof -
  have n: "unat (mg_size g) = length (mg_datas g)" using assms(1) by (simp add: mgr_ok_def unat_of_nat)
  have "\<exists>g'. mgr_get g = Ret (find (\<lambda>a. md_connected (mg_heap g a)) (rotate (unat (mg_idx g) + 1) (mg_datas g))) g' \<and>
      mgr_ok g' \<and> mg_datas g' = mg_datas g"
  proof (cases "mg_datas g = []")
    case True
    then show ?thesis using assms(1) n by (simp add: mgr_get_def)
  next
    case False
    show ?thesis
      using mgr_get_loop_find [OF assms(1) False assms(2)] map_nth_rotate [of "mg_datas g" "unat (mg_idx g) + 1"]
      by (auto simp: mgr_get_def n)
  qed
  then show ?thesis
    using assms(1) by (auto simp: mgr_ok_def mgr_add_def mgr_clear_def mgr_setConnection_def Let_def)
qed

definition demo_manager :: "unit manager" where
  "demo_manager = \<lparr>mg_size = 3, mg_idx = 0, mg_datas = [4, 5, 6], mg_connectCb = None, mg_disconnectCb = None,
     mg_heap = (\<lambda>a. \<lparr>md_connected = (a = 4), md_connectCb = None, md_disconnectCb = None\<rparr>)\<rparr>"

theorem mgr_get_finds_witness: "\<exists>g'. mgr_get demo_manager = Ret (Some 4) g'"
proof -
  have "mgr_ok demo_manager" "unat (mg_idx demo_manager) + length (mg_datas demo_manager) < 2 ^ 32"
    by (simp_all add: mgr_ok_def demo_manager_def)
  from mgr_get_finds [OF this, of 0 "[]"] show ?thesis by (auto simp: demo_manager_def rotate1_def)
qed

text \<open>Where the counter wraps within a round, a connected stream can be missed.\<close>

lemma mgr_get_wrap_misses:
  "case mgr_get (demo_manager\<lparr>mg_idx := - 2, mg_heap := (\<lambda>a. \<lparr>md_connected = (a = 6), md_connectCb = None,
     md_disconnectCb = None\<rparr>)\<rparr>) of Ret None _ \<Rightarrow> True | _ \<Rightarrow> False"
  by code_simp

end
