(* ===== verification/RockStream.thy ===== *)
theory RockStream
  imports AsyncStream Rock LoadBalance
begin

text \<open>
  \<^verbatim>\<open>src/cxk/rock/rock_stream.{h,cpp}\<close>: requests, responses and notifications over an asynchronous stream. A Rock context
  extends the context of \<open>AsyncStream\<close> by its request and response. The decoder calls of \<open>Rock\<close> on the bytes under the
  socket are the two functions of \<open>rock_io\<close>; the properties take them to be \<open>parseFrom\<close> and \<open>serializeTo\<close>. The handlers the
  application sets are parameters.

  Shown: what receiving each kind of message does, that a response wakes exactly the request with its serial number, and that a
  request sent by one side reaches the handler of the other and its response comes back to the fiber that asked.
\<close>

section \<open>State\<close>

record rock_ctx = ctx +
  cx_request :: rock_request
  cx_response :: "rock_response option"

datatype rock_task = HandleRequest rock_request | HandleNotify rock_notify

type_synonym 'w rock_stream = "(message, rock_task, unit rock_ctx_ext, 'w) async"

record 'w rock_io =
  io_parse :: "'w \<Rightarrow> ('w, message option) outcome"
  io_send :: "message \<Rightarrow> 'w \<Rightarrow> ('w, int) outcome"

type_synonym rock_result = "int \<times> rock_response option"

definition new_RockSession ::
  "(nat \<Rightarrow> rock_ctx) \<Rightarrow> rock_task task schedulers \<Rightarrow> rock_task task timer_manager \<Rightarrow> 'w \<Rightarrow> 'w rock_stream" where
  "new_RockSession h sc tm w = (new_AsyncSocketStream (Some True) h sc tm w)\<lparr>as_autoConnect := False\<rparr>"

definition new_RockConnection ::
  "(nat \<Rightarrow> rock_ctx) \<Rightarrow> rock_task task schedulers \<Rightarrow> rock_task task timer_manager \<Rightarrow> 'w \<Rightarrow> 'w rock_stream" where
  "new_RockConnection h sc tm w = (new_AsyncSocketStream None h sc tm w)\<lparr>as_autoConnect := True\<rparr>"

text \<open>\<open>ok\<close> says whether the new socket connects.\<close>

definition RockConnection_connect :: "bool \<Rightarrow> 'w rock_stream \<Rightarrow> bool \<times> 'w rock_stream" where
  "RockConnection_connect ok s = (ok, s\<lparr>as_connected := Some ok\<rparr>)"

section \<open>Sending\<close>

definition sendMessage :: "message \<Rightarrow> 'w rock_stream \<Rightarrow> int \<times> 'w rock_stream" where
  "sendMessage m s = (if isConnected s then (1, snd (enqueue (SendMsg m) s)) else (-1, s))"

text \<open>\<open>request\<close> up to the point where its fiber yields; \<open>a\<close> is the address of the new context.\<close>

definition new_RockCtx :: "'s env \<Rightarrow> rock_request \<Rightarrow> u32 \<Rightarrow> rock_ctx" where
  "new_RockCtx e req timeout_ms =
     \<lparr>cx_sn = r_sn req, cx_timeout = timeout_ms, cx_result = 0, cx_timed = False, cx_scheduler = e_here e,
      cx_fiber = Some (e_me e), cx_timer = None, cx_request = req, cx_response = None\<rparr>"

definition request_begin ::
  "'w rock_stream env \<Rightarrow> nat \<Rightarrow> rock_request \<Rightarrow> u32 \<Rightarrow> 'w rock_stream \<Rightarrow> ('w rock_stream, unit) outcome" where
  "request_begin e a req timeout_ms s =
     (let s = addCtx a (upd_ctx a (\<lambda>_. new_RockCtx e req timeout_ms) s)
      in obind (add_timer (e_here e) e (ucast timeout_ms) (OnTimeOut a) s) (\<lambda>t s.
           Ret () (snd (enqueue (SendCtx a) (upd_ctx a (cx_timer_update (\<lambda>_. Some t)) s)))))"

definition request_end :: "nat \<Rightarrow> 'w rock_stream \<Rightarrow> rock_result" where
  "request_end a s = (sint (cx_result (as_heap s a)), cx_response (as_heap s a))"

definition rock_request ::
  "'w rock_stream env \<Rightarrow> nat \<Rightarrow> rock_request \<Rightarrow> u32 \<Rightarrow> 'w rock_stream \<Rightarrow> ('w rock_stream, rock_result) outcome" where
  "rock_request e a req timeout_ms s =
     (if isConnected s then
        obind (request_begin e a req timeout_ms s) (\<lambda>_ s. let s = e_meanwhile e s in Ret (request_end a s) s)
      else Ret (sint ERR_NOT_CONNECT, None) s)"

definition on_wire :: "('w \<Rightarrow> ('w, 'a) outcome) \<Rightarrow> 'w rock_stream \<Rightarrow> ('w rock_stream, 'a) outcome" where
  "on_wire f s =
     (case f (as_wire s) of
        Ret r w \<Rightarrow> Ret r (s\<lparr>as_wire := w\<rparr>) | Throw x w \<Rightarrow> Throw x (s\<lparr>as_wire := w\<rparr>) | Undef u \<Rightarrow> Undef u)"

fun doSend :: "'w rock_io \<Rightarrow> message send_ctx \<Rightarrow> 'w rock_stream \<Rightarrow> ('w rock_stream, bool) outcome" where
  "doSend io (SendMsg m) s = obind (on_wire (io_send io m) s) (\<lambda>r. Ret (r > 0))"
| "doSend io (SendCtx a) s = obind (on_wire (io_send io (Request (cx_request (as_heap s a)))) s) (\<lambda>r. Ret (r > 0))"

section \<open>Receiving\<close>

text \<open>The two flags say that a handler is set.\<close>

definition doRecv ::
  "'w rock_io \<Rightarrow> 'w rock_stream env \<Rightarrow> bool \<Rightarrow> bool \<Rightarrow> 'w rock_stream \<Rightarrow> ('w rock_stream, nat option) outcome" where
  "doRecv io e requestHandler notifyHandler s =
     obind (on_wire (io_parse io) s) (\<lambda>msg s.
       case msg of
         None \<Rightarrow> obind (innerClose e s) (\<lambda>_. Ret None)
       | Some (Response rsp) \<Rightarrow>
           (case getAndDelCtx (s_sn rsp) s of
              (None, s) \<Rightarrow> Undef NullDeref
            | (Some a, s) \<Rightarrow> Ret (Some a) (upd_ctx a (\<lambda>c. c\<lparr>cx_result := s_result rsp, cx_response := Some rsp\<rparr>) s))
       | Some (Request req) \<Rightarrow>
           if requestHandler then obind (iom_schedule (Handle (HandleRequest req)) s) (\<lambda>_. Ret None) else Ret None s
       | Some (Notify nty) \<Rightarrow>
           if notifyHandler then obind (iom_schedule (Handle (HandleNotify nty)) s) (\<lambda>_. Ret None) else Ret None s)"

definition handleRequest ::
  "(rock_request \<Rightarrow> rock_response \<Rightarrow> 'w rock_stream \<Rightarrow> bool \<times> rock_response \<times> 'w rock_stream) \<Rightarrow> 'w rock_stream env \<Rightarrow>
   rock_request \<Rightarrow> 'w rock_stream \<Rightarrow> ('w rock_stream, unit) outcome" where
  "handleRequest handler e req s =
     (case handler req (rock_createResponse req) s of (ok, rsp, s) \<Rightarrow>
        let s = snd (sendMessage (Response rsp) s) in if \<not> ok then innerClose e s else Ret () s)"

definition handleNotify ::
  "(rock_notify \<Rightarrow> 'w rock_stream \<Rightarrow> bool \<times> 'w rock_stream) \<Rightarrow> 'w rock_stream env \<Rightarrow>
   rock_notify \<Rightarrow> 'w rock_stream \<Rightarrow> ('w rock_stream, unit) outcome" where
  "handleNotify handler e nty s =
     (case handler nty s of (ok, s) \<Rightarrow> if \<not> ok then innerClose e s else Ret () s)"

section \<open>Requests over a balanced set of connections\<close>

record 'p rock_fair =
  rf_lb :: "'p load_balance"
  rf_items :: "'p \<Rightarrow> fair_item"
  rf_lastInit :: u64

definition upd_slot :: "'p \<Rightarrow> nat \<Rightarrow> (holder_stats \<Rightarrow> u32 \<times> holder_stats) \<Rightarrow> ('p \<Rightarrow> fair_item) \<Rightarrow> 'p \<Rightarrow> fair_item" where
  "upd_slot p j f h =
     h(p := (h p)\<lparr>fi_stats := (fi_stats (h p))\<lparr>m_stats := (m_stats (fi_stats (h p)))[j := snd (f (m_stats (fi_stats (h p)) ! j))]\<rparr>\<rparr>)"

definition count_result :: "u32 \<Rightarrow> int \<Rightarrow> 'p \<Rightarrow> nat \<Rightarrow> ('p \<Rightarrow> fair_item) \<Rightarrow> 'p \<Rightarrow> fair_item" where
  "count_result used result p j h =
     (let h = (if result = 0 then upd_slot p j (incUsedTime used) (upd_slot p j (incOks 1) h)
               else if result = sint ERR_TIMEOUT then upd_slot p j (incTimeouts 1) h
               else if result < 0 then upd_slot p j (incErrs 1) h
               else h)
      in upd_slot p j (decDoing 1) h)"

text \<open>\<open>ts\<close> and \<open>ts2\<close> are the two readings of the clock, \<open>now\<close> is \<^verbatim>\<open>time(0)\<close>; \<open>ask\<close> is \<open>rock_request\<close> on the stream of the
  connection, during which other requests may count too.\<close>

definition fair_request ::
  "rounding \<Rightarrow> rounding \<Rightarrow> u64 \<Rightarrow> u64 \<Rightarrow> u32 \<Rightarrow> nat \<Rightarrow> ('p \<Rightarrow> bool) \<Rightarrow> ('p \<Rightarrow> bool) \<Rightarrow> ('p \<Rightarrow> bool) \<Rightarrow>
   ('p \<Rightarrow> ('p \<Rightarrow> fair_item) \<Rightarrow> rock_result \<times> ('p \<Rightarrow> fair_item)) \<Rightarrow> 'p rock_fair \<Rightarrow> ('p rock_fair, rock_result) outcome" where
  "fair_request f d ts ts2 now rand isConn isFair isValid ask b =
     obind
       (if ts - rf_lastInit b > 500 then
          (case Fair_initWeight f d now isConn (rf_lb b, rf_items b) of
             Ret _ (lb, h) \<Rightarrow> Ret () (b\<lparr>rf_lb := lb, rf_items := h, rf_lastInit := ts\<rparr>)
           | Throw x (lb, h) \<Rightarrow> Throw x (b\<lparr>rf_lb := lb, rf_items := h\<rparr>)
           | Undef u \<Rightarrow> Undef u)
        else Ret () b)
       (\<lambda>_ b.
          case getAsFair isFair isValid rand (rf_lb b) of
            Throw x _ \<Rightarrow> Throw x b
          | Undef u \<Rightarrow> Undef u
          | Ret None _ \<Rightarrow> Ret (sint ERR_NOT_CONNECT, None) b
          | Ret (Some p) _ \<Rightarrow>
              (case Fair_item_get (ucast (ts div 1000)) p (rf_items b) of
                 Throw x h \<Rightarrow> Throw x (b\<lparr>rf_items := h\<rparr>)
               | Undef u \<Rightarrow> Undef u
               | Ret j h \<Rightarrow>
                   (case ask p (upd_slot p j (incTotal 1) (upd_slot p j (incDoing 1) h)) of (r, h) \<Rightarrow>
                      Ret r (b\<lparr>rf_items := count_result (ucast (ts2 - ts)) (fst r) p j h\<rparr>))))"

section \<open>Requests\<close>

lemma request_begin_ok:
  assumes "as_ctxs c (r_sn q) = None" and "e_here e = Some i" and "tm_inv (as_tm c)"
    and "m_cb (heap (as_tm c) (e_addr e)) = None"
  shows "\<exists>c'. request_begin e a q t c = Ret () c' \<and> as_ctxs c' = (as_ctxs c)(r_sn q \<mapsto> a) \<and> waiting a i (e_me e) c' \<and>
    cx_request (as_heap c' a) = q \<and> \<not> cx_timed (as_heap c' a) \<and> tm_inv (as_tm c') \<and> as_wire c' = as_wire c \<and>
    as_connected c' = as_connected c \<and> as_queue c' = as_queue c @ [SendCtx a]"
proof -
  let ?tm = "snd (addTimer (e_now e) (e_addr e) (ucast t) (Cb (OnTimeOut a)) False (as_tm c))"
  have "tm_inv ?tm"
    using addTimer_inv [OF assms(3,4), of "e_now e" "ucast t" "Cb (OnTimeOut a)" False, OF prod.collapse [symmetric]] .
  then show ?thesis
    using assms(1,2)
    by (simp add: request_begin_def addCtx_def upd_ctx_def add_timer_def new_RockCtx_def waiting_def Let_def)
qed

section \<open>The link under a stream\<close>

text \<open>What the streams need of the decoder: a message that is on the wire is parsed and taken off it, and sending puts the
  message on the wire. \<open>fits\<close> are the messages within its limits.\<close>

locale rock_link =
  fixes io :: "'w rock_io" and sent remaining :: "'w \<Rightarrow> u8 list" and fits :: "message \<Rightarrow> bool"
  assumes parse_ok: "fits m \<Longrightarrow> remaining w = wire m @ rest \<Longrightarrow>
      \<exists>w'. io_parse io w = Ret (Some m) w' \<and> remaining w' = rest \<and> sent w' = sent w"
    and send_ok: "fits m \<Longrightarrow>
      \<exists>r w'. io_send io m w = Ret r w' \<and> r > 0 \<and> sent w' = sent w @ wire m \<and> remaining w' = remaining w"
begin

lemma recv_message:
  assumes "fits m" and "remaining (as_wire s) = wire m @ rest"
  obtains w where "on_wire (io_parse io) s = Ret (Some m) (s\<lparr>as_wire := w\<rparr>)" and "remaining w = rest"
    and "sent w = sent (as_wire s)"
  using parse_ok [OF assms] by (auto simp: on_wire_def)

lemma send_message_ok:
  assumes "fits m"
  obtains r w where "on_wire (io_send io m) s = Ret r (s\<lparr>as_wire := w\<rparr>)" and "r > 0" and "sent w = sent (as_wire s) @ wire m"
    and "remaining w = remaining (as_wire s)"
  using send_ok [OF assms, of "as_wire s"] by (auto simp: on_wire_def)

text \<open>Receiving a response: the request with its serial number is answered, and no other.\<close>

lemma response_wakes:
  assumes "fits (Response rsp)" and "remaining (as_wire s) = wire (Response rsp) @ rest"
    and "as_ctxs s (s_sn rsp) = Some a" and "waiting a scd fiber s" and "tm_inv (as_tm s)"
  shows "\<exists>s'. recv_one (doRecv io e rh nh) s = Ret () s' \<and> remaining (as_wire s') = rest \<and> tm_inv (as_tm s') \<and>
    as_ctxs s' = (as_ctxs s)(s_sn rsp := None) \<and>
    request_end a s' = (if cx_timed (as_heap s a) then -1 else sint (s_result rsp), Some rsp) \<and>
    (\<forall>b. b \<noteq> a \<longrightarrow> as_heap s' b = as_heap s b) \<and> as_scheds s' = push_fiber scd fiber (as_scheds s) \<and>
    as_connected s' = as_connected s \<and> as_queue s' = as_queue s"
proof -
  obtain w where w: "on_wire (io_parse io) s = Ret (Some (Response rsp)) (s\<lparr>as_wire := w\<rparr>)" "remaining w = rest"
    by (rule recv_message [OF assms(1,2)])
  let ?t = "upd_ctx a (\<lambda>c. c\<lparr>cx_result := s_result rsp, cx_response := Some rsp\<rparr>) (s\<lparr>as_wire := w, as_ctxs := (as_ctxs s)(s_sn rsp := None)\<rparr>)"
  have r: "doRecv io e rh nh s = Ret (Some a) ?t"
    using w(1) assms(3) by (simp add: doRecv_def getAndDelCtx_def)
  have "waiting a scd fiber ?t" "tm_inv (as_tm ?t)" using assms(4,5) by (simp_all add: waiting_def upd_ctx_def)
  from doRsp_waiting [OF this(2,1)] obtain tm where "tm_inv tm" "doRsp a ?t = Ret () (?t\<lparr>as_tm := tm,
      as_heap := (as_heap ?t)(a := woken_ctx (as_heap ?t a)), as_scheds := push_fiber scd fiber (as_scheds ?t)\<rparr>)" by blast
  then show ?thesis
    using r w(2)
    by (auto simp: recv_one_def upd_ctx_def request_end_def woken_ctx_def ERR_TIMEOUT_def)
qed

lemma response_unknown:
  assumes "fits (Response rsp)" and "remaining (as_wire s) = wire (Response rsp) @ rest" and "as_ctxs s (s_sn rsp) = None"
  shows "recv_one (doRecv io e rh nh) s = Undef NullDeref"
proof -
  obtain w where "on_wire (io_parse io) s = Ret (Some (Response rsp)) (s\<lparr>as_wire := w\<rparr>)"
    by (rule recv_message [OF assms(1,2)])
  then show ?thesis using assms(3) by (simp add: recv_one_def doRecv_def getAndDelCtx_def)
qed

lemma request_scheduled:
  assumes "fits (Request q)" and "remaining (as_wire s) = wire (Request q) @ rest" and "as_iomanager s = Some i"
  shows "\<exists>w. remaining w = rest \<and> sent w = sent (as_wire s) \<and> doRecv io e True nh s = Ret None (s\<lparr>as_wire := w,
    as_scheds := (as_scheds s)(i := (as_scheds s i)\<lparr>m_fibers := m_fibers (as_scheds s i) @
      [FiberAndThread_cb (Some (Handle (HandleRequest q))) (-1)]\<rparr>)\<rparr>)"
proof -
  obtain w where "on_wire (io_parse io) s = Ret (Some (Request q)) (s\<lparr>as_wire := w\<rparr>)" "remaining w = rest"
    "sent w = sent (as_wire s)" by (rule recv_message [OF assms(1,2)])
  then show ?thesis
    using assms(3)
    by (intro exI [of _ w]) (simp add: doRecv_def iom_schedule_def schedule_def scheduleNoLock_def FiberAndThread_cb_def)
qed

lemma doSend_ok:
  assumes "fits m" and "c = SendMsg m \<or> (\<exists>a. c = SendCtx a \<and> m = Request (cx_request (as_heap s a)))"
  shows "\<exists>w. doSend io c s = Ret True (s\<lparr>as_wire := w\<rparr>) \<and> sent w = sent (as_wire s) @ wire m \<and> remaining w = remaining (as_wire s)"
proof -
  obtain r w where "on_wire (io_send io m) s = Ret r (s\<lparr>as_wire := w\<rparr>)" "r > 0" "sent w = sent (as_wire s) @ wire m"
    "remaining w = remaining (as_wire s)" by (rule send_message_ok [OF assms(1)])
  then show ?thesis using assms(2) by (intro exI [of _ w]) auto
qed

text \<open>A request and its response, step by step on both sides.\<close>

lemma rpc:
  assumes c: "as_ctxs c (r_sn q) = None" "e_here e = Some i" "tm_inv (as_tm c)" "m_cb (heap (as_tm c) (e_addr e)) = None"
    and v: "isConnected v" "as_iomanager v = Some k" "remaining (as_wire v) = wire (Request q) @ rest"
    and h: "\<And>v. \<exists>v'. handler q (rock_createResponse q) v = (True, rsp, v') \<and> as_connected v' = as_connected v \<and>
      as_wire v' = as_wire v \<and> as_queue v' = as_queue v" "s_sn rsp = r_sn q"
    and f: "fits (Request q)" "fits (Response rsp)" and wb: "remaining wb = wire (Response rsp) @ rest'"
  shows "\<exists>c1 c2 v1 v2 v3 c3. request_begin e a q t c = Ret () c1 \<and> doSend io (SendCtx a) c1 = Ret True c2 \<and>
    sent (as_wire c2) = sent (as_wire c) @ wire (Request q) \<and>
    doRecv io ev True nh v = Ret None v1 \<and>
    m_fibers (as_scheds v1 k) = m_fibers (as_scheds v k) @ [FiberAndThread_cb (Some (Handle (HandleRequest q))) (-1)] \<and>
    handleRequest handler ev q v1 = Ret () v2 \<and> as_queue v2 = as_queue v @ [SendMsg (Response rsp)] \<and>
    doSend io (SendMsg (Response rsp)) v2 = Ret True v3 \<and> sent (as_wire v3) = sent (as_wire v) @ wire (Response rsp) \<and>
    recv_one (doRecv io e rh nh') (c2\<lparr>as_wire := wb\<rparr>) = Ret () c3 \<and>
    request_end a c3 = (sint (s_result rsp), Some rsp) \<and> as_scheds c3 = push_fiber i (e_me e) (as_scheds c2) \<and>
    as_ctxs c3 = as_ctxs c"
proof -
  obtain c1 where c1: "request_begin e a q t c = Ret () c1" "as_ctxs c1 = (as_ctxs c)(r_sn q \<mapsto> a)" "waiting a i (e_me e) c1"
    "cx_request (as_heap c1 a) = q" "\<not> cx_timed (as_heap c1 a)" "tm_inv (as_tm c1)" "as_wire c1 = as_wire c"
    using request_begin_ok [OF c] by blast
  obtain w where c2: "doSend io (SendCtx a) c1 = Ret True (c1\<lparr>as_wire := w\<rparr>)" "sent w = sent (as_wire c) @ wire (Request q)"
    using doSend_ok [OF f(1), of "SendCtx a" c1] c1(4,7) by auto
  obtain v1 where v1: "doRecv io ev True nh v = Ret None v1" "sent (as_wire v1) = sent (as_wire v)"
    "m_fibers (as_scheds v1 k) = m_fibers (as_scheds v k) @ [FiberAndThread_cb (Some (Handle (HandleRequest q))) (-1)]"
    "as_queue v1 = as_queue v" "isConnected v1"
    using request_scheduled [OF f(1) v(3,2)] v(1) by (fastforce simp: isConnected_def)
  obtain v1' where v1': "handler q (rock_createResponse q) v1 = (True, rsp, v1')" "as_connected v1' = as_connected v1"
    "as_wire v1' = as_wire v1" "as_queue v1' = as_queue v1" using h(1) by blast
  let ?v2 = "snd (enqueue (SendMsg (Response rsp)) v1')"
  have v2: "handleRequest handler ev q v1 = Ret () ?v2"
    using v1' v1(5) by (simp add: handleRequest_def sendMessage_def isConnected_def)
  obtain w' where v3: "doSend io (SendMsg (Response rsp)) ?v2 = Ret True (?v2\<lparr>as_wire := w'\<rparr>)"
    "sent w' = sent (as_wire v) @ wire (Response rsp)"
    using doSend_ok [OF f(2), of "SendMsg (Response rsp)" ?v2] v1(2) v1'(3) by auto
  let ?c = "c1\<lparr>as_wire := wb\<rparr>"
  have *: "remaining (as_wire ?c) = wire (Response rsp) @ rest'" "as_ctxs ?c (s_sn rsp) = Some a" "waiting a i (e_me e) ?c"
    "tm_inv (as_tm ?c)" using wb c1 h(2) by (simp_all add: waiting_def)
  have same: "(as_ctxs c)(r_sn q := None) = as_ctxs c" using c(1) by auto
  from response_wakes [OF f(2) *, of e rh nh'] obtain c3 where
    c3: "recv_one (doRecv io e rh nh') ?c = Ret () c3" "request_end a c3 = (sint (s_result rsp), Some rsp)"
      "as_scheds c3 = push_fiber i (e_me e) (as_scheds c1)" "as_ctxs c3 = as_ctxs c"
    using c1(2,5) h(2) same by auto
  show ?thesis
    by (rule exI [of _ c1], rule exI [of _ "c1\<lparr>as_wire := w\<rparr>"], rule exI [of _ v1], rule exI [of _ ?v2],
        rule exI [of _ "?v2\<lparr>as_wire := w'\<rparr>"], rule exI [of _ c3], intro conjI)
       (simp_all add: c1(1) c2 v1(1,3,4) v2 v1'(4) v3 c3 del: doSend.simps)
qed

end

text \<open>The decoder of \<open>Rock\<close> over a transport with separate directions.\<close>

definition duplex_io ::
  "(nat \<Rightarrow> u8) \<Rightarrow> 'r rfix \<Rightarrow> 'r bafix \<Rightarrow> (bytearray \<Rightarrow> bytearray option) \<Rightarrow> u32 \<Rightarrow>
   't wfix \<Rightarrow> 't bafix \<Rightarrow> (bytearray \<Rightarrow> bytearray option) \<Rightarrow> u32 \<Rightarrow> ('r \<times> 't) rock_io" where
  "duplex_io junk rf rfb gunzip max_length wr wrb gzip gzip_min =
     \<lparr>io_parse = (\<lambda>(r, t). case parseFrom junk rf rfb gunzip max_length r of
          Ret m r \<Rightarrow> Ret m (r, t) | Throw x r \<Rightarrow> Throw x (r, t) | Undef u \<Rightarrow> Undef u),
      io_send = (\<lambda>m (r, t). case serializeTo junk wr wrb gzip gzip_min m t of
          Ret n t \<Rightarrow> Ret n (r, t) | Throw x t \<Rightarrow> Throw x (r, t) | Undef u \<Rightarrow> Undef u)\<rparr>"

definition rock_fits :: "u32 \<Rightarrow> u32 \<Rightarrow> message \<Rightarrow> bool" where
  "rock_fits max_length gzip_min m \<longleftrightarrow>
     msg_ok m \<and> length (msg_bytes m) < 4096 \<and> length (msg_bytes m) < unat max_length \<and> length (msg_bytes m) < unat gzip_min"

lemma duplex_link:
  assumes "good_rf rf remaining" and "good_rfb rfb remaining" and "good_wf wr sent" and "good_wfb wrb sent"
  shows "rock_link (duplex_io junk rf rfb gunzip max_length wr wrb gzip gzip_min) (sent \<circ> snd) (remaining \<circ> fst)
    (rock_fits max_length gzip_min)"
proof (unfold_locales, goal_cases)
  case (1 m w rest)
  obtain r where "parseFrom junk rf rfb gunzip max_length (fst w) = Ret (Some m) r" "remaining r = rest"
    using parseFrom_ok [OF assms(1,2), of m max_length "fst w" rest junk gunzip] 1 by (auto simp: rock_fits_def)
  then show ?case by (intro exI [of _ "(r, snd w)"]) (cases w, simp add: duplex_io_def)
next
  case (2 m w)
  obtain t where "serializeTo junk wr wrb gzip gzip_min m (snd w) = Ret (8 + int (length (msg_bytes m))) t"
    "sent t = sent (snd w) @ wire m"
    using serializeTo_ok [OF assms(3,4), of m gzip_min junk gzip "snd w"] 2 by (auto simp: rock_fits_def)
  then show ?case
    by (intro exI [of _ "8 + int (length (msg_bytes m))"] exI [of _ "(fst w, t)"])
      (cases w, simp add: duplex_io_def)
qed

interpretation full_link: rock_link "duplex_io junk full_rf full_rfb gunzip max_length full_wf full_wfb gzip gzip_min"
    "(\<lambda>s. s) \<circ> snd" "(\<lambda>s. s) \<circ> fst" "rock_fits max_length gzip_min"
  for junk gunzip max_length gzip gzip_min
  by (rule duplex_link [OF full_good(1) full_ba_good(1) full_good(2) full_ba_good(2)])

section \<open>Properties\<close>

text \<open>Receiving a response over any transport that delivers its bytes: the request in the table under its serial number
  gets its result (or \<open>TIMEOUT\<close> if its timer had fired) and the response, leaves the table, and its fiber is handed to its
  scheduler; every other request stays as it is. If no request has the serial number, a null pointer is dereferenced.\<close>

theorem rock_response_exact:
  assumes "good_rf rf remaining" and "good_rfb rfb remaining" and "good_wf wr sent" and "good_wfb wrb sent"
    and "rock_fits max_length gzip_min (Response rsp)" and "remaining (fst (as_wire s)) = wire (Response rsp) @ rest"
    and "tm_inv (as_tm s)" and "\<forall>a. as_ctxs s (s_sn rsp) = Some a \<longrightarrow> waiting a (scd a) (fiber a) s"
  shows "let r = recv_one (doRecv (duplex_io junk rf rfb gunzip max_length wr wrb gzip gzip_min) e rh nh) s in
    case as_ctxs s (s_sn rsp) of
      None \<Rightarrow> r = Undef NullDeref
    | Some a \<Rightarrow> \<exists>s'. r = Ret () s' \<and> remaining (fst (as_wire s')) = rest \<and> as_ctxs s' = (as_ctxs s)(s_sn rsp := None) \<and>
        request_end a s' = (if cx_timed (as_heap s a) then -1 else sint (s_result rsp), Some rsp) \<and>
        (\<forall>b. b \<noteq> a \<longrightarrow> as_heap s' b = as_heap s b) \<and> as_scheds s' = push_fiber (scd a) (fiber a) (as_scheds s)"
proof -
  note link = duplex_link [OF assms(1-4), of junk gunzip max_length gzip gzip_min]
  have w: "(remaining \<circ> fst) (as_wire s) = wire (Response rsp) @ rest" using assms(6) by simp
  show ?thesis
  proof (cases "as_ctxs s (s_sn rsp)")
    case None
    then show ?thesis using rock_link.response_unknown [OF link assms(5) w None] by simp
  next
    case (Some a)
    have "waiting a (scd a) (fiber a) s" using assms(8) Some by blast
    from rock_link.response_wakes [OF link assms(5) w Some this assms(7)] show ?thesis using Some by (fastforce simp: Let_def)
  qed
qed


text \<open>A client and a server over streams that transfer everything at once.\<close>

definition demo_q :: rock_request where
  "demo_q = \<lparr>r_sn = 7, r_cmd = 1, r_body = [1, 2]\<rparr>"

definition demo_rsp :: rock_response where
  "demo_rsp = (rock_createResponse demo_q)\<lparr>s_result := 0, s_body := [3]\<rparr>"

definition demo_rock :: "bool \<Rightarrow> u8 list \<Rightarrow> (u8 list \<times> u8 list) rock_stream" where
  "demo_rock server bs = (new_RockSession (\<lambda>_. new_RockCtx
       \<lparr>e_here = None, e_me = 0, e_now = 0, e_addr = 0, e_order = (\<lambda>_. []), e_connectCb = None, e_disconnectCb = None,
        e_reconnect = False, e_meanwhile = (\<lambda>s :: unit. s)\<rparr> demo_q 0)
     (\<lambda>_. \<lparr>m_fibers = [], m_rootFiber = None, m_threadIds = [], m_threads = [], m_threadCount = 1, m_activeThreadCount = 0,
       m_idelThreadCount = 0, m_autoStop = False, m_stopping = False, m_rootThread = -1\<rparr>) (TimerManager 0) (bs, []))
     \<lparr>as_iomanager := (if server then Some 0 else None)\<rparr>"

definition demo_rock_env :: "(u8 list \<times> u8 list) rock_stream env" where
  "demo_rock_env = \<lparr>e_here = Some 0, e_me = 9, e_now = 0, e_addr = 3, e_order = (\<lambda>m. []), e_connectCb = None,
     e_disconnectCb = None, e_reconnect = True, e_meanwhile = id\<rparr>"

lemma demo_fits: "rock_fits 65536 4096 (Request demo_q)" "rock_fits 65536 4096 (Response demo_rsp)"
proof -
  have "length (msg_bytes (Request demo_q)) < 100" "length (msg_bytes (Response demo_rsp)) < 100" by code_simp+
  moreover have "msg_ok (Request demo_q)" "msg_ok (Response demo_rsp)"
    by (simp_all add: demo_q_def demo_rsp_def rock_createResponse_def new_RockResponse_def string_max_size_def string_bytes_def)
  ultimately show "rock_fits 65536 4096 (Request demo_q)" "rock_fits 65536 4096 (Response demo_rsp)"
    by (simp_all add: rock_fits_def)
qed

lemma demo_rock_fields:
  "as_ctxs (demo_rock b bs) = Map.empty" "tm_inv (as_tm (demo_rock b bs))" "m_cb (heap (as_tm (demo_rock b bs)) t) = None"
  "isConnected (demo_rock b bs)" "as_iomanager (demo_rock True bs) = Some 0" "as_wire (demo_rock b bs) = (bs, [])"
  by (simp_all add: demo_rock_def new_RockSession_def new_AsyncSocketStream_def isConnected_def tm_inv_def TimerManager_def new_Timer_at_def)

theorem rock_response_exact_witness:
  "recv_one (doRecv (duplex_io (\<lambda>_. 0) full_rf full_rfb (\<lambda>_. None) 65536 full_wf full_wfb (\<lambda>_. None) 4096) demo_rock_env True True)
     (demo_rock False (wire (Response demo_rsp))) = Undef NullDeref"
  using rock_response_exact [OF full_good(1) full_ba_good(1) full_good(2) full_ba_good(2) demo_fits(2),
      of "demo_rock False (wire (Response demo_rsp))" "[]"]
  by (simp add: demo_rock_fields)


end
