(* ===== verification/UriMachine.thy ===== *)
theory UriMachine
  imports Ragel
begin

text \<open>
  The tables of \<^verbatim>\<open>src/cxk/uri.rl.cpp\<close>, the state machine of URIs: every transition label and every state of the generated
  code, in its order of tests, and the actions at the end of the text.
\<close>

datatype ur_action =
    UrMarku
  | UrMarkh
  | UrSaveScheme
  | UrSavePort
  | UrSaveUserinfo
  | UrSaveHost
  | UrSavePath
  | UrSaveQuery
  | UrSaveFragment

section \<open>Transitions\<close>

text \<open>The labels \<^verbatim>\<open>trN\<close>: the actions in the order of the code, and the next state.\<close>

definition ur_tr_38 :: "ur_action goto" where
  "ur_tr_38 = Goto [UrSaveUserinfo] 469"

definition ur_tr_263 :: "ur_action goto" where
  "ur_tr_263 = Goto [UrSaveUserinfo] 522"

definition ur_tr_461 :: "ur_action goto" where
  "ur_tr_461 = Goto [UrMarku] 508"

definition ur_tr_462 :: "ur_action goto" where
  "ur_tr_462 = Goto [UrMarku] 454"

definition ur_tr_463 :: "ur_action goto" where
  "ur_tr_463 = Goto [UrMarku] 1"

definition ur_tr_466 :: "ur_action goto" where
  "ur_tr_466 = Goto [UrMarku] 457"

definition ur_tr_467 :: "ur_action goto" where
  "ur_tr_467 = Goto [UrMarku, UrSaveQuery] 453"

definition ur_tr_468 :: "ur_action goto" where
  "ur_tr_468 = Goto [UrMarku] 7"

definition ur_tr_469 :: "ur_action goto" where
  "ur_tr_469 = Goto [UrSaveQuery] 453"

definition ur_tr_472 :: "ur_action goto" where
  "ur_tr_472 = Goto [UrMarkh] 9"

definition ur_tr_473 :: "ur_action goto" where
  "ur_tr_473 = Goto [UrMarkh] 467"

definition ur_tr_474 :: "ur_action goto" where
  "ur_tr_474 = Goto [UrMarkh, UrSaveHost] 453"

definition ur_tr_475 :: "ur_action goto" where
  "ur_tr_475 = Goto [UrMarkh] 31"

definition ur_tr_476 :: "ur_action goto" where
  "ur_tr_476 = Goto [UrMarkh, UrSaveHost] 455"

definition ur_tr_477 :: "ur_action goto" where
  "ur_tr_477 = Goto [UrMarkh] 490"

definition ur_tr_478 :: "ur_action goto" where
  "ur_tr_478 = Goto [UrMarkh] 504"

definition ur_tr_479 :: "ur_action goto" where
  "ur_tr_479 = Goto [UrMarkh] 506"

definition ur_tr_480 :: "ur_action goto" where
  "ur_tr_480 = Goto [UrMarkh] 505"

definition ur_tr_481 :: "ur_action goto" where
  "ur_tr_481 = Goto [UrMarkh, UrSaveHost] 468"

definition ur_tr_482 :: "ur_action goto" where
  "ur_tr_482 = Goto [UrMarkh, UrSaveHost] 456"

definition ur_tr_483 :: "ur_action goto" where
  "ur_tr_483 = Goto [UrMarkh, UrSaveUserinfo] 469"

definition ur_tr_484 :: "ur_action goto" where
  "ur_tr_484 = Goto [UrMarkh] 38"

definition ur_tr_485 :: "ur_action goto" where
  "ur_tr_485 = Goto [UrSaveHost] 453"

definition ur_tr_486 :: "ur_action goto" where
  "ur_tr_486 = Goto [UrSaveHost] 455"

definition ur_tr_487 :: "ur_action goto" where
  "ur_tr_487 = Goto [UrSaveHost] 461"

definition ur_tr_488 :: "ur_action goto" where
  "ur_tr_488 = Goto [UrSaveHost] 456"

definition ur_tr_489 :: "ur_action goto" where
  "ur_tr_489 = Goto [UrMarkh, UrSavePort] 453"

definition ur_tr_490 :: "ur_action goto" where
  "ur_tr_490 = Goto [UrMarkh, UrSavePort] 455"

definition ur_tr_491 :: "ur_action goto" where
  "ur_tr_491 = Goto [UrMarkh] 462"

definition ur_tr_492 :: "ur_action goto" where
  "ur_tr_492 = Goto [UrMarkh, UrSavePort] 456"

definition ur_tr_493 :: "ur_action goto" where
  "ur_tr_493 = Goto [UrSavePort] 453"

definition ur_tr_494 :: "ur_action goto" where
  "ur_tr_494 = Goto [UrSavePort] 455"

definition ur_tr_496 :: "ur_action goto" where
  "ur_tr_496 = Goto [UrSavePort] 456"

definition ur_tr_499 :: "ur_action goto" where
  "ur_tr_499 = Goto [UrSaveHost] 468"

definition ur_tr_500 :: "ur_action goto" where
  "ur_tr_500 = Goto [UrMarkh] 489"

definition ur_tr_501 :: "ur_action goto" where
  "ur_tr_501 = Goto [UrMarkh] 470"

definition ur_tr_502 :: "ur_action goto" where
  "ur_tr_502 = Goto [UrMarkh] 36"

definition ur_tr_503 :: "ur_action goto" where
  "ur_tr_503 = Goto [UrMarkh] 471"

definition ur_tr_504 :: "ur_action goto" where
  "ur_tr_504 = Goto [UrMarkh] 485"

definition ur_tr_505 :: "ur_action goto" where
  "ur_tr_505 = Goto [UrMarkh] 487"

definition ur_tr_506 :: "ur_action goto" where
  "ur_tr_506 = Goto [UrMarkh] 486"

definition ur_tr_507 :: "ur_action goto" where
  "ur_tr_507 = Goto [UrMarkh, UrSaveHost] 461"

definition ur_tr_543 :: "ur_action goto" where
  "ur_tr_543 = Goto [UrSaveScheme] 509"

definition ur_tr_546 :: "ur_action goto" where
  "ur_tr_546 = Goto [UrMarkh] 229"

definition ur_tr_547 :: "ur_action goto" where
  "ur_tr_547 = Goto [UrMarkh] 520"

definition ur_tr_548 :: "ur_action goto" where
  "ur_tr_548 = Goto [UrMarkh, UrSaveHost, UrSavePath] 453"

definition ur_tr_549 :: "ur_action goto" where
  "ur_tr_549 = Goto [UrMarkh] 253"

definition ur_tr_550 :: "ur_action goto" where
  "ur_tr_550 = Goto [UrMarkh, UrSaveHost] 513"

definition ur_tr_551 :: "ur_action goto" where
  "ur_tr_551 = Goto [UrMarkh] 543"

definition ur_tr_552 :: "ur_action goto" where
  "ur_tr_552 = Goto [UrMarkh] 557"

definition ur_tr_553 :: "ur_action goto" where
  "ur_tr_553 = Goto [UrMarkh] 559"

definition ur_tr_554 :: "ur_action goto" where
  "ur_tr_554 = Goto [UrMarkh] 558"

definition ur_tr_555 :: "ur_action goto" where
  "ur_tr_555 = Goto [UrMarkh, UrSaveHost] 521"

definition ur_tr_556 :: "ur_action goto" where
  "ur_tr_556 = Goto [UrMarkh, UrSaveHost, UrSavePath] 456"

definition ur_tr_557 :: "ur_action goto" where
  "ur_tr_557 = Goto [UrMarkh, UrSaveUserinfo] 522"

definition ur_tr_558 :: "ur_action goto" where
  "ur_tr_558 = Goto [UrMarkh] 260"

definition ur_tr_559 :: "ur_action goto" where
  "ur_tr_559 = Goto [UrSaveHost, UrMarkh, UrSavePath] 453"

definition ur_tr_560 :: "ur_action goto" where
  "ur_tr_560 = Goto [UrSaveHost, UrMarkh] 513"

definition ur_tr_561 :: "ur_action goto" where
  "ur_tr_561 = Goto [UrSaveHost] 514"

definition ur_tr_562 :: "ur_action goto" where
  "ur_tr_562 = Goto [UrSaveHost, UrMarkh, UrSavePath] 456"

definition ur_tr_563 :: "ur_action goto" where
  "ur_tr_563 = Goto [UrSavePath] 453"

definition ur_tr_565 :: "ur_action goto" where
  "ur_tr_565 = Goto [UrSavePath] 456"

definition ur_tr_566 :: "ur_action goto" where
  "ur_tr_566 = Goto [UrMarkh, UrSavePort, UrSavePath] 453"

definition ur_tr_567 :: "ur_action goto" where
  "ur_tr_567 = Goto [UrMarkh, UrSavePort] 513"

definition ur_tr_568 :: "ur_action goto" where
  "ur_tr_568 = Goto [UrMarkh] 515"

definition ur_tr_569 :: "ur_action goto" where
  "ur_tr_569 = Goto [UrMarkh, UrSavePort, UrSavePath] 456"

definition ur_tr_570 :: "ur_action goto" where
  "ur_tr_570 = Goto [UrSavePort, UrMarkh, UrSavePath] 453"

definition ur_tr_571 :: "ur_action goto" where
  "ur_tr_571 = Goto [UrSavePort, UrMarkh] 513"

definition ur_tr_573 :: "ur_action goto" where
  "ur_tr_573 = Goto [UrSavePort, UrMarkh, UrSavePath] 456"

definition ur_tr_576 :: "ur_action goto" where
  "ur_tr_576 = Goto [UrSaveHost] 521"

definition ur_tr_577 :: "ur_action goto" where
  "ur_tr_577 = Goto [UrMarkh] 542"

definition ur_tr_578 :: "ur_action goto" where
  "ur_tr_578 = Goto [UrMarkh] 523"

definition ur_tr_579 :: "ur_action goto" where
  "ur_tr_579 = Goto [UrMarkh] 258"

definition ur_tr_580 :: "ur_action goto" where
  "ur_tr_580 = Goto [UrMarkh] 524"

definition ur_tr_581 :: "ur_action goto" where
  "ur_tr_581 = Goto [UrMarkh] 538"

definition ur_tr_582 :: "ur_action goto" where
  "ur_tr_582 = Goto [UrMarkh] 540"

definition ur_tr_583 :: "ur_action goto" where
  "ur_tr_583 = Goto [UrMarkh] 539"

definition ur_tr_584 :: "ur_action goto" where
  "ur_tr_584 = Goto [UrMarkh, UrSaveHost] 514"

section \<open>States\<close>

text \<open>The labels \<^verbatim>\<open>case N\<close>: where the code jumps to on the character \<open>c\<close>.\<close>

definition ur_case_1 :: "int \<Rightarrow> ur_action goto" where
  "ur_case_1 c =
     (if c < 65 then (if 48 \<le> c \<and> c \<le> 57 then St 2 else
       St 0) else
      if c > 70 then (if 97 \<le> c \<and> c \<le> 102 then St 2 else
       St 0) else
      St 2)"

definition ur_case_2 :: "int \<Rightarrow> ur_action goto" where
  "ur_case_2 c =
     (if c < 65 then (if 48 \<le> c \<and> c \<le> 57 then St 454 else
       St 0) else
      if c > 70 then (if 97 \<le> c \<and> c \<le> 102 then St 454 else
       St 0) else
      St 454)"

definition ur_case_3 :: "int \<Rightarrow> ur_action goto" where
  "ur_case_3 c =
     (if c < 65 then (if 48 \<le> c \<and> c \<le> 57 then St 4 else
       St 0) else
      if c > 70 then (if 97 \<le> c \<and> c \<le> 102 then St 4 else
       St 0) else
      St 4)"

definition ur_case_4 :: "int \<Rightarrow> ur_action goto" where
  "ur_case_4 c =
     (if c < 65 then (if 48 \<le> c \<and> c \<le> 57 then St 452 else
       St 0) else
      if c > 70 then (if 97 \<le> c \<and> c \<le> 102 then St 452 else
       St 0) else
      St 452)"

definition ur_case_5 :: "int \<Rightarrow> ur_action goto" where
  "ur_case_5 c =
     (if c < 65 then (if 48 \<le> c \<and> c \<le> 57 then St 6 else
       St 0) else
      if c > 70 then (if 97 \<le> c \<and> c \<le> 102 then St 6 else
       St 0) else
      St 6)"

definition ur_case_6 :: "int \<Rightarrow> ur_action goto" where
  "ur_case_6 c =
     (if c < 65 then (if 48 \<le> c \<and> c \<le> 57 then St 455 else
       St 0) else
      if c > 70 then (if 97 \<le> c \<and> c \<le> 102 then St 455 else
       St 0) else
      St 455)"

definition ur_case_7 :: "int \<Rightarrow> ur_action goto" where
  "ur_case_7 c =
     (if c < 65 then (if 48 \<le> c \<and> c \<le> 57 then St 8 else
       St 0) else
      if c > 70 then (if 97 \<le> c \<and> c \<le> 102 then St 8 else
       St 0) else
      St 8)"

definition ur_case_8 :: "int \<Rightarrow> ur_action goto" where
  "ur_case_8 c =
     (if c < 65 then (if 48 \<le> c \<and> c \<le> 57 then St 457 else
       St 0) else
      if c > 70 then (if 97 \<le> c \<and> c \<le> 102 then St 457 else
       St 0) else
      St 457)"

definition ur_case_9 :: "int \<Rightarrow> ur_action goto" where
  "ur_case_9 c =
     (if 48 \<le> c \<and> c \<le> 52 then St 10 else
      St 0)"

definition ur_case_10 :: "int \<Rightarrow> ur_action goto" where
  "ur_case_10 c =
     (if 48 \<le> c \<and> c \<le> 57 then St 11 else
      St 0)"

definition ur_case_11 :: "int \<Rightarrow> ur_action goto" where
  "ur_case_11 c =
     (if c = 46 then St 12 else
      St 0)"

definition ur_case_12 :: "int \<Rightarrow> ur_action goto" where
  "ur_case_12 c =
     (if c = 2 then St 13 else if c = 48 then St 15 else if c = 49 then St 27 else if c = 50 then St 29 else

      if 51 \<le> c \<and> c \<le> 57 then St 28 else
      St 0)"

definition ur_case_13 :: "int \<Rightarrow> ur_action goto" where
  "ur_case_13 c =
     (if 48 \<le> c \<and> c \<le> 52 then St 14 else
      St 0)"

definition ur_case_14 :: "int \<Rightarrow> ur_action goto" where
  "ur_case_14 c =
     (if 48 \<le> c \<and> c \<le> 57 then St 15 else
      St 0)"

definition ur_case_15 :: "int \<Rightarrow> ur_action goto" where
  "ur_case_15 c =
     (if c = 46 then St 16 else
      St 0)"

definition ur_case_16 :: "int \<Rightarrow> ur_action goto" where
  "ur_case_16 c =
     (if c = 2 then St 17 else if c = 48 then St 19 else if c = 49 then St 23 else if c = 50 then St 25 else

      if 51 \<le> c \<and> c \<le> 57 then St 24 else
      St 0)"

definition ur_case_17 :: "int \<Rightarrow> ur_action goto" where
  "ur_case_17 c =
     (if 48 \<le> c \<and> c \<le> 52 then St 18 else
      St 0)"

definition ur_case_18 :: "int \<Rightarrow> ur_action goto" where
  "ur_case_18 c =
     (if 48 \<le> c \<and> c \<le> 57 then St 19 else
      St 0)"

definition ur_case_19 :: "int \<Rightarrow> ur_action goto" where
  "ur_case_19 c =
     (if c = 46 then St 20 else
      St 0)"

definition ur_case_20 :: "int \<Rightarrow> ur_action goto" where
  "ur_case_20 c =
     (if c = 2 then St 21 else if c = 48 then St 460 else if c = 49 then St 463 else if c = 50 then St 465 else

      if 51 \<le> c \<and> c \<le> 57 then St 464 else
      St 0)"

definition ur_case_21 :: "int \<Rightarrow> ur_action goto" where
  "ur_case_21 c =
     (if 48 \<le> c \<and> c \<le> 52 then St 22 else
      St 0)"

definition ur_case_22 :: "int \<Rightarrow> ur_action goto" where
  "ur_case_22 c =
     (if 48 \<le> c \<and> c \<le> 57 then St 460 else
      St 0)"

definition ur_case_23 :: "int \<Rightarrow> ur_action goto" where
  "ur_case_23 c =
     (if c = 46 then St 20 else
      if 48 \<le> c \<and> c \<le> 57 then St 24 else
      St 0)"

definition ur_case_24 :: "int \<Rightarrow> ur_action goto" where
  "ur_case_24 c =
     (if c = 46 then St 20 else
      if 48 \<le> c \<and> c \<le> 57 then St 19 else
      St 0)"

definition ur_case_25 :: "int \<Rightarrow> ur_action goto" where
  "ur_case_25 c =
     (if c = 46 then St 20 else if c = 53 then St 26 else
      if 48 \<le> c \<and> c \<le> 57 then St 19 else
      St 0)"

definition ur_case_26 :: "int \<Rightarrow> ur_action goto" where
  "ur_case_26 c =
     (if c = 46 then St 20 else
      if 48 \<le> c \<and> c \<le> 53 then St 19 else
      St 0)"

definition ur_case_27 :: "int \<Rightarrow> ur_action goto" where
  "ur_case_27 c =
     (if c = 46 then St 16 else
      if 48 \<le> c \<and> c \<le> 57 then St 28 else
      St 0)"

definition ur_case_28 :: "int \<Rightarrow> ur_action goto" where
  "ur_case_28 c =
     (if c = 46 then St 16 else
      if 48 \<le> c \<and> c \<le> 57 then St 15 else
      St 0)"

definition ur_case_29 :: "int \<Rightarrow> ur_action goto" where
  "ur_case_29 c =
     (if c = 46 then St 16 else if c = 53 then St 30 else
      if 48 \<le> c \<and> c \<le> 57 then St 15 else
      St 0)"

definition ur_case_30 :: "int \<Rightarrow> ur_action goto" where
  "ur_case_30 c =
     (if c = 46 then St 16 else
      if 48 \<le> c \<and> c \<le> 53 then St 15 else
      St 0)"

definition ur_case_31 :: "int \<Rightarrow> ur_action goto" where
  "ur_case_31 c =
     (if c < 65 then (if 48 \<le> c \<and> c \<le> 57 then St 32 else
       St 0) else
      if c > 70 then (if 97 \<le> c \<and> c \<le> 102 then St 32 else
       St 0) else
      St 32)"

definition ur_case_32 :: "int \<Rightarrow> ur_action goto" where
  "ur_case_32 c =
     (if c < 65 then (if 48 \<le> c \<and> c \<le> 57 then St 467 else
       St 0) else
      if c > 70 then (if 97 \<le> c \<and> c \<le> 102 then St 467 else
       St 0) else
      St 467)"

definition ur_case_33 :: "int \<Rightarrow> ur_action goto" where
  "ur_case_33 c =
     (if c = 33 then St 33 else if c = 37 then St 34 else if c = 61 then St 33 else if c = 64 then ur_tr_38 else
      if c = 95 then St 33 else if c = 126 then St 33 else
      if c < 48 then (if 36 \<le> c \<and> c \<le> 46 then St 33 else
       St 0) else
      if c > 59 then (if c > 90 then (if 97 \<le> c \<and> c \<le> 122 then St 33 else
        St 0) else
       if c \<ge> 65 then St 33 else
       St 0) else
      St 33)"

definition ur_case_34 :: "int \<Rightarrow> ur_action goto" where
  "ur_case_34 c =
     (if c < 65 then (if 48 \<le> c \<and> c \<le> 57 then St 35 else
       St 0) else
      if c > 70 then (if 97 \<le> c \<and> c \<le> 102 then St 35 else
       St 0) else
      St 35)"

definition ur_case_35 :: "int \<Rightarrow> ur_action goto" where
  "ur_case_35 c =
     (if c < 65 then (if 48 \<le> c \<and> c \<le> 57 then St 33 else
       St 0) else
      if c > 70 then (if 97 \<le> c \<and> c \<le> 102 then St 33 else
       St 0) else
      St 33)"

definition ur_case_36 :: "int \<Rightarrow> ur_action goto" where
  "ur_case_36 c =
     (if c < 65 then (if 48 \<le> c \<and> c \<le> 57 then St 37 else
       St 0) else
      if c > 70 then (if 97 \<le> c \<and> c \<le> 102 then St 37 else
       St 0) else
      St 37)"

definition ur_case_37 :: "int \<Rightarrow> ur_action goto" where
  "ur_case_37 c =
     (if c < 65 then (if 48 \<le> c \<and> c \<le> 57 then St 470 else
       St 0) else
      if c > 70 then (if 97 \<le> c \<and> c \<le> 102 then St 470 else
       St 0) else
      St 470)"

definition ur_case_38 :: "int \<Rightarrow> ur_action goto" where
  "ur_case_38 c =
     (if c = 58 then St 146 else if c = 118 then St 225 else
      if c < 65 then (if 48 \<le> c \<and> c \<le> 57 then St 39 else
       St 0) else
      if c > 70 then (if 97 \<le> c \<and> c \<le> 102 then St 39 else
       St 0) else
      St 39)"

definition ur_case_39 :: "int \<Rightarrow> ur_action goto" where
  "ur_case_39 c =
     (if c = 58 then St 43 else
      if c < 65 then (if 48 \<le> c \<and> c \<le> 57 then St 40 else
       St 0) else
      if c > 70 then (if 97 \<le> c \<and> c \<le> 102 then St 40 else
       St 0) else
      St 40)"

definition ur_case_40 :: "int \<Rightarrow> ur_action goto" where
  "ur_case_40 c =
     (if c = 58 then St 43 else
      if c < 65 then (if 48 \<le> c \<and> c \<le> 57 then St 41 else
       St 0) else
      if c > 70 then (if 97 \<le> c \<and> c \<le> 102 then St 41 else
       St 0) else
      St 41)"

definition ur_case_41 :: "int \<Rightarrow> ur_action goto" where
  "ur_case_41 c =
     (if c = 58 then St 43 else
      if c < 65 then (if 48 \<le> c \<and> c \<le> 57 then St 42 else
       St 0) else
      if c > 70 then (if 97 \<le> c \<and> c \<le> 102 then St 42 else
       St 0) else
      St 42)"

definition ur_case_42 :: "int \<Rightarrow> ur_action goto" where
  "ur_case_42 c =
     (if c = 58 then St 43 else
      St 0)"

definition ur_case_43 :: "int \<Rightarrow> ur_action goto" where
  "ur_case_43 c =
     (if c = 58 then St 141 else
      if c < 65 then (if 48 \<le> c \<and> c \<le> 57 then St 44 else
       St 0) else
      if c > 70 then (if 97 \<le> c \<and> c \<le> 102 then St 44 else
       St 0) else
      St 44)"

definition ur_case_44 :: "int \<Rightarrow> ur_action goto" where
  "ur_case_44 c =
     (if c = 58 then St 48 else
      if c < 65 then (if 48 \<le> c \<and> c \<le> 57 then St 45 else
       St 0) else
      if c > 70 then (if 97 \<le> c \<and> c \<le> 102 then St 45 else
       St 0) else
      St 45)"

definition ur_case_45 :: "int \<Rightarrow> ur_action goto" where
  "ur_case_45 c =
     (if c = 58 then St 48 else
      if c < 65 then (if 48 \<le> c \<and> c \<le> 57 then St 46 else
       St 0) else
      if c > 70 then (if 97 \<le> c \<and> c \<le> 102 then St 46 else
       St 0) else
      St 46)"

definition ur_case_46 :: "int \<Rightarrow> ur_action goto" where
  "ur_case_46 c =
     (if c = 58 then St 48 else
      if c < 65 then (if 48 \<le> c \<and> c \<le> 57 then St 47 else
       St 0) else
      if c > 70 then (if 97 \<le> c \<and> c \<le> 102 then St 47 else
       St 0) else
      St 47)"

definition ur_case_47 :: "int \<Rightarrow> ur_action goto" where
  "ur_case_47 c =
     (if c = 58 then St 48 else
      St 0)"

definition ur_case_48 :: "int \<Rightarrow> ur_action goto" where
  "ur_case_48 c =
     (if c = 58 then St 136 else
      if c < 65 then (if 48 \<le> c \<and> c \<le> 57 then St 49 else
       St 0) else
      if c > 70 then (if 97 \<le> c \<and> c \<le> 102 then St 49 else
       St 0) else
      St 49)"

definition ur_case_49 :: "int \<Rightarrow> ur_action goto" where
  "ur_case_49 c =
     (if c = 58 then St 53 else
      if c < 65 then (if 48 \<le> c \<and> c \<le> 57 then St 50 else
       St 0) else
      if c > 70 then (if 97 \<le> c \<and> c \<le> 102 then St 50 else
       St 0) else
      St 50)"

definition ur_case_50 :: "int \<Rightarrow> ur_action goto" where
  "ur_case_50 c =
     (if c = 58 then St 53 else
      if c < 65 then (if 48 \<le> c \<and> c \<le> 57 then St 51 else
       St 0) else
      if c > 70 then (if 97 \<le> c \<and> c \<le> 102 then St 51 else
       St 0) else
      St 51)"

definition ur_case_51 :: "int \<Rightarrow> ur_action goto" where
  "ur_case_51 c =
     (if c = 58 then St 53 else
      if c < 65 then (if 48 \<le> c \<and> c \<le> 57 then St 52 else
       St 0) else
      if c > 70 then (if 97 \<le> c \<and> c \<le> 102 then St 52 else
       St 0) else
      St 52)"

definition ur_case_52 :: "int \<Rightarrow> ur_action goto" where
  "ur_case_52 c =
     (if c = 58 then St 53 else
      St 0)"

definition ur_case_53 :: "int \<Rightarrow> ur_action goto" where
  "ur_case_53 c =
     (if c = 58 then St 131 else
      if c < 65 then (if 48 \<le> c \<and> c \<le> 57 then St 54 else
       St 0) else
      if c > 70 then (if 97 \<le> c \<and> c \<le> 102 then St 54 else
       St 0) else
      St 54)"

definition ur_case_54 :: "int \<Rightarrow> ur_action goto" where
  "ur_case_54 c =
     (if c = 58 then St 58 else
      if c < 65 then (if 48 \<le> c \<and> c \<le> 57 then St 55 else
       St 0) else
      if c > 70 then (if 97 \<le> c \<and> c \<le> 102 then St 55 else
       St 0) else
      St 55)"

definition ur_case_55 :: "int \<Rightarrow> ur_action goto" where
  "ur_case_55 c =
     (if c = 58 then St 58 else
      if c < 65 then (if 48 \<le> c \<and> c \<le> 57 then St 56 else
       St 0) else
      if c > 70 then (if 97 \<le> c \<and> c \<le> 102 then St 56 else
       St 0) else
      St 56)"

definition ur_case_56 :: "int \<Rightarrow> ur_action goto" where
  "ur_case_56 c =
     (if c = 58 then St 58 else
      if c < 65 then (if 48 \<le> c \<and> c \<le> 57 then St 57 else
       St 0) else
      if c > 70 then (if 97 \<le> c \<and> c \<le> 102 then St 57 else
       St 0) else
      St 57)"

definition ur_case_57 :: "int \<Rightarrow> ur_action goto" where
  "ur_case_57 c =
     (if c = 58 then St 58 else
      St 0)"

definition ur_case_58 :: "int \<Rightarrow> ur_action goto" where
  "ur_case_58 c =
     (if c = 58 then St 126 else
      if c < 65 then (if 48 \<le> c \<and> c \<le> 57 then St 59 else
       St 0) else
      if c > 70 then (if 97 \<le> c \<and> c \<le> 102 then St 59 else
       St 0) else
      St 59)"

definition ur_case_59 :: "int \<Rightarrow> ur_action goto" where
  "ur_case_59 c =
     (if c = 58 then St 63 else
      if c < 65 then (if 48 \<le> c \<and> c \<le> 57 then St 60 else
       St 0) else
      if c > 70 then (if 97 \<le> c \<and> c \<le> 102 then St 60 else
       St 0) else
      St 60)"

definition ur_case_60 :: "int \<Rightarrow> ur_action goto" where
  "ur_case_60 c =
     (if c = 58 then St 63 else
      if c < 65 then (if 48 \<le> c \<and> c \<le> 57 then St 61 else
       St 0) else
      if c > 70 then (if 97 \<le> c \<and> c \<le> 102 then St 61 else
       St 0) else
      St 61)"

definition ur_case_61 :: "int \<Rightarrow> ur_action goto" where
  "ur_case_61 c =
     (if c = 58 then St 63 else
      if c < 65 then (if 48 \<le> c \<and> c \<le> 57 then St 62 else
       St 0) else
      if c > 70 then (if 97 \<le> c \<and> c \<le> 102 then St 62 else
       St 0) else
      St 62)"

definition ur_case_62 :: "int \<Rightarrow> ur_action goto" where
  "ur_case_62 c =
     (if c = 58 then St 63 else
      St 0)"

definition ur_case_63 :: "int \<Rightarrow> ur_action goto" where
  "ur_case_63 c =
     (if c = 58 then St 113 else
      if c < 65 then (if 48 \<le> c \<and> c \<le> 57 then St 64 else
       St 0) else
      if c > 70 then (if 97 \<le> c \<and> c \<le> 102 then St 64 else
       St 0) else
      St 64)"

definition ur_case_64 :: "int \<Rightarrow> ur_action goto" where
  "ur_case_64 c =
     (if c = 58 then St 68 else
      if c < 65 then (if 48 \<le> c \<and> c \<le> 57 then St 65 else
       St 0) else
      if c > 70 then (if 97 \<le> c \<and> c \<le> 102 then St 65 else
       St 0) else
      St 65)"

definition ur_case_65 :: "int \<Rightarrow> ur_action goto" where
  "ur_case_65 c =
     (if c = 58 then St 68 else
      if c < 65 then (if 48 \<le> c \<and> c \<le> 57 then St 66 else
       St 0) else
      if c > 70 then (if 97 \<le> c \<and> c \<le> 102 then St 66 else
       St 0) else
      St 66)"

definition ur_case_66 :: "int \<Rightarrow> ur_action goto" where
  "ur_case_66 c =
     (if c = 58 then St 68 else
      if c < 65 then (if 48 \<le> c \<and> c \<le> 57 then St 67 else
       St 0) else
      if c > 70 then (if 97 \<le> c \<and> c \<le> 102 then St 67 else
       St 0) else
      St 67)"

definition ur_case_67 :: "int \<Rightarrow> ur_action goto" where
  "ur_case_67 c =
     (if c = 58 then St 68 else
      St 0)"

definition ur_case_68 :: "int \<Rightarrow> ur_action goto" where
  "ur_case_68 c =
     (if c = 2 then St 69 else if c = 48 then St 96 else if c = 49 then St 104 else if c = 50 then St 107 else
      if c = 58 then St 111 else
      if c < 65 then (if 51 \<le> c \<and> c \<le> 57 then St 110 else
       St 0) else
      if c > 70 then (if 97 \<le> c \<and> c \<le> 102 then St 112 else
       St 0) else
      St 112)"

definition ur_case_69 :: "int \<Rightarrow> ur_action goto" where
  "ur_case_69 c =
     (if 48 \<le> c \<and> c \<le> 52 then St 70 else
      St 0)"

definition ur_case_70 :: "int \<Rightarrow> ur_action goto" where
  "ur_case_70 c =
     (if 48 \<le> c \<and> c \<le> 57 then St 71 else
      St 0)"

definition ur_case_71 :: "int \<Rightarrow> ur_action goto" where
  "ur_case_71 c =
     (if c = 46 then St 72 else
      St 0)"

definition ur_case_72 :: "int \<Rightarrow> ur_action goto" where
  "ur_case_72 c =
     (if c = 2 then St 73 else if c = 48 then St 75 else if c = 49 then St 92 else if c = 50 then St 94 else

      if 51 \<le> c \<and> c \<le> 57 then St 93 else
      St 0)"

definition ur_case_73 :: "int \<Rightarrow> ur_action goto" where
  "ur_case_73 c =
     (if 48 \<le> c \<and> c \<le> 52 then St 74 else
      St 0)"

definition ur_case_74 :: "int \<Rightarrow> ur_action goto" where
  "ur_case_74 c =
     (if 48 \<le> c \<and> c \<le> 57 then St 75 else
      St 0)"

definition ur_case_75 :: "int \<Rightarrow> ur_action goto" where
  "ur_case_75 c =
     (if c = 46 then St 76 else
      St 0)"

definition ur_case_76 :: "int \<Rightarrow> ur_action goto" where
  "ur_case_76 c =
     (if c = 2 then St 77 else if c = 48 then St 79 else if c = 49 then St 88 else if c = 50 then St 90 else

      if 51 \<le> c \<and> c \<le> 57 then St 89 else
      St 0)"

definition ur_case_77 :: "int \<Rightarrow> ur_action goto" where
  "ur_case_77 c =
     (if 48 \<le> c \<and> c \<le> 52 then St 78 else
      St 0)"

definition ur_case_78 :: "int \<Rightarrow> ur_action goto" where
  "ur_case_78 c =
     (if 48 \<le> c \<and> c \<le> 57 then St 79 else
      St 0)"

definition ur_case_79 :: "int \<Rightarrow> ur_action goto" where
  "ur_case_79 c =
     (if c = 46 then St 80 else
      St 0)"

definition ur_case_80 :: "int \<Rightarrow> ur_action goto" where
  "ur_case_80 c =
     (if c = 2 then St 81 else if c = 48 then St 83 else if c = 49 then St 84 else if c = 50 then St 86 else

      if 51 \<le> c \<and> c \<le> 57 then St 85 else
      St 0)"

definition ur_case_81 :: "int \<Rightarrow> ur_action goto" where
  "ur_case_81 c =
     (if 48 \<le> c \<and> c \<le> 52 then St 82 else
      St 0)"

definition ur_case_82 :: "int \<Rightarrow> ur_action goto" where
  "ur_case_82 c =
     (if 48 \<le> c \<and> c \<le> 57 then St 83 else
      St 0)"

definition ur_case_83 :: "int \<Rightarrow> ur_action goto" where
  "ur_case_83 c =
     (if c = 93 then St 460 else
      St 0)"

definition ur_case_84 :: "int \<Rightarrow> ur_action goto" where
  "ur_case_84 c =
     (if c = 93 then St 460 else
      if 48 \<le> c \<and> c \<le> 57 then St 85 else
      St 0)"

definition ur_case_85 :: "int \<Rightarrow> ur_action goto" where
  "ur_case_85 c =
     (if c = 93 then St 460 else
      if 48 \<le> c \<and> c \<le> 57 then St 83 else
      St 0)"

definition ur_case_86 :: "int \<Rightarrow> ur_action goto" where
  "ur_case_86 c =
     (if c = 53 then St 87 else if c = 93 then St 460 else
      if 48 \<le> c \<and> c \<le> 57 then St 83 else
      St 0)"

definition ur_case_87 :: "int \<Rightarrow> ur_action goto" where
  "ur_case_87 c =
     (if c = 93 then St 460 else
      if 48 \<le> c \<and> c \<le> 53 then St 83 else
      St 0)"

definition ur_case_88 :: "int \<Rightarrow> ur_action goto" where
  "ur_case_88 c =
     (if c = 46 then St 80 else
      if 48 \<le> c \<and> c \<le> 57 then St 89 else
      St 0)"

definition ur_case_89 :: "int \<Rightarrow> ur_action goto" where
  "ur_case_89 c =
     (if c = 46 then St 80 else
      if 48 \<le> c \<and> c \<le> 57 then St 79 else
      St 0)"

definition ur_case_90 :: "int \<Rightarrow> ur_action goto" where
  "ur_case_90 c =
     (if c = 46 then St 80 else if c = 53 then St 91 else
      if 48 \<le> c \<and> c \<le> 57 then St 79 else
      St 0)"

definition ur_case_91 :: "int \<Rightarrow> ur_action goto" where
  "ur_case_91 c =
     (if c = 46 then St 80 else
      if 48 \<le> c \<and> c \<le> 53 then St 79 else
      St 0)"

definition ur_case_92 :: "int \<Rightarrow> ur_action goto" where
  "ur_case_92 c =
     (if c = 46 then St 76 else
      if 48 \<le> c \<and> c \<le> 57 then St 93 else
      St 0)"

definition ur_case_93 :: "int \<Rightarrow> ur_action goto" where
  "ur_case_93 c =
     (if c = 46 then St 76 else
      if 48 \<le> c \<and> c \<le> 57 then St 75 else
      St 0)"

definition ur_case_94 :: "int \<Rightarrow> ur_action goto" where
  "ur_case_94 c =
     (if c = 46 then St 76 else if c = 53 then St 95 else
      if 48 \<le> c \<and> c \<le> 57 then St 75 else
      St 0)"

definition ur_case_95 :: "int \<Rightarrow> ur_action goto" where
  "ur_case_95 c =
     (if c = 46 then St 76 else
      if 48 \<le> c \<and> c \<le> 53 then St 75 else
      St 0)"

definition ur_case_96 :: "int \<Rightarrow> ur_action goto" where
  "ur_case_96 c =
     (if c = 46 then St 72 else if c = 58 then St 100 else
      if c < 65 then (if 48 \<le> c \<and> c \<le> 57 then St 97 else
       St 0) else
      if c > 70 then (if 97 \<le> c \<and> c \<le> 102 then St 97 else
       St 0) else
      St 97)"

definition ur_case_97 :: "int \<Rightarrow> ur_action goto" where
  "ur_case_97 c =
     (if c = 58 then St 100 else
      if c < 65 then (if 48 \<le> c \<and> c \<le> 57 then St 98 else
       St 0) else
      if c > 70 then (if 97 \<le> c \<and> c \<le> 102 then St 98 else
       St 0) else
      St 98)"

definition ur_case_98 :: "int \<Rightarrow> ur_action goto" where
  "ur_case_98 c =
     (if c = 58 then St 100 else
      if c < 65 then (if 48 \<le> c \<and> c \<le> 57 then St 99 else
       St 0) else
      if c > 70 then (if 97 \<le> c \<and> c \<le> 102 then St 99 else
       St 0) else
      St 99)"

definition ur_case_99 :: "int \<Rightarrow> ur_action goto" where
  "ur_case_99 c =
     (if c = 58 then St 100 else
      St 0)"

definition ur_case_100 :: "int \<Rightarrow> ur_action goto" where
  "ur_case_100 c =
     (if c = 58 then St 83 else
      if c < 65 then (if 48 \<le> c \<and> c \<le> 57 then St 101 else
       St 0) else
      if c > 70 then (if 97 \<le> c \<and> c \<le> 102 then St 101 else
       St 0) else
      St 101)"

definition ur_case_101 :: "int \<Rightarrow> ur_action goto" where
  "ur_case_101 c =
     (if c = 93 then St 460 else
      if c < 65 then (if 48 \<le> c \<and> c \<le> 57 then St 102 else
       St 0) else
      if c > 70 then (if 97 \<le> c \<and> c \<le> 102 then St 102 else
       St 0) else
      St 102)"

definition ur_case_102 :: "int \<Rightarrow> ur_action goto" where
  "ur_case_102 c =
     (if c = 93 then St 460 else
      if c < 65 then (if 48 \<le> c \<and> c \<le> 57 then St 103 else
       St 0) else
      if c > 70 then (if 97 \<le> c \<and> c \<le> 102 then St 103 else
       St 0) else
      St 103)"

definition ur_case_103 :: "int \<Rightarrow> ur_action goto" where
  "ur_case_103 c =
     (if c = 93 then St 460 else
      if c < 65 then (if 48 \<le> c \<and> c \<le> 57 then St 83 else
       St 0) else
      if c > 70 then (if 97 \<le> c \<and> c \<le> 102 then St 83 else
       St 0) else
      St 83)"

definition ur_case_104 :: "int \<Rightarrow> ur_action goto" where
  "ur_case_104 c =
     (if c = 46 then St 72 else if c = 58 then St 100 else
      if c < 65 then (if 48 \<le> c \<and> c \<le> 57 then St 105 else
       St 0) else
      if c > 70 then (if 97 \<le> c \<and> c \<le> 102 then St 97 else
       St 0) else
      St 97)"

definition ur_case_105 :: "int \<Rightarrow> ur_action goto" where
  "ur_case_105 c =
     (if c = 46 then St 72 else if c = 58 then St 100 else
      if c < 65 then (if 48 \<le> c \<and> c \<le> 57 then St 106 else
       St 0) else
      if c > 70 then (if 97 \<le> c \<and> c \<le> 102 then St 98 else
       St 0) else
      St 98)"

definition ur_case_106 :: "int \<Rightarrow> ur_action goto" where
  "ur_case_106 c =
     (if c = 46 then St 72 else if c = 58 then St 100 else
      if c < 65 then (if 48 \<le> c \<and> c \<le> 57 then St 99 else
       St 0) else
      if c > 70 then (if 97 \<le> c \<and> c \<le> 102 then St 99 else
       St 0) else
      St 99)"

definition ur_case_107 :: "int \<Rightarrow> ur_action goto" where
  "ur_case_107 c =
     (if c = 46 then St 72 else if c = 53 then St 109 else if c = 58 then St 100 else
      if c < 65 then (if 48 \<le> c \<and> c \<le> 57 then St 108 else
       St 0) else
      if c > 70 then (if 97 \<le> c \<and> c \<le> 102 then St 97 else
       St 0) else
      St 97)"

definition ur_case_108 :: "int \<Rightarrow> ur_action goto" where
  "ur_case_108 c =
     (if c = 46 then St 72 else if c = 58 then St 100 else
      if c < 65 then (if 48 \<le> c \<and> c \<le> 57 then St 98 else
       St 0) else
      if c > 70 then (if 97 \<le> c \<and> c \<le> 102 then St 98 else
       St 0) else
      St 98)"

definition ur_case_109 :: "int \<Rightarrow> ur_action goto" where
  "ur_case_109 c =
     (if c = 46 then St 72 else if c = 58 then St 100 else
      if c < 54 then (if 48 \<le> c \<and> c \<le> 53 then St 106 else
       St 0) else
      if c > 57 then (if c > 70 then (if 97 \<le> c \<and> c \<le> 102 then St 98 else
        St 0) else
       if c \<ge> 65 then St 98 else
       St 0) else
      St 98)"

definition ur_case_110 :: "int \<Rightarrow> ur_action goto" where
  "ur_case_110 c =
     (if c = 46 then St 72 else if c = 58 then St 100 else
      if c < 65 then (if 48 \<le> c \<and> c \<le> 57 then St 108 else
       St 0) else
      if c > 70 then (if 97 \<le> c \<and> c \<le> 102 then St 97 else
       St 0) else
      St 97)"

definition ur_case_111 :: "int \<Rightarrow> ur_action goto" where
  "ur_case_111 c =
     (if c < 65 then (if 48 \<le> c \<and> c \<le> 57 then St 101 else
       St 0) else
      if c > 70 then (if 97 \<le> c \<and> c \<le> 102 then St 101 else
       St 0) else
      St 101)"

definition ur_case_112 :: "int \<Rightarrow> ur_action goto" where
  "ur_case_112 c =
     (if c = 58 then St 100 else
      if c < 65 then (if 48 \<le> c \<and> c \<le> 57 then St 97 else
       St 0) else
      if c > 70 then (if 97 \<le> c \<and> c \<le> 102 then St 97 else
       St 0) else
      St 97)"

definition ur_case_113 :: "int \<Rightarrow> ur_action goto" where
  "ur_case_113 c =
     (if c = 2 then St 69 else if c = 48 then St 114 else if c = 49 then St 118 else if c = 50 then St 121 else

      if c < 65 then (if 51 \<le> c \<and> c \<le> 57 then St 124 else
       St 0) else
      if c > 70 then (if 97 \<le> c \<and> c \<le> 102 then St 125 else
       St 0) else
      St 125)"

definition ur_case_114 :: "int \<Rightarrow> ur_action goto" where
  "ur_case_114 c =
     (if c = 46 then St 72 else if c = 58 then St 111 else
      if c < 65 then (if 48 \<le> c \<and> c \<le> 57 then St 115 else
       St 0) else
      if c > 70 then (if 97 \<le> c \<and> c \<le> 102 then St 115 else
       St 0) else
      St 115)"

definition ur_case_115 :: "int \<Rightarrow> ur_action goto" where
  "ur_case_115 c =
     (if c = 58 then St 111 else
      if c < 65 then (if 48 \<le> c \<and> c \<le> 57 then St 116 else
       St 0) else
      if c > 70 then (if 97 \<le> c \<and> c \<le> 102 then St 116 else
       St 0) else
      St 116)"

definition ur_case_116 :: "int \<Rightarrow> ur_action goto" where
  "ur_case_116 c =
     (if c = 58 then St 111 else
      if c < 65 then (if 48 \<le> c \<and> c \<le> 57 then St 117 else
       St 0) else
      if c > 70 then (if 97 \<le> c \<and> c \<le> 102 then St 117 else
       St 0) else
      St 117)"

definition ur_case_117 :: "int \<Rightarrow> ur_action goto" where
  "ur_case_117 c =
     (if c = 58 then St 111 else
      St 0)"

definition ur_case_118 :: "int \<Rightarrow> ur_action goto" where
  "ur_case_118 c =
     (if c = 46 then St 72 else if c = 58 then St 111 else
      if c < 65 then (if 48 \<le> c \<and> c \<le> 57 then St 119 else
       St 0) else
      if c > 70 then (if 97 \<le> c \<and> c \<le> 102 then St 115 else
       St 0) else
      St 115)"

definition ur_case_119 :: "int \<Rightarrow> ur_action goto" where
  "ur_case_119 c =
     (if c = 46 then St 72 else if c = 58 then St 111 else
      if c < 65 then (if 48 \<le> c \<and> c \<le> 57 then St 120 else
       St 0) else
      if c > 70 then (if 97 \<le> c \<and> c \<le> 102 then St 116 else
       St 0) else
      St 116)"

definition ur_case_120 :: "int \<Rightarrow> ur_action goto" where
  "ur_case_120 c =
     (if c = 46 then St 72 else if c = 58 then St 111 else
      if c < 65 then (if 48 \<le> c \<and> c \<le> 57 then St 117 else
       St 0) else
      if c > 70 then (if 97 \<le> c \<and> c \<le> 102 then St 117 else
       St 0) else
      St 117)"

definition ur_case_121 :: "int \<Rightarrow> ur_action goto" where
  "ur_case_121 c =
     (if c = 46 then St 72 else if c = 53 then St 123 else if c = 58 then St 111 else
      if c < 65 then (if 48 \<le> c \<and> c \<le> 57 then St 122 else
       St 0) else
      if c > 70 then (if 97 \<le> c \<and> c \<le> 102 then St 115 else
       St 0) else
      St 115)"

definition ur_case_122 :: "int \<Rightarrow> ur_action goto" where
  "ur_case_122 c =
     (if c = 46 then St 72 else if c = 58 then St 111 else
      if c < 65 then (if 48 \<le> c \<and> c \<le> 57 then St 116 else
       St 0) else
      if c > 70 then (if 97 \<le> c \<and> c \<le> 102 then St 116 else
       St 0) else
      St 116)"

definition ur_case_123 :: "int \<Rightarrow> ur_action goto" where
  "ur_case_123 c =
     (if c = 46 then St 72 else if c = 58 then St 111 else
      if c < 54 then (if 48 \<le> c \<and> c \<le> 53 then St 120 else
       St 0) else
      if c > 57 then (if c > 70 then (if 97 \<le> c \<and> c \<le> 102 then St 116 else
        St 0) else
       if c \<ge> 65 then St 116 else
       St 0) else
      St 116)"

definition ur_case_124 :: "int \<Rightarrow> ur_action goto" where
  "ur_case_124 c =
     (if c = 46 then St 72 else if c = 58 then St 111 else
      if c < 65 then (if 48 \<le> c \<and> c \<le> 57 then St 122 else
       St 0) else
      if c > 70 then (if 97 \<le> c \<and> c \<le> 102 then St 115 else
       St 0) else
      St 115)"

definition ur_case_125 :: "int \<Rightarrow> ur_action goto" where
  "ur_case_125 c =
     (if c = 58 then St 111 else
      if c < 65 then (if 48 \<le> c \<and> c \<le> 57 then St 115 else
       St 0) else
      if c > 70 then (if 97 \<le> c \<and> c \<le> 102 then St 115 else
       St 0) else
      St 115)"

definition ur_case_126 :: "int \<Rightarrow> ur_action goto" where
  "ur_case_126 c =
     (if c < 65 then (if 48 \<le> c \<and> c \<le> 57 then St 127 else
       St 0) else
      if c > 70 then (if 97 \<le> c \<and> c \<le> 102 then St 127 else
       St 0) else
      St 127)"

definition ur_case_127 :: "int \<Rightarrow> ur_action goto" where
  "ur_case_127 c =
     (if c = 58 then St 113 else
      if c < 65 then (if 48 \<le> c \<and> c \<le> 57 then St 128 else
       St 0) else
      if c > 70 then (if 97 \<le> c \<and> c \<le> 102 then St 128 else
       St 0) else
      St 128)"

definition ur_case_128 :: "int \<Rightarrow> ur_action goto" where
  "ur_case_128 c =
     (if c = 58 then St 113 else
      if c < 65 then (if 48 \<le> c \<and> c \<le> 57 then St 129 else
       St 0) else
      if c > 70 then (if 97 \<le> c \<and> c \<le> 102 then St 129 else
       St 0) else
      St 129)"

definition ur_case_129 :: "int \<Rightarrow> ur_action goto" where
  "ur_case_129 c =
     (if c = 58 then St 113 else
      if c < 65 then (if 48 \<le> c \<and> c \<le> 57 then St 130 else
       St 0) else
      if c > 70 then (if 97 \<le> c \<and> c \<le> 102 then St 130 else
       St 0) else
      St 130)"

definition ur_case_130 :: "int \<Rightarrow> ur_action goto" where
  "ur_case_130 c =
     (if c = 58 then St 113 else
      St 0)"

definition ur_case_131 :: "int \<Rightarrow> ur_action goto" where
  "ur_case_131 c =
     (if c < 65 then (if 48 \<le> c \<and> c \<le> 57 then St 132 else
       St 0) else
      if c > 70 then (if 97 \<le> c \<and> c \<le> 102 then St 132 else
       St 0) else
      St 132)"

definition ur_case_132 :: "int \<Rightarrow> ur_action goto" where
  "ur_case_132 c =
     (if c = 58 then St 126 else
      if c < 65 then (if 48 \<le> c \<and> c \<le> 57 then St 133 else
       St 0) else
      if c > 70 then (if 97 \<le> c \<and> c \<le> 102 then St 133 else
       St 0) else
      St 133)"

definition ur_case_133 :: "int \<Rightarrow> ur_action goto" where
  "ur_case_133 c =
     (if c = 58 then St 126 else
      if c < 65 then (if 48 \<le> c \<and> c \<le> 57 then St 134 else
       St 0) else
      if c > 70 then (if 97 \<le> c \<and> c \<le> 102 then St 134 else
       St 0) else
      St 134)"

definition ur_case_134 :: "int \<Rightarrow> ur_action goto" where
  "ur_case_134 c =
     (if c = 58 then St 126 else
      if c < 65 then (if 48 \<le> c \<and> c \<le> 57 then St 135 else
       St 0) else
      if c > 70 then (if 97 \<le> c \<and> c \<le> 102 then St 135 else
       St 0) else
      St 135)"

definition ur_case_135 :: "int \<Rightarrow> ur_action goto" where
  "ur_case_135 c =
     (if c = 58 then St 126 else
      St 0)"

definition ur_case_136 :: "int \<Rightarrow> ur_action goto" where
  "ur_case_136 c =
     (if c < 65 then (if 48 \<le> c \<and> c \<le> 57 then St 137 else
       St 0) else
      if c > 70 then (if 97 \<le> c \<and> c \<le> 102 then St 137 else
       St 0) else
      St 137)"

definition ur_case_137 :: "int \<Rightarrow> ur_action goto" where
  "ur_case_137 c =
     (if c = 58 then St 131 else
      if c < 65 then (if 48 \<le> c \<and> c \<le> 57 then St 138 else
       St 0) else
      if c > 70 then (if 97 \<le> c \<and> c \<le> 102 then St 138 else
       St 0) else
      St 138)"

definition ur_case_138 :: "int \<Rightarrow> ur_action goto" where
  "ur_case_138 c =
     (if c = 58 then St 131 else
      if c < 65 then (if 48 \<le> c \<and> c \<le> 57 then St 139 else
       St 0) else
      if c > 70 then (if 97 \<le> c \<and> c \<le> 102 then St 139 else
       St 0) else
      St 139)"

definition ur_case_139 :: "int \<Rightarrow> ur_action goto" where
  "ur_case_139 c =
     (if c = 58 then St 131 else
      if c < 65 then (if 48 \<le> c \<and> c \<le> 57 then St 140 else
       St 0) else
      if c > 70 then (if 97 \<le> c \<and> c \<le> 102 then St 140 else
       St 0) else
      St 140)"

definition ur_case_140 :: "int \<Rightarrow> ur_action goto" where
  "ur_case_140 c =
     (if c = 58 then St 131 else
      St 0)"

definition ur_case_141 :: "int \<Rightarrow> ur_action goto" where
  "ur_case_141 c =
     (if c < 65 then (if 48 \<le> c \<and> c \<le> 57 then St 142 else
       St 0) else
      if c > 70 then (if 97 \<le> c \<and> c \<le> 102 then St 142 else
       St 0) else
      St 142)"

definition ur_case_142 :: "int \<Rightarrow> ur_action goto" where
  "ur_case_142 c =
     (if c = 58 then St 136 else
      if c < 65 then (if 48 \<le> c \<and> c \<le> 57 then St 143 else
       St 0) else
      if c > 70 then (if 97 \<le> c \<and> c \<le> 102 then St 143 else
       St 0) else
      St 143)"

definition ur_case_143 :: "int \<Rightarrow> ur_action goto" where
  "ur_case_143 c =
     (if c = 58 then St 136 else
      if c < 65 then (if 48 \<le> c \<and> c \<le> 57 then St 144 else
       St 0) else
      if c > 70 then (if 97 \<le> c \<and> c \<le> 102 then St 144 else
       St 0) else
      St 144)"

definition ur_case_144 :: "int \<Rightarrow> ur_action goto" where
  "ur_case_144 c =
     (if c = 58 then St 136 else
      if c < 65 then (if 48 \<le> c \<and> c \<le> 57 then St 145 else
       St 0) else
      if c > 70 then (if 97 \<le> c \<and> c \<le> 102 then St 145 else
       St 0) else
      St 145)"

definition ur_case_145 :: "int \<Rightarrow> ur_action goto" where
  "ur_case_145 c =
     (if c = 58 then St 136 else
      St 0)"

definition ur_case_146 :: "int \<Rightarrow> ur_action goto" where
  "ur_case_146 c =
     (if c = 58 then St 147 else
      St 0)"

definition ur_case_147 :: "int \<Rightarrow> ur_action goto" where
  "ur_case_147 c =
     (if c = 2 then St 69 else if c = 48 then St 148 else if c = 49 then St 217 else if c = 50 then St 220 else
      if c = 93 then St 460 else
      if c < 65 then (if 51 \<le> c \<and> c \<le> 57 then St 223 else
       St 0) else
      if c > 70 then (if 97 \<le> c \<and> c \<le> 102 then St 224 else
       St 0) else
      St 224)"

definition ur_case_148 :: "int \<Rightarrow> ur_action goto" where
  "ur_case_148 c =
     (if c = 46 then St 72 else if c = 58 then St 152 else if c = 93 then St 460 else
      if c < 65 then (if 48 \<le> c \<and> c \<le> 57 then St 149 else
       St 0) else
      if c > 70 then (if 97 \<le> c \<and> c \<le> 102 then St 149 else
       St 0) else
      St 149)"

definition ur_case_149 :: "int \<Rightarrow> ur_action goto" where
  "ur_case_149 c =
     (if c = 58 then St 152 else if c = 93 then St 460 else
      if c < 65 then (if 48 \<le> c \<and> c \<le> 57 then St 150 else
       St 0) else
      if c > 70 then (if 97 \<le> c \<and> c \<le> 102 then St 150 else
       St 0) else
      St 150)"

definition ur_case_150 :: "int \<Rightarrow> ur_action goto" where
  "ur_case_150 c =
     (if c = 58 then St 152 else if c = 93 then St 460 else
      if c < 65 then (if 48 \<le> c \<and> c \<le> 57 then St 151 else
       St 0) else
      if c > 70 then (if 97 \<le> c \<and> c \<le> 102 then St 151 else
       St 0) else
      St 151)"

definition ur_case_151 :: "int \<Rightarrow> ur_action goto" where
  "ur_case_151 c =
     (if c = 58 then St 152 else if c = 93 then St 460 else
      St 0)"

definition ur_case_152 :: "int \<Rightarrow> ur_action goto" where
  "ur_case_152 c =
     (if c = 2 then St 69 else if c = 48 then St 153 else if c = 49 then St 209 else if c = 50 then St 212 else

      if c < 65 then (if 51 \<le> c \<and> c \<le> 57 then St 215 else
       St 0) else
      if c > 70 then (if 97 \<le> c \<and> c \<le> 102 then St 216 else
       St 0) else
      St 216)"

definition ur_case_153 :: "int \<Rightarrow> ur_action goto" where
  "ur_case_153 c =
     (if c = 46 then St 72 else if c = 58 then St 157 else if c = 93 then St 460 else
      if c < 65 then (if 48 \<le> c \<and> c \<le> 57 then St 154 else
       St 0) else
      if c > 70 then (if 97 \<le> c \<and> c \<le> 102 then St 154 else
       St 0) else
      St 154)"

definition ur_case_154 :: "int \<Rightarrow> ur_action goto" where
  "ur_case_154 c =
     (if c = 58 then St 157 else if c = 93 then St 460 else
      if c < 65 then (if 48 \<le> c \<and> c \<le> 57 then St 155 else
       St 0) else
      if c > 70 then (if 97 \<le> c \<and> c \<le> 102 then St 155 else
       St 0) else
      St 155)"

definition ur_case_155 :: "int \<Rightarrow> ur_action goto" where
  "ur_case_155 c =
     (if c = 58 then St 157 else if c = 93 then St 460 else
      if c < 65 then (if 48 \<le> c \<and> c \<le> 57 then St 156 else
       St 0) else
      if c > 70 then (if 97 \<le> c \<and> c \<le> 102 then St 156 else
       St 0) else
      St 156)"

definition ur_case_156 :: "int \<Rightarrow> ur_action goto" where
  "ur_case_156 c =
     (if c = 58 then St 157 else if c = 93 then St 460 else
      St 0)"

definition ur_case_157 :: "int \<Rightarrow> ur_action goto" where
  "ur_case_157 c =
     (if c = 2 then St 69 else if c = 48 then St 158 else if c = 49 then St 201 else if c = 50 then St 204 else

      if c < 65 then (if 51 \<le> c \<and> c \<le> 57 then St 207 else
       St 0) else
      if c > 70 then (if 97 \<le> c \<and> c \<le> 102 then St 208 else
       St 0) else
      St 208)"

definition ur_case_158 :: "int \<Rightarrow> ur_action goto" where
  "ur_case_158 c =
     (if c = 46 then St 72 else if c = 58 then St 162 else if c = 93 then St 460 else
      if c < 65 then (if 48 \<le> c \<and> c \<le> 57 then St 159 else
       St 0) else
      if c > 70 then (if 97 \<le> c \<and> c \<le> 102 then St 159 else
       St 0) else
      St 159)"

definition ur_case_159 :: "int \<Rightarrow> ur_action goto" where
  "ur_case_159 c =
     (if c = 58 then St 162 else if c = 93 then St 460 else
      if c < 65 then (if 48 \<le> c \<and> c \<le> 57 then St 160 else
       St 0) else
      if c > 70 then (if 97 \<le> c \<and> c \<le> 102 then St 160 else
       St 0) else
      St 160)"

definition ur_case_160 :: "int \<Rightarrow> ur_action goto" where
  "ur_case_160 c =
     (if c = 58 then St 162 else if c = 93 then St 460 else
      if c < 65 then (if 48 \<le> c \<and> c \<le> 57 then St 161 else
       St 0) else
      if c > 70 then (if 97 \<le> c \<and> c \<le> 102 then St 161 else
       St 0) else
      St 161)"

definition ur_case_161 :: "int \<Rightarrow> ur_action goto" where
  "ur_case_161 c =
     (if c = 58 then St 162 else if c = 93 then St 460 else
      St 0)"

definition ur_case_162 :: "int \<Rightarrow> ur_action goto" where
  "ur_case_162 c =
     (if c = 2 then St 69 else if c = 48 then St 163 else if c = 49 then St 193 else if c = 50 then St 196 else

      if c < 65 then (if 51 \<le> c \<and> c \<le> 57 then St 199 else
       St 0) else
      if c > 70 then (if 97 \<le> c \<and> c \<le> 102 then St 200 else
       St 0) else
      St 200)"

definition ur_case_163 :: "int \<Rightarrow> ur_action goto" where
  "ur_case_163 c =
     (if c = 46 then St 72 else if c = 58 then St 167 else if c = 93 then St 460 else
      if c < 65 then (if 48 \<le> c \<and> c \<le> 57 then St 164 else
       St 0) else
      if c > 70 then (if 97 \<le> c \<and> c \<le> 102 then St 164 else
       St 0) else
      St 164)"

definition ur_case_164 :: "int \<Rightarrow> ur_action goto" where
  "ur_case_164 c =
     (if c = 58 then St 167 else if c = 93 then St 460 else
      if c < 65 then (if 48 \<le> c \<and> c \<le> 57 then St 165 else
       St 0) else
      if c > 70 then (if 97 \<le> c \<and> c \<le> 102 then St 165 else
       St 0) else
      St 165)"

definition ur_case_165 :: "int \<Rightarrow> ur_action goto" where
  "ur_case_165 c =
     (if c = 58 then St 167 else if c = 93 then St 460 else
      if c < 65 then (if 48 \<le> c \<and> c \<le> 57 then St 166 else
       St 0) else
      if c > 70 then (if 97 \<le> c \<and> c \<le> 102 then St 166 else
       St 0) else
      St 166)"

definition ur_case_166 :: "int \<Rightarrow> ur_action goto" where
  "ur_case_166 c =
     (if c = 58 then St 167 else if c = 93 then St 460 else
      St 0)"

definition ur_case_167 :: "int \<Rightarrow> ur_action goto" where
  "ur_case_167 c =
     (if c = 2 then St 69 else if c = 48 then St 168 else if c = 49 then St 185 else if c = 50 then St 188 else

      if c < 65 then (if 51 \<le> c \<and> c \<le> 57 then St 191 else
       St 0) else
      if c > 70 then (if 97 \<le> c \<and> c \<le> 102 then St 192 else
       St 0) else
      St 192)"

definition ur_case_168 :: "int \<Rightarrow> ur_action goto" where
  "ur_case_168 c =
     (if c = 46 then St 72 else if c = 58 then St 172 else if c = 93 then St 460 else
      if c < 65 then (if 48 \<le> c \<and> c \<le> 57 then St 169 else
       St 0) else
      if c > 70 then (if 97 \<le> c \<and> c \<le> 102 then St 169 else
       St 0) else
      St 169)"

definition ur_case_169 :: "int \<Rightarrow> ur_action goto" where
  "ur_case_169 c =
     (if c = 58 then St 172 else if c = 93 then St 460 else
      if c < 65 then (if 48 \<le> c \<and> c \<le> 57 then St 170 else
       St 0) else
      if c > 70 then (if 97 \<le> c \<and> c \<le> 102 then St 170 else
       St 0) else
      St 170)"

definition ur_case_170 :: "int \<Rightarrow> ur_action goto" where
  "ur_case_170 c =
     (if c = 58 then St 172 else if c = 93 then St 460 else
      if c < 65 then (if 48 \<le> c \<and> c \<le> 57 then St 171 else
       St 0) else
      if c > 70 then (if 97 \<le> c \<and> c \<le> 102 then St 171 else
       St 0) else
      St 171)"

definition ur_case_171 :: "int \<Rightarrow> ur_action goto" where
  "ur_case_171 c =
     (if c = 58 then St 172 else if c = 93 then St 460 else
      St 0)"

definition ur_case_172 :: "int \<Rightarrow> ur_action goto" where
  "ur_case_172 c =
     (if c = 2 then St 69 else if c = 48 then St 173 else if c = 49 then St 177 else if c = 50 then St 180 else

      if c < 65 then (if 51 \<le> c \<and> c \<le> 57 then St 183 else
       St 0) else
      if c > 70 then (if 97 \<le> c \<and> c \<le> 102 then St 184 else
       St 0) else
      St 184)"

definition ur_case_173 :: "int \<Rightarrow> ur_action goto" where
  "ur_case_173 c =
     (if c = 46 then St 72 else if c = 58 then St 111 else if c = 93 then St 460 else
      if c < 65 then (if 48 \<le> c \<and> c \<le> 57 then St 174 else
       St 0) else
      if c > 70 then (if 97 \<le> c \<and> c \<le> 102 then St 174 else
       St 0) else
      St 174)"

definition ur_case_174 :: "int \<Rightarrow> ur_action goto" where
  "ur_case_174 c =
     (if c = 58 then St 111 else if c = 93 then St 460 else
      if c < 65 then (if 48 \<le> c \<and> c \<le> 57 then St 175 else
       St 0) else
      if c > 70 then (if 97 \<le> c \<and> c \<le> 102 then St 175 else
       St 0) else
      St 175)"

definition ur_case_175 :: "int \<Rightarrow> ur_action goto" where
  "ur_case_175 c =
     (if c = 58 then St 111 else if c = 93 then St 460 else
      if c < 65 then (if 48 \<le> c \<and> c \<le> 57 then St 176 else
       St 0) else
      if c > 70 then (if 97 \<le> c \<and> c \<le> 102 then St 176 else
       St 0) else
      St 176)"

definition ur_case_176 :: "int \<Rightarrow> ur_action goto" where
  "ur_case_176 c =
     (if c = 58 then St 111 else if c = 93 then St 460 else
      St 0)"

definition ur_case_177 :: "int \<Rightarrow> ur_action goto" where
  "ur_case_177 c =
     (if c = 46 then St 72 else if c = 58 then St 111 else if c = 93 then St 460 else
      if c < 65 then (if 48 \<le> c \<and> c \<le> 57 then St 178 else
       St 0) else
      if c > 70 then (if 97 \<le> c \<and> c \<le> 102 then St 174 else
       St 0) else
      St 174)"

definition ur_case_178 :: "int \<Rightarrow> ur_action goto" where
  "ur_case_178 c =
     (if c = 46 then St 72 else if c = 58 then St 111 else if c = 93 then St 460 else
      if c < 65 then (if 48 \<le> c \<and> c \<le> 57 then St 179 else
       St 0) else
      if c > 70 then (if 97 \<le> c \<and> c \<le> 102 then St 175 else
       St 0) else
      St 175)"

definition ur_case_179 :: "int \<Rightarrow> ur_action goto" where
  "ur_case_179 c =
     (if c = 46 then St 72 else if c = 58 then St 111 else if c = 93 then St 460 else
      if c < 65 then (if 48 \<le> c \<and> c \<le> 57 then St 176 else
       St 0) else
      if c > 70 then (if 97 \<le> c \<and> c \<le> 102 then St 176 else
       St 0) else
      St 176)"

definition ur_case_180 :: "int \<Rightarrow> ur_action goto" where
  "ur_case_180 c =
     (if c = 46 then St 72 else if c = 53 then St 182 else if c = 58 then St 111 else if c = 93 then St 460 else

      if c < 65 then (if 48 \<le> c \<and> c \<le> 57 then St 181 else
       St 0) else
      if c > 70 then (if 97 \<le> c \<and> c \<le> 102 then St 174 else
       St 0) else
      St 174)"

definition ur_case_181 :: "int \<Rightarrow> ur_action goto" where
  "ur_case_181 c =
     (if c = 46 then St 72 else if c = 58 then St 111 else if c = 93 then St 460 else
      if c < 65 then (if 48 \<le> c \<and> c \<le> 57 then St 175 else
       St 0) else
      if c > 70 then (if 97 \<le> c \<and> c \<le> 102 then St 175 else
       St 0) else
      St 175)"

definition ur_case_182 :: "int \<Rightarrow> ur_action goto" where
  "ur_case_182 c =
     (if c = 46 then St 72 else if c = 58 then St 111 else if c = 93 then St 460 else
      if c < 54 then (if 48 \<le> c \<and> c \<le> 53 then St 179 else
       St 0) else
      if c > 57 then (if c > 70 then (if 97 \<le> c \<and> c \<le> 102 then St 175 else
        St 0) else
       if c \<ge> 65 then St 175 else
       St 0) else
      St 175)"

definition ur_case_183 :: "int \<Rightarrow> ur_action goto" where
  "ur_case_183 c =
     (if c = 46 then St 72 else if c = 58 then St 111 else if c = 93 then St 460 else
      if c < 65 then (if 48 \<le> c \<and> c \<le> 57 then St 181 else
       St 0) else
      if c > 70 then (if 97 \<le> c \<and> c \<le> 102 then St 174 else
       St 0) else
      St 174)"

definition ur_case_184 :: "int \<Rightarrow> ur_action goto" where
  "ur_case_184 c =
     (if c = 58 then St 111 else if c = 93 then St 460 else
      if c < 65 then (if 48 \<le> c \<and> c \<le> 57 then St 174 else
       St 0) else
      if c > 70 then (if 97 \<le> c \<and> c \<le> 102 then St 174 else
       St 0) else
      St 174)"

definition ur_case_185 :: "int \<Rightarrow> ur_action goto" where
  "ur_case_185 c =
     (if c = 46 then St 72 else if c = 58 then St 172 else if c = 93 then St 460 else
      if c < 65 then (if 48 \<le> c \<and> c \<le> 57 then St 186 else
       St 0) else
      if c > 70 then (if 97 \<le> c \<and> c \<le> 102 then St 169 else
       St 0) else
      St 169)"

definition ur_case_186 :: "int \<Rightarrow> ur_action goto" where
  "ur_case_186 c =
     (if c = 46 then St 72 else if c = 58 then St 172 else if c = 93 then St 460 else
      if c < 65 then (if 48 \<le> c \<and> c \<le> 57 then St 187 else
       St 0) else
      if c > 70 then (if 97 \<le> c \<and> c \<le> 102 then St 170 else
       St 0) else
      St 170)"

definition ur_case_187 :: "int \<Rightarrow> ur_action goto" where
  "ur_case_187 c =
     (if c = 46 then St 72 else if c = 58 then St 172 else if c = 93 then St 460 else
      if c < 65 then (if 48 \<le> c \<and> c \<le> 57 then St 171 else
       St 0) else
      if c > 70 then (if 97 \<le> c \<and> c \<le> 102 then St 171 else
       St 0) else
      St 171)"

definition ur_case_188 :: "int \<Rightarrow> ur_action goto" where
  "ur_case_188 c =
     (if c = 46 then St 72 else if c = 53 then St 190 else if c = 58 then St 172 else if c = 93 then St 460 else

      if c < 65 then (if 48 \<le> c \<and> c \<le> 57 then St 189 else
       St 0) else
      if c > 70 then (if 97 \<le> c \<and> c \<le> 102 then St 169 else
       St 0) else
      St 169)"

definition ur_case_189 :: "int \<Rightarrow> ur_action goto" where
  "ur_case_189 c =
     (if c = 46 then St 72 else if c = 58 then St 172 else if c = 93 then St 460 else
      if c < 65 then (if 48 \<le> c \<and> c \<le> 57 then St 170 else
       St 0) else
      if c > 70 then (if 97 \<le> c \<and> c \<le> 102 then St 170 else
       St 0) else
      St 170)"

definition ur_case_190 :: "int \<Rightarrow> ur_action goto" where
  "ur_case_190 c =
     (if c = 46 then St 72 else if c = 58 then St 172 else if c = 93 then St 460 else
      if c < 54 then (if 48 \<le> c \<and> c \<le> 53 then St 187 else
       St 0) else
      if c > 57 then (if c > 70 then (if 97 \<le> c \<and> c \<le> 102 then St 170 else
        St 0) else
       if c \<ge> 65 then St 170 else
       St 0) else
      St 170)"

definition ur_case_191 :: "int \<Rightarrow> ur_action goto" where
  "ur_case_191 c =
     (if c = 46 then St 72 else if c = 58 then St 172 else if c = 93 then St 460 else
      if c < 65 then (if 48 \<le> c \<and> c \<le> 57 then St 189 else
       St 0) else
      if c > 70 then (if 97 \<le> c \<and> c \<le> 102 then St 169 else
       St 0) else
      St 169)"

definition ur_case_192 :: "int \<Rightarrow> ur_action goto" where
  "ur_case_192 c =
     (if c = 58 then St 172 else if c = 93 then St 460 else
      if c < 65 then (if 48 \<le> c \<and> c \<le> 57 then St 169 else
       St 0) else
      if c > 70 then (if 97 \<le> c \<and> c \<le> 102 then St 169 else
       St 0) else
      St 169)"

definition ur_case_193 :: "int \<Rightarrow> ur_action goto" where
  "ur_case_193 c =
     (if c = 46 then St 72 else if c = 58 then St 167 else if c = 93 then St 460 else
      if c < 65 then (if 48 \<le> c \<and> c \<le> 57 then St 194 else
       St 0) else
      if c > 70 then (if 97 \<le> c \<and> c \<le> 102 then St 164 else
       St 0) else
      St 164)"

definition ur_case_194 :: "int \<Rightarrow> ur_action goto" where
  "ur_case_194 c =
     (if c = 46 then St 72 else if c = 58 then St 167 else if c = 93 then St 460 else
      if c < 65 then (if 48 \<le> c \<and> c \<le> 57 then St 195 else
       St 0) else
      if c > 70 then (if 97 \<le> c \<and> c \<le> 102 then St 165 else
       St 0) else
      St 165)"

definition ur_case_195 :: "int \<Rightarrow> ur_action goto" where
  "ur_case_195 c =
     (if c = 46 then St 72 else if c = 58 then St 167 else if c = 93 then St 460 else
      if c < 65 then (if 48 \<le> c \<and> c \<le> 57 then St 166 else
       St 0) else
      if c > 70 then (if 97 \<le> c \<and> c \<le> 102 then St 166 else
       St 0) else
      St 166)"

definition ur_case_196 :: "int \<Rightarrow> ur_action goto" where
  "ur_case_196 c =
     (if c = 46 then St 72 else if c = 53 then St 198 else if c = 58 then St 167 else if c = 93 then St 460 else

      if c < 65 then (if 48 \<le> c \<and> c \<le> 57 then St 197 else
       St 0) else
      if c > 70 then (if 97 \<le> c \<and> c \<le> 102 then St 164 else
       St 0) else
      St 164)"

definition ur_case_197 :: "int \<Rightarrow> ur_action goto" where
  "ur_case_197 c =
     (if c = 46 then St 72 else if c = 58 then St 167 else if c = 93 then St 460 else
      if c < 65 then (if 48 \<le> c \<and> c \<le> 57 then St 165 else
       St 0) else
      if c > 70 then (if 97 \<le> c \<and> c \<le> 102 then St 165 else
       St 0) else
      St 165)"

definition ur_case_198 :: "int \<Rightarrow> ur_action goto" where
  "ur_case_198 c =
     (if c = 46 then St 72 else if c = 58 then St 167 else if c = 93 then St 460 else
      if c < 54 then (if 48 \<le> c \<and> c \<le> 53 then St 195 else
       St 0) else
      if c > 57 then (if c > 70 then (if 97 \<le> c \<and> c \<le> 102 then St 165 else
        St 0) else
       if c \<ge> 65 then St 165 else
       St 0) else
      St 165)"

definition ur_case_199 :: "int \<Rightarrow> ur_action goto" where
  "ur_case_199 c =
     (if c = 46 then St 72 else if c = 58 then St 167 else if c = 93 then St 460 else
      if c < 65 then (if 48 \<le> c \<and> c \<le> 57 then St 197 else
       St 0) else
      if c > 70 then (if 97 \<le> c \<and> c \<le> 102 then St 164 else
       St 0) else
      St 164)"

definition ur_case_200 :: "int \<Rightarrow> ur_action goto" where
  "ur_case_200 c =
     (if c = 58 then St 167 else if c = 93 then St 460 else
      if c < 65 then (if 48 \<le> c \<and> c \<le> 57 then St 164 else
       St 0) else
      if c > 70 then (if 97 \<le> c \<and> c \<le> 102 then St 164 else
       St 0) else
      St 164)"

definition ur_case_201 :: "int \<Rightarrow> ur_action goto" where
  "ur_case_201 c =
     (if c = 46 then St 72 else if c = 58 then St 162 else if c = 93 then St 460 else
      if c < 65 then (if 48 \<le> c \<and> c \<le> 57 then St 202 else
       St 0) else
      if c > 70 then (if 97 \<le> c \<and> c \<le> 102 then St 159 else
       St 0) else
      St 159)"

definition ur_case_202 :: "int \<Rightarrow> ur_action goto" where
  "ur_case_202 c =
     (if c = 46 then St 72 else if c = 58 then St 162 else if c = 93 then St 460 else
      if c < 65 then (if 48 \<le> c \<and> c \<le> 57 then St 203 else
       St 0) else
      if c > 70 then (if 97 \<le> c \<and> c \<le> 102 then St 160 else
       St 0) else
      St 160)"

definition ur_case_203 :: "int \<Rightarrow> ur_action goto" where
  "ur_case_203 c =
     (if c = 46 then St 72 else if c = 58 then St 162 else if c = 93 then St 460 else
      if c < 65 then (if 48 \<le> c \<and> c \<le> 57 then St 161 else
       St 0) else
      if c > 70 then (if 97 \<le> c \<and> c \<le> 102 then St 161 else
       St 0) else
      St 161)"

definition ur_case_204 :: "int \<Rightarrow> ur_action goto" where
  "ur_case_204 c =
     (if c = 46 then St 72 else if c = 53 then St 206 else if c = 58 then St 162 else if c = 93 then St 460 else

      if c < 65 then (if 48 \<le> c \<and> c \<le> 57 then St 205 else
       St 0) else
      if c > 70 then (if 97 \<le> c \<and> c \<le> 102 then St 159 else
       St 0) else
      St 159)"

definition ur_case_205 :: "int \<Rightarrow> ur_action goto" where
  "ur_case_205 c =
     (if c = 46 then St 72 else if c = 58 then St 162 else if c = 93 then St 460 else
      if c < 65 then (if 48 \<le> c \<and> c \<le> 57 then St 160 else
       St 0) else
      if c > 70 then (if 97 \<le> c \<and> c \<le> 102 then St 160 else
       St 0) else
      St 160)"

definition ur_case_206 :: "int \<Rightarrow> ur_action goto" where
  "ur_case_206 c =
     (if c = 46 then St 72 else if c = 58 then St 162 else if c = 93 then St 460 else
      if c < 54 then (if 48 \<le> c \<and> c \<le> 53 then St 203 else
       St 0) else
      if c > 57 then (if c > 70 then (if 97 \<le> c \<and> c \<le> 102 then St 160 else
        St 0) else
       if c \<ge> 65 then St 160 else
       St 0) else
      St 160)"

definition ur_case_207 :: "int \<Rightarrow> ur_action goto" where
  "ur_case_207 c =
     (if c = 46 then St 72 else if c = 58 then St 162 else if c = 93 then St 460 else
      if c < 65 then (if 48 \<le> c \<and> c \<le> 57 then St 205 else
       St 0) else
      if c > 70 then (if 97 \<le> c \<and> c \<le> 102 then St 159 else
       St 0) else
      St 159)"

definition ur_case_208 :: "int \<Rightarrow> ur_action goto" where
  "ur_case_208 c =
     (if c = 58 then St 162 else if c = 93 then St 460 else
      if c < 65 then (if 48 \<le> c \<and> c \<le> 57 then St 159 else
       St 0) else
      if c > 70 then (if 97 \<le> c \<and> c \<le> 102 then St 159 else
       St 0) else
      St 159)"

definition ur_case_209 :: "int \<Rightarrow> ur_action goto" where
  "ur_case_209 c =
     (if c = 46 then St 72 else if c = 58 then St 157 else if c = 93 then St 460 else
      if c < 65 then (if 48 \<le> c \<and> c \<le> 57 then St 210 else
       St 0) else
      if c > 70 then (if 97 \<le> c \<and> c \<le> 102 then St 154 else
       St 0) else
      St 154)"

definition ur_case_210 :: "int \<Rightarrow> ur_action goto" where
  "ur_case_210 c =
     (if c = 46 then St 72 else if c = 58 then St 157 else if c = 93 then St 460 else
      if c < 65 then (if 48 \<le> c \<and> c \<le> 57 then St 211 else
       St 0) else
      if c > 70 then (if 97 \<le> c \<and> c \<le> 102 then St 155 else
       St 0) else
      St 155)"

definition ur_case_211 :: "int \<Rightarrow> ur_action goto" where
  "ur_case_211 c =
     (if c = 46 then St 72 else if c = 58 then St 157 else if c = 93 then St 460 else
      if c < 65 then (if 48 \<le> c \<and> c \<le> 57 then St 156 else
       St 0) else
      if c > 70 then (if 97 \<le> c \<and> c \<le> 102 then St 156 else
       St 0) else
      St 156)"

definition ur_case_212 :: "int \<Rightarrow> ur_action goto" where
  "ur_case_212 c =
     (if c = 46 then St 72 else if c = 53 then St 214 else if c = 58 then St 157 else if c = 93 then St 460 else

      if c < 65 then (if 48 \<le> c \<and> c \<le> 57 then St 213 else
       St 0) else
      if c > 70 then (if 97 \<le> c \<and> c \<le> 102 then St 154 else
       St 0) else
      St 154)"

definition ur_case_213 :: "int \<Rightarrow> ur_action goto" where
  "ur_case_213 c =
     (if c = 46 then St 72 else if c = 58 then St 157 else if c = 93 then St 460 else
      if c < 65 then (if 48 \<le> c \<and> c \<le> 57 then St 155 else
       St 0) else
      if c > 70 then (if 97 \<le> c \<and> c \<le> 102 then St 155 else
       St 0) else
      St 155)"

definition ur_case_214 :: "int \<Rightarrow> ur_action goto" where
  "ur_case_214 c =
     (if c = 46 then St 72 else if c = 58 then St 157 else if c = 93 then St 460 else
      if c < 54 then (if 48 \<le> c \<and> c \<le> 53 then St 211 else
       St 0) else
      if c > 57 then (if c > 70 then (if 97 \<le> c \<and> c \<le> 102 then St 155 else
        St 0) else
       if c \<ge> 65 then St 155 else
       St 0) else
      St 155)"

definition ur_case_215 :: "int \<Rightarrow> ur_action goto" where
  "ur_case_215 c =
     (if c = 46 then St 72 else if c = 58 then St 157 else if c = 93 then St 460 else
      if c < 65 then (if 48 \<le> c \<and> c \<le> 57 then St 213 else
       St 0) else
      if c > 70 then (if 97 \<le> c \<and> c \<le> 102 then St 154 else
       St 0) else
      St 154)"

definition ur_case_216 :: "int \<Rightarrow> ur_action goto" where
  "ur_case_216 c =
     (if c = 58 then St 157 else if c = 93 then St 460 else
      if c < 65 then (if 48 \<le> c \<and> c \<le> 57 then St 154 else
       St 0) else
      if c > 70 then (if 97 \<le> c \<and> c \<le> 102 then St 154 else
       St 0) else
      St 154)"

definition ur_case_217 :: "int \<Rightarrow> ur_action goto" where
  "ur_case_217 c =
     (if c = 46 then St 72 else if c = 58 then St 152 else if c = 93 then St 460 else
      if c < 65 then (if 48 \<le> c \<and> c \<le> 57 then St 218 else
       St 0) else
      if c > 70 then (if 97 \<le> c \<and> c \<le> 102 then St 149 else
       St 0) else
      St 149)"

definition ur_case_218 :: "int \<Rightarrow> ur_action goto" where
  "ur_case_218 c =
     (if c = 46 then St 72 else if c = 58 then St 152 else if c = 93 then St 460 else
      if c < 65 then (if 48 \<le> c \<and> c \<le> 57 then St 219 else
       St 0) else
      if c > 70 then (if 97 \<le> c \<and> c \<le> 102 then St 150 else
       St 0) else
      St 150)"

definition ur_case_219 :: "int \<Rightarrow> ur_action goto" where
  "ur_case_219 c =
     (if c = 46 then St 72 else if c = 58 then St 152 else if c = 93 then St 460 else
      if c < 65 then (if 48 \<le> c \<and> c \<le> 57 then St 151 else
       St 0) else
      if c > 70 then (if 97 \<le> c \<and> c \<le> 102 then St 151 else
       St 0) else
      St 151)"

definition ur_case_220 :: "int \<Rightarrow> ur_action goto" where
  "ur_case_220 c =
     (if c = 46 then St 72 else if c = 53 then St 222 else if c = 58 then St 152 else if c = 93 then St 460 else

      if c < 65 then (if 48 \<le> c \<and> c \<le> 57 then St 221 else
       St 0) else
      if c > 70 then (if 97 \<le> c \<and> c \<le> 102 then St 149 else
       St 0) else
      St 149)"

definition ur_case_221 :: "int \<Rightarrow> ur_action goto" where
  "ur_case_221 c =
     (if c = 46 then St 72 else if c = 58 then St 152 else if c = 93 then St 460 else
      if c < 65 then (if 48 \<le> c \<and> c \<le> 57 then St 150 else
       St 0) else
      if c > 70 then (if 97 \<le> c \<and> c \<le> 102 then St 150 else
       St 0) else
      St 150)"

definition ur_case_222 :: "int \<Rightarrow> ur_action goto" where
  "ur_case_222 c =
     (if c = 46 then St 72 else if c = 58 then St 152 else if c = 93 then St 460 else
      if c < 54 then (if 48 \<le> c \<and> c \<le> 53 then St 219 else
       St 0) else
      if c > 57 then (if c > 70 then (if 97 \<le> c \<and> c \<le> 102 then St 150 else
        St 0) else
       if c \<ge> 65 then St 150 else
       St 0) else
      St 150)"

definition ur_case_223 :: "int \<Rightarrow> ur_action goto" where
  "ur_case_223 c =
     (if c = 46 then St 72 else if c = 58 then St 152 else if c = 93 then St 460 else
      if c < 65 then (if 48 \<le> c \<and> c \<le> 57 then St 221 else
       St 0) else
      if c > 70 then (if 97 \<le> c \<and> c \<le> 102 then St 149 else
       St 0) else
      St 149)"

definition ur_case_224 :: "int \<Rightarrow> ur_action goto" where
  "ur_case_224 c =
     (if c = 58 then St 152 else if c = 93 then St 460 else
      if c < 65 then (if 48 \<le> c \<and> c \<le> 57 then St 149 else
       St 0) else
      if c > 70 then (if 97 \<le> c \<and> c \<le> 102 then St 149 else
       St 0) else
      St 149)"

definition ur_case_225 :: "int \<Rightarrow> ur_action goto" where
  "ur_case_225 c =
     (if c < 65 then (if 48 \<le> c \<and> c \<le> 57 then St 226 else
       St 0) else
      if c > 70 then (if 97 \<le> c \<and> c \<le> 102 then St 226 else
       St 0) else
      St 226)"

definition ur_case_226 :: "int \<Rightarrow> ur_action goto" where
  "ur_case_226 c =
     (if c = 46 then St 227 else
      if c < 65 then (if 48 \<le> c \<and> c \<le> 57 then St 226 else
       St 0) else
      if c > 70 then (if 97 \<le> c \<and> c \<le> 102 then St 226 else
       St 0) else
      St 226)"

definition ur_case_227 :: "int \<Rightarrow> ur_action goto" where
  "ur_case_227 c =
     (if c = 33 then St 228 else if c = 36 then St 228 else if c = 61 then St 228 else if c = 95 then St 228 else
      if c = 126 then St 228 else
      if c < 48 then (if 38 \<le> c \<and> c \<le> 46 then St 228 else
       St 0) else
      if c > 59 then (if c > 90 then (if 97 \<le> c \<and> c \<le> 122 then St 228 else
        St 0) else
       if c \<ge> 65 then St 228 else
       St 0) else
      St 228)"

definition ur_case_228 :: "int \<Rightarrow> ur_action goto" where
  "ur_case_228 c =
     (if c = 33 then St 228 else if c = 36 then St 228 else if c = 61 then St 228 else if c = 93 then St 460 else
      if c = 95 then St 228 else if c = 126 then St 228 else
      if c < 48 then (if 38 \<le> c \<and> c \<le> 46 then St 228 else
       St 0) else
      if c > 59 then (if c > 90 then (if 97 \<le> c \<and> c \<le> 122 then St 228 else
        St 0) else
       if c \<ge> 65 then St 228 else
       St 0) else
      St 228)"

definition ur_case_229 :: "int \<Rightarrow> ur_action goto" where
  "ur_case_229 c =
     (if 48 \<le> c \<and> c \<le> 52 then St 230 else
      St 0)"

definition ur_case_230 :: "int \<Rightarrow> ur_action goto" where
  "ur_case_230 c =
     (if 48 \<le> c \<and> c \<le> 57 then St 231 else
      St 0)"

definition ur_case_231 :: "int \<Rightarrow> ur_action goto" where
  "ur_case_231 c =
     (if c = 46 then St 232 else
      St 0)"

definition ur_case_232 :: "int \<Rightarrow> ur_action goto" where
  "ur_case_232 c =
     (if c = 2 then St 233 else if c = 48 then St 235 else if c = 49 then St 249 else if c = 50 then St 251 else

      if 51 \<le> c \<and> c \<le> 57 then St 250 else
      St 0)"

definition ur_case_233 :: "int \<Rightarrow> ur_action goto" where
  "ur_case_233 c =
     (if 48 \<le> c \<and> c \<le> 52 then St 234 else
      St 0)"

definition ur_case_234 :: "int \<Rightarrow> ur_action goto" where
  "ur_case_234 c =
     (if 48 \<le> c \<and> c \<le> 57 then St 235 else
      St 0)"

definition ur_case_235 :: "int \<Rightarrow> ur_action goto" where
  "ur_case_235 c =
     (if c = 46 then St 236 else
      St 0)"

definition ur_case_236 :: "int \<Rightarrow> ur_action goto" where
  "ur_case_236 c =
     (if c = 2 then St 237 else if c = 48 then St 239 else if c = 49 then St 245 else if c = 50 then St 247 else

      if 51 \<le> c \<and> c \<le> 57 then St 246 else
      St 0)"

definition ur_case_237 :: "int \<Rightarrow> ur_action goto" where
  "ur_case_237 c =
     (if 48 \<le> c \<and> c \<le> 52 then St 238 else
      St 0)"

definition ur_case_238 :: "int \<Rightarrow> ur_action goto" where
  "ur_case_238 c =
     (if 48 \<le> c \<and> c \<le> 57 then St 239 else
      St 0)"

definition ur_case_239 :: "int \<Rightarrow> ur_action goto" where
  "ur_case_239 c =
     (if c = 46 then St 240 else
      St 0)"

definition ur_case_240 :: "int \<Rightarrow> ur_action goto" where
  "ur_case_240 c =
     (if c = 2 then St 241 else if c = 48 then St 512 else if c = 49 then St 516 else if c = 50 then St 518 else

      if 51 \<le> c \<and> c \<le> 57 then St 517 else
      St 0)"

definition ur_case_241 :: "int \<Rightarrow> ur_action goto" where
  "ur_case_241 c =
     (if 48 \<le> c \<and> c \<le> 52 then St 242 else
      St 0)"

definition ur_case_242 :: "int \<Rightarrow> ur_action goto" where
  "ur_case_242 c =
     (if 48 \<le> c \<and> c \<le> 57 then St 512 else
      St 0)"

definition ur_case_243 :: "int \<Rightarrow> ur_action goto" where
  "ur_case_243 c =
     (if c < 65 then (if 48 \<le> c \<and> c \<le> 57 then St 244 else
       St 0) else
      if c > 70 then (if 97 \<le> c \<and> c \<le> 102 then St 244 else
       St 0) else
      St 244)"

definition ur_case_244 :: "int \<Rightarrow> ur_action goto" where
  "ur_case_244 c =
     (if c < 65 then (if 48 \<le> c \<and> c \<le> 57 then St 513 else
       St 0) else
      if c > 70 then (if 97 \<le> c \<and> c \<le> 102 then St 513 else
       St 0) else
      St 513)"

definition ur_case_245 :: "int \<Rightarrow> ur_action goto" where
  "ur_case_245 c =
     (if c = 46 then St 240 else
      if 48 \<le> c \<and> c \<le> 57 then St 246 else
      St 0)"

definition ur_case_246 :: "int \<Rightarrow> ur_action goto" where
  "ur_case_246 c =
     (if c = 46 then St 240 else
      if 48 \<le> c \<and> c \<le> 57 then St 239 else
      St 0)"

definition ur_case_247 :: "int \<Rightarrow> ur_action goto" where
  "ur_case_247 c =
     (if c = 46 then St 240 else if c = 53 then St 248 else
      if 48 \<le> c \<and> c \<le> 57 then St 239 else
      St 0)"

definition ur_case_248 :: "int \<Rightarrow> ur_action goto" where
  "ur_case_248 c =
     (if c = 46 then St 240 else
      if 48 \<le> c \<and> c \<le> 53 then St 239 else
      St 0)"

definition ur_case_249 :: "int \<Rightarrow> ur_action goto" where
  "ur_case_249 c =
     (if c = 46 then St 236 else
      if 48 \<le> c \<and> c \<le> 57 then St 250 else
      St 0)"

definition ur_case_250 :: "int \<Rightarrow> ur_action goto" where
  "ur_case_250 c =
     (if c = 46 then St 236 else
      if 48 \<le> c \<and> c \<le> 57 then St 235 else
      St 0)"

definition ur_case_251 :: "int \<Rightarrow> ur_action goto" where
  "ur_case_251 c =
     (if c = 46 then St 236 else if c = 53 then St 252 else
      if 48 \<le> c \<and> c \<le> 57 then St 235 else
      St 0)"

definition ur_case_252 :: "int \<Rightarrow> ur_action goto" where
  "ur_case_252 c =
     (if c = 46 then St 236 else
      if 48 \<le> c \<and> c \<le> 53 then St 235 else
      St 0)"

definition ur_case_253 :: "int \<Rightarrow> ur_action goto" where
  "ur_case_253 c =
     (if c < 65 then (if 48 \<le> c \<and> c \<le> 57 then St 254 else
       St 0) else
      if c > 70 then (if 97 \<le> c \<and> c \<le> 102 then St 254 else
       St 0) else
      St 254)"

definition ur_case_254 :: "int \<Rightarrow> ur_action goto" where
  "ur_case_254 c =
     (if c < 65 then (if 48 \<le> c \<and> c \<le> 57 then St 520 else
       St 0) else
      if c > 70 then (if 97 \<le> c \<and> c \<le> 102 then St 520 else
       St 0) else
      St 520)"

definition ur_case_255 :: "int \<Rightarrow> ur_action goto" where
  "ur_case_255 c =
     (if c = 33 then St 255 else if c = 37 then St 256 else if c = 61 then St 255 else if c = 64 then ur_tr_263 else
      if c = 95 then St 255 else if c = 126 then St 255 else
      if c < 48 then (if 36 \<le> c \<and> c \<le> 46 then St 255 else
       St 0) else
      if c > 59 then (if c > 90 then (if 97 \<le> c \<and> c \<le> 122 then St 255 else
        St 0) else
       if c \<ge> 65 then St 255 else
       St 0) else
      St 255)"

definition ur_case_256 :: "int \<Rightarrow> ur_action goto" where
  "ur_case_256 c =
     (if c < 65 then (if 48 \<le> c \<and> c \<le> 57 then St 257 else
       St 0) else
      if c > 70 then (if 97 \<le> c \<and> c \<le> 102 then St 257 else
       St 0) else
      St 257)"

definition ur_case_257 :: "int \<Rightarrow> ur_action goto" where
  "ur_case_257 c =
     (if c < 65 then (if 48 \<le> c \<and> c \<le> 57 then St 255 else
       St 0) else
      if c > 70 then (if 97 \<le> c \<and> c \<le> 102 then St 255 else
       St 0) else
      St 255)"

definition ur_case_258 :: "int \<Rightarrow> ur_action goto" where
  "ur_case_258 c =
     (if c < 65 then (if 48 \<le> c \<and> c \<le> 57 then St 259 else
       St 0) else
      if c > 70 then (if 97 \<le> c \<and> c \<le> 102 then St 259 else
       St 0) else
      St 259)"

definition ur_case_259 :: "int \<Rightarrow> ur_action goto" where
  "ur_case_259 c =
     (if c < 65 then (if 48 \<le> c \<and> c \<le> 57 then St 523 else
       St 0) else
      if c > 70 then (if 97 \<le> c \<and> c \<le> 102 then St 523 else
       St 0) else
      St 523)"

definition ur_case_260 :: "int \<Rightarrow> ur_action goto" where
  "ur_case_260 c =
     (if c = 58 then St 368 else if c = 118 then St 447 else
      if c < 65 then (if 48 \<le> c \<and> c \<le> 57 then St 261 else
       St 0) else
      if c > 70 then (if 97 \<le> c \<and> c \<le> 102 then St 261 else
       St 0) else
      St 261)"

definition ur_case_261 :: "int \<Rightarrow> ur_action goto" where
  "ur_case_261 c =
     (if c = 58 then St 265 else
      if c < 65 then (if 48 \<le> c \<and> c \<le> 57 then St 262 else
       St 0) else
      if c > 70 then (if 97 \<le> c \<and> c \<le> 102 then St 262 else
       St 0) else
      St 262)"

definition ur_case_262 :: "int \<Rightarrow> ur_action goto" where
  "ur_case_262 c =
     (if c = 58 then St 265 else
      if c < 65 then (if 48 \<le> c \<and> c \<le> 57 then St 263 else
       St 0) else
      if c > 70 then (if 97 \<le> c \<and> c \<le> 102 then St 263 else
       St 0) else
      St 263)"

definition ur_case_263 :: "int \<Rightarrow> ur_action goto" where
  "ur_case_263 c =
     (if c = 58 then St 265 else
      if c < 65 then (if 48 \<le> c \<and> c \<le> 57 then St 264 else
       St 0) else
      if c > 70 then (if 97 \<le> c \<and> c \<le> 102 then St 264 else
       St 0) else
      St 264)"

definition ur_case_264 :: "int \<Rightarrow> ur_action goto" where
  "ur_case_264 c =
     (if c = 58 then St 265 else
      St 0)"

definition ur_case_265 :: "int \<Rightarrow> ur_action goto" where
  "ur_case_265 c =
     (if c = 58 then St 363 else
      if c < 65 then (if 48 \<le> c \<and> c \<le> 57 then St 266 else
       St 0) else
      if c > 70 then (if 97 \<le> c \<and> c \<le> 102 then St 266 else
       St 0) else
      St 266)"

definition ur_case_266 :: "int \<Rightarrow> ur_action goto" where
  "ur_case_266 c =
     (if c = 58 then St 270 else
      if c < 65 then (if 48 \<le> c \<and> c \<le> 57 then St 267 else
       St 0) else
      if c > 70 then (if 97 \<le> c \<and> c \<le> 102 then St 267 else
       St 0) else
      St 267)"

definition ur_case_267 :: "int \<Rightarrow> ur_action goto" where
  "ur_case_267 c =
     (if c = 58 then St 270 else
      if c < 65 then (if 48 \<le> c \<and> c \<le> 57 then St 268 else
       St 0) else
      if c > 70 then (if 97 \<le> c \<and> c \<le> 102 then St 268 else
       St 0) else
      St 268)"

definition ur_case_268 :: "int \<Rightarrow> ur_action goto" where
  "ur_case_268 c =
     (if c = 58 then St 270 else
      if c < 65 then (if 48 \<le> c \<and> c \<le> 57 then St 269 else
       St 0) else
      if c > 70 then (if 97 \<le> c \<and> c \<le> 102 then St 269 else
       St 0) else
      St 269)"

definition ur_case_269 :: "int \<Rightarrow> ur_action goto" where
  "ur_case_269 c =
     (if c = 58 then St 270 else
      St 0)"

definition ur_case_270 :: "int \<Rightarrow> ur_action goto" where
  "ur_case_270 c =
     (if c = 58 then St 358 else
      if c < 65 then (if 48 \<le> c \<and> c \<le> 57 then St 271 else
       St 0) else
      if c > 70 then (if 97 \<le> c \<and> c \<le> 102 then St 271 else
       St 0) else
      St 271)"

definition ur_case_271 :: "int \<Rightarrow> ur_action goto" where
  "ur_case_271 c =
     (if c = 58 then St 275 else
      if c < 65 then (if 48 \<le> c \<and> c \<le> 57 then St 272 else
       St 0) else
      if c > 70 then (if 97 \<le> c \<and> c \<le> 102 then St 272 else
       St 0) else
      St 272)"

definition ur_case_272 :: "int \<Rightarrow> ur_action goto" where
  "ur_case_272 c =
     (if c = 58 then St 275 else
      if c < 65 then (if 48 \<le> c \<and> c \<le> 57 then St 273 else
       St 0) else
      if c > 70 then (if 97 \<le> c \<and> c \<le> 102 then St 273 else
       St 0) else
      St 273)"

definition ur_case_273 :: "int \<Rightarrow> ur_action goto" where
  "ur_case_273 c =
     (if c = 58 then St 275 else
      if c < 65 then (if 48 \<le> c \<and> c \<le> 57 then St 274 else
       St 0) else
      if c > 70 then (if 97 \<le> c \<and> c \<le> 102 then St 274 else
       St 0) else
      St 274)"

definition ur_case_274 :: "int \<Rightarrow> ur_action goto" where
  "ur_case_274 c =
     (if c = 58 then St 275 else
      St 0)"

definition ur_case_275 :: "int \<Rightarrow> ur_action goto" where
  "ur_case_275 c =
     (if c = 58 then St 353 else
      if c < 65 then (if 48 \<le> c \<and> c \<le> 57 then St 276 else
       St 0) else
      if c > 70 then (if 97 \<le> c \<and> c \<le> 102 then St 276 else
       St 0) else
      St 276)"

definition ur_case_276 :: "int \<Rightarrow> ur_action goto" where
  "ur_case_276 c =
     (if c = 58 then St 280 else
      if c < 65 then (if 48 \<le> c \<and> c \<le> 57 then St 277 else
       St 0) else
      if c > 70 then (if 97 \<le> c \<and> c \<le> 102 then St 277 else
       St 0) else
      St 277)"

definition ur_case_277 :: "int \<Rightarrow> ur_action goto" where
  "ur_case_277 c =
     (if c = 58 then St 280 else
      if c < 65 then (if 48 \<le> c \<and> c \<le> 57 then St 278 else
       St 0) else
      if c > 70 then (if 97 \<le> c \<and> c \<le> 102 then St 278 else
       St 0) else
      St 278)"

definition ur_case_278 :: "int \<Rightarrow> ur_action goto" where
  "ur_case_278 c =
     (if c = 58 then St 280 else
      if c < 65 then (if 48 \<le> c \<and> c \<le> 57 then St 279 else
       St 0) else
      if c > 70 then (if 97 \<le> c \<and> c \<le> 102 then St 279 else
       St 0) else
      St 279)"

definition ur_case_279 :: "int \<Rightarrow> ur_action goto" where
  "ur_case_279 c =
     (if c = 58 then St 280 else
      St 0)"

definition ur_case_280 :: "int \<Rightarrow> ur_action goto" where
  "ur_case_280 c =
     (if c = 58 then St 348 else
      if c < 65 then (if 48 \<le> c \<and> c \<le> 57 then St 281 else
       St 0) else
      if c > 70 then (if 97 \<le> c \<and> c \<le> 102 then St 281 else
       St 0) else
      St 281)"

definition ur_case_281 :: "int \<Rightarrow> ur_action goto" where
  "ur_case_281 c =
     (if c = 58 then St 285 else
      if c < 65 then (if 48 \<le> c \<and> c \<le> 57 then St 282 else
       St 0) else
      if c > 70 then (if 97 \<le> c \<and> c \<le> 102 then St 282 else
       St 0) else
      St 282)"

definition ur_case_282 :: "int \<Rightarrow> ur_action goto" where
  "ur_case_282 c =
     (if c = 58 then St 285 else
      if c < 65 then (if 48 \<le> c \<and> c \<le> 57 then St 283 else
       St 0) else
      if c > 70 then (if 97 \<le> c \<and> c \<le> 102 then St 283 else
       St 0) else
      St 283)"

definition ur_case_283 :: "int \<Rightarrow> ur_action goto" where
  "ur_case_283 c =
     (if c = 58 then St 285 else
      if c < 65 then (if 48 \<le> c \<and> c \<le> 57 then St 284 else
       St 0) else
      if c > 70 then (if 97 \<le> c \<and> c \<le> 102 then St 284 else
       St 0) else
      St 284)"

definition ur_case_284 :: "int \<Rightarrow> ur_action goto" where
  "ur_case_284 c =
     (if c = 58 then St 285 else
      St 0)"

definition ur_case_285 :: "int \<Rightarrow> ur_action goto" where
  "ur_case_285 c =
     (if c = 58 then St 335 else
      if c < 65 then (if 48 \<le> c \<and> c \<le> 57 then St 286 else
       St 0) else
      if c > 70 then (if 97 \<le> c \<and> c \<le> 102 then St 286 else
       St 0) else
      St 286)"

definition ur_case_286 :: "int \<Rightarrow> ur_action goto" where
  "ur_case_286 c =
     (if c = 58 then St 290 else
      if c < 65 then (if 48 \<le> c \<and> c \<le> 57 then St 287 else
       St 0) else
      if c > 70 then (if 97 \<le> c \<and> c \<le> 102 then St 287 else
       St 0) else
      St 287)"

definition ur_case_287 :: "int \<Rightarrow> ur_action goto" where
  "ur_case_287 c =
     (if c = 58 then St 290 else
      if c < 65 then (if 48 \<le> c \<and> c \<le> 57 then St 288 else
       St 0) else
      if c > 70 then (if 97 \<le> c \<and> c \<le> 102 then St 288 else
       St 0) else
      St 288)"

definition ur_case_288 :: "int \<Rightarrow> ur_action goto" where
  "ur_case_288 c =
     (if c = 58 then St 290 else
      if c < 65 then (if 48 \<le> c \<and> c \<le> 57 then St 289 else
       St 0) else
      if c > 70 then (if 97 \<le> c \<and> c \<le> 102 then St 289 else
       St 0) else
      St 289)"

definition ur_case_289 :: "int \<Rightarrow> ur_action goto" where
  "ur_case_289 c =
     (if c = 58 then St 290 else
      St 0)"

definition ur_case_290 :: "int \<Rightarrow> ur_action goto" where
  "ur_case_290 c =
     (if c = 2 then St 291 else if c = 48 then St 318 else if c = 49 then St 326 else if c = 50 then St 329 else
      if c = 58 then St 333 else
      if c < 65 then (if 51 \<le> c \<and> c \<le> 57 then St 332 else
       St 0) else
      if c > 70 then (if 97 \<le> c \<and> c \<le> 102 then St 334 else
       St 0) else
      St 334)"

definition ur_case_291 :: "int \<Rightarrow> ur_action goto" where
  "ur_case_291 c =
     (if 48 \<le> c \<and> c \<le> 52 then St 292 else
      St 0)"

definition ur_case_292 :: "int \<Rightarrow> ur_action goto" where
  "ur_case_292 c =
     (if 48 \<le> c \<and> c \<le> 57 then St 293 else
      St 0)"

definition ur_case_293 :: "int \<Rightarrow> ur_action goto" where
  "ur_case_293 c =
     (if c = 46 then St 294 else
      St 0)"

definition ur_case_294 :: "int \<Rightarrow> ur_action goto" where
  "ur_case_294 c =
     (if c = 2 then St 295 else if c = 48 then St 297 else if c = 49 then St 314 else if c = 50 then St 316 else

      if 51 \<le> c \<and> c \<le> 57 then St 315 else
      St 0)"

definition ur_case_295 :: "int \<Rightarrow> ur_action goto" where
  "ur_case_295 c =
     (if 48 \<le> c \<and> c \<le> 52 then St 296 else
      St 0)"

definition ur_case_296 :: "int \<Rightarrow> ur_action goto" where
  "ur_case_296 c =
     (if 48 \<le> c \<and> c \<le> 57 then St 297 else
      St 0)"

definition ur_case_297 :: "int \<Rightarrow> ur_action goto" where
  "ur_case_297 c =
     (if c = 46 then St 298 else
      St 0)"

definition ur_case_298 :: "int \<Rightarrow> ur_action goto" where
  "ur_case_298 c =
     (if c = 2 then St 299 else if c = 48 then St 301 else if c = 49 then St 310 else if c = 50 then St 312 else

      if 51 \<le> c \<and> c \<le> 57 then St 311 else
      St 0)"

definition ur_case_299 :: "int \<Rightarrow> ur_action goto" where
  "ur_case_299 c =
     (if 48 \<le> c \<and> c \<le> 52 then St 300 else
      St 0)"

definition ur_case_300 :: "int \<Rightarrow> ur_action goto" where
  "ur_case_300 c =
     (if 48 \<le> c \<and> c \<le> 57 then St 301 else
      St 0)"

definition ur_case_301 :: "int \<Rightarrow> ur_action goto" where
  "ur_case_301 c =
     (if c = 46 then St 302 else
      St 0)"

definition ur_case_302 :: "int \<Rightarrow> ur_action goto" where
  "ur_case_302 c =
     (if c = 2 then St 303 else if c = 48 then St 305 else if c = 49 then St 306 else if c = 50 then St 308 else

      if 51 \<le> c \<and> c \<le> 57 then St 307 else
      St 0)"

definition ur_case_303 :: "int \<Rightarrow> ur_action goto" where
  "ur_case_303 c =
     (if 48 \<le> c \<and> c \<le> 52 then St 304 else
      St 0)"

definition ur_case_304 :: "int \<Rightarrow> ur_action goto" where
  "ur_case_304 c =
     (if 48 \<le> c \<and> c \<le> 57 then St 305 else
      St 0)"

definition ur_case_305 :: "int \<Rightarrow> ur_action goto" where
  "ur_case_305 c =
     (if c = 93 then St 512 else
      St 0)"

definition ur_case_306 :: "int \<Rightarrow> ur_action goto" where
  "ur_case_306 c =
     (if c = 93 then St 512 else
      if 48 \<le> c \<and> c \<le> 57 then St 307 else
      St 0)"

definition ur_case_307 :: "int \<Rightarrow> ur_action goto" where
  "ur_case_307 c =
     (if c = 93 then St 512 else
      if 48 \<le> c \<and> c \<le> 57 then St 305 else
      St 0)"

definition ur_case_308 :: "int \<Rightarrow> ur_action goto" where
  "ur_case_308 c =
     (if c = 53 then St 309 else if c = 93 then St 512 else
      if 48 \<le> c \<and> c \<le> 57 then St 305 else
      St 0)"

definition ur_case_309 :: "int \<Rightarrow> ur_action goto" where
  "ur_case_309 c =
     (if c = 93 then St 512 else
      if 48 \<le> c \<and> c \<le> 53 then St 305 else
      St 0)"

definition ur_case_310 :: "int \<Rightarrow> ur_action goto" where
  "ur_case_310 c =
     (if c = 46 then St 302 else
      if 48 \<le> c \<and> c \<le> 57 then St 311 else
      St 0)"

definition ur_case_311 :: "int \<Rightarrow> ur_action goto" where
  "ur_case_311 c =
     (if c = 46 then St 302 else
      if 48 \<le> c \<and> c \<le> 57 then St 301 else
      St 0)"

definition ur_case_312 :: "int \<Rightarrow> ur_action goto" where
  "ur_case_312 c =
     (if c = 46 then St 302 else if c = 53 then St 313 else
      if 48 \<le> c \<and> c \<le> 57 then St 301 else
      St 0)"

definition ur_case_313 :: "int \<Rightarrow> ur_action goto" where
  "ur_case_313 c =
     (if c = 46 then St 302 else
      if 48 \<le> c \<and> c \<le> 53 then St 301 else
      St 0)"

definition ur_case_314 :: "int \<Rightarrow> ur_action goto" where
  "ur_case_314 c =
     (if c = 46 then St 298 else
      if 48 \<le> c \<and> c \<le> 57 then St 315 else
      St 0)"

definition ur_case_315 :: "int \<Rightarrow> ur_action goto" where
  "ur_case_315 c =
     (if c = 46 then St 298 else
      if 48 \<le> c \<and> c \<le> 57 then St 297 else
      St 0)"

definition ur_case_316 :: "int \<Rightarrow> ur_action goto" where
  "ur_case_316 c =
     (if c = 46 then St 298 else if c = 53 then St 317 else
      if 48 \<le> c \<and> c \<le> 57 then St 297 else
      St 0)"

definition ur_case_317 :: "int \<Rightarrow> ur_action goto" where
  "ur_case_317 c =
     (if c = 46 then St 298 else
      if 48 \<le> c \<and> c \<le> 53 then St 297 else
      St 0)"

definition ur_case_318 :: "int \<Rightarrow> ur_action goto" where
  "ur_case_318 c =
     (if c = 46 then St 294 else if c = 58 then St 322 else
      if c < 65 then (if 48 \<le> c \<and> c \<le> 57 then St 319 else
       St 0) else
      if c > 70 then (if 97 \<le> c \<and> c \<le> 102 then St 319 else
       St 0) else
      St 319)"

definition ur_case_319 :: "int \<Rightarrow> ur_action goto" where
  "ur_case_319 c =
     (if c = 58 then St 322 else
      if c < 65 then (if 48 \<le> c \<and> c \<le> 57 then St 320 else
       St 0) else
      if c > 70 then (if 97 \<le> c \<and> c \<le> 102 then St 320 else
       St 0) else
      St 320)"

definition ur_case_320 :: "int \<Rightarrow> ur_action goto" where
  "ur_case_320 c =
     (if c = 58 then St 322 else
      if c < 65 then (if 48 \<le> c \<and> c \<le> 57 then St 321 else
       St 0) else
      if c > 70 then (if 97 \<le> c \<and> c \<le> 102 then St 321 else
       St 0) else
      St 321)"

definition ur_case_321 :: "int \<Rightarrow> ur_action goto" where
  "ur_case_321 c =
     (if c = 58 then St 322 else
      St 0)"

definition ur_case_322 :: "int \<Rightarrow> ur_action goto" where
  "ur_case_322 c =
     (if c = 58 then St 305 else
      if c < 65 then (if 48 \<le> c \<and> c \<le> 57 then St 323 else
       St 0) else
      if c > 70 then (if 97 \<le> c \<and> c \<le> 102 then St 323 else
       St 0) else
      St 323)"

definition ur_case_323 :: "int \<Rightarrow> ur_action goto" where
  "ur_case_323 c =
     (if c = 93 then St 512 else
      if c < 65 then (if 48 \<le> c \<and> c \<le> 57 then St 324 else
       St 0) else
      if c > 70 then (if 97 \<le> c \<and> c \<le> 102 then St 324 else
       St 0) else
      St 324)"

definition ur_case_324 :: "int \<Rightarrow> ur_action goto" where
  "ur_case_324 c =
     (if c = 93 then St 512 else
      if c < 65 then (if 48 \<le> c \<and> c \<le> 57 then St 325 else
       St 0) else
      if c > 70 then (if 97 \<le> c \<and> c \<le> 102 then St 325 else
       St 0) else
      St 325)"

definition ur_case_325 :: "int \<Rightarrow> ur_action goto" where
  "ur_case_325 c =
     (if c = 93 then St 512 else
      if c < 65 then (if 48 \<le> c \<and> c \<le> 57 then St 305 else
       St 0) else
      if c > 70 then (if 97 \<le> c \<and> c \<le> 102 then St 305 else
       St 0) else
      St 305)"

definition ur_case_326 :: "int \<Rightarrow> ur_action goto" where
  "ur_case_326 c =
     (if c = 46 then St 294 else if c = 58 then St 322 else
      if c < 65 then (if 48 \<le> c \<and> c \<le> 57 then St 327 else
       St 0) else
      if c > 70 then (if 97 \<le> c \<and> c \<le> 102 then St 319 else
       St 0) else
      St 319)"

definition ur_case_327 :: "int \<Rightarrow> ur_action goto" where
  "ur_case_327 c =
     (if c = 46 then St 294 else if c = 58 then St 322 else
      if c < 65 then (if 48 \<le> c \<and> c \<le> 57 then St 328 else
       St 0) else
      if c > 70 then (if 97 \<le> c \<and> c \<le> 102 then St 320 else
       St 0) else
      St 320)"

definition ur_case_328 :: "int \<Rightarrow> ur_action goto" where
  "ur_case_328 c =
     (if c = 46 then St 294 else if c = 58 then St 322 else
      if c < 65 then (if 48 \<le> c \<and> c \<le> 57 then St 321 else
       St 0) else
      if c > 70 then (if 97 \<le> c \<and> c \<le> 102 then St 321 else
       St 0) else
      St 321)"

definition ur_case_329 :: "int \<Rightarrow> ur_action goto" where
  "ur_case_329 c =
     (if c = 46 then St 294 else if c = 53 then St 331 else if c = 58 then St 322 else
      if c < 65 then (if 48 \<le> c \<and> c \<le> 57 then St 330 else
       St 0) else
      if c > 70 then (if 97 \<le> c \<and> c \<le> 102 then St 319 else
       St 0) else
      St 319)"

definition ur_case_330 :: "int \<Rightarrow> ur_action goto" where
  "ur_case_330 c =
     (if c = 46 then St 294 else if c = 58 then St 322 else
      if c < 65 then (if 48 \<le> c \<and> c \<le> 57 then St 320 else
       St 0) else
      if c > 70 then (if 97 \<le> c \<and> c \<le> 102 then St 320 else
       St 0) else
      St 320)"

definition ur_case_331 :: "int \<Rightarrow> ur_action goto" where
  "ur_case_331 c =
     (if c = 46 then St 294 else if c = 58 then St 322 else
      if c < 54 then (if 48 \<le> c \<and> c \<le> 53 then St 328 else
       St 0) else
      if c > 57 then (if c > 70 then (if 97 \<le> c \<and> c \<le> 102 then St 320 else
        St 0) else
       if c \<ge> 65 then St 320 else
       St 0) else
      St 320)"

definition ur_case_332 :: "int \<Rightarrow> ur_action goto" where
  "ur_case_332 c =
     (if c = 46 then St 294 else if c = 58 then St 322 else
      if c < 65 then (if 48 \<le> c \<and> c \<le> 57 then St 330 else
       St 0) else
      if c > 70 then (if 97 \<le> c \<and> c \<le> 102 then St 319 else
       St 0) else
      St 319)"

definition ur_case_333 :: "int \<Rightarrow> ur_action goto" where
  "ur_case_333 c =
     (if c < 65 then (if 48 \<le> c \<and> c \<le> 57 then St 323 else
       St 0) else
      if c > 70 then (if 97 \<le> c \<and> c \<le> 102 then St 323 else
       St 0) else
      St 323)"

definition ur_case_334 :: "int \<Rightarrow> ur_action goto" where
  "ur_case_334 c =
     (if c = 58 then St 322 else
      if c < 65 then (if 48 \<le> c \<and> c \<le> 57 then St 319 else
       St 0) else
      if c > 70 then (if 97 \<le> c \<and> c \<le> 102 then St 319 else
       St 0) else
      St 319)"

definition ur_case_335 :: "int \<Rightarrow> ur_action goto" where
  "ur_case_335 c =
     (if c = 2 then St 291 else if c = 48 then St 336 else if c = 49 then St 340 else if c = 50 then St 343 else

      if c < 65 then (if 51 \<le> c \<and> c \<le> 57 then St 346 else
       St 0) else
      if c > 70 then (if 97 \<le> c \<and> c \<le> 102 then St 347 else
       St 0) else
      St 347)"

definition ur_case_336 :: "int \<Rightarrow> ur_action goto" where
  "ur_case_336 c =
     (if c = 46 then St 294 else if c = 58 then St 333 else
      if c < 65 then (if 48 \<le> c \<and> c \<le> 57 then St 337 else
       St 0) else
      if c > 70 then (if 97 \<le> c \<and> c \<le> 102 then St 337 else
       St 0) else
      St 337)"

definition ur_case_337 :: "int \<Rightarrow> ur_action goto" where
  "ur_case_337 c =
     (if c = 58 then St 333 else
      if c < 65 then (if 48 \<le> c \<and> c \<le> 57 then St 338 else
       St 0) else
      if c > 70 then (if 97 \<le> c \<and> c \<le> 102 then St 338 else
       St 0) else
      St 338)"

definition ur_case_338 :: "int \<Rightarrow> ur_action goto" where
  "ur_case_338 c =
     (if c = 58 then St 333 else
      if c < 65 then (if 48 \<le> c \<and> c \<le> 57 then St 339 else
       St 0) else
      if c > 70 then (if 97 \<le> c \<and> c \<le> 102 then St 339 else
       St 0) else
      St 339)"

definition ur_case_339 :: "int \<Rightarrow> ur_action goto" where
  "ur_case_339 c =
     (if c = 58 then St 333 else
      St 0)"

definition ur_case_340 :: "int \<Rightarrow> ur_action goto" where
  "ur_case_340 c =
     (if c = 46 then St 294 else if c = 58 then St 333 else
      if c < 65 then (if 48 \<le> c \<and> c \<le> 57 then St 341 else
       St 0) else
      if c > 70 then (if 97 \<le> c \<and> c \<le> 102 then St 337 else
       St 0) else
      St 337)"

definition ur_case_341 :: "int \<Rightarrow> ur_action goto" where
  "ur_case_341 c =
     (if c = 46 then St 294 else if c = 58 then St 333 else
      if c < 65 then (if 48 \<le> c \<and> c \<le> 57 then St 342 else
       St 0) else
      if c > 70 then (if 97 \<le> c \<and> c \<le> 102 then St 338 else
       St 0) else
      St 338)"

definition ur_case_342 :: "int \<Rightarrow> ur_action goto" where
  "ur_case_342 c =
     (if c = 46 then St 294 else if c = 58 then St 333 else
      if c < 65 then (if 48 \<le> c \<and> c \<le> 57 then St 339 else
       St 0) else
      if c > 70 then (if 97 \<le> c \<and> c \<le> 102 then St 339 else
       St 0) else
      St 339)"

definition ur_case_343 :: "int \<Rightarrow> ur_action goto" where
  "ur_case_343 c =
     (if c = 46 then St 294 else if c = 53 then St 345 else if c = 58 then St 333 else
      if c < 65 then (if 48 \<le> c \<and> c \<le> 57 then St 344 else
       St 0) else
      if c > 70 then (if 97 \<le> c \<and> c \<le> 102 then St 337 else
       St 0) else
      St 337)"

definition ur_case_344 :: "int \<Rightarrow> ur_action goto" where
  "ur_case_344 c =
     (if c = 46 then St 294 else if c = 58 then St 333 else
      if c < 65 then (if 48 \<le> c \<and> c \<le> 57 then St 338 else
       St 0) else
      if c > 70 then (if 97 \<le> c \<and> c \<le> 102 then St 338 else
       St 0) else
      St 338)"

definition ur_case_345 :: "int \<Rightarrow> ur_action goto" where
  "ur_case_345 c =
     (if c = 46 then St 294 else if c = 58 then St 333 else
      if c < 54 then (if 48 \<le> c \<and> c \<le> 53 then St 342 else
       St 0) else
      if c > 57 then (if c > 70 then (if 97 \<le> c \<and> c \<le> 102 then St 338 else
        St 0) else
       if c \<ge> 65 then St 338 else
       St 0) else
      St 338)"

definition ur_case_346 :: "int \<Rightarrow> ur_action goto" where
  "ur_case_346 c =
     (if c = 46 then St 294 else if c = 58 then St 333 else
      if c < 65 then (if 48 \<le> c \<and> c \<le> 57 then St 344 else
       St 0) else
      if c > 70 then (if 97 \<le> c \<and> c \<le> 102 then St 337 else
       St 0) else
      St 337)"

definition ur_case_347 :: "int \<Rightarrow> ur_action goto" where
  "ur_case_347 c =
     (if c = 58 then St 333 else
      if c < 65 then (if 48 \<le> c \<and> c \<le> 57 then St 337 else
       St 0) else
      if c > 70 then (if 97 \<le> c \<and> c \<le> 102 then St 337 else
       St 0) else
      St 337)"

definition ur_case_348 :: "int \<Rightarrow> ur_action goto" where
  "ur_case_348 c =
     (if c < 65 then (if 48 \<le> c \<and> c \<le> 57 then St 349 else
       St 0) else
      if c > 70 then (if 97 \<le> c \<and> c \<le> 102 then St 349 else
       St 0) else
      St 349)"

definition ur_case_349 :: "int \<Rightarrow> ur_action goto" where
  "ur_case_349 c =
     (if c = 58 then St 335 else
      if c < 65 then (if 48 \<le> c \<and> c \<le> 57 then St 350 else
       St 0) else
      if c > 70 then (if 97 \<le> c \<and> c \<le> 102 then St 350 else
       St 0) else
      St 350)"

definition ur_case_350 :: "int \<Rightarrow> ur_action goto" where
  "ur_case_350 c =
     (if c = 58 then St 335 else
      if c < 65 then (if 48 \<le> c \<and> c \<le> 57 then St 351 else
       St 0) else
      if c > 70 then (if 97 \<le> c \<and> c \<le> 102 then St 351 else
       St 0) else
      St 351)"

definition ur_case_351 :: "int \<Rightarrow> ur_action goto" where
  "ur_case_351 c =
     (if c = 58 then St 335 else
      if c < 65 then (if 48 \<le> c \<and> c \<le> 57 then St 352 else
       St 0) else
      if c > 70 then (if 97 \<le> c \<and> c \<le> 102 then St 352 else
       St 0) else
      St 352)"

definition ur_case_352 :: "int \<Rightarrow> ur_action goto" where
  "ur_case_352 c =
     (if c = 58 then St 335 else
      St 0)"

definition ur_case_353 :: "int \<Rightarrow> ur_action goto" where
  "ur_case_353 c =
     (if c < 65 then (if 48 \<le> c \<and> c \<le> 57 then St 354 else
       St 0) else
      if c > 70 then (if 97 \<le> c \<and> c \<le> 102 then St 354 else
       St 0) else
      St 354)"

definition ur_case_354 :: "int \<Rightarrow> ur_action goto" where
  "ur_case_354 c =
     (if c = 58 then St 348 else
      if c < 65 then (if 48 \<le> c \<and> c \<le> 57 then St 355 else
       St 0) else
      if c > 70 then (if 97 \<le> c \<and> c \<le> 102 then St 355 else
       St 0) else
      St 355)"

definition ur_case_355 :: "int \<Rightarrow> ur_action goto" where
  "ur_case_355 c =
     (if c = 58 then St 348 else
      if c < 65 then (if 48 \<le> c \<and> c \<le> 57 then St 356 else
       St 0) else
      if c > 70 then (if 97 \<le> c \<and> c \<le> 102 then St 356 else
       St 0) else
      St 356)"

definition ur_case_356 :: "int \<Rightarrow> ur_action goto" where
  "ur_case_356 c =
     (if c = 58 then St 348 else
      if c < 65 then (if 48 \<le> c \<and> c \<le> 57 then St 357 else
       St 0) else
      if c > 70 then (if 97 \<le> c \<and> c \<le> 102 then St 357 else
       St 0) else
      St 357)"

definition ur_case_357 :: "int \<Rightarrow> ur_action goto" where
  "ur_case_357 c =
     (if c = 58 then St 348 else
      St 0)"

definition ur_case_358 :: "int \<Rightarrow> ur_action goto" where
  "ur_case_358 c =
     (if c < 65 then (if 48 \<le> c \<and> c \<le> 57 then St 359 else
       St 0) else
      if c > 70 then (if 97 \<le> c \<and> c \<le> 102 then St 359 else
       St 0) else
      St 359)"

definition ur_case_359 :: "int \<Rightarrow> ur_action goto" where
  "ur_case_359 c =
     (if c = 58 then St 353 else
      if c < 65 then (if 48 \<le> c \<and> c \<le> 57 then St 360 else
       St 0) else
      if c > 70 then (if 97 \<le> c \<and> c \<le> 102 then St 360 else
       St 0) else
      St 360)"

definition ur_case_360 :: "int \<Rightarrow> ur_action goto" where
  "ur_case_360 c =
     (if c = 58 then St 353 else
      if c < 65 then (if 48 \<le> c \<and> c \<le> 57 then St 361 else
       St 0) else
      if c > 70 then (if 97 \<le> c \<and> c \<le> 102 then St 361 else
       St 0) else
      St 361)"

definition ur_case_361 :: "int \<Rightarrow> ur_action goto" where
  "ur_case_361 c =
     (if c = 58 then St 353 else
      if c < 65 then (if 48 \<le> c \<and> c \<le> 57 then St 362 else
       St 0) else
      if c > 70 then (if 97 \<le> c \<and> c \<le> 102 then St 362 else
       St 0) else
      St 362)"

definition ur_case_362 :: "int \<Rightarrow> ur_action goto" where
  "ur_case_362 c =
     (if c = 58 then St 353 else
      St 0)"

definition ur_case_363 :: "int \<Rightarrow> ur_action goto" where
  "ur_case_363 c =
     (if c < 65 then (if 48 \<le> c \<and> c \<le> 57 then St 364 else
       St 0) else
      if c > 70 then (if 97 \<le> c \<and> c \<le> 102 then St 364 else
       St 0) else
      St 364)"

definition ur_case_364 :: "int \<Rightarrow> ur_action goto" where
  "ur_case_364 c =
     (if c = 58 then St 358 else
      if c < 65 then (if 48 \<le> c \<and> c \<le> 57 then St 365 else
       St 0) else
      if c > 70 then (if 97 \<le> c \<and> c \<le> 102 then St 365 else
       St 0) else
      St 365)"

definition ur_case_365 :: "int \<Rightarrow> ur_action goto" where
  "ur_case_365 c =
     (if c = 58 then St 358 else
      if c < 65 then (if 48 \<le> c \<and> c \<le> 57 then St 366 else
       St 0) else
      if c > 70 then (if 97 \<le> c \<and> c \<le> 102 then St 366 else
       St 0) else
      St 366)"

definition ur_case_366 :: "int \<Rightarrow> ur_action goto" where
  "ur_case_366 c =
     (if c = 58 then St 358 else
      if c < 65 then (if 48 \<le> c \<and> c \<le> 57 then St 367 else
       St 0) else
      if c > 70 then (if 97 \<le> c \<and> c \<le> 102 then St 367 else
       St 0) else
      St 367)"

definition ur_case_367 :: "int \<Rightarrow> ur_action goto" where
  "ur_case_367 c =
     (if c = 58 then St 358 else
      St 0)"

definition ur_case_368 :: "int \<Rightarrow> ur_action goto" where
  "ur_case_368 c =
     (if c = 58 then St 369 else
      St 0)"

definition ur_case_369 :: "int \<Rightarrow> ur_action goto" where
  "ur_case_369 c =
     (if c = 2 then St 291 else if c = 48 then St 370 else if c = 49 then St 439 else if c = 50 then St 442 else
      if c = 93 then St 512 else
      if c < 65 then (if 51 \<le> c \<and> c \<le> 57 then St 445 else
       St 0) else
      if c > 70 then (if 97 \<le> c \<and> c \<le> 102 then St 446 else
       St 0) else
      St 446)"

definition ur_case_370 :: "int \<Rightarrow> ur_action goto" where
  "ur_case_370 c =
     (if c = 46 then St 294 else if c = 58 then St 374 else if c = 93 then St 512 else
      if c < 65 then (if 48 \<le> c \<and> c \<le> 57 then St 371 else
       St 0) else
      if c > 70 then (if 97 \<le> c \<and> c \<le> 102 then St 371 else
       St 0) else
      St 371)"

definition ur_case_371 :: "int \<Rightarrow> ur_action goto" where
  "ur_case_371 c =
     (if c = 58 then St 374 else if c = 93 then St 512 else
      if c < 65 then (if 48 \<le> c \<and> c \<le> 57 then St 372 else
       St 0) else
      if c > 70 then (if 97 \<le> c \<and> c \<le> 102 then St 372 else
       St 0) else
      St 372)"

definition ur_case_372 :: "int \<Rightarrow> ur_action goto" where
  "ur_case_372 c =
     (if c = 58 then St 374 else if c = 93 then St 512 else
      if c < 65 then (if 48 \<le> c \<and> c \<le> 57 then St 373 else
       St 0) else
      if c > 70 then (if 97 \<le> c \<and> c \<le> 102 then St 373 else
       St 0) else
      St 373)"

definition ur_case_373 :: "int \<Rightarrow> ur_action goto" where
  "ur_case_373 c =
     (if c = 58 then St 374 else if c = 93 then St 512 else
      St 0)"

definition ur_case_374 :: "int \<Rightarrow> ur_action goto" where
  "ur_case_374 c =
     (if c = 2 then St 291 else if c = 48 then St 375 else if c = 49 then St 431 else if c = 50 then St 434 else

      if c < 65 then (if 51 \<le> c \<and> c \<le> 57 then St 437 else
       St 0) else
      if c > 70 then (if 97 \<le> c \<and> c \<le> 102 then St 438 else
       St 0) else
      St 438)"

definition ur_case_375 :: "int \<Rightarrow> ur_action goto" where
  "ur_case_375 c =
     (if c = 46 then St 294 else if c = 58 then St 379 else if c = 93 then St 512 else
      if c < 65 then (if 48 \<le> c \<and> c \<le> 57 then St 376 else
       St 0) else
      if c > 70 then (if 97 \<le> c \<and> c \<le> 102 then St 376 else
       St 0) else
      St 376)"

definition ur_case_376 :: "int \<Rightarrow> ur_action goto" where
  "ur_case_376 c =
     (if c = 58 then St 379 else if c = 93 then St 512 else
      if c < 65 then (if 48 \<le> c \<and> c \<le> 57 then St 377 else
       St 0) else
      if c > 70 then (if 97 \<le> c \<and> c \<le> 102 then St 377 else
       St 0) else
      St 377)"

definition ur_case_377 :: "int \<Rightarrow> ur_action goto" where
  "ur_case_377 c =
     (if c = 58 then St 379 else if c = 93 then St 512 else
      if c < 65 then (if 48 \<le> c \<and> c \<le> 57 then St 378 else
       St 0) else
      if c > 70 then (if 97 \<le> c \<and> c \<le> 102 then St 378 else
       St 0) else
      St 378)"

definition ur_case_378 :: "int \<Rightarrow> ur_action goto" where
  "ur_case_378 c =
     (if c = 58 then St 379 else if c = 93 then St 512 else
      St 0)"

definition ur_case_379 :: "int \<Rightarrow> ur_action goto" where
  "ur_case_379 c =
     (if c = 2 then St 291 else if c = 48 then St 380 else if c = 49 then St 423 else if c = 50 then St 426 else

      if c < 65 then (if 51 \<le> c \<and> c \<le> 57 then St 429 else
       St 0) else
      if c > 70 then (if 97 \<le> c \<and> c \<le> 102 then St 430 else
       St 0) else
      St 430)"

definition ur_case_380 :: "int \<Rightarrow> ur_action goto" where
  "ur_case_380 c =
     (if c = 46 then St 294 else if c = 58 then St 384 else if c = 93 then St 512 else
      if c < 65 then (if 48 \<le> c \<and> c \<le> 57 then St 381 else
       St 0) else
      if c > 70 then (if 97 \<le> c \<and> c \<le> 102 then St 381 else
       St 0) else
      St 381)"

definition ur_case_381 :: "int \<Rightarrow> ur_action goto" where
  "ur_case_381 c =
     (if c = 58 then St 384 else if c = 93 then St 512 else
      if c < 65 then (if 48 \<le> c \<and> c \<le> 57 then St 382 else
       St 0) else
      if c > 70 then (if 97 \<le> c \<and> c \<le> 102 then St 382 else
       St 0) else
      St 382)"

definition ur_case_382 :: "int \<Rightarrow> ur_action goto" where
  "ur_case_382 c =
     (if c = 58 then St 384 else if c = 93 then St 512 else
      if c < 65 then (if 48 \<le> c \<and> c \<le> 57 then St 383 else
       St 0) else
      if c > 70 then (if 97 \<le> c \<and> c \<le> 102 then St 383 else
       St 0) else
      St 383)"

definition ur_case_383 :: "int \<Rightarrow> ur_action goto" where
  "ur_case_383 c =
     (if c = 58 then St 384 else if c = 93 then St 512 else
      St 0)"

definition ur_case_384 :: "int \<Rightarrow> ur_action goto" where
  "ur_case_384 c =
     (if c = 2 then St 291 else if c = 48 then St 385 else if c = 49 then St 415 else if c = 50 then St 418 else

      if c < 65 then (if 51 \<le> c \<and> c \<le> 57 then St 421 else
       St 0) else
      if c > 70 then (if 97 \<le> c \<and> c \<le> 102 then St 422 else
       St 0) else
      St 422)"

definition ur_case_385 :: "int \<Rightarrow> ur_action goto" where
  "ur_case_385 c =
     (if c = 46 then St 294 else if c = 58 then St 389 else if c = 93 then St 512 else
      if c < 65 then (if 48 \<le> c \<and> c \<le> 57 then St 386 else
       St 0) else
      if c > 70 then (if 97 \<le> c \<and> c \<le> 102 then St 386 else
       St 0) else
      St 386)"

definition ur_case_386 :: "int \<Rightarrow> ur_action goto" where
  "ur_case_386 c =
     (if c = 58 then St 389 else if c = 93 then St 512 else
      if c < 65 then (if 48 \<le> c \<and> c \<le> 57 then St 387 else
       St 0) else
      if c > 70 then (if 97 \<le> c \<and> c \<le> 102 then St 387 else
       St 0) else
      St 387)"

definition ur_case_387 :: "int \<Rightarrow> ur_action goto" where
  "ur_case_387 c =
     (if c = 58 then St 389 else if c = 93 then St 512 else
      if c < 65 then (if 48 \<le> c \<and> c \<le> 57 then St 388 else
       St 0) else
      if c > 70 then (if 97 \<le> c \<and> c \<le> 102 then St 388 else
       St 0) else
      St 388)"

definition ur_case_388 :: "int \<Rightarrow> ur_action goto" where
  "ur_case_388 c =
     (if c = 58 then St 389 else if c = 93 then St 512 else
      St 0)"

definition ur_case_389 :: "int \<Rightarrow> ur_action goto" where
  "ur_case_389 c =
     (if c = 2 then St 291 else if c = 48 then St 390 else if c = 49 then St 407 else if c = 50 then St 410 else

      if c < 65 then (if 51 \<le> c \<and> c \<le> 57 then St 413 else
       St 0) else
      if c > 70 then (if 97 \<le> c \<and> c \<le> 102 then St 414 else
       St 0) else
      St 414)"

definition ur_case_390 :: "int \<Rightarrow> ur_action goto" where
  "ur_case_390 c =
     (if c = 46 then St 294 else if c = 58 then St 394 else if c = 93 then St 512 else
      if c < 65 then (if 48 \<le> c \<and> c \<le> 57 then St 391 else
       St 0) else
      if c > 70 then (if 97 \<le> c \<and> c \<le> 102 then St 391 else
       St 0) else
      St 391)"

definition ur_case_391 :: "int \<Rightarrow> ur_action goto" where
  "ur_case_391 c =
     (if c = 58 then St 394 else if c = 93 then St 512 else
      if c < 65 then (if 48 \<le> c \<and> c \<le> 57 then St 392 else
       St 0) else
      if c > 70 then (if 97 \<le> c \<and> c \<le> 102 then St 392 else
       St 0) else
      St 392)"

definition ur_case_392 :: "int \<Rightarrow> ur_action goto" where
  "ur_case_392 c =
     (if c = 58 then St 394 else if c = 93 then St 512 else
      if c < 65 then (if 48 \<le> c \<and> c \<le> 57 then St 393 else
       St 0) else
      if c > 70 then (if 97 \<le> c \<and> c \<le> 102 then St 393 else
       St 0) else
      St 393)"

definition ur_case_393 :: "int \<Rightarrow> ur_action goto" where
  "ur_case_393 c =
     (if c = 58 then St 394 else if c = 93 then St 512 else
      St 0)"

definition ur_case_394 :: "int \<Rightarrow> ur_action goto" where
  "ur_case_394 c =
     (if c = 2 then St 291 else if c = 48 then St 395 else if c = 49 then St 399 else if c = 50 then St 402 else

      if c < 65 then (if 51 \<le> c \<and> c \<le> 57 then St 405 else
       St 0) else
      if c > 70 then (if 97 \<le> c \<and> c \<le> 102 then St 406 else
       St 0) else
      St 406)"

definition ur_case_395 :: "int \<Rightarrow> ur_action goto" where
  "ur_case_395 c =
     (if c = 46 then St 294 else if c = 58 then St 333 else if c = 93 then St 512 else
      if c < 65 then (if 48 \<le> c \<and> c \<le> 57 then St 396 else
       St 0) else
      if c > 70 then (if 97 \<le> c \<and> c \<le> 102 then St 396 else
       St 0) else
      St 396)"

definition ur_case_396 :: "int \<Rightarrow> ur_action goto" where
  "ur_case_396 c =
     (if c = 58 then St 333 else if c = 93 then St 512 else
      if c < 65 then (if 48 \<le> c \<and> c \<le> 57 then St 397 else
       St 0) else
      if c > 70 then (if 97 \<le> c \<and> c \<le> 102 then St 397 else
       St 0) else
      St 397)"

definition ur_case_397 :: "int \<Rightarrow> ur_action goto" where
  "ur_case_397 c =
     (if c = 58 then St 333 else if c = 93 then St 512 else
      if c < 65 then (if 48 \<le> c \<and> c \<le> 57 then St 398 else
       St 0) else
      if c > 70 then (if 97 \<le> c \<and> c \<le> 102 then St 398 else
       St 0) else
      St 398)"

definition ur_case_398 :: "int \<Rightarrow> ur_action goto" where
  "ur_case_398 c =
     (if c = 58 then St 333 else if c = 93 then St 512 else
      St 0)"

definition ur_case_399 :: "int \<Rightarrow> ur_action goto" where
  "ur_case_399 c =
     (if c = 46 then St 294 else if c = 58 then St 333 else if c = 93 then St 512 else
      if c < 65 then (if 48 \<le> c \<and> c \<le> 57 then St 400 else
       St 0) else
      if c > 70 then (if 97 \<le> c \<and> c \<le> 102 then St 396 else
       St 0) else
      St 396)"

definition ur_case_400 :: "int \<Rightarrow> ur_action goto" where
  "ur_case_400 c =
     (if c = 46 then St 294 else if c = 58 then St 333 else if c = 93 then St 512 else
      if c < 65 then (if 48 \<le> c \<and> c \<le> 57 then St 401 else
       St 0) else
      if c > 70 then (if 97 \<le> c \<and> c \<le> 102 then St 397 else
       St 0) else
      St 397)"

definition ur_case_401 :: "int \<Rightarrow> ur_action goto" where
  "ur_case_401 c =
     (if c = 46 then St 294 else if c = 58 then St 333 else if c = 93 then St 512 else
      if c < 65 then (if 48 \<le> c \<and> c \<le> 57 then St 398 else
       St 0) else
      if c > 70 then (if 97 \<le> c \<and> c \<le> 102 then St 398 else
       St 0) else
      St 398)"

definition ur_case_402 :: "int \<Rightarrow> ur_action goto" where
  "ur_case_402 c =
     (if c = 46 then St 294 else if c = 53 then St 404 else if c = 58 then St 333 else if c = 93 then St 512 else

      if c < 65 then (if 48 \<le> c \<and> c \<le> 57 then St 403 else
       St 0) else
      if c > 70 then (if 97 \<le> c \<and> c \<le> 102 then St 396 else
       St 0) else
      St 396)"

definition ur_case_403 :: "int \<Rightarrow> ur_action goto" where
  "ur_case_403 c =
     (if c = 46 then St 294 else if c = 58 then St 333 else if c = 93 then St 512 else
      if c < 65 then (if 48 \<le> c \<and> c \<le> 57 then St 397 else
       St 0) else
      if c > 70 then (if 97 \<le> c \<and> c \<le> 102 then St 397 else
       St 0) else
      St 397)"

definition ur_case_404 :: "int \<Rightarrow> ur_action goto" where
  "ur_case_404 c =
     (if c = 46 then St 294 else if c = 58 then St 333 else if c = 93 then St 512 else
      if c < 54 then (if 48 \<le> c \<and> c \<le> 53 then St 401 else
       St 0) else
      if c > 57 then (if c > 70 then (if 97 \<le> c \<and> c \<le> 102 then St 397 else
        St 0) else
       if c \<ge> 65 then St 397 else
       St 0) else
      St 397)"

definition ur_case_405 :: "int \<Rightarrow> ur_action goto" where
  "ur_case_405 c =
     (if c = 46 then St 294 else if c = 58 then St 333 else if c = 93 then St 512 else
      if c < 65 then (if 48 \<le> c \<and> c \<le> 57 then St 403 else
       St 0) else
      if c > 70 then (if 97 \<le> c \<and> c \<le> 102 then St 396 else
       St 0) else
      St 396)"

definition ur_case_406 :: "int \<Rightarrow> ur_action goto" where
  "ur_case_406 c =
     (if c = 58 then St 333 else if c = 93 then St 512 else
      if c < 65 then (if 48 \<le> c \<and> c \<le> 57 then St 396 else
       St 0) else
      if c > 70 then (if 97 \<le> c \<and> c \<le> 102 then St 396 else
       St 0) else
      St 396)"

definition ur_case_407 :: "int \<Rightarrow> ur_action goto" where
  "ur_case_407 c =
     (if c = 46 then St 294 else if c = 58 then St 394 else if c = 93 then St 512 else
      if c < 65 then (if 48 \<le> c \<and> c \<le> 57 then St 408 else
       St 0) else
      if c > 70 then (if 97 \<le> c \<and> c \<le> 102 then St 391 else
       St 0) else
      St 391)"

definition ur_case_408 :: "int \<Rightarrow> ur_action goto" where
  "ur_case_408 c =
     (if c = 46 then St 294 else if c = 58 then St 394 else if c = 93 then St 512 else
      if c < 65 then (if 48 \<le> c \<and> c \<le> 57 then St 409 else
       St 0) else
      if c > 70 then (if 97 \<le> c \<and> c \<le> 102 then St 392 else
       St 0) else
      St 392)"

definition ur_case_409 :: "int \<Rightarrow> ur_action goto" where
  "ur_case_409 c =
     (if c = 46 then St 294 else if c = 58 then St 394 else if c = 93 then St 512 else
      if c < 65 then (if 48 \<le> c \<and> c \<le> 57 then St 393 else
       St 0) else
      if c > 70 then (if 97 \<le> c \<and> c \<le> 102 then St 393 else
       St 0) else
      St 393)"

definition ur_case_410 :: "int \<Rightarrow> ur_action goto" where
  "ur_case_410 c =
     (if c = 46 then St 294 else if c = 53 then St 412 else if c = 58 then St 394 else if c = 93 then St 512 else

      if c < 65 then (if 48 \<le> c \<and> c \<le> 57 then St 411 else
       St 0) else
      if c > 70 then (if 97 \<le> c \<and> c \<le> 102 then St 391 else
       St 0) else
      St 391)"

definition ur_case_411 :: "int \<Rightarrow> ur_action goto" where
  "ur_case_411 c =
     (if c = 46 then St 294 else if c = 58 then St 394 else if c = 93 then St 512 else
      if c < 65 then (if 48 \<le> c \<and> c \<le> 57 then St 392 else
       St 0) else
      if c > 70 then (if 97 \<le> c \<and> c \<le> 102 then St 392 else
       St 0) else
      St 392)"

definition ur_case_412 :: "int \<Rightarrow> ur_action goto" where
  "ur_case_412 c =
     (if c = 46 then St 294 else if c = 58 then St 394 else if c = 93 then St 512 else
      if c < 54 then (if 48 \<le> c \<and> c \<le> 53 then St 409 else
       St 0) else
      if c > 57 then (if c > 70 then (if 97 \<le> c \<and> c \<le> 102 then St 392 else
        St 0) else
       if c \<ge> 65 then St 392 else
       St 0) else
      St 392)"

definition ur_case_413 :: "int \<Rightarrow> ur_action goto" where
  "ur_case_413 c =
     (if c = 46 then St 294 else if c = 58 then St 394 else if c = 93 then St 512 else
      if c < 65 then (if 48 \<le> c \<and> c \<le> 57 then St 411 else
       St 0) else
      if c > 70 then (if 97 \<le> c \<and> c \<le> 102 then St 391 else
       St 0) else
      St 391)"

definition ur_case_414 :: "int \<Rightarrow> ur_action goto" where
  "ur_case_414 c =
     (if c = 58 then St 394 else if c = 93 then St 512 else
      if c < 65 then (if 48 \<le> c \<and> c \<le> 57 then St 391 else
       St 0) else
      if c > 70 then (if 97 \<le> c \<and> c \<le> 102 then St 391 else
       St 0) else
      St 391)"

definition ur_case_415 :: "int \<Rightarrow> ur_action goto" where
  "ur_case_415 c =
     (if c = 46 then St 294 else if c = 58 then St 389 else if c = 93 then St 512 else
      if c < 65 then (if 48 \<le> c \<and> c \<le> 57 then St 416 else
       St 0) else
      if c > 70 then (if 97 \<le> c \<and> c \<le> 102 then St 386 else
       St 0) else
      St 386)"

definition ur_case_416 :: "int \<Rightarrow> ur_action goto" where
  "ur_case_416 c =
     (if c = 46 then St 294 else if c = 58 then St 389 else if c = 93 then St 512 else
      if c < 65 then (if 48 \<le> c \<and> c \<le> 57 then St 417 else
       St 0) else
      if c > 70 then (if 97 \<le> c \<and> c \<le> 102 then St 387 else
       St 0) else
      St 387)"

definition ur_case_417 :: "int \<Rightarrow> ur_action goto" where
  "ur_case_417 c =
     (if c = 46 then St 294 else if c = 58 then St 389 else if c = 93 then St 512 else
      if c < 65 then (if 48 \<le> c \<and> c \<le> 57 then St 388 else
       St 0) else
      if c > 70 then (if 97 \<le> c \<and> c \<le> 102 then St 388 else
       St 0) else
      St 388)"

definition ur_case_418 :: "int \<Rightarrow> ur_action goto" where
  "ur_case_418 c =
     (if c = 46 then St 294 else if c = 53 then St 420 else if c = 58 then St 389 else if c = 93 then St 512 else

      if c < 65 then (if 48 \<le> c \<and> c \<le> 57 then St 419 else
       St 0) else
      if c > 70 then (if 97 \<le> c \<and> c \<le> 102 then St 386 else
       St 0) else
      St 386)"

definition ur_case_419 :: "int \<Rightarrow> ur_action goto" where
  "ur_case_419 c =
     (if c = 46 then St 294 else if c = 58 then St 389 else if c = 93 then St 512 else
      if c < 65 then (if 48 \<le> c \<and> c \<le> 57 then St 387 else
       St 0) else
      if c > 70 then (if 97 \<le> c \<and> c \<le> 102 then St 387 else
       St 0) else
      St 387)"

definition ur_case_420 :: "int \<Rightarrow> ur_action goto" where
  "ur_case_420 c =
     (if c = 46 then St 294 else if c = 58 then St 389 else if c = 93 then St 512 else
      if c < 54 then (if 48 \<le> c \<and> c \<le> 53 then St 417 else
       St 0) else
      if c > 57 then (if c > 70 then (if 97 \<le> c \<and> c \<le> 102 then St 387 else
        St 0) else
       if c \<ge> 65 then St 387 else
       St 0) else
      St 387)"

definition ur_case_421 :: "int \<Rightarrow> ur_action goto" where
  "ur_case_421 c =
     (if c = 46 then St 294 else if c = 58 then St 389 else if c = 93 then St 512 else
      if c < 65 then (if 48 \<le> c \<and> c \<le> 57 then St 419 else
       St 0) else
      if c > 70 then (if 97 \<le> c \<and> c \<le> 102 then St 386 else
       St 0) else
      St 386)"

definition ur_case_422 :: "int \<Rightarrow> ur_action goto" where
  "ur_case_422 c =
     (if c = 58 then St 389 else if c = 93 then St 512 else
      if c < 65 then (if 48 \<le> c \<and> c \<le> 57 then St 386 else
       St 0) else
      if c > 70 then (if 97 \<le> c \<and> c \<le> 102 then St 386 else
       St 0) else
      St 386)"

definition ur_case_423 :: "int \<Rightarrow> ur_action goto" where
  "ur_case_423 c =
     (if c = 46 then St 294 else if c = 58 then St 384 else if c = 93 then St 512 else
      if c < 65 then (if 48 \<le> c \<and> c \<le> 57 then St 424 else
       St 0) else
      if c > 70 then (if 97 \<le> c \<and> c \<le> 102 then St 381 else
       St 0) else
      St 381)"

definition ur_case_424 :: "int \<Rightarrow> ur_action goto" where
  "ur_case_424 c =
     (if c = 46 then St 294 else if c = 58 then St 384 else if c = 93 then St 512 else
      if c < 65 then (if 48 \<le> c \<and> c \<le> 57 then St 425 else
       St 0) else
      if c > 70 then (if 97 \<le> c \<and> c \<le> 102 then St 382 else
       St 0) else
      St 382)"

definition ur_case_425 :: "int \<Rightarrow> ur_action goto" where
  "ur_case_425 c =
     (if c = 46 then St 294 else if c = 58 then St 384 else if c = 93 then St 512 else
      if c < 65 then (if 48 \<le> c \<and> c \<le> 57 then St 383 else
       St 0) else
      if c > 70 then (if 97 \<le> c \<and> c \<le> 102 then St 383 else
       St 0) else
      St 383)"

definition ur_case_426 :: "int \<Rightarrow> ur_action goto" where
  "ur_case_426 c =
     (if c = 46 then St 294 else if c = 53 then St 428 else if c = 58 then St 384 else if c = 93 then St 512 else

      if c < 65 then (if 48 \<le> c \<and> c \<le> 57 then St 427 else
       St 0) else
      if c > 70 then (if 97 \<le> c \<and> c \<le> 102 then St 381 else
       St 0) else
      St 381)"

definition ur_case_427 :: "int \<Rightarrow> ur_action goto" where
  "ur_case_427 c =
     (if c = 46 then St 294 else if c = 58 then St 384 else if c = 93 then St 512 else
      if c < 65 then (if 48 \<le> c \<and> c \<le> 57 then St 382 else
       St 0) else
      if c > 70 then (if 97 \<le> c \<and> c \<le> 102 then St 382 else
       St 0) else
      St 382)"

definition ur_case_428 :: "int \<Rightarrow> ur_action goto" where
  "ur_case_428 c =
     (if c = 46 then St 294 else if c = 58 then St 384 else if c = 93 then St 512 else
      if c < 54 then (if 48 \<le> c \<and> c \<le> 53 then St 425 else
       St 0) else
      if c > 57 then (if c > 70 then (if 97 \<le> c \<and> c \<le> 102 then St 382 else
        St 0) else
       if c \<ge> 65 then St 382 else
       St 0) else
      St 382)"

definition ur_case_429 :: "int \<Rightarrow> ur_action goto" where
  "ur_case_429 c =
     (if c = 46 then St 294 else if c = 58 then St 384 else if c = 93 then St 512 else
      if c < 65 then (if 48 \<le> c \<and> c \<le> 57 then St 427 else
       St 0) else
      if c > 70 then (if 97 \<le> c \<and> c \<le> 102 then St 381 else
       St 0) else
      St 381)"

definition ur_case_430 :: "int \<Rightarrow> ur_action goto" where
  "ur_case_430 c =
     (if c = 58 then St 384 else if c = 93 then St 512 else
      if c < 65 then (if 48 \<le> c \<and> c \<le> 57 then St 381 else
       St 0) else
      if c > 70 then (if 97 \<le> c \<and> c \<le> 102 then St 381 else
       St 0) else
      St 381)"

definition ur_case_431 :: "int \<Rightarrow> ur_action goto" where
  "ur_case_431 c =
     (if c = 46 then St 294 else if c = 58 then St 379 else if c = 93 then St 512 else
      if c < 65 then (if 48 \<le> c \<and> c \<le> 57 then St 432 else
       St 0) else
      if c > 70 then (if 97 \<le> c \<and> c \<le> 102 then St 376 else
       St 0) else
      St 376)"

definition ur_case_432 :: "int \<Rightarrow> ur_action goto" where
  "ur_case_432 c =
     (if c = 46 then St 294 else if c = 58 then St 379 else if c = 93 then St 512 else
      if c < 65 then (if 48 \<le> c \<and> c \<le> 57 then St 433 else
       St 0) else
      if c > 70 then (if 97 \<le> c \<and> c \<le> 102 then St 377 else
       St 0) else
      St 377)"

definition ur_case_433 :: "int \<Rightarrow> ur_action goto" where
  "ur_case_433 c =
     (if c = 46 then St 294 else if c = 58 then St 379 else if c = 93 then St 512 else
      if c < 65 then (if 48 \<le> c \<and> c \<le> 57 then St 378 else
       St 0) else
      if c > 70 then (if 97 \<le> c \<and> c \<le> 102 then St 378 else
       St 0) else
      St 378)"

definition ur_case_434 :: "int \<Rightarrow> ur_action goto" where
  "ur_case_434 c =
     (if c = 46 then St 294 else if c = 53 then St 436 else if c = 58 then St 379 else if c = 93 then St 512 else

      if c < 65 then (if 48 \<le> c \<and> c \<le> 57 then St 435 else
       St 0) else
      if c > 70 then (if 97 \<le> c \<and> c \<le> 102 then St 376 else
       St 0) else
      St 376)"

definition ur_case_435 :: "int \<Rightarrow> ur_action goto" where
  "ur_case_435 c =
     (if c = 46 then St 294 else if c = 58 then St 379 else if c = 93 then St 512 else
      if c < 65 then (if 48 \<le> c \<and> c \<le> 57 then St 377 else
       St 0) else
      if c > 70 then (if 97 \<le> c \<and> c \<le> 102 then St 377 else
       St 0) else
      St 377)"

definition ur_case_436 :: "int \<Rightarrow> ur_action goto" where
  "ur_case_436 c =
     (if c = 46 then St 294 else if c = 58 then St 379 else if c = 93 then St 512 else
      if c < 54 then (if 48 \<le> c \<and> c \<le> 53 then St 433 else
       St 0) else
      if c > 57 then (if c > 70 then (if 97 \<le> c \<and> c \<le> 102 then St 377 else
        St 0) else
       if c \<ge> 65 then St 377 else
       St 0) else
      St 377)"

definition ur_case_437 :: "int \<Rightarrow> ur_action goto" where
  "ur_case_437 c =
     (if c = 46 then St 294 else if c = 58 then St 379 else if c = 93 then St 512 else
      if c < 65 then (if 48 \<le> c \<and> c \<le> 57 then St 435 else
       St 0) else
      if c > 70 then (if 97 \<le> c \<and> c \<le> 102 then St 376 else
       St 0) else
      St 376)"

definition ur_case_438 :: "int \<Rightarrow> ur_action goto" where
  "ur_case_438 c =
     (if c = 58 then St 379 else if c = 93 then St 512 else
      if c < 65 then (if 48 \<le> c \<and> c \<le> 57 then St 376 else
       St 0) else
      if c > 70 then (if 97 \<le> c \<and> c \<le> 102 then St 376 else
       St 0) else
      St 376)"

definition ur_case_439 :: "int \<Rightarrow> ur_action goto" where
  "ur_case_439 c =
     (if c = 46 then St 294 else if c = 58 then St 374 else if c = 93 then St 512 else
      if c < 65 then (if 48 \<le> c \<and> c \<le> 57 then St 440 else
       St 0) else
      if c > 70 then (if 97 \<le> c \<and> c \<le> 102 then St 371 else
       St 0) else
      St 371)"

definition ur_case_440 :: "int \<Rightarrow> ur_action goto" where
  "ur_case_440 c =
     (if c = 46 then St 294 else if c = 58 then St 374 else if c = 93 then St 512 else
      if c < 65 then (if 48 \<le> c \<and> c \<le> 57 then St 441 else
       St 0) else
      if c > 70 then (if 97 \<le> c \<and> c \<le> 102 then St 372 else
       St 0) else
      St 372)"

definition ur_case_441 :: "int \<Rightarrow> ur_action goto" where
  "ur_case_441 c =
     (if c = 46 then St 294 else if c = 58 then St 374 else if c = 93 then St 512 else
      if c < 65 then (if 48 \<le> c \<and> c \<le> 57 then St 373 else
       St 0) else
      if c > 70 then (if 97 \<le> c \<and> c \<le> 102 then St 373 else
       St 0) else
      St 373)"

definition ur_case_442 :: "int \<Rightarrow> ur_action goto" where
  "ur_case_442 c =
     (if c = 46 then St 294 else if c = 53 then St 444 else if c = 58 then St 374 else if c = 93 then St 512 else

      if c < 65 then (if 48 \<le> c \<and> c \<le> 57 then St 443 else
       St 0) else
      if c > 70 then (if 97 \<le> c \<and> c \<le> 102 then St 371 else
       St 0) else
      St 371)"

definition ur_case_443 :: "int \<Rightarrow> ur_action goto" where
  "ur_case_443 c =
     (if c = 46 then St 294 else if c = 58 then St 374 else if c = 93 then St 512 else
      if c < 65 then (if 48 \<le> c \<and> c \<le> 57 then St 372 else
       St 0) else
      if c > 70 then (if 97 \<le> c \<and> c \<le> 102 then St 372 else
       St 0) else
      St 372)"

definition ur_case_444 :: "int \<Rightarrow> ur_action goto" where
  "ur_case_444 c =
     (if c = 46 then St 294 else if c = 58 then St 374 else if c = 93 then St 512 else
      if c < 54 then (if 48 \<le> c \<and> c \<le> 53 then St 441 else
       St 0) else
      if c > 57 then (if c > 70 then (if 97 \<le> c \<and> c \<le> 102 then St 372 else
        St 0) else
       if c \<ge> 65 then St 372 else
       St 0) else
      St 372)"

definition ur_case_445 :: "int \<Rightarrow> ur_action goto" where
  "ur_case_445 c =
     (if c = 46 then St 294 else if c = 58 then St 374 else if c = 93 then St 512 else
      if c < 65 then (if 48 \<le> c \<and> c \<le> 57 then St 443 else
       St 0) else
      if c > 70 then (if 97 \<le> c \<and> c \<le> 102 then St 371 else
       St 0) else
      St 371)"

definition ur_case_446 :: "int \<Rightarrow> ur_action goto" where
  "ur_case_446 c =
     (if c = 58 then St 374 else if c = 93 then St 512 else
      if c < 65 then (if 48 \<le> c \<and> c \<le> 57 then St 371 else
       St 0) else
      if c > 70 then (if 97 \<le> c \<and> c \<le> 102 then St 371 else
       St 0) else
      St 371)"

definition ur_case_447 :: "int \<Rightarrow> ur_action goto" where
  "ur_case_447 c =
     (if c < 65 then (if 48 \<le> c \<and> c \<le> 57 then St 448 else
       St 0) else
      if c > 70 then (if 97 \<le> c \<and> c \<le> 102 then St 448 else
       St 0) else
      St 448)"

definition ur_case_448 :: "int \<Rightarrow> ur_action goto" where
  "ur_case_448 c =
     (if c = 46 then St 449 else
      if c < 65 then (if 48 \<le> c \<and> c \<le> 57 then St 448 else
       St 0) else
      if c > 70 then (if 97 \<le> c \<and> c \<le> 102 then St 448 else
       St 0) else
      St 448)"

definition ur_case_449 :: "int \<Rightarrow> ur_action goto" where
  "ur_case_449 c =
     (if c = 33 then St 450 else if c = 36 then St 450 else if c = 61 then St 450 else if c = 95 then St 450 else
      if c = 126 then St 450 else
      if c < 48 then (if 38 \<le> c \<and> c \<le> 46 then St 450 else
       St 0) else
      if c > 59 then (if c > 90 then (if 97 \<le> c \<and> c \<le> 122 then St 450 else
        St 0) else
       if c \<ge> 65 then St 450 else
       St 0) else
      St 450)"

definition ur_case_450 :: "int \<Rightarrow> ur_action goto" where
  "ur_case_450 c =
     (if c = 33 then St 450 else if c = 36 then St 450 else if c = 61 then St 450 else if c = 93 then St 512 else
      if c = 95 then St 450 else if c = 126 then St 450 else
      if c < 48 then (if 38 \<le> c \<and> c \<le> 46 then St 450 else
       St 0) else
      if c > 59 then (if c > 90 then (if 97 \<le> c \<and> c \<le> 122 then St 450 else
        St 0) else
       if c \<ge> 65 then St 450 else
       St 0) else
      St 450)"

definition ur_case_451 :: "int \<Rightarrow> ur_action goto" where
  "ur_case_451 c =
     (if c = 34 then St 0 else if c = 35 then St 453 else if c = 37 then St 3 else if c = 47 then St 458 else
      if c = 58 then St 0 else if c = 60 then St 0 else if c = 62 then St 0 else if c = 63 then St 456 else
      if c = 96 then St 0 else if c = 127 then St 0 else
      if c < 91 then (if c > 32 then (if 65 \<le> c \<and> c \<le> 90 then ur_tr_461 else
        St 452) else
       if c \<ge> 0 then St 0 else
       St 452) else
      if c > 94 then (if c > 122 then (if 123 \<le> c \<and> c \<le> 125 then St 0 else
        St 452) else
       if c \<ge> 97 then ur_tr_461 else
       St 452) else
      St 0)"

definition ur_case_452 :: "int \<Rightarrow> ur_action goto" where
  "ur_case_452 c =
     (if c = 34 then St 0 else if c = 35 then St 453 else if c = 37 then St 3 else if c = 47 then St 455 else
      if c = 58 then St 0 else if c = 60 then St 0 else if c = 62 then St 0 else if c = 63 then St 456 else
      if c = 96 then St 0 else if c = 127 then St 0 else
      if c < 91 then (if 0 \<le> c \<and> c \<le> 32 then St 0 else
       St 452) else
      if c > 94 then (if 123 \<le> c \<and> c \<le> 125 then St 0 else
       St 452) else
      St 0)"

definition ur_case_453 :: "int \<Rightarrow> ur_action goto" where
  "ur_case_453 c =
     (if c = 37 then ur_tr_463 else if c = 60 then St 0 else if c = 62 then St 0 else if c = 96 then St 0 else
      if c = 127 then St 0 else
      if c < 34 then (if 0 \<le> c \<and> c \<le> 32 then St 0 else
       ur_tr_462) else
      if c > 35 then (if c > 94 then (if 123 \<le> c \<and> c \<le> 125 then St 0 else
        ur_tr_462) else
       if c \<ge> 91 then St 0 else
       ur_tr_462) else
      St 0)"

definition ur_case_454 :: "int \<Rightarrow> ur_action goto" where
  "ur_case_454 c =
     (if c = 37 then St 1 else if c = 60 then St 0 else if c = 62 then St 0 else if c = 96 then St 0 else
      if c = 127 then St 0 else
      if c < 34 then (if 0 \<le> c \<and> c \<le> 32 then St 0 else
       St 454) else
      if c > 35 then (if c > 94 then (if 123 \<le> c \<and> c \<le> 125 then St 0 else
        St 454) else
       if c \<ge> 91 then St 0 else
       St 454) else
      St 0)"

definition ur_case_455 :: "int \<Rightarrow> ur_action goto" where
  "ur_case_455 c =
     (if c = 34 then St 0 else if c = 35 then St 453 else if c = 37 then St 5 else if c = 60 then St 0 else
      if c = 62 then St 0 else if c = 63 then St 456 else if c = 96 then St 0 else if c = 127 then St 0 else

      if c < 91 then (if 0 \<le> c \<and> c \<le> 32 then St 0 else
       St 455) else
      if c > 94 then (if 123 \<le> c \<and> c \<le> 125 then St 0 else
       St 455) else
      St 0)"

definition ur_case_456 :: "int \<Rightarrow> ur_action goto" where
  "ur_case_456 c =
     (if c = 34 then St 0 else if c = 35 then ur_tr_467 else if c = 37 then ur_tr_468 else if c = 60 then St 0 else
      if c = 62 then St 0 else if c = 96 then St 0 else if c = 127 then St 0 else
      if c < 91 then (if 0 \<le> c \<and> c \<le> 32 then St 0 else
       ur_tr_466) else
      if c > 94 then (if 123 \<le> c \<and> c \<le> 125 then St 0 else
       ur_tr_466) else
      St 0)"

definition ur_case_457 :: "int \<Rightarrow> ur_action goto" where
  "ur_case_457 c =
     (if c = 34 then St 0 else if c = 35 then ur_tr_469 else if c = 37 then St 7 else if c = 60 then St 0 else
      if c = 62 then St 0 else if c = 96 then St 0 else if c = 127 then St 0 else
      if c < 91 then (if 0 \<le> c \<and> c \<le> 32 then St 0 else
       St 457) else
      if c > 94 then (if 123 \<le> c \<and> c \<le> 125 then St 0 else
       St 457) else
      St 0)"

definition ur_case_458 :: "int \<Rightarrow> ur_action goto" where
  "ur_case_458 c =
     (if c = 34 then St 0 else if c = 35 then St 453 else if c = 37 then St 5 else if c = 47 then St 459 else
      if c = 60 then St 0 else if c = 62 then St 0 else if c = 63 then St 456 else if c = 96 then St 0 else
      if c = 127 then St 0 else
      if c < 91 then (if 0 \<le> c \<and> c \<le> 32 then St 0 else
       St 455) else
      if c > 94 then (if 123 \<le> c \<and> c \<le> 125 then St 0 else
       St 455) else
      St 0)"

definition ur_case_459 :: "int \<Rightarrow> ur_action goto" where
  "ur_case_459 c =
     (if c = 2 then ur_tr_472 else if c = 33 then ur_tr_473 else if c = 35 then ur_tr_474 else if c = 37 then ur_tr_475 else
      if c = 47 then ur_tr_476 else if c = 48 then ur_tr_477 else if c = 49 then ur_tr_478 else if c = 50 then ur_tr_479 else
      if c = 58 then ur_tr_481 else if c = 59 then ur_tr_473 else if c = 61 then ur_tr_473 else if c = 63 then ur_tr_482 else
      if c = 64 then ur_tr_483 else if c = 91 then ur_tr_484 else if c = 95 then ur_tr_473 else if c = 126 then ur_tr_473 else

      if c < 51 then (if 36 \<le> c \<and> c \<le> 46 then ur_tr_473 else
       St 0) else
      if c > 57 then (if c > 90 then (if 97 \<le> c \<and> c \<le> 122 then ur_tr_473 else
        St 0) else
       if c \<ge> 65 then ur_tr_473 else
       St 0) else
      ur_tr_480)"

definition ur_case_460 :: "int \<Rightarrow> ur_action goto" where
  "ur_case_460 c =
     (if c = 35 then ur_tr_485 else if c = 47 then ur_tr_486 else if c = 58 then ur_tr_487 else if c = 63 then ur_tr_488 else

      St 0)"

definition ur_case_461 :: "int \<Rightarrow> ur_action goto" where
  "ur_case_461 c =
     (if c = 35 then ur_tr_489 else if c = 47 then ur_tr_490 else if c = 63 then ur_tr_492 else
      if 48 \<le> c \<and> c \<le> 57 then ur_tr_491 else
      St 0)"

definition ur_case_462 :: "int \<Rightarrow> ur_action goto" where
  "ur_case_462 c =
     (if c = 35 then ur_tr_493 else if c = 47 then ur_tr_494 else if c = 63 then ur_tr_496 else
      if 48 \<le> c \<and> c \<le> 57 then St 462 else
      St 0)"

definition ur_case_463 :: "int \<Rightarrow> ur_action goto" where
  "ur_case_463 c =
     (if c = 35 then ur_tr_485 else if c = 47 then ur_tr_486 else if c = 58 then ur_tr_487 else if c = 63 then ur_tr_488 else

      if 48 \<le> c \<and> c \<le> 57 then St 464 else
      St 0)"

definition ur_case_464 :: "int \<Rightarrow> ur_action goto" where
  "ur_case_464 c =
     (if c = 35 then ur_tr_485 else if c = 47 then ur_tr_486 else if c = 58 then ur_tr_487 else if c = 63 then ur_tr_488 else

      if 48 \<le> c \<and> c \<le> 57 then St 460 else
      St 0)"

definition ur_case_465 :: "int \<Rightarrow> ur_action goto" where
  "ur_case_465 c =
     (if c = 35 then ur_tr_485 else if c = 47 then ur_tr_486 else if c = 53 then St 466 else if c = 58 then ur_tr_487 else
      if c = 63 then ur_tr_488 else
      if 48 \<le> c \<and> c \<le> 57 then St 460 else
      St 0)"

definition ur_case_466 :: "int \<Rightarrow> ur_action goto" where
  "ur_case_466 c =
     (if c = 35 then ur_tr_485 else if c = 47 then ur_tr_486 else if c = 58 then ur_tr_487 else if c = 63 then ur_tr_488 else

      if 48 \<le> c \<and> c \<le> 53 then St 460 else
      St 0)"

definition ur_case_467 :: "int \<Rightarrow> ur_action goto" where
  "ur_case_467 c =
     (if c = 33 then St 467 else if c = 35 then ur_tr_485 else if c = 37 then St 31 else if c = 47 then ur_tr_486 else
      if c = 58 then ur_tr_499 else if c = 61 then St 467 else if c = 63 then ur_tr_488 else if c = 64 then ur_tr_38 else
      if c = 95 then St 467 else if c = 126 then St 467 else
      if c < 65 then (if 36 \<le> c \<and> c \<le> 59 then St 467 else
       St 0) else
      if c > 90 then (if 97 \<le> c \<and> c \<le> 122 then St 467 else
       St 0) else
      St 467)"

definition ur_case_468 :: "int \<Rightarrow> ur_action goto" where
  "ur_case_468 c =
     (if c = 33 then St 33 else if c = 35 then ur_tr_489 else if c = 37 then St 34 else if c = 47 then ur_tr_490 else
      if c = 61 then St 33 else if c = 63 then ur_tr_492 else if c = 64 then ur_tr_38 else if c = 95 then St 33 else
      if c = 126 then St 33 else
      if c < 58 then (if c > 46 then (if 48 \<le> c \<and> c \<le> 57 then ur_tr_500 else
        St 0) else
       if c \<ge> 36 then St 33 else
       St 0) else
      if c > 59 then (if c > 90 then (if 97 \<le> c \<and> c \<le> 122 then St 33 else
        St 0) else
       if c \<ge> 65 then St 33 else
       St 0) else
      St 33)"

definition ur_case_469 :: "int \<Rightarrow> ur_action goto" where
  "ur_case_469 c =
     (if c = 2 then ur_tr_472 else if c = 33 then ur_tr_501 else if c = 35 then ur_tr_474 else if c = 37 then ur_tr_502 else
      if c = 47 then ur_tr_476 else if c = 48 then ur_tr_503 else if c = 49 then ur_tr_504 else if c = 50 then ur_tr_505 else
      if c = 58 then ur_tr_507 else if c = 59 then ur_tr_501 else if c = 61 then ur_tr_501 else if c = 63 then ur_tr_482 else
      if c = 91 then ur_tr_484 else if c = 95 then ur_tr_501 else if c = 126 then ur_tr_501 else
      if c < 51 then (if 36 \<le> c \<and> c \<le> 46 then ur_tr_501 else
       St 0) else
      if c > 57 then (if c > 90 then (if 97 \<le> c \<and> c \<le> 122 then ur_tr_501 else
        St 0) else
       if c \<ge> 65 then ur_tr_501 else
       St 0) else
      ur_tr_506)"

definition ur_case_470 :: "int \<Rightarrow> ur_action goto" where
  "ur_case_470 c =
     (if c = 33 then St 470 else if c = 35 then ur_tr_485 else if c = 37 then St 36 else if c = 47 then ur_tr_486 else
      if c = 58 then ur_tr_487 else if c = 61 then St 470 else if c = 63 then ur_tr_488 else if c = 95 then St 470 else
      if c = 126 then St 470 else
      if c < 65 then (if 36 \<le> c \<and> c \<le> 59 then St 470 else
       St 0) else
      if c > 90 then (if 97 \<le> c \<and> c \<le> 122 then St 470 else
       St 0) else
      St 470)"

definition ur_case_471 :: "int \<Rightarrow> ur_action goto" where
  "ur_case_471 c =
     (if c = 33 then St 470 else if c = 35 then ur_tr_485 else if c = 37 then St 36 else if c = 46 then St 472 else
      if c = 47 then ur_tr_486 else if c = 58 then ur_tr_487 else if c = 61 then St 470 else if c = 63 then ur_tr_488 else
      if c = 95 then St 470 else if c = 126 then St 470 else
      if c < 65 then (if 36 \<le> c \<and> c \<le> 59 then St 470 else
       St 0) else
      if c > 90 then (if 97 \<le> c \<and> c \<le> 122 then St 470 else
       St 0) else
      St 470)"

definition ur_case_472 :: "int \<Rightarrow> ur_action goto" where
  "ur_case_472 c =
     (if c = 2 then St 13 else if c = 33 then St 470 else if c = 35 then ur_tr_485 else if c = 37 then St 36 else
      if c = 47 then ur_tr_486 else if c = 48 then St 473 else if c = 49 then St 481 else if c = 50 then St 483 else
      if c = 58 then ur_tr_487 else if c = 59 then St 470 else if c = 61 then St 470 else if c = 63 then ur_tr_488 else
      if c = 95 then St 470 else if c = 126 then St 470 else
      if c < 51 then (if 36 \<le> c \<and> c \<le> 46 then St 470 else
       St 0) else
      if c > 57 then (if c > 90 then (if 97 \<le> c \<and> c \<le> 122 then St 470 else
        St 0) else
       if c \<ge> 65 then St 470 else
       St 0) else
      St 482)"

definition ur_case_473 :: "int \<Rightarrow> ur_action goto" where
  "ur_case_473 c =
     (if c = 33 then St 470 else if c = 35 then ur_tr_485 else if c = 37 then St 36 else if c = 46 then St 474 else
      if c = 47 then ur_tr_486 else if c = 58 then ur_tr_487 else if c = 61 then St 470 else if c = 63 then ur_tr_488 else
      if c = 95 then St 470 else if c = 126 then St 470 else
      if c < 65 then (if 36 \<le> c \<and> c \<le> 59 then St 470 else
       St 0) else
      if c > 90 then (if 97 \<le> c \<and> c \<le> 122 then St 470 else
       St 0) else
      St 470)"

definition ur_case_474 :: "int \<Rightarrow> ur_action goto" where
  "ur_case_474 c =
     (if c = 2 then St 17 else if c = 33 then St 470 else if c = 35 then ur_tr_485 else if c = 37 then St 36 else
      if c = 47 then ur_tr_486 else if c = 48 then St 475 else if c = 49 then St 477 else if c = 50 then St 479 else
      if c = 58 then ur_tr_487 else if c = 59 then St 470 else if c = 61 then St 470 else if c = 63 then ur_tr_488 else
      if c = 95 then St 470 else if c = 126 then St 470 else
      if c < 51 then (if 36 \<le> c \<and> c \<le> 46 then St 470 else
       St 0) else
      if c > 57 then (if c > 90 then (if 97 \<le> c \<and> c \<le> 122 then St 470 else
        St 0) else
       if c \<ge> 65 then St 470 else
       St 0) else
      St 478)"

definition ur_case_475 :: "int \<Rightarrow> ur_action goto" where
  "ur_case_475 c =
     (if c = 33 then St 470 else if c = 35 then ur_tr_485 else if c = 37 then St 36 else if c = 46 then St 476 else
      if c = 47 then ur_tr_486 else if c = 58 then ur_tr_487 else if c = 61 then St 470 else if c = 63 then ur_tr_488 else
      if c = 95 then St 470 else if c = 126 then St 470 else
      if c < 65 then (if 36 \<le> c \<and> c \<le> 59 then St 470 else
       St 0) else
      if c > 90 then (if 97 \<le> c \<and> c \<le> 122 then St 470 else
       St 0) else
      St 470)"

definition ur_case_476 :: "int \<Rightarrow> ur_action goto" where
  "ur_case_476 c =
     (if c = 2 then St 21 else if c = 33 then St 470 else if c = 35 then ur_tr_485 else if c = 37 then St 36 else
      if c = 47 then ur_tr_486 else if c = 58 then ur_tr_487 else if c = 61 then St 470 else if c = 63 then ur_tr_488 else
      if c = 95 then St 470 else if c = 126 then St 470 else
      if c < 65 then (if 36 \<le> c \<and> c \<le> 59 then St 470 else
       St 0) else
      if c > 90 then (if 97 \<le> c \<and> c \<le> 122 then St 470 else
       St 0) else
      St 470)"

definition ur_case_477 :: "int \<Rightarrow> ur_action goto" where
  "ur_case_477 c =
     (if c = 33 then St 470 else if c = 35 then ur_tr_485 else if c = 37 then St 36 else if c = 46 then St 476 else
      if c = 47 then ur_tr_486 else if c = 58 then ur_tr_487 else if c = 59 then St 470 else if c = 61 then St 470 else
      if c = 63 then ur_tr_488 else if c = 95 then St 470 else if c = 126 then St 470 else
      if c < 48 then (if 36 \<le> c \<and> c \<le> 45 then St 470 else
       St 0) else
      if c > 57 then (if c > 90 then (if 97 \<le> c \<and> c \<le> 122 then St 470 else
        St 0) else
       if c \<ge> 65 then St 470 else
       St 0) else
      St 478)"

definition ur_case_478 :: "int \<Rightarrow> ur_action goto" where
  "ur_case_478 c =
     (if c = 33 then St 470 else if c = 35 then ur_tr_485 else if c = 37 then St 36 else if c = 46 then St 476 else
      if c = 47 then ur_tr_486 else if c = 58 then ur_tr_487 else if c = 59 then St 470 else if c = 61 then St 470 else
      if c = 63 then ur_tr_488 else if c = 95 then St 470 else if c = 126 then St 470 else
      if c < 48 then (if 36 \<le> c \<and> c \<le> 45 then St 470 else
       St 0) else
      if c > 57 then (if c > 90 then (if 97 \<le> c \<and> c \<le> 122 then St 470 else
        St 0) else
       if c \<ge> 65 then St 470 else
       St 0) else
      St 475)"

definition ur_case_479 :: "int \<Rightarrow> ur_action goto" where
  "ur_case_479 c =
     (if c = 33 then St 470 else if c = 35 then ur_tr_485 else if c = 37 then St 36 else if c = 46 then St 476 else
      if c = 47 then ur_tr_486 else if c = 53 then St 480 else if c = 58 then ur_tr_487 else if c = 59 then St 470 else
      if c = 61 then St 470 else if c = 63 then ur_tr_488 else if c = 95 then St 470 else if c = 126 then St 470 else

      if c < 48 then (if 36 \<le> c \<and> c \<le> 45 then St 470 else
       St 0) else
      if c > 57 then (if c > 90 then (if 97 \<le> c \<and> c \<le> 122 then St 470 else
        St 0) else
       if c \<ge> 65 then St 470 else
       St 0) else
      St 475)"

definition ur_case_480 :: "int \<Rightarrow> ur_action goto" where
  "ur_case_480 c =
     (if c = 33 then St 470 else if c = 35 then ur_tr_485 else if c = 37 then St 36 else if c = 46 then St 476 else
      if c = 47 then ur_tr_486 else if c = 58 then ur_tr_487 else if c = 61 then St 470 else if c = 63 then ur_tr_488 else
      if c = 95 then St 470 else if c = 126 then St 470 else
      if c < 54 then (if c > 45 then (if 48 \<le> c \<and> c \<le> 53 then St 475 else
        St 0) else
       if c \<ge> 36 then St 470 else
       St 0) else
      if c > 59 then (if c > 90 then (if 97 \<le> c \<and> c \<le> 122 then St 470 else
        St 0) else
       if c \<ge> 65 then St 470 else
       St 0) else
      St 470)"

definition ur_case_481 :: "int \<Rightarrow> ur_action goto" where
  "ur_case_481 c =
     (if c = 33 then St 470 else if c = 35 then ur_tr_485 else if c = 37 then St 36 else if c = 46 then St 474 else
      if c = 47 then ur_tr_486 else if c = 58 then ur_tr_487 else if c = 59 then St 470 else if c = 61 then St 470 else
      if c = 63 then ur_tr_488 else if c = 95 then St 470 else if c = 126 then St 470 else
      if c < 48 then (if 36 \<le> c \<and> c \<le> 45 then St 470 else
       St 0) else
      if c > 57 then (if c > 90 then (if 97 \<le> c \<and> c \<le> 122 then St 470 else
        St 0) else
       if c \<ge> 65 then St 470 else
       St 0) else
      St 482)"

definition ur_case_482 :: "int \<Rightarrow> ur_action goto" where
  "ur_case_482 c =
     (if c = 33 then St 470 else if c = 35 then ur_tr_485 else if c = 37 then St 36 else if c = 46 then St 474 else
      if c = 47 then ur_tr_486 else if c = 58 then ur_tr_487 else if c = 59 then St 470 else if c = 61 then St 470 else
      if c = 63 then ur_tr_488 else if c = 95 then St 470 else if c = 126 then St 470 else
      if c < 48 then (if 36 \<le> c \<and> c \<le> 45 then St 470 else
       St 0) else
      if c > 57 then (if c > 90 then (if 97 \<le> c \<and> c \<le> 122 then St 470 else
        St 0) else
       if c \<ge> 65 then St 470 else
       St 0) else
      St 473)"

definition ur_case_483 :: "int \<Rightarrow> ur_action goto" where
  "ur_case_483 c =
     (if c = 33 then St 470 else if c = 35 then ur_tr_485 else if c = 37 then St 36 else if c = 46 then St 474 else
      if c = 47 then ur_tr_486 else if c = 53 then St 484 else if c = 58 then ur_tr_487 else if c = 59 then St 470 else
      if c = 61 then St 470 else if c = 63 then ur_tr_488 else if c = 95 then St 470 else if c = 126 then St 470 else

      if c < 48 then (if 36 \<le> c \<and> c \<le> 45 then St 470 else
       St 0) else
      if c > 57 then (if c > 90 then (if 97 \<le> c \<and> c \<le> 122 then St 470 else
        St 0) else
       if c \<ge> 65 then St 470 else
       St 0) else
      St 473)"

definition ur_case_484 :: "int \<Rightarrow> ur_action goto" where
  "ur_case_484 c =
     (if c = 33 then St 470 else if c = 35 then ur_tr_485 else if c = 37 then St 36 else if c = 46 then St 474 else
      if c = 47 then ur_tr_486 else if c = 58 then ur_tr_487 else if c = 61 then St 470 else if c = 63 then ur_tr_488 else
      if c = 95 then St 470 else if c = 126 then St 470 else
      if c < 54 then (if c > 45 then (if 48 \<le> c \<and> c \<le> 53 then St 473 else
        St 0) else
       if c \<ge> 36 then St 470 else
       St 0) else
      if c > 59 then (if c > 90 then (if 97 \<le> c \<and> c \<le> 122 then St 470 else
        St 0) else
       if c \<ge> 65 then St 470 else
       St 0) else
      St 470)"

definition ur_case_485 :: "int \<Rightarrow> ur_action goto" where
  "ur_case_485 c =
     (if c = 33 then St 470 else if c = 35 then ur_tr_485 else if c = 37 then St 36 else if c = 46 then St 472 else
      if c = 47 then ur_tr_486 else if c = 58 then ur_tr_487 else if c = 59 then St 470 else if c = 61 then St 470 else
      if c = 63 then ur_tr_488 else if c = 95 then St 470 else if c = 126 then St 470 else
      if c < 48 then (if 36 \<le> c \<and> c \<le> 45 then St 470 else
       St 0) else
      if c > 57 then (if c > 90 then (if 97 \<le> c \<and> c \<le> 122 then St 470 else
        St 0) else
       if c \<ge> 65 then St 470 else
       St 0) else
      St 486)"

definition ur_case_486 :: "int \<Rightarrow> ur_action goto" where
  "ur_case_486 c =
     (if c = 33 then St 470 else if c = 35 then ur_tr_485 else if c = 37 then St 36 else if c = 46 then St 472 else
      if c = 47 then ur_tr_486 else if c = 58 then ur_tr_487 else if c = 59 then St 470 else if c = 61 then St 470 else
      if c = 63 then ur_tr_488 else if c = 95 then St 470 else if c = 126 then St 470 else
      if c < 48 then (if 36 \<le> c \<and> c \<le> 45 then St 470 else
       St 0) else
      if c > 57 then (if c > 90 then (if 97 \<le> c \<and> c \<le> 122 then St 470 else
        St 0) else
       if c \<ge> 65 then St 470 else
       St 0) else
      St 471)"

definition ur_case_487 :: "int \<Rightarrow> ur_action goto" where
  "ur_case_487 c =
     (if c = 33 then St 470 else if c = 35 then ur_tr_485 else if c = 37 then St 36 else if c = 46 then St 472 else
      if c = 47 then ur_tr_486 else if c = 53 then St 488 else if c = 58 then ur_tr_487 else if c = 59 then St 470 else
      if c = 61 then St 470 else if c = 63 then ur_tr_488 else if c = 95 then St 470 else if c = 126 then St 470 else

      if c < 48 then (if 36 \<le> c \<and> c \<le> 45 then St 470 else
       St 0) else
      if c > 57 then (if c > 90 then (if 97 \<le> c \<and> c \<le> 122 then St 470 else
        St 0) else
       if c \<ge> 65 then St 470 else
       St 0) else
      St 471)"

definition ur_case_488 :: "int \<Rightarrow> ur_action goto" where
  "ur_case_488 c =
     (if c = 33 then St 470 else if c = 35 then ur_tr_485 else if c = 37 then St 36 else if c = 46 then St 472 else
      if c = 47 then ur_tr_486 else if c = 58 then ur_tr_487 else if c = 61 then St 470 else if c = 63 then ur_tr_488 else
      if c = 95 then St 470 else if c = 126 then St 470 else
      if c < 54 then (if c > 45 then (if 48 \<le> c \<and> c \<le> 53 then St 471 else
        St 0) else
       if c \<ge> 36 then St 470 else
       St 0) else
      if c > 59 then (if c > 90 then (if 97 \<le> c \<and> c \<le> 122 then St 470 else
        St 0) else
       if c \<ge> 65 then St 470 else
       St 0) else
      St 470)"

definition ur_case_489 :: "int \<Rightarrow> ur_action goto" where
  "ur_case_489 c =
     (if c = 33 then St 33 else if c = 35 then ur_tr_493 else if c = 37 then St 34 else if c = 47 then ur_tr_494 else
      if c = 61 then St 33 else if c = 63 then ur_tr_496 else if c = 64 then ur_tr_38 else if c = 95 then St 33 else
      if c = 126 then St 33 else
      if c < 58 then (if c > 46 then (if 48 \<le> c \<and> c \<le> 57 then St 489 else
        St 0) else
       if c \<ge> 36 then St 33 else
       St 0) else
      if c > 59 then (if c > 90 then (if 97 \<le> c \<and> c \<le> 122 then St 33 else
        St 0) else
       if c \<ge> 65 then St 33 else
       St 0) else
      St 33)"

definition ur_case_490 :: "int \<Rightarrow> ur_action goto" where
  "ur_case_490 c =
     (if c = 33 then St 467 else if c = 35 then ur_tr_485 else if c = 37 then St 31 else if c = 46 then St 491 else
      if c = 47 then ur_tr_486 else if c = 58 then ur_tr_499 else if c = 61 then St 467 else if c = 63 then ur_tr_488 else
      if c = 64 then ur_tr_38 else if c = 95 then St 467 else if c = 126 then St 467 else
      if c < 65 then (if 36 \<le> c \<and> c \<le> 59 then St 467 else
       St 0) else
      if c > 90 then (if 97 \<le> c \<and> c \<le> 122 then St 467 else
       St 0) else
      St 467)"

definition ur_case_491 :: "int \<Rightarrow> ur_action goto" where
  "ur_case_491 c =
     (if c = 2 then St 13 else if c = 33 then St 467 else if c = 35 then ur_tr_485 else if c = 37 then St 31 else
      if c = 47 then ur_tr_486 else if c = 48 then St 492 else if c = 49 then St 500 else if c = 50 then St 502 else
      if c = 58 then ur_tr_499 else if c = 59 then St 467 else if c = 61 then St 467 else if c = 63 then ur_tr_488 else
      if c = 64 then ur_tr_38 else if c = 95 then St 467 else if c = 126 then St 467 else
      if c < 51 then (if 36 \<le> c \<and> c \<le> 46 then St 467 else
       St 0) else
      if c > 57 then (if c > 90 then (if 97 \<le> c \<and> c \<le> 122 then St 467 else
        St 0) else
       if c \<ge> 65 then St 467 else
       St 0) else
      St 501)"

definition ur_case_492 :: "int \<Rightarrow> ur_action goto" where
  "ur_case_492 c =
     (if c = 33 then St 467 else if c = 35 then ur_tr_485 else if c = 37 then St 31 else if c = 46 then St 493 else
      if c = 47 then ur_tr_486 else if c = 58 then ur_tr_499 else if c = 61 then St 467 else if c = 63 then ur_tr_488 else
      if c = 64 then ur_tr_38 else if c = 95 then St 467 else if c = 126 then St 467 else
      if c < 65 then (if 36 \<le> c \<and> c \<le> 59 then St 467 else
       St 0) else
      if c > 90 then (if 97 \<le> c \<and> c \<le> 122 then St 467 else
       St 0) else
      St 467)"

definition ur_case_493 :: "int \<Rightarrow> ur_action goto" where
  "ur_case_493 c =
     (if c = 2 then St 17 else if c = 33 then St 467 else if c = 35 then ur_tr_485 else if c = 37 then St 31 else
      if c = 47 then ur_tr_486 else if c = 48 then St 494 else if c = 49 then St 496 else if c = 50 then St 498 else
      if c = 58 then ur_tr_499 else if c = 59 then St 467 else if c = 61 then St 467 else if c = 63 then ur_tr_488 else
      if c = 64 then ur_tr_38 else if c = 95 then St 467 else if c = 126 then St 467 else
      if c < 51 then (if 36 \<le> c \<and> c \<le> 46 then St 467 else
       St 0) else
      if c > 57 then (if c > 90 then (if 97 \<le> c \<and> c \<le> 122 then St 467 else
        St 0) else
       if c \<ge> 65 then St 467 else
       St 0) else
      St 497)"

definition ur_case_494 :: "int \<Rightarrow> ur_action goto" where
  "ur_case_494 c =
     (if c = 33 then St 467 else if c = 35 then ur_tr_485 else if c = 37 then St 31 else if c = 46 then St 495 else
      if c = 47 then ur_tr_486 else if c = 58 then ur_tr_499 else if c = 61 then St 467 else if c = 63 then ur_tr_488 else
      if c = 64 then ur_tr_38 else if c = 95 then St 467 else if c = 126 then St 467 else
      if c < 65 then (if 36 \<le> c \<and> c \<le> 59 then St 467 else
       St 0) else
      if c > 90 then (if 97 \<le> c \<and> c \<le> 122 then St 467 else
       St 0) else
      St 467)"

definition ur_case_495 :: "int \<Rightarrow> ur_action goto" where
  "ur_case_495 c =
     (if c = 2 then St 21 else if c = 33 then St 467 else if c = 35 then ur_tr_485 else if c = 37 then St 31 else
      if c = 47 then ur_tr_486 else if c = 58 then ur_tr_499 else if c = 61 then St 467 else if c = 63 then ur_tr_488 else
      if c = 64 then ur_tr_38 else if c = 95 then St 467 else if c = 126 then St 467 else
      if c < 65 then (if 36 \<le> c \<and> c \<le> 59 then St 467 else
       St 0) else
      if c > 90 then (if 97 \<le> c \<and> c \<le> 122 then St 467 else
       St 0) else
      St 467)"

definition ur_case_496 :: "int \<Rightarrow> ur_action goto" where
  "ur_case_496 c =
     (if c = 33 then St 467 else if c = 35 then ur_tr_485 else if c = 37 then St 31 else if c = 46 then St 495 else
      if c = 47 then ur_tr_486 else if c = 58 then ur_tr_499 else if c = 59 then St 467 else if c = 61 then St 467 else
      if c = 63 then ur_tr_488 else if c = 64 then ur_tr_38 else if c = 95 then St 467 else if c = 126 then St 467 else

      if c < 48 then (if 36 \<le> c \<and> c \<le> 45 then St 467 else
       St 0) else
      if c > 57 then (if c > 90 then (if 97 \<le> c \<and> c \<le> 122 then St 467 else
        St 0) else
       if c \<ge> 65 then St 467 else
       St 0) else
      St 497)"

definition ur_case_497 :: "int \<Rightarrow> ur_action goto" where
  "ur_case_497 c =
     (if c = 33 then St 467 else if c = 35 then ur_tr_485 else if c = 37 then St 31 else if c = 46 then St 495 else
      if c = 47 then ur_tr_486 else if c = 58 then ur_tr_499 else if c = 59 then St 467 else if c = 61 then St 467 else
      if c = 63 then ur_tr_488 else if c = 64 then ur_tr_38 else if c = 95 then St 467 else if c = 126 then St 467 else

      if c < 48 then (if 36 \<le> c \<and> c \<le> 45 then St 467 else
       St 0) else
      if c > 57 then (if c > 90 then (if 97 \<le> c \<and> c \<le> 122 then St 467 else
        St 0) else
       if c \<ge> 65 then St 467 else
       St 0) else
      St 494)"

definition ur_case_498 :: "int \<Rightarrow> ur_action goto" where
  "ur_case_498 c =
     (if c = 33 then St 467 else if c = 35 then ur_tr_485 else if c = 37 then St 31 else if c = 46 then St 495 else
      if c = 47 then ur_tr_486 else if c = 53 then St 499 else if c = 58 then ur_tr_499 else if c = 59 then St 467 else
      if c = 61 then St 467 else if c = 63 then ur_tr_488 else if c = 64 then ur_tr_38 else if c = 95 then St 467 else
      if c = 126 then St 467 else
      if c < 48 then (if 36 \<le> c \<and> c \<le> 45 then St 467 else
       St 0) else
      if c > 57 then (if c > 90 then (if 97 \<le> c \<and> c \<le> 122 then St 467 else
        St 0) else
       if c \<ge> 65 then St 467 else
       St 0) else
      St 494)"

definition ur_case_499 :: "int \<Rightarrow> ur_action goto" where
  "ur_case_499 c =
     (if c = 33 then St 467 else if c = 35 then ur_tr_485 else if c = 37 then St 31 else if c = 46 then St 495 else
      if c = 47 then ur_tr_486 else if c = 58 then ur_tr_499 else if c = 61 then St 467 else if c = 63 then ur_tr_488 else
      if c = 64 then ur_tr_38 else if c = 95 then St 467 else if c = 126 then St 467 else
      if c < 54 then (if c > 45 then (if 48 \<le> c \<and> c \<le> 53 then St 494 else
        St 0) else
       if c \<ge> 36 then St 467 else
       St 0) else
      if c > 59 then (if c > 90 then (if 97 \<le> c \<and> c \<le> 122 then St 467 else
        St 0) else
       if c \<ge> 65 then St 467 else
       St 0) else
      St 467)"

definition ur_case_500 :: "int \<Rightarrow> ur_action goto" where
  "ur_case_500 c =
     (if c = 33 then St 467 else if c = 35 then ur_tr_485 else if c = 37 then St 31 else if c = 46 then St 493 else
      if c = 47 then ur_tr_486 else if c = 58 then ur_tr_499 else if c = 59 then St 467 else if c = 61 then St 467 else
      if c = 63 then ur_tr_488 else if c = 64 then ur_tr_38 else if c = 95 then St 467 else if c = 126 then St 467 else

      if c < 48 then (if 36 \<le> c \<and> c \<le> 45 then St 467 else
       St 0) else
      if c > 57 then (if c > 90 then (if 97 \<le> c \<and> c \<le> 122 then St 467 else
        St 0) else
       if c \<ge> 65 then St 467 else
       St 0) else
      St 501)"

definition ur_case_501 :: "int \<Rightarrow> ur_action goto" where
  "ur_case_501 c =
     (if c = 33 then St 467 else if c = 35 then ur_tr_485 else if c = 37 then St 31 else if c = 46 then St 493 else
      if c = 47 then ur_tr_486 else if c = 58 then ur_tr_499 else if c = 59 then St 467 else if c = 61 then St 467 else
      if c = 63 then ur_tr_488 else if c = 64 then ur_tr_38 else if c = 95 then St 467 else if c = 126 then St 467 else

      if c < 48 then (if 36 \<le> c \<and> c \<le> 45 then St 467 else
       St 0) else
      if c > 57 then (if c > 90 then (if 97 \<le> c \<and> c \<le> 122 then St 467 else
        St 0) else
       if c \<ge> 65 then St 467 else
       St 0) else
      St 492)"

definition ur_case_502 :: "int \<Rightarrow> ur_action goto" where
  "ur_case_502 c =
     (if c = 33 then St 467 else if c = 35 then ur_tr_485 else if c = 37 then St 31 else if c = 46 then St 493 else
      if c = 47 then ur_tr_486 else if c = 53 then St 503 else if c = 58 then ur_tr_499 else if c = 59 then St 467 else
      if c = 61 then St 467 else if c = 63 then ur_tr_488 else if c = 64 then ur_tr_38 else if c = 95 then St 467 else
      if c = 126 then St 467 else
      if c < 48 then (if 36 \<le> c \<and> c \<le> 45 then St 467 else
       St 0) else
      if c > 57 then (if c > 90 then (if 97 \<le> c \<and> c \<le> 122 then St 467 else
        St 0) else
       if c \<ge> 65 then St 467 else
       St 0) else
      St 492)"

definition ur_case_503 :: "int \<Rightarrow> ur_action goto" where
  "ur_case_503 c =
     (if c = 33 then St 467 else if c = 35 then ur_tr_485 else if c = 37 then St 31 else if c = 46 then St 493 else
      if c = 47 then ur_tr_486 else if c = 58 then ur_tr_499 else if c = 61 then St 467 else if c = 63 then ur_tr_488 else
      if c = 64 then ur_tr_38 else if c = 95 then St 467 else if c = 126 then St 467 else
      if c < 54 then (if c > 45 then (if 48 \<le> c \<and> c \<le> 53 then St 492 else
        St 0) else
       if c \<ge> 36 then St 467 else
       St 0) else
      if c > 59 then (if c > 90 then (if 97 \<le> c \<and> c \<le> 122 then St 467 else
        St 0) else
       if c \<ge> 65 then St 467 else
       St 0) else
      St 467)"

definition ur_case_504 :: "int \<Rightarrow> ur_action goto" where
  "ur_case_504 c =
     (if c = 33 then St 467 else if c = 35 then ur_tr_485 else if c = 37 then St 31 else if c = 46 then St 491 else
      if c = 47 then ur_tr_486 else if c = 58 then ur_tr_499 else if c = 59 then St 467 else if c = 61 then St 467 else
      if c = 63 then ur_tr_488 else if c = 64 then ur_tr_38 else if c = 95 then St 467 else if c = 126 then St 467 else

      if c < 48 then (if 36 \<le> c \<and> c \<le> 45 then St 467 else
       St 0) else
      if c > 57 then (if c > 90 then (if 97 \<le> c \<and> c \<le> 122 then St 467 else
        St 0) else
       if c \<ge> 65 then St 467 else
       St 0) else
      St 505)"

definition ur_case_505 :: "int \<Rightarrow> ur_action goto" where
  "ur_case_505 c =
     (if c = 33 then St 467 else if c = 35 then ur_tr_485 else if c = 37 then St 31 else if c = 46 then St 491 else
      if c = 47 then ur_tr_486 else if c = 58 then ur_tr_499 else if c = 59 then St 467 else if c = 61 then St 467 else
      if c = 63 then ur_tr_488 else if c = 64 then ur_tr_38 else if c = 95 then St 467 else if c = 126 then St 467 else

      if c < 48 then (if 36 \<le> c \<and> c \<le> 45 then St 467 else
       St 0) else
      if c > 57 then (if c > 90 then (if 97 \<le> c \<and> c \<le> 122 then St 467 else
        St 0) else
       if c \<ge> 65 then St 467 else
       St 0) else
      St 490)"

definition ur_case_506 :: "int \<Rightarrow> ur_action goto" where
  "ur_case_506 c =
     (if c = 33 then St 467 else if c = 35 then ur_tr_485 else if c = 37 then St 31 else if c = 46 then St 491 else
      if c = 47 then ur_tr_486 else if c = 53 then St 507 else if c = 58 then ur_tr_499 else if c = 59 then St 467 else
      if c = 61 then St 467 else if c = 63 then ur_tr_488 else if c = 64 then ur_tr_38 else if c = 95 then St 467 else
      if c = 126 then St 467 else
      if c < 48 then (if 36 \<le> c \<and> c \<le> 45 then St 467 else
       St 0) else
      if c > 57 then (if c > 90 then (if 97 \<le> c \<and> c \<le> 122 then St 467 else
        St 0) else
       if c \<ge> 65 then St 467 else
       St 0) else
      St 490)"

definition ur_case_507 :: "int \<Rightarrow> ur_action goto" where
  "ur_case_507 c =
     (if c = 33 then St 467 else if c = 35 then ur_tr_485 else if c = 37 then St 31 else if c = 46 then St 491 else
      if c = 47 then ur_tr_486 else if c = 58 then ur_tr_499 else if c = 61 then St 467 else if c = 63 then ur_tr_488 else
      if c = 64 then ur_tr_38 else if c = 95 then St 467 else if c = 126 then St 467 else
      if c < 54 then (if c > 45 then (if 48 \<le> c \<and> c \<le> 53 then St 490 else
        St 0) else
       if c \<ge> 36 then St 467 else
       St 0) else
      if c > 59 then (if c > 90 then (if 97 \<le> c \<and> c \<le> 122 then St 467 else
        St 0) else
       if c \<ge> 65 then St 467 else
       St 0) else
      St 467)"

definition ur_case_508 :: "int \<Rightarrow> ur_action goto" where
  "ur_case_508 c =
     (if c = 34 then St 0 else if c = 35 then St 453 else if c = 37 then St 3 else if c = 43 then St 508 else
      if c = 47 then St 455 else if c = 58 then ur_tr_543 else if c = 60 then St 0 else if c = 62 then St 0 else
      if c = 63 then St 456 else if c = 96 then St 0 else if c = 127 then St 0 else
      if c < 65 then (if c > 32 then (if 45 \<le> c \<and> c \<le> 57 then St 508 else
        St 452) else
       if c \<ge> 0 then St 0 else
       St 452) else
      if c > 90 then (if c < 97 then (if 91 \<le> c \<and> c \<le> 94 then St 0 else
        St 452) else
       if c > 122 then (if 123 \<le> c \<and> c \<le> 125 then St 0 else
        St 452) else
       St 508) else
      St 508)"

definition ur_case_509 :: "int \<Rightarrow> ur_action goto" where
  "ur_case_509 c =
     (if c = 34 then St 0 else if c = 35 then St 453 else if c = 37 then St 5 else if c = 47 then St 510 else
      if c = 60 then St 0 else if c = 62 then St 0 else if c = 63 then St 456 else if c = 96 then St 0 else
      if c = 127 then St 0 else
      if c < 91 then (if 0 \<le> c \<and> c \<le> 32 then St 0 else
       St 455) else
      if c > 94 then (if 123 \<le> c \<and> c \<le> 125 then St 0 else
       St 455) else
      St 0)"

definition ur_case_510 :: "int \<Rightarrow> ur_action goto" where
  "ur_case_510 c =
     (if c = 34 then St 0 else if c = 35 then St 453 else if c = 37 then St 5 else if c = 47 then St 511 else
      if c = 60 then St 0 else if c = 62 then St 0 else if c = 63 then St 456 else if c = 96 then St 0 else
      if c = 127 then St 0 else
      if c < 91 then (if 0 \<le> c \<and> c \<le> 32 then St 0 else
       St 455) else
      if c > 94 then (if 123 \<le> c \<and> c \<le> 125 then St 0 else
       St 455) else
      St 0)"

definition ur_case_511 :: "int \<Rightarrow> ur_action goto" where
  "ur_case_511 c =
     (if c = 2 then ur_tr_546 else if c = 33 then ur_tr_547 else if c = 35 then ur_tr_548 else if c = 37 then ur_tr_549 else
      if c = 47 then ur_tr_550 else if c = 48 then ur_tr_551 else if c = 49 then ur_tr_552 else if c = 50 then ur_tr_553 else
      if c = 58 then ur_tr_555 else if c = 59 then ur_tr_547 else if c = 61 then ur_tr_547 else if c = 63 then ur_tr_556 else
      if c = 64 then ur_tr_557 else if c = 91 then ur_tr_558 else if c = 95 then ur_tr_547 else if c = 126 then ur_tr_547 else

      if c < 51 then (if 36 \<le> c \<and> c \<le> 46 then ur_tr_547 else
       St 0) else
      if c > 57 then (if c > 90 then (if 97 \<le> c \<and> c \<le> 122 then ur_tr_547 else
        St 0) else
       if c \<ge> 65 then ur_tr_547 else
       St 0) else
      ur_tr_554)"

definition ur_case_512 :: "int \<Rightarrow> ur_action goto" where
  "ur_case_512 c =
     (if c = 35 then ur_tr_559 else if c = 47 then ur_tr_560 else if c = 58 then ur_tr_561 else if c = 63 then ur_tr_562 else

      St 0)"

definition ur_case_513 :: "int \<Rightarrow> ur_action goto" where
  "ur_case_513 c =
     (if c = 34 then St 0 else if c = 35 then ur_tr_563 else if c = 37 then St 243 else if c = 60 then St 0 else
      if c = 62 then St 0 else if c = 63 then ur_tr_565 else if c = 96 then St 0 else if c = 127 then St 0 else

      if c < 91 then (if 0 \<le> c \<and> c \<le> 32 then St 0 else
       St 513) else
      if c > 94 then (if 123 \<le> c \<and> c \<le> 125 then St 0 else
       St 513) else
      St 0)"

definition ur_case_514 :: "int \<Rightarrow> ur_action goto" where
  "ur_case_514 c =
     (if c = 35 then ur_tr_566 else if c = 47 then ur_tr_567 else if c = 63 then ur_tr_569 else
      if 48 \<le> c \<and> c \<le> 57 then ur_tr_568 else
      St 0)"

definition ur_case_515 :: "int \<Rightarrow> ur_action goto" where
  "ur_case_515 c =
     (if c = 35 then ur_tr_570 else if c = 47 then ur_tr_571 else if c = 63 then ur_tr_573 else
      if 48 \<le> c \<and> c \<le> 57 then St 515 else
      St 0)"

definition ur_case_516 :: "int \<Rightarrow> ur_action goto" where
  "ur_case_516 c =
     (if c = 35 then ur_tr_559 else if c = 47 then ur_tr_560 else if c = 58 then ur_tr_561 else if c = 63 then ur_tr_562 else

      if 48 \<le> c \<and> c \<le> 57 then St 517 else
      St 0)"

definition ur_case_517 :: "int \<Rightarrow> ur_action goto" where
  "ur_case_517 c =
     (if c = 35 then ur_tr_559 else if c = 47 then ur_tr_560 else if c = 58 then ur_tr_561 else if c = 63 then ur_tr_562 else

      if 48 \<le> c \<and> c \<le> 57 then St 512 else
      St 0)"

definition ur_case_518 :: "int \<Rightarrow> ur_action goto" where
  "ur_case_518 c =
     (if c = 35 then ur_tr_559 else if c = 47 then ur_tr_560 else if c = 53 then St 519 else if c = 58 then ur_tr_561 else
      if c = 63 then ur_tr_562 else
      if 48 \<le> c \<and> c \<le> 57 then St 512 else
      St 0)"

definition ur_case_519 :: "int \<Rightarrow> ur_action goto" where
  "ur_case_519 c =
     (if c = 35 then ur_tr_559 else if c = 47 then ur_tr_560 else if c = 58 then ur_tr_561 else if c = 63 then ur_tr_562 else

      if 48 \<le> c \<and> c \<le> 53 then St 512 else
      St 0)"

definition ur_case_520 :: "int \<Rightarrow> ur_action goto" where
  "ur_case_520 c =
     (if c = 33 then St 520 else if c = 35 then ur_tr_559 else if c = 37 then St 253 else if c = 47 then ur_tr_560 else
      if c = 58 then ur_tr_576 else if c = 61 then St 520 else if c = 63 then ur_tr_562 else if c = 64 then ur_tr_263 else
      if c = 95 then St 520 else if c = 126 then St 520 else
      if c < 65 then (if 36 \<le> c \<and> c \<le> 59 then St 520 else
       St 0) else
      if c > 90 then (if 97 \<le> c \<and> c \<le> 122 then St 520 else
       St 0) else
      St 520)"

definition ur_case_521 :: "int \<Rightarrow> ur_action goto" where
  "ur_case_521 c =
     (if c = 33 then St 255 else if c = 35 then ur_tr_566 else if c = 37 then St 256 else if c = 47 then ur_tr_567 else
      if c = 61 then St 255 else if c = 63 then ur_tr_569 else if c = 64 then ur_tr_263 else if c = 95 then St 255 else
      if c = 126 then St 255 else
      if c < 58 then (if c > 46 then (if 48 \<le> c \<and> c \<le> 57 then ur_tr_577 else
        St 0) else
       if c \<ge> 36 then St 255 else
       St 0) else
      if c > 59 then (if c > 90 then (if 97 \<le> c \<and> c \<le> 122 then St 255 else
        St 0) else
       if c \<ge> 65 then St 255 else
       St 0) else
      St 255)"

definition ur_case_522 :: "int \<Rightarrow> ur_action goto" where
  "ur_case_522 c =
     (if c = 2 then ur_tr_546 else if c = 33 then ur_tr_578 else if c = 35 then ur_tr_548 else if c = 37 then ur_tr_579 else
      if c = 47 then ur_tr_550 else if c = 48 then ur_tr_580 else if c = 49 then ur_tr_581 else if c = 50 then ur_tr_582 else
      if c = 58 then ur_tr_584 else if c = 59 then ur_tr_578 else if c = 61 then ur_tr_578 else if c = 63 then ur_tr_556 else
      if c = 91 then ur_tr_558 else if c = 95 then ur_tr_578 else if c = 126 then ur_tr_578 else
      if c < 51 then (if 36 \<le> c \<and> c \<le> 46 then ur_tr_578 else
       St 0) else
      if c > 57 then (if c > 90 then (if 97 \<le> c \<and> c \<le> 122 then ur_tr_578 else
        St 0) else
       if c \<ge> 65 then ur_tr_578 else
       St 0) else
      ur_tr_583)"

definition ur_case_523 :: "int \<Rightarrow> ur_action goto" where
  "ur_case_523 c =
     (if c = 33 then St 523 else if c = 35 then ur_tr_559 else if c = 37 then St 258 else if c = 47 then ur_tr_560 else
      if c = 58 then ur_tr_561 else if c = 61 then St 523 else if c = 63 then ur_tr_562 else if c = 95 then St 523 else
      if c = 126 then St 523 else
      if c < 65 then (if 36 \<le> c \<and> c \<le> 59 then St 523 else
       St 0) else
      if c > 90 then (if 97 \<le> c \<and> c \<le> 122 then St 523 else
       St 0) else
      St 523)"

definition ur_case_524 :: "int \<Rightarrow> ur_action goto" where
  "ur_case_524 c =
     (if c = 33 then St 523 else if c = 35 then ur_tr_559 else if c = 37 then St 258 else if c = 46 then St 525 else
      if c = 47 then ur_tr_560 else if c = 58 then ur_tr_561 else if c = 61 then St 523 else if c = 63 then ur_tr_562 else
      if c = 95 then St 523 else if c = 126 then St 523 else
      if c < 65 then (if 36 \<le> c \<and> c \<le> 59 then St 523 else
       St 0) else
      if c > 90 then (if 97 \<le> c \<and> c \<le> 122 then St 523 else
       St 0) else
      St 523)"

definition ur_case_525 :: "int \<Rightarrow> ur_action goto" where
  "ur_case_525 c =
     (if c = 2 then St 233 else if c = 33 then St 523 else if c = 35 then ur_tr_559 else if c = 37 then St 258 else
      if c = 47 then ur_tr_560 else if c = 48 then St 526 else if c = 49 then St 534 else if c = 50 then St 536 else
      if c = 58 then ur_tr_561 else if c = 59 then St 523 else if c = 61 then St 523 else if c = 63 then ur_tr_562 else
      if c = 95 then St 523 else if c = 126 then St 523 else
      if c < 51 then (if 36 \<le> c \<and> c \<le> 46 then St 523 else
       St 0) else
      if c > 57 then (if c > 90 then (if 97 \<le> c \<and> c \<le> 122 then St 523 else
        St 0) else
       if c \<ge> 65 then St 523 else
       St 0) else
      St 535)"

definition ur_case_526 :: "int \<Rightarrow> ur_action goto" where
  "ur_case_526 c =
     (if c = 33 then St 523 else if c = 35 then ur_tr_559 else if c = 37 then St 258 else if c = 46 then St 527 else
      if c = 47 then ur_tr_560 else if c = 58 then ur_tr_561 else if c = 61 then St 523 else if c = 63 then ur_tr_562 else
      if c = 95 then St 523 else if c = 126 then St 523 else
      if c < 65 then (if 36 \<le> c \<and> c \<le> 59 then St 523 else
       St 0) else
      if c > 90 then (if 97 \<le> c \<and> c \<le> 122 then St 523 else
       St 0) else
      St 523)"

definition ur_case_527 :: "int \<Rightarrow> ur_action goto" where
  "ur_case_527 c =
     (if c = 2 then St 237 else if c = 33 then St 523 else if c = 35 then ur_tr_559 else if c = 37 then St 258 else
      if c = 47 then ur_tr_560 else if c = 48 then St 528 else if c = 49 then St 530 else if c = 50 then St 532 else
      if c = 58 then ur_tr_561 else if c = 59 then St 523 else if c = 61 then St 523 else if c = 63 then ur_tr_562 else
      if c = 95 then St 523 else if c = 126 then St 523 else
      if c < 51 then (if 36 \<le> c \<and> c \<le> 46 then St 523 else
       St 0) else
      if c > 57 then (if c > 90 then (if 97 \<le> c \<and> c \<le> 122 then St 523 else
        St 0) else
       if c \<ge> 65 then St 523 else
       St 0) else
      St 531)"

definition ur_case_528 :: "int \<Rightarrow> ur_action goto" where
  "ur_case_528 c =
     (if c = 33 then St 523 else if c = 35 then ur_tr_559 else if c = 37 then St 258 else if c = 46 then St 529 else
      if c = 47 then ur_tr_560 else if c = 58 then ur_tr_561 else if c = 61 then St 523 else if c = 63 then ur_tr_562 else
      if c = 95 then St 523 else if c = 126 then St 523 else
      if c < 65 then (if 36 \<le> c \<and> c \<le> 59 then St 523 else
       St 0) else
      if c > 90 then (if 97 \<le> c \<and> c \<le> 122 then St 523 else
       St 0) else
      St 523)"

definition ur_case_529 :: "int \<Rightarrow> ur_action goto" where
  "ur_case_529 c =
     (if c = 2 then St 241 else if c = 33 then St 523 else if c = 35 then ur_tr_559 else if c = 37 then St 258 else
      if c = 47 then ur_tr_560 else if c = 58 then ur_tr_561 else if c = 61 then St 523 else if c = 63 then ur_tr_562 else
      if c = 95 then St 523 else if c = 126 then St 523 else
      if c < 65 then (if 36 \<le> c \<and> c \<le> 59 then St 523 else
       St 0) else
      if c > 90 then (if 97 \<le> c \<and> c \<le> 122 then St 523 else
       St 0) else
      St 523)"

definition ur_case_530 :: "int \<Rightarrow> ur_action goto" where
  "ur_case_530 c =
     (if c = 33 then St 523 else if c = 35 then ur_tr_559 else if c = 37 then St 258 else if c = 46 then St 529 else
      if c = 47 then ur_tr_560 else if c = 58 then ur_tr_561 else if c = 59 then St 523 else if c = 61 then St 523 else
      if c = 63 then ur_tr_562 else if c = 95 then St 523 else if c = 126 then St 523 else
      if c < 48 then (if 36 \<le> c \<and> c \<le> 45 then St 523 else
       St 0) else
      if c > 57 then (if c > 90 then (if 97 \<le> c \<and> c \<le> 122 then St 523 else
        St 0) else
       if c \<ge> 65 then St 523 else
       St 0) else
      St 531)"

definition ur_case_531 :: "int \<Rightarrow> ur_action goto" where
  "ur_case_531 c =
     (if c = 33 then St 523 else if c = 35 then ur_tr_559 else if c = 37 then St 258 else if c = 46 then St 529 else
      if c = 47 then ur_tr_560 else if c = 58 then ur_tr_561 else if c = 59 then St 523 else if c = 61 then St 523 else
      if c = 63 then ur_tr_562 else if c = 95 then St 523 else if c = 126 then St 523 else
      if c < 48 then (if 36 \<le> c \<and> c \<le> 45 then St 523 else
       St 0) else
      if c > 57 then (if c > 90 then (if 97 \<le> c \<and> c \<le> 122 then St 523 else
        St 0) else
       if c \<ge> 65 then St 523 else
       St 0) else
      St 528)"

definition ur_case_532 :: "int \<Rightarrow> ur_action goto" where
  "ur_case_532 c =
     (if c = 33 then St 523 else if c = 35 then ur_tr_559 else if c = 37 then St 258 else if c = 46 then St 529 else
      if c = 47 then ur_tr_560 else if c = 53 then St 533 else if c = 58 then ur_tr_561 else if c = 59 then St 523 else
      if c = 61 then St 523 else if c = 63 then ur_tr_562 else if c = 95 then St 523 else if c = 126 then St 523 else

      if c < 48 then (if 36 \<le> c \<and> c \<le> 45 then St 523 else
       St 0) else
      if c > 57 then (if c > 90 then (if 97 \<le> c \<and> c \<le> 122 then St 523 else
        St 0) else
       if c \<ge> 65 then St 523 else
       St 0) else
      St 528)"

definition ur_case_533 :: "int \<Rightarrow> ur_action goto" where
  "ur_case_533 c =
     (if c = 33 then St 523 else if c = 35 then ur_tr_559 else if c = 37 then St 258 else if c = 46 then St 529 else
      if c = 47 then ur_tr_560 else if c = 58 then ur_tr_561 else if c = 61 then St 523 else if c = 63 then ur_tr_562 else
      if c = 95 then St 523 else if c = 126 then St 523 else
      if c < 54 then (if c > 45 then (if 48 \<le> c \<and> c \<le> 53 then St 528 else
        St 0) else
       if c \<ge> 36 then St 523 else
       St 0) else
      if c > 59 then (if c > 90 then (if 97 \<le> c \<and> c \<le> 122 then St 523 else
        St 0) else
       if c \<ge> 65 then St 523 else
       St 0) else
      St 523)"

definition ur_case_534 :: "int \<Rightarrow> ur_action goto" where
  "ur_case_534 c =
     (if c = 33 then St 523 else if c = 35 then ur_tr_559 else if c = 37 then St 258 else if c = 46 then St 527 else
      if c = 47 then ur_tr_560 else if c = 58 then ur_tr_561 else if c = 59 then St 523 else if c = 61 then St 523 else
      if c = 63 then ur_tr_562 else if c = 95 then St 523 else if c = 126 then St 523 else
      if c < 48 then (if 36 \<le> c \<and> c \<le> 45 then St 523 else
       St 0) else
      if c > 57 then (if c > 90 then (if 97 \<le> c \<and> c \<le> 122 then St 523 else
        St 0) else
       if c \<ge> 65 then St 523 else
       St 0) else
      St 535)"

definition ur_case_535 :: "int \<Rightarrow> ur_action goto" where
  "ur_case_535 c =
     (if c = 33 then St 523 else if c = 35 then ur_tr_559 else if c = 37 then St 258 else if c = 46 then St 527 else
      if c = 47 then ur_tr_560 else if c = 58 then ur_tr_561 else if c = 59 then St 523 else if c = 61 then St 523 else
      if c = 63 then ur_tr_562 else if c = 95 then St 523 else if c = 126 then St 523 else
      if c < 48 then (if 36 \<le> c \<and> c \<le> 45 then St 523 else
       St 0) else
      if c > 57 then (if c > 90 then (if 97 \<le> c \<and> c \<le> 122 then St 523 else
        St 0) else
       if c \<ge> 65 then St 523 else
       St 0) else
      St 526)"

definition ur_case_536 :: "int \<Rightarrow> ur_action goto" where
  "ur_case_536 c =
     (if c = 33 then St 523 else if c = 35 then ur_tr_559 else if c = 37 then St 258 else if c = 46 then St 527 else
      if c = 47 then ur_tr_560 else if c = 53 then St 537 else if c = 58 then ur_tr_561 else if c = 59 then St 523 else
      if c = 61 then St 523 else if c = 63 then ur_tr_562 else if c = 95 then St 523 else if c = 126 then St 523 else

      if c < 48 then (if 36 \<le> c \<and> c \<le> 45 then St 523 else
       St 0) else
      if c > 57 then (if c > 90 then (if 97 \<le> c \<and> c \<le> 122 then St 523 else
        St 0) else
       if c \<ge> 65 then St 523 else
       St 0) else
      St 526)"

definition ur_case_537 :: "int \<Rightarrow> ur_action goto" where
  "ur_case_537 c =
     (if c = 33 then St 523 else if c = 35 then ur_tr_559 else if c = 37 then St 258 else if c = 46 then St 527 else
      if c = 47 then ur_tr_560 else if c = 58 then ur_tr_561 else if c = 61 then St 523 else if c = 63 then ur_tr_562 else
      if c = 95 then St 523 else if c = 126 then St 523 else
      if c < 54 then (if c > 45 then (if 48 \<le> c \<and> c \<le> 53 then St 526 else
        St 0) else
       if c \<ge> 36 then St 523 else
       St 0) else
      if c > 59 then (if c > 90 then (if 97 \<le> c \<and> c \<le> 122 then St 523 else
        St 0) else
       if c \<ge> 65 then St 523 else
       St 0) else
      St 523)"

definition ur_case_538 :: "int \<Rightarrow> ur_action goto" where
  "ur_case_538 c =
     (if c = 33 then St 523 else if c = 35 then ur_tr_559 else if c = 37 then St 258 else if c = 46 then St 525 else
      if c = 47 then ur_tr_560 else if c = 58 then ur_tr_561 else if c = 59 then St 523 else if c = 61 then St 523 else
      if c = 63 then ur_tr_562 else if c = 95 then St 523 else if c = 126 then St 523 else
      if c < 48 then (if 36 \<le> c \<and> c \<le> 45 then St 523 else
       St 0) else
      if c > 57 then (if c > 90 then (if 97 \<le> c \<and> c \<le> 122 then St 523 else
        St 0) else
       if c \<ge> 65 then St 523 else
       St 0) else
      St 539)"

definition ur_case_539 :: "int \<Rightarrow> ur_action goto" where
  "ur_case_539 c =
     (if c = 33 then St 523 else if c = 35 then ur_tr_559 else if c = 37 then St 258 else if c = 46 then St 525 else
      if c = 47 then ur_tr_560 else if c = 58 then ur_tr_561 else if c = 59 then St 523 else if c = 61 then St 523 else
      if c = 63 then ur_tr_562 else if c = 95 then St 523 else if c = 126 then St 523 else
      if c < 48 then (if 36 \<le> c \<and> c \<le> 45 then St 523 else
       St 0) else
      if c > 57 then (if c > 90 then (if 97 \<le> c \<and> c \<le> 122 then St 523 else
        St 0) else
       if c \<ge> 65 then St 523 else
       St 0) else
      St 524)"

definition ur_case_540 :: "int \<Rightarrow> ur_action goto" where
  "ur_case_540 c =
     (if c = 33 then St 523 else if c = 35 then ur_tr_559 else if c = 37 then St 258 else if c = 46 then St 525 else
      if c = 47 then ur_tr_560 else if c = 53 then St 541 else if c = 58 then ur_tr_561 else if c = 59 then St 523 else
      if c = 61 then St 523 else if c = 63 then ur_tr_562 else if c = 95 then St 523 else if c = 126 then St 523 else

      if c < 48 then (if 36 \<le> c \<and> c \<le> 45 then St 523 else
       St 0) else
      if c > 57 then (if c > 90 then (if 97 \<le> c \<and> c \<le> 122 then St 523 else
        St 0) else
       if c \<ge> 65 then St 523 else
       St 0) else
      St 524)"

definition ur_case_541 :: "int \<Rightarrow> ur_action goto" where
  "ur_case_541 c =
     (if c = 33 then St 523 else if c = 35 then ur_tr_559 else if c = 37 then St 258 else if c = 46 then St 525 else
      if c = 47 then ur_tr_560 else if c = 58 then ur_tr_561 else if c = 61 then St 523 else if c = 63 then ur_tr_562 else
      if c = 95 then St 523 else if c = 126 then St 523 else
      if c < 54 then (if c > 45 then (if 48 \<le> c \<and> c \<le> 53 then St 524 else
        St 0) else
       if c \<ge> 36 then St 523 else
       St 0) else
      if c > 59 then (if c > 90 then (if 97 \<le> c \<and> c \<le> 122 then St 523 else
        St 0) else
       if c \<ge> 65 then St 523 else
       St 0) else
      St 523)"

definition ur_case_542 :: "int \<Rightarrow> ur_action goto" where
  "ur_case_542 c =
     (if c = 33 then St 255 else if c = 35 then ur_tr_570 else if c = 37 then St 256 else if c = 47 then ur_tr_571 else
      if c = 61 then St 255 else if c = 63 then ur_tr_573 else if c = 64 then ur_tr_263 else if c = 95 then St 255 else
      if c = 126 then St 255 else
      if c < 58 then (if c > 46 then (if 48 \<le> c \<and> c \<le> 57 then St 542 else
        St 0) else
       if c \<ge> 36 then St 255 else
       St 0) else
      if c > 59 then (if c > 90 then (if 97 \<le> c \<and> c \<le> 122 then St 255 else
        St 0) else
       if c \<ge> 65 then St 255 else
       St 0) else
      St 255)"

definition ur_case_543 :: "int \<Rightarrow> ur_action goto" where
  "ur_case_543 c =
     (if c = 33 then St 520 else if c = 35 then ur_tr_559 else if c = 37 then St 253 else if c = 46 then St 544 else
      if c = 47 then ur_tr_560 else if c = 58 then ur_tr_576 else if c = 61 then St 520 else if c = 63 then ur_tr_562 else
      if c = 64 then ur_tr_263 else if c = 95 then St 520 else if c = 126 then St 520 else
      if c < 65 then (if 36 \<le> c \<and> c \<le> 59 then St 520 else
       St 0) else
      if c > 90 then (if 97 \<le> c \<and> c \<le> 122 then St 520 else
       St 0) else
      St 520)"

definition ur_case_544 :: "int \<Rightarrow> ur_action goto" where
  "ur_case_544 c =
     (if c = 2 then St 233 else if c = 33 then St 520 else if c = 35 then ur_tr_559 else if c = 37 then St 253 else
      if c = 47 then ur_tr_560 else if c = 48 then St 545 else if c = 49 then St 553 else if c = 50 then St 555 else
      if c = 58 then ur_tr_576 else if c = 59 then St 520 else if c = 61 then St 520 else if c = 63 then ur_tr_562 else
      if c = 64 then ur_tr_263 else if c = 95 then St 520 else if c = 126 then St 520 else
      if c < 51 then (if 36 \<le> c \<and> c \<le> 46 then St 520 else
       St 0) else
      if c > 57 then (if c > 90 then (if 97 \<le> c \<and> c \<le> 122 then St 520 else
        St 0) else
       if c \<ge> 65 then St 520 else
       St 0) else
      St 554)"

definition ur_case_545 :: "int \<Rightarrow> ur_action goto" where
  "ur_case_545 c =
     (if c = 33 then St 520 else if c = 35 then ur_tr_559 else if c = 37 then St 253 else if c = 46 then St 546 else
      if c = 47 then ur_tr_560 else if c = 58 then ur_tr_576 else if c = 61 then St 520 else if c = 63 then ur_tr_562 else
      if c = 64 then ur_tr_263 else if c = 95 then St 520 else if c = 126 then St 520 else
      if c < 65 then (if 36 \<le> c \<and> c \<le> 59 then St 520 else
       St 0) else
      if c > 90 then (if 97 \<le> c \<and> c \<le> 122 then St 520 else
       St 0) else
      St 520)"

definition ur_case_546 :: "int \<Rightarrow> ur_action goto" where
  "ur_case_546 c =
     (if c = 2 then St 237 else if c = 33 then St 520 else if c = 35 then ur_tr_559 else if c = 37 then St 253 else
      if c = 47 then ur_tr_560 else if c = 48 then St 547 else if c = 49 then St 549 else if c = 50 then St 551 else
      if c = 58 then ur_tr_576 else if c = 59 then St 520 else if c = 61 then St 520 else if c = 63 then ur_tr_562 else
      if c = 64 then ur_tr_263 else if c = 95 then St 520 else if c = 126 then St 520 else
      if c < 51 then (if 36 \<le> c \<and> c \<le> 46 then St 520 else
       St 0) else
      if c > 57 then (if c > 90 then (if 97 \<le> c \<and> c \<le> 122 then St 520 else
        St 0) else
       if c \<ge> 65 then St 520 else
       St 0) else
      St 550)"

definition ur_case_547 :: "int \<Rightarrow> ur_action goto" where
  "ur_case_547 c =
     (if c = 33 then St 520 else if c = 35 then ur_tr_559 else if c = 37 then St 253 else if c = 46 then St 548 else
      if c = 47 then ur_tr_560 else if c = 58 then ur_tr_576 else if c = 61 then St 520 else if c = 63 then ur_tr_562 else
      if c = 64 then ur_tr_263 else if c = 95 then St 520 else if c = 126 then St 520 else
      if c < 65 then (if 36 \<le> c \<and> c \<le> 59 then St 520 else
       St 0) else
      if c > 90 then (if 97 \<le> c \<and> c \<le> 122 then St 520 else
       St 0) else
      St 520)"

definition ur_case_548 :: "int \<Rightarrow> ur_action goto" where
  "ur_case_548 c =
     (if c = 2 then St 241 else if c = 33 then St 520 else if c = 35 then ur_tr_559 else if c = 37 then St 253 else
      if c = 47 then ur_tr_560 else if c = 58 then ur_tr_576 else if c = 61 then St 520 else if c = 63 then ur_tr_562 else
      if c = 64 then ur_tr_263 else if c = 95 then St 520 else if c = 126 then St 520 else
      if c < 65 then (if 36 \<le> c \<and> c \<le> 59 then St 520 else
       St 0) else
      if c > 90 then (if 97 \<le> c \<and> c \<le> 122 then St 520 else
       St 0) else
      St 520)"

definition ur_case_549 :: "int \<Rightarrow> ur_action goto" where
  "ur_case_549 c =
     (if c = 33 then St 520 else if c = 35 then ur_tr_559 else if c = 37 then St 253 else if c = 46 then St 548 else
      if c = 47 then ur_tr_560 else if c = 58 then ur_tr_576 else if c = 59 then St 520 else if c = 61 then St 520 else
      if c = 63 then ur_tr_562 else if c = 64 then ur_tr_263 else if c = 95 then St 520 else if c = 126 then St 520 else

      if c < 48 then (if 36 \<le> c \<and> c \<le> 45 then St 520 else
       St 0) else
      if c > 57 then (if c > 90 then (if 97 \<le> c \<and> c \<le> 122 then St 520 else
        St 0) else
       if c \<ge> 65 then St 520 else
       St 0) else
      St 550)"

definition ur_case_550 :: "int \<Rightarrow> ur_action goto" where
  "ur_case_550 c =
     (if c = 33 then St 520 else if c = 35 then ur_tr_559 else if c = 37 then St 253 else if c = 46 then St 548 else
      if c = 47 then ur_tr_560 else if c = 58 then ur_tr_576 else if c = 59 then St 520 else if c = 61 then St 520 else
      if c = 63 then ur_tr_562 else if c = 64 then ur_tr_263 else if c = 95 then St 520 else if c = 126 then St 520 else

      if c < 48 then (if 36 \<le> c \<and> c \<le> 45 then St 520 else
       St 0) else
      if c > 57 then (if c > 90 then (if 97 \<le> c \<and> c \<le> 122 then St 520 else
        St 0) else
       if c \<ge> 65 then St 520 else
       St 0) else
      St 547)"

definition ur_case_551 :: "int \<Rightarrow> ur_action goto" where
  "ur_case_551 c =
     (if c = 33 then St 520 else if c = 35 then ur_tr_559 else if c = 37 then St 253 else if c = 46 then St 548 else
      if c = 47 then ur_tr_560 else if c = 53 then St 552 else if c = 58 then ur_tr_576 else if c = 59 then St 520 else
      if c = 61 then St 520 else if c = 63 then ur_tr_562 else if c = 64 then ur_tr_263 else if c = 95 then St 520 else
      if c = 126 then St 520 else
      if c < 48 then (if 36 \<le> c \<and> c \<le> 45 then St 520 else
       St 0) else
      if c > 57 then (if c > 90 then (if 97 \<le> c \<and> c \<le> 122 then St 520 else
        St 0) else
       if c \<ge> 65 then St 520 else
       St 0) else
      St 547)"

definition ur_case_552 :: "int \<Rightarrow> ur_action goto" where
  "ur_case_552 c =
     (if c = 33 then St 520 else if c = 35 then ur_tr_559 else if c = 37 then St 253 else if c = 46 then St 548 else
      if c = 47 then ur_tr_560 else if c = 58 then ur_tr_576 else if c = 61 then St 520 else if c = 63 then ur_tr_562 else
      if c = 64 then ur_tr_263 else if c = 95 then St 520 else if c = 126 then St 520 else
      if c < 54 then (if c > 45 then (if 48 \<le> c \<and> c \<le> 53 then St 547 else
        St 0) else
       if c \<ge> 36 then St 520 else
       St 0) else
      if c > 59 then (if c > 90 then (if 97 \<le> c \<and> c \<le> 122 then St 520 else
        St 0) else
       if c \<ge> 65 then St 520 else
       St 0) else
      St 520)"

definition ur_case_553 :: "int \<Rightarrow> ur_action goto" where
  "ur_case_553 c =
     (if c = 33 then St 520 else if c = 35 then ur_tr_559 else if c = 37 then St 253 else if c = 46 then St 546 else
      if c = 47 then ur_tr_560 else if c = 58 then ur_tr_576 else if c = 59 then St 520 else if c = 61 then St 520 else
      if c = 63 then ur_tr_562 else if c = 64 then ur_tr_263 else if c = 95 then St 520 else if c = 126 then St 520 else

      if c < 48 then (if 36 \<le> c \<and> c \<le> 45 then St 520 else
       St 0) else
      if c > 57 then (if c > 90 then (if 97 \<le> c \<and> c \<le> 122 then St 520 else
        St 0) else
       if c \<ge> 65 then St 520 else
       St 0) else
      St 554)"

definition ur_case_554 :: "int \<Rightarrow> ur_action goto" where
  "ur_case_554 c =
     (if c = 33 then St 520 else if c = 35 then ur_tr_559 else if c = 37 then St 253 else if c = 46 then St 546 else
      if c = 47 then ur_tr_560 else if c = 58 then ur_tr_576 else if c = 59 then St 520 else if c = 61 then St 520 else
      if c = 63 then ur_tr_562 else if c = 64 then ur_tr_263 else if c = 95 then St 520 else if c = 126 then St 520 else

      if c < 48 then (if 36 \<le> c \<and> c \<le> 45 then St 520 else
       St 0) else
      if c > 57 then (if c > 90 then (if 97 \<le> c \<and> c \<le> 122 then St 520 else
        St 0) else
       if c \<ge> 65 then St 520 else
       St 0) else
      St 545)"

definition ur_case_555 :: "int \<Rightarrow> ur_action goto" where
  "ur_case_555 c =
     (if c = 33 then St 520 else if c = 35 then ur_tr_559 else if c = 37 then St 253 else if c = 46 then St 546 else
      if c = 47 then ur_tr_560 else if c = 53 then St 556 else if c = 58 then ur_tr_576 else if c = 59 then St 520 else
      if c = 61 then St 520 else if c = 63 then ur_tr_562 else if c = 64 then ur_tr_263 else if c = 95 then St 520 else
      if c = 126 then St 520 else
      if c < 48 then (if 36 \<le> c \<and> c \<le> 45 then St 520 else
       St 0) else
      if c > 57 then (if c > 90 then (if 97 \<le> c \<and> c \<le> 122 then St 520 else
        St 0) else
       if c \<ge> 65 then St 520 else
       St 0) else
      St 545)"

definition ur_case_556 :: "int \<Rightarrow> ur_action goto" where
  "ur_case_556 c =
     (if c = 33 then St 520 else if c = 35 then ur_tr_559 else if c = 37 then St 253 else if c = 46 then St 546 else
      if c = 47 then ur_tr_560 else if c = 58 then ur_tr_576 else if c = 61 then St 520 else if c = 63 then ur_tr_562 else
      if c = 64 then ur_tr_263 else if c = 95 then St 520 else if c = 126 then St 520 else
      if c < 54 then (if c > 45 then (if 48 \<le> c \<and> c \<le> 53 then St 545 else
        St 0) else
       if c \<ge> 36 then St 520 else
       St 0) else
      if c > 59 then (if c > 90 then (if 97 \<le> c \<and> c \<le> 122 then St 520 else
        St 0) else
       if c \<ge> 65 then St 520 else
       St 0) else
      St 520)"

definition ur_case_557 :: "int \<Rightarrow> ur_action goto" where
  "ur_case_557 c =
     (if c = 33 then St 520 else if c = 35 then ur_tr_559 else if c = 37 then St 253 else if c = 46 then St 544 else
      if c = 47 then ur_tr_560 else if c = 58 then ur_tr_576 else if c = 59 then St 520 else if c = 61 then St 520 else
      if c = 63 then ur_tr_562 else if c = 64 then ur_tr_263 else if c = 95 then St 520 else if c = 126 then St 520 else

      if c < 48 then (if 36 \<le> c \<and> c \<le> 45 then St 520 else
       St 0) else
      if c > 57 then (if c > 90 then (if 97 \<le> c \<and> c \<le> 122 then St 520 else
        St 0) else
       if c \<ge> 65 then St 520 else
       St 0) else
      St 558)"

definition ur_case_558 :: "int \<Rightarrow> ur_action goto" where
  "ur_case_558 c =
     (if c = 33 then St 520 else if c = 35 then ur_tr_559 else if c = 37 then St 253 else if c = 46 then St 544 else
      if c = 47 then ur_tr_560 else if c = 58 then ur_tr_576 else if c = 59 then St 520 else if c = 61 then St 520 else
      if c = 63 then ur_tr_562 else if c = 64 then ur_tr_263 else if c = 95 then St 520 else if c = 126 then St 520 else

      if c < 48 then (if 36 \<le> c \<and> c \<le> 45 then St 520 else
       St 0) else
      if c > 57 then (if c > 90 then (if 97 \<le> c \<and> c \<le> 122 then St 520 else
        St 0) else
       if c \<ge> 65 then St 520 else
       St 0) else
      St 543)"

definition ur_case_559 :: "int \<Rightarrow> ur_action goto" where
  "ur_case_559 c =
     (if c = 33 then St 520 else if c = 35 then ur_tr_559 else if c = 37 then St 253 else if c = 46 then St 544 else
      if c = 47 then ur_tr_560 else if c = 53 then St 560 else if c = 58 then ur_tr_576 else if c = 59 then St 520 else
      if c = 61 then St 520 else if c = 63 then ur_tr_562 else if c = 64 then ur_tr_263 else if c = 95 then St 520 else
      if c = 126 then St 520 else
      if c < 48 then (if 36 \<le> c \<and> c \<le> 45 then St 520 else
       St 0) else
      if c > 57 then (if c > 90 then (if 97 \<le> c \<and> c \<le> 122 then St 520 else
        St 0) else
       if c \<ge> 65 then St 520 else
       St 0) else
      St 543)"

definition ur_case_560 :: "int \<Rightarrow> ur_action goto" where
  "ur_case_560 c =
     (if c = 33 then St 520 else if c = 35 then ur_tr_559 else if c = 37 then St 253 else if c = 46 then St 544 else
      if c = 47 then ur_tr_560 else if c = 58 then ur_tr_576 else if c = 61 then St 520 else if c = 63 then ur_tr_562 else
      if c = 64 then ur_tr_263 else if c = 95 then St 520 else if c = 126 then St 520 else
      if c < 54 then (if c > 45 then (if 48 \<le> c \<and> c \<le> 53 then St 543 else
        St 0) else
       if c \<ge> 36 then St 520 else
       St 0) else
      if c > 59 then (if c > 90 then (if 97 \<le> c \<and> c \<le> 122 then St 520 else
        St 0) else
       if c \<ge> 65 then St 520 else
       St 0) else
      St 520)"

text \<open>\<^verbatim>\<open>switch ( cs )\<close>. There is no state outside the table: the label is never reached with one.\<close>

definition ur_case :: "nat \<Rightarrow> int \<Rightarrow> ur_action goto" where
  "ur_case n c =
     (if n = 0 \<or> 560 < n then St 0 else
      if n < 281 then (if n < 141 then (if n < 71 then (if n < 36 then (if n < 18 then (if n < 9 then (if n < 5 then (if n < 3 then (if n < 2 then ur_case_1 c else
              ur_case_2 c) else
             if n < 4 then ur_case_3 c else
              ur_case_4 c) else
            if n < 7 then (if n < 6 then ur_case_5 c else
              ur_case_6 c) else
             if n < 8 then ur_case_7 c else
              ur_case_8 c) else
           if n < 13 then (if n < 11 then (if n < 10 then ur_case_9 c else
              ur_case_10 c) else
             if n < 12 then ur_case_11 c else
              ur_case_12 c) else
            if n < 15 then (if n < 14 then ur_case_13 c else
              ur_case_14 c) else
             if n < 16 then ur_case_15 c else
              if n < 17 then ur_case_16 c else
               ur_case_17 c) else
          if n < 27 then (if n < 22 then (if n < 20 then (if n < 19 then ur_case_18 c else
              ur_case_19 c) else
             if n < 21 then ur_case_20 c else
              ur_case_21 c) else
            if n < 24 then (if n < 23 then ur_case_22 c else
              ur_case_23 c) else
             if n < 25 then ur_case_24 c else
              if n < 26 then ur_case_25 c else
               ur_case_26 c) else
           if n < 31 then (if n < 29 then (if n < 28 then ur_case_27 c else
              ur_case_28 c) else
             if n < 30 then ur_case_29 c else
              ur_case_30 c) else
            if n < 33 then (if n < 32 then ur_case_31 c else
              ur_case_32 c) else
             if n < 34 then ur_case_33 c else
              if n < 35 then ur_case_34 c else
               ur_case_35 c) else
         if n < 53 then (if n < 44 then (if n < 40 then (if n < 38 then (if n < 37 then ur_case_36 c else
              ur_case_37 c) else
             if n < 39 then ur_case_38 c else
              ur_case_39 c) else
            if n < 42 then (if n < 41 then ur_case_40 c else
              ur_case_41 c) else
             if n < 43 then ur_case_42 c else
              ur_case_43 c) else
           if n < 48 then (if n < 46 then (if n < 45 then ur_case_44 c else
              ur_case_45 c) else
             if n < 47 then ur_case_46 c else
              ur_case_47 c) else
            if n < 50 then (if n < 49 then ur_case_48 c else
              ur_case_49 c) else
             if n < 51 then ur_case_50 c else
              if n < 52 then ur_case_51 c else
               ur_case_52 c) else
          if n < 62 then (if n < 57 then (if n < 55 then (if n < 54 then ur_case_53 c else
              ur_case_54 c) else
             if n < 56 then ur_case_55 c else
              ur_case_56 c) else
            if n < 59 then (if n < 58 then ur_case_57 c else
              ur_case_58 c) else
             if n < 60 then ur_case_59 c else
              if n < 61 then ur_case_60 c else
               ur_case_61 c) else
           if n < 66 then (if n < 64 then (if n < 63 then ur_case_62 c else
              ur_case_63 c) else
             if n < 65 then ur_case_64 c else
              ur_case_65 c) else
            if n < 68 then (if n < 67 then ur_case_66 c else
              ur_case_67 c) else
             if n < 69 then ur_case_68 c else
              if n < 70 then ur_case_69 c else
               ur_case_70 c) else
        if n < 106 then (if n < 88 then (if n < 79 then (if n < 75 then (if n < 73 then (if n < 72 then ur_case_71 c else
              ur_case_72 c) else
             if n < 74 then ur_case_73 c else
              ur_case_74 c) else
            if n < 77 then (if n < 76 then ur_case_75 c else
              ur_case_76 c) else
             if n < 78 then ur_case_77 c else
              ur_case_78 c) else
           if n < 83 then (if n < 81 then (if n < 80 then ur_case_79 c else
              ur_case_80 c) else
             if n < 82 then ur_case_81 c else
              ur_case_82 c) else
            if n < 85 then (if n < 84 then ur_case_83 c else
              ur_case_84 c) else
             if n < 86 then ur_case_85 c else
              if n < 87 then ur_case_86 c else
               ur_case_87 c) else
          if n < 97 then (if n < 92 then (if n < 90 then (if n < 89 then ur_case_88 c else
              ur_case_89 c) else
             if n < 91 then ur_case_90 c else
              ur_case_91 c) else
            if n < 94 then (if n < 93 then ur_case_92 c else
              ur_case_93 c) else
             if n < 95 then ur_case_94 c else
              if n < 96 then ur_case_95 c else
               ur_case_96 c) else
           if n < 101 then (if n < 99 then (if n < 98 then ur_case_97 c else
              ur_case_98 c) else
             if n < 100 then ur_case_99 c else
              ur_case_100 c) else
            if n < 103 then (if n < 102 then ur_case_101 c else
              ur_case_102 c) else
             if n < 104 then ur_case_103 c else
              if n < 105 then ur_case_104 c else
               ur_case_105 c) else
         if n < 123 then (if n < 114 then (if n < 110 then (if n < 108 then (if n < 107 then ur_case_106 c else
              ur_case_107 c) else
             if n < 109 then ur_case_108 c else
              ur_case_109 c) else
            if n < 112 then (if n < 111 then ur_case_110 c else
              ur_case_111 c) else
             if n < 113 then ur_case_112 c else
              ur_case_113 c) else
           if n < 118 then (if n < 116 then (if n < 115 then ur_case_114 c else
              ur_case_115 c) else
             if n < 117 then ur_case_116 c else
              ur_case_117 c) else
            if n < 120 then (if n < 119 then ur_case_118 c else
              ur_case_119 c) else
             if n < 121 then ur_case_120 c else
              if n < 122 then ur_case_121 c else
               ur_case_122 c) else
          if n < 132 then (if n < 127 then (if n < 125 then (if n < 124 then ur_case_123 c else
              ur_case_124 c) else
             if n < 126 then ur_case_125 c else
              ur_case_126 c) else
            if n < 129 then (if n < 128 then ur_case_127 c else
              ur_case_128 c) else
             if n < 130 then ur_case_129 c else
              if n < 131 then ur_case_130 c else
               ur_case_131 c) else
           if n < 136 then (if n < 134 then (if n < 133 then ur_case_132 c else
              ur_case_133 c) else
             if n < 135 then ur_case_134 c else
              ur_case_135 c) else
            if n < 138 then (if n < 137 then ur_case_136 c else
              ur_case_137 c) else
             if n < 139 then ur_case_138 c else
              if n < 140 then ur_case_139 c else
               ur_case_140 c) else
       if n < 211 then (if n < 176 then (if n < 158 then (if n < 149 then (if n < 145 then (if n < 143 then (if n < 142 then ur_case_141 c else
              ur_case_142 c) else
             if n < 144 then ur_case_143 c else
              ur_case_144 c) else
            if n < 147 then (if n < 146 then ur_case_145 c else
              ur_case_146 c) else
             if n < 148 then ur_case_147 c else
              ur_case_148 c) else
           if n < 153 then (if n < 151 then (if n < 150 then ur_case_149 c else
              ur_case_150 c) else
             if n < 152 then ur_case_151 c else
              ur_case_152 c) else
            if n < 155 then (if n < 154 then ur_case_153 c else
              ur_case_154 c) else
             if n < 156 then ur_case_155 c else
              if n < 157 then ur_case_156 c else
               ur_case_157 c) else
          if n < 167 then (if n < 162 then (if n < 160 then (if n < 159 then ur_case_158 c else
              ur_case_159 c) else
             if n < 161 then ur_case_160 c else
              ur_case_161 c) else
            if n < 164 then (if n < 163 then ur_case_162 c else
              ur_case_163 c) else
             if n < 165 then ur_case_164 c else
              if n < 166 then ur_case_165 c else
               ur_case_166 c) else
           if n < 171 then (if n < 169 then (if n < 168 then ur_case_167 c else
              ur_case_168 c) else
             if n < 170 then ur_case_169 c else
              ur_case_170 c) else
            if n < 173 then (if n < 172 then ur_case_171 c else
              ur_case_172 c) else
             if n < 174 then ur_case_173 c else
              if n < 175 then ur_case_174 c else
               ur_case_175 c) else
         if n < 193 then (if n < 184 then (if n < 180 then (if n < 178 then (if n < 177 then ur_case_176 c else
              ur_case_177 c) else
             if n < 179 then ur_case_178 c else
              ur_case_179 c) else
            if n < 182 then (if n < 181 then ur_case_180 c else
              ur_case_181 c) else
             if n < 183 then ur_case_182 c else
              ur_case_183 c) else
           if n < 188 then (if n < 186 then (if n < 185 then ur_case_184 c else
              ur_case_185 c) else
             if n < 187 then ur_case_186 c else
              ur_case_187 c) else
            if n < 190 then (if n < 189 then ur_case_188 c else
              ur_case_189 c) else
             if n < 191 then ur_case_190 c else
              if n < 192 then ur_case_191 c else
               ur_case_192 c) else
          if n < 202 then (if n < 197 then (if n < 195 then (if n < 194 then ur_case_193 c else
              ur_case_194 c) else
             if n < 196 then ur_case_195 c else
              ur_case_196 c) else
            if n < 199 then (if n < 198 then ur_case_197 c else
              ur_case_198 c) else
             if n < 200 then ur_case_199 c else
              if n < 201 then ur_case_200 c else
               ur_case_201 c) else
           if n < 206 then (if n < 204 then (if n < 203 then ur_case_202 c else
              ur_case_203 c) else
             if n < 205 then ur_case_204 c else
              ur_case_205 c) else
            if n < 208 then (if n < 207 then ur_case_206 c else
              ur_case_207 c) else
             if n < 209 then ur_case_208 c else
              if n < 210 then ur_case_209 c else
               ur_case_210 c) else
        if n < 246 then (if n < 228 then (if n < 219 then (if n < 215 then (if n < 213 then (if n < 212 then ur_case_211 c else
              ur_case_212 c) else
             if n < 214 then ur_case_213 c else
              ur_case_214 c) else
            if n < 217 then (if n < 216 then ur_case_215 c else
              ur_case_216 c) else
             if n < 218 then ur_case_217 c else
              ur_case_218 c) else
           if n < 223 then (if n < 221 then (if n < 220 then ur_case_219 c else
              ur_case_220 c) else
             if n < 222 then ur_case_221 c else
              ur_case_222 c) else
            if n < 225 then (if n < 224 then ur_case_223 c else
              ur_case_224 c) else
             if n < 226 then ur_case_225 c else
              if n < 227 then ur_case_226 c else
               ur_case_227 c) else
          if n < 237 then (if n < 232 then (if n < 230 then (if n < 229 then ur_case_228 c else
              ur_case_229 c) else
             if n < 231 then ur_case_230 c else
              ur_case_231 c) else
            if n < 234 then (if n < 233 then ur_case_232 c else
              ur_case_233 c) else
             if n < 235 then ur_case_234 c else
              if n < 236 then ur_case_235 c else
               ur_case_236 c) else
           if n < 241 then (if n < 239 then (if n < 238 then ur_case_237 c else
              ur_case_238 c) else
             if n < 240 then ur_case_239 c else
              ur_case_240 c) else
            if n < 243 then (if n < 242 then ur_case_241 c else
              ur_case_242 c) else
             if n < 244 then ur_case_243 c else
              if n < 245 then ur_case_244 c else
               ur_case_245 c) else
         if n < 263 then (if n < 254 then (if n < 250 then (if n < 248 then (if n < 247 then ur_case_246 c else
              ur_case_247 c) else
             if n < 249 then ur_case_248 c else
              ur_case_249 c) else
            if n < 252 then (if n < 251 then ur_case_250 c else
              ur_case_251 c) else
             if n < 253 then ur_case_252 c else
              ur_case_253 c) else
           if n < 258 then (if n < 256 then (if n < 255 then ur_case_254 c else
              ur_case_255 c) else
             if n < 257 then ur_case_256 c else
              ur_case_257 c) else
            if n < 260 then (if n < 259 then ur_case_258 c else
              ur_case_259 c) else
             if n < 261 then ur_case_260 c else
              if n < 262 then ur_case_261 c else
               ur_case_262 c) else
          if n < 272 then (if n < 267 then (if n < 265 then (if n < 264 then ur_case_263 c else
              ur_case_264 c) else
             if n < 266 then ur_case_265 c else
              ur_case_266 c) else
            if n < 269 then (if n < 268 then ur_case_267 c else
              ur_case_268 c) else
             if n < 270 then ur_case_269 c else
              if n < 271 then ur_case_270 c else
               ur_case_271 c) else
           if n < 276 then (if n < 274 then (if n < 273 then ur_case_272 c else
              ur_case_273 c) else
             if n < 275 then ur_case_274 c else
              ur_case_275 c) else
            if n < 278 then (if n < 277 then ur_case_276 c else
              ur_case_277 c) else
             if n < 279 then ur_case_278 c else
              if n < 280 then ur_case_279 c else
               ur_case_280 c) else
      if n < 421 then (if n < 351 then (if n < 316 then (if n < 298 then (if n < 289 then (if n < 285 then (if n < 283 then (if n < 282 then ur_case_281 c else
              ur_case_282 c) else
             if n < 284 then ur_case_283 c else
              ur_case_284 c) else
            if n < 287 then (if n < 286 then ur_case_285 c else
              ur_case_286 c) else
             if n < 288 then ur_case_287 c else
              ur_case_288 c) else
           if n < 293 then (if n < 291 then (if n < 290 then ur_case_289 c else
              ur_case_290 c) else
             if n < 292 then ur_case_291 c else
              ur_case_292 c) else
            if n < 295 then (if n < 294 then ur_case_293 c else
              ur_case_294 c) else
             if n < 296 then ur_case_295 c else
              if n < 297 then ur_case_296 c else
               ur_case_297 c) else
          if n < 307 then (if n < 302 then (if n < 300 then (if n < 299 then ur_case_298 c else
              ur_case_299 c) else
             if n < 301 then ur_case_300 c else
              ur_case_301 c) else
            if n < 304 then (if n < 303 then ur_case_302 c else
              ur_case_303 c) else
             if n < 305 then ur_case_304 c else
              if n < 306 then ur_case_305 c else
               ur_case_306 c) else
           if n < 311 then (if n < 309 then (if n < 308 then ur_case_307 c else
              ur_case_308 c) else
             if n < 310 then ur_case_309 c else
              ur_case_310 c) else
            if n < 313 then (if n < 312 then ur_case_311 c else
              ur_case_312 c) else
             if n < 314 then ur_case_313 c else
              if n < 315 then ur_case_314 c else
               ur_case_315 c) else
         if n < 333 then (if n < 324 then (if n < 320 then (if n < 318 then (if n < 317 then ur_case_316 c else
              ur_case_317 c) else
             if n < 319 then ur_case_318 c else
              ur_case_319 c) else
            if n < 322 then (if n < 321 then ur_case_320 c else
              ur_case_321 c) else
             if n < 323 then ur_case_322 c else
              ur_case_323 c) else
           if n < 328 then (if n < 326 then (if n < 325 then ur_case_324 c else
              ur_case_325 c) else
             if n < 327 then ur_case_326 c else
              ur_case_327 c) else
            if n < 330 then (if n < 329 then ur_case_328 c else
              ur_case_329 c) else
             if n < 331 then ur_case_330 c else
              if n < 332 then ur_case_331 c else
               ur_case_332 c) else
          if n < 342 then (if n < 337 then (if n < 335 then (if n < 334 then ur_case_333 c else
              ur_case_334 c) else
             if n < 336 then ur_case_335 c else
              ur_case_336 c) else
            if n < 339 then (if n < 338 then ur_case_337 c else
              ur_case_338 c) else
             if n < 340 then ur_case_339 c else
              if n < 341 then ur_case_340 c else
               ur_case_341 c) else
           if n < 346 then (if n < 344 then (if n < 343 then ur_case_342 c else
              ur_case_343 c) else
             if n < 345 then ur_case_344 c else
              ur_case_345 c) else
            if n < 348 then (if n < 347 then ur_case_346 c else
              ur_case_347 c) else
             if n < 349 then ur_case_348 c else
              if n < 350 then ur_case_349 c else
               ur_case_350 c) else
        if n < 386 then (if n < 368 then (if n < 359 then (if n < 355 then (if n < 353 then (if n < 352 then ur_case_351 c else
              ur_case_352 c) else
             if n < 354 then ur_case_353 c else
              ur_case_354 c) else
            if n < 357 then (if n < 356 then ur_case_355 c else
              ur_case_356 c) else
             if n < 358 then ur_case_357 c else
              ur_case_358 c) else
           if n < 363 then (if n < 361 then (if n < 360 then ur_case_359 c else
              ur_case_360 c) else
             if n < 362 then ur_case_361 c else
              ur_case_362 c) else
            if n < 365 then (if n < 364 then ur_case_363 c else
              ur_case_364 c) else
             if n < 366 then ur_case_365 c else
              if n < 367 then ur_case_366 c else
               ur_case_367 c) else
          if n < 377 then (if n < 372 then (if n < 370 then (if n < 369 then ur_case_368 c else
              ur_case_369 c) else
             if n < 371 then ur_case_370 c else
              ur_case_371 c) else
            if n < 374 then (if n < 373 then ur_case_372 c else
              ur_case_373 c) else
             if n < 375 then ur_case_374 c else
              if n < 376 then ur_case_375 c else
               ur_case_376 c) else
           if n < 381 then (if n < 379 then (if n < 378 then ur_case_377 c else
              ur_case_378 c) else
             if n < 380 then ur_case_379 c else
              ur_case_380 c) else
            if n < 383 then (if n < 382 then ur_case_381 c else
              ur_case_382 c) else
             if n < 384 then ur_case_383 c else
              if n < 385 then ur_case_384 c else
               ur_case_385 c) else
         if n < 403 then (if n < 394 then (if n < 390 then (if n < 388 then (if n < 387 then ur_case_386 c else
              ur_case_387 c) else
             if n < 389 then ur_case_388 c else
              ur_case_389 c) else
            if n < 392 then (if n < 391 then ur_case_390 c else
              ur_case_391 c) else
             if n < 393 then ur_case_392 c else
              ur_case_393 c) else
           if n < 398 then (if n < 396 then (if n < 395 then ur_case_394 c else
              ur_case_395 c) else
             if n < 397 then ur_case_396 c else
              ur_case_397 c) else
            if n < 400 then (if n < 399 then ur_case_398 c else
              ur_case_399 c) else
             if n < 401 then ur_case_400 c else
              if n < 402 then ur_case_401 c else
               ur_case_402 c) else
          if n < 412 then (if n < 407 then (if n < 405 then (if n < 404 then ur_case_403 c else
              ur_case_404 c) else
             if n < 406 then ur_case_405 c else
              ur_case_406 c) else
            if n < 409 then (if n < 408 then ur_case_407 c else
              ur_case_408 c) else
             if n < 410 then ur_case_409 c else
              if n < 411 then ur_case_410 c else
               ur_case_411 c) else
           if n < 416 then (if n < 414 then (if n < 413 then ur_case_412 c else
              ur_case_413 c) else
             if n < 415 then ur_case_414 c else
              ur_case_415 c) else
            if n < 418 then (if n < 417 then ur_case_416 c else
              ur_case_417 c) else
             if n < 419 then ur_case_418 c else
              if n < 420 then ur_case_419 c else
               ur_case_420 c) else
       if n < 491 then (if n < 456 then (if n < 438 then (if n < 429 then (if n < 425 then (if n < 423 then (if n < 422 then ur_case_421 c else
              ur_case_422 c) else
             if n < 424 then ur_case_423 c else
              ur_case_424 c) else
            if n < 427 then (if n < 426 then ur_case_425 c else
              ur_case_426 c) else
             if n < 428 then ur_case_427 c else
              ur_case_428 c) else
           if n < 433 then (if n < 431 then (if n < 430 then ur_case_429 c else
              ur_case_430 c) else
             if n < 432 then ur_case_431 c else
              ur_case_432 c) else
            if n < 435 then (if n < 434 then ur_case_433 c else
              ur_case_434 c) else
             if n < 436 then ur_case_435 c else
              if n < 437 then ur_case_436 c else
               ur_case_437 c) else
          if n < 447 then (if n < 442 then (if n < 440 then (if n < 439 then ur_case_438 c else
              ur_case_439 c) else
             if n < 441 then ur_case_440 c else
              ur_case_441 c) else
            if n < 444 then (if n < 443 then ur_case_442 c else
              ur_case_443 c) else
             if n < 445 then ur_case_444 c else
              if n < 446 then ur_case_445 c else
               ur_case_446 c) else
           if n < 451 then (if n < 449 then (if n < 448 then ur_case_447 c else
              ur_case_448 c) else
             if n < 450 then ur_case_449 c else
              ur_case_450 c) else
            if n < 453 then (if n < 452 then ur_case_451 c else
              ur_case_452 c) else
             if n < 454 then ur_case_453 c else
              if n < 455 then ur_case_454 c else
               ur_case_455 c) else
         if n < 473 then (if n < 464 then (if n < 460 then (if n < 458 then (if n < 457 then ur_case_456 c else
              ur_case_457 c) else
             if n < 459 then ur_case_458 c else
              ur_case_459 c) else
            if n < 462 then (if n < 461 then ur_case_460 c else
              ur_case_461 c) else
             if n < 463 then ur_case_462 c else
              ur_case_463 c) else
           if n < 468 then (if n < 466 then (if n < 465 then ur_case_464 c else
              ur_case_465 c) else
             if n < 467 then ur_case_466 c else
              ur_case_467 c) else
            if n < 470 then (if n < 469 then ur_case_468 c else
              ur_case_469 c) else
             if n < 471 then ur_case_470 c else
              if n < 472 then ur_case_471 c else
               ur_case_472 c) else
          if n < 482 then (if n < 477 then (if n < 475 then (if n < 474 then ur_case_473 c else
              ur_case_474 c) else
             if n < 476 then ur_case_475 c else
              ur_case_476 c) else
            if n < 479 then (if n < 478 then ur_case_477 c else
              ur_case_478 c) else
             if n < 480 then ur_case_479 c else
              if n < 481 then ur_case_480 c else
               ur_case_481 c) else
           if n < 486 then (if n < 484 then (if n < 483 then ur_case_482 c else
              ur_case_483 c) else
             if n < 485 then ur_case_484 c else
              ur_case_485 c) else
            if n < 488 then (if n < 487 then ur_case_486 c else
              ur_case_487 c) else
             if n < 489 then ur_case_488 c else
              if n < 490 then ur_case_489 c else
               ur_case_490 c) else
        if n < 526 then (if n < 508 then (if n < 499 then (if n < 495 then (if n < 493 then (if n < 492 then ur_case_491 c else
              ur_case_492 c) else
             if n < 494 then ur_case_493 c else
              ur_case_494 c) else
            if n < 497 then (if n < 496 then ur_case_495 c else
              ur_case_496 c) else
             if n < 498 then ur_case_497 c else
              ur_case_498 c) else
           if n < 503 then (if n < 501 then (if n < 500 then ur_case_499 c else
              ur_case_500 c) else
             if n < 502 then ur_case_501 c else
              ur_case_502 c) else
            if n < 505 then (if n < 504 then ur_case_503 c else
              ur_case_504 c) else
             if n < 506 then ur_case_505 c else
              if n < 507 then ur_case_506 c else
               ur_case_507 c) else
          if n < 517 then (if n < 512 then (if n < 510 then (if n < 509 then ur_case_508 c else
              ur_case_509 c) else
             if n < 511 then ur_case_510 c else
              ur_case_511 c) else
            if n < 514 then (if n < 513 then ur_case_512 c else
              ur_case_513 c) else
             if n < 515 then ur_case_514 c else
              if n < 516 then ur_case_515 c else
               ur_case_516 c) else
           if n < 521 then (if n < 519 then (if n < 518 then ur_case_517 c else
              ur_case_518 c) else
             if n < 520 then ur_case_519 c else
              ur_case_520 c) else
            if n < 523 then (if n < 522 then ur_case_521 c else
              ur_case_522 c) else
             if n < 524 then ur_case_523 c else
              if n < 525 then ur_case_524 c else
               ur_case_525 c) else
         if n < 543 then (if n < 534 then (if n < 530 then (if n < 528 then (if n < 527 then ur_case_526 c else
              ur_case_527 c) else
             if n < 529 then ur_case_528 c else
              ur_case_529 c) else
            if n < 532 then (if n < 531 then ur_case_530 c else
              ur_case_531 c) else
             if n < 533 then ur_case_532 c else
              ur_case_533 c) else
           if n < 538 then (if n < 536 then (if n < 535 then ur_case_534 c else
              ur_case_535 c) else
             if n < 537 then ur_case_536 c else
              ur_case_537 c) else
            if n < 540 then (if n < 539 then ur_case_538 c else
              ur_case_539 c) else
             if n < 541 then ur_case_540 c else
              if n < 542 then ur_case_541 c else
               ur_case_542 c) else
          if n < 552 then (if n < 547 then (if n < 545 then (if n < 544 then ur_case_543 c else
              ur_case_544 c) else
             if n < 546 then ur_case_545 c else
              ur_case_546 c) else
            if n < 549 then (if n < 548 then ur_case_547 c else
              ur_case_548 c) else
             if n < 550 then ur_case_549 c else
              if n < 551 then ur_case_550 c else
               ur_case_551 c) else
           if n < 556 then (if n < 554 then (if n < 553 then ur_case_552 c else
              ur_case_553 c) else
             if n < 555 then ur_case_554 c else
              ur_case_555 c) else
            if n < 558 then (if n < 557 then ur_case_556 c else
              ur_case_557 c) else
             if n < 559 then ur_case_558 c else
              if n < 560 then ur_case_559 c else
               ur_case_560 c)"

lemmas ur_tr_defs =
  ur_tr_38_def ur_tr_263_def ur_tr_461_def ur_tr_462_def ur_tr_463_def ur_tr_466_def ur_tr_467_def ur_tr_468_def
  ur_tr_469_def ur_tr_472_def ur_tr_473_def ur_tr_474_def ur_tr_475_def ur_tr_476_def ur_tr_477_def ur_tr_478_def
  ur_tr_479_def ur_tr_480_def ur_tr_481_def ur_tr_482_def ur_tr_483_def ur_tr_484_def ur_tr_485_def ur_tr_486_def
  ur_tr_487_def ur_tr_488_def ur_tr_489_def ur_tr_490_def ur_tr_491_def ur_tr_492_def ur_tr_493_def ur_tr_494_def
  ur_tr_496_def ur_tr_499_def ur_tr_500_def ur_tr_501_def ur_tr_502_def ur_tr_503_def ur_tr_504_def ur_tr_505_def
  ur_tr_506_def ur_tr_507_def ur_tr_543_def ur_tr_546_def ur_tr_547_def ur_tr_548_def ur_tr_549_def ur_tr_550_def
  ur_tr_551_def ur_tr_552_def ur_tr_553_def ur_tr_554_def ur_tr_555_def ur_tr_556_def ur_tr_557_def ur_tr_558_def
  ur_tr_559_def ur_tr_560_def ur_tr_561_def ur_tr_562_def ur_tr_563_def ur_tr_565_def ur_tr_566_def ur_tr_567_def
  ur_tr_568_def ur_tr_569_def ur_tr_570_def ur_tr_571_def ur_tr_573_def ur_tr_576_def ur_tr_577_def ur_tr_578_def
  ur_tr_579_def ur_tr_580_def ur_tr_581_def ur_tr_582_def ur_tr_583_def ur_tr_584_def

text \<open>Fast access to the table.\<close>

lemma ur_case_simps_0:
  "ur_case (Suc 0) = ur_case_1" "ur_case 2 = ur_case_2" "ur_case 3 = ur_case_3" "ur_case 4 = ur_case_4"
  "ur_case 5 = ur_case_5" "ur_case 6 = ur_case_6" "ur_case 7 = ur_case_7" "ur_case 8 = ur_case_8"
  "ur_case 9 = ur_case_9" "ur_case 10 = ur_case_10" "ur_case 11 = ur_case_11" "ur_case 12 = ur_case_12"
  "ur_case 13 = ur_case_13" "ur_case 14 = ur_case_14" "ur_case 15 = ur_case_15" "ur_case 16 = ur_case_16"
  "ur_case 17 = ur_case_17" "ur_case 18 = ur_case_18" "ur_case 19 = ur_case_19" "ur_case 20 = ur_case_20"
  "ur_case 21 = ur_case_21" "ur_case 22 = ur_case_22" "ur_case 23 = ur_case_23" "ur_case 24 = ur_case_24"
  "ur_case 25 = ur_case_25" "ur_case 26 = ur_case_26" "ur_case 27 = ur_case_27" "ur_case 28 = ur_case_28"
  "ur_case 29 = ur_case_29" "ur_case 30 = ur_case_30" "ur_case 31 = ur_case_31" "ur_case 32 = ur_case_32"
  "ur_case 33 = ur_case_33" "ur_case 34 = ur_case_34" "ur_case 35 = ur_case_35" "ur_case 36 = ur_case_36"
  "ur_case 37 = ur_case_37" "ur_case 38 = ur_case_38" "ur_case 39 = ur_case_39" "ur_case 40 = ur_case_40"
  "ur_case 41 = ur_case_41" "ur_case 42 = ur_case_42" "ur_case 43 = ur_case_43" "ur_case 44 = ur_case_44"
  "ur_case 45 = ur_case_45" "ur_case 46 = ur_case_46" "ur_case 47 = ur_case_47" "ur_case 48 = ur_case_48"
  "ur_case 49 = ur_case_49" "ur_case 50 = ur_case_50" "ur_case 51 = ur_case_51" "ur_case 52 = ur_case_52"
  "ur_case 53 = ur_case_53" "ur_case 54 = ur_case_54" "ur_case 55 = ur_case_55" "ur_case 56 = ur_case_56"
  "ur_case 57 = ur_case_57" "ur_case 58 = ur_case_58" "ur_case 59 = ur_case_59" "ur_case 60 = ur_case_60"
  by (rule ext, simp add: ur_case_def)+

lemma ur_case_simps_1:
  "ur_case 61 = ur_case_61" "ur_case 62 = ur_case_62" "ur_case 63 = ur_case_63" "ur_case 64 = ur_case_64"
  "ur_case 65 = ur_case_65" "ur_case 66 = ur_case_66" "ur_case 67 = ur_case_67" "ur_case 68 = ur_case_68"
  "ur_case 69 = ur_case_69" "ur_case 70 = ur_case_70" "ur_case 71 = ur_case_71" "ur_case 72 = ur_case_72"
  "ur_case 73 = ur_case_73" "ur_case 74 = ur_case_74" "ur_case 75 = ur_case_75" "ur_case 76 = ur_case_76"
  "ur_case 77 = ur_case_77" "ur_case 78 = ur_case_78" "ur_case 79 = ur_case_79" "ur_case 80 = ur_case_80"
  "ur_case 81 = ur_case_81" "ur_case 82 = ur_case_82" "ur_case 83 = ur_case_83" "ur_case 84 = ur_case_84"
  "ur_case 85 = ur_case_85" "ur_case 86 = ur_case_86" "ur_case 87 = ur_case_87" "ur_case 88 = ur_case_88"
  "ur_case 89 = ur_case_89" "ur_case 90 = ur_case_90" "ur_case 91 = ur_case_91" "ur_case 92 = ur_case_92"
  "ur_case 93 = ur_case_93" "ur_case 94 = ur_case_94" "ur_case 95 = ur_case_95" "ur_case 96 = ur_case_96"
  "ur_case 97 = ur_case_97" "ur_case 98 = ur_case_98" "ur_case 99 = ur_case_99" "ur_case 100 = ur_case_100"
  "ur_case 101 = ur_case_101" "ur_case 102 = ur_case_102" "ur_case 103 = ur_case_103" "ur_case 104 = ur_case_104"
  "ur_case 105 = ur_case_105" "ur_case 106 = ur_case_106" "ur_case 107 = ur_case_107" "ur_case 108 = ur_case_108"
  "ur_case 109 = ur_case_109" "ur_case 110 = ur_case_110" "ur_case 111 = ur_case_111" "ur_case 112 = ur_case_112"
  "ur_case 113 = ur_case_113" "ur_case 114 = ur_case_114" "ur_case 115 = ur_case_115" "ur_case 116 = ur_case_116"
  "ur_case 117 = ur_case_117" "ur_case 118 = ur_case_118" "ur_case 119 = ur_case_119" "ur_case 120 = ur_case_120"
  by (rule ext, simp add: ur_case_def)+

lemma ur_case_simps_2:
  "ur_case 121 = ur_case_121" "ur_case 122 = ur_case_122" "ur_case 123 = ur_case_123" "ur_case 124 = ur_case_124"
  "ur_case 125 = ur_case_125" "ur_case 126 = ur_case_126" "ur_case 127 = ur_case_127" "ur_case 128 = ur_case_128"
  "ur_case 129 = ur_case_129" "ur_case 130 = ur_case_130" "ur_case 131 = ur_case_131" "ur_case 132 = ur_case_132"
  "ur_case 133 = ur_case_133" "ur_case 134 = ur_case_134" "ur_case 135 = ur_case_135" "ur_case 136 = ur_case_136"
  "ur_case 137 = ur_case_137" "ur_case 138 = ur_case_138" "ur_case 139 = ur_case_139" "ur_case 140 = ur_case_140"
  "ur_case 141 = ur_case_141" "ur_case 142 = ur_case_142" "ur_case 143 = ur_case_143" "ur_case 144 = ur_case_144"
  "ur_case 145 = ur_case_145" "ur_case 146 = ur_case_146" "ur_case 147 = ur_case_147" "ur_case 148 = ur_case_148"
  "ur_case 149 = ur_case_149" "ur_case 150 = ur_case_150" "ur_case 151 = ur_case_151" "ur_case 152 = ur_case_152"
  "ur_case 153 = ur_case_153" "ur_case 154 = ur_case_154" "ur_case 155 = ur_case_155" "ur_case 156 = ur_case_156"
  "ur_case 157 = ur_case_157" "ur_case 158 = ur_case_158" "ur_case 159 = ur_case_159" "ur_case 160 = ur_case_160"
  "ur_case 161 = ur_case_161" "ur_case 162 = ur_case_162" "ur_case 163 = ur_case_163" "ur_case 164 = ur_case_164"
  "ur_case 165 = ur_case_165" "ur_case 166 = ur_case_166" "ur_case 167 = ur_case_167" "ur_case 168 = ur_case_168"
  "ur_case 169 = ur_case_169" "ur_case 170 = ur_case_170" "ur_case 171 = ur_case_171" "ur_case 172 = ur_case_172"
  "ur_case 173 = ur_case_173" "ur_case 174 = ur_case_174" "ur_case 175 = ur_case_175" "ur_case 176 = ur_case_176"
  "ur_case 177 = ur_case_177" "ur_case 178 = ur_case_178" "ur_case 179 = ur_case_179" "ur_case 180 = ur_case_180"
  by (rule ext, simp add: ur_case_def)+

lemma ur_case_simps_3:
  "ur_case 181 = ur_case_181" "ur_case 182 = ur_case_182" "ur_case 183 = ur_case_183" "ur_case 184 = ur_case_184"
  "ur_case 185 = ur_case_185" "ur_case 186 = ur_case_186" "ur_case 187 = ur_case_187" "ur_case 188 = ur_case_188"
  "ur_case 189 = ur_case_189" "ur_case 190 = ur_case_190" "ur_case 191 = ur_case_191" "ur_case 192 = ur_case_192"
  "ur_case 193 = ur_case_193" "ur_case 194 = ur_case_194" "ur_case 195 = ur_case_195" "ur_case 196 = ur_case_196"
  "ur_case 197 = ur_case_197" "ur_case 198 = ur_case_198" "ur_case 199 = ur_case_199" "ur_case 200 = ur_case_200"
  "ur_case 201 = ur_case_201" "ur_case 202 = ur_case_202" "ur_case 203 = ur_case_203" "ur_case 204 = ur_case_204"
  "ur_case 205 = ur_case_205" "ur_case 206 = ur_case_206" "ur_case 207 = ur_case_207" "ur_case 208 = ur_case_208"
  "ur_case 209 = ur_case_209" "ur_case 210 = ur_case_210" "ur_case 211 = ur_case_211" "ur_case 212 = ur_case_212"
  "ur_case 213 = ur_case_213" "ur_case 214 = ur_case_214" "ur_case 215 = ur_case_215" "ur_case 216 = ur_case_216"
  "ur_case 217 = ur_case_217" "ur_case 218 = ur_case_218" "ur_case 219 = ur_case_219" "ur_case 220 = ur_case_220"
  "ur_case 221 = ur_case_221" "ur_case 222 = ur_case_222" "ur_case 223 = ur_case_223" "ur_case 224 = ur_case_224"
  "ur_case 225 = ur_case_225" "ur_case 226 = ur_case_226" "ur_case 227 = ur_case_227" "ur_case 228 = ur_case_228"
  "ur_case 229 = ur_case_229" "ur_case 230 = ur_case_230" "ur_case 231 = ur_case_231" "ur_case 232 = ur_case_232"
  "ur_case 233 = ur_case_233" "ur_case 234 = ur_case_234" "ur_case 235 = ur_case_235" "ur_case 236 = ur_case_236"
  "ur_case 237 = ur_case_237" "ur_case 238 = ur_case_238" "ur_case 239 = ur_case_239" "ur_case 240 = ur_case_240"
  by (rule ext, simp add: ur_case_def)+

lemma ur_case_simps_4:
  "ur_case 241 = ur_case_241" "ur_case 242 = ur_case_242" "ur_case 243 = ur_case_243" "ur_case 244 = ur_case_244"
  "ur_case 245 = ur_case_245" "ur_case 246 = ur_case_246" "ur_case 247 = ur_case_247" "ur_case 248 = ur_case_248"
  "ur_case 249 = ur_case_249" "ur_case 250 = ur_case_250" "ur_case 251 = ur_case_251" "ur_case 252 = ur_case_252"
  "ur_case 253 = ur_case_253" "ur_case 254 = ur_case_254" "ur_case 255 = ur_case_255" "ur_case 256 = ur_case_256"
  "ur_case 257 = ur_case_257" "ur_case 258 = ur_case_258" "ur_case 259 = ur_case_259" "ur_case 260 = ur_case_260"
  "ur_case 261 = ur_case_261" "ur_case 262 = ur_case_262" "ur_case 263 = ur_case_263" "ur_case 264 = ur_case_264"
  "ur_case 265 = ur_case_265" "ur_case 266 = ur_case_266" "ur_case 267 = ur_case_267" "ur_case 268 = ur_case_268"
  "ur_case 269 = ur_case_269" "ur_case 270 = ur_case_270" "ur_case 271 = ur_case_271" "ur_case 272 = ur_case_272"
  "ur_case 273 = ur_case_273" "ur_case 274 = ur_case_274" "ur_case 275 = ur_case_275" "ur_case 276 = ur_case_276"
  "ur_case 277 = ur_case_277" "ur_case 278 = ur_case_278" "ur_case 279 = ur_case_279" "ur_case 280 = ur_case_280"
  "ur_case 281 = ur_case_281" "ur_case 282 = ur_case_282" "ur_case 283 = ur_case_283" "ur_case 284 = ur_case_284"
  "ur_case 285 = ur_case_285" "ur_case 286 = ur_case_286" "ur_case 287 = ur_case_287" "ur_case 288 = ur_case_288"
  "ur_case 289 = ur_case_289" "ur_case 290 = ur_case_290" "ur_case 291 = ur_case_291" "ur_case 292 = ur_case_292"
  "ur_case 293 = ur_case_293" "ur_case 294 = ur_case_294" "ur_case 295 = ur_case_295" "ur_case 296 = ur_case_296"
  "ur_case 297 = ur_case_297" "ur_case 298 = ur_case_298" "ur_case 299 = ur_case_299" "ur_case 300 = ur_case_300"
  by (rule ext, simp add: ur_case_def)+

lemma ur_case_simps_5:
  "ur_case 301 = ur_case_301" "ur_case 302 = ur_case_302" "ur_case 303 = ur_case_303" "ur_case 304 = ur_case_304"
  "ur_case 305 = ur_case_305" "ur_case 306 = ur_case_306" "ur_case 307 = ur_case_307" "ur_case 308 = ur_case_308"
  "ur_case 309 = ur_case_309" "ur_case 310 = ur_case_310" "ur_case 311 = ur_case_311" "ur_case 312 = ur_case_312"
  "ur_case 313 = ur_case_313" "ur_case 314 = ur_case_314" "ur_case 315 = ur_case_315" "ur_case 316 = ur_case_316"
  "ur_case 317 = ur_case_317" "ur_case 318 = ur_case_318" "ur_case 319 = ur_case_319" "ur_case 320 = ur_case_320"
  "ur_case 321 = ur_case_321" "ur_case 322 = ur_case_322" "ur_case 323 = ur_case_323" "ur_case 324 = ur_case_324"
  "ur_case 325 = ur_case_325" "ur_case 326 = ur_case_326" "ur_case 327 = ur_case_327" "ur_case 328 = ur_case_328"
  "ur_case 329 = ur_case_329" "ur_case 330 = ur_case_330" "ur_case 331 = ur_case_331" "ur_case 332 = ur_case_332"
  "ur_case 333 = ur_case_333" "ur_case 334 = ur_case_334" "ur_case 335 = ur_case_335" "ur_case 336 = ur_case_336"
  "ur_case 337 = ur_case_337" "ur_case 338 = ur_case_338" "ur_case 339 = ur_case_339" "ur_case 340 = ur_case_340"
  "ur_case 341 = ur_case_341" "ur_case 342 = ur_case_342" "ur_case 343 = ur_case_343" "ur_case 344 = ur_case_344"
  "ur_case 345 = ur_case_345" "ur_case 346 = ur_case_346" "ur_case 347 = ur_case_347" "ur_case 348 = ur_case_348"
  "ur_case 349 = ur_case_349" "ur_case 350 = ur_case_350" "ur_case 351 = ur_case_351" "ur_case 352 = ur_case_352"
  "ur_case 353 = ur_case_353" "ur_case 354 = ur_case_354" "ur_case 355 = ur_case_355" "ur_case 356 = ur_case_356"
  "ur_case 357 = ur_case_357" "ur_case 358 = ur_case_358" "ur_case 359 = ur_case_359" "ur_case 360 = ur_case_360"
  by (rule ext, simp add: ur_case_def)+

lemma ur_case_simps_6:
  "ur_case 361 = ur_case_361" "ur_case 362 = ur_case_362" "ur_case 363 = ur_case_363" "ur_case 364 = ur_case_364"
  "ur_case 365 = ur_case_365" "ur_case 366 = ur_case_366" "ur_case 367 = ur_case_367" "ur_case 368 = ur_case_368"
  "ur_case 369 = ur_case_369" "ur_case 370 = ur_case_370" "ur_case 371 = ur_case_371" "ur_case 372 = ur_case_372"
  "ur_case 373 = ur_case_373" "ur_case 374 = ur_case_374" "ur_case 375 = ur_case_375" "ur_case 376 = ur_case_376"
  "ur_case 377 = ur_case_377" "ur_case 378 = ur_case_378" "ur_case 379 = ur_case_379" "ur_case 380 = ur_case_380"
  "ur_case 381 = ur_case_381" "ur_case 382 = ur_case_382" "ur_case 383 = ur_case_383" "ur_case 384 = ur_case_384"
  "ur_case 385 = ur_case_385" "ur_case 386 = ur_case_386" "ur_case 387 = ur_case_387" "ur_case 388 = ur_case_388"
  "ur_case 389 = ur_case_389" "ur_case 390 = ur_case_390" "ur_case 391 = ur_case_391" "ur_case 392 = ur_case_392"
  "ur_case 393 = ur_case_393" "ur_case 394 = ur_case_394" "ur_case 395 = ur_case_395" "ur_case 396 = ur_case_396"
  "ur_case 397 = ur_case_397" "ur_case 398 = ur_case_398" "ur_case 399 = ur_case_399" "ur_case 400 = ur_case_400"
  "ur_case 401 = ur_case_401" "ur_case 402 = ur_case_402" "ur_case 403 = ur_case_403" "ur_case 404 = ur_case_404"
  "ur_case 405 = ur_case_405" "ur_case 406 = ur_case_406" "ur_case 407 = ur_case_407" "ur_case 408 = ur_case_408"
  "ur_case 409 = ur_case_409" "ur_case 410 = ur_case_410" "ur_case 411 = ur_case_411" "ur_case 412 = ur_case_412"
  "ur_case 413 = ur_case_413" "ur_case 414 = ur_case_414" "ur_case 415 = ur_case_415" "ur_case 416 = ur_case_416"
  "ur_case 417 = ur_case_417" "ur_case 418 = ur_case_418" "ur_case 419 = ur_case_419" "ur_case 420 = ur_case_420"
  by (rule ext, simp add: ur_case_def)+

lemma ur_case_simps_7:
  "ur_case 421 = ur_case_421" "ur_case 422 = ur_case_422" "ur_case 423 = ur_case_423" "ur_case 424 = ur_case_424"
  "ur_case 425 = ur_case_425" "ur_case 426 = ur_case_426" "ur_case 427 = ur_case_427" "ur_case 428 = ur_case_428"
  "ur_case 429 = ur_case_429" "ur_case 430 = ur_case_430" "ur_case 431 = ur_case_431" "ur_case 432 = ur_case_432"
  "ur_case 433 = ur_case_433" "ur_case 434 = ur_case_434" "ur_case 435 = ur_case_435" "ur_case 436 = ur_case_436"
  "ur_case 437 = ur_case_437" "ur_case 438 = ur_case_438" "ur_case 439 = ur_case_439" "ur_case 440 = ur_case_440"
  "ur_case 441 = ur_case_441" "ur_case 442 = ur_case_442" "ur_case 443 = ur_case_443" "ur_case 444 = ur_case_444"
  "ur_case 445 = ur_case_445" "ur_case 446 = ur_case_446" "ur_case 447 = ur_case_447" "ur_case 448 = ur_case_448"
  "ur_case 449 = ur_case_449" "ur_case 450 = ur_case_450" "ur_case 451 = ur_case_451" "ur_case 452 = ur_case_452"
  "ur_case 453 = ur_case_453" "ur_case 454 = ur_case_454" "ur_case 455 = ur_case_455" "ur_case 456 = ur_case_456"
  "ur_case 457 = ur_case_457" "ur_case 458 = ur_case_458" "ur_case 459 = ur_case_459" "ur_case 460 = ur_case_460"
  "ur_case 461 = ur_case_461" "ur_case 462 = ur_case_462" "ur_case 463 = ur_case_463" "ur_case 464 = ur_case_464"
  "ur_case 465 = ur_case_465" "ur_case 466 = ur_case_466" "ur_case 467 = ur_case_467" "ur_case 468 = ur_case_468"
  "ur_case 469 = ur_case_469" "ur_case 470 = ur_case_470" "ur_case 471 = ur_case_471" "ur_case 472 = ur_case_472"
  "ur_case 473 = ur_case_473" "ur_case 474 = ur_case_474" "ur_case 475 = ur_case_475" "ur_case 476 = ur_case_476"
  "ur_case 477 = ur_case_477" "ur_case 478 = ur_case_478" "ur_case 479 = ur_case_479" "ur_case 480 = ur_case_480"
  by (rule ext, simp add: ur_case_def)+

lemma ur_case_simps_8:
  "ur_case 481 = ur_case_481" "ur_case 482 = ur_case_482" "ur_case 483 = ur_case_483" "ur_case 484 = ur_case_484"
  "ur_case 485 = ur_case_485" "ur_case 486 = ur_case_486" "ur_case 487 = ur_case_487" "ur_case 488 = ur_case_488"
  "ur_case 489 = ur_case_489" "ur_case 490 = ur_case_490" "ur_case 491 = ur_case_491" "ur_case 492 = ur_case_492"
  "ur_case 493 = ur_case_493" "ur_case 494 = ur_case_494" "ur_case 495 = ur_case_495" "ur_case 496 = ur_case_496"
  "ur_case 497 = ur_case_497" "ur_case 498 = ur_case_498" "ur_case 499 = ur_case_499" "ur_case 500 = ur_case_500"
  "ur_case 501 = ur_case_501" "ur_case 502 = ur_case_502" "ur_case 503 = ur_case_503" "ur_case 504 = ur_case_504"
  "ur_case 505 = ur_case_505" "ur_case 506 = ur_case_506" "ur_case 507 = ur_case_507" "ur_case 508 = ur_case_508"
  "ur_case 509 = ur_case_509" "ur_case 510 = ur_case_510" "ur_case 511 = ur_case_511" "ur_case 512 = ur_case_512"
  "ur_case 513 = ur_case_513" "ur_case 514 = ur_case_514" "ur_case 515 = ur_case_515" "ur_case 516 = ur_case_516"
  "ur_case 517 = ur_case_517" "ur_case 518 = ur_case_518" "ur_case 519 = ur_case_519" "ur_case 520 = ur_case_520"
  "ur_case 521 = ur_case_521" "ur_case 522 = ur_case_522" "ur_case 523 = ur_case_523" "ur_case 524 = ur_case_524"
  "ur_case 525 = ur_case_525" "ur_case 526 = ur_case_526" "ur_case 527 = ur_case_527" "ur_case 528 = ur_case_528"
  "ur_case 529 = ur_case_529" "ur_case 530 = ur_case_530" "ur_case 531 = ur_case_531" "ur_case 532 = ur_case_532"
  "ur_case 533 = ur_case_533" "ur_case 534 = ur_case_534" "ur_case 535 = ur_case_535" "ur_case 536 = ur_case_536"
  "ur_case 537 = ur_case_537" "ur_case 538 = ur_case_538" "ur_case 539 = ur_case_539" "ur_case 540 = ur_case_540"
  by (rule ext, simp add: ur_case_def)+

lemma ur_case_simps_9:
  "ur_case 541 = ur_case_541" "ur_case 542 = ur_case_542" "ur_case 543 = ur_case_543" "ur_case 544 = ur_case_544"
  "ur_case 545 = ur_case_545" "ur_case 546 = ur_case_546" "ur_case 547 = ur_case_547" "ur_case 548 = ur_case_548"
  "ur_case 549 = ur_case_549" "ur_case 550 = ur_case_550" "ur_case 551 = ur_case_551" "ur_case 552 = ur_case_552"
  "ur_case 553 = ur_case_553" "ur_case 554 = ur_case_554" "ur_case 555 = ur_case_555" "ur_case 556 = ur_case_556"
  "ur_case 557 = ur_case_557" "ur_case 558 = ur_case_558" "ur_case 559 = ur_case_559" "ur_case 560 = ur_case_560"
  by (rule ext, simp add: ur_case_def)+

lemmas ur_case_simps = ur_case_simps_0 ur_case_simps_1 ur_case_simps_2 ur_case_simps_3 ur_case_simps_4 ur_case_simps_5 ur_case_simps_6 ur_case_simps_7 ur_case_simps_8 ur_case_simps_9

section \<open>End of the text\<close>

definition ur_eof_host :: "nat set" where
  "ur_eof_host =
    {460, 463, 464, 465, 466, 467, 470, 471, 472, 473, 474, 475, 476, 477, 478, 479,
     480, 481, 482, 483, 484, 485, 486, 487, 488, 490, 491, 492, 493, 494, 495, 496,
     497, 498, 499, 500, 501, 502, 503, 504, 505, 506, 507}"

definition ur_eof_host_path :: "nat set" where
  "ur_eof_host_path =
    {512, 516, 517, 518, 519, 520, 523, 524, 525, 526, 527, 528, 529, 530, 531, 532,
     533, 534, 535, 536, 537, 538, 539, 540, 541, 543, 544, 545, 546, 547, 548, 549,
     550, 551, 552, 553, 554, 555, 556, 557, 558, 559, 560}"

definition ur_eof :: "nat \<Rightarrow> ur_action list" where
  "ur_eof n =
     (if n \<in> {462, 489} then [UrSavePort]
      else if n \<in> ur_eof_host then [UrSaveHost]
      else if n \<in> {513} then [UrSavePath]
      else if n \<in> {457} then [UrSaveQuery]
      else if n \<in> {454} then [UrSaveFragment]
      else if n \<in> {456} then [UrMarku, UrSaveQuery]
      else if n \<in> {453} then [UrMarku, UrSaveFragment]
      else if n \<in> {461, 468} then [UrMarkh, UrSavePort]
      else if n \<in> {459, 469} then [UrMarkh, UrSaveHost]
      else if n \<in> {514, 521} then [UrMarkh, UrSavePort, UrSavePath]
      else if n \<in> {511, 522} then [UrMarkh, UrSaveHost, UrSavePath]
      else if n \<in> {515, 542} then [UrSavePort, UrMarkh, UrSavePath]
      else if n \<in> ur_eof_host_path then [UrSaveHost, UrMarkh, UrSavePath]
      else [])"

section \<open>Hosts\<close>

text \<open>The characters of a registered name, and the states the machine is in while it reads one: in front of an at sign, when it may
  still be user information, and behind it. Digits lead through the states of an IPv4 address.\<close>

definition host_char :: "int \<Rightarrow> bool" where
  "host_char c \<longleftrightarrow> c = 33 \<or> c = 36 \<or> (38 \<le> c \<and> c \<le> 46) \<or> (48 \<le> c \<and> c \<le> 57) \<or> c = 59 \<or> c = 61 \<or> (65 \<le> c \<and> c \<le> 90) \<or> c = 95 \<or>
     (97 \<le> c \<and> c \<le> 122) \<or> c = 126"

definition ur_host_states :: "bool \<Rightarrow> nat set" where
  "ur_host_states at =
     (if at then {523, 524, 525, 526, 527, 528, 529, 530, 531, 532, 533, 534, 535, 536, 537, 538, 539, 540, 541}
      else {520, 543, 544, 545, 546, 547, 548, 549, 550, 551, 552, 553, 554, 555, 556, 557, 558, 559, 560})"

definition ur_to :: "nat set \<Rightarrow> ur_action list \<Rightarrow> ur_action goto \<Rightarrow> bool" where
  "ur_to S as g = (case g of Goto bs m \<Rightarrow> bs = as \<and> m \<in> S)"

lemma ur_to_simps: "ur_to S as (Goto bs m) \<longleftrightarrow> bs = as \<and> m \<in> S"
  by (simp add: ur_to_def)

lemma ur_to_if: "(b \<Longrightarrow> ur_to S as x) \<Longrightarrow> (\<not> b \<Longrightarrow> ur_to S as y) \<Longrightarrow> ur_to S as (if b then x else y)"
  by simp

lemma ur_host_edge_520: "host_char c \<Longrightarrow> ur_to (ur_host_states False) [] (ur_case_520 c)"
  unfolding host_char_def ur_case_520_def ur_host_states_def by (elim disjE conjE; simp add: ur_to_simps)

lemma ur_host_edge_543: "host_char c \<Longrightarrow> ur_to (ur_host_states False) [] (ur_case_543 c)"
  unfolding host_char_def ur_case_543_def ur_host_states_def by (elim disjE conjE; simp add: ur_to_simps)

lemma ur_host_edge_544: "host_char c \<Longrightarrow> ur_to (ur_host_states False) [] (ur_case_544 c)"
  unfolding host_char_def ur_case_544_def ur_host_states_def by (elim disjE conjE; simp add: ur_to_simps)

lemma ur_host_edge_545: "host_char c \<Longrightarrow> ur_to (ur_host_states False) [] (ur_case_545 c)"
  unfolding host_char_def ur_case_545_def ur_host_states_def by (elim disjE conjE; simp add: ur_to_simps)

lemma ur_host_edge_546: "host_char c \<Longrightarrow> ur_to (ur_host_states False) [] (ur_case_546 c)"
  unfolding host_char_def ur_case_546_def ur_host_states_def by (elim disjE conjE; simp add: ur_to_simps)

lemma ur_host_edge_547: "host_char c \<Longrightarrow> ur_to (ur_host_states False) [] (ur_case_547 c)"
  unfolding host_char_def ur_case_547_def ur_host_states_def by (elim disjE conjE; simp add: ur_to_simps)

lemma ur_host_edge_548: "host_char c \<Longrightarrow> ur_to (ur_host_states False) [] (ur_case_548 c)"
  unfolding host_char_def ur_case_548_def ur_host_states_def by (elim disjE conjE; simp add: ur_to_simps)

lemma ur_host_edge_549: "host_char c \<Longrightarrow> ur_to (ur_host_states False) [] (ur_case_549 c)"
  unfolding host_char_def ur_case_549_def ur_host_states_def by (elim disjE conjE; simp add: ur_to_simps)

lemma ur_host_edge_550: "host_char c \<Longrightarrow> ur_to (ur_host_states False) [] (ur_case_550 c)"
  unfolding host_char_def ur_case_550_def ur_host_states_def by (elim disjE conjE; simp add: ur_to_simps)

lemma ur_host_edge_551: "host_char c \<Longrightarrow> ur_to (ur_host_states False) [] (ur_case_551 c)"
  unfolding host_char_def ur_case_551_def ur_host_states_def by (elim disjE conjE; simp add: ur_to_simps)

lemma ur_host_edge_552: "host_char c \<Longrightarrow> ur_to (ur_host_states False) [] (ur_case_552 c)"
  unfolding host_char_def ur_case_552_def ur_host_states_def by (elim disjE conjE; simp add: ur_to_simps)

lemma ur_host_edge_553: "host_char c \<Longrightarrow> ur_to (ur_host_states False) [] (ur_case_553 c)"
  unfolding host_char_def ur_case_553_def ur_host_states_def by (elim disjE conjE; simp add: ur_to_simps)

lemma ur_host_edge_554: "host_char c \<Longrightarrow> ur_to (ur_host_states False) [] (ur_case_554 c)"
  unfolding host_char_def ur_case_554_def ur_host_states_def by (elim disjE conjE; simp add: ur_to_simps)

lemma ur_host_edge_555: "host_char c \<Longrightarrow> ur_to (ur_host_states False) [] (ur_case_555 c)"
  unfolding host_char_def ur_case_555_def ur_host_states_def by (elim disjE conjE; simp add: ur_to_simps)

lemma ur_host_edge_556: "host_char c \<Longrightarrow> ur_to (ur_host_states False) [] (ur_case_556 c)"
  unfolding host_char_def ur_case_556_def ur_host_states_def by (elim disjE conjE; simp add: ur_to_simps)

lemma ur_host_edge_557: "host_char c \<Longrightarrow> ur_to (ur_host_states False) [] (ur_case_557 c)"
  unfolding host_char_def ur_case_557_def ur_host_states_def by (elim disjE conjE; simp add: ur_to_simps)

lemma ur_host_edge_558: "host_char c \<Longrightarrow> ur_to (ur_host_states False) [] (ur_case_558 c)"
  unfolding host_char_def ur_case_558_def ur_host_states_def by (elim disjE conjE; simp add: ur_to_simps)

lemma ur_host_edge_559: "host_char c \<Longrightarrow> ur_to (ur_host_states False) [] (ur_case_559 c)"
  unfolding host_char_def ur_case_559_def ur_host_states_def by (elim disjE conjE; simp add: ur_to_simps)

lemma ur_host_edge_560: "host_char c \<Longrightarrow> ur_to (ur_host_states False) [] (ur_case_560 c)"
  unfolding host_char_def ur_case_560_def ur_host_states_def by (elim disjE conjE; simp add: ur_to_simps)

lemma ur_host_edge_523: "host_char c \<Longrightarrow> ur_to (ur_host_states True) [] (ur_case_523 c)"
  unfolding host_char_def ur_case_523_def ur_host_states_def by (elim disjE conjE; simp add: ur_to_simps)

lemma ur_host_edge_524: "host_char c \<Longrightarrow> ur_to (ur_host_states True) [] (ur_case_524 c)"
  unfolding host_char_def ur_case_524_def ur_host_states_def by (elim disjE conjE; simp add: ur_to_simps)

lemma ur_host_edge_525: "host_char c \<Longrightarrow> ur_to (ur_host_states True) [] (ur_case_525 c)"
  unfolding host_char_def ur_case_525_def ur_host_states_def by (elim disjE conjE; simp add: ur_to_simps)

lemma ur_host_edge_526: "host_char c \<Longrightarrow> ur_to (ur_host_states True) [] (ur_case_526 c)"
  unfolding host_char_def ur_case_526_def ur_host_states_def by (elim disjE conjE; simp add: ur_to_simps)

lemma ur_host_edge_527: "host_char c \<Longrightarrow> ur_to (ur_host_states True) [] (ur_case_527 c)"
  unfolding host_char_def ur_case_527_def ur_host_states_def by (elim disjE conjE; simp add: ur_to_simps)

lemma ur_host_edge_528: "host_char c \<Longrightarrow> ur_to (ur_host_states True) [] (ur_case_528 c)"
  unfolding host_char_def ur_case_528_def ur_host_states_def by (elim disjE conjE; simp add: ur_to_simps)

lemma ur_host_edge_529: "host_char c \<Longrightarrow> ur_to (ur_host_states True) [] (ur_case_529 c)"
  unfolding host_char_def ur_case_529_def ur_host_states_def by (elim disjE conjE; simp add: ur_to_simps)

lemma ur_host_edge_530: "host_char c \<Longrightarrow> ur_to (ur_host_states True) [] (ur_case_530 c)"
  unfolding host_char_def ur_case_530_def ur_host_states_def by (elim disjE conjE; simp add: ur_to_simps)

lemma ur_host_edge_531: "host_char c \<Longrightarrow> ur_to (ur_host_states True) [] (ur_case_531 c)"
  unfolding host_char_def ur_case_531_def ur_host_states_def by (elim disjE conjE; simp add: ur_to_simps)

lemma ur_host_edge_532: "host_char c \<Longrightarrow> ur_to (ur_host_states True) [] (ur_case_532 c)"
  unfolding host_char_def ur_case_532_def ur_host_states_def by (elim disjE conjE; simp add: ur_to_simps)

lemma ur_host_edge_533: "host_char c \<Longrightarrow> ur_to (ur_host_states True) [] (ur_case_533 c)"
  unfolding host_char_def ur_case_533_def ur_host_states_def by (elim disjE conjE; simp add: ur_to_simps)

lemma ur_host_edge_534: "host_char c \<Longrightarrow> ur_to (ur_host_states True) [] (ur_case_534 c)"
  unfolding host_char_def ur_case_534_def ur_host_states_def by (elim disjE conjE; simp add: ur_to_simps)

lemma ur_host_edge_535: "host_char c \<Longrightarrow> ur_to (ur_host_states True) [] (ur_case_535 c)"
  unfolding host_char_def ur_case_535_def ur_host_states_def by (elim disjE conjE; simp add: ur_to_simps)

lemma ur_host_edge_536: "host_char c \<Longrightarrow> ur_to (ur_host_states True) [] (ur_case_536 c)"
  unfolding host_char_def ur_case_536_def ur_host_states_def by (elim disjE conjE; simp add: ur_to_simps)

lemma ur_host_edge_537: "host_char c \<Longrightarrow> ur_to (ur_host_states True) [] (ur_case_537 c)"
  unfolding host_char_def ur_case_537_def ur_host_states_def by (elim disjE conjE; simp add: ur_to_simps)

lemma ur_host_edge_538: "host_char c \<Longrightarrow> ur_to (ur_host_states True) [] (ur_case_538 c)"
  unfolding host_char_def ur_case_538_def ur_host_states_def by (elim disjE conjE; simp add: ur_to_simps)

lemma ur_host_edge_539: "host_char c \<Longrightarrow> ur_to (ur_host_states True) [] (ur_case_539 c)"
  unfolding host_char_def ur_case_539_def ur_host_states_def by (elim disjE conjE; simp add: ur_to_simps)

lemma ur_host_edge_540: "host_char c \<Longrightarrow> ur_to (ur_host_states True) [] (ur_case_540 c)"
  unfolding host_char_def ur_case_540_def ur_host_states_def by (elim disjE conjE; simp add: ur_to_simps)

lemma ur_host_edge_541: "host_char c \<Longrightarrow> ur_to (ur_host_states True) [] (ur_case_541 c)"
  unfolding host_char_def ur_case_541_def ur_host_states_def by (elim disjE conjE; simp add: ur_to_simps)

lemmas ur_host_edges =
  ur_host_edge_520 ur_host_edge_543 ur_host_edge_544 ur_host_edge_545 ur_host_edge_546 ur_host_edge_547 ur_host_edge_548
  ur_host_edge_549 ur_host_edge_550 ur_host_edge_551 ur_host_edge_552 ur_host_edge_553 ur_host_edge_554 ur_host_edge_555
  ur_host_edge_556 ur_host_edge_557 ur_host_edge_558 ur_host_edge_559 ur_host_edge_560 ur_host_edge_523 ur_host_edge_524
  ur_host_edge_525 ur_host_edge_526 ur_host_edge_527 ur_host_edge_528 ur_host_edge_529 ur_host_edge_530 ur_host_edge_531
  ur_host_edge_532 ur_host_edge_533 ur_host_edge_534 ur_host_edge_535 ur_host_edge_536 ur_host_edge_537 ur_host_edge_538
  ur_host_edge_539 ur_host_edge_540 ur_host_edge_541

lemma ur_host_region: "n \<in> ur_host_states at \<Longrightarrow> host_char c \<Longrightarrow> \<exists>m. m \<noteq> 0 \<and> m \<in> ur_host_states at \<and> ur_case n c = St m"
proof -
  assume n: "n \<in> ur_host_states at" and c: "host_char c"
  have "ur_to (ur_host_states at) [] (ur_case n c)"
    using n c unfolding ur_host_states_def [of at]
    by (cases at) (simp_all only: if_True if_False, elim insertE emptyE; simp only: ur_case_simps ur_host_edges [unfolded ur_host_states_def if_True if_False])+
  moreover have "0 \<notin> ur_host_states at" by (simp add: ur_host_states_def)
  ultimately show ?thesis by (cases "ur_case n c") (auto simp: ur_to_simps intro: ccontr [of "0 < _"])
qed

lemma ur_host_first_511: "host_char c \<Longrightarrow> ur_to (ur_host_states False) [UrMarkh] (ur_case 511 c)"
  unfolding host_char_def ur_case_simps ur_case_511_def ur_host_states_def ur_tr_defs by (elim disjE conjE; simp add: ur_to_simps)

lemma ur_host_first_522: "host_char c \<Longrightarrow> ur_to (ur_host_states True) [UrMarkh] (ur_case 522 c)"
  unfolding host_char_def ur_case_simps ur_case_522_def ur_host_states_def ur_tr_defs by (elim disjE conjE; simp add: ur_to_simps)

lemmas ur_host_case_defs =
  ur_case_520_def ur_case_543_def ur_case_544_def ur_case_545_def ur_case_546_def ur_case_547_def ur_case_548_def ur_case_549_def
  ur_case_550_def ur_case_551_def ur_case_552_def ur_case_553_def ur_case_554_def ur_case_555_def ur_case_556_def ur_case_557_def
  ur_case_558_def ur_case_559_def ur_case_560_def ur_case_523_def ur_case_524_def ur_case_525_def ur_case_526_def ur_case_527_def
  ur_case_528_def ur_case_529_def ur_case_530_def ur_case_531_def ur_case_532_def ur_case_533_def ur_case_534_def ur_case_535_def
  ur_case_536_def ur_case_537_def ur_case_538_def ur_case_539_def ur_case_540_def ur_case_541_def

lemma ur_host_colon: "n \<in> ur_host_states at \<Longrightarrow> ur_case n 58 = (if at then Goto [UrSaveHost] 514 else Goto [UrSaveHost] 521)"
  unfolding ur_host_states_def
  by (cases at) (simp_all only: if_True if_False, elim insertE emptyE; simp add: ur_case_simps ur_host_case_defs ur_tr_defs)+

lemma ur_host_slash: "n \<in> ur_host_states at \<Longrightarrow> ur_case n 47 = Goto [UrSaveHost, UrMarkh] 513"
  unfolding ur_host_states_def
  by (cases at) (simp_all only: if_True if_False, elim insertE emptyE; simp add: ur_case_simps ur_host_case_defs ur_tr_defs)+

lemma ur_host_query: "n \<in> ur_host_states at \<Longrightarrow> ur_case n 63 = Goto [UrSaveHost, UrMarkh, UrSavePath] 456"
  unfolding ur_host_states_def
  by (cases at) (simp_all only: if_True if_False, elim insertE emptyE; simp add: ur_case_simps ur_host_case_defs ur_tr_defs)+

lemma ur_host_hash: "n \<in> ur_host_states at \<Longrightarrow> ur_case n 35 = Goto [UrSaveHost, UrMarkh, UrSavePath] 453"
  unfolding ur_host_states_def
  by (cases at) (simp_all only: if_True if_False, elim insertE emptyE; simp add: ur_case_simps ur_host_case_defs ur_tr_defs)+

lemma ur_host_at: "n \<in> ur_host_states at \<Longrightarrow> ur_case n 64 = (if at then St 0 else Goto [UrSaveUserinfo] 522)"
  unfolding ur_host_states_def
  by (cases at) (simp_all only: if_True if_False, elim insertE emptyE; simp add: ur_case_simps ur_host_case_defs ur_tr_defs)+

text \<open>The other states of an absolute URI.\<close>

definition alpha :: "int \<Rightarrow> bool" where
  "alpha c \<longleftrightarrow> (65 \<le> c \<and> c \<le> 90) \<or> (97 \<le> c \<and> c \<le> 122)"

definition scheme_char :: "int \<Rightarrow> bool" where
  "scheme_char c \<longleftrightarrow> c = 43 \<or> (45 \<le> c \<and> c \<le> 46) \<or> (48 \<le> c \<and> c \<le> 57) \<or> (65 \<le> c \<and> c \<le> 90) \<or> (97 \<le> c \<and> c \<le> 122)"

text \<open>Paths, queries and fragments also take every byte above ASCII.\<close>

definition uri_path_char :: "int \<Rightarrow> bool" where
  "uri_path_char c \<longleftrightarrow> c < 0 \<or> path_char c"

definition uri_query_char :: "int \<Rightarrow> bool" where
  "uri_query_char c \<longleftrightarrow> c < 0 \<or> query_char c"

lemma ur_at_451_alpha: "alpha c \<Longrightarrow> ur_case 451 c = Goto [UrMarku] 508"
  unfolding alpha_def ur_case_simps ur_case_451_def ur_tr_defs by (elim disjE conjE; simp)

lemma ur_at_508_scheme_char: "scheme_char c \<Longrightarrow> ur_case 508 c = St 508"
  unfolding scheme_char_def ur_case_simps ur_case_508_def ur_tr_defs by (elim disjE conjE; simp)

lemma ur_at_508_58: "ur_case 508 58 = Goto [UrSaveScheme] 509"
  by (simp add: ur_case_simps ur_case_508_def ur_tr_defs)

lemma ur_at_509_47: "ur_case 509 47 = St 510"
  by (simp add: ur_case_simps ur_case_509_def ur_tr_defs)

lemma ur_at_510_47: "ur_case 510 47 = St 511"
  by (simp add: ur_case_simps ur_case_510_def ur_tr_defs)

lemma ur_at_514_digit: "digit c \<Longrightarrow> ur_case 514 c = Goto [UrMarkh] 515"
  unfolding digit_def ur_case_simps ur_case_514_def ur_tr_defs by (elim disjE conjE; simp)

lemma ur_at_521_digit: "digit c \<Longrightarrow> ur_case 521 c = Goto [UrMarkh] 542"
  unfolding digit_def ur_case_simps ur_case_521_def ur_tr_defs by (elim disjE conjE; simp)

lemma ur_at_515_digit: "digit c \<Longrightarrow> ur_case 515 c = St 515"
  unfolding digit_def ur_case_simps ur_case_515_def ur_tr_defs by (elim disjE conjE; simp)

lemma ur_at_542_digit: "digit c \<Longrightarrow> ur_case 542 c = St 542"
  unfolding digit_def ur_case_simps ur_case_542_def ur_tr_defs by (elim disjE conjE; simp)

lemma ur_at_514_47: "ur_case 514 47 = Goto [UrMarkh, UrSavePort] 513"
  by (simp add: ur_case_simps ur_case_514_def ur_tr_defs)

lemma ur_at_514_63: "ur_case 514 63 = Goto [UrMarkh, UrSavePort, UrSavePath] 456"
  by (simp add: ur_case_simps ur_case_514_def ur_tr_defs)

lemma ur_at_514_35: "ur_case 514 35 = Goto [UrMarkh, UrSavePort, UrSavePath] 453"
  by (simp add: ur_case_simps ur_case_514_def ur_tr_defs)

lemma ur_at_521_47: "ur_case 521 47 = Goto [UrMarkh, UrSavePort] 513"
  by (simp add: ur_case_simps ur_case_521_def ur_tr_defs)

lemma ur_at_521_63: "ur_case 521 63 = Goto [UrMarkh, UrSavePort, UrSavePath] 456"
  by (simp add: ur_case_simps ur_case_521_def ur_tr_defs)

lemma ur_at_521_35: "ur_case 521 35 = Goto [UrMarkh, UrSavePort, UrSavePath] 453"
  by (simp add: ur_case_simps ur_case_521_def ur_tr_defs)

lemma ur_at_515_47: "ur_case 515 47 = Goto [UrSavePort, UrMarkh] 513"
  by (simp add: ur_case_simps ur_case_515_def ur_tr_defs)

lemma ur_at_515_63: "ur_case 515 63 = Goto [UrSavePort, UrMarkh, UrSavePath] 456"
  by (simp add: ur_case_simps ur_case_515_def ur_tr_defs)

lemma ur_at_515_35: "ur_case 515 35 = Goto [UrSavePort, UrMarkh, UrSavePath] 453"
  by (simp add: ur_case_simps ur_case_515_def ur_tr_defs)

lemma ur_at_542_47: "ur_case 542 47 = Goto [UrSavePort, UrMarkh] 513"
  by (simp add: ur_case_simps ur_case_542_def ur_tr_defs)

lemma ur_at_542_63: "ur_case 542 63 = Goto [UrSavePort, UrMarkh, UrSavePath] 456"
  by (simp add: ur_case_simps ur_case_542_def ur_tr_defs)

lemma ur_at_542_35: "ur_case 542 35 = Goto [UrSavePort, UrMarkh, UrSavePath] 453"
  by (simp add: ur_case_simps ur_case_542_def ur_tr_defs)

lemma ur_at_513_uri_path_char: "uri_path_char c \<Longrightarrow> ur_case 513 c = St 513"
  unfolding uri_path_char_def path_char_def ur_case_simps ur_case_513_def ur_tr_defs by (elim disjE conjE; simp)

lemma ur_at_513_37: "ur_case 513 37 = St 243"
  by (simp add: ur_case_simps ur_case_513_def ur_tr_defs)

lemma ur_at_243_xdigit: "xdigit c \<Longrightarrow> ur_case 243 c = St 244"
  unfolding xdigit_def ur_case_simps ur_case_243_def ur_tr_defs by (elim disjE conjE; simp)

lemma ur_at_244_xdigit: "xdigit c \<Longrightarrow> ur_case 244 c = St 513"
  unfolding xdigit_def ur_case_simps ur_case_244_def ur_tr_defs by (elim disjE conjE; simp)

lemma ur_at_513_63: "ur_case 513 63 = Goto [UrSavePath] 456"
  by (simp add: ur_case_simps ur_case_513_def ur_tr_defs)

lemma ur_at_513_35: "ur_case 513 35 = Goto [UrSavePath] 453"
  by (simp add: ur_case_simps ur_case_513_def ur_tr_defs)

lemma ur_at_456_uri_query_char: "uri_query_char c \<Longrightarrow> ur_case 456 c = Goto [UrMarku] 457"
  unfolding uri_query_char_def query_char_def ur_case_simps ur_case_456_def ur_tr_defs by (elim disjE conjE; simp)

lemma ur_at_456_37: "ur_case 456 37 = Goto [UrMarku] 7"
  by (simp add: ur_case_simps ur_case_456_def ur_tr_defs)

lemma ur_at_457_uri_query_char: "uri_query_char c \<Longrightarrow> ur_case 457 c = St 457"
  unfolding uri_query_char_def query_char_def ur_case_simps ur_case_457_def ur_tr_defs by (elim disjE conjE; simp)

lemma ur_at_457_37: "ur_case 457 37 = St 7"
  by (simp add: ur_case_simps ur_case_457_def ur_tr_defs)

lemma ur_at_7_xdigit: "xdigit c \<Longrightarrow> ur_case 7 c = St 8"
  unfolding xdigit_def ur_case_simps ur_case_7_def ur_tr_defs by (elim disjE conjE; simp)

lemma ur_at_8_xdigit: "xdigit c \<Longrightarrow> ur_case 8 c = St 457"
  unfolding xdigit_def ur_case_simps ur_case_8_def ur_tr_defs by (elim disjE conjE; simp)

lemma ur_at_457_35: "ur_case 457 35 = Goto [UrSaveQuery] 453"
  by (simp add: ur_case_simps ur_case_457_def ur_tr_defs)

lemma ur_at_453_uri_query_char: "uri_query_char c \<Longrightarrow> ur_case 453 c = Goto [UrMarku] 454"
  unfolding uri_query_char_def query_char_def ur_case_simps ur_case_453_def ur_tr_defs by (elim disjE conjE; simp)

lemma ur_at_453_37: "ur_case 453 37 = Goto [UrMarku] 1"
  by (simp add: ur_case_simps ur_case_453_def ur_tr_defs)

lemma ur_at_454_uri_query_char: "uri_query_char c \<Longrightarrow> ur_case 454 c = St 454"
  unfolding uri_query_char_def query_char_def ur_case_simps ur_case_454_def ur_tr_defs by (elim disjE conjE; simp)

lemma ur_at_454_37: "ur_case 454 37 = St 1"
  by (simp add: ur_case_simps ur_case_454_def ur_tr_defs)

lemma ur_at_1_xdigit: "xdigit c \<Longrightarrow> ur_case (Suc 0) c = St 2"
  unfolding xdigit_def ur_case_simps ur_case_1_def ur_tr_defs by (elim disjE conjE; simp)

lemma ur_at_2_xdigit: "xdigit c \<Longrightarrow> ur_case 2 c = St 454"
  unfolding xdigit_def ur_case_simps ur_case_2_def ur_tr_defs by (elim disjE conjE; simp)

lemmas ur_edges =
  ur_at_451_alpha ur_at_508_scheme_char ur_at_508_58 ur_at_509_47 ur_at_510_47 ur_at_514_digit
  ur_at_521_digit ur_at_515_digit ur_at_542_digit ur_at_514_47 ur_at_514_63 ur_at_514_35
  ur_at_521_47 ur_at_521_63 ur_at_521_35 ur_at_515_47 ur_at_515_63 ur_at_515_35
  ur_at_542_47 ur_at_542_63 ur_at_542_35 ur_at_513_uri_path_char ur_at_513_37 ur_at_243_xdigit
  ur_at_244_xdigit ur_at_513_63 ur_at_513_35 ur_at_456_uri_query_char ur_at_456_37 ur_at_457_uri_query_char
  ur_at_457_37 ur_at_7_xdigit ur_at_8_xdigit ur_at_457_35 ur_at_453_uri_query_char ur_at_453_37
  ur_at_454_uri_query_char ur_at_454_37 ur_at_1_xdigit ur_at_2_xdigit

section \<open>The mark\<close>

text \<open>\<open>ur_marked\<close>: the states in which the start of a scheme, port, query or fragment is marked. Every transition leaves these parts only
  with a mark, and enters such a state only with one. (A path can be left without: see \<open>Uri\<close>.)\<close>

definition ur_marked :: "nat \<Rightarrow> bool" where
  "ur_marked n \<longleftrightarrow> n \<in> {508, 457, 7, 8, 454, 1, 2, 462, 489, 515, 542}"

fun mark_run :: "ur_action list \<Rightarrow> bool \<Rightarrow> bool option" where
  "mark_run [] b = Some b"
| "mark_run (UrMarku # as) b = mark_run as True"
| "mark_run (UrMarkh # as) b = mark_run as True"
| "mark_run (UrSaveHost # as) b = mark_run as b"
| "mark_run (UrSaveUserinfo # as) b = mark_run as False"
| "mark_run (UrSavePath # as) b = mark_run as False"
| "mark_run (UrSaveScheme # as) b = (if b then mark_run as False else None)"
| "mark_run (UrSavePort # as) b = (if b then mark_run as False else None)"
| "mark_run (UrSaveQuery # as) b = (if b then mark_run as False else None)"
| "mark_run (UrSaveFragment # as) b = (if b then mark_run as False else None)"

definition ur_edge :: "bool \<Rightarrow> ur_action goto \<Rightarrow> bool" where
  "ur_edge b g = (case g of Goto as m \<Rightarrow> (m = 0 \<longrightarrow> as = []) \<and> (case mark_run as b of None \<Rightarrow> False | Some b' \<Rightarrow> ur_marked m \<longrightarrow> b'))"

lemma ur_edge_if: "ur_edge b (if x then g else h) = (if x then ur_edge b g else ur_edge b h)"
  by simp

lemma ur_edge_st_0:
  "ur_edge b (St 0)" "ur_edge b (St 3)" "ur_edge b (St 4)" "ur_edge b (St 5)" "ur_edge b (St 6)"
  "ur_edge b (St 9)" "ur_edge b (St 10)" "ur_edge b (St 11)" "ur_edge b (St 12)" "ur_edge b (St 13)"
  "ur_edge b (St 14)" "ur_edge b (St 15)" "ur_edge b (St 16)" "ur_edge b (St 17)" "ur_edge b (St 18)"
  "ur_edge b (St 19)" "ur_edge b (St 20)" "ur_edge b (St 21)" "ur_edge b (St 22)" "ur_edge b (St 23)"
  "ur_edge b (St 24)" "ur_edge b (St 25)" "ur_edge b (St 26)" "ur_edge b (St 27)" "ur_edge b (St 28)"
  "ur_edge b (St 29)" "ur_edge b (St 30)" "ur_edge b (St 31)" "ur_edge b (St 32)" "ur_edge b (St 33)"
  "ur_edge b (St 34)" "ur_edge b (St 35)" "ur_edge b (St 36)" "ur_edge b (St 37)" "ur_edge b (St 38)"
  "ur_edge b (St 39)" "ur_edge b (St 40)" "ur_edge b (St 41)" "ur_edge b (St 42)" "ur_edge b (St 43)"
  "ur_edge b (St 44)" "ur_edge b (St 45)" "ur_edge b (St 46)" "ur_edge b (St 47)" "ur_edge b (St 48)"
  "ur_edge b (St 49)" "ur_edge b (St 50)" "ur_edge b (St 51)" "ur_edge b (St 52)" "ur_edge b (St 53)"
  "ur_edge b (St 54)" "ur_edge b (St 55)" "ur_edge b (St 56)" "ur_edge b (St 57)" "ur_edge b (St 58)"
  "ur_edge b (St 59)" "ur_edge b (St 60)" "ur_edge b (St 61)" "ur_edge b (St 62)" "ur_edge b (St 63)"
  "ur_edge b (St 64)" "ur_edge b (St 65)" "ur_edge b (St 66)" "ur_edge b (St 67)" "ur_edge b (St 68)"
  "ur_edge b (St 69)" "ur_edge b (St 70)" "ur_edge b (St 71)" "ur_edge b (St 72)" "ur_edge b (St 73)"
  "ur_edge b (St 74)" "ur_edge b (St 75)" "ur_edge b (St 76)" "ur_edge b (St 77)" "ur_edge b (St 78)"
  "ur_edge b (St 79)" "ur_edge b (St 80)" "ur_edge b (St 81)" "ur_edge b (St 82)" "ur_edge b (St 83)"
  "ur_edge b (St 84)" "ur_edge b (St 85)" "ur_edge b (St 86)" "ur_edge b (St 87)" "ur_edge b (St 88)"
  "ur_edge b (St 89)" "ur_edge b (St 90)" "ur_edge b (St 91)" "ur_edge b (St 92)" "ur_edge b (St 93)"
  "ur_edge b (St 94)" "ur_edge b (St 95)" "ur_edge b (St 96)" "ur_edge b (St 97)" "ur_edge b (St 98)"
  "ur_edge b (St 99)" "ur_edge b (St 100)" "ur_edge b (St 101)" "ur_edge b (St 102)" "ur_edge b (St 103)"
  by (simp_all add: ur_edge_def ur_marked_def)

lemma ur_edge_st_1:
  "ur_edge b (St 104)" "ur_edge b (St 105)" "ur_edge b (St 106)" "ur_edge b (St 107)" "ur_edge b (St 108)"
  "ur_edge b (St 109)" "ur_edge b (St 110)" "ur_edge b (St 111)" "ur_edge b (St 112)" "ur_edge b (St 113)"
  "ur_edge b (St 114)" "ur_edge b (St 115)" "ur_edge b (St 116)" "ur_edge b (St 117)" "ur_edge b (St 118)"
  "ur_edge b (St 119)" "ur_edge b (St 120)" "ur_edge b (St 121)" "ur_edge b (St 122)" "ur_edge b (St 123)"
  "ur_edge b (St 124)" "ur_edge b (St 125)" "ur_edge b (St 126)" "ur_edge b (St 127)" "ur_edge b (St 128)"
  "ur_edge b (St 129)" "ur_edge b (St 130)" "ur_edge b (St 131)" "ur_edge b (St 132)" "ur_edge b (St 133)"
  "ur_edge b (St 134)" "ur_edge b (St 135)" "ur_edge b (St 136)" "ur_edge b (St 137)" "ur_edge b (St 138)"
  "ur_edge b (St 139)" "ur_edge b (St 140)" "ur_edge b (St 141)" "ur_edge b (St 142)" "ur_edge b (St 143)"
  "ur_edge b (St 144)" "ur_edge b (St 145)" "ur_edge b (St 146)" "ur_edge b (St 147)" "ur_edge b (St 148)"
  "ur_edge b (St 149)" "ur_edge b (St 150)" "ur_edge b (St 151)" "ur_edge b (St 152)" "ur_edge b (St 153)"
  "ur_edge b (St 154)" "ur_edge b (St 155)" "ur_edge b (St 156)" "ur_edge b (St 157)" "ur_edge b (St 158)"
  "ur_edge b (St 159)" "ur_edge b (St 160)" "ur_edge b (St 161)" "ur_edge b (St 162)" "ur_edge b (St 163)"
  "ur_edge b (St 164)" "ur_edge b (St 165)" "ur_edge b (St 166)" "ur_edge b (St 167)" "ur_edge b (St 168)"
  "ur_edge b (St 169)" "ur_edge b (St 170)" "ur_edge b (St 171)" "ur_edge b (St 172)" "ur_edge b (St 173)"
  "ur_edge b (St 174)" "ur_edge b (St 175)" "ur_edge b (St 176)" "ur_edge b (St 177)" "ur_edge b (St 178)"
  "ur_edge b (St 179)" "ur_edge b (St 180)" "ur_edge b (St 181)" "ur_edge b (St 182)" "ur_edge b (St 183)"
  "ur_edge b (St 184)" "ur_edge b (St 185)" "ur_edge b (St 186)" "ur_edge b (St 187)" "ur_edge b (St 188)"
  "ur_edge b (St 189)" "ur_edge b (St 190)" "ur_edge b (St 191)" "ur_edge b (St 192)" "ur_edge b (St 193)"
  "ur_edge b (St 194)" "ur_edge b (St 195)" "ur_edge b (St 196)" "ur_edge b (St 197)" "ur_edge b (St 198)"
  "ur_edge b (St 199)" "ur_edge b (St 200)" "ur_edge b (St 201)" "ur_edge b (St 202)" "ur_edge b (St 203)"
  by (simp_all add: ur_edge_def ur_marked_def)

lemma ur_edge_st_2:
  "ur_edge b (St 204)" "ur_edge b (St 205)" "ur_edge b (St 206)" "ur_edge b (St 207)" "ur_edge b (St 208)"
  "ur_edge b (St 209)" "ur_edge b (St 210)" "ur_edge b (St 211)" "ur_edge b (St 212)" "ur_edge b (St 213)"
  "ur_edge b (St 214)" "ur_edge b (St 215)" "ur_edge b (St 216)" "ur_edge b (St 217)" "ur_edge b (St 218)"
  "ur_edge b (St 219)" "ur_edge b (St 220)" "ur_edge b (St 221)" "ur_edge b (St 222)" "ur_edge b (St 223)"
  "ur_edge b (St 224)" "ur_edge b (St 225)" "ur_edge b (St 226)" "ur_edge b (St 227)" "ur_edge b (St 228)"
  "ur_edge b (St 229)" "ur_edge b (St 230)" "ur_edge b (St 231)" "ur_edge b (St 232)" "ur_edge b (St 233)"
  "ur_edge b (St 234)" "ur_edge b (St 235)" "ur_edge b (St 236)" "ur_edge b (St 237)" "ur_edge b (St 238)"
  "ur_edge b (St 239)" "ur_edge b (St 240)" "ur_edge b (St 241)" "ur_edge b (St 242)" "ur_edge b (St 243)"
  "ur_edge b (St 244)" "ur_edge b (St 245)" "ur_edge b (St 246)" "ur_edge b (St 247)" "ur_edge b (St 248)"
  "ur_edge b (St 249)" "ur_edge b (St 250)" "ur_edge b (St 251)" "ur_edge b (St 252)" "ur_edge b (St 253)"
  "ur_edge b (St 254)" "ur_edge b (St 255)" "ur_edge b (St 256)" "ur_edge b (St 257)" "ur_edge b (St 258)"
  "ur_edge b (St 259)" "ur_edge b (St 260)" "ur_edge b (St 261)" "ur_edge b (St 262)" "ur_edge b (St 263)"
  "ur_edge b (St 264)" "ur_edge b (St 265)" "ur_edge b (St 266)" "ur_edge b (St 267)" "ur_edge b (St 268)"
  "ur_edge b (St 269)" "ur_edge b (St 270)" "ur_edge b (St 271)" "ur_edge b (St 272)" "ur_edge b (St 273)"
  "ur_edge b (St 274)" "ur_edge b (St 275)" "ur_edge b (St 276)" "ur_edge b (St 277)" "ur_edge b (St 278)"
  "ur_edge b (St 279)" "ur_edge b (St 280)" "ur_edge b (St 281)" "ur_edge b (St 282)" "ur_edge b (St 283)"
  "ur_edge b (St 284)" "ur_edge b (St 285)" "ur_edge b (St 286)" "ur_edge b (St 287)" "ur_edge b (St 288)"
  "ur_edge b (St 289)" "ur_edge b (St 290)" "ur_edge b (St 291)" "ur_edge b (St 292)" "ur_edge b (St 293)"
  "ur_edge b (St 294)" "ur_edge b (St 295)" "ur_edge b (St 296)" "ur_edge b (St 297)" "ur_edge b (St 298)"
  "ur_edge b (St 299)" "ur_edge b (St 300)" "ur_edge b (St 301)" "ur_edge b (St 302)" "ur_edge b (St 303)"
  by (simp_all add: ur_edge_def ur_marked_def)

lemma ur_edge_st_3:
  "ur_edge b (St 304)" "ur_edge b (St 305)" "ur_edge b (St 306)" "ur_edge b (St 307)" "ur_edge b (St 308)"
  "ur_edge b (St 309)" "ur_edge b (St 310)" "ur_edge b (St 311)" "ur_edge b (St 312)" "ur_edge b (St 313)"
  "ur_edge b (St 314)" "ur_edge b (St 315)" "ur_edge b (St 316)" "ur_edge b (St 317)" "ur_edge b (St 318)"
  "ur_edge b (St 319)" "ur_edge b (St 320)" "ur_edge b (St 321)" "ur_edge b (St 322)" "ur_edge b (St 323)"
  "ur_edge b (St 324)" "ur_edge b (St 325)" "ur_edge b (St 326)" "ur_edge b (St 327)" "ur_edge b (St 328)"
  "ur_edge b (St 329)" "ur_edge b (St 330)" "ur_edge b (St 331)" "ur_edge b (St 332)" "ur_edge b (St 333)"
  "ur_edge b (St 334)" "ur_edge b (St 335)" "ur_edge b (St 336)" "ur_edge b (St 337)" "ur_edge b (St 338)"
  "ur_edge b (St 339)" "ur_edge b (St 340)" "ur_edge b (St 341)" "ur_edge b (St 342)" "ur_edge b (St 343)"
  "ur_edge b (St 344)" "ur_edge b (St 345)" "ur_edge b (St 346)" "ur_edge b (St 347)" "ur_edge b (St 348)"
  "ur_edge b (St 349)" "ur_edge b (St 350)" "ur_edge b (St 351)" "ur_edge b (St 352)" "ur_edge b (St 353)"
  "ur_edge b (St 354)" "ur_edge b (St 355)" "ur_edge b (St 356)" "ur_edge b (St 357)" "ur_edge b (St 358)"
  "ur_edge b (St 359)" "ur_edge b (St 360)" "ur_edge b (St 361)" "ur_edge b (St 362)" "ur_edge b (St 363)"
  "ur_edge b (St 364)" "ur_edge b (St 365)" "ur_edge b (St 366)" "ur_edge b (St 367)" "ur_edge b (St 368)"
  "ur_edge b (St 369)" "ur_edge b (St 370)" "ur_edge b (St 371)" "ur_edge b (St 372)" "ur_edge b (St 373)"
  "ur_edge b (St 374)" "ur_edge b (St 375)" "ur_edge b (St 376)" "ur_edge b (St 377)" "ur_edge b (St 378)"
  "ur_edge b (St 379)" "ur_edge b (St 380)" "ur_edge b (St 381)" "ur_edge b (St 382)" "ur_edge b (St 383)"
  "ur_edge b (St 384)" "ur_edge b (St 385)" "ur_edge b (St 386)" "ur_edge b (St 387)" "ur_edge b (St 388)"
  "ur_edge b (St 389)" "ur_edge b (St 390)" "ur_edge b (St 391)" "ur_edge b (St 392)" "ur_edge b (St 393)"
  "ur_edge b (St 394)" "ur_edge b (St 395)" "ur_edge b (St 396)" "ur_edge b (St 397)" "ur_edge b (St 398)"
  "ur_edge b (St 399)" "ur_edge b (St 400)" "ur_edge b (St 401)" "ur_edge b (St 402)" "ur_edge b (St 403)"
  by (simp_all add: ur_edge_def ur_marked_def)

lemma ur_edge_st_4:
  "ur_edge b (St 404)" "ur_edge b (St 405)" "ur_edge b (St 406)" "ur_edge b (St 407)" "ur_edge b (St 408)"
  "ur_edge b (St 409)" "ur_edge b (St 410)" "ur_edge b (St 411)" "ur_edge b (St 412)" "ur_edge b (St 413)"
  "ur_edge b (St 414)" "ur_edge b (St 415)" "ur_edge b (St 416)" "ur_edge b (St 417)" "ur_edge b (St 418)"
  "ur_edge b (St 419)" "ur_edge b (St 420)" "ur_edge b (St 421)" "ur_edge b (St 422)" "ur_edge b (St 423)"
  "ur_edge b (St 424)" "ur_edge b (St 425)" "ur_edge b (St 426)" "ur_edge b (St 427)" "ur_edge b (St 428)"
  "ur_edge b (St 429)" "ur_edge b (St 430)" "ur_edge b (St 431)" "ur_edge b (St 432)" "ur_edge b (St 433)"
  "ur_edge b (St 434)" "ur_edge b (St 435)" "ur_edge b (St 436)" "ur_edge b (St 437)" "ur_edge b (St 438)"
  "ur_edge b (St 439)" "ur_edge b (St 440)" "ur_edge b (St 441)" "ur_edge b (St 442)" "ur_edge b (St 443)"
  "ur_edge b (St 444)" "ur_edge b (St 445)" "ur_edge b (St 446)" "ur_edge b (St 447)" "ur_edge b (St 448)"
  "ur_edge b (St 449)" "ur_edge b (St 450)" "ur_edge b (St 451)" "ur_edge b (St 452)" "ur_edge b (St 453)"
  "ur_edge b (St 455)" "ur_edge b (St 456)" "ur_edge b (St 458)" "ur_edge b (St 459)" "ur_edge b (St 460)"
  "ur_edge b (St 461)" "ur_edge b (St 463)" "ur_edge b (St 464)" "ur_edge b (St 465)" "ur_edge b (St 466)"
  "ur_edge b (St 467)" "ur_edge b (St 468)" "ur_edge b (St 469)" "ur_edge b (St 470)" "ur_edge b (St 471)"
  "ur_edge b (St 472)" "ur_edge b (St 473)" "ur_edge b (St 474)" "ur_edge b (St 475)" "ur_edge b (St 476)"
  "ur_edge b (St 477)" "ur_edge b (St 478)" "ur_edge b (St 479)" "ur_edge b (St 480)" "ur_edge b (St 481)"
  "ur_edge b (St 482)" "ur_edge b (St 483)" "ur_edge b (St 484)" "ur_edge b (St 485)" "ur_edge b (St 486)"
  "ur_edge b (St 487)" "ur_edge b (St 488)" "ur_edge b (St 490)" "ur_edge b (St 491)" "ur_edge b (St 492)"
  "ur_edge b (St 493)" "ur_edge b (St 494)" "ur_edge b (St 495)" "ur_edge b (St 496)" "ur_edge b (St 497)"
  "ur_edge b (St 498)" "ur_edge b (St 499)" "ur_edge b (St 500)" "ur_edge b (St 501)" "ur_edge b (St 502)"
  "ur_edge b (St 503)" "ur_edge b (St 504)" "ur_edge b (St 505)" "ur_edge b (St 506)" "ur_edge b (St 507)"
  by (simp_all add: ur_edge_def ur_marked_def)

lemma ur_edge_st_5:
  "ur_edge b (St 509)" "ur_edge b (St 510)" "ur_edge b (St 511)" "ur_edge b (St 512)" "ur_edge b (St 513)"
  "ur_edge b (St 514)" "ur_edge b (St 516)" "ur_edge b (St 517)" "ur_edge b (St 518)" "ur_edge b (St 519)"
  "ur_edge b (St 520)" "ur_edge b (St 521)" "ur_edge b (St 522)" "ur_edge b (St 523)" "ur_edge b (St 524)"
  "ur_edge b (St 525)" "ur_edge b (St 526)" "ur_edge b (St 527)" "ur_edge b (St 528)" "ur_edge b (St 529)"
  "ur_edge b (St 530)" "ur_edge b (St 531)" "ur_edge b (St 532)" "ur_edge b (St 533)" "ur_edge b (St 534)"
  "ur_edge b (St 535)" "ur_edge b (St 536)" "ur_edge b (St 537)" "ur_edge b (St 538)" "ur_edge b (St 539)"
  "ur_edge b (St 540)" "ur_edge b (St 541)" "ur_edge b (St 543)" "ur_edge b (St 544)" "ur_edge b (St 545)"
  "ur_edge b (St 546)" "ur_edge b (St 547)" "ur_edge b (St 548)" "ur_edge b (St 549)" "ur_edge b (St 550)"
  "ur_edge b (St 551)" "ur_edge b (St 552)" "ur_edge b (St 553)" "ur_edge b (St 554)" "ur_edge b (St 555)"
  "ur_edge b (St 556)" "ur_edge b (St 557)" "ur_edge b (St 558)" "ur_edge b (St 559)" "ur_edge b (St 560)"
  by (simp_all add: ur_edge_def ur_marked_def)

lemma ur_edge_tr:
  "ur_edge True (St 508)" "ur_edge True (St 457)" "ur_edge True (St 7)" "ur_edge True (St 8)" "ur_edge True (St 454)"
  "ur_edge True (St 1)" "ur_edge True (St 2)" "ur_edge True (St 462)" "ur_edge True (St 489)" "ur_edge True (St 515)"
  "ur_edge True (St 542)" "ur_edge False ur_tr_38" "ur_edge True ur_tr_38" "ur_edge False ur_tr_263" "ur_edge True ur_tr_263"
  "ur_edge False ur_tr_461" "ur_edge True ur_tr_461" "ur_edge False ur_tr_462" "ur_edge True ur_tr_462" "ur_edge False ur_tr_463"
  "ur_edge True ur_tr_463" "ur_edge False ur_tr_466" "ur_edge True ur_tr_466" "ur_edge False ur_tr_467" "ur_edge True ur_tr_467"
  "ur_edge False ur_tr_468" "ur_edge True ur_tr_468" "ur_edge True ur_tr_469" "ur_edge False ur_tr_472" "ur_edge True ur_tr_472"
  "ur_edge False ur_tr_473" "ur_edge True ur_tr_473" "ur_edge False ur_tr_474" "ur_edge True ur_tr_474" "ur_edge False ur_tr_475"
  "ur_edge True ur_tr_475" "ur_edge False ur_tr_476" "ur_edge True ur_tr_476" "ur_edge False ur_tr_477" "ur_edge True ur_tr_477"
  "ur_edge False ur_tr_478" "ur_edge True ur_tr_478" "ur_edge False ur_tr_479" "ur_edge True ur_tr_479" "ur_edge False ur_tr_480"
  "ur_edge True ur_tr_480" "ur_edge False ur_tr_481" "ur_edge True ur_tr_481" "ur_edge False ur_tr_482" "ur_edge True ur_tr_482"
  "ur_edge False ur_tr_483" "ur_edge True ur_tr_483" "ur_edge False ur_tr_484" "ur_edge True ur_tr_484" "ur_edge False ur_tr_485"
  "ur_edge True ur_tr_485" "ur_edge False ur_tr_486" "ur_edge True ur_tr_486" "ur_edge False ur_tr_487" "ur_edge True ur_tr_487"
  "ur_edge False ur_tr_488" "ur_edge True ur_tr_488" "ur_edge False ur_tr_489" "ur_edge True ur_tr_489" "ur_edge False ur_tr_490"
  "ur_edge True ur_tr_490" "ur_edge False ur_tr_491" "ur_edge True ur_tr_491" "ur_edge False ur_tr_492" "ur_edge True ur_tr_492"
  "ur_edge True ur_tr_493" "ur_edge True ur_tr_494" "ur_edge True ur_tr_496" "ur_edge False ur_tr_499" "ur_edge True ur_tr_499"
  "ur_edge False ur_tr_500" "ur_edge True ur_tr_500" "ur_edge False ur_tr_501" "ur_edge True ur_tr_501" "ur_edge False ur_tr_502"
  "ur_edge True ur_tr_502" "ur_edge False ur_tr_503" "ur_edge True ur_tr_503" "ur_edge False ur_tr_504" "ur_edge True ur_tr_504"
  "ur_edge False ur_tr_505" "ur_edge True ur_tr_505" "ur_edge False ur_tr_506" "ur_edge True ur_tr_506" "ur_edge False ur_tr_507"
  "ur_edge True ur_tr_507" "ur_edge True ur_tr_543" "ur_edge False ur_tr_546" "ur_edge True ur_tr_546" "ur_edge False ur_tr_547"
  "ur_edge True ur_tr_547" "ur_edge False ur_tr_548" "ur_edge True ur_tr_548" "ur_edge False ur_tr_549" "ur_edge True ur_tr_549"
  "ur_edge False ur_tr_550" "ur_edge True ur_tr_550" "ur_edge False ur_tr_551" "ur_edge True ur_tr_551" "ur_edge False ur_tr_552"
  "ur_edge True ur_tr_552" "ur_edge False ur_tr_553" "ur_edge True ur_tr_553" "ur_edge False ur_tr_554" "ur_edge True ur_tr_554"
  "ur_edge False ur_tr_555" "ur_edge True ur_tr_555" "ur_edge False ur_tr_556" "ur_edge True ur_tr_556" "ur_edge False ur_tr_557"
  "ur_edge True ur_tr_557" "ur_edge False ur_tr_558" "ur_edge True ur_tr_558" "ur_edge False ur_tr_559" "ur_edge True ur_tr_559"
  "ur_edge False ur_tr_560" "ur_edge True ur_tr_560" "ur_edge False ur_tr_561" "ur_edge True ur_tr_561" "ur_edge False ur_tr_562"
  "ur_edge True ur_tr_562" "ur_edge False ur_tr_563" "ur_edge True ur_tr_563" "ur_edge False ur_tr_565" "ur_edge True ur_tr_565"
  "ur_edge False ur_tr_566" "ur_edge True ur_tr_566" "ur_edge False ur_tr_567" "ur_edge True ur_tr_567" "ur_edge False ur_tr_568"
  "ur_edge True ur_tr_568" "ur_edge False ur_tr_569" "ur_edge True ur_tr_569" "ur_edge True ur_tr_570" "ur_edge True ur_tr_571"
  "ur_edge True ur_tr_573" "ur_edge False ur_tr_576" "ur_edge True ur_tr_576" "ur_edge False ur_tr_577" "ur_edge True ur_tr_577"
  "ur_edge False ur_tr_578" "ur_edge True ur_tr_578" "ur_edge False ur_tr_579" "ur_edge True ur_tr_579" "ur_edge False ur_tr_580"
  "ur_edge True ur_tr_580" "ur_edge False ur_tr_581" "ur_edge True ur_tr_581" "ur_edge False ur_tr_582" "ur_edge True ur_tr_582"
  "ur_edge False ur_tr_583" "ur_edge True ur_tr_583" "ur_edge False ur_tr_584" "ur_edge True ur_tr_584"
  by (simp_all add: ur_edge_def ur_marked_def ur_tr_defs)

lemmas ur_edge_leaves = ur_edge_tr ur_edge_st_0 ur_edge_st_1 ur_edge_st_2 ur_edge_st_3 ur_edge_st_4 ur_edge_st_5

lemma ur_edge_0:
  "ur_edge True (ur_case_1 c)" "ur_edge True (ur_case_2 c)" "ur_edge False (ur_case_3 c)" "ur_edge False (ur_case_4 c)"
  "ur_edge False (ur_case_5 c)" "ur_edge False (ur_case_6 c)" "ur_edge True (ur_case_7 c)" "ur_edge True (ur_case_8 c)"
  "ur_edge False (ur_case_9 c)" "ur_edge False (ur_case_10 c)" "ur_edge False (ur_case_11 c)" "ur_edge False (ur_case_12 c)"
  "ur_edge False (ur_case_13 c)" "ur_edge False (ur_case_14 c)" "ur_edge False (ur_case_15 c)" "ur_edge False (ur_case_16 c)"
  "ur_edge False (ur_case_17 c)" "ur_edge False (ur_case_18 c)" "ur_edge False (ur_case_19 c)" "ur_edge False (ur_case_20 c)"
  "ur_edge False (ur_case_21 c)" "ur_edge False (ur_case_22 c)" "ur_edge False (ur_case_23 c)" "ur_edge False (ur_case_24 c)"
  "ur_edge False (ur_case_25 c)" "ur_edge False (ur_case_26 c)" "ur_edge False (ur_case_27 c)" "ur_edge False (ur_case_28 c)"
  "ur_edge False (ur_case_29 c)" "ur_edge False (ur_case_30 c)" "ur_edge False (ur_case_31 c)" "ur_edge False (ur_case_32 c)"
  "ur_edge False (ur_case_33 c)" "ur_edge False (ur_case_34 c)" "ur_edge False (ur_case_35 c)" "ur_edge False (ur_case_36 c)"
  "ur_edge False (ur_case_37 c)" "ur_edge False (ur_case_38 c)" "ur_edge False (ur_case_39 c)" "ur_edge False (ur_case_40 c)"
  by (simp_all only: ur_case_1_def ur_case_2_def ur_case_3_def ur_case_4_def ur_case_5_def ur_case_6_def
      ur_case_7_def ur_case_8_def ur_case_9_def ur_case_10_def ur_case_11_def ur_case_12_def
      ur_case_13_def ur_case_14_def ur_case_15_def ur_case_16_def ur_case_17_def ur_case_18_def
      ur_case_19_def ur_case_20_def ur_case_21_def ur_case_22_def ur_case_23_def ur_case_24_def
      ur_case_25_def ur_case_26_def ur_case_27_def ur_case_28_def ur_case_29_def ur_case_30_def
      ur_case_31_def ur_case_32_def ur_case_33_def ur_case_34_def ur_case_35_def ur_case_36_def
      ur_case_37_def ur_case_38_def ur_case_39_def ur_case_40_def
      ur_edge_if ur_edge_leaves if_cancel if_True if_False simp_thms)

lemma ur_edge_1:
  "ur_edge False (ur_case_41 c)" "ur_edge False (ur_case_42 c)" "ur_edge False (ur_case_43 c)" "ur_edge False (ur_case_44 c)"
  "ur_edge False (ur_case_45 c)" "ur_edge False (ur_case_46 c)" "ur_edge False (ur_case_47 c)" "ur_edge False (ur_case_48 c)"
  "ur_edge False (ur_case_49 c)" "ur_edge False (ur_case_50 c)" "ur_edge False (ur_case_51 c)" "ur_edge False (ur_case_52 c)"
  "ur_edge False (ur_case_53 c)" "ur_edge False (ur_case_54 c)" "ur_edge False (ur_case_55 c)" "ur_edge False (ur_case_56 c)"
  "ur_edge False (ur_case_57 c)" "ur_edge False (ur_case_58 c)" "ur_edge False (ur_case_59 c)" "ur_edge False (ur_case_60 c)"
  "ur_edge False (ur_case_61 c)" "ur_edge False (ur_case_62 c)" "ur_edge False (ur_case_63 c)" "ur_edge False (ur_case_64 c)"
  "ur_edge False (ur_case_65 c)" "ur_edge False (ur_case_66 c)" "ur_edge False (ur_case_67 c)" "ur_edge False (ur_case_68 c)"
  "ur_edge False (ur_case_69 c)" "ur_edge False (ur_case_70 c)" "ur_edge False (ur_case_71 c)" "ur_edge False (ur_case_72 c)"
  "ur_edge False (ur_case_73 c)" "ur_edge False (ur_case_74 c)" "ur_edge False (ur_case_75 c)" "ur_edge False (ur_case_76 c)"
  "ur_edge False (ur_case_77 c)" "ur_edge False (ur_case_78 c)" "ur_edge False (ur_case_79 c)" "ur_edge False (ur_case_80 c)"
  by (simp_all only: ur_case_41_def ur_case_42_def ur_case_43_def ur_case_44_def ur_case_45_def ur_case_46_def
      ur_case_47_def ur_case_48_def ur_case_49_def ur_case_50_def ur_case_51_def ur_case_52_def
      ur_case_53_def ur_case_54_def ur_case_55_def ur_case_56_def ur_case_57_def ur_case_58_def
      ur_case_59_def ur_case_60_def ur_case_61_def ur_case_62_def ur_case_63_def ur_case_64_def
      ur_case_65_def ur_case_66_def ur_case_67_def ur_case_68_def ur_case_69_def ur_case_70_def
      ur_case_71_def ur_case_72_def ur_case_73_def ur_case_74_def ur_case_75_def ur_case_76_def
      ur_case_77_def ur_case_78_def ur_case_79_def ur_case_80_def
      ur_edge_if ur_edge_leaves if_cancel if_True if_False simp_thms)

lemma ur_edge_2:
  "ur_edge False (ur_case_81 c)" "ur_edge False (ur_case_82 c)" "ur_edge False (ur_case_83 c)" "ur_edge False (ur_case_84 c)"
  "ur_edge False (ur_case_85 c)" "ur_edge False (ur_case_86 c)" "ur_edge False (ur_case_87 c)" "ur_edge False (ur_case_88 c)"
  "ur_edge False (ur_case_89 c)" "ur_edge False (ur_case_90 c)" "ur_edge False (ur_case_91 c)" "ur_edge False (ur_case_92 c)"
  "ur_edge False (ur_case_93 c)" "ur_edge False (ur_case_94 c)" "ur_edge False (ur_case_95 c)" "ur_edge False (ur_case_96 c)"
  "ur_edge False (ur_case_97 c)" "ur_edge False (ur_case_98 c)" "ur_edge False (ur_case_99 c)" "ur_edge False (ur_case_100 c)"
  "ur_edge False (ur_case_101 c)" "ur_edge False (ur_case_102 c)" "ur_edge False (ur_case_103 c)" "ur_edge False (ur_case_104 c)"
  "ur_edge False (ur_case_105 c)" "ur_edge False (ur_case_106 c)" "ur_edge False (ur_case_107 c)" "ur_edge False (ur_case_108 c)"
  "ur_edge False (ur_case_109 c)" "ur_edge False (ur_case_110 c)" "ur_edge False (ur_case_111 c)" "ur_edge False (ur_case_112 c)"
  "ur_edge False (ur_case_113 c)" "ur_edge False (ur_case_114 c)" "ur_edge False (ur_case_115 c)" "ur_edge False (ur_case_116 c)"
  "ur_edge False (ur_case_117 c)" "ur_edge False (ur_case_118 c)" "ur_edge False (ur_case_119 c)" "ur_edge False (ur_case_120 c)"
  by (simp_all only: ur_case_81_def ur_case_82_def ur_case_83_def ur_case_84_def ur_case_85_def ur_case_86_def
      ur_case_87_def ur_case_88_def ur_case_89_def ur_case_90_def ur_case_91_def ur_case_92_def
      ur_case_93_def ur_case_94_def ur_case_95_def ur_case_96_def ur_case_97_def ur_case_98_def
      ur_case_99_def ur_case_100_def ur_case_101_def ur_case_102_def ur_case_103_def ur_case_104_def
      ur_case_105_def ur_case_106_def ur_case_107_def ur_case_108_def ur_case_109_def ur_case_110_def
      ur_case_111_def ur_case_112_def ur_case_113_def ur_case_114_def ur_case_115_def ur_case_116_def
      ur_case_117_def ur_case_118_def ur_case_119_def ur_case_120_def
      ur_edge_if ur_edge_leaves if_cancel if_True if_False simp_thms)

lemma ur_edge_3:
  "ur_edge False (ur_case_121 c)" "ur_edge False (ur_case_122 c)" "ur_edge False (ur_case_123 c)" "ur_edge False (ur_case_124 c)"
  "ur_edge False (ur_case_125 c)" "ur_edge False (ur_case_126 c)" "ur_edge False (ur_case_127 c)" "ur_edge False (ur_case_128 c)"
  "ur_edge False (ur_case_129 c)" "ur_edge False (ur_case_130 c)" "ur_edge False (ur_case_131 c)" "ur_edge False (ur_case_132 c)"
  "ur_edge False (ur_case_133 c)" "ur_edge False (ur_case_134 c)" "ur_edge False (ur_case_135 c)" "ur_edge False (ur_case_136 c)"
  "ur_edge False (ur_case_137 c)" "ur_edge False (ur_case_138 c)" "ur_edge False (ur_case_139 c)" "ur_edge False (ur_case_140 c)"
  "ur_edge False (ur_case_141 c)" "ur_edge False (ur_case_142 c)" "ur_edge False (ur_case_143 c)" "ur_edge False (ur_case_144 c)"
  "ur_edge False (ur_case_145 c)" "ur_edge False (ur_case_146 c)" "ur_edge False (ur_case_147 c)" "ur_edge False (ur_case_148 c)"
  "ur_edge False (ur_case_149 c)" "ur_edge False (ur_case_150 c)" "ur_edge False (ur_case_151 c)" "ur_edge False (ur_case_152 c)"
  "ur_edge False (ur_case_153 c)" "ur_edge False (ur_case_154 c)" "ur_edge False (ur_case_155 c)" "ur_edge False (ur_case_156 c)"
  "ur_edge False (ur_case_157 c)" "ur_edge False (ur_case_158 c)" "ur_edge False (ur_case_159 c)" "ur_edge False (ur_case_160 c)"
  by (simp_all only: ur_case_121_def ur_case_122_def ur_case_123_def ur_case_124_def ur_case_125_def ur_case_126_def
      ur_case_127_def ur_case_128_def ur_case_129_def ur_case_130_def ur_case_131_def ur_case_132_def
      ur_case_133_def ur_case_134_def ur_case_135_def ur_case_136_def ur_case_137_def ur_case_138_def
      ur_case_139_def ur_case_140_def ur_case_141_def ur_case_142_def ur_case_143_def ur_case_144_def
      ur_case_145_def ur_case_146_def ur_case_147_def ur_case_148_def ur_case_149_def ur_case_150_def
      ur_case_151_def ur_case_152_def ur_case_153_def ur_case_154_def ur_case_155_def ur_case_156_def
      ur_case_157_def ur_case_158_def ur_case_159_def ur_case_160_def
      ur_edge_if ur_edge_leaves if_cancel if_True if_False simp_thms)

lemma ur_edge_4:
  "ur_edge False (ur_case_161 c)" "ur_edge False (ur_case_162 c)" "ur_edge False (ur_case_163 c)" "ur_edge False (ur_case_164 c)"
  "ur_edge False (ur_case_165 c)" "ur_edge False (ur_case_166 c)" "ur_edge False (ur_case_167 c)" "ur_edge False (ur_case_168 c)"
  "ur_edge False (ur_case_169 c)" "ur_edge False (ur_case_170 c)" "ur_edge False (ur_case_171 c)" "ur_edge False (ur_case_172 c)"
  "ur_edge False (ur_case_173 c)" "ur_edge False (ur_case_174 c)" "ur_edge False (ur_case_175 c)" "ur_edge False (ur_case_176 c)"
  "ur_edge False (ur_case_177 c)" "ur_edge False (ur_case_178 c)" "ur_edge False (ur_case_179 c)" "ur_edge False (ur_case_180 c)"
  "ur_edge False (ur_case_181 c)" "ur_edge False (ur_case_182 c)" "ur_edge False (ur_case_183 c)" "ur_edge False (ur_case_184 c)"
  "ur_edge False (ur_case_185 c)" "ur_edge False (ur_case_186 c)" "ur_edge False (ur_case_187 c)" "ur_edge False (ur_case_188 c)"
  "ur_edge False (ur_case_189 c)" "ur_edge False (ur_case_190 c)" "ur_edge False (ur_case_191 c)" "ur_edge False (ur_case_192 c)"
  "ur_edge False (ur_case_193 c)" "ur_edge False (ur_case_194 c)" "ur_edge False (ur_case_195 c)" "ur_edge False (ur_case_196 c)"
  "ur_edge False (ur_case_197 c)" "ur_edge False (ur_case_198 c)" "ur_edge False (ur_case_199 c)" "ur_edge False (ur_case_200 c)"
  by (simp_all only: ur_case_161_def ur_case_162_def ur_case_163_def ur_case_164_def ur_case_165_def ur_case_166_def
      ur_case_167_def ur_case_168_def ur_case_169_def ur_case_170_def ur_case_171_def ur_case_172_def
      ur_case_173_def ur_case_174_def ur_case_175_def ur_case_176_def ur_case_177_def ur_case_178_def
      ur_case_179_def ur_case_180_def ur_case_181_def ur_case_182_def ur_case_183_def ur_case_184_def
      ur_case_185_def ur_case_186_def ur_case_187_def ur_case_188_def ur_case_189_def ur_case_190_def
      ur_case_191_def ur_case_192_def ur_case_193_def ur_case_194_def ur_case_195_def ur_case_196_def
      ur_case_197_def ur_case_198_def ur_case_199_def ur_case_200_def
      ur_edge_if ur_edge_leaves if_cancel if_True if_False simp_thms)

lemma ur_edge_5:
  "ur_edge False (ur_case_201 c)" "ur_edge False (ur_case_202 c)" "ur_edge False (ur_case_203 c)" "ur_edge False (ur_case_204 c)"
  "ur_edge False (ur_case_205 c)" "ur_edge False (ur_case_206 c)" "ur_edge False (ur_case_207 c)" "ur_edge False (ur_case_208 c)"
  "ur_edge False (ur_case_209 c)" "ur_edge False (ur_case_210 c)" "ur_edge False (ur_case_211 c)" "ur_edge False (ur_case_212 c)"
  "ur_edge False (ur_case_213 c)" "ur_edge False (ur_case_214 c)" "ur_edge False (ur_case_215 c)" "ur_edge False (ur_case_216 c)"
  "ur_edge False (ur_case_217 c)" "ur_edge False (ur_case_218 c)" "ur_edge False (ur_case_219 c)" "ur_edge False (ur_case_220 c)"
  "ur_edge False (ur_case_221 c)" "ur_edge False (ur_case_222 c)" "ur_edge False (ur_case_223 c)" "ur_edge False (ur_case_224 c)"
  "ur_edge False (ur_case_225 c)" "ur_edge False (ur_case_226 c)" "ur_edge False (ur_case_227 c)" "ur_edge False (ur_case_228 c)"
  "ur_edge False (ur_case_229 c)" "ur_edge False (ur_case_230 c)" "ur_edge False (ur_case_231 c)" "ur_edge False (ur_case_232 c)"
  "ur_edge False (ur_case_233 c)" "ur_edge False (ur_case_234 c)" "ur_edge False (ur_case_235 c)" "ur_edge False (ur_case_236 c)"
  "ur_edge False (ur_case_237 c)" "ur_edge False (ur_case_238 c)" "ur_edge False (ur_case_239 c)" "ur_edge False (ur_case_240 c)"
  by (simp_all only: ur_case_201_def ur_case_202_def ur_case_203_def ur_case_204_def ur_case_205_def ur_case_206_def
      ur_case_207_def ur_case_208_def ur_case_209_def ur_case_210_def ur_case_211_def ur_case_212_def
      ur_case_213_def ur_case_214_def ur_case_215_def ur_case_216_def ur_case_217_def ur_case_218_def
      ur_case_219_def ur_case_220_def ur_case_221_def ur_case_222_def ur_case_223_def ur_case_224_def
      ur_case_225_def ur_case_226_def ur_case_227_def ur_case_228_def ur_case_229_def ur_case_230_def
      ur_case_231_def ur_case_232_def ur_case_233_def ur_case_234_def ur_case_235_def ur_case_236_def
      ur_case_237_def ur_case_238_def ur_case_239_def ur_case_240_def
      ur_edge_if ur_edge_leaves if_cancel if_True if_False simp_thms)

lemma ur_edge_6:
  "ur_edge False (ur_case_241 c)" "ur_edge False (ur_case_242 c)" "ur_edge False (ur_case_243 c)" "ur_edge False (ur_case_244 c)"
  "ur_edge False (ur_case_245 c)" "ur_edge False (ur_case_246 c)" "ur_edge False (ur_case_247 c)" "ur_edge False (ur_case_248 c)"
  "ur_edge False (ur_case_249 c)" "ur_edge False (ur_case_250 c)" "ur_edge False (ur_case_251 c)" "ur_edge False (ur_case_252 c)"
  "ur_edge False (ur_case_253 c)" "ur_edge False (ur_case_254 c)" "ur_edge False (ur_case_255 c)" "ur_edge False (ur_case_256 c)"
  "ur_edge False (ur_case_257 c)" "ur_edge False (ur_case_258 c)" "ur_edge False (ur_case_259 c)" "ur_edge False (ur_case_260 c)"
  "ur_edge False (ur_case_261 c)" "ur_edge False (ur_case_262 c)" "ur_edge False (ur_case_263 c)" "ur_edge False (ur_case_264 c)"
  "ur_edge False (ur_case_265 c)" "ur_edge False (ur_case_266 c)" "ur_edge False (ur_case_267 c)" "ur_edge False (ur_case_268 c)"
  "ur_edge False (ur_case_269 c)" "ur_edge False (ur_case_270 c)" "ur_edge False (ur_case_271 c)" "ur_edge False (ur_case_272 c)"
  "ur_edge False (ur_case_273 c)" "ur_edge False (ur_case_274 c)" "ur_edge False (ur_case_275 c)" "ur_edge False (ur_case_276 c)"
  "ur_edge False (ur_case_277 c)" "ur_edge False (ur_case_278 c)" "ur_edge False (ur_case_279 c)" "ur_edge False (ur_case_280 c)"
  by (simp_all only: ur_case_241_def ur_case_242_def ur_case_243_def ur_case_244_def ur_case_245_def ur_case_246_def
      ur_case_247_def ur_case_248_def ur_case_249_def ur_case_250_def ur_case_251_def ur_case_252_def
      ur_case_253_def ur_case_254_def ur_case_255_def ur_case_256_def ur_case_257_def ur_case_258_def
      ur_case_259_def ur_case_260_def ur_case_261_def ur_case_262_def ur_case_263_def ur_case_264_def
      ur_case_265_def ur_case_266_def ur_case_267_def ur_case_268_def ur_case_269_def ur_case_270_def
      ur_case_271_def ur_case_272_def ur_case_273_def ur_case_274_def ur_case_275_def ur_case_276_def
      ur_case_277_def ur_case_278_def ur_case_279_def ur_case_280_def
      ur_edge_if ur_edge_leaves if_cancel if_True if_False simp_thms)

lemma ur_edge_7:
  "ur_edge False (ur_case_281 c)" "ur_edge False (ur_case_282 c)" "ur_edge False (ur_case_283 c)" "ur_edge False (ur_case_284 c)"
  "ur_edge False (ur_case_285 c)" "ur_edge False (ur_case_286 c)" "ur_edge False (ur_case_287 c)" "ur_edge False (ur_case_288 c)"
  "ur_edge False (ur_case_289 c)" "ur_edge False (ur_case_290 c)" "ur_edge False (ur_case_291 c)" "ur_edge False (ur_case_292 c)"
  "ur_edge False (ur_case_293 c)" "ur_edge False (ur_case_294 c)" "ur_edge False (ur_case_295 c)" "ur_edge False (ur_case_296 c)"
  "ur_edge False (ur_case_297 c)" "ur_edge False (ur_case_298 c)" "ur_edge False (ur_case_299 c)" "ur_edge False (ur_case_300 c)"
  "ur_edge False (ur_case_301 c)" "ur_edge False (ur_case_302 c)" "ur_edge False (ur_case_303 c)" "ur_edge False (ur_case_304 c)"
  "ur_edge False (ur_case_305 c)" "ur_edge False (ur_case_306 c)" "ur_edge False (ur_case_307 c)" "ur_edge False (ur_case_308 c)"
  "ur_edge False (ur_case_309 c)" "ur_edge False (ur_case_310 c)" "ur_edge False (ur_case_311 c)" "ur_edge False (ur_case_312 c)"
  "ur_edge False (ur_case_313 c)" "ur_edge False (ur_case_314 c)" "ur_edge False (ur_case_315 c)" "ur_edge False (ur_case_316 c)"
  "ur_edge False (ur_case_317 c)" "ur_edge False (ur_case_318 c)" "ur_edge False (ur_case_319 c)" "ur_edge False (ur_case_320 c)"
  by (simp_all only: ur_case_281_def ur_case_282_def ur_case_283_def ur_case_284_def ur_case_285_def ur_case_286_def
      ur_case_287_def ur_case_288_def ur_case_289_def ur_case_290_def ur_case_291_def ur_case_292_def
      ur_case_293_def ur_case_294_def ur_case_295_def ur_case_296_def ur_case_297_def ur_case_298_def
      ur_case_299_def ur_case_300_def ur_case_301_def ur_case_302_def ur_case_303_def ur_case_304_def
      ur_case_305_def ur_case_306_def ur_case_307_def ur_case_308_def ur_case_309_def ur_case_310_def
      ur_case_311_def ur_case_312_def ur_case_313_def ur_case_314_def ur_case_315_def ur_case_316_def
      ur_case_317_def ur_case_318_def ur_case_319_def ur_case_320_def
      ur_edge_if ur_edge_leaves if_cancel if_True if_False simp_thms)

lemma ur_edge_8:
  "ur_edge False (ur_case_321 c)" "ur_edge False (ur_case_322 c)" "ur_edge False (ur_case_323 c)" "ur_edge False (ur_case_324 c)"
  "ur_edge False (ur_case_325 c)" "ur_edge False (ur_case_326 c)" "ur_edge False (ur_case_327 c)" "ur_edge False (ur_case_328 c)"
  "ur_edge False (ur_case_329 c)" "ur_edge False (ur_case_330 c)" "ur_edge False (ur_case_331 c)" "ur_edge False (ur_case_332 c)"
  "ur_edge False (ur_case_333 c)" "ur_edge False (ur_case_334 c)" "ur_edge False (ur_case_335 c)" "ur_edge False (ur_case_336 c)"
  "ur_edge False (ur_case_337 c)" "ur_edge False (ur_case_338 c)" "ur_edge False (ur_case_339 c)" "ur_edge False (ur_case_340 c)"
  "ur_edge False (ur_case_341 c)" "ur_edge False (ur_case_342 c)" "ur_edge False (ur_case_343 c)" "ur_edge False (ur_case_344 c)"
  "ur_edge False (ur_case_345 c)" "ur_edge False (ur_case_346 c)" "ur_edge False (ur_case_347 c)" "ur_edge False (ur_case_348 c)"
  "ur_edge False (ur_case_349 c)" "ur_edge False (ur_case_350 c)" "ur_edge False (ur_case_351 c)" "ur_edge False (ur_case_352 c)"
  "ur_edge False (ur_case_353 c)" "ur_edge False (ur_case_354 c)" "ur_edge False (ur_case_355 c)" "ur_edge False (ur_case_356 c)"
  "ur_edge False (ur_case_357 c)" "ur_edge False (ur_case_358 c)" "ur_edge False (ur_case_359 c)" "ur_edge False (ur_case_360 c)"
  by (simp_all only: ur_case_321_def ur_case_322_def ur_case_323_def ur_case_324_def ur_case_325_def ur_case_326_def
      ur_case_327_def ur_case_328_def ur_case_329_def ur_case_330_def ur_case_331_def ur_case_332_def
      ur_case_333_def ur_case_334_def ur_case_335_def ur_case_336_def ur_case_337_def ur_case_338_def
      ur_case_339_def ur_case_340_def ur_case_341_def ur_case_342_def ur_case_343_def ur_case_344_def
      ur_case_345_def ur_case_346_def ur_case_347_def ur_case_348_def ur_case_349_def ur_case_350_def
      ur_case_351_def ur_case_352_def ur_case_353_def ur_case_354_def ur_case_355_def ur_case_356_def
      ur_case_357_def ur_case_358_def ur_case_359_def ur_case_360_def
      ur_edge_if ur_edge_leaves if_cancel if_True if_False simp_thms)

lemma ur_edge_9:
  "ur_edge False (ur_case_361 c)" "ur_edge False (ur_case_362 c)" "ur_edge False (ur_case_363 c)" "ur_edge False (ur_case_364 c)"
  "ur_edge False (ur_case_365 c)" "ur_edge False (ur_case_366 c)" "ur_edge False (ur_case_367 c)" "ur_edge False (ur_case_368 c)"
  "ur_edge False (ur_case_369 c)" "ur_edge False (ur_case_370 c)" "ur_edge False (ur_case_371 c)" "ur_edge False (ur_case_372 c)"
  "ur_edge False (ur_case_373 c)" "ur_edge False (ur_case_374 c)" "ur_edge False (ur_case_375 c)" "ur_edge False (ur_case_376 c)"
  "ur_edge False (ur_case_377 c)" "ur_edge False (ur_case_378 c)" "ur_edge False (ur_case_379 c)" "ur_edge False (ur_case_380 c)"
  "ur_edge False (ur_case_381 c)" "ur_edge False (ur_case_382 c)" "ur_edge False (ur_case_383 c)" "ur_edge False (ur_case_384 c)"
  "ur_edge False (ur_case_385 c)" "ur_edge False (ur_case_386 c)" "ur_edge False (ur_case_387 c)" "ur_edge False (ur_case_388 c)"
  "ur_edge False (ur_case_389 c)" "ur_edge False (ur_case_390 c)" "ur_edge False (ur_case_391 c)" "ur_edge False (ur_case_392 c)"
  "ur_edge False (ur_case_393 c)" "ur_edge False (ur_case_394 c)" "ur_edge False (ur_case_395 c)" "ur_edge False (ur_case_396 c)"
  "ur_edge False (ur_case_397 c)" "ur_edge False (ur_case_398 c)" "ur_edge False (ur_case_399 c)" "ur_edge False (ur_case_400 c)"
  by (simp_all only: ur_case_361_def ur_case_362_def ur_case_363_def ur_case_364_def ur_case_365_def ur_case_366_def
      ur_case_367_def ur_case_368_def ur_case_369_def ur_case_370_def ur_case_371_def ur_case_372_def
      ur_case_373_def ur_case_374_def ur_case_375_def ur_case_376_def ur_case_377_def ur_case_378_def
      ur_case_379_def ur_case_380_def ur_case_381_def ur_case_382_def ur_case_383_def ur_case_384_def
      ur_case_385_def ur_case_386_def ur_case_387_def ur_case_388_def ur_case_389_def ur_case_390_def
      ur_case_391_def ur_case_392_def ur_case_393_def ur_case_394_def ur_case_395_def ur_case_396_def
      ur_case_397_def ur_case_398_def ur_case_399_def ur_case_400_def
      ur_edge_if ur_edge_leaves if_cancel if_True if_False simp_thms)

lemma ur_edge_10:
  "ur_edge False (ur_case_401 c)" "ur_edge False (ur_case_402 c)" "ur_edge False (ur_case_403 c)" "ur_edge False (ur_case_404 c)"
  "ur_edge False (ur_case_405 c)" "ur_edge False (ur_case_406 c)" "ur_edge False (ur_case_407 c)" "ur_edge False (ur_case_408 c)"
  "ur_edge False (ur_case_409 c)" "ur_edge False (ur_case_410 c)" "ur_edge False (ur_case_411 c)" "ur_edge False (ur_case_412 c)"
  "ur_edge False (ur_case_413 c)" "ur_edge False (ur_case_414 c)" "ur_edge False (ur_case_415 c)" "ur_edge False (ur_case_416 c)"
  "ur_edge False (ur_case_417 c)" "ur_edge False (ur_case_418 c)" "ur_edge False (ur_case_419 c)" "ur_edge False (ur_case_420 c)"
  "ur_edge False (ur_case_421 c)" "ur_edge False (ur_case_422 c)" "ur_edge False (ur_case_423 c)" "ur_edge False (ur_case_424 c)"
  "ur_edge False (ur_case_425 c)" "ur_edge False (ur_case_426 c)" "ur_edge False (ur_case_427 c)" "ur_edge False (ur_case_428 c)"
  "ur_edge False (ur_case_429 c)" "ur_edge False (ur_case_430 c)" "ur_edge False (ur_case_431 c)" "ur_edge False (ur_case_432 c)"
  "ur_edge False (ur_case_433 c)" "ur_edge False (ur_case_434 c)" "ur_edge False (ur_case_435 c)" "ur_edge False (ur_case_436 c)"
  "ur_edge False (ur_case_437 c)" "ur_edge False (ur_case_438 c)" "ur_edge False (ur_case_439 c)" "ur_edge False (ur_case_440 c)"
  by (simp_all only: ur_case_401_def ur_case_402_def ur_case_403_def ur_case_404_def ur_case_405_def ur_case_406_def
      ur_case_407_def ur_case_408_def ur_case_409_def ur_case_410_def ur_case_411_def ur_case_412_def
      ur_case_413_def ur_case_414_def ur_case_415_def ur_case_416_def ur_case_417_def ur_case_418_def
      ur_case_419_def ur_case_420_def ur_case_421_def ur_case_422_def ur_case_423_def ur_case_424_def
      ur_case_425_def ur_case_426_def ur_case_427_def ur_case_428_def ur_case_429_def ur_case_430_def
      ur_case_431_def ur_case_432_def ur_case_433_def ur_case_434_def ur_case_435_def ur_case_436_def
      ur_case_437_def ur_case_438_def ur_case_439_def ur_case_440_def
      ur_edge_if ur_edge_leaves if_cancel if_True if_False simp_thms)

lemma ur_edge_11:
  "ur_edge False (ur_case_441 c)" "ur_edge False (ur_case_442 c)" "ur_edge False (ur_case_443 c)" "ur_edge False (ur_case_444 c)"
  "ur_edge False (ur_case_445 c)" "ur_edge False (ur_case_446 c)" "ur_edge False (ur_case_447 c)" "ur_edge False (ur_case_448 c)"
  "ur_edge False (ur_case_449 c)" "ur_edge False (ur_case_450 c)" "ur_edge False (ur_case_451 c)" "ur_edge False (ur_case_452 c)"
  "ur_edge False (ur_case_453 c)" "ur_edge True (ur_case_454 c)" "ur_edge False (ur_case_455 c)" "ur_edge False (ur_case_456 c)"
  "ur_edge True (ur_case_457 c)" "ur_edge False (ur_case_458 c)" "ur_edge False (ur_case_459 c)" "ur_edge False (ur_case_460 c)"
  "ur_edge False (ur_case_461 c)" "ur_edge True (ur_case_462 c)" "ur_edge False (ur_case_463 c)" "ur_edge False (ur_case_464 c)"
  "ur_edge False (ur_case_465 c)" "ur_edge False (ur_case_466 c)" "ur_edge False (ur_case_467 c)" "ur_edge False (ur_case_468 c)"
  "ur_edge False (ur_case_469 c)" "ur_edge False (ur_case_470 c)" "ur_edge False (ur_case_471 c)" "ur_edge False (ur_case_472 c)"
  "ur_edge False (ur_case_473 c)" "ur_edge False (ur_case_474 c)" "ur_edge False (ur_case_475 c)" "ur_edge False (ur_case_476 c)"
  "ur_edge False (ur_case_477 c)" "ur_edge False (ur_case_478 c)" "ur_edge False (ur_case_479 c)" "ur_edge False (ur_case_480 c)"
  by (simp_all only: ur_case_441_def ur_case_442_def ur_case_443_def ur_case_444_def ur_case_445_def ur_case_446_def
      ur_case_447_def ur_case_448_def ur_case_449_def ur_case_450_def ur_case_451_def ur_case_452_def
      ur_case_453_def ur_case_454_def ur_case_455_def ur_case_456_def ur_case_457_def ur_case_458_def
      ur_case_459_def ur_case_460_def ur_case_461_def ur_case_462_def ur_case_463_def ur_case_464_def
      ur_case_465_def ur_case_466_def ur_case_467_def ur_case_468_def ur_case_469_def ur_case_470_def
      ur_case_471_def ur_case_472_def ur_case_473_def ur_case_474_def ur_case_475_def ur_case_476_def
      ur_case_477_def ur_case_478_def ur_case_479_def ur_case_480_def
      ur_edge_if ur_edge_leaves if_cancel if_True if_False simp_thms)

lemma ur_edge_12:
  "ur_edge False (ur_case_481 c)" "ur_edge False (ur_case_482 c)" "ur_edge False (ur_case_483 c)" "ur_edge False (ur_case_484 c)"
  "ur_edge False (ur_case_485 c)" "ur_edge False (ur_case_486 c)" "ur_edge False (ur_case_487 c)" "ur_edge False (ur_case_488 c)"
  "ur_edge True (ur_case_489 c)" "ur_edge False (ur_case_490 c)" "ur_edge False (ur_case_491 c)" "ur_edge False (ur_case_492 c)"
  "ur_edge False (ur_case_493 c)" "ur_edge False (ur_case_494 c)" "ur_edge False (ur_case_495 c)" "ur_edge False (ur_case_496 c)"
  "ur_edge False (ur_case_497 c)" "ur_edge False (ur_case_498 c)" "ur_edge False (ur_case_499 c)" "ur_edge False (ur_case_500 c)"
  "ur_edge False (ur_case_501 c)" "ur_edge False (ur_case_502 c)" "ur_edge False (ur_case_503 c)" "ur_edge False (ur_case_504 c)"
  "ur_edge False (ur_case_505 c)" "ur_edge False (ur_case_506 c)" "ur_edge False (ur_case_507 c)" "ur_edge True (ur_case_508 c)"
  "ur_edge False (ur_case_509 c)" "ur_edge False (ur_case_510 c)" "ur_edge False (ur_case_511 c)" "ur_edge False (ur_case_512 c)"
  "ur_edge False (ur_case_513 c)" "ur_edge False (ur_case_514 c)" "ur_edge True (ur_case_515 c)" "ur_edge False (ur_case_516 c)"
  "ur_edge False (ur_case_517 c)" "ur_edge False (ur_case_518 c)" "ur_edge False (ur_case_519 c)" "ur_edge False (ur_case_520 c)"
  by (simp_all only: ur_case_481_def ur_case_482_def ur_case_483_def ur_case_484_def ur_case_485_def ur_case_486_def
      ur_case_487_def ur_case_488_def ur_case_489_def ur_case_490_def ur_case_491_def ur_case_492_def
      ur_case_493_def ur_case_494_def ur_case_495_def ur_case_496_def ur_case_497_def ur_case_498_def
      ur_case_499_def ur_case_500_def ur_case_501_def ur_case_502_def ur_case_503_def ur_case_504_def
      ur_case_505_def ur_case_506_def ur_case_507_def ur_case_508_def ur_case_509_def ur_case_510_def
      ur_case_511_def ur_case_512_def ur_case_513_def ur_case_514_def ur_case_515_def ur_case_516_def
      ur_case_517_def ur_case_518_def ur_case_519_def ur_case_520_def
      ur_edge_if ur_edge_leaves if_cancel if_True if_False simp_thms)

lemma ur_edge_13:
  "ur_edge False (ur_case_521 c)" "ur_edge False (ur_case_522 c)" "ur_edge False (ur_case_523 c)" "ur_edge False (ur_case_524 c)"
  "ur_edge False (ur_case_525 c)" "ur_edge False (ur_case_526 c)" "ur_edge False (ur_case_527 c)" "ur_edge False (ur_case_528 c)"
  "ur_edge False (ur_case_529 c)" "ur_edge False (ur_case_530 c)" "ur_edge False (ur_case_531 c)" "ur_edge False (ur_case_532 c)"
  "ur_edge False (ur_case_533 c)" "ur_edge False (ur_case_534 c)" "ur_edge False (ur_case_535 c)" "ur_edge False (ur_case_536 c)"
  "ur_edge False (ur_case_537 c)" "ur_edge False (ur_case_538 c)" "ur_edge False (ur_case_539 c)" "ur_edge False (ur_case_540 c)"
  "ur_edge False (ur_case_541 c)" "ur_edge True (ur_case_542 c)" "ur_edge False (ur_case_543 c)" "ur_edge False (ur_case_544 c)"
  "ur_edge False (ur_case_545 c)" "ur_edge False (ur_case_546 c)" "ur_edge False (ur_case_547 c)" "ur_edge False (ur_case_548 c)"
  "ur_edge False (ur_case_549 c)" "ur_edge False (ur_case_550 c)" "ur_edge False (ur_case_551 c)" "ur_edge False (ur_case_552 c)"
  "ur_edge False (ur_case_553 c)" "ur_edge False (ur_case_554 c)" "ur_edge False (ur_case_555 c)" "ur_edge False (ur_case_556 c)"
  "ur_edge False (ur_case_557 c)" "ur_edge False (ur_case_558 c)" "ur_edge False (ur_case_559 c)" "ur_edge False (ur_case_560 c)"
  by (simp_all only: ur_case_521_def ur_case_522_def ur_case_523_def ur_case_524_def ur_case_525_def ur_case_526_def
      ur_case_527_def ur_case_528_def ur_case_529_def ur_case_530_def ur_case_531_def ur_case_532_def
      ur_case_533_def ur_case_534_def ur_case_535_def ur_case_536_def ur_case_537_def ur_case_538_def
      ur_case_539_def ur_case_540_def ur_case_541_def ur_case_542_def ur_case_543_def ur_case_544_def
      ur_case_545_def ur_case_546_def ur_case_547_def ur_case_548_def ur_case_549_def ur_case_550_def
      ur_case_551_def ur_case_552_def ur_case_553_def ur_case_554_def ur_case_555_def ur_case_556_def
      ur_case_557_def ur_case_558_def ur_case_559_def ur_case_560_def
      ur_edge_if ur_edge_leaves if_cancel if_True if_False simp_thms)

lemmas ur_edge_cases = ur_edge_0 ur_edge_1 ur_edge_2 ur_edge_3 ur_edge_4 ur_edge_5 ur_edge_6 ur_edge_7 ur_edge_8 ur_edge_9 ur_edge_10 ur_edge_11 ur_edge_12 ur_edge_13

lemma ur_edge_ifI: "(x \<Longrightarrow> ur_edge b g) \<Longrightarrow> (\<not> x \<Longrightarrow> ur_edge b h) \<Longrightarrow> ur_edge b (if x then g else h)"
  by simp

lemma ur_edge_case: "ur_edge (ur_marked n) (ur_case n c)"
proof (cases "ur_marked n")
  case True
  then have "n = 508 \<or> n = 457 \<or> n = 7 \<or> n = 8 \<or> n = 454 \<or> n = 1 \<or> n = 2 \<or> n = 462 \<or> n = 489 \<or> n = 515 \<or> n = 542"
    by (simp add: ur_marked_def)
  then show ?thesis using True by (elim disjE) (simp_all add: ur_case_simps ur_edge_cases)
next
  case False
  have "ur_edge False (ur_case n c)"
    unfolding ur_case_def
    by (intro ur_edge_ifI; (rule ur_edge_cases ur_edge_st_0 | use False in \<open>simp add: ur_marked_def\<close>))
  then show ?thesis using False by simp
qed

end
