(* ===== verification/HttpSession.thy ===== *)
theory HttpSession
  imports HttpParser Servlet StreamIO
begin

text \<open>
  \<^verbatim>\<open>src/cxk/http/http_session.cpp\<close> and \<^verbatim>\<open>http_server.cpp\<close>: the receive loop of a session over a stream, the body, the
  response, and the loop of the server over the requests of a connection. The stream is a state \<open>'s\<close> with the virtual
  \<^verbatim>\<open>read\<close>, \<^verbatim>\<open>write\<close> and \<^verbatim>\<open>close\<close> as arguments, as in \<open>StreamIO\<close>. A buffer is the list of its characters; its first contents are
  an argument, as is the memory in which a parser is made. Loops over the stream need not end: \<open>None\<close> is running out of fuel.
  Buffers are below 2 GB, so that offsets in a buffer fit an \<^verbatim>\<open>int\<close>.
\<close>

definition to_bytes :: "string \<Rightarrow> u8 list" where
  "to_bytes s = map of_char s"

definition of_bytes :: "u8 list \<Rightarrow> string" where
  "of_bytes bs = map (\<lambda>b. char_of (unat b)) bs"

section \<open>Sessions\<close>

primrec recv_request_loop ::
  "nat \<Rightarrow> ('s \<Rightarrow> nat \<Rightarrow> int \<times> u8 list \<times> 's) \<Rightarrow> ('s \<Rightarrow> 's) \<Rightarrow> nat \<Rightarrow> string \<Rightarrow> nat \<Rightarrow> request_parser \<Rightarrow> 's \<Rightarrow>
   ('s, (string \<times> nat \<times> request_parser) option) outcome option" where
  "recv_request_loop 0 rd close buff_size data offset parser s = None"
| "recv_request_loop (Suc fuel) rd close buff_size data offset parser s =
     (case rd s (buff_size - offset) of (len, bs, s) \<Rightarrow>
        if len \<le> 0 then Some (Ret None (close s))
        else let data = overwrite offset (of_bytes bs) data; len = offset + nat len in
          (case execute_request data len parser of
            Undef u \<Rightarrow> Some (Undef u)
          | Throw e parser \<Rightarrow> Some (Throw e s)
          | Ret (nparse, data) parser \<Rightarrow>
              if req_hasError parser then Some (Ret None (close s))
              else let offset = len - nparse in
                if int offset = to_int32 (int buff_size) then Some (Ret None (close s))
                else if req_isFinished parser \<noteq> 0 then Some (Ret (Some (data, offset, parser)) s)
                else recv_request_loop fuel rd close buff_size data offset parser s))"

text \<open>
  The body: what is in the buffer behind the head, and the rest from the stream. \<^verbatim>\<open>length -= offset\<close> is done in
  \<^verbatim>\<open>uint64_t\<close>. Making a string of 2^63 characters or more throws. \<open>None\<close>: the stream ended or failed.
\<close>

definition receive_body ::
  "('s \<Rightarrow> nat \<Rightarrow> int \<times> u8 list \<times> 's) \<Rightarrow> u64 \<Rightarrow> string \<Rightarrow> nat \<Rightarrow> 's \<Rightarrow> ('s, string option) outcome" where
  "receive_body rd content_len data offset s =
     (if 2 ^ 63 \<le> unat content_len then Throw LengthError s
      else
        let body = replicate (unat content_len) CHR 0x00;
            len = (if of_nat offset \<le> content_len then offset else unat content_len);
            body = overwrite 0 (take len data) body;
            left = content_len - of_nat offset
        in if left > 0 then
             (case readFixSize rd s left of (rt, bs, s) \<Rightarrow>
                if rt \<le> 0 then Ret None s else Ret (Some (overwrite len (of_bytes bs) body)) s)
           else Ret (Some body) s)"

definition recvRequest ::
  "nat \<Rightarrow> (string \<Rightarrow> u64 option) \<Rightarrow> ('s \<Rightarrow> nat \<Rightarrow> int \<times> u8 list \<times> 's) \<Rightarrow> ('s \<Rightarrow> 's) \<Rightarrow> string \<Rightarrow> http_parser \<Rightarrow> int \<Rightarrow> 's \<Rightarrow>
   ('s, http_request option) outcome option" where
  "recvRequest fuel lexical_cast rd close buffer mem junk s =
     map_option (\<lambda>r. obind r (\<lambda>head s. case head of
        None \<Rightarrow> Ret None s
      | Some (data, offset, parser) \<Rightarrow>
          let content_len = req_getContentLength lexical_cast parser in
          obind (if content_len > 0 then receive_body rd content_len data offset s else Ret (Some (q_body (rq_data parser))) s) (\<lambda>body s.
            case body of
              None \<Rightarrow> Ret None (close s)
            | Some body \<Rightarrow>
                let req = (rq_data parser)\<lparr>q_body := body\<rparr> in
                Ret (Some (if fold_case (req_getHeader ''Connection'' [] req) = fold_case ''keep-alive'' then req\<lparr>q_close := False\<rparr> else req)) s)))
       (recv_request_loop fuel rd close (length buffer) buffer 0 (new_HttpRequestParser mem junk) s)"

definition sendResponse :: "nat \<Rightarrow> ('s \<Rightarrow> u8 list \<Rightarrow> int \<times> 's) \<Rightarrow> http_response \<Rightarrow> 's \<Rightarrow> ('s, int) outcome option" where
  "sendResponse fuel wr rsp s = writeFixSize fuel wr (to_bytes (dump_response rsp)) s"

section \<open>Server\<close>

record 's http_server =
  hs_isKeepAlive :: bool
  hs_dispatch :: "'s servlet dispatch"
  hs_type :: string
  hs_name :: string

definition new_HttpServer :: "bool \<Rightarrow> string \<Rightarrow> 's http_server" where
  "new_HttpServer isKeepAlive name =
     \<lparr>hs_isKeepAlive = isKeepAlive, hs_dispatch = new_ServletDispatch, hs_type = ''http'', hs_name = name\<rparr>"

definition http_setName :: "string \<Rightarrow> 's http_server \<Rightarrow> 's http_server" where
  "http_setName v h = h\<lparr>hs_name := v, hs_dispatch := setDefault (Some (new_NotFoundServlet v)) (hs_dispatch h)\<rparr>"

text \<open>One round of \<open>handleClient\<close>: whether the loop goes on. \<open>recv\<close> and \<open>send\<close> are the session's operations.\<close>

definition handle_round ::
  "(string \<Rightarrow> string \<Rightarrow> bool) \<Rightarrow> 's http_server \<Rightarrow> ('s \<Rightarrow> ('s, http_request option) outcome option) \<Rightarrow>
   (http_response \<Rightarrow> 's \<Rightarrow> ('s, int) outcome option) \<Rightarrow> 's \<Rightarrow> ('s, bool) outcome option" where
  "handle_round fnmatch h recv send session =
     (case recv session of
        None \<Rightarrow> None
      | Some (Undef u) \<Rightarrow> Some (Undef u)
      | Some (Throw e session) \<Rightarrow> Some (Throw e session)
      | Some (Ret None session) \<Rightarrow> Some (Ret False session)
      | Some (Ret (Some req) session) \<Rightarrow>
          let rsp = new_HttpResponse (q_version req) (q_close req \<or> \<not> hs_isKeepAlive h);
              rsp = rsp_setHeader ''Server'' (hs_name h) rsp
          in (case dispatch_handle fnmatch (hs_dispatch h) req rsp session of (_, req, rsp, session) \<Rightarrow>
            map_option (\<lambda>r. obind r (\<lambda>_. Ret (\<not> (\<not> hs_isKeepAlive h \<or> q_close req)))) (send rsp session)))"

primrec handleClient ::
  "nat \<Rightarrow> (string \<Rightarrow> string \<Rightarrow> bool) \<Rightarrow> 's http_server \<Rightarrow> ('s \<Rightarrow> ('s, http_request option) outcome option) \<Rightarrow>
   (http_response \<Rightarrow> 's \<Rightarrow> ('s, int) outcome option) \<Rightarrow> ('s \<Rightarrow> 's) \<Rightarrow> 's \<Rightarrow> ('s, unit) outcome option" where
  "handleClient 0 fnmatch h recv send close session = None"
| "handleClient (Suc fuel) fnmatch h recv send close session =
     (case handle_round fnmatch h recv send session of
        None \<Rightarrow> None
      | Some (Undef u) \<Rightarrow> Some (Undef u)
      | Some (Throw e session) \<Rightarrow> Some (Throw e session)
      | Some (Ret True session) \<Rightarrow> handleClient fuel fnmatch h recv send close session
      | Some (Ret False session) \<Rightarrow> Some (Ret () (close session)))"

section \<open>Texts and bytes\<close>

lemma of_to_bytes [simp]: "of_bytes (to_bytes s) = s"
proof -
  have "char_of (unat (of_char c :: u8)) = c" for c :: char
  proof -
    have "(of_char c :: u8) = of_nat (of_char c)" by (simp only: of_nat_of_char)
    then have "unat (of_char c :: u8) = of_char c"
      using nat_of_char_less_256 [of c] by (simp add: unat_of_nat take_bit_nat_eq_self del: of_nat_of_char)
    then show ?thesis by simp
  qed
  then show ?thesis by (simp add: of_bytes_def to_bytes_def comp_def)
qed

lemma to_bytes_simps [simp]:
  "length (to_bytes s) = length s" "to_bytes (s @ t) = to_bytes s @ to_bytes t" "to_bytes [] = []"
  "length (of_bytes bs) = length bs" "to_bytes s = [] \<longleftrightarrow> s = []"
  "of_bytes (bs @ cs) = of_bytes bs @ of_bytes cs" "of_bytes [] = []"
  "take n (to_bytes s) = to_bytes (take n s)" "drop n (to_bytes s) = to_bytes (drop n s)"
  by (simp_all add: to_bytes_def of_bytes_def take_map drop_map)


section \<open>Serialised requests\<close>

lemma find_sorted:
  "sorted_keys m \<Longrightarrow> map_option snd (find (\<lambda>(k', w). same_key k' k) (rev m)) = map_find CaseInsensitiveLess k m"
proof (induction m)
  case (Cons p m)
  obtain l w where p: "p = (l, w)" by (cases p)
  have e: "find P (xs @ ys) = (case find P xs of Some x \<Rightarrow> Some x | None \<Rightarrow> find P ys)" for P :: "string \<times> string \<Rightarrow> bool" and xs ys
    by (induction xs) auto
  have same: "same_key l k \<longleftrightarrow> \<not> CaseInsensitiveLess l k \<and> \<not> CaseInsensitiveLess k l"
    using ci_same [of l k] unfolding same_key_def ci.same_def by simp
  have "map_find CaseInsensitiveLess k m = None" if "\<not> CaseInsensitiveLess l k"
  proof (rule ci.find_below, intro ballI)
    fix q assume "q \<in> set m"
    then have "CaseInsensitiveLess l (fst q)" using Cons.prems p by auto
    then show "CaseInsensitiveLess k (fst q)" using that ci.weak by blast
  qed
  then show ?case using Cons p same ci.asym [of l k] by (cases "CaseInsensitiveLess l k") (auto simp: e split: option.splits)
qed simp

lemma find_kept:
  "\<not> same_key k ''connection'' \<Longrightarrow>
   find (\<lambda>(k', w). same_key k' k) (rev (kept_headers False m)) = find (\<lambda>(k', w). same_key k' k) (rev m)"
proof (induction m rule: rev_induct)
  case (snoc p m)
  then show ?case by (cases p) (auto simp: kept_headers_def same_key_def)
qed (simp add: kept_headers_def)

definition request_fields :: "http_request \<Rightarrow> (string \<times> string) list" where
  "request_fields r = connection_field False (q_close r) @ kept_headers False (q_headers r) @ length_field (q_body r)"

definition version_digit :: "u8 \<Rightarrow> char" where
  "version_digit v = (if v = 0x11 then CHR ''1'' else CHR ''0'')"

definition request_head :: "http_request \<Rightarrow> string" where
  "request_head r = request_text (HttpMethodToString (q_method r)) (q_path r) (q_query r) (q_fragment r) (version_digit (q_version r))
     (request_fields r)"

text \<open>Requests that the grammar of the parser covers: no protocol switch, HTTP 1.0 or 1.1, and no content length of their own.\<close>

definition sendable :: "http_request \<Rightarrow> bool" where
  "sendable r \<longleftrightarrow> q_method r < 34 \<and> (q_version r = 0x10 \<or> q_version r = 0x11) \<and> \<not> q_websocket r \<and> sorted_keys (q_headers r) \<and>
     good_head (HttpMethodToString (q_method r)) (q_path r) (q_query r) (q_fragment r) (version_digit (q_version r)) (request_fields r) \<and>
     (\<forall>f\<in>set (q_headers r). \<not> same_key (fst f) ''content-length'')"

lemma dump_fields:
  "dump_headers False m = concat (map field_line (kept_headers False m))"
  "dump_connection False close = concat (map field_line (connection_field False close))"
  "dump_body body = concat (map field_line (length_field body)) @ crlf @ body"
proof -
  show "dump_headers False m = concat (map field_line (kept_headers False m))"
    by (induction m) (auto simp: kept_headers_def same_key_def field_line_def CRLF_def)
qed (simp_all add: dump_connection_def connection_field_def dump_body_def length_field_def field_line_def CRLF_def)

lemma dec_digit: "n < 10 \<Longrightarrow> dec n = [char_of (48 + n)]"
  by (simp add: dec.simps [of n])

lemma dump_version_digit: "v = 0x10 \<or> v = 0x11 \<Longrightarrow> dump_version v = ''1.'' @ [version_digit v]"
  by (auto simp: dump_version_def version_digit_def dec_digit char_of_def bit_Suc_0_iff)

lemma dump_request_head: "sendable r \<Longrightarrow> dump_request r = request_head r @ q_body r"
  using dump_version_digit [of "q_version r"]
  by (simp add: sendable_def dump_request_def request_head_def request_text_def request_fields_def dump_fields marked_def CRLF_def)

text \<open>What the server reads in the fields.\<close>

lemma request_fields_find:
  assumes "sendable r"
  shows "find (\<lambda>(k', w). same_key k' ''Connection'') (rev (request_fields r)) =
      Some (''connection'', if q_close r then ''close'' else ''keep-alive'')"
    and "find (\<lambda>(k', w). same_key k' ''Content-Length'') (rev (request_fields r)) =
      (if q_body r = [] then None else Some (''content-length'', dec (length (q_body r))))"
    and "\<not> same_key k ''connection'' \<Longrightarrow> \<not> same_key k ''content-length'' \<Longrightarrow>
      map_option snd (find (\<lambda>(k', w). same_key k' k) (rev (request_fields r))) = map_find CaseInsensitiveLess k (q_headers r)"
proof -
  have c: "same_key ''connection'' ''Connection''" "same_key ''content-length'' ''Content-Length''" "\<not> same_key ''content-length'' ''Connection''"
    "\<not> same_key ''connection'' ''Content-Length''"
    by (simp_all add: same_key_def fold_case_def c_string_def tolower_def)
  have app: "find P (xs @ ys) = (case find P xs of Some x \<Rightarrow> Some x | None \<Rightarrow> find P ys)" for P :: "string \<times> string \<Rightarrow> bool" and xs ys
    by (induction xs) auto
  have "find (\<lambda>(k', w). same_key k' ''Connection'') (rev (kept_headers False (q_headers r))) = None"
    using c(1) by (auto simp: find_None_iff kept_headers_def same_key_def)
  then show "find (\<lambda>(k', w). same_key k' ''Connection'') (rev (request_fields r)) =
      Some (''connection'', if q_close r then ''close'' else ''keep-alive'')"
    using c by (simp add: request_fields_def connection_field_def length_field_def app)
  have "find (\<lambda>(k', w). same_key k' ''Content-Length'') (rev (kept_headers False (q_headers r))) = None"
    using assms c(2) by (auto simp: find_None_iff kept_headers_def same_key_def sendable_def)
  then show "find (\<lambda>(k', w). same_key k' ''Content-Length'') (rev (request_fields r)) =
      (if q_body r = [] then None else Some (''content-length'', dec (length (q_body r))))"
    using c by (simp add: request_fields_def connection_field_def length_field_def app)
  assume k: "\<not> same_key k ''connection''" "\<not> same_key k ''content-length''"
  then have "\<not> same_key ''connection'' k" "\<not> same_key ''content-length'' k" by (auto simp: same_key_def)
  then have "find (\<lambda>(k', w). same_key k' k) (rev (request_fields r)) = find (\<lambda>(k', w). same_key k' k) (rev (q_headers r))"
    using find_kept [OF k(1), of "q_headers r"] by (auto simp: request_fields_def connection_field_def length_field_def app split: option.splits)
  then show "map_option snd (find (\<lambda>(k', w). same_key k' k) (rev (request_fields r))) = map_find CaseInsensitiveLess k (q_headers r)"
    using find_sorted [of "q_headers r" k] assms by (simp add: sendable_def)
qed

lemma header_found:
  assumes "response_ok p" and "p_headers p = []"
  shows "map_find CaseInsensitiveLess k (p_headers (fold (\<lambda>(k, v). rsp_setHeader k v) fs p)) =
    map_option snd (find (\<lambda>(k', w). same_key k' k) (rev fs))"
  using rsp_headers.last_value [OF assms(1), where kvs = fs and k' = k] assms(2) by (auto split: option.splits)

lemma fold_setHeader_others:
  "q_body (fold (\<lambda>(k, v). req_setHeader k v) kvs r) = q_body r" "q_close (fold (\<lambda>(k, v). req_setHeader k v) kvs r) = q_close r"
  by (induction kvs arbitrary: r) (auto simp: req_setHeader_def)

lemma parsed_request_simps:
  "q_method (parsed_request junk m path q f d fs) = m" "q_path (parsed_request junk m path q f d fs) = path"
  "q_query (parsed_request junk m path q f d fs) = q" "q_fragment (parsed_request junk m path q f d fs) = f"
  "q_version (parsed_request junk m path q f d fs) = version_of d" "q_close (parsed_request junk m path q f d fs)"
  "q_body (parsed_request junk m path q f d fs) = []"
  "map_find CaseInsensitiveLess k (q_headers (parsed_request junk m path q f d fs)) = map_option snd (find (\<lambda>(k', w). same_key k' k) (rev fs))"
proof -
  let ?r = "(new_HttpRequest junk 0x11 True)\<lparr>q_method := m, q_path := path, q_query := q, q_fragment := f, q_version := version_of d\<rparr>"
  have "request_ok ?r" "map_find CaseInsensitiveLess k (q_headers ?r) = None" by (simp_all add: request_ok_def new_HttpRequest_def)
  then show "map_find CaseInsensitiveLess k (q_headers (parsed_request junk m path q f d fs)) = map_option snd (find (\<lambda>(k', w). same_key k' k) (rev fs))"
    using req_headers.last_value [where ob = ?r and kvs = fs and k' = k] unfolding parsed_request_def by (auto split: option.splits)
qed (simp_all add: parsed_request_def fold_setHeader_keeps fold_setHeader_others new_HttpRequest_def)

section \<open>Receiving a request\<close>

text \<open>What a received request shares with the one that was sent.\<close>

definition received :: "http_request \<Rightarrow> http_request \<Rightarrow> bool" where
  "received r r' \<longleftrightarrow> q_method r' = q_method r \<and> q_path r' = q_path r \<and> q_query r' = q_query r \<and> q_fragment r' = q_fragment r \<and>
     q_version r' = q_version r \<and> q_close r' = q_close r \<and> q_body r' = q_body r \<and>
     (\<forall>k x. \<not> same_key k ''connection'' \<longrightarrow> \<not> same_key k ''content-length'' \<longrightarrow> req_getHeader k x r' = req_getHeader k x r)"

text \<open>\<^verbatim>\<open>boost::lexical_cast<uint64_t>\<close> reads decimal numbers that fit.\<close>

definition reads_numbers :: "(string \<Rightarrow> u64 option) \<Rightarrow> bool" where
  "reads_numbers lexical_cast \<longleftrightarrow> (\<forall>n < 2 ^ 64. lexical_cast (dec n) = Some (of_nat n))"

lemma small_size: "n < 2 ^ 31 \<Longrightarrow> unat (of_nat n :: u64) = n"
  by (simp add: unat_of_nat take_bit_nat_eq_self)

lemma to_int32_small: "n < 2 ^ 31 \<Longrightarrow> to_int32 (int n) = int n"
  by (simp add: to_int32_def sint_sbintrunc' signed_take_bit_int_eq_self del: of_int_of_nat_eq)

lemma recv_head:
  assumes "sendable r" and "rd s (length buffer) = (int (length (request_head r @ b)), to_bytes (request_head r @ b), s')"
    and "length (request_head r @ b) \<le> length buffer" and "length buffer < 2 ^ 31"
  shows "\<exists>data m. recv_request_loop (Suc fuel) rd close (length buffer) buffer 0 (new_HttpRequestParser mem junk) s =
      Some (Ret (Some (data, length b, \<lparr>rq_parser = m, rq_data = parsed_request junk (q_method r) (q_path r) (q_query r) (q_fragment r)
        (version_digit (q_version r)) (request_fields r), rq_error = 0\<rparr>)) s') \<and> take (length b) data = b"
proof -
  let ?h = "request_head r"
  define data where "data = overwrite 0 (?h @ b) buffer"
  have len: "length data = length buffer" "take (length (?h @ b)) data = ?h @ b" using assms(3) by (simp_all add: data_def overwrite_def)
  have "length data < 2 ^ 63" using assms(4) len by simp
  moreover have "?h \<noteq> []" by (simp add: request_head_def request_text_def)
  moreover have "length (?h @ b) \<le> length data" using assms(3) len by simp
  moreover have "good_head (HttpMethodToString (q_method r)) (q_path r) (q_query r) (q_fragment r) (version_digit (q_version r)) (request_fields r)"
    "q_method r < 34" using assms(1) by (simp_all add: sendable_def)
  ultimately obtain m where m: "hp_cs m = 348" "execute_request data (length (?h @ b)) (new_HttpRequestParser mem junk) =
      Ret (length ?h, shift_out (length ?h) (length (?h @ b)) data) \<lparr>rq_parser = m, rq_data = parsed_request junk (q_method r) (q_path r) (q_query r)
        (q_fragment r) (version_digit (q_version r)) (request_fields r), rq_error = 0\<rparr>" "?h \<noteq> []"
    using request_parse_data [OF len(2) [unfolded request_head_def]] unfolding request_head_def by blast
  have "take (length b) (shift_out (length ?h) (length (?h @ b)) data) = b" using len(2) by (simp add: shift_out_def)
  moreover have "int (length b) \<noteq> to_int32 (int (length buffer))" "\<not> int (length ?h) + int (length b) \<le> 0"
    using m(3) assms(3,4) to_int32_small [OF assms(4)] by (auto simp flip: length_greater_0_conv simp del: length_greater_0_conv)
  ultimately show ?thesis
    using m(1,2) assms(2) data_def
    by (simp add: Let_def nat_int_add req_hasError_def req_isFinished_def http_parser_has_error_def http_parser_finish_def http_parser_is_finished_def)
qed

text \<open>The rest of the body is read from the stream, if there is one.\<close>

definition rest_read :: "('s \<Rightarrow> nat \<Rightarrow> int \<times> u8 list \<times> 's) \<Rightarrow> string \<Rightarrow> 's \<Rightarrow> 's \<Rightarrow> bool" where
  "rest_read rd b s s' \<longleftrightarrow> (if b = [] then s' = s else readFixSize rd s (of_nat (length b)) = (int (length b), to_bytes b, s'))"

lemma rest_read_good:
  assumes "good_reader rd remaining" and "remaining s = to_bytes b @ behind" and "length b < 2 ^ 31"
  shows "\<exists>s'. rest_read rd b s s' \<and> remaining s' = behind"
proof (cases "b = []")
  case False
  then show ?thesis
    using readFixSize_ok [OF assms(1), of "of_nat (length b)" s] assms(2,3) small_size [OF assms(3)] by (auto simp: rest_read_def)
qed (use assms(2) in \<open>simp add: rest_read_def\<close>)

lemma receive_body_ok:
  assumes "take (length b) data = b" and "rest_read rd b' s s'" and "length (b @ b') < 2 ^ 31"
  shows "receive_body rd (of_nat (length (b @ b'))) data (length b) s = Ret (Some (b @ b')) s'"
proof -
  have u: "unat (of_nat (length (b @ b')) :: u64) = length b + length b'" "unat (of_nat (length b) :: u64) = length b"
    using small_size [of "length (b @ b')"] small_size [of "length b"] assms(3) by simp_all
  have le: "(of_nat (length b) :: u64) \<le> of_nat (length (b @ b'))" using u by (simp add: word_le_nat_alt)
  have left: "(of_nat (length (b @ b')) :: u64) - of_nat (length b) = of_nat (length b')" by simp
  have pos: "(of_nat (length b') :: u64) > 0 \<longleftrightarrow> b' \<noteq> []"
    using small_size [of "length b'"] assms(3) by (auto simp: word_less_nat_alt)
  have "\<not> 2 ^ 63 \<le> length b + length b'" using assms(3) by simp
  then show ?thesis
    using assms(1,2) le unfolding receive_body_def u Let_def left pos
    by (auto simp: rest_read_def overwrite_def split: if_splits)
qed

definition received_request :: "int \<Rightarrow> http_request \<Rightarrow> http_request" where
  "received_request junk r =
     (parsed_request junk (q_method r) (q_path r) (q_query r) (q_fragment r) (version_digit (q_version r)) (request_fields r))
       \<lparr>q_body := q_body r, q_close := q_close r\<rparr>"

lemma received_request: "sendable r \<Longrightarrow> received r (received_request junk r)"
  using request_fields_find(3) [of r]
  by (auto simp: received_def received_request_def parsed_request_simps req_getHeader_def sendable_def version_of_def version_digit_def)

lemma keep_alive_text: "fold_case (if c then ''close'' else ''keep-alive'') = fold_case ''keep-alive'' \<longleftrightarrow> \<not> c"
  by (simp add: fold_case_def c_string_def tolower_def)

lemma recv_request:
  assumes "sendable r" and "rd s (length buffer) = (int (length (request_head r @ b)), to_bytes (request_head r @ b), s1)"
    and "length (request_head r @ b) \<le> length buffer" and "length buffer < 2 ^ 31"
    and "q_body r = b @ b'" and "rest_read rd b' s1 s2" and "length (q_body r) < 2 ^ 31" and "reads_numbers lexical_cast"
  shows "recvRequest (Suc fuel) lexical_cast rd close buffer mem junk s = Some (Ret (Some (received_request junk r)) s2)"
proof -
  define q where "q = parsed_request junk (q_method r) (q_path r) (q_query r) (q_fragment r) (version_digit (q_version r)) (request_fields r)"
  obtain data m where h: "recv_request_loop (Suc fuel) rd close (length buffer) buffer 0 (new_HttpRequestParser mem junk) s =
      Some (Ret (Some (data, length b, \<lparr>rq_parser = m, rq_data = q, rq_error = 0\<rparr>)) s1)" "take (length b) data = b"
    using recv_head [OF assms(1), of rd s buffer b s1] assms(2-4) unfolding q_def by blast
  note find = request_fields_find [OF assms(1)]
  have conn: "req_getHeader ''Connection'' [] (q\<lparr>q_body := x\<rparr>) = (if q_close r then ''close'' else ''keep-alive'')" for x
    using find(1) by (simp add: q_def req_getHeader_def parsed_request_simps)
  have cl: "req_getContentLength lexical_cast \<lparr>rq_parser = m, rq_data = q, rq_error = 0\<rparr> = of_nat (length (q_body r))"
    using find(2) assms(7,8) by (auto simp: req_getContentLength_def getAs_def q_def parsed_request_simps reads_numbers_def)
  have pos: "(of_nat (length (q_body r)) :: u64) > 0 \<longleftrightarrow> q_body r \<noteq> []"
    using small_size [OF assms(7)] by (auto simp: word_less_nat_alt)
  have body: "(if q_body r \<noteq> [] then receive_body rd (of_nat (length (q_body r))) data (length b) s1 else Ret (Some (q_body q)) s1) = Ret (Some (q_body r)) s2"
    using receive_body_ok [OF h(2) assms(6)] assms(5,6,7) by (auto simp: q_def parsed_request_simps rest_read_def)
  have "recvRequest (Suc fuel) lexical_cast rd close buffer mem junk s =
      Some (Ret (Some (if \<not> q_close r then (q\<lparr>q_body := q_body r\<rparr>)\<lparr>q_close := False\<rparr> else q\<lparr>q_body := q_body r\<rparr>)) s2)"
    unfolding recvRequest_def h(1)
    by (simp only: option.map obind.simps option.case prod.case Let_def cl pos request_parser.select_convs body conn keep_alive_text)
  moreover have "q_close q" by (simp add: q_def parsed_request_simps)
  ultimately show ?thesis by (auto simp: received_request_def simp flip: q_def)
qed

section \<open>Serving requests\<close>

text \<open>
  A connection as a server sees it when its peer sends a request, waits for the answer and sends the next: each
  \<^verbatim>\<open>read\<close> brings the next message, and the end of the data after the last. \<open>sent\<close> is what went to the peer.
\<close>

definition delivers :: "('s \<Rightarrow> nat \<Rightarrow> int \<times> u8 list \<times> 's) \<Rightarrow> ('s \<Rightarrow> string list) \<Rightarrow> ('s \<Rightarrow> u8 list) \<Rightarrow> bool" where
  "delivers rd pending sent \<longleftrightarrow> (\<forall>s n. case rd s n of (len, bs, s') \<Rightarrow> sent s' = sent s \<and>
     (case pending s of
        [] \<Rightarrow> len \<le> 0
      | m # ms \<Rightarrow> length m \<le> n \<longrightarrow> len = int (length m) \<and> bs = to_bytes m \<and> pending s' = ms))"

definition answers_only :: "('s \<Rightarrow> u8 list \<Rightarrow> int \<times> 's) \<Rightarrow> ('s \<Rightarrow> string list) \<Rightarrow> bool" where
  "answers_only wr pending \<longleftrightarrow> (\<forall>s bs. pending (snd (wr s bs)) = pending s)"

text \<open>What the server answers: \<open>answer\<close> is what the servlets make of the request and the prepared response.\<close>

definition prepared :: "bool \<Rightarrow> string \<Rightarrow> http_request \<Rightarrow> http_response" where
  "prepared keep name q = rsp_setHeader ''Server'' name (new_HttpResponse (q_version q) (q_close q \<or> \<not> keep))"

fun served :: "bool \<Rightarrow> string \<Rightarrow> (http_request \<Rightarrow> http_response \<Rightarrow> http_request \<times> http_response) \<Rightarrow> http_request list \<Rightarrow> string" where
  "served keep name answer [] = []"
| "served keep name answer (q # qs) =
     (let (q', p) = answer q (prepared keep name q)
      in dump_response p @ (if keep \<and> \<not> q_close q' then served keep name answer qs else []))"

lemma write_loop_pending:
  assumes "answers_only wr pending"
  shows "write_fix_loop fuel wr buf offset left s = Some (Ret n s') \<Longrightarrow> pending s' = pending s"
proof (induction fuel arbitrary: offset left s)
  case (Suc fuel)
  obtain len s1 where w: "wr s (seg (nat offset) (nat left) buf) = (len, s1)" by force
  have "pending s1 = pending s" using assms w by (metis answers_only_def snd_conv)
  then show ?case using Suc w by (auto split: if_splits)
qed simp

lemma send_response:
  assumes "good_writer wr sent" and "answers_only wr pending" and "length (dump_response p) < fuel"
  shows "\<exists>s'. sendResponse fuel wr p s = Some (Ret (int (length (dump_response p))) s') \<and> sent s' = sent s @ to_bytes (dump_response p) \<and>
    pending s' = pending s"
  using write_fix_loop_ok [OF assms(1), of 0 "length (dump_response p)" "to_bytes (dump_response p)" fuel s] assms(3)
    write_loop_pending [OF assms(2), of fuel "to_bytes (dump_response p)" 0 "int (length (dump_response p))" s "int (length (dump_response p))"]
  unfolding sendResponse_def writeFixSize_def by fastforce

lemma dump_response_nonempty: "dump_response p \<noteq> []"
  by (simp add: dump_response_def)

lemma recv_end:
  assumes "delivers rd pending sent" and "pending s = []"
  shows "\<exists>s'. recvRequest (Suc fuel) lexical_cast rd close buffer mem junk s = Some (Ret None (close s')) \<and> sent s' = sent s"
proof -
  obtain len bs s' where r: "rd s (length buffer) = (len, bs, s')" by (metis prod_cases3)
  then show ?thesis using assms(1) [unfolded delivers_def, rule_format, of s "length buffer"] assms(2) by (auto simp: recvRequest_def)
qed

lemma recv_next:
  assumes "delivers rd pending sent" and "pending s = dump_request r # ms" and "sendable r"
    and "length (dump_request r) \<le> length buffer" and "length buffer < 2 ^ 31" and "reads_numbers lexical_cast"
  shows "\<exists>s'. recvRequest (Suc fuel) lexical_cast rd close buffer mem junk s = Some (Ret (Some (received_request junk r)) s') \<and>
    pending s' = ms \<and> sent s' = sent s"
proof -
  have d: "dump_request r = request_head r @ q_body r" by (rule dump_request_head) (rule assms(3))
  obtain len bs s' where r: "rd s (length buffer) = (len, bs, s')" by (metis prod_cases3)
  have g: "len = int (length (dump_request r))" "bs = to_bytes (dump_request r)" "pending s' = ms" "sent s' = sent s"
    using assms(1) [unfolded delivers_def, rule_format, of s "length buffer"] r assms(2,4) by auto
  have "recvRequest (Suc fuel) lexical_cast rd close buffer mem junk s = Some (Ret (Some (received_request junk r)) s')"
    by (rule recv_request [OF assms(3), of rd s buffer "q_body r" s' "[]" s'])
      (use r g(1,2) d assms(4-6) in \<open>simp_all add: rest_read_def\<close>)
  then show ?thesis using g(3,4) by blast
qed

lemma serve_all:
  assumes "delivers rd pending sent" and "good_writer wr sent" and "answers_only wr pending" and "\<forall>s. sent (close s) = sent s"
    and "\<forall>q p s. \<exists>rc. dispatch_handle fnmatch (hs_dispatch h) q p s = (rc, fst (answer q p), snd (answer q p), s)"
    and "length buffer < 2 ^ 31" and "reads_numbers lexical_cast"
  shows "\<forall>r\<in>set rs. sendable r \<and> length (dump_request r) \<le> length buffer \<Longrightarrow>
    \<exists>N. \<forall>s fuel k. pending s = map dump_request rs \<longrightarrow> N \<le> fuel \<longrightarrow> N \<le> k \<longrightarrow>
      (\<exists>s'. handleClient fuel fnmatch h (recvRequest k lexical_cast rd close buffer mem junk) (sendResponse k wr) close s =
        Some (Ret () s') \<and> sent s' = sent s @ to_bytes (served (hs_isKeepAlive h) (hs_name h) answer (map (received_request junk) rs)))"
proof (induction rs)
  case Nil
  show ?case
  proof (intro exI [of _ 1] allI impI)
    fix s and fuel k :: nat assume p: "pending s = map dump_request []" and "1 \<le> fuel" "1 \<le> k"
    then obtain f k' where "fuel = Suc f" "k = Suc k'" by (metis Suc_le_D One_nat_def)
    then show "\<exists>s'. handleClient fuel fnmatch h (recvRequest k lexical_cast rd close buffer mem junk) (sendResponse k wr) close s = Some (Ret () s') \<and>
        sent s' = sent s @ to_bytes (served (hs_isKeepAlive h) (hs_name h) answer (map (received_request junk) []))"
      using recv_end [OF assms(1), of s k' lexical_cast close buffer mem junk] p assms(4) by (auto simp: handle_round_def)
  qed
next
  case (Cons r rs)
  let ?q = "received_request junk r" and ?served = "served (hs_isKeepAlive h) (hs_name h) answer"
  obtain q' p where a: "answer ?q (prepared (hs_isKeepAlive h) (hs_name h) ?q) = (q', p)" by force
  let ?goon = "hs_isKeepAlive h \<and> \<not> q_close q'"
  let ?recv = "\<lambda>k. recvRequest k lexical_cast rd close buffer mem junk"
  let ?run = "\<lambda>fuel k. handleClient fuel fnmatch h (?recv k) (sendResponse k wr) close"
  have step: "\<exists>s'. handle_round fnmatch h (?recv k) (sendResponse k wr) s = Some (Ret ?goon s') \<and>
      pending s' = map dump_request rs \<and> sent s' = sent s @ to_bytes (dump_response p)"
    if s: "pending s = map dump_request (r # rs)" and k: "length (dump_response p) < k" for s k
  proof -
    obtain k' where k': "k = Suc k'" using k by (cases k) auto
    have r: "sendable r" "length (dump_request r) \<le> length buffer" "pending s = dump_request r # map dump_request rs"
      using Cons.prems s by auto
    obtain s1 where s1: "?recv k s = Some (Ret (Some ?q) s1)" "pending s1 = map dump_request rs" "sent s1 = sent s"
      using recv_next [OF assms(1) r(3,1,2) assms(6,7)] k' by blast
    obtain rc where "dispatch_handle fnmatch (hs_dispatch h) ?q (prepared (hs_isKeepAlive h) (hs_name h) ?q) s1 = (rc, q', p, s1)"
      using assms(5) a by (metis fst_conv snd_conv)
    then show ?thesis
      using s1 send_response [OF assms(2,3) k, of s1] by (auto simp: handle_round_def Let_def prepared_def)
  qed
  have "\<forall>r\<in>set rs. sendable r \<and> length (dump_request r) \<le> length buffer" using Cons.prems by simp
  from Cons.IH [OF this]
  obtain N where N: "\<forall>s fuel k. pending s = map dump_request rs \<longrightarrow> N \<le> fuel \<longrightarrow> N \<le> k \<longrightarrow>
      (\<exists>s'. ?run fuel k s = Some (Ret () s') \<and> sent s' = sent s @ to_bytes (?served (map (received_request junk) rs)))" ..
  show ?case
  proof (intro exI [of _ "Suc (N + length (dump_response p))"] allI impI)
    fix s and fuel k :: nat
    assume s: "pending s = map dump_request (r # rs)" and f: "Suc (N + length (dump_response p)) \<le> fuel" and k: "Suc (N + length (dump_response p)) \<le> k"
    obtain fuel' where f': "fuel = Suc fuel'" "N \<le> fuel'" using f by (cases fuel) auto
    obtain s1 where s1: "handle_round fnmatch h (?recv k) (sendResponse k wr) s = Some (Ret ?goon s1)" "pending s1 = map dump_request rs"
      "sent s1 = sent s @ to_bytes (dump_response p)" using step [OF s, of k] k by auto
    show "\<exists>s'. ?run fuel k s = Some (Ret () s') \<and> sent s' = sent s @ to_bytes (?served (map (received_request junk) (r # rs)))"
    proof (cases ?goon)
      case True
      then show ?thesis using N [rule_format, OF s1(2) f'(2), of k] k s1(1,3) f'(1) a by auto
    next
      case False
      then show ?thesis using s1(1,3) f'(1) a assms(4) by auto
    qed
  qed
qed

text \<open>A way to read numbers.\<close>

definition demo_cast :: "string \<Rightarrow> u64 option" where
  "demo_cast s = Some (word_of_int (atoi_digits 0 s))"

lemma dec_char:
  assumes "d < 10"
  shows "digit_value (char_of (48 + d)) = int d" "digit (schar (char_of (48 + d)))"
proof -
  have "(of_char (char_of (48 + d) :: char) :: int) = int (of_char (char_of (48 + d) :: char))" by (simp only: of_nat_of_char)
  also have "\<dots> = 48 + int d" using assms by simp
  finally show "digit_value (char_of (48 + d)) = int d" "digit (schar (char_of (48 + d)))"
    using assms by (simp_all add: digit_value_def digit_def schar_def)
qed

lemma dec_digits: "dec n \<noteq> [] \<and> (\<forall>c\<in>set (dec n). digit (schar c))"
proof (induction n rule: dec.induct)
  case (1 n)
  then show ?case using dec_char by (subst (1 2) dec.simps) auto
qed

lemma atoi_digits_snoc:
  "\<forall>c\<in>set s. digit (schar c) \<Longrightarrow> digit (schar d) \<Longrightarrow> atoi_digits acc (s @ [d]) = 10 * atoi_digits acc s + digit_value d"
  by (induction s arbitrary: acc) (auto dest!: digit_value)

lemma atoi_dec: "atoi_digits 0 (dec n) = int n"
proof (induction n rule: dec.induct)
  case (1 n)
  note v = dec_char
  show ?case
  proof (cases "n < 10")
    case True
    then show ?thesis using v [of n] by (simp add: dec_digit)
  next
    case False
    have "dec n = dec (n div 10) @ [char_of (48 + n mod 10)]" using False by (subst dec.simps) simp
    moreover have "int n = 10 * int (n div 10) + int (n mod 10)" by presburger
    ultimately show ?thesis using 1 False v [of "n mod 10"] atoi_digits_snoc [of "dec (n div 10)"] dec_digits [of "n div 10"] by simp
  qed
qed

lemma demo_cast: "reads_numbers demo_cast"
  by (simp add: reads_numbers_def demo_cast_def atoi_dec)

text \<open>A connection on which the messages of a list arrive one per \<^verbatim>\<open>read\<close>, and a request.\<close>

definition demo_read :: "string list \<times> u8 list \<Rightarrow> nat \<Rightarrow> int \<times> u8 list \<times> string list \<times> u8 list" where
  "demo_read s n = (case fst s of [] \<Rightarrow> (0, [], s) | m # ms \<Rightarrow> (int (length m), to_bytes m, ms, snd s))"

definition demo_write :: "string list \<times> u8 list \<Rightarrow> u8 list \<Rightarrow> int \<times> string list \<times> u8 list" where
  "demo_write s bs = (int (length bs), fst s, snd s @ bs)"

definition demo_get :: http_request where
  "demo_get = (new_HttpRequest 0 0x11 True)\<lparr>q_path := ''/a'', q_body := ''ok''\<rparr>"

lemma demo_connection: "delivers demo_read fst snd" "good_writer demo_write snd" "answers_only demo_write fst"
  by (auto simp: delivers_def demo_read_def good_writer_def demo_write_def answers_only_def split: list.splits)

lemma demo_get: "sendable demo_get"
proof -
  have m: "HttpMethodToString 1 = ''GET''" by (simp add: HttpMethodToString_def HTTP_METHOD_MAP_def)
  have "request_fields demo_get = [(''connection'', ''close''), (''content-length'', ''2'')]"
    by (simp add: request_fields_def demo_get_def new_HttpRequest_def connection_field_def kept_headers_def length_field_def dec_digit
        char_of_def bit_Suc_0_iff)
  then show ?thesis
    using m by (simp add: sendable_def demo_get_def new_HttpRequest_def good_head_def good_path_def good_req_field_def token_def upper_digit_def
        path_char_def content_char_def visible_char_def schar_def version_digit_def)
qed

lemma demo_head: "length (request_head demo_get) = 57"
  by (simp add: request_head_def request_text_def marked_def demo_get_def new_HttpRequest_def request_fields_def connection_field_def kept_headers_def
      length_field_def field_line_def dec_digit HttpMethodToString_def HTTP_METHOD_MAP_def)

section \<open>Properties\<close>

lemma recv_request_exact:
  assumes "sendable r" and "good_reader rd remaining" and "remaining s = to_bytes (dump_request r)"
    and "rd s (length buffer) = (len, bs, s1)" and "int (length (request_head r)) \<le> len" and "buffer \<noteq> []" and "length buffer < 2 ^ 31"
    and "length (q_body r) < 2 ^ 31" and "reads_numbers lexical_cast"
  shows "\<exists>r' s'. recvRequest (Suc fuel) lexical_cast rd close buffer mem junk s = Some (Ret (Some r') s') \<and> received r r' \<and> remaining s' = []"
proof -
  let ?h = "request_head r"
  have d: "dump_request r = ?h @ q_body r" by (rule dump_request_head) (rule assms(1))
  have ne: "remaining s \<noteq> []" using assms(3) d by (simp add: request_head_def request_text_def)
  have g: "0 < len" "len \<le> int (length buffer)" "nat len \<le> length (remaining s)" "bs = take (nat len) (remaining s)" "remaining s1 = drop (nat len) (remaining s)"
    using assms(2) [unfolded good_reader_def, rule_format, of "length buffer" s] assms(4,6) ne by auto
  define b b' where b: "b = take (nat len - length ?h) (q_body r)" "b' = drop (nat len - length ?h) (q_body r)"
  have lh: "length ?h \<le> nat len" using assms(5) by linarith
  have bs: "bs = to_bytes (?h @ b)" "remaining s1 = to_bytes b'" using g(4,5) assms(3) d lh b by simp_all
  have "length bs = nat len" using g(3,4) by simp
  then have len: "length (?h @ b) = nat len" using bs(1) by (metis to_bytes_simps(1))
  have qb: "q_body r = b @ b'" using b by simp
  obtain s' where s': "rest_read rd b' s1 s'" "remaining s' = []" using rest_read_good [OF assms(2), of s1 b' "[]"] bs(2) assms(8) qb by auto
  have "recvRequest (Suc fuel) lexical_cast rd close buffer mem junk s = Some (Ret (Some (received_request junk r)) s')"
    by (rule recv_request [OF assms(1) _ _ assms(7) qb s'(1) assms(8,9)]) (use assms(4) bs(1) len g(1,2) in auto)
  then show ?thesis using s'(2) received_request [OF assms(1)] by blast
qed

text \<open>Receiving a request: when the first \<^verbatim>\<open>read\<close> brings at least the head of a serialised request, \<open>recvRequest\<close> returns the
  request that was sent (method, path, query, fragment, version, body, whether to close, and every header), however the rest of the
  body arrives, and has consumed exactly the message.\<close>

theorem request_received:
  assumes "sendable r" and "good_reader rd remaining" and "remaining s = to_bytes (dump_request r)"
    and "rd s (length buffer) = (len, bs, s1)" and "int (length (request_head r)) \<le> len" and "buffer \<noteq> []" and "length buffer < 2 ^ 31"
    and "length (q_body r) < 2 ^ 31" and "reads_numbers lexical_cast"
  shows "\<exists>r' s'. recvRequest (Suc fuel) lexical_cast rd close buffer mem junk s = Some (Ret (Some r') s') \<and> received r r' \<and> remaining s' = []"
  using assms by (rule recv_request_exact)

theorem request_received_witness:
  "\<exists>r' s'. recvRequest 1 demo_cast (\<lambda>s n. (let k = min 60 n in (int (length (take k s)), take k s, drop k s))) (\<lambda>s. s)
      (replicate 100 CHR 0x00) new_http_parser 0 (to_bytes (dump_request demo_get)) = Some (Ret (Some r') s') \<and> q_body r' = ''ok''"
proof -
  let ?rd = "\<lambda>s n. (let k = min 60 n in (int (length (take k s)), take k s, drop k s)) :: int \<times> u8 list \<times> u8 list"
  have "good_reader ?rd (\<lambda>s. s)" by (auto simp: good_reader_def Let_def min_def)
  then show ?thesis
    using request_received [OF demo_get, of ?rd "\<lambda>s. s" _ "replicate 100 CHR 0x00"] demo_cast dump_request_head [OF demo_get] demo_head
    by (fastforce simp: received_def demo_get_def new_HttpRequest_def Let_def)
qed



lemma negative_size:
  assumes "0 < n" and "n < 2 ^ 31"
  shows "readFixSize rd s (- of_nat n) = (- int n, [], s)" "(- of_nat n :: u64) > 0"
proof -
  have w: "(- of_nat n :: u64) = word_of_int (- int n)" by simp
  have u: "ucast (word_of_int k :: u64) = (word_of_int k :: u32)" for k by (rule bit_word_eqI) (simp add: bit_simps)
  have s: "sint (- of_nat n :: u64) = - int n" "int_of_size (- of_nat n) = - int n"
    using assms unfolding int_of_size_def w u by (simp_all add: sint_sbintrunc' signed_take_bit_int_eq_self del: of_int_minus of_int_of_nat_eq)
  then show "readFixSize rd s (- of_nat n) = (- int n, [], s)" using assms by (simp add: readFixSize_def fix_loop.simps)
  have "(- of_nat n :: u64) \<noteq> 0"
  proof
    assume z: "(- of_nat n :: u64) = 0"
    have "sint (0 :: u64) = - int n" using s(1) unfolding z .
    then show False using assms(1) by simp
  qed
  then show "(- of_nat n :: u64) > 0" unfolding word_gt_0 by (rule not_sym)
qed

text \<open>C20. A request whose read brings more than its body is refused: the remaining length is computed below zero and wraps, reading that
  many bytes fails, and the session is closed.\<close>

theorem pipelined_refused:
  assumes "sendable r" and "rd s (length buffer) = (int (length (dump_request r @ x)), to_bytes (dump_request r @ x), s1)"
    and "length (dump_request r @ x) \<le> length buffer" and "length buffer < 2 ^ 31" and "q_body r \<noteq> []" and "x \<noteq> []"
    and "reads_numbers lexical_cast"
  shows "recvRequest (Suc fuel) lexical_cast rd close buffer mem junk s = Some (Ret None (close s1))"
proof -
  let ?b = "q_body r @ x"
  have d: "dump_request r @ x = request_head r @ ?b" using dump_request_head [OF assms(1)] by simp
  define q where "q = parsed_request junk (q_method r) (q_path r) (q_query r) (q_fragment r) (version_digit (q_version r)) (request_fields r)"
  obtain data m where h: "recv_request_loop (Suc fuel) rd close (length buffer) buffer 0 (new_HttpRequestParser mem junk) s =
      Some (Ret (Some (data, length ?b, \<lparr>rq_parser = m, rq_data = q, rq_error = 0\<rparr>)) s1)"
    using recv_head [OF assms(1), of rd s buffer ?b s1] assms(2-4) unfolding q_def d by blast
  have l: "length ?b < 2 ^ 31" "length (q_body r) < 2 ^ 31" "0 < length x" "length x < 2 ^ 31" using d assms(3,4,6) by auto
  have cl: "req_getContentLength lexical_cast \<lparr>rq_parser = m, rq_data = q, rq_error = 0\<rparr> = of_nat (length (q_body r))"
    using request_fields_find(2) [OF assms(1)] assms(5,7) l(2)
    by (auto simp: req_getContentLength_def getAs_def q_def parsed_request_simps reads_numbers_def)
  have pos: "(of_nat (length (q_body r)) :: u64) > 0" using small_size [OF l(2)] assms(5) by (auto simp: word_less_nat_alt)
  have left: "(of_nat (length (q_body r)) :: u64) - of_nat (length ?b) = - of_nat (length x)" by simp
  have "receive_body rd (of_nat (length (q_body r))) data (length ?b) s1 = Ret None s1"
    using small_size [OF l(2)] l(2) unfolding receive_body_def Let_def left by (simp add: negative_size [OF l(3,4)])
  then show ?thesis unfolding recvRequest_def h by (simp add: Let_def cl pos)
qed

theorem pipelined_refused_witness:
  "recvRequest 1 demo_cast demo_read (\<lambda>s. s) (replicate 100 CHR 0x00) new_http_parser 0 ([dump_request demo_get @ ''GET''], []) =
     Some (Ret None ([], []))"
  using pipelined_refused [OF demo_get, of demo_read "([dump_request demo_get @ ''GET''], [])" "replicate 100 CHR 0x00" "''GET''" "([], [])"
      demo_cast 0 "\<lambda>s. s" new_http_parser 0] demo_cast dump_request_head [OF demo_get] demo_head
  by (simp add: demo_read_def demo_get_def new_HttpRequest_def)

definition request_wf :: "http_request \<Rightarrow> bool" where
  "request_wf r \<longleftrightarrow> request_ok r \<and> q_method r < 34 \<and> (q_version r = 0x10 \<or> q_version r = 0x11)"

lemma chars_method_bound: "CharsTohttpMethod m \<noteq> INVALID_METHOD \<Longrightarrow> CharsTohttpMethod m < 34"
  using method_valid by (auto simp: CharsTohttpMethod_def split: option.splits dest!: find_mem)

lemma event_wf:
  assumes "request_wf (rq_data p)" and "on_request_event e p = Ret () p'"
  shows "request_wf (rq_data p')"
proof (cases e)
  case (HttpField field flen val vlen)
  have "request_wf (req_setHeader k v (rq_data p))" for k v
    using assms(1) req_headers.set_inv by (auto simp: request_wf_def req_setHeader_def request_ok_def ci.sorted_map_set)
  then show ?thesis using assms HttpField by (auto simp: request_callbacks c_text_def split: if_splits)
qed (use assms chars_method_bound in \<open>auto simp: request_callbacks c_text_def request_wf_def request_ok_def Let_def split: if_splits\<close>)

lemma events_wf: "on_request_events evs p = Ret () p' \<Longrightarrow> request_wf (rq_data p) \<Longrightarrow> request_wf (rq_data p')"
proof (induction evs arbitrary: p)
  case (Cons e evs)
  then show ?case using event_wf by (auto simp: obind_Ret_iff)
qed simp

lemma execute_wf: "execute_request data len p = Ret r p' \<Longrightarrow> request_wf (rq_data p) \<Longrightarrow> request_wf (rq_data p')"
  using events_wf by (fastforce simp: execute_request_def obind_Ret_iff split: outcome.splits)

lemma loop_wf:
  "recv_request_loop fuel rd close n data offset p s = Some (Ret (Some (data', k, p')) s') \<Longrightarrow> request_wf (rq_data p) \<Longrightarrow> request_wf (rq_data p')"
proof (induction fuel arbitrary: data offset p s)
  case (Suc fuel)
  obtain len bs s1 where r: "rd s (n - offset) = (len, bs, s1)" by (metis prod_cases3)
  let ?d = "overwrite offset (of_bytes bs) data" and ?l = "offset + nat len"
  show ?case
  proof (cases "execute_request ?d ?l p")
    case (Ret x p1)
    then have "request_wf (rq_data p1)" using execute_wf Suc.prems(2) by blast
    then show ?thesis using Suc.prems(1) Suc.IH r Ret by (cases x) (auto simp: Let_def split: if_splits)
  qed (use Suc.prems(1) r in \<open>auto simp: Let_def split: if_splits\<close>)
qed simp

text \<open>C21. Whatever bytes arrive, a request that \<open>recvRequest\<close> returns is well formed: its method is one of the table, its version
  HTTP 1.0 or 1.1, and its maps are ordered without duplicate keys.\<close>

theorem request_well_formed:
  assumes "recvRequest fuel lexical_cast rd close buffer mem junk s = Some (Ret (Some r) s')"
  shows "request_wf r"
proof -
  obtain data k p s1 where l: "recv_request_loop fuel rd close (length buffer) buffer 0 (new_HttpRequestParser mem junk) s =
      Some (Ret (Some (data, k, p)) s1)" and b: "\<exists>body. r = (rq_data p)\<lparr>q_body := body\<rparr> \<or> r = (rq_data p)\<lparr>q_body := body, q_close := False\<rparr>"
    using assms by (auto simp: recvRequest_def obind_Ret_iff Let_def split: option.splits prod.splits if_splits)
  have "request_wf (rq_data (new_HttpRequestParser mem junk))"
    by (simp add: request_wf_def request_ok_def new_HttpRequestParser_def new_HttpRequest_def)
  from loop_wf [OF l this] show ?thesis using b by (auto simp: request_wf_def request_ok_def)
qed

theorem request_well_formed_witness:
  "\<exists>r. recvRequest 1 demo_cast demo_read (\<lambda>s. s) (replicate 100 CHR 0x00) new_http_parser 0 ([dump_request demo_get], []) = Some (Ret (Some r) ([], [])) \<and>
     request_wf r"
proof -
  have "recvRequest (Suc 0) demo_cast demo_read (\<lambda>s. s) (replicate 100 CHR 0x00) new_http_parser 0 ([dump_request demo_get], []) =
      Some (Ret (Some (received_request 0 demo_get)) ([], []))"
    by (rule recv_request [OF demo_get, of _ _ _ "q_body demo_get" _ "[]"])
      (use dump_request_head [OF demo_get] demo_head demo_cast in \<open>simp_all add: demo_read_def rest_read_def demo_get_def new_HttpRequest_def\<close>)
  then show ?thesis using request_well_formed by (metis One_nat_def)
qed

end
