(* ===== verification/Uri.thy ===== *)
theory Uri
  imports UriMachine HttpSession Address
begin

text \<open>
  \<^verbatim>\<open>src/cxk/uri.h\<close> and \<^verbatim>\<open>uri.rl.cpp\<close>: URIs. \<open>Create\<close> runs the state machine of \<open>UriMachine\<close> over the text; its actions keep
  \<^verbatim>\<open>mark\<close>, a position in the text or null. Making a \<^verbatim>\<open>std::string\<close> from a null pointer and a length that is not zero throws
  \<^verbatim>\<open>std::logic_error\<close>; \<^verbatim>\<open>atoi(NULL)\<close> is undefined. Either leaves the loop, so that an action after it does nothing.
\<close>

record uri =
  u_scheme :: string
  u_userinfo :: string
  u_host :: string
  u_port :: u32
  u_path :: string
  u_query :: string
  u_fragment :: string

definition new_Uri :: uri where
  "new_Uri = \<lparr>u_scheme = [], u_userinfo = [], u_host = [], u_port = 0, u_path = [], u_query = [], u_fragment = []\<rparr>"

record uri_vars =
  uv_uri :: uri
  uv_mark :: "nat option"
  uv_stop :: "(exn + ub) option"

definition new_vars :: uri_vars where
  "new_vars = \<lparr>uv_uri = new_Uri, uv_mark = None, uv_stop = None\<rparr>"

text \<open>\<^verbatim>\<open>std::string(mark, fpc - mark)\<close>, handed to a setter.\<close>

definition save_text :: "string \<Rightarrow> nat \<Rightarrow> (string \<Rightarrow> uri \<Rightarrow> uri) \<Rightarrow> uri_vars \<Rightarrow> uri_vars" where
  "save_text uristr fpc f v =
     (case uv_mark v of
        None \<Rightarrow> v\<lparr>uv_stop := Some (Inl LogicError)\<rparr>
      | Some mark \<Rightarrow> v\<lparr>uv_uri := f (take (fpc - mark) (drop mark uristr)) (uv_uri v)\<rparr>)"

definition save_port :: "string \<Rightarrow> nat \<Rightarrow> uri_vars \<Rightarrow> uri_vars" where
  "save_port uristr fpc v =
     (case uv_mark v of
        None \<Rightarrow> v\<lparr>uv_stop := Some (Inr NullDeref)\<rparr>
      | Some mark \<Rightarrow>
          if fpc \<noteq> mark then v\<lparr>uv_uri := (uv_uri v)\<lparr>u_port := word_of_int (to_int32 (strtol 10 (drop mark uristr)))\<rparr>\<rparr> else v)"

primrec ur_action_code :: "string \<Rightarrow> ur_action \<Rightarrow> nat \<Rightarrow> uri_vars \<Rightarrow> uri_vars" where
  "ur_action_code uristr UrMarku fpc v = v\<lparr>uv_mark := Some fpc\<rparr>"
| "ur_action_code uristr UrMarkh fpc v = v\<lparr>uv_mark := Some fpc\<rparr>"
| "ur_action_code uristr UrSaveScheme fpc v = (save_text uristr fpc (\<lambda>t u. u\<lparr>u_scheme := t\<rparr>) v)\<lparr>uv_mark := None\<rparr>"
| "ur_action_code uristr UrSavePort fpc v = (save_port uristr fpc v)\<lparr>uv_mark := None\<rparr>"
| "ur_action_code uristr UrSaveUserinfo fpc v =
     (if uv_mark v \<noteq> None then save_text uristr fpc (\<lambda>t u. u\<lparr>u_userinfo := t\<rparr>) v else v)\<lparr>uv_mark := None\<rparr>"
| "ur_action_code uristr UrSaveHost fpc v = (if uv_mark v \<noteq> None then save_text uristr fpc (\<lambda>t u. u\<lparr>u_host := t\<rparr>) v else v)"
| "ur_action_code uristr UrSavePath fpc v = (save_text uristr fpc (\<lambda>t u. u\<lparr>u_path := t\<rparr>) v)\<lparr>uv_mark := None\<rparr>"
| "ur_action_code uristr UrSaveQuery fpc v = (save_text uristr fpc (\<lambda>t u. u\<lparr>u_query := t\<rparr>) v)\<lparr>uv_mark := None\<rparr>"
| "ur_action_code uristr UrSaveFragment fpc v = (save_text uristr fpc (\<lambda>t u. u\<lparr>u_fragment := t\<rparr>) v)\<lparr>uv_mark := None\<rparr>"

definition ur_act :: "string \<Rightarrow> ur_action \<Rightarrow> nat \<Rightarrow> uri_vars \<Rightarrow> uri_vars" where
  "ur_act uristr a fpc v = (if uv_stop v = None then ur_action_code uristr a fpc v else v)"

definition ur_machine :: "string \<Rightarrow> (ur_action, uri_vars) machine" where
  "ur_machine uristr = \<lparr>ma_case = ur_case, ma_act = ur_act uristr, ma_break = (\<lambda>_. False)\<rparr>"

definition uri_Create :: "string \<Rightarrow> (unit, uri option) outcome" where
  "uri_Create uristr =
     (case ragel_loop (ur_machine uristr) uristr 0 451 new_vars of (p, cs, v) \<Rightarrow>
        let v = (if p = length uristr then fold (\<lambda>a. ur_act uristr a p) (ur_eof cs) v else v)
        in (case uv_stop v of
              Some (Inl e) \<Rightarrow> Throw e ()
            | Some (Inr u) \<Rightarrow> Undef u
            | None \<Rightarrow> Ret (if cs = 0 then None else if 451 \<le> cs then Some (uv_uri v) else None) ()))"

definition isDefaultPort :: "uri \<Rightarrow> bool" where
  "isDefaultPort u =
     (if u_port u = 0 then True
      else if u_scheme u = ''http'' \<or> u_scheme u = ''ws'' then u_port u = 80
      else if u_scheme u = ''https'' \<or> u_scheme u = ''wss'' then u_port u = 443
      else False)"

definition uri_getPath :: "uri \<Rightarrow> string" where
  "uri_getPath u = (if u_path u = [] then ''/'' else u_path u)"

definition uri_getPort :: "uri \<Rightarrow> int" where
  "uri_getPort u =
     (if u_port u \<noteq> 0 then sint (u_port u)
      else if u_scheme u = ''http'' \<or> u_scheme u = ''ws'' then 80
      else if u_scheme u = ''https'' \<or> u_scheme u = ''wss'' then 443
      else sint (u_port u))"

definition uri_toString :: "uri \<Rightarrow> string" where
  "uri_toString u =
     u_scheme u @ ''://'' @ u_userinfo u @ (if u_userinfo u = [] then [] else ''@'') @ u_host u
     @ (if isDefaultPort u then [] else '':'' @ dec (unat (u_port u))) @ uri_getPath u
     @ (if u_query u = [] then [] else ''?'') @ u_query u @ (if u_fragment u = [] then [] else ''#'') @ u_fragment u"

definition uri_createAddress :: "(string \<Rightarrow> string option \<Rightarrow> raw_addr list option) \<Rightarrow> uri \<Rightarrow> address option" where
  "uri_createAddress getaddrinfo u =
     (case LookupAnyIpAddr getaddrinfo (u_host u) of
        None \<Rightarrow> None
      | Some addr \<Rightarrow> Some (setPort (word_of_int (uri_getPort u)) addr))"

section \<open>Parts of the text\<close>

lemma ur_machine_simps [simp]:
  "ma_case (ur_machine t) = ur_case" "ma_act (ur_machine t) = ur_act t" "ma_break (ur_machine t) = (\<lambda>_. False)"
  by (simp_all add: ur_machine_def)

lemma list_ex_False [simp]: "\<not> list_ex (\<lambda>_. False) as"
  by (induction as) auto

text \<open>What is left of the text is read up to its end, and the actions of the end are run.\<close>

definition ur_run :: "string \<Rightarrow> string \<Rightarrow> nat \<Rightarrow> nat \<Rightarrow> uri_vars \<Rightarrow> nat \<times> uri_vars" where
  "ur_run t xs p n v = (case ragel_loop (ur_machine t) xs p n v of (p, cs, v) \<Rightarrow>
     (cs, if p = length t then fold (\<lambda>a. ur_act t a p) (ur_eof cs) v else v))"

lemma ur_run_passes:
  "passes (ur_machine t) xs p n v m v' \<Longrightarrow> ur_run t (xs @ ys) p n v = ur_run t ys (p + length xs) m v'"
  by (simp add: ur_run_def passes_loop)

lemma ur_run_end: "p = length t \<Longrightarrow> ur_run t [] p n v = (n, fold (\<lambda>a. ur_act t a p) (ur_eof n) v)"
  by (simp add: ur_run_def)

text \<open>\<open>accepted t xs p n v u\<close>: the rest of the text is accepted and the URI is then \<open>u\<close>.\<close>

definition accepted :: "string \<Rightarrow> string \<Rightarrow> nat \<Rightarrow> nat \<Rightarrow> uri_vars \<Rightarrow> uri \<Rightarrow> bool" where
  "accepted t xs p n v u \<longleftrightarrow> (case ur_run t xs p n v of (cs, v') \<Rightarrow> 451 \<le> cs \<and> uv_stop v' = None \<and> uv_uri v' = u)"

lemma accepted_pre:
  assumes "passes (ur_machine t) xs p n v m v'" and "accepted t ys (p + length xs) m v' u"
  shows "accepted t (xs @ ys) p n v u"
  using assms by (simp add: accepted_def ur_run_passes)

lemma accepted_step:
  assumes "ur_case n (schar c) = Goto as m" and "m \<noteq> 0" and "accepted t ys (Suc p) m (fold (\<lambda>a. ur_act t a p) as v) u"
  shows "accepted t (c # ys) p n v u"
  using assms by (simp add: accepted_def ur_run_def)

lemma Create_accepted: "accepted t t 0 451 new_vars u \<Longrightarrow> uri_Create t = Ret (Some u) ()"
  by (auto simp: accepted_def ur_run_def uri_Create_def Let_def split: prod.splits)

definition uri_fragment_of :: "string \<Rightarrow> uri \<Rightarrow> uri" where
  "uri_fragment_of f u = (if f = [] then u else u\<lparr>u_fragment := f\<rparr>)"

definition uri_query_of :: "string \<Rightarrow> uri \<Rightarrow> uri" where
  "uri_query_of q u = (if q = [] then u else u\<lparr>u_query := q\<rparr>)"

lemmas ur_acts = ur_act_def save_text_def save_port_def

lemma ur_eof_simps:
  "ur_eof 454 = [UrSaveFragment]" "ur_eof 457 = [UrSaveQuery]" "ur_eof 513 = [UrSavePath]"
  "ur_eof 515 = [UrSavePort, UrMarkh, UrSavePath]" "ur_eof 542 = [UrSavePort, UrMarkh, UrSavePath]"
  "ur_eof 514 = [UrMarkh, UrSavePort, UrSavePath]" "ur_eof 521 = [UrMarkh, UrSavePort, UrSavePath]"
  by (simp_all add: ur_eof_def ur_eof_host_def ur_eof_host_path_def)

lemma fragment_accepted:
  assumes "t = pre @ marked CHR ''#'' f" and "uri_text uri_query_char f" and "451 \<le> n" and "ur_eof n = as" and "ur_case n 35 = Goto as 453"
    and "fold (\<lambda>a. ur_act t a (length pre)) as v = w" and "uv_stop w = None"
  shows "accepted t (marked CHR ''#'' f) (length pre) n v (uri_fragment_of f (uv_uri w))"
proof (cases "f = []")
  case True
  then show ?thesis using assms by (simp add: accepted_def marked_def ur_run_end uri_fragment_of_def)
next
  case False
  have p: "passes (ur_machine t) f (Suc (length pre)) 453 w 454 (fold (\<lambda>a. ma_act (ur_machine t) a (Suc (length pre))) [UrMarku] w)"
    by (rule passes_uri_start [OF assms(2) False, of _ _ _ _ 1 2]) (simp_all add: ur_edges)
  have t: "t = pre @ CHR ''#'' # f" using assms(1) False by (simp add: marked_def)
  have "accepted t (f @ []) (Suc (length pre)) 453 w (uri_fragment_of f (uv_uri w))"
    by (rule accepted_pre [OF p]) (use t assms(7) False in \<open>simp add: accepted_def ur_run_end ur_eof_simps ur_acts uri_fragment_of_def\<close>)
  then show ?thesis
    using accepted_step [of n "CHR ''#''" as 453 t f "length pre" v] assms(5,6) False by (simp add: marked_def)
qed

lemma query_accepted:
  assumes "t = pre @ marked CHR ''?'' q @ marked CHR ''#'' f" and "uri_text uri_query_char q" and "uri_text uri_query_char f"
    and "451 \<le> n" and "ur_eof n = as" and "ur_case n 35 = Goto as 453" and "ur_case n 63 = Goto as 456"
    and "fold (\<lambda>a. ur_act t a (length pre)) as v = w" and "uv_stop w = None"
  shows "accepted t (marked CHR ''?'' q @ marked CHR ''#'' f) (length pre) n v (uri_fragment_of f (uri_query_of q (uv_uri w)))"
proof (cases "q = []")
  case True
  then show ?thesis using fragment_accepted [OF _ assms(3-6,8,9)] assms(1) by (simp add: marked_def uri_query_of_def)
next
  case False
  let ?w = "w\<lparr>uv_mark := Some (Suc (length pre))\<rparr>" and ?p = "pre @ CHR ''?'' # q"
  have "passes (ur_machine t) q (Suc (length pre)) 456 w 457 (fold (\<lambda>a. ma_act (ur_machine t) a (Suc (length pre))) [UrMarku] w)"
    by (rule passes_uri_start [OF assms(2) False, of _ _ _ _ 7 8]) (simp_all add: ur_edges)
  then have p: "passes (ur_machine t) q (Suc (length pre)) 456 w 457 ?w" using assms(9) by (simp add: ur_acts)
  have t: "t = ?p @ marked CHR ''#'' f" using assms(1) False by (simp add: marked_def)
  have q: "fold (\<lambda>a. ur_act t a (length ?p)) [UrSaveQuery] ?w = w\<lparr>uv_uri := (uv_uri w)\<lparr>u_query := q\<rparr>, uv_mark := None\<rparr>"
    using assms(9) unfolding t by (simp add: ur_acts)
  have "accepted t (marked CHR ''#'' f) (length ?p) 457 ?w (uri_fragment_of f (uri_query_of q (uv_uri w)))"
    using fragment_accepted [OF t assms(3), of 457 "[UrSaveQuery]" ?w _] q assms(9) False by (simp add: ur_edges ur_eof_simps uri_query_of_def)
  then have "accepted t (q @ marked CHR ''#'' f) (Suc (length pre)) 456 w (uri_fragment_of f (uri_query_of q (uv_uri w)))"
    using accepted_pre [OF p, of "marked CHR ''#'' f"] by simp
  then show ?thesis
    using accepted_step [of n "CHR ''?''" as 456 t "q @ marked CHR ''#'' f" "length pre" v] assms(7,8) False by (simp add: marked_def [of _ q])
qed

text \<open>The end of an authority: behind the host, or behind the port.\<close>

definition authority_end :: "nat \<Rightarrow> ur_action \<Rightarrow> bool" where
  "authority_end n a \<longleftrightarrow> 451 \<le> n \<and> ur_eof n = [a, UrMarkh, UrSavePath] \<and> ur_case n 35 = Goto [a, UrMarkh, UrSavePath] 453 \<and>
     ur_case n 63 = Goto [a, UrMarkh, UrSavePath] 456 \<and> ur_case n 47 = Goto [a, UrMarkh] 513"

lemma authority_ends:
  "n \<in> ur_host_states at \<Longrightarrow> authority_end n UrSaveHost" "authority_end 515 UrSavePort" "authority_end 542 UrSavePort"
proof -
  assume n: "n \<in> ur_host_states at"
  have "451 \<le> n \<and> ur_eof n = [UrSaveHost, UrMarkh, UrSavePath]"
    using n unfolding ur_host_states_def
    by (cases at) (simp_all only: if_True if_False, (elim insertE emptyE; simp add: ur_eof_def ur_eof_host_def ur_eof_host_path_def)+)
  then show "authority_end n UrSaveHost" by (simp add: authority_end_def ur_host_hash [OF n] ur_host_query [OF n] ur_host_slash [OF n])
qed (simp_all add: authority_end_def ur_edges ur_eof_simps)

definition good_uri_path :: "string \<Rightarrow> bool" where
  "good_uri_path path \<longleftrightarrow> path = [] \<or> hd path = CHR ''/'' \<and> uri_text uri_path_char (tl path)"

lemma path_accepted:
  assumes "t = pre @ path @ marked CHR ''?'' q @ marked CHR ''#'' f" and "good_uri_path path" and "uri_text uri_query_char q"
    and "uri_text uri_query_char f" and "authority_end n a" and "ur_act t a (length pre) v = w" and "uv_stop w = None"
  shows "accepted t (path @ marked CHR ''?'' q @ marked CHR ''#'' f) (length pre) n v
    (uri_fragment_of f (uri_query_of q ((uv_uri w)\<lparr>u_path := path\<rparr>)))"
proof (cases path)
  case Nil
  have "fold (\<lambda>a. ur_act t a (length pre)) [a, UrMarkh, UrSavePath] v = w\<lparr>uv_uri := (uv_uri w)\<lparr>u_path := []\<rparr>, uv_mark := None\<rparr>"
    using assms(6,7) by (simp add: ur_acts)
  then show ?thesis
    using query_accepted [of t pre q f n "[a, UrMarkh, UrSavePath]" v] Nil assms by (simp add: authority_end_def)
next
  case (Cons c xs)
  then have c: "c = CHR ''/''" "uri_text uri_path_char xs" using assms(2) by (auto simp: good_uri_path_def)
  let ?w = "w\<lparr>uv_mark := Some (length pre)\<rparr>" and ?p = "pre @ path"
  have t: "t = ?p @ marked CHR ''?'' q @ marked CHR ''#'' f" using assms(1) by simp
  have p: "passes (ur_machine t) xs (Suc (length pre)) 513 ?w 513 ?w"
    by (rule passes_uri_text [OF c(2), of _ _ 243 244]) (simp_all add: ur_edges)
  have s: "fold (\<lambda>a. ur_act t a (length ?p)) [UrSavePath] ?w = w\<lparr>uv_uri := (uv_uri w)\<lparr>u_path := path\<rparr>, uv_mark := None\<rparr>"
    using assms(7) unfolding t by (simp add: ur_acts)
  have "accepted t (marked CHR ''?'' q @ marked CHR ''#'' f) (length ?p) 513 ?w (uri_fragment_of f (uri_query_of q ((uv_uri w)\<lparr>u_path := path\<rparr>)))"
    using query_accepted [OF t assms(3,4), of 513 "[UrSavePath]" ?w] s assms(7) by (simp add: ur_edges ur_eof_simps)
  then have "accepted t (xs @ marked CHR ''?'' q @ marked CHR ''#'' f) (Suc (length pre)) 513 ?w
      (uri_fragment_of f (uri_query_of q ((uv_uri w)\<lparr>u_path := path\<rparr>)))"
    using accepted_pre [OF p, of "marked CHR ''?'' q @ marked CHR ''#'' f"] Cons by simp
  moreover have "fold (\<lambda>a. ur_act t a (length pre)) [a, UrMarkh] v = ?w" using assms(6,7) by (simp add: ur_acts)
  ultimately show ?thesis
    using accepted_step [of n c "[a, UrMarkh]" 513 t "xs @ marked CHR ''?'' q @ marked CHR ''#'' f" "length pre" v] assms(5) c(1) Cons
    by (simp add: authority_end_def)
qed

lemma strtol_10:
  assumes "\<forall>c\<in>set ds. digit (schar c)" and "ds \<noteq> []" and "case s of [] \<Rightarrow> True | c # _ \<Rightarrow> \<not> digit (schar c)"
  shows "strtol 10 (ds @ s) = clamp_long (atoi_digits 0 ds)"
proof -
  obtain c cs where ds: "ds = c # cs" using assms(2) by (cases ds) auto
  have d: "digit_in 10 c = Some (digit_value c)" "digit_value c = schar c - 48" if "digit (schar c)" for c
  proof -
    have "digit_value c = (of_char c :: int) - 48" unfolding digit_value_def by (simp only: of_nat_of_char)
    then show "digit_value c = schar c - 48" using that of_char_range [of c] unfolding digit_def schar_def by (auto split: if_splits)
    then show "digit_in 10 c = Some (digit_value c)" using that by (simp add: digit_in_def digit_def Let_def)
  qed
  have e: "digit_in 10 c = None" if "\<not> digit (schar c)" for c
    using that by (auto simp: digit_in_def digit_def Let_def)
  have "strtol_digits 10 acc (ds @ s) = atoi_digits acc ds" for acc
    using assms(1)
  proof (induction ds arbitrary: acc)
    case Nil
    then show ?case using assms(3) e by (cases s) auto
  next
    case (Cons c ds)
    then show ?case using d [of c] digit_value [of c] by simp
  qed
  moreover have "c \<noteq> CHR ''-''" "c \<noteq> CHR ''+''" "\<not> (schar c = 32 \<or> (9 \<le> schar c \<and> schar c \<le> 13))"
    using assms(1) ds by (auto simp: digit_def schar_def)
  then have "dropWhile (\<lambda>c. schar c = 32 \<or> (9 \<le> schar c \<and> schar c \<le> 13)) (ds @ s) = ds @ s"
    "(case ds @ s of c # _ \<Rightarrow> c = CHR ''-'' | [] \<Rightarrow> False) = False"
    "(case ds @ s of c # t \<Rightarrow> if c = CHR ''-'' \<or> c = CHR ''+'' then t else ds @ s | [] \<Rightarrow> []) = ds @ s"
    using ds by auto
  moreover have "skip_0x 10 (ds @ s) = ds @ s" by (simp add: skip_0x_def split: list.splits)
  ultimately show ?thesis unfolding strtol_def Let_def by (simp only: if_False)
qed

lemma port_text: "\<forall>c\<in>set ds. digit (schar c) \<Longrightarrow> 0 \<le> atoi_digits 0 ds"
proof -
  have "0 \<le> acc \<Longrightarrow> \<forall>c\<in>set ds. digit (schar c) \<Longrightarrow> 0 \<le> atoi_digits acc ds" for acc
    by (induction ds arbitrary: acc) (auto dest!: digit_value)
  then show "\<forall>c\<in>set ds. digit (schar c) \<Longrightarrow> ?thesis" by simp
qed

text \<open>A port, and what follows it.\<close>

definition port_part :: "string \<Rightarrow> string" where
  "port_part ds = (if ds = [] then [] else CHR '':'' # ds)"

definition good_port :: "string \<Rightarrow> bool" where
  "good_port ds \<longleftrightarrow> (\<forall>c\<in>set ds. digit (schar c)) \<and> atoi_digits 0 ds < 2 ^ 31"

definition port_number :: "string \<Rightarrow> u32" where
  "port_number ds = word_of_int (atoi_digits 0 ds)"

abbreviation uri_tail :: "string \<Rightarrow> string \<Rightarrow> string \<Rightarrow> string" where
  "uri_tail path q f \<equiv> path @ marked CHR ''?'' q @ marked CHR ''#'' f"

lemma tail_no_digit:
  assumes "good_uri_path path"
  shows "case uri_tail path q f of [] \<Rightarrow> True | c # _ \<Rightarrow> \<not> digit (schar c)"
  using assms by (cases path) (auto simp: good_uri_path_def marked_def digit_def)

lemma ur_region: "region (ur_machine t) host_char (\<lambda>n _. n \<in> ur_host_states at)"
  using ur_host_region [of _ at] unfolding region_def ur_machine_simps by metis

lemma authority_accepted:
  assumes "t = pre @ name @ port_part ds @ uri_tail path q f" and "name \<noteq> []" and "\<forall>c\<in>set name. host_char (schar c)" and "good_port ds"
    and "good_uri_path path" and "uri_text uri_query_char q" and "uri_text uri_query_char f" and "uv_stop v = None"
    and "k = (if at then 522 else 511)" and "u_port (uv_uri v) = 0"
  shows "accepted t (name @ port_part ds @ uri_tail path q f) (length pre) k v
    (uri_fragment_of f (uri_query_of q ((uv_uri v)\<lparr>u_host := name, u_port := port_number ds, u_path := path\<rparr>)))"
proof -
  obtain c hs where name: "name = c # hs" using assms(2) by (cases name) auto
  let ?v = "v\<lparr>uv_mark := Some (length pre)\<rparr>"
  have "ur_to (ur_host_states at) [UrMarkh] (ur_case k (schar c))"
    using assms(3,9) name ur_host_first_511 [of "schar c"] ur_host_first_522 [of "schar c"] by (cases at) simp_all
  then obtain n where n: "ur_case k (schar c) = Goto [UrMarkh] n" "n \<in> ur_host_states at"
    by (cases "ur_case k (schar c)") (auto simp: ur_to_simps)
  from passes_region [OF ur_region [of t at], of n hs "Suc (length pre)" ?v] n(2) assms(3) name
  obtain m where m: "m \<in> ur_host_states at" "passes (ur_machine t) hs (Suc (length pre)) n ?v m ?v" by auto
  have n0: "n \<noteq> 0" using n(2) by (auto simp: ur_host_states_def split: if_splits)
  have h: "passes (ur_machine t) name (length pre) k v m ?v"
    unfolding name by (rule passes_Cons [OF _ n0, of _ k c "[UrMarkh]"]) (use n(1) m(2) assms(8) in \<open>simp_all add: ur_acts\<close>)
  let ?h = "?v\<lparr>uv_uri := (uv_uri v)\<lparr>u_host := name\<rparr>\<rparr>"
  have sh: "ur_act t UrSaveHost (length (pre @ name)) ?v = ?h" using assms(8) unfolding assms(1) by (simp add: ur_acts)
  let ?u = "uri_fragment_of f (uri_query_of q ((uv_uri v)\<lparr>u_host := name, u_port := port_number ds, u_path := path\<rparr>))"
  have "accepted t (port_part ds @ uri_tail path q f) (length (pre @ name)) m ?v ?u"
  proof (cases "ds = []")
    case True
    have "accepted t (uri_tail path q f) (length (pre @ name)) m ?v (uri_fragment_of f (uri_query_of q ((uv_uri ?h)\<lparr>u_path := path\<rparr>)))"
      by (rule path_accepted [OF _ assms(5-7) authority_ends(1) [OF m(1)] sh]) (use assms(1,8) True in \<open>simp_all add: port_part_def\<close>)
    moreover have "(uv_uri ?h)\<lparr>u_path := path\<rparr> = (uv_uri v)\<lparr>u_host := name, u_port := port_number ds, u_path := path\<rparr>"
      using True assms(10) by (simp add: port_number_def)
    ultimately show ?thesis using True by (simp add: port_part_def)
  next
    case False
    then obtain d es where ds: "ds = d # es" by (cases ds) auto
    let ?i = "if at then 514 else 521 :: nat" and ?j = "if at then 515 else 542 :: nat" and ?q = "pre @ name @ '':''"
    let ?w = "?h\<lparr>uv_mark := Some (length ?q)\<rparr>"
    have dg: "digit (schar d)" "\<forall>c\<in>set es. digit (schar c)" using assms(4) ds by (auto simp: good_port_def)
    have st: "\<forall>c\<in>set es. ma_case (ur_machine t) ?j (schar c) = St ?j" using dg(2) by (auto simp: ur_edges)
    have "passes (ur_machine t) es (Suc (length ?q)) ?j ?w ?j ?w" by (rule passes_stay [OF st]) simp
    then have "passes (ur_machine t) ds (length ?q) ?i ?h ?j ?w"
      unfolding ds using dg(1) assms(8) by (intro passes_pre [of _ es _ ?j ?w _ _ ?i d "[UrMarkh]"]) (auto simp: ur_edges ur_acts)
    note p = this
    have t: "t = (?q @ ds) @ uri_tail path q f" using assms(1) False by (simp add: port_part_def)
    have "strtol 10 (drop (length ?q) t) = clamp_long (atoi_digits 0 ds)"
      unfolding t using strtol_10 [OF _ False tail_no_digit [OF assms(5)]] assms(4) by (simp add: good_port_def)
    then have "word_of_int (to_int32 (strtol 10 (drop (length ?q) t))) = port_number ds"
      using small_int [of "atoi_digits 0 ds"] port_text [of ds] assms(4) by (simp add: good_port_def port_number_def)
    then have sp: "ur_act t UrSavePort (length (?q @ ds)) ?w = ?h\<lparr>uv_uri := (uv_uri v)\<lparr>u_host := name, u_port := port_number ds\<rparr>, uv_mark := None\<rparr>"
      using assms(8) False by (simp add: ur_acts)
    have "accepted t (uri_tail path q f) (length (?q @ ds)) ?j ?w (uri_fragment_of f (uri_query_of q
        ((uv_uri (?h\<lparr>uv_uri := (uv_uri v)\<lparr>u_host := name, u_port := port_number ds\<rparr>, uv_mark := None\<rparr>))\<lparr>u_path := path\<rparr>)))"
      by (rule path_accepted [OF t assms(5-7) _ sp]) (use assms(8) authority_ends(2,3) in auto)
    then have "accepted t (ds @ uri_tail path q f) (length ?q) ?i ?h ?u"
      by (intro accepted_pre [OF p]) (simp add: add.assoc)
    moreover have "fold (\<lambda>a. ur_act t a (length (pre @ name))) [UrSaveHost] ?v = ?h" using sh by simp
    ultimately show ?thesis
      using accepted_step [of m "CHR '':''" "[UrSaveHost]" ?i t "ds @ uri_tail path q f" "length (pre @ name)" ?v] ur_host_colon [OF m(1)] False
      by (simp add: port_part_def)
  qed
  then show ?thesis using accepted_pre [OF h, of "port_part ds @ uri_tail path q f"] by simp
qed

section \<open>Properties\<close>

text \<open>URIs with a registered name or an IPv4 address as host, and without a colon in the user information.\<close>

definition userinfo_part :: "string \<Rightarrow> string" where
  "userinfo_part ui = (if ui = [] then [] else ui @ ''@'')"

definition good_scheme :: "string \<Rightarrow> bool" where
  "good_scheme s \<longleftrightarrow> s \<noteq> [] \<and> alpha (schar (hd s)) \<and> (\<forall>c\<in>set s. scheme_char (schar c))"

lemma scheme_passes:
  assumes "t = s @ rest" and "good_scheme s"
  shows "passes (ur_machine t) (s @ ''://'') 0 451 new_vars 511 (new_vars\<lparr>uv_uri := new_Uri\<lparr>u_scheme := s\<rparr>\<rparr>)"
proof -
  obtain c cs where s: "s = c # cs" using assms(2) by (cases s) (auto simp: good_scheme_def)
  let ?v = "new_vars\<lparr>uv_mark := Some 0\<rparr>"
  have c: "alpha (schar c)" "\<forall>c\<in>set cs. ma_case (ur_machine t) 508 (schar c) = St 508"
    using assms(2) s by (auto simp: good_scheme_def ur_edges)
  have "passes (ur_machine t) cs (Suc 0) 508 ?v 508 ?v" by (rule passes_stay [OF c(2)]) simp
  then have "passes (ur_machine t) s 0 451 new_vars 508 ?v"
    unfolding s by (rule passes_pre [of _ _ _ _ _ _ _ _ _ "[UrMarku]"]) (use c(1) in \<open>simp_all add: ur_edges ur_acts new_vars_def\<close>)
  moreover have "passes (ur_machine t) ''://'' (0 + length s) 508 ?v 511 (new_vars\<lparr>uv_uri := new_Uri\<lparr>u_scheme := s\<rparr>\<rparr>)"
    unfolding assms(1) by (simp add: passes_def ur_edges ur_acts new_vars_def)
  ultimately show ?thesis by (rule passes_append)
qed

lemma userinfo_passes:
  assumes "t = pre @ ui @ ''@'' @ rest" and "ui \<noteq> []" and "\<forall>c\<in>set ui. host_char (schar c)" and "uv_stop v = None"
  shows "passes (ur_machine t) (ui @ ''@'') (length pre) 511 v 522 (v\<lparr>uv_uri := (uv_uri v)\<lparr>u_userinfo := ui\<rparr>, uv_mark := None\<rparr>)"
proof -
  obtain c cs where ui: "ui = c # cs" using assms(2) by (cases ui) auto
  let ?v = "v\<lparr>uv_mark := Some (length pre)\<rparr>"
  have "ur_to (ur_host_states False) [UrMarkh] (ur_case 511 (schar c))" using assms(3) ui ur_host_first_511 [of "schar c"] by simp
  then obtain n where n: "ur_case 511 (schar c) = Goto [UrMarkh] n" "n \<in> ur_host_states False"
    by (cases "ur_case 511 (schar c)") (auto simp: ur_to_simps)
  from passes_region [OF ur_region [of t False], of n cs "Suc (length pre)" ?v] n(2) assms(3) ui
  obtain m where m: "m \<in> ur_host_states False" "passes (ur_machine t) cs (Suc (length pre)) n ?v m ?v" by auto
  have n0: "n \<noteq> 0" using n(2) by (auto simp: ur_host_states_def)
  have "passes (ur_machine t) ui (length pre) 511 v m ?v"
    unfolding ui by (rule passes_Cons [OF _ n0, of _ 511 c "[UrMarkh]"]) (use n(1) m(2) assms(4) in \<open>simp_all add: ur_acts\<close>)
  moreover have "passes (ur_machine t) ''@'' (length pre + length ui) m ?v 522 (v\<lparr>uv_uri := (uv_uri v)\<lparr>u_userinfo := ui\<rparr>, uv_mark := None\<rparr>)"
    using ur_host_at [OF m(1)] assms(4) unfolding assms(1) by (simp add: passes_def ur_acts schar_def)
  ultimately show ?thesis by (rule passes_append)
qed

lemma uri_parse:
  assumes "good_scheme s" and "\<forall>c\<in>set ui. host_char (schar c)" and "name \<noteq> []" and "\<forall>c\<in>set name. host_char (schar c)" and "good_port ds"
    and "good_uri_path path" and "uri_text uri_query_char q" and "uri_text uri_query_char f"
  shows "uri_Create (s @ ''://'' @ userinfo_part ui @ name @ port_part ds @ path @ marked CHR ''?'' q @ marked CHR ''#'' f) =
    Ret (Some \<lparr>u_scheme = s, u_userinfo = ui, u_host = name, u_port = port_number ds, u_path = path, u_query = q, u_fragment = f\<rparr>) ()"
proof -
  let ?r = "name @ port_part ds @ path @ marked CHR ''?'' q @ marked CHR ''#'' f"
  let ?t = "s @ ''://'' @ userinfo_part ui @ ?r" and ?v = "new_vars\<lparr>uv_uri := new_Uri\<lparr>u_scheme := s\<rparr>\<rparr>"
  let ?u = "\<lparr>u_scheme = s, u_userinfo = ui, u_host = name, u_port = port_number ds, u_path = path, u_query = q, u_fragment = f\<rparr>"
  have v: "uv_stop ?v = None" "u_port (uv_uri ?v) = 0" by (simp_all add: new_vars_def new_Uri_def)
  have sc: "passes (ur_machine ?t) (s @ ''://'') 0 451 new_vars 511 ?v" by (rule scheme_passes [OF refl assms(1)])
  have "accepted ?t (userinfo_part ui @ ?r) (length (s @ ''://'')) 511 ?v ?u"
  proof (cases "ui = []")
    case True
    have "accepted ?t ?r (length (s @ ''://'')) 511 ?v
        (uri_fragment_of f (uri_query_of q ((uv_uri ?v)\<lparr>u_host := name, u_port := port_number ds, u_path := path\<rparr>)))"
      by (rule authority_accepted [OF _ assms(3-8) v(1) _ v(2), of _ _ _ False]) (use True in \<open>simp_all add: userinfo_part_def\<close>)
    then show ?thesis using True by (simp add: uri_fragment_of_def uri_query_of_def new_Uri_def userinfo_part_def split: if_splits)
  next
    case False
    let ?w = "?v\<lparr>uv_uri := (uv_uri ?v)\<lparr>u_userinfo := ui\<rparr>, uv_mark := None\<rparr>" and ?p = "s @ ''://'' @ ui @ ''@''"
    have p: "passes (ur_machine ?t) (ui @ ''@'') (length (s @ ''://'')) 511 ?v 522 ?w"
      by (rule userinfo_passes [where rest = ?r]) (use False assms(2) v(1) in \<open>simp_all add: userinfo_part_def\<close>)
    have "accepted ?t ?r (length ?p) 522 ?w
        (uri_fragment_of f (uri_query_of q ((uv_uri ?w)\<lparr>u_host := name, u_port := port_number ds, u_path := path\<rparr>)))"
      by (rule authority_accepted [OF _ assms(3-8), of _ _ _ _ True]) (use False v in \<open>simp_all add: userinfo_part_def\<close>)
    then show ?thesis
      using accepted_pre [OF p, of ?r] False by (simp add: uri_fragment_of_def uri_query_of_def new_Uri_def userinfo_part_def split: if_splits)
  qed
  then have "accepted ?t ?t 0 451 new_vars ?u" using accepted_pre [OF sc, of "userinfo_part ui @ ?r"] by simp
  then show ?thesis by (rule Create_accepted)
qed

text \<open>C22. Parsing: a text \<^verbatim>\<open>scheme://user@host:port/path?query#fragment\<close>, with any of the optional parts missing, is accepted and gives a
  URI with exactly these parts.\<close>

theorem uri_parse_exact:
  assumes "good_scheme s" and "\<forall>c\<in>set ui. host_char (schar c)" and "name \<noteq> []" and "\<forall>c\<in>set name. host_char (schar c)" and "good_port ds"
    and "good_uri_path path" and "uri_text uri_query_char q" and "uri_text uri_query_char f"
  shows "uri_Create (s @ ''://'' @ userinfo_part ui @ name @ port_part ds @ path @ marked CHR ''?'' q @ marked CHR ''#'' f) =
    Ret (Some \<lparr>u_scheme = s, u_userinfo = ui, u_host = name, u_port = port_number ds, u_path = path, u_query = q, u_fragment = f\<rparr>) ()"
  using assms by (rule uri_parse)

theorem uri_parse_exact_witness:
  "uri_Create ''http://u@a.b:8080/x?y#z'' =
     Ret (Some \<lparr>u_scheme = ''http'', u_userinfo = ''u'', u_host = ''a.b'', u_port = 8080, u_path = ''/x'', u_query = ''y'', u_fragment = ''z''\<rparr>) ()"
  using uri_parse_exact [of "''http''" "''u''" "''a.b''" "''8080''" "''/x''" "''y''" "''z''"]
  by (simp add: good_scheme_def alpha_def scheme_char_def host_char_def good_port_def good_uri_path_def uri_path_char_def uri_query_char_def
      path_char_def query_char_def digit_def schar_def digit_value_def userinfo_part_def port_part_def port_number_def marked_def)

definition good_uri :: "uri \<Rightarrow> bool" where
  "good_uri u \<longleftrightarrow> good_scheme (u_scheme u) \<and> (\<forall>c\<in>set (u_userinfo u). host_char (schar c)) \<and> u_host u \<noteq> [] \<and>
     (\<forall>c\<in>set (u_host u). host_char (schar c)) \<and> unat (u_port u) < 2 ^ 31 \<and> good_uri_path (u_path u) \<and>
     uri_text uri_query_char (u_query u) \<and> uri_text uri_query_char (u_fragment u)"

lemma port_number_dec: "unat p < 2 ^ 31 \<Longrightarrow> good_port (dec (unat p)) \<and> port_number (dec (unat p)) = p"
proof -
  assume "unat p < 2 ^ 31"
  then have "int (unat p) < int (2 ^ 31)" by (simp only: of_nat_less_iff)
  then show ?thesis using dec_digits [of "unat p"] by (simp add: good_port_def port_number_def atoi_dec)
qed

text \<open>C23. Printing and parsing: the text of a URI is accepted, and the result has the same parts, the same path and port as read by its
  users, and the same text. A default port is left out of the text, and an empty path becomes a slash.\<close>

theorem uri_roundtrip:
  assumes "good_uri u"
  shows "\<exists>u'. uri_Create (uri_toString u) = Ret (Some u') () \<and> u_scheme u' = u_scheme u \<and> u_userinfo u' = u_userinfo u \<and>
    u_host u' = u_host u \<and> uri_getPort u' = uri_getPort u \<and> uri_getPath u' = uri_getPath u \<and> u_query u' = u_query u \<and>
    u_fragment u' = u_fragment u \<and> uri_toString u' = uri_toString u"
proof -
  let ?ds = "if isDefaultPort u then [] else dec (unat (u_port u))"
  let ?u = "\<lparr>u_scheme = u_scheme u, u_userinfo = u_userinfo u, u_host = u_host u, u_port = port_number ?ds, u_path = uri_getPath u,
    u_query = u_query u, u_fragment = u_fragment u\<rparr>"
  note g = assms [unfolded good_uri_def]
  have pn: "good_port (dec (unat (u_port u)))" "port_number (dec (unat (u_port u))) = u_port u" using port_number_dec g by blast+
  have "good_port ?ds" using pn(1) by (simp add: good_port_def)
  moreover have "good_uri_path (uri_getPath u)" using g by (auto simp: good_uri_path_def uri_getPath_def)
  ultimately have "uri_Create (u_scheme u @ ''://'' @ userinfo_part (u_userinfo u) @ u_host u @ port_part ?ds @ uri_getPath u @
      marked CHR ''?'' (u_query u) @ marked CHR ''#'' (u_fragment u)) = Ret (Some ?u) ()"
    using g by (intro uri_parse) auto
  moreover have t: "u_scheme u @ ''://'' @ userinfo_part (u_userinfo u) @ u_host u @ port_part ?ds @ uri_getPath u @
      marked CHR ''?'' (u_query u) @ marked CHR ''#'' (u_fragment u) = uri_toString u"
    using dec_digits [of "unat (u_port u)"] by (simp add: uri_toString_def userinfo_part_def port_part_def marked_def)
  have p0: "port_number [] = 0" by (simp add: port_number_def)
  have pt: "port_number ?ds = (if isDefaultPort u then 0 else u_port u)" by (simp add: pn(2) p0)
  have "isDefaultPort ?u = isDefaultPort u" unfolding pt by (cases "isDefaultPort u") (auto simp: isDefaultPort_def split: if_splits)
  then have "uri_toString ?u = uri_toString u" by (simp add: pn(2) uri_toString_def uri_getPath_def)
  moreover have "uri_getPort ?u = uri_getPort u" unfolding pt by (cases "isDefaultPort u") (auto simp: uri_getPort_def isDefaultPort_def split: if_splits)
  ultimately show ?thesis unfolding t by (intro exI [of _ ?u]) (simp add: uri_getPath_def)
qed

definition demo_uri :: uri where
  "demo_uri = \<lparr>u_scheme = ''ws'', u_userinfo = [], u_host = ''a'', u_port = 80, u_path = [], u_query = ''q'', u_fragment = []\<rparr>"

theorem uri_roundtrip_witness:
  "\<exists>u'. uri_Create (uri_toString demo_uri) = Ret (Some u') () \<and> uri_getPort u' = 80"
  using uri_roundtrip [of demo_uri]
  by (auto simp: demo_uri_def good_uri_def good_scheme_def alpha_def scheme_char_def host_char_def good_uri_path_def uri_query_char_def
      query_char_def schar_def uri_getPort_def)

definition ur_safe :: "bool \<Rightarrow> uri_vars \<Rightarrow> bool" where
  "ur_safe b v \<longleftrightarrow> (case uv_stop v of None \<Rightarrow> b \<longrightarrow> uv_mark v \<noteq> None | Some e \<Rightarrow> e = Inl LogicError)"

lemma ur_act_stopped: "uv_stop v \<noteq> None \<Longrightarrow> ur_act t a p v = v"
  by (auto simp: ur_act_def)

lemma mark_run_safe: "mark_run as b = Some b' \<Longrightarrow> ur_safe b v \<Longrightarrow> ur_safe b' (fold (\<lambda>a. ur_act t a p) as v)"
proof (induction as arbitrary: b v)
  case (Cons a as)
  show ?case
  proof (cases "uv_stop v")
    case None
    obtain c where "mark_run as c = Some b'" "ur_safe c (ur_act t a p v)"
      using Cons.prems None by (cases a) (auto simp: ur_safe_def ur_acts split: if_splits option.splits)
    then show ?thesis using Cons.IH by simp
  next
    case (Some e)
    then have "ur_safe c v" for c using Cons.prems(2) by (simp add: ur_safe_def)
    moreover obtain c where "mark_run as c = Some b'" using Cons.prems(1) by (cases a) (auto split: if_splits)
    ultimately show ?thesis using Cons.IH Some by (simp add: ur_act_stopped)
  qed
qed simp

lemma ur_safe_weaken: "ur_safe b v \<Longrightarrow> (b' \<Longrightarrow> b) \<Longrightarrow> ur_safe b' v"
  by (auto simp: ur_safe_def split: option.splits)

interpretation ur: ragel_machine "ur_machine t" "\<lambda>n p v. ur_safe (ur_marked n) v" len "{}" for t len
proof unfold_locales
  fix n c as m p v
  assume e: "ma_case (ur_machine t) n c = Goto as m" "m \<noteq> 0" "ur_safe (ur_marked n) v"
  obtain b where "mark_run as (ur_marked n) = Some b" "ur_marked m \<Longrightarrow> b"
    using ur_edge_case [of n c] e(1) by (auto simp: ur_edge_def split: option.splits)
  then show "ur_safe (ur_marked m) (fold (\<lambda>a. ma_act (ur_machine t) a p) as v)"
    using mark_run_safe [of as "ur_marked n" b v t p] e(3) ur_safe_weaken by simp
next
  fix n c as p v
  assume e: "ma_case (ur_machine t) n c = Goto as 0" "ur_safe (ur_marked n) v"
  have "as = []" using ur_edge_case [of n c] e(1) by (simp add: ur_edge_def)
  then show "ur_safe (ur_marked 0) (fold (\<lambda>a. ma_act (ur_machine t) a p) as v)"
    using ur_safe_weaken [OF e(2), of "ur_marked 0"] by (simp add: ur_marked_def)
qed simp

lemma ur_eof_safe: "\<exists>b. mark_run (ur_eof n) (ur_marked n) = Some b"
  by (auto simp: ur_eof_def ur_marked_def)

text \<open>C24. No text makes \<open>Create\<close> use a null pointer: it is accepted, refused, or the construction of a string throws \<^verbatim>\<open>std::logic_error\<close>.\<close>

theorem uri_create_safe: "(\<exists>r. uri_Create t = Ret r ()) \<or> uri_Create t = Throw LogicError ()"
proof -
  obtain p cs v where l: "ragel_loop (ur_machine t) t 0 451 new_vars = (p, cs, v)" by (metis prod_cases3)
  have "ur_safe (ur_marked 451) new_vars" by (simp add: ur_safe_def ur_marked_def new_vars_def)
  from ur.loop_result [OF l _ this, of "length t"] have v: "ur_safe (ur_marked cs) v" by simp
  obtain b where "mark_run (ur_eof cs) (ur_marked cs) = Some b" using ur_eof_safe by blast
  from mark_run_safe [OF this v, of t p] v
  have "ur_safe False (if p = length t then fold (\<lambda>a. ur_act t a p) (ur_eof cs) v else v)"
    using ur_safe_weaken [of b _ False] ur_safe_weaken [of "ur_marked cs" _ False] by (cases "p = length t") simp_all
  then show ?thesis unfolding uri_Create_def l by (auto simp: ur_safe_def Let_def split: option.splits)
qed

definition throws :: "string \<Rightarrow> string \<Rightarrow> nat \<Rightarrow> nat \<Rightarrow> uri_vars \<Rightarrow> bool" where
  "throws t xs p n v \<longleftrightarrow> uv_stop (snd (ur_run t xs p n v)) = Some (Inl LogicError)"

lemma throws_pre: "passes (ur_machine t) xs p n v m v' \<Longrightarrow> throws t ys (p + length xs) m v' \<Longrightarrow> throws t (xs @ ys) p n v"
  by (simp add: throws_def ur_run_passes)

lemma throws_step:
  assumes "ur_case n (schar c) = Goto as m" and "m \<noteq> 0" and "throws t ys (Suc p) m (fold (\<lambda>a. ur_act t a p) as v)"
  shows "throws t (c # ys) p n v"
  using assms by (simp add: throws_def ur_run_def)

lemma acts_stopped: "uv_stop v \<noteq> None \<Longrightarrow> fold (\<lambda>a. ur_act t a p) as v = v"
  by (induction as) (auto simp: ur_act_stopped)

lemma loop_stopped: "uv_stop v \<noteq> None \<Longrightarrow> \<exists>p' cs. ragel_loop (ur_machine t) xs p n v = (p', cs, v)"
proof (induction xs arbitrary: p n)
  case (Cons c xs)
  obtain as m where "ur_case n (schar c) = Goto as m" by (cases "ur_case n (schar c)")
  then show ?case using Cons by (auto simp: Let_def acts_stopped)
qed simp

lemma stopped_throws: "uv_stop v = Some (Inl LogicError) \<Longrightarrow> throws t xs p n v"
  using loop_stopped [of v t xs p n] by (auto simp: throws_def ur_run_def acts_stopped)

lemma Create_throws: "throws t t 0 451 new_vars \<Longrightarrow> uri_Create t = Throw LogicError ()"
  by (auto simp: throws_def ur_run_def uri_Create_def Let_def split: prod.splits)

lemma tail_throws:
  assumes "fold (\<lambda>a. ur_act t a p) as v = w" and "uv_stop w = Some (Inl LogicError)" and "ur_eof n = as" and "ur_case n 35 = Goto as 453"
    and "ur_case n 63 = Goto as 456" and "p + length (marked CHR ''?'' q @ marked CHR ''#'' f) = length t"
  shows "throws t (marked CHR ''?'' q @ marked CHR ''#'' f) p n v"
proof -
  have st: "throws t ys (Suc p) m (fold (\<lambda>a. ur_act t a p) as v)" for ys m using stopped_throws assms(1,2) by simp
  consider "q \<noteq> []" | "q = []" "f \<noteq> []" | "q = []" "f = []" by blast
  then show ?thesis
  proof cases
    case 1
    then show ?thesis using throws_step [of n "CHR ''?''" as 456 t _ p v] assms(5) st by (simp add: marked_def)
  next
    case 2
    then show ?thesis using throws_step [of n "CHR ''#''" as 453 t _ p v] assms(4) st by (simp add: marked_def)
  next
    case 3
    then show ?thesis using assms by (simp add: marked_def throws_def ur_run_end)
  qed
qed

text \<open>An empty port makes \<open>Create\<close> throw: the action that saves the port clears the mark that the path needs.\<close>

theorem empty_port_throws:
  assumes "good_scheme s" and "name \<noteq> []" and "\<forall>c\<in>set name. host_char (schar c)" and "good_uri_path path"
  shows "uri_Create (s @ ''://'' @ name @ '':'' @ path @ marked CHR ''?'' q @ marked CHR ''#'' f) = Throw LogicError ()"
proof -
  let ?m = "marked CHR ''?'' q @ marked CHR ''#'' f" and ?v = "new_vars\<lparr>uv_uri := new_Uri\<lparr>u_scheme := s\<rparr>\<rparr>"
  define t where t: "t = s @ ''://'' @ name @ '':'' @ path @ ?m"
  let ?pre = "s @ ''://''"
  have sc: "passes (ur_machine t) ?pre 0 451 new_vars 511 ?v" by (rule scheme_passes [OF t assms(1)])
  have v: "uv_stop ?v = None" by (simp add: new_vars_def)
  obtain c hs where name: "name = c # hs" using assms(2) by (cases name) auto
  have "ur_to (ur_host_states False) [UrMarkh] (ur_case 511 (schar c))" using assms(3) name ur_host_first_511 [of "schar c"] by simp
  then obtain n where n: "ur_case 511 (schar c) = Goto [UrMarkh] n" "n \<in> ur_host_states False"
    by (cases "ur_case 511 (schar c)") (auto simp: ur_to_simps)
  let ?w = "?v\<lparr>uv_mark := Some (length ?pre)\<rparr>"
  from passes_region [OF ur_region [of t False], of n hs "Suc (length ?pre)" ?w] n(2) assms(3) name
  obtain m where m: "m \<in> ur_host_states False" "passes (ur_machine t) hs (Suc (length ?pre)) n ?w m ?w" by auto
  have n0: "n \<noteq> 0" using n(2) by (auto simp: ur_host_states_def)
  have h: "passes (ur_machine t) name (length ?pre) 511 ?v m ?w"
    unfolding name by (rule passes_Cons [OF _ n0, of _ 511 c "[UrMarkh]"]) (use n(1) m(2) v in \<open>simp_all add: ur_acts\<close>)
  define w where "w = fold (\<lambda>a. ur_act t a (length (?pre @ name))) [UrSaveHost] ?w"
  have w: "uv_stop w = None" using v by (simp add: w_def ur_acts)
  let ?p = "length (?pre @ name @ '':'')"
  have "throws t (path @ ?m) ?p 521 w"
  proof (cases path)
    case Nil
    then have "throws t ?m ?p 521 w"
      using w by (intro tail_throws [OF refl]) (simp_all add: ur_edges ur_eof_simps ur_acts t)
    then show ?thesis using Nil by simp
  next
    case (Cons d xs)
    then have d: "d = CHR ''/''" "uri_text uri_path_char xs" using assms(4) by (auto simp: good_uri_path_def)
    let ?x = "fold (\<lambda>a. ur_act t a ?p) [UrMarkh, UrSavePort] w"
    have x: "uv_stop ?x = None" "uv_mark ?x = None" using w by (simp_all add: ur_acts)
    have p: "passes (ur_machine t) xs (Suc ?p) 513 ?x 513 ?x"
      by (rule passes_uri_text [OF d(2), of _ _ 243 244]) (simp_all add: ur_edges)
    have "throws t ?m (Suc ?p + length xs) 513 ?x"
      using x by (intro tail_throws [OF refl]) (simp_all add: ur_edges ur_eof_simps ur_acts t Cons)
    from throws_pre [OF p this] have "throws t (xs @ ?m) (Suc ?p) 513 ?x" .
    then have "throws t (d # xs @ ?m) ?p 521 w"
      by (rule throws_step [rotated 2, of _ _ _ _ "[UrMarkh, UrSavePort]"]) (simp_all add: d(1) ur_edges)
    then show ?thesis using Cons by simp
  qed
  then have "throws t ('':'' @ path @ ?m) (length (?pre @ name)) m ?w"
    using throws_step [of m "CHR '':''" "[UrSaveHost]" 521 t "path @ ?m" "length (?pre @ name)" ?w] ur_host_colon [OF m(1)] by (simp add: w_def)
  then have "throws t (name @ '':'' @ path @ ?m) (length ?pre) 511 ?v" using throws_pre [OF h] by simp
  then have "throws t (?pre @ name @ '':'' @ path @ ?m) 0 451 new_vars" using throws_pre [OF sc] by simp
  then have "throws t t 0 451 new_vars" by (simp add: t)
  from Create_throws [OF this] show ?thesis by (simp add: t)
qed

theorem empty_port_throws_witness: "uri_Create ''http://a:/x'' = Throw LogicError ()"
  using empty_port_throws [of "''http''" "''a''" "''/x''" "[]" "[]"]
  by (simp add: good_scheme_def alpha_def scheme_char_def host_char_def good_uri_path_def uri_path_char_def path_char_def schar_def marked_def)

text \<open>User information that ends in a colon and digits loses everything in front of them: the digits were taken for a port first.\<close>

theorem userinfo_cut:
  "\<exists>u. uri_Create ''http://u:12@h/'' = Ret (Some u) () \<and> u_userinfo u = ''12'' \<and> u_host u = ''h''"
  by (simp add: uri_Create_def ur_case_simps ur_case_451_def ur_case_508_def ur_case_509_def ur_case_510_def ur_case_511_def ur_case_520_def
      ur_case_521_def ur_case_542_def ur_case_522_def ur_case_523_def ur_case_513_def ur_tr_defs ur_acts new_vars_def new_Uri_def schar_def ur_eof_simps)

end
