(* ===== verification/HttpConnection.thy ===== *)
theory HttpConnection
  imports Uri
begin

text \<open>
  \<^verbatim>\<open>src/cxk/http/http_connection.cpp\<close>: the HTTP client: receiving a response with a body of known length or in chunks, requests, and
  the pool of connections. Streams are as in \<open>HttpSession\<close>. \<open>unzip\<close> is what \<^verbatim>\<open>ZlibStream\<close> makes of a compressed body (true:
  gzip). Sockets are parameters: creation and connection, and whether a connection is still up.
\<close>

section \<open>Receiving a response\<close>

text \<open>The buffer has one byte more than \<open>buff_size\<close>, for the zero behind the text.\<close>

primrec recv_response_loop ::
  "nat \<Rightarrow> ('s \<Rightarrow> nat \<Rightarrow> int \<times> u8 list \<times> 's) \<Rightarrow> nat \<Rightarrow> string \<Rightarrow> nat \<Rightarrow> response_parser \<Rightarrow> 's \<Rightarrow>
   ('s, (string \<times> nat \<times> response_parser) option) outcome option" where
  "recv_response_loop 0 rd buff_size data offset parser s = None"
| "recv_response_loop (Suc fuel) rd buff_size data offset parser s =
     (case rd s (buff_size - offset) of (len, bs, s) \<Rightarrow>
        if len \<le> 0 then Some (Ret None s)
        else let len = offset + nat len; data = (overwrite offset (of_bytes bs) data)[len := CHR 0x00] in
          (case execute_response (drop offset data) len True parser of
            Undef u \<Rightarrow> Some (Undef u)
          | Throw e parser \<Rightarrow> Some (Throw e s)
          | Ret (nparse, moved) parser \<Rightarrow>
              if rsp_hasError parser then Some (Ret None s)
              else let data = take offset data @ moved; offset = len - nparse in
                if int offset = to_int32 (int buff_size) then Some (Ret None s)
                else if rsp_isFinished parser then Some (Ret (Some (data, offset, parser)) s)
                else recv_response_loop fuel rd buff_size data offset parser s))"

text \<open>The header of a chunk: the loop around \<^verbatim>\<open>execute(data, len, true)\<close>. \<open>begin\<close> is named \<open>first\<close>.\<close>

primrec recv_chunk_header ::
  "nat \<Rightarrow> ('s \<Rightarrow> nat \<Rightarrow> int \<times> u8 list \<times> 's) \<Rightarrow> ('s \<Rightarrow> 's) \<Rightarrow> nat \<Rightarrow> bool \<Rightarrow> string \<Rightarrow> nat \<Rightarrow> response_parser \<Rightarrow> 's \<Rightarrow>
   ('s, (string \<times> nat \<times> response_parser) option) outcome option" where
  "recv_chunk_header 0 rd close buff_size first data len parser s = None"
| "recv_chunk_header (Suc fuel) rd close buff_size first data len parser s =
     (case (if \<not> first \<or> len = 0 then rd s (buff_size - len) else (1, [], s)) of (rt, bs, s) \<Rightarrow>
        if rt \<le> 0 then Some (Ret None (close s))
        else let data = overwrite len (of_bytes bs) data; len = (if \<not> first \<or> len = 0 then len + nat rt else len); data = data[len := CHR 0x00] in
          (case execute_response data len True parser of
            Undef u \<Rightarrow> Some (Undef u)
          | Throw e parser \<Rightarrow> Some (Throw e s)
          | Ret (nparse, data) parser \<Rightarrow>
              if rsp_hasError parser then Some (Ret None s)
              else let len = len - nparse in
                if int len = to_int32 (int buff_size) then Some (Ret None s)
                else if rsp_isFinished parser then Some (Ret (Some (data, len, parser)) s)
                else recv_chunk_header fuel rd close buff_size False data len parser s))"

declare recv_chunk_header.simps [simp del]

text \<open>The part of a chunk that is not in the buffer.\<close>

function read_left :: "('s \<Rightarrow> nat \<Rightarrow> int \<times> u8 list \<times> 's) \<Rightarrow> nat \<Rightarrow> int \<Rightarrow> string \<Rightarrow> string \<Rightarrow> 's \<Rightarrow> (string \<times> string) option \<times> 's" where
  "read_left rd buff_size left data body s =
     (if left > 0 then
        (case rd s (if left > int buff_size then buff_size else nat left) of (rt, bs, s) \<Rightarrow>
           if rt \<le> 0 then (None, s)
           else let data = overwrite 0 (of_bytes bs) data in read_left rd buff_size (left - rt) data (body @ take (nat rt) data) s)
      else (Some (data, body), s))"
  by pat_completeness auto
termination
  by (relation "measure (\<lambda>(rd, buff_size, left, data, body, s). nat left)") auto

declare read_left.simps [simp del]

text \<open>
  The body of a chunk. \<^verbatim>\<open>append\<close> of a negative length and \<^verbatim>\<open>resize\<close> below zero throw. The \<^verbatim>\<open>memmove\<close> takes
  \<^verbatim>\<open>len - content_len + 2\<close> bytes, four more than there are.
\<close>

definition recv_chunk_data ::
  "('s \<Rightarrow> nat \<Rightarrow> int \<times> u8 list \<times> 's) \<Rightarrow> nat \<Rightarrow> int \<Rightarrow> string \<Rightarrow> string \<Rightarrow> nat \<Rightarrow> 's \<Rightarrow> ('s, (string \<times> string \<times> nat) option) outcome" where
  "recv_chunk_data rd buff_size content_len body data len s =
     (if content_len + 2 \<ge> 2 ^ 31 then Undef Overflow
      else if content_len + 2 \<le> int len then
        if content_len < 0 then Throw LengthError s
        else if length data < len + 4 then Undef OutOfBounds
        else let n = nat content_len in
          Ret (Some (body @ take n data, overwrite 0 (take (len - n + 2) (drop (n + 2) data)) data, len - (n + 2))) s
      else case read_left rd buff_size (content_len - int len + 2) data (body @ take len data) s of
        (None, s) \<Rightarrow> Ret None s
      | (Some (data, body), s) \<Rightarrow> if length body < 2 then Throw LengthError s else Ret (Some (take (length body - 2) body, data, 0)) s)"

primrec recv_chunks ::
  "nat \<Rightarrow> ('s \<Rightarrow> nat \<Rightarrow> int \<times> u8 list \<times> 's) \<Rightarrow> ('s \<Rightarrow> 's) \<Rightarrow> nat \<Rightarrow> string \<Rightarrow> string \<Rightarrow> nat \<Rightarrow> response_parser \<Rightarrow> 's \<Rightarrow>
   ('s, (string \<times> response_parser) option) outcome option" where
  "recv_chunks 0 rd close buff_size body data len parser s = None"
| "recv_chunks (Suc fuel) rd close buff_size body data len parser s =
     (case recv_chunk_header (Suc fuel) rd close buff_size True data len parser s of
        None \<Rightarrow> None
      | Some (Undef u) \<Rightarrow> Some (Undef u)
      | Some (Throw e s) \<Rightarrow> Some (Throw e s)
      | Some (Ret None s) \<Rightarrow> Some (Ret None s)
      | Some (Ret (Some (data, len, parser)) s) \<Rightarrow>
          (case recv_chunk_data rd buff_size (hc_content_len (rs_parser parser)) body data len s of
             Undef u \<Rightarrow> Some (Undef u)
           | Throw e s \<Rightarrow> Some (Throw e s)
           | Ret None s \<Rightarrow> Some (Ret None s)
           | Ret (Some (body, data, len)) s \<Rightarrow>
               if hc_chunks_done (rs_parser parser) then Some (Ret (Some (body, parser)) s)
               else recv_chunks fuel rd close buff_size body data len parser s))"

definition set_response_body :: "(bool \<Rightarrow> string \<Rightarrow> string) \<Rightarrow> string \<Rightarrow> http_response \<Rightarrow> http_response" where
  "set_response_body unzip body rsp =
     (if body = [] then rsp
      else let enc = rsp_getHeader ''content-encoding'' [] rsp;
               body = (if fold_case enc = fold_case ''gzip'' then unzip True body
                       else if fold_case enc = fold_case ''deflate'' then unzip False body else body)
           in rsp\<lparr>p_body := body\<rparr>)"

definition recvResponse ::
  "nat \<Rightarrow> (string \<Rightarrow> u64 option) \<Rightarrow> (bool \<Rightarrow> string \<Rightarrow> string) \<Rightarrow> ('s \<Rightarrow> nat \<Rightarrow> int \<times> u8 list \<times> 's) \<Rightarrow> ('s \<Rightarrow> 's) \<Rightarrow> nat \<Rightarrow> string \<Rightarrow>
   httpclient_parser \<Rightarrow> int \<Rightarrow> 's \<Rightarrow> ('s, http_response option) outcome option" where
  "recvResponse fuel lexical_cast unzip rd close buff_size buffer mem junk s =
     (case recv_response_loop fuel rd buff_size buffer 0 (new_HttpResponseParser mem junk) s of
        None \<Rightarrow> None
      | Some (Undef u) \<Rightarrow> Some (Undef u)
      | Some (Throw e s) \<Rightarrow> Some (Throw e s)
      | Some (Ret None s) \<Rightarrow> Some (Ret None s)
      | Some (Ret (Some (data, offset, parser)) s) \<Rightarrow>
          if hc_chunked (rs_parser parser) then
            map_option (\<lambda>r. obind r (\<lambda>res s. case res of
               None \<Rightarrow> Ret None s
             | Some (body, parser) \<Rightarrow> Ret (Some (set_response_body unzip body (rs_data parser))) s))
              (recv_chunks fuel rd close buff_size [] data offset parser s)
          else
            let content_len = rsp_getContentLength lexical_cast parser in
            Some (obind (if content_len > 0 then receive_body rd content_len data offset s else Ret (Some []) s) (\<lambda>body s.
              case body of
                None \<Rightarrow> Ret None s
              | Some body \<Rightarrow> Ret (Some (set_response_body unzip body (rs_data parser))) s)))"

text \<open>The result of the write is not looked at.\<close>

definition sendRequest :: "nat \<Rightarrow> ('s \<Rightarrow> u8 list \<Rightarrow> int \<times> 's) \<Rightarrow> http_request \<Rightarrow> 's \<Rightarrow> ('s, int) outcome option" where
  "sendRequest fuel wr req s =
     map_option (\<lambda>r. obind r (\<lambda>_. Ret (to_int32 (int (length (dump_request req))))))
       (writeFixSize fuel wr (to_bytes (dump_request req)) s)"

section \<open>Requests\<close>

datatype result_error =
    OK | INVALID_URL | INVALID_HOST | CONNECT_FALT | SEND_CLOSE_BY_PEER | SEND_SOCKET_ERROR | TIMEOUT | CREATE_SOCKET_ERROR
  | POOL_GET_CONNECTION | POOL_INVALID_CONNECTION

primrec error_code :: "result_error \<Rightarrow> int" where
  "error_code OK = 0"
| "error_code INVALID_URL = 1"
| "error_code INVALID_HOST = 2"
| "error_code CONNECT_FALT = 3"
| "error_code SEND_CLOSE_BY_PEER = 4"
| "error_code SEND_SOCKET_ERROR = 5"
| "error_code TIMEOUT = 6"
| "error_code CREATE_SOCKET_ERROR = 7"
| "error_code POOL_GET_CONNECTION = 8"
| "error_code POOL_INVALID_CONNECTION = 9"

record http_result =
  hr_result :: int
  hr_response :: "http_response option"
  hr_error :: string

definition HttpResult :: "result_error \<Rightarrow> http_response option \<Rightarrow> string \<Rightarrow> http_result" where
  "HttpResult e rsp msg = \<lparr>hr_result = error_code e, hr_response = rsp, hr_error = msg\<rparr>"

text \<open>The loop over the caller's headers; the flag is \<^verbatim>\<open>has_host\<close>.\<close>

fun add_request_headers :: "(string \<times> string) list \<Rightarrow> http_request \<times> bool \<Rightarrow> http_request \<times> bool" where
  "add_request_headers [] st = st"
| "add_request_headers ((k, v) # hs) (req, has_host) =
     (if fold_case k = fold_case ''connection'' then
        add_request_headers hs (if fold_case v = fold_case ''keep-alive'' then req\<lparr>q_close := False\<rparr> else req, has_host)
      else
        let has_host = (if \<not> has_host \<and> fold_case k = fold_case ''host'' then v \<noteq> [] else has_host)
        in add_request_headers hs (req_setHeader k v req, has_host))"

definition complete_request :: "(string \<times> string) list \<Rightarrow> string \<Rightarrow> string \<Rightarrow> http_request \<Rightarrow> http_request" where
  "complete_request headers name body req =
     (case add_request_headers headers (req, False) of (req, has_host) \<Rightarrow>
        (if \<not> has_host then req_setHeader ''Host'' name req else req)\<lparr>q_body := body\<rparr>)"

definition url_request :: "int \<Rightarrow> nat \<Rightarrow> uri \<Rightarrow> (string \<times> string) list \<Rightarrow> string \<Rightarrow> http_request" where
  "url_request junk meth url headers body =
     complete_request headers (u_host url) body
       ((new_HttpRequest junk 0x11 True)\<lparr>q_path := uri_getPath url, q_query := u_query url, q_fragment := u_fragment url, q_method := meth\<rparr>)"

text \<open>\<^verbatim>\<open>sendRequest\<close>, the results of it that are errors, and \<^verbatim>\<open>recvResponse\<close>, as both \<^verbatim>\<open>DoRequest\<close> functions do them.\<close>

definition exchange ::
  "(http_request \<Rightarrow> 's \<Rightarrow> ('s, int) outcome option) \<Rightarrow> ('s \<Rightarrow> ('s, http_response option) outcome option) \<Rightarrow> string \<Rightarrow> nat \<Rightarrow> http_request \<Rightarrow>
   's \<Rightarrow> ('s, http_result) outcome option" where
  "exchange send recv errno timeout_ms req s =
     (case send req s of
        None \<Rightarrow> None
      | Some (Undef u) \<Rightarrow> Some (Undef u)
      | Some (Throw e s) \<Rightarrow> Some (Throw e s)
      | Some (Ret ret s) \<Rightarrow>
          if ret = 0 then Some (Ret (HttpResult SEND_CLOSE_BY_PEER None ''send request closed by peer'') s)
          else if ret < 0 then Some (Ret (HttpResult SEND_SOCKET_ERROR None (''send request socket error errno='' @ errno)) s)
          else map_option (\<lambda>r. obind r (\<lambda>rsp. Ret (case rsp of
              None \<Rightarrow> HttpResult TIMEOUT None (''recv response timemout: '' @ dec timeout_ms)
            | Some rsp \<Rightarrow> HttpResult OK (Some rsp) ''ok'')))
            (recv s))"

text \<open>
  A request on a connection of its own. \<open>create\<close> makes the socket, \<open>connect\<close> connects it (the SSL socket is not used), \<open>timeout\<close>
  sets its receive timeout; \<open>addr_text\<close> is the text of the address in the messages. \<open>None\<close> for the state: no socket was made.
\<close>

definition DoRequest_req ::
  "(string \<Rightarrow> string option \<Rightarrow> raw_addr list option) \<Rightarrow> (address \<Rightarrow> 's option) \<Rightarrow> (address \<Rightarrow> 's \<Rightarrow> bool \<times> 's) \<Rightarrow> (nat \<Rightarrow> 's \<Rightarrow> 's) \<Rightarrow>
   (address \<Rightarrow> string) \<Rightarrow> (http_request \<Rightarrow> 's \<Rightarrow> ('s, int) outcome option) \<Rightarrow> ('s \<Rightarrow> ('s, http_response option) outcome option) \<Rightarrow> string \<Rightarrow>
   http_request \<Rightarrow> uri \<Rightarrow> nat \<Rightarrow> ('s option, http_result) outcome option" where
  "DoRequest_req getaddrinfo create connect timeout addr_text send recv errno req url timeout_ms =
     (case uri_createAddress getaddrinfo url of
        None \<Rightarrow> Some (Ret (HttpResult INVALID_HOST None (''invallid host : '' @ u_host url)) None)
      | Some addr \<Rightarrow> (case create addr of
          None \<Rightarrow> Some (Ret (HttpResult CREATE_SOCKET_ERROR None (''connect failed: '' @ addr_text addr)) None)
        | Some sock \<Rightarrow> (case connect addr sock of
            (False, sock) \<Rightarrow> Some (Ret (HttpResult CONNECT_FALT None (''connect failed: '' @ addr_text addr)) (Some sock))
          | (True, sock) \<Rightarrow> map_option (\<lambda>r. case r of
                Ret res s \<Rightarrow> Ret res (Some s)
              | Throw e s \<Rightarrow> Throw e (Some s)
              | Undef u \<Rightarrow> Undef u)
              (exchange send recv errno timeout_ms req (timeout timeout_ms sock)))))"

definition DoRequest_uri ::
  "(string \<Rightarrow> string option \<Rightarrow> raw_addr list option) \<Rightarrow> (address \<Rightarrow> 's option) \<Rightarrow> (address \<Rightarrow> 's \<Rightarrow> bool \<times> 's) \<Rightarrow> (nat \<Rightarrow> 's \<Rightarrow> 's) \<Rightarrow>
   (address \<Rightarrow> string) \<Rightarrow> (http_request \<Rightarrow> 's \<Rightarrow> ('s, int) outcome option) \<Rightarrow> ('s \<Rightarrow> ('s, http_response option) outcome option) \<Rightarrow> string \<Rightarrow>
   int \<Rightarrow> nat \<Rightarrow> uri \<Rightarrow> nat \<Rightarrow> (string \<times> string) list \<Rightarrow> string \<Rightarrow> ('s option, http_result) outcome option" where
  "DoRequest_uri getaddrinfo create connect timeout addr_text send recv errno junk meth url timeout_ms headers body =
     DoRequest_req getaddrinfo create connect timeout addr_text send recv errno (url_request junk meth url headers body) url timeout_ms"

definition DoRequest ::
  "(string \<Rightarrow> string option \<Rightarrow> raw_addr list option) \<Rightarrow> (address \<Rightarrow> 's option) \<Rightarrow> (address \<Rightarrow> 's \<Rightarrow> bool \<times> 's) \<Rightarrow> (nat \<Rightarrow> 's \<Rightarrow> 's) \<Rightarrow>
   (address \<Rightarrow> string) \<Rightarrow> (http_request \<Rightarrow> 's \<Rightarrow> ('s, int) outcome option) \<Rightarrow> ('s \<Rightarrow> ('s, http_response option) outcome option) \<Rightarrow> string \<Rightarrow>
   int \<Rightarrow> nat \<Rightarrow> string \<Rightarrow> nat \<Rightarrow> (string \<times> string) list \<Rightarrow> string \<Rightarrow> ('s option, http_result) outcome option" where
  "DoRequest getaddrinfo create connect timeout addr_text send recv errno junk meth url timeout_ms headers body =
     (case uri_Create url of
        Undef u \<Rightarrow> Some (Undef u)
      | Throw e _ \<Rightarrow> Some (Throw e None)
      | Ret None _ \<Rightarrow> Some (Ret (HttpResult INVALID_URL None (''invallid url : '' @ url)) None)
      | Ret (Some u) _ \<Rightarrow> DoRequest_uri getaddrinfo create connect timeout addr_text send recv errno junk meth u timeout_ms headers body)"

definition DoGet ::
  "(string \<Rightarrow> string option \<Rightarrow> raw_addr list option) \<Rightarrow> (address \<Rightarrow> 's option) \<Rightarrow> (address \<Rightarrow> 's \<Rightarrow> bool \<times> 's) \<Rightarrow> (nat \<Rightarrow> 's \<Rightarrow> 's) \<Rightarrow>
   (address \<Rightarrow> string) \<Rightarrow> (http_request \<Rightarrow> 's \<Rightarrow> ('s, int) outcome option) \<Rightarrow> ('s \<Rightarrow> ('s, http_response option) outcome option) \<Rightarrow> string \<Rightarrow>
   int \<Rightarrow> string \<Rightarrow> nat \<Rightarrow> (string \<times> string) list \<Rightarrow> string \<Rightarrow> ('s option, http_result) outcome option" where
  "DoGet getaddrinfo create connect timeout addr_text send recv errno junk = DoRequest getaddrinfo create connect timeout addr_text send recv errno junk 1"

definition DoPost ::
  "(string \<Rightarrow> string option \<Rightarrow> raw_addr list option) \<Rightarrow> (address \<Rightarrow> 's option) \<Rightarrow> (address \<Rightarrow> 's \<Rightarrow> bool \<times> 's) \<Rightarrow> (nat \<Rightarrow> 's \<Rightarrow> 's) \<Rightarrow>
   (address \<Rightarrow> string) \<Rightarrow> (http_request \<Rightarrow> 's \<Rightarrow> ('s, int) outcome option) \<Rightarrow> ('s \<Rightarrow> ('s, http_response option) outcome option) \<Rightarrow> string \<Rightarrow>
   int \<Rightarrow> string \<Rightarrow> nat \<Rightarrow> (string \<times> string) list \<Rightarrow> string \<Rightarrow> ('s option, http_result) outcome option" where
  "DoPost getaddrinfo create connect timeout addr_text send recv errno junk = DoRequest getaddrinfo create connect timeout addr_text send recv errno junk 3"

section \<open>The connection pool\<close>

record 's http_conn =
  cn_stream :: 's
  cn_createTime :: u64
  cn_request :: u64

record 's conn_pool =
  cp_host :: string
  cp_vhost :: string
  cp_port :: u32
  cp_maxSize :: u32
  cp_maxAliveTime :: u32
  cp_maxRequest :: u32
  cp_isHttps :: bool
  cp_conns :: "'s http_conn list"
  cp_total :: u32

definition new_HttpConnectionPool :: "string \<Rightarrow> string \<Rightarrow> u32 \<Rightarrow> bool \<Rightarrow> u32 \<Rightarrow> u32 \<Rightarrow> u32 \<Rightarrow> 's conn_pool" where
  "new_HttpConnectionPool name vhost port is_https maxSize max_alive_time max_request =
     \<lparr>cp_host = name, cp_vhost = vhost, cp_port = (if port \<noteq> 0 then port else if is_https then 443 else 80), cp_maxSize = maxSize,
      cp_maxAliveTime = max_alive_time, cp_maxRequest = max_request, cp_isHttps = is_https, cp_conns = [], cp_total = 0\<rparr>"

text \<open>A URI that is refused is reported and then used all the same.\<close>

definition HttpConnectionPool_Create :: "string \<Rightarrow> string \<Rightarrow> u32 \<Rightarrow> u32 \<Rightarrow> u32 \<Rightarrow> (unit, 's conn_pool) outcome" where
  "HttpConnectionPool_Create uri vhost max_size max_alive_time max_request =
     obind (uri_Create uri) (\<lambda>turi _. case turi of
        None \<Rightarrow> Undef NullDeref
      | Some u \<Rightarrow> Ret (new_HttpConnectionPool (u_host u) vhost (word_of_int (uri_getPort u)) (u_scheme u = ''https'') max_size max_alive_time max_request) ())"

text \<open>The loop over the idle connections: the first usable one, those behind it, and the number of unusable ones.\<close>

fun pick_conn :: "('s \<Rightarrow> bool) \<Rightarrow> u32 \<Rightarrow> u64 \<Rightarrow> 's http_conn list \<Rightarrow> nat \<Rightarrow> 's http_conn option \<times> 's http_conn list \<times> nat" where
  "pick_conn isConnected maxAlive now_ms [] invalid = (None, [], invalid)"
| "pick_conn isConnected maxAlive now_ms (conn # conns) invalid =
     (if \<not> isConnected (cn_stream conn) then pick_conn isConnected maxAlive now_ms conns (Suc invalid)
      else if cn_createTime conn + ucast maxAlive > now_ms then pick_conn isConnected maxAlive now_ms conns (Suc invalid)
      else (Some conn, conns, invalid))"

text \<open>\<open>open_conn\<close>: look up the host, make a socket and connect it to the port.\<close>

definition getConnection ::
  "('s \<Rightarrow> bool) \<Rightarrow> (string \<Rightarrow> u32 \<Rightarrow> bool \<Rightarrow> 's option) \<Rightarrow> u64 \<Rightarrow> 's conn_pool \<Rightarrow> 's http_conn option \<times> 's conn_pool" where
  "getConnection isConnected open_conn now_ms pool =
     (case pick_conn isConnected (cp_maxAliveTime pool) now_ms (cp_conns pool) 0 of (ptr, conns, invalid) \<Rightarrow>
        let pool = pool\<lparr>cp_conns := conns, cp_total := cp_total pool - of_nat invalid\<rparr> in
        (case ptr of
           Some conn \<Rightarrow> (Some conn, pool)
         | None \<Rightarrow> (case open_conn (cp_host pool) (cp_port pool) (cp_isHttps pool) of
             None \<Rightarrow> (None, pool)
           | Some s \<Rightarrow> (Some \<lparr>cn_stream = s, cn_createTime = 0, cn_request = 0\<rparr>, pool\<lparr>cp_total := cp_total pool + 1\<rparr>))))"

definition ReleasePtr :: "('s \<Rightarrow> bool) \<Rightarrow> u64 \<Rightarrow> 's http_conn \<Rightarrow> 's conn_pool \<Rightarrow> 's conn_pool" where
  "ReleasePtr isConnected now_ms conn pool =
     (let conn = conn\<lparr>cn_request := cn_request conn + 1\<rparr> in
      if \<not> isConnected (cn_stream conn) \<or> cn_createTime conn + ucast (cp_maxAliveTime pool) \<ge> now_ms \<or> cn_request conn \<ge> ucast (cp_maxRequest pool)
      then pool\<lparr>cp_total := cp_total pool - 1\<rparr>
      else pool\<lparr>cp_conns := cp_conns pool @ [conn]\<rparr>)"

definition pool_request :: "int \<Rightarrow> nat \<Rightarrow> string \<Rightarrow> (string \<times> string) list \<Rightarrow> string \<Rightarrow> 's conn_pool \<Rightarrow> http_request" where
  "pool_request junk meth url headers body pool =
     complete_request headers (if cp_vhost pool = [] then cp_host pool else cp_vhost pool) body
       ((new_HttpRequest junk 0x11 True)\<lparr>q_path := url, q_method := meth, q_close := False\<rparr>)"

definition uri_target :: "uri \<Rightarrow> string" where
  "uri_target url =
     uri_getPath url @ (if u_query url = [] then [] else ''?'') @ u_query url @ (if u_fragment url = [] then [] else ''#'') @ u_fragment url"

text \<open>A request over the pool: the connection is given back by the deleter of the pointer, on every path; an exception or a loop that does
  not end is kept. \<open>hasSocket\<close>: the connection has a socket.\<close>

definition pool_doRequest ::
  "('s \<Rightarrow> bool) \<Rightarrow> (string \<Rightarrow> u32 \<Rightarrow> bool \<Rightarrow> 's option) \<Rightarrow> ('s \<Rightarrow> bool) \<Rightarrow> (nat \<Rightarrow> 's \<Rightarrow> 's) \<Rightarrow> (http_request \<Rightarrow> 's \<Rightarrow> ('s, int) outcome option) \<Rightarrow>
   ('s \<Rightarrow> ('s, http_response option) outcome option) \<Rightarrow> string \<Rightarrow> u64 \<Rightarrow> u64 \<Rightarrow> http_request \<Rightarrow> nat \<Rightarrow> 's conn_pool \<Rightarrow>
   ('s conn_pool, http_result) outcome option" where
  "pool_doRequest isConnected open_conn hasSocket timeout send recv errno now_ms later_ms req timeout_ms pool =
     (case getConnection isConnected open_conn now_ms pool of
        (None, pool) \<Rightarrow> Some (Ret (HttpResult POOL_GET_CONNECTION None (''connect failed: '' @ cp_host pool)) pool)
      | (Some conn, pool) \<Rightarrow>
          if \<not> hasSocket (cn_stream conn) then
            Some (Ret (HttpResult POOL_INVALID_CONNECTION None (''connect failed: '' @ cp_host pool)) (ReleasePtr isConnected later_ms conn pool))
          else map_option (\<lambda>r. case r of
              Ret res s \<Rightarrow> Ret res (ReleasePtr isConnected later_ms (conn\<lparr>cn_stream := s\<rparr>) pool)
            | Throw e s \<Rightarrow> Throw e (ReleasePtr isConnected later_ms (conn\<lparr>cn_stream := s\<rparr>) pool)
            | Undef u \<Rightarrow> Undef u)
            (exchange send recv errno timeout_ms req (timeout timeout_ms (cn_stream conn))))"

definition pool_doRequest_url ::
  "('s \<Rightarrow> bool) \<Rightarrow> (string \<Rightarrow> u32 \<Rightarrow> bool \<Rightarrow> 's option) \<Rightarrow> ('s \<Rightarrow> bool) \<Rightarrow> (nat \<Rightarrow> 's \<Rightarrow> 's) \<Rightarrow> (http_request \<Rightarrow> 's \<Rightarrow> ('s, int) outcome option) \<Rightarrow>
   ('s \<Rightarrow> ('s, http_response option) outcome option) \<Rightarrow> string \<Rightarrow> u64 \<Rightarrow> u64 \<Rightarrow> int \<Rightarrow> nat \<Rightarrow> string \<Rightarrow> nat \<Rightarrow> (string \<times> string) list \<Rightarrow> string \<Rightarrow> 's conn_pool \<Rightarrow> ('s conn_pool, http_result) outcome option" where
  "pool_doRequest_url isConnected open_conn hasSocket timeout send recv errno now_ms later_ms junk meth url timeout_ms headers body pool =
     pool_doRequest isConnected open_conn hasSocket timeout send recv errno now_ms later_ms (pool_request junk meth url headers body pool) timeout_ms pool"

definition pool_doRequest_uri ::
  "('s \<Rightarrow> bool) \<Rightarrow> (string \<Rightarrow> u32 \<Rightarrow> bool \<Rightarrow> 's option) \<Rightarrow> ('s \<Rightarrow> bool) \<Rightarrow> (nat \<Rightarrow> 's \<Rightarrow> 's) \<Rightarrow> (http_request \<Rightarrow> 's \<Rightarrow> ('s, int) outcome option) \<Rightarrow>
   ('s \<Rightarrow> ('s, http_response option) outcome option) \<Rightarrow> string \<Rightarrow> u64 \<Rightarrow> u64 \<Rightarrow> int \<Rightarrow> nat \<Rightarrow> uri \<Rightarrow> nat \<Rightarrow> (string \<times> string) list \<Rightarrow> string \<Rightarrow> 's conn_pool \<Rightarrow> ('s conn_pool, http_result) outcome option" where
  "pool_doRequest_uri isConnected open_conn hasSocket timeout send recv errno now_ms later_ms junk meth url = pool_doRequest_url isConnected open_conn hasSocket timeout send recv errno now_ms later_ms junk meth (uri_target url)"

definition pool_doGet ::
  "('s \<Rightarrow> bool) \<Rightarrow> (string \<Rightarrow> u32 \<Rightarrow> bool \<Rightarrow> 's option) \<Rightarrow> ('s \<Rightarrow> bool) \<Rightarrow> (nat \<Rightarrow> 's \<Rightarrow> 's) \<Rightarrow> (http_request \<Rightarrow> 's \<Rightarrow> ('s, int) outcome option) \<Rightarrow>
   ('s \<Rightarrow> ('s, http_response option) outcome option) \<Rightarrow> string \<Rightarrow> u64 \<Rightarrow> u64 \<Rightarrow> int \<Rightarrow> string \<Rightarrow> nat \<Rightarrow> (string \<times> string) list \<Rightarrow> string \<Rightarrow> 's conn_pool \<Rightarrow> ('s conn_pool, http_result) outcome option" where
  "pool_doGet isConnected open_conn hasSocket timeout send recv errno now_ms later_ms junk = pool_doRequest_url isConnected open_conn hasSocket timeout send recv errno now_ms later_ms junk 1"

definition pool_doPost ::
  "('s \<Rightarrow> bool) \<Rightarrow> (string \<Rightarrow> u32 \<Rightarrow> bool \<Rightarrow> 's option) \<Rightarrow> ('s \<Rightarrow> bool) \<Rightarrow> (nat \<Rightarrow> 's \<Rightarrow> 's) \<Rightarrow> (http_request \<Rightarrow> 's \<Rightarrow> ('s, int) outcome option) \<Rightarrow>
   ('s \<Rightarrow> ('s, http_response option) outcome option) \<Rightarrow> string \<Rightarrow> u64 \<Rightarrow> u64 \<Rightarrow> int \<Rightarrow> string \<Rightarrow> nat \<Rightarrow> (string \<times> string) list \<Rightarrow> string \<Rightarrow> 's conn_pool \<Rightarrow> ('s conn_pool, http_result) outcome option" where
  "pool_doPost isConnected open_conn hasSocket timeout send recv errno now_ms later_ms junk = pool_doRequest_url isConnected open_conn hasSocket timeout send recv errno now_ms later_ms junk 3"

section \<open>Serialised responses\<close>

definition response_reason :: "http_response \<Rightarrow> string" where
  "response_reason p = (if p_reason p = [] then HttpStatusToString (p_status p) else p_reason p)"

definition response_fields :: "http_response \<Rightarrow> (string \<times> string) list" where
  "response_fields p = kept_headers False (p_headers p) @ connection_field False (p_close p) @ length_field (p_body p)"

definition response_head :: "http_response \<Rightarrow> string" where
  "response_head p = head_text CHR ''1'' (version_digit (p_version p)) (dec (nat (p_status p))) (response_reason p) (response_fields p)"

text \<open>Responses the grammar of the parser covers, without a length, a transfer encoding or a compression of their own.\<close>

definition answerable :: "http_response \<Rightarrow> bool" where
  "answerable p \<longleftrightarrow> 0 \<le> p_status p \<and> p_status p < 2 ^ 31 \<and> (p_version p = 0x10 \<or> p_version p = 0x11) \<and> \<not> p_websocket p \<and>
     sorted_keys (p_headers p) \<and> (\<forall>c\<in>set (response_reason p). value_char (schar c)) \<and> (\<forall>f\<in>set (p_headers p). good_field f \<and>
       \<not> same_key (fst f) ''content-length'' \<and> \<not> same_key (fst f) ''content-encoding'' \<and> map lowc (fst f) \<noteq> te_name)"

lemma dump_response_head:
  assumes "answerable p"
  shows "dump_response p = response_head p @ p_body p"
proof -
  have "p_status p mod 2 ^ 32 = p_status p" using assms by (intro mod_pos_pos_trivial) (simp_all add: answerable_def)
  then show ?thesis
    using dump_version_digit [of "p_version p"] assms
    by (simp add: answerable_def dump_response_def response_head_def head_text_def response_fields_def response_reason_def dump_fields CRLF_def)
qed

lemma status_names: "HttpStatusToString s \<noteq> []"
proof -
  have "\<forall>p \<in> set HTTP_STATUS_MAP. snd p \<noteq> []" by (simp add: HTTP_STATUS_MAP_def)
  then show ?thesis by (auto simp: HttpStatusToString_def find_Some_iff split: option.splits) (metis nth_mem snd_conv)
qed

lemma value_char_dec: "c \<in> set (dec n) \<Longrightarrow> value_char (schar c) \<and> non_space (schar c)"
  using dec_digits [of n] by (auto simp: digit_def value_char_def non_space_def)

lemma response_good_fields:
  assumes "answerable p"
  shows "\<forall>f\<in>set (response_fields p). good_field f \<and> map lowc (fst f) \<noteq> te_name"
proof -
  have c: "good_field (''connection'', if b then ''close'' else ''keep-alive'') \<and> map lowc ''connection'' \<noteq> te_name" for b
    by (simp add: good_field_def token_def non_space_def value_char_def te_name_def lowc_def schar_def)
  have l: "\<forall>c\<in>set ''content-length''. token (schar c)" "map lowc ''content-length'' \<noteq> te_name"
    by (simp_all add: token_def te_name_def lowc_def schar_def)
  have "good_field (''content-length'', dec n) \<and> map lowc ''content-length'' \<noteq> te_name" for n
    using dec_digits [of n] value_char_dec [of _ n] l by (simp add: good_field_def)
  then show ?thesis
    using assms c by (auto simp: response_fields_def answerable_def kept_headers_def connection_field_def length_field_def)
qed

lemma find_append: "find P (xs @ ys) = (case find P xs of Some x \<Rightarrow> Some x | None \<Rightarrow> find P ys)"
  by (induction xs) auto

lemma response_fields_find:
  assumes "answerable p"
  shows "find (\<lambda>(k', w). same_key k' ''Content-Length'') (rev (response_fields p)) =
      (if p_body p = [] then None else Some (''content-length'', dec (length (p_body p))))"
    and "find (\<lambda>(k', w). same_key k' ''content-encoding'') (rev (response_fields p)) = None"
    and "\<not> same_key k ''connection'' \<Longrightarrow> \<not> same_key k ''content-length'' \<Longrightarrow>
      map_option snd (find (\<lambda>(k', w). same_key k' k) (rev (response_fields p))) = map_find CaseInsensitiveLess k (p_headers p)"
proof -
  have c: "same_key ''content-length'' ''Content-Length''" "\<not> same_key ''connection'' ''Content-Length''"
    "\<not> same_key ''content-length'' ''content-encoding''" "\<not> same_key ''connection'' ''content-encoding''"
    by (simp_all add: same_key_def fold_case_def c_string_def tolower_def)
  have "find (\<lambda>(k', w). same_key k' ''Content-Length'') (rev (kept_headers False (p_headers p))) = None"
    "find (\<lambda>(k', w). same_key k' ''content-encoding'') (rev (kept_headers False (p_headers p))) = None"
    using assms c(1) by (auto simp: find_None_iff kept_headers_def same_key_def answerable_def)
  then show "find (\<lambda>(k', w). same_key k' ''Content-Length'') (rev (response_fields p)) =
      (if p_body p = [] then None else Some (''content-length'', dec (length (p_body p))))"
    "find (\<lambda>(k', w). same_key k' ''content-encoding'') (rev (response_fields p)) = None"
    using c by (simp_all add: response_fields_def connection_field_def length_field_def find_append)
  assume k: "\<not> same_key k ''connection''" "\<not> same_key k ''content-length''"
  then have "\<not> same_key ''connection'' k" "\<not> same_key ''content-length'' k" by (auto simp: same_key_def)
  then have "find (\<lambda>(k', w). same_key k' k) (rev (response_fields p)) = find (\<lambda>(k', w). same_key k' k) (rev (p_headers p))"
    using find_kept [OF k(1), of "p_headers p"]
    by (auto simp: response_fields_def connection_field_def length_field_def find_append split: option.splits)
  then show "map_option snd (find (\<lambda>(k', w). same_key k' k) (rev (response_fields p))) = map_find CaseInsensitiveLess k (p_headers p)"
    using find_sorted [of "p_headers p" k] assms by (simp add: answerable_def)
qed

lemma fold_rsp_setHeader_body: "p_body (fold (\<lambda>(k, v). rsp_setHeader k v) kvs r) = p_body r"
  by (induction kvs arbitrary: r) (auto simp: rsp_setHeader_def)

lemma parsed_response_simps:
  "p_status (parsed_response b code reason fs) = atoi_digits 0 code" "p_version (parsed_response b code reason fs) = version_of b"
  "p_reason (parsed_response b code reason fs) = reason" "p_body (parsed_response b code reason fs) = []"
  "map_find CaseInsensitiveLess k (p_headers (parsed_response b code reason fs)) = map_option snd (find (\<lambda>(k', w). same_key k' k) (rev fs))"
  unfolding parsed_response_def
  by (simp_all add: header_found response_ok_def fold_rsp_setHeader_keeps fold_rsp_setHeader_body new_HttpResponse_def)

text \<open>The head of a response and the first bytes of its body arrive.\<close>

lemma recv_response_head:
  assumes "h = head_text CHR ''1'' b code reason fs" and "b = CHR ''0'' \<or> b = CHR ''1''" and "code \<noteq> []" and "\<forall>d\<in>set code. digit (schar d)"
    and "reason \<noteq> []" and "\<forall>c\<in>set reason. value_char (schar c)" and "\<forall>f\<in>set fs. good_field f"
    and "rd s buff_size = (int (length (h @ x)), to_bytes (h @ x), s')"
    and "length (h @ x) \<le> buff_size" and "buff_size < length buffer" and "length buffer < 2 ^ 31"
  shows "\<exists>data m. recv_response_loop (Suc fuel) rd buff_size buffer 0 (new_HttpResponseParser mem 0) s =
      Some (Ret (Some (data, length x, \<lparr>rs_parser = m, rs_data = parsed_response b code reason fs, rs_error = 0\<rparr>)) s') \<and>
    take (length x) data = x \<and> length data = length buffer \<and> (hc_chunked m \<longrightarrow> (\<exists>f\<in>set fs. map lowc (fst f) = te_name)) \<and>
    (te_chunked \<in> set fs \<longrightarrow> hc_chunked m)"
proof -
  define data where "data = (overwrite 0 (h @ x) buffer)[length (h @ x) := CHR 0x00]"
  have len: "length data = length buffer" "take (length (h @ x)) data = h @ x" "data ! length (h @ x) = CHR 0x00"
    using assms(9,10) by (simp_all add: data_def overwrite_def)
  have b: "length (h @ x) < length data" "length data < 2 ^ 63" using assms(9-11) len(1) by simp_all
  obtain m where m: "httpclient_parser_is_finished m" "hc_chunked m \<longrightarrow> (\<exists>f\<in>set fs. map lowc (fst f) = te_name)"
    "te_chunked \<in> set fs \<longrightarrow> hc_chunked m"
    "execute_response data (length (h @ x)) True (new_HttpResponseParser mem 0) =
      Ret (length h, shift_out (length h) (length (h @ x)) data) \<lparr>rs_parser = m, rs_data = parsed_response b code reason fs, rs_error = 0\<rparr>"
    using response_parse_data [OF len(2) [unfolded assms(1)] b(1) [unfolded assms(1)] len(3) [unfolded assms(1)] b(2) assms(2-7)]
    unfolding assms(1) by blast
  have h: "h \<noteq> []" by (simp add: assms(1) head_text_def)
  have f: "rsp_isFinished \<lparr>rs_parser = m, rs_data = q, rs_error = 0\<rparr>" "\<not> rsp_hasError \<lparr>rs_parser = m, rs_data = q, rs_error = 0\<rparr>" for q
    using m(1) by (simp_all add: rsp_isFinished_def rsp_hasError_def httpclient_parser_has_error_def httpclient_parser_is_finished_def)
  have "int (length x) \<noteq> to_int32 (int buff_size)" "\<not> int (length h) + int (length x) \<le> 0"
    using h assms(9-11) to_int32_small [of buff_size] by (auto simp flip: length_greater_0_conv simp del: length_greater_0_conv)
  moreover have "take (length x) (shift_out (length h) (length (h @ x)) data) = x"
    "length (shift_out (length h) (length (h @ x)) data) = length buffer" using len b(1) by (simp_all add: shift_out_def)
  ultimately show ?thesis
    using m(2-4) f assms(8) data_def by (simp add: Let_def nat_int_add)
qed

section \<open>Properties\<close>

definition response_received :: "http_response \<Rightarrow> http_response \<Rightarrow> bool" where
  "response_received p p' \<longleftrightarrow> p_status p' = p_status p \<and> p_version p' = p_version p \<and> p_reason p' = response_reason p \<and> p_body p' = p_body p \<and>
     (\<forall>k x. \<not> same_key k ''connection'' \<longrightarrow> \<not> same_key k ''content-length'' \<longrightarrow> rsp_getHeader k x p' = rsp_getHeader k x p)"

definition received_response :: "http_response \<Rightarrow> http_response" where
  "received_response p =
     (parsed_response (version_digit (p_version p)) (dec (nat (p_status p))) (response_reason p) (response_fields p))\<lparr>p_body := p_body p\<rparr>"

lemma received_response: "answerable p \<Longrightarrow> response_received p (received_response p)"
  using response_fields_find(3) [of p]
  by (auto simp: response_received_def received_response_def parsed_response_simps rsp_getHeader_def answerable_def version_of_def
      version_digit_def atoi_dec)

lemma recv_response:
  assumes "answerable p" and "rd s buff_size = (int (length (response_head p @ b)), to_bytes (response_head p @ b), s1)"
    and "length (response_head p @ b) \<le> buff_size" and "buff_size < length buffer" and "length buffer < 2 ^ 31"
    and "p_body p = b @ b'" and "rest_read rd b' s1 s2" and "length (p_body p) < 2 ^ 31" and "reads_numbers lexical_cast"
  shows "recvResponse (Suc fuel) lexical_cast unzip rd close buff_size buffer mem 0 s = Some (Ret (Some (received_response p)) s2)"
proof -
  let ?q = "parsed_response (version_digit (p_version p)) (dec (nat (p_status p))) (response_reason p) (response_fields p)"
  have g: "\<forall>f\<in>set (response_fields p). good_field f" "\<not> (\<exists>f\<in>set (response_fields p). map lowc (fst f) = te_name)"
    using response_good_fields [OF assms(1)] by blast+
  have v: "version_digit (p_version p) = CHR ''0'' \<or> version_digit (p_version p) = CHR ''1''" by (simp add: version_digit_def)
  have r: "response_reason p \<noteq> []" "\<forall>c\<in>set (response_reason p). value_char (schar c)"
    using assms(1) status_names by (auto simp: response_reason_def answerable_def)
  have d: "dec (nat (p_status p)) \<noteq> []" "\<forall>d\<in>set (dec (nat (p_status p))). digit (schar d)" using dec_digits by blast+
  obtain data m where h: "recv_response_loop (Suc fuel) rd buff_size buffer 0 (new_HttpResponseParser mem 0) s =
      Some (Ret (Some (data, length b, \<lparr>rs_parser = m, rs_data = ?q, rs_error = 0\<rparr>)) s1)" "take (length b) data = b" "\<not> hc_chunked m"
    using recv_response_head [OF response_head_def [of p] v d r g(1), of rd s buff_size b s1 buffer] assms(2-5) g(2) by blast
  have cl: "rsp_getContentLength lexical_cast \<lparr>rs_parser = m, rs_data = ?q, rs_error = 0\<rparr> = of_nat (length (p_body p))"
    using response_fields_find(1) [OF assms(1)] assms(8,9) by (auto simp: rsp_getContentLength_def getAs_def parsed_response_simps reads_numbers_def)
  have pos: "(of_nat (length (p_body p)) :: u64) > 0 \<longleftrightarrow> p_body p \<noteq> []"
    using small_size [OF assms(8)] by (auto simp: word_less_nat_alt)
  have body: "(if p_body p \<noteq> [] then receive_body rd (of_nat (length (p_body p))) data (length b) s1 else Ret (Some []) s1) = Ret (Some (p_body p)) s2"
    using receive_body_ok [OF h(2) assms(7)] assms(6,7,8) by (auto simp: rest_read_def)
  have "rsp_getHeader ''content-encoding'' [] ?q = []"
    using response_fields_find(2) [OF assms(1)] by (simp add: rsp_getHeader_def parsed_response_simps)
  moreover have "p_body ?q = []" by (simp add: parsed_response_simps)
  ultimately have "set_response_body unzip (p_body p) ?q = received_response p"
    by (simp add: set_response_body_def received_response_def fold_case_def c_string_def Let_def)
  then show ?thesis
    unfolding recvResponse_def h(1) using h(3) by (simp add: Let_def cl pos body)
qed

lemma recv_response_exact:
  assumes "answerable p" and "good_reader rd remaining" and "remaining s = to_bytes (dump_response p)"
    and "rd s buff_size = (len, bs, s1)" and "int (length (response_head p)) \<le> len" and "0 < buff_size" and "buff_size < length buffer"
    and "length buffer < 2 ^ 31" and "length (p_body p) < 2 ^ 31" and "reads_numbers lexical_cast"
  shows "\<exists>p' s'. recvResponse (Suc fuel) lexical_cast unzip rd close buff_size buffer mem 0 s = Some (Ret (Some p') s') \<and>
    response_received p p' \<and> remaining s' = []"
proof -
  let ?h = "response_head p"
  have d: "dump_response p = ?h @ p_body p" by (rule dump_response_head) (rule assms(1))
  have ne: "remaining s \<noteq> []" using assms(3) dump_response_nonempty by simp
  have g: "0 < len" "len \<le> int buff_size" "nat len \<le> length (remaining s)" "bs = take (nat len) (remaining s)" "remaining s1 = drop (nat len) (remaining s)"
    using assms(2) [unfolded good_reader_def, rule_format, of buff_size s] assms(4,6) ne by auto
  define b b' where b: "b = take (nat len - length ?h) (p_body p)" "b' = drop (nat len - length ?h) (p_body p)"
  have lh: "length ?h \<le> nat len" using assms(5) by linarith
  have bs: "bs = to_bytes (?h @ b)" "remaining s1 = to_bytes b'" using g(4,5) assms(3) d lh b by simp_all
  have "length bs = nat len" using g(3,4) by simp
  then have len: "length (?h @ b) = nat len" using bs(1) by (metis to_bytes_simps(1))
  have qb: "p_body p = b @ b'" using b by simp
  obtain s' where s': "rest_read rd b' s1 s'" "remaining s' = []" using rest_read_good [OF assms(2), of s1 b' "[]"] bs(2) assms(9) qb by auto
  have "recvResponse (Suc fuel) lexical_cast unzip rd close buff_size buffer mem 0 s = Some (Ret (Some (received_response p)) s')"
    by (rule recv_response [OF assms(1) _ _ assms(7,8) qb s'(1) assms(9,10)]) (use assms(4) bs(1) len g(1,2) in auto)
  then show ?thesis using s'(2) received_response [OF assms(1)] by blast
qed

text \<open>Receiving a response: when the first \<^verbatim>\<open>read\<close> brings at least the head of a serialised response, \<open>recvResponse\<close> returns the
  response that was sent (status, version, reason, body and every header), however the rest of the body arrives, and has consumed exactly the
  message. The parser must be made in memory where its error field is zero.\<close>

theorem response_delivered:
  assumes "answerable p" and "good_reader rd remaining" and "remaining s = to_bytes (dump_response p)"
    and "rd s buff_size = (len, bs, s1)" and "int (length (response_head p)) \<le> len" and "0 < buff_size" and "buff_size < length buffer"
    and "length buffer < 2 ^ 31" and "length (p_body p) < 2 ^ 31" and "reads_numbers lexical_cast"
  shows "\<exists>p' s'. recvResponse (Suc fuel) lexical_cast unzip rd close buff_size buffer mem 0 s = Some (Ret (Some p') s') \<and>
    response_received p p' \<and> remaining s' = []"
  using assms by (rule recv_response_exact)

text \<open>Chunked bodies.\<close>

definition chunk_text :: "string \<Rightarrow> string" where
  "chunk_text c = HttpClientParser.hex (length c) @ crlf @ c @ crlf"

definition chunks_text :: "string list \<Rightarrow> string" where
  "chunks_text cs = concat (map chunk_text cs) @ chunk_text []"

lemma chunk_header_received:
  assumes "take len data = HttpClientParser.hex n @ crlf @ x" and "n < 2 ^ 31" and "len \<le> buff_size" and "buff_size < length data" and "length data < 2 ^ 31"
    and "rs_error p = 0"
  shows "\<exists>data' m. recv_chunk_header (Suc fuel) rd close buff_size True data len p s = Some (Ret (Some (data', length x, p\<lparr>rs_parser := m\<rparr>)) s) \<and>
    take (length x) data' = x \<and> length data' = length data \<and> hc_content_len m = int n \<and> hc_chunks_done m = (n = 0)"
proof -
  define d where "d = data[len := CHR 0x00]"
  have d: "take len d = HttpClientParser.hex n @ crlf @ x" "length d = length data" "d ! len = CHR 0x00" "len < length d"
    using assms(1,3,4) by (simp_all add: d_def)
  have len: "len = length (HttpClientParser.hex n) + 2 + length x" using arg_cong [OF d(1), of length] d(4) by simp
  let ?s = "(httpclient_parser_init (rs_parser p))\<lparr>hc_events := []\<rparr>"
  have i: "?s = httpclient_parser_init ((rs_parser p)\<lparr>hc_events := []\<rparr>)" by (simp add: httpclient_parser_init_def)
  obtain m where m: "httpclient_parser_execute d len 0 ?s = Ret (int (length (HttpClientParser.hex n) + 2)) m" "httpclient_parser_is_finished m"
    "hc_content_len m = int n" "hc_chunks_done m = (n = 0)"
    "hc_events m = [if n = 0 then LastChunk d (length (HttpClientParser.hex n)) else ChunkSize d (length (HttpClientParser.hex n)), RespHeaderDone (drop (length (HttpClientParser.hex n) + 2) d) (length x)]"
    using chunk_header [OF d(1) assms(2) d(4,3), of "(rs_parser p)\<lparr>hc_events := []\<rparr>"] unfolding i by auto
  let ?k = "length (HttpClientParser.hex n) + 2"
  have nk: "nat (2 + int k) = Suc (Suc k)" for k by simp
  have e: "execute_response d len True p = Ret (?k, shift_out ?k len d) (p\<lparr>rs_parser := m\<rparr>)"
    using m(1,5) nk by (simp add: execute_response_def Let_def response_callbacks)
  have f: "rsp_isFinished (p\<lparr>rs_parser := m\<rparr>)" "\<not> rsp_hasError (p\<lparr>rs_parser := m\<rparr>)"
    using m(2) assms(6) by (simp_all add: rsp_isFinished_def rsp_hasError_def httpclient_parser_has_error_def httpclient_parser_is_finished_def)
  have "int (length x) \<noteq> to_int32 (int buff_size)" using assms(3-5) len to_int32_small [of buff_size] by simp
  moreover have "take (length x) (shift_out ?k len d) = x" "length (shift_out ?k len d) = length data"
    using d len by (simp_all add: shift_out_def)
  moreover have "len - ?k = length x" "len \<noteq> 0" using len by simp_all
  ultimately show ?thesis using m(3,4) e f d_def
    by (intro exI [of _ "shift_out ?k len d"] exI [of _ m]) (simp add: recv_chunk_header.simps Let_def of_bytes_def)
qed

lemma chunks_received:
  assumes "buff_size < length data" and "length data < 2 ^ 31" and "rs_error p = 0" and "length (chunks_text cs) + 4 \<le> length data"
    and "length (chunks_text cs) \<le> buff_size" and "[] \<notin> set cs"
    and "take (length (chunks_text cs)) data = chunks_text cs" and "length cs < fuel"
  shows "\<exists>m. recv_chunks fuel rd close buff_size body data (length (chunks_text cs)) p s = Some (Ret (Some (body @ concat cs, p\<lparr>rs_parser := m\<rparr>)) s)"
  using assms
proof (induction cs arbitrary: fuel data p body)
  case Nil
  obtain fuel' where f: "fuel = Suc fuel'" using Nil.prems(8) by (cases fuel) auto
  have t: "chunks_text [] = HttpClientParser.hex 0 @ crlf @ crlf" by (simp add: chunks_text_def chunk_text_def)
  have "0 < (2 :: nat) ^ 31" by simp
  from chunk_header_received [OF Nil.prems(7) [unfolded t] this Nil.prems(5) [unfolded t] Nil.prems(1-3)]
  obtain data' m where h: "recv_chunk_header fuel rd close buff_size True data (length (chunks_text [])) p s =
      Some (Ret (Some (data', length crlf, p\<lparr>rs_parser := m\<rparr>)) s)" "length data' = length data" "hc_content_len m = 0" "hc_chunks_done m"
    unfolding t f by fastforce
  have "4 + length crlf \<le> length data'" using Nil.prems(4) h(2) by (simp add: t)
  then show ?case using h(1,3,4) f by (intro exI [of _ m]) (simp add: recv_chunk_data_def Let_def)
next
  case (Cons c cs)
  obtain fuel' where f: "fuel = Suc fuel'" "length cs < fuel'" using Cons.prems(8) by (cases fuel) auto
  let ?x = "c @ crlf @ chunks_text cs"
  have t: "chunks_text (c # cs) = HttpClientParser.hex (length c) @ crlf @ ?x" by (simp add: chunks_text_def chunk_text_def)
  have n: "length c < 2 ^ 31" "c \<noteq> []" "length c + 2 < 2 ^ 31" using Cons.prems(1,2,4,6) by (auto simp: t)
  from chunk_header_received [OF Cons.prems(7) [unfolded t] n(1) Cons.prems(5) [unfolded t] Cons.prems(1-3)]
  obtain data' m where h: "recv_chunk_header fuel rd close buff_size True data (length (chunks_text (c # cs))) p s =
      Some (Ret (Some (data', length ?x, p\<lparr>rs_parser := m\<rparr>)) s)" "take (length ?x) data' = ?x" "length data' = length data"
    "hc_content_len m = int (length c)" "\<not> hc_chunks_done m"
    using n(2) unfolding t f by fastforce
  define data2 where "data2 = overwrite 0 (take (length ?x - length c + 2) (drop (length c + 2) data')) data'"
  have l4: "length ?x + 4 \<le> length data'" using Cons.prems(4) h(3) by (simp add: t)
  have "take (length c) data' = take (length c) (take (length ?x) data')" by simp
  then have c: "take (length c) data' = c" unfolding h(2) by simp
  have "data' = ?x @ drop (length ?x) data'" using h(2) by (metis append_take_drop_id)
  then have dr: "drop (length c + 2) data' = chunks_text cs @ drop (length ?x) data'" by (metis append.assoc append_eq_conv_conj length_append add_2_eq_Suc' length_Cons list.size(3) numeral_2_eq_2)
  have d2: "length data2 = length data" "take (length (chunks_text cs)) data2 = chunks_text cs"
    using l4 h(3) unfolding data2_def dr by (simp_all add: overwrite_def)
  have cd: "recv_chunk_data rd buff_size (hc_content_len m) body data' (length ?x) s = Ret (Some (body @ c, data2, length (chunks_text cs))) s"
    using n(3) l4 c h(4) by (simp add: recv_chunk_data_def Let_def data2_def)
  have p: "rs_error (p\<lparr>rs_parser := m\<rparr>) = 0" using Cons.prems(3) by simp
  obtain m' where "recv_chunks fuel' rd close buff_size (body @ c) data2 (length (chunks_text cs)) (p\<lparr>rs_parser := m\<rparr>) s =
      Some (Ret (Some ((body @ c) @ concat cs, (p\<lparr>rs_parser := m\<rparr>)\<lparr>rs_parser := m'\<rparr>)) s)"
    using Cons.IH [of data2 "p\<lparr>rs_parser := m\<rparr>" fuel' "body @ c"] Cons.prems p d2 f(2) by (auto simp: t)
  then show ?case using h(1,5) cd f(1) by auto
qed



text \<open>The response to \<open>demo_get\<close>.\<close>

definition demo_answer :: http_response where
  "demo_answer = (new_HttpResponse 0x11 True)\<lparr>p_body := ''hi''\<rparr>"

lemma demo_answer: "answerable demo_answer"
  by (simp add: answerable_def demo_answer_def new_HttpResponse_def response_reason_def HttpStatusToString_def HTTP_STATUS_MAP_def
      value_char_def schar_def)

lemma demo_answer_head: "length (response_head demo_answer) = 57"
  by (simp add: response_head_def head_text_def demo_answer_def new_HttpResponse_def response_reason_def HttpStatusToString_def HTTP_STATUS_MAP_def
      response_fields_def kept_headers_def connection_field_def length_field_def field_line_def dec.simps)

theorem response_delivered_witness:
  "\<exists>p' s'. recvResponse 1 demo_cast (\<lambda>_ x. x) (\<lambda>s n. (let k = min 58 n in (int (length (take k s)), take k s, drop k s))) (\<lambda>s. s) 100
      (replicate 101 CHR 0x00) new_httpclient_parser 0 (to_bytes (dump_response demo_answer)) = Some (Ret (Some p') s') \<and> p_body p' = ''hi''"
proof -
  let ?rd = "\<lambda>s n. (let k = min 58 n in (int (length (take k s)), take k s, drop k s)) :: int \<times> u8 list \<times> u8 list"
  have "good_reader ?rd (\<lambda>s. s)" by (auto simp: good_reader_def Let_def min_def)
  then show ?thesis
    using response_delivered [OF demo_answer, of ?rd "\<lambda>s. s" _ 100 _ _ _ "replicate 101 CHR 0x00" demo_cast 0 "\<lambda>_ x. x" "\<lambda>s. s" new_httpclient_parser]
      demo_cast dump_response_head [OF demo_answer] demo_answer_head
    by (fastforce simp: response_received_def demo_answer_def new_HttpResponse_def Let_def)
qed

section \<open>The pool\<close>

text \<open>What the pool counts: the idle connections and those its users hold.\<close>

definition pool_counts :: "nat \<Rightarrow> 's conn_pool \<Rightarrow> bool" where
  "pool_counts held pool \<longleftrightarrow> cp_total pool = of_nat (length (cp_conns pool) + held)"

lemma pick_conn_count:
  "pick_conn isConnected a now conns i = (ptr, rest, j) \<Longrightarrow>
   j + length rest + (case ptr of None \<Rightarrow> 0 | Some _ \<Rightarrow> 1) = i + length conns \<and> i \<le> j \<and> (ptr = None \<longrightarrow> rest = [])"
proof (induction conns arbitrary: i)
  case (Cons conn conns)
  show ?case
  proof (cases "\<not> isConnected (cn_stream conn) \<or> cn_createTime conn + ucast a > now")
    case True
    then have "pick_conn isConnected a now conns (Suc i) = (ptr, rest, j)" using Cons.prems by (auto split: if_splits)
    from Cons.IH [OF this] show ?thesis by auto
  next
    case False
    then show ?thesis using Cons.prems by auto
  qed
qed simp

lemma getConnection_counts:
  assumes "pool_counts held pool" and "getConnection isConnected open_conn now pool = (ptr, pool')"
  shows "pool_counts (if ptr = None then held else Suc held) pool'"
proof -
  obtain p rest j where k: "pick_conn isConnected (cp_maxAliveTime pool) now (cp_conns pool) 0 = (p, rest, j)" by (metis prod_cases3)
  note c = pick_conn_count [OF k]
  have "(of_nat (length (cp_conns pool)) :: u32) = of_nat (j + length rest + (case p of None \<Rightarrow> 0 | Some _ \<Rightarrow> 1))" using c by simp
  then have t: "cp_total pool - of_nat j = of_nat (length rest + (case p of None \<Rightarrow> 0 | Some _ \<Rightarrow> 1) + held)"
    using assms(1) by (simp add: pool_counts_def)
  then show ?thesis
    using assms(2) k c by (auto simp: getConnection_def pool_counts_def Let_def split: option.splits prod.splits if_splits)
qed

lemma ReleasePtr_counts: "pool_counts (Suc held) pool \<Longrightarrow> pool_counts held (ReleasePtr isConnected now conn pool)"
  by (auto simp: ReleasePtr_def pool_counts_def Let_def)

text \<open>C26. The pool counts its connections: taking one, giving one back and a whole request over the pool keep \<open>m_total\<close> equal to the idle
  connections and those in use, whichever connections have failed.\<close>

theorem pool_accounting:
  assumes "pool_counts held pool"
  shows "(\<forall>ptr pool'. getConnection isConnected open_conn now pool = (ptr, pool') \<longrightarrow> pool_counts (if ptr = None then held else Suc held) pool') \<and>
    (0 < held \<longrightarrow> pool_counts (held - 1) (ReleasePtr isConnected now conn pool)) \<and>
    (\<forall>res pool'. pool_doRequest isConnected open_conn hasSocket timeout send recv errno now later req ms pool = Some (Ret res pool') \<longrightarrow>
      pool_counts held pool')"
proof (intro conjI allI impI)
  fix ptr pool'
  assume "getConnection isConnected open_conn now pool = (ptr, pool')"
  then show "pool_counts (if ptr = None then held else Suc held) pool'" by (rule getConnection_counts [OF assms])
next
  assume "0 < held"
  then show "pool_counts (held - 1) (ReleasePtr isConnected now conn pool)" using ReleasePtr_counts [of "held - 1" pool] assms by simp
next
  fix res pool'
  assume r: "pool_doRequest isConnected open_conn hasSocket timeout send recv errno now later req ms pool = Some (Ret res pool')"
  obtain ptr pool1 where g: "getConnection isConnected open_conn now pool = (ptr, pool1)" by force
  note c = getConnection_counts [OF assms g]
  show "pool_counts held pool'"
    using r g c ReleasePtr_counts [of held pool1]
    by (auto simp: pool_doRequest_def split: option.splits if_splits) (case_tac z; auto)
qed

theorem pool_accounting_witness:
  "pool_counts 1 (snd (getConnection (\<lambda>_. True) (\<lambda>_ _ _. Some ()) 7 (new_HttpConnectionPool ''h'' [] 0 False 1 1 1)))"
proof -
  let ?p = "new_HttpConnectionPool ''h'' [] 0 False 1 1 1 :: unit conn_pool"
  have "pool_counts 0 ?p" by (simp add: pool_counts_def new_HttpConnectionPool_def)
  from pool_accounting [OF this, of "\<lambda>_. True" "\<lambda>_ _ _. Some ()" 7 "\<lparr>cn_stream = (), cn_createTime = 0, cn_request = 0\<rparr>" "\<lambda>_. True" "\<lambda>_ s. s"
      "\<lambda>_ _. None" "\<lambda>_. None" "[]" 7 demo_get 0]
  show ?thesis by (auto simp: getConnection_def new_HttpConnectionPool_def split: if_splits)
qed

text \<open>The comparison with the age is the wrong way round: an idle connection that is handed out again is one whose time is over.\<close>

lemma pick_conn_old:
  "pick_conn isConnected a now conns i = (Some conn, rest, j) \<Longrightarrow>
   conn \<in> set conns \<and> isConnected (cn_stream conn) \<and> cn_createTime conn + ucast a \<le> now"
proof (induction conns arbitrary: i)
  case (Cons c conns)
  show ?case
  proof (cases "\<not> isConnected (cn_stream c) \<or> cn_createTime c + ucast a > now")
    case True
    then have "pick_conn isConnected a now conns (Suc i) = (Some conn, rest, j)" using Cons.prems by (auto split: if_splits)
    from Cons.IH [OF this] show ?thesis by simp
  next
    case False
    then show ?thesis using Cons.prems by (cases "now < cn_createTime c + ucast a") (auto simp: not_less)
  qed
qed simp

theorem reused_connection_expired:
  assumes "getConnection isConnected open_conn now pool = (Some conn, pool')" and "length (cp_conns pool') < length (cp_conns pool)"
    and "\<forall>name port https. open_conn name port https = None"
  shows "cn_createTime conn + ucast (cp_maxAliveTime pool) \<le> now"
  using assms(1,3) pick_conn_old [of isConnected "cp_maxAliveTime pool" now "cp_conns pool" 0]
  by (auto simp: getConnection_def Let_def split: prod.splits option.splits)

theorem reused_connection_expired_witness:
  "\<exists>conn pool'. getConnection (\<lambda>_. True) (\<lambda>_ _ _. None) 9
     ((new_HttpConnectionPool ''h'' [] 0 False 1 5 1)\<lparr>cp_conns := [\<lparr>cn_stream = (), cn_createTime = 3, cn_request = 0\<rparr>]\<rparr>) = (Some conn, pool') \<and>
     cn_createTime conn + 5 \<le> 9"
  using reused_connection_expired [of "\<lambda>_. True" "\<lambda>_ _ _. None" 9
      "(new_HttpConnectionPool ''h'' [] 0 False 1 5 1)\<lparr>cp_conns := [\<lparr>cn_stream = (), cn_createTime = 3, cn_request = 0\<rparr>]\<rparr>"]
  by (simp add: getConnection_def new_HttpConnectionPool_def)


text \<open>The result of the write is lost: when the peer has closed, \<open>sendRequest\<close> returns the size of the request all the same.\<close>

theorem send_result_ignored:
  assumes "wr s (to_bytes (dump_request req)) = (0, s')"
  shows "sendRequest (Suc fuel) wr req s = Some (Ret (to_int32 (int (length (dump_request req)))) s')"
proof -
  have "dump_request req \<noteq> []" by (simp add: dump_request_def)
  moreover have "seg 0 (length (to_bytes (dump_request req))) (to_bytes (dump_request req)) = to_bytes (dump_request req)" by (simp add: seg_def)
  ultimately show ?thesis using assms by (simp add: sendRequest_def writeFixSize_def)
qed

theorem send_result_ignored_witness:
  "sendRequest 1 (\<lambda>s _. (0, s)) demo_get () = Some (Ret (to_int32 (int (length (dump_request demo_get)))) ())"
  using send_result_ignored [of "\<lambda>s _. (0, s)" "()" demo_get "()" 0] by simp

text \<open>The \<^verbatim>\<open>Host\<close> header of a request is the host of the URL unless the caller gives one that is not empty.\<close>

lemma add_request_headers_host:
  "snd (add_request_headers hs (req, b)) = (b \<or> (\<exists>(k, v)\<in>set hs. same_key k ''host'' \<and> v \<noteq> []))"
proof (induction hs arbitrary: req b)
  case (Cons h hs)
  obtain k v where h: "h = (k, v)" by (cases h)
  have "\<not> (same_key k ''connection'' \<and> same_key k ''host'')" by (auto simp: same_key_def fold_case_def c_string_def tolower_def)
  then show ?case using Cons h by (auto simp: same_key_def Let_def)
qed simp

lemma add_request_headers_ok: "request_ok req \<Longrightarrow> request_ok (fst (add_request_headers hs (req, b)))"
proof (induction hs arbitrary: req b)
  case (Cons h hs)
  obtain k v where h: "h = (k, v)" by (cases h)
  have "request_ok (req\<lparr>q_close := False\<rparr>)" "request_ok (req_setHeader k v req)"
    using Cons.prems req_headers.set_inv by (simp_all add: request_ok_def)
  then show ?case using Cons h by (auto simp: Let_def)
qed simp

theorem request_host:
  assumes "\<not> (\<exists>(k, v)\<in>set headers. same_key k ''host'' \<and> v \<noteq> [])"
  shows "req_getHeader ''Host'' [] (url_request junk meth url headers body) = u_host url"
proof -
  let ?r = "(new_HttpRequest junk 0x11 True)\<lparr>q_path := uri_getPath url, q_query := u_query url, q_fragment := u_fragment url, q_method := meth\<rparr>"
  obtain q b where q: "add_request_headers headers (?r, False) = (q, b)" by force
  have "\<not> b" using add_request_headers_host [of headers ?r False] q assms by simp
  moreover have "request_ok ?r" by (simp add: request_ok_def new_HttpRequest_def)
  then have "request_ok q" using add_request_headers_ok [of ?r headers False] q by simp
  ultimately show ?thesis
    using q by (simp add: url_request_def complete_request_def req_getHeader_def req_headers.get_set same_key_def)
qed

theorem request_host_witness:
  "req_getHeader ''Host'' [] (url_request 0 1 demo_uri [(''host'', []), (''A'', ''b'')] []) = ''a''"
  using request_host [of "[(''host'', []), (''A'', ''b'')]" 0 1 demo_uri "[]"]
  by (simp add: demo_uri_def same_key_def fold_case_def c_string_def tolower_def)

text \<open>A peer that answers \<open>demo_get\<close>: the stream is what was written and what is to be read.\<close>

definition demo_peer_read :: "u8 list \<times> u8 list \<Rightarrow> nat \<Rightarrow> int \<times> u8 list \<times> u8 list \<times> u8 list" where
  "demo_peer_read s n = (let k = min n (length (snd s)) in (int k, take k (snd s), fst s, drop k (snd s)))"

definition demo_peer_write :: "u8 list \<times> u8 list \<Rightarrow> u8 list \<Rightarrow> int \<times> u8 list \<times> u8 list" where
  "demo_peer_write s bs = (int (length bs), fst s @ bs, to_bytes (dump_response demo_answer))"


end
