(* ===== verification/Sockets.thy ===== *)
theory Sockets
  imports Address Hook Ragel
begin

text \<open>
  \<^verbatim>\<open>src/cxk/socket.cpp\<close>: sockets over the hooked system calls of \<open>Hook\<close>. A socket is a record; an operation maps the
  socket and the state of \<open>Hook\<close> to an outcome. The original system functions are the fields of \<open>net\<close>. They act on
  the world; the bytes that a receiving call stores are read from the world by \<open>n_data\<close>. What a suspended call needs (its fiber,
  the pauses, the address of its \<^verbatim>\<open>timer_info\<close>, the answers of \<^verbatim>\<open>epoll_ctl\<close>) is in \<open>thr\<close>. OpenSSL is a record of
  functions too.
\<close>

section \<open>State\<close>

record sock =
  sk_socket :: int
  sk_family :: int
  sk_type :: int
  sk_protocol :: int
  sk_isConnected :: bool
  sk_localAddr :: "address option"
  sk_remoteAddr :: "address option"

record 'w net =
  n_socket :: "int \<Rightarrow> int \<Rightarrow> int \<Rightarrow> 'w origin"
  n_setsockopt :: "int \<Rightarrow> int \<Rightarrow> int \<Rightarrow> int list \<Rightarrow> 'w origin"
  n_getsockopt :: "int \<Rightarrow> int \<Rightarrow> int \<Rightarrow> 'w \<Rightarrow> int \<times> int \<times> 'w"
  n_accept :: "int \<Rightarrow> 'w origin"
  n_bind :: "int \<Rightarrow> u8 list \<Rightarrow> nat \<Rightarrow> 'w origin"
  n_connect :: "int \<Rightarrow> u8 list \<Rightarrow> nat \<Rightarrow> 'w origin"
  n_listen :: "int \<Rightarrow> int \<Rightarrow> 'w origin"
  n_close :: "int \<Rightarrow> 'w origin"
  n_send :: "int \<Rightarrow> u8 list \<Rightarrow> int \<Rightarrow> 'w origin"
  n_sendto :: "int \<Rightarrow> u8 list \<Rightarrow> int \<Rightarrow> u8 list \<Rightarrow> nat \<Rightarrow> 'w origin"
  n_sendmsg :: "int \<Rightarrow> u8 list list \<Rightarrow> nat \<Rightarrow> int \<Rightarrow> 'w origin"
  n_recv :: "int \<Rightarrow> nat \<Rightarrow> int \<Rightarrow> 'w origin"
  n_recvfrom :: "int \<Rightarrow> nat \<Rightarrow> int \<Rightarrow> nat \<Rightarrow> 'w origin"
  n_recvmsg :: "int \<Rightarrow> nat list \<Rightarrow> nat \<Rightarrow> int \<Rightarrow> 'w origin"
  n_data :: "'w \<Rightarrow> u8 list"
  n_getpeername :: "int \<Rightarrow> address \<Rightarrow> 'w \<Rightarrow> (address \<times> u32) option"
  n_getsockname :: "int \<Rightarrow> address \<Rightarrow> 'w \<Rightarrow> (address \<times> u32) option"
  n_unlink :: "u8 list \<Rightarrow> 'w \<Rightarrow> 'w"
  n_memory6 :: sockaddr_in6

record 'w thr =
  th_fuel :: nat
  th_caller :: caller
  th_ti :: nat
  th_pauses :: "'w pause list"
  th_connect :: "'w pause"
  th_ctl :: "ctl_op \<Rightarrow> nat \<Rightarrow> u32 \<Rightarrow> bool"

type_synonym ('w, 'a) sock_op = "sock \<times> 'w hook \<Rightarrow> (sock \<times> 'w hook, 'a) outcome"

text \<open>An operation of the hooked calls on behalf of a socket.\<close>

fun on_hook :: "('w hook \<Rightarrow> ('w hook, 'a) outcome) \<Rightarrow> ('w, 'a) sock_op" where
  "on_hook f (sk, hs) = (case f hs of Ret a hs \<Rightarrow> Ret a (sk, hs) | Throw e hs \<Rightarrow> Throw e (sk, hs) | Undef u \<Rightarrow> Undef u)"

text \<open>The functions that are not hooked.\<close>

definition plain :: "'w origin \<Rightarrow> 'w hook \<Rightarrow> ('w hook, int) outcome" where
  "plain fn hs = (case call fn hs of (n, hs) \<Rightarrow> Ret n hs)"

definition SOCK_STREAM :: int where "SOCK_STREAM = 1"
definition SOCK_DGRAM :: int where "SOCK_DGRAM = 2"
definition SOL_SOCKET :: int where "SOL_SOCKET = 1"
definition SO_REUSEADDR :: int where "SO_REUSEADDR = 2"
definition SO_ERROR :: int where "SO_ERROR = 4"
definition IPPROTO_TCP :: int where "IPPROTO_TCP = 6"
definition TCP_NODELAY :: int where "TCP_NODELAY = 1"

definition new_Socket :: "int \<Rightarrow> int \<Rightarrow> int \<Rightarrow> sock" where
  "new_Socket family type protocol = \<lparr>sk_socket = -1, sk_family = family, sk_type = type, sk_protocol = protocol, sk_isConnected = False,
     sk_localAddr = None, sk_remoteAddr = None\<rparr>"

definition isValid :: "sock \<Rightarrow> bool" where
  "isValid sk \<longleftrightarrow> sk_socket sk \<noteq> -1"

section \<open>Options\<close>

definition setOption :: "'w net \<Rightarrow> int \<Rightarrow> int \<Rightarrow> int list \<Rightarrow> ('w, bool) sock_op" where
  "setOption net level option data s =
     obind (on_hook (hook_setsockopt_timeo (n_setsockopt net (sk_socket (fst s)) level option data) (sk_socket (fst s)) option
       (hd data) (last data)) s) (\<lambda>rt. Ret (rt = 0))"

text \<open>\<^verbatim>\<open>getOption\<close> of an \<^verbatim>\<open>int\<close>: the value is the second component.\<close>

fun getOption :: "'w net \<Rightarrow> int \<Rightarrow> int \<Rightarrow> ('w, bool \<times> int) sock_op" where
  "getOption net level option (sk, hs) =
     (case n_getsockopt net (sk_socket sk) level option (h_world hs) of (rt, value, w) \<Rightarrow> Ret (rt = 0, value) (sk, hs\<lparr>h_world := w\<rparr>))"

definition getError :: "'w net \<Rightarrow> ('w, int) sock_op" where
  "getError net s = obind (getOption net SOL_SOCKET SO_ERROR s) (\<lambda>(ok, error). Ret (if ok then error else -1))"

text \<open>Division and remainder of C++ truncate; the results become an \<^verbatim>\<open>int\<close>.\<close>

definition set_timeout :: "'w net \<Rightarrow> int \<Rightarrow> int \<Rightarrow> ('w, unit) sock_op" where
  "set_timeout net option timeout s =
     obind (setOption net SOL_SOCKET option
       [to_int32 (sgn timeout * (\<bar>timeout\<bar> div 1000)), to_int32 (sgn timeout * (\<bar>timeout\<bar> mod 1000) * 1000)] s) (\<lambda>_. Ret ())"

definition setSendTimeout :: "'w net \<Rightarrow> int \<Rightarrow> ('w, unit) sock_op" where
  "setSendTimeout net timeout s = set_timeout net SO_SNDTIMEO timeout s"

definition setRecvTimeout :: "'w net \<Rightarrow> int \<Rightarrow> ('w, unit) sock_op" where
  "setRecvTimeout net timeout s = set_timeout net SO_RCVTIMEO timeout s"

definition get_timeout :: "int \<Rightarrow> ('w, int) sock_op" where
  "get_timeout option s =
     obind (on_hook (hook_get (sk_socket (fst s)) False) s) (\<lambda>p s.
       Ret (case p of None \<Rightarrow> -1 | Some p \<Rightarrow> sint (getTimeOut option (fd_heap (h_fds (snd s)) ! p))) s)"

definition getSendTimeout :: "('w, int) sock_op" where
  "getSendTimeout s = get_timeout SO_SNDTIMEO s"

definition getRecvTimeout :: "('w, int) sock_op" where
  "getRecvTimeout s = get_timeout SO_RCVTIMEO s"

definition initSock :: "'w net \<Rightarrow> ('w, unit) sock_op" where
  "initSock net s =
     obind (setOption net SOL_SOCKET SO_REUSEADDR [1] s) (\<lambda>_ s.
       if sk_type (fst s) = SOCK_STREAM then obind (setOption net IPPROTO_TCP TCP_NODELAY [1] s) (\<lambda>_. Ret ()) else Ret () s)"

definition newSock :: "'w net \<Rightarrow> ('w, unit) sock_op" where
  "newSock net s =
     obind (on_hook (hook_socket (n_socket net (sk_family (fst s)) (sk_type (fst s)) (sk_protocol (fst s)))) s) (\<lambda>fd (sk, hs).
       if fd \<noteq> -1 then initSock net (sk\<lparr>sk_socket := fd\<rparr>, hs) else Ret () (sk\<lparr>sk_socket := fd\<rparr>, hs))"

section \<open>Construction\<close>

definition CreateTCP :: "address \<Rightarrow> sock" where
  "CreateTCP addr = new_Socket (uint (getFamily addr)) SOCK_STREAM 0"

definition create_udp :: "'w net \<Rightarrow> int \<Rightarrow> 'w hook \<Rightarrow> (sock \<times> 'w hook, unit) outcome" where
  "create_udp net family hs =
     obind (newSock net (new_Socket family SOCK_DGRAM 0, hs)) (\<lambda>_ (sk, hs). Ret () (sk\<lparr>sk_isConnected := True\<rparr>, hs))"

definition CreateUDP :: "'w net \<Rightarrow> address \<Rightarrow> 'w hook \<Rightarrow> (sock \<times> 'w hook, unit) outcome" where
  "CreateUDP net addr hs = create_udp net (uint (getFamily addr)) hs"

definition CreateTCPSocket :: sock where
  "CreateTCPSocket = new_Socket (uint AF_INET) SOCK_STREAM 0"

definition CreateUDPSocket :: "'w net \<Rightarrow> 'w hook \<Rightarrow> (sock \<times> 'w hook, unit) outcome" where
  "CreateUDPSocket net hs = create_udp net (uint AF_INET) hs"

definition CreateTCPSocket6 :: sock where
  "CreateTCPSocket6 = new_Socket (uint AF_INET6) SOCK_STREAM 0"

definition CreateUDPSocket6 :: "'w net \<Rightarrow> 'w hook \<Rightarrow> (sock \<times> 'w hook, unit) outcome" where
  "CreateUDPSocket6 net hs = create_udp net (uint AF_INET6) hs"

definition CreateUnixTCPSocket :: sock where
  "CreateUnixTCPSocket = new_Socket (uint AF_UNIX) SOCK_STREAM 0"

definition CreateUnixUDPSocket :: sock where
  "CreateUnixUDPSocket = new_Socket (uint AF_UNIX) SOCK_DGRAM 0"

section \<open>Addresses\<close>

text \<open>\<^verbatim>\<open>IPv6Address()\<close> leaves its struct as the memory was.\<close>

definition fresh_address :: "'w net \<Rightarrow> int \<Rightarrow> address" where
  "fresh_address net family =
     (if family = uint AF_INET then IPv4Address (new_IPv4Address 0 0)
      else if family = uint AF_INET6 then IPv6Address (n_memory6 net)
      else if family = uint AF_UNIX then UnixAddress new_UnixAddress
      else UnknownAddress (new_UnknownAddress (word_of_int family)))"

text \<open>The address as it is kept: the length of a Unix address is the one the call returned.\<close>

fun with_length :: "int \<Rightarrow> address \<times> u32 \<Rightarrow> address" where
  "with_length family (UnixAddress u, addrlen) = (if family = uint AF_UNIX then UnixAddress (setAddrLen addrlen u) else UnixAddress u)"
| "with_length family (a, addrlen) = a"

fun getRemoteAddress :: "'w net \<Rightarrow> ('w, address) sock_op" where
  "getRemoteAddress net (sk, hs) =
     (case sk_remoteAddr sk of
        Some a \<Rightarrow> Ret a (sk, hs)
      | None \<Rightarrow> (case n_getpeername net (sk_socket sk) (fresh_address net (sk_family sk)) (h_world hs) of
          None \<Rightarrow> Ret (UnknownAddress (new_UnknownAddress (word_of_int (sk_family sk)))) (sk, hs)
        | Some r \<Rightarrow> let a = with_length (sk_family sk) r in Ret a (sk\<lparr>sk_remoteAddr := Some a\<rparr>, hs)))"

fun getLocalAddress :: "'w net \<Rightarrow> ('w, address) sock_op" where
  "getLocalAddress net (sk, hs) =
     (case sk_localAddr sk of
        Some a \<Rightarrow> Ret a (sk, hs)
      | None \<Rightarrow> (case n_getsockname net (sk_socket sk) (fresh_address net (sk_family sk)) (h_world hs) of
          None \<Rightarrow> Ret (UnknownAddress (new_UnknownAddress (word_of_int (sk_family sk)))) (sk, hs)
        | Some r \<Rightarrow> let a = with_length (sk_family sk) r in Ret a (sk\<lparr>sk_localAddr := Some a\<rparr>, hs)))"

section \<open>Connections\<close>

text \<open>\<^verbatim>\<open>FdMgr::get\<close> does not create a context here; the hooked \<^verbatim>\<open>accept\<close> has done so.\<close>

definition sock_init :: "'w net \<Rightarrow> int \<Rightarrow> ('w, bool) sock_op" where
  "sock_init net fd s =
     obind (on_hook (hook_get fd False) s) (\<lambda>p (sk, hs).
       case p of
         None \<Rightarrow> Ret False (sk, hs)
       | Some p \<Rightarrow>
           let ctx = fd_heap (h_fds hs) ! p in
           if m_isSocket ctx \<and> \<not> m_isClosed ctx then
             obind (initSock net (sk\<lparr>sk_socket := fd, sk_isConnected := True\<rparr>, hs)) (\<lambda>_ s.
             obind (getLocalAddress net s) (\<lambda>_ s.
             obind (getRemoteAddress net s) (\<lambda>_. Ret True)))
           else Ret False (sk, hs))"

text \<open>The new socket, if any; the state of the listening one does not change.\<close>

fun sock_accept :: "'w net \<Rightarrow> 'w thr \<Rightarrow> ('w, sock option) sock_op" where
  "sock_accept net th (sk, hs) =
     (case hook_accept (th_fuel th) (th_caller th) (sk_socket sk) (n_accept net (sk_socket sk)) (th_ti th) (th_pauses th) hs of
        Undef u \<Rightarrow> Undef u
      | Throw e hs \<Rightarrow> Throw e (sk, hs)
      | Ret fd hs \<Rightarrow>
          if fd = -1 then Ret None (sk, hs)
          else case sock_init net fd (new_Socket (sk_family sk) (sk_type sk) (sk_protocol sk), hs) of
            Undef u \<Rightarrow> Undef u
          | Throw e (_, hs) \<Rightarrow> Throw e (sk, hs)
          | Ret ok (client, hs) \<Rightarrow> Ret (if ok then Some client else None) (sk, hs))"

fun sock_close :: "'w net \<Rightarrow> 'w thr \<Rightarrow> ('w, bool) sock_op" where
  "sock_close net th (sk, hs) =
     (if \<not> sk_isConnected sk \<and> sk_socket sk = -1 then Ret True (sk, hs)
      else let sk = sk\<lparr>sk_isConnected := False\<rparr> in
        if sk_socket sk \<noteq> -1 then
          obind (on_hook (hook_close (n_close net (sk_socket sk)) (th_ctl th) (sk_socket sk)) (sk, hs)) (\<lambda>_ (sk, hs).
            Ret False (sk\<lparr>sk_socket := -1\<rparr>, hs))
        else Ret False (sk, hs))"

text \<open>The beginning that \<^verbatim>\<open>bind\<close> and \<^verbatim>\<open>connect\<close> share: a descriptor, and an address of the right family.\<close>

definition prepare :: "'w net \<Rightarrow> address \<Rightarrow> ('w, bool) sock_op" where
  "prepare net addr s =
     obind (if isValid (fst s) then Ret () s else newSock net s) (\<lambda>_ s.
       Ret (isValid (fst s) \<and> uint (getFamily addr) = sk_family (fst s)) s)"

definition connect_call :: "'w net \<Rightarrow> 'w thr \<Rightarrow> int \<Rightarrow> address \<Rightarrow> u64 \<Rightarrow> 'w hook \<Rightarrow> ('w hook, int) outcome" where
  "connect_call net th fd addr timeout_ms =
     (let connect_f = n_connect net fd (getAddr addr) (getAddrLen addr);
          getsockopt_f = n_getsockopt net fd SOL_SOCKET SO_ERROR in
      if timeout_ms = - 1 then hook_connect connect_f getsockopt_f (th_caller th) fd (th_ti th) (th_connect th)
      else connect_with_timeout connect_f getsockopt_f (th_caller th) fd timeout_ms (th_ti th) (th_connect th))"

definition sock_connect :: "'w net \<Rightarrow> 'w thr \<Rightarrow> address \<Rightarrow> u64 \<Rightarrow> ('w, bool) sock_op" where
  "sock_connect net th addr timeout_ms s =
     obind (prepare net addr ((fst s)\<lparr>sk_remoteAddr := Some addr\<rparr>, snd s)) (\<lambda>ok s.
       if \<not> ok then Ret False s
       else obind (on_hook (connect_call net th (sk_socket (fst s)) addr timeout_ms) s) (\<lambda>rt (sk, hs).
         if rt \<noteq> 0 then Ret False (sk, hs)
         else obind (getRemoteAddress net (sk\<lparr>sk_isConnected := True\<rparr>, hs)) (\<lambda>_ s.
              obind (getLocalAddress net s) (\<lambda>_. Ret True))))"

fun sock_reconnect :: "'w net \<Rightarrow> 'w thr \<Rightarrow> u64 \<Rightarrow> ('w, bool) sock_op" where
  "sock_reconnect net th timeout_ms (sk, hs) =
     (case sk_remoteAddr sk of
        None \<Rightarrow> Ret False (sk, hs)
      | Some addr \<Rightarrow> sock_connect net th addr timeout_ms (sk\<lparr>sk_localAddr := None\<rparr>, hs))"

text \<open>A Unix address in use is one a second socket can connect to; that socket is destroyed. Otherwise the file is removed.\<close>

definition probe_unix :: "'w net \<Rightarrow> 'w thr \<Rightarrow> unix_address \<Rightarrow> 'w hook \<Rightarrow> ('w hook, bool) outcome" where
  "probe_unix net th u hs =
     (case sock_connect net th (UnixAddress u) (- 1) (CreateUnixUDPSocket, hs) of
        Undef x \<Rightarrow> Undef x
      | Throw e (_, hs) \<Rightarrow> Throw e hs
      | Ret used (sk, hs) \<Rightarrow>
          (case (if used then Ret () hs
                 else case getPath u of Undef x \<Rightarrow> Undef x | Throw e _ \<Rightarrow> Throw e hs
                   | Ret path _ \<Rightarrow> Ret () (hs\<lparr>h_world := n_unlink net path (h_world hs)\<rparr>)) of
             Undef x \<Rightarrow> Undef x
           | Throw e hs \<Rightarrow> Throw e hs
           | Ret _ hs \<Rightarrow> (case sock_close net th (sk, hs) of
               Undef x \<Rightarrow> Undef x | Throw e (_, hs) \<Rightarrow> Throw e hs | Ret _ (_, hs) \<Rightarrow> Ret used hs)))"

definition sock_bind :: "'w net \<Rightarrow> 'w thr \<Rightarrow> address \<Rightarrow> ('w, bool) sock_op" where
  "sock_bind net th addr s =
     obind (prepare net addr ((fst s)\<lparr>sk_localAddr := Some addr\<rparr>, snd s)) (\<lambda>ok s.
       if \<not> ok then Ret False s
       else obind (case addr of UnixAddress u \<Rightarrow> on_hook (probe_unix net th u) s | _ \<Rightarrow> Ret False s) (\<lambda>used s.
         if used then Ret False s
         else obind (on_hook (plain (n_bind net (sk_socket (fst s)) (getAddr addr) (getAddrLen addr))) s) (\<lambda>rt s.
           if rt \<noteq> 0 then Ret False s else obind (getLocalAddress net s) (\<lambda>_. Ret True))))"

definition sock_listen :: "'w net \<Rightarrow> int \<Rightarrow> ('w, bool) sock_op" where
  "sock_listen net backlog s =
     (if \<not> isValid (fst s) then Ret False s
      else obind (on_hook (plain (n_listen net (sk_socket (fst s)) backlog)) s) (\<lambda>rt. Ret (rt = 0)))"

section \<open>Data\<close>

definition sk_write :: "'w thr \<Rightarrow> (int \<Rightarrow> 'w origin) \<Rightarrow> ('w, int) sock_op" where
  "sk_write th fn s =
     (if sk_isConnected (fst s)
      then on_hook (hook_write (th_fuel th) (th_caller th) (sk_socket (fst s)) (fn (sk_socket (fst s))) (th_ti th) (th_pauses th)) s
      else Ret (-1) s)"

definition sock_send :: "'w net \<Rightarrow> 'w thr \<Rightarrow> u8 list \<Rightarrow> int \<Rightarrow> ('w, int) sock_op" where
  "sock_send net th buffer flags s = sk_write th (\<lambda>fd. n_send net fd buffer flags) s"

definition sock_send_iov :: "'w net \<Rightarrow> 'w thr \<Rightarrow> u8 list list \<Rightarrow> int \<Rightarrow> ('w, int) sock_op" where
  "sock_send_iov net th buffers flags s = sk_write th (\<lambda>fd. n_sendmsg net fd buffers 0 flags) s"

definition sock_sendto :: "'w net \<Rightarrow> 'w thr \<Rightarrow> u8 list \<Rightarrow> address \<Rightarrow> int \<Rightarrow> ('w, int) sock_op" where
  "sock_sendto net th buffer addr flags s = sk_write th (\<lambda>fd. n_sendto net fd buffer flags (getAddr addr) (getAddrLen addr)) s"

text \<open>Here \<^verbatim>\<open>msg_name\<close> stays null and only \<^verbatim>\<open>msg_namelen\<close> is set, also when receiving.\<close>

definition sock_sendto_iov :: "'w net \<Rightarrow> 'w thr \<Rightarrow> u8 list list \<Rightarrow> address \<Rightarrow> int \<Rightarrow> ('w, int) sock_op" where
  "sock_sendto_iov net th buffers addr flags s = sk_write th (\<lambda>fd. n_sendmsg net fd buffers (getAddrLen addr) flags) s"

text \<open>A receiving call returns its result and the bytes it has stored.\<close>

definition sk_read :: "'w net \<Rightarrow> 'w thr \<Rightarrow> (int \<Rightarrow> 'w origin) \<Rightarrow> ('w, int \<times> u8 list) sock_op" where
  "sk_read net th fn s =
     (if sk_isConnected (fst s)
      then obind (on_hook (hook_read (th_fuel th) (th_caller th) (sk_socket (fst s)) (fn (sk_socket (fst s))) (th_ti th) (th_pauses th)) s)
        (\<lambda>rt s. Ret (rt, if rt > 0 then take (nat rt) (n_data net (h_world (snd s))) else []) s)
      else Ret (-1, []) s)"

definition sock_recv :: "'w net \<Rightarrow> 'w thr \<Rightarrow> nat \<Rightarrow> int \<Rightarrow> ('w, int \<times> u8 list) sock_op" where
  "sock_recv net th len flags s = sk_read net th (\<lambda>fd. n_recv net fd len flags) s"

definition sock_recv_iov :: "'w net \<Rightarrow> 'w thr \<Rightarrow> nat list \<Rightarrow> int \<Rightarrow> ('w, int \<times> u8 list) sock_op" where
  "sock_recv_iov net th lens flags s = sk_read net th (\<lambda>fd. n_recvmsg net fd lens 0 flags) s"

text \<open>The sender's address that \<^verbatim>\<open>recvfrom\<close> stores through its argument is left in the world.\<close>

definition sock_recvfrom :: "'w net \<Rightarrow> 'w thr \<Rightarrow> nat \<Rightarrow> address \<Rightarrow> int \<Rightarrow> ('w, int \<times> u8 list) sock_op" where
  "sock_recvfrom net th len addr flags s = sk_read net th (\<lambda>fd. n_recvfrom net fd len flags (getAddrLen addr)) s"

definition sock_recvfrom_iov :: "'w net \<Rightarrow> 'w thr \<Rightarrow> nat list \<Rightarrow> address \<Rightarrow> int \<Rightarrow> ('w, int \<times> u8 list) sock_op" where
  "sock_recvfrom_iov net th lens addr flags s = sk_read net th (\<lambda>fd. n_recvmsg net fd lens (getAddrLen addr) flags) s"

section \<open>Cancelling\<close>

definition on_iom :: "(hook_cb iomanager \<Rightarrow> (hook_cb iomanager, 'a) outcome) \<Rightarrow> 'w hook \<Rightarrow> ('w hook, 'a) outcome" where
  "on_iom f hs =
     (case h_iom hs of
        None \<Rightarrow> Undef NullDeref
      | Some iom \<Rightarrow> (case f iom of
          Ret a iom \<Rightarrow> Ret a (hs\<lparr>h_iom := Some iom\<rparr>) | Throw e iom \<Rightarrow> Throw e (hs\<lparr>h_iom := Some iom\<rparr>) | Undef u \<Rightarrow> Undef u))"

definition cancelRead :: "'w thr \<Rightarrow> ('w, bool) sock_op" where
  "cancelRead th s = on_hook (on_iom (cancelEvent (th_ctl th) (sk_socket (fst s)) READ)) s"

definition cancelWrite :: "'w thr \<Rightarrow> ('w, bool) sock_op" where
  "cancelWrite th s = on_hook (on_iom (cancelEvent (th_ctl th) (sk_socket (fst s)) WRITE)) s"

definition cancelAccept :: "'w thr \<Rightarrow> ('w, bool) sock_op" where
  "cancelAccept th s = on_hook (on_iom (cancelEvent (th_ctl th) (sk_socket (fst s)) READ)) s"

definition sock_cancelAll :: "'w thr \<Rightarrow> ('w, bool) sock_op" where
  "sock_cancelAll th s = on_hook (on_iom (cancelAll (th_ctl th) (sk_socket (fst s)))) s"

section \<open>TLS\<close>

record ssl_sock =
  sl_sock :: sock
  sl_ctx :: "nat option"
  sl_ssl :: "nat option"

text \<open>The calls of OpenSSL; contexts and connections are handles. \<open>l_ctx_new\<close> is for the client or the server method, \<open>l_new\<close> with
  \<open>l_set_fd\<close> makes a connection on a descriptor.\<close>

record 'w openssl =
  l_ctx_new :: "bool \<Rightarrow> 'w hook \<Rightarrow> nat option \<times> 'w hook"
  l_new :: "nat option \<Rightarrow> 'w hook \<Rightarrow> nat option \<times> 'w hook"
  l_set_fd :: "nat option \<Rightarrow> int \<Rightarrow> 'w hook \<Rightarrow> 'w hook"
  l_connect :: "nat option \<Rightarrow> 'w hook \<Rightarrow> int \<times> 'w hook"
  l_accept :: "nat option \<Rightarrow> 'w hook \<Rightarrow> int \<times> 'w hook"
  l_write :: "nat \<Rightarrow> u8 list \<Rightarrow> 'w hook \<Rightarrow> int \<times> 'w hook"
  l_read :: "nat \<Rightarrow> nat \<Rightarrow> 'w hook \<Rightarrow> int \<times> u8 list \<times> 'w hook"
  l_chain_file :: "nat option \<Rightarrow> string \<Rightarrow> 'w hook \<Rightarrow> int \<times> 'w hook"
  l_key_file :: "nat option \<Rightarrow> string \<Rightarrow> 'w hook \<Rightarrow> int \<times> 'w hook"
  l_check_key :: "nat option \<Rightarrow> 'w hook \<Rightarrow> int \<times> 'w hook"

type_synonym ('w, 'a) ssl_op = "ssl_sock \<times> 'w hook \<Rightarrow> (ssl_sock \<times> 'w hook, 'a) outcome"

definition new_SSLSocket :: "int \<Rightarrow> int \<Rightarrow> int \<Rightarrow> ssl_sock" where
  "new_SSLSocket family type protocol = \<lparr>sl_sock = new_Socket family type protocol, sl_ctx = None, sl_ssl = None\<rparr>"

definition SSL_CreateTCP :: "address \<Rightarrow> ssl_sock" where
  "SSL_CreateTCP addr = new_SSLSocket (uint (getFamily addr)) SOCK_STREAM 0"

definition SSL_CreateTCPSocket :: ssl_sock where
  "SSL_CreateTCPSocket = new_SSLSocket (uint AF_INET) SOCK_STREAM 0"

definition SSL_CreateTCPSocket6 :: ssl_sock where
  "SSL_CreateTCPSocket6 = new_SSLSocket (uint AF_INET6) SOCK_STREAM 0"

text \<open>\<^verbatim>\<open>bind\<close>, \<^verbatim>\<open>listen\<close> and \<^verbatim>\<open>close\<close> are those of \<^verbatim>\<open>Socket\<close>.\<close>

fun on_base :: "('w, 'a) sock_op \<Rightarrow> ('w, 'a) ssl_op" where
  "on_base f (sl, hs) =
     (case f (sl_sock sl, hs) of
        Ret a (sk, hs) \<Rightarrow> Ret a (sl\<lparr>sl_sock := sk\<rparr>, hs) | Throw e (sk, hs) \<Rightarrow> Throw e (sl\<lparr>sl_sock := sk\<rparr>, hs) | Undef u \<Rightarrow> Undef u)"

definition ssl_bind :: "'w net \<Rightarrow> 'w thr \<Rightarrow> address \<Rightarrow> ('w, bool) ssl_op" where
  "ssl_bind net th addr s = on_base (sock_bind net th addr) s"

definition ssl_listen :: "'w net \<Rightarrow> int \<Rightarrow> ('w, bool) ssl_op" where
  "ssl_listen net backlog s = on_base (sock_listen net backlog) s"

definition ssl_close :: "'w net \<Rightarrow> 'w thr \<Rightarrow> ('w, bool) ssl_op" where
  "ssl_close net th s = on_base (sock_close net th) s"

definition ssl_connect :: "'w net \<Rightarrow> 'w openssl \<Rightarrow> 'w thr \<Rightarrow> address \<Rightarrow> u64 \<Rightarrow> ('w, bool) ssl_op" where
  "ssl_connect net lib th addr timeout_ms s =
     obind (on_base (sock_connect net th addr timeout_ms) s) (\<lambda>v (sl, hs).
       if \<not> v then Ret False (sl, hs)
       else let (ctx, hs) = l_ctx_new lib True hs;
                (ssl, hs) = l_new lib ctx hs;
                hs = l_set_fd lib ssl (sk_socket (sl_sock sl)) hs;
                (rt, hs) = l_connect lib ssl hs
            in Ret (rt = 1) (sl\<lparr>sl_ctx := ctx, sl_ssl := ssl\<rparr>, hs))"

definition ssl_init :: "'w net \<Rightarrow> 'w openssl \<Rightarrow> int \<Rightarrow> ('w, bool) ssl_op" where
  "ssl_init net lib fd s =
     obind (on_base (sock_init net fd) s) (\<lambda>v (sl, hs).
       if \<not> v then Ret False (sl, hs)
       else let (ssl, hs) = l_new lib (sl_ctx sl) hs;
                hs = l_set_fd lib ssl (sk_socket (sl_sock sl)) hs;
                (rt, hs) = l_accept lib ssl hs
            in Ret (rt = 1) (sl\<lparr>sl_ssl := ssl\<rparr>, hs))"

text \<open>When the handshake fails the new socket is destroyed, which closes it.\<close>

fun ssl_accept :: "'w net \<Rightarrow> 'w openssl \<Rightarrow> 'w thr \<Rightarrow> ('w, ssl_sock option) ssl_op" where
  "ssl_accept net lib th (sl, hs) =
     (let sk = sl_sock sl in
      case hook_accept (th_fuel th) (th_caller th) (sk_socket sk) (n_accept net (sk_socket sk)) (th_ti th) (th_pauses th) hs of
        Undef u \<Rightarrow> Undef u
      | Throw e hs \<Rightarrow> Throw e (sl, hs)
      | Ret fd hs \<Rightarrow>
          if fd = -1 then Ret None (sl, hs)
          else case ssl_init net lib fd ((new_SSLSocket (sk_family sk) (sk_type sk) (sk_protocol sk))\<lparr>sl_ctx := sl_ctx sl\<rparr>, hs) of
            Undef u \<Rightarrow> Undef u
          | Throw e (_, hs) \<Rightarrow> Throw e (sl, hs)
          | Ret True (client, hs) \<Rightarrow> Ret (Some client) (sl, hs)
          | Ret False (client, hs) \<Rightarrow> (case ssl_close net th (client, hs) of
              Undef u \<Rightarrow> Undef u | Throw e (_, hs) \<Rightarrow> Throw e (sl, hs) | Ret _ (_, hs) \<Rightarrow> Ret None (sl, hs)))"

fun ssl_send :: "'w openssl \<Rightarrow> u8 list \<Rightarrow> ('w, int) ssl_op" where
  "ssl_send lib buffer (sl, hs) =
     (case sl_ssl sl of None \<Rightarrow> Ret (-1) (sl, hs) | Some ssl \<Rightarrow> (case l_write lib ssl buffer hs of (n, hs) \<Rightarrow> Ret n (sl, hs)))"

fun ssl_write_all :: "(u8 list \<Rightarrow> 'k \<Rightarrow> int \<times> 'k) \<Rightarrow> int \<Rightarrow> u8 list list \<Rightarrow> 'k \<Rightarrow> int \<times> 'k" where
  "ssl_write_all wr acc [] k = (acc, k)"
| "ssl_write_all wr acc (b # bs) k =
     (case wr b k of (tmp, k) \<Rightarrow>
        if tmp \<le> 0 then (tmp, k)
        else if tmp \<noteq> int (length b) then (acc + tmp, k) else ssl_write_all wr (acc + tmp) bs k)"

fun ssl_send_iov :: "'w openssl \<Rightarrow> u8 list list \<Rightarrow> ('w, int) ssl_op" where
  "ssl_send_iov lib buffers (sl, hs) =
     (case sl_ssl sl of
        None \<Rightarrow> Ret (-1) (sl, hs)
      | Some ssl \<Rightarrow> (case ssl_write_all (l_write lib ssl) 0 buffers hs of (n, hs) \<Rightarrow> Ret n (sl, hs)))"

fun ssl_recv :: "'w openssl \<Rightarrow> nat \<Rightarrow> ('w, int \<times> u8 list) ssl_op" where
  "ssl_recv lib len (sl, hs) =
     (case sl_ssl sl of
        None \<Rightarrow> Ret (-1, []) (sl, hs)
      | Some ssl \<Rightarrow> (case l_read lib ssl len hs of (n, bs, hs) \<Rightarrow> Ret (n, bs) (sl, hs)))"

text \<open>Receiving into several buffers: the result and what each buffer was given.\<close>

fun ssl_read_all :: "(nat \<Rightarrow> 'k \<Rightarrow> int \<times> u8 list \<times> 'k) \<Rightarrow> int \<Rightarrow> u8 list list \<Rightarrow> nat list \<Rightarrow> 'k \<Rightarrow> int \<times> u8 list list \<times> 'k" where
  "ssl_read_all rd acc got [] k = (acc, got, k)"
| "ssl_read_all rd acc got (n # ns) k =
     (case rd n k of (tmp, bs, k) \<Rightarrow>
        if tmp \<le> 0 then (tmp, got, k)
        else if tmp \<noteq> int n then (acc + tmp, got @ [bs], k) else ssl_read_all rd (acc + tmp) (got @ [bs]) ns k)"

fun ssl_recv_iov :: "'w openssl \<Rightarrow> nat list \<Rightarrow> ('w, int \<times> u8 list list) ssl_op" where
  "ssl_recv_iov lib lens (sl, hs) =
     (case sl_ssl sl of
        None \<Rightarrow> Ret (-1, []) (sl, hs)
      | Some ssl \<Rightarrow> (case ssl_read_all (l_read lib ssl) 0 [] lens hs of (n, got, hs) \<Rightarrow> Ret (n, got) (sl, hs)))"

text \<open>\<^verbatim>\<open>sendto\<close> and \<^verbatim>\<open>recvfrom\<close>, in both forms.\<close>

definition ssl_datagram :: "('w, int) ssl_op" where
  "ssl_datagram s = CXK_ASSERT False (Ret (-1) s)"

fun loadCertificates :: "'w openssl \<Rightarrow> string \<Rightarrow> string \<Rightarrow> ('w, bool) ssl_op" where
  "loadCertificates lib cert_file key_file (sl, hs) =
     (let (ctx, hs) = l_ctx_new lib False hs; sl = sl\<lparr>sl_ctx := ctx\<rparr>; (rt, hs) = l_chain_file lib ctx cert_file hs in
      if rt \<noteq> 1 then Ret False (sl, hs)
      else let (rt, hs) = l_key_file lib ctx key_file hs in
        if rt \<noteq> 1 then Ret False (sl, hs)
        else let (rt, hs) = l_check_key lib ctx hs in Ret (rt = 1) (sl, hs))"

section \<open>Lemmas\<close>

declare on_hook.simps [simp del] getRemoteAddress.simps [simp del] getLocalAddress.simps [simp del]

definition sock_ok :: "sock \<Rightarrow> bool" where
  "sock_ok sk \<longleftrightarrow> (sk_isConnected sk \<longrightarrow> sk_socket sk \<noteq> -1)"

lemma on_hook_Ret: "on_hook f s = Ret r s' \<Longrightarrow> fst s' = fst s"
  by (cases s) (auto simp: on_hook.simps split: outcome.splits)

lemma hook_get_look: "0 \<le> fd \<Longrightarrow> hook_get fd False hs = Ret (ctx_of fd (h_fds hs)) hs"
  by (simp add: hook_get_def fd_get_def get_lookup_cases)

lemma setOption_keeps: "setOption net level option data s = Ret r s' \<Longrightarrow> fst s' = fst s"
  by (auto simp: setOption_def obind_Ret_iff dest: on_hook_Ret)

lemma initSock_keeps: "initSock net s = Ret r s' \<Longrightarrow> fst s' = fst s"
  by (auto simp: initSock_def obind_Ret_iff split: if_splits dest!: setOption_keeps)

lemma newSock_keeps: "newSock net s = Ret r s' \<Longrightarrow> \<exists>fd. fst s' = (fst s)\<lparr>sk_socket := fd\<rparr>"
  by (auto simp: newSock_def obind_Ret_iff split: if_splits dest!: on_hook_Ret initSock_keeps)

lemma addresses_keep:
  "getRemoteAddress net s = Ret a s' \<Longrightarrow> \<exists>x. fst s' = (fst s)\<lparr>sk_remoteAddr := x\<rparr>"
  "getLocalAddress net s = Ret a s' \<Longrightarrow> \<exists>x. fst s' = (fst s)\<lparr>sk_localAddr := x\<rparr>"
  by (cases s; auto simp: getRemoteAddress.simps getLocalAddress.simps Let_def split: option.splits; metis sock.surjective sock.update_convs)+

lemma prepare_keeps:
  assumes "prepare net addr s = Ret ok s'"
  shows "\<exists>fd. fst s' = (fst s)\<lparr>sk_socket := fd\<rparr> \<and> (ok \<longrightarrow> fd \<noteq> -1) \<and> (sk_socket (fst s) \<noteq> -1 \<longrightarrow> fd = sk_socket (fst s))"
proof (cases "isValid (fst s)")
  case True
  then show ?thesis using assms by (intro exI [of _ "sk_socket (fst s)"]) (simp add: prepare_def isValid_def)
next
  case False
  then obtain u where u: "newSock net s = Ret () u" "s' = u" "ok \<longrightarrow> isValid (fst u)" using assms by (auto simp: prepare_def obind_Ret_iff)
  then show ?thesis using newSock_keeps [OF u(1)] False by (auto simp: isValid_def)
qed

lemma connect_keeps:
  assumes "sock_connect net th addr timeout_ms s = Ret ok s'"
  shows "\<exists>fd x. fst s' = (fst s)\<lparr>sk_socket := fd, sk_remoteAddr := Some addr, sk_localAddr := x, sk_isConnected := ok \<or> sk_isConnected (fst s)\<rparr> \<and>
    (ok \<longrightarrow> fd \<noteq> -1) \<and> (sk_socket (fst s) \<noteq> -1 \<longrightarrow> fd = sk_socket (fst s))"
proof -
  obtain good s1 where p: "prepare net addr ((fst s)\<lparr>sk_remoteAddr := Some addr\<rparr>, snd s) = Ret good s1"
    using assms by (auto simp: sock_connect_def obind_Ret_iff)
  obtain fd where fd: "fst s1 = (fst s)\<lparr>sk_remoteAddr := Some addr, sk_socket := fd\<rparr>" "good \<longrightarrow> fd \<noteq> -1" "sk_socket (fst s) \<noteq> -1 \<longrightarrow> fd = sk_socket (fst s)"
    using prepare_keeps [OF p] by auto
  show ?thesis
  proof (cases good)
    case True
    then obtain rt sk hs where c: "on_hook (connect_call net th (sk_socket (fst s1)) addr timeout_ms) s1 = Ret rt (sk, hs)"
        "(if rt \<noteq> 0 then Ret False (sk, hs) else obind (getRemoteAddress net (sk\<lparr>sk_isConnected := True\<rparr>, hs)) (\<lambda>_ s.
           obind (getLocalAddress net s) (\<lambda>_. Ret True))) = Ret ok s'"
      using assms p by (auto simp: sock_connect_def obind_Ret_iff)
    have sk: "sk = fst s1" using on_hook_Ret [OF c(1)] by simp
    show ?thesis
    proof (cases "rt = 0")
      case True
      then obtain a2 where g: "ok" "getLocalAddress net (sk\<lparr>sk_isConnected := True\<rparr>, hs) = Ret a2 s'"
        using c(2) sk fd(1) by (auto simp: getRemoteAddress.simps obind_Ret_iff)
      obtain x where "fst s' = sk\<lparr>sk_isConnected := True, sk_localAddr := x\<rparr>" using addresses_keep(2) [OF g(2)] by auto
      then show ?thesis using fd sk g(1) \<open>good\<close> by (intro exI [of _ fd] exI [of _ x]) auto
    qed (use c(2) sk fd in \<open>intro exI [of _ fd] exI [of _ "sk_localAddr (fst s)"]; auto\<close>)
  next
    case False
    then have "\<not> ok" "s' = s1" using assms p by (auto simp: sock_connect_def)
    then show ?thesis using fd by (intro exI [of _ fd] exI [of _ "sk_localAddr (fst s)"]) auto
  qed
qed

lemma bind_keeps:
  assumes "sock_bind net th addr s = Ret ok s'"
  shows "\<exists>fd. fst s' = (fst s)\<lparr>sk_socket := fd, sk_localAddr := Some addr\<rparr> \<and> (ok \<longrightarrow> fd \<noteq> -1) \<and> (sk_socket (fst s) \<noteq> -1 \<longrightarrow> fd = sk_socket (fst s))"
proof -
  obtain good s1 where p: "prepare net addr ((fst s)\<lparr>sk_localAddr := Some addr\<rparr>, snd s) = Ret good s1"
    using assms by (auto simp: sock_bind_def obind_Ret_iff)
  obtain fd where fd: "fst s1 = (fst s)\<lparr>sk_localAddr := Some addr, sk_socket := fd\<rparr>" "good \<longrightarrow> fd \<noteq> -1" "sk_socket (fst s) \<noteq> -1 \<longrightarrow> fd = sk_socket (fst s)"
    using prepare_keeps [OF p] by auto
  have local: "fst s3 = fst s2" if "getLocalAddress net s2 = Ret a s3" "sk_localAddr (fst s2) = Some addr" for a s2 s3
    using that by (cases s2) (auto simp: getLocalAddress.simps)
  have "fst s' = fst s1 \<and> (ok \<longrightarrow> good)"
  proof (cases good)
    case True
    then obtain used s2 where u: "(case addr of UnixAddress u \<Rightarrow> on_hook (probe_unix net th u) s1 | _ \<Rightarrow> Ret False s1) = Ret used s2"
      using assms p by (auto simp: sock_bind_def obind_Ret_iff)
    have s2: "fst s2 = fst s1" using u by (auto split: address.splits dest: on_hook_Ret)
    show ?thesis
      using assms p True u s2 fd(1) by (auto simp: sock_bind_def obind_Ret_iff split: if_splits dest!: on_hook_Ret dest: local)
  qed (use assms p in \<open>auto simp: sock_bind_def\<close>)
  then show ?thesis using fd by (intro exI [of _ fd]) auto
qed

lemma init_keeps:
  assumes "sock_init net fd s = Ret ok s'"
  shows "if ok then fd \<noteq> -1 \<and> sk_socket (fst s') = fd \<and> sk_isConnected (fst s') else fst s' = fst s"
proof -
  obtain p sk hs where p: "on_hook (hook_get fd False) s = Ret p (sk, hs)" using assms by (auto simp: sock_init_def obind_Ret_iff)
  have sk: "sk = fst s" using on_hook_Ret [OF p] by simp
  have "p = None" if "fd = -1" using p that by (cases s) (auto simp: on_hook.simps hook_get_def fd_get_def get_lookup_def)
  then show ?thesis
    using assms p sk by (auto simp: sock_init_def obind_Ret_iff Let_def split: option.splits if_splits dest!: initSock_keeps addresses_keep)
qed

section \<open>Properties\<close>

text \<open>C30. A socket that says it is connected has a descriptor: every operation keeps this, a client that \<open>accept\<close> returns has it, a
  successful \<open>connect\<close> and \<open>bind\<close> leave a valid descriptor and the address they were given, and no operation but \<open>close\<close> changes a
  valid descriptor.\<close>

theorem socket_ops_inv:
  assumes "sock_ok sk"
  shows "(\<forall>ok s'. sock_connect net th addr t (sk, hs) = Ret ok s' \<longrightarrow> sock_ok (fst s') \<and>
      (ok \<longrightarrow> sk_isConnected (fst s') \<and> sk_remoteAddr (fst s') = Some addr) \<and> (isValid sk \<longrightarrow> sk_socket (fst s') = sk_socket sk)) \<and>
    (\<forall>ok s'. sock_reconnect net th t (sk, hs) = Ret ok s' \<longrightarrow> sock_ok (fst s') \<and> (isValid sk \<longrightarrow> sk_socket (fst s') = sk_socket sk)) \<and>
    (\<forall>ok s'. sock_bind net th addr (sk, hs) = Ret ok s' \<longrightarrow> sock_ok (fst s') \<and>
      (ok \<longrightarrow> isValid (fst s') \<and> sk_localAddr (fst s') = Some addr) \<and> (isValid sk \<longrightarrow> sk_socket (fst s') = sk_socket sk)) \<and>
    (\<forall>ok s'. sock_listen net backlog (sk, hs) = Ret ok s' \<longrightarrow> fst s' = sk) \<and>
    (\<forall>client s'. sock_accept net th (sk, hs) = Ret client s' \<longrightarrow> fst s' = sk \<and> (\<forall>c. client = Some c \<longrightarrow> sk_isConnected c \<and> isValid c)) \<and>
    (\<forall>ok s'. sock_close net th (sk, hs) = Ret ok s' \<longrightarrow> \<not> isValid (fst s') \<and> \<not> sk_isConnected (fst s'))"
proof (intro conjI)
  show "\<forall>ok s'. sock_connect net th addr t (sk, hs) = Ret ok s' \<longrightarrow> sock_ok (fst s') \<and>
      (ok \<longrightarrow> sk_isConnected (fst s') \<and> sk_remoteAddr (fst s') = Some addr) \<and> (isValid sk \<longrightarrow> sk_socket (fst s') = sk_socket sk)"
    using assms by (auto simp: sock_ok_def isValid_def dest!: connect_keeps)
  show "\<forall>ok s'. sock_reconnect net th t (sk, hs) = Ret ok s' \<longrightarrow> sock_ok (fst s') \<and> (isValid sk \<longrightarrow> sk_socket (fst s') = sk_socket sk)"
    using assms by (auto simp: sock_ok_def isValid_def split: option.splits dest!: connect_keeps)
  show "\<forall>ok s'. sock_bind net th addr (sk, hs) = Ret ok s' \<longrightarrow> sock_ok (fst s') \<and>
      (ok \<longrightarrow> isValid (fst s') \<and> sk_localAddr (fst s') = Some addr) \<and> (isValid sk \<longrightarrow> sk_socket (fst s') = sk_socket sk)"
    using assms by (auto simp: sock_ok_def isValid_def dest!: bind_keeps)
  show "\<forall>ok s'. sock_listen net backlog (sk, hs) = Ret ok s' \<longrightarrow> fst s' = sk"
    by (auto simp: sock_listen_def obind_Ret_iff split: if_splits dest!: on_hook_Ret)
  show "\<forall>client s'. sock_accept net th (sk, hs) = Ret client s' \<longrightarrow> fst s' = sk \<and> (\<forall>c. client = Some c \<longrightarrow> sk_isConnected c \<and> isValid c)"
    by (auto simp: isValid_def split: outcome.splits if_splits dest!: init_keeps)
  show "\<forall>ok s'. sock_close net th (sk, hs) = Ret ok s' \<longrightarrow> \<not> isValid (fst s') \<and> \<not> sk_isConnected (fst s')"
    by (auto simp: isValid_def obind_Ret_iff Let_def split: if_splits dest: on_hook_Ret)
qed

definition demo_net :: "nat net" where
  "demo_net = \<lparr>n_socket = (\<lambda>_ _ _ e w. (3, e, w)), n_setsockopt = (\<lambda>_ _ _ _ e w. (0, e, w)), n_getsockopt = (\<lambda>_ _ _ w. (0, 0, w)),
     n_accept = (\<lambda>_ e w. (3, e, w)), n_bind = (\<lambda>_ _ _ e w. (0, e, w)), n_connect = (\<lambda>_ _ _ e w. (0, e, w)), n_listen = (\<lambda>_ _ e w. (0, e, w)),
     n_close = (\<lambda>_ e w. (0, e, Suc w)), n_send = (\<lambda>_ bs _ e w. (int (length bs), e, w)), n_sendto = (\<lambda>_ bs _ _ _ e w. (int (length bs), e, w)),
     n_sendmsg = (\<lambda>_ bss _ _ e w. (int (length (concat bss)), e, w)), n_recv = (\<lambda>_ n _ e w. (int (min 1 n), e, w)),
     n_recvfrom = (\<lambda>_ n _ _ e w. (int (min 1 n), e, w)), n_recvmsg = (\<lambda>_ _ _ _ e w. (1, e, w)), n_data = (\<lambda>_. [7]),
     n_getpeername = (\<lambda>_ a w. Some (a, 16)), n_getsockname = (\<lambda>_ a w. Some (a, 16)), n_unlink = (\<lambda>_ w. w), n_memory6 = new_IPv6Address_bytes (replicate 16 0) 0\<rparr>"

definition demo_thr :: "nat thr" where
  "demo_thr = \<lparr>th_fuel = 5, th_caller = \<lparr>c_cur = Some 1, c_fiber = 1, c_state = EXEC\<rparr>, th_ti = 0, th_pauses = [], th_connect = demo_pause,
     th_ctl = (\<lambda>_ _ _. True)\<rparr>"

definition demo_sock :: sock where
  "demo_sock = (new_Socket 2 1 0)\<lparr>sk_socket := 3\<rparr>"

lemma demo_ctx: "ctx_of 3 (h_fds demo_hook) = Some 0" "fd_inv (h_fds demo_hook)" "t_hook_enable demo_hook"
  by (auto simp: ctx_of_def fd_inv_def demo_hook_def nth_list_update split: if_splits)

theorem socket_ops_inv_witness:
  "\<exists>s'. sock_connect demo_net demo_thr (IPv4Address (new_IPv4Address 0 80)) 100 (demo_sock, demo_hook) = Ret True s' \<and> sk_isConnected (fst s')"
proof -
  let ?a = "IPv4Address (new_IPv4Address 0 80)"
  have "\<exists>s'. sock_connect demo_net demo_thr ?a 100 (demo_sock, demo_hook) = Ret True s'"
    by (simp add: sock_connect_def prepare_def isValid_def connect_call_def connect_with_timeout_def hook_get_look demo_ctx on_hook.simps
        getLocalAddress.simps getRemoteAddress.simps call_def demo_net_def demo_thr_def demo_sock_def new_Socket_def demo_hook_def
        getFamily_def new_IPv4Address_def AF_INET_def ctx_of_def Let_def)
  then show ?thesis using socket_ops_inv [of demo_sock demo_net demo_thr ?a 100 demo_hook 0] by (auto simp: sock_ok_def demo_sock_def new_Socket_def)
qed

lemma to_int32_fits: "\<bar>v\<bar> < 2 ^ 31 \<Longrightarrow> to_int32 v = v"
  by (auto simp: to_int32_def signed_of_int signed_take_bit_int_eq_self)

lemma timeval_exact:
  assumes "\<bar>t :: int\<bar> < 2 ^ 31 * 1000"
  shows "to_int32 (sgn t * (\<bar>t\<bar> div 1000)) * 1000 + to_int32 (sgn t * (\<bar>t\<bar> mod 1000) * 1000) div 1000 = t"
proof -
  have "\<bar>sgn t * (\<bar>t\<bar> div 1000)\<bar> < 2 ^ 31" using assms by (auto simp: sgn_if abs_mult)
  moreover have "\<bar>sgn t * (\<bar>t\<bar> mod 1000) * 1000\<bar> < 2 ^ 31" by (auto simp: sgn_if)
  moreover have "sgn t * (\<bar>t\<bar> div 1000) * 1000 + sgn t * (\<bar>t\<bar> mod 1000) = sgn t * \<bar>t\<bar>"
    by (metis (no_types) distrib_left div_mult_mod_eq mult.assoc)
  ultimately show ?thesis by (simp add: to_int32_fits sgn_mult_abs)
qed

text \<open>Timeouts: what is set is read back, for every number of milliseconds whose seconds fit an \<^verbatim>\<open>int\<close>, negative ones included; the
  socket's context is the one \<open>do_io\<close> reads.\<close>

theorem timeout_roundtrip:
  assumes "t_hook_enable hs" and "fd_inv (h_fds hs)" and "0 \<le> sk_socket sk" and "ctx_of (sk_socket sk) (h_fds hs) = Some p" and "\<bar>t\<bar> < 2 ^ 31 * 1000"
  shows "\<exists>s' s''. setRecvTimeout net t (sk, hs) = Ret () s' \<and> getRecvTimeout s' = Ret t s' \<and> fst s' = sk \<and>
    setSendTimeout net t (sk, hs) = Ret () s'' \<and> getSendTimeout s'' = Ret t s'' \<and> fst s'' = sk"
proof -
  have p: "p < length (fd_heap (h_fds hs))" using assms(2,4) by (auto simp: fd_inv_def ctx_of_def split: if_splits)
  have w: "sint (word_of_int (to_int32 (sgn t * (\<bar>t\<bar> div 1000)) * 1000 + to_int32 (sgn t * (\<bar>t\<bar> mod 1000) * 1000) div 1000) :: u64) = t"
    unfolding timeval_exact [OF assms(5)] using assms(5) by (auto simp: signed_of_int signed_take_bit_int_eq_self)
  define n where "n = to_int32 (sgn t * (\<bar>t\<bar> div 1000)) * 1000 + to_int32 (sgn t * (\<bar>t\<bar> mod 1000) * 1000) div 1000"
  have set: "\<exists>e v. set_timeout net option t (sk, hs) =
      Ret () (sk, (put_ctx p (setTimeOut option (word_of_int n) (fd_heap (h_fds hs) ! p)) hs)\<lparr>h_errno := e, h_world := v\<rparr>)"
    if "option = SO_RCVTIMEO \<or> option = SO_SNDTIMEO" for option
    using assms(1,3,4) that
    by (auto simp: set_timeout_def setOption_def hook_setsockopt_timeo_def hook_get_look on_hook.simps call_def n_def split: prod.splits)
  have get: "get_timeout option (sk, (put_ctx p (setTimeOut option (word_of_int n) (fd_heap (h_fds hs) ! p)) hs)\<lparr>h_errno := e, h_world := v\<rparr>) =
      Ret t (sk, (put_ctx p (setTimeOut option (word_of_int n) (fd_heap (h_fds hs) ! p)) hs)\<lparr>h_errno := e, h_world := v\<rparr>)" for option e v
    using assms(3,4) p w [folded n_def]
    by (auto simp: get_timeout_def hook_get_look on_hook.simps put_ctx_def setTimeOut_def getTimeOut_def ctx_of_def split: if_splits)
  show ?thesis
    using set [of SO_RCVTIMEO] set [of SO_SNDTIMEO] get
    unfolding setRecvTimeout_def setSendTimeout_def getRecvTimeout_def getSendTimeout_def by fastforce
qed

theorem timeout_roundtrip_witness:
  "\<exists>s'. setRecvTimeout demo_net (-1500) (demo_sock, demo_hook) = Ret () s' \<and> getRecvTimeout s' = Ret (-1500) s'"
  using timeout_roundtrip [of demo_hook demo_sock 0 "-1500" demo_net] demo_ctx by (auto simp: demo_sock_def)

lemma cancelAll_quiet:
  assumes "io_inv w" and "i < length (m_fdContexts w)" and "\<forall>op e. ctl op i e"
  shows "\<exists>b w'. cancelAll ctl (int i) w = Ret b w' \<and> io_inv w' \<and> fc_events (m_fdContexts w' ! i) = 0 \<and>
    (\<forall>j. j \<noteq> i \<longrightarrow> m_fdContexts w' ! j = m_fdContexts w ! j)"
proof (cases "fc_events (m_fdContexts w ! i) = 0")
  case True
  then show ?thesis using assms(1,2) by (auto simp: cancelAll_def)
next
  case False
  then show ?thesis using cancelAll_ok [where ctl = ctl, OF assms(1,2) False assms(3)] by blast
qed



text \<open>A datagram socket is marked connected even when no descriptor could be made.\<close>

theorem udp_connected_without_descriptor:
  assumes "n_socket net 2 2 0 (h_errno hs) (h_world hs) = (-1, e, w)"
  shows "CreateUDPSocket net hs = Ret () ((new_Socket 2 2 0)\<lparr>sk_isConnected := True\<rparr>, hs\<lparr>h_errno := e, h_world := w\<rparr>)"
  using assms by (simp add: CreateUDPSocket_def create_udp_def newSock_def new_Socket_def AF_INET_def SOCK_DGRAM_def hook_socket_def call_def on_hook.simps)

text \<open>Sending several buffers over TLS: when a later buffer fails, the result is the failure although the earlier buffers were sent.\<close>

theorem ssl_partial_send_lost:
  assumes "b \<noteq> []" and "l_write lib ssl b hs = (int (length b), hs1)" and "l_write lib ssl c hs1 = (n, hs2)" and "n \<le> 0" and "sl_ssl sl = Some ssl"
  shows "ssl_send_iov lib [b, c] (sl, hs) = Ret n (sl, hs2)"
  using assms by simp

end
