(* ===== verification/SocketStream.thy ===== *)
theory SocketStream
  imports Sockets ByteArray_Props HttpSession
begin

text \<open>
  \<^verbatim>\<open>src/cxk/stream/socket_stream.cpp\<close>: a stream over a socket, for raw buffers and for a \<^verbatim>\<open>ByteArray\<close>, whose blocks are handed to the
  system as \<^verbatim>\<open>iovec\<close>s. A connected socket is a reader and a writer in the sense of \<open>StreamIO\<close>, so that what is proved of
  protocols over such streams holds over sockets.
\<close>

section \<open>Operations\<close>

record sock_stream =
  st_socket :: "sock option"
  st_owner :: bool

type_synonym ('w, 'a) stream_op = "sock_stream \<times> 'w hook \<Rightarrow> (sock_stream \<times> 'w hook, 'a) outcome"

definition new_SocketStream :: "sock option \<Rightarrow> bool \<Rightarrow> sock_stream" where
  "new_SocketStream socket owner = \<lparr>st_socket = socket, st_owner = owner\<rparr>"

definition stream_isConnected :: "sock_stream \<Rightarrow> bool" where
  "stream_isConnected sm = (case st_socket sm of None \<Rightarrow> False | Some sk \<Rightarrow> sk_isConnected sk)"

fun on_socket :: "('w, 'a) sock_op \<Rightarrow> ('w, 'a) stream_op" where
  "on_socket f (sm, hs) =
     (case st_socket sm of
        None \<Rightarrow> Undef NullDeref
      | Some sk \<Rightarrow> (case f (sk, hs) of
          Ret a (sk, hs) \<Rightarrow> Ret a (sm\<lparr>st_socket := Some sk\<rparr>, hs) | Throw e (sk, hs) \<Rightarrow> Throw e (sm\<lparr>st_socket := Some sk\<rparr>, hs) | Undef u \<Rightarrow> Undef u))"

definition stream_read :: "'w net \<Rightarrow> 'w thr \<Rightarrow> nat \<Rightarrow> ('w, int \<times> u8 list) stream_op" where
  "stream_read net th len s = (if \<not> stream_isConnected (fst s) then Ret (-1, []) s else on_socket (sock_recv net th len 0) s)"

definition stream_write :: "'w net \<Rightarrow> 'w thr \<Rightarrow> u8 list \<Rightarrow> ('w, int) stream_op" where
  "stream_write net th buffer s = (if \<not> stream_isConnected (fst s) then Ret (-1) s else on_socket (sock_send net th buffer 0) s)"

fun stream_close :: "'w net \<Rightarrow> 'w thr \<Rightarrow> ('w, unit) stream_op" where
  "stream_close net th (sm, hs) = (if st_socket sm = None then Ret () (sm, hs) else obind (on_socket (sock_close net th) (sm, hs)) (\<lambda>_. Ret ()))"

text \<open>The destructor.\<close>

definition stream_destroy :: "'w net \<Rightarrow> 'w thr \<Rightarrow> ('w, unit) stream_op" where
  "stream_destroy net th s = (if st_owner (fst s) then stream_close net th s else Ret () s)"

text \<open>What the system stores through the \<^verbatim>\<open>iovec\<close>s: the bytes in order, each buffer filled before the next.\<close>

fun scatter :: "iovec list \<Rightarrow> u8 list \<Rightarrow> u8 list list \<Rightarrow> u8 list list" where
  "scatter [] bs nodes = nodes"
| "scatter (v # vs) bs nodes =
     scatter vs (drop (iov_len v) bs) (nodes[iov_node v := overwrite (iov_off v) (take (iov_len v) bs) (nodes ! iov_node v)])"

text \<open>The state of the overloads is the byte array with the stream; an exception of the byte array leaves the stream as it is then.
  \<^verbatim>\<open>&iovs[0]\<close> of an empty vector is undefined.\<close>

definition on_array :: "(bytearray, 'a) outcome \<Rightarrow> 's \<Rightarrow> (bytearray \<times> 's, 'a) outcome" where
  "on_array r s = (case r of Ret a ba \<Rightarrow> Ret a (ba, s) | Throw e ba \<Rightarrow> Throw e (ba, s) | Undef u \<Rightarrow> Undef u)"

definition on_stream :: "('s, 'a) outcome \<Rightarrow> bytearray \<Rightarrow> (bytearray \<times> 's, 'a) outcome" where
  "on_stream r ba = (case r of Ret a s \<Rightarrow> Ret a (ba, s) | Throw e s \<Rightarrow> Throw e (ba, s) | Undef u \<Rightarrow> Undef u)"

definition advance :: "int \<Rightarrow> bytearray \<times> 's \<Rightarrow> (bytearray \<times> 's, int) outcome" where
  "advance rt bs = (case bs of (ba, s) \<Rightarrow>
     if rt > 0 then obind (on_array (setPosition (m_position ba + nat rt) ba) s) (\<lambda>_. Ret rt) else Ret rt (ba, s))"

definition stream_read_ba :: "'w net \<Rightarrow> 'w thr \<Rightarrow> nat \<Rightarrow> bytearray \<Rightarrow> sock_stream \<times> 'w hook \<Rightarrow> (bytearray \<times> sock_stream \<times> 'w hook, int) outcome" where
  "stream_read_ba net th len ba s =
     (if \<not> stream_isConnected (fst s) then Ret (-1) (ba, s)
      else obind (on_array (getWriteBuffers len ba) s) (\<lambda>(_, iovs) (ba, s).
        if iovs = [] then Undef OutOfBounds
        else obind (on_stream (on_socket (sock_recv_iov net th (map iov_len iovs) 0) s) ba) (\<lambda>(rt, bs) (ba, s).
          advance rt (ba\<lparr>m_nodes := scatter iovs bs (m_nodes ba)\<rparr>, s))))"

definition stream_write_ba :: "'w net \<Rightarrow> 'w thr \<Rightarrow> nat \<Rightarrow> bytearray \<Rightarrow> sock_stream \<times> 'w hook \<Rightarrow> (bytearray \<times> sock_stream \<times> 'w hook, int) outcome" where
  "stream_write_ba net th len ba s =
     (if \<not> stream_isConnected (fst s) then Ret (-1) (ba, s)
      else obind (on_array (getReadBuffers len ba) s) (\<lambda>(_, iovs) (ba, s).
        if iovs = [] then Undef OutOfBounds
        else obind (on_stream (on_socket (sock_send_iov net th
          (map (\<lambda>v. seg (iov_off v) (iov_len v) (m_nodes ba ! iov_node v)) iovs) 0) s) ba) advance))"

section \<open>A socket as a reader and a writer\<close>

text \<open>A hooked call on a descriptor that is open, when the system function does not report an error, is that function.\<close>

definition usable :: "int \<Rightarrow> 'w hook \<Rightarrow> bool" where
  "usable fd hs \<longleftrightarrow> t_hook_enable hs \<longrightarrow> 0 \<le> fd \<and> (\<forall>p. ctx_of fd (h_fds hs) = Some p \<longrightarrow> \<not> m_isClosed (fd_heap (h_fds hs) ! p))"

lemma do_io_ready:
  assumes "usable fd hs" and "fn (h_errno hs) (h_world hs) = (n, e, w)" and "n \<noteq> -1" and "0 < fuel"
  shows "\<exists>hs'. do_io fuel th fd fn event so ti es hs = Ret n hs' \<and> h_world hs' = w"
proof -
  obtain k where k: "fuel = Suc k" using assms(4) by (cases fuel) auto
  have l: "\<exists>hs'. io_loop fuel th fd fn event t ti es (hs\<lparr>h_cancelled := f\<rparr>) = Ret n hs' \<and> h_world hs' = w" for t f
    using assms(2,3) by (simp add: io_loop.simps k call_def)
  have c: "\<exists>hs'. call fn hs = (n, hs') \<and> h_world hs' = w" using assms(2) by (simp add: call_def)
  have g: "fd_get fd False (h_fds hs) = Ret (ctx_of fd (h_fds hs)) (h_fds hs)" if "t_hook_enable hs"
    using assms(1) that by (simp add: usable_def fd_get_def get_lookup_cases)
  show ?thesis
  proof (cases "t_hook_enable hs")
    case True
    then show ?thesis using assms(1) c l g
      by (cases "ctx_of fd (h_fds hs)") (auto simp: do_io_def usable_def Let_def)
  qed (use c in \<open>auto simp: do_io_def\<close>)
qed

text \<open>What the system promises of \<^verbatim>\<open>recv\<close> and \<^verbatim>\<open>send\<close>: some of the pending bytes, at least one, and zero at the end; some of the given
  bytes, at least one, are accepted.\<close>

definition kernel_recv :: "'w net \<Rightarrow> int \<Rightarrow> ('w \<Rightarrow> u8 list) \<Rightarrow> bool" where
  "kernel_recv net fd pending \<longleftrightarrow> (\<forall>n e w. 0 < n \<longrightarrow> (case n_recv net fd n 0 e w of (len, e', w') \<Rightarrow>
     if pending w = [] then len = 0
     else 0 < len \<and> len \<le> int n \<and> nat len \<le> length (pending w) \<and> take (nat len) (n_data net w') = take (nat len) (pending w) \<and>
       pending w' = drop (nat len) (pending w)))"

definition kernel_send :: "'w net \<Rightarrow> int \<Rightarrow> ('w \<Rightarrow> u8 list) \<Rightarrow> bool" where
  "kernel_send net fd sent \<longleftrightarrow> (\<forall>bs e w. bs \<noteq> [] \<longrightarrow> (case n_send net fd bs 0 e w of (len, e', w') \<Rightarrow>
     0 < len \<and> len \<le> int (length bs) \<and> sent w' = sent w @ take (nat len) bs))"

text \<open>The stream as a function of the world: every other part of the state is as at the beginning of each call.\<close>

definition socket_reader :: "'w net \<Rightarrow> 'w thr \<Rightarrow> sock_stream \<Rightarrow> 'w hook \<Rightarrow> 'w \<Rightarrow> nat \<Rightarrow> int \<times> u8 list \<times> 'w" where
  "socket_reader net th sm hs w n =
     (case stream_read net th n (sm, hs\<lparr>h_world := w\<rparr>) of Ret (len, bs) (_, hs) \<Rightarrow> (len, bs, h_world hs) | _ \<Rightarrow> (-1, [], w))"

definition socket_writer :: "'w net \<Rightarrow> 'w thr \<Rightarrow> sock_stream \<Rightarrow> 'w hook \<Rightarrow> 'w \<Rightarrow> u8 list \<Rightarrow> int \<times> 'w" where
  "socket_writer net th sm hs w bs =
     (case stream_write net th bs (sm, hs\<lparr>h_world := w\<rparr>) of Ret len (_, hs) \<Rightarrow> (len, h_world hs) | _ \<Rightarrow> (-1, w))"

definition open_stream :: "'w thr \<Rightarrow> int \<Rightarrow> sock_stream \<Rightarrow> 'w hook \<Rightarrow> bool" where
  "open_stream th fd sm hs \<longleftrightarrow> (\<exists>sk. st_socket sm = Some sk \<and> sk_isConnected sk \<and> sk_socket sk = fd) \<and> usable fd hs \<and> 0 < th_fuel th"

lemma open_streamE:
  assumes "open_stream th fd sm hs"
  obtains sk where "st_socket sm = Some sk" "sk_isConnected sk" "sk_socket sk = fd" "usable fd hs" "0 < th_fuel th" "stream_isConnected sm"
  using assms by (auto simp: open_stream_def stream_isConnected_def)

lemma usable_world [simp]: "usable fd (hs\<lparr>h_world := w\<rparr>) = usable fd hs"
  by (simp add: usable_def)

lemma do_io_world:
  assumes "usable fd hs" and "fn (h_errno hs) w = (n, e, w')" and "n \<noteq> -1" and "0 < fuel"
  shows "\<exists>hs'. do_io fuel th fd fn event so ti es (hs\<lparr>h_world := w\<rparr>) = Ret n hs' \<and> h_world hs' = w'"
  by (rule do_io_ready [of _ _ _ _ e]) (use assms in simp_all)

lemma socket_reader_good:
  assumes "open_stream th fd sm hs" and "kernel_recv net fd pending"
  shows "good_reader (socket_reader net th sm hs) pending"
  unfolding good_reader_def
proof (intro allI impI)
  fix w n
  assume n: "0 < (n :: nat)"
  obtain sk where sk: "st_socket sm = Some sk" "sk_isConnected sk" "sk_socket sk = fd" "usable fd hs" "0 < th_fuel th" "stream_isConnected sm"
    by (rule open_streamE [OF assms(1)])
  obtain len e' w' where r: "n_recv net fd n 0 (h_errno hs) w = (len, e', w')" by (metis prod_cases3)
  note k = assms(2) [unfolded kernel_recv_def, rule_format, OF n, of w "h_errno hs", unfolded r, simplified]
  have "0 \<le> len" using k by (auto split: if_splits)
  then have "len \<noteq> -1" by simp
  then obtain hs' where h: "do_io (th_fuel th) (th_caller th) fd (n_recv net fd n 0) READ SO_RCVTIMEO (th_ti th) (th_pauses th) (hs\<lparr>h_world := w\<rparr>) = Ret len hs'"
      "h_world hs' = w'"
    using do_io_world [where fn = "n_recv net fd n 0", OF sk(4) r _ sk(5)] by blast
  have "socket_reader net th sm hs w n = (len, if 0 < len then take (nat len) (n_data net w') else [], w')"
    using sk h by (simp add: socket_reader_def stream_read_def sock_recv_def sk_read_def hook_read_def on_hook.simps)
  then show "case socket_reader net th sm hs w n of (len, bs, s') \<Rightarrow> if pending w = [] then len \<le> 0
      else 0 < len \<and> len \<le> int n \<and> nat len \<le> length (pending w) \<and> bs = take (nat len) (pending w) \<and> pending s' = drop (nat len) (pending w)"
    using k by (auto split: if_splits)
qed

lemma socket_writer_good:
  assumes "open_stream th fd sm hs" and "kernel_send net fd sent"
  shows "good_writer (socket_writer net th sm hs) sent"
  unfolding good_writer_def
proof (intro allI impI)
  fix w bs
  assume n: "(bs :: u8 list) \<noteq> []"
  obtain sk where sk: "st_socket sm = Some sk" "sk_isConnected sk" "sk_socket sk = fd" "usable fd hs" "0 < th_fuel th" "stream_isConnected sm"
    by (rule open_streamE [OF assms(1)])
  obtain len e' w' where r: "n_send net fd bs 0 (h_errno hs) w = (len, e', w')" by (metis prod_cases3)
  note k = assms(2) [unfolded kernel_send_def, rule_format, OF n, of w "h_errno hs", unfolded r, simplified]
  have "len \<noteq> -1" using k by simp
  then obtain hs' where h: "do_io (th_fuel th) (th_caller th) fd (n_send net fd bs 0) WRITE SO_SNDTIMEO (th_ti th) (th_pauses th) (hs\<lparr>h_world := w\<rparr>) = Ret len hs'"
      "h_world hs' = w'"
    using do_io_world [where fn = "n_send net fd bs 0", OF sk(4) r _ sk(5)] by blast
  have "socket_writer net th sm hs w bs = (len, w')"
    using sk h by (simp add: socket_writer_def stream_write_def sock_send_def sk_write_def hook_write_def on_hook.simps)
  then show "case socket_writer net th sm hs w bs of (len, s') \<Rightarrow> 0 < len \<and> len \<le> int (length bs) \<and> sent s' = sent w @ take (nat len) bs"
    using k by simp
qed

section \<open>Properties\<close>


text \<open>A world for the witnesses: the bytes to be received, those sent, and the buffer of the last receiving call.\<close>

record wire =
  wi_pending :: "u8 list"
  wi_sent :: "u8 list"
  wi_data :: "u8 list"

definition wire_recv :: "nat \<Rightarrow> wire origin" where
  "wire_recv n e w = (let k = min n (length (wi_pending w)) in
     (int k, e, w\<lparr>wi_pending := drop k (wi_pending w), wi_data := take k (wi_pending w)\<rparr>))"

definition wire_send :: "u8 list \<Rightarrow> wire origin" where
  "wire_send bs e w = (int (length bs), e, w\<lparr>wi_sent := wi_sent w @ bs\<rparr>)"

definition wire_net :: "wire net" where
  "wire_net = \<lparr>n_socket = (\<lambda>_ _ _ e w. (3, e, w)), n_setsockopt = (\<lambda>_ _ _ _ e w. (0, e, w)), n_getsockopt = (\<lambda>_ _ _ w. (0, 0, w)),
     n_accept = (\<lambda>_ e w. (3, e, w)), n_bind = (\<lambda>_ _ _ e w. (0, e, w)), n_connect = (\<lambda>_ _ _ e w. (0, e, w)), n_listen = (\<lambda>_ _ e w. (0, e, w)),
     n_close = (\<lambda>_ e w. (0, e, w)), n_send = (\<lambda>_ bs _. wire_send bs), n_sendto = (\<lambda>_ bs _ _ _. wire_send bs),
     n_sendmsg = (\<lambda>_ bss _ _. wire_send (concat bss)), n_recv = (\<lambda>_ n _. wire_recv n),
     n_recvfrom = (\<lambda>_ n _ _. wire_recv n), n_recvmsg = (\<lambda>_ ns _ _. wire_recv (sum_list ns)), n_data = wi_data,
     n_getpeername = (\<lambda>_ a w. Some (a, 16)), n_getsockname = (\<lambda>_ a w. Some (a, 16)), n_unlink = (\<lambda>_ w. w),
     n_memory6 = new_IPv6Address_bytes (replicate 16 0) 0\<rparr>"

definition wire_hook :: "u8 list \<Rightarrow> wire hook" where
  "wire_hook bs = \<lparr>t_hook_enable = True, h_fds = h_fds demo_hook, h_iom = None, h_cancelled = (\<lambda>_. 0), h_errno = 0, s_connect_timeout = 5000,
     h_world = \<lparr>wi_pending = bs, wi_sent = [], wi_data = []\<rparr>\<rparr>"

definition wire_thr :: "wire thr" where
  "wire_thr = \<lparr>th_fuel = 1, th_caller = \<lparr>c_cur = Some 1, c_fiber = 1, c_state = EXEC\<rparr>, th_ti = 0, th_pauses = [],
     th_connect = \<lparr>p_now = 0, p_addr = (\<lambda>_. 0), p_ctl = (\<lambda>_ _ _. True), p_during = (\<lambda>hs. hs)\<rparr>, th_ctl = (\<lambda>_ _ _. True)\<rparr>"

definition wire_stream :: sock_stream where
  "wire_stream = new_SocketStream (Some (demo_sock\<lparr>sk_isConnected := True\<rparr>)) True"

lemma wire_open: "open_stream wire_thr 3 wire_stream (wire_hook bs)"
  using demo_ctx(1)
  by (auto simp: open_stream_def usable_def wire_stream_def new_SocketStream_def demo_sock_def wire_thr_def wire_hook_def demo_hook_def)

lemma wire_kernel: "kernel_recv wire_net 3 wi_pending" "kernel_send wire_net 3 wi_sent"
  by (auto simp: kernel_recv_def kernel_send_def wire_net_def wire_recv_def wire_send_def Let_def min_def)


section \<open>Byte arrays over sockets\<close>

lemma scatter_loop:
  assumes "blocks (m_baseSize ba) (m_nodes ba)" and "i < length (m_nodes ba)" and "npos < m_baseSize ba" and "npos + ncap = m_baseSize ba"
    and "i * m_baseSize ba + npos + len \<le> length (m_nodes ba) * m_baseSize ba"
  shows "\<exists>bufs. iov_loop (Some i) npos ncap len acc ba = Ret (acc @ bufs) ba \<and> sum_list (map iov_len bufs) = len \<and>
    (\<forall>bs nodes. blocks (m_baseSize ba) nodes \<and> length nodes = length (m_nodes ba) \<and> length bs \<le> len \<longrightarrow>
       blocks (m_baseSize ba) (scatter bufs bs nodes) \<and> length (scatter bufs bs nodes) = length nodes \<and>
       concat (scatter bufs bs nodes) = overwrite (i * m_baseSize ba + npos) bs (concat nodes))"
  using assms
proof (induction len arbitrary: i npos ncap acc rule: less_induct)
  case (less len)
  let ?b = "m_baseSize ba"
  have node: "node_size ba j = ?b" if "j < length (m_nodes ba)" for j
    using less.prems(1) that by (simp add: node_size_def blocks_def)
  have step: "blocks ?b (nodes[i := overwrite npos xs (nodes ! i)])" "concat (nodes[i := overwrite npos xs (nodes ! i)]) = overwrite (i * ?b + npos) xs (concat nodes)"
    if "blocks ?b nodes" "length nodes = length (m_nodes ba)" "length xs \<le> ncap" for nodes and xs :: "u8 list"
    using concat_update_overwrite [OF that(1), of i npos xs] blocks_update [OF that(1)] blocks_nth [OF that(1), of i] less.prems(2,4) that(2,3)
    by (simp_all add: overwrite_def)
  consider "len = 0" | "0 < len" "len \<le> ncap" | "ncap < len" by linarith
  then show ?case
  proof cases
    case 1
    then show ?thesis by (auto simp: iov_loop.simps [of "Some i"] overwrite_def intro!: exI [of _ "[]"])
  next
    case 2
    then show ?thesis using step by (auto simp: iov_loop.simps [of "Some i"])
  next
    case 3
    have "Suc i * ?b < length (m_nodes ba) * ?b" using less.prems(4,5) 3 by simp
    then have j: "Suc i < length (m_nodes ba)" by (simp only: mult_less_cancel2)
    let ?v = "\<lparr>iov_node = i, iov_off = npos, iov_len = ncap\<rparr>"
    have "\<exists>bufs. iov_loop (Some (Suc i)) 0 ?b (len - ncap) (acc @ [?v]) ba = Ret ((acc @ [?v]) @ bufs) ba \<and> sum_list (map iov_len bufs) = len - ncap \<and>
        (\<forall>bs nodes. blocks ?b nodes \<and> length nodes = length (m_nodes ba) \<and> length bs \<le> len - ncap \<longrightarrow>
          blocks ?b (scatter bufs bs nodes) \<and> length (scatter bufs bs nodes) = length nodes \<and>
          concat (scatter bufs bs nodes) = overwrite (Suc i * ?b + 0) bs (concat nodes))"
      by (rule less.IH) (use less.prems 3 j in auto)
    then obtain bufs where b: "iov_loop (Some (Suc i)) 0 ?b (len - ncap) (acc @ [?v]) ba = Ret ((acc @ [?v]) @ bufs) ba" "sum_list (map iov_len bufs) = len - ncap"
        "\<forall>bs nodes. blocks ?b nodes \<and> length nodes = length (m_nodes ba) \<and> length bs \<le> len - ncap \<longrightarrow>
          blocks ?b (scatter bufs bs nodes) \<and> length (scatter bufs bs nodes) = length nodes \<and>
          concat (scatter bufs bs nodes) = overwrite (Suc i * ?b) bs (concat nodes)"
      by auto
    have pos: "Suc i * ?b = i * ?b + npos + ncap" using less.prems(4) by simp
    have "blocks ?b (scatter (?v # bufs) bs nodes) \<and> length (scatter (?v # bufs) bs nodes) = length nodes \<and>
        concat (scatter (?v # bufs) bs nodes) = overwrite (i * ?b + npos) bs (concat nodes)"
      if n: "blocks ?b nodes" "length nodes = length (m_nodes ba)" "length bs \<le> len" for bs nodes
    proof -
      let ?m = "nodes[i := overwrite npos (take ncap bs) (nodes ! i)]"
      note s = step [OF n(1,2), of "take ncap bs", simplified]
      have r: "blocks ?b (scatter bufs (drop ncap bs) ?m)" "length (scatter bufs (drop ncap bs) ?m) = length nodes"
          "concat (scatter bufs (drop ncap bs) ?m) = overwrite (i * ?b + npos + ncap) (drop ncap bs) (overwrite (i * ?b + npos) (take ncap bs) (concat nodes))"
        using b(3) [rule_format, of ?m "drop ncap bs"] s n 3 unfolding pos by auto
      have "overwrite (i * ?b + npos + ncap) (drop ncap bs) (overwrite (i * ?b + npos) (take ncap bs) (concat nodes)) = overwrite (i * ?b + npos) bs (concat nodes)"
      proof (cases "ncap \<le> length bs")
        case True
        have "length (concat nodes) = length (m_nodes ba) * ?b" using length_concat_blocks [OF n(1)] n(2) by simp
        then show ?thesis
          using overwrite_append [of "i * ?b + npos" "take ncap bs" "drop ncap bs" "concat nodes"] True n(3) less.prems(5) by simp
      qed simp
      then show ?thesis using r by simp
    qed
    then show ?thesis
      using 3 b(1,2) j node [OF j] by (intro exI [of _ "?v # bufs"]) (simp add: iov_loop.simps [of "Some i"] next_node_def)
  qed
qed

lemma getWriteBuffers_ok:
  assumes "ba_inv ba" and "0 < n" and "m_position ba + n \<le> m_capacity ba"
  shows "\<exists>bufs. getWriteBuffers n ba = Ret (n, bufs) ba \<and> sum_list (map iov_len bufs) = n \<and>
    (\<forall>bs. length bs \<le> n \<longrightarrow> blocks (m_baseSize ba) (scatter bufs bs (m_nodes ba)) \<and> length (scatter bufs bs (m_nodes ba)) = length (m_nodes ba) \<and>
       concat (scatter bufs bs (m_nodes ba)) = overwrite (m_position ba) bs (flat ba))"
proof -
  let ?b = "m_baseSize ba"
  note inv = ba_invD [OF assms(1)] and st = ba_structD [OF ba_invD(1) [OF assms(1)]]
  have "m_position ba < length (m_nodes ba) * ?b" using st(4) assms(2,3) by linarith
  then have cur: "m_cur ba = Some (m_position ba div ?b)" and i: "m_position ba div ?b < length (m_nodes ba)"
    using st(6) by (simp_all add: cur_at_def less_mult_imp_div_less)
  have "n \<le> m_capacity ba - m_position ba" using assms(3) by linarith
  then have cap: "addCapacity n ba = Ret () ba" by (simp add: addCapacity_def getCapacity_def Let_def)
  obtain bufs where b: "iov_loop (Some (m_position ba div ?b)) (m_position ba mod ?b) (?b - m_position ba mod ?b) n [] ba = Ret ([] @ bufs) ba"
      "sum_list (map iov_len bufs) = n"
      "\<forall>bs nodes. blocks ?b nodes \<and> length nodes = length (m_nodes ba) \<and> length bs \<le> n \<longrightarrow>
        blocks ?b (scatter bufs bs nodes) \<and> length (scatter bufs bs nodes) = length nodes \<and>
        concat (scatter bufs bs nodes) = overwrite (m_position ba div ?b * ?b + m_position ba mod ?b) bs (concat nodes)"
    using scatter_loop [OF st(3) i, of "m_position ba mod ?b" "?b - m_position ba mod ?b" n "[]"] st assms(3) by auto
  have "getWriteBuffers n ba = Ret (n, bufs) ba"
    using assms(2) st(1) cur cap b(1) blocks_nth [OF st(3) i] by (auto simp: getWriteBuffers_def node_size_def Let_def)
  then show ?thesis using b(2,3) st(3) by (auto simp: flat_def)
qed

lemma stream_socket_io:
  assumes "open_stream th fd sm hs" and "fn fd (h_errno hs) (h_world hs) = (int k, e, w)"
  shows "\<exists>hs'. on_socket (sk_read net th fn) (sm, hs) = Ret (int k, take k (n_data net w)) (sm, hs') \<and> h_world hs' = w" (is ?r)
    and "\<exists>hs'. on_socket (sk_write th fn) (sm, hs) = Ret (int k) (sm, hs') \<and> h_world hs' = w" (is ?w)
proof -
  obtain sk where sk: "st_socket sm = Some sk" "sk_isConnected sk" "sk_socket sk = fd" "usable fd hs" "0 < th_fuel th" "stream_isConnected sm"
    by (rule open_streamE [OF assms(1)])
  have sm: "sm\<lparr>st_socket := Some sk\<rparr> = sm" using sk(1) by simp
  have "\<exists>hs'. do_io (th_fuel th) (th_caller th) fd (fn fd) ev so (th_ti th) (th_pauses th) hs = Ret (int k) hs' \<and> h_world hs' = w" for ev so
    by (rule do_io_ready [where fn = "fn fd", OF sk(4) assms(2) _ sk(5)]) simp
  then obtain h1 h2 where "do_io (th_fuel th) (th_caller th) fd (fn fd) READ SO_RCVTIMEO (th_ti th) (th_pauses th) hs = Ret (int k) h1" "h_world h1 = w"
      "do_io (th_fuel th) (th_caller th) fd (fn fd) WRITE SO_SNDTIMEO (th_ti th) (th_pauses th) hs = Ret (int k) h2" "h_world h2 = w"
    by metis
  then show ?r ?w
    using sk(1-3) sm by (auto simp: sk_read_def sk_write_def hook_read_def hook_write_def on_hook.simps)
qed

lemma iov_nonempty: "sum_list (map iov_len bufs) = n \<Longrightarrow> 0 < n \<Longrightarrow> bufs \<noteq> []"
  by auto

text \<open>Receiving into a byte array: what the system received lies behind the old position, across block boundaries, and the position has
  moved behind it. The array has room for the request.\<close>

theorem stream_read_array:
  assumes "open_stream th fd sm hs" and "ba_inv ba" and "0 < n" and "m_position ba + n \<le> m_capacity ba"
    and "\<forall>lens. sum_list lens = n \<longrightarrow> n_recvmsg net fd lens 0 0 (h_errno hs) (h_world hs) = (int k, e, w)"
    and "0 < k" and "k \<le> n" and "k \<le> length (n_data net w)"
  shows "\<exists>ba' hs'. stream_read_ba net th n ba (sm, hs) = Ret (int k) (ba', sm, hs') \<and> ba_inv ba' \<and> h_world hs' = w \<and>
    m_position ba' = m_position ba + k \<and> m_size ba' = max (m_position ba + k) (m_size ba) \<and>
    flat ba' = overwrite (m_position ba) (take k (n_data net w)) (flat ba)"
proof -
  obtain bufs where b: "getWriteBuffers n ba = Ret (n, bufs) ba" "sum_list (map iov_len bufs) = n"
      "\<forall>bs. length bs \<le> n \<longrightarrow> blocks (m_baseSize ba) (scatter bufs bs (m_nodes ba)) \<and> length (scatter bufs bs (m_nodes ba)) = length (m_nodes ba) \<and>
        concat (scatter bufs bs (m_nodes ba)) = overwrite (m_position ba) bs (flat ba)"
    using getWriteBuffers_ok [OF assms(2-4)] by blast
  let ?bs = "take k (n_data net w)" and ?ba = "ba\<lparr>m_nodes := scatter bufs (take k (n_data net w)) (m_nodes ba)\<rparr>"
  have s: "blocks (m_baseSize ba) (m_nodes ?ba)" "length (m_nodes ?ba) = length (m_nodes ba)" "flat ?ba = overwrite (m_position ba) ?bs (flat ba)"
    using b(3) assms(7) by (simp_all add: flat_def)
  have "m_nodes ?ba \<noteq> []" using s(2) ba_structD(2) [OF ba_invD(1) [OF assms(2)]] by (metis length_0_conv)
  then have inv: "ba_inv ?ba" using assms(2) s(1,2) by (simp add: ba_inv_def ba_struct_def cur_at_def)
  let ?ba' = "?ba\<lparr>m_position := m_position ba + k, m_size := max (m_position ba + k) (m_size ba), m_cur := cur_at ?ba (m_position ba + k)\<rparr>"
  have p: "setPosition (m_position ba + k) ?ba = Ret () ?ba'"
    using setPosition_ok [OF ba_invD(1) [OF inv], of "m_position ba + k"] assms(4,7) by simp
  obtain hs' where h: "on_socket (sock_recv_iov net th (map iov_len bufs) 0) (sm, hs) = Ret (int k, ?bs) (sm, hs')" "h_world hs' = w"
    using stream_socket_io(1) [OF assms(1), of "\<lambda>fd. n_recvmsg net fd (map iov_len bufs) 0 0" k e w net] assms(5) b(2)
    unfolding sock_recv_iov_def [abs_def] by blast
  have "stream_isConnected sm" using open_streamE [OF assms(1)] by blast
  then have "stream_read_ba net th n ba (sm, hs) = Ret (int k) (?ba', sm, hs')"
    using b(1) iov_nonempty [OF b(2) assms(3)] h(1) p assms(6) by (simp add: stream_read_ba_def on_array_def on_stream_def advance_def)
  then show ?thesis
    using h(2) setPosition_content [OF inv p] s(3) by auto
qed

text \<open>Sending from a byte array: what is handed to the system are the bytes behind the position, and the position moves behind those it
  took.\<close>

theorem stream_write_array:
  assumes "open_stream th fd sm hs" and "ba_inv ba" and "0 < min n (getReadSize ba)"
    and "\<forall>bss. concat bss = seg (m_position ba) (min n (getReadSize ba)) (content ba) \<longrightarrow>
      n_sendmsg net fd bss 0 0 (h_errno hs) (h_world hs) = (int k, e, w)"
    and "0 < k" and "k \<le> min n (getReadSize ba)"
  shows "\<exists>ba' hs'. stream_write_ba net th n ba (sm, hs) = Ret (int k) (ba', sm, hs') \<and> ba_inv ba' \<and> h_world hs' = w \<and>
    m_position ba' = m_position ba + k \<and> content ba' = content ba"
proof -
  obtain bufs where b: "getReadBuffers n ba = Ret (min n (getReadSize ba), bufs) ba"
      "iov_bytes ba bufs = seg (m_position ba) (min n (getReadSize ba)) (content ba)"
    using getReadBuffers_ok [OF assms(2)] by blast
  let ?bss = "map (\<lambda>v. seg (iov_off v) (iov_len v) (m_nodes ba ! iov_node v)) bufs"
  have size: "m_position ba + k \<le> m_size ba" "m_size ba \<le> m_capacity ba" using assms(6) ba_invD [OF assms(2)] by (auto simp: getReadSize_def)
  have "length (iov_bytes ba bufs) = min n (getReadSize ba)"
    using b(2) ba_invD [OF assms(2)] ba_structD [OF ba_invD(1) [OF assms(2)]]
    by (auto simp: seg_def content_def flat_def getReadSize_def length_concat_blocks)
  then have ne: "bufs \<noteq> []" using assms(3) by (auto simp: iov_bytes_def)
  let ?ba' = "ba\<lparr>m_position := m_position ba + k, m_size := max (m_position ba + k) (m_size ba), m_cur := cur_at ba (m_position ba + k)\<rparr>"
  have p: "setPosition (m_position ba + k) ba = Ret () ?ba'"
    using setPosition_ok [OF ba_invD(1) [OF assms(2)], of "m_position ba + k"] size by simp
  obtain hs' where h: "on_socket (sock_send_iov net th ?bss 0) (sm, hs) = Ret (int k) (sm, hs')" "h_world hs' = w"
    using stream_socket_io(2) [OF assms(1), of "\<lambda>fd. n_sendmsg net fd ?bss 0 0" k e w] assms(4) b(2)
    unfolding sock_send_iov_def [abs_def] iov_bytes_def by blast
  have "stream_isConnected sm" using open_streamE [OF assms(1)] by blast
  then have "stream_write_ba net th n ba (sm, hs) = Ret (int k) (?ba', sm, hs')"
    using b(1) ne h(1) p assms(5) by (simp add: stream_write_ba_def on_array_def on_stream_def advance_def)
  then show ?thesis
    using h(2) setPosition_content [OF assms(2) p] size by auto
qed

theorem stream_read_array_witness:
  "\<exists>ba' hs'. stream_read_ba wire_net wire_thr 2 (ByteArray (\<lambda>_. 0) 8) (wire_stream, wire_hook [4, 5, 6]) = Ret 2 (ba', wire_stream, hs') \<and>
     flat ba' = [4, 5, 0, 0, 0, 0, 0, 0]"
proof -
  have "flat (ByteArray (\<lambda>_. 0) 8) = replicate 8 0" by (simp add: ByteArray_def new_Node_def flat_def map_replicate_const)
  moreover have "m_capacity (ByteArray (\<lambda>_. 0) 8) = 8" "m_position (ByteArray (\<lambda>_. 0) 8) = 0" by (simp_all add: ByteArray_def)
  ultimately show ?thesis
    using stream_read_array [OF wire_open, of "ByteArray (\<lambda>_. 0) 8" 2 wire_net "[4, 5, 6]" 2 0 "\<lparr>wi_pending = [6], wi_sent = [], wi_data = [4, 5]\<rparr>"] ba_inv_new [of 8 "\<lambda>_. 0"]
    by (auto simp: wire_net_def wire_recv_def wire_hook_def overwrite_def eval_nat_numeral)
qed

theorem stream_write_array_witness:
  "\<exists>ba' hs'. stream_write_ba wire_net wire_thr 9 ((ByteArray (\<lambda>_. 7) 2)\<lparr>m_size := 2\<rparr>) (wire_stream, wire_hook []) = Ret 2 (ba', wire_stream, hs') \<and>
     wi_sent (h_world hs') = [7, 7] \<and> m_position ba' = 2"
proof -
  let ?ba = "(ByteArray (\<lambda>_. 7) 2)\<lparr>m_size := 2\<rparr>"
  have "ba_inv ?ba" using ba_inv_new [of 2 "\<lambda>_. 7"] by (simp add: ba_inv_def ba_struct_def cur_at_def ByteArray_def)
  moreover have "seg (m_position ?ba) (min 9 (getReadSize ?ba)) (content ?ba) = [7, 7]" "getReadSize ?ba = 2" "m_position ?ba = 0"
    by (simp_all add: ByteArray_def new_Node_def flat_def content_def seg_def getReadSize_def eval_nat_numeral)
  ultimately show ?thesis
    using stream_write_array [OF wire_open, of ?ba 9 wire_net "[]" 2 0 "\<lparr>wi_pending = [], wi_sent = [7, 7], wi_data = []\<rparr>"]
    by (auto simp: wire_net_def wire_send_def wire_hook_def)
qed

end
