(* ===== verification/TcpServer.thy ===== *)
theory TcpServer
  imports Sockets
begin

text \<open>
  \<^verbatim>\<open>src/cxk/tcp_server.cpp\<close>: binding, accepting and stopping. Sockets are shared pointers: they live on a heap, plain or TLS, and are
  closed when the last pointer goes. The two workers are lists of tasks. While \<^verbatim>\<open>accept\<close> waits another fiber may call \<^verbatim>\<open>stop\<close>:
  the loop takes one flag per round that says so.
\<close>

section \<open>State\<close>

datatype any_sock = Plain sock | Tls ssl_sock

datatype server_task = StartAccept nat | StopAll | HandleClient nat

record 'w tcp_server =
  ts_socks :: "nat list"
  ts_readTimeOut :: u64
  ts_name :: string
  ts_isStop :: bool
  ts_type :: string
  ts_ssl :: bool
  ts_heap :: "any_sock list"
  ts_accepting :: "nat list"
  ts_acceptWorker :: "server_task list"
  ts_worker :: "server_task list"
  ts_hook :: "'w hook"

type_synonym ('w, 'a) server_op = "'w tcp_server \<Rightarrow> ('w tcp_server, 'a) outcome"

definition new_TcpServer :: "u64 \<Rightarrow> 'w hook \<Rightarrow> 'w tcp_server" where
  "new_TcpServer read_timeout hs = \<lparr>ts_socks = [], ts_readTimeOut = read_timeout, ts_name = ''cxk/1.0.0'', ts_isStop = True, ts_type = ''tcp'',
     ts_ssl = False, ts_heap = [], ts_accepting = [], ts_acceptWorker = [], ts_worker = [], ts_hook = hs\<rparr>"

section \<open>Operations on either kind of socket\<close>

primrec base :: "any_sock \<Rightarrow> sock" where
  "base (Plain sk) = sk"
| "base (Tls sl) = sl_sock sl"

primrec with_base :: "any_sock \<Rightarrow> sock \<Rightarrow> any_sock" where
  "with_base (Plain _) sk = Plain sk"
| "with_base (Tls sl) sk = Tls (sl\<lparr>sl_sock := sk\<rparr>)"

text \<open>Every virtual method but \<^verbatim>\<open>accept\<close> that the server calls is the one of \<^verbatim>\<open>Socket\<close>.\<close>

definition any_op :: "('w, 'a) sock_op \<Rightarrow> any_sock \<Rightarrow> 'w hook \<Rightarrow> (any_sock \<times> 'w hook, 'a) outcome" where
  "any_op f x hs = (case f (base x, hs) of
     Ret a (sk, hs) \<Rightarrow> Ret a (with_base x sk, hs) | Throw e (sk, hs) \<Rightarrow> Throw e (with_base x sk, hs) | Undef u \<Rightarrow> Undef u)"

fun any_accept :: "'w net \<Rightarrow> 'w openssl \<Rightarrow> 'w thr \<Rightarrow> any_sock \<Rightarrow> 'w hook \<Rightarrow> ('w hook, any_sock option) outcome" where
  "any_accept net lib th (Plain sk) hs =
     (case sock_accept net th (sk, hs) of
        Ret c (_, hs) \<Rightarrow> Ret (map_option Plain c) hs | Throw e (_, hs) \<Rightarrow> Throw e hs | Undef u \<Rightarrow> Undef u)"
| "any_accept net lib th (Tls sl) hs =
     (case ssl_accept net lib th (sl, hs) of
        Ret c (_, hs) \<Rightarrow> Ret (map_option Tls c) hs | Throw e (_, hs) \<Rightarrow> Throw e hs | Undef u \<Rightarrow> Undef u)"

section \<open>Binding\<close>

definition SOMAXCONN :: int where "SOMAXCONN = 4096"

text \<open>An operation on a socket that is not on the heap yet.\<close>

definition fresh_op :: "('w, 'a) sock_op \<Rightarrow> any_sock \<Rightarrow> ('a \<Rightarrow> any_sock \<Rightarrow> ('w, 'b) server_op) \<Rightarrow> ('w, 'b) server_op" where
  "fresh_op f x k srv =
     (case any_op f x (ts_hook srv) of
        Ret a (x, hs) \<Rightarrow> k a x (srv\<lparr>ts_hook := hs\<rparr>) | Throw e (_, hs) \<Rightarrow> Throw e (srv\<lparr>ts_hook := hs\<rparr>) | Undef u \<Rightarrow> Undef u)"

text \<open>One address: the socket that is bound and listens is kept, any other is destroyed. The result says whether it was kept.\<close>

definition bind_one :: "'w net \<Rightarrow> 'w thr \<Rightarrow> bool \<Rightarrow> address \<Rightarrow> ('w, bool) server_op" where
  "bind_one net th ssl addr srv =
     fresh_op (sock_bind net th addr) (if ssl then Tls (SSL_CreateTCP addr) else Plain (CreateTCP addr)) (\<lambda>ok sk.
       if \<not> ok then fresh_op (sock_close net th) sk (\<lambda>_ _. Ret False)
       else fresh_op (sock_listen net SOMAXCONN) sk (\<lambda>ok sk.
         if \<not> ok then fresh_op (sock_close net th) sk (\<lambda>_ _. Ret False)
         else (\<lambda>srv. Ret True (srv\<lparr>ts_heap := ts_heap srv @ [sk], ts_socks := ts_socks srv @ [length (ts_heap srv)]\<rparr>)))) srv"

fun bind_loop :: "'w net \<Rightarrow> 'w thr \<Rightarrow> bool \<Rightarrow> address list \<Rightarrow> address list \<Rightarrow> ('w, address list) server_op" where
  "bind_loop net th ssl [] fails srv = Ret fails srv"
| "bind_loop net th ssl (addr # addrs) fails srv =
     obind (bind_one net th ssl addr srv) (\<lambda>ok. bind_loop net th ssl addrs (if ok then fails else fails @ [addr]))"

text \<open>An operation on a socket of the heap, and the loss of the server's pointer to it.\<close>

definition heap_op :: "('w, 'a) sock_op \<Rightarrow> nat \<Rightarrow> ('w, 'a) server_op" where
  "heap_op f p srv =
     (case any_op f (ts_heap srv ! p) (ts_hook srv) of
        Ret a (x, hs) \<Rightarrow> Ret a (srv\<lparr>ts_heap := (ts_heap srv)[p := x], ts_hook := hs\<rparr>)
      | Throw e (x, hs) \<Rightarrow> Throw e (srv\<lparr>ts_heap := (ts_heap srv)[p := x], ts_hook := hs\<rparr>) | Undef u \<Rightarrow> Undef u)"

definition release :: "'w net \<Rightarrow> 'w thr \<Rightarrow> nat \<Rightarrow> ('w, unit) server_op" where
  "release net th p srv =
     (if StartAccept p \<in> set (ts_acceptWorker srv) \<or> p \<in> set (ts_accepting srv) then Ret () srv
      else obind (heap_op (sock_close net th) p srv) (\<lambda>_. Ret ()))"

fun each :: "(nat \<Rightarrow> ('w, unit) server_op) \<Rightarrow> nat list \<Rightarrow> ('w, unit) server_op" where
  "each f [] srv = Ret () srv"
| "each f (p # ps) srv = obind (f p srv) (\<lambda>_. each f ps)"

definition clear_socks :: "'w net \<Rightarrow> 'w thr \<Rightarrow> ('w, unit) server_op" where
  "clear_socks net th srv = each (release net th) (ts_socks srv) (srv\<lparr>ts_socks := []\<rparr>)"

text \<open>\<open>fails\<close> is the vector the caller passes, by value.\<close>

definition server_bind :: "'w net \<Rightarrow> 'w thr \<Rightarrow> address list \<Rightarrow> address list \<Rightarrow> bool \<Rightarrow> ('w, bool) server_op" where
  "server_bind net th addrs fails ssl srv =
     obind (bind_loop net th ssl addrs fails (srv\<lparr>ts_ssl := ssl\<rparr>)) (\<lambda>fails srv.
       if fails \<noteq> [] then obind (clear_socks net th srv) (\<lambda>_. Ret False) else Ret True srv)"

definition server_bind_one :: "'w net \<Rightarrow> 'w thr \<Rightarrow> address \<Rightarrow> bool \<Rightarrow> ('w, bool) server_op" where
  "server_bind_one net th addr ssl srv = server_bind net th [addr] [] ssl srv"

fun load_each :: "'w openssl \<Rightarrow> string \<Rightarrow> string \<Rightarrow> nat list \<Rightarrow> ('w, bool) server_op" where
  "load_each lib cert_file key_file [] srv = Ret True srv"
| "load_each lib cert_file key_file (p # ps) srv =
     (case ts_heap srv ! p of
        Plain _ \<Rightarrow> load_each lib cert_file key_file ps srv
      | Tls sl \<Rightarrow> (case loadCertificates lib cert_file key_file (sl, ts_hook srv) of
          Undef u \<Rightarrow> Undef u
        | Throw e (sl, hs) \<Rightarrow> Throw e (srv\<lparr>ts_heap := (ts_heap srv)[p := Tls sl], ts_hook := hs\<rparr>)
        | Ret ok (sl, hs) \<Rightarrow>
            let srv = srv\<lparr>ts_heap := (ts_heap srv)[p := Tls sl], ts_hook := hs\<rparr> in
            if \<not> ok then Ret False srv else load_each lib cert_file key_file ps srv))"

definition server_loadCertificates :: "'w openssl \<Rightarrow> string \<Rightarrow> string \<Rightarrow> ('w, bool) server_op" where
  "server_loadCertificates lib cert_file key_file srv = load_each lib cert_file key_file (ts_socks srv) srv"

section \<open>Starting and stopping\<close>

definition server_start :: "('w, bool) server_op" where
  "server_start srv =
     (if \<not> ts_isStop srv then Ret True srv
      else Ret True (srv\<lparr>ts_isStop := False, ts_acceptWorker := ts_acceptWorker srv @ map StartAccept (ts_socks srv)\<rparr>))"

definition server_stop :: "('w, unit) server_op" where
  "server_stop srv = Ret () (srv\<lparr>ts_isStop := True, ts_acceptWorker := ts_acceptWorker srv @ [StopAll]\<rparr>)"

text \<open>The task \<^verbatim>\<open>stop\<close> has scheduled.\<close>

definition stop_all :: "'w net \<Rightarrow> 'w thr \<Rightarrow> ('w, unit) server_op" where
  "stop_all net th srv =
     obind (each (\<lambda>p srv. obind (heap_op (sock_cancelAll th) p srv) (\<lambda>_ srv. obind (heap_op (sock_close net th) p srv) (\<lambda>_. Ret ()))) (ts_socks srv) srv)
       (\<lambda>_. clear_socks net th)"

text \<open>The destructor.\<close>

definition server_destroy :: "'w net \<Rightarrow> 'w thr \<Rightarrow> ('w, unit) server_op" where
  "server_destroy net th srv =
     obind (each (\<lambda>p srv. obind (heap_op (sock_close net th) p srv) (\<lambda>_. Ret ())) (ts_socks srv) srv) (\<lambda>_. clear_socks net th)"

section \<open>Accepting\<close>

definition accept_round :: "'w net \<Rightarrow> 'w openssl \<Rightarrow> 'w thr \<Rightarrow> bool \<Rightarrow> nat \<Rightarrow> ('w, unit) server_op" where
  "accept_round net lib th stopped p srv =
     (case any_accept net lib th (ts_heap srv ! p) (ts_hook srv) of
        Undef u \<Rightarrow> Undef u
      | Throw e hs \<Rightarrow> Throw e (srv\<lparr>ts_hook := hs\<rparr>)
      | Ret client hs \<Rightarrow>
          let srv = srv\<lparr>ts_hook := hs, ts_isStop := ts_isStop srv \<or> stopped\<rparr> in
          (case client of
             None \<Rightarrow> Ret () srv
           | Some client \<Rightarrow> fresh_op (setRecvTimeout net (sint (ts_readTimeOut srv))) client (\<lambda>_ client srv.
               Ret () (srv\<lparr>ts_heap := ts_heap srv @ [client], ts_worker := ts_worker srv @ [HandleClient (length (ts_heap srv))]\<rparr>)) srv))"

text \<open>\<open>None\<close>: still waiting after the given rounds.\<close>

fun startAccept :: "'w net \<Rightarrow> 'w openssl \<Rightarrow> nat \<Rightarrow> ('w thr \<times> bool) list \<Rightarrow> 'w tcp_server \<Rightarrow> ('w tcp_server, unit) outcome option" where
  "startAccept net lib p [] srv = (if ts_isStop srv then Some (Ret () srv) else None)"
| "startAccept net lib p ((th, stopped) # rounds) srv =
     (if ts_isStop srv then Some (Ret () srv)
      else case accept_round net lib th stopped p srv of
        Undef u \<Rightarrow> Some (Undef u) | Throw e srv \<Rightarrow> Some (Throw e srv) | Ret _ srv \<Rightarrow> startAccept net lib p rounds srv)"

section \<open>Lemmas\<close>

text \<open>A thread without hooks, and a descriptor table in order: then no call of this part is undefined.\<close>

definition calm :: "'w hook \<Rightarrow> bool" where
  "calm hs \<longleftrightarrow> \<not> t_hook_enable hs \<and> fd_inv (h_fds hs)"

lemma calm_call: "calm hs \<Longrightarrow> calm (snd (call fn hs))"
  by (auto simp: calm_def call_def split: prod.splits)

lemma hook_get_calm:
  assumes "calm hs" and "-1 \<le> fd"
  shows "\<exists>r hs'. hook_get fd b hs = Ret r hs' \<and> calm hs'"
proof (cases "fd = -1")
  case True
  then show ?thesis using assms(1) by (auto simp: hook_get_def fd_get_def get_lookup_def)
next
  case False
  then have fd: "0 \<le> fd" using assms(2) by simp
  have inv: "fd_inv (h_fds hs)" using assms(1) by (simp add: calm_def)
  obtain s' where "get_create fd (h_fds hs) = Ret (Some (length (fd_heap (h_fds hs)))) s'" "fd_inv s'"
    by (rule get_create_ok [OF inv fd])
  then show ?thesis
    using assms(1) fd by (auto simp: hook_get_def fd_get_def get_lookup_cases calm_def)
qed

lemma setOption_calm: "calm hs \<Longrightarrow> \<exists>r hs'. setOption net level option data (sk, hs) = Ret r (sk, hs') \<and> calm hs'"
  by (auto simp: setOption_def hook_setsockopt_timeo_def calm_def call_def on_hook.simps split: prod.splits)

lemma set_timeout_calm: "calm hs \<Longrightarrow> \<exists>hs'. set_timeout net option t (sk, hs) = Ret () (sk, hs') \<and> calm hs'"
  unfolding set_timeout_def by (metis obind.simps(1) setOption_calm)

lemma initSock_calm: "calm hs \<Longrightarrow> \<exists>hs'. initSock net (sk, hs) = Ret () (sk, hs') \<and> calm hs'"
  using setOption_calm [of hs net SOL_SOCKET SO_REUSEADDR "[1]" sk]
  by (auto simp: initSock_def) (metis obind.simps(1) setOption_calm)

lemma address_total: "\<exists>a sk'. getLocalAddress net (sk, hs) = Ret a (sk', hs)" "\<exists>a sk'. getRemoteAddress net (sk, hs) = Ret a (sk', hs)"
  by (auto simp: getLocalAddress.simps getRemoteAddress.simps Let_def split: option.splits)

lemma init_calm:
  assumes "calm hs" and "-1 \<le> fd"
  shows "\<exists>ok sk' hs'. sock_init net fd (sk, hs) = Ret ok (sk', hs') \<and> calm hs'"
proof -
  obtain r h1 where r: "hook_get fd False hs = Ret r h1" "calm h1" using hook_get_calm [OF assms] by blast
  obtain h2 where i: "initSock net (sk\<lparr>sk_socket := fd, sk_isConnected := True\<rparr>, h1) = Ret () (sk\<lparr>sk_socket := fd, sk_isConnected := True\<rparr>, h2)" "calm h2"
    using initSock_calm [OF r(2)] by blast
  obtain a k1 where a: "getLocalAddress net (sk\<lparr>sk_socket := fd, sk_isConnected := True\<rparr>, h2) = Ret a (k1, h2)" using address_total(1) by blast
  obtain a' k2 where a': "getRemoteAddress net (k1, h2) = Ret a' (k2, h2)" using address_total(2) by blast
  show ?thesis using r i a a' by (auto simp: sock_init_def on_hook.simps Let_def split: option.splits)
qed

lemma accept_calm:
  assumes "calm hs" and "\<forall>e w. -1 \<le> fst (n_accept net (sk_socket sk) e w)"
  shows "\<exists>c hs'. sock_accept net th (sk, hs) = Ret c (sk, hs') \<and> calm hs' \<and> (\<forall>x. c = Some x \<longrightarrow> sk_isConnected x \<and> isValid x)"
proof -
  obtain fd h1 where c: "call (n_accept net (sk_socket sk)) hs = (fd, h1)" by force
  have h1: "calm h1" "-1 \<le> fd" using calm_call [OF assms(1), of "n_accept net (sk_socket sk)"] c assms(2)
    by (auto simp: call_def split: prod.splits) (metis fst_conv)
  obtain h2 where a: "hook_accept (th_fuel th) (th_caller th) (sk_socket sk) (n_accept net (sk_socket sk)) (th_ti th) (th_pauses th) hs = Ret fd h2" "calm h2"
  proof (cases "0 \<le> fd")
    case True
    then show ?thesis using that hook_get_calm [OF h1, of True] assms(1) c by (auto simp: hook_accept_def do_io_def calm_def)
  next
    case False
    then show ?thesis using that [of h1] h1(1) assms(1) c by (auto simp: hook_accept_def do_io_def calm_def)
  qed
  show ?thesis
  proof (cases "fd = -1")
    case False
    obtain ok sk' h3 where i: "sock_init net fd (new_Socket (sk_family sk) (sk_type sk) (sk_protocol sk), h2) = Ret ok (sk', h3)" "calm h3"
      using init_calm [OF a(2) h1(2)] by blast
    show ?thesis using a i False init_keeps [OF i(1)] by (auto simp: isValid_def)
  qed (use a in auto)
qed

lemma accept_round_calm:
  assumes "calm (ts_hook srv)" and "ts_heap srv ! p = Plain sk" and "p < length (ts_heap srv)" and "\<forall>e w. -1 \<le> fst (n_accept net (sk_socket sk) e w)"
  shows "\<exists>srv' cs. accept_round net lib th stopped p srv = Ret () srv' \<and> calm (ts_hook srv') \<and> ts_isStop srv' = (ts_isStop srv \<or> stopped) \<and>
    ts_heap srv' = ts_heap srv @ map Plain cs \<and> ts_worker srv' = ts_worker srv @ map HandleClient [length (ts_heap srv)..<length (ts_heap srv) + length cs] \<and>
    length cs \<le> 1 \<and> (\<forall>c\<in>set cs. sk_isConnected c \<and> isValid c)"
proof -
  obtain c hs where c: "sock_accept net th (sk, ts_hook srv) = Ret c (sk, hs)" "calm hs" "\<forall>x. c = Some x \<longrightarrow> sk_isConnected x \<and> isValid x"
    using accept_calm [OF assms(1,4)] by blast
  show ?thesis
  proof (cases c)
    case None
    then show ?thesis using c assms(2) by (intro exI [of _ "srv\<lparr>ts_hook := hs, ts_isStop := ts_isStop srv \<or> stopped\<rparr>"] exI [of _ "[]"]) (simp add: accept_round_def)
  next
    case (Some x)
    obtain h2 where t: "setRecvTimeout net (sint (ts_readTimeOut srv)) (x, hs) = Ret () (x, h2)" "calm h2"
      using set_timeout_calm [OF c(2)] unfolding setRecvTimeout_def by blast
    show ?thesis
      using Some c assms(2) t
      by (intro exI [of _ "srv\<lparr>ts_hook := h2, ts_isStop := ts_isStop srv \<or> stopped, ts_heap := ts_heap srv @ [Plain x],
            ts_worker := ts_worker srv @ [HandleClient (length (ts_heap srv))]\<rparr>"] exI [of _ "[x]"])
        (simp add: accept_round_def fresh_op_def any_op_def)
  qed
qed

section \<open>Properties\<close>


lemma fresh_op_Ret: "fresh_op f x k srv = Ret b srv' \<longleftrightarrow> (\<exists>a sk hs. f (base x, ts_hook srv) = Ret a (sk, hs) \<and> k a (with_base x sk) (srv\<lparr>ts_hook := hs\<rparr>) = Ret b srv')"
  by (auto simp: fresh_op_def any_op_def split: outcome.splits)

lemma base_with_base [simp]: "base (with_base x sk) = sk"
  by (cases x) simp_all

lemma fresh_op_step: "f (base x, ts_hook srv) = Ret a (sk, hs) \<Longrightarrow> fresh_op f x k srv = k a (with_base x sk) (srv\<lparr>ts_hook := hs\<rparr>)"
  by (simp add: fresh_op_def any_op_def)

lemma bind_one_result:
  assumes "bind_one net th ssl addr srv = Ret ok srv'"
  shows "if ok then \<exists>x. ts_heap srv' = ts_heap srv @ [x] \<and> ts_socks srv' = ts_socks srv @ [length (ts_heap srv)] \<and> isValid (base x) \<and> sk_localAddr (base x) = Some addr
    else ts_heap srv' = ts_heap srv \<and> ts_socks srv' = ts_socks srv"
proof -
  define x where "x = (if ssl then Tls (SSL_CreateTCP addr) else Plain (CreateTCP addr))"
  have closed: "\<not> ok \<and> ts_heap srv' = ts_heap s \<and> ts_socks srv' = ts_socks s" if "fresh_op (sock_close net th) y (\<lambda>_ _. Ret False) s = Ret ok srv'" for y s
    using that by (auto simp: fresh_op_Ret)
  obtain bound sk hs where b: "sock_bind net th addr (base x, ts_hook srv) = Ret bound (sk, hs)"
    using assms by (auto simp: bind_one_def fresh_op_Ret x_def)
  note one = assms [unfolded bind_one_def x_def [symmetric], unfolded fresh_op_step [where f = "sock_bind net th addr", OF b]]
  show ?thesis
  proof (cases bound)
    case True
    have v: "isValid sk \<and> sk_localAddr sk = Some addr" using bind_keeps [OF b] True by (auto simp: isValid_def)
    obtain lis k2 h2 where l: "sock_listen net SOMAXCONN (sk, hs) = Ret lis (k2, h2)" using one True by (auto simp: fresh_op_Ret)
    have k2: "k2 = sk" using l by (auto simp: sock_listen_def obind_Ret_iff split: if_splits dest!: on_hook_Ret)
    have l': "sock_listen net SOMAXCONN (base (with_base x sk), ts_hook (srv\<lparr>ts_hook := hs\<rparr>)) = Ret lis (k2, h2)" using l by simp
    show ?thesis
      using one True v k2 closed by (cases lis) (auto simp: fresh_op_step [where f = "sock_listen net SOMAXCONN", OF l'])
  next
    case False
    then show ?thesis using one closed [of "with_base x sk" "srv\<lparr>ts_hook := hs\<rparr>"] by simp
  qed
qed

lemma bind_loop_result:
  assumes "bind_loop net th ssl addrs fails srv = Ret [] srv'"
  shows "\<exists>xs. fails = [] \<and> ts_heap srv' = ts_heap srv @ xs \<and> ts_socks srv' = ts_socks srv @ [length (ts_heap srv)..<length (ts_heap srv) + length addrs] \<and>
    list_all2 (\<lambda>a x. isValid (base x) \<and> sk_localAddr (base x) = Some a) addrs xs"
  using assms
proof (induction addrs arbitrary: fails srv)
  case (Cons addr addrs)
  obtain ok s1 where o: "bind_one net th ssl addr srv = Ret ok s1" "bind_loop net th ssl addrs (if ok then fails else fails @ [addr]) s1 = Ret [] srv'"
    using Cons.prems by (auto simp: obind_Ret_iff)
  obtain xs where xs: "(if ok then fails else fails @ [addr]) = []" "ts_heap srv' = ts_heap s1 @ xs"
      "ts_socks srv' = ts_socks s1 @ [length (ts_heap s1)..<length (ts_heap s1) + length addrs]"
      "list_all2 (\<lambda>a x. isValid (base x) \<and> sk_localAddr (base x) = Some a) addrs xs"
    using Cons.IH [OF o(2)] by blast
  have ok: "ok" "fails = []" using xs(1) by (auto split: if_splits)
  obtain x where x: "ts_heap s1 = ts_heap srv @ [x]" "ts_socks s1 = ts_socks srv @ [length (ts_heap srv)]" "isValid (base x)" "sk_localAddr (base x) = Some addr"
    using bind_one_result [OF o(1)] ok(1) by auto
  show ?case
    using xs x ok(2) upt_conv_Cons [of "length (ts_heap srv)" "length (ts_heap srv) + length (addr # addrs)"]
    by (intro exI [of _ "x # xs"]) (simp del: upt_Suc)
qed simp

lemma heap_op_keeps: "heap_op f p srv = Ret a srv' \<Longrightarrow> ts_socks srv' = ts_socks srv"
  by (auto simp: heap_op_def split: outcome.splits)

lemma release_keeps: "release net th p srv = Ret u srv' \<Longrightarrow> ts_socks srv' = ts_socks srv"
  by (auto simp: release_def obind_Ret_iff split: if_splits dest: heap_op_keeps)

lemma each_keeps:
  assumes "\<And>p s u s'. f p s = Ret u s' \<Longrightarrow> ts_socks s' = ts_socks s"
  shows "each f ps srv = Ret u srv' \<Longrightarrow> ts_socks srv' = ts_socks srv"
  by (induction ps arbitrary: srv) (auto simp: obind_Ret_iff dest: assms)

lemma clear_socks_empty: "clear_socks net th srv = Ret u srv' \<Longrightarrow> ts_socks srv' = []"
  unfolding clear_socks_def by (drule each_keeps [rotated]) (auto dest: release_keeps)

text \<open>Binding is all or nothing: when it succeeds the server has gained exactly one socket for each address, valid and bound to it, in
  order; when it fails the server has no sockets at all, those of earlier calls included.\<close>

theorem server_bind_exact:
  assumes "server_bind net th addrs fails ssl srv = Ret ok srv'"
  shows "if ok then \<exists>xs. ts_heap srv' = ts_heap srv @ xs \<and> ts_socks srv' = ts_socks srv @ [length (ts_heap srv)..<length (ts_heap srv) + length addrs] \<and>
      list_all2 (\<lambda>a x. isValid (base x) \<and> sk_localAddr (base x) = Some a) addrs xs
    else ts_socks srv' = []"
proof -
  obtain fs s1 where l: "bind_loop net th ssl addrs fails (srv\<lparr>ts_ssl := ssl\<rparr>) = Ret fs s1"
      "(if fs \<noteq> [] then obind (clear_socks net th s1) (\<lambda>_. Ret False) else Ret True s1) = Ret ok srv'"
    using assms by (auto simp: server_bind_def obind_Ret_iff)
  show ?thesis
  proof (cases "fs = []")
    case True
    then show ?thesis using bind_loop_result [of net th ssl addrs fails "srv\<lparr>ts_ssl := ssl\<rparr>" s1] l by auto
  next
    case False
    then show ?thesis using l(2) clear_socks_empty by (auto simp: obind_Ret_iff)
  qed
qed

definition demo_server :: "nat tcp_server" where
  "demo_server = (new_TcpServer 1000 (demo_hook\<lparr>t_hook_enable := False\<rparr>))\<lparr>ts_heap := [Plain demo_sock], ts_socks := [0], ts_isStop := False\<rparr>"


theorem server_bind_exact_witness:
  "\<exists>srv'. server_bind demo_net demo_thr [IPv4Address (new_IPv4Address 0 80)] [] False demo_server = Ret True srv' \<and> ts_socks srv' = [0, 1]"
proof -
  have "\<exists>srv'. server_bind demo_net demo_thr [IPv4Address (new_IPv4Address 0 80)] [] False demo_server = Ret True srv'"
    by (simp add: server_bind_def bind_one_def fresh_op_def any_op_def sock_bind_def prepare_def isValid_def CreateTCP_def new_Socket_def newSock_def
        hook_socket_def initSock_def setOption_def hook_setsockopt_timeo_def on_hook.simps call_def demo_net_def demo_thr_def demo_server_def new_TcpServer_def
        demo_hook_def plain_def sock_listen_def getLocalAddress.simps)
  then show ?thesis
    using server_bind_exact [of demo_net demo_thr "[IPv4Address (new_IPv4Address 0 80)]" "[]" False demo_server True]
    by (auto simp: demo_server_def new_TcpServer_def)
qed

end
