(* ===== verification/WsServer.thy ===== *)
theory WsServer
  imports HttpConnection WsFrame HashUtil
begin

text \<open>
  The WebSocket upgrade and the server loop: \<^verbatim>\<open>handleShake\<close> of \<^verbatim>\<open>src/cxk/http/ws_session.cpp\<close>, \<^verbatim>\<open>ws_connection.cpp\<close>,
  \<^verbatim>\<open>ws_servlet.cpp\<close> and \<^verbatim>\<open>ws_server.cpp\<close>. Receiving and sending requests and responses are those of \<open>HttpSession\<close> and
  \<open>HttpConnection\<close>, messages those of \<open>WsFrame\<close>; here they are arguments. The digest of OpenSSL is a parameter \<open>sha1sum\<close>, and so is
  \<^verbatim>\<open>boost::lexical_cast<int>\<close>.
\<close>

section \<open>Handshake of the server\<close>

definition accept_key :: "(u8 list \<Rightarrow> u8 list) \<Rightarrow> string \<Rightarrow> string" where
  "accept_key sha1sum key = of_bytes (base64decode (sha1sum (to_bytes (key @ ''258EAFA5-E914-47DA-95CA-C5AB0DC85B11''))))"

definition shake_response :: "(u8 list \<Rightarrow> u8 list) \<Rightarrow> http_request \<Rightarrow> http_response" where
  "shake_response sha1sum req =
     (let v = accept_key sha1sum (req_getHeader ''Sec-WebSocket-Key'' [] req);
          rsp = (createResponse req)\<lparr>p_status := 101, p_websocket := True, p_reason := ''Web Socket Protocol Handshake''\<rparr>;
          rsp = rsp_setHeader ''Upgrade'' ''websocket'' rsp;
          rsp = rsp_setHeader ''Connection'' ''Upgrade'' rsp
      in rsp_setHeader ''Sec-WebSocket-Accept'' v rsp)"

definition shake_ok :: "(string \<Rightarrow> int option) \<Rightarrow> http_request \<Rightarrow> bool" where
  "shake_ok lexical_cast req \<longleftrightarrow>
     same_key (req_getHeader ''Upgrade'' [] req) ''websocket'' \<and> same_key (req_getHeader ''Connection'' [] req) ''Upgrade'' \<and>
     getAs lexical_cast (q_headers req) ''Sec-webSocket-Version'' 0 = 13 \<and> req_getHeader ''Sec-WebSocket-Key'' [] req \<noteq> []"

definition handleShake ::
  "(u8 list \<Rightarrow> u8 list) \<Rightarrow> (string \<Rightarrow> int option) \<Rightarrow> ('s \<Rightarrow> ('s, http_request option) outcome option) \<Rightarrow>
   (http_response \<Rightarrow> 's \<Rightarrow> ('s, int) outcome option) \<Rightarrow> 's \<Rightarrow> ('s, http_request option) outcome option" where
  "handleShake sha1sum lexical_cast recv send session =
     (case recv session of
        None \<Rightarrow> None
      | Some (Undef u) \<Rightarrow> Some (Undef u)
      | Some (Throw e session) \<Rightarrow> Some (Throw e session)
      | Some (Ret None session) \<Rightarrow> Some (Ret None session)
      | Some (Ret (Some req) session) \<Rightarrow>
          if shake_ok lexical_cast req
          then map_option (\<lambda>r. obind r (\<lambda>_. Ret (Some (req\<lparr>q_websocket := True\<rparr>)))) (send (shake_response sha1sum req) session)
          else Some (Ret None session))"

section \<open>Servlets\<close>

record 's ws_servlet =
  wv_callback :: "(http_request \<Rightarrow> ws_message \<Rightarrow> 's \<Rightarrow> int \<times> http_request \<times> 's) option"
  wv_onConnect :: "(http_request \<Rightarrow> 's \<Rightarrow> int \<times> http_request \<times> 's) option"
  wv_onClose :: "(http_request \<Rightarrow> 's \<Rightarrow> int \<times> http_request \<times> 's) option"

datatype 's any_servlet = WSServlet "'s ws_servlet" | HttpServlet "'s servlet"

definition ws_onConnect :: "'s ws_servlet \<Rightarrow> http_request \<Rightarrow> 's \<Rightarrow> int \<times> http_request \<times> 's" where
  "ws_onConnect slt header session = (case wv_onConnect slt of None \<Rightarrow> (0, header, session) | Some f \<Rightarrow> f header session)"

definition ws_onClose :: "'s ws_servlet \<Rightarrow> http_request \<Rightarrow> 's \<Rightarrow> int \<times> http_request \<times> 's" where
  "ws_onClose slt header session = (case wv_onClose slt of None \<Rightarrow> (0, header, session) | Some f \<Rightarrow> f header session)"

definition ws_handle :: "'s ws_servlet \<Rightarrow> http_request \<Rightarrow> ws_message \<Rightarrow> 's \<Rightarrow> int \<times> http_request \<times> 's" where
  "ws_handle slt header msg session = (case wv_callback slt of None \<Rightarrow> (0, header, session) | Some f \<Rightarrow> f header msg session)"

definition new_WSServletDispatch :: "'s any_servlet dispatch" where
  "new_WSServletDispatch = \<lparr>m_datas = Map.empty, m_globs = [], m_default = Some (HttpServlet (new_NotFoundServlet ''cxk/1.1''))\<rparr>"

definition ws_addServlet :: "string \<Rightarrow> 's ws_servlet \<Rightarrow> 's any_servlet dispatch \<Rightarrow> 's any_servlet dispatch" where
  "ws_addServlet uri slt d = addServlet uri (Some (WSServlet slt)) d"

definition ws_addGlobServlet :: "string \<Rightarrow> 's ws_servlet \<Rightarrow> 's any_servlet dispatch \<Rightarrow> 's any_servlet dispatch" where
  "ws_addGlobServlet uri slt d = addGlobServlet uri (Some (WSServlet slt)) d"

definition getWSServlet :: "(string \<Rightarrow> string \<Rightarrow> bool) \<Rightarrow> string \<Rightarrow> 's any_servlet dispatch \<Rightarrow> 's ws_servlet option" where
  "getWSServlet fnmatch uri d = (case getMatchedServlet fnmatch uri d of Some (WSServlet slt) \<Rightarrow> Some slt | _ \<Rightarrow> None)"

section \<open>Server\<close>

text \<open>\<open>recvMessage\<close> of the session; \<open>None\<close> is running out of fuel.\<close>

primrec ws_messages ::
  "nat \<Rightarrow> ('s \<Rightarrow> (ws_message option \<times> 's) option) \<Rightarrow> 's ws_servlet \<Rightarrow> http_request \<Rightarrow> 's \<Rightarrow> (http_request \<times> 's) option" where
  "ws_messages 0 recvMessage slt header session = None"
| "ws_messages (Suc fuel) recvMessage slt header session =
     (case recvMessage session of
        None \<Rightarrow> None
      | Some (None, session) \<Rightarrow> Some (header, session)
      | Some (Some msg, session) \<Rightarrow> (case ws_handle slt header msg session of (rt, header, session) \<Rightarrow>
          if rt \<noteq> 0 then Some (header, session) else ws_messages fuel recvMessage slt header session))"

definition ws_handleClient ::
  "nat \<Rightarrow> (string \<Rightarrow> string \<Rightarrow> bool) \<Rightarrow> 's any_servlet dispatch \<Rightarrow> ('s \<Rightarrow> ('s, http_request option) outcome option) \<Rightarrow>
   ('s \<Rightarrow> (ws_message option \<times> 's) option) \<Rightarrow> ('s \<Rightarrow> 's) \<Rightarrow> 's \<Rightarrow> ('s, unit) outcome option" where
  "ws_handleClient fuel fnmatch d shake recvMessage close session =
     (case shake session of
        None \<Rightarrow> None
      | Some (Undef u) \<Rightarrow> Some (Undef u)
      | Some (Throw e session) \<Rightarrow> Some (Throw e session)
      | Some (Ret None session) \<Rightarrow> Some (Ret () (close session))
      | Some (Ret (Some header) session) \<Rightarrow>
          (case getWSServlet fnmatch (q_path header) d of
             None \<Rightarrow> Some (Ret () (close session))
           | Some slt \<Rightarrow> (case ws_onConnect slt header session of (rt, header, session) \<Rightarrow>
               if rt \<noteq> 0 then Some (Ret () (close session))
               else (case ws_messages fuel recvMessage slt header session of
                   None \<Rightarrow> None
                 | Some (header, session) \<Rightarrow> (case ws_onClose slt header session of (_, _, session) \<Rightarrow> Some (Ret () (close session)))))))"

section \<open>Client\<close>

text \<open>The loop over the caller's headers; the flags are \<^verbatim>\<open>has_host\<close> and \<^verbatim>\<open>has_conn\<close>.\<close>

fun ws_headers :: "(string \<times> string) list \<Rightarrow> http_request \<times> bool \<times> bool \<Rightarrow> http_request \<times> bool \<times> bool" where
  "ws_headers [] st = st"
| "ws_headers ((k, v) # hs) (req, has_host, has_conn) =
     (if same_key k ''connection'' then ws_headers hs (req_setHeader k v req, has_host, True)
      else ws_headers hs (req_setHeader k v req, if \<not> has_host \<and> same_key k ''host'' then v \<noteq> [] else has_host, has_conn))"

definition ws_request :: "int \<Rightarrow> (nat \<Rightarrow> nat) \<Rightarrow> uri \<Rightarrow> (string \<times> string) list \<Rightarrow> http_request" where
  "ws_request junk rand uri headers =
     (let req = (new_HttpRequest junk 0x11 True)\<lparr>q_path := uri_getPath uri, q_query := u_query uri, q_fragment := u_fragment uri, q_method := 1\<rparr>
      in case ws_headers headers (req, False, False) of (req, has_host, has_conn) \<Rightarrow>
        let req = req\<lparr>q_websocket := True\<rparr>;
            req = (if \<not> has_conn then req_setHeader ''connection'' ''Upgrade'' req else req);
            req = req_setHeader ''Upgrade'' ''websocket'' req;
            req = req_setHeader ''Sec-webSocket-Version'' ''13'' req;
            req = req_setHeader ''Sec-webSocket-Key'' (of_bytes (base64encode (random_string rand 16))) req
        in if \<not> has_host then req_setHeader ''Host'' (u_host uri) req else req)"

text \<open>\<^verbatim>\<open>HttpResult\<close> with the number 50, which is none of the enumeration. The boolean says that the connection is returned.\<close>

definition ws_upgraded :: "(address \<Rightarrow> string) \<Rightarrow> address \<Rightarrow> http_response \<Rightarrow> http_result \<times> bool" where
  "ws_upgraded addr_text addr rsp =
     (if p_status rsp \<noteq> 101 then (\<lparr>hr_result = 50, hr_response = Some rsp, hr_error = ''not websocket server '' @ addr_text addr\<rparr>, False)
      else (HttpResult OK (Some rsp) ''ok'', True))"

text \<open>\<open>errno\<close> is the text of the error number and its description.\<close>

definition ws_exchange ::
  "(http_request \<Rightarrow> 's \<Rightarrow> ('s, int) outcome option) \<Rightarrow> ('s \<Rightarrow> ('s, http_response option) outcome option) \<Rightarrow> (address \<Rightarrow> string) \<Rightarrow> string \<Rightarrow> nat \<Rightarrow>
   address \<Rightarrow> http_request \<Rightarrow> 's \<Rightarrow> ('s, http_result \<times> bool) outcome option" where
  "ws_exchange send recv addr_text errno timeout_ms addr req s =
     (case send req s of
        None \<Rightarrow> None
      | Some (Undef u) \<Rightarrow> Some (Undef u)
      | Some (Throw e s) \<Rightarrow> Some (Throw e s)
      | Some (Ret rt s) \<Rightarrow>
          if rt = 0 then Some (Ret (HttpResult SEND_CLOSE_BY_PEER None (''send request closed by peer: '' @ addr_text addr), False) s)
          else if rt < 0 then Some (Ret (HttpResult SEND_SOCKET_ERROR None (''send request socket error errno = '' @ errno), False) s)
          else map_option (\<lambda>r. obind r (\<lambda>rsp. Ret (case rsp of
              None \<Rightarrow> (HttpResult TIMEOUT None (''recv response timeout: '' @ addr_text addr @ ''timeout_ms: '' @ dec timeout_ms), False)
            | Some rsp \<Rightarrow> ws_upgraded addr_text addr rsp))) (recv s))"

definition WSConnection_Create ::
  "(string \<Rightarrow> string option \<Rightarrow> raw_addr list option) \<Rightarrow> (address \<Rightarrow> 's option) \<Rightarrow> (address \<Rightarrow> 's \<Rightarrow> bool \<times> 's) \<Rightarrow> (nat \<Rightarrow> 's \<Rightarrow> 's) \<Rightarrow>
   (address \<Rightarrow> string) \<Rightarrow> (http_request \<Rightarrow> 's \<Rightarrow> ('s, int) outcome option) \<Rightarrow> ('s \<Rightarrow> ('s, http_response option) outcome option) \<Rightarrow> string \<Rightarrow>
   int \<Rightarrow> (nat \<Rightarrow> nat) \<Rightarrow> uri \<Rightarrow> nat \<Rightarrow> (string \<times> string) list \<Rightarrow> ('s option, http_result \<times> bool) outcome option" where
  "WSConnection_Create getaddrinfo create connect timeout addr_text send recv errno junk rand uri timeout_ms headers =
     (case uri_createAddress getaddrinfo uri of
        None \<Rightarrow> Some (Ret (HttpResult INVALID_HOST None (''invalied host: '' @ u_host uri), False) None)
      | Some addr \<Rightarrow> (case create addr of
          None \<Rightarrow> Some (Ret (HttpResult CREATE_SOCKET_ERROR None (''create socket fail: '' @ addr_text addr @ ''errno = '' @ errno), False) None)
        | Some sock \<Rightarrow> (case connect addr sock of
            (False, sock) \<Rightarrow> Some (Ret (HttpResult CONNECT_FALT None (''connect fail: '' @ addr_text addr), False) (Some sock))
          | (True, sock) \<Rightarrow> map_option (\<lambda>r. case r of Ret res s \<Rightarrow> Ret res (Some s) | Throw e s \<Rightarrow> Throw e (Some s) | Undef u \<Rightarrow> Undef u)
              (ws_exchange send recv addr_text errno timeout_ms addr (ws_request junk rand uri headers) (timeout timeout_ms sock)))))"

definition WSConnection_Create_url ::
  "(string \<Rightarrow> string option \<Rightarrow> raw_addr list option) \<Rightarrow> (address \<Rightarrow> 's option) \<Rightarrow> (address \<Rightarrow> 's \<Rightarrow> bool \<times> 's) \<Rightarrow> (nat \<Rightarrow> 's \<Rightarrow> 's) \<Rightarrow>
   (address \<Rightarrow> string) \<Rightarrow> (http_request \<Rightarrow> 's \<Rightarrow> ('s, int) outcome option) \<Rightarrow> ('s \<Rightarrow> ('s, http_response option) outcome option) \<Rightarrow> string \<Rightarrow>
   int \<Rightarrow> (nat \<Rightarrow> nat) \<Rightarrow> string \<Rightarrow> nat \<Rightarrow> (string \<times> string) list \<Rightarrow> ('s option, http_result \<times> bool) outcome option" where
  "WSConnection_Create_url getaddrinfo create connect timeout addr_text send recv errno junk rand url timeout_ms headers =
     (case uri_Create url of
        Undef u \<Rightarrow> Some (Undef u)
      | Throw e _ \<Rightarrow> Some (Throw e None)
      | Ret None _ \<Rightarrow> Some (Ret (HttpResult INVALID_URL None (''invaliid url:'' @ url), False) None)
      | Ret (Some uri) _ \<Rightarrow> WSConnection_Create getaddrinfo create connect timeout addr_text send recv errno junk rand uri timeout_ms headers)"

section \<open>Lemmas\<close>

lemma ws_headers_ok: "request_ok req \<Longrightarrow> request_ok (fst (ws_headers hs (req, a, b)))"
proof (induction hs arbitrary: req a b)
  case (Cons h hs)
  obtain k v where h: "h = (k, v)" by (cases h)
  have "request_ok (req_setHeader k v req)" using Cons.prems req_headers.set_inv by simp
  then show ?case using Cons.IH h by simp
qed simp

lemma ws_headers_connection:
  "request_ok req \<Longrightarrow> \<forall>(k, v)\<in>set hs. same_key k ''connection'' \<longrightarrow> same_key v ''Upgrade'' \<Longrightarrow>
   (b \<Longrightarrow> same_key (req_getHeader ''Connection'' [] req) ''Upgrade'') \<Longrightarrow> ws_headers hs (req, a, b) = (req', a', b') \<Longrightarrow> b' \<Longrightarrow>
   same_key (req_getHeader ''Connection'' [] req') ''Upgrade''"
proof (induction hs arbitrary: req a b)
  case (Cons h hs)
  obtain k v where h: "h = (k, v)" by (cases h)
  have cc: "fold_case ''connection'' = fold_case ''Connection''" by (simp add: fold_case_def c_string_def tolower_def)
  have ok: "request_ok (req_setHeader k v req)" using Cons.prems(1) req_headers.set_inv by simp
  have get: "req_getHeader ''Connection'' [] (req_setHeader k v req) = (if same_key k ''connection'' then v else req_getHeader ''Connection'' [] req)"
    using Cons.prems(1) by (auto simp: req_getHeader_def req_headers.get_set same_key_def cc)
  show ?case
  proof (cases "same_key k ''connection''")
    case True
    then show ?thesis using Cons.IH [OF ok, of True] Cons.prems(2,4,5) h get by auto
  next
    case False
    then show ?thesis
      using Cons.IH [OF ok, of b "if \<not> a \<and> same_key k ''host'' then v \<noteq> [] else a"] Cons.prems(2-5) h get by auto
  qed
qed simp

lemma random_key: "of_bytes (base64encode (random_string rand 16)) \<noteq> []"
proof -
  have "length (base64encode (random_string rand 16)) = 24" by (simp add: length_base64encode random_string_def)
  then show ?thesis by (auto simp: of_bytes_def)
qed

lemma quad_consumes: "b64_quad i p k src = Some (i', p', k', rest) \<Longrightarrow> length src + i = length rest + i'"
  by (induction i p k src rule: b64_quad.induct) (auto split: if_splits option.splits)

lemma decode_length: "base64decode_loop src out = Some r \<Longrightarrow> 4 * length r \<le> 4 * length out + 3 * length src"
proof (induction src out rule: base64decode_loop.induct)
  case (1 src out)
  show ?case
  proof (cases "src = []")
    case True
    then show ?thesis using 1(2) by (simp add: base64decode_loop.simps)
  next
    case False
    then obtain i p k rest where q: "b64_quad 0 0 0 src = Some (i, p, k, rest)" "i = 4" "\<not> (0 < p \<and> rest \<noteq> [])" "\<not> 2 < p"
      using 1(2) by (auto simp: base64decode_loop.simps [of src] split: option.splits if_splits)
    have l: "length src = length rest + 4" using quad_consumes [OF q(1)] q(2) by simp
    show ?thesis
      using 1(1) [OF False q(1) refl refl refl] 1(2) q False l by (auto simp: base64decode_loop.simps [of src] split: if_splits)
  qed
qed

section \<open>Properties\<close>

lemmas key_names = fold_case_def c_string_def tolower_def

lemma ws_request_headers:
  assumes "\<forall>(k, v)\<in>set headers. same_key k ''connection'' \<longrightarrow> same_key v ''Upgrade''"
  shows "map_find CaseInsensitiveLess ''Upgrade'' (q_headers (ws_request junk rand uri headers)) = Some ''websocket''"
    and "same_key (req_getHeader ''Connection'' [] (ws_request junk rand uri headers)) ''Upgrade''"
    and "map_find CaseInsensitiveLess ''Sec-webSocket-Version'' (q_headers (ws_request junk rand uri headers)) = Some ''13''"
    and "map_find CaseInsensitiveLess ''Sec-WebSocket-Key'' (q_headers (ws_request junk rand uri headers)) = Some (of_bytes (base64encode (random_string rand 16)))"
    and "q_websocket (ws_request junk rand uri headers)"
proof -
  let ?r = "(new_HttpRequest junk 0x11 True)\<lparr>q_path := uri_getPath uri, q_query := u_query uri, q_fragment := u_fragment uri, q_method := 1\<rparr>"
  obtain req a b where w: "ws_headers headers (?r, False, False) = (req, a, b)" by (metis prod_cases3)
  have "request_ok ?r" by (simp add: request_ok_def new_HttpRequest_def)
  then have ok: "request_ok req" "request_ok (req\<lparr>q_websocket := True\<rparr>)" using ws_headers_ok [of ?r headers False False] w by (simp_all add: request_ok_def)
  have conn: "b \<Longrightarrow> same_key (req_getHeader ''Connection'' [] (req\<lparr>q_websocket := True\<rparr>)) ''Upgrade''"
    using ws_headers_connection [OF \<open>request_ok ?r\<close> assms _ w] by (simp add: req_getHeader_def)
  note e = ws_request_def [of junk rand uri headers, unfolded Let_def w prod.case]
  note s = req_getHeader_def req_headers.get_set req_headers.set_inv ok same_key_def key_names
  show "map_find CaseInsensitiveLess ''Upgrade'' (q_headers (ws_request junk rand uri headers)) = Some ''websocket''"
    "map_find CaseInsensitiveLess ''Sec-webSocket-Version'' (q_headers (ws_request junk rand uri headers)) = Some ''13''"
    "map_find CaseInsensitiveLess ''Sec-WebSocket-Key'' (q_headers (ws_request junk rand uri headers)) = Some (of_bytes (base64encode (random_string rand 16)))"
    unfolding e by (simp_all add: s)
  show "same_key (req_getHeader ''Connection'' [] (ws_request junk rand uri headers)) ''Upgrade''" using conn unfolding e by (simp add: s)
  show "q_websocket (ws_request junk rand uri headers)" unfolding e by (simp add: req_setHeader_def)
qed



text \<open>The key of the answer is never the one the protocol asks for, the base64 form of the digest: it is the digest decoded.\<close>

theorem accept_key_wrong:
  assumes "\<forall>x. length (sha1sum x) = 20"
  shows "accept_key sha1sum key \<noteq> of_bytes (base64encode (sha1sum (to_bytes (key @ ''258EAFA5-E914-47DA-95CA-C5AB0DC85B11''))))"
proof -
  let ?d = "sha1sum (to_bytes (key @ ''258EAFA5-E914-47DA-95CA-C5AB0DC85B11''))"
  have "length (base64decode ?d) \<le> 15" using decode_length [of ?d "[]"] assms by (auto simp: base64decode_def split: option.splits)
  moreover have "length (base64encode ?d) = 28" using assms by (simp add: length_base64encode)
  ultimately have "length (accept_key sha1sum key) \<noteq> length (of_bytes (base64encode ?d))" by (simp add: accept_key_def of_bytes_def)
  then show ?thesis by metis
qed

theorem accept_key_wrong_witness:
  "accept_key (\<lambda>_. replicate 20 0) ''k'' \<noteq> of_bytes (base64encode (replicate 20 0))"
  using accept_key_wrong [of "\<lambda>_. replicate 20 0" "''k''"] by simp

fun handled :: "(ws_message \<Rightarrow> int) \<Rightarrow> ws_message list \<Rightarrow> ws_message list" where
  "handled rc [] = []"
| "handled rc (m # ms) = m # (if rc m \<noteq> 0 then [] else handled rc ms)"

definition sends :: "('s \<Rightarrow> (ws_message option \<times> 's) option) \<Rightarrow> ('s \<Rightarrow> ws_message list) \<Rightarrow> ('s \<Rightarrow> ws_message list) \<Rightarrow> bool" where
  "sends recvMessage pending seen \<longleftrightarrow> (\<forall>s. \<exists>s'. recvMessage s = Some (case pending s of [] \<Rightarrow> None | m # _ \<Rightarrow> Some m, s') \<and>
     pending s' = tl (pending s) \<and> seen s' = seen s)"

definition logs :: "'s ws_servlet \<Rightarrow> (ws_message \<Rightarrow> int) \<Rightarrow> ('s \<Rightarrow> ws_message list) \<Rightarrow> ('s \<Rightarrow> ws_message list) \<Rightarrow> bool" where
  "logs slt rc pending seen \<longleftrightarrow> (\<forall>h m s. \<exists>h' s'. ws_handle slt h m s = (rc m, h', s') \<and> pending s' = pending s \<and> seen s' = seen s @ [m])"

lemma ws_messages_handled:
  assumes "sends recvMessage pending seen" and "logs slt rc pending seen" and "length (pending s) < fuel"
  shows "\<exists>h' s'. ws_messages fuel recvMessage slt h s = Some (h', s') \<and> seen s' = seen s @ handled rc (pending s)"
  using assms(3)
proof (induction fuel arbitrary: s h)
  case (Suc fuel)
  obtain s1 where r: "recvMessage s = Some (case pending s of [] \<Rightarrow> None | m # _ \<Rightarrow> Some m, s1)" "pending s1 = tl (pending s)" "seen s1 = seen s"
    using assms(1) unfolding sends_def by blast
  show ?case
  proof (cases "pending s")
    case Nil
    then show ?thesis using r by simp
  next
    case (Cons m ms)
    obtain h2 s2 where c: "ws_handle slt h m s1 = (rc m, h2, s2)" "pending s2 = pending s1" "seen s2 = seen s1 @ [m]"
      using assms(2) unfolding logs_def by blast
    have "\<exists>h' s'. ws_messages fuel recvMessage slt h2 s2 = Some (h', s') \<and> seen s' = seen s2 @ handled rc (pending s2)"
      by (rule Suc.IH) (use Suc.prems Cons c(2) r(2) in simp)
    then show ?thesis using r c Cons by auto
  qed
qed simp

text \<open>C14. A session: after the upgrade and \<^verbatim>\<open>onConnect\<close>, the messages of the client are handed to the servlet of the path one by one, in order,
  until the client stops sending or the servlet returns a value other than zero; then \<^verbatim>\<open>onClose\<close> is called once and the session
  closed. The loop ends.\<close>

theorem ws_session_served:
  assumes "shake s = Some (Ret (Some header) s1)" and "getWSServlet fnmatch (q_path header) d = Some slt"
    and "ws_onConnect slt header s1 = (0, header', s2)" and "sends recvMessage pending seen" and "logs slt rc pending seen" and "length (pending s2) < fuel"
  shows "\<exists>h' s3. seen s3 = seen s2 @ handled rc (pending s2) \<and>
    ws_handleClient fuel fnmatch d shake recvMessage close s = Some (Ret () (close (snd (snd (ws_onClose slt h' s3)))))"
proof -
  obtain h' s3 where m: "ws_messages fuel recvMessage slt header' s2 = Some (h', s3)" "seen s3 = seen s2 @ handled rc (pending s2)"
    using ws_messages_handled [OF assms(4-6)] by blast
  then show ?thesis using assms(1-3) by (intro exI [of _ h'] exI [of _ s3]) (simp add: ws_handleClient_def split: prod.splits)
qed

text \<open>The session of the witness: the messages still to come and those seen.\<close>

definition demo_ws :: "(ws_message list \<times> ws_message list) ws_servlet" where
  "demo_ws = \<lparr>wv_callback = Some (\<lambda>h m (p, q). (if m_data m = [] then 1 else 0, h, p, q @ [m])), wv_onConnect = None, wv_onClose = None\<rparr>"

definition demo_next :: "ws_message list \<times> ws_message list \<Rightarrow> (ws_message option \<times> ws_message list \<times> ws_message list) option" where
  "demo_next s = Some (case fst s of [] \<Rightarrow> None | m # _ \<Rightarrow> Some m, tl (fst s), snd s)"

theorem ws_session_served_witness:
  "\<exists>s'. ws_handleClient 9 (\<lambda>_ _. False) (ws_addServlet ''/'' demo_ws new_WSServletDispatch) (\<lambda>s. Some (Ret (Some (ws_request 0 (\<lambda>_. 0) demo_uri [])) s))
     demo_next (\<lambda>s. s) ([\<lparr>m_opcode = 1, m_data = [1]\<rparr>, \<lparr>m_opcode = 1, m_data = []\<rparr>, \<lparr>m_opcode = 1, m_data = [2]\<rparr>], []) = Some (Ret () s') \<and>
     snd s' = [\<lparr>m_opcode = 1, m_data = [1]\<rparr>, \<lparr>m_opcode = 1, m_data = []\<rparr>]"
proof -
  let ?d = "ws_addServlet ''/'' demo_ws new_WSServletDispatch" and ?h = "ws_request 0 (\<lambda>_. 0) demo_uri []"
  have "getWSServlet (\<lambda>_ _. False) (q_path ?h) ?d = Some demo_ws"
    by (simp add: getWSServlet_def getMatchedServlet_def ws_addServlet_def addServlet_def new_WSServletDispatch_def ws_request_def Let_def req_setHeader_def
        uri_getPath_def demo_uri_def)
  moreover have "sends demo_next fst snd" by (simp add: sends_def demo_next_def)
  moreover have "logs demo_ws (\<lambda>m. if m_data m = [] then 1 else 0) fst snd" by (simp add: logs_def demo_ws_def ws_handle_def split: prod.splits)
  ultimately show ?thesis
    using ws_session_served [of "\<lambda>s. Some (Ret (Some ?h) s)" "([\<lparr>m_opcode = 1, m_data = [1]\<rparr>, \<lparr>m_opcode = 1, m_data = []\<rparr>, \<lparr>m_opcode = 1, m_data = [2]\<rparr>], [])" ?h _
        "\<lambda>_ _. False" ?d demo_ws ?h _ demo_next fst snd "\<lambda>m. if m_data m = [] then 1 else 0" 9 "\<lambda>s. s"]
    by (auto simp: ws_onConnect_def ws_onClose_def demo_ws_def)
qed

end
