(* ===== verification/Spec2Isabelle.thy ===== *)
theory Spec2Isabelle
  imports ByteArray_Props HashUtil IOManager LruCache Rock HttpParser Servlet FdManager Address LoadBalance Logger_Props LogConfig
    Hook RockStream HttpConnection SocketStream TcpServer WsServer
begin

text \<open>
  A verification library for \<^verbatim>\<open>cxkframework\<close>, a C++ server framework: fibers scheduled on a pool of threads,
  timers and an epoll loop on top of them, a chained byte buffer with binary encodings, and HTTP, WebSocket and
  Rock (a request/response protocol) over streams. The sources are under \<^verbatim>\<open>src/cxk\<close>.

  \<^bold>\<open>How the parts interact.\<close> \<^verbatim>\<open>IOManager\<close> is a \<^verbatim>\<open>Scheduler\<close> and a \<^verbatim>\<open>TimerManager\<close>: its idle loop waits for
  descriptors and deadlines and hands callbacks and fibers to the scheduler queue; workers take tasks from the queue and switch
  to fibers. \<^verbatim>\<open>FdManager\<close> keeps what the hooked system calls know of a descriptor. Protocol code reads and writes
  fixed numbers of bytes through \<^verbatim>\<open>Stream\<close>; Rock encodes its messages in a \<^verbatim>\<open>ByteArray\<close>; HTTP messages are read by
  state machines that Ragel generated, filled in by parser callbacks and routed to servlets; the client takes URLs apart by a
  third such machine and keeps a pool of connections.

  \<^bold>\<open>Conventions.\<close> An operation on an object maps its state to an \<open>outcome\<close> (\<open>Prelude\<close>): a result with the new
  state, a C++ exception with the state at that moment, or undefined behaviour (null dereference, index out of
  bounds, failed assertion). Machine integers are words. A lock held for a whole method makes it one step; where
  a method has several critical sections, each is a definition. Loops are recursive functions with
  termination proofs; fuel is used only where the C++ loop need not end (\<open>writeFixSize\<close>, whose callers need more
  fuel than bytes, \<open>WSRecvMessage\<close>, one unit per frame, the loops of \<open>recvRequest\<close>, \<open>recvResponse\<close> and their chunks, one per
  read or chunk, and \<open>handleClient\<close>, one per request), and the theorems say which fuel is enough. System calls, the clock, \<^verbatim>\<open>rand\<close>, OpenSSL, \<^verbatim>\<open>fnmatch\<close>, \<^verbatim>\<open>boost::lexical_cast\<close>,
  zlib and virtual methods of streams are parameters, with their documented behaviour as hypotheses
  (\<open>good_reader\<close>, \<open>good_writer\<close>, \<open>good_rf\<close>, \<open>good_wf\<close>, \<open>good_rfb\<close>, \<open>good_wfb\<close>) that the witnesses instantiate.

  \<^bold>\<open>Theories.\<close>
  \<^item> \<open>Prelude\<close>: outcomes, buffers as lists, chains of equal blocks, \<^verbatim>\<open>CXK_ASSERT\<close>. \<open>StdSet\<close> and \<open>StdMap\<close>: the ordered
    containers with a user comparator (locales \<open>strict_order\<close>, \<open>weak_order\<close>, \<open>value_store\<close>, \<open>erasable_store\<close>).
  \<^item> \<open>Endian\<close> (\<^verbatim>\<open>endian.h\<close>): bytes of words and byte swapping (locale \<open>stored_int\<close>).
  \<^item> \<open>ByteArray\<close> (\<^verbatim>\<open>bytearray.cpp\<close>): every method over the chain of blocks. \<open>ByteArray_Refine\<close>: representation invariant
    and refinement of reading, writing and moving to list operations. \<open>ByteArray_Codec\<close>: the typed accessors,
    each an instance of the locale \<open>ba_codec\<close>. \<open>ByteArray_Props\<close>: what clients rely on, and the two memory
    errors of the block arithmetic.
  \<^item> \<open>HashUtil\<close> (\<^verbatim>\<open>util/hash_util.cpp\<close>): MurmurHash3, base64, hexadecimal, splitting and replacing.
  \<^item> \<open>Timer\<close> (\<^verbatim>\<open>timer.cpp\<close>): timers on a heap, the ordered set of pending ones; which callbacks fire, and when.
  \<^item> \<open>Fiber\<close> (\<^verbatim>\<open>fiber.cpp\<close>): one thread's fibers, contexts and states. \<open>Scheduler\<close> (\<^verbatim>\<open>scheduler.cpp\<close>): the task queue and
    the worker loop as a step relation; the counters under every interleaving.
  \<^item> \<open>IOManager\<close> (\<^verbatim>\<open>iomanager.cpp\<close>): the event table and one round of the idle loop. \<open>FdManager\<close> (\<^verbatim>\<open>fd_manager.cpp\<close>): the
    descriptor contexts.
  \<^item> \<open>LruCache\<close> (\<^verbatim>\<open>ds/lru_cache.h\<close>): the list-and-map cache and its bucketed version, both instances of the locale \<open>cache\<close>.
  \<^item> \<open>StreamIO\<close> (\<^verbatim>\<open>stream.cpp\<close>): fixed-size reads and writes over partial ones. \<open>WsFrame\<close> (\<^verbatim>\<open>http/ws_session.cpp\<close>): WebSocket
    frames. \<open>Rock\<close> (\<^verbatim>\<open>protocol.cpp\<close>, \<^verbatim>\<open>rock/rock_protocol.cpp\<close>): messages and their wire format.
  \<^item> \<open>Http\<close> (\<^verbatim>\<open>http/http.cpp\<close>): methods, status codes, case-insensitive maps, serialisation. \<open>HttpParser\<close>
    (\<^verbatim>\<open>http/http_parser.cpp\<close>): the parser callbacks over the machines. \<open>Servlet\<close> (\<^verbatim>\<open>http/servlet.cpp\<close>): routing.
  \<^item> \<open>Ragel\<close>: the loop that every generated machine runs, and what follows when every edge keeps an invariant of the state (locale
    \<open>ragel_machine\<close>). \<open>Http11Machine\<close>, \<open>HttpClientMachine\<close>, \<open>UriMachine\<close>: one definition for each state of the switch
    statements of \<^verbatim>\<open>http/http11_parser.rl.cpp\<close>, \<^verbatim>\<open>http/httpclient_parser.rl.cpp\<close> and \<^verbatim>\<open>uri.rl.cpp\<close>. \<open>Http11Parser\<close>,
    \<open>HttpClientParser\<close>, \<open>Uri\<close>: the actions, entry points and tests of these parsers, each an instance of \<open>ragel_machine\<close>.
  \<^item> \<open>HttpSession\<close> (\<^verbatim>\<open>http/http_session.cpp\<close>, \<^verbatim>\<open>http/http_server.cpp\<close>): receiving a request, answering, the loop of the server.
    \<open>HttpConnection\<close> (\<^verbatim>\<open>http/http_connection.cpp\<close>): receiving a response, chunks included, requests and the pool.
  \<^item> \<open>Sockets\<close> (\<^verbatim>\<open>socket.cpp\<close>): plain and TLS sockets over the hooked calls; the system functions (record \<open>net\<close>) and OpenSSL
    (record \<open>openssl\<close>) are parameters. \<open>SocketStream\<close> (\<^verbatim>\<open>stream/socket_stream.cpp\<close>): streams over them, which are readers and
    writers in the sense of \<open>StreamIO\<close>. \<open>TcpServer\<close> (\<^verbatim>\<open>tcp_server.cpp\<close>): binding, the accept loop and stopping, with the
    sockets on a heap; the loop takes one entry for each round, and ends in the first in which \<^verbatim>\<open>stop\<close> is called.
  \<^item> \<open>WsServer\<close> (\<^verbatim>\<open>http/ws_session.cpp\<close>, \<^verbatim>\<open>ws_servlet.cpp\<close>, \<^verbatim>\<open>ws_server.cpp\<close>, \<^verbatim>\<open>ws_connection.cpp\<close>): the upgrade on both sides
    and the loop that hands messages to a servlet, with one unit of fuel for each message and one for the end.
  \<^item> \<open>Address\<close> (\<^verbatim>\<open>address.cpp\<close>): address classes, their order, prefixes and lookup. \<open>LoadBalance\<close>
    (\<^verbatim>\<open>stream/load_balance.cpp\<close>): round robin and fair selection, per-second statistics.
  \<^item> \<open>Config\<close> (\<^verbatim>\<open>config.cpp\<close>): variables, listeners, conversion and loading. \<open>Logger\<close>, \<open>Logger_Props\<close>, \<open>LogConfig\<close>
    (\<^verbatim>\<open>logger.cpp\<close>): patterns, appenders, loggers and their reconfiguration.
  \<^item> \<open>Hook\<close> (\<^verbatim>\<open>hook.cpp\<close>): the hooked system calls over \<open>FdManager\<close>, \<open>Timer\<close> and \<open>IOManager\<close>.
  \<^item> \<open>Locks\<close> (\<^verbatim>\<open>mutex.h\<close>): scoped guards (locale \<open>guarded_lock\<close>), the CAS lock, the fiber semaphore.
    \<open>AsyncStream\<close> (\<^verbatim>\<open>stream/async_socket_stream.cpp\<close>): request contexts, timeouts, send queue, stream manager.
    \<open>RockStream\<close> (\<^verbatim>\<open>rock/rock_stream.cpp\<close>): requests and responses over it (locale \<open>rock_link\<close>).

  \<^bold>\<open>What the lemmas show.\<close> Refinement of the byte buffer to a list and round trips of every encoding up to whole
  messages on a stream; invariants kept by every operation of the timer manager, the scheduler under interleaving, the event
  table, the caches and the descriptor table; that a waiting request is woken exactly once however response,
  timeout and close interleave, and that a remote call returns the other side's answer; that the generated parsers are safe on every
  input and take well-formed texts apart exactly, up to whole HTTP exchanges over streams and
  sockets that deliver the bytes in pieces; that the accept loop, HTTP sessions and WebSocket sessions serve what arrives in order and end; the exact functional behaviour, errors included, of the
  operations clients call; and, as theorems of their own, the places where the code departs from its intent:
  too few blocks allocated, a stale block size, an unnoticed write failure, events triggered that are not ready, two
  critical sections with a race between them.

  \<^bold>\<open>Not modelled.\<close> The database clients, the zlib stream (a parameter of \<open>Rock\<close> and \<open>HttpConnection\<close>), JSON and cryptography
  helpers wrap libraries outside the sources; the general utilities, thread primitives, environment, daemon and dynamic modules
  are system calls with little logic of their own; \<^verbatim>\<open>application.cpp\<close> and the examples assemble the parts; printing methods and the
  YAML form of the server configuration are left out.
\<close>

section \<open>Properties across components\<close>

text \<open>C12. WebSocket over \<^verbatim>\<open>Stream\<close>: with the fixed-size reads of \<open>Stream\<close> itself on a transport that delivers the
  bytes in pieces of any size, a message sent as any number of non-empty fragments is received whole, and
  exactly its bytes are consumed.\<close>

theorem ws_over_chunked_stream:
  assumes "good_reader rd remaining" and "client \<or> masked" and "unat max_size \<le> 2 ^ 31"
    and "ds \<noteq> []" and "[] \<notin> set ds" and "length ds \<le> fuel" and "op = TEXT_FRAME \<or> op = BIN_FRAME"
    and "length (concat ds) < unat max_size" and "remaining s = fragments rand masked op ds @ rest"
  shows "\<exists>s'. WSRecvMessage fuel cl (readFixSize rd) wr max_size client 0 [] s =
      Some (Some \<lparr>m_opcode = op, m_data = concat ds\<rparr>, s') \<and> remaining s' = rest"
  using recv_fragments [OF good_rf_stream [OF assms(1)] assms(2-6), of op "[]" s rand rest cl wr 0] assms(7-9)
  by (auto simp: opcode_defs)

theorem ws_over_chunked_stream_witness:
  "\<exists>s'. WSRecvMessage 2 (\<lambda>s. s) (readFixSize demo_reader) full_wf 1024 True 0 [] (fragments 0 False 1 [[7], [8, 9, 10]]) =
     Some (Some \<lparr>m_opcode = 1, m_data = [7, 8, 9, 10]\<rparr>, s')"
  using ws_over_chunked_stream [OF demo_good(1), of True False 1024 "[[7], [8, 9, 10]]" 2 1 _ 0 "[]" "\<lambda>s. s" full_wf]
  by (auto simp: opcode_defs)

end
